(* ===== verification/Prelude.thy ===== *)
theory Prelude
  imports Main "HOL-Library.Char_ord" "HOL-Library.List_Lexorder" "HOL-Library.Product_Lexorder"
    "HOL-Library.AList"
begin

text \<open>
  What the components share: the exceptions of the Python sources as values, the result type
  of fallible operations, the part of the Python standard library the sources use (string
  predicates, \<^verbatim>\<open>dict\<close> with insertion order, timezone-aware \<^verbatim>\<open>datetime\<close>), and the
  lemma collections of the development.
\<close>

named_theorems result_simps \<open>equations of the result type and of constructor validation\<close>
named_theorems time_simps \<open>equations of the datetime model\<close>

section \<open>Exceptions and results\<close>

text \<open>
  One constructor per exception class that the modelled sources raise. The string names the
  raise site by an abbreviation of its message. \<open>OutOfFuel\<close> is no exception of the sources: it is
  the result of a loop that has not returned within the bound its model gives it.
\<close>

datatype err =
    ValueError string
  | DomainError string
  | BudgetExceeded string
  | TransitionRejected string
  | SchedulingError string
  | LeaseRejected string
  | EvidenceRejected string
  | KiCadSyntaxError string
  | KeyError
  | AssertionError
  | IndexError
  | OverflowError
  | TypeError
  | RuleConfigurationError string
  | VerificationInputError string
  | VerificationExecutionError string
  | InvariantViolation string
  | KernelError string
  | StaleRevision string
  | CommandConflict string
  | ApprovalMismatch string
  | TransactionNotCommittable string
  | LockedObject string
  | InvalidCommitAuthorization string
  | ExpiredCommitAuthorization string
  | ReplayedCommitAuthorization string
  | CommitAuthorityClockRollback string
  | InvalidRequest string
  | CapabilityDenied string
  | RevisionConflict string
  | IdempotencyConflict string
  | NotFound string
  | CoordinationRequired string
  | ApprovalRequired string
  | VerificationFailed string
  | TransactionConflict string
  | StateConflict string
  | StateIntegrityError string
  | AttributeError
  | OutOfFuel

type_synonym 'a result = "err + 'a"

text \<open>\<^verbatim>\<open>except DomainError\<close> also catches the subclasses of that class.\<close>

fun is_domain_error :: "err \<Rightarrow> bool" where
  "is_domain_error (DomainError _) = True"
| "is_domain_error (BudgetExceeded _) = True"
| "is_domain_error (TransitionRejected _) = True"
| "is_domain_error (SchedulingError _) = True"
| "is_domain_error (LeaseRejected _) = True"
| "is_domain_error (EvidenceRejected _) = True"
| "is_domain_error _ = False"

text \<open>
  The guards of a \<^verbatim>\<open>__post_init__\<close> or of the head of an operation: a list of
  conditions in source order, each with the exception that is raised when it holds.
\<close>

fun raise_first :: "(bool \<times> err) list \<Rightarrow> unit result" where
  "raise_first [] = Inr ()"
| "raise_first ((bad, e) # cs) = (if bad then Inl e else raise_first cs)"

lemma raise_first_Inr_iff: "raise_first cs = Inr u \<longleftrightarrow> (\<forall>(bad, e) \<in> set cs. \<not> bad)"
  by (induction cs rule: raise_first.induct) (auto split: if_splits)

lemma raise_first_append:
  "raise_first (cs @ ds) = (case raise_first cs of Inl e \<Rightarrow> Inl e | Inr _ \<Rightarrow> raise_first ds)"
  by (induction cs) auto

text \<open>Constructing a record runs its validation and returns the record itself.\<close>

definition validated :: "('a \<Rightarrow> unit result) \<Rightarrow> 'a \<Rightarrow> 'a result" where
  "validated check x = (case check x of Inl e \<Rightarrow> Inl e | Inr _ \<Rightarrow> Inr x)"

lemma validated_Inr_iff [simp]: "validated check x = Inr y \<longleftrightarrow> check x = Inr () \<and> y = x"
  by (auto simp: validated_def split: sum.splits)

lemma validated_ok [simp]: "check x = Inr () \<Longrightarrow> validated check x = Inr x"
  by simp

definition bind_r :: "'a result \<Rightarrow> ('a \<Rightarrow> 'b result) \<Rightarrow> 'b result" where
  "bind_r m f = (case m of Inl e \<Rightarrow> Inl e | Inr x \<Rightarrow> f x)"

lemma bind_r_simps [simp]: "bind_r (Inl e) f = Inl e" "bind_r (Inr x) f = f x"
  by (simp_all add: bind_r_def)

lemma bind_r_Inr_iff: "bind_r m f = Inr y \<longleftrightarrow> (\<exists>x. m = Inr x \<and> f x = Inr y)"
  by (cases m) simp_all

lemma bind_r_cong [fundef_cong]:
  "m = m' \<Longrightarrow> (\<And>x. m' = Inr x \<Longrightarrow> f x = f' x) \<Longrightarrow> bind_r m f = bind_r m' f'"
  by (cases m') simp_all

text \<open>\<^verbatim>\<open>any\<close> and \<^verbatim>\<open>all\<close> over tests that may raise; they stop at the first decisive item.\<close>

fun any_r :: "('a \<Rightarrow> bool result) \<Rightarrow> 'a list \<Rightarrow> bool result" where
  "any_r f [] = Inr False"
| "any_r f (x # xs) = bind_r (f x) (\<lambda>b. if b then Inr True else any_r f xs)"

fun all_r :: "('a \<Rightarrow> bool result) \<Rightarrow> 'a list \<Rightarrow> bool result" where
  "all_r f [] = Inr True"
| "all_r f (x # xs) = bind_r (f x) (\<lambda>b. if b then all_r f xs else Inr False)"

definition and_r :: "bool \<Rightarrow> bool result \<Rightarrow> bool result" where
  "and_r b r = (if b then r else Inr False)"

text \<open>A list comprehension whose element or condition may raise.\<close>

fun map_r :: "('a \<Rightarrow> 'b result) \<Rightarrow> 'a list \<Rightarrow> 'b list result" where
  "map_r f [] = Inr []"
| "map_r f (x # xs) = bind_r (f x) (\<lambda>y. bind_r (map_r f xs) (\<lambda>ys. Inr (y # ys)))"

fun filter_r :: "('a \<Rightarrow> bool result) \<Rightarrow> 'a list \<Rightarrow> 'a list result" where
  "filter_r f [] = Inr []"
| "filter_r f (x # xs) =
     bind_r (f x) (\<lambda>b. bind_r (filter_r f xs) (\<lambda>ys. Inr (if b then x # ys else ys)))"

lemma any_r_True: "any_r f xs = Inr True \<Longrightarrow> \<exists>x \<in> set xs. f x = Inr True"
  by (induction xs) (auto simp: bind_r_Inr_iff split: if_splits)

lemma any_r_False: "any_r f xs = Inr False \<longleftrightarrow> (\<forall>x \<in> set xs. f x = Inr False)"
  by (induction xs) (auto simp: bind_r_Inr_iff split: if_splits)

lemma all_r_True: "all_r f xs = Inr True \<longleftrightarrow> (\<forall>x \<in> set xs. f x = Inr True)"
  by (induction xs) (auto simp: bind_r_Inr_iff split: if_splits)

lemma and_r_True: "and_r b r = Inr True \<longleftrightarrow> b \<and> r = Inr True"
  by (simp add: and_r_def)

lemma any_r_total:
  "(\<And>x. x \<in> set xs \<Longrightarrow> f x = Inr (P x)) \<Longrightarrow> any_r f xs = Inr (\<exists>x \<in> set xs. P x)"
  by (induction xs) auto

lemma map_r_Inr: "map_r f xs = Inr ys \<longleftrightarrow> list_all2 (\<lambda>x y. f x = Inr y) xs ys"
  by (induction xs arbitrary: ys) (auto simp: bind_r_Inr_iff list_all2_Cons1)

lemma filter_r_Inr:
  "filter_r f xs = Inr ys \<Longrightarrow> ys = filter (\<lambda>x. f x = Inr True) xs"
proof (induction xs arbitrary: ys)
  case (Cons x xs)
  then show ?case by (cases "f x") (auto simp: bind_r_Inr_iff)
qed simp

lemmas [result_simps] = raise_first_Inr_iff bind_r_Inr_iff

section \<open>The contract of a writer and its bounded reader\<close>

text \<open>
  A writer (partial, because an encoder may refuse a value) and a reader that works under
  explicit limits. What a client relies on: within limits the reader inverts the writer, and
  for any two values some limits admit both. The client's conclusion is that the written form
  is unambiguous, whatever limits a reader will use.
\<close>

locale bounded_codec =
  fixes encode :: "'a \<Rightarrow> 'b option"
    and decode :: "'l \<Rightarrow> 'b \<Rightarrow> 'a option"
    and fits :: "'l \<Rightarrow> 'a \<Rightarrow> bool"
    and valid :: "'a \<Rightarrow> bool"
  assumes decode_encode: "valid x \<Longrightarrow> encode x = Some t \<Longrightarrow> fits l x \<Longrightarrow> decode l t = Some x"
    and common_limits: "\<exists>l. fits l x \<and> fits l y"
begin

lemma encode_inject:
  assumes "valid x" "valid y" "encode x = Some t" "encode y = Some t"
  shows "x = y"
proof -
  obtain l where "fits l x" "fits l y" using common_limits by blast
  with assms have "decode l t = Some x" "decode l t = Some y" by (auto intro: decode_encode)
  then show ?thesis by simp
qed

lemma decode_agrees:
  assumes "valid x" "encode x = Some t" "fits l x" "decode l t = Some y"
  shows "y = x"
  using assms decode_encode [of x t l] by simp

end

section \<open>Strings\<close>

text \<open>
  Identifiers, titles and digests are HOL strings, so each character is a code point below
  256. \<^verbatim>\<open>str.isspace\<close> on that range; \<^verbatim>\<open>str.strip\<close>; the test for a lowercase
  SHA-256 digest that the sources repeat at every digest field.
\<close>

definition char_isspace :: "char \<Rightarrow> bool" where
  "char_isspace c = (let n = (of_char c :: nat) in
     n \<in> {9, 10, 11, 12, 13, 28, 29, 30, 31, 32, 133, 160})"

definition strip :: "string \<Rightarrow> string" where
  "strip s = rev (dropWhile char_isspace (rev (dropWhile char_isspace s)))"

definition hex_digits :: string where
  "hex_digits = ''0123456789abcdef''"

definition is_sha256_hex :: "string \<Rightarrow> bool" where
  "is_sha256_hex s \<longleftrightarrow> length s = 64 \<and> (\<forall>c \<in> set s. c \<in> set hex_digits)"

lemma strip_Nil [simp]: "strip [] = []"
  by (simp add: strip_def)

lemma strip_eq_Nil_iff: "strip s = [] \<longleftrightarrow> (\<forall>c \<in> set s. char_isspace c)"
  by (auto simp: strip_def dropWhile_eq_Nil_conv dest: set_dropWhileD)
    (metis dropWhile_eq_Nil_conv dropWhile_eq_self_iff hd_dropWhile list.set_sel(1))

lemma set_strip_subset: "set (strip s) \<subseteq> set s"
  by (auto simp: strip_def dest!: set_dropWhileD)

section \<open>Dictionaries with insertion order\<close>

text \<open>
  A \<^verbatim>\<open>dict\<close> is an association list: assignment to a key that is present keeps its
  position, a new key goes to the end (\<^const>\<open>AList.update\<close>); \<^verbatim>\<open>d.get(k)\<close> is
  \<^const>\<open>map_of\<close>. A comprehension assigns from left to right.
\<close>

definition dict_of :: "('a \<Rightarrow> 'k) \<Rightarrow> 'a list \<Rightarrow> ('k \<times> 'a) list" where
  "dict_of key xs = fold (\<lambda>x d. AList.update (key x) x d) xs []"

definition dict_values :: "('k \<times> 'v) list \<Rightarrow> 'v list" where
  "dict_values d = map snd d"

lemma fold_update_distinct:
  assumes "distinct (map key xs)" "set (map key xs) \<inter> fst ` set d = {}"
  shows "fold (\<lambda>x d. AList.update (key x) x d) xs d = d @ map (\<lambda>x. (key x, x)) xs"
  using assms
proof (induction xs arbitrary: d)
  case Nil
  then show ?case by simp
next
  case (Cons x xs)
  have "AList.update (key x) x d = d @ [(key x, x)]"
    using Cons.prems by (induction d) auto
  then show ?case using Cons by auto
qed

lemma dict_of_distinct:
  "distinct (map key xs) \<Longrightarrow> dict_of key xs = map (\<lambda>x. (key x, x)) xs"
  using fold_update_distinct [of key xs "[]"] by (simp add: dict_of_def)

lemma dict_values_dict_of [simp]:
  "distinct (map key xs) \<Longrightarrow> dict_values (dict_of key xs) = xs"
  by (simp add: dict_values_def dict_of_distinct comp_def)

lemma fst_set_dict_of: "fst ` set (dict_of key xs) = key ` set xs"
proof -
  have "fst ` set (fold (\<lambda>x d. AList.update (key x) x d) xs d) = fst ` set d \<union> key ` set xs" for d
    by (induction xs arbitrary: d) (auto simp: dom_update)
  from this [of "[]"] show ?thesis by (simp add: dict_of_def)
qed

lemma length_dict_of: "length (dict_of key xs) = card (key ` set xs)"
proof -
  have "distinct (map fst (fold (\<lambda>x d. AList.update (key x) x d) xs d))"
    if "distinct (map fst d)" for d
    using that by (induction xs arbitrary: d) (auto simp: distinct_update)
  from this [of "[]"] have "distinct (map fst (dict_of key xs))"
    by (simp add: dict_of_def)
  then show ?thesis
    by (metis distinct_card fst_set_dict_of length_map list.set_map)
qed

text \<open>Comparing the size of such a dictionary with the input is a test for distinct keys.\<close>

lemma length_dict_of_eq_iff: "length (dict_of key xs) = length xs \<longleftrightarrow> distinct (map key xs)"
  by (metis card_distinct distinct_card length_dict_of length_map list.set_map)

section \<open>Sorted tuples\<close>

text \<open>\<^verbatim>\<open>tuple(sorted(set(xs)))\<close>, and \<^verbatim>\<open>tuple(sorted({x for x in xs if xs.count(x) > 1}))\<close>.\<close>

definition sorted_set :: "'a :: linorder list \<Rightarrow> 'a list" where
  "sorted_set xs = sort (remdups xs)"

definition duplicates :: "'a :: linorder list \<Rightarrow> 'a list" where
  "duplicates xs = sorted_set (filter (\<lambda>x. count_list xs x > 1) xs)"

lemma set_sorted_set [simp]: "set (sorted_set xs) = set xs"
  by (simp add: sorted_set_def)

lemma sorted_set_sorted [simp]: "sorted (sorted_set xs)" "distinct (sorted_set xs)"
  by (simp_all add: sorted_set_def)

lemma sorted_set_cong: "set xs = set ys \<Longrightarrow> sorted_set xs = sorted_set ys"
  by (metis set_sorted_set sorted_distinct_set_unique sorted_set_sorted)

lemma sorted_set_idem [simp]: "sorted_set (sorted_set xs) = sorted_set xs"
  by (rule sorted_set_cong) simp

lemma sorted_set_Nil_iff [simp]: "sorted_set xs = [] \<longleftrightarrow> xs = []"
  by (metis set_empty set_sorted_set)

lemma duplicates_Nil_iff: "duplicates xs = [] \<longleftrightarrow> distinct xs"
proof -
  have "(\<forall>x \<in> set xs. count_list xs x \<le> 1) \<longleftrightarrow> distinct xs"
    by (induction xs) (auto simp: count_list_0_iff dest: bspec)
  then show ?thesis by (auto simp: duplicates_def filter_empty_conv not_less)
qed

section \<open>Timezone-aware timestamps\<close>

text \<open>
  A Python \<^verbatim>\<open>datetime\<close>: the wall clock in microseconds since year 1 and, for an aware
  value, the UTC offset in microseconds. Aware values compare by their instant in UTC.
  Arithmetic that leaves the years 1 to 9999 raises \<^verbatim>\<open>OverflowError\<close>. An offset is
  a fixed number, as for \<^verbatim>\<open>datetime.timezone\<close>.
\<close>

record datetime =
  wall :: int
  utcoffset :: "int option"

definition datetime_max :: int where
  "datetime_max = 315537897600000000"

definition in_datetime_range :: "int \<Rightarrow> bool" where
  "in_datetime_range t \<longleftrightarrow> 0 \<le> t \<and> t < datetime_max"

definition is_aware :: "datetime \<Rightarrow> bool" where
  "is_aware d \<longleftrightarrow> utcoffset d \<noteq> None"

definition instant :: "datetime \<Rightarrow> int" where
  "instant d = wall d - (case utcoffset d of None \<Rightarrow> 0 | Some z \<Rightarrow> z)"

definition utc :: "int \<Rightarrow> datetime" where
  "utc t = \<lparr>wall = t, utcoffset = Some 0\<rparr>"

definition add_seconds :: "datetime \<Rightarrow> int \<Rightarrow> datetime result" where
  "add_seconds d s =
     (let t = wall d + 1000000 * s in
      if in_datetime_range t then Inr (d\<lparr>wall := t\<rparr>) else Inl OverflowError)"

lemma utc_simps [simp]:
  "wall (utc t) = t" "utcoffset (utc t) = Some 0" "is_aware (utc t)" "instant (utc t) = t"
  by (simp_all add: utc_def is_aware_def instant_def)

lemma utc_instant: "utcoffset d = Some 0 \<Longrightarrow> utc (instant d) = d"
  by (simp add: utc_def instant_def)

lemma add_seconds_utc [simp]:
  "add_seconds (utc t) s =
     (if in_datetime_range (t + 1000000 * s) then Inr (utc (t + 1000000 * s)) else Inl OverflowError)"
  by (simp add: add_seconds_def utc_def Let_def)

lemmas [time_simps] = is_aware_def instant_def

end
