(* ===== verification/Utf8.thy ===== *)
theory Utf8
  imports Prelude "HOL-Library.Word"
begin

text \<open>
  The strict UTF-8 codec of the Python standard library (\<^verbatim>\<open>str.encode("utf-8")\<close> and
  \<^verbatim>\<open>bytes.decode("utf-8", errors="strict")\<close>). A Python string is a list of code
  points, a byte string is a list of 8-bit words.
\<close>

type_synonym pytext = "nat list"
type_synonym byte = "8 word"

definition is_scalar :: "nat \<Rightarrow> bool" where
  "is_scalar c \<longleftrightarrow> c < 1114112 \<and> \<not> (55296 \<le> c \<and> c \<le> 57343)"

definition encode_char :: "nat \<Rightarrow> nat list" where
  "encode_char c =
     (if c < 128 then [c]
      else if c < 2048 then [192 + c div 64, 128 + c mod 64]
      else if c < 65536 then [224 + c div 4096, 128 + c div 64 mod 64, 128 + c mod 64]
      else [240 + c div 262144, 128 + c div 4096 mod 64, 128 + c div 64 mod 64, 128 + c mod 64])"

text \<open>A lone surrogate cannot be encoded: \<^verbatim>\<open>UnicodeEncodeError\<close>, here \<^const>\<open>None\<close>.\<close>

definition utf8_encode :: "pytext \<Rightarrow> byte list option" where
  "utf8_encode t =
     (if \<forall>c \<in> set t. is_scalar c then Some (map of_nat (concat (map encode_char t))) else None)"

definition is_cont :: "nat \<Rightarrow> bool" where
  "is_cont b \<longleftrightarrow> 128 \<le> b \<and> b < 192"

fun decode_units :: "nat list \<Rightarrow> pytext option" where
  "decode_units [] = Some []"
| "decode_units (b # bs) =
     (if b < 128 then map_option (Cons b) (decode_units bs)
      else if 192 \<le> b \<and> b < 224 then
        (case bs of
           b1 # bs' \<Rightarrow>
             (let c = (b - 192) * 64 + (b1 - 128) in
              if is_cont b1 \<and> 128 \<le> c then map_option (Cons c) (decode_units bs') else None)
         | _ \<Rightarrow> None)
      else if 224 \<le> b \<and> b < 240 then
        (case bs of
           b1 # b2 # bs' \<Rightarrow>
             (let c = (b - 224) * 4096 + (b1 - 128) * 64 + (b2 - 128) in
              if is_cont b1 \<and> is_cont b2 \<and> 2048 \<le> c \<and> is_scalar c
              then map_option (Cons c) (decode_units bs') else None)
         | _ \<Rightarrow> None)
      else if 240 \<le> b \<and> b < 248 then
        (case bs of
           b1 # b2 # b3 # bs' \<Rightarrow>
             (let c = (b - 240) * 262144 + (b1 - 128) * 4096 + (b2 - 128) * 64 + (b3 - 128) in
              if is_cont b1 \<and> is_cont b2 \<and> is_cont b3 \<and> 65536 \<le> c \<and> is_scalar c
              then map_option (Cons c) (decode_units bs') else None)
         | _ \<Rightarrow> None)
      else None)"

definition utf8_decode :: "byte list \<Rightarrow> pytext option" where
  "utf8_decode bs = decode_units (map unat bs)"

lemma encode_char_bytes: "c < 1114112 \<Longrightarrow> b \<in> set (encode_char c) \<Longrightarrow> b < 256"
  by (auto simp: encode_char_def split: if_splits)

lemma decode_encode_char:
  assumes "is_scalar c"
  shows "decode_units (encode_char c @ bs) = map_option (Cons c) (decode_units bs)"
proof -
  consider "c < 128" | "128 \<le> c" "c < 2048" | "2048 \<le> c" "c < 65536" | "65536 \<le> c"
    by linarith
  then show ?thesis
  proof cases
    case 1
    then show ?thesis by (simp add: encode_char_def)
  next
    case 2
    have "c div 64 * 64 + c mod 64 = c" by simp
    with 2 show ?thesis by (simp add: encode_char_def is_cont_def Let_def) linarith
  next
    case 3
    have "c div 4096 = c div 64 div 64" by (simp flip: div_mult2_eq)
    moreover have "c div 64 * 64 + c mod 64 = c" "c div 64 div 64 * 64 + c div 64 mod 64 = c div 64"
      by simp_all
    ultimately have eq: "c div 4096 * 4096 + c div 64 mod 64 * 64 + c mod 64 = c" by linarith
    from 3 have "c div 4096 < 16" by linarith
    with 3 eq assms show ?thesis
      by (simp add: encode_char_def is_cont_def Let_def)
  next
    case 4
    have "c div 4096 = c div 64 div 64" "c div 262144 = c div 4096 div 64"
      by (simp_all flip: div_mult2_eq)
    moreover have "c div 64 * 64 + c mod 64 = c" "c div 64 div 64 * 64 + c div 64 mod 64 = c div 64"
      "c div 4096 div 64 * 64 + c div 4096 mod 64 = c div 4096"
      by simp_all
    ultimately have eq: "c div 262144 * 262144 + c div 4096 mod 64 * 4096 + c div 64 mod 64 * 64 + c mod 64 = c"
      by linarith
    from assms have "c div 262144 < 8" unfolding is_scalar_def by linarith
    with 4 eq assms show ?thesis
      by (simp add: encode_char_def is_cont_def Let_def)
  qed
qed

lemma decode_encode_units:
  "\<forall>c \<in> set t. is_scalar c \<Longrightarrow> decode_units (concat (map encode_char t)) = Some t"
  by (induction t) (simp_all add: decode_encode_char)

lemma unat_of_nat_byte: "n < 256 \<Longrightarrow> unat (of_nat n :: byte) = n"
  by (simp add: unat_of_nat take_bit_eq_mod)

lemma map_unat_of_nat: "\<forall>b \<in> set bs. b < 256 \<Longrightarrow> map unat (map (of_nat :: nat \<Rightarrow> byte) bs) = bs"
  by (induction bs) (simp_all add: unat_of_nat_byte)

lemma utf8_roundtrip: "utf8_encode t = Some bs \<Longrightarrow> utf8_decode bs = Some t"
proof -
  assume enc: "utf8_encode t = Some bs"
  then have sc: "\<forall>c \<in> set t. is_scalar c" and bs: "bs = map of_nat (concat (map encode_char t))"
    by (auto simp: utf8_encode_def split: if_splits)
  from sc have "\<forall>b \<in> set (concat (map encode_char t)). b < 256"
    by (auto intro: encode_char_bytes simp: is_scalar_def)
  then have "map unat bs = concat (map encode_char t)"
    unfolding bs by (rule map_unat_of_nat)
  with sc show ?thesis by (simp add: utf8_decode_def decode_encode_units)
qed

interpretation utf8_codec: bounded_codec utf8_encode "\<lambda>_ :: unit. utf8_decode" "\<lambda>_ _. True" "\<lambda>_. True"
  by unfold_locales (simp_all add: utf8_roundtrip)

lemma utf8_encode_inject: "utf8_encode s = Some bs \<Longrightarrow> utf8_encode t = Some bs \<Longrightarrow> s = t"
  by (rule utf8_codec.encode_inject) simp_all

lemma utf8_encode_Some_iff: "utf8_encode t = Some bs \<longleftrightarrow>
    (\<forall>c \<in> set t. is_scalar c) \<and> bs = map of_nat (concat (map encode_char t))"
  by (auto simp: utf8_encode_def)

text \<open>Strings of characters below 256, as the other components use them, always encode.\<close>

definition code_points :: "string \<Rightarrow> pytext" where
  "code_points s = map of_char s"

lemma code_points_scalar: "\<forall>c \<in> set (code_points s). is_scalar c"
proof -
  have "of_char c < (256 :: nat)" for c
    by simp
  then have "is_scalar (of_char c)" for c
    using nat_of_char_less_256 [of c] unfolding is_scalar_def by linarith
  then show ?thesis by (simp add: code_points_def)
qed

lemma utf8_encode_code_points: "utf8_encode (code_points s) \<noteq> None"
  using code_points_scalar by (simp add: utf8_encode_def)

lemma code_points_inject [simp]: "code_points s = code_points t \<longleftrightarrow> s = t"
  by (simp add: code_points_def inj_map_eq_map inj_of_char)

end
