(* ===== verification/Sexpr.thy ===== *)
theory Sexpr
  imports Utf8
begin

text \<open>
  \<^verbatim>\<open>backend/kicad_io/sexpr.py\<close>: the bounded reader and the deterministic writer of
  KiCad S-expressions. Text is a list of code points, so that the reader's UTF-8 step, its
  Unicode whitespace test and its length limits mean what they mean in the source. The main
  results: a rendered expression parses back to itself, the reader never returns an
  expression outside its limits, and the writer is unambiguous.
\<close>

section \<open>Data\<close>

text \<open>\<^verbatim>\<open>str.isspace\<close> for one code point.\<close>

definition cp_isspace :: "nat \<Rightarrow> bool" where
  "cp_isspace c \<longleftrightarrow> 9 \<le> c \<and> c \<le> 13 \<or> 28 \<le> c \<and> c \<le> 32 \<or> c = 133 \<or> c = 160 \<or> c = 5760
     \<or> 8192 \<le> c \<and> c \<le> 8202 \<or> c = 8232 \<or> c = 8233 \<or> c = 8239 \<or> c = 8287 \<or> c = 12288"

text \<open>The characters \<^verbatim>\<open>(\<close>, \<^verbatim>\<open>)\<close>, the double quote, the backslash, newline, carriage return, tab, space.\<close>

abbreviation lparen :: nat where "lparen \<equiv> 40"
abbreviation rparen :: nat where "rparen \<equiv> 41"
abbreviation dquote :: nat where "dquote \<equiv> 34"
abbreviation backslash :: nat where "backslash \<equiv> 92"
abbreviation newline :: nat where "newline \<equiv> 10"
abbreviation creturn :: nat where "creturn \<equiv> 13"
abbreviation tab :: nat where "tab \<equiv> 9"
abbreviation space :: nat where "space \<equiv> 32"

definition cp_reserved :: "nat \<Rightarrow> bool" where
  "cp_reserved c \<longleftrightarrow> c = lparen \<or> c = rparen \<or> c = dquote"

datatype sexpr = Atom pytext | Quoted pytext | Tuple "sexpr list"

fun is_tuple :: "sexpr \<Rightarrow> bool" where
  "is_tuple (Tuple _) = True"
| "is_tuple _ = False"

definition atom_post_init :: "pytext \<Rightarrow> unit result" where
  "atom_post_init v = raise_first
     [(v = [] \<or> (\<exists>c \<in> set v. cp_isspace c), KiCadSyntaxError ''empty or whitespace atom''),
      (\<exists>c \<in> set v. cp_reserved c, KiCadSyntaxError ''reserved character in atom'')]"

definition mk_atom :: "pytext \<Rightarrow> sexpr result" where
  "mk_atom v = (case atom_post_init v of Inl e \<Rightarrow> Inl e | Inr _ \<Rightarrow> Inr (Atom v))"

record parse_limits =
  maximum_bytes :: int
  maximum_tokens :: int
  maximum_depth :: int
  maximum_atom_characters :: int

definition parse_limits_post_init :: "parse_limits \<Rightarrow> unit result" where
  "parse_limits_post_init l = raise_first
     [(min (maximum_bytes l) (min (maximum_tokens l)
         (min (maximum_depth l) (maximum_atom_characters l))) \<le> 0,
       ValueError ''limits must be positive'')]"

definition default_limits :: parse_limits where
  "default_limits = \<lparr>maximum_bytes = 32 * 1024 * 1024, maximum_tokens = 2000000,
     maximum_depth = 128, maximum_atom_characters = 1000000\<rparr>"

definition node :: "pytext \<Rightarrow> sexpr list \<Rightarrow> sexpr result" where
  "node head children = (case mk_atom head of Inl e \<Rightarrow> Inl e | Inr a \<Rightarrow> Inr (Tuple (a # children)))"

fun head_of :: "sexpr \<Rightarrow> pytext option" where
  "head_of (Tuple (Atom v # _)) = Some v"
| "head_of _ = None"

fun scalar_text :: "sexpr \<Rightarrow> pytext result" where
  "scalar_text (Atom v) = Inr v"
| "scalar_text (Quoted v) = Inr v"
| "scalar_text (Tuple _) = Inl (KiCadSyntaxError ''must be an atom or quoted string'')"

section \<open>The reader\<close>

text \<open>
  The reader's index into the text is the text still to be read. The stack's top is the
  head of the list. \<^verbatim>\<open>append_token\<close> is the local function of the source.
\<close>

definition append_token ::
  "parse_limits \<Rightarrow> sexpr \<Rightarrow> sexpr list \<times> sexpr list list \<times> int \<Rightarrow>
   (sexpr list \<times> sexpr list list \<times> int) result" where
  "append_token l t s = (case s of (roots, stack, n) \<Rightarrow>
     if n + 1 > maximum_tokens l then Inl (KiCadSyntaxError ''token limit'')
     else (case stack of
        [] \<Rightarrow> Inr (roots @ [t], [], n + 1)
      | cur # rest \<Rightarrow> Inr (roots, (cur @ [t]) # rest, n + 1)))"

fun translation :: "nat \<Rightarrow> nat option" where
  "translation c =
     (if c = 110 then Some newline else if c = 114 then Some creturn
      else if c = 116 then Some tab else if c = dquote then Some dquote
      else if c = backslash then Some backslash else None)"

fun scan_quoted :: "parse_limits \<Rightarrow> pytext \<Rightarrow> pytext \<Rightarrow> (pytext \<times> pytext) result" where
  "scan_quoted l [] acc = Inl (KiCadSyntaxError ''unterminated quoted string'')"
| "scan_quoted l (c # cs) acc =
     (if c = dquote then Inr (acc, cs)
      else if c = backslash then
        (case cs of
           [] \<Rightarrow> Inl (KiCadSyntaxError ''unterminated escape'')
         | escaped # cs' \<Rightarrow>
             (case translation escaped of
                None \<Rightarrow> Inl (KiCadSyntaxError ''unsupported escape'')
              | Some x \<Rightarrow> scan_quoted l cs' (acc @ [x])))
      else if c < 32 \<and> c \<noteq> tab then Inl (KiCadSyntaxError ''unescaped control character'')
      else if int (length (acc @ [c])) > maximum_atom_characters l
        then Inl (KiCadSyntaxError ''quoted string limit'')
      else scan_quoted l cs (acc @ [c]))"

lemma scan_quoted_shorter: "scan_quoted l cs acc = Inr (v, rest) \<Longrightarrow> length rest < length cs"
  by (induction l cs acc rule: scan_quoted.induct)
    (fastforce split: if_splits list.splits option.splits)+

definition atom_char :: "nat \<Rightarrow> bool" where
  "atom_char c \<longleftrightarrow> \<not> cp_isspace c \<and> \<not> cp_reserved c"

function parse_loop ::
  "parse_limits \<Rightarrow> pytext \<Rightarrow> sexpr list \<times> sexpr list list \<times> int \<Rightarrow>
   (sexpr list \<times> sexpr list list \<times> int) result" where
  "parse_loop l [] s = Inr s"
| "parse_loop l (c # cs) s =
     (if cp_isspace c then parse_loop l cs s
      else if c = lparen then
        (case s of (roots, stack, n) \<Rightarrow>
           if n + 1 > maximum_tokens l then Inl (KiCadSyntaxError ''token limit'')
           else if int (length ([] # stack)) > maximum_depth l
             then Inl (KiCadSyntaxError ''nesting limit'')
           else parse_loop l cs (roots, [] # stack, n + 1))
      else if c = rparen then
        (case s of (roots, stack, n) \<Rightarrow>
           (case stack of
              [] \<Rightarrow> Inl (KiCadSyntaxError ''unexpected )'')
            | cur # rest \<Rightarrow>
                bind_r (append_token l (Tuple cur) (roots, rest, n)) (parse_loop l cs)))
      else if c = dquote then
        (case scan_quoted l cs [] of
           Inl e \<Rightarrow> Inl e
         | Inr (v, rest) \<Rightarrow> bind_r (append_token l (Quoted v) s) (parse_loop l rest))
      else
        (let v = takeWhile atom_char (c # cs); rest = dropWhile atom_char (c # cs) in
         if v = [] then Inl (KiCadSyntaxError ''invalid character'')
         else if int (length v) > maximum_atom_characters l
           then Inl (KiCadSyntaxError ''atom limit'')
         else bind_r (mk_atom v) (\<lambda>a.
              bind_r (append_token l a s) (parse_loop l rest))))"
  by pat_completeness auto
termination
  by (relation "measure (\<lambda>(l, t, s). length t)")
    (auto dest!: scan_quoted_shorter intro: le_imp_less_Suc length_dropWhile_le split: if_splits)

definition parse_text :: "parse_limits \<Rightarrow> pytext \<Rightarrow> sexpr result" where
  "parse_text l t =
     (case parse_loop l t ([], [], 0) of
        Inl e \<Rightarrow> Inl e
      | Inr (roots, stack, n) \<Rightarrow>
          if stack \<noteq> [] then Inl (KiCadSyntaxError ''unterminated list'')
          else if length roots \<noteq> 1 then Inl (KiCadSyntaxError ''exactly one root'')
          else Inr (hd roots))"

definition utf8_bom :: "byte list" where
  "utf8_bom = [239, 187, 191]"

definition parse :: "parse_limits \<Rightarrow> byte list \<Rightarrow> sexpr result" where
  "parse l source =
     (if int (length source) > maximum_bytes l then Inl (KiCadSyntaxError ''byte limit'')
      else if take 3 source = utf8_bom then Inl (KiCadSyntaxError ''BOM'')
      else (case utf8_decode source of
              None \<Rightarrow> Inl (KiCadSyntaxError ''invalid UTF-8'')
            | Some t \<Rightarrow> parse_text l t))"

section \<open>The writer\<close>

text \<open>\<^verbatim>\<open>str.replace\<close> of one character, and \<^verbatim>\<open>str.join\<close>.\<close>

definition replace_char :: "nat \<Rightarrow> pytext \<Rightarrow> pytext \<Rightarrow> pytext" where
  "replace_char c new t = concat (map (\<lambda>x. if x = c then new else [x]) t)"

fun join :: "pytext \<Rightarrow> pytext list \<Rightarrow> pytext" where
  "join sep [] = []"
| "join sep [t] = t"
| "join sep (t # ts) = t @ sep @ join sep ts"

definition quoted_text :: "pytext \<Rightarrow> pytext" where
  "quoted_text v = [dquote] @
     replace_char tab [backslash, 116]
       (replace_char creturn [backslash, 114]
         (replace_char newline [backslash, 110]
           (replace_char dquote [backslash, dquote]
             (replace_char backslash [backslash, backslash] v)))) @ [dquote]"

fun canonical_text :: "sexpr \<Rightarrow> pytext" where
  "canonical_text (Atom v) = v"
| "canonical_text (Quoted v) = quoted_text v"
| "canonical_text (Tuple es) = [lparen] @ join [space] (map canonical_text es) @ [rparen]"

definition indentation :: "nat \<Rightarrow> pytext" where
  "indentation depth = replicate (2 * depth) space"

fun pretty :: "sexpr \<Rightarrow> nat \<Rightarrow> pytext" where
  "pretty (Atom v) depth = canonical_text (Atom v)"
| "pretty (Quoted v) depth = canonical_text (Quoted v)"
| "pretty (Tuple []) depth = [lparen, rparen]"
| "pretty (Tuple (h # es)) depth =
     (let inline = canonical_text (Tuple (h # es)) in
      if length inline \<le> 100 \<and> \<not> (\<exists>e \<in> set es. is_tuple e) then inline
      else
        (let rendered = map (\<lambda>e. if is_tuple e then indentation (depth + 1) @ pretty e (depth + 1)
                                 else pretty e (depth + 1)) es in
         if \<forall>e \<in> set es. \<not> is_tuple e then inline
         else [lparen] @ canonical_text h @ [newline] @ join [newline] rendered
              @ [newline] @ indentation depth @ [rparen]))"

definition render :: "sexpr \<Rightarrow> byte list option" where
  "render e = utf8_encode (pretty e 0 @ [newline])"

section \<open>Well-formed expressions and their size\<close>

definition quotable :: "pytext \<Rightarrow> bool" where
  "quotable v \<longleftrightarrow> (\<forall>c \<in> set v. 32 \<le> c \<or> c = tab \<or> c = newline \<or> c = creturn)"

fun wf_sexpr :: "sexpr \<Rightarrow> bool" where
  "wf_sexpr (Atom v) = (atom_post_init v = Inr ())"
| "wf_sexpr (Quoted v) = quotable v"
| "wf_sexpr (Tuple es) = (\<forall>e \<in> set es. wf_sexpr e)"

fun tokens :: "sexpr \<Rightarrow> nat" where
  "tokens (Tuple es) = 2 + sum_list (map tokens es)"
| "tokens _ = 1"

fun sdepth :: "sexpr \<Rightarrow> nat" where
  "sdepth (Tuple es) = Suc (foldr max (map sdepth es) 0)"
| "sdepth _ = 0"

fun text_lengths_ok :: "parse_limits \<Rightarrow> sexpr \<Rightarrow> bool" where
  "text_lengths_ok l (Atom v) = (int (length v) \<le> maximum_atom_characters l)"
| "text_lengths_ok l (Quoted v) = (int (length v) \<le> maximum_atom_characters l)"
| "text_lengths_ok l (Tuple es) = (\<forall>e \<in> set es. text_lengths_ok l e)"

definition within_limits :: "parse_limits \<Rightarrow> sexpr \<Rightarrow> bool" where
  "within_limits l e \<longleftrightarrow> int (tokens e) \<le> maximum_tokens l \<and> int (sdepth e) \<le> maximum_depth l
     \<and> text_lengths_ok l e"

lemma atom_ok_iff: "atom_post_init v = Inr u \<longleftrightarrow> v \<noteq> [] \<and> (\<forall>c \<in> set v. atom_char c)"
  by (auto simp: atom_post_init_def atom_char_def)

lemma mk_atom_ok [simp]: "atom_post_init v = Inr () \<Longrightarrow> mk_atom v = Inr (Atom v)"
  by (simp add: mk_atom_def)

lemma foldr_max_ge: "x \<in> set xs \<Longrightarrow> x \<le> foldr max xs (0::nat)"
  by (induction xs) auto

lemma foldr_max_le: "(\<forall>x \<in> set xs. x \<le> b) \<Longrightarrow> foldr max xs (0::nat) \<le> b"
  by (induction xs) auto

section \<open>Layouts: text that denotes an expression\<close>

abbreviation blank :: "pytext \<Rightarrow> bool" where
  "blank w \<equiv> \<forall>c \<in> set w. cp_isspace c"

definition delimited :: "pytext \<Rightarrow> bool" where
  "delimited t \<longleftrightarrow> t = [] \<or> \<not> atom_char (hd t)"

inductive lay :: "sexpr \<Rightarrow> pytext \<Rightarrow> bool" and lays :: "sexpr list \<Rightarrow> pytext \<Rightarrow> bool" where
  lay_atom: "atom_post_init v = Inr () \<Longrightarrow> lay (Atom v) v"
| lay_quoted: "quotable v \<Longrightarrow> lay (Quoted v) (quoted_text v)"
| lay_tuple: "lays es b \<Longrightarrow> lay (Tuple es) ([lparen] @ b @ [rparen])"
| lays_Nil: "blank w \<Longrightarrow> lays [] w"
| lays_Cons: "blank w \<Longrightarrow> lay e t \<Longrightarrow> lays es b \<Longrightarrow> delimited b \<Longrightarrow> lays (e # es) (w @ t @ b)"

lemma blank_not_atom: "cp_isspace c \<Longrightarrow> \<not> atom_char c"
  by (simp add: atom_char_def)

lemma delimited_simps [simp]:
  "delimited []" "delimited (rparen # t)" "cp_isspace c \<Longrightarrow> delimited (c # t)"
  by (simp_all add: delimited_def atom_char_def cp_reserved_def)

lemma delimited_blank: "blank w \<Longrightarrow> delimited w"
  by (cases w) simp_all

lemma delimited_append: "delimited b \<Longrightarrow> delimited w \<Longrightarrow> delimited (b @ w)"
  by (cases b) (auto simp: delimited_def)

lemma lays_blank_prefix: "lays es b \<Longrightarrow> blank w \<Longrightarrow> lays es (w @ b)"
proof -
  assume "lays es b" "blank w"
  then show ?thesis
  proof (cases rule: lays.cases)
    case lays_Nil
    with \<open>blank w\<close> show ?thesis by (auto intro!: lay_lays.lays_Nil)
  next
    case (lays_Cons w' e t es' b')
    then have "lays (e # es') ((w @ w') @ t @ b')"
      using \<open>blank w\<close> by (intro lay_lays.lays_Cons) auto
    with lays_Cons show ?thesis by simp
  qed
qed

lemma lays_blank_suffix: "lays es b \<Longrightarrow> blank w \<Longrightarrow> lays es (b @ w)"
proof (induction es arbitrary: b)
  case Nil
  then show ?case by (cases rule: lays.cases) (auto intro!: lay_lays.lays_Nil)
next
  case (Cons e es)
  from Cons.prems(1) obtain w' t b' where b: "b = w' @ t @ b'" and "blank w'" "lay e t"
    "lays es b'" "delimited b'"
    by (cases rule: lays.cases) auto
  moreover have "lays es (b' @ w)" by (rule Cons.IH) fact+
  moreover have "delimited (b' @ w)"
    using \<open>delimited b'\<close> Cons.prems(2) by (simp add: delimited_append delimited_blank)
  ultimately have "lays (e # es) (w' @ t @ (b' @ w))" by (intro lay_lays.lays_Cons) auto
  then show ?case by (simp add: b)
qed

definition padded :: "sexpr \<Rightarrow> pytext \<Rightarrow> bool" where
  "padded e s \<longleftrightarrow> (\<exists>w t. s = w @ t \<and> blank w \<and> lay e t)"

lemma paddedI: "lay e t \<Longrightarrow> padded e t" "lay e t \<Longrightarrow> blank w \<Longrightarrow> padded e (w @ t)"
  unfolding padded_def by (metis append_Nil empty_iff list.set(1)) blast

lemma lays_join:
  assumes "cp_isspace c" "\<forall>e \<in> set es. padded e (f e)"
  shows "lays es (join [c] (map f es))"
  using assms(2)
proof (induction es rule: induct_list012)
  case 1
  show ?case by (auto intro: lay_lays.lays_Nil)
next
  case (2 e)
  then obtain w t where "f e = w @ t" "blank w" "lay e t" by (auto simp: padded_def)
  with lay_lays.lays_Cons [of w e t "[]" "[]"] lay_lays.lays_Nil [of "[]"] show ?case by simp
next
  case (3 e e' es)
  then obtain w t where f: "f e = w @ t" "blank w" "lay e t" by (auto simp: padded_def)
  have "lays (e' # es) (join [c] (map f (e' # es)))" by (rule "3.IH"(2)) (use 3 in auto)
  then have "lays (e' # es) ([c] @ join [c] (map f (e' # es)))"
    using assms(1) by (intro lays_blank_prefix) auto
  with f assms(1) have "lays (e # e' # es) (w @ t @ [c] @ join [c] (map f (e' # es)))"
    by (intro lay_lays.lays_Cons) auto
  with f show ?case by simp
qed

lemma cp_isspace_simps [simp]:
  "cp_isspace space" "cp_isspace newline" "\<not> cp_isspace lparen" "\<not> cp_isspace rparen"
  "\<not> cp_isspace dquote"
  by (simp_all add: cp_isspace_def)

lemma lay_canonical_text: "wf_sexpr e \<Longrightarrow> lay e (canonical_text e)"
proof (induction e)
  case (Tuple es)
  then have "lays es (join [space] (map canonical_text es))"
    by (intro lays_join) (auto intro: paddedI)
  then show ?case by (auto intro: lay_lays.lay_tuple simp del: append.simps)
qed (auto intro: lay_lays.intros)

lemma blank_indentation: "blank (indentation d)"
  by (auto simp: indentation_def)

lemma lay_pretty: "wf_sexpr e \<Longrightarrow> lay e (pretty e d)"
proof (induction e d rule: pretty.induct)
  case (1 v d)
  then show ?case by (simp add: lay_lays.lay_atom)
next
  case (2 v d)
  then show ?case by (simp add: lay_lays.lay_quoted)
next
  case (3 d)
  show ?case using lay_lays.lay_tuple [OF lay_lays.lays_Nil [of "[]"]] by simp
next
  case (4 h es d)
  let ?f = "\<lambda>e. if is_tuple e then indentation (d + 1) @ pretty e (d + 1) else pretty e (d + 1)"
  have inline: "lay (Tuple (h # es)) (canonical_text (Tuple (h # es)))"
    by (rule lay_canonical_text) (use 4 in simp)
  show ?case
  proof (cases "\<forall>e \<in> set es. \<not> is_tuple e")
    case True
    with inline show ?thesis by (simp add: Let_def)
  next
    case False
    have "padded e (?f e)" if "e \<in> set es" for e
    proof -
      have "lay e (pretty e (d + 1))" using that False 4 by (cases "is_tuple e") auto
      then show ?thesis by (simp add: paddedI blank_indentation)
    qed
    then have "lays es (join [newline] (map ?f es))" by (intro lays_join) auto
    then have "lays es ([newline] @ join [newline] (map ?f es) @ ([newline] @ indentation d))"
      using blank_indentation [of d] by (intro lays_blank_prefix lays_blank_suffix) auto
    moreover have "lay h (canonical_text h)" using 4 by (auto intro: lay_canonical_text)
    ultimately have "lays (h # es) ([] @ canonical_text h @ ([newline] @ join [newline] (map ?f es)
        @ ([newline] @ indentation d)))"
      by (intro lay_lays.lays_Cons) auto
    from lay_lays.lay_tuple [OF this] False show ?thesis by (auto simp: Let_def)
  qed
qed

section \<open>Reading a layout\<close>

fun put :: "sexpr \<Rightarrow> sexpr list \<times> sexpr list list \<Rightarrow> sexpr list \<times> sexpr list list" where
  "put e (roots, []) = (roots @ [e], [])"
| "put e (roots, cur # stack) = (roots, (cur @ [e]) # stack)"

lemma append_token_put:
  "n + 1 \<le> maximum_tokens l \<Longrightarrow>
   append_token l e (roots, stack, n) = Inr (fst (put e (roots, stack)), snd (put e (roots, stack)), n + 1)"
  by (cases stack) (auto simp: append_token_def)

lemma replace_char_append: "replace_char c new (s @ t) = replace_char c new s @ replace_char c new t"
  by (simp add: replace_char_def)

definition escape_char :: "nat \<Rightarrow> pytext" where
  "escape_char c =
     (if c = backslash then [backslash, backslash] else if c = dquote then [backslash, dquote]
      else if c = newline then [backslash, 110] else if c = creturn then [backslash, 114]
      else if c = tab then [backslash, 116] else [c])"

lemma quoted_text_eq: "quoted_text v = [dquote] @ concat (map escape_char v) @ [dquote]"
proof -
  have "replace_char tab [backslash, 116] (replace_char creturn [backslash, 114]
      (replace_char newline [backslash, 110] (replace_char dquote [backslash, dquote]
        (replace_char backslash [backslash, backslash] v)))) = concat (map escape_char v)"
    by (induction v) (simp_all add: replace_char_def escape_char_def)
  then show ?thesis by (simp add: quoted_text_def)
qed

lemma scan_escaped:
  "quotable v \<Longrightarrow> int (length acc + length v) \<le> maximum_atom_characters l \<Longrightarrow>
   scan_quoted l (concat (map escape_char v) @ dquote # rest) acc = Inr (acc @ v, rest)"
proof (induction v arbitrary: acc)
  case Nil
  then show ?case by simp
next
  case (Cons c v)
  have IH: "scan_quoted l (concat (map escape_char v) @ dquote # rest) (acc @ [c]) = Inr ((acc @ [c]) @ v, rest)"
    by (rule Cons.IH) (use Cons.prems in \<open>auto simp: quotable_def\<close>)
  have "32 \<le> c \<or> c = tab \<or> c = newline \<or> c = creturn" using Cons.prems by (simp add: quotable_def)
  with IH Cons.prems(2) show ?case
    by (auto simp: escape_char_def [of c])
qed

lemma parse_loop_blank: "blank w \<Longrightarrow> parse_loop l (w @ t) s = parse_loop l t s"
  by (induction w) auto

lemma parse_loop_atom:
  assumes "atom_post_init v = Inr ()" "int (length v) \<le> maximum_atom_characters l"
    "delimited rest" "n + 1 \<le> maximum_tokens l"
  shows "parse_loop l (v @ rest) (roots, stack, n)
    = parse_loop l rest (fst (put (Atom v) (roots, stack)), snd (put (Atom v) (roots, stack)), n + 1)"
proof -
  from assms(1) obtain c cs where v: "v = c # cs" and at: "\<forall>x \<in> set v. atom_char x"
    by (cases v) (auto simp: atom_ok_iff)
  from at assms(3) have tw: "takeWhile atom_char (v @ rest) = v" "dropWhile atom_char (v @ rest) = rest"
    by (auto simp: takeWhile_append2 dropWhile_append2 delimited_def takeWhile_eq_Nil_iff dropWhile_eq_self_iff)
  from at v have "\<not> cp_isspace c" "c \<noteq> lparen" "c \<noteq> rparen" "c \<noteq> dquote"
    by (auto simp: atom_char_def cp_reserved_def)
  with assms tw show ?thesis by (simp add: v append_token_put Let_def)
qed

lemma parse_loop_lay:
  "lay e t \<Longrightarrow> delimited rest \<Longrightarrow> n + int (tokens e) \<le> maximum_tokens l \<Longrightarrow>
     int (length stack + sdepth e) \<le> maximum_depth l \<Longrightarrow> text_lengths_ok l e \<Longrightarrow>
     parse_loop l (t @ rest) (roots, stack, n) =
     parse_loop l rest (fst (put e (roots, stack)), snd (put e (roots, stack)), n + int (tokens e))"
  "lays es b \<Longrightarrow> n + int (sum_list (map tokens es)) \<le> maximum_tokens l \<Longrightarrow>
     (\<forall>e \<in> set es. int (length stack + sdepth e) + 1 \<le> maximum_depth l \<and> text_lengths_ok l e) \<Longrightarrow>
     parse_loop l (b @ rparen # rest) (roots, cur # stack, n) =
     parse_loop l (rparen # rest) (roots, (cur @ es) # stack, n + int (sum_list (map tokens es)))"
proof (induction e t and es b arbitrary: rest n roots stack and rest n roots cur stack rule: lay_lays.inducts)
  case (lay_atom v)
  then show ?case by (simp add: parse_loop_atom)
next
  case (lay_quoted v)
  then show ?case
    by (simp add: quoted_text_eq scan_escaped append_token_put)
next
  case (lay_tuple es b)
  have d: "\<forall>e \<in> set es. int (length stack + sdepth e) + 1 \<le> maximum_depth l \<and> text_lengths_ok l e"
    using lay_tuple.prems(3,4) foldr_max_ge [of _ "map sdepth es"] by fastforce
  have "parse_loop l (([lparen] @ b @ [rparen]) @ rest) (roots, stack, n) =
     parse_loop l (b @ rparen # rest) (roots, [] # stack, n + 1)"
    using lay_tuple.prems by simp
  also have "\<dots> = parse_loop l (rparen # rest) (roots, es # stack, n + 1 + int (sum_list (map tokens es)))"
    using lay_tuple.IH [OF _ d, of "n + 1" rest roots "[]"] lay_tuple.prems by simp
  also have "\<dots> = parse_loop l rest (fst (put (Tuple es) (roots, stack)), snd (put (Tuple es) (roots, stack)),
       n + int (tokens (Tuple es)))"
    using lay_tuple.prems by (simp add: append_token_put algebra_simps)
  finally show ?case .
next
  case (lays_Nil w)
  then show ?case by (simp add: parse_loop_blank)
next
  case (lays_Cons w e t es b)
  have "parse_loop l ((w @ t @ b) @ rparen # rest) (roots, cur # stack, n) =
    parse_loop l (t @ (b @ rparen # rest)) (roots, cur # stack, n)"
    using lays_Cons by (simp add: parse_loop_blank)
  also have "\<dots> = parse_loop l (b @ rparen # rest) (roots, (cur @ [e]) # stack, n + int (tokens e))"
    using lays_Cons.IH(1) [of "b @ rparen # rest" n "cur # stack" roots] lays_Cons.prems lays_Cons.hyps
    by (simp add: delimited_append)
  also have "\<dots> = parse_loop l (rparen # rest) (roots, (cur @ e # es) # stack, n + int (tokens e) + int (sum_list (map tokens es)))"
    using lays_Cons.IH(2) [of "n + int (tokens e)" stack rest roots "cur @ [e]"] lays_Cons.prems by simp
  finally show ?case by (simp add: algebra_simps)
qed

lemma parse_text_lay:
  assumes "lay e t" "within_limits l e" "blank w"
  shows "parse_text l (t @ w) = Inr e"
proof -
  have "parse_loop l (t @ w) ([], [], 0) = parse_loop l w ([e], [], int (tokens e))"
    using parse_loop_lay(1) [OF assms(1) delimited_blank [OF assms(3)], of 0 l "[]" "[]"] assms(2)
    by (simp add: within_limits_def)
  also have "\<dots> = Inr ([e], [], int (tokens e))"
    using parse_loop_blank [OF assms(3), of l "[]"] by simp
  finally show ?thesis by (simp add: parse_text_def)
qed

section \<open>What the reader returns\<close>

fun stack_ok :: "parse_limits \<Rightarrow> sexpr list list \<Rightarrow> bool" where
  "stack_ok l [] = True"
| "stack_ok l (cur # rest) = ((\<forall>e \<in> set cur. wf_sexpr e \<and> int (length rest + 1 + sdepth e) \<le> maximum_depth l)
     \<and> int (length rest + 1) \<le> maximum_depth l \<and> stack_ok l rest)"

definition stack_tokens :: "sexpr list list \<Rightarrow> nat" where
  "stack_tokens stack = sum_list (map (\<lambda>cur. 1 + sum_list (map tokens cur)) stack)"

definition state_ok :: "parse_limits \<Rightarrow> sexpr list \<times> sexpr list list \<times> int \<Rightarrow> bool" where
  "state_ok l s = (case s of (roots, stack, n) \<Rightarrow>
     n = int (sum_list (map tokens roots) + stack_tokens stack) \<and> n \<le> maximum_tokens l
     \<and> (\<forall>e \<in> set roots. wf_sexpr e \<and> int (sdepth e) \<le> maximum_depth l) \<and> stack_ok l stack)"

lemma stack_tokens_simps [simp]:
  "stack_tokens [] = 0"
  "stack_tokens (cur # stack) = 1 + sum_list (map tokens cur) + stack_tokens stack"
  by (simp_all add: stack_tokens_def)

lemma append_token_leaf_ok:
  "state_ok l s \<Longrightarrow> append_token l e s = Inr s' \<Longrightarrow> wf_sexpr e \<Longrightarrow> tokens e = 1 \<Longrightarrow> sdepth e = 0 \<Longrightarrow>
   0 < maximum_depth l \<Longrightarrow> state_ok l s'"
  by (cases s) (auto simp: state_ok_def append_token_def split: if_splits list.splits)

lemma append_token_tuple_ok:
  assumes "state_ok l (roots, cur # rest, n)" "append_token l (Tuple cur) (roots, rest, n) = Inr s'"
  shows "state_ok l s'"
proof -
  have d: "int (length rest + sdepth (Tuple cur)) \<le> maximum_depth l"
  proof -
    have "foldr max (map sdepth cur) 0 \<le> nat (maximum_depth l - int (length rest + 1))"
      by (rule foldr_max_le) (use assms(1) in \<open>auto simp: state_ok_def\<close>)
    with assms(1) show ?thesis by (auto simp: state_ok_def)
  qed
  with assms show ?thesis
    by (auto simp: state_ok_def append_token_def split: if_splits list.splits)
qed

lemma scan_quoted_quotable: "scan_quoted l cs acc = Inr (v, rest) \<Longrightarrow> quotable acc \<Longrightarrow> quotable v"
  by (induction l cs acc rule: scan_quoted.induct)
    (fastforce simp: quotable_def split: if_splits list.splits option.splits)+

lemma parse_loop_state_ok:
  "parse_loop l t s = Inr s' \<Longrightarrow> state_ok l s \<Longrightarrow> 0 < maximum_depth l \<Longrightarrow> state_ok l s'"
proof (induction l t s rule: parse_loop.induct)
  case (1 l s)
  then show ?case by simp
next
  case (2 l c cs s)
  obtain roots stack n where s: "s = (roots, stack, n)" by (cases s)
  consider "cp_isspace c" | "\<not> cp_isspace c" "c = lparen" | "\<not> cp_isspace c" "c = rparen"
    | "\<not> cp_isspace c" "c = dquote" | "\<not> cp_isspace c" "c \<noteq> lparen" "c \<noteq> rparen" "c \<noteq> dquote"
    by blast
  then show ?case
  proof cases
    case 1
    with 2 show ?thesis by simp
  next
    case c: 2
    from c 2 show ?thesis
      by (auto simp: s state_ok_def split: if_splits)
  next
    case c: 3
    with "2.prems" s obtain cur rest where st: "stack = cur # rest" by (cases stack) auto
    from "2.prems"(1) c obtain s1 where a: "append_token l (Tuple cur) (roots, rest, n) = Inr s1"
      and p: "parse_loop l cs s1 = Inr s'"
      by (auto simp: s st bind_r_Inr_iff)
    have "state_ok l s1" using append_token_tuple_ok [OF _ a] "2.prems"(2) by (simp add: s st)
    with "2.IH"(3) [OF _ _ _ s [symmetric] refl st a p] c "2.prems"(3) show ?thesis by simp
  next
    case c: 4
    from "2.prems"(1) c obtain v rest s1 where q: "scan_quoted l cs [] = Inr (v, rest)"
      and a: "append_token l (Quoted v) s = Inr s1" and p: "parse_loop l rest s1 = Inr s'"
      by (auto simp: bind_r_Inr_iff split: sum.splits)
    have "quotable v" by (rule scan_quoted_quotable [OF q]) (simp add: quotable_def)
    then have "state_ok l s1" using append_token_leaf_ok [OF "2.prems"(2) a] "2.prems"(3) by simp
    with "2.IH"(4) [OF _ _ _ _ q _ a p] c "2.prems"(3) show ?thesis by auto
  next
    case c: 5
    let ?v = "takeWhile atom_char (c # cs)" and ?rest = "dropWhile atom_char (c # cs)"
    from "2.prems"(1) c obtain a s1 where m: "mk_atom ?v = Inr a" and a: "append_token l a s = Inr s1"
      and p: "parse_loop l ?rest s1 = Inr s'" and v: "?v \<noteq> []"
      "\<not> maximum_atom_characters l < int (length ?v)"
      by (auto simp: bind_r_Inr_iff Let_def split: if_splits)
    from m have "a = Atom ?v" "atom_post_init ?v = Inr ()"
      by (auto simp: mk_atom_def split: sum.splits)
    then have "state_ok l s1" using append_token_leaf_ok [OF "2.prems"(2) a] "2.prems"(3) by simp
    with "2.IH"(5) [OF c refl refl v m a p] "2.prems"(3) show ?thesis by simp
  qed
qed

lemma parse_text_bounds:
  assumes "parse_text l t = Inr e" "parse_limits_post_init l = Inr ()"
  shows "wf_sexpr e \<and> int (tokens e) \<le> maximum_tokens l \<and> int (sdepth e) \<le> maximum_depth l"
proof -
  have pos: "0 < maximum_depth l" "0 < maximum_tokens l"
    using assms(2) by (auto simp: parse_limits_post_init_def split: if_splits)
  from assms(1) obtain roots n where p: "parse_loop l t ([], [], 0) = Inr (roots, [], n)"
    and r: "roots = [e]"
    by (auto simp: parse_text_def length_Suc_conv split: sum.splits if_splits prod.splits)
  have "state_ok l (roots, [], n)"
    by (rule parse_loop_state_ok [OF p]) (use pos in \<open>auto simp: state_ok_def\<close>)
  then show ?thesis by (simp add: state_ok_def r)
qed

section \<open>The writer and the reader as a codec\<close>

lemma text_lengths_ok_eventually:
  "\<exists>k. \<forall>l. k \<le> maximum_atom_characters l \<longrightarrow> text_lengths_ok l e"
proof (induction e)
  case (Tuple es)
  then have "\<exists>k. \<forall>e \<in> set es. \<forall>l. k \<le> maximum_atom_characters l \<longrightarrow> text_lengths_ok l e"
  proof (induction es)
    case (Cons e es)
    from Cons.prems [of e] obtain k1 where
      "\<forall>l. k1 \<le> maximum_atom_characters l \<longrightarrow> text_lengths_ok l e" by auto
    moreover from Cons obtain k2 where
      "\<forall>e \<in> set es. \<forall>l. k2 \<le> maximum_atom_characters l \<longrightarrow> text_lengths_ok l e" by auto
    ultimately show ?case by (intro exI [of _ "max k1 k2"]) auto
  qed simp
  then show ?case by auto
qed auto

lemma limits_admitting:
  "\<exists>l. (within_limits l x \<and> b1 \<le> maximum_bytes l) \<and> (within_limits l y \<and> b2 \<le> maximum_bytes l)"
proof -
  obtain k1 k2 where k: "\<forall>l. k1 \<le> maximum_atom_characters l \<longrightarrow> text_lengths_ok l x"
    "\<forall>l. k2 \<le> maximum_atom_characters l \<longrightarrow> text_lengths_ok l y"
    using text_lengths_ok_eventually by metis
  show ?thesis
    by (rule exI [of _ "\<lparr>maximum_bytes = max b1 b2, maximum_tokens = int (tokens x + tokens y),
          maximum_depth = int (sdepth x + sdepth y), maximum_atom_characters = max k1 k2\<rparr>"])
      (simp add: within_limits_def k)
qed

definition result_option :: "'a result \<Rightarrow> 'a option" where
  "result_option r = (case r of Inl _ \<Rightarrow> None | Inr x \<Rightarrow> Some x)"

lemma result_option_simps [simp]: "result_option (Inl e) = None" "result_option (Inr x) = Some x"
  by (simp_all add: result_option_def)

lemma result_option_Some_iff [simp]: "result_option r = Some x \<longleftrightarrow> r = Inr x"
  by (cases r) simp_all

interpretation canonical_codec: bounded_codec "\<lambda>e. Some (canonical_text e)"
  "\<lambda>l t. result_option (parse_text l t)" within_limits wf_sexpr
proof
  show "result_option (parse_text l t) = Some e"
    if "wf_sexpr e" "Some (canonical_text e) = Some t" "within_limits l e" for e t l
    using parse_text_lay [OF lay_canonical_text, of e l "[]"] that by simp
  show "\<exists>l. within_limits l x \<and> within_limits l y" for x y
    using limits_admitting by blast
qed

lemma pretty_tuple_head: "is_tuple e \<Longrightarrow> \<exists>t. pretty e d = lparen # t"
  by (cases "(e, d)" rule: pretty.cases) (auto simp: Let_def)

lemma parse_render:
  assumes wf: "wf_sexpr e" and tup: "is_tuple e" and bs: "render e = Some bs"
    and lim: "within_limits l e" "int (length bs) \<le> maximum_bytes l"
  shows "parse l bs = Inr e"
proof -
  from tup obtain t where "pretty e 0 = lparen # t" using pretty_tuple_head by blast
  with bs obtain bs' where "bs = 40 # bs'"
    by (auto simp: render_def utf8_encode_Some_iff encode_char_def)
  then have "take 3 bs \<noteq> utf8_bom" by (auto simp: utf8_bom_def)
  moreover have "utf8_decode bs = Some (pretty e 0 @ [newline])"
    using bs by (simp add: render_def utf8_roundtrip)
  moreover have "parse_text l (pretty e 0 @ [newline]) = Inr e"
    by (rule parse_text_lay [OF lay_pretty [OF wf] lim(1)]) simp
  ultimately show ?thesis using lim(2) by (simp add: parse_def)
qed

section \<open>Properties\<close>

text \<open>
  C37: A rendered list expression parses back to itself. Take an expression that is a list, whose atoms are legal,
  whose quoted strings hold no control character but tab, newline and carriage return, and which is
  within the reader's limits on tokens, depth and atom length. If the pretty-printed bytes are within the limit on
  size, the reader returns exactly the expression that was written; it also does so from the canonical text.
\<close>

theorem sexpr_render_parse_roundtrip:
  assumes "wf_sexpr e" "is_tuple e" "render e = Some bs" "within_limits l e"
    "int (length bs) \<le> maximum_bytes l"
  shows "parse l bs = Inr e \<and> parse_text l (canonical_text e) = Inr e"
  using parse_render [OF assms] parse_text_lay [OF lay_canonical_text [OF assms(1)] assms(4), of "[]"] by simp

theorem sexpr_render_parse_roundtrip_witness:
  "\<exists>bs. render (Tuple [Atom [97], Quoted [34, 10, 233], Tuple [Atom [98]]]) = Some bs
     \<and> parse default_limits bs = Inr (Tuple [Atom [97], Quoted [34, 10, 233], Tuple [Atom [98]]])"
proof -
  let ?e = "Tuple [Atom [97], Quoted [34, 10, 233], Tuple [Atom [98]]]"
  have wf: "wf_sexpr ?e"
    by (simp add: quotable_def atom_ok_iff atom_char_def cp_isspace_def cp_reserved_def)
  obtain bs where bs: "render ?e = Some bs" and len: "length bs < 100"
    by (simp add: render_def utf8_encode_Some_iff quoted_text_eq escape_char_def is_scalar_def
        encode_char_def indentation_def)
  have "within_limits default_limits ?e" by (simp add: within_limits_def default_limits_def)
  with sexpr_render_parse_roundtrip [OF wf _ bs, of default_limits] bs len show ?thesis
    by (simp add: default_limits_def)
qed

text \<open>
  Whatever bytes the reader accepts, the expression it returns respects every configured
  limit on tokens and nesting, its atoms are legal atoms and its quoted strings hold no control
  character that the writer would emit raw.
\<close>

theorem sexpr_parse_bounds:
  assumes "parse l source = Inr e" "parse_limits_post_init l = Inr ()"
  shows "wf_sexpr e \<and> int (tokens e) \<le> maximum_tokens l \<and> int (sdepth e) \<le> maximum_depth l
    \<and> int (length source) \<le> maximum_bytes l"
proof -
  from assms(1) obtain t where "parse_text l t = Inr e" "int (length source) \<le> maximum_bytes l"
    by (auto simp: parse_def split: if_splits option.splits)
  with parse_text_bounds [OF _ assms(2)] show ?thesis by blast
qed

lemma parse_small_example:
  "parse default_limits [40, 97, 32, 40, 41, 41] = Inr (Tuple [Atom [97], Tuple []])"
  by (simp add: parse_def utf8_decode_def utf8_bom_def parse_text_def default_limits_def Let_def
      cp_isspace_def atom_char_def cp_reserved_def append_token_def mk_atom_def atom_post_init_def)

theorem sexpr_parse_bounds_witness:
  "parse default_limits [40, 97, 32, 40, 41, 41] = Inr (Tuple [Atom [97], Tuple []])
   \<and> int (sdepth (Tuple [Atom [97], Tuple []])) \<le> maximum_depth default_limits"
proof -
  have "parse_limits_post_init default_limits = Inr ()"
    by (simp add: parse_limits_post_init_def default_limits_def)
  from sexpr_parse_bounds [OF parse_small_example this] parse_small_example show ?thesis by blast
qed

text \<open>
  The one-line representation is unambiguous, as its documentation says: two well-formed
  expressions with the same canonical text are the same expression.
\<close>

theorem sexpr_canonical_text_unambiguous:
  assumes "wf_sexpr x" "wf_sexpr y" "canonical_text x = canonical_text y"
  shows "x = y"
  using canonical_codec.encode_inject [of x y "canonical_text y"] assms by simp

theorem sexpr_canonical_text_unambiguous_witness:
  "canonical_text (Tuple [Atom [97]]) = canonical_text (Tuple [Atom [97]])
   \<and> Tuple [Atom [97]] = Tuple [Atom [97]]"
proof -
  have "wf_sexpr (Tuple [Atom [97]])"
    by (simp add: atom_ok_iff atom_char_def cp_isspace_def cp_reserved_def)
  from sexpr_canonical_text_unambiguous [OF this this refl] show ?thesis by simp
qed

lemma scan_escapes:
  "scan_quoted l (concat (replicate k [backslash, 110]) @ dquote # rest) acc
     = Inr (acc @ replicate k newline, rest)"
  by (induction k arbitrary: acc) (auto simp: replicate_app_Cons_same)

text \<open>
  The reader's limit on the length of a quoted string is not applied to escape sequences:
  a quoted string of any number of escaped newlines is accepted under every
  \<^verbatim>\<open>maximum_atom_characters\<close>, however small.
\<close>

theorem sexpr_escapes_bypass_length_limit:
  assumes "1 \<le> maximum_tokens l"
  shows "parse_text l ([dquote] @ concat (replicate k [backslash, 110]) @ [dquote])
    = Inr (Quoted (replicate k newline))"
  using assms scan_escapes [of l k "[]" "[]"] by (simp add: parse_text_def append_token_def)

theorem sexpr_escapes_bypass_length_limit_witness:
  "parse_text \<lparr>maximum_bytes = 100, maximum_tokens = 9, maximum_depth = 9, maximum_atom_characters = 1\<rparr>
     ([dquote] @ concat (replicate 5 [backslash, 110]) @ [dquote]) = Inr (Quoted (replicate 5 newline))"
  by (rule sexpr_escapes_bypass_length_limit) simp

lemma scan_control:
  "\<not> quotable v \<Longrightarrow> \<exists>msg. scan_quoted l (concat (map escape_char v) @ rest) acc = Inl (KiCadSyntaxError msg)"
proof (induction v arbitrary: acc)
  case (Cons c v)
  show ?case
  proof (cases "32 \<le> c \<or> c = tab \<or> c = newline \<or> c = creturn")
    case True
    with Cons.prems have "\<not> quotable v" by (auto simp: quotable_def)
    from Cons.IH [OF this, of "acc @ [c]"] True show ?thesis
      by (auto simp: escape_char_def [of c])
  next
    case False
    then show ?thesis by (auto simp: escape_char_def [of c])
  qed
qed (simp add: quotable_def)

text \<open>
  The condition on quoted strings in the round trip is exact: text that holds any other
  control character is written without an escape and then refused by the reader, under every
  limit.
\<close>

theorem sexpr_control_characters_do_not_roundtrip:
  assumes "\<not> quotable v"
  shows "\<exists>msg. parse_text l (canonical_text (Quoted v)) = Inl (KiCadSyntaxError msg)"
  using scan_control [OF assms, of l "[dquote]" "[]"] by (auto simp: parse_text_def quoted_text_eq)

theorem sexpr_control_characters_do_not_roundtrip_witness:
  "\<exists>msg. parse_text default_limits (canonical_text (Quoted [1])) = Inl (KiCadSyntaxError msg)"
  by (rule sexpr_control_characters_do_not_roundtrip) (simp add: quotable_def)

end
