(* ===== verification/Json.thy ===== *)
theory Json
  imports Utf8
begin

text \<open>
  Canonical JSON, the single encoding that every digest of the orchestrator is computed over:
  \<^verbatim>\<open>canonical_json\<close> of \<^verbatim>\<open>backend/orchestrator/models.py\<close>, that is \<^verbatim>\<open>json.dumps\<close>
  with sorted keys, compact separators and \<^verbatim>\<open>ensure_ascii=False\<close>. The values that the
  sources hash are null, booleans, integers, strings, lists and dictionaries with string keys.
  The result is that the encoding is injective up to the order of dictionary keys.
\<close>

section \<open>Decimal numerals\<close>

definition digit :: "nat \<Rightarrow> char" where
  "digit n = char_of (48 + n)"

fun show_nat :: "nat \<Rightarrow> string" where
  "show_nat n = (if n < 10 then [digit n] else show_nat (n div 10) @ [digit (n mod 10)])"

declare show_nat.simps [simp del]

definition show_int :: "int \<Rightarrow> string" where
  "show_int i = (if i < 0 then ''-'' @ show_nat (nat (- i)) else show_nat (nat i))"

text \<open>Zero-padded decimal output (\<^verbatim>\<open>%0kd\<close>), and the number that digits denote.\<close>

definition pad :: "nat \<Rightarrow> nat \<Rightarrow> string" where
  "pad k n = replicate (k - length (show_nat n)) (CHR ''0'') @ show_nat n"

definition is_digit :: "char \<Rightarrow> bool" where
  "is_digit c \<longleftrightarrow> 48 \<le> (of_char c :: nat) \<and> of_char c < (58 :: nat)"

definition horner :: "string \<Rightarrow> nat" where
  "horner s = foldl (\<lambda>a c. 10 * a + (of_char c - 48)) 0 s"

lemma of_char_digit: "n < 10 \<Longrightarrow> of_char (digit n) = 48 + n"
  by (simp add: digit_def)

lemma is_digit_digit: "n < 10 \<Longrightarrow> is_digit (digit n)"
  by (simp add: is_digit_def of_char_digit)

lemma show_nat_digits: "\<forall>c \<in> set (show_nat n). is_digit c"
proof (induction n rule: show_nat.induct)
  case (1 n)
  then show ?case by (subst show_nat.simps) (auto simp: is_digit_digit)
qed

lemma show_nat_nonempty: "show_nat n \<noteq> []"
  by (subst show_nat.simps) simp

lemma horner_snoc: "horner (s @ [c]) = 10 * horner s + (of_char c - 48)"
  by (simp add: horner_def)

lemma horner_show_nat: "horner (show_nat n) = n"
proof (induction n rule: show_nat.induct)
  case (1 n)
  show ?case
  proof (cases "n < 10")
    case True
    then show ?thesis by (subst show_nat.simps) (simp add: horner_def of_char_digit)
  next
    case False
    then have "horner (show_nat n) = 10 * horner (show_nat (n div 10)) + n mod 10"
      by (subst show_nat.simps) (simp add: horner_snoc of_char_digit)
    with 1 False show ?thesis by simp
  qed
qed

lemma horner_zeros: "horner (replicate k (CHR ''0'') @ s) = horner s"
  by (induction k) (simp_all add: horner_def)

lemma horner_pad [simp]: "horner (pad k n) = n"
  by (simp add: pad_def horner_zeros horner_show_nat)

lemma pad_digits: "\<forall>c \<in> set (pad k n). is_digit c"
  using show_nat_digits [of n] by (auto simp: pad_def is_digit_def)

text \<open>A run of digits ends at the first character that is not a digit.\<close>

definition undigit :: "string \<Rightarrow> bool" where
  "undigit r \<longleftrightarrow> (r = [] \<or> \<not> is_digit (hd r))"

lemma digits_prefix_unique:
  assumes "\<forall>c \<in> set a. is_digit c" "\<forall>c \<in> set b. is_digit c" "undigit r" "undigit s" "a @ r = b @ s"
  shows "a = b \<and> r = s"
proof -
  have "takeWhile is_digit (x @ t) = x" if "\<forall>c \<in> set x. is_digit c" "undigit t" for x t
    using that by (cases t) (auto simp: takeWhile_append2 undigit_def)
  with assms show ?thesis by (metis append_same_eq same_append_eq)
qed

lemma pad_prefix_unique:
  assumes "undigit r" "undigit s" "pad k m @ r = pad k n @ s"
  shows "m = n \<and> r = s"
proof -
  have "pad k m = pad k n \<and> r = s"
    by (rule digits_prefix_unique [OF pad_digits pad_digits assms])
  then show ?thesis by (metis horner_pad)
qed

lemma show_nat_prefix_unique:
  assumes "undigit r" "undigit s" "show_nat m @ r = show_nat n @ s"
  shows "m = n \<and> r = s"
  using digits_prefix_unique [OF show_nat_digits show_nat_digits assms] horner_show_nat by metis

lemma minus_not_digit: "\<not> is_digit (CHR ''-'')"
  by (simp add: is_digit_def)

lemma hd_show_nat_digit: "is_digit (hd (show_nat n @ r))"
  using show_nat_digits [of n] show_nat_nonempty [of n] by simp

lemma hd_show_nat_not_minus: "hd (show_nat n @ r) \<noteq> CHR ''-''"
  using hd_show_nat_digit minus_not_digit by metis

lemma show_int_prefix_unique:
  assumes "undigit r" "undigit s" "show_int i @ r = show_int j @ s"
  shows "i = j \<and> r = s"
proof (cases "i < 0"; cases "j < 0")
  assume "i < 0" "j < 0"
  with assms show_nat_prefix_unique [of r s "nat (- i)" "nat (- j)"] show ?thesis
    by (auto simp: show_int_def eq_nat_nat_iff)
next
  assume "\<not> i < 0" "\<not> j < 0"
  with assms show_nat_prefix_unique [of r s "nat i" "nat j"] show ?thesis
    by (auto simp: show_int_def eq_nat_nat_iff)
next
  assume "i < 0" "\<not> j < 0"
  with assms hd_show_nat_not_minus [of "nat j" s] show ?thesis
    by (simp add: show_int_def) (metis list.sel(1))
next
  assume "\<not> i < 0" "j < 0"
  with assms hd_show_nat_not_minus [of "nat i" r] show ?thesis
    by (simp add: show_int_def)
qed

section \<open>Values and their encoding\<close>

datatype json =
    JNull
  | JBool bool
  | JInt int
  | JStr string
  | JList "json list"
  | JObj "(string \<times> json) list"

text \<open>The escapes of \<^verbatim>\<open>json.encoder.py_encode_basestring\<close>.\<close>

definition hex_digit :: "nat \<Rightarrow> char" where
  "hex_digit n = (if n < 10 then char_of (48 + n) else char_of (87 + n))"

definition json_escape :: "char \<Rightarrow> string" where
  "json_escape c =
     (if c = CHR 0x5C then [CHR 0x5C, CHR 0x5C]
      else if c = CHR 0x22 then [CHR 0x5C, CHR 0x22]
      else if c = CHR 0x0A then [CHR 0x5C, CHR ''n'']
      else if c = CHR 0x0D then [CHR 0x5C, CHR ''r'']
      else if c = CHR 0x09 then [CHR 0x5C, CHR ''t'']
      else if c = CHR 0x0C then [CHR 0x5C, CHR ''f'']
      else if c = CHR 0x08 then [CHR 0x5C, CHR ''b'']
      else if (of_char c :: nat) < 32 then [CHR 0x5C, CHR ''u'', CHR ''0'', CHR ''0'',
             hex_digit (of_char c div 16), hex_digit (of_char c mod 16)]
      else [c])"

definition json_string :: "string \<Rightarrow> string" where
  "json_string s = [CHR 0x22] @ concat (map json_escape s) @ [CHR 0x22]"

fun join_comma :: "string list \<Rightarrow> string" where
  "join_comma [] = []"
| "join_comma [t] = t"
| "join_comma (t # ts) = t @ '','' @ join_comma ts"

fun canonical_json :: "json \<Rightarrow> string" where
  "canonical_json JNull = ''null''"
| "canonical_json (JBool b) = (if b then ''true'' else ''false'')"
| "canonical_json (JInt i) = show_int i"
| "canonical_json (JStr s) = json_string s"
| "canonical_json (JList vs) = ''['' @ join_comma (map canonical_json vs) @ '']''"
| "canonical_json (JObj kvs) = ''{'' @ join_comma
     (map (\<lambda>(k, t). json_string k @ '':'' @ t)
        (sort_key fst (map (\<lambda>(k, v). (k, canonical_json v)) kvs))) @ ''}''"

text \<open>\<^verbatim>\<open>sha256_text\<close>: the digest of the UTF-8 encoding, over a hash function on bytes.\<close>

definition utf8_bytes :: "string \<Rightarrow> byte list" where
  "utf8_bytes s = (case utf8_encode (code_points s) of Some bs \<Rightarrow> bs | None \<Rightarrow> [])"

lemma utf8_bytes_inject [simp]: "utf8_bytes s = utf8_bytes t \<longleftrightarrow> s = t"
proof
  assume eq: "utf8_bytes s = utf8_bytes t"
  obtain a b where ab: "utf8_encode (code_points s) = Some a" "utf8_encode (code_points t) = Some b"
    using utf8_encode_code_points by blast
  with eq have "a = b" by (simp add: utf8_bytes_def)
  with ab have "code_points s = code_points t" by (metis utf8_encode_inject)
  then show "s = t" by simp
qed simp

definition hex_byte :: "byte \<Rightarrow> string" where
  "hex_byte b = [hex_digit (unat b div 16), hex_digit (unat b mod 16)]"

definition hexdigest :: "byte list \<Rightarrow> string" where
  "hexdigest bs = concat (map hex_byte bs)"

definition sha256_text :: "(byte list \<Rightarrow> byte list) \<Rightarrow> string \<Rightarrow> string" where
  "sha256_text h s = hexdigest (h (utf8_bytes s))"

section \<open>The encoding is injective\<close>

fun json_norm :: "json \<Rightarrow> json" where
  "json_norm (JList vs) = JList (map json_norm vs)"
| "json_norm (JObj kvs) = JObj (sort_key fst (map (\<lambda>(k, v). (k, json_norm v)) kvs))"
| "json_norm j = j"

text \<open>The encoding of a value whose dictionaries are already in key order.\<close>

fun plain_json :: "json \<Rightarrow> string" where
  "plain_json JNull = ''null''"
| "plain_json (JBool b) = (if b then ''true'' else ''false'')"
| "plain_json (JInt i) = show_int i"
| "plain_json (JStr s) = json_string s"
| "plain_json (JList vs) = ''['' @ join_comma (map plain_json vs) @ '']''"
| "plain_json (JObj kvs) = ''{'' @ join_comma (map (\<lambda>(k, v). json_string k @ '':'' @ plain_json v) kvs) @ ''}''"

lemma insort_key_map_snd:
  "insort_key fst (k, f v) (map (\<lambda>(k, v). (k, f v)) xs) = map (\<lambda>(k, v). (k, f v)) (insort_key fst (k, v) xs)"
  by (induction xs) auto

lemma sort_key_map_snd:
  "sort_key fst (map (\<lambda>(k, v). (k, f v)) xs) = map (\<lambda>(k, v). (k, f v)) (sort_key fst xs)"
  by (induction xs) (auto simp: insort_key_map_snd)

lemma canonical_json_plain: "canonical_json j = plain_json (json_norm j)"
proof (induction j)
  case (JList vs)
  then have "map canonical_json vs = map (plain_json \<circ> json_norm) vs" by simp
  then show ?case by (simp only: canonical_json.simps json_norm.simps plain_json.simps map_map)
next
  case (JObj kvs)
  have "map (\<lambda>(k, v). (k, canonical_json v)) kvs = map (\<lambda>(k, v). (k, plain_json (json_norm v))) kvs"
    using JObj by (auto simp: snds.simps)
  also have "\<dots> = map (\<lambda>(k, t). (k, plain_json t)) (map (\<lambda>(k, v). (k, json_norm v)) kvs)"
    by auto
  finally have "sort_key fst (map (\<lambda>(k, v). (k, canonical_json v)) kvs)
      = map (\<lambda>(k, t). (k, plain_json t)) (sort_key fst (map (\<lambda>(k, v). (k, json_norm v)) kvs))"
    by (simp only: sort_key_map_snd)
  then show ?case
    by (simp only: canonical_json.simps json_norm.simps plain_json.simps map_map)
      (simp add: comp_def case_prod_unfold)
qed simp_all

definition unhex :: "char \<Rightarrow> nat" where
  "unhex c = (let n = of_char c in if n < 58 then n - 48 else n - 87)"

fun unescape :: "string \<Rightarrow> (char \<times> string) option" where
  "unescape [] = None"
| "unescape (c # r) =
     (if c \<noteq> CHR 0x5C then Some (c, r)
      else (case r of
         [] \<Rightarrow> None
       | e # r' \<Rightarrow>
          if e = CHR ''n'' then Some (CHR 0x0A, r')
          else if e = CHR ''r'' then Some (CHR 0x0D, r')
          else if e = CHR ''t'' then Some (CHR 0x09, r')
          else if e = CHR ''f'' then Some (CHR 0x0C, r')
          else if e = CHR ''b'' then Some (CHR 0x08, r')
          else if e = CHR ''u'' then
            (case r' of _ # _ # a # b # r'' \<Rightarrow> Some (char_of (16 * unhex a + unhex b), r'') | _ \<Rightarrow> None)
          else Some (e, r')))"

lemma unhex_hex_digit: "n < 16 \<Longrightarrow> unhex (hex_digit n) = n"
  by (auto simp: unhex_def hex_digit_def Let_def)

lemma unescape_control:
  assumes "of_char c < (32 :: nat)"
  shows "char_of (16 * unhex (hex_digit (of_char c div 16)) + unhex (hex_digit (of_char c mod 16))) = c"
  using assms by (simp add: unhex_hex_digit)

lemma unescape_escape: "unescape (json_escape c @ r) = Some (c, r)"
  unfolding json_escape_def by (simp split: if_split add: unescape_control)

lemma json_escape_prefix_unique:
  "json_escape c @ r = json_escape d @ s \<Longrightarrow> c = d \<and> r = s"
  by (metis option.inject prod.inject unescape_escape)

lemma json_escape_shape: "\<exists>d t. json_escape c = d # t \<and> d \<noteq> CHR 0x22"
  unfolding json_escape_def by (cases "c = CHR 0x22") (simp, simp)

lemma json_escape_no_quote: "hd (json_escape c @ r) \<noteq> CHR 0x22" "json_escape c \<noteq> []"
  using json_escape_shape [of c] by auto

lemma json_string_prefix_unique:
  assumes "json_string a @ r = json_string b @ s"
  shows "a = b \<and> r = s"
proof -
  let ?q = "CHR 0x22"
  have "concat (map json_escape a) @ ?q # r = concat (map json_escape b) @ ?q # s \<Longrightarrow> a = b \<and> r = s"
  proof (induction a arbitrary: b)
    case Nil
    then show ?case
      using json_escape_no_quote(1) [of "hd b" "concat (map json_escape (tl b)) @ ?q # s"]
      by (cases b) (auto dest: arg_cong [where f = hd])
  next
    case (Cons c a)
    show ?case
    proof (cases b)
      case Nil
      with Cons.prems json_escape_no_quote(1) [of c "concat (map json_escape a) @ ?q # r"] show ?thesis by simp
    next
      case b: (Cons d b')
      with Cons.prems have "json_escape c @ (concat (map json_escape a) @ ?q # r)
         = json_escape d @ (concat (map json_escape b') @ ?q # s)" by simp
      from json_escape_prefix_unique [OF this] Cons.IH [of b'] b show ?thesis by simp
    qed
  qed
  with assms show ?thesis by (simp add: json_string_def)
qed

definition closes :: "string \<Rightarrow> bool" where
  "closes r \<longleftrightarrow> r = [] \<or> hd r \<in> {CHR '','', CHR '']'', CHR ''}''}"

lemma closes_simps [simp]: "closes (CHR '','' # r)" "closes (CHR '']'' # r)" "closes (CHR ''}'' # r)" "closes []"
  by (simp_all add: closes_def)

lemma closes_undigit: "closes r \<Longrightarrow> undigit r"
  by (auto simp: closes_def undigit_def is_digit_def)

definition prefix_unique :: "('a \<Rightarrow> string) \<Rightarrow> 'a \<Rightarrow> bool" where
  "prefix_unique f v \<longleftrightarrow> (\<forall>w r s. f v @ r = f w @ s \<longrightarrow> closes r \<longrightarrow> closes s \<longrightarrow> v = w \<and> r = s)"

definition comma_tail :: "('a \<Rightarrow> string) \<Rightarrow> 'a list \<Rightarrow> string" where
  "comma_tail f vs = concat (map (\<lambda>v. '','' @ f v) vs)"

lemma comma_tail_simps [simp]:
  "comma_tail f [] = []" "comma_tail f (v # vs) = CHR '','' # f v @ comma_tail f vs"
  by (simp_all add: comma_tail_def)

lemma join_comma_Cons: "join_comma (map f (v # vs)) = f v @ comma_tail f vs"
  by (induction vs arbitrary: v) simp_all

lemma closes_comma_tail: "closes (e # r) \<Longrightarrow> closes (comma_tail f vs @ e # r)"
  by (cases vs) (simp_all add: closes_def)

lemma comma_tail_unique:
  assumes "\<forall>v \<in> set vs. prefix_unique f v" "e \<in> {CHR '']'', CHR ''}''}"
    "comma_tail f vs @ e # r = comma_tail f ws @ e # s"
  shows "vs = ws \<and> r = s"
  using assms(1,3)
proof (induction vs arbitrary: ws)
  case Nil
  then show ?case using assms(2) by (cases ws) auto
next
  case (Cons v vs)
  have e: "closes (e # x)" for x using assms(2) by (auto simp: closes_def)
  show ?case
  proof (cases ws)
    case Nil
    then show ?thesis using Cons.prems assms(2) by auto
  next
    case ws: (Cons w ws')
    with Cons.prems have "f v @ (comma_tail f vs @ e # r) = f w @ (comma_tail f ws' @ e # s)" by simp
    with Cons.prems(1) have "v = w" "comma_tail f vs @ e # r = comma_tail f ws' @ e # s"
      by (auto simp: prefix_unique_def closes_comma_tail e)
    with Cons.IH [of ws'] Cons.prems(1) ws show ?thesis by simp
  qed
qed

lemma join_comma_unique:
  assumes "\<forall>v \<in> set vs. prefix_unique f v" "e \<in> {CHR '']'', CHR ''}''}"
    "\<And>v x. f v @ x \<noteq> [] \<and> hd (f v @ x) \<noteq> e"
    "join_comma (map f vs) @ e # r = join_comma (map f ws) @ e # s"
  shows "vs = ws \<and> r = s"
proof (cases vs; cases ws)
  fix v vs' w ws' assume vs: "vs = v # vs'" and ws: "ws = w # ws'"
  have e: "closes (e # x)" for x using assms(2) by (auto simp: closes_def)
  from assms(4) have "f v @ (comma_tail f vs' @ e # r) = f w @ (comma_tail f ws' @ e # s)"
    by (simp only: vs ws join_comma_Cons append_assoc)
  with assms(1) have "v = w" "comma_tail f vs' @ e # r = comma_tail f ws' @ e # s"
    by (auto simp: vs prefix_unique_def closes_comma_tail e)
  moreover have "vs' = ws' \<and> r = s"
    by (rule comma_tail_unique [where f = f and e = e]) (use assms(1,2) calculation in \<open>auto simp: vs\<close>)
  ultimately show ?thesis by (simp add: vs ws)
next
  fix v vs' assume "vs = v # vs'" "ws = []"
  with assms(4) show ?thesis
    using assms(3) [of v "comma_tail f vs' @ e # r"] by (simp only: join_comma_Cons append_assoc) simp
next
  fix w ws' assume "vs = []" "ws = w # ws'"
  with assms(4) show ?thesis
    using assms(3) [of w "comma_tail f ws' @ e # s"]
    by (simp only: join_comma_Cons append_assoc) (simp, metis list.sel(1))
qed (use assms(4) in simp)

lemma hd_plain_json: "plain_json j @ x \<noteq> [] \<and> hd (plain_json j @ x) \<notin> {CHR '']'', CHR ''}''}"
proof (cases j)
  case (JInt i)
  then show ?thesis
    using hd_show_nat_digit [of "nat i" x] show_nat_nonempty [of "nat i"]
    by (auto simp: show_int_def is_digit_def)
qed (auto simp: json_string_def)

text \<open>The kind of a value is visible in its first character.\<close>

fun json_kind :: "json \<Rightarrow> nat" where
  "json_kind JNull = 0" | "json_kind (JBool b) = (if b then 1 else 2)" | "json_kind (JInt _) = 3"
| "json_kind (JStr _) = 4" | "json_kind (JList _) = 5" | "json_kind (JObj _) = 6"

definition kind_of_char :: "char \<Rightarrow> nat" where
  "kind_of_char c = (if c = CHR ''n'' then 0 else if c = CHR ''t'' then 1 else if c = CHR ''f'' then 2
     else if c = CHR ''['' then 5 else if c = CHR ''{'' then 6 else if c = CHR 0x22 then 4 else 3)"

lemma kind_of_hd: "kind_of_char (hd (plain_json j @ x)) = json_kind j"
proof (cases j)
  case (JInt i)
  then show ?thesis
    using hd_show_nat_digit [of "nat i" x] show_nat_nonempty [of "nat i"]
    by (auto simp: show_int_def is_digit_def kind_of_char_def)
qed (auto simp: json_string_def kind_of_char_def)

lemma prefix_unique_plain_json: "prefix_unique plain_json i"
proof (induction i)
  case JNull
  show ?case unfolding prefix_unique_def
  proof (intro allI impI)
    fix j r s assume eq: "plain_json JNull @ r = plain_json j @ s"
    then have "json_kind j = 0" using kind_of_hd [of j s] kind_of_hd [of JNull r] by simp
    with eq show "JNull = j \<and> r = s" by (cases j) (auto split: if_splits)
  qed
next
  case (JBool b)
  show ?case unfolding prefix_unique_def
  proof (intro allI impI)
    fix j r s assume eq: "plain_json (JBool b) @ r = plain_json j @ s"
    then have "json_kind j = json_kind (JBool b)"
      using kind_of_hd [of j s] kind_of_hd [of "JBool b" r] by simp
    with eq show "JBool b = j \<and> r = s" by (cases j) (auto split: if_splits)
  qed
next
  case (JInt x)
  show ?case unfolding prefix_unique_def
  proof (intro allI impI)
    fix j r s assume eq: "plain_json (JInt x) @ r = plain_json j @ s" and "closes r" "closes s"
    from eq have "json_kind j = 3" using kind_of_hd [of j s] kind_of_hd [of "JInt x" r] by simp
    with eq \<open>closes r\<close> \<open>closes s\<close> show "JInt x = j \<and> r = s"
      by (cases j) (auto dest: show_int_prefix_unique [OF closes_undigit closes_undigit] split: if_splits)
  qed
next
  case (JStr x)
  show ?case unfolding prefix_unique_def
  proof (intro allI impI)
    fix j r s assume eq: "plain_json (JStr x) @ r = plain_json j @ s"
    then have "json_kind j = 4" using kind_of_hd [of j s] kind_of_hd [of "JStr x" r] by simp
    with eq show "JStr x = j \<and> r = s"
      by (cases j) (auto dest: json_string_prefix_unique split: if_splits)
  qed
next
  case (JList vs)
  show ?case unfolding prefix_unique_def
  proof (intro allI impI)
    fix j r s assume eq: "plain_json (JList vs) @ r = plain_json j @ s"
    then have "json_kind j = 5" using kind_of_hd [of j s] kind_of_hd [of "JList vs" r] by simp
    then obtain ws where j: "j = JList ws" by (cases j) (auto split: if_splits)
    have "vs = ws \<and> r = s"
      by (rule join_comma_unique [where f = plain_json and e = "CHR '']''"])
        (use eq JList hd_plain_json in \<open>auto simp: j\<close>)
    then show "JList vs = j \<and> r = s" by (simp add: j)
  qed
next
  case (JObj kvs)
  let ?f = "\<lambda>(k, v). json_string k @ '':'' @ plain_json v"
  have pu: "\<forall>kv \<in> set kvs. prefix_unique ?f kv"
  proof
    fix kv assume kv: "kv \<in> set kvs"
    obtain k v where kv': "kv = (k, v)" by (cases kv)
    have v: "prefix_unique plain_json v" using JObj kv kv' by (auto simp: snds.simps)
    show "prefix_unique ?f kv" unfolding prefix_unique_def
    proof (intro allI impI)
      fix w r s assume eq: "?f kv @ r = ?f w @ s" and "closes r" "closes s"
      obtain k' v' where w: "w = (k', v')" by (cases w)
      have "k = k' \<and> '':'' @ plain_json v @ r = '':'' @ plain_json v' @ s"
        by (rule json_string_prefix_unique) (use eq in \<open>simp add: kv' w\<close>)
      with v \<open>closes r\<close> \<open>closes s\<close> show "kv = w \<and> r = s" by (auto simp: prefix_unique_def kv' w)
    qed
  qed
  show ?case unfolding prefix_unique_def
  proof (intro allI impI)
    fix j r s assume eq: "plain_json (JObj kvs) @ r = plain_json j @ s"
    then have "json_kind j = 6" using kind_of_hd [of j s] kind_of_hd [of "JObj kvs" r] by simp
    then obtain kws where j: "j = JObj kws" by (cases j) (auto split: if_splits)
    have "kvs = kws \<and> r = s"
      by (rule join_comma_unique [where f = ?f and e = "CHR ''}''"])
        (use eq pu in \<open>auto simp: j json_string_def\<close>)
    then show "JObj kvs = j \<and> r = s" by (simp add: j)
  qed
qed

lemma canonical_json_norm_inject:
  assumes "canonical_json i = canonical_json j"
  shows "json_norm i = json_norm j"
proof -
  have "plain_json (json_norm i) @ [] = plain_json (json_norm j) @ []"
    using assms by (simp only: canonical_json_plain)
  with prefix_unique_plain_json [of "json_norm i"] closes_simps(4) show ?thesis
    unfolding prefix_unique_def by blast
qed

section \<open>Digests\<close>

text \<open>
  The interface to \<^verbatim>\<open>hashlib.sha256\<close>: a function on bytes with 32-byte results. What the
  orchestrator relies on is that a digest passes its own format check. That equal digests mean
  equal contents is stated with the alternative spelled out: two different inputs with the same
  hash, a collision.
\<close>

locale digest_function =
  fixes h :: "byte list \<Rightarrow> byte list"
  assumes digest_length: "length (h m) = 32"

definition collision :: "(byte list \<Rightarrow> byte list) \<Rightarrow> byte list \<Rightarrow> byte list \<Rightarrow> bool" where
  "collision h a b \<longleftrightarrow> a \<noteq> b \<and> h a = h b"

lemma hex_digit_range: "n < 16 \<Longrightarrow> hex_digit n \<in> set hex_digits"
proof -
  have "\<forall>n \<in> set [0..<16]. hex_digit n \<in> set hex_digits"
    by (simp add: upt_rec hex_digit_def hex_digits_def char_of_def bit_simps)
  then show "n < 16 \<Longrightarrow> ?thesis" by simp
qed

lemma unat_byte: "unat (b :: byte) < 256"
  using unsigned_less [of b, where ?'a = nat] by simp

lemma hex_byte_range: "c \<in> set (hex_byte b) \<Longrightarrow> c \<in> set hex_digits"
proof -
  have "unat b div 16 < 16" "unat b mod 16 < 16" using unat_byte [of b] by linarith+
  then show "c \<in> set (hex_byte b) \<Longrightarrow> ?thesis"
    by (auto simp: hex_byte_def hex_digit_range)
qed

lemma length_hexdigest: "length (hexdigest bs) = 2 * length bs"
  by (induction bs) (simp_all add: hexdigest_def hex_byte_def)

lemma is_sha256_hexdigest: "length bs = 32 \<Longrightarrow> is_sha256_hex (hexdigest bs)"
  using hex_byte_range by (auto simp: is_sha256_hex_def length_hexdigest) (auto simp: hexdigest_def)

lemma hex_byte_inject: "hex_byte a = hex_byte b \<Longrightarrow> a = b"
proof -
  assume eq: "hex_byte a = hex_byte b"
  have d: "unat c div 16 < 16" for c :: byte
    using unat_byte [of c] by linarith
  from eq have "unhex (hex_digit (unat a div 16)) = unhex (hex_digit (unat b div 16))"
    "unhex (hex_digit (unat a mod 16)) = unhex (hex_digit (unat b mod 16))"
    by (simp_all add: hex_byte_def)
  then have "unat a div 16 = unat b div 16" "unat a mod 16 = unat b mod 16"
    by (simp_all add: unhex_hex_digit d)
  then have "unat a = unat b" by (metis div_mult_mod_eq)
  then show ?thesis by (rule unsigned_word_eqI)
qed

lemma hexdigest_inject: "hexdigest a = hexdigest b \<longleftrightarrow> a = b"
proof (induction a arbitrary: b)
  case Nil
  then show ?case by (cases b) (simp_all add: hexdigest_def hex_byte_def)
next
  case (Cons x a)
  show ?case
  proof (cases b)
    case Nil
    then show ?thesis by (simp add: hexdigest_def hex_byte_def)
  next
    case b: (Cons y b')
    have "hexdigest (x # a) = hex_byte x @ hexdigest a" "hexdigest b = hex_byte y @ hexdigest b'"
      by (simp_all add: hexdigest_def b)
    moreover have "length (hex_byte x) = length (hex_byte y)" by (simp add: hex_byte_def)
    ultimately show ?thesis using Cons.IH [of b'] b hex_byte_inject by auto
  qed
qed

lemma sha256_text_eq_iff:
  "sha256_text h s = sha256_text h t \<longleftrightarrow> s = t \<or> collision h (utf8_bytes s) (utf8_bytes t)"
  by (auto simp: sha256_text_def hexdigest_inject collision_def)

context digest_function
begin

lemma sha256_text_hex: "is_sha256_hex (sha256_text h s)"
  by (simp add: sha256_text_def is_sha256_hexdigest digest_length)

end

section \<open>Properties\<close>

text \<open>
  Canonical JSON is a faithful identity for what is hashed: two values have the same
  canonical text exactly when they are equal up to the order of dictionary keys.
\<close>

theorem canonical_json_identity:
  "canonical_json i = canonical_json j \<longleftrightarrow> json_norm i = json_norm j"
proof
  show "json_norm i = json_norm j" if "canonical_json i = canonical_json j"
    using that by (rule canonical_json_norm_inject)
  show "canonical_json i = canonical_json j" if "json_norm i = json_norm j"
    using that by (simp only: canonical_json_plain)
qed

end
