(* ===== verification/Py_Time.thy ===== *)
theory Py_Time
  imports Json
begin

text \<open>
  The text form of a UTC timestamp: \<^verbatim>\<open>datetime.isoformat\<close> on the proleptic Gregorian
  calendar, and \<^verbatim>\<open>_canonical_time\<close> of \<^verbatim>\<open>backend/orchestrator/scheduler.py\<close>, which is
  part of what a lease token signs. Different instants have different texts.
\<close>

section \<open>The calendar\<close>

definition is_leap :: "nat \<Rightarrow> bool" where
  "is_leap y \<longleftrightarrow> y mod 4 = 0 \<and> (y mod 100 \<noteq> 0 \<or> y mod 400 = 0)"

definition days_before_year :: "nat \<Rightarrow> int" where
  "days_before_year y =
     (let k = int y - 1 in k * 365 + k div 4 - k div 100 + k div 400)"

definition days_before_month :: "nat \<Rightarrow> nat \<Rightarrow> nat" where
  "days_before_month y m =
     [0, 31, 59, 90, 120, 151, 181, 212, 243, 273, 304, 334] ! (m - 1)
     + (if 2 < m \<and> is_leap y then 1 else 0)"

text \<open>
  The year of the day with ordinal \<open>n\<close> (day 1 is the first of January of year 1): a lower bound,
  then the few steps up to the exact year. Month and day follow from the day of the year.
\<close>

function year_from :: "nat \<Rightarrow> nat \<Rightarrow> nat" where
  "year_from y n = (if days_before_year (y + 1) < int n then year_from (y + 1) n else y)"
  by pat_completeness auto
termination
proof (relation "measure (\<lambda>(y, n). nat (int n - days_before_year y))", goal_cases)
  case (2 y n)
  have "days_before_year y < days_before_year (y + 1)"
  proof -
    have "(int y - 1) div 4 \<le> int y div 4" "int y div 100 \<le> (int y - 1) div 100 + 1"
      "(int y - 1) div 400 \<le> int y div 400"
      by (simp_all add: zdiv_mono1)
    then show ?thesis by (simp add: days_before_year_def Let_def)
  qed
  with 2 show ?case by simp
qed simp

declare year_from.simps [simp del]

definition year_of :: "nat \<Rightarrow> nat" where
  "year_of n = year_from ((n - 1) div 366 + 1) n"

definition months_descending :: "nat list" where
  "months_descending = [12, 11, 10, 9, 8, 7, 6, 5, 4, 3, 2, 1]"

definition month_of :: "nat \<Rightarrow> nat \<Rightarrow> nat" where
  "month_of y doy = hd (filter (\<lambda>m. days_before_month y m < doy) months_descending)"

definition ord2ymd :: "nat \<Rightarrow> nat \<times> nat \<times> nat" where
  "ord2ymd n =
     (let y = year_of n; doy = nat (int n - days_before_year y); m = month_of y doy
      in (y, m, doy - days_before_month y m))"

lemma year_from_before: "days_before_year y < int n \<Longrightarrow> days_before_year (year_from y n) < int n"
proof (induction y n rule: year_from.induct)
  case (1 y n)
  then show ?case by (subst year_from.simps) simp
qed

lemma days_before_year_le: "days_before_year (k + 1) \<le> 366 * int k"
  by (simp add: days_before_year_def Let_def)

lemma year_of_before: "1 \<le> n \<Longrightarrow> days_before_year (year_of n) < int n"
proof -
  assume "1 \<le> n"
  have "days_before_year ((n - 1) div 366 + 1) \<le> 366 * int ((n - 1) div 366)"
    by (rule days_before_year_le)
  also have "\<dots> < int n" using \<open>1 \<le> n\<close> by linarith
  finally show ?thesis unfolding year_of_def by (rule year_from_before)
qed

lemma month_of_before: "1 \<le> doy \<Longrightarrow> days_before_month y (month_of y doy) < doy"
proof -
  let ?ms = "filter (\<lambda>m. days_before_month y m < doy) months_descending"
  assume "1 \<le> doy"
  then have "1 \<in> set ?ms" by (simp add: days_before_month_def months_descending_def)
  then have "?ms \<noteq> []" by force
  then have "hd ?ms \<in> set ?ms" by (rule hd_in_set)
  then show ?thesis by (simp add: month_of_def)
qed

text \<open>The date determines the day: the three parts add up to the ordinal.\<close>

lemma ord2ymd_sum:
  assumes "1 \<le> n" "ord2ymd n = (y, m, d)"
  shows "int n = days_before_year y + int (days_before_month y m) + int d"
proof -
  have y: "y = year_of n" and d: "d = nat (int n - days_before_year y) - days_before_month y m"
    and m: "m = month_of y (nat (int n - days_before_year y))"
    using assms(2) by (auto simp: ord2ymd_def Let_def)
  have "days_before_year y < int n" using year_of_before [OF assms(1)] y by simp
  moreover from this have "days_before_month y m < nat (int n - days_before_year y)"
    unfolding m by (intro month_of_before) simp
  ultimately show ?thesis using d by linarith
qed

lemma ord2ymd_inject: "1 \<le> n \<Longrightarrow> 1 \<le> n' \<Longrightarrow> ord2ymd n = ord2ymd n' \<Longrightarrow> n = n'"
  by (cases "ord2ymd n'") (metis ord2ymd_sum of_nat_eq_iff)

section \<open>Text of a UTC instant\<close>

definition iso_seconds :: "nat \<Rightarrow> string" where
  "iso_seconds s =
     (let (y, m, d) = ord2ymd (s div 86400 + 1); r = s mod 86400 in
      pad 4 y @ ''-'' @ pad 2 m @ ''-'' @ pad 2 d @ ''T'' @ pad 2 (r div 3600) @ '':''
      @ pad 2 (r div 60 mod 60) @ '':'' @ pad 2 (r mod 60))"

text \<open>\<^verbatim>\<open>isoformat()\<close> leaves out zero microseconds; \<^verbatim>\<open>timespec="microseconds"\<close> never does.\<close>

definition isoformat_utc :: "int \<Rightarrow> string" where
  "isoformat_utc t =
     (let us = nat t mod 1000000 in
      iso_seconds (nat t div 1000000) @ (if us = 0 then [] else ''.'' @ pad 6 us) @ ''+00:00'')"

definition canonical_time :: "int \<Rightarrow> string" where
  "canonical_time t = iso_seconds (nat t div 1000000) @ ''.'' @ pad 6 (nat t mod 1000000) @ ''Z''"

lemma undigit_simps [simp]:
  "undigit (CHR ''-'' # r)" "undigit (CHR ''T'' # r)" "undigit (CHR '':'' # r)" "undigit (CHR ''.'' # r)"
  "undigit (CHR ''Z'' # r)" "undigit (CHR ''+'' # r)" "undigit []"
  by (simp_all add: undigit_def is_digit_def)

lemma pad_sep_unique:
  "\<not> is_digit c \<Longrightarrow> pad k m @ c # r = pad k n @ c # s \<Longrightarrow> m = n \<and> r = s"
  by (drule pad_prefix_unique [rotated 2]) (simp_all add: undigit_def)

lemma seconds_split: "(r :: nat) = r div 3600 * 3600 + r div 60 mod 60 * 60 + r mod 60"
proof -
  have "r div 3600 = r div 60 div 60" by (simp flip: div_mult2_eq)
  moreover have "r = r div 60 * 60 + r mod 60" "r div 60 = r div 60 div 60 * 60 + r div 60 mod 60"
    by simp_all
  ultimately show ?thesis by linarith
qed

lemma iso_seconds_prefix_unique:
  assumes "iso_seconds s @ r = iso_seconds s' @ r'" "undigit r" "undigit r'"
  shows "s = s' \<and> r = r'"
proof -
  obtain y m d where ymd: "ord2ymd (s div 86400 + 1) = (y, m, d)" by (cases "ord2ymd (s div 86400 + 1)")
  obtain y' m' d' where ymd': "ord2ymd (s' div 86400 + 1) = (y', m', d')"
    by (cases "ord2ymd (s' div 86400 + 1)")
  let ?h = "s mod 86400 div 3600" and ?h' = "s' mod 86400 div 3600"
  let ?mi = "s mod 86400 div 60 mod 60" and ?mi' = "s' mod 86400 div 60 mod 60"
  let ?se = "s mod 86400 mod 60" and ?se' = "s' mod 86400 mod 60"
  from assms(1) have eq: "pad 4 y @ CHR ''-'' # pad 2 m @ CHR ''-'' # pad 2 d @ CHR ''T'' # pad 2 ?h @ CHR '':'' #
       pad 2 ?mi @ CHR '':'' # pad 2 ?se @ r
     = pad 4 y' @ CHR ''-'' # pad 2 m' @ CHR ''-'' # pad 2 d' @ CHR ''T'' # pad 2 ?h' @ CHR '':'' #
       pad 2 ?mi' @ CHR '':'' # pad 2 ?se' @ r'"
    by (simp add: iso_seconds_def Let_def ymd [simplified] ymd' [simplified])
  note sep = pad_sep_unique [rotated]
  from sep [OF eq] have 1: "y = y'" and eq1: "pad 2 m @ CHR ''-'' # pad 2 d @ CHR ''T'' # pad 2 ?h @ CHR '':'' #
       pad 2 ?mi @ CHR '':'' # pad 2 ?se @ r = pad 2 m' @ CHR ''-'' # pad 2 d' @ CHR ''T'' # pad 2 ?h' @ CHR '':'' #
       pad 2 ?mi' @ CHR '':'' # pad 2 ?se' @ r'" by (simp_all add: is_digit_def)
  from sep [OF eq1] have 2: "m = m'" and eq2: "pad 2 d @ CHR ''T'' # pad 2 ?h @ CHR '':'' #
       pad 2 ?mi @ CHR '':'' # pad 2 ?se @ r = pad 2 d' @ CHR ''T'' # pad 2 ?h' @ CHR '':'' #
       pad 2 ?mi' @ CHR '':'' # pad 2 ?se' @ r'" by (simp_all add: is_digit_def)
  from sep [OF eq2] have 3: "d = d'" and eq3: "pad 2 ?h @ CHR '':'' # pad 2 ?mi @ CHR '':'' # pad 2 ?se @ r
       = pad 2 ?h' @ CHR '':'' # pad 2 ?mi' @ CHR '':'' # pad 2 ?se' @ r'" by (simp_all add: is_digit_def)
  from sep [OF eq3] have 4: "?h = ?h'" and eq4: "pad 2 ?mi @ CHR '':'' # pad 2 ?se @ r
       = pad 2 ?mi' @ CHR '':'' # pad 2 ?se' @ r'" by (simp_all add: is_digit_def)
  from sep [OF eq4] have 5: "?mi = ?mi'" and eq5: "pad 2 ?se @ r = pad 2 ?se' @ r'" by (simp_all add: is_digit_def)
  from pad_prefix_unique [OF assms(2,3) eq5] have 6: "?se = ?se'" and r: "r = r'" by simp_all
  have "s div 86400 + 1 = s' div 86400 + 1"
    using ymd ymd' 1 2 3 by (intro ord2ymd_inject) auto
  moreover have "s mod 86400 = s' mod 86400"
    using seconds_split [of "s mod 86400"] seconds_split [of "s' mod 86400"] 4 5 6 by simp
  ultimately have "s = s'" by (metis add_right_cancel div_mult_mod_eq)
  with r show ?thesis by simp
qed

lemma canonical_time_inject:
  assumes "0 \<le> t" "0 \<le> t'" "canonical_time t = canonical_time t'"
  shows "t = t'"
proof -
  from assms(3) have "iso_seconds (nat t div 1000000) @ CHR ''.'' # pad 6 (nat t mod 1000000) @ ''Z''
      = iso_seconds (nat t' div 1000000) @ CHR ''.'' # pad 6 (nat t' mod 1000000) @ ''Z''"
    by (simp add: canonical_time_def)
  from iso_seconds_prefix_unique [OF this]
  have s: "nat t div 1000000 = nat t' div 1000000"
    and "pad 6 (nat t mod 1000000) @ ''Z'' = pad 6 (nat t' mod 1000000) @ ''Z''" by simp_all
  then have "nat t mod 1000000 = nat t' mod 1000000"
    using pad_sep_unique [of "CHR ''Z''" 6 _ "[]" _ "[]"] by (simp add: is_digit_def)
  with s have "nat t = nat t'" by (metis div_mult_mod_eq)
  with assms(1,2) show ?thesis by simp
qed

end
