(* ===== verification/Orch_Models.thy ===== *)
theory Orch_Models
  imports Py_Time
begin

text \<open>
  \<^verbatim>\<open>backend/orchestrator/models.py\<close>: the immutable records of the orchestration core, the
  validation that every construction and every \<^verbatim>\<open>dataclasses.replace\<close> runs, run budgets,
  retry policies, the digests that bind a task's contract, a run's task inventory and a task's
  result, and the check that the task graph has no cycle.

  A field \<open>f\<close> of a class \<open>C\<close> is the record field \<open>c_f\<close>. The sources also test that each
  field has the exact Python type; the types of the records stand for those tests. The argument
  \<open>h\<close> of a definition is the hash function (\<^verbatim>\<open>hashlib.sha256\<close>) on bytes.
\<close>

section \<open>Enumerations\<close>

datatype run_phase =
    Run_DRAFT | Run_CLARIFYING | Run_AWAITING_PLAN_APPROVAL | Run_READY | Run_EXECUTING
  | Run_AWAITING_CHANGE_APPROVAL | Run_VERIFYING | Run_COMPLETED | Run_FAILED | Run_CANCELLED

datatype coordination_stage =
    QUESTIONING | AWAITING_BRIEF_APPROVAL | RESEARCH | AWAITING_ARCHITECTURE_BOM_APPROVAL
  | SCHEMATIC_STAGE | AWAITING_SCHEMATIC_APPROVAL | AWAITING_LAYOUT_CONSTRAINT_APPROVAL
  | PLACEMENT_STAGE | AWAITING_PLACEMENT_APPROVAL | ROUTING_STAGE | AWAITING_ROUTING_APPROVAL
  | RELEASE_CHECK | AWAITING_RELEASE_APPROVAL | RELEASED

datatype agent_state =
    Agent_QUEUED | Agent_AVAILABLE | Agent_LEASED | Agent_RUNNING | Agent_OFFLINE | Agent_FAILED
  | Agent_RETIRED

datatype agent_class =
    COORDINATOR | INTERVIEWER | RESEARCHER | DOMAIN_DESIGNER | CRITIC | DETERMINISTIC_EXECUTOR
  | VERIFICATION_WORKER | RELEASE_REVIEWER

datatype risk_class = Risk_LOW | Risk_MEDIUM | Risk_HIGH | Risk_CRITICAL

datatype task_state =
    Task_QUEUED | Task_BLOCKED | Task_LEASED | Task_RUNNING | Task_RETRY_WAIT | Task_SUCCEEDED
  | Task_FAILED | Task_CANCELLED

datatype task_kind =
    Kind_RESEARCH | Kind_DESIGN | Kind_IMPLEMENT | Kind_VERIFY | Kind_REVIEW | Kind_SYNTHESIZE

datatype question_state = Question_OPEN | Question_ANSWERED | Question_WITHDRAWN

datatype approval_kind =
    Approve_BRIEF | Approve_ARCHITECTURE_BOM | Approve_SCHEMATIC | Approve_LAYOUT_CONSTRAINTS
  | Approve_PLACEMENT | Approve_ROUTING | Approve_RELEASE | Approve_PLAN | Approve_CHANGESET
  | Approve_EXCEPTION

datatype approval_state =
    Approval_REQUESTED | Approval_APPROVED | Approval_REJECTED | Approval_EXPIRED | Approval_REVOKED

datatype evidence_kind =
    USER_RESPONSE | TOOL_OUTPUT | ARTIFACT | DESIGN_CHECK | TEST_RESULT | MODEL_TRACE
  | APPROVAL_RECEIPT

fun agent_class_value :: "agent_class \<Rightarrow> string" where
  "agent_class_value COORDINATOR = ''coordinator''"
| "agent_class_value INTERVIEWER = ''interviewer''"
| "agent_class_value RESEARCHER = ''researcher''"
| "agent_class_value DOMAIN_DESIGNER = ''domain_designer''"
| "agent_class_value CRITIC = ''critic''"
| "agent_class_value DETERMINISTIC_EXECUTOR = ''deterministic_executor''"
| "agent_class_value VERIFICATION_WORKER = ''verification_worker''"
| "agent_class_value RELEASE_REVIEWER = ''release_reviewer''"

fun risk_class_value :: "risk_class \<Rightarrow> string" where
  "risk_class_value Risk_LOW = ''low''"
| "risk_class_value Risk_MEDIUM = ''medium''"
| "risk_class_value Risk_HIGH = ''high''"
| "risk_class_value Risk_CRITICAL = ''critical''"

fun task_kind_value :: "task_kind \<Rightarrow> string" where
  "task_kind_value Kind_RESEARCH = ''research''"
| "task_kind_value Kind_DESIGN = ''design''"
| "task_kind_value Kind_IMPLEMENT = ''implement''"
| "task_kind_value Kind_VERIFY = ''verify''"
| "task_kind_value Kind_REVIEW = ''review''"
| "task_kind_value Kind_SYNTHESIZE = ''synthesize''"

fun evidence_kind_value :: "evidence_kind \<Rightarrow> string" where
  "evidence_kind_value USER_RESPONSE = ''user_response''"
| "evidence_kind_value TOOL_OUTPUT = ''tool_output''"
| "evidence_kind_value ARTIFACT = ''artifact''"
| "evidence_kind_value DESIGN_CHECK = ''design_check''"
| "evidence_kind_value TEST_RESULT = ''test_result''"
| "evidence_kind_value MODEL_TRACE = ''model_trace''"
| "evidence_kind_value APPROVAL_RECEIPT = ''approval_receipt''"

definition terminal_run_phases :: "run_phase set" where
  "terminal_run_phases = {Run_COMPLETED, Run_FAILED, Run_CANCELLED}"

definition require_aware :: "datetime \<Rightarrow> unit result" where
  "require_aware d = raise_first [(\<not> is_aware d, DomainError ''timezone-aware'')]"

section \<open>Budgets\<close>

record budget =
  token_limit :: "int option"
  tool_call_limit :: "int option"
  agent_dispatch_limit :: "int option"
  tokens_used :: int
  tokens_reserved :: int
  tool_calls_used :: int
  tool_calls_reserved :: int
  agent_dispatches_used :: int
  agent_dispatches_reserved :: int

definition over_limit :: "int option \<Rightarrow> int \<Rightarrow> bool" where
  "over_limit limit requested = (case limit of None \<Rightarrow> False | Some l \<Rightarrow> requested > l)"

definition negative_opt :: "int option \<Rightarrow> bool" where
  "negative_opt v = (case v of None \<Rightarrow> False | Some i \<Rightarrow> i < 0)"

definition budget_post_init :: "budget \<Rightarrow> unit result" where
  "budget_post_init b = raise_first
     [(negative_opt (token_limit b) \<or> negative_opt (tool_call_limit b)
         \<or> negative_opt (agent_dispatch_limit b) \<or> tokens_used b < 0 \<or> tokens_reserved b < 0
         \<or> tool_calls_used b < 0 \<or> tool_calls_reserved b < 0 \<or> agent_dispatches_used b < 0
         \<or> agent_dispatches_reserved b < 0, DomainError ''negative budget''),
      (over_limit (token_limit b) (tokens_used b + tokens_reserved b), BudgetExceeded ''tokens''),
      (over_limit (tool_call_limit b) (tool_calls_used b + tool_calls_reserved b),
         BudgetExceeded ''tool calls''),
      (over_limit (agent_dispatch_limit b) (agent_dispatches_used b + agent_dispatches_reserved b),
         BudgetExceeded ''agent dispatches'')]"

definition unlimited_budget :: budget where
  "unlimited_budget = \<lparr>token_limit = None, tool_call_limit = None, agent_dispatch_limit = None,
     tokens_used = 0, tokens_reserved = 0, tool_calls_used = 0, tool_calls_reserved = 0,
     agent_dispatches_used = 0, agent_dispatches_reserved = 0\<rparr>"

definition reserve :: "budget \<Rightarrow> int \<Rightarrow> int \<Rightarrow> int \<Rightarrow> budget result" where
  "reserve b tokens tool_calls agent_dispatches =
     (if min tokens (min tool_calls agent_dispatches) < 0
      then Inl (DomainError ''negative reservation'')
      else validated budget_post_init
        (b\<lparr>tokens_reserved := tokens_reserved b + tokens,
           tool_calls_reserved := tool_calls_reserved b + tool_calls,
           agent_dispatches_reserved := agent_dispatches_reserved b + agent_dispatches\<rparr>))"

definition settle ::
  "budget \<Rightarrow> int \<Rightarrow> int \<Rightarrow> int \<Rightarrow> int \<Rightarrow> int \<Rightarrow> int \<Rightarrow> budget result" where
  "settle b reserved_tokens actual_tokens reserved_tool_calls actual_tool_calls
       reserved_agent_dispatches actual_agent_dispatches =
     (case raise_first
        [(min reserved_tokens (min actual_tokens (min reserved_tool_calls (min actual_tool_calls
            (min reserved_agent_dispatches actual_agent_dispatches)))) < 0,
            DomainError ''negative settlement''),
         (reserved_tokens > tokens_reserved b, DomainError ''more tokens than held''),
         (reserved_tool_calls > tool_calls_reserved b, DomainError ''more tool calls than held''),
         (reserved_agent_dispatches > agent_dispatches_reserved b,
            DomainError ''more agent dispatches than held'')] of
        Inl e \<Rightarrow> Inl e
      | Inr _ \<Rightarrow> validated budget_post_init
        (b\<lparr>tokens_reserved := tokens_reserved b - reserved_tokens,
           tokens_used := tokens_used b + actual_tokens,
           tool_calls_reserved := tool_calls_reserved b - reserved_tool_calls,
           tool_calls_used := tool_calls_used b + actual_tool_calls,
           agent_dispatches_reserved := agent_dispatches_reserved b - reserved_agent_dispatches,
           agent_dispatches_used := agent_dispatches_used b + actual_agent_dispatches\<rparr>))"

section \<open>Runs and retry policies\<close>

record run =
  run_id :: string
  run_objective :: string
  run_created_at :: datetime
  run_phase :: run_phase
  run_coordination_stage :: coordination_stage
  run_checkpoint_digest :: "string option"
  run_coordination_revision :: int
  run_strict_user_coordination :: bool
  run_require_plan_approval :: bool
  run_require_independent_critic :: bool
  run_task_inventory_digest :: "string option"
  run_plan_digest :: "string option"
  run_max_concurrency :: int
  run_budget :: budget
  run_revision :: int

definition run_post_init :: "run \<Rightarrow> unit result" where
  "run_post_init r = raise_first
     [(case run_task_inventory_digest r of None \<Rightarrow> False | Some d \<Rightarrow> \<not> is_sha256_hex d,
         DomainError ''run task inventory digest''),
      (\<not> is_aware (run_created_at r), DomainError ''timezone-aware''),
      (run_id r = [] \<or> strip (run_objective r) = [], DomainError ''run ID and objective''),
      (run_max_concurrency r < 1, DomainError ''max_concurrency''),
      (run_revision r < 0 \<or> run_coordination_revision r < 0, DomainError ''run revisions'')]"

record retry_policy =
  max_attempts :: int
  initial_backoff_seconds :: int
  multiplier :: int
  max_backoff_seconds :: int

definition retry_policy_post_init :: "retry_policy \<Rightarrow> unit result" where
  "retry_policy_post_init p = raise_first
     [(max_attempts p < 1, DomainError ''max_attempts''),
      (initial_backoff_seconds p < 0 \<or> max_backoff_seconds p < 0, DomainError ''negative backoff''),
      (multiplier p < 1, DomainError ''retry multiplier'')]"

definition delay_seconds :: "retry_policy \<Rightarrow> int \<Rightarrow> int result" where
  "delay_seconds p failed_attempt =
     (if failed_attempt < 1 then Inl (DomainError ''failed_attempt'')
      else let delay = initial_backoff_seconds p * multiplier p ^ nat (failed_attempt - 1)
           in Inr (min delay (max_backoff_seconds p)))"

section \<open>Leases, tasks, agents\<close>

record check_requirement =
  check_id :: string
  check_source :: string
  check_policy_digest :: string

definition check_requirement_post_init :: "check_requirement \<Rightarrow> unit result" where
  "check_requirement_post_init c = raise_first
     [(strip (check_id c) = [] \<or> strip (check_source c) = [] \<or> check_policy_digest c = [],
        DomainError ''check requirement fields'')]"

record lease =
  lease_token :: string
  lease_task_id :: string
  lease_agent_id :: string
  lease_attempt :: int
  lease_acquired_at :: datetime
  lease_expires_at :: datetime
  lease_task_contract_digest :: string
  lease_agent_contract_digest :: string

definition lease_post_init :: "lease \<Rightarrow> unit result" where
  "lease_post_init l = raise_first
     [(lease_task_id l = [] \<or> lease_agent_id l = [], DomainError ''lease IDs''),
      (\<not> is_aware (lease_acquired_at l), DomainError ''timezone-aware''),
      (\<not> is_aware (lease_expires_at l), DomainError ''timezone-aware''),
      (\<not> is_sha256_hex (lease_token l), DomainError ''lease token digest''),
      (\<not> is_sha256_hex (lease_task_contract_digest l), DomainError ''lease task contract digest''),
      (\<not> is_sha256_hex (lease_agent_contract_digest l), DomainError ''lease agent contract digest''),
      (lease_attempt l < 1, DomainError ''lease attempt''),
      (instant (lease_expires_at l) \<le> instant (lease_acquired_at l), DomainError ''lease expiry'')]"

record result_binding =
  binding_task_id :: string
  binding_result_digest :: string

definition result_binding_post_init :: "result_binding \<Rightarrow> unit result" where
  "result_binding_post_init b = raise_first
     [(binding_task_id b = [], DomainError ''reviewed result task ID''),
      (\<not> is_sha256_hex (binding_result_digest b), DomainError ''reviewed result digest'')]"

record task =
  task_id :: string
  task_run_id :: string
  task_title :: string
  task_instructions :: string
  task_kind :: task_kind
  task_created_seq :: int
  task_priority :: int
  task_wave :: int
  task_dependencies :: "string list"
  task_required_capabilities :: "string list"
  task_required_agent_class :: "agent_class option"
  task_excluded_agent_ids :: "string list"
  task_risk_class :: risk_class
  task_input_revision :: "string option"
  task_output_schema_digest :: "string option"
  task_idempotency_key :: "string option"
  task_required_checks :: "check_requirement list"
  task_reviewed_task_ids :: "string list"
  task_reviewed_result_bindings :: "result_binding list"
  task_estimated_tokens :: int
  task_retry_policy :: retry_policy
  task_state :: task_state
  task_attempt :: int
  task_next_eligible_at :: "datetime option"
  task_lease :: "lease option"
  task_result_evidence_ids :: "string list"
  task_completed_by_agent_id :: "string option"
  task_failure_code :: "string option"
  task_failure_message :: "string option"

definition active_task_state :: "task_state \<Rightarrow> bool" where
  "active_task_state s \<longleftrightarrow> s \<in> {Task_LEASED, Task_RUNNING}"

definition task_post_init :: "task \<Rightarrow> unit result" where
  "task_post_init t = raise_first
     [([] \<in> set (task_dependencies t), DomainError ''dependency IDs''),
      ([] \<in> set (task_required_capabilities t), DomainError ''required capabilities''),
      ([] \<in> set (task_excluded_agent_ids t), DomainError ''excluded agent IDs''),
      ([] \<in> set (task_reviewed_task_ids t), DomainError ''reviewed task IDs''),
      ([] \<in> set (task_result_evidence_ids t), DomainError ''result evidence IDs''),
      (\<not> distinct (map binding_task_id (task_reviewed_result_bindings t)),
         DomainError ''binding task IDs unique''),
      (\<exists>b \<in> set (task_reviewed_result_bindings t).
         binding_task_id b \<notin> set (task_reviewed_task_ids t), DomainError ''binding names reviewed task''),
      (task_completed_by_agent_id t = Some [], DomainError ''completing agent ID''),
      (task_id t = [] \<or> task_run_id t = [] \<or> strip (task_title t) = [],
         DomainError ''task ID, run ID, and title''),
      (task_created_seq t < 0 \<or> task_wave t < 0 \<or> task_attempt t < 0,
         DomainError ''negative sequence, wave, attempt''),
      (task_estimated_tokens t < 0, DomainError ''negative estimated_tokens''),
      (task_id t \<in> set (task_dependencies t), DomainError ''self dependency''),
      (\<not> distinct (task_dependencies t), DomainError ''dependencies unique''),
      (\<not> distinct (task_excluded_agent_ids t), DomainError ''excluded agent IDs unique''),
      (\<not> distinct (task_required_capabilities t), DomainError ''required capabilities unique''),
      (\<not> distinct (task_reviewed_task_ids t), DomainError ''reviewed task IDs unique''),
      (task_id t \<in> set (task_reviewed_task_ids t), DomainError ''self review''),
      (task_reviewed_task_ids t \<noteq> [] \<and> task_kind t \<noteq> Kind_REVIEW, DomainError ''only reviews review''),
      (task_reviewed_task_ids t \<noteq> []
         \<and> \<not> set (task_reviewed_task_ids t) \<subseteq> set (task_dependencies t),
         DomainError ''reviewed tasks are dependencies''),
      (\<not> distinct (map check_id (task_required_checks t)), DomainError ''required checks unique''),
      (case task_next_eligible_at t of None \<Rightarrow> False | Some d \<Rightarrow> \<not> is_aware d,
         DomainError ''timezone-aware''),
      (active_task_state (task_state t) \<and> task_lease t = None, DomainError ''active without lease''),
      (\<not> active_task_state (task_state t) \<and> task_lease t \<noteq> None, DomainError ''lease without active''),
      (case task_lease t of None \<Rightarrow> False | Some l \<Rightarrow> lease_task_id l \<noteq> task_id t,
         DomainError ''lease of another task''),
      (case task_lease t of None \<Rightarrow> False | Some l \<Rightarrow> lease_attempt l \<noteq> task_attempt t,
         DomainError ''lease attempt mismatch''),
      (task_completed_by_agent_id t \<noteq> None \<and> task_state t \<noteq> Task_SUCCEEDED,
         DomainError ''completer without success'')]"

record agent =
  agent_id :: string
  agent_run_id :: string
  agent_name :: string
  agent_created_seq :: int
  agent_agent_class :: agent_class
  agent_parent_agent_id :: "string option"
  agent_capabilities :: "string list"
  agent_state :: agent_state
  agent_wave :: int
  agent_current_task_id :: "string option"
  agent_last_heartbeat_at :: "datetime option"

definition active_agent_state :: "agent_state \<Rightarrow> bool" where
  "active_agent_state s \<longleftrightarrow> s \<in> {Agent_LEASED, Agent_RUNNING}"

definition agent_post_init :: "agent \<Rightarrow> unit result" where
  "agent_post_init a = raise_first
     [(agent_parent_agent_id a = Some (agent_id a), DomainError ''own parent''),
      ([] \<in> set (agent_capabilities a), DomainError ''capabilities''),
      (agent_id a = [] \<or> agent_run_id a = [] \<or> strip (agent_name a) = [],
         DomainError ''agent ID, run ID, and name''),
      (agent_created_seq a < 0 \<or> agent_wave a < 0, DomainError ''negative sequence, wave''),
      (\<not> distinct (agent_capabilities a), DomainError ''capabilities unique''),
      (case agent_last_heartbeat_at a of None \<Rightarrow> False | Some d \<Rightarrow> \<not> is_aware d,
         DomainError ''timezone-aware''),
      (active_agent_state (agent_state a) \<and> agent_current_task_id a = None,
         DomainError ''active agent without task''),
      (\<not> active_agent_state (agent_state a) \<and> agent_current_task_id a \<noteq> None,
         DomainError ''task without active agent'')]"

section \<open>Questions, approvals, evidence\<close>

record question =
  question_id :: string
  question_run_id :: string
  question_prompt :: string
  question_rationale :: string
  question_asked_at :: datetime
  question_blocking :: bool
  question_options :: "string list"
  question_recommendation :: "string option"
  question_confidence_basis_points :: "int option"
  question_allow_custom_answer :: bool
  question_bound_revision :: "string option"
  question_affected_artifact_ids :: "string list"
  question_dependent_decision_ids :: "string list"
  question_state :: question_state
  question_answer :: "string option"
  question_answered_by :: "string option"
  question_answered_at :: "datetime option"

text \<open>Truth of an optional string: neither null nor empty.\<close>

definition truthy :: "string option \<Rightarrow> bool" where
  "truthy s \<longleftrightarrow> s \<noteq> None \<and> s \<noteq> Some []"

definition question_post_init :: "question \<Rightarrow> unit result" where
  "question_post_init q = raise_first
     [([] \<in> set (question_options q), DomainError ''options''),
      ([] \<in> set (question_affected_artifact_ids q), DomainError ''affected artifact IDs''),
      ([] \<in> set (question_dependent_decision_ids q), DomainError ''dependent decision IDs''),
      (\<not> is_aware (question_asked_at q), DomainError ''timezone-aware''),
      (case question_answered_at q of None \<Rightarrow> False | Some d \<Rightarrow> \<not> is_aware d,
         DomainError ''timezone-aware''),
      (question_id q = [] \<or> question_run_id q = [] \<or> strip (question_prompt q) = [],
         DomainError ''question ID, run ID, and prompt''),
      (question_blocking q \<and> length (question_options q) < 2, DomainError ''two options''),
      (question_blocking q \<and> (case question_recommendation q of
           None \<Rightarrow> True | Some x \<Rightarrow> x \<notin> set (question_options q)), DomainError ''recommended option''),
      (question_blocking q \<and> question_confidence_basis_points q = None, DomainError ''confidence''),
      (question_blocking q \<and> \<not> truthy (question_bound_revision q), DomainError ''bound revision''),
      (case question_confidence_basis_points q of None \<Rightarrow> False | Some c \<Rightarrow> \<not> (0 \<le> c \<and> c \<le> 10000),
         DomainError ''confidence range''),
      (question_state q = Question_ANSWERED
         \<and> \<not> (truthy (question_answer q) \<and> truthy (question_answered_by q)),
         DomainError ''answered without answer'')]"

record approval =
  approval_id :: string
  approval_run_id :: string
  approval_kind :: approval_kind
  approval_subject_digest :: string
  approval_summary :: string
  approval_requested_at :: datetime
  approval_expires_at :: "datetime option"
  approval_state :: approval_state
  approval_decided_by :: "string option"
  approval_decided_at :: "datetime option"
  approval_reason :: "string option"

definition approval_post_init :: "approval \<Rightarrow> unit result" where
  "approval_post_init a = raise_first
     [(\<not> is_aware (approval_requested_at a), DomainError ''timezone-aware''),
      (case approval_expires_at a of None \<Rightarrow> False | Some d \<Rightarrow> \<not> is_aware d, DomainError ''timezone-aware''),
      (case approval_decided_at a of None \<Rightarrow> False | Some d \<Rightarrow> \<not> is_aware d, DomainError ''timezone-aware''),
      (approval_id a = [] \<or> approval_run_id a = [] \<or> approval_subject_digest a = [],
         DomainError ''approval ID, run ID, and subject digest''),
      (case approval_expires_at a of None \<Rightarrow> False
         | Some d \<Rightarrow> instant d \<le> instant (approval_requested_at a), DomainError ''approval expiry''),
      (approval_state a \<noteq> Approval_REQUESTED \<and> approval_decided_at a = None,
         DomainError ''decided without timestamp'')]"

definition is_valid_for :: "approval \<Rightarrow> string \<Rightarrow> datetime \<Rightarrow> bool result" where
  "is_valid_for a digest at =
     (case require_aware at of
        Inl e \<Rightarrow> Inl e
      | Inr _ \<Rightarrow> Inr (approval_state a = Approval_APPROVED \<and> approval_subject_digest a = digest
          \<and> (case approval_expires_at a of None \<Rightarrow> True | Some d \<Rightarrow> instant at < instant d)))"

text \<open>
  The source keeps the metadata as a string that must be the canonical JSON of an object. The
  model keeps the decoded value, of which \<^const>\<open>canonical_json\<close> gives that string.
\<close>

record evidence =
  evidence_id :: string
  evidence_run_id :: string
  evidence_kind :: evidence_kind
  evidence_source :: string
  evidence_content_digest :: string
  evidence_summary :: string
  evidence_captured_at :: datetime
  evidence_task_id :: "string option"
  evidence_check_id :: "string option"
  evidence_policy_digest :: "string option"
  evidence_passed :: "bool option"
  evidence_metadata :: json

definition evidence_post_init :: "evidence \<Rightarrow> unit result" where
  "evidence_post_init v = raise_first
     [(\<not> is_aware (evidence_captured_at v), DomainError ''timezone-aware''),
      (evidence_id v = [] \<or> evidence_run_id v = [] \<or> evidence_source v = []
         \<or> evidence_content_digest v = [], DomainError ''evidence ID, run ID, source, and digest''),
      (evidence_kind v = DESIGN_CHECK \<and> (\<not> truthy (evidence_check_id v)
         \<or> \<not> truthy (evidence_policy_digest v) \<or> evidence_passed v = None),
         DomainError ''incomplete design-check evidence''),
      (case evidence_metadata v of JObj _ \<Rightarrow> False | _ \<Rightarrow> True, DomainError ''metadata object'')]"

definition capture ::
  "(byte list \<Rightarrow> byte list) \<Rightarrow> string \<Rightarrow> string \<Rightarrow> evidence_kind \<Rightarrow> string \<Rightarrow> byte list \<Rightarrow> string \<Rightarrow>
   datetime \<Rightarrow> string option \<Rightarrow> string option \<Rightarrow> string option \<Rightarrow> bool option \<Rightarrow>
   (string \<times> json) list option \<Rightarrow> evidence result" where
  "capture h eid rid kind source raw summary captured_at tid cid policy passed metadata =
     validated evidence_post_init
       \<lparr>evidence_id = eid, evidence_run_id = rid, evidence_kind = kind, evidence_source = source,
        evidence_content_digest = hexdigest (h raw), evidence_summary = summary,
        evidence_captured_at = captured_at, evidence_task_id = tid, evidence_check_id = cid,
        evidence_policy_digest = policy, evidence_passed = passed,
        evidence_metadata = JObj (case metadata of None \<Rightarrow> [] | Some m \<Rightarrow> m)\<rparr>"

section \<open>Digests of contracts, inventories and results\<close>

definition jopt :: "string option \<Rightarrow> json" where
  "jopt v = (case v of None \<Rightarrow> JNull | Some s \<Rightarrow> JStr s)"

definition task_contract_payload :: "task \<Rightarrow> json" where
  "task_contract_payload t = JObj
     [(''scope'', JStr ''flux-clone-orchestrator-task-contract-v1''),
      (''run_id'', JStr (task_run_id t)),
      (''task_id'', JStr (task_id t)),
      (''title'', JStr (task_title t)),
      (''instructions'', JStr (task_instructions t)),
      (''kind'', JStr (task_kind_value (task_kind t))),
      (''created_seq'', JInt (task_created_seq t)),
      (''priority'', JInt (task_priority t)),
      (''wave'', JInt (task_wave t)),
      (''dependencies'', JList (map JStr (sort (task_dependencies t)))),
      (''required_capabilities'', JList (map JStr (sort (task_required_capabilities t)))),
      (''required_agent_class'', jopt (map_option agent_class_value (task_required_agent_class t))),
      (''excluded_agent_ids'', JList (map JStr (sort (task_excluded_agent_ids t)))),
      (''risk_class'', JStr (risk_class_value (task_risk_class t))),
      (''input_revision'', jopt (task_input_revision t)),
      (''output_schema_digest'', jopt (task_output_schema_digest t)),
      (''idempotency_key'', jopt (task_idempotency_key t)),
      (''required_checks'', JList (map (\<lambda>c. JObj
          [(''check_id'', JStr (check_id c)), (''source'', JStr (check_source c)),
           (''policy_digest'', JStr (check_policy_digest c))])
          (sort_key check_id (task_required_checks t)))),
      (''reviewed_task_ids'', JList (map JStr (sort (task_reviewed_task_ids t)))),
      (''reviewed_result_bindings'', JList (map (\<lambda>b. JObj
          [(''task_id'', JStr (binding_task_id b)), (''result_digest'', JStr (binding_result_digest b))])
          (sort_key binding_task_id (task_reviewed_result_bindings t)))),
      (''estimated_tokens'', JInt (task_estimated_tokens t)),
      (''retry_policy'', JObj
          [(''max_attempts'', JInt (max_attempts (task_retry_policy t))),
           (''initial_backoff_seconds'', JInt (initial_backoff_seconds (task_retry_policy t))),
           (''multiplier'', JInt (multiplier (task_retry_policy t))),
           (''max_backoff_seconds'', JInt (max_backoff_seconds (task_retry_policy t)))])]"

definition task_contract_digest :: "(byte list \<Rightarrow> byte list) \<Rightarrow> task \<Rightarrow> string" where
  "task_contract_digest h t = sha256_text h (canonical_json (task_contract_payload t))"

definition task_inventory_payload :: "(byte list \<Rightarrow> byte list) \<Rightarrow> string \<Rightarrow> task list \<Rightarrow> json" where
  "task_inventory_payload h rid tasks = JObj
     [(''scope'', JStr ''flux-clone-orchestrator-task-inventory-v1''),
      (''run_id'', JStr rid),
      (''tasks'', JList (map (\<lambda>t. JObj
          [(''task_id'', JStr (task_id t)), (''contract_digest'', JStr (task_contract_digest h t))])
          (sort_key task_id tasks)))]"

definition task_inventory_digest :: "(byte list \<Rightarrow> byte list) \<Rightarrow> string \<Rightarrow> task list \<Rightarrow> string result" where
  "task_inventory_digest h rid tasks =
     (case raise_first
        [(rid = [], DomainError ''exact run ID''),
         (\<exists>t \<in> set tasks. task_run_id t \<noteq> rid, DomainError ''task of another run''),
         (\<not> distinct (map task_id tasks), DomainError ''inventory IDs unique'')] of
        Inl e \<Rightarrow> Inl e
      | Inr _ \<Rightarrow> Inr (sha256_text h (canonical_json (task_inventory_payload h rid tasks))))"

definition evidence_payload :: "evidence \<Rightarrow> json" where
  "evidence_payload v = JObj
     [(''id'', JStr (evidence_id v)),
      (''kind'', JStr (evidence_kind_value (evidence_kind v))),
      (''source'', JStr (evidence_source v)),
      (''content_digest'', JStr (evidence_content_digest v)),
      (''summary'', JStr (evidence_summary v)),
      (''captured_at'', JStr (isoformat_utc (instant (evidence_captured_at v)))),
      (''check_id'', jopt (evidence_check_id v)),
      (''policy_digest'', jopt (evidence_policy_digest v)),
      (''passed'', case evidence_passed v of None \<Rightarrow> JNull | Some b \<Rightarrow> JBool b),
      (''metadata_json'', JStr (canonical_json (evidence_metadata v)))]"

definition task_result_payload :: "(byte list \<Rightarrow> byte list) \<Rightarrow> task \<Rightarrow> string \<Rightarrow> evidence list \<Rightarrow> json" where
  "task_result_payload h t completer evs = JObj
     [(''scope'', JStr ''flux-clone-orchestrator-task-result-v1''),
      (''task_contract_digest'', JStr (task_contract_digest h t)),
      (''completed_by_agent_id'', JStr completer),
      (''evidence'', JList (map evidence_payload (sort_key evidence_id evs)))]"

text \<open>\<^verbatim>\<open>astimezone(utc)\<close> raises \<^verbatim>\<open>OverflowError\<close> for an instant outside the years 1 to 9999.\<close>

definition task_result_digest :: "(byte list \<Rightarrow> byte list) \<Rightarrow> task \<Rightarrow> evidence list \<Rightarrow> string result" where
  "task_result_digest h t evs =
     (case raise_first
        [(task_state t \<noteq> Task_SUCCEEDED, DomainError ''succeeded task required''),
         (task_completed_by_agent_id t = None \<or> task_result_evidence_ids t = [],
            DomainError ''completing agent and evidence IDs required''),
         (\<not> distinct (map evidence_id evs)
            \<or> evidence_id ` set evs \<noteq> set (task_result_evidence_ids t),
            DomainError ''evidence set mismatch''),
         (\<exists>v \<in> set evs. evidence_run_id v \<noteq> task_run_id t \<or> evidence_task_id v \<noteq> Some (task_id t),
            DomainError ''evidence of another run or task''),
         (\<exists>v \<in> set evs. \<not> in_datetime_range (instant (evidence_captured_at v)), OverflowError)] of
        Inl e \<Rightarrow> Inl e
      | Inr _ \<Rightarrow> Inr (sha256_text h (canonical_json
          (task_result_payload h t (the (task_completed_by_agent_id t)) evs))))"

section \<open>The task graph\<close>

text \<open>
  \<^verbatim>\<open>assert_acyclic\<close>: duplicate, missing and cross-run dependencies are refused, then a
  depth-first search looks for a cycle. \<^verbatim>\<open>visiting\<close> is the path to the current task and
  \<^verbatim>\<open>visited\<close> the finished tasks; one call with a list stands for the loop over the
  dependencies (or over all tasks) that calls \<^verbatim>\<open>visit\<close> on each.
\<close>

function visit_all ::
  "(string \<times> task) list \<Rightarrow> string list \<Rightarrow> string list \<Rightarrow> string list \<Rightarrow> string list result" where
  "visit_all by_id visiting visited [] = Inr visited"
| "visit_all by_id visiting visited (x # xs) =
     (if x \<in> set visiting then Inl (DomainError ''dependency cycle'')
      else if x \<in> set visited then visit_all by_id visiting visited xs
      else (case map_of by_id x of
              None \<Rightarrow> Inl KeyError
            | Some t \<Rightarrow>
                (case visit_all by_id (x # visiting) visited (task_dependencies t) of
                   Inl e \<Rightarrow> Inl e
                 | Inr visited' \<Rightarrow> visit_all by_id visiting (x # visited') xs)))"
  by pat_completeness auto
termination
proof (relation "measures [\<lambda>(d, p, v, xs). card (fst ` set d - set p), \<lambda>(d, p, v, xs). length xs]",
    goal_cases)
  case (3 by_id visiting visited x xs t)
  then have "x \<in> fst ` set by_id - set visiting"
    by (force dest: map_of_SomeD)
  then have "card (fst ` set by_id - set (x # visiting)) < card (fst ` set by_id - set visiting)"
    by (intro psubset_card_mono) auto
  then show ?case by simp
qed auto

definition assert_acyclic :: "task list \<Rightarrow> unit result" where
  "assert_acyclic tasks =
     (let by_id = dict_of task_id tasks in
      case raise_first
        ((length by_id \<noteq> length tasks, DomainError ''task IDs unique'')
         # concat (map (\<lambda>t. concat (map (\<lambda>d.
             [(d \<notin> fst ` set by_id, DomainError ''missing dependency''),
              (case map_of by_id d of None \<Rightarrow> False | Some u \<Rightarrow> task_run_id u \<noteq> task_run_id t,
                 DomainError ''dependencies cannot cross runs'')])
             (task_dependencies t))) tasks)) of
        Inl e \<Rightarrow> Inl e
      | Inr _ \<Rightarrow>
          (case visit_all by_id [] [] (sort (map fst by_id)) of
             Inl e \<Rightarrow> Inl e
           | Inr _ \<Rightarrow> Inr ()))"

end
