(* ===== verification/Sha256.thy ===== *)
theory Sha256
  imports Json
begin

text \<open>
  The hash functions of the Python standard library that the sources call,
  \<^verbatim>\<open>hashlib.sha256\<close> (FIPS 180-4) and \<^verbatim>\<open>hmac.new(key, msg, sha256)\<close> (RFC 2104), on
  8-bit and 32-bit words. The definitions of the orchestrator take the hash as an argument; this
  theory gives the function that stands for it and proves that it meets the interface
  \<^verbatim>\<open>digest_function\<close>.
\<close>

unbundle bit_operations_syntax

type_synonym u32 = "32 word"

definition rotr :: "nat \<Rightarrow> u32 \<Rightarrow> u32" where
  "rotr n x = drop_bit n x OR push_bit (32 - n) x"

text \<open>The constants of FIPS 180-4, in decimal.\<close>

definition sha256_k :: "u32 list" where
  "sha256_k = [
     1116352408, 1899447441, 3049323471, 3921009573, 961987163, 1508970993,
     2453635748, 2870763221, 3624381080, 310598401, 607225278, 1426881987,
     1925078388, 2162078206, 2614888103, 3248222580, 3835390401, 4022224774,
     264347078, 604807628, 770255983, 1249150122, 1555081692, 1996064986,
     2554220882, 2821834349, 2952996808, 3210313671, 3336571891, 3584528711,
     113926993, 338241895, 666307205, 773529912, 1294757372, 1396182291,
     1695183700, 1986661051, 2177026350, 2456956037, 2730485921, 2820302411,
     3259730800, 3345764771, 3516065817, 3600352804, 4094571909, 275423344,
     430227734, 506948616, 659060556, 883997877, 958139571, 1322822218,
     1537002063, 1747873779, 1955562222, 2024104815, 2227730452, 2361852424,
     2428436474, 2756734187, 3204031479, 3329325298]"

definition sha256_init :: "u32 list" where
  "sha256_init = [
     1779033703, 3144134277, 1013904242, 2773480762, 1359893119, 2600822924,
     528734635, 1541459225]"

definition word_bytes :: "u32 \<Rightarrow> byte list" where
  "word_bytes w = map (\<lambda>k. ucast (drop_bit k w)) [24, 16, 8, 0]"

fun block_words :: "byte list \<Rightarrow> u32 list" where
  "block_words (a # b # c # d # bs) =
     (push_bit 24 (ucast a) OR push_bit 16 (ucast b) OR push_bit 8 (ucast c) OR ucast d) # block_words bs"
| "block_words _ = []"

definition sha256_pad :: "byte list \<Rightarrow> byte list" where
  "sha256_pad m = m @ [0x80] @ replicate ((55 + 64 - length m mod 64) mod 64) 0
     @ map (\<lambda>k. of_nat (8 * length m div 256 ^ k)) (rev [0..<8])"

text \<open>The message schedule keeps its most recent word first.\<close>

fun extend_schedule :: "nat \<Rightarrow> u32 list \<Rightarrow> u32 list" where
  "extend_schedule 0 w = w"
| "extend_schedule (Suc n) w =
     (let w15 = w ! 14; w2 = w ! 1;
          s0 = rotr 7 w15 XOR rotr 18 w15 XOR drop_bit 3 w15;
          s1 = rotr 17 w2 XOR rotr 19 w2 XOR drop_bit 10 w2
      in extend_schedule n ((w ! 15 + s0 + w ! 6 + s1) # w))"

definition sha256_round :: "u32 \<times> u32 \<Rightarrow> u32 list \<Rightarrow> u32 list" where
  "sha256_round kw s =
     (case s of
        [a, b, c, d, e, f, g, hh] \<Rightarrow>
          (let S1 = rotr 6 e XOR rotr 11 e XOR rotr 25 e;
               ch = (e AND f) XOR (NOT e AND g);
               t1 = hh + S1 + ch + fst kw + snd kw;
               S0 = rotr 2 a XOR rotr 13 a XOR rotr 22 a;
               maj = (a AND b) XOR (a AND c) XOR (b AND c);
               t2 = S0 + maj
           in [t1 + t2, a, b, c, d + t1, e, f, g])
      | _ \<Rightarrow> s)"

definition sha256_block :: "byte list \<Rightarrow> u32 list \<Rightarrow> u32 list" where
  "sha256_block blk s =
     (let w = rev (extend_schedule 48 (rev (block_words blk)))
      in map2 (+) s (fold sha256_round (zip sha256_k w) s))"

fun sha256_blocks :: "nat \<Rightarrow> byte list \<Rightarrow> u32 list \<Rightarrow> u32 list" where
  "sha256_blocks 0 m s = s"
| "sha256_blocks (Suc n) m s = sha256_blocks n (drop 64 m) (sha256_block (take 64 m) s)"

definition sha256 :: "byte list \<Rightarrow> byte list" where
  "sha256 m = (let p = sha256_pad m
     in concat (map word_bytes (sha256_blocks (length p div 64) p sha256_init)))"

text \<open>HMAC over a hash with a 64-byte block.\<close>

definition hmac_key :: "(byte list \<Rightarrow> byte list) \<Rightarrow> byte list \<Rightarrow> byte list" where
  "hmac_key h key =
     (let k = (if length key > 64 then h key else key) in k @ replicate (64 - length k) 0)"

definition hmac :: "(byte list \<Rightarrow> byte list) \<Rightarrow> byte list \<Rightarrow> byte list \<Rightarrow> byte list" where
  "hmac h key msg =
     (let k = hmac_key h key
      in h (map (\<lambda>b. b XOR 0x5c) k @ h (map (\<lambda>b. b XOR 0x36) k @ msg)))"

lemma length_fold_round: "length (fold sha256_round kws s) = length s"
  by (induction kws arbitrary: s)
    (auto simp: sha256_round_def Let_def split: list.splits)

lemma length_sha256_block: "length (sha256_block blk s) = length s"
  by (simp add: sha256_block_def Let_def length_fold_round)

lemma length_sha256_blocks: "length (sha256_blocks n m s) = length s"
  by (induction n m s rule: sha256_blocks.induct) (simp_all add: length_sha256_block)

lemma length_concat_word_bytes: "length (concat (map word_bytes ws)) = 4 * length ws"
  by (induction ws) (simp_all add: word_bytes_def)

lemma length_sha256: "length (sha256 m) = 32"
  by (simp add: sha256_def Let_def length_concat_word_bytes length_sha256_blocks sha256_init_def)

interpretation sha256_digest: digest_function sha256
  by unfold_locales (rule length_sha256)

text \<open>A MAC over a digest function is again 32 bytes, so a lease token passes its format check.\<close>

context digest_function
begin

lemma length_hmac: "length (hmac h key msg) = 32"
  by (simp add: hmac_def Let_def digest_length)

lemma hmac_hex: "is_sha256_hex (hexdigest (hmac h key msg))"
  by (simp add: is_sha256_hexdigest length_hmac)

end

text \<open>
  Two messages with the same MAC under one key are equal, or they give a collision of the hash,
  in its inner or in its outer application.
\<close>

definition hmac_collision :: "(byte list \<Rightarrow> byte list) \<Rightarrow> byte list \<Rightarrow> byte list \<Rightarrow> byte list \<Rightarrow> bool" where
  "hmac_collision h key a b \<longleftrightarrow>
     (let k = hmac_key h key; inner = (\<lambda>m. map (\<lambda>b. b XOR 0x36) k @ m);
          outer = (\<lambda>m. map (\<lambda>b. b XOR 0x5c) k @ h (inner m))
      in collision h (inner a) (inner b) \<or> collision h (outer a) (outer b))"

lemma hmac_eq_cases: "hmac h key a = hmac h key b \<Longrightarrow> a = b \<or> hmac_collision h key a b"
  by (auto simp: hmac_def hmac_collision_def collision_def Let_def)

end
