(* ===== verification/Orch_Digests.thy ===== *)
theory Orch_Digests
  imports Orch_Models Sha256 "HOL-Library.Multiset"
begin

text \<open>
  What the digests of \<^verbatim>\<open>backend/orchestrator/models.py\<close> bind. Two tasks with the same
  contract digest agree in every field of the contract, and two task lists with the same
  inventory digest hold the same contracts under the same IDs; otherwise the hash has two
  explicit colliding inputs.
\<close>

section \<open>Reading a field of an encoded object\<close>

fun json_fields :: "json \<Rightarrow> (string \<times> json) list" where
  "json_fields (JObj kvs) = kvs"
| "json_fields _ = []"

definition json_field :: "string \<Rightarrow> json \<Rightarrow> json option" where
  "json_field k j = map_option json_norm (map_of (json_fields j) k)"

lemma map_of_sort_key_fst:
  assumes "distinct (map fst xs)"
  shows "map_of (sort_key fst xs) = map_of xs"
proof -
  have "mset (map fst (sort_key fst xs)) = mset (map fst xs)" by simp
  then have "distinct (map fst (sort_key fst xs))" using assms mset_eq_imp_distinct_iff by metis
  then show ?thesis using map_of_inject_set [OF _ assms] by simp
qed

lemma json_field_cong:
  assumes "json_norm (JObj xs) = json_norm (JObj ys)" "distinct (map fst xs)" "distinct (map fst ys)"
  shows "json_field k (JObj xs) = json_field k (JObj ys)"
proof -
  have d: "distinct (map fst (map (\<lambda>(k, v). (k, json_norm v)) zs))" if "distinct (map fst zs)" for zs
    using that by (simp add: comp_def split_beta)
  have "map_of (map (\<lambda>(k, v). (k, json_norm v)) xs) k = map_of (map (\<lambda>(k, v). (k, json_norm v)) ys) k"
    using assms(1) map_of_sort_key_fst [OF d [OF assms(2)]] map_of_sort_key_fst [OF d [OF assms(3)]]
    by simp
  then show ?thesis by (simp add: json_field_def map_of_map)
qed

lemma map_JStr_norm: "map json_norm (map JStr xs) = map JStr xs"
  by simp

lemma map_JStr_inject: "map JStr xs = map JStr ys \<longleftrightarrow> xs = ys"
  by (rule inj_map_eq_map) (simp add: inj_on_def)

lemma sort_eq_imp_mset_eq: "sort xs = sort ys \<Longrightarrow> mset xs = mset ys"
  by (metis mset_sort)

lemma sort_key_image_eq_imp_mset_eq:
  assumes "map f (sort_key k xs) = map f (sort_key k ys)" "inj f"
  shows "mset xs = mset ys"
  using assms by (metis inj_map_eq_map mset_sort)

lemma jopt_norm [simp]: "json_norm (jopt v) = jopt v"
  by (cases v) (simp_all add: jopt_def)

lemma jopt_inject [simp]: "jopt a = jopt b \<longleftrightarrow> a = b"
  by (cases a; cases b) (simp_all add: jopt_def)

lemma agent_class_value_inject: "agent_class_value a = agent_class_value b \<longleftrightarrow> a = b"
  by (cases a; cases b) simp_all

lemma risk_class_value_inject: "risk_class_value a = risk_class_value b \<longleftrightarrow> a = b"
  by (cases a; cases b) simp_all

lemma task_kind_value_inject: "task_kind_value a = task_kind_value b \<longleftrightarrow> a = b"
  by (cases a; cases b) simp_all

lemma map_option_agent_class_inject:
  "map_option agent_class_value a = map_option agent_class_value b \<longleftrightarrow> a = b"
  by (cases a; cases b) (simp_all add: agent_class_value_inject)

section \<open>The fields of a task contract\<close>

text \<open>
  Agreement in everything the contract names. The collections agree as multisets: the digest
  does not depend on the order in which they were declared.
\<close>

definition same_contract :: "task \<Rightarrow> task \<Rightarrow> bool" where
  "same_contract t u \<longleftrightarrow>
     task_run_id t = task_run_id u \<and> task_id t = task_id u \<and> task_title t = task_title u
     \<and> task_instructions t = task_instructions u \<and> task_kind t = task_kind u
     \<and> task_created_seq t = task_created_seq u \<and> task_priority t = task_priority u
     \<and> task_wave t = task_wave u \<and> mset (task_dependencies t) = mset (task_dependencies u)
     \<and> mset (task_required_capabilities t) = mset (task_required_capabilities u)
     \<and> task_required_agent_class t = task_required_agent_class u
     \<and> mset (task_excluded_agent_ids t) = mset (task_excluded_agent_ids u)
     \<and> task_risk_class t = task_risk_class u \<and> task_input_revision t = task_input_revision u
     \<and> task_output_schema_digest t = task_output_schema_digest u
     \<and> task_idempotency_key t = task_idempotency_key u
     \<and> mset (task_required_checks t) = mset (task_required_checks u)
     \<and> mset (task_reviewed_task_ids t) = mset (task_reviewed_task_ids u)
     \<and> mset (task_reviewed_result_bindings t) = mset (task_reviewed_result_bindings u)
     \<and> task_estimated_tokens t = task_estimated_tokens u
     \<and> task_retry_policy t = task_retry_policy u"

lemma contract_field_eq:
  assumes "json_norm (task_contract_payload t) = json_norm (task_contract_payload u)"
  shows "json_field k (task_contract_payload t) = json_field k (task_contract_payload u)"
  using assms unfolding task_contract_payload_def by (rule json_field_cong) simp_all

text \<open>The normal form of the two kinds of nested object, as an injective function of the record.\<close>

definition check_norm :: "check_requirement \<Rightarrow> json" where
  "check_norm c = json_norm (JObj
     [(''check_id'', JStr (check_id c)), (''source'', JStr (check_source c)),
      (''policy_digest'', JStr (check_policy_digest c))])"

definition binding_norm :: "result_binding \<Rightarrow> json" where
  "binding_norm b = json_norm (JObj
     [(''task_id'', JStr (binding_task_id b)), (''result_digest'', JStr (binding_result_digest b))])"

lemma inj_check_norm: "inj check_norm"
proof (rule injI)
  fix c d assume eq: "check_norm c = check_norm d"
  have "json_field k (JObj
     [(''check_id'', JStr (check_id c)), (''source'', JStr (check_source c)),
      (''policy_digest'', JStr (check_policy_digest c))]) = json_field k (JObj
     [(''check_id'', JStr (check_id d)), (''source'', JStr (check_source d)),
      (''policy_digest'', JStr (check_policy_digest d))])" for k
    using eq unfolding check_norm_def by (rule json_field_cong) simp_all
  from this [of "''check_id''"] this [of "''source''"] this [of "''policy_digest''"]
  show "c = d" by (simp add: json_field_def)
qed

lemma inj_binding_norm: "inj binding_norm"
proof (rule injI)
  fix c d assume eq: "binding_norm c = binding_norm d"
  have "json_field k (JObj [(''task_id'', JStr (binding_task_id c)),
      (''result_digest'', JStr (binding_result_digest c))]) = json_field k (JObj
      [(''task_id'', JStr (binding_task_id d)), (''result_digest'', JStr (binding_result_digest d))])" for k
    using eq unfolding binding_norm_def by (rule json_field_cong) simp_all
  from this [of "''task_id''"] this [of "''result_digest''"]
  show "c = d" by (simp add: json_field_def)
qed

lemma contract_payload_scalars:
  assumes "json_norm (task_contract_payload t) = json_norm (task_contract_payload u)"
  shows "task_run_id t = task_run_id u" "task_id t = task_id u" "task_title t = task_title u"
    "task_instructions t = task_instructions u" "task_kind t = task_kind u"
    "task_created_seq t = task_created_seq u" "task_priority t = task_priority u"
    "task_wave t = task_wave u" "task_required_agent_class t = task_required_agent_class u"
    "task_risk_class t = task_risk_class u" "task_input_revision t = task_input_revision u"
    "task_output_schema_digest t = task_output_schema_digest u"
    "task_idempotency_key t = task_idempotency_key u"
    "task_estimated_tokens t = task_estimated_tokens u"
proof -
  note field = contract_field_eq [OF assms, unfolded json_field_def task_contract_payload_def json_fields.simps]
  show "task_run_id t = task_run_id u" using field [of "''run_id''"] by (simp)
  show "task_id t = task_id u" using field [of "''task_id''"] by (simp)
  show "task_title t = task_title u" using field [of "''title''"] by (simp)
  show "task_instructions t = task_instructions u" using field [of "''instructions''"] by (simp)
  show "task_kind t = task_kind u" using field [of "''kind''"] by (simp add: task_kind_value_inject)
  show "task_created_seq t = task_created_seq u" using field [of "''created_seq''"] by (simp)
  show "task_priority t = task_priority u" using field [of "''priority''"] by (simp)
  show "task_wave t = task_wave u" using field [of "''wave''"] by (simp)
  show "task_required_agent_class t = task_required_agent_class u" using field [of "''required_agent_class''"] by (simp add: map_option_agent_class_inject)
  show "task_risk_class t = task_risk_class u" using field [of "''risk_class''"] by (simp add: risk_class_value_inject)
  show "task_input_revision t = task_input_revision u" using field [of "''input_revision''"] by (simp)
  show "task_output_schema_digest t = task_output_schema_digest u" using field [of "''output_schema_digest''"] by (simp)
  show "task_idempotency_key t = task_idempotency_key u" using field [of "''idempotency_key''"] by (simp)
  show "task_estimated_tokens t = task_estimated_tokens u" using field [of "''estimated_tokens''"] by (simp)
qed

lemma contract_payload_collections:
  assumes "json_norm (task_contract_payload t) = json_norm (task_contract_payload u)"
  shows "mset (task_dependencies t) = mset (task_dependencies u)"
    "mset (task_required_capabilities t) = mset (task_required_capabilities u)"
    "mset (task_excluded_agent_ids t) = mset (task_excluded_agent_ids u)"
    "mset (task_reviewed_task_ids t) = mset (task_reviewed_task_ids u)"
  using contract_field_eq [OF assms, of "''dependencies''"]
    contract_field_eq [OF assms, of "''required_capabilities''"]
    contract_field_eq [OF assms, of "''excluded_agent_ids''"]
    contract_field_eq [OF assms, of "''reviewed_task_ids''"]
  by (auto simp: json_field_def task_contract_payload_def map_JStr_norm map_JStr_inject
      simp del: map_map intro: sort_eq_imp_mset_eq)

lemma contract_payload_records:
  assumes "json_norm (task_contract_payload t) = json_norm (task_contract_payload u)"
  shows "mset (task_required_checks t) = mset (task_required_checks u)"
    and "mset (task_reviewed_result_bindings t) = mset (task_reviewed_result_bindings u)"
    and "task_retry_policy t = task_retry_policy u"
proof -
  have "map check_norm (sort_key check_id (task_required_checks t))
      = map check_norm (sort_key check_id (task_required_checks u))"
    using contract_field_eq [OF assms, of "''required_checks''"]
    by (simp add: json_field_def task_contract_payload_def check_norm_def [abs_def] comp_def)
  then show "mset (task_required_checks t) = mset (task_required_checks u)"
    by (rule sort_key_image_eq_imp_mset_eq) (rule inj_check_norm)
  have "map binding_norm (sort_key binding_task_id (task_reviewed_result_bindings t))
      = map binding_norm (sort_key binding_task_id (task_reviewed_result_bindings u))"
    using contract_field_eq [OF assms, of "''reviewed_result_bindings''"]
    by (simp add: json_field_def task_contract_payload_def binding_norm_def [abs_def] comp_def)
  then show "mset (task_reviewed_result_bindings t) = mset (task_reviewed_result_bindings u)"
    by (rule sort_key_image_eq_imp_mset_eq) (rule inj_binding_norm)
  let ?p = "\<lambda>t. [(''max_attempts'', JInt (max_attempts (task_retry_policy t))),
           (''initial_backoff_seconds'', JInt (initial_backoff_seconds (task_retry_policy t))),
           (''multiplier'', JInt (multiplier (task_retry_policy t))),
           (''max_backoff_seconds'', JInt (max_backoff_seconds (task_retry_policy t)))]"
  have "json_norm (JObj (?p t)) = json_norm (JObj (?p u))"
    using contract_field_eq [OF assms, of "''retry_policy''"]
    by (simp add: json_field_def task_contract_payload_def)
  then have "json_field k (JObj (?p t)) = json_field k (JObj (?p u))" for k
    by (rule json_field_cong) simp_all
  from this [of "''max_attempts''"] this [of "''initial_backoff_seconds''"]
    this [of "''multiplier''"] this [of "''max_backoff_seconds''"]
  show "task_retry_policy t = task_retry_policy u" by (simp add: json_field_def)
qed

lemma contract_payload_same_contract:
  "json_norm (task_contract_payload t) = json_norm (task_contract_payload u) \<Longrightarrow> same_contract t u"
  unfolding same_contract_def
  by (intro conjI contract_payload_scalars contract_payload_collections contract_payload_records)

lemma contract_digest_cases:
  assumes "task_contract_digest h t = task_contract_digest h u"
  shows "same_contract t u
    \<or> collision h (utf8_bytes (canonical_json (task_contract_payload t)))
        (utf8_bytes (canonical_json (task_contract_payload u)))"
  using assms unfolding task_contract_digest_def sha256_text_eq_iff
  by (auto dest: canonical_json_norm_inject intro: contract_payload_same_contract)

section \<open>The task inventory\<close>

definition entry_norm :: "string \<times> string \<Rightarrow> json" where
  "entry_norm e = json_norm (JObj [(''task_id'', JStr (fst e)), (''contract_digest'', JStr (snd e))])"

lemma inj_entry_norm: "inj entry_norm"
proof (rule injI)
  fix c d assume eq: "entry_norm c = entry_norm d"
  have "json_field k (JObj [(''task_id'', JStr (fst c)), (''contract_digest'', JStr (snd c))])
      = json_field k (JObj [(''task_id'', JStr (fst d)), (''contract_digest'', JStr (snd d))])" for k
    using eq unfolding entry_norm_def by (rule json_field_cong) simp_all
  from this [of "''task_id''"] this [of "''contract_digest''"]
  show "c = d" by (simp add: json_field_def prod_eq_iff)
qed

definition inventory_entries :: "(byte list \<Rightarrow> byte list) \<Rightarrow> task list \<Rightarrow> (string \<times> string) list" where
  "inventory_entries h ts = map (\<lambda>t. (task_id t, task_contract_digest h t)) (sort_key task_id ts)"

lemma inventory_payload_entries:
  assumes "json_norm (task_inventory_payload h r ts) = json_norm (task_inventory_payload h q us)"
  shows "inventory_entries h ts = inventory_entries h us"
proof -
  have f: "json_field k (task_inventory_payload h r ts) = json_field k (task_inventory_payload h q us)" for k
    using assms unfolding task_inventory_payload_def by (rule json_field_cong) simp_all
  have "map entry_norm (inventory_entries h ts) = map entry_norm (inventory_entries h us)"
    using f [of "''tasks''"]
    by (simp add: json_field_def task_inventory_payload_def entry_norm_def [abs_def]
        inventory_entries_def comp_def)
  then show ?thesis using inj_entry_norm by simp
qed

lemma task_inventory_digest_Inr:
  "task_inventory_digest h r ts = Inr d \<longleftrightarrow> r \<noteq> [] \<and> (\<forall>t \<in> set ts. task_run_id t = r)
     \<and> distinct (map task_id ts) \<and> d = sha256_text h (canonical_json (task_inventory_payload h r ts))"
  by (auto simp: task_inventory_digest_def split: if_splits)

text \<open>The two places where two inventories can show a collision of the hash.\<close>

definition inventory_collision :: "(byte list \<Rightarrow> byte list) \<Rightarrow> string \<Rightarrow> task list \<Rightarrow> task list \<Rightarrow> bool" where
  "inventory_collision h r ts us \<longleftrightarrow>
     collision h (utf8_bytes (canonical_json (task_inventory_payload h r ts)))
       (utf8_bytes (canonical_json (task_inventory_payload h r us)))
     \<or> (\<exists>t \<in> set ts. \<exists>u \<in> set us.
          collision h (utf8_bytes (canonical_json (task_contract_payload t)))
            (utf8_bytes (canonical_json (task_contract_payload u))))"

definition same_contracts :: "task list \<Rightarrow> task list \<Rightarrow> bool" where
  "same_contracts ts us \<longleftrightarrow> task_id ` set ts = task_id ` set us
     \<and> (\<forall>t \<in> set ts. \<forall>u \<in> set us. task_id t = task_id u \<longrightarrow> same_contract t u)"

lemma set_inventory_entries:
  "set (inventory_entries h ts) = (\<lambda>t. (task_id t, task_contract_digest h t)) ` set ts"
  by (auto simp: inventory_entries_def)

lemma inventory_entries_same_contracts:
  assumes eq: "inventory_entries h ts = inventory_entries h us" and d: "distinct (map task_id us)"
    and no: "\<not> inventory_collision h r ts us"
  shows "same_contracts ts us"
proof -
  have s: "(\<lambda>t. (task_id t, task_contract_digest h t)) ` set ts
      = (\<lambda>t. (task_id t, task_contract_digest h t)) ` set us"
    using arg_cong [OF eq, of set] by (simp only: set_inventory_entries)
  from arg_cong [OF s, of "image fst"] have "task_id ` set ts = task_id ` set us"
    by (simp add: image_image)
  moreover have "same_contract t u" if "t \<in> set ts" "u \<in> set us" "task_id t = task_id u" for t u
  proof -
    from s that(1) obtain u' where u': "u' \<in> set us" "task_id t = task_id u'"
        "task_contract_digest h t = task_contract_digest h u'"
      by (auto simp: set_eq_iff image_iff)
    have "u' = u" using d u' that by (auto simp: distinct_map dest: inj_onD)
    then show ?thesis
      using contract_digest_cases [OF u'(3)] no that by (auto simp: inventory_collision_def)
  qed
  ultimately show ?thesis by (auto simp: same_contracts_def)
qed

text \<open>
  C39: The inventory digest that seals a run binds every task contract: two task lists with the
  same digest hold the same IDs, and the tasks under one ID agree in every contract field
  (instructions, dependencies, required checks, reviewer bindings, retry policy and the
  others), unless the encodings at hand are a collision of the hash.
\<close>

theorem task_inventory_digest_binds:
  assumes "task_inventory_digest h r ts = Inr d" "task_inventory_digest h r us = Inr d"
  shows "same_contracts ts us \<or> inventory_collision h r ts us"
proof -
  have "sha256_text h (canonical_json (task_inventory_payload h r ts))
      = sha256_text h (canonical_json (task_inventory_payload h r us))"
    using assms by (simp add: task_inventory_digest_Inr)
  then have "inventory_collision h r ts us \<or>
      json_norm (task_inventory_payload h r ts) = json_norm (task_inventory_payload h r us)"
    unfolding sha256_text_eq_iff inventory_collision_def using canonical_json_norm_inject by blast
  moreover have "distinct (map task_id us)" using assms(2) by (simp add: task_inventory_digest_Inr)
  ultimately show ?thesis
    using inventory_payload_entries [of h r ts r us] inventory_entries_same_contracts [of h ts us r]
    by blast
qed

definition plain_task :: "string \<Rightarrow> string \<Rightarrow> task_kind \<Rightarrow> task" where
  "plain_task rid tid kind = \<lparr>task_id = tid, task_run_id = rid, task_title = ''title'',
     task_instructions = [], task_kind = kind, task_created_seq = 0, task_priority = 0,
     task_wave = 0, task_dependencies = [], task_required_capabilities = [],
     task_required_agent_class = None, task_excluded_agent_ids = [], task_risk_class = Risk_LOW,
     task_input_revision = None, task_output_schema_digest = None, task_idempotency_key = None,
     task_required_checks = [], task_reviewed_task_ids = [], task_reviewed_result_bindings = [],
     task_estimated_tokens = 0,
     task_retry_policy = \<lparr>max_attempts = 3, initial_backoff_seconds = 1, multiplier = 2,
       max_backoff_seconds = 60\<rparr>,
     task_state = Task_QUEUED, task_attempt = 0, task_next_eligible_at = None, task_lease = None,
     task_result_evidence_ids = [], task_completed_by_agent_id = None, task_failure_code = None,
     task_failure_message = None\<rparr>"

theorem task_inventory_digest_binds_witness:
  "\<exists>d. task_inventory_digest sha256 ''r''
       [plain_task ''r'' ''a'' Kind_DESIGN, plain_task ''r'' ''b'' Kind_REVIEW] = Inr d
     \<and> task_inventory_digest sha256 ''r''
       [plain_task ''r'' ''b'' Kind_REVIEW, plain_task ''r'' ''a'' Kind_DESIGN] = Inr d
     \<and> (same_contracts [plain_task ''r'' ''a'' Kind_DESIGN, plain_task ''r'' ''b'' Kind_REVIEW]
          [plain_task ''r'' ''b'' Kind_REVIEW, plain_task ''r'' ''a'' Kind_DESIGN]
        \<or> inventory_collision sha256 ''r''
          [plain_task ''r'' ''a'' Kind_DESIGN, plain_task ''r'' ''b'' Kind_REVIEW]
          [plain_task ''r'' ''b'' Kind_REVIEW, plain_task ''r'' ''a'' Kind_DESIGN])"
proof -
  let ?a = "plain_task ''r'' ''a'' Kind_DESIGN" and ?b = "plain_task ''r'' ''b'' Kind_REVIEW"
  have i: "task_id ?a = ''a''" "task_id ?b = ''b''" "task_run_id ?a = ''r''" "task_run_id ?b = ''r''"
    by (simp_all add: plain_task_def)
  have s: "sort_key task_id [?a, ?b] = [?a, ?b]" "sort_key task_id [?b, ?a] = [?a, ?b]"
    by (simp_all add: i)
  let ?d = "sha256_text sha256 (canonical_json (task_inventory_payload sha256 ''r'' [?a, ?b]))"
  have p: "task_inventory_payload sha256 ''r'' [?b, ?a] = task_inventory_payload sha256 ''r'' [?a, ?b]"
    by (simp only: task_inventory_payload_def s)
  have d: "task_inventory_digest sha256 ''r'' [?a, ?b] = Inr ?d"
      "task_inventory_digest sha256 ''r'' [?b, ?a] = Inr ?d"
    unfolding task_inventory_digest_Inr p by (simp_all add: i)
  show ?thesis using d task_inventory_digest_binds [OF d] by blast
qed

end
