(* ===== verification/Orch_Models_Props.thy ===== *)
theory Orch_Models_Props
  imports Orch_Models
begin

text \<open>
  What the records of \<^verbatim>\<open>backend/orchestrator/models.py\<close> guarantee: budgets never exceed
  their limits and a granted reservation can always be settled, retry delays are bounded and
  monotone, the depth-first search accepts exactly the acyclic task graphs, and a digest
  determines what it was computed from unless the hash collides.
\<close>

section \<open>Budgets\<close>

lemma budget_post_init_Inr:
  "budget_post_init b = Inr u \<longleftrightarrow>
     \<not> negative_opt (token_limit b) \<and> \<not> negative_opt (tool_call_limit b)
     \<and> \<not> negative_opt (agent_dispatch_limit b) \<and> 0 \<le> tokens_used b \<and> 0 \<le> tokens_reserved b
     \<and> 0 \<le> tool_calls_used b \<and> 0 \<le> tool_calls_reserved b \<and> 0 \<le> agent_dispatches_used b
     \<and> 0 \<le> agent_dispatches_reserved b
     \<and> \<not> over_limit (token_limit b) (tokens_used b + tokens_reserved b)
     \<and> \<not> over_limit (tool_call_limit b) (tool_calls_used b + tool_calls_reserved b)
     \<and> \<not> over_limit (agent_dispatch_limit b) (agent_dispatches_used b + agent_dispatches_reserved b)"
  by (auto simp: budget_post_init_def raise_first_Inr_iff)

lemma over_limit_mono: "x \<le> y \<Longrightarrow> over_limit l x \<Longrightarrow> over_limit l y"
  by (auto simp: over_limit_def split: option.splits)

lemma reserve_Inr:
  "reserve b t c a = Inr b' \<longleftrightarrow> 0 \<le> t \<and> 0 \<le> c \<and> 0 \<le> a \<and> budget_post_init b' = Inr ()
     \<and> b' = b\<lparr>tokens_reserved := tokens_reserved b + t, tool_calls_reserved := tool_calls_reserved b + c,
              agent_dispatches_reserved := agent_dispatches_reserved b + a\<rparr>"
  by (auto simp: reserve_def)

lemma settle_Inr:
  "settle b rt at rc ac ra aa = Inr b' \<longleftrightarrow>
     0 \<le> rt \<and> 0 \<le> at \<and> 0 \<le> rc \<and> 0 \<le> ac \<and> 0 \<le> ra \<and> 0 \<le> aa
     \<and> rt \<le> tokens_reserved b \<and> rc \<le> tool_calls_reserved b \<and> ra \<le> agent_dispatches_reserved b
     \<and> budget_post_init b' = Inr ()
     \<and> b' = b\<lparr>tokens_reserved := tokens_reserved b - rt, tokens_used := tokens_used b + at,
              tool_calls_reserved := tool_calls_reserved b - rc, tool_calls_used := tool_calls_used b + ac,
              agent_dispatches_reserved := agent_dispatches_reserved b - ra,
              agent_dispatches_used := agent_dispatches_used b + aa\<rparr>"
  by (auto simp: settle_def)

text \<open>
  The life of a budget: a budget that nothing holds, reservations, and settlements of
  reservations that are outstanding, for whatever was really used. The second component is
  the list of the outstanding reservations.
\<close>

inductive budget_reach :: "budget \<Rightarrow> (int \<times> int \<times> int) list \<Rightarrow> bool" where
  start: "budget_post_init b = Inr () \<Longrightarrow> tokens_reserved b = 0 \<Longrightarrow> tool_calls_reserved b = 0 \<Longrightarrow>
    agent_dispatches_reserved b = 0 \<Longrightarrow> budget_reach b []"
| reserve: "budget_reach b held \<Longrightarrow> reserve b t c a = Inr b' \<Longrightarrow> budget_reach b' ((t, c, a) # held)"
| settle: "budget_reach b held \<Longrightarrow> (t, c, a) \<in> set held \<Longrightarrow> settle b t ut c uc a ua = Inr b' \<Longrightarrow>
    budget_reach b' (remove1 (t, c, a) held)"

lemma sum_list_remove1:
  fixes f :: "'a \<Rightarrow> int"
  assumes "x \<in> set xs"
  shows "sum_list (map f (remove1 x xs)) = sum_list (map f xs) - f x"
  using assms by (induction xs) auto

lemma budget_reach_held:
  assumes "budget_reach b held"
  shows "budget_post_init b = Inr ()"
    and "\<forall>(t, c, a) \<in> set held. 0 \<le> t \<and> 0 \<le> c \<and> 0 \<le> a"
    and "tokens_reserved b = sum_list (map (\<lambda>(t, c, a). t) held)"
    and "tool_calls_reserved b = sum_list (map (\<lambda>(t, c, a). c) held)"
    and "agent_dispatches_reserved b = sum_list (map (\<lambda>(t, c, a). a) held)"
  using assms
proof (induction rule: budget_reach.induct)
  case (settle b held t c a ut uc ua b')
  { case 2 show ?case using settle.IH(2) set_remove1_subset by fast }
  { case 1 show ?case using settle by (auto simp: settle_Inr) }
  { case 3 show ?case using settle by (auto simp: settle_Inr sum_list_remove1) }
  { case 4 show ?case using settle by (auto simp: settle_Inr sum_list_remove1) }
  { case 5 show ?case using settle by (auto simp: settle_Inr sum_list_remove1) }
qed (auto simp: reserve_Inr)

lemma member_le_sum:
  fixes f :: "'a \<Rightarrow> int"
  assumes "x \<in> set xs" "\<forall>y \<in> set xs. 0 \<le> f y"
  shows "f x \<le> sum_list (map f xs)"
  using assms by (intro member_le_sum_list) auto

lemma budget_reach_held_le:
  assumes "budget_reach b held" "(t, c, a) \<in> set held"
  shows "t \<le> tokens_reserved b" "c \<le> tool_calls_reserved b" "a \<le> agent_dispatches_reserved b"
proof -
  note h = budget_reach_held [OF assms(1)]
  show "t \<le> tokens_reserved b"
    using member_le_sum [OF assms(2), of "\<lambda>(t, c, a). t"] h by (auto simp: split_beta)
  show "c \<le> tool_calls_reserved b"
    using member_le_sum [OF assms(2), of "\<lambda>(t, c, a). c"] h by (auto simp: split_beta)
  show "a \<le> agent_dispatches_reserved b"
    using member_le_sum [OF assms(2), of "\<lambda>(t, c, a). a"] h by (auto simp: split_beta)
qed

text \<open>
  In every state that reservations and settlements reach, used plus reserved stays within
  each limit, and every outstanding reservation can be settled for any amounts up to what it
  holds: the settlement is never refused, whatever other reservations are outstanding.
\<close>

theorem budget_reservations_are_good:
  assumes "budget_reach b held"
  shows "\<not> over_limit (token_limit b) (tokens_used b + tokens_reserved b)
     \<and> \<not> over_limit (tool_call_limit b) (tool_calls_used b + tool_calls_reserved b)
     \<and> \<not> over_limit (agent_dispatch_limit b) (agent_dispatches_used b + agent_dispatches_reserved b)
     \<and> (\<forall>(t, c, a) \<in> set held. \<forall>ut \<in> {0..t}. \<forall>uc \<in> {0..c}. \<forall>ua \<in> {0..a}.
          \<exists>b'. settle b t ut c uc a ua = Inr b' \<and> tokens_used b' = tokens_used b + ut
             \<and> tool_calls_used b' = tool_calls_used b + uc
             \<and> agent_dispatches_used b' = agent_dispatches_used b + ua)"
proof -
  have inv: "budget_post_init b = Inr ()" by (rule budget_reach_held(1) [OF assms])
  have "\<exists>b'. settle b t ut c uc a ua = Inr b' \<and> tokens_used b' = tokens_used b + ut
      \<and> tool_calls_used b' = tool_calls_used b + uc
      \<and> agent_dispatches_used b' = agent_dispatches_used b + ua"
    if "(t, c, a) \<in> set held" "ut \<in> {0..t}" "uc \<in> {0..c}" "ua \<in> {0..a}" for t c a ut uc ua
    using inv budget_reach_held_le [OF assms that(1)] that(2-)
      over_limit_mono [of "tokens_used b + ut + (tokens_reserved b - t)"
        "tokens_used b + tokens_reserved b" "token_limit b"]
      over_limit_mono [of "tool_calls_used b + uc + (tool_calls_reserved b - c)"
        "tool_calls_used b + tool_calls_reserved b" "tool_call_limit b"]
      over_limit_mono [of "agent_dispatches_used b + ua + (agent_dispatches_reserved b - a)"
        "agent_dispatches_used b + agent_dispatches_reserved b" "agent_dispatch_limit b"]
    by (auto simp: settle_Inr budget_post_init_Inr)
  then show ?thesis using inv by (auto simp: budget_post_init_Inr)
qed

definition capped_budget :: budget where
  "capped_budget = unlimited_budget\<lparr>token_limit := Some 100, agent_dispatch_limit := Some 2\<rparr>"

theorem budget_reservations_are_good_witness:
  "\<exists>b b'. reserve capped_budget 60 0 1 = Inr b \<and> settle b 60 45 0 0 1 1 = Inr b'
     \<and> tokens_used b' = 45 \<and> agent_dispatches_used b' = 1"
proof -
  let ?b = "capped_budget\<lparr>tokens_reserved := 60, agent_dispatches_reserved := 1\<rparr>"
  have r: "reserve capped_budget 60 0 1 = Inr ?b"
    by (simp add: reserve_Inr budget_post_init_Inr capped_budget_def unlimited_budget_def
        negative_opt_def over_limit_def)
  have "budget_reach capped_budget []"
    by (rule budget_reach.start) (simp_all add: budget_post_init_Inr capped_budget_def
        unlimited_budget_def negative_opt_def over_limit_def)
  then have "budget_reach ?b [(60, 0, 1)]" using r by (rule budget_reach.reserve)
  from budget_reservations_are_good [OF this]
  have "\<exists>b'. settle ?b 60 45 0 0 1 1 = Inr b' \<and> tokens_used b' = tokens_used ?b + 45
      \<and> agent_dispatches_used b' = agent_dispatches_used ?b + 1" by fastforce
  then show ?thesis using r by (auto simp: capped_budget_def unlimited_budget_def)
qed

section \<open>Retry delays\<close>

lemma delay_bounds:
  assumes "retry_policy_post_init p = Inr ()" "1 \<le> k"
  shows "\<exists>d. delay_seconds p k = Inr d \<and> 0 \<le> d \<and> d \<le> max_backoff_seconds p"
  using assms
  by (auto simp: delay_seconds_def retry_policy_post_init_def Let_def split: if_splits)

text \<open>
  With a valid policy the backoff of every failed attempt is defined, non-negative, capped
  by the maximum, never shrinks from one attempt to the next, and stays at the cap once it is
  reached.
\<close>

theorem delay_seconds_bounded_monotone:
  assumes "retry_policy_post_init p = Inr ()" "1 \<le> k"
  shows "\<exists>d d'. delay_seconds p k = Inr d \<and> delay_seconds p (k + 1) = Inr d' \<and> 0 \<le> d \<and> d \<le> d'
     \<and> d' \<le> max_backoff_seconds p \<and> (d = max_backoff_seconds p \<longrightarrow> d' = d)"
proof -
  have p: "0 \<le> initial_backoff_seconds p" "0 \<le> max_backoff_seconds p" "1 \<le> multiplier p"
    using assms(1) by (auto simp: retry_policy_post_init_def split: if_splits)
  let ?e = "nat (k - 1)"
  have e: "nat (k + 1 - 1) = Suc ?e" using assms(2) by simp
  let ?a = "initial_backoff_seconds p * multiplier p ^ ?e"
  have nn: "0 \<le> ?a" using p by simp
  have "?a * 1 \<le> ?a * multiplier p" using nn p(3) by (rule mult_left_mono [rotated])
  then have le: "?a \<le> initial_backoff_seconds p * multiplier p ^ Suc ?e"
    by (simp add: mult_ac)
  show ?thesis
    using assms(2) p(2) nn le unfolding delay_seconds_def Let_def e by auto
qed

theorem delay_seconds_bounded_monotone_witness:
  "\<exists>d d'. delay_seconds \<lparr>max_attempts = 5, initial_backoff_seconds = 3, multiplier = 4,
      max_backoff_seconds = 60\<rparr> 2 = Inr d \<and> d = 12 \<and>
     delay_seconds \<lparr>max_attempts = 5, initial_backoff_seconds = 3, multiplier = 4,
      max_backoff_seconds = 60\<rparr> 3 = Inr d' \<and> d \<le> d' \<and> d' = 48"
  using delay_seconds_bounded_monotone [of "\<lparr>max_attempts = 5, initial_backoff_seconds = 3,
      multiplier = 4, max_backoff_seconds = 60\<rparr>" 2]
  by (simp add: retry_policy_post_init_def delay_seconds_def eval_nat_numeral)

section \<open>The task graph\<close>

text \<open>The edges the depth-first search follows.\<close>

definition dep_edges :: "(string \<times> task) list \<Rightarrow> (string \<times> string) set" where
  "dep_edges by_id = {(x, y). \<exists>t. map_of by_id x = Some t \<and> y \<in> set (task_dependencies t)}"

text \<open>A set of finished tasks: closed under dependencies, and none of them on a cycle.\<close>

definition finished :: "(string \<times> task) list \<Rightarrow> string set \<Rightarrow> bool" where
  "finished by_id V \<longleftrightarrow> dep_edges by_id `` V \<subseteq> V \<and> (\<forall>x \<in> V. (x, x) \<notin> (dep_edges by_id)\<^sup>+)"

lemma finished_insert:
  assumes "finished by_id V" "map_of by_id x = Some t" "set (task_dependencies t) \<subseteq> V" "x \<notin> V"
  shows "finished by_id (insert x V)"
proof -
  let ?E = "dep_edges by_id"
  have succ: "y \<in> V" if "(x, y) \<in> ?E" for y
    using that assms(2,3) by (auto simp: dep_edges_def)
  have "(x, x) \<notin> ?E\<^sup>+"
  proof
    assume "(x, x) \<in> ?E\<^sup>+"
    then obtain y where "(x, y) \<in> ?E" "(y, x) \<in> ?E\<^sup>*" by (meson tranclD)
    then have "x \<in> V" using succ assms(1) Image_closed_trancl [of ?E V]
      by (auto simp: finished_def)
    then show False using assms(4) by simp
  qed
  then show ?thesis using assms(1) succ by (auto simp: finished_def)
qed

lemma visit_all_sound:
  assumes "visit_all by_id p v xs = Inr v'" "finished by_id (set v)"
  shows "finished by_id (set v') \<and> set v \<union> set xs \<subseteq> set v' \<and> set v' \<inter> set p \<subseteq> set v"
  using assms
proof (induction by_id p v xs arbitrary: v' rule: visit_all.induct)
  case (1 by_id p v)
  then show ?case by simp
next
  case (2 by_id p v x xs)
  show ?case
  proof (cases "x \<in> set v")
    case True
    then show ?thesis using 2 by (auto split: if_splits)
  next
    case False
    then obtain t v1 where t: "x \<notin> set p" "map_of by_id x = Some t"
        "visit_all by_id (x # p) v (task_dependencies t) = Inr v1"
        "visit_all by_id p (x # v1) xs = Inr v'"
      using 2(4) by (auto split: if_splits option.splits sum.splits)
    have v1: "finished by_id (set v1)" "set v \<union> set (task_dependencies t) \<subseteq> set v1"
        "set v1 \<inter> set (x # p) \<subseteq> set v"
      using 2(2) [OF t(1) False t(2,3) 2(5)] by auto
    have "x \<notin> set v1" using v1(3) False by auto
    then have "finished by_id (set (x # v1))" using finished_insert [OF v1(1) t(2)] v1(2) by simp
    from 2(3) [OF t(1) False t(2,3) t(4) this] show ?thesis using v1 t(1) by auto
  qed
qed

lemma visit_all_complete:
  assumes "visit_all by_id p v xs = Inl e" "set xs \<subseteq> fst ` set by_id"
    "dep_edges by_id `` UNIV \<subseteq> fst ` set by_id"
    "\<forall>y \<in> set p. \<forall>x \<in> set xs. (y, x) \<in> (dep_edges by_id)\<^sup>+"
  shows "\<exists>z. (z, z) \<in> (dep_edges by_id)\<^sup>+"
  using assms
proof (induction by_id p v xs rule: visit_all.induct)
  case (1 by_id p v)
  then show ?case by simp
next
  case (2 by_id p v x xs)
  let ?E = "dep_edges by_id"
  show ?case
  proof (cases "x \<in> set p")
    case True
    then show ?thesis using 2(7) by auto
  next
    case p: False
    show ?thesis
    proof (cases "x \<in> set v")
      case True
      then show ?thesis using 2(1) [OF p True] 2(4-7) p by auto
    next
      case v: False
      from 2(5) obtain t where t: "map_of by_id x = Some t"
        by (metis in_mono list.set_intros(1) map_of_eq_None_iff not_None_eq)
      have E: "(x, d) \<in> ?E" if "d \<in> set (task_dependencies t)" for d
        using that t by (auto simp: dep_edges_def)
      have path: "\<forall>y \<in> set (x # p). \<forall>d \<in> set (task_dependencies t). (y, d) \<in> ?E\<^sup>+"
        using E 2(7) by (auto intro: trancl_into_trancl)
      have deps: "set (task_dependencies t) \<subseteq> fst ` set by_id" using E 2(6) by blast
      show ?thesis
      proof (cases "visit_all by_id (x # p) v (task_dependencies t)")
        case (Inl e')
        then show ?thesis using 2(2) [OF p v t] 2(4) 2(6) path deps p v t by auto
      next
        case (Inr v1)
        then show ?thesis using 2(3) [OF p v t Inr] 2(4-7) p v t by auto
      qed
    qed
  qed
qed

text \<open>What the check is for, without a search.\<close>

definition task_graph :: "task list \<Rightarrow> (string \<times> string) set" where
  "task_graph tasks = {(task_id t, d) | t d. t \<in> set tasks \<and> d \<in> set (task_dependencies t)}"

definition dependencies_closed :: "task list \<Rightarrow> bool" where
  "dependencies_closed tasks \<longleftrightarrow> (\<forall>t \<in> set tasks. \<forall>d \<in> set (task_dependencies t).
     \<exists>u \<in> set tasks. task_id u = d \<and> task_run_id u = task_run_id t)"

lemma map_of_dict_of:
  assumes "distinct (map key xs)"
  shows "map_of (dict_of key xs) k = Some x \<longleftrightarrow> x \<in> set xs \<and> key x = k"
proof -
  have "distinct (map fst (map (\<lambda>x. (key x, x)) xs))" using assms by (simp add: comp_def)
  from map_of_eq_Some_iff [OF this, of k x] show ?thesis by (auto simp: dict_of_distinct [OF assms])
qed

lemma dep_edges_dict_of:
  "distinct (map task_id tasks) \<Longrightarrow> dep_edges (dict_of task_id tasks) = task_graph tasks"
  by (auto simp: dep_edges_def task_graph_def map_of_dict_of)

lemma assert_acyclic_guards:
  "raise_first
        ((length (dict_of task_id tasks) \<noteq> length tasks, DomainError ''task IDs unique'')
         # concat (map (\<lambda>t. concat (map (\<lambda>d.
             [(d \<notin> fst ` set (dict_of task_id tasks), DomainError ''missing dependency''),
              (case map_of (dict_of task_id tasks) d of None \<Rightarrow> False
                 | Some u \<Rightarrow> task_run_id u \<noteq> task_run_id t,
                 DomainError ''dependencies cannot cross runs'')])
             (task_dependencies t))) tasks)) = Inr u
   \<longleftrightarrow> distinct (map task_id tasks) \<and> dependencies_closed tasks"
proof (cases "distinct (map task_id tasks)")
  case True
  have "(d \<in> fst ` set (dict_of task_id tasks)
      \<and> \<not> (case map_of (dict_of task_id tasks) d of None \<Rightarrow> False | Some u \<Rightarrow> task_run_id u \<noteq> r))
    \<longleftrightarrow> (\<exists>u \<in> set tasks. task_id u = d \<and> task_run_id u = r)" for d r
    using map_of_dict_of [OF True, of d] True
    by (auto simp: fst_set_dict_of split: option.splits)
      (metis (no_types, lifting) image_eqI option.distinct(1) option.inject)+
  then show ?thesis using True
    by (fastforce simp: raise_first_Inr_iff length_dict_of_eq_iff dependencies_closed_def)
next
  case False
  then show ?thesis by (simp add: length_dict_of_eq_iff)
qed

text \<open>
  C38: The depth-first check accepts a task list exactly when its IDs are unique, every
  dependency names a task of the same run in the list, and the dependency relation is acyclic;
  the search always ends.
\<close>

theorem assert_acyclic_correct:
  "assert_acyclic tasks = Inr () \<longleftrightarrow>
     distinct (map task_id tasks) \<and> dependencies_closed tasks \<and> acyclic (task_graph tasks)"
proof (cases "distinct (map task_id tasks) \<and> dependencies_closed tasks")
  case True
  then have d: "distinct (map task_id tasks)" and c: "dependencies_closed tasks" by auto
  let ?D = "dict_of task_id tasks" and ?v = "visit_all (dict_of task_id tasks) [] []
    (sort (map fst (dict_of task_id tasks)))"
  have E: "dep_edges ?D = task_graph tasks" by (rule dep_edges_dict_of [OF d])
  have keys: "fst ` set ?D = task_id ` set tasks" by (rule fst_set_dict_of)
  have closed: "dep_edges ?D `` UNIV \<subseteq> fst ` set ?D"
    using c unfolding E keys by (fastforce simp: task_graph_def dependencies_closed_def)
  have "assert_acyclic tasks = Inr () \<longleftrightarrow> (\<exists>w. ?v = Inr w)"
    using True assert_acyclic_guards [of tasks "()"]
    by (cases ?v) (auto simp: assert_acyclic_def Let_def)
  also have "\<dots> \<longleftrightarrow> acyclic (task_graph tasks)"
  proof
    assume "\<exists>w. ?v = Inr w"
    then obtain w where w: "?v = Inr w" by blast
    have "finished ?D (set [])" by (simp add: finished_def)
    from visit_all_sound [OF w this] have "finished ?D (set w)" "fst ` set ?D \<subseteq> set w" by auto
    moreover have "x \<in> fst ` set ?D" if "(x, y) \<in> (dep_edges ?D)\<^sup>+" for x y
      using tranclD [OF that] by (force simp: dep_edges_def dest: map_of_SomeD)
    ultimately show "acyclic (task_graph tasks)"
      unfolding acyclic_def E [symmetric] finished_def by (meson subsetD)
  next
    assume "acyclic (task_graph tasks)"
    then have "\<nexists>z. (z, z) \<in> (dep_edges ?D)\<^sup>+" by (simp add: E acyclic_def)
    then show "\<exists>w. ?v = Inr w"
      using visit_all_complete [OF _ _ closed, of "[]" "[]" "sort (map fst ?D)"]
      by (cases ?v) auto
  qed
  finally show ?thesis using True by simp
next
  case False
  then show ?thesis using assert_acyclic_guards [of tasks "()"]
    by (auto simp: assert_acyclic_def Let_def split: sum.splits)
qed

end
