(* ===== verification/Orch_State_Machine.thy ===== *)
theory Orch_State_Machine
  imports Orch_Digests Orch_Models_Props
begin

text \<open>
  \<^verbatim>\<open>backend/orchestrator/state_machine.py\<close>: the facts a transition is judged by
  (\<^verbatim>\<open>TransitionContext\<close>), the phase graph of a run, the product stages with their
  approval checkpoints, and the operations on questions and approvals. Every operation is the
  whole method: guards in source order, then the replaced record with its validation.

  \<open>h\<close> is the hash function and \<open>uid\<close> the random part of a generated ID (\<^verbatim>\<open>uuid4().hex\<close>).
\<close>

section \<open>Transition contexts\<close>

record transition_context =
  ctx_questions :: "question list"
  ctx_approvals :: "approval list"
  ctx_tasks :: "task list"
  ctx_agents :: "agent list"
  ctx_evidence :: "evidence list"
  ctx_required_approval_kind :: "approval_kind option"
  ctx_required_subject_digest :: "string option"
  ctx_verification_passed :: bool

definition open_blocking_questions :: "transition_context \<Rightarrow> run \<Rightarrow> question list" where
  "open_blocking_questions ctx r = filter (\<lambda>q. question_run_id q = run_id r \<and> question_blocking q
     \<and> question_state q = Question_OPEN) (ctx_questions ctx)"

definition has_valid_approval ::
  "transition_context \<Rightarrow> run \<Rightarrow> approval_kind \<Rightarrow> string \<Rightarrow> datetime \<Rightarrow> bool result" where
  "has_valid_approval ctx r kind subject_digest at =
     any_r (\<lambda>a. and_r (approval_run_id a = run_id r \<and> approval_kind a = kind)
        (is_valid_for a subject_digest at)) (ctx_approvals ctx)"

definition all_required_tasks_succeeded :: "transition_context \<Rightarrow> run \<Rightarrow> bool" where
  "all_required_tasks_succeeded ctx r =
     (let relevant = filter (\<lambda>t. task_run_id t = run_id r) (ctx_tasks ctx)
      in relevant \<noteq> [] \<and> (\<forall>t \<in> set relevant. task_state t \<in> {Task_SUCCEEDED, Task_CANCELLED}))"

definition matches_task_inventory ::
  "(byte list \<Rightarrow> byte list) \<Rightarrow> transition_context \<Rightarrow> run \<Rightarrow> bool result" where
  "matches_task_inventory h ctx r =
     (if run_task_inventory_digest r = None then Inr False
      else if \<exists>t \<in> set (ctx_tasks ctx). task_run_id t \<noteq> run_id r then Inr False
      else (case task_inventory_digest h (run_id r) (ctx_tasks ctx) of
              Inl e \<Rightarrow> if is_domain_error e then Inr False else Inl e
            | Inr actual \<Rightarrow> Inr (Some actual = run_task_inventory_digest r)))"

text \<open>
  The two dictionaries of \<^verbatim>\<open>has_required_independent_critic_reviews\<close>: records of the
  run, by ID.
\<close>

definition agent_by_id :: "transition_context \<Rightarrow> run \<Rightarrow> (string \<times> agent) list" where
  "agent_by_id ctx r = dict_of agent_id (filter (\<lambda>a. agent_run_id a = run_id r) (ctx_agents ctx))"

definition evidence_by_id :: "transition_context \<Rightarrow> run \<Rightarrow> (string \<times> evidence) list" where
  "evidence_by_id ctx r =
     dict_of evidence_id (filter (\<lambda>v. evidence_run_id v = run_id r) (ctx_evidence ctx))"

text \<open>
  A missing evidence ID (\<^verbatim>\<open>KeyError\<close>) and a refused digest (\<^verbatim>\<open>DomainError\<close>) make the
  binding fail; an \<^verbatim>\<open>OverflowError\<close> of a timestamp is not caught. The last binding of a
  task ID counts.
\<close>

definition binds_exact_target_result ::
  "(byte list \<Rightarrow> byte list) \<Rightarrow> (string \<times> evidence) list \<Rightarrow> task \<Rightarrow> task \<Rightarrow> bool result" where
  "binds_exact_target_result h by_id review target =
     (let bindings = map_option binding_result_digest \<circ>
            map_of (dict_of binding_task_id (task_reviewed_result_bindings review)) in
      if dom bindings \<noteq> set (task_reviewed_task_ids review) then Inr False
      else if \<exists>i \<in> set (task_result_evidence_ids target). i \<notin> fst ` set by_id then Inr False
      else (case task_result_digest h target
              (map (\<lambda>i. the (map_of by_id i)) (task_result_evidence_ids target)) of
              Inl e \<Rightarrow> if is_domain_error e \<or> e = KeyError then Inr False else Inl e
            | Inr actual \<Rightarrow> Inr (bindings (task_id target) = Some actual)))"

definition review_targets :: "transition_context \<Rightarrow> run \<Rightarrow> task list" where
  "review_targets ctx r = filter (\<lambda>t. task_run_id t = run_id r \<and> task_kind t \<in> {Kind_DESIGN, Kind_IMPLEMENT}
     \<and> task_state t \<noteq> Task_CANCELLED) (ctx_tasks ctx)"

definition critic_reviews :: "transition_context \<Rightarrow> run \<Rightarrow> task list" where
  "critic_reviews ctx r = filter (\<lambda>t. task_run_id t = run_id r \<and> task_kind t = Kind_REVIEW
     \<and> task_required_agent_class t = Some CRITIC \<and> task_state t = Task_SUCCEEDED
     \<and> task_completed_by_agent_id t \<noteq> None \<and> task_result_evidence_ids t \<noteq> []) (ctx_tasks ctx)"

definition reviews_target ::
  "(byte list \<Rightarrow> byte list) \<Rightarrow> (string \<times> agent) list \<Rightarrow> (string \<times> evidence) list \<Rightarrow> task \<Rightarrow> task \<Rightarrow> bool result" where
  "reviews_target h agents evs target review =
     and_r (task_id target \<in> set (task_reviewed_task_ids review)
        \<and> task_completed_by_agent_id review \<noteq> task_completed_by_agent_id target
        \<and> (case task_completed_by_agent_id review of None \<Rightarrow> False
            | Some i \<Rightarrow> (case map_of agents i of None \<Rightarrow> False | Some a \<Rightarrow> agent_agent_class a = CRITIC)))
     (bind_r (binds_exact_target_result h evs review target) (\<lambda>b.
        Inr (b \<and> (\<forall>i \<in> set (task_result_evidence_ids review).
          (case map_of evs i of None \<Rightarrow> False | Some v \<Rightarrow> evidence_task_id v = Some (task_id review))))))"

definition has_required_independent_critic_reviews ::
  "(byte list \<Rightarrow> byte list) \<Rightarrow> transition_context \<Rightarrow> run \<Rightarrow> bool result" where
  "has_required_independent_critic_reviews h ctx r =
     (if review_targets ctx r = [] then Inr True
      else if length (agent_by_id ctx r) \<noteq> length (ctx_agents ctx)
           \<or> length (evidence_by_id ctx r) \<noteq> length (ctx_evidence ctx) then Inr False
      else all_r (\<lambda>target.
             and_r (case task_completed_by_agent_id target of None \<Rightarrow> False
                      | Some i \<Rightarrow> i \<in> fst ` set (agent_by_id ctx r))
               (any_r (reviews_target h (agent_by_id ctx r) (evidence_by_id ctx r) target)
                  (critic_reviews ctx r)))
           (review_targets ctx r))"

section \<open>Run phases\<close>

fun allowed :: "run_phase \<Rightarrow> run_phase set" where
  "allowed Run_DRAFT = {Run_CLARIFYING, Run_AWAITING_PLAN_APPROVAL, Run_READY, Run_CANCELLED}"
| "allowed Run_CLARIFYING =
     {Run_AWAITING_PLAN_APPROVAL, Run_READY, Run_EXECUTING, Run_VERIFYING, Run_CANCELLED}"
| "allowed Run_AWAITING_PLAN_APPROVAL = {Run_CLARIFYING, Run_READY, Run_CANCELLED}"
| "allowed Run_READY = {Run_CLARIFYING, Run_EXECUTING, Run_CANCELLED}"
| "allowed Run_EXECUTING =
     {Run_CLARIFYING, Run_AWAITING_CHANGE_APPROVAL, Run_VERIFYING, Run_FAILED, Run_CANCELLED}"
| "allowed Run_AWAITING_CHANGE_APPROVAL = {Run_CLARIFYING, Run_EXECUTING, Run_FAILED, Run_CANCELLED}"
| "allowed Run_VERIFYING = {Run_CLARIFYING, Run_AWAITING_CHANGE_APPROVAL, Run_EXECUTING,
     Run_COMPLETED, Run_FAILED, Run_CANCELLED}"
| "allowed Run_COMPLETED = {}"
| "allowed Run_FAILED = {}"
| "allowed Run_CANCELLED = {}"

definition require_plan_approval :: "run \<Rightarrow> transition_context \<Rightarrow> datetime \<Rightarrow> unit result" where
  "require_plan_approval r ctx at =
     (if \<not> run_require_plan_approval r then Inr ()
      else case run_plan_digest r of
        None \<Rightarrow> Inl (TransitionRejected ''plan digest required'')
      | Some d \<Rightarrow>
          if d = [] then Inl (TransitionRejected ''plan digest required'')
          else bind_r (has_valid_approval ctx r Approve_PLAN d at) (\<lambda>ok.
            raise_first [(\<not> ok, TransitionRejected ''no valid plan approval'')]))"

definition change_gate :: "run \<Rightarrow> transition_context \<Rightarrow> datetime \<Rightarrow> unit result" where
  "change_gate r ctx at =
     (let kind = (case ctx_required_approval_kind ctx of None \<Rightarrow> Approve_CHANGESET | Some k \<Rightarrow> k) in
      if \<not> truthy (ctx_required_subject_digest ctx)
      then Inl (TransitionRejected ''changeset approval requires an exact digest'')
      else bind_r (has_valid_approval ctx r kind (the (ctx_required_subject_digest ctx)) at) (\<lambda>ok.
        raise_first [(\<not> ok, TransitionRejected ''no valid approval for digest'')]))"

definition completed_gate ::
  "(byte list \<Rightarrow> byte list) \<Rightarrow> run \<Rightarrow> transition_context \<Rightarrow> unit result" where
  "completed_gate h r ctx =
     (if \<not> ctx_verification_passed ctx
      then Inl (TransitionRejected ''complete without passed verification'')
      else bind_r (matches_task_inventory h ctx r) (\<lambda>sealed.
        if \<not> sealed then Inl (TransitionRejected ''complete without sealed task inventory'')
        else if \<not> all_required_tasks_succeeded ctx r
        then Inl (TransitionRejected ''complete before all tasks are terminal-success'')
        else if \<not> run_require_independent_critic r then Inr ()
        else bind_r (has_required_independent_critic_reviews h ctx r) (\<lambda>reviewed.
          raise_first [(\<not> reviewed, TransitionRejected ''complete without critic review'')])))"

definition transition ::
  "(byte list \<Rightarrow> byte list) \<Rightarrow> run \<Rightarrow> run_phase \<Rightarrow> datetime \<Rightarrow> transition_context \<Rightarrow> run result" where
  "transition h r target at ctx =
     bind_r (require_aware at) (\<lambda>_.
     bind_r (raise_first
       [(run_phase r \<in> terminal_run_phases, TransitionRejected ''terminal run''),
        (target = run_phase r, TransitionRejected ''no-op transition''),
        (target \<notin> allowed (run_phase r), TransitionRejected ''transition not allowed''),
        (run_strict_user_coordination r
           \<and> target \<in> {Run_READY, Run_EXECUTING, Run_VERIFYING, Run_COMPLETED}
           \<and> open_blocking_questions ctx r \<noteq> [], TransitionRejected ''blocking questions open'')])
       (\<lambda>_.
     bind_r (if target \<in> {Run_READY, Run_EXECUTING} then require_plan_approval r ctx at else Inr ())
       (\<lambda>_.
     bind_r (if run_phase r = Run_AWAITING_CHANGE_APPROVAL \<and> target = Run_EXECUTING
             then change_gate r ctx at else Inr ()) (\<lambda>_.
     bind_r (if target = Run_COMPLETED then completed_gate h r ctx else Inr ()) (\<lambda>_.
     validated run_post_init (r\<lparr>run_phase := target, run_revision := run_revision r + 1\<rparr>))))))"

section \<open>Coordination stages\<close>

fun stage_next :: "coordination_stage \<Rightarrow> coordination_stage option" where
  "stage_next QUESTIONING = Some AWAITING_BRIEF_APPROVAL"
| "stage_next AWAITING_BRIEF_APPROVAL = Some RESEARCH"
| "stage_next RESEARCH = Some AWAITING_ARCHITECTURE_BOM_APPROVAL"
| "stage_next AWAITING_ARCHITECTURE_BOM_APPROVAL = Some SCHEMATIC_STAGE"
| "stage_next SCHEMATIC_STAGE = Some AWAITING_SCHEMATIC_APPROVAL"
| "stage_next AWAITING_SCHEMATIC_APPROVAL = Some AWAITING_LAYOUT_CONSTRAINT_APPROVAL"
| "stage_next AWAITING_LAYOUT_CONSTRAINT_APPROVAL = Some PLACEMENT_STAGE"
| "stage_next PLACEMENT_STAGE = Some AWAITING_PLACEMENT_APPROVAL"
| "stage_next AWAITING_PLACEMENT_APPROVAL = Some ROUTING_STAGE"
| "stage_next ROUTING_STAGE = Some AWAITING_ROUTING_APPROVAL"
| "stage_next AWAITING_ROUTING_APPROVAL = Some RELEASE_CHECK"
| "stage_next RELEASE_CHECK = Some AWAITING_RELEASE_APPROVAL"
| "stage_next AWAITING_RELEASE_APPROVAL = Some RELEASED"
| "stage_next RELEASED = None"

text \<open>The items of \<^verbatim>\<open>_CHECKPOINT_KIND\<close>, in their order.\<close>

definition checkpoint_kind_items :: "(coordination_stage \<times> approval_kind) list" where
  "checkpoint_kind_items =
     [(AWAITING_BRIEF_APPROVAL, Approve_BRIEF),
      (AWAITING_ARCHITECTURE_BOM_APPROVAL, Approve_ARCHITECTURE_BOM),
      (AWAITING_SCHEMATIC_APPROVAL, Approve_SCHEMATIC),
      (AWAITING_LAYOUT_CONSTRAINT_APPROVAL, Approve_LAYOUT_CONSTRAINTS),
      (AWAITING_PLACEMENT_APPROVAL, Approve_PLACEMENT),
      (AWAITING_ROUTING_APPROVAL, Approve_ROUTING),
      (AWAITING_RELEASE_APPROVAL, Approve_RELEASE)]"

definition checkpoint_kind :: "coordination_stage \<Rightarrow> approval_kind option" where
  "checkpoint_kind = map_of checkpoint_kind_items"

fun stage_phase :: "coordination_stage \<Rightarrow> run_phase" where
  "stage_phase QUESTIONING = Run_CLARIFYING"
| "stage_phase AWAITING_BRIEF_APPROVAL = Run_AWAITING_PLAN_APPROVAL"
| "stage_phase RESEARCH = Run_EXECUTING"
| "stage_phase AWAITING_ARCHITECTURE_BOM_APPROVAL = Run_AWAITING_CHANGE_APPROVAL"
| "stage_phase SCHEMATIC_STAGE = Run_EXECUTING"
| "stage_phase AWAITING_SCHEMATIC_APPROVAL = Run_AWAITING_CHANGE_APPROVAL"
| "stage_phase AWAITING_LAYOUT_CONSTRAINT_APPROVAL = Run_AWAITING_CHANGE_APPROVAL"
| "stage_phase PLACEMENT_STAGE = Run_EXECUTING"
| "stage_phase AWAITING_PLACEMENT_APPROVAL = Run_AWAITING_CHANGE_APPROVAL"
| "stage_phase ROUTING_STAGE = Run_EXECUTING"
| "stage_phase AWAITING_ROUTING_APPROVAL = Run_AWAITING_CHANGE_APPROVAL"
| "stage_phase RELEASE_CHECK = Run_VERIFYING"
| "stage_phase AWAITING_RELEASE_APPROVAL = Run_AWAITING_CHANGE_APPROVAL"
| "stage_phase RELEASED = Run_COMPLETED"

text \<open>The \<^verbatim>\<open>replace\<close> of a run that enters a stage.\<close>

definition enter_stage :: "run \<Rightarrow> coordination_stage \<Rightarrow> string option \<Rightarrow> run" where
  "enter_stage r target checkpoint =
     r\<lparr>run_phase := stage_phase target, run_coordination_stage := target,
       run_checkpoint_digest := checkpoint,
       run_coordination_revision := run_coordination_revision r + 1,
       run_revision := run_revision r + 1\<rparr>"

definition checkpoint_gate :: "run \<Rightarrow> transition_context \<Rightarrow> datetime \<Rightarrow> unit result" where
  "checkpoint_gate r ctx at =
     (case checkpoint_kind (run_coordination_stage r) of
        None \<Rightarrow> Inr ()
      | Some kind \<Rightarrow>
          if \<not> truthy (run_checkpoint_digest r)
          then Inl (TransitionRejected ''no immutable checkpoint digest'')
          else bind_r (has_valid_approval ctx r kind (the (run_checkpoint_digest r)) at) (\<lambda>ok.
            raise_first [(\<not> ok, TransitionRejected ''no valid approval for checkpoint'')]))"

definition released_gate ::
  "(byte list \<Rightarrow> byte list) \<Rightarrow> run \<Rightarrow> transition_context \<Rightarrow> unit result" where
  "released_gate h r ctx =
     (if \<not> ctx_verification_passed ctx
      then Inl (TransitionRejected ''release requires passed verification'')
      else bind_r (matches_task_inventory h ctx r) (\<lambda>sealed.
        if \<not> sealed then Inl (TransitionRejected ''release requires sealed task inventory'')
        else if \<not> all_required_tasks_succeeded ctx r
        then Inl (TransitionRejected ''release requires all tasks to succeed'')
        else if \<not> run_require_independent_critic r then Inr ()
        else bind_r (has_required_independent_critic_reviews h ctx r) (\<lambda>reviewed.
          raise_first [(\<not> reviewed, TransitionRejected ''release requires critic review'')])))"

definition advance ::
  "(byte list \<Rightarrow> byte list) \<Rightarrow> run \<Rightarrow> coordination_stage \<Rightarrow> datetime \<Rightarrow> transition_context \<Rightarrow> run result" where
  "advance h r target at ctx =
     bind_r (require_aware at) (\<lambda>_.
     bind_r (raise_first
       [(run_coordination_stage r = RELEASED, TransitionRejected ''released runs cannot advance''),
        (stage_next (run_coordination_stage r) \<noteq> Some target, TransitionRejected ''must advance to next''),
        (open_blocking_questions ctx r \<noteq> [], TransitionRejected ''blocking questions open'')]) (\<lambda>_.
     bind_r (checkpoint_gate r ctx at) (\<lambda>_.
     bind_r (if target = RELEASED then released_gate h r ctx else Inr ()) (\<lambda>_.
     validated run_post_init (enter_stage r target None)))))"

definition restart_questioning :: "run \<Rightarrow> run result" where
  "restart_questioning r =
     (if run_coordination_stage r = RELEASED
      then Inl (TransitionRejected ''released run needs a new revision'')
      else validated run_post_init (enter_stage r QUESTIONING None))"

section \<open>Questions and approvals\<close>

text \<open>\<^verbatim>\<open>new_id(prefix)\<close> for the prefixes this module uses.\<close>

definition new_id :: "string \<Rightarrow> string \<Rightarrow> string" where
  "new_id uid prefix = prefix @ ''_'' @ uid"

definition or_new_id :: "string option \<Rightarrow> string \<Rightarrow> string \<Rightarrow> string" where
  "or_new_id given uid prefix = (if truthy given then the given else new_id uid prefix)"

record question_request =
  req_prompt :: string
  req_rationale :: string
  req_blocking :: bool
  req_options :: "string list"
  req_recommendation :: "string option"
  req_confidence_basis_points :: "int option"
  req_allow_custom_answer :: bool
  req_bound_revision :: "string option"
  req_affected_artifact_ids :: "string list"
  req_dependent_decision_ids :: "string list"
  req_question_id :: "string option"

definition open_question :: "string \<Rightarrow> run \<Rightarrow> question_request \<Rightarrow> datetime \<Rightarrow> (run \<times> question) result" where
  "open_question uid r q at =
     bind_r (require_aware at) (\<lambda>_.
     let options = map strip (req_options q) in
     bind_r (raise_first
       [(run_phase r \<in> terminal_run_phases, TransitionRejected ''question on a terminal run''),
        ([] \<in> set options, DomainError ''blank option''),
        (\<not> distinct options, DomainError ''options unique'')]) (\<lambda>_.
     bind_r (validated question_post_init
       \<lparr>question_id = or_new_id (req_question_id q) uid ''question'', question_run_id = run_id r,
        question_prompt = req_prompt q, question_rationale = req_rationale q, question_asked_at = at,
        question_blocking = req_blocking q, question_options = options,
        question_recommendation = req_recommendation q,
        question_confidence_basis_points = req_confidence_basis_points q,
        question_allow_custom_answer = req_allow_custom_answer q,
        question_bound_revision = req_bound_revision q,
        question_affected_artifact_ids = req_affected_artifact_ids q,
        question_dependent_decision_ids = req_dependent_decision_ids q,
        question_state = Question_OPEN, question_answer = None, question_answered_by = None,
        question_answered_at = None\<rparr>) (\<lambda>question.
     bind_r (if req_blocking q
               \<and> (run_phase r \<noteq> Run_CLARIFYING \<or> run_coordination_stage r \<noteq> QUESTIONING)
             then validated run_post_init (enter_stage r QUESTIONING None) else Inr r) (\<lambda>next_run.
     Inr (next_run, question)))))"

definition requested_approval ::
  "string \<Rightarrow> string option \<Rightarrow> run \<Rightarrow> approval_kind \<Rightarrow> string \<Rightarrow> string \<Rightarrow> datetime \<Rightarrow> datetime option \<Rightarrow> approval" where
  "requested_approval uid aid r kind subject_digest summary at expires_at =
     \<lparr>approval_id = or_new_id aid uid ''approval'', approval_run_id = run_id r, approval_kind = kind,
      approval_subject_digest = subject_digest, approval_summary = summary,
      approval_requested_at = at, approval_expires_at = expires_at,
      approval_state = Approval_REQUESTED, approval_decided_by = None, approval_decided_at = None,
      approval_reason = None\<rparr>"

definition request_checkpoint_approval ::
  "string \<Rightarrow> string option \<Rightarrow> run \<Rightarrow> approval_kind \<Rightarrow> string \<Rightarrow> string \<Rightarrow> datetime \<Rightarrow> datetime option \<Rightarrow>
   (run \<times> approval) result" where
  "request_checkpoint_approval uid aid r kind subject_digest summary at expires_at =
     bind_r (require_aware at) (\<lambda>_.
     (case map fst (filter (\<lambda>(stage, expected). expected = kind) checkpoint_kind_items) of
        [target] \<Rightarrow>
          bind_r (raise_first
            [(run_coordination_stage r \<noteq> target \<and> stage_next (run_coordination_stage r) \<noteq> Some target,
                TransitionRejected ''approval not valid during stage''),
             (subject_digest = [], DomainError ''immutable subject digest required'')]) (\<lambda>_.
          bind_r (validated run_post_init (enter_stage r target (Some subject_digest))) (\<lambda>next_run.
          bind_r (validated approval_post_init
              (requested_approval uid aid r kind subject_digest summary at expires_at)) (\<lambda>approval.
          Inr (next_run, approval))))
      | _ \<Rightarrow> Inl (DomainError ''not a product checkpoint approval kind'')))"

definition answer_question :: "question \<Rightarrow> string \<Rightarrow> string \<Rightarrow> datetime \<Rightarrow> question result" where
  "answer_question q answer answered_by at =
     bind_r (require_aware at) (\<lambda>_.
     let normalized = strip answer in
     bind_r (raise_first
       [(question_state q \<noteq> Question_OPEN, DomainError ''only open questions''),
        (normalized = [] \<or> strip answered_by = [], DomainError ''answer and user required''),
        (question_options q \<noteq> [] \<and> normalized \<notin> set (question_options q)
           \<and> \<not> question_allow_custom_answer q, DomainError ''answer must match an option'')]) (\<lambda>_.
     validated question_post_init
       (q\<lparr>question_state := Question_ANSWERED, question_answer := Some normalized,
          question_answered_by := Some answered_by, question_answered_at := Some at\<rparr>)))"

definition request_approval ::
  "string \<Rightarrow> string option \<Rightarrow> run \<Rightarrow> approval_kind \<Rightarrow> string \<Rightarrow> string \<Rightarrow> datetime \<Rightarrow> datetime option \<Rightarrow>
   (run \<times> approval) result" where
  "request_approval uid aid r kind subject_digest summary at expires_at =
     bind_r (require_aware at) (\<lambda>_.
     if run_phase r \<in> terminal_run_phases
     then Inl (TransitionRejected ''approval on a terminal run'')
     else
     bind_r
       (if kind = Approve_PLAN
        then validated run_post_init (r\<lparr>run_phase := Run_AWAITING_PLAN_APPROVAL,
               run_plan_digest := Some subject_digest, run_revision := run_revision r + 1\<rparr>)
        else if Run_AWAITING_CHANGE_APPROVAL \<notin> allowed (run_phase r)
             \<and> run_phase r \<noteq> Run_AWAITING_CHANGE_APPROVAL
        then Inl (TransitionRejected ''cannot request approval during phase'')
        else if run_phase r \<noteq> Run_AWAITING_CHANGE_APPROVAL
        then validated run_post_init (r\<lparr>run_phase := Run_AWAITING_CHANGE_APPROVAL,
               run_revision := run_revision r + 1\<rparr>)
        else Inr r) (\<lambda>next_run.
     bind_r (validated approval_post_init
         (requested_approval uid aid r kind subject_digest summary at expires_at)) (\<lambda>approval.
     Inr (next_run, approval))))"

definition decide_approval :: "approval \<Rightarrow> bool \<Rightarrow> string \<Rightarrow> string \<Rightarrow> datetime \<Rightarrow> approval result" where
  "decide_approval a approve decided_by reason at =
     bind_r (require_aware at) (\<lambda>_.
     bind_r (raise_first
       [(approval_state a \<noteq> Approval_REQUESTED, DomainError ''already decided''),
        (strip decided_by = [], DomainError ''user identity required'')]) (\<lambda>_.
     if (case approval_expires_at a of None \<Rightarrow> False | Some d \<Rightarrow> instant at \<ge> instant d)
     then validated approval_post_init
       (a\<lparr>approval_state := Approval_EXPIRED, approval_decided_by := Some decided_by,
          approval_decided_at := Some at,
          approval_reason := Some (if reason = [] then ''expired before decision'' else reason)\<rparr>)
     else validated approval_post_init
       (a\<lparr>approval_state := (if approve then Approval_APPROVED else Approval_REJECTED),
          approval_decided_by := Some decided_by, approval_decided_at := Some at,
          approval_reason := Some reason\<rparr>)))"

end
