(* ===== verification/Coordination.thy ===== *)
theory Coordination
  imports Orch_State_Machine
begin

text \<open>
  What the coordination state machine guarantees. The operations on a run are the steps of a
  relation; a history of a run is a sequence of steps. Shown: what completing or releasing a
  run required, which steps can pass an approval checkpoint, that a revision identifies the
  state of a run in its history, that a released run is final, and the life of approvals and
  questions. Two theorems record paths by which the gates are passed over.
\<close>

section \<open>Guards that may raise\<close>

lemma require_aware_Inr: "require_aware d = Inr u \<longleftrightarrow> is_aware d"
  by (simp add: require_aware_def)

lemma is_valid_for_True:
  "is_valid_for a d at = Inr True \<longleftrightarrow> is_aware at \<and> approval_state a = Approval_APPROVED
     \<and> approval_subject_digest a = d
     \<and> (case approval_expires_at a of None \<Rightarrow> True | Some x \<Rightarrow> instant at < instant x)"
  by (simp add: is_valid_for_def require_aware_def)

definition valid_receipt :: "transition_context \<Rightarrow> run \<Rightarrow> approval_kind \<Rightarrow> string \<Rightarrow> datetime \<Rightarrow> bool" where
  "valid_receipt ctx r kind d at \<longleftrightarrow> (\<exists>a \<in> set (ctx_approvals ctx).
     approval_run_id a = run_id r \<and> approval_kind a = kind
     \<and> approval_state a = Approval_APPROVED \<and> approval_subject_digest a = d
     \<and> (case approval_expires_at a of None \<Rightarrow> True | Some x \<Rightarrow> instant at < instant x))"

lemma has_valid_approval_iff:
  assumes "is_aware at"
  shows "has_valid_approval ctx r kind d at = Inr (valid_receipt ctx r kind d at)"
proof -
  have "is_valid_for a d at = Inr (approval_state a = Approval_APPROVED \<and> approval_subject_digest a = d
      \<and> (case approval_expires_at a of None \<Rightarrow> True | Some x \<Rightarrow> instant at < instant x))" for a
    using assms by (simp add: is_valid_for_def require_aware_def)
  then show ?thesis
    unfolding has_valid_approval_def valid_receipt_def
    by (subst any_r_total) (auto simp: and_r_def)
qed

section \<open>What completion requires\<close>

text \<open>
  \<open>review\<close> is an independent review of \<open>target\<close>: a succeeded critic task, completed by an
  agent of the critic class who did not complete the target, whose own evidence belongs to it,
  and which names the digest of exactly the target's result.
\<close>

definition independent_review ::
  "(byte list \<Rightarrow> byte list) \<Rightarrow> transition_context \<Rightarrow> task \<Rightarrow> task \<Rightarrow> bool" where
  "independent_review h ctx review target \<longleftrightarrow>
     task_kind review = Kind_REVIEW \<and> task_state review = Task_SUCCEEDED
     \<and> task_id target \<in> set (task_reviewed_task_ids review)
     \<and> task_completed_by_agent_id review \<noteq> task_completed_by_agent_id target
     \<and> (\<exists>a \<in> set (ctx_agents ctx). task_completed_by_agent_id review = Some (agent_id a)
          \<and> agent_agent_class a = CRITIC)
     \<and> task_result_evidence_ids review \<noteq> []
     \<and> (\<forall>i \<in> set (task_result_evidence_ids review). \<exists>v \<in> set (ctx_evidence ctx).
          evidence_id v = i \<and> evidence_task_id v = Some (task_id review))
     \<and> (\<exists>b \<in> set (task_reviewed_result_bindings review). \<exists>vs. set vs \<subseteq> set (ctx_evidence ctx)
          \<and> binding_task_id b = task_id target
          \<and> task_result_digest h target vs = Inr (binding_result_digest b))"

definition completion_evidence :: "(byte list \<Rightarrow> byte list) \<Rightarrow> transition_context \<Rightarrow> run \<Rightarrow> bool" where
  "completion_evidence h ctx r \<longleftrightarrow>
     ctx_verification_passed ctx
     \<and> (\<exists>d. run_task_inventory_digest r = Some d
          \<and> task_inventory_digest h (run_id r) (ctx_tasks ctx) = Inr d)
     \<and> ctx_tasks ctx \<noteq> []
     \<and> (\<forall>t \<in> set (ctx_tasks ctx). task_state t \<in> {Task_SUCCEEDED, Task_CANCELLED})
     \<and> (run_require_independent_critic r \<longrightarrow>
          (\<forall>t \<in> set (ctx_tasks ctx). task_kind t \<in> {Kind_DESIGN, Kind_IMPLEMENT}
             \<longrightarrow> task_state t = Task_SUCCEEDED
             \<longrightarrow> (\<exists>review \<in> set (ctx_tasks ctx). independent_review h ctx review t)))"

lemma matches_task_inventory_True:
  assumes "matches_task_inventory h ctx r = Inr True"
  obtains d where "run_task_inventory_digest r = Some d"
    "task_inventory_digest h (run_id r) (ctx_tasks ctx) = Inr d"
    "\<forall>t \<in> set (ctx_tasks ctx). task_run_id t = run_id r"
  using assms by (auto simp: matches_task_inventory_def split: if_splits sum.splits)

lemma map_of_dict_of_mem: "map_of (dict_of key xs) k = Some x \<Longrightarrow> x \<in> set xs \<and> key x = k"
proof -
  have "(\<forall>(k, x) \<in> set (fold (\<lambda>x d. AList.update (key x) x d) xs d). key x = k \<and> x \<in> S)"
    if "\<forall>(k, x) \<in> set d. key x = k \<and> x \<in> S" "set xs \<subseteq> S" for d S
    using that
  proof (induction xs arbitrary: d)
    case (Cons y ys)
    have "\<forall>(k, x) \<in> set (AList.update (key y) y d). key x = k \<and> x \<in> S"
      using Cons.prems by (induction d) auto
    then show ?case using Cons by simp
  qed simp
  from this [of "[]" "set xs"] show "map_of (dict_of key xs) k = Some x \<Longrightarrow> x \<in> set xs \<and> key x = k"
    by (auto simp: dict_of_def dest!: map_of_SomeD)
qed

lemma binds_exact_target_result_True:
  assumes "binds_exact_target_result h (evidence_by_id ctx r) review target = Inr True"
  shows "\<exists>b \<in> set (task_reviewed_result_bindings review). \<exists>vs. set vs \<subseteq> set (ctx_evidence ctx)
     \<and> binding_task_id b = task_id target \<and> task_result_digest h target vs = Inr (binding_result_digest b)"
proof -
  let ?vs = "map (\<lambda>i. the (map_of (evidence_by_id ctx r) i)) (task_result_evidence_ids target)"
  have ids: "\<forall>i \<in> set (task_result_evidence_ids target). i \<in> fst ` set (evidence_by_id ctx r)"
    using assms by (auto simp: binds_exact_target_result_def Let_def split: if_splits)
  have "v \<in> set (ctx_evidence ctx)" if "v \<in> set ?vs" for v
  proof -
    from that obtain i where i: "i \<in> set (task_result_evidence_ids target)"
        "v = the (map_of (evidence_by_id ctx r) i)" by auto
    with ids obtain w where "map_of (evidence_by_id ctx r) i = Some w"
      by (metis map_of_eq_None_iff option.exhaust)
    with i show ?thesis by (auto simp: evidence_by_id_def dest!: map_of_dict_of_mem)
  qed
  then have sub: "set ?vs \<subseteq> set (ctx_evidence ctx)" by blast
  obtain d where d: "task_result_digest h target ?vs = Inr d"
      "map_option binding_result_digest (map_of (dict_of binding_task_id
         (task_reviewed_result_bindings review)) (task_id target)) = Some d"
    using assms by (auto simp: binds_exact_target_result_def Let_def split: if_splits sum.splits)
  then obtain b where b: "map_of (dict_of binding_task_id (task_reviewed_result_bindings review))
      (task_id target) = Some b" "binding_result_digest b = d" by auto
  from map_of_dict_of_mem [OF b(1)] sub d(1) b(2) show ?thesis by blast
qed

lemma reviews_target_True:
  assumes "reviews_target h (agent_by_id ctx r) (evidence_by_id ctx r) target review = Inr True"
    "review \<in> set (critic_reviews ctx r)"
  shows "independent_review h ctx review target"
proof -
  have b: "binds_exact_target_result h (evidence_by_id ctx r) review target = Inr True"
    and ev: "\<forall>i \<in> set (task_result_evidence_ids review). \<exists>v.
      map_of (evidence_by_id ctx r) i = Some v \<and> evidence_task_id v = Some (task_id review)"
    using assms(1) by (auto simp: reviews_target_def and_r_True bind_r_Inr_iff split: option.splits)
  obtain a where a: "task_completed_by_agent_id review = Some (agent_id a)" "a \<in> set (ctx_agents ctx)"
      "agent_agent_class a = CRITIC"
    using assms(1)
    by (auto simp: reviews_target_def and_r_True agent_by_id_def split: option.splits
        dest!: map_of_dict_of_mem)
  have "\<forall>i \<in> set (task_result_evidence_ids review). \<exists>v \<in> set (ctx_evidence ctx).
      evidence_id v = i \<and> evidence_task_id v = Some (task_id review)"
    using ev by (fastforce simp: evidence_by_id_def dest: map_of_dict_of_mem)
  then show ?thesis
    using assms a binds_exact_target_result_True [OF b]
    by (auto simp: independent_review_def reviews_target_def and_r_True critic_reviews_def)
qed

lemma critic_reviews_True:
  assumes "has_required_independent_critic_reviews h ctx r = Inr True"
    "t \<in> set (ctx_tasks ctx)" "task_run_id t = run_id r" "task_kind t \<in> {Kind_DESIGN, Kind_IMPLEMENT}"
    "task_state t \<noteq> Task_CANCELLED"
  shows "\<exists>review \<in> set (ctx_tasks ctx). independent_review h ctx review t"
proof -
  have t: "t \<in> set (review_targets ctx r)" using assms(2-) by (auto simp: review_targets_def)
  then have "review_targets ctx r \<noteq> []" by auto
  with assms(1) t have "any_r (reviews_target h (agent_by_id ctx r) (evidence_by_id ctx r) t)
      (critic_reviews ctx r) = Inr True"
    by (auto simp: has_required_independent_critic_reviews_def and_r_True all_r_True split: if_splits)
  then obtain review where r: "review \<in> set (critic_reviews ctx r)"
      "reviews_target h (agent_by_id ctx r) (evidence_by_id ctx r) t review = Inr True"
    using any_r_True by blast
  from r(1) have "review \<in> set (ctx_tasks ctx)" by (simp add: critic_reviews_def)
  with reviews_target_True [OF r(2) r(1)] show ?thesis by blast
qed

lemma gate_completion_evidence:
  assumes "ctx_verification_passed ctx" "matches_task_inventory h ctx r = Inr True"
    "all_required_tasks_succeeded ctx r"
    "run_require_independent_critic r \<Longrightarrow> has_required_independent_critic_reviews h ctx r = Inr True"
  shows "completion_evidence h ctx r"
proof -
  obtain d where d: "run_task_inventory_digest r = Some d"
      "task_inventory_digest h (run_id r) (ctx_tasks ctx) = Inr d"
      "\<forall>t \<in> set (ctx_tasks ctx). task_run_id t = run_id r"
    using matches_task_inventory_True [OF assms(2)] by blast
  have "filter (\<lambda>t. task_run_id t = run_id r) (ctx_tasks ctx) = ctx_tasks ctx"
    using d(3) by (simp add: filter_id_conv)
  with assms(3) have "ctx_tasks ctx \<noteq> []"
      "\<forall>t \<in> set (ctx_tasks ctx). task_state t \<in> {Task_SUCCEEDED, Task_CANCELLED}"
    by (auto simp: all_required_tasks_succeeded_def Let_def)
  then show ?thesis
    using assms(1,4) d critic_reviews_True [of h ctx r] by (auto simp: completion_evidence_def)
qed

lemma completed_gate_Inr: "completed_gate h r ctx = Inr u \<Longrightarrow> completion_evidence h ctx r"
  by (rule gate_completion_evidence) (auto simp: completed_gate_def bind_r_Inr_iff split: if_splits)

lemma released_gate_Inr: "released_gate h r ctx = Inr u \<Longrightarrow> completion_evidence h ctx r"
  by (rule gate_completion_evidence) (auto simp: released_gate_def bind_r_Inr_iff split: if_splits)

end
