(* ===== verification/Coordination_History.thy ===== *)
theory Coordination_History
  imports Coordination
begin

text \<open>
  Histories of a run: every operation of \<^verbatim>\<open>state_machine.py\<close> that returns a run is a
  step, with any arguments and any facts a caller presents.
\<close>

section \<open>Steps\<close>

inductive coord_step :: "(byte list \<Rightarrow> byte list) \<Rightarrow> run \<Rightarrow> run \<Rightarrow> bool" for h where
  transition: "transition h r target at ctx = Inr r' \<Longrightarrow> coord_step h r r'"
| advance: "advance h r target at ctx = Inr r' \<Longrightarrow> coord_step h r r'"
| restart: "restart_questioning r = Inr r' \<Longrightarrow> coord_step h r r'"
| question: "open_question uid r q at = Inr (r', qu) \<Longrightarrow> coord_step h r r'"
| checkpoint: "request_checkpoint_approval uid aid r kind d s at ex = Inr (r', a) \<Longrightarrow> coord_step h r r'"
| approval: "request_approval uid aid r kind d s at ex = Inr (r', a) \<Longrightarrow> coord_step h r r'"

text \<open>The result of each operation, when it returns.\<close>

lemma transition_Inr:
  assumes "transition h r target at ctx = Inr r'"
  shows "r' = r\<lparr>run_phase := target, run_revision := run_revision r + 1\<rparr>" "run_post_init r' = Inr ()"
    "target \<in> allowed (run_phase r)" "run_phase r \<notin> terminal_run_phases"
  using assms by (auto simp: transition_def bind_r_Inr_iff split: if_splits)

lemma transition_completed:
  assumes "transition h r Run_COMPLETED at ctx = Inr r'"
  shows "completion_evidence h ctx r"
    "run_strict_user_coordination r \<Longrightarrow> open_blocking_questions ctx r = []"
  using assms by (auto simp: transition_def bind_r_Inr_iff split: if_splits
      intro: completed_gate_Inr)

lemma advance_Inr:
  assumes "advance h r target at ctx = Inr r'"
  shows "r' = enter_stage r target None" "run_post_init r' = Inr ()"
    "stage_next (run_coordination_stage r) = Some target" "open_blocking_questions ctx r = []"
    "is_aware at" "checkpoint_gate r ctx at = Inr ()"
    "target = RELEASED \<Longrightarrow> completion_evidence h ctx r"
  using assms by (auto simp: advance_def bind_r_Inr_iff require_aware_Inr split: if_splits
      intro: released_gate_Inr)

lemma checkpoint_gate_receipt:
  assumes "checkpoint_gate r ctx at = Inr ()" "is_aware at"
    "checkpoint_kind (run_coordination_stage r) = Some k"
  shows "\<exists>d. run_checkpoint_digest r = Some d \<and> valid_receipt ctx r k d at"
  using assms by (auto simp: checkpoint_gate_def has_valid_approval_iff truthy_def split: if_splits)

lemma restart_Inr:
  assumes "restart_questioning r = Inr r'"
  shows "r' = enter_stage r QUESTIONING None" "run_post_init r' = Inr ()"
    "run_coordination_stage r \<noteq> RELEASED"
  using assms by (auto simp: restart_questioning_def split: if_splits)

lemma open_question_Inr:
  assumes "open_question uid r q at = Inr (r', qu)"
  shows "r' = r \<or> r' = enter_stage r QUESTIONING None" "r' \<noteq> r \<Longrightarrow> run_post_init r' = Inr ()"
    "run_phase r \<notin> terminal_run_phases"
  using assms by (auto simp: open_question_def Let_def bind_r_Inr_iff split: if_splits)

lemma checkpoint_kind_targets:
  "map fst (filter (\<lambda>(stage, expected). expected = kind) checkpoint_kind_items) = [target] \<Longrightarrow>
   checkpoint_kind target = Some kind"
  by (cases kind) (auto simp: checkpoint_kind_items_def checkpoint_kind_def)

lemma checkpoint_kind_stage:
  "checkpoint_kind s = Some k \<Longrightarrow> s \<noteq> RELEASED \<and> s \<noteq> QUESTIONING \<and> stage_phase s \<noteq> Run_COMPLETED"
  by (cases s) (auto simp: checkpoint_kind_items_def checkpoint_kind_def)

lemma request_checkpoint_Inr:
  assumes "request_checkpoint_approval uid aid r kind d s at ex = Inr (r', a)"
  obtains target where "r' = enter_stage r target (Some d)" "run_post_init r' = Inr ()"
    "checkpoint_kind target = Some kind" "d \<noteq> []"
    "run_coordination_stage r = target \<or> stage_next (run_coordination_stage r) = Some target"
proof -
  obtain target where t: "map fst (filter (\<lambda>(stage, expected). expected = kind) checkpoint_kind_items)
      = [target]"
    using assms by (auto simp: request_checkpoint_approval_def bind_r_Inr_iff split: list.splits)
  show thesis
    using that [of target] assms checkpoint_kind_targets [OF t]
    unfolding request_checkpoint_approval_def t
    by (auto simp: bind_r_Inr_iff split: if_splits)
qed

lemma request_approval_Inr:
  assumes "request_approval uid aid r kind d s at ex = Inr (r', a)"
  shows "r' = r \<or> run_post_init r' = Inr () \<and> run_revision r' = run_revision r + 1
      \<and> run_coordination_stage r' = run_coordination_stage r
      \<and> run_phase r' \<in> {Run_AWAITING_PLAN_APPROVAL, Run_AWAITING_CHANGE_APPROVAL}"
    "run_id r' = run_id r" "run_phase r \<notin> terminal_run_phases"
  using assms by (auto simp: request_approval_def bind_r_Inr_iff split: if_splits)

lemma enter_stage_simps [simp]:
  "run_id (enter_stage r s c) = run_id r" "run_phase (enter_stage r s c) = stage_phase s"
  "run_coordination_stage (enter_stage r s c) = s" "run_checkpoint_digest (enter_stage r s c) = c"
  "run_revision (enter_stage r s c) = run_revision r + 1"
  "run_coordination_revision (enter_stage r s c) = run_coordination_revision r + 1"
  by (simp_all add: enter_stage_def)

section \<open>A sample run\<close>

text \<open>
  A run with one design task, completed by a designer and reviewed by a critic: the concrete
  input on which the theorems below are shown to apply.
\<close>

definition sample_evidence :: "string \<Rightarrow> string \<Rightarrow> evidence" where
  "sample_evidence eid tid = \<lparr>evidence_id = eid, evidence_run_id = ''r'', evidence_kind = ARTIFACT,
     evidence_source = ''tool'', evidence_content_digest = ''c'', evidence_summary = [],
     evidence_captured_at = utc 1000000, evidence_task_id = Some tid, evidence_check_id = None,
     evidence_policy_digest = None, evidence_passed = None, evidence_metadata = JObj []\<rparr>"

definition sample_agent :: "string \<Rightarrow> agent_class \<Rightarrow> agent" where
  "sample_agent aid cls = \<lparr>agent_id = aid, agent_run_id = ''r'', agent_name = ''n'', agent_created_seq = 0,
     agent_agent_class = cls, agent_parent_agent_id = None, agent_capabilities = [],
     agent_state = Agent_AVAILABLE, agent_wave = 0, agent_current_task_id = None,
     agent_last_heartbeat_at = None\<rparr>"

definition sample_design :: task where
  "sample_design = (plain_task ''r'' ''a'' Kind_DESIGN)\<lparr>task_state := Task_SUCCEEDED,
     task_completed_by_agent_id := Some ''x'', task_result_evidence_ids := [''e1'']\<rparr>"

definition sample_review :: task where
  "sample_review = (plain_task ''r'' ''b'' Kind_REVIEW)\<lparr>task_state := Task_SUCCEEDED,
     task_completed_by_agent_id := Some ''y'', task_required_agent_class := Some CRITIC,
     task_result_evidence_ids := [''e2''], task_dependencies := [''a''],
     task_reviewed_task_ids := [''a''],
     task_reviewed_result_bindings := [\<lparr>binding_task_id = ''a'', binding_result_digest =
       sha256_text sha256 (canonical_json
         (task_result_payload sha256 sample_design ''x'' [sample_evidence ''e1'' ''a'']))\<rparr>]\<rparr>"

definition sample_context :: transition_context where
  "sample_context = \<lparr>ctx_questions = [], ctx_approvals = [],
     ctx_tasks = [sample_design, sample_review],
     ctx_agents = [sample_agent ''x'' DOMAIN_DESIGNER, sample_agent ''y'' CRITIC],
     ctx_evidence = [sample_evidence ''e1'' ''a'', sample_evidence ''e2'' ''b''],
     ctx_required_approval_kind = None, ctx_required_subject_digest = None,
     ctx_verification_passed = True\<rparr>"

definition sample_run :: "run_phase \<Rightarrow> coordination_stage \<Rightarrow> run" where
  "sample_run ph st = \<lparr>run_id = ''r'', run_objective = ''o'', run_created_at = utc 0, run_phase = ph,
     run_coordination_stage = st, run_checkpoint_digest = None, run_coordination_revision = 0,
     run_strict_user_coordination = True, run_require_plan_approval = True,
     run_require_independent_critic = True,
     run_task_inventory_digest = Some (sha256_text sha256 (canonical_json
       (task_inventory_payload sha256 ''r'' [sample_design, sample_review]))),
     run_plan_digest = None, run_max_concurrency = 2, run_budget = unlimited_budget,
     run_revision = 0\<rparr>"

lemma sample_task_fields [simp]:
  "task_id sample_design = ''a''" "task_run_id sample_design = ''r''"
  "task_kind sample_design = Kind_DESIGN" "task_state sample_design = Task_SUCCEEDED"
  "task_completed_by_agent_id sample_design = Some ''x''" "task_result_evidence_ids sample_design = [''e1'']"
  "task_id sample_review = ''b''" "task_run_id sample_review = ''r''"
  "task_kind sample_review = Kind_REVIEW" "task_state sample_review = Task_SUCCEEDED"
  "task_completed_by_agent_id sample_review = Some ''y''" "task_result_evidence_ids sample_review = [''e2'']"
  "task_reviewed_task_ids sample_review = [''a'']" "task_required_agent_class sample_review = Some CRITIC"
  by (simp_all add: sample_design_def sample_review_def plain_task_def)

lemma sample_run_fields [simp]:
  "run_id (sample_run ph st) = ''r''" "run_phase (sample_run ph st) = ph"
  "run_coordination_stage (sample_run ph st) = st" "run_revision (sample_run ph st) = 0"
  "run_require_independent_critic (sample_run ph st)" "run_strict_user_coordination (sample_run ph st)"
  by (simp_all add: sample_run_def)

lemma strip_singletons [simp]: "strip ''o'' = ''o''"
  by (simp add: strip_def char_isspace_def)

lemma run_post_init_Inr:
  "run_post_init r = Inr u \<longleftrightarrow>
     (case run_task_inventory_digest r of None \<Rightarrow> True | Some d \<Rightarrow> is_sha256_hex d)
     \<and> is_aware (run_created_at r) \<and> run_id r \<noteq> [] \<and> strip (run_objective r) \<noteq> []
     \<and> 1 \<le> run_max_concurrency r \<and> 0 \<le> run_revision r \<and> 0 \<le> run_coordination_revision r"
  by (auto simp: run_post_init_def split: option.splits)

lemma sample_run_valid: "run_post_init (sample_run ph st) = Inr ()"
  by (simp add: run_post_init_Inr sample_run_def sha256_digest.sha256_text_hex)

lemma sample_result_digest:
  "task_result_digest sha256 sample_design [sample_evidence ''e1'' ''a''] =
     Inr (sha256_text sha256 (canonical_json
         (task_result_payload sha256 sample_design ''x'' [sample_evidence ''e1'' ''a''])))"
  by (simp add: task_result_digest_def sample_evidence_def in_datetime_range_def datetime_max_def)

lemma sample_dicts [simp]:
  "agent_by_id sample_context (sample_run ph st) =
     [(''x'', sample_agent ''x'' DOMAIN_DESIGNER), (''y'', sample_agent ''y'' CRITIC)]"
  "evidence_by_id sample_context (sample_run ph st) =
     [(''e1'', sample_evidence ''e1'' ''a''), (''e2'', sample_evidence ''e2'' ''b'')]"
  by (simp_all add: agent_by_id_def evidence_by_id_def sample_context_def dict_of_def
      sample_agent_def sample_evidence_def)

lemma sample_binds:
  "binds_exact_target_result sha256
     [(''e1'', sample_evidence ''e1'' ''a''), (''e2'', sample_evidence ''e2'' ''b'')]
     sample_review sample_design = Inr True"
proof -
  have "task_reviewed_result_bindings sample_review = [\<lparr>binding_task_id = ''a'', binding_result_digest =
       sha256_text sha256 (canonical_json
         (task_result_payload sha256 sample_design ''x'' [sample_evidence ''e1'' ''a'']))\<rparr>]"
    by (simp add: sample_review_def)
  then show ?thesis
    by (simp add: binds_exact_target_result_def dict_of_def sample_result_digest dom_def)
qed

lemma sample_reviewed:
  "has_required_independent_critic_reviews sha256 sample_context (sample_run ph st) = Inr True"
proof -
  have t: "review_targets sample_context (sample_run ph st) = [sample_design]"
    by (simp add: review_targets_def sample_context_def)
  have c: "critic_reviews sample_context (sample_run ph st) = [sample_review]"
    by (simp add: critic_reviews_def sample_context_def)
  have "reviews_target sha256
     [(''x'', sample_agent ''x'' DOMAIN_DESIGNER), (''y'', sample_agent ''y'' CRITIC)]
     [(''e1'', sample_evidence ''e1'' ''a''), (''e2'', sample_evidence ''e2'' ''b'')]
     sample_design sample_review = Inr True"
    by (simp add: reviews_target_def and_r_def sample_binds sample_agent_def)
      (simp add: sample_evidence_def)
  then show ?thesis
    by (simp add: has_required_independent_critic_reviews_def t c and_r_def)
      (simp add: sample_context_def)
qed

lemma sample_sealed: "matches_task_inventory sha256 sample_context (sample_run ph st) = Inr True"
proof -
  have "task_inventory_digest sha256 ''r'' [sample_design, sample_review] =
      Inr (sha256_text sha256 (canonical_json
        (task_inventory_payload sha256 ''r'' [sample_design, sample_review])))"
    by (simp add: task_inventory_digest_Inr)
  then show ?thesis by (simp add: matches_task_inventory_def sample_context_def sample_run_def)
qed

lemma sample_completes:
  "transition sha256 (sample_run Run_VERIFYING QUESTIONING) Run_COMPLETED (utc 0) sample_context =
     Inr ((sample_run Run_VERIFYING QUESTIONING)\<lparr>run_phase := Run_COMPLETED, run_revision := 1\<rparr>)"
proof -
  let ?r = "sample_run Run_VERIFYING QUESTIONING"
  have "all_required_tasks_succeeded sample_context ?r"
    by (simp add: all_required_tasks_succeeded_def sample_context_def)
  then have g: "completed_gate sha256 ?r sample_context = Inr ()"
    by (simp add: completed_gate_def sample_sealed sample_reviewed) (simp add: sample_context_def)
  have q: "open_blocking_questions sample_context ?r = []"
    by (simp add: open_blocking_questions_def sample_context_def)
  have "run_post_init (?r\<lparr>run_phase := Run_COMPLETED, run_revision := 1\<rparr>) = Inr ()"
    using sample_run_valid [of Run_VERIFYING QUESTIONING] by (simp add: run_post_init_Inr)
  then show ?thesis
    by (simp add: transition_def require_aware_def terminal_run_phases_def g q)
qed

definition sample_release_receipt :: approval where
  "sample_release_receipt = \<lparr>approval_id = ''p'', approval_run_id = ''r'', approval_kind = Approve_RELEASE,
     approval_subject_digest = ''d'', approval_summary = [], approval_requested_at = utc 0,
     approval_expires_at = None, approval_state = Approval_APPROVED, approval_decided_by = Some ''u'',
     approval_decided_at = Some (utc 0), approval_reason = None\<rparr>"

lemma sample_releases:
  "advance sha256 ((sample_run Run_AWAITING_CHANGE_APPROVAL AWAITING_RELEASE_APPROVAL)\<lparr>run_checkpoint_digest := Some ''d''\<rparr>)
     RELEASED (utc 0) (sample_context\<lparr>ctx_approvals := [sample_release_receipt]\<rparr>) =
   Inr (enter_stage ((sample_run Run_AWAITING_CHANGE_APPROVAL AWAITING_RELEASE_APPROVAL)\<lparr>run_checkpoint_digest := Some ''d''\<rparr>) RELEASED None)"
proof -
  let ?s = "sample_run Run_AWAITING_CHANGE_APPROVAL AWAITING_RELEASE_APPROVAL"
  let ?r = "?s\<lparr>run_checkpoint_digest := Some ''d''\<rparr>" and ?c = "sample_context\<lparr>ctx_approvals := [sample_release_receipt]\<rparr>"
  have e: "run_id ?r = run_id ?s" "run_task_inventory_digest ?r = run_task_inventory_digest ?s"
      "run_require_independent_critic ?r = run_require_independent_critic ?s"
      "ctx_tasks ?c = ctx_tasks sample_context" "ctx_agents ?c = ctx_agents sample_context"
      "ctx_evidence ?c = ctx_evidence sample_context"
      "ctx_verification_passed ?c = ctx_verification_passed sample_context" by simp_all
  have cong: "matches_task_inventory sha256 ?c ?r = matches_task_inventory sha256 sample_context ?s"
      "all_required_tasks_succeeded ?c ?r = all_required_tasks_succeeded sample_context ?s"
      "has_required_independent_critic_reviews sha256 ?c ?r
        = has_required_independent_critic_reviews sha256 sample_context ?s"
    by (simp_all only: matches_task_inventory_def all_required_tasks_succeeded_def
        has_required_independent_critic_reviews_def review_targets_def critic_reviews_def
        agent_by_id_def evidence_by_id_def e)
  have "all_required_tasks_succeeded sample_context ?s"
    by (simp add: all_required_tasks_succeeded_def sample_context_def)
  then have g: "released_gate sha256 ?r ?c = Inr ()"
    unfolding released_gate_def cong e by (simp add: sample_sealed sample_reviewed) (simp add: sample_context_def)
  have k: "checkpoint_gate ?r ?c (utc 0) = Inr ()"
    by (simp add: checkpoint_gate_def checkpoint_kind_def checkpoint_kind_items_def truthy_def
        has_valid_approval_iff valid_receipt_def sample_release_receipt_def)
  have q: "open_blocking_questions ?c ?r = []"
    by (simp add: open_blocking_questions_def sample_context_def)
  have "run_post_init (enter_stage ?r RELEASED None) = Inr ()"
    using sample_run_valid [of Run_AWAITING_CHANGE_APPROVAL AWAITING_RELEASE_APPROVAL]
    by (simp add: run_post_init_Inr enter_stage_def)
  then show ?thesis by (simp add: advance_def require_aware_def g k q)
qed

section \<open>Revisions\<close>

lemma coord_step_revision:
  assumes "coord_step h r r'"
  shows "r' = r \<or> run_revision r' = run_revision r + 1 \<and> run_post_init r' = Inr ()"
  using assms
proof (cases rule: coord_step.cases)
  case (transition target at ctx)
  then show ?thesis using transition_Inr [OF transition] by simp
next
  case (checkpoint uid aid kind d s at ex a)
  then show ?thesis by (auto elim: request_checkpoint_Inr)
qed (auto dest: advance_Inr restart_Inr open_question_Inr request_approval_Inr)

lemma coord_step_id: "coord_step h r r' \<Longrightarrow> run_id r' = run_id r"
proof (induction rule: coord_step.induct)
  case (transition r target at ctx r')
  then show ?case using transition_Inr [OF transition] by simp
next
  case (checkpoint uid aid r kind d s at ex r' a)
  then show ?case by (auto elim: request_checkpoint_Inr)
qed (auto dest: advance_Inr restart_Inr open_question_Inr request_approval_Inr)

lemma coord_steps_revision:
  assumes "(coord_step h)\<^sup>*\<^sup>* r r'"
  shows "r' = r \<or> run_revision r < run_revision r' \<and> run_post_init r' = Inr ()"
  using assms
proof (induction rule: rtranclp_induct)
  case (step y z)
  then show ?case using coord_step_revision [OF step.hyps(2)] by auto
qed simp

text \<open>
  In a history of a run a revision number identifies the state: the run ID never changes,
  every step that changes the run yields a valid record with a larger revision, and so two
  states of the history with the same revision are the same record. This is what a store that
  compares revisions before writing relies on.
\<close>

theorem revision_identifies_state:
  assumes "(coord_step h)\<^sup>*\<^sup>* r0 r" "(coord_step h)\<^sup>*\<^sup>* r r'"
  shows "run_id r' = run_id r0
     \<and> (run_revision r' = run_revision r \<longrightarrow> r' = r)
     \<and> (r' \<noteq> r \<longrightarrow> run_revision r < run_revision r' \<and> run_post_init r' = Inr ())"
proof -
  have "(coord_step h)\<^sup>*\<^sup>* r0 r'" using assms by (rule rtranclp_trans)
  then have "run_id r' = run_id r0"
    by (induction rule: rtranclp_induct) (auto dest: coord_step_id)
  then show ?thesis using coord_steps_revision [OF assms(2)] by auto
qed

theorem revision_identifies_state_witness:
  "\<exists>r'. coord_step sha256 (sample_run Run_EXECUTING RESEARCH) r' \<and> run_phase r' = Run_CLARIFYING
     \<and> run_revision r' > 0 \<and> run_id r' = ''r''"
proof -
  let ?r = "sample_run Run_EXECUTING RESEARCH" and ?r' = "enter_stage (sample_run Run_EXECUTING RESEARCH) QUESTIONING None"
  have "restart_questioning ?r = Inr ?r'"
    using sample_run_valid [of Run_EXECUTING RESEARCH]
    by (simp add: restart_questioning_def run_post_init_Inr enter_stage_def)
  then have "coord_step sha256 ?r ?r'" by (rule coord_step.restart)
  moreover have "run_phase ?r' \<noteq> run_phase ?r" by simp
  then have "?r' \<noteq> ?r" by metis
  ultimately show ?thesis
    using revision_identifies_state [of sha256 ?r ?r ?r'] by auto
qed

section \<open>Completion, checkpoints and release over a history\<close>

text \<open>The step that completes a run, with the facts it was judged by.\<close>

definition completion_step :: "(byte list \<Rightarrow> byte list) \<Rightarrow> run \<Rightarrow> run \<Rightarrow> bool" where
  "completion_step h s s' \<longleftrightarrow> (\<exists>ctx at. completion_evidence h ctx s
     \<and> (transition h s Run_COMPLETED at ctx = Inr s' \<and> run_phase s = Run_VERIFYING
        \<and> (run_strict_user_coordination s \<longrightarrow> open_blocking_questions ctx s = [])
        \<or> advance h s RELEASED at ctx = Inr s' \<and> open_blocking_questions ctx s = []
          \<and> (\<exists>d. run_checkpoint_digest s = Some d \<and> valid_receipt ctx s Approve_RELEASE d at)))"

lemma coord_step_completed:
  assumes "coord_step h r r'" "run_phase r' = Run_COMPLETED" "run_phase r \<noteq> Run_COMPLETED"
  shows "completion_step h r r'"
  using assms(1)
proof (cases rule: coord_step.cases)
  case (transition target at ctx)
  from transition_Inr [OF transition] assms(2) have t: "target = Run_COMPLETED" by simp
  have "run_phase r = Run_VERIFYING"
    using transition_Inr(3) [OF transition] t by (cases "run_phase r") auto
  then show ?thesis using transition transition_completed t unfolding completion_step_def by blast
next
  case (advance target at ctx)
  note a = advance_Inr [OF advance]
  have t: "target = RELEASED" using a(1) assms(2) by (cases target) auto
  have s: "run_coordination_stage r = AWAITING_RELEASE_APPROVAL"
    using a(3) t by (cases "run_coordination_stage r") auto
  have "checkpoint_kind (run_coordination_stage r) = Some Approve_RELEASE"
    by (simp add: s checkpoint_kind_def checkpoint_kind_items_def)
  from checkpoint_gate_receipt [OF a(6,5) this] show ?thesis
    using advance a(4) a(7) [OF t] t unfolding completion_step_def by blast
next
  case (restart)
  then show ?thesis using restart_Inr [OF restart] assms(2) by simp
next
  case (question uid q at qu)
  then show ?thesis using open_question_Inr [OF question] assms by auto
next
  case (checkpoint uid aid kind d s at ex a)
  then show ?thesis using assms(2) by (auto elim!: request_checkpoint_Inr dest: checkpoint_kind_stage)
next
  case (approval uid aid kind d s at ex a)
  then show ?thesis using request_approval_Inr(1) [OF approval] assms(2,3) by auto
qed

text \<open>
  C1: A run is completed only on evidence. If a history leads from a run that is not completed
  to one that is, then at some step of it the caller presented facts under which verification
  had passed, the tasks were exactly those of the sealed inventory, each of them succeeded or
  cancelled, and (where the run demands it) every design or implementation task that succeeded
  had an independent critic review bound to the digest of its result. The step was a transition
  from the verifying phase, or a release with an approval of the checkpoint's exact digest and
  no blocking question open.
\<close>

theorem completion_requires_evidence:
  assumes "(coord_step h)\<^sup>*\<^sup>* r0 r" "run_phase r0 \<noteq> Run_COMPLETED" "run_phase r = Run_COMPLETED"
  shows "\<exists>s s'. (coord_step h)\<^sup>*\<^sup>* r0 s \<and> completion_step h s s' \<and> (coord_step h)\<^sup>*\<^sup>* s' r"
  using assms
proof (induction rule: rtranclp_induct)
  case (step y z)
  show ?case
  proof (cases "run_phase y = Run_COMPLETED")
    case True
    with step.IH step.prems obtain s s' where "(coord_step h)\<^sup>*\<^sup>* r0 s" "completion_step h s s'"
        "(coord_step h)\<^sup>*\<^sup>* s' y" by blast
    with step.hyps(2) show ?thesis by (meson rtranclp.rtrancl_into_rtrancl)
  next
    case False
    with coord_step_completed [OF step.hyps(2)] step.prems step.hyps(1) show ?thesis by blast
  qed
qed simp

theorem completion_requires_evidence_witness:
  "\<exists>s s'. completion_step sha256 s s' \<and> (coord_step sha256)\<^sup>*\<^sup>* (sample_run Run_VERIFYING QUESTIONING) s
     \<and> (coord_step sha256)\<^sup>*\<^sup>* s' ((sample_run Run_VERIFYING QUESTIONING)\<lparr>run_phase := Run_COMPLETED, run_revision := 1\<rparr>)"
proof -
  have "coord_step sha256 (sample_run Run_VERIFYING QUESTIONING)
      ((sample_run Run_VERIFYING QUESTIONING)\<lparr>run_phase := Run_COMPLETED, run_revision := 1\<rparr>)"
    by (rule coord_step.transition) (rule sample_completes)
  then show ?thesis
    using completion_requires_evidence [OF r_into_rtranclp] by fastforce
qed

text \<open>
  An approval checkpoint other than the schematic one is left in one of two ways: back to
  questioning, or forward to the next stage with an approved, unexpired receipt of the
  checkpoint's own kind for the exact digest the run carries, and with no blocking question
  open.
\<close>

theorem checkpoints_need_approval:
  assumes "coord_step h r r'" "checkpoint_kind (run_coordination_stage r) = Some k"
    "k \<noteq> Approve_SCHEMATIC" "run_coordination_stage r' \<noteq> run_coordination_stage r"
  shows "run_coordination_stage r' = QUESTIONING
     \<or> stage_next (run_coordination_stage r) = Some (run_coordination_stage r')
       \<and> (\<exists>ctx at d. run_checkpoint_digest r = Some d \<and> valid_receipt ctx r k d at
            \<and> open_blocking_questions ctx r = [])"
  using assms(1)
proof (cases rule: coord_step.cases)
  case (transition target at ctx)
  then show ?thesis using transition_Inr(1) [OF transition] assms(4) by simp
next
  case (advance target at ctx)
  note a = advance_Inr [OF advance]
  from checkpoint_gate_receipt [OF a(6,5) assms(2)] show ?thesis using a(1,3,4) by auto
next
  case (restart)
  then show ?thesis using restart_Inr(1) [OF restart] by simp
next
  case (question uid q at qu)
  then show ?thesis using open_question_Inr(1) [OF question] assms(4) by auto
next
  case (checkpoint uid aid kind d s at ex a)
  then obtain target where t: "r' = enter_stage r target (Some d)"
      "checkpoint_kind target = Some kind"
      "run_coordination_stage r = target \<or> stage_next (run_coordination_stage r) = Some target"
    by (blast elim: request_checkpoint_Inr)
  have "stage_next (run_coordination_stage r) \<noteq> Some target"
    using assms(2,3) t(2) by (cases "run_coordination_stage r")
      (auto simp: checkpoint_kind_def checkpoint_kind_items_def)
  then show ?thesis using t assms(4) by simp
next
  case (approval uid aid kind d s at ex a)
  then show ?thesis using request_approval_Inr(1) [OF approval] assms(4) by auto
qed

theorem checkpoints_need_approval_witness:
  "\<exists>r'. coord_step sha256
       ((sample_run Run_AWAITING_CHANGE_APPROVAL AWAITING_RELEASE_APPROVAL)\<lparr>run_checkpoint_digest := Some ''d''\<rparr>) r'
     \<and> run_coordination_stage r' = RELEASED \<and> (\<exists>ctx at. valid_receipt ctx
       ((sample_run Run_AWAITING_CHANGE_APPROVAL AWAITING_RELEASE_APPROVAL)\<lparr>run_checkpoint_digest := Some ''d''\<rparr>)
       Approve_RELEASE ''d'' at)"
proof -
  note c = coord_step.advance [OF sample_releases]
  show ?thesis
    using checkpoints_need_approval [OF c, of Approve_RELEASE] c
    by (fastforce simp: checkpoint_kind_def checkpoint_kind_items_def)
qed

text \<open>
  The schematic checkpoint can be passed over. From a valid run that awaits schematic
  approval, a request for the layout-constraint approval is accepted and puts the run at that
  later checkpoint, although no approval of the schematic is looked at.
\<close>

theorem schematic_checkpoint_skipped:
  assumes "run_post_init r = Inr ()" "run_coordination_stage r = AWAITING_SCHEMATIC_APPROVAL"
    "is_aware at" "d \<noteq> []"
  shows "\<exists>r' a. request_checkpoint_approval uid None r Approve_LAYOUT_CONSTRAINTS d summary at None
       = Inr (r', a)
     \<and> run_coordination_stage r' = AWAITING_LAYOUT_CONSTRAINT_APPROVAL
     \<and> run_checkpoint_digest r' = Some d"
  using assms
  by (auto simp: request_checkpoint_approval_def checkpoint_kind_items_def require_aware_def
      bind_r_def validated_def approval_post_init_def requested_approval_def or_new_id_def new_id_def
      truthy_def run_post_init_def enter_stage_def split: if_splits)

theorem schematic_checkpoint_skipped_witness:
  "\<exists>r' a. request_checkpoint_approval ''u'' None
       (sample_run Run_AWAITING_CHANGE_APPROVAL AWAITING_SCHEMATIC_APPROVAL)
       Approve_LAYOUT_CONSTRAINTS ''d'' [] (utc 0) None = Inr (r', a)
     \<and> run_coordination_stage r' = AWAITING_LAYOUT_CONSTRAINT_APPROVAL"
  using schematic_checkpoint_skipped [of "sample_run Run_AWAITING_CHANGE_APPROVAL AWAITING_SCHEMATIC_APPROVAL"
      "utc 0" "''d''" "''u''" "[]"] sample_run_valid by auto

section \<open>Final states\<close>

definition final_when_released :: "run \<Rightarrow> bool" where
  "final_when_released r \<longleftrightarrow> (run_coordination_stage r = RELEASED \<longrightarrow> run_phase r = Run_COMPLETED)"

lemma coord_step_stage:
  assumes "coord_step h r r'" "final_when_released r"
  shows "run_coordination_stage r \<noteq> RELEASED" "final_when_released r'"
proof -
  have *: "run_coordination_stage r \<noteq> RELEASED \<and> final_when_released r'"
    using assms(1)
  proof (cases rule: coord_step.cases)
    case (transition target at ctx)
    then show ?thesis using transition_Inr [OF transition] assms(2)
      by (auto simp: final_when_released_def terminal_run_phases_def)
  next
    case (advance target at ctx)
    then show ?thesis using advance_Inr(1,3) [OF advance] by (auto simp: final_when_released_def)
  next
    case (restart)
    then show ?thesis using restart_Inr [OF restart] by (auto simp: final_when_released_def)
  next
    case (question uid q at qu)
    then show ?thesis using open_question_Inr [OF question] assms(2)
      by (auto simp: final_when_released_def terminal_run_phases_def)
  next
    case (checkpoint uid aid kind d s at ex a)
    then show ?thesis
      by (auto elim!: request_checkpoint_Inr dest: checkpoint_kind_stage simp: final_when_released_def)
  next
    case (approval uid aid kind d s at ex a)
    then show ?thesis using request_approval_Inr [OF approval] assms(2)
      by (auto simp: final_when_released_def terminal_run_phases_def)
  qed
  then show "run_coordination_stage r \<noteq> RELEASED" "final_when_released r'" by auto
qed

text \<open>
  A released run is final: in every history that starts before release, a run at the
  released stage is in the completed phase, and no operation with any arguments changes it or
  returns a run at all.
\<close>

theorem released_runs_are_final:
  assumes "(coord_step h)\<^sup>*\<^sup>* r0 r" "run_coordination_stage r0 \<noteq> RELEASED"
    "run_coordination_stage r = RELEASED"
  shows "run_phase r = Run_COMPLETED \<and> (\<nexists>r'. coord_step h r r')"
proof -
  have "final_when_released r0" using assms(2) by (simp add: final_when_released_def)
  with assms(1) have "final_when_released r"
    by (induction rule: rtranclp_induct) (auto dest: coord_step_stage)
  then show ?thesis using assms(3) coord_step_stage(1) by (auto simp: final_when_released_def)
qed

theorem released_runs_are_final_witness:
  "\<exists>r. (coord_step sha256)\<^sup>*\<^sup>*
       ((sample_run Run_AWAITING_CHANGE_APPROVAL AWAITING_RELEASE_APPROVAL)\<lparr>run_checkpoint_digest := Some ''d''\<rparr>) r
     \<and> run_phase r = Run_COMPLETED \<and> (\<nexists>r'. coord_step sha256 r r')"
proof -
  let ?r = "(sample_run Run_AWAITING_CHANGE_APPROVAL AWAITING_RELEASE_APPROVAL)\<lparr>run_checkpoint_digest := Some ''d''\<rparr>"
  have "(coord_step sha256)\<^sup>*\<^sup>* ?r (enter_stage ?r RELEASED None)"
    using coord_step.advance [OF sample_releases] by (rule r_into_rtranclp)
  from released_runs_are_final [OF this] this show ?thesis by (intro exI conjI) auto
qed

text \<open>
  A failed or cancelled run is not final. Phase transitions, questions and plan or change
  approvals are refused for it, but restarting the questioning stage accepts it and returns a
  run in the clarifying phase.
\<close>

theorem terminal_run_can_resume:
  assumes "run_post_init r = Inr ()" "run_phase r \<in> {Run_FAILED, Run_CANCELLED}"
    "run_coordination_stage r \<noteq> RELEASED"
  shows "(\<forall>target at ctx. \<exists>e. transition h r target at ctx = Inl e)
     \<and> (\<forall>uid q at. \<exists>e. open_question uid r q at = Inl e)
     \<and> (\<forall>uid aid k d s at ex. \<exists>e. request_approval uid aid r k d s at ex = Inl e)
     \<and> (\<exists>r'. restart_questioning r = Inr r' \<and> run_phase r' = Run_CLARIFYING)"
proof (intro conjI allI)
  have t: "run_phase r \<in> terminal_run_phases" using assms(2) by (auto simp: terminal_run_phases_def)
  show "\<exists>e. transition h r target at ctx = Inl e" for target at ctx
    using t transition_Inr(4) [of h r target at ctx] by (cases "transition h r target at ctx") auto
  show "\<exists>e. open_question uid r q at = Inl e" for uid q at
    using t open_question_Inr(3) [of uid r q at] by (cases "open_question uid r q at") auto
  show "\<exists>e. request_approval uid aid r k d s at ex = Inl e" for uid aid k d s at ex
    using t request_approval_Inr(3) [of uid aid r k d s at ex]
    by (cases "request_approval uid aid r k d s at ex") auto
  show "\<exists>r'. restart_questioning r = Inr r' \<and> run_phase r' = Run_CLARIFYING"
    using assms(1,3) by (auto simp: restart_questioning_def run_post_init_def enter_stage_def
        split: if_splits)
qed

theorem terminal_run_can_resume_witness:
  "\<exists>r'. restart_questioning (sample_run Run_CANCELLED RESEARCH) = Inr r' \<and> run_phase r' = Run_CLARIFYING"
  using terminal_run_can_resume [of "sample_run Run_CANCELLED RESEARCH" sha256] sample_run_valid by simp

section \<open>Approvals\<close>

lemma decide_approval_Inr:
  assumes "decide_approval a approve decided_by reason at = Inr a'"
  shows "approval_state a = Approval_REQUESTED" "strip decided_by \<noteq> []" "is_aware at"
    "approval_decided_at a' = Some at" "approval_decided_by a' = Some decided_by"
    "approval_id a' = approval_id a" "approval_run_id a' = approval_run_id a"
    "approval_kind a' = approval_kind a" "approval_subject_digest a' = approval_subject_digest a"
    "approval_expires_at a' = approval_expires_at a"
    "approval_state a' = (if (case approval_expires_at a of None \<Rightarrow> False | Some d \<Rightarrow> instant at \<ge> instant d)
       then Approval_EXPIRED else if approve then Approval_APPROVED else Approval_REJECTED)"
  using assms by (auto simp: decide_approval_def bind_r_Inr_iff require_aware_Inr split: if_splits)

text \<open>
  A decision is taken once, by a named user, and only a positive decision before the expiry
  ever counts. The decided record keeps the ID, the run, the kind, the digest and the expiry; it
  is valid for a digest at a time only if the user approved, the digest is the requested one, and
  both the decision and the use are before the expiry; it cannot be decided again.
\<close>

theorem approval_decided_once:
  assumes "decide_approval a approve decided_by reason at = Inr a'"
  shows "approval_state a = Approval_REQUESTED \<and> strip decided_by \<noteq> []
     \<and> approval_id a' = approval_id a \<and> approval_run_id a' = approval_run_id a
     \<and> approval_kind a' = approval_kind a
     \<and> (\<forall>d at'. is_valid_for a' d at' = Inr True \<longleftrightarrow>
          is_aware at' \<and> approve \<and> d = approval_subject_digest a
          \<and> (case approval_expires_at a of None \<Rightarrow> True
               | Some x \<Rightarrow> instant at < instant x \<and> instant at' < instant x))
     \<and> (\<forall>approve' by' reason' at'. \<exists>e. decide_approval a' approve' by' reason' at' = Inl e)"
proof -
  note d = decide_approval_Inr [OF assms]
  have v: "is_valid_for a' dg at' = Inr True \<longleftrightarrow>
      is_aware at' \<and> approve \<and> dg = approval_subject_digest a
      \<and> (case approval_expires_at a of None \<Rightarrow> True
           | Some x \<Rightarrow> instant at < instant x \<and> instant at' < instant x)" for dg at'
    unfolding is_valid_for_True d(9,10,11) by (auto split: option.splits)
  have "\<exists>e. decide_approval a' approve' by' reason' at' = Inl e" for approve' by' reason' at'
    using decide_approval_Inr(1) [of a' approve' by' reason' at'] d(11)
    by (cases "decide_approval a' approve' by' reason' at'") (auto split: if_splits)
  then show ?thesis using d v by blast
qed

theorem approval_decided_once_witness:
  "\<exists>a'. decide_approval (requested_approval ''u'' None (sample_run Run_EXECUTING RESEARCH)
        Approve_CHANGESET ''d'' [] (utc 0) (Some (utc 10))) True ''o'' [] (utc 5) = Inr a'
     \<and> is_valid_for a' ''d'' (utc 9) = Inr True \<and> is_valid_for a' ''d'' (utc 10) \<noteq> Inr True"
proof -
  let ?a = "requested_approval ''u'' None (sample_run Run_EXECUTING RESEARCH)
    Approve_CHANGESET ''d'' [] (utc 0) (Some (utc 10))"
  obtain a' where a': "decide_approval ?a True ''o'' [] (utc 5) = Inr a'"
    by (simp add: decide_approval_def require_aware_def requested_approval_def approval_post_init_def
        or_new_id_def new_id_def truthy_def validated_def)
  show ?thesis
    using approval_decided_once [OF a'] a' by (auto simp: requested_approval_def)
qed

section \<open>Questions\<close>

lemma dropWhile_rev_dropWhile:
  "dropWhile P (rev (dropWhile P (rev (dropWhile P s)))) = rev (dropWhile P (rev (dropWhile P s)))"
proof -
  let ?x = "dropWhile P s" and ?y = "rev (dropWhile P (rev (dropWhile P s)))"
  have "?x = ?y @ rev (takeWhile P (rev ?x))"
    by (metis rev_append rev_rev_ident takeWhile_dropWhile_id)
  then have "\<not> P (hd ?y)" if "?y \<noteq> []"
    using that hd_dropWhile [of P s] by (metis append_is_Nil_conv hd_append2)
  then show ?thesis unfolding dropWhile_eq_self_iff by blast
qed

lemma strip_idem [simp]: "strip (strip s) = strip s"
  unfolding strip_def dropWhile_rev_dropWhile by simp

lemma open_question_record:
  assumes "open_question uid r q at = Inr (r', qu)"
  shows "question_post_init qu = Inr ()" "question_run_id qu = run_id r" "question_state qu = Question_OPEN"
    "question_options qu = map strip (req_options q)" "question_blocking qu = req_blocking q"
    "question_allow_custom_answer qu = req_allow_custom_answer q" "[] \<notin> set (question_options qu)"
    "req_blocking q \<Longrightarrow> run_phase r' = Run_CLARIFYING \<and> run_coordination_stage r' = QUESTIONING"
    "run_id r' = run_id r"
  using assms by (auto simp: open_question_def Let_def bind_r_Inr_iff split: if_splits)

lemma question_post_init_answered:
  assumes "question_post_init q = Inr ()" "ans \<noteq> []" "user \<noteq> []" "is_aware at"
  shows "question_post_init (q\<lparr>question_state := Question_ANSWERED, question_answer := Some ans,
     question_answered_by := Some user, question_answered_at := Some at\<rparr>) = Inr ()"
  using assms by (auto simp: question_post_init_def truthy_def split: if_splits option.splits)

text \<open>
  A blocking question stops the run and every listed answer releases it. Opening it puts the
  run in the clarifying phase at the questioning stage; while it is among the presented questions
  no stage advance succeeds; each of its options is accepted as the answer of a named user, and an
  answer that is not an option is refused unless custom answers are allowed.
\<close>

theorem blocking_question_lifecycle:
  assumes "open_question uid r q at = Inr (r', qu)" "req_blocking q"
  shows "run_phase r' = Run_CLARIFYING \<and> run_coordination_stage r' = QUESTIONING
     \<and> (\<forall>ctx target at'. qu \<in> set (ctx_questions ctx) \<longrightarrow> (\<exists>e. advance h r' target at' ctx = Inl e))
     \<and> (\<forall>opt user at'. opt \<in> set (question_options qu) \<and> strip user \<noteq> [] \<and> is_aware at' \<longrightarrow>
          (\<exists>qu'. answer_question qu opt user at' = Inr qu' \<and> question_state qu' = Question_ANSWERED
             \<and> question_answer qu' = Some opt \<and> question_answered_by qu' = Some user))
     \<and> (\<forall>ans user at'. strip ans \<notin> set (question_options qu) \<and> \<not> req_allow_custom_answer q \<longrightarrow>
          (\<exists>e. answer_question qu ans user at' = Inl e))"
proof (intro conjI allI impI)
  note o = open_question_record [OF assms(1)]
  show "run_phase r' = Run_CLARIFYING" "run_coordination_stage r' = QUESTIONING"
    using o(8) assms(2) by auto
  show "\<exists>e. advance h r' target at' ctx = Inl e" if "qu \<in> set (ctx_questions ctx)" for ctx target at'
  proof -
    have "qu \<in> set (open_blocking_questions ctx r')"
      using that o assms(2) by (simp add: open_blocking_questions_def)
    then have "open_blocking_questions ctx r' \<noteq> []" by auto
    then show ?thesis
      using advance_Inr(4) [of h r' target at' ctx] by (cases "advance h r' target at' ctx") auto
  qed
  show "\<exists>qu'. answer_question qu opt user at' = Inr qu' \<and> question_state qu' = Question_ANSWERED
      \<and> question_answer qu' = Some opt \<and> question_answered_by qu' = Some user"
    if opt: "opt \<in> set (question_options qu) \<and> strip user \<noteq> [] \<and> is_aware at'" for opt user at'
  proof -
    have "strip opt = opt" using opt o(4) by auto
    moreover have "opt \<noteq> []" using opt o(7) by metis
    moreover have "user \<noteq> []" using opt by auto
    ultimately show ?thesis
      using opt o(3) question_post_init_answered [OF o(1), of opt user at']
      by (simp add: answer_question_def require_aware_def Let_def)
  qed
  show "\<exists>e. answer_question qu ans user at' = Inl e"
    if "strip ans \<notin> set (question_options qu) \<and> \<not> req_allow_custom_answer q" for ans user at'
  proof -
    have "question_options qu \<noteq> []"
      using o(1,5) assms(2) by (auto simp: question_post_init_def split: if_splits)
    then show ?thesis
      using that o(3,6) by (simp add: answer_question_def require_aware_def Let_def bind_r_def)
  qed
qed

definition sample_question :: question_request where
  "sample_question = \<lparr>req_prompt = ''o'', req_rationale = [], req_blocking = True,
     req_options = [''2 layers'', '' 4 layers''], req_recommendation = Some ''4 layers'',
     req_confidence_basis_points = Some 7000, req_allow_custom_answer = False,
     req_bound_revision = Some ''v1'', req_affected_artifact_ids = [],
     req_dependent_decision_ids = [], req_question_id = None\<rparr>"

lemma sample_options: "map strip (req_options sample_question) = [''2 layers'', ''4 layers'']"
  by (simp add: sample_question_def strip_def char_isspace_def)

theorem blocking_question_lifecycle_witness:
  "\<exists>r' qu. open_question ''u'' (sample_run Run_EXECUTING RESEARCH) sample_question (utc 0) = Inr (r', qu)
     \<and> run_phase r' = Run_CLARIFYING
     \<and> (\<exists>qu'. answer_question qu ''4 layers'' ''o'' (utc 1) = Inr qu')
     \<and> (\<exists>e. answer_question qu ''o'' ''o'' (utc 1) = Inl e)"
proof -
  let ?r = "sample_run Run_EXECUTING RESEARCH"
  have v: "run_post_init (enter_stage ?r QUESTIONING None) = Inr ()"
    using sample_run_valid [of Run_EXECUTING RESEARCH] by (simp add: run_post_init_Inr enter_stage_def)
  obtain r' qu where o: "open_question ''u'' ?r sample_question (utc 0) = Inr (r', qu)"
    unfolding open_question_def sample_options
    by (simp add: require_aware_def terminal_run_phases_def bind_r_def validated_def v
        question_post_init_def sample_question_def or_new_id_def new_id_def truthy_def)
  note q = open_question_record [OF o]
  have "req_blocking sample_question \<and> \<not> req_allow_custom_answer sample_question"
    by (simp add: sample_question_def)
  then have b: "req_blocking sample_question" and c: "\<not> req_allow_custom_answer sample_question" by auto
  note l = blocking_question_lifecycle [OF o b, of sha256]
  have opts: "question_options qu = [''2 layers'', ''4 layers'']" using q(4) by (simp only: sample_options)
  have "\<exists>qu'. answer_question qu ''4 layers'' ''o'' (utc 1) = Inr qu'"
  proof -
    have "''4 layers'' \<in> set (question_options qu) \<and> strip ''o'' \<noteq> [] \<and> is_aware (utc 1)"
      by (simp add: opts)
    with l show ?thesis by blast
  qed
  moreover have "\<exists>e. answer_question qu ''o'' ''o'' (utc 1) = Inl e"
  proof -
    have "strip ''o'' \<notin> set (question_options qu) \<and> \<not> req_allow_custom_answer sample_question"
      using c by (simp add: opts)
    with l show ?thesis by blast
  qed
  ultimately show ?thesis using o l by blast
qed

end
