(* ===== verification/Orch_Scheduler.thy ===== *)
theory Orch_Scheduler
  imports Orch_Digests Orch_Models_Props
begin

text \<open>
  \<^verbatim>\<open>backend/orchestrator/scheduler.py\<close>: the deterministic wave scheduler. A snapshot of a
  run's tasks and agents goes in; the next snapshot, the dispatches and the settled budget come
  out. Leases are authenticated by an HMAC over the assignment.

  \<open>h\<close> is the hash function; the dictionaries \<^verbatim>\<open>mutable_tasks\<close> and \<^verbatim>\<open>mutable_agents\<close>
  are association lists that are threaded through the loops. Every \<^verbatim>\<open>replace\<close> runs the
  validation of its record, and every exception of the source is a value.
\<close>

section \<open>Results\<close>

record dispatch =
  dispatch_task_id :: string
  dispatch_agent_id :: string
  dispatch_lease :: lease
  dispatch_reserved_tokens :: int

record schedule_result =
  result_tasks :: "task list"
  result_agents :: "agent list"
  result_budget :: budget
  result_dispatches :: "dispatch list"
  result_blocked_task_ids :: "string list"
  result_budget_deferred_task_ids :: "string list"

record completion_result =
  completion_task :: task
  completion_agent :: agent
  completion_budget :: budget

record reap_result =
  reap_tasks :: "task list"
  reap_agents :: "agent list"
  reap_budget :: budget
  reap_expired_task_ids :: "string list"

section \<open>Orders, indices, times\<close>

definition task_order :: "task \<Rightarrow> int \<times> int \<times> int \<times> string" where
  "task_order t = (task_wave t, - task_priority t, task_created_seq t, task_id t)"

definition agent_order :: "agent \<Rightarrow> int \<times> int \<times> string" where
  "agent_order a = (agent_wave a, agent_created_seq a, agent_id a)"

fun index_unique :: "('a \<Rightarrow> string) \<Rightarrow> (string \<times> 'a) list \<Rightarrow> 'a list \<Rightarrow> (string \<times> 'a) list result" where
  "index_unique key acc [] = Inr acc"
| "index_unique key acc (x # xs) =
     (if key x \<in> fst ` set acc then Inl (SchedulingError ''duplicate ID'')
      else index_unique key (acc @ [(key x, x)]) xs)"

definition snapshot_time :: "datetime \<Rightarrow> datetime result" where
  "snapshot_time d =
     (if \<not> is_aware d then Inl (SchedulingError ''timezone-aware'')
      else if \<not> in_datetime_range (instant d) then Inl (SchedulingError ''UTC datetime range'')
      else Inr (utc (instant d)))"

definition agent_contract_payload :: "agent \<Rightarrow> json" where
  "agent_contract_payload a = JObj
     [(''scope'', JStr ''flux-clone-orchestrator-agent-contract-v1''),
      (''run_id'', JStr (agent_run_id a)),
      (''agent_id'', JStr (agent_id a)),
      (''name'', JStr (agent_name a)),
      (''created_seq'', JInt (agent_created_seq a)),
      (''agent_class'', JStr (agent_class_value (agent_agent_class a))),
      (''parent_agent_id'', jopt (agent_parent_agent_id a)),
      (''capabilities'', JList (map JStr (sort (agent_capabilities a)))),
      (''wave'', JInt (agent_wave a))]"

definition agent_contract_digest :: "(byte list \<Rightarrow> byte list) \<Rightarrow> agent \<Rightarrow> string" where
  "agent_contract_digest h a = sha256_text h (canonical_json (agent_contract_payload a))"

text \<open>
  \<^verbatim>\<open>_lease_token\<close>. Its callers pass times in UTC that are in range, so
  \<^verbatim>\<open>_canonical_time\<close> is the writing of the instant.
\<close>

definition lease_payload ::
  "string \<Rightarrow> string \<Rightarrow> string \<Rightarrow> int \<Rightarrow> datetime \<Rightarrow> datetime \<Rightarrow> string \<Rightarrow> string \<Rightarrow> json" where
  "lease_payload rid tid aid attempt acquired_at expires_at task_digest agent_digest = JObj
     [(''scope'', JStr ''flux-clone-orchestrator-lease-v1''),
      (''run_id'', JStr rid),
      (''task_id'', JStr tid),
      (''agent_id'', JStr aid),
      (''attempt'', JInt attempt),
      (''acquired_at'', JStr (canonical_time (instant acquired_at))),
      (''expires_at'', JStr (canonical_time (instant expires_at))),
      (''task_contract_digest'', JStr task_digest),
      (''agent_contract_digest'', JStr agent_digest)]"

definition make_lease_token ::
  "(byte list \<Rightarrow> byte list) \<Rightarrow> string \<Rightarrow> string \<Rightarrow> string \<Rightarrow> int \<Rightarrow> datetime \<Rightarrow> datetime \<Rightarrow> string \<Rightarrow> string \<Rightarrow>
   byte list \<Rightarrow> string" where
  "make_lease_token h rid tid aid attempt acquired_at expires_at task_digest agent_digest signing_key =
     hexdigest (hmac h signing_key (utf8_bytes (canonical_json
       (lease_payload rid tid aid attempt acquired_at expires_at task_digest agent_digest))))"

section \<open>Validation\<close>

text \<open>
  \<^verbatim>\<open>hmac.compare_digest\<close> on strings: equality, but a character outside ASCII raises
  \<^verbatim>\<open>TypeError\<close>.
\<close>

definition is_ascii :: "string \<Rightarrow> bool" where
  "is_ascii s \<longleftrightarrow> (\<forall>c \<in> set s. (of_char c :: nat) < 128)"

definition compare_digest :: "string \<Rightarrow> string \<Rightarrow> bool result" where
  "compare_digest a b = (if is_ascii a \<and> is_ascii b then Inr (a = b) else Inl TypeError)"

text \<open>\<^verbatim>\<open>except SchedulingError as exc: raise LeaseRejected(...)\<close>.\<close>

definition lease_time :: "datetime \<Rightarrow> datetime result" where
  "lease_time d = (case snapshot_time d of
     Inl (SchedulingError m) \<Rightarrow> Inl (LeaseRejected m) | Inl e \<Rightarrow> Inl e | Inr t \<Rightarrow> Inr t)"

definition lease_time_opt :: "datetime option \<Rightarrow> datetime option result" where
  "lease_time_opt d = (case d of None \<Rightarrow> Inr None | Some v \<Rightarrow> bind_r (lease_time v) (\<lambda>t. Inr (Some t)))"

definition validate_lease ::
  "(byte list \<Rightarrow> byte list) \<Rightarrow> byte list \<Rightarrow> bool \<Rightarrow> task \<Rightarrow> agent \<Rightarrow> string \<Rightarrow> datetime \<Rightarrow> lease result" where
  "validate_lease h signing_key allow_expired t a token at_in =
     bind_r (lease_time at_in) (\<lambda>at.
     if length signing_key < 32 then Inl (LeaseRejected ''signing key'')
     else case task_lease t of
       None \<Rightarrow> Inl (LeaseRejected ''no active lease'')
     | Some l \<Rightarrow>
       bind_r (compare_digest (lease_token l) token) (\<lambda>same.
       if \<not> same then Inl (LeaseRejected ''lease token'') else
       bind_r (lease_time (lease_acquired_at l)) (\<lambda>acquired_at.
       bind_r (lease_time (lease_expires_at l)) (\<lambda>expires_at.
       bind_r (lease_time_opt (agent_last_heartbeat_at a)) (\<lambda>last_heartbeat_at.
       if lease_task_id l \<noteq> task_id t \<or> lease_agent_id l \<noteq> agent_id a
          \<or> agent_current_task_id a \<noteq> Some (task_id t) \<or> lease_attempt l \<noteq> task_attempt t
          \<or> task_run_id t \<noteq> agent_run_id a
       then Inl (LeaseRejected ''bound to a different task or agent'') else
       let task_digest = task_contract_digest h t; agent_digest = agent_contract_digest h a in
       bind_r (compare_digest (lease_task_contract_digest l) task_digest) (\<lambda>task_same.
       bind_r (if task_same then compare_digest (lease_agent_contract_digest l) agent_digest
               else Inr False) (\<lambda>both_same.
       if \<not> both_same then Inl (LeaseRejected ''assignment contract has changed'') else
       bind_r (compare_digest
           (make_lease_token h (task_run_id t) (task_id t) (agent_id a) (lease_attempt l)
              acquired_at expires_at task_digest agent_digest signing_key)
           (lease_token l)) (\<lambda>authentic.
       bind_r (raise_first
         [(\<not> authentic, LeaseRejected ''lease HMAC''),
          (instant at < instant acquired_at, LeaseRejected ''clock before acquisition''),
          (case last_heartbeat_at of None \<Rightarrow> False | Some hb \<Rightarrow> instant at < instant hb,
             LeaseRejected ''clock before heartbeat''),
          (\<not> allow_expired \<and> instant at \<ge> instant expires_at, LeaseRejected ''lease has expired'')])
         (\<lambda>_.
       validated lease_post_init
         (l\<lparr>lease_acquired_at := acquired_at, lease_expires_at := expires_at\<rparr>))))))))))"

fun collect_checks :: "(string \<times> evidence) list \<Rightarrow> evidence list \<Rightarrow> (string \<times> evidence) list result" where
  "collect_checks acc [] = Inr acc"
| "collect_checks acc (v # vs) =
     (if evidence_kind v \<noteq> DESIGN_CHECK then collect_checks acc vs
      else case evidence_check_id v of
        None \<Rightarrow> Inl (EvidenceRejected ''incomplete'')
      | Some c \<Rightarrow>
          if evidence_passed v = None then Inl (EvidenceRejected ''incomplete'')
          else if c \<in> fst ` set acc then Inl (EvidenceRejected ''duplicate results'')
          else collect_checks (acc @ [(c, v)]) vs)"

definition validate_evidence :: "task \<Rightarrow> evidence list \<Rightarrow> evidence list result" where
  "validate_evidence t vs =
     bind_r (raise_first
       [(vs = [], EvidenceRejected ''evidence required''),
        (\<not> distinct (map evidence_id vs), EvidenceRejected ''evidence IDs unique''),
        (\<exists>v \<in> set vs. evidence_run_id v \<noteq> task_run_id t \<or> evidence_task_id v \<noteq> Some (task_id t),
           EvidenceRejected ''evidence of a different run or task'')]) (\<lambda>_.
     bind_r (collect_checks [] vs) (\<lambda>check_results.
     let required = dict_of check_id (task_required_checks t) in
     bind_r (raise_first
       ([(\<exists>(c, v) \<in> set check_results. evidence_passed v = Some False, EvidenceRejected ''checks failed''),
         (\<not> fst ` set required \<subseteq> fst ` set check_results, EvidenceRejected ''checks missing'')]
        @ concat (map (\<lambda>(c, q).
            [(case map_of check_results c of None \<Rightarrow> True | Some v \<Rightarrow> evidence_source v \<noteq> check_source q,
                EvidenceRejected ''untrusted source''),
             (case map_of check_results c of None \<Rightarrow> True
                | Some v \<Rightarrow> evidence_policy_digest v \<noteq> Some (check_policy_digest q),
                EvidenceRejected ''wrong policy revision'')]) required))) (\<lambda>_.
     Inr vs)))"

definition validate_settlement_inputs :: "int \<Rightarrow> int \<Rightarrow> unit result" where
  "validate_settlement_inputs actual_tokens actual_tool_calls =
     raise_first [(actual_tokens < 0 \<or> actual_tool_calls < 0, SchedulingError ''negative usage'')]"

text \<open>The two loops of \<^verbatim>\<open>_validate_membership\<close> over the active tasks and the active agents.\<close>

fun check_active_tasks :: "(string \<times> agent) list \<Rightarrow> string list \<Rightarrow> task list \<Rightarrow> unit result" where
  "check_active_tasks agents seen [] = Inr ()"
| "check_active_tasks agents seen (t # ts) =
     (if \<not> active_task_state (task_state t) then check_active_tasks agents seen ts
      else case task_lease t of
        None \<Rightarrow> Inl AssertionError
      | Some l \<Rightarrow>
          if lease_agent_id l \<in> set seen then Inl (SchedulingError ''multiple active leases'')
          else if (case map_of agents (lease_agent_id l) of None \<Rightarrow> True
                    | Some a \<Rightarrow> \<not> active_agent_state (agent_state a)
                        \<or> agent_current_task_id a \<noteq> Some (task_id t))
          then Inl (SchedulingError ''no matching active agent'')
          else check_active_tasks agents (lease_agent_id l # seen) ts)"

fun check_active_agents :: "(string \<times> task) list \<Rightarrow> agent list \<Rightarrow> unit result" where
  "check_active_agents tasks [] = Inr ()"
| "check_active_agents tasks (a # as) =
     (if \<not> active_agent_state (agent_state a) then check_active_agents tasks as
      else case agent_current_task_id a of
        None \<Rightarrow> Inl AssertionError
      | Some i \<Rightarrow>
          if (case map_of tasks i of None \<Rightarrow> True
               | Some t \<Rightarrow> \<not> active_task_state (task_state t)
                   \<or> (case task_lease t of None \<Rightarrow> True | Some l \<Rightarrow> lease_agent_id l \<noteq> agent_id a))
          then Inl (SchedulingError ''no matching active task lease'')
          else check_active_agents tasks as)"

definition validate_membership :: "run \<Rightarrow> task list \<Rightarrow> agent list \<Rightarrow> unit result" where
  "validate_membership r tasks agents =
     bind_r (index_unique task_id [] tasks) (\<lambda>_.
     bind_r (index_unique agent_id [] agents) (\<lambda>_.
     bind_r (raise_first
       [(\<exists>t \<in> set tasks. task_run_id t \<noteq> run_id r, SchedulingError ''tasks of another run''),
        (\<exists>a \<in> set agents. agent_run_id a \<noteq> run_id r, SchedulingError ''agents of another run'')]) (\<lambda>_.
     bind_r (check_active_tasks (dict_of agent_id agents) [] tasks) (\<lambda>_.
     check_active_agents (dict_of task_id tasks) agents))))"

section \<open>Operations on one assignment\<close>

definition start ::
  "(byte list \<Rightarrow> byte list) \<Rightarrow> byte list \<Rightarrow> task \<Rightarrow> agent \<Rightarrow> string \<Rightarrow> datetime \<Rightarrow> (task \<times> agent) result" where
  "start h signing_key t a token at_in =
     bind_r (snapshot_time at_in) (\<lambda>at.
     bind_r (validate_lease h signing_key False t a token at) (\<lambda>_.
     if task_state t \<noteq> Task_LEASED \<or> agent_state a \<noteq> Agent_LEASED
     then Inl (LeaseRejected ''only a newly leased assignment'') else
     bind_r (validated task_post_init (t\<lparr>task_state := Task_RUNNING\<rparr>)) (\<lambda>t'.
     bind_r (validated agent_post_init
         (a\<lparr>agent_state := Agent_RUNNING, agent_last_heartbeat_at := Some at\<rparr>)) (\<lambda>a'.
     Inr (t', a')))))"

definition heartbeat ::
  "(byte list \<Rightarrow> byte list) \<Rightarrow> byte list \<Rightarrow> task \<Rightarrow> agent \<Rightarrow> string \<Rightarrow> datetime \<Rightarrow> int \<Rightarrow> (task \<times> agent) result" where
  "heartbeat h signing_key t a token at_in lease_seconds =
     bind_r (snapshot_time at_in) (\<lambda>at.
     bind_r (validate_lease h signing_key False t a token at) (\<lambda>l.
     if \<not> active_task_state (task_state t) \<or> \<not> active_agent_state (agent_state a)
     then Inl (LeaseRejected ''only an active assignment'')
     else if lease_seconds < 1 then Inl (SchedulingError ''lease_seconds'') else
     bind_r (add_seconds at lease_seconds) (\<lambda>renewed_expiry.
     bind_r (validated lease_post_init
       (l\<lparr>lease_token := make_lease_token h (task_run_id t) (task_id t) (agent_id a) (lease_attempt l)
            (lease_acquired_at l) renewed_expiry (lease_task_contract_digest l)
            (lease_agent_contract_digest l) signing_key,
          lease_expires_at := renewed_expiry\<rparr>)) (\<lambda>renewed.
     bind_r (validated task_post_init (t\<lparr>task_lease := Some renewed\<rparr>)) (\<lambda>t'.
     bind_r (validated agent_post_init (a\<lparr>agent_last_heartbeat_at := Some at\<rparr>)) (\<lambda>a'.
     Inr (t', a')))))))"

definition succeed ::
  "(byte list \<Rightarrow> byte list) \<Rightarrow> byte list \<Rightarrow> task \<Rightarrow> agent \<Rightarrow> string \<Rightarrow> evidence list \<Rightarrow> budget \<Rightarrow> int \<Rightarrow> int \<Rightarrow>
   datetime \<Rightarrow> completion_result result" where
  "succeed h signing_key t a token vs b actual_tokens actual_tool_calls at_in =
     bind_r (snapshot_time at_in) (\<lambda>at.
     bind_r (validate_lease h signing_key False t a token at) (\<lambda>_.
     if \<not> active_task_state (task_state t)
     then Inl (LeaseRejected ''only an active assignment'') else
     bind_r (validate_evidence t vs) (\<lambda>exact.
     bind_r (validate_settlement_inputs actual_tokens actual_tool_calls) (\<lambda>_.
     bind_r (settle b (task_estimated_tokens t) actual_tokens 0 actual_tool_calls 1 1) (\<lambda>settled.
     bind_r (validated task_post_init
       (t\<lparr>task_state := Task_SUCCEEDED, task_lease := None,
          task_result_evidence_ids := map evidence_id exact,
          task_completed_by_agent_id := Some (agent_id a),
          task_failure_code := None, task_failure_message := None\<rparr>)) (\<lambda>t'.
     bind_r (validated agent_post_init
       (a\<lparr>agent_state := Agent_AVAILABLE, agent_current_task_id := None,
          agent_last_heartbeat_at := Some at\<rparr>)) (\<lambda>a'.
     Inr \<lparr>completion_task = t', completion_agent = a', completion_budget = settled\<rparr>)))))))"

definition fail_validated ::
  "task \<Rightarrow> agent \<Rightarrow> string \<Rightarrow> string \<Rightarrow> bool \<Rightarrow> budget \<Rightarrow> int \<Rightarrow> int \<Rightarrow> datetime \<Rightarrow> completion_result result" where
  "fail_validated t a failure_code failure_message retryable b actual_tokens actual_tool_calls at_in =
     (if failure_code = [] \<or> failure_message = []
      then Inl (SchedulingError ''failure code and message'') else
      bind_r (snapshot_time at_in) (\<lambda>at.
      bind_r (validate_settlement_inputs actual_tokens actual_tool_calls) (\<lambda>_.
      let can_retry = retryable \<and> task_attempt t < max_attempts (task_retry_policy t) in
      bind_r (if can_retry
              then bind_r (delay_seconds (task_retry_policy t) (task_attempt t)) (\<lambda>delay.
                   bind_r (add_seconds at delay) (\<lambda>n. Inr (Some n)))
              else Inr None) (\<lambda>next_eligible.
      bind_r (settle b (task_estimated_tokens t) actual_tokens 0 actual_tool_calls 1 1) (\<lambda>settled.
      bind_r (validated task_post_init
        (t\<lparr>task_state := (if can_retry then Task_RETRY_WAIT else Task_FAILED),
           task_next_eligible_at := next_eligible, task_lease := None,
           task_failure_code := Some failure_code, task_failure_message := Some failure_message\<rparr>)) (\<lambda>t'.
      bind_r (validated agent_post_init
        (a\<lparr>agent_state := Agent_AVAILABLE, agent_current_task_id := None,
           agent_last_heartbeat_at := Some at\<rparr>)) (\<lambda>a'.
      Inr \<lparr>completion_task = t', completion_agent = a', completion_budget = settled\<rparr>)))))))"

definition fail ::
  "(byte list \<Rightarrow> byte list) \<Rightarrow> byte list \<Rightarrow> task \<Rightarrow> agent \<Rightarrow> string \<Rightarrow> string \<Rightarrow> string \<Rightarrow> bool \<Rightarrow> budget \<Rightarrow> int \<Rightarrow>
   int \<Rightarrow> datetime \<Rightarrow> completion_result result" where
  "fail h signing_key t a token failure_code failure_message retryable b actual_tokens actual_tool_calls at_in =
     bind_r (snapshot_time at_in) (\<lambda>at.
     bind_r (validate_lease h signing_key True t a token at) (\<lambda>_.
     if \<not> active_task_state (task_state t) \<or> \<not> active_agent_state (agent_state a)
     then Inl (LeaseRejected ''only an active assignment'')
     else fail_validated t a failure_code failure_message retryable b actual_tokens actual_tool_calls at))"

section \<open>Reaping expired leases\<close>

text \<open>The values the reaping loop changes: both maps, the budget, the expired IDs.\<close>

type_synonym reap_state = "(string \<times> task) list \<times> (string \<times> agent) list \<times> budget \<times> string list"

fun reap_loop ::
  "(byte list \<Rightarrow> byte list) \<Rightarrow> byte list \<Rightarrow> datetime \<Rightarrow> task list \<Rightarrow> reap_state \<Rightarrow> reap_state result" where
  "reap_loop h signing_key at [] st = Inr st"
| "reap_loop h signing_key at (t # ts) (task_map, agent_map, b, expired) =
     (if \<not> active_task_state (task_state t) then reap_loop h signing_key at ts (task_map, agent_map, b, expired)
      else case task_lease t of
        None \<Rightarrow> Inl (SchedulingError ''active task has no lease'')
      | Some l \<Rightarrow>
        (case map_of agent_map (lease_agent_id l) of
           None \<Rightarrow> Inl (SchedulingError ''missing agent'')
         | Some a \<Rightarrow>
           bind_r (validate_lease h signing_key True t a (lease_token l) at) (\<lambda>vl.
           if instant at < instant (lease_expires_at vl)
           then reap_loop h signing_key at ts (task_map, agent_map, b, expired)
           else
           bind_r (fail_validated t a ''lease_expired'' ''worker did not renew its lease before expiry''
               True b 0 0 at) (\<lambda>res.
           reap_loop h signing_key at ts
             (AList.update (task_id t) (completion_task res) task_map,
              AList.update (agent_id a) (completion_agent res) agent_map,
              completion_budget res, expired @ [task_id t])))))"

definition by_creation_tasks :: "task list \<Rightarrow> task list" where
  "by_creation_tasks ts = sort_key (\<lambda>t. (task_created_seq t, task_id t)) ts"

definition by_creation_agents :: "agent list \<Rightarrow> agent list" where
  "by_creation_agents as = sort_key (\<lambda>a. (agent_created_seq a, agent_id a)) as"

definition reap_expired_leases ::
  "(byte list \<Rightarrow> byte list) \<Rightarrow> byte list \<Rightarrow> task list \<Rightarrow> agent list \<Rightarrow> budget \<Rightarrow> datetime \<Rightarrow> reap_result result" where
  "reap_expired_leases h signing_key tasks agents b at_in =
     bind_r (snapshot_time at_in) (\<lambda>at.
     if length signing_key < 32 then Inl (SchedulingError ''lease_signing_key'') else
     bind_r (index_unique task_id [] tasks) (\<lambda>task_map.
     bind_r (index_unique agent_id [] agents) (\<lambda>agent_map.
     bind_r (reap_loop h signing_key at (sort_key task_order (dict_values task_map))
         (task_map, agent_map, b, [])) (\<lambda>(task_map', agent_map', b', expired).
     Inr \<lparr>reap_tasks = by_creation_tasks (dict_values task_map'),
          reap_agents = by_creation_agents (dict_values agent_map'),
          reap_budget = b', reap_expired_task_ids = expired\<rparr>))))"

section \<open>Scheduling\<close>

fun block_loop ::
  "task list \<Rightarrow> (string \<times> task) list \<times> string list \<Rightarrow> ((string \<times> task) list \<times> string list) result" where
  "block_loop [] st = Inr st"
| "block_loop (t # ts) (tm, blocked) =
     (if task_state t \<notin> {Task_QUEUED, Task_RETRY_WAIT, Task_BLOCKED} then block_loop ts (tm, blocked)
      else
      bind_r (map_r (\<lambda>d. case map_of tm d of None \<Rightarrow> Inl KeyError | Some u \<Rightarrow> Inr (task_state u))
                (task_dependencies t)) (\<lambda>dependency_states.
      if \<exists>s \<in> set dependency_states. s \<in> {Task_FAILED, Task_CANCELLED}
      then bind_r (validated task_post_init
             (t\<lparr>task_state := Task_BLOCKED, task_failure_code := Some ''dependency_failed'',
                task_failure_message := Some ''a required dependency did not succeed''\<rparr>)) (\<lambda>t'.
           block_loop ts (AList.update (task_id t) t' tm, blocked @ [task_id t]))
      else if task_state t = Task_BLOCKED
      then bind_r (validated task_post_init
             (t\<lparr>task_state := Task_QUEUED, task_failure_code := None, task_failure_message := None\<rparr>)) (\<lambda>t'.
           block_loop ts (AList.update (task_id t) t' tm, blocked))
      else block_loop ts (tm, blocked)))"

definition is_eligible :: "(string \<times> task) list \<Rightarrow> datetime \<Rightarrow> task \<Rightarrow> bool result" where
  "is_eligible tm at t =
     (if task_state t \<notin> {Task_QUEUED, Task_RETRY_WAIT} then Inr False else
      bind_r (case task_next_eligible_at t of None \<Rightarrow> Inr None
                | Some d \<Rightarrow> bind_r (snapshot_time d) (\<lambda>n. Inr (Some n))) (\<lambda>next_eligible_at.
      if (case next_eligible_at of None \<Rightarrow> False | Some n \<Rightarrow> instant at < instant n) then Inr False else
      bind_r (any_r (\<lambda>d. case map_of tm d of None \<Rightarrow> Inl KeyError
                        | Some u \<Rightarrow> Inr (task_state u \<noteq> Task_SUCCEEDED)) (task_dependencies t)) (\<lambda>waiting.
      if waiting then Inr False else
      Inr (\<forall>u \<in> set (dict_values tm). \<not> (task_wave u < task_wave t
             \<and> task_state u \<notin> {Task_SUCCEEDED, Task_CANCELLED})))))"

definition agent_compatible :: "task \<Rightarrow> string set \<Rightarrow> agent \<Rightarrow> bool" where
  "agent_compatible t dynamically_excluded a \<longleftrightarrow>
     set (task_required_capabilities t) \<subseteq> set (agent_capabilities a)
     \<and> (task_required_agent_class t = None \<or> task_required_agent_class t = Some (agent_agent_class a))
     \<and> agent_id a \<notin> set (task_excluded_agent_ids t) \<union> dynamically_excluded"

definition agent_rank :: "task \<Rightarrow> agent \<Rightarrow> nat \<times> int \<times> int \<times> string" where
  "agent_rank t a = (card (set (agent_capabilities a) - set (task_required_capabilities t)), agent_order a)"

definition best_agent :: "task \<Rightarrow> agent list \<Rightarrow> string set \<Rightarrow> agent option" where
  "best_agent t agents dynamically_excluded =
     (let compatible = filter (agent_compatible t dynamically_excluded) agents in
      if compatible = [] then None else Some (arg_min_list (agent_rank t) compatible))"

text \<open>
  The loop over the reviewed tasks: \<open>None\<close> when one of them has no completer yet, otherwise the
  completers, who may not review.
\<close>

fun reviewed_completers :: "(string \<times> task) list \<Rightarrow> string list \<Rightarrow> string list option result" where
  "reviewed_completers tm [] = Inr (Some [])"
| "reviewed_completers tm (i # is) =
     (case map_of tm i of
        None \<Rightarrow> Inl KeyError
      | Some u \<Rightarrow>
          (case task_completed_by_agent_id u of
             None \<Rightarrow> Inr None
           | Some c \<Rightarrow> bind_r (reviewed_completers tm is) (\<lambda>r. Inr (map_option ((#) c) r))))"

definition new_lease ::
  "(byte list \<Rightarrow> byte list) \<Rightarrow> byte list \<Rightarrow> run \<Rightarrow> task \<Rightarrow> agent \<Rightarrow> datetime \<Rightarrow> datetime \<Rightarrow> lease" where
  "new_lease h signing_key r t a at expires_at =
     \<lparr>lease_token = make_lease_token h (run_id r) (task_id t) (agent_id a) (task_attempt t + 1) at
        expires_at (task_contract_digest h t) (agent_contract_digest h a) signing_key,
      lease_task_id = task_id t, lease_agent_id = agent_id a, lease_attempt = task_attempt t + 1,
      lease_acquired_at = at, lease_expires_at = expires_at,
      lease_task_contract_digest = task_contract_digest h t,
      lease_agent_contract_digest = agent_contract_digest h a\<rparr>"

text \<open>The values the dispatch loop changes.\<close>

record dispatch_state =
  ds_tasks :: "(string \<times> task) list"
  ds_agents :: "(string \<times> agent) list"
  ds_budget :: budget
  ds_available :: "agent list"
  ds_dispatches :: "dispatch list"
  ds_deferred :: "string list"

definition lease_to ::
  "(byte list \<Rightarrow> byte list) \<Rightarrow> byte list \<Rightarrow> run \<Rightarrow> datetime \<Rightarrow> int \<Rightarrow> task \<Rightarrow> agent \<Rightarrow> budget \<Rightarrow> dispatch_state \<Rightarrow>
   dispatch_state result" where
  "lease_to h signing_key r at lease_seconds t a reserved st =
     bind_r (add_seconds at lease_seconds) (\<lambda>expires_at.
     bind_r (validated lease_post_init (new_lease h signing_key r t a at expires_at)) (\<lambda>l.
     bind_r (validated task_post_init
       (t\<lparr>task_state := Task_LEASED, task_attempt := task_attempt t + 1, task_next_eligible_at := None,
          task_lease := Some l, task_failure_code := None, task_failure_message := None\<rparr>)) (\<lambda>t'.
     bind_r (validated agent_post_init
       (a\<lparr>agent_state := Agent_LEASED, agent_current_task_id := Some (task_id t),
          agent_last_heartbeat_at := Some at\<rparr>)) (\<lambda>a'.
     Inr (st\<lparr>ds_tasks := AList.update (task_id t) t' (ds_tasks st),
             ds_agents := AList.update (agent_id a) a' (ds_agents st),
             ds_budget := reserved,
             ds_available := remove1 a (ds_available st),
             ds_dispatches := ds_dispatches st @ [\<lparr>dispatch_task_id = task_id t,
               dispatch_agent_id = agent_id a, dispatch_lease = l,
               dispatch_reserved_tokens = task_estimated_tokens t\<rparr>]\<rparr>)))))"

fun dispatch_loop ::
  "(byte list \<Rightarrow> byte list) \<Rightarrow> byte list \<Rightarrow> run \<Rightarrow> datetime \<Rightarrow> int \<Rightarrow> nat \<Rightarrow> task list \<Rightarrow> dispatch_state \<Rightarrow>
   dispatch_state result" where
  "dispatch_loop h signing_key r at lease_seconds slots [] st = Inr st"
| "dispatch_loop h signing_key r at lease_seconds slots (t # ts) st =
     (if length (ds_dispatches st) \<ge> slots then Inr st
      else if task_reviewed_task_ids t \<noteq> []
           \<and> binding_task_id ` set (task_reviewed_result_bindings t) \<noteq> set (task_reviewed_task_ids t)
      then dispatch_loop h signing_key r at lease_seconds slots ts st
      else
      bind_r (reviewed_completers (ds_tasks st) (task_reviewed_task_ids t)) (\<lambda>completers.
      case completers of
        None \<Rightarrow> dispatch_loop h signing_key r at lease_seconds slots ts st
      | Some cs \<Rightarrow>
        (case best_agent t (ds_available st) (set cs) of
           None \<Rightarrow> dispatch_loop h signing_key r at lease_seconds slots ts st
         | Some a \<Rightarrow>
           (case reserve (ds_budget st) (task_estimated_tokens t) 0 1 of
              Inl (BudgetExceeded _) \<Rightarrow> dispatch_loop h signing_key r at lease_seconds slots ts
                (st\<lparr>ds_deferred := ds_deferred st @ [task_id t]\<rparr>)
            | Inl e \<Rightarrow> Inl e
            | Inr reserved \<Rightarrow>
                bind_r (lease_to h signing_key r at lease_seconds t a reserved st) (\<lambda>st'.
                dispatch_loop h signing_key r at lease_seconds slots ts st')))))"

definition count_active :: "task list \<Rightarrow> nat" where
  "count_active ts = length (filter (\<lambda>t. active_task_state (task_state t)) ts)"

definition make_result ::
  "(string \<times> task) list \<Rightarrow> (string \<times> agent) list \<Rightarrow> budget \<Rightarrow> dispatch list \<Rightarrow> string list \<Rightarrow> string list \<Rightarrow>
   schedule_result" where
  "make_result tm am b ds blocked deferred =
     \<lparr>result_tasks = by_creation_tasks (dict_values tm), result_agents = by_creation_agents (dict_values am),
      result_budget = b, result_dispatches = ds, result_blocked_task_ids = blocked,
      result_budget_deferred_task_ids = deferred\<rparr>"

definition wave_candidates :: "(string \<times> task) list \<Rightarrow> datetime \<Rightarrow> task list result" where
  "wave_candidates tm at =
     bind_r (filter_r (is_eligible tm at) (dict_values tm)) (\<lambda>candidates.
     Inr (sort_key task_order
       (if candidates = [] then []
        else filter (\<lambda>t. task_wave t = Min (task_wave ` set candidates)) candidates)))"

definition available_agents :: "(string \<times> agent) list \<Rightarrow> agent list" where
  "available_agents am = filter (\<lambda>a. agent_state a \<in> {Agent_QUEUED, Agent_AVAILABLE}
     \<and> agent_current_task_id a = None) (dict_values am)"

definition schedule ::
  "(byte list \<Rightarrow> byte list) \<Rightarrow> byte list \<Rightarrow> run \<Rightarrow> task list \<Rightarrow> agent list \<Rightarrow> datetime \<Rightarrow> int \<Rightarrow> budget option \<Rightarrow>
   schedule_result result" where
  "schedule h signing_key r tasks agents at_in lease_seconds budget_arg =
     bind_r (snapshot_time at_in) (\<lambda>at.
     bind_r (validate_membership r tasks agents) (\<lambda>_.
     bind_r (raise_first
       [(run_phase r \<noteq> Run_EXECUTING, SchedulingError ''run is not executing''),
        (lease_seconds < 1, SchedulingError ''lease_seconds''),
        (length signing_key < 32, SchedulingError ''lease_signing_key'')]) (\<lambda>_.
     bind_r (assert_acyclic tasks) (\<lambda>_.
     bind_r (reap_expired_leases h signing_key tasks agents
         (case budget_arg of None \<Rightarrow> run_budget r | Some b \<Rightarrow> b) at) (\<lambda>reaped.
     let tm0 = dict_of task_id (reap_tasks reaped);
         am0 = dict_of agent_id (reap_agents reaped) in
     bind_r (block_loop (sort_key task_order (dict_values tm0)) (tm0, [])) (\<lambda>(tm, blocked).
     let slots = nat (max 0 (run_max_concurrency r - int (count_active (dict_values tm)))) in
     if slots = 0 then Inr (make_result tm am0 (reap_budget reaped) [] blocked []) else
     bind_r (wave_candidates tm at) (\<lambda>candidates.
     bind_r (dispatch_loop h signing_key r at lease_seconds slots candidates
        \<lparr>ds_tasks = tm, ds_agents = am0, ds_budget = reap_budget reaped,
         ds_available = available_agents am0, ds_dispatches = [], ds_deferred = []\<rparr>) (\<lambda>st.
     Inr (make_result (ds_tasks st) (ds_agents st) (ds_budget st) (ds_dispatches st) blocked
        (ds_deferred st)))))))))) "

end
