(* ===== verification/Scheduler_Leases.thy ===== *)
theory Scheduler_Leases
  imports Orch_Scheduler Coordination_History
begin

text \<open>
  What a lease guarantees: which assignment an accepted token proves, that a token is good only
  between its acquisition and its expiry, that renewing a lease retires the old token, and that
  work succeeds only with the evidence its contract demands.
\<close>

section \<open>Times\<close>

lemma snapshot_time_Inr:
  "snapshot_time d = Inr t \<longleftrightarrow> is_aware d \<and> in_datetime_range (instant d) \<and> t = utc (instant d)"
  by (auto simp: snapshot_time_def)

lemma snapshot_time_utc: "snapshot_time d = Inr t \<Longrightarrow> snapshot_time t = Inr t"
  by (auto simp: snapshot_time_Inr)

lemma snapshot_time_Inl: "snapshot_time d = Inl e \<Longrightarrow> \<exists>m. e = SchedulingError m"
  by (auto simp: snapshot_time_def split: if_splits)

lemma lease_time_Inr: "lease_time d = Inr t \<longleftrightarrow> snapshot_time d = Inr t"
  by (auto simp: lease_time_def split: sum.splits err.splits)

lemma lease_time_opt_Inr:
  "lease_time_opt d = Inr t \<longleftrightarrow> (case d of None \<Rightarrow> t = None
     | Some v \<Rightarrow> \<exists>u. snapshot_time v = Inr u \<and> t = Some u)"
  by (auto simp: lease_time_opt_def bind_r_Inr_iff lease_time_Inr split: option.splits)

section \<open>Comparing digests\<close>

lemma ascii_hex_digits: "c \<in> set hex_digits \<Longrightarrow> (of_char c :: nat) < 128"
  by (auto simp: hex_digits_def)

lemma is_sha256_hex_ascii: "is_sha256_hex s \<Longrightarrow> is_ascii s"
  by (auto simp: is_sha256_hex_def is_ascii_def intro: ascii_hex_digits)

lemma compare_digest_True: "compare_digest a b = Inr True \<longleftrightarrow> is_ascii a \<and> a = b"
  by (auto simp: compare_digest_def)

section \<open>What an accepted lease proves\<close>

text \<open>The conditions under which a token is accepted, as one predicate.\<close>

definition lease_accepted ::
  "(byte list \<Rightarrow> byte list) \<Rightarrow> byte list \<Rightarrow> bool \<Rightarrow> task \<Rightarrow> agent \<Rightarrow> string \<Rightarrow> datetime \<Rightarrow> lease \<Rightarrow> bool" where
  "lease_accepted h key allow_expired t a token at l \<longleftrightarrow>
     task_lease t = Some l \<and> lease_token l = token \<and> 32 \<le> length key
     \<and> lease_task_id l = task_id t \<and> lease_agent_id l = agent_id a
     \<and> agent_current_task_id a = Some (task_id t) \<and> lease_attempt l = task_attempt t
     \<and> task_run_id t = agent_run_id a
     \<and> lease_task_contract_digest l = task_contract_digest h t
     \<and> lease_agent_contract_digest l = agent_contract_digest h a
     \<and> in_datetime_range (instant (lease_acquired_at l)) \<and> in_datetime_range (instant (lease_expires_at l))
     \<and> token = make_lease_token h (task_run_id t) (task_id t) (agent_id a) (lease_attempt l)
         (utc (instant (lease_acquired_at l))) (utc (instant (lease_expires_at l)))
         (task_contract_digest h t) (agent_contract_digest h a) key
     \<and> instant (lease_acquired_at l) \<le> instant at
     \<and> (case agent_last_heartbeat_at a of None \<Rightarrow> True | Some hb \<Rightarrow> instant hb \<le> instant at)
     \<and> (allow_expired \<or> instant at < instant (lease_expires_at l))"

lemma lease_accepted_utc:
  "lease_accepted h key allow_expired t a token (utc (instant at)) l \<longleftrightarrow>
   lease_accepted h key allow_expired t a token at l"
  by (simp add: lease_accepted_def split: option.splits)

lemma validate_lease_accepted:
  assumes "validate_lease h key allow_expired t a token at = Inr vl"
  obtains l where "lease_accepted h key allow_expired t a token at l"
    "vl = l\<lparr>lease_acquired_at := utc (instant (lease_acquired_at l)),
            lease_expires_at := utc (instant (lease_expires_at l))\<rparr>" "lease_post_init vl = Inr ()"
proof -
  obtain l where l: "task_lease t = Some l"
    using assms by (cases "task_lease t") (auto simp: validate_lease_def bind_r_Inr_iff split: if_splits)
  have "lease_accepted h key allow_expired t a token at l
     \<and> vl = l\<lparr>lease_acquired_at := utc (instant (lease_acquired_at l)),
            lease_expires_at := utc (instant (lease_expires_at l))\<rparr> \<and> lease_post_init vl = Inr ()"
    using assms unfolding validate_lease_def l
    by (auto simp: bind_r_Inr_iff Let_def compare_digest_True lease_time_Inr lease_time_opt_Inr
        snapshot_time_Inr lease_accepted_def l split: if_splits option.splits)
  then show thesis using that by blast
qed

lemma lease_accepted_validates:
  assumes "lease_accepted h key allow_expired t a token at l" "digest_function h"
    "lease_post_init l = Inr ()" "is_aware at" "in_datetime_range (instant at)"
    "\<forall>hb. agent_last_heartbeat_at a = Some hb \<longrightarrow> is_aware hb \<and> in_datetime_range (instant hb)"
  shows "validate_lease h key allow_expired t a token at =
     Inr (l\<lparr>lease_acquired_at := utc (instant (lease_acquired_at l)),
            lease_expires_at := utc (instant (lease_expires_at l))\<rparr>)"
proof -
  have hex: "is_ascii (task_contract_digest h t)" "is_ascii (agent_contract_digest h a)"
    using digest_function.sha256_text_hex [OF assms(2)]
    by (auto simp: task_contract_digest_def agent_contract_digest_def intro: is_sha256_hex_ascii)
  have tok: "is_ascii (make_lease_token h r ti ai n ac ex td ad k)" for r ti ai n ac ex td ad k
    using digest_function.hmac_hex [OF assms(2)] by (auto simp: make_lease_token_def intro: is_sha256_hex_ascii)
  have aw: "is_aware (lease_acquired_at l)" "is_aware (lease_expires_at l)"
    using assms(3) by (auto simp: lease_post_init_def split: if_splits)
  have lp: "lease_post_init (l\<lparr>lease_acquired_at := utc (instant (lease_acquired_at l)),
      lease_expires_at := utc (instant (lease_expires_at l))\<rparr>) = Inr ()"
    using assms(3) by (auto simp: lease_post_init_def split: if_splits)
  have hb: "\<exists>u. lease_time_opt (agent_last_heartbeat_at a) = Inr u
      \<and> \<not> (case u of None \<Rightarrow> False | Some hb \<Rightarrow> instant at < instant hb)"
    using assms(1,6) by (auto simp: lease_time_opt_def lease_time_Inr snapshot_time_Inr lease_accepted_def
        lease_time_def snapshot_time_def split: option.splits)
  show ?thesis
    using assms(1,4,5) hex tok aw lp hb
    by (auto simp: lease_accepted_def validate_lease_def compare_digest_def lease_time_def
        snapshot_time_def Let_def split: option.splits)
qed

section \<open>What a token determines\<close>

lemma lease_payload_inject:
  assumes "json_norm (lease_payload r t a n ac ex td ad) = json_norm (lease_payload r' t' a' n' ac' ex' td' ad')"
    "0 \<le> instant ac" "0 \<le> instant ex" "0 \<le> instant ac'" "0 \<le> instant ex'"
  shows "r = r' \<and> t = t' \<and> a = a' \<and> n = n' \<and> instant ac = instant ac' \<and> instant ex = instant ex'
    \<and> td = td' \<and> ad = ad'"
proof -
  have "json_field k (lease_payload r t a n ac ex td ad) = json_field k (lease_payload r' t' a' n' ac' ex' td' ad')"
    for k using assms(1) unfolding lease_payload_def by (rule json_field_cong) simp_all
  note f = this [unfolded json_field_def lease_payload_def json_fields.simps]
  have "r = r'" using f [of "''run_id''"] by simp
  moreover have "t = t'" using f [of "''task_id''"] by simp
  moreover have "a = a'" using f [of "''agent_id''"] by simp
  moreover have "n = n'" using f [of "''attempt''"] by simp
  moreover have "td = td'" using f [of "''task_contract_digest''"] by simp
  moreover have "ad = ad'" using f [of "''agent_contract_digest''"] by simp
  moreover have "instant ac = instant ac'"
    using f [of "''acquired_at''"] canonical_time_inject [OF assms(2,4)] by simp
  moreover have "instant ex = instant ex'"
    using f [of "''expires_at''"] canonical_time_inject [OF assms(3,5)] by simp
  ultimately show ?thesis by blast
qed

text \<open>The two lease materials at hand collide in the HMAC.\<close>

definition lease_collision ::
  "(byte list \<Rightarrow> byte list) \<Rightarrow> byte list \<Rightarrow> json \<Rightarrow> json \<Rightarrow> bool" where
  "lease_collision h key p q \<longleftrightarrow>
     hmac_collision h key (utf8_bytes (canonical_json p)) (utf8_bytes (canonical_json q))"

lemma make_lease_token_inject:
  assumes "make_lease_token h r t a n ac ex td ad key = make_lease_token h r' t' a' n' ac' ex' td' ad' key"
    "0 \<le> instant ac" "0 \<le> instant ex" "0 \<le> instant ac'" "0 \<le> instant ex'"
  shows "r = r' \<and> t = t' \<and> a = a' \<and> n = n' \<and> instant ac = instant ac' \<and> instant ex = instant ex'
      \<and> td = td' \<and> ad = ad'
    \<or> lease_collision h key (lease_payload r t a n ac ex td ad) (lease_payload r' t' a' n' ac' ex' td' ad')"
proof -
  from assms(1) have "hmac h key (utf8_bytes (canonical_json (lease_payload r t a n ac ex td ad)))
      = hmac h key (utf8_bytes (canonical_json (lease_payload r' t' a' n' ac' ex' td' ad')))"
    by (simp add: make_lease_token_def hexdigest_inject)
  from hmac_eq_cases [OF this]
  have "canonical_json (lease_payload r t a n ac ex td ad)
      = canonical_json (lease_payload r' t' a' n' ac' ex' td' ad')
      \<or> lease_collision h key (lease_payload r t a n ac ex td ad) (lease_payload r' t' a' n' ac' ex' td' ad')"
    by (simp add: lease_collision_def)
  then show ?thesis
    using canonical_json_norm_inject lease_payload_inject [OF _ assms(2-5)] by blast
qed

definition same_worker :: "agent \<Rightarrow> agent \<Rightarrow> bool" where
  "same_worker a b \<longleftrightarrow> agent_run_id a = agent_run_id b \<and> agent_id a = agent_id b
     \<and> agent_name a = agent_name b \<and> agent_created_seq a = agent_created_seq b
     \<and> agent_agent_class a = agent_agent_class b
     \<and> agent_parent_agent_id a = agent_parent_agent_id b
     \<and> mset (agent_capabilities a) = mset (agent_capabilities b) \<and> agent_wave a = agent_wave b"

lemma agent_contract_digest_cases:
  assumes "agent_contract_digest h a = agent_contract_digest h b"
  shows "same_worker a b \<or> collision h (utf8_bytes (canonical_json (agent_contract_payload a)))
    (utf8_bytes (canonical_json (agent_contract_payload b)))"
proof (rule disjCI)
  assume "\<not> collision h (utf8_bytes (canonical_json (agent_contract_payload a)))
    (utf8_bytes (canonical_json (agent_contract_payload b)))"
  with assms have n: "json_norm (agent_contract_payload a) = json_norm (agent_contract_payload b)"
    unfolding agent_contract_digest_def sha256_text_eq_iff by (blast intro: canonical_json_norm_inject)
  have "json_field k (agent_contract_payload a) = json_field k (agent_contract_payload b)" for k
    using n unfolding agent_contract_payload_def by (rule json_field_cong) simp_all
  note f = this [unfolded json_field_def agent_contract_payload_def json_fields.simps]
  show "same_worker a b"
    unfolding same_worker_def
  proof (intro conjI)
    show "agent_run_id a = agent_run_id b" using f [of "''run_id''"] by simp
    show "agent_id a = agent_id b" using f [of "''agent_id''"] by simp
    show "agent_name a = agent_name b" using f [of "''name''"] by simp
    show "agent_created_seq a = agent_created_seq b" using f [of "''created_seq''"] by simp
    show "agent_agent_class a = agent_agent_class b"
      using f [of "''agent_class''"] by (simp add: agent_class_value_inject)
    show "agent_parent_agent_id a = agent_parent_agent_id b" using f [of "''parent_agent_id''"] by simp
    show "agent_wave a = agent_wave b" using f [of "''wave''"] by simp
    show "mset (agent_capabilities a) = mset (agent_capabilities b)"
      using f [of "''capabilities''"]
      by (auto simp: map_JStr_norm map_JStr_inject simp del: map_map intro: sort_eq_imp_mset_eq)
  qed
qed

text \<open>The three places where an assignment and the one its lease was made for can collide.\<close>

definition assignment_collision ::
  "(byte list \<Rightarrow> byte list) \<Rightarrow> byte list \<Rightarrow> lease \<Rightarrow> string \<Rightarrow> lease \<Rightarrow> string \<Rightarrow> task \<Rightarrow> task \<Rightarrow> agent \<Rightarrow> agent \<Rightarrow> bool" where
  "assignment_collision h key l rid l0 rid0 t t0 a a0 \<longleftrightarrow>
     lease_collision h key
       (lease_payload rid (lease_task_id l) (lease_agent_id l) (lease_attempt l)
          (utc (instant (lease_acquired_at l))) (utc (instant (lease_expires_at l)))
          (lease_task_contract_digest l) (lease_agent_contract_digest l))
       (lease_payload rid0 (lease_task_id l0) (lease_agent_id l0) (lease_attempt l0)
          (lease_acquired_at l0) (lease_expires_at l0)
          (lease_task_contract_digest l0) (lease_agent_contract_digest l0))
     \<or> collision h (utf8_bytes (canonical_json (task_contract_payload t)))
         (utf8_bytes (canonical_json (task_contract_payload t0)))
     \<or> collision h (utf8_bytes (canonical_json (agent_contract_payload a)))
         (utf8_bytes (canonical_json (agent_contract_payload a0)))"

section \<open>A sample assignment\<close>

definition sample_key :: "byte list" where
  "sample_key = replicate 32 7"

definition open_task :: task where
  "open_task = (plain_task ''r'' ''a'' Kind_DESIGN)\<lparr>task_required_checks :=
     [\<lparr>check_id = ''erc'', check_source = ''kicad'', check_policy_digest = ''p''\<rparr>]\<rparr>"

definition free_agent :: agent where
  "free_agent = sample_agent ''x'' DOMAIN_DESIGNER"

definition issued_lease :: lease where
  "issued_lease = new_lease sha256 sample_key (sample_run Run_EXECUTING RESEARCH) open_task free_agent
     (utc 0) (utc 120000000)"

definition leased_task :: task where
  "leased_task = open_task\<lparr>task_state := Task_LEASED, task_attempt := 1, task_lease := Some issued_lease\<rparr>"

definition leased_agent :: agent where
  "leased_agent = free_agent\<lparr>agent_state := Agent_LEASED, agent_current_task_id := Some ''a'',
     agent_last_heartbeat_at := Some (utc 0)\<rparr>"

text \<open>The contract of a task does not name its progress, that of an agent not its activity.\<close>

lemma contract_digest_progress [simp]:
  "task_contract_digest h (t\<lparr>task_state := s\<rparr>) = task_contract_digest h t"
  "task_contract_digest h (t\<lparr>task_attempt := n\<rparr>) = task_contract_digest h t"
  "task_contract_digest h (t\<lparr>task_lease := l\<rparr>) = task_contract_digest h t"
  "agent_contract_digest h (a\<lparr>agent_state := q\<rparr>) = agent_contract_digest h a"
  "agent_contract_digest h (a\<lparr>agent_current_task_id := i\<rparr>) = agent_contract_digest h a"
  "agent_contract_digest h (a\<lparr>agent_last_heartbeat_at := d\<rparr>) = agent_contract_digest h a"
  by (simp_all add: task_contract_digest_def task_contract_payload_def agent_contract_digest_def
      agent_contract_payload_def)

lemma issued_lease_accepted:
  assumes "0 \<le> i" "i < 120000000"
  shows "lease_accepted sha256 sample_key False leased_task leased_agent (lease_token issued_lease) (utc i)
    issued_lease"
proof -
  have f: "task_id open_task = ''a''" "task_run_id open_task = ''r''" "task_attempt open_task = 0"
    "agent_id free_agent = ''x''" "agent_run_id free_agent = ''r''"
    by (simp_all add: open_task_def plain_task_def free_agent_def sample_agent_def)
  show ?thesis
    using assms
    by (simp add: lease_accepted_def leased_task_def leased_agent_def f issued_lease_def new_lease_def
        sample_key_def in_datetime_range_def datetime_max_def)
qed

lemma sha256_lease_post_init:
  "lease_post_init (new_lease sha256 key r t a at ex) = Inr () \<longleftrightarrow>
     task_id t \<noteq> [] \<and> agent_id a \<noteq> [] \<and> is_aware at \<and> is_aware ex \<and> 0 \<le> task_attempt t
     \<and> instant at < instant ex"
  by (auto simp: lease_post_init_def new_lease_def make_lease_token_def sha256_digest.hmac_hex
      task_contract_digest_def agent_contract_digest_def sha256_digest.sha256_text_hex)

lemma issued_lease_valid: "lease_post_init issued_lease = Inr ()"
  by (simp add: issued_lease_def sha256_lease_post_init open_task_def plain_task_def free_agent_def
      sample_agent_def)

lemma issued_lease_validates:
  assumes "0 \<le> i" "i < 120000000"
  shows "\<exists>vl. validate_lease sha256 sample_key False leased_task leased_agent (lease_token issued_lease) (utc i)
    = Inr vl"
proof -
  have "in_datetime_range i" using assms by (simp add: in_datetime_range_def datetime_max_def)
  then show ?thesis
    using lease_accepted_validates [OF issued_lease_accepted [OF assms] sha256_digest.digest_function_axioms
        issued_lease_valid]
    by (auto simp: leased_agent_def in_datetime_range_def datetime_max_def)
qed

section \<open>Properties of leases\<close>

text \<open>
  C21: An accepted token proves the assignment it was issued for. If the lease the scheduler made
  for a task and an agent is accepted for some task and agent, then these have the same IDs, run
  and attempt, the task still has every field of the contract and the agent every claim it had
  when the lease was made, and the clock is within the period granted; otherwise the materials
  at hand collide in the hash or in the MAC.
\<close>

theorem accepted_lease_proves_assignment:
  assumes "validate_lease h key allow_expired t a (lease_token l0) at = Inr vl"
    "l0 = new_lease h key r t0 a0 at0 ex0" "0 \<le> instant at0" "0 \<le> instant ex0"
  shows "task_id t = task_id t0 \<and> agent_id a = agent_id a0 \<and> task_attempt t = task_attempt t0 + 1
       \<and> task_run_id t = run_id r \<and> same_contract t t0 \<and> same_worker a a0
       \<and> instant at0 \<le> instant at \<and> (allow_expired \<or> instant at < instant ex0)
     \<or> (\<exists>l. task_lease t = Some l \<and> assignment_collision h key l (task_run_id t) l0 (run_id r) t t0 a a0)"
proof -
  obtain l where l: "lease_accepted h key allow_expired t a (lease_token l0) at l"
    using validate_lease_accepted [OF assms(1)] by blast
  note L = l [unfolded lease_accepted_def]
  from L have eq: "make_lease_token h (task_run_id t) (task_id t) (agent_id a) (lease_attempt l)
       (utc (instant (lease_acquired_at l))) (utc (instant (lease_expires_at l)))
       (task_contract_digest h t) (agent_contract_digest h a) key
     = make_lease_token h (run_id r) (task_id t0) (agent_id a0) (task_attempt t0 + 1) at0 ex0
       (task_contract_digest h t0) (agent_contract_digest h a0) key"
    by (simp add: assms(2) new_lease_def)
  have nn: "0 \<le> instant (utc (instant (lease_acquired_at l)))" "0 \<le> instant (utc (instant (lease_expires_at l)))"
    using L by (simp_all add: in_datetime_range_def)
  let ?same = "task_run_id t = run_id r \<and> task_id t = task_id t0 \<and> agent_id a = agent_id a0
    \<and> lease_attempt l = task_attempt t0 + 1
    \<and> instant (utc (instant (lease_acquired_at l))) = instant at0
    \<and> instant (utc (instant (lease_expires_at l))) = instant ex0
    \<and> task_contract_digest h t = task_contract_digest h t0
    \<and> agent_contract_digest h a = agent_contract_digest h a0"
  show ?thesis
  proof (cases ?same)
    case True
    then have "same_contract t t0 \<or> assignment_collision h key l (task_run_id t) l0 (run_id r) t t0 a a0"
      "same_worker a a0 \<or> assignment_collision h key l (task_run_id t) l0 (run_id r) t t0 a a0"
      using contract_digest_cases [of h t t0] agent_contract_digest_cases [of h a a0]
      by (auto simp: assignment_collision_def)
    with True L show ?thesis by auto
  next
    case False
    with make_lease_token_inject [OF eq nn assms(3,4)]
    have "lease_collision h key
       (lease_payload (task_run_id t) (task_id t) (agent_id a) (lease_attempt l)
          (utc (instant (lease_acquired_at l))) (utc (instant (lease_expires_at l)))
          (task_contract_digest h t) (agent_contract_digest h a))
       (lease_payload (run_id r) (task_id t0) (agent_id a0) (task_attempt t0 + 1) at0 ex0
          (task_contract_digest h t0) (agent_contract_digest h a0))" by blast
    with L have "assignment_collision h key l (task_run_id t) l0 (run_id r) t t0 a a0"
      unfolding assignment_collision_def by (simp add: assms(2) new_lease_def)
    with L show ?thesis by blast
  qed
qed

theorem accepted_lease_proves_assignment_witness:
  "same_contract leased_task open_task \<and> same_worker leased_agent free_agent
   \<or> (\<exists>l. assignment_collision sha256 sample_key l ''r'' issued_lease ''r'' leased_task open_task
        leased_agent free_agent)"
proof -
  obtain vl where "validate_lease sha256 sample_key False leased_task leased_agent
      (lease_token issued_lease) (utc 5) = Inr vl" using issued_lease_validates [of 5] by auto
  from accepted_lease_proves_assignment [OF this issued_lease_def] show ?thesis
    by (auto simp: leased_task_def open_task_def plain_task_def)
qed

text \<open>
  A heartbeat renews the lease and retires the old token. The task then carries a lease for
  the same attempt that expires the given time after the heartbeat, whose token is accepted for
  the returned task and agent at every clock reading from the heartbeat up to that expiry; the
  token that was used to renew is no longer accepted for the returned task, unless the expiry did
  not move or the two lease materials collide in the MAC.
\<close>

theorem heartbeat_retires_old_token:
  assumes "heartbeat h key t a token at secs = Inr (t', a')"
  shows "\<exists>l l'. task_lease t = Some l \<and> task_lease t' = Some l' \<and> lease_attempt l' = task_attempt t'
     \<and> instant (lease_expires_at l') = instant at + 1000000 * secs \<and> 0 < secs
     \<and> (\<forall>at'. instant at \<le> instant at' \<and> instant at' < instant (lease_expires_at l') \<longrightarrow>
          lease_accepted h key False t' a' (lease_token l') at' l')
     \<and> (\<forall>allow_expired b at' vl. validate_lease h key allow_expired t' b token at' = Inr vl \<longrightarrow>
          instant (lease_expires_at l) = instant (lease_expires_at l')
          \<or> lease_collision h key
              (lease_payload (task_run_id t) (task_id t) (agent_id a) (lease_attempt l)
                 (utc (instant (lease_acquired_at l))) (utc (instant (lease_expires_at l)))
                 (task_contract_digest h t) (agent_contract_digest h a))
              (lease_payload (task_run_id t) (task_id t) (agent_id a) (lease_attempt l)
                 (lease_acquired_at l') (lease_expires_at l')
                 (task_contract_digest h t) (agent_contract_digest h a)))"
proof -
  have s: "secs \<ge> 1" and aw: "snapshot_time at = Inr (utc (instant at))"
    using assms by (auto simp: heartbeat_def bind_r_Inr_iff snapshot_time_Inr split: if_splits)
  obtain vl where vl: "validate_lease h key False t a token (utc (instant at)) = Inr vl"
    using assms by (auto simp: heartbeat_def bind_r_Inr_iff snapshot_time_Inr)
  then obtain l where l: "lease_accepted h key False t a token (utc (instant at)) l"
      "vl = l\<lparr>lease_acquired_at := utc (instant (lease_acquired_at l)),
            lease_expires_at := utc (instant (lease_expires_at l))\<rparr>"
    by (rule validate_lease_accepted)
  let ?ex = "utc (instant at + 1000000 * secs)"
  let ?tok = "make_lease_token h (task_run_id t) (task_id t) (agent_id a) (lease_attempt l)
    (utc (instant (lease_acquired_at l))) ?ex (task_contract_digest h t) (agent_contract_digest h a) key"
  let ?l = "l\<lparr>lease_token := ?tok, lease_acquired_at := utc (instant (lease_acquired_at l)), lease_expires_at := ?ex\<rparr>"
  have L: "lease_task_contract_digest l = task_contract_digest h t"
      "lease_agent_contract_digest l = agent_contract_digest h a"
    using l(1) by (simp_all add: lease_accepted_def)
  have t': "t' = t\<lparr>task_lease := Some ?l\<rparr>" "a' = a\<lparr>agent_last_heartbeat_at := Some (utc (instant at))\<rparr>"
      "in_datetime_range (instant at + 1000000 * secs)"
    using assms unfolding heartbeat_def aw
    by (auto simp: bind_r_Inr_iff vl l(2) L split: if_splits)
  have acc: "lease_accepted h key False t' a' (lease_token ?l) at' ?l"
    if "instant at \<le> instant at' \<and> instant at' < instant ?ex" for at'
    using l(1) that t'(3) unfolding t'(1,2) lease_accepted_def by simp
  have nn: "0 \<le> instant (utc (instant (lease_acquired_at l)))" "0 \<le> instant (utc (instant (lease_expires_at l)))"
      "0 \<le> instant ?ex"
    using l(1) t'(3) by (simp_all add: lease_accepted_def in_datetime_range_def)
  have old: "instant (lease_expires_at l) = instant ?ex
      \<or> lease_collision h key
          (lease_payload (task_run_id t) (task_id t) (agent_id a) (lease_attempt l)
             (utc (instant (lease_acquired_at l))) (utc (instant (lease_expires_at l)))
             (task_contract_digest h t) (agent_contract_digest h a))
          (lease_payload (task_run_id t) (task_id t) (agent_id a) (lease_attempt l)
             (utc (instant (lease_acquired_at l))) ?ex
             (task_contract_digest h t) (agent_contract_digest h a))"
    if v: "validate_lease h key allow_expired t' b token at' = Inr vl'" for allow_expired b at' vl'
  proof -
    obtain l'' where "lease_accepted h key allow_expired t' b token at' l''"
      using validate_lease_accepted [OF v] by blast
    then have "task_lease t' = Some l''" "lease_token l'' = token" by (simp_all add: lease_accepted_def)
    then have "token = ?tok" using t'(1) by auto
    moreover have "token = make_lease_token h (task_run_id t) (task_id t) (agent_id a) (lease_attempt l)
        (utc (instant (lease_acquired_at l))) (utc (instant (lease_expires_at l)))
        (task_contract_digest h t) (agent_contract_digest h a) key"
      using l(1) by (simp add: lease_accepted_def)
    ultimately show ?thesis
      using make_lease_token_inject [OF _ nn(1,2) nn(1,3)] by (metis utc_simps(4))
  qed
  show ?thesis
  proof (intro exI conjI)
    show "task_lease t = Some l" using l(1) by (simp add: lease_accepted_def)
    show "task_lease t' = Some ?l" using t'(1) by simp
    show "lease_attempt ?l = task_attempt t'" using l(1) t'(1) by (simp add: lease_accepted_def)
  qed (use s acc old in auto)
qed

theorem heartbeat_retires_old_token_witness:
  "\<exists>t' a' l'. heartbeat sha256 sample_key leased_task leased_agent (lease_token issued_lease) (utc 5) 60
       = Inr (t', a')
     \<and> task_lease t' = Some l' \<and> lease_accepted sha256 sample_key False t' a' (lease_token l') (utc 60000004) l'"
proof -
  obtain vl where vl: "validate_lease sha256 sample_key False leased_task leased_agent
      (lease_token issued_lease) (utc 5) = Inr vl" using issued_lease_validates [of 5] by auto
  then obtain l where acc: "lease_accepted sha256 sample_key False leased_task leased_agent
      (lease_token issued_lease) (utc 5) l" and
      "vl = l\<lparr>lease_acquired_at := utc (instant (lease_acquired_at l)),
            lease_expires_at := utc (instant (lease_expires_at l))\<rparr>" by (rule validate_lease_accepted)
  moreover have "l = issued_lease" using acc by (simp add: lease_accepted_def leased_task_def)
  ultimately have l: "vl = issued_lease" by (simp add: issued_lease_def new_lease_def)
  have f: "task_id leased_task = ''a''" "task_attempt leased_task = 1" "task_lease leased_task = Some issued_lease"
      "task_state leased_task = Task_LEASED" "agent_state leased_agent = Agent_LEASED"
    by (simp_all add: leased_task_def open_task_def plain_task_def leased_agent_def)
  let ?l = "issued_lease\<lparr>lease_token := make_lease_token sha256 (task_run_id leased_task) (task_id leased_task)
    (agent_id leased_agent) (lease_attempt issued_lease) (lease_acquired_at issued_lease) (utc 60000005)
    (lease_task_contract_digest issued_lease) (lease_agent_contract_digest issued_lease) sample_key,
    lease_expires_at := utc 60000005\<rparr>"
  have i: "lease_acquired_at issued_lease = utc 0" "lease_task_id issued_lease = ''a''"
      "lease_attempt issued_lease = 1"
    by (simp_all add: issued_lease_def new_lease_def open_task_def plain_task_def)
  have lp: "lease_post_init ?l = Inr ()"
    using issued_lease_valid
    by (auto simp: lease_post_init_def i make_lease_token_def sha256_digest.hmac_hex split: if_splits)
  have tp: "task_post_init (leased_task\<lparr>task_lease := Some ?l\<rparr>) = Inr ()"
    by (simp add: task_post_init_def leased_task_def open_task_def plain_task_def active_task_state_def
        i strip_def char_isspace_def)
  have ap: "agent_post_init (leased_agent\<lparr>agent_last_heartbeat_at := Some (utc 5)\<rparr>) = Inr ()"
    by (simp add: agent_post_init_def leased_agent_def free_agent_def sample_agent_def
        active_agent_state_def strip_def char_isspace_def)
  have r: "in_datetime_range 5" "in_datetime_range 60000005" by (simp_all add: in_datetime_range_def datetime_max_def)
  have hb: "heartbeat sha256 sample_key leased_task leased_agent (lease_token issued_lease) (utc 5) 60 =
      Inr (leased_task\<lparr>task_lease := Some ?l\<rparr>, leased_agent\<lparr>agent_last_heartbeat_at := Some (utc 5)\<rparr>)"
    using lp tp ap r
    by (simp add: heartbeat_def snapshot_time_def vl l f active_task_state_def active_agent_state_def)
  from heartbeat_retires_old_token [OF hb] hb show ?thesis by fastforce
qed

section \<open>Evidence\<close>

lemma collect_checks_Inr:
  assumes "collect_checks acc vs = Inr cr" "distinct (map fst acc)"
  shows "distinct (map fst cr)
    \<and> set cr = set acc \<union> {(c, v). v \<in> set vs \<and> evidence_kind v = DESIGN_CHECK \<and> evidence_check_id v = Some c}
    \<and> (\<forall>v \<in> set vs. evidence_kind v = DESIGN_CHECK \<longrightarrow>
         evidence_passed v \<noteq> None \<and> evidence_check_id v \<noteq> None)"
  using assms
proof (induction acc vs arbitrary: cr rule: collect_checks.induct)
  case (2 acc v vs)
  show ?case
  proof (cases "evidence_kind v = DESIGN_CHECK")
    case False
    then show ?thesis using 2 by auto
  next
    case True
    then obtain c where c: "evidence_check_id v = Some c" "evidence_passed v \<noteq> None" "c \<notin> fst ` set acc"
        "collect_checks (acc @ [(c, v)]) vs = Inr cr"
      using 2(3) by (auto split: option.splits if_splits)
    from 2(2) [OF _ c(1) _ c(3) c(4)] True c 2(4) show ?thesis by auto
  qed
qed simp

lemma validate_evidence_Inr:
  assumes "validate_evidence t vs = Inr vs'" "distinct (map check_id (task_required_checks t))"
  shows "vs' = vs" "vs \<noteq> []" "distinct (map evidence_id vs)"
    "\<forall>v \<in> set vs. evidence_run_id v = task_run_id t \<and> evidence_task_id v = Some (task_id t)"
    "\<forall>v \<in> set vs. evidence_kind v = DESIGN_CHECK \<longrightarrow> evidence_passed v = Some True"
    "\<forall>q \<in> set (task_required_checks t). \<exists>v \<in> set vs. evidence_kind v = DESIGN_CHECK
       \<and> evidence_check_id v = Some (check_id q) \<and> evidence_passed v = Some True
       \<and> evidence_source v = check_source q \<and> evidence_policy_digest v = Some (check_policy_digest q)"
proof -
  obtain cr where cr: "collect_checks [] vs = Inr cr"
    using assms(1) by (auto simp: validate_evidence_def bind_r_Inr_iff)
  note C = collect_checks_Inr [OF cr, simplified]
  have d: "dict_of check_id (task_required_checks t) = map (\<lambda>q. (check_id q, q)) (task_required_checks t)"
    by (rule dict_of_distinct [OF assms(2)])
  have "raise_first
       ([(\<exists>(c, v) \<in> set cr. evidence_passed v = Some False, EvidenceRejected ''checks failed''),
         (\<not> fst ` set (map (\<lambda>q. (check_id q, q)) (task_required_checks t)) \<subseteq> fst ` set cr,
            EvidenceRejected ''checks missing'')]
        @ concat (map (\<lambda>(c, q).
            [(case map_of cr c of None \<Rightarrow> True | Some v \<Rightarrow> evidence_source v \<noteq> check_source q,
                EvidenceRejected ''untrusted source''),
             (case map_of cr c of None \<Rightarrow> True
                | Some v \<Rightarrow> evidence_policy_digest v \<noteq> Some (check_policy_digest q),
                EvidenceRejected ''wrong policy revision'')])
            (map (\<lambda>q. (check_id q, q)) (task_required_checks t)))) = Inr ()"
    using assms(1) unfolding validate_evidence_def cr d Let_def bind_r_Inr_iff by auto
  note R = this [unfolded raise_first_Inr_iff]
  have g1: "\<forall>(c, v) \<in> set cr. evidence_passed v \<noteq> Some False"
    and g2: "\<forall>q \<in> set (task_required_checks t). check_id q \<in> fst ` set cr"
    using R by (auto simp: image_image)
  have g3: "\<forall>q \<in> set (task_required_checks t). \<forall>v. map_of cr (check_id q) = Some v \<longrightarrow>
         evidence_source v = check_source q \<and> evidence_policy_digest v = Some (check_policy_digest q)"
    using R by fastforce
  show "vs' = vs" "vs \<noteq> []" "distinct (map evidence_id vs)"
    "\<forall>v \<in> set vs. evidence_run_id v = task_run_id t \<and> evidence_task_id v = Some (task_id t)"
    using assms(1) by (auto simp: validate_evidence_def bind_r_Inr_iff Let_def split: if_splits)
  have passed: "evidence_passed v = Some True" if "(c, v) \<in> set cr" for c v
  proof -
    have "evidence_passed v \<noteq> Some False" using g1 that by auto
    moreover have "evidence_passed v \<noteq> None" using C that by auto
    ultimately show ?thesis by (metis (full_types) option.exhaust)
  qed
  show "\<forall>v \<in> set vs. evidence_kind v = DESIGN_CHECK \<longrightarrow> evidence_passed v = Some True"
    using passed C by fastforce
  show "\<forall>q \<in> set (task_required_checks t). \<exists>v \<in> set vs. evidence_kind v = DESIGN_CHECK
       \<and> evidence_check_id v = Some (check_id q) \<and> evidence_passed v = Some True
       \<and> evidence_source v = check_source q \<and> evidence_policy_digest v = Some (check_policy_digest q)"
  proof
    fix q assume q: "q \<in> set (task_required_checks t)"
    then obtain v where v: "map_of cr (check_id q) = Some v"
      using g2 by (metis map_of_eq_None_iff option.exhaust)
    then have m: "(check_id q, v) \<in> set cr" by (rule map_of_SomeD)
    then show "\<exists>v \<in> set vs. evidence_kind v = DESIGN_CHECK
       \<and> evidence_check_id v = Some (check_id q) \<and> evidence_passed v = Some True
       \<and> evidence_source v = check_source q \<and> evidence_policy_digest v = Some (check_policy_digest q)"
      using C passed [OF m] g3 q v by auto
  qed
qed

text \<open>What the contract of a task demands of the evidence for its success.\<close>

definition evidence_suffices :: "task \<Rightarrow> evidence list \<Rightarrow> bool" where
  "evidence_suffices t vs \<longleftrightarrow> vs \<noteq> [] \<and> distinct (map evidence_id vs)
     \<and> (\<forall>v \<in> set vs. evidence_run_id v = task_run_id t \<and> evidence_task_id v = Some (task_id t))
     \<and> (\<forall>q \<in> set (task_required_checks t). \<exists>v \<in> set vs. evidence_kind v = DESIGN_CHECK
          \<and> evidence_check_id v = Some (check_id q) \<and> evidence_passed v = Some True
          \<and> evidence_source v = check_source q \<and> evidence_policy_digest v = Some (check_policy_digest q))"

text \<open>
  C22: A task succeeds only on a live lease and sufficient evidence. If \<^verbatim>\<open>succeed\<close> returns,
  the token was accepted before the expiry, the evidence is non-empty, bound to this run and task,
  has a passed result for each required check from the required source under the required policy,
  and no failed check; the task records exactly these evidence IDs and the agent, the agent is
  free again, and the budget is settled by the actual use.
\<close>

theorem succeed_requires_evidence:
  assumes "succeed h key t a token vs b actual_tokens actual_tool_calls at = Inr res"
  shows "(\<exists>l. lease_accepted h key False t a token at l)
     \<and> evidence_suffices t vs
     \<and> (\<forall>v \<in> set vs. evidence_kind v = DESIGN_CHECK \<longrightarrow> evidence_passed v \<noteq> Some False)
     \<and> task_state (completion_task res) = Task_SUCCEEDED \<and> task_lease (completion_task res) = None
     \<and> task_result_evidence_ids (completion_task res) = map evidence_id vs
     \<and> task_completed_by_agent_id (completion_task res) = Some (agent_id a)
     \<and> agent_state (completion_agent res) = Agent_AVAILABLE
     \<and> agent_current_task_id (completion_agent res) = None
     \<and> settle b (task_estimated_tokens t) actual_tokens 0 actual_tool_calls 1 1
         = Inr (completion_budget res)"
proof -
  obtain vl where vl: "validate_lease h key False t a token (utc (instant at)) = Inr vl"
    using assms by (auto simp: succeed_def bind_r_Inr_iff snapshot_time_Inr)
  then obtain l where "lease_accepted h key False t a token (utc (instant at)) l"
    by (rule validate_lease_accepted)
  then have l: "lease_accepted h key False t a token at l" by (simp only: lease_accepted_utc)
  obtain vs' where vs': "validate_evidence t vs = Inr vs'"
    using assms by (auto simp: succeed_def bind_r_Inr_iff split: if_splits)
  let ?t = "t\<lparr>task_state := Task_SUCCEEDED, task_lease := None, task_result_evidence_ids := map evidence_id vs',
    task_completed_by_agent_id := Some (agent_id a), task_failure_code := None, task_failure_message := None\<rparr>"
  have r: "completion_task res = ?t" "task_post_init ?t = Inr ()"
      "agent_state (completion_agent res) = Agent_AVAILABLE"
      "agent_current_task_id (completion_agent res) = None"
      "settle b (task_estimated_tokens t) actual_tokens 0 actual_tool_calls 1 1 = Inr (completion_budget res)"
    using assms by (auto simp: succeed_def bind_r_Inr_iff vs' split: if_splits)
  have "distinct (map check_id (task_required_checks t))"
    using r(2) by (auto simp: task_post_init_def split: if_splits)
  note V = validate_evidence_Inr [OF vs' this]
  show ?thesis using l r V by (auto simp: evidence_suffices_def)
qed

definition erc_evidence :: evidence where
  "erc_evidence = (sample_evidence ''e1'' ''a'')\<lparr>evidence_kind := DESIGN_CHECK, evidence_source := ''kicad'',
     evidence_check_id := Some ''erc'', evidence_policy_digest := Some ''p'', evidence_passed := Some True\<rparr>"

theorem succeed_requires_evidence_witness:
  "\<exists>res. succeed sha256 sample_key leased_task leased_agent (lease_token issued_lease) [erc_evidence]
       (capped_budget\<lparr>agent_dispatches_reserved := 1\<rparr>) 45 0 (utc 5) = Inr res
     \<and> evidence_suffices leased_task [erc_evidence]
     \<and> task_completed_by_agent_id (completion_task res) = Some ''x''"
proof -
  obtain vl where vl: "validate_lease sha256 sample_key False leased_task leased_agent
      (lease_token issued_lease) (utc 5) = Inr vl" using issued_lease_validates [of 5] by auto
  have r: "in_datetime_range 5" by (simp add: in_datetime_range_def datetime_max_def)
  have ev: "validate_evidence leased_task [erc_evidence] = Inr [erc_evidence]"
    by (simp add: validate_evidence_def erc_evidence_def sample_evidence_def leased_task_def open_task_def
        plain_task_def dict_of_def)
  have f: "task_state leased_task = Task_LEASED" "task_estimated_tokens leased_task = 0"
      "agent_id leased_agent = ''x''"
    by (simp_all add: leased_task_def open_task_def plain_task_def leased_agent_def free_agent_def sample_agent_def)
  obtain b' where b': "settle (capped_budget\<lparr>agent_dispatches_reserved := 1\<rparr>) 0 45 0 0 1 1 = Inr b'"
    by (simp add: settle_Inr budget_post_init_Inr capped_budget_def unlimited_budget_def negative_opt_def
        over_limit_def)
  have "\<exists>res. succeed sha256 sample_key leased_task leased_agent (lease_token issued_lease) [erc_evidence]
       (capped_budget\<lparr>agent_dispatches_reserved := 1\<rparr>) 45 0 (utc 5) = Inr res"
    using r
    by (simp add: succeed_def snapshot_time_def vl ev f b' active_task_state_def validate_settlement_inputs_def)
      (simp add: validated_def task_post_init_def agent_post_init_def leased_task_def open_task_def
        plain_task_def leased_agent_def free_agent_def sample_agent_def erc_evidence_def sample_evidence_def
        active_task_state_def active_agent_state_def strip_def char_isspace_def)
  then obtain res where res: "succeed sha256 sample_key leased_task leased_agent (lease_token issued_lease)
      [erc_evidence] (capped_budget\<lparr>agent_dispatches_reserved := 1\<rparr>) 45 0 (utc 5) = Inr res" by blast
  from succeed_requires_evidence [OF res] res show ?thesis by (auto simp: f(3))
qed

text \<open>
  A token with a character outside ASCII is not rejected as a lease error. Where the task has
  an authentic lease, starting, renewing, completing or failing the work with such a token raises
  \<^verbatim>\<open>TypeError\<close>, an exception that handlers of \<^verbatim>\<open>DomainError\<close> do not catch.
\<close>

theorem non_ascii_token_raises_type_error:
  assumes "task_lease t = Some l" "\<not> is_ascii token" "32 \<le> length key"
    "is_aware at" "in_datetime_range (instant at)"
  shows "start h key t a token at = Inl TypeError \<and> heartbeat h key t a token at secs = Inl TypeError
     \<and> succeed h key t a token vs b n m at = Inl TypeError
     \<and> fail h key t a token code msg retryable b n m at = Inl TypeError
     \<and> \<not> is_domain_error TypeError"
proof -
  have "validate_lease h key ae t a token (utc (instant at)) = Inl TypeError" for ae
    using assms by (simp add: validate_lease_def lease_time_def snapshot_time_def compare_digest_def)
  then show ?thesis
    using assms(4,5) by (simp add: start_def heartbeat_def succeed_def fail_def snapshot_time_def)
qed

theorem non_ascii_token_raises_type_error_witness:
  "start sha256 sample_key leased_task leased_agent [CHR 0xE9] (utc 5) = Inl TypeError"
  using non_ascii_token_raises_type_error [of leased_task issued_lease "[CHR 0xE9]" sample_key "utc 5"]
  by (simp add: leased_task_def is_ascii_def sample_key_def in_datetime_range_def datetime_max_def)

end
