(* ===== verification/Scheduler_Assignments.thy ===== *)
theory Scheduler_Assignments
  imports Scheduler_Leases
begin

text \<open>
  The invariant of a scheduler snapshot: active tasks and active agents are matched one to one by
  leases. Shown for the loops of \<^verbatim>\<open>reap_expired_leases\<close> and \<^verbatim>\<open>schedule\<close>, with the
  bound on retries and the number of active tasks.
\<close>

section \<open>Dictionaries keyed by ID\<close>

definition keyed :: "('a \<Rightarrow> 'k) \<Rightarrow> ('k \<times> 'a) list \<Rightarrow> bool" where
  "keyed key d \<longleftrightarrow> distinct (map fst d) \<and> (\<forall>(k, x) \<in> set d. key x = k)"

lemma keyed_map_of:
  assumes "keyed key d"
  shows "map_of d k = Some x \<longleftrightarrow> x \<in> set (dict_values d) \<and> key x = k"
proof -
  have "map_of d k = Some x \<longleftrightarrow> (k, x) \<in> set d"
    using assms by (simp add: keyed_def)
  also have "\<dots> \<longleftrightarrow> x \<in> set (dict_values d) \<and> key x = k"
    using assms by (force simp: keyed_def dict_values_def)
  finally show ?thesis .
qed

lemma keyed_inj_on: "keyed key d \<Longrightarrow> inj_on key (set (dict_values d))"
  by (rule inj_onI) (metis keyed_map_of option.inject)

lemma keyed_distinct: "keyed key d \<Longrightarrow> distinct (map key (dict_values d))"
proof -
  assume k: "keyed key d"
  then have "map key (dict_values d) = map fst d"
    by (auto simp: keyed_def dict_values_def)
  then show ?thesis using k by (simp add: keyed_def)
qed

lemma set_AList_update_distinct:
  "distinct (map fst d) \<Longrightarrow> set (AList.update k x d) = insert (k, x) {p \<in> set d. fst p \<noteq> k}"
  by (induction d) (auto simp: image_iff)

lemma keyed_update:
  assumes "keyed key d" "key x = k"
  shows "keyed key (AList.update k x d)"
  using assms set_AList_update_distinct [of d k x]
  by (auto simp: keyed_def distinct_update)

lemma values_update:
  assumes "keyed key d" "y \<in> set (dict_values d)" "key x = key y"
  shows "set (dict_values (AList.update (key y) x d)) = insert x (set (dict_values d) - {y})"
proof -
  have "z = y" if "(k, z) \<in> set d" "k = key y" for k z
  proof -
    from that(1) have "z \<in> set (dict_values d)" by (force simp: dict_values_def)
    moreover have "key z = key y" using that assms(1) by (auto simp: keyed_def)
    ultimately show ?thesis using assms(2) inj_onD [OF keyed_inj_on [OF assms(1)]] by blast
  qed
  then have "fst p \<noteq> key y \<longleftrightarrow> snd p \<noteq> y" if "p \<in> set d" for p
    using that assms(1) by (cases p) (auto simp: keyed_def)
  then have "snd ` {p \<in> set d. fst p \<noteq> key y} = snd ` set d - {y}" by auto
  then show ?thesis
    using set_AList_update_distinct [of d "key y" x] assms(1) by (simp add: dict_values_def keyed_def)
qed

lemma keyed_index_unique:
  "index_unique key acc xs = Inr d \<longleftrightarrow>
     distinct (map key xs) \<and> key ` set xs \<inter> fst ` set acc = {} \<and> d = acc @ map (\<lambda>x. (key x, x)) xs"
  by (induction key acc xs rule: index_unique.induct) auto

lemma index_unique_Inr:
  assumes "index_unique key [] xs = Inr d"
  shows "keyed key d" "dict_values d = xs" "distinct (map key xs)"
  using assms by (auto simp: keyed_index_unique keyed_def dict_values_def comp_def)

lemma keyed_dict_of: "keyed key (dict_of key xs)"
proof -
  have "keyed key (fold (\<lambda>x d. AList.update (key x) x d) xs d)" if "keyed key d" for d
    using that by (induction xs arbitrary: d) (auto intro: keyed_update)
  from this [of "[]"] show ?thesis by (simp add: dict_of_def keyed_def)
qed

lemma set_by_creation [simp]:
  "set (by_creation_tasks ts) = set ts" "set (by_creation_agents as) = set as"
  by (simp_all add: by_creation_tasks_def by_creation_agents_def)

lemma distinct_by_creation [simp]:
  "distinct (map task_id (by_creation_tasks ts)) = distinct (map task_id ts)"
  "distinct (map agent_id (by_creation_agents as)) = distinct (map agent_id as)"
  unfolding by_creation_tasks_def by_creation_agents_def
  by (rule mset_eq_imp_distinct_iff, simp)+

section \<open>The matching of tasks and agents\<close>

definition active_task :: "task \<Rightarrow> bool" where
  "active_task t \<longleftrightarrow> active_task_state (task_state t)"

definition active_agent :: "agent \<Rightarrow> bool" where
  "active_agent a \<longleftrightarrow> active_agent_state (agent_state a)"

definition holds_lease :: "task \<Rightarrow> agent \<Rightarrow> bool" where
  "holds_lease t a \<longleftrightarrow> active_task t \<and> active_agent a \<and> agent_current_task_id a = Some (task_id t)
     \<and> (\<exists>l. task_lease t = Some l \<and> lease_agent_id l = agent_id a)"

definition matched :: "task set \<Rightarrow> agent set \<Rightarrow> bool" where
  "matched T A \<longleftrightarrow> inj_on task_id T \<and> inj_on agent_id A
     \<and> (\<forall>t \<in> T. active_task t \<longrightarrow> (\<exists>a \<in> A. holds_lease t a))
     \<and> (\<forall>a \<in> A. active_agent a \<longrightarrow> (\<exists>t \<in> T. holds_lease t a))"

lemma matchedI:
  assumes "inj_on task_id T" "inj_on agent_id A"
    "\<And>t. t \<in> T \<Longrightarrow> active_task t \<Longrightarrow> \<exists>a \<in> A. holds_lease t a"
    "\<And>a. a \<in> A \<Longrightarrow> active_agent a \<Longrightarrow> \<exists>t \<in> T. holds_lease t a"
  shows "matched T A"
  using assms by (auto simp: matched_def)

lemma holds_lease_unique:
  assumes "matched T A" "t \<in> T" "u \<in> T" "a \<in> A" "b \<in> A" "holds_lease t a" "holds_lease u b"
  shows "t = u \<longleftrightarrow> a = b"
  using assms by (auto simp: matched_def holds_lease_def dest: inj_onD)

lemma holds_lease_active: "holds_lease t a \<Longrightarrow> active_task t" "holds_lease t a \<Longrightarrow> active_agent a"
  by (auto simp: holds_lease_def)

lemma inj_on_replace:
  "inj_on f T \<Longrightarrow> t \<in> T \<Longrightarrow> f t' = f t \<Longrightarrow> inj_on f (insert t' (T - {t}))"
  by (auto simp: inj_on_def)

lemma matched_replace_idle_task:
  assumes "matched T A" "t \<in> T" "\<not> active_task t" "task_id t' = task_id t" "\<not> active_task t'"
  shows "matched (insert t' (T - {t})) A"
proof -
  have "\<exists>u \<in> T - {t}. holds_lease u a" if "a \<in> A" "active_agent a" for a
    using that assms(1,3) unfolding matched_def by (metis Diff_iff holds_lease_active(1) singletonD)
  then show ?thesis
    using assms inj_on_replace [of task_id T t t'] by (auto simp: matched_def)
qed

lemma matched_assign:
  assumes "matched T A" "t \<in> T" "a \<in> A" "\<not> active_task t" "\<not> active_agent a"
    "task_id t' = task_id t" "agent_id a' = agent_id a" "holds_lease t' a'"
  shows "matched (insert t' (T - {t})) (insert a' (A - {a}))"
proof -
  have "\<exists>b \<in> A - {a}. holds_lease u b" if "u \<in> T" "active_task u" for u
    using that assms(1,5) unfolding matched_def by (metis Diff_iff holds_lease_active(2) singletonD)
  moreover have "\<exists>u \<in> T - {t}. holds_lease u b" if "b \<in> A" "active_agent b" for b
    using that assms(1,4) unfolding matched_def by (metis Diff_iff holds_lease_active(1) singletonD)
  ultimately show ?thesis
    using assms inj_on_replace [of task_id T t t'] inj_on_replace [of agent_id A a a']
    by (intro matchedI) (auto simp: matched_def)
qed

lemma matched_release:
  assumes "matched T A" "t \<in> T" "a \<in> A" "holds_lease t a"
    "task_id t' = task_id t" "agent_id a' = agent_id a" "\<not> active_task t'" "\<not> active_agent a'"
  shows "matched (insert t' (T - {t})) (insert a' (A - {a}))"
proof -
  have "\<exists>b \<in> A - {a}. holds_lease u b" if "u \<in> T" "u \<noteq> t" "active_task u" for u
  proof -
    from that assms(1) obtain b where b: "b \<in> A" "holds_lease u b" by (auto simp: matched_def)
    then have "b \<noteq> a" using holds_lease_unique [OF assms(1) that(1) assms(2) b(1) assms(3) b(2) assms(4)] that by blast
    with b show ?thesis by blast
  qed
  moreover have "\<exists>u \<in> T - {t}. holds_lease u b" if "b \<in> A" "b \<noteq> a" "active_agent b" for b
  proof -
    from that assms(1) obtain u where u: "u \<in> T" "holds_lease u b" by (auto simp: matched_def)
    then have "u \<noteq> t" using holds_lease_unique [OF assms(1) u(1) assms(2) that(1) assms(3) u(2) assms(4)] that by blast
    with u show ?thesis by blast
  qed
  ultimately show ?thesis
    using assms inj_on_replace [of task_id T t t'] inj_on_replace [of agent_id A a a']
    by (intro matchedI) (auto simp: matched_def)
qed

section \<open>Membership validation is the matching\<close>

lemma check_active_tasks_Inr:
  assumes "keyed agent_id agents" "distinct (map task_id ts)"
    "\<forall>i \<in> set seen. \<forall>a \<in> set (dict_values agents). agent_id a = i \<longrightarrow>
       (\<forall>t \<in> set ts. agent_current_task_id a \<noteq> Some (task_id t))"
  shows "check_active_tasks agents seen ts = Inr () \<longleftrightarrow>
    (\<forall>t \<in> set ts. active_task t \<longrightarrow> (\<exists>a \<in> set (dict_values agents). holds_lease t a))"
  using assms(2,3)
proof (induction ts arbitrary: seen)
  case (Cons t ts)
  show ?case
  proof (cases "active_task t")
    case False
    then show ?thesis using Cons by (auto simp: active_task_def)
  next
    case act: True
    show ?thesis
    proof (cases "\<exists>a \<in> set (dict_values agents). holds_lease t a")
      case True
      then obtain a l where a: "a \<in> set (dict_values agents)" "holds_lease t a" "task_lease t = Some l"
          "lease_agent_id l = agent_id a" by (auto simp: holds_lease_def)
      then have m: "map_of agents (lease_agent_id l) = Some a" using keyed_map_of [OF assms(1)] by simp
      have ns: "lease_agent_id l \<notin> set seen" using Cons.prems(2) a by (auto simp: holds_lease_def)
      have "\<forall>i \<in> set (lease_agent_id l # seen). \<forall>a \<in> set (dict_values agents). agent_id a = i \<longrightarrow>
          (\<forall>u \<in> set ts. agent_current_task_id a \<noteq> Some (task_id u))"
      proof -
        have "agent_current_task_id a' \<noteq> Some (task_id u)"
          if "a' \<in> set (dict_values agents)" "agent_id a' = lease_agent_id l" "u \<in> set ts" for a' u
        proof -
          have "a' = a" using that(1,2) a(1,4) inj_onD [OF keyed_inj_on [OF assms(1)]] by auto
          then show ?thesis using a(2) that(3) Cons.prems(1) by (auto simp: holds_lease_def)
        qed
        then show ?thesis using Cons.prems(2) by auto
      qed
      from Cons.IH [OF _ this] Cons.prems(1) show ?thesis
        using a m ns act by (auto simp: holds_lease_def active_task_def active_agent_def)
    next
      case False
      then show ?thesis
        using act keyed_map_of [OF assms(1)]
        by (auto simp: holds_lease_def active_task_def active_agent_def split: option.splits)
    qed
  qed
qed simp

lemma check_active_agents_Inr:
  assumes "keyed task_id tasks"
  shows "check_active_agents tasks as = Inr () \<longleftrightarrow>
    (\<forall>a \<in> set as. active_agent a \<longrightarrow> (\<exists>t \<in> set (dict_values tasks). holds_lease t a))"
proof (induction as)
  case (Cons a as)
  have "(\<exists>t \<in> set (dict_values tasks). holds_lease t a) \<longleftrightarrow> active_agent a \<and>
      (\<exists>i t l. agent_current_task_id a = Some i \<and> map_of tasks i = Some t \<and> active_task t
         \<and> task_lease t = Some l \<and> lease_agent_id l = agent_id a)"
    using keyed_map_of [OF assms] by (auto simp: holds_lease_def)
  then show ?case
    using Cons by (auto simp: active_agent_def active_task_def split: option.splits)
qed simp

lemma validate_membership_Inr:
  "validate_membership r ts as = Inr () \<longleftrightarrow>
     distinct (map task_id ts) \<and> distinct (map agent_id as)
     \<and> (\<forall>t \<in> set ts. task_run_id t = run_id r) \<and> (\<forall>a \<in> set as. agent_run_id a = run_id r)
     \<and> matched (set ts) (set as)"
proof (cases "distinct (map task_id ts) \<and> distinct (map agent_id as)")
  case True
  have "check_active_tasks (dict_of agent_id as) [] ts = Inr () \<longleftrightarrow>
      (\<forall>t \<in> set ts. active_task t \<longrightarrow> (\<exists>a \<in> set as. holds_lease t a))"
    using check_active_tasks_Inr [OF keyed_dict_of [of agent_id as], of ts "[]"] True by simp
  moreover have "check_active_agents (dict_of task_id ts) as = Inr () \<longleftrightarrow>
      (\<forall>a \<in> set as. active_agent a \<longrightarrow> (\<exists>t \<in> set ts. holds_lease t a))"
    using check_active_agents_Inr [OF keyed_dict_of [of task_id ts], of as] True by simp
  ultimately show ?thesis
    using True by (auto simp: validate_membership_def bind_r_Inr_iff keyed_index_unique matched_def
        distinct_map)
next
  case False
  then show ?thesis
    by (auto simp: validate_membership_def bind_r_Inr_iff keyed_index_unique)
qed

section \<open>Valid snapshots\<close>

text \<open>
  Attempts are bounded: a task that can still be dispatched has an attempt left, and an active
  task is within its policy.
\<close>

definition attempts_ok :: "task \<Rightarrow> bool" where
  "attempts_ok t \<longleftrightarrow>
     (task_state t \<in> {Task_QUEUED, Task_RETRY_WAIT, Task_BLOCKED} \<longrightarrow>
        task_attempt t < max_attempts (task_retry_policy t))
     \<and> (active_task t \<longrightarrow> task_attempt t \<le> max_attempts (task_retry_policy t))"

definition task_ok :: "run \<Rightarrow> task \<Rightarrow> bool" where
  "task_ok r t \<longleftrightarrow> task_post_init t = Inr () \<and> task_run_id t = run_id r \<and> attempts_ok t"

definition agent_ok :: "run \<Rightarrow> agent \<Rightarrow> bool" where
  "agent_ok r a \<longleftrightarrow> agent_post_init a = Inr () \<and> agent_run_id a = run_id r"

definition snapshot_ok :: "run \<Rightarrow> task set \<Rightarrow> agent set \<Rightarrow> bool" where
  "snapshot_ok r T A \<longleftrightarrow> matched T A \<and> (\<forall>t \<in> T. task_ok r t) \<and> (\<forall>a \<in> A. agent_ok r a)"

lemmas snapshot_simps = snapshot_ok_def task_ok_def agent_ok_def

section \<open>Failing an assignment\<close>

lemma fail_validated_shape:
  assumes "fail_validated t a code msg retryable b n m at = Inr res"
  obtains nx where
    "completion_task res = t\<lparr>task_state := (if retryable \<and> task_attempt t < max_attempts (task_retry_policy t)
         then Task_RETRY_WAIT else Task_FAILED),
       task_next_eligible_at := nx, task_lease := None,
       task_failure_code := Some code, task_failure_message := Some msg\<rparr>"
    "completion_agent res = a\<lparr>agent_state := Agent_AVAILABLE, agent_current_task_id := None,
       agent_last_heartbeat_at := Some (utc (instant at))\<rparr>"
    "task_post_init (completion_task res) = Inr ()" "agent_post_init (completion_agent res) = Inr ()"
    "settle b (task_estimated_tokens t) n 0 m 1 1 = Inr (completion_budget res)"
    "retryable \<and> task_attempt t < max_attempts (task_retry_policy t) \<longrightarrow>
       (\<exists>delay. delay_seconds (task_retry_policy t) (task_attempt t) = Inr delay
         \<and> nx = Some (utc (instant at + 1000000 * delay)))"
    "\<not> (retryable \<and> task_attempt t < max_attempts (task_retry_policy t)) \<longrightarrow> nx = None"
proof -
  let ?can = "retryable \<and> task_attempt t < max_attempts (task_retry_policy t)"
  let ?next = "if ?can then bind_r (delay_seconds (task_retry_policy t) (task_attempt t)) (\<lambda>delay.
                   bind_r (add_seconds (utc (instant at)) delay) (\<lambda>n. Inr (Some n)))
              else Inr None"
  let ?t = "\<lambda>nx. t\<lparr>task_state := (if ?can then Task_RETRY_WAIT else Task_FAILED),
       task_next_eligible_at := nx, task_lease := None,
       task_failure_code := Some code, task_failure_message := Some msg\<rparr>"
  let ?a = "a\<lparr>agent_state := Agent_AVAILABLE, agent_current_task_id := None,
       agent_last_heartbeat_at := Some (utc (instant at))\<rparr>"
  have c: "\<not> (code = [] \<or> msg = [])" using assms by (auto simp: fail_validated_def)
  obtain nx settled where n: "?next = Inr nx"
      and st: "settle b (task_estimated_tokens t) n 0 m 1 1 = Inr settled"
      and p: "task_post_init (?t nx) = Inr ()" "agent_post_init ?a = Inr ()"
      and r: "res = \<lparr>completion_task = ?t nx, completion_agent = ?a, completion_budget = settled\<rparr>"
    using assms unfolding fail_validated_def Let_def if_not_P [OF c] bind_r_Inr_iff snapshot_time_Inr
      validated_Inr_iff by blast
  have n1: "\<exists>delay. delay_seconds (task_retry_policy t) (task_attempt t) = Inr delay
         \<and> nx = Some (utc (instant at + 1000000 * delay))" if ?can
    using n that by (auto simp: bind_r_Inr_iff split: if_splits)
  have n2: "nx = None" if "\<not> ?can" using n that by (simp only: if_not_P) simp
  show thesis
    by (rule that [of nx]) (use n1 n2 in \<open>simp_all only: r completion_result.select_convs p st\<close>, blast+)
qed

lemma fail_validated_Inr:
  assumes "fail_validated t a code msg retryable b n m at = Inr res"
  shows "task_id (completion_task res) = task_id t" "agent_id (completion_agent res) = agent_id a"
    "\<not> active_task (completion_task res)" "\<not> active_agent (completion_agent res)"
    "task_post_init (completion_task res) = Inr ()" "agent_post_init (completion_agent res) = Inr ()"
    "task_run_id (completion_task res) = task_run_id t" "agent_run_id (completion_agent res) = agent_run_id a"
    "attempts_ok (completion_task res)"
    "task_attempt (completion_task res) = task_attempt t"
    "task_state (completion_task res) =
       (if retryable \<and> task_attempt t < max_attempts (task_retry_policy t) then Task_RETRY_WAIT else Task_FAILED)"
    "settle b (task_estimated_tokens t) n 0 m 1 1 = Inr (completion_budget res)"
proof -
  obtain nx where f: "completion_task res = t\<lparr>task_state :=
         (if retryable \<and> task_attempt t < max_attempts (task_retry_policy t)
          then Task_RETRY_WAIT else Task_FAILED),
       task_next_eligible_at := nx, task_lease := None,
       task_failure_code := Some code, task_failure_message := Some msg\<rparr>"
    "completion_agent res = a\<lparr>agent_state := Agent_AVAILABLE, agent_current_task_id := None,
       agent_last_heartbeat_at := Some (utc (instant at))\<rparr>"
    and p: "task_post_init (completion_task res) = Inr ()" "agent_post_init (completion_agent res) = Inr ()"
      "settle b (task_estimated_tokens t) n 0 m 1 1 = Inr (completion_budget res)"
    by (rule fail_validated_shape [OF assms])
  note d = active_task_def active_task_state_def active_agent_def active_agent_state_def attempts_ok_def
  show "task_id (completion_task res) = task_id t" "agent_id (completion_agent res) = agent_id a"
    "task_run_id (completion_task res) = task_run_id t" "agent_run_id (completion_agent res) = agent_run_id a"
    "task_attempt (completion_task res) = task_attempt t"
    "task_state (completion_task res) =
       (if retryable \<and> task_attempt t < max_attempts (task_retry_policy t) then Task_RETRY_WAIT else Task_FAILED)"
    by (simp_all add: f)
  show "\<not> active_task (completion_task res)" "\<not> active_agent (completion_agent res)"
    "attempts_ok (completion_task res)" by (simp_all add: f d)
  show "task_post_init (completion_task res) = Inr ()" "agent_post_init (completion_agent res) = Inr ()"
    "settle b (task_estimated_tokens t) n 0 m 1 1 = Inr (completion_budget res)" by fact+
qed

section \<open>The reaping loop\<close>

lemma matched_agent:
  assumes "matched T A" "t \<in> T" "active_task t" "task_lease t = Some l" "a \<in> A" "agent_id a = lease_agent_id l"
  shows "holds_lease t a"
proof -
  obtain b where b: "b \<in> A" "holds_lease t b" using assms(1-3) by (auto simp: matched_def)
  then have "agent_id b = agent_id a" using assms(4,6) by (auto simp: holds_lease_def)
  then have "b = a" using assms(1,5) b(1) by (auto simp: matched_def dest: inj_onD)
  with b show ?thesis by simp
qed

lemma snapshot_release:
  assumes "snapshot_ok r T A" "t \<in> T" "a \<in> A" "holds_lease t a"
    "fail_validated t a code msg retryable b n m at = Inr res"
  shows "snapshot_ok r (insert (completion_task res) (T - {t})) (insert (completion_agent res) (A - {a}))"
  using assms fail_validated_Inr [OF assms(5)] matched_release [of T A t a "completion_task res" "completion_agent res"]
  by (auto simp: snapshot_simps)

definition reap_inv :: "run \<Rightarrow> task list \<Rightarrow> reap_state \<Rightarrow> bool" where
  "reap_inv r ts st \<longleftrightarrow> (case st of (tm, am, b, ex) \<Rightarrow>
     keyed task_id tm \<and> keyed agent_id am \<and> snapshot_ok r (set (dict_values tm)) (set (dict_values am))
     \<and> set ts \<subseteq> set (dict_values tm) \<and> distinct (map task_id ts))"

lemma reap_inv_step:
  assumes "reap_inv r (t # ts) (tm, am, b, ex)" "active_task t" "task_lease t = Some l"
    "map_of am (lease_agent_id l) = Some a" "fail_validated t a code msg retryable b n m at = Inr res"
  shows "reap_inv r ts (AList.update (task_id t) (completion_task res) tm,
           AList.update (agent_id a) (completion_agent res) am, b', ex')"
    and "set (dict_values (AList.update (task_id t) (completion_task res) tm))
           = insert (completion_task res) (set (dict_values tm) - {t})"
    and "set (dict_values (AList.update (agent_id a) (completion_agent res) am))
           = insert (completion_agent res) (set (dict_values am) - {a})"
proof -
  have k: "keyed task_id tm" "keyed agent_id am" and t: "t \<in> set (dict_values tm)"
    and s: "snapshot_ok r (set (dict_values tm)) (set (dict_values am))"
    using assms(1) by (auto simp: reap_inv_def)
  have a: "a \<in> set (dict_values am)" "agent_id a = lease_agent_id l"
    using assms(4) keyed_map_of [OF k(2)] by auto
  note f = fail_validated_Inr [OF assms(5)]
  show v: "set (dict_values (AList.update (task_id t) (completion_task res) tm))
      = insert (completion_task res) (set (dict_values tm) - {t})"
    by (rule values_update [OF k(1) t f(1)])
  show w: "set (dict_values (AList.update (agent_id a) (completion_agent res) am))
      = insert (completion_agent res) (set (dict_values am) - {a})"
    by (rule values_update [OF k(2) a(1) f(2)])
  have "holds_lease t a"
    using matched_agent [OF _ t assms(2,3) a] s by (simp add: snapshot_ok_def)
  from snapshot_release [OF s t a(1) this assms(5)]
  have "snapshot_ok r (insert (completion_task res) (set (dict_values tm) - {t}))
      (insert (completion_agent res) (set (dict_values am) - {a}))" .
  moreover have "set ts \<subseteq> insert (completion_task res) (set (dict_values tm) - {t})" "distinct (map task_id ts)"
    using assms(1) by (auto simp: reap_inv_def)
  ultimately show "reap_inv r ts (AList.update (task_id t) (completion_task res) tm,
           AList.update (agent_id a) (completion_agent res) am, b', ex')"
    unfolding reap_inv_def using v w keyed_update [OF k(1) f(1)] keyed_update [OF k(2) f(2)] by simp
qed

text \<open>The agent held, through one of the tasks, a lease that has run out.\<close>

definition lease_ran_out :: "datetime \<Rightarrow> task set \<Rightarrow> string \<Rightarrow> bool" where
  "lease_ran_out at T i \<longleftrightarrow> (\<exists>t \<in> T. \<exists>l. active_task t \<and> task_lease t = Some l \<and> lease_agent_id l = i
     \<and> instant (lease_expires_at l) \<le> instant at)"

lemma reap_loop_inv:
  assumes "reap_loop h key at ts (tm, am, b, ex) = Inr (tm', am', b', ex')"
    "reap_inv r ts (tm, am, b, ex)"
  shows "reap_inv r [] (tm', am', b', ex')
    \<and> task_id ` set (dict_values tm') = task_id ` set (dict_values tm)
    \<and> agent_id ` set (dict_values am') = agent_id ` set (dict_values am)
    \<and> {t \<in> set (dict_values tm'). active_task t} \<subseteq> {t \<in> set (dict_values tm). active_task t}
    \<and> (\<forall>a \<in> set (dict_values am'). a \<in> set (dict_values am) \<or> lease_ran_out at (set ts) (agent_id a))"
  using assms
proof (induction ts arbitrary: tm am b ex)
  case Nil
  then show ?case by (simp add: reap_inv_def)
next
  case (Cons t ts)
  have rest: "reap_inv r ts (tm, am, b, ex)" using Cons.prems(2) by (auto simp: reap_inv_def)
  have mono: "lease_ran_out at (set ts) i \<Longrightarrow> lease_ran_out at (insert t (set ts)) i" for i
    by (auto simp: lease_ran_out_def)
  show ?case
  proof (cases "active_task t")
    case False
    then show ?thesis using Cons.IH [OF _ rest] Cons.prems(1) mono by (simp add: active_task_def) blast
  next
    case act: True
    then obtain l where l: "task_lease t = Some l"
      using Cons.prems(1) by (auto simp: active_task_def split: option.splits)
    then obtain a where a: "map_of am (lease_agent_id l) = Some a"
      using Cons.prems(1) act by (auto simp: active_task_def split: option.splits)
    obtain vl where vl: "validate_lease h key True t a (lease_token l) at = Inr vl"
      using Cons.prems(1) act l a by (auto simp: active_task_def bind_r_Inr_iff)
    show ?thesis
    proof (cases "instant at < instant (lease_expires_at vl)")
      case True
      then show ?thesis using Cons.IH [OF _ rest] Cons.prems(1) act l a vl mono
        by (simp add: active_task_def) blast
    next
      case False
      then obtain res where res: "fail_validated t a ''lease_expired''
          ''worker did not renew its lease before expiry'' True b 0 0 at = Inr res"
        and go: "reap_loop h key at ts (AList.update (task_id t) (completion_task res) tm,
              AList.update (agent_id a) (completion_agent res) am,
              completion_budget res, ex @ [task_id t]) = Inr (tm', am', b', ex')"
        using Cons.prems(1) act l a vl by (auto simp: active_task_def bind_r_Inr_iff)
      note st = reap_inv_step [OF Cons.prems(2) act l a res]
      have t: "t \<in> set (dict_values tm)" and am: "a \<in> set (dict_values am)"
        using Cons.prems(2) a keyed_map_of [of agent_id am] by (auto simp: reap_inv_def)
      note f = fail_validated_Inr [OF res]
      obtain l' where "task_lease t = Some l'" "vl = l'\<lparr>lease_acquired_at := utc (instant (lease_acquired_at l')),
            lease_expires_at := utc (instant (lease_expires_at l'))\<rparr>" "lease_agent_id l' = agent_id a"
        by (rule validate_lease_accepted [OF vl]) (auto simp: lease_accepted_def)
      then have "lease_ran_out at (insert t (set ts)) (agent_id (completion_agent res))"
        using False act f(2) by (auto simp: lease_ran_out_def)
      then have agents: "\<forall>a \<in> set (dict_values am'). a \<in> set (dict_values am)
          \<or> lease_ran_out at (insert t (set ts)) (agent_id a)"
        using Cons.IH [OF go st(1), THEN conjunct2, THEN conjunct2, THEN conjunct2, THEN conjunct2]
        unfolding st(3) by (auto intro: mono)
      note IH = Cons.IH [OF go st(1)]
      show ?thesis
      proof (intro conjI)
        show "reap_inv r [] (tm', am', b', ex')" using IH by (elim conjE)
        show "task_id ` set (dict_values tm') = task_id ` set (dict_values tm)"
          using IH [THEN conjunct2, THEN conjunct1] st(2) f(1) t by (auto simp: image_iff)
        show "agent_id ` set (dict_values am') = agent_id ` set (dict_values am)"
          using IH [THEN conjunct2, THEN conjunct2, THEN conjunct1] st(3) f(2) am by (auto simp: image_iff)
        show "{t \<in> set (dict_values tm'). active_task t} \<subseteq> {t \<in> set (dict_values tm). active_task t}"
          using IH [THEN conjunct2, THEN conjunct2, THEN conjunct2, THEN conjunct1] st(2) f(3) by auto
      qed (use agents in simp)
    qed
  qed
qed

end
