(* ===== verification/Scheduler_Dispatch.thy ===== *)
theory Scheduler_Dispatch
  imports Scheduler_Assignments
begin

text \<open>
  The blocking and dispatching loops of \<^verbatim>\<open>schedule\<close>, and what one call of it guarantees:
  the snapshot stays valid, the number of active tasks is bounded by the run's concurrency, and
  every dispatch goes to a qualified free agent for a task whose dependencies and earlier waves
  are done.
\<close>

section \<open>The blocking loop\<close>

definition block_inv :: "run \<Rightarrow> agent set \<Rightarrow> task list \<Rightarrow> (string \<times> task) list \<Rightarrow> bool" where
  "block_inv r A ts tm \<longleftrightarrow> keyed task_id tm \<and> snapshot_ok r (set (dict_values tm)) A
     \<and> set ts \<subseteq> set (dict_values tm) \<and> distinct (map task_id ts)"

lemma block_inv_update:
  assumes "block_inv r A (t # ts) tm" "task_state t \<in> {Task_QUEUED, Task_RETRY_WAIT, Task_BLOCKED}"
    "task_post_init t' = Inr ()"
    "t' = t\<lparr>task_state := s, task_failure_code := fc, task_failure_message := fm\<rparr>"
    "s \<in> {Task_QUEUED, Task_BLOCKED}"
  shows "block_inv r A ts (AList.update (task_id t) t' tm)"
    and "set (dict_values (AList.update (task_id t) t' tm)) = insert t' (set (dict_values tm) - {t})"
    and "\<not> active_task t" and "\<not> active_task t'"
proof -
  have k: "keyed task_id tm" and t: "t \<in> set (dict_values tm)"
    and sn: "snapshot_ok r (set (dict_values tm)) A"
    using assms(1) by (auto simp: block_inv_def)
  have i: "task_id t' = task_id t" using assms(4) by simp
  show na: "\<not> active_task t" using assms(2) by (auto simp: active_task_def active_task_state_def)
  show na': "\<not> active_task t'" using assms(4,5) by (auto simp: active_task_def active_task_state_def)
  show v: "set (dict_values (AList.update (task_id t) t' tm)) = insert t' (set (dict_values tm) - {t})"
    by (rule values_update [OF k t i])
  have "attempts_ok t'" "task_run_id t' = run_id r"
    using sn t assms(2,4,5) na' by (auto simp: snapshot_simps attempts_ok_def)
  then have "task_ok r t'" using assms(3) by (simp add: task_ok_def)
  then have "snapshot_ok r (insert t' (set (dict_values tm) - {t})) A"
    using sn matched_replace_idle_task [OF _ t na i na'] by (auto simp: snapshot_ok_def)
  moreover have "set ts \<subseteq> insert t' (set (dict_values tm) - {t})" "distinct (map task_id ts)"
    using assms(1) by (auto simp: block_inv_def)
  ultimately show "block_inv r A ts (AList.update (task_id t) t' tm)"
    unfolding block_inv_def v using keyed_update [OF k i] by simp
qed

lemma block_loop_inv:
  assumes "block_loop ts (tm, blocked) = Inr (tm', blocked')" "block_inv r A ts tm"
  shows "block_inv r A [] tm' \<and> task_id ` set (dict_values tm') = task_id ` set (dict_values tm)
    \<and> {t \<in> set (dict_values tm'). active_task t} = {t \<in> set (dict_values tm). active_task t}"
  using assms
proof (induction ts arbitrary: tm blocked)
  case Nil
  then show ?case by (simp add: block_inv_def)
next
  case (Cons t ts)
  have rest: "block_inv r A ts tm" using Cons.prems(2) by (auto simp: block_inv_def)
  have t: "t \<in> set (dict_values tm)" using Cons.prems(2) by (auto simp: block_inv_def)
  have upd: ?case if st: "task_state t \<in> {Task_QUEUED, Task_RETRY_WAIT, Task_BLOCKED}"
      and p: "task_post_init t' = Inr ()" and s: "s \<in> {Task_QUEUED, Task_BLOCKED}"
      and t': "t' = t\<lparr>task_state := s, task_failure_code := fc, task_failure_message := fm\<rparr>"
      and go: "block_loop ts (AList.update (task_id t) t' tm, blocked1) = Inr (tm', blocked')"
    for t' s fc fm blocked1
  proof -
    note b = block_inv_update [OF Cons.prems(2) st p t' s]
    have "task_id t' = task_id t" using t' by simp
    then show ?thesis using Cons.IH [OF go b(1)] b(2-4) t by (auto simp: image_iff)
  qed
  show ?case
  proof (cases "task_state t \<in> {Task_QUEUED, Task_RETRY_WAIT, Task_BLOCKED}")
    case False
    then have "block_loop ts (tm, blocked) = Inr (tm', blocked')" using Cons.prems(1) by simp
    then show ?thesis using Cons.IH rest by blast
  next
    case True
    then obtain ds where ds: "map_r (\<lambda>d. case map_of tm d of None \<Rightarrow> Inl KeyError
        | Some u \<Rightarrow> Inr (task_state u)) (task_dependencies t) = Inr ds"
      using Cons.prems(1) by (auto simp: bind_r_Inr_iff simp del: insert_iff)
    show ?thesis
    proof (cases "\<exists>s \<in> set ds. s \<in> {Task_FAILED, Task_CANCELLED}")
      case bad: True
      show ?thesis
        by (rule upd [OF True]) (use Cons.prems(1) True bad ds in
          \<open>auto simp: bind_r_Inr_iff simp del: insert_iff\<close>)
    next
      case ok: False
      show ?thesis
      proof (cases "task_state t = Task_BLOCKED")
        case blocked: True
        show ?thesis
          by (rule upd [OF True]) (use Cons.prems(1) True ok ds blocked in
            \<open>auto simp: bind_r_Inr_iff\<close>)
      next
        case False
        then have "block_loop ts (tm, blocked) = Inr (tm', blocked')" using Cons.prems(1) True ok ds by auto
        then show ?thesis using Cons.IH rest by blast
      qed
    qed
  qed
qed

section \<open>Choosing an agent\<close>

lemma best_agent_Some:
  assumes "best_agent t agents ex = Some a"
  shows "a \<in> set agents" "agent_compatible t ex a"
    "\<forall>b \<in> set agents. agent_compatible t ex b \<longrightarrow> agent_rank t a \<le> agent_rank t b"
proof -
  let ?c = "filter (agent_compatible t ex) agents"
  have c: "?c \<noteq> []" and a: "a = arg_min_list (agent_rank t) ?c"
    using assms by (auto simp: best_agent_def Let_def split: if_splits)
  have "a \<in> set ?c" unfolding a using c by (rule arg_min_list_in)
  then show "a \<in> set agents" "agent_compatible t ex a" by auto
  have "agent_rank t a = Min (agent_rank t ` set ?c)" unfolding a by (rule f_arg_min_list_f [OF c])
  then show "\<forall>b \<in> set agents. agent_compatible t ex b \<longrightarrow> agent_rank t a \<le> agent_rank t b" by simp
qed

lemma best_agent_None: "best_agent t agents ex = None \<longleftrightarrow> (\<forall>a \<in> set agents. \<not> agent_compatible t ex a)"
  by (auto simp: best_agent_def Let_def filter_empty_conv)

lemma reviewed_completers_Some:
  assumes "reviewed_completers tm ids = Inr (Some cs)"
  shows "\<forall>i \<in> set ids. \<exists>u c. map_of tm i = Some u \<and> task_completed_by_agent_id u = Some c \<and> c \<in> set cs"
  using assms
proof (induction ids arbitrary: cs)
  case (Cons i ids)
  then show ?case by (fastforce simp: bind_r_Inr_iff split: option.splits)
qed simp

section \<open>The dispatching loop\<close>

abbreviation task_values :: "dispatch_state \<Rightarrow> task set" where
  "task_values st \<equiv> set (dict_values (ds_tasks st))"

abbreviation agent_values :: "dispatch_state \<Rightarrow> agent set" where
  "agent_values st \<equiv> set (dict_values (ds_agents st))"

text \<open>
  An induction principle for the loop: an invariant of the remaining candidates and the state that
  survives skipping a candidate, deferring it for lack of budget, and leasing it.
\<close>

lemma dispatch_loop_rule:
  assumes "dispatch_loop h key r at secs slots ts st = Inr st'" "I ts st"
    and skipped: "\<And>t ts st. I (t # ts) st \<Longrightarrow> I ts st"
    and postpone: "\<And>t ts st. I (t # ts) st \<Longrightarrow> I ts (st\<lparr>ds_deferred := ds_deferred st @ [task_id t]\<rparr>)"
    and leased: "\<And>t ts st st' a cs reserved. I (t # ts) st \<Longrightarrow> length (ds_dispatches st) < slots \<Longrightarrow>
      reviewed_completers (ds_tasks st) (task_reviewed_task_ids t) = Inr (Some cs) \<Longrightarrow>
      best_agent t (ds_available st) (set cs) = Some a \<Longrightarrow>
      reserve (ds_budget st) (task_estimated_tokens t) 0 1 = Inr reserved \<Longrightarrow>
      lease_to h key r at secs t a reserved st = Inr st' \<Longrightarrow> I ts st'"
  shows "\<exists>rest. I rest st'"
  using assms(1,2)
proof (induction ts arbitrary: st)
  case Nil
  then show ?case by auto
next
  case (Cons t ts)
  note go = Cons.prems(1) [simplified]
  show ?case
  proof (cases "slots \<le> length (ds_dispatches st)")
    case True
    then show ?thesis using go Cons.prems(2) by auto
  next
    case slot: False
    have skip: ?thesis if "dispatch_loop h key r at secs slots ts st = Inr st'"
      using Cons.IH [OF that] skipped [OF Cons.prems(2)] by blast
    show ?thesis
    proof (cases "task_reviewed_task_ids t \<noteq> [] \<and>
        binding_task_id ` set (task_reviewed_result_bindings t) \<noteq> set (task_reviewed_task_ids t)")
      case True
      then show ?thesis using go slot skip by simp
    next
      case False
      then obtain cs where cs: "reviewed_completers (ds_tasks st) (task_reviewed_task_ids t) = Inr cs"
        using go slot by (cases "reviewed_completers (ds_tasks st) (task_reviewed_task_ids t)") auto
      show ?thesis
      proof (cases "case cs of None \<Rightarrow> None | Some cs \<Rightarrow> best_agent t (ds_available st) (set cs)")
        case None
        then have "dispatch_loop h key r at secs slots ts st = Inr st'"
          using go slot False cs by (cases cs) auto
        then show ?thesis by (rule skip)
      next
        case (Some a)
        then obtain cs' where b: "cs = Some cs'" "best_agent t (ds_available st) (set cs') = Some a"
          by (cases cs) auto
        show ?thesis
        proof (cases "reserve (ds_budget st) (task_estimated_tokens t) 0 1")
          case (Inl e)
          then have "dispatch_loop h key r at secs slots ts (st\<lparr>ds_deferred := ds_deferred st @ [task_id t]\<rparr>) = Inr st'"
            using go slot False cs b by (cases e) auto
          then show ?thesis using Cons.IH postpone [OF Cons.prems(2)] by blast
        next
          case (Inr reserved)
          then obtain st1 where st1: "lease_to h key r at secs t a reserved st = Inr st1"
              "dispatch_loop h key r at secs slots ts st1 = Inr st'"
            using go slot False cs b by (auto simp: bind_r_Inr_iff)
          have "I ts st1"
            using leased [OF Cons.prems(2) _ _ b(2) Inr st1(1)] slot cs b(1) by simp
          then show ?thesis using Cons.IH [OF st1(2)] by blast
        qed
      qed
    qed
  qed
qed

text \<open>The task and the agent of a new assignment.\<close>

definition lease_task :: "task \<Rightarrow> lease \<Rightarrow> task" where
  "lease_task t l = t\<lparr>task_state := Task_LEASED, task_attempt := task_attempt t + 1,
     task_next_eligible_at := None, task_lease := Some l, task_failure_code := None,
     task_failure_message := None\<rparr>"

definition lease_agent :: "agent \<Rightarrow> task \<Rightarrow> datetime \<Rightarrow> agent" where
  "lease_agent a t at = a\<lparr>agent_state := Agent_LEASED, agent_current_task_id := Some (task_id t),
     agent_last_heartbeat_at := Some at\<rparr>"

lemma lease_task_fields [simp]:
  "task_id (lease_task t l) = task_id t" "task_run_id (lease_task t l) = task_run_id t"
  "task_state (lease_task t l) = Task_LEASED" "task_lease (lease_task t l) = Some l"
  "task_wave (lease_task t l) = task_wave t" "task_dependencies (lease_task t l) = task_dependencies t"
  "task_attempt (lease_task t l) = task_attempt t + 1"
  "task_retry_policy (lease_task t l) = task_retry_policy t"
  "task_reviewed_task_ids (lease_task t l) = task_reviewed_task_ids t"
  "agent_compatible (lease_task t l) ex a = agent_compatible t ex a"
  by (simp_all add: lease_task_def agent_compatible_def)

lemma lease_agent_fields [simp]:
  "agent_id (lease_agent a t at) = agent_id a" "agent_run_id (lease_agent a t at) = agent_run_id a"
  "agent_state (lease_agent a t at) = Agent_LEASED"
  "agent_current_task_id (lease_agent a t at) = Some (task_id t)"
  "agent_compatible t ex (lease_agent a t at) = agent_compatible t ex a"
  by (simp_all add: lease_agent_def agent_compatible_def)

definition dispatch_inv :: "run \<Rightarrow> task list \<Rightarrow> dispatch_state \<Rightarrow> bool" where
  "dispatch_inv r ts st \<longleftrightarrow>
     keyed task_id (ds_tasks st) \<and> keyed agent_id (ds_agents st)
     \<and> snapshot_ok r (task_values st) (agent_values st)
     \<and> set ts \<subseteq> task_values st \<and> distinct (map task_id ts)
     \<and> (\<forall>t \<in> set ts. task_state t \<in> {Task_QUEUED, Task_RETRY_WAIT})
     \<and> set (ds_available st) \<subseteq> agent_values st \<and> distinct (ds_available st)
     \<and> (\<forall>a \<in> set (ds_available st). \<not> active_agent a)"

lemma lease_to_Inr:
  assumes "lease_to h key r at secs t a reserved st = Inr st'"
  obtains l where "st' = st\<lparr>ds_tasks := AList.update (task_id t) (lease_task t l) (ds_tasks st),
      ds_agents := AList.update (agent_id a) (lease_agent a t at) (ds_agents st),
      ds_budget := reserved, ds_available := remove1 a (ds_available st),
      ds_dispatches := ds_dispatches st @ [\<lparr>dispatch_task_id = task_id t, dispatch_agent_id = agent_id a,
        dispatch_lease = l, dispatch_reserved_tokens = task_estimated_tokens t\<rparr>]\<rparr>"
    "lease_agent_id l = agent_id a" "lease_post_init l = Inr ()"
    "task_post_init (lease_task t l) = Inr ()" "agent_post_init (lease_agent a t at) = Inr ()"
    "\<exists>ex. add_seconds at secs = Inr ex \<and> l = new_lease h key r t a at ex"
proof -
  obtain ex where ex: "add_seconds at secs = Inr ex" and v: "lease_post_init (new_lease h key r t a at ex) = Inr ()"
    using assms by (auto simp: lease_to_def bind_r_Inr_iff)
  show thesis
    by (rule that [of "new_lease h key r t a at ex"])
      (use assms v ex in \<open>auto simp: lease_to_def bind_r_Inr_iff lease_task_def lease_agent_def new_lease_def\<close>)
qed

lemma lease_to_values:
  assumes "dispatch_inv r (t # ts) st" "a \<in> set (ds_available st)"
    "lease_to h key r at secs t a reserved st = Inr st'"
  obtains l where "task_values st' = insert (lease_task t l) (task_values st - {t})"
    "agent_values st' = insert (lease_agent a t at) (agent_values st - {a})"
    "ds_dispatches st' = ds_dispatches st @ [\<lparr>dispatch_task_id = task_id t, dispatch_agent_id = agent_id a,
        dispatch_lease = l, dispatch_reserved_tokens = task_estimated_tokens t\<rparr>]"
    "dispatch_inv r ts st'" "\<not> active_task t" "active_task (lease_task t l)" "t \<in> task_values st"
    "a \<in> agent_values st" "\<not> active_agent a" "ds_available st' = remove1 a (ds_available st)"
proof -
  obtain l where l: "st' = st\<lparr>ds_tasks := AList.update (task_id t) (lease_task t l) (ds_tasks st),
      ds_agents := AList.update (agent_id a) (lease_agent a t at) (ds_agents st),
      ds_budget := reserved, ds_available := remove1 a (ds_available st),
      ds_dispatches := ds_dispatches st @ [\<lparr>dispatch_task_id = task_id t, dispatch_agent_id = agent_id a,
        dispatch_lease = l, dispatch_reserved_tokens = task_estimated_tokens t\<rparr>]\<rparr>"
    "lease_agent_id l = agent_id a" "task_post_init (lease_task t l) = Inr ()"
    "agent_post_init (lease_agent a t at) = Inr ()"
    by (rule lease_to_Inr [OF assms(3)])
  note inv = assms(1) [unfolded dispatch_inv_def]
  have t: "t \<in> task_values st" and q: "task_state t \<in> {Task_QUEUED, Task_RETRY_WAIT}" and a: "a \<in> agent_values st"
    and na: "\<not> active_agent a" using inv assms(2) by auto
  have nt: "\<not> active_task t" using q by (auto simp: active_task_def active_task_state_def)
  have act: "active_task (lease_task t l)" by (simp add: active_task_def active_task_state_def)
  have tv: "task_values st' = insert (lease_task t l) (task_values st - {t})"
    unfolding l(1) by (simp add: values_update [OF _ t] inv)
  have av: "agent_values st' = insert (lease_agent a t at) (agent_values st - {a})"
    unfolding l(1) by (simp add: values_update [OF _ a] inv)
  have hl: "holds_lease (lease_task t l) (lease_agent a t at)"
    using l(2) act by (simp add: holds_lease_def active_agent_def active_agent_state_def)
  have "attempts_ok (lease_task t l)" "task_run_id t = run_id r" "agent_run_id a = run_id r"
    using inv t q a act by (auto simp: snapshot_simps attempts_ok_def)
  then have sn: "snapshot_ok r (task_values st') (agent_values st')"
    unfolding tv av using inv matched_assign [OF _ t a nt na _ _ hl] l(3,4) by (auto simp: snapshot_simps)
  have nc: "t \<notin> set ts" using inv by auto
  have "dispatch_inv r ts st'"
    unfolding dispatch_inv_def
  proof (intro conjI)
    show "keyed task_id (ds_tasks st')" "keyed agent_id (ds_agents st')"
      using inv by (auto simp: l(1) intro: keyed_update)
    show "set ts \<subseteq> task_values st'" using inv nc unfolding tv by auto
    show "set (ds_available st') \<subseteq> agent_values st'"
      using inv unfolding av by (auto simp: l(1))
  qed (use inv sn in \<open>auto simp: l(1)\<close>)
  from that [OF tv av _ this nt act t a na] show thesis by (simp add: l(1))
qed

text \<open>What a dispatch of the loop stands for, in the state it leads to.\<close>

definition dispatch_good :: "task list \<Rightarrow> agent set \<Rightarrow> dispatch_state \<Rightarrow> dispatch \<Rightarrow> bool" where
  "dispatch_good C A st d \<longleftrightarrow> (\<exists>t l a at cs. t \<in> set C \<and> a \<in> A \<and> lease_task t l \<in> task_values st
     \<and> lease_agent a t at \<in> agent_values st \<and> agent_compatible t (set cs) a
     \<and> (\<forall>i \<in> set (task_reviewed_task_ids t). \<exists>u \<in> task_values st. task_id u = i
          \<and> (\<exists>c \<in> set cs. task_completed_by_agent_id u = Some c))
     \<and> d = \<lparr>dispatch_task_id = task_id t, dispatch_agent_id = agent_id a, dispatch_lease = l,
            dispatch_reserved_tokens = task_estimated_tokens t\<rparr>)"

definition settled_task :: "task \<Rightarrow> bool" where
  "settled_task t \<longleftrightarrow> task_state t \<notin> {Task_QUEUED, Task_RETRY_WAIT}"

definition progress_inv :: "run \<Rightarrow> nat \<Rightarrow> task list \<Rightarrow> dispatch_state \<Rightarrow> task list \<Rightarrow> dispatch_state \<Rightarrow> bool" where
  "progress_inv r slots C st0 ts st \<longleftrightarrow> dispatch_inv r ts st \<and> set ts \<subseteq> set C
     \<and> card {t \<in> task_values st. active_task t} =
         card {t \<in> task_values st0. active_task t} + length (ds_dispatches st)
     \<and> length (ds_dispatches st) \<le> slots
     \<and> task_id ` task_values st = task_id ` task_values st0
     \<and> agent_id ` agent_values st = agent_id ` agent_values st0
     \<and> (\<forall>u \<in> task_values st0. settled_task u \<longrightarrow> u \<in> task_values st)
     \<and> (\<forall>u \<in> task_values st. u \<in> task_values st0 \<or> (\<exists>t \<in> set C. \<exists>l. u = lease_task t l))
     \<and> set (ds_available st) \<subseteq> set (ds_available st0)
     \<and> distinct (map dispatch_agent_id (ds_dispatches st))
     \<and> distinct (map dispatch_task_id (ds_dispatches st))
     \<and> (\<forall>d \<in> set (ds_dispatches st). dispatch_good C (set (ds_available st0)) st d)"

lemma completed_settled: "task_post_init t = Inr () \<Longrightarrow> task_completed_by_agent_id t = Some c \<Longrightarrow> settled_task t"
  by (auto simp: task_post_init_def settled_task_def split: if_splits)

lemma dispatch_good_mono:
  assumes "dispatch_good C A st d" "\<And>u. u \<in> task_values st \<Longrightarrow> settled_task u \<Longrightarrow> u \<in> task_values st'"
    "\<And>a. a \<in> agent_values st \<Longrightarrow> active_agent a \<Longrightarrow> a \<in> agent_values st'"
    "\<And>u. u \<in> task_values st \<Longrightarrow> task_post_init u = Inr ()"
  shows "dispatch_good C A st' d"
proof -
  obtain t l a at cs where t: "t \<in> set C" "lease_task t l \<in> task_values st"
     "lease_agent a t at \<in> agent_values st" "agent_compatible t (set cs) a"
     "\<forall>i \<in> set (task_reviewed_task_ids t). \<exists>u \<in> task_values st. task_id u = i
          \<and> (\<exists>c \<in> set cs. task_completed_by_agent_id u = Some c)"
     "d = \<lparr>dispatch_task_id = task_id t, dispatch_agent_id = agent_id a, dispatch_lease = l,
            dispatch_reserved_tokens = task_estimated_tokens t\<rparr>" "a \<in> A"
    using assms(1) unfolding dispatch_good_def by blast
  have "lease_task t l \<in> task_values st'" using t(2) assms(2) by (simp add: settled_task_def)
  moreover have "lease_agent a t at \<in> agent_values st'"
    using t(3) assms(3) by (simp add: active_agent_def active_agent_state_def)
  moreover have "\<forall>i \<in> set (task_reviewed_task_ids t). \<exists>u \<in> task_values st'. task_id u = i
          \<and> (\<exists>c \<in> set cs. task_completed_by_agent_id u = Some c)"
    using t(5) assms(2,4) completed_settled by metis
  ultimately show ?thesis unfolding dispatch_good_def using t(1,4,6,7) by blast
qed

text \<open>An agent and a task that are still free belong to no dispatch made so far.\<close>

lemma dispatch_good_ids:
  assumes "dispatch_good C A st d" "dispatch_inv r ts st" "a \<in> agent_values st" "\<not> active_agent a"
    "t \<in> task_values st" "\<not> active_task t"
  shows "agent_id a \<noteq> dispatch_agent_id d" "task_id t \<noteq> dispatch_task_id d"
proof -
  obtain t' l a' at where d: "lease_task t' l \<in> task_values st" "lease_agent a' t' at \<in> agent_values st"
      "dispatch_task_id d = task_id t'" "dispatch_agent_id d = agent_id a'"
    using assms(1) by (auto simp: dispatch_good_def)
  have inj: "inj_on task_id (task_values st)" "inj_on agent_id (agent_values st)"
    using assms(2) by (simp_all add: dispatch_inv_def keyed_inj_on)
  have act: "active_task (lease_task t' l)" "active_agent (lease_agent a' t' at)"
    by (simp_all add: active_task_def active_task_state_def active_agent_def active_agent_state_def)
  show "agent_id a \<noteq> dispatch_agent_id d"
    using inj_onD [OF inj(2) _ assms(3) d(2)] d(4) act(2) assms(4) by auto
  show "task_id t \<noteq> dispatch_task_id d"
    using inj_onD [OF inj(1) _ assms(5) d(1)] d(3) act(1) assms(6) by auto
qed

lemma progress_inv_lease:
  assumes inv: "progress_inv r slots C st0 (t # ts) st" and slot: "length (ds_dispatches st) < slots"
    and rc: "reviewed_completers (ds_tasks st) (task_reviewed_task_ids t) = Inr (Some cs)"
    and best: "best_agent t (ds_available st) (set cs) = Some a"
    and lease: "lease_to h key r at secs t a reserved st = Inr st'"
  shows "progress_inv r slots C st0 ts st'"
proof -
  note P = inv [unfolded progress_inv_def]
  have D: "dispatch_inv r (t # ts) st" using P by (elim conjE)
  let ?A = "set (ds_available st0)"
  have kept: "\<forall>u \<in> task_values st0. settled_task u \<longrightarrow> u \<in> task_values st" using P by (elim conjE)
  obtain l where v: "task_values st' = insert (lease_task t l) (task_values st - {t})"
    "agent_values st' = insert (lease_agent a t at) (agent_values st - {a})"
    "ds_dispatches st' = ds_dispatches st @ [\<lparr>dispatch_task_id = task_id t, dispatch_agent_id = agent_id a,
        dispatch_lease = l, dispatch_reserved_tokens = task_estimated_tokens t\<rparr>]"
    "dispatch_inv r ts st'" "\<not> active_task t" "active_task (lease_task t l)" "t \<in> task_values st"
    "a \<in> agent_values st" "\<not> active_agent a" "ds_available st' = remove1 a (ds_available st)"
    by (rule lease_to_values [OF D best_agent_Some(1) [OF best] lease])
  have q: "\<not> settled_task t" using D by (auto simp: dispatch_inv_def settled_task_def)
  have keep: "u \<in> task_values st'" if "u \<in> task_values st" "settled_task u" for u
    using that v(1) q by auto
  have new: "lease_task t l \<notin> task_values st"
  proof
    assume "lease_task t l \<in> task_values st"
    moreover have "inj_on task_id (task_values st)" using D by (simp add: dispatch_inv_def keyed_inj_on)
    ultimately have "lease_task t l = t" using v(7) inj_onD lease_task_fields(1) by metis
    then show False using v(5,6) by simp
  qed
  have "{u \<in> task_values st'. active_task u} = insert (lease_task t l) {u \<in> task_values st. active_task u}"
    using v(1,5,6) by auto
  then have card: "card {u \<in> task_values st'. active_task u} = Suc (card {u \<in> task_values st. active_task u})"
    using new by simp
  have post: "\<And>u. u \<in> task_values st \<Longrightarrow> task_post_init u = Inr ()"
    using D by (auto simp: dispatch_inv_def snapshot_simps)
  have good_old: "dispatch_good C ?A st d" if "d \<in> set (ds_dispatches st)" for d
    using P that by blast
  have old: "dispatch_good C ?A st' d" if "d \<in> set (ds_dispatches st)" for d
    using dispatch_good_mono [of C ?A st d st'] good_old [OF that] keep post v(2,9) by auto
  have fresh: "agent_id a \<noteq> dispatch_agent_id d" "task_id t \<noteq> dispatch_task_id d"
    if "d \<in> set (ds_dispatches st)" for d
    using dispatch_good_ids [OF good_old [OF that] D v(8,9,7,5)] by simp_all
  have "\<forall>i \<in> set (task_reviewed_task_ids t). \<exists>u \<in> task_values st'. task_id u = i
          \<and> (\<exists>c \<in> set cs. task_completed_by_agent_id u = Some c)"
    using reviewed_completers_Some [OF rc] keyed_map_of [of task_id "ds_tasks st"] D keep post
      completed_settled unfolding dispatch_inv_def by metis
  then have "dispatch_good C ?A st' \<lparr>dispatch_task_id = task_id t, dispatch_agent_id = agent_id a,
        dispatch_lease = l, dispatch_reserved_tokens = task_estimated_tokens t\<rparr>"
    unfolding dispatch_good_def using best_agent_Some [OF best] v(1,2) P
    by (intro exI [of _ t] exI [of _ l] exI [of _ a] exI [of _ at] exI [of _ cs]) auto
  then have good: "\<forall>d \<in> set (ds_dispatches st'). dispatch_good C ?A st' d" using old v(3) by auto
  have ids: "task_id ` task_values st' = task_id ` task_values st"
      "agent_id ` agent_values st' = agent_id ` agent_values st"
    using v(1,2,7,8) by (auto simp: image_iff)
  show ?thesis
    unfolding progress_inv_def
  proof (intro conjI)
    show "\<forall>u \<in> task_values st0. settled_task u \<longrightarrow> u \<in> task_values st'"
      using kept keep by blast
    show "\<forall>u \<in> task_values st'. u \<in> task_values st0 \<or> (\<exists>t \<in> set C. \<exists>l. u = lease_task t l)"
      using P v(1) by auto
    show "set (ds_available st') \<subseteq> ?A" using P v(10) by (auto dest: notin_set_remove1)
    show "distinct (map dispatch_agent_id (ds_dispatches st'))" "distinct (map dispatch_task_id (ds_dispatches st'))"
      using P v(3) fresh by auto
  qed (use P v(3,4) card slot good ids in auto)
qed

lemma dispatch_loop_progress:
  assumes "dispatch_loop h key r at secs slots C st0 = Inr st" "dispatch_inv r C st0" "ds_dispatches st0 = []"
  shows "\<exists>rest. progress_inv r slots C st0 rest st"
  using assms(1)
proof (rule dispatch_loop_rule)
  show "progress_inv r slots C st0 C st0" using assms(2,3) by (simp add: progress_inv_def)
  show "progress_inv r slots C st0 ts s" if "progress_inv r slots C st0 (t # ts) s" for t ts s
    using that by (auto simp: progress_inv_def dispatch_inv_def)
  show "progress_inv r slots C st0 ts (s\<lparr>ds_deferred := ds_deferred s @ [task_id t]\<rparr>)"
    if "progress_inv r slots C st0 (t # ts) s" for t ts s
    using that by (auto simp: progress_inv_def dispatch_inv_def dispatch_good_def)
qed (rule progress_inv_lease)

section \<open>A call of the scheduler\<close>

text \<open>The snapshots a run goes through: valid records, matched by leases, with bounded attempts.\<close>

definition valid_snapshot :: "run \<Rightarrow> task list \<Rightarrow> agent list \<Rightarrow> bool" where
  "valid_snapshot r tasks agents \<longleftrightarrow> validate_membership r tasks agents = Inr ()
     \<and> (\<forall>t \<in> set tasks. task_post_init t = Inr () \<and> attempts_ok t)
     \<and> (\<forall>a \<in> set agents. agent_post_init a = Inr ())"

lemma valid_snapshot_iff:
  "valid_snapshot r tasks agents \<longleftrightarrow> distinct (map task_id tasks) \<and> distinct (map agent_id agents)
     \<and> snapshot_ok r (set tasks) (set agents)"
  by (auto simp: valid_snapshot_def validate_membership_Inr snapshot_simps)

lemma count_active_card:
  "distinct (map task_id ts) \<Longrightarrow> count_active ts = card {t \<in> set ts. active_task t}"
  using distinct_card [of "filter active_task ts"]
  by (simp add: count_active_def active_task_def [abs_def] distinct_map)

lemma is_eligible_True:
  assumes "is_eligible tm at t = Inr True"
  shows "task_state t \<in> {Task_QUEUED, Task_RETRY_WAIT}"
    "\<forall>d \<in> set (task_dependencies t). \<exists>u. map_of tm d = Some u \<and> task_state u = Task_SUCCEEDED"
    "\<forall>u \<in> set (dict_values tm). task_wave u < task_wave t \<longrightarrow> task_state u \<in> {Task_SUCCEEDED, Task_CANCELLED}"
proof -
  show q: "task_state t \<in> {Task_QUEUED, Task_RETRY_WAIT}"
    using assms by (auto simp: is_eligible_def split: if_splits)
  have "any_r (\<lambda>d. case map_of tm d of None \<Rightarrow> Inl KeyError
      | Some u \<Rightarrow> Inr (task_state u \<noteq> Task_SUCCEEDED)) (task_dependencies t) = Inr False"
    using assms by (auto simp: is_eligible_def bind_r_Inr_iff split: if_splits)
  then show "\<forall>d \<in> set (task_dependencies t). \<exists>u. map_of tm d = Some u \<and> task_state u = Task_SUCCEEDED"
    by (auto simp: any_r_False split: option.splits)
  show "\<forall>u \<in> set (dict_values tm). task_wave u < task_wave t \<longrightarrow> task_state u \<in> {Task_SUCCEEDED, Task_CANCELLED}"
    using assms by (auto simp: is_eligible_def bind_r_Inr_iff split: if_splits)
qed

lemma wave_candidates_Inr:
  assumes "wave_candidates tm at = Inr C" "keyed task_id tm"
  shows "set C \<subseteq> set (dict_values tm)" "distinct (map task_id C)"
    "\<forall>t \<in> set C. is_eligible tm at t = Inr True" "\<forall>t \<in> set C. \<forall>u \<in> set C. task_wave t = task_wave u"
    "(\<exists>t \<in> set (dict_values tm). is_eligible tm at t = Inr True) \<Longrightarrow> C \<noteq> []"
proof -
  let ?E = "filter (\<lambda>t. is_eligible tm at t = Inr True) (dict_values tm)"
  let ?W = "filter (\<lambda>t. task_wave t = Min (task_wave ` set ?E)) ?E"
  have C: "C = sort_key task_order (if ?E = [] then [] else ?W)"
    using assms(1) by (auto simp: wave_candidates_def bind_r_Inr_iff dest!: filter_r_Inr)
  have sC: "set C = (if ?E = [] then {} else set ?W)" by (simp add: C)
  have "distinct (map task_id (if ?E = [] then [] else ?W))"
    using keyed_distinct [OF assms(2)] by (auto simp: distinct_map_filter)
  moreover have "mset (map task_id C) = mset (map task_id (if ?E = [] then [] else ?W))" by (simp add: C)
  ultimately show "distinct (map task_id C)" using mset_eq_imp_distinct_iff by blast
  show "set C \<subseteq> set (dict_values tm)" "\<forall>t \<in> set C. is_eligible tm at t = Inr True"
    "\<forall>t \<in> set C. \<forall>u \<in> set C. task_wave t = task_wave u"
    unfolding sC by (auto split: if_splits)
  show "C \<noteq> []" if "\<exists>t \<in> set (dict_values tm). is_eligible tm at t = Inr True"
  proof -
    have ne: "?E \<noteq> []" using that by (auto simp: filter_empty_conv)
    then have "set ?E \<noteq> {}" by (simp only: set_empty not_False_eq_True)
    then have "Min (task_wave ` set ?E) \<in> task_wave ` set ?E" by (intro Min_in) blast+
    then have "set ?W \<noteq> {}" by auto
    then show ?thesis using sC ne by auto
  qed
qed

lemma reap_expired_leases_ok:
  assumes "reap_expired_leases h key tasks agents b at = Inr reaped" "snapshot_ok r (set tasks) (set agents)"
  shows "snapshot_ok r (set (reap_tasks reaped)) (set (reap_agents reaped))"
    "distinct (map task_id (reap_tasks reaped))" "distinct (map agent_id (reap_agents reaped))"
    "task_id ` set (reap_tasks reaped) = task_id ` set tasks"
    "agent_id ` set (reap_agents reaped) = agent_id ` set agents"
    "{t \<in> set (reap_tasks reaped). active_task t} \<subseteq> {t \<in> set tasks. active_task t}"
    "\<forall>a \<in> set (reap_agents reaped). a \<in> set agents \<or> lease_ran_out (utc (instant at)) (set tasks) (agent_id a)"
proof -
  obtain tm am tm' am' b' ex where i: "index_unique task_id [] tasks = Inr tm"
      "index_unique agent_id [] agents = Inr am"
      and l: "reap_loop h key (utc (instant at)) (sort_key task_order (dict_values tm)) (tm, am, b, []) = Inr (tm', am', b', ex)"
      and r: "reaped = \<lparr>reap_tasks = by_creation_tasks (dict_values tm'),
          reap_agents = by_creation_agents (dict_values am'), reap_budget = b', reap_expired_task_ids = ex\<rparr>"
    using assms(1) by (auto simp: reap_expired_leases_def bind_r_Inr_iff snapshot_time_Inr split: if_splits)
  note t = index_unique_Inr [OF i(1)] and a = index_unique_Inr [OF i(2)]
  have "mset (map task_id (sort_key task_order (dict_values tm))) = mset (map task_id tasks)" by (simp add: t(2))
  then have "distinct (map task_id (sort_key task_order (dict_values tm)))"
    using t(3) mset_eq_imp_distinct_iff by metis
  then have "reap_inv r (sort_key task_order (dict_values tm)) (tm, am, b, [])"
    using t a assms(2) by (simp add: reap_inv_def)
  note L = reap_loop_inv [OF l this]
  have k: "keyed task_id tm'" "keyed agent_id am'"
    and sn: "snapshot_ok r (set (dict_values tm')) (set (dict_values am'))" using L by (auto simp: reap_inv_def)
  show "snapshot_ok r (set (reap_tasks reaped)) (set (reap_agents reaped))" using sn by (simp add: r)
  show "distinct (map task_id (reap_tasks reaped))" "distinct (map agent_id (reap_agents reaped))"
    using keyed_distinct [OF k(1)] keyed_distinct [OF k(2)] by (simp_all add: r)
  show "task_id ` set (reap_tasks reaped) = task_id ` set tasks"
    "agent_id ` set (reap_agents reaped) = agent_id ` set agents"
    "{t \<in> set (reap_tasks reaped). active_task t} \<subseteq> {t \<in> set tasks. active_task t}"
    "\<forall>a \<in> set (reap_agents reaped). a \<in> set agents \<or> lease_ran_out (utc (instant at)) (set tasks) (agent_id a)"
    using L t(2) a(2) by (auto simp: r)
qed

end
