(* ===== verification/Scheduler_Guarantees.thy ===== *)
theory Scheduler_Guarantees
  imports Scheduler_Dispatch
begin

text \<open>
  What one call of \<^verbatim>\<open>DeterministicScheduler.schedule\<close> guarantees, from the invariants of its
  loops.
\<close>

section \<open>The shape of a successful call\<close>

lemma schedule_shape:
  assumes "schedule h key r tasks agents at_in secs budget = Inr res"
    "snapshot_ok r (set tasks) (set agents)"
  obtains tm am b C st rest slots where
    "progress_inv r slots C \<lparr>ds_tasks = tm, ds_agents = am, ds_budget = b, ds_available = available_agents am,
       ds_dispatches = [], ds_deferred = []\<rparr> rest st"
    "result_tasks res = by_creation_tasks (dict_values (ds_tasks st))"
    "result_agents res = by_creation_agents (dict_values (ds_agents st))"
    "result_dispatches res = ds_dispatches st"
    "slots = nat (max 0 (run_max_concurrency r - int (count_active (dict_values tm))))"
    "count_active (dict_values tm) \<le> card {t \<in> set tasks. active_task t}"
    "\<forall>t \<in> set C. is_eligible tm (utc (instant at_in)) t = Inr True" "set C \<subseteq> set (dict_values tm)"
    "\<forall>t \<in> set C. \<forall>u \<in> set C. task_wave t = task_wave u"
    "task_id ` set (dict_values tm) = task_id ` set tasks"
    "agent_id ` set (dict_values am) = agent_id ` set agents" "keyed task_id tm"
    "\<forall>a \<in> set (dict_values am). a \<in> set agents \<or> lease_ran_out (utc (instant at_in)) (set tasks) (agent_id a)"
proof -
  let ?at = "utc (instant at_in)"
  obtain reaped tm blocked where
      reap: "reap_expired_leases h key tasks agents
         (case budget of None \<Rightarrow> run_budget r | Some b \<Rightarrow> b) ?at = Inr reaped"
      and blk: "block_loop (sort_key task_order (dict_values (dict_of task_id (reap_tasks reaped))))
         (dict_of task_id (reap_tasks reaped), []) = Inr (tm, blocked)"
      and rest: "(let slots = nat (max 0 (run_max_concurrency r - int (count_active (dict_values tm)))) in
        if slots = 0 then Inr (make_result tm (dict_of agent_id (reap_agents reaped)) (reap_budget reaped) [] blocked []) else
     bind_r (wave_candidates tm ?at) (\<lambda>candidates.
     bind_r (dispatch_loop h key r ?at secs slots candidates
        \<lparr>ds_tasks = tm, ds_agents = dict_of agent_id (reap_agents reaped), ds_budget = reap_budget reaped,
         ds_available = available_agents (dict_of agent_id (reap_agents reaped)), ds_dispatches = [], ds_deferred = []\<rparr>) (\<lambda>st.
     Inr (make_result (ds_tasks st) (ds_agents st) (ds_budget st) (ds_dispatches st) blocked
        (ds_deferred st))))) = Inr res"
    using assms(1) by (auto simp: schedule_def bind_r_Inr_iff snapshot_time_Inr Let_def)
  let ?am = "dict_of agent_id (reap_agents reaped)"
  note R = reap_expired_leases_ok [OF reap assms(2)]
  have ka: "keyed agent_id ?am" "dict_values ?am = reap_agents reaped" using R(3) by (simp_all add: keyed_dict_of)
  have kt: "keyed task_id (dict_of task_id (reap_tasks reaped))"
      "dict_values (dict_of task_id (reap_tasks reaped)) = reap_tasks reaped"
    using R(2) by (simp_all add: keyed_dict_of)
  have "mset (map task_id (sort_key task_order (reap_tasks reaped))) = mset (map task_id (reap_tasks reaped))" by simp
  then have "distinct (map task_id (sort_key task_order (reap_tasks reaped)))"
    using R(2) mset_eq_imp_distinct_iff by blast
  then have "block_inv r (set (dict_values ?am))
      (sort_key task_order (dict_values (dict_of task_id (reap_tasks reaped)))) (dict_of task_id (reap_tasks reaped))"
    unfolding block_inv_def kt(2) ka(2) using kt(1) R(1) by simp
  note B = block_loop_inv [OF blk this, unfolded kt(2) ka(2)]
  have k: "keyed task_id tm" and sn: "snapshot_ok r (set (dict_values tm)) (set (reap_agents reaped))"
    using B by (auto simp: block_inv_def)
  let ?st0 = "\<lparr>ds_tasks = tm, ds_agents = ?am, ds_budget = reap_budget reaped, ds_available = available_agents ?am,
       ds_dispatches = [], ds_deferred = []\<rparr>"
  let ?slots = "nat (max 0 (run_max_concurrency r - int (count_active (dict_values tm))))"
  have "{t \<in> set (dict_values tm). active_task t} \<subseteq> {t \<in> set tasks. active_task t}" using B R(6) by auto
  then have cnt: "count_active (dict_values tm) \<le> card {t \<in> set tasks. active_task t}"
    unfolding count_active_card [OF keyed_distinct [OF k]] by (intro card_mono) auto
  have ids: "task_id ` set (dict_values tm) = task_id ` set tasks"
      "agent_id ` set (dict_values ?am) = agent_id ` set agents"
    using B R(4,5) ka(2) by auto
  have ran: "\<forall>a \<in> set (dict_values ?am). a \<in> set agents \<or> lease_ran_out ?at (set tasks) (agent_id a)"
    using R(7) ka(2) by simp
  have inv: "dispatch_inv r C ?st0" if "set C \<subseteq> set (dict_values tm)" "distinct (map task_id C)"
      "\<forall>t \<in> set C. task_state t \<in> {Task_QUEUED, Task_RETRY_WAIT}" for C
    using that k ka sn R(3)
    by (auto simp: dispatch_inv_def available_agents_def active_agent_def active_agent_state_def
        distinct_map)
  show thesis
  proof (cases "?slots = 0")
    case True
    then have res: "res = make_result tm ?am (reap_budget reaped) [] blocked []" using rest by simp
    have "progress_inv r ?slots [] ?st0 [] ?st0" using inv [of "[]"] by (simp add: progress_inv_def)
    from that [OF this _ _ _ refl cnt _ _ _ ids k ran] show thesis by (simp add: res make_result_def)
  next
    case False
    then obtain C st where C: "wave_candidates tm ?at = Inr C"
        and st: "dispatch_loop h key r ?at secs ?slots C ?st0 = Inr st"
        and res: "res = make_result (ds_tasks st) (ds_agents st) (ds_budget st) (ds_dispatches st) blocked
            (ds_deferred st)"
      using rest by (auto simp: bind_r_Inr_iff Let_def)
    note W = wave_candidates_Inr [OF C k]
    have "\<forall>t \<in> set C. task_state t \<in> {Task_QUEUED, Task_RETRY_WAIT}"
      using W(3) is_eligible_True(1) by blast
    then obtain rst where "progress_inv r ?slots C ?st0 rst st"
      using dispatch_loop_progress [OF st inv [OF W(1,2)]] by auto
    from that [OF this _ _ _ refl cnt W(3,1,4) ids k ran] show thesis by (simp add: res make_result_def)
  qed
qed

section \<open>A sample call\<close>

lemma open_task_fields [simp]:
  "task_id open_task = ''a''" "task_run_id open_task = ''r''" "task_state open_task = Task_QUEUED"
  "task_dependencies open_task = []" "task_reviewed_task_ids open_task = []"
  "task_required_capabilities open_task = []" "task_required_agent_class open_task = None"
  "task_excluded_agent_ids open_task = []" "task_attempt open_task = 0" "task_estimated_tokens open_task = 0"
  "task_next_eligible_at open_task = None" "task_lease open_task = None"
  "max_attempts (task_retry_policy open_task) = 3"
  by (simp_all add: open_task_def plain_task_def)

lemma free_agent_fields [simp]:
  "agent_id free_agent = ''x''" "agent_run_id free_agent = ''r''" "agent_state free_agent = Agent_AVAILABLE"
  "agent_current_task_id free_agent = None" "agent_capabilities free_agent = []"
  by (simp_all add: free_agent_def sample_agent_def)

abbreviation sample_executing :: run where
  "sample_executing \<equiv> sample_run Run_EXECUTING RESEARCH"

lemma sample_snapshot: "valid_snapshot sample_executing [open_task] [free_agent]"
proof -
  have "task_post_init open_task = Inr ()"
    by (simp add: task_post_init_def open_task_def plain_task_def active_task_state_def strip_def char_isspace_def)
  moreover have "agent_post_init free_agent = Inr ()"
    by (simp add: agent_post_init_def free_agent_def sample_agent_def active_agent_state_def strip_def char_isspace_def)
  ultimately show ?thesis
    by (simp add: valid_snapshot_def validate_membership_Inr matched_def active_task_def active_task_state_def
        active_agent_def active_agent_state_def attempts_ok_def)
qed

lemma sample_schedule:
  "\<exists>res d. schedule sha256 sample_key sample_executing [open_task] [free_agent] (utc 0) 120 None = Inr res
     \<and> result_dispatches res = [d] \<and> dispatch_task_id d = ''a'' \<and> dispatch_agent_id d = ''x''"
proof -
  let ?l = "new_lease sha256 sample_key sample_executing open_task free_agent (utc 0) (utc 120000000)"
  have r: "in_datetime_range 0" "in_datetime_range 120000000"
    by (simp_all add: in_datetime_range_def datetime_max_def)
  have mem: "validate_membership sample_executing [open_task] [free_agent] = Inr ()"
    using sample_snapshot by (simp add: valid_snapshot_def)
  have acy: "assert_acyclic [open_task] = Inr ()"
    by (simp add: assert_acyclic_correct dependencies_closed_def task_graph_def acyclic_def)
  have key: "\<not> length sample_key < 32" by (simp add: sample_key_def)
  have reap: "reap_expired_leases sha256 sample_key [open_task] [free_agent] b (utc 0) =
      Inr \<lparr>reap_tasks = [open_task], reap_agents = [free_agent], reap_budget = b, reap_expired_task_ids = []\<rparr>" for b
    using key r by (simp add: reap_expired_leases_def snapshot_time_def dict_values_def active_task_state_def
        by_creation_tasks_def by_creation_agents_def)
  have lp: "lease_post_init ?l = Inr ()" by (simp add: sha256_lease_post_init)
  have tp: "task_post_init (open_task\<lparr>task_state := Task_LEASED, task_attempt := 1, task_next_eligible_at := None,
      task_lease := Some ?l, task_failure_code := None, task_failure_message := None\<rparr>) = Inr ()"
    by (simp add: task_post_init_def new_lease_def active_task_state_def)
      (simp add: open_task_def plain_task_def strip_def char_isspace_def)
  have ap: "agent_post_init (free_agent\<lparr>agent_state := Agent_LEASED, agent_current_task_id := Some ''a'',
      agent_last_heartbeat_at := Some (utc 0)\<rparr>) = Inr ()"
    by (simp add: agent_post_init_def active_agent_state_def)
      (simp add: free_agent_def sample_agent_def strip_def char_isspace_def)
  obtain b' where b': "reserve (run_budget sample_executing) 0 0 1 = Inr b'"
    by (simp add: reserve_Inr budget_post_init_Inr sample_run_def unlimited_budget_def negative_opt_def over_limit_def)
  have best: "best_agent open_task [free_agent] {} = Some free_agent"
    by (simp add: best_agent_def agent_compatible_def)
  have cand: "wave_candidates [(''a'', open_task)] (utc 0) = Inr [open_task]"
    by (simp add: wave_candidates_def is_eligible_def dict_values_def)
  have mc: "run_max_concurrency sample_executing = 2" by (simp add: sample_run_def)
  show ?thesis
    using r key lp tp ap
    by (simp add: schedule_def snapshot_time_def mem acy reap dict_of_def dict_values_def count_active_def
        active_task_state_def mc cand available_agents_def b' best lease_to_def make_result_def)
qed

section \<open>Guarantees\<close>

text \<open>
  C9: Scheduling keeps a snapshot valid. From a valid snapshot (unique IDs, one run, active tasks
  and active agents matched one to one by leases, valid records, attempts within the retry
  policies) a successful call returns a valid snapshot of the same tasks and agents, on which the
  scheduler can be called again.
\<close>

theorem schedule_keeps_snapshot_valid:
  assumes "valid_snapshot r tasks agents" "schedule h key r tasks agents at secs budget = Inr res"
  shows "valid_snapshot r (result_tasks res) (result_agents res)
     \<and> task_id ` set (result_tasks res) = task_id ` set tasks
     \<and> agent_id ` set (result_agents res) = agent_id ` set agents"
proof -
  have sn: "snapshot_ok r (set tasks) (set agents)" using assms(1) by (simp add: valid_snapshot_iff)
  obtain tm am b C st rest slots where
    p: "progress_inv r slots C \<lparr>ds_tasks = tm, ds_agents = am, ds_budget = b, ds_available = available_agents am,
       ds_dispatches = [], ds_deferred = []\<rparr> rest st"
    and res: "result_tasks res = by_creation_tasks (dict_values (ds_tasks st))"
      "result_agents res = by_creation_agents (dict_values (ds_agents st))"
    and ids: "task_id ` set (dict_values tm) = task_id ` set tasks"
      "agent_id ` set (dict_values am) = agent_id ` set agents"
    by (rule schedule_shape [OF assms(2) sn])
  then show ?thesis
    using ids by (simp add: valid_snapshot_iff keyed_distinct progress_inv_def dispatch_inv_def)
qed

theorem schedule_keeps_snapshot_valid_witness:
  "\<exists>res. schedule sha256 sample_key sample_executing [open_task] [free_agent] (utc 0) 120 None = Inr res
     \<and> valid_snapshot sample_executing (result_tasks res) (result_agents res)
     \<and> task_id ` set (result_tasks res) = {''a''}"
  using sample_schedule schedule_keeps_snapshot_valid [OF sample_snapshot] by fastforce

text \<open>
  C10: Concurrency is bounded. After a successful call at most the run's maximum number of tasks is
  active, unless more were active already, in which case nothing is dispatched; every dispatch
  adds exactly one active task to those that survive the reaping.
\<close>

theorem schedule_bounds_concurrency:
  assumes "valid_snapshot r tasks agents" "schedule h key r tasks agents at secs budget = Inr res"
  shows "int (count_active (result_tasks res)) \<le> max (run_max_concurrency r) (int (count_active tasks))
     \<and> (result_dispatches res \<noteq> [] \<longrightarrow> int (count_active (result_tasks res)) \<le> run_max_concurrency r)
     \<and> count_active (result_tasks res) \<le> count_active tasks + length (result_dispatches res)"
proof -
  have v: "distinct (map task_id tasks)" "snapshot_ok r (set tasks) (set agents)"
    using assms(1) by (simp_all add: valid_snapshot_iff)
  obtain tm am b C st rest slots where
    p: "progress_inv r slots C \<lparr>ds_tasks = tm, ds_agents = am, ds_budget = b, ds_available = available_agents am,
       ds_dispatches = [], ds_deferred = []\<rparr> rest st"
    and res: "result_tasks res = by_creation_tasks (dict_values (ds_tasks st))"
      "result_dispatches res = ds_dispatches st"
    and sl: "slots = nat (max 0 (run_max_concurrency r - int (count_active (dict_values tm))))"
    and c: "count_active (dict_values tm) \<le> card {t \<in> set tasks. active_task t}" and k: "keyed task_id tm"
    by (rule schedule_shape [OF assms(2) v(2)])
  have kst: "keyed task_id (ds_tasks st)" using p by (simp add: progress_inv_def dispatch_inv_def)
  have n: "count_active (result_tasks res) = card {t \<in> task_values st. active_task t}"
    using keyed_distinct [OF kst] by (simp add: count_active_card res)
  have m: "count_active (dict_values tm) = card {t \<in> set (dict_values tm). active_task t}"
    using keyed_distinct [OF k] by (simp add: count_active_card)
  have "card {t \<in> task_values st. active_task t}
      = card {t \<in> set (dict_values tm). active_task t} + length (ds_dispatches st)"
    "length (ds_dispatches st) \<le> slots"
    using p by (simp_all add: progress_inv_def)
  then have e: "count_active (result_tasks res) = count_active (dict_values tm) + length (ds_dispatches st)"
      "length (ds_dispatches st) \<le> slots" by (simp_all only: n m)
  have c': "count_active (dict_values tm) \<le> count_active tasks" using c v(1) by (simp add: count_active_card)
  show ?thesis
  proof (cases "ds_dispatches st = []")
    case True
    then show ?thesis using e c' by (simp add: res)
  next
    case False
    then have "0 < slots" using e(2) by (cases "ds_dispatches st") auto
    then have "int slots = run_max_concurrency r - int (count_active (dict_values tm))" using sl by simp
    then have "int (count_active (result_tasks res)) \<le> run_max_concurrency r" using e by linarith
    then show ?thesis using e(1) c' res(2) by simp
  qed
qed

theorem schedule_bounds_concurrency_witness:
  "\<exists>res. schedule sha256 sample_key sample_executing [open_task] [free_agent] (utc 0) 120 None = Inr res
     \<and> count_active (result_tasks res) \<le> 1"
proof -
  obtain res d where r: "schedule sha256 sample_key sample_executing [open_task] [free_agent] (utc 0) 120 None = Inr res"
      "result_dispatches res = [d]" using sample_schedule by blast
  from schedule_bounds_concurrency [OF sample_snapshot r(1)] r show ?thesis
    by (auto simp: count_active_def active_task_state_def)
qed

text \<open>
  The agent of a dispatch was free when the call was made: it had no task and was queued or
  available, or it held a task through a lease that had run out by then.
\<close>

definition free_for_dispatch :: "task set \<Rightarrow> agent set \<Rightarrow> int \<Rightarrow> string \<Rightarrow> bool" where
  "free_for_dispatch T A now i \<longleftrightarrow> (\<exists>a \<in> A. agent_id a = i
     \<and> ((agent_state a \<in> {Agent_QUEUED, Agent_AVAILABLE} \<and> agent_current_task_id a = None)
        \<or> (\<exists>t \<in> T. \<exists>l. agent_current_task_id a = Some (task_id t) \<and> task_lease t = Some l
             \<and> lease_agent_id l = i \<and> instant (lease_expires_at l) \<le> now)))"

definition justified_dispatch ::
  "task set \<Rightarrow> agent set \<Rightarrow> int \<Rightarrow> task set \<Rightarrow> agent set \<Rightarrow> dispatch \<Rightarrow> bool" where
  "justified_dispatch T0 A0 now T A d \<longleftrightarrow> free_for_dispatch T0 A0 now (dispatch_agent_id d)
     \<and> (\<exists>t \<in> T. \<exists>a \<in> A.
     task_id t = dispatch_task_id d \<and> task_state t = Task_LEASED \<and> task_lease t = Some (dispatch_lease d)
     \<and> agent_id a = dispatch_agent_id d \<and> agent_state a = Agent_LEASED
     \<and> agent_current_task_id a = Some (task_id t)
     \<and> set (task_required_capabilities t) \<subseteq> set (agent_capabilities a)
     \<and> task_required_agent_class t \<in> {None, Some (agent_agent_class a)}
     \<and> agent_id a \<notin> set (task_excluded_agent_ids t)
     \<and> (\<forall>i \<in> set (task_reviewed_task_ids t). \<exists>u \<in> T. task_id u = i
          \<and> (\<exists>c. task_completed_by_agent_id u = Some c \<and> c \<noteq> agent_id a))
     \<and> (\<forall>i \<in> set (task_dependencies t). \<exists>u \<in> T. task_id u = i \<and> task_state u = Task_SUCCEEDED)
     \<and> (\<forall>u \<in> T. task_wave u < task_wave t \<longrightarrow> task_state u \<in> {Task_SUCCEEDED, Task_CANCELLED})
     \<and> task_attempt t \<le> max_attempts (task_retry_policy t))"

lemma lease_ran_out_free:
  assumes "lease_ran_out (utc now) T i" "matched T A"
  shows "free_for_dispatch T A now i"
proof -
  obtain t l where t: "t \<in> T" "active_task t" "task_lease t = Some l" "lease_agent_id l = i"
      "instant (lease_expires_at l) \<le> now"
    using assms(1) by (auto simp: lease_ran_out_def)
  then obtain a where "a \<in> A" "holds_lease t a" using assms(2) by (auto simp: matched_def)
  then show ?thesis using t by (auto simp: free_for_dispatch_def holds_lease_def)
qed

lemma lease_agent_claims [simp]:
  "agent_capabilities (lease_agent a t at) = agent_capabilities a"
  "agent_agent_class (lease_agent a t at) = agent_agent_class a"
  "task_required_capabilities (lease_task t l) = task_required_capabilities t"
  "task_required_agent_class (lease_task t l) = task_required_agent_class t"
  "task_excluded_agent_ids (lease_task t l) = task_excluded_agent_ids t"
  by (simp_all add: lease_agent_def lease_task_def)

text \<open>The dispatches of the loop, read against the snapshot the call was given.\<close>

lemma progress_justified:
  assumes p: "progress_inv r slots C \<lparr>ds_tasks = tm, ds_agents = am, ds_budget = b, ds_available = available_agents am,
       ds_dispatches = [], ds_deferred = []\<rparr> rest st"
    and el: "\<forall>t \<in> set C. is_eligible tm now t = Inr True"
    and wv: "\<forall>t \<in> set C. \<forall>u \<in> set C. task_wave t = task_wave u" and k: "keyed task_id tm"
    and d: "d \<in> set (ds_dispatches st)" and m: "matched T0 A0"
    and ran: "\<forall>a \<in> set (dict_values am). a \<in> A0 \<or> lease_ran_out (utc at) T0 (agent_id a)"
  shows "justified_dispatch T0 A0 at (task_values st) (agent_values st) d"
proof -
  have good: "dispatch_good C (set (available_agents am)) st d" and kept: "\<And>u. u \<in> set (dict_values tm) \<Longrightarrow> settled_task u \<Longrightarrow> u \<in> task_values st"
    and from_tm: "\<And>u. u \<in> task_values st \<Longrightarrow> u \<in> set (dict_values tm) \<or> (\<exists>t \<in> set C. \<exists>l. u = lease_task t l)"
    and ok: "\<And>u. u \<in> task_values st \<Longrightarrow> attempts_ok u"
    using p d by (auto simp: progress_inv_def dispatch_inv_def snapshot_simps)
  obtain t l a at' cs where t: "t \<in> set C" "lease_task t l \<in> task_values st"
     "lease_agent a t at' \<in> agent_values st" "agent_compatible t (set cs) a"
     "\<forall>i \<in> set (task_reviewed_task_ids t). \<exists>u \<in> task_values st. task_id u = i
          \<and> (\<exists>c \<in> set cs. task_completed_by_agent_id u = Some c)"
     "d = \<lparr>dispatch_task_id = task_id t, dispatch_agent_id = agent_id a, dispatch_lease = l,
            dispatch_reserved_tokens = task_estimated_tokens t\<rparr>" "a \<in> set (available_agents am)"
    using good unfolding dispatch_good_def by blast
  note E = is_eligible_True [OF el [rule_format, OF t(1)]]
  have deps: "\<forall>i \<in> set (task_dependencies t). \<exists>u \<in> task_values st. task_id u = i \<and> task_state u = Task_SUCCEEDED"
  proof
    fix i assume "i \<in> set (task_dependencies t)"
    then obtain u where "map_of tm i = Some u" "task_state u = Task_SUCCEEDED" using E(2) by blast
    then show "\<exists>u \<in> task_values st. task_id u = i \<and> task_state u = Task_SUCCEEDED"
      using keyed_map_of [OF k] kept by (auto simp: settled_task_def)
  qed
  have waves: "\<forall>u \<in> task_values st. task_wave u < task_wave t \<longrightarrow> task_state u \<in> {Task_SUCCEEDED, Task_CANCELLED}"
  proof (intro ballI impI)
    fix u assume u: "u \<in> task_values st" "task_wave u < task_wave t"
    from from_tm [OF u(1)] show "task_state u \<in> {Task_SUCCEEDED, Task_CANCELLED}"
    proof
      assume "u \<in> set (dict_values tm)"
      then show ?thesis using E(3) u(2) by blast
    next
      assume "\<exists>t' \<in> set C. \<exists>l'. u = lease_task t' l'"
      then obtain t' l' where "t' \<in> set C" "u = lease_task t' l'" by blast
      then show ?thesis using wv [rule_format, of t' t] t(1) u(2) by simp
    qed
  qed
  have att: "task_attempt (lease_task t l) \<le> max_attempts (task_retry_policy (lease_task t l))"
    using ok [OF t(2)] by (simp add: attempts_ok_def active_task_def active_task_state_def)
  have rev: "\<forall>i \<in> set (task_reviewed_task_ids t). \<exists>u \<in> task_values st. task_id u = i
      \<and> (\<exists>c. task_completed_by_agent_id u = Some c \<and> c \<noteq> agent_id a)"
    using t(4,5) unfolding agent_compatible_def by blast
  have free: "free_for_dispatch T0 A0 at (agent_id a)"
    using t(7) ran lease_ran_out_free [OF _ m] by (auto simp: available_agents_def free_for_dispatch_def)
  show ?thesis
    unfolding justified_dispatch_def
  proof (intro conjI bexI [of _ "lease_task t l"] bexI [of _ "lease_agent a t at'"])
  qed (use t(2,3,4,6) deps waves att rev free in \<open>auto simp: agent_compatible_def\<close>)
qed

text \<open>
  C2: Every dispatch is justified. On a valid snapshot, a successful call gives each agent and each
  task at most once. The agent of a dispatch was free when the call was made: queued or available
  with no task, or held only by a lease that had run out. Afterwards the task is leased, with the
  returned lease, to that agent, who is leased to this task only; the agent has all required
  capabilities and the required class, is not excluded, and completed none of the tasks under
  review; every dependency of the task succeeded, every task of an earlier wave succeeded or was
  cancelled, and the attempt is within the policy.
\<close>

theorem dispatches_are_justified:
  assumes "valid_snapshot r tasks agents" "schedule h key r tasks agents at secs budget = Inr res"
  shows "distinct (map dispatch_agent_id (result_dispatches res))
     \<and> distinct (map dispatch_task_id (result_dispatches res))
     \<and> (\<forall>d \<in> set (result_dispatches res). justified_dispatch (set tasks) (set agents) (instant at)
            (set (result_tasks res)) (set (result_agents res)) d)"
proof -
  have v: "snapshot_ok r (set tasks) (set agents)" using assms(1) by (simp add: valid_snapshot_iff)
  obtain tm am b C st rest slots where
    p: "progress_inv r slots C \<lparr>ds_tasks = tm, ds_agents = am, ds_budget = b, ds_available = available_agents am,
       ds_dispatches = [], ds_deferred = []\<rparr> rest st"
    and res: "result_tasks res = by_creation_tasks (dict_values (ds_tasks st))"
      "result_agents res = by_creation_agents (dict_values (ds_agents st))"
      "result_dispatches res = ds_dispatches st"
    and el: "\<forall>t \<in> set C. is_eligible tm (utc (instant at)) t = Inr True" and Ctm: "set C \<subseteq> set (dict_values tm)"
    and wv: "\<forall>t \<in> set C. \<forall>u \<in> set C. task_wave t = task_wave u" and k: "keyed task_id tm"
    and ran: "\<forall>a \<in> set (dict_values am). a \<in> set agents \<or> lease_ran_out (utc (instant at)) (set tasks) (agent_id a)"
    by (rule schedule_shape [OF assms(2) v])
  let ?st0 = "\<lparr>ds_tasks = tm, ds_agents = am, ds_budget = b, ds_available = available_agents am,
       ds_dispatches = [], ds_deferred = []\<rparr>"
  have each: "justified_dispatch (set tasks) (set agents) (instant at) (set (result_tasks res))
      (set (result_agents res)) d" if "d \<in> set (result_dispatches res)" for d
    using progress_justified [OF p el wv k _ _ ran] that v by (simp add: res snapshot_simps)
  then show ?thesis using p by (simp add: res progress_inv_def)
qed

theorem dispatches_are_justified_witness:
  "\<exists>res d. schedule sha256 sample_key sample_executing [open_task] [free_agent] (utc 0) 120 None = Inr res
     \<and> result_dispatches res = [d]
     \<and> justified_dispatch {open_task} {free_agent} 0 (set (result_tasks res)) (set (result_agents res)) d"
proof -
  obtain res d where r: "schedule sha256 sample_key sample_executing [open_task] [free_agent] (utc 0) 120 None = Inr res"
      "result_dispatches res = [d]" using sample_schedule by blast
  from dispatches_are_justified [OF sample_snapshot r(1)] r show ?thesis by simp
qed

end
