(* ===== verification/Scheduler_Replay.thy ===== *)
theory Scheduler_Replay
  imports Scheduler_Guarantees
begin

text \<open>
  The scheduler is deterministic in the set of records: the order in which tasks and agents are
  read from storage does not change the outcome of a successful call. Failures follow the retry
  policy.
\<close>

section \<open>Sorting by an injective key\<close>

lemma sort_key_unique:
  assumes "set xs = set ys" "distinct xs" "distinct ys" "inj_on f (set xs)"
  shows "sort_key f xs = sort_key f ys"
proof -
  have "sorted (map f (sort_key f xs))" "sorted (map f (sort_key f ys))" by simp_all
  moreover have "distinct (map f (sort_key f xs))" "distinct (map f (sort_key f ys))"
    using assms by (simp_all add: distinct_map)
  ultimately have "map f (sort_key f xs) = map f (sort_key f ys)"
    using assms(1) by (intro sorted_distinct_set_unique) simp_all
  then show ?thesis using assms(1,4) by (intro map_inj_on [of f]) simp_all
qed

lemma inj_on_task_order: "inj_on task_id S \<Longrightarrow> inj_on task_order S"
  by (auto simp: inj_on_def task_order_def)

lemma inj_on_creation:
  "inj_on task_id S \<Longrightarrow> inj_on (\<lambda>t. (task_created_seq t, task_id t)) S"
  "inj_on agent_id A \<Longrightarrow> inj_on (\<lambda>a. (agent_created_seq a, agent_id a)) A"
  by (auto simp: inj_on_def)

lemma distinct_map_mset: "mset xs = mset ys \<Longrightarrow> distinct (map f xs) = distinct (map f ys)"
  by (rule mset_eq_imp_distinct_iff) simp

section \<open>The reaping loop reads its maps by key only\<close>

lemma reap_loop_keyed:
  assumes "reap_loop h key at ts (tm, am, b, ex) = Inr (tm', am', b', ex')" "keyed task_id tm" "keyed agent_id am"
  shows "keyed task_id tm' \<and> keyed agent_id am'"
  using assms
proof (induction ts arbitrary: tm am b ex)
  case (Cons t ts)
  show ?case
  proof (cases "active_task_state (task_state t)")
    case False
    then show ?thesis using Cons by simp
  next
    case act: True
    then obtain l where l: "task_lease t = Some l" using Cons.prems(1) by (cases "task_lease t") auto
    then obtain a where a: "map_of am (lease_agent_id l) = Some a"
      using Cons.prems(1) act by (cases "map_of am (lease_agent_id l)") auto
    obtain vl where vl: "validate_lease h key True t a (lease_token l) at = Inr vl"
      using Cons.prems(1) act l a by (auto simp: bind_r_Inr_iff)
    show ?thesis
    proof (cases "instant at < instant (lease_expires_at vl)")
      case True
      then show ?thesis using Cons act l a vl by simp
    next
      case False
      then obtain res where res: "fail_validated t a ''lease_expired''
          ''worker did not renew its lease before expiry'' True b 0 0 at = Inr res"
        and go: "reap_loop h key at ts (AList.update (task_id t) (completion_task res) tm,
              AList.update (agent_id a) (completion_agent res) am,
              completion_budget res, ex @ [task_id t]) = Inr (tm', am', b', ex')"
        using Cons.prems(1) act l a vl by (auto simp: bind_r_Inr_iff)
      note f = fail_validated_Inr [OF res]
      from Cons.IH [OF go keyed_update [OF Cons.prems(2) f(1)] keyed_update [OF Cons.prems(3) f(2)]]
      show ?thesis .
    qed
  qed
qed simp

lemma reap_loop_cong:
  assumes "reap_loop h key at ts (tm, am, b, ex) = Inr (tm', am', b', ex')"
    "map_of tm = map_of tm2" "map_of am = map_of am2"
  shows "\<exists>tm2' am2'. reap_loop h key at ts (tm2, am2, b, ex) = Inr (tm2', am2', b', ex')
     \<and> map_of tm2' = map_of tm' \<and> map_of am2' = map_of am'"
  using assms
proof (induction ts arbitrary: tm am b ex tm2 am2)
  case (Cons t ts)
  show ?case
  proof (cases "active_task_state (task_state t)")
    case False
    then show ?thesis using Cons.IH [OF _ Cons.prems(2,3)] Cons.prems(1) by simp
  next
    case act: True
    then obtain l where l: "task_lease t = Some l" using Cons.prems(1) by (cases "task_lease t") auto
    then obtain a where a: "map_of am (lease_agent_id l) = Some a"
      using Cons.prems(1) act by (cases "map_of am (lease_agent_id l)") auto
    obtain vl where vl: "validate_lease h key True t a (lease_token l) at = Inr vl"
      using Cons.prems(1) act l a by (auto simp: bind_r_Inr_iff)
    have a2: "map_of am2 (lease_agent_id l) = Some a" using a Cons.prems(3) by simp
    show ?thesis
    proof (cases "instant at < instant (lease_expires_at vl)")
      case True
      then show ?thesis using Cons.IH [OF _ Cons.prems(2,3)] Cons.prems(1) act l a a2 vl by simp
    next
      case False
      then obtain res where res: "fail_validated t a ''lease_expired''
          ''worker did not renew its lease before expiry'' True b 0 0 at = Inr res"
        and go: "reap_loop h key at ts (AList.update (task_id t) (completion_task res) tm,
              AList.update (agent_id a) (completion_agent res) am,
              completion_budget res, ex @ [task_id t]) = Inr (tm', am', b', ex')"
        using Cons.prems(1) act l a vl by (auto simp: bind_r_Inr_iff)
      have m: "map_of (AList.update (task_id t) (completion_task res) tm)
            = map_of (AList.update (task_id t) (completion_task res) tm2)"
          "map_of (AList.update (agent_id a) (completion_agent res) am)
            = map_of (AList.update (agent_id a) (completion_agent res) am2)"
        using Cons.prems(2,3) by (simp_all add: update_conv')
      from Cons.IH [OF go m] False act l a2 vl res show ?thesis by simp
    qed
  qed
qed simp

lemma keyed_values_ran: "keyed key d \<Longrightarrow> set (dict_values d) = ran (map_of d)"
  by (simp add: keyed_def dict_values_def ran_distinct)

lemma by_creation_cong:
  assumes "keyed task_id tm" "keyed task_id tm2" "map_of tm = map_of tm2"
  shows "by_creation_tasks (dict_values tm) = by_creation_tasks (dict_values tm2)"
  unfolding by_creation_tasks_def
proof (rule sort_key_unique)
  show "set (dict_values tm) = set (dict_values tm2)" using assms by (simp add: keyed_values_ran)
  show "distinct (dict_values tm)" "distinct (dict_values tm2)"
    using keyed_distinct [OF assms(1)] keyed_distinct [OF assms(2)] by (simp_all add: distinct_map)
qed (rule inj_on_creation(1) [OF keyed_inj_on [OF assms(1)]])

lemma by_creation_agents_cong:
  assumes "keyed agent_id am" "keyed agent_id am2" "map_of am = map_of am2"
  shows "by_creation_agents (dict_values am) = by_creation_agents (dict_values am2)"
  unfolding by_creation_agents_def
proof (rule sort_key_unique)
  show "set (dict_values am) = set (dict_values am2)" using assms by (simp add: keyed_values_ran)
  show "distinct (dict_values am)" "distinct (dict_values am2)"
    using keyed_distinct [OF assms(1)] keyed_distinct [OF assms(2)] by (simp_all add: distinct_map)
qed (rule inj_on_creation(2) [OF keyed_inj_on [OF assms(1)]])

lemma index_unique_mset:
  assumes "mset xs = mset ys" "index_unique key [] xs = Inr d"
  obtains e where "index_unique key [] ys = Inr e" "map_of e = map_of d" "keyed key e" "keyed key d"
proof -
  have dx: "distinct (map key xs)" "d = map (\<lambda>x. (key x, x)) xs" using assms(2) by (auto simp: keyed_index_unique)
  have dy: "distinct (map key ys)"
    using dx(1) distinct_map_mset [OF assms(1), of key] by simp
  let ?e = "map (\<lambda>x. (key x, x)) ys"
  have e: "index_unique key [] ys = Inr ?e" using dy by (simp add: keyed_index_unique)
  have "set ?e = set d" using assms(1) dx(2) by (metis list.set_map mset_eq_setD)
  then have "map_of ?e = map_of d"
    using dx dy by (subst map_of_inject_set) (simp_all add: comp_def)
  then show thesis using that [OF e] index_unique_Inr(1) [OF e] index_unique_Inr(1) [OF assms(2)] by blast
qed

lemma reap_expired_leases_mset:
  assumes "reap_expired_leases h key tasks agents b at = Inr reaped"
    "mset tasks = mset tasks'" "mset agents = mset agents'"
  shows "reap_expired_leases h key tasks' agents' b at = Inr reaped"
proof -
  obtain t0 tm am tm' am' b' ex where t0: "snapshot_time at = Inr t0" and key: "\<not> length key < 32"
      and i: "index_unique task_id [] tasks = Inr tm" "index_unique agent_id [] agents = Inr am"
      and l: "reap_loop h key t0 (sort_key task_order (dict_values tm)) (tm, am, b, []) = Inr (tm', am', b', ex)"
      and r: "reaped = \<lparr>reap_tasks = by_creation_tasks (dict_values tm'),
          reap_agents = by_creation_agents (dict_values am'), reap_budget = b', reap_expired_task_ids = ex\<rparr>"
    using assms(1) by (auto simp: reap_expired_leases_def bind_r_Inr_iff split: if_splits)
  obtain tm2 where t2: "index_unique task_id [] tasks' = Inr tm2" "map_of tm2 = map_of tm"
      "keyed task_id tm2" "keyed task_id tm" by (rule index_unique_mset [OF assms(2) i(1)])
  obtain am2 where a2: "index_unique agent_id [] agents' = Inr am2" "map_of am2 = map_of am"
      "keyed agent_id am2" "keyed agent_id am" by (rule index_unique_mset [OF assms(3) i(2)])
  have order: "sort_key task_order (dict_values tm) = sort_key task_order (dict_values tm2)"
  proof (rule sort_key_unique)
    show "set (dict_values tm) = set (dict_values tm2)" using t2 by (simp add: keyed_values_ran)
    show "distinct (dict_values tm)" "distinct (dict_values tm2)"
      using keyed_distinct [OF t2(3)] keyed_distinct [OF t2(4)] by (simp_all add: distinct_map)
  qed (rule inj_on_task_order [OF keyed_inj_on [OF t2(4)]])
  obtain tm2' am2' where l2: "reap_loop h key t0 (sort_key task_order (dict_values tm)) (tm2, am2, b, [])
        = Inr (tm2', am2', b', ex)" "map_of tm2' = map_of tm'" "map_of am2' = map_of am'"
    using reap_loop_cong [OF l t2(2) [symmetric] a2(2) [symmetric]] by blast
  have k: "keyed task_id tm'" "keyed agent_id am'" "keyed task_id tm2'" "keyed agent_id am2'"
    using reap_loop_keyed [OF l t2(4) a2(4)] reap_loop_keyed [OF l2(1) t2(3) a2(3)] by auto
  have "by_creation_tasks (dict_values tm2') = by_creation_tasks (dict_values tm')"
      "by_creation_agents (dict_values am2') = by_creation_agents (dict_values am')"
    using by_creation_cong [OF k(3,1) l2(2)] by_creation_agents_cong [OF k(4,2) l2(3)] by simp_all
  then show ?thesis
    using t0 key t2(1) a2(1) l2(1) by (simp add: reap_expired_leases_def order [symmetric] r)
qed

section \<open>Replay\<close>

lemma validate_membership_mset:
  assumes "mset tasks = mset tasks'" "mset agents = mset agents'"
  shows "validate_membership r tasks agents = Inr () \<longleftrightarrow> validate_membership r tasks' agents' = Inr ()"
proof -
  have "distinct (map task_id tasks) = distinct (map task_id tasks')"
      "distinct (map agent_id agents) = distinct (map agent_id agents')"
    by (rule distinct_map_mset, fact)+
  moreover have "set tasks = set tasks'" "set agents = set agents'"
    by (rule mset_eq_setD, fact)+
  ultimately show ?thesis by (simp add: validate_membership_Inr)
qed

lemma assert_acyclic_mset:
  assumes "mset tasks = mset tasks'"
  shows "assert_acyclic tasks = Inr () \<longleftrightarrow> assert_acyclic tasks' = Inr ()"
proof -
  have "distinct (map task_id tasks) = distinct (map task_id tasks')"
    using assms by (rule distinct_map_mset)
  moreover have "set tasks = set tasks'" using assms by (rule mset_eq_setD)
  ultimately show ?thesis
    by (simp add: assert_acyclic_correct dependencies_closed_def task_graph_def)
qed

text \<open>
  C25: Scheduling does not depend on the order of its inputs: if a call succeeds, a call with the
  same tasks and agents in any other order succeeds with the identical result, the same tasks and
  agents in the same order, the same dispatches with the same lease tokens, and the same budget.
\<close>

theorem schedule_order_independent:
  assumes "mset tasks = mset tasks'" "mset agents = mset agents'"
    "schedule h key r tasks agents at secs budget = Inr res"
  shows "schedule h key r tasks' agents' at secs budget = Inr res"
proof -
  have m: "validate_membership r tasks agents = Inr ()" "assert_acyclic tasks = Inr ()"
    using assms(3) by (auto simp: schedule_def bind_r_Inr_iff)
  then have m': "validate_membership r tasks' agents' = Inr ()" "assert_acyclic tasks' = Inr ()"
    using validate_membership_mset [OF assms(1,2)] assert_acyclic_mset [OF assms(1)] by simp_all
  obtain at' reaped where at': "snapshot_time at = Inr at'"
      and "reap_expired_leases h key tasks agents
         (case budget of None \<Rightarrow> run_budget r | Some b \<Rightarrow> b) at' = Inr reaped"
    using assms(3) by (auto simp: schedule_def bind_r_Inr_iff)
  moreover from this(2) have "reap_expired_leases h key tasks' agents'
         (case budget of None \<Rightarrow> run_budget r | Some b \<Rightarrow> b) at' = Inr reaped"
    by (rule reap_expired_leases_mset [OF _ assms(1,2)])
  ultimately show ?thesis using assms(3) unfolding schedule_def by (simp add: m m')
qed

theorem schedule_order_independent_witness:
  "\<exists>res. schedule sha256 sample_key sample_executing [open_task] [free_agent] (utc 0) 120 None = Inr res
     \<and> schedule sha256 sample_key sample_executing (rev [open_task]) (rev [free_agent]) (utc 0) 120 None = Inr res"
proof -
  obtain res where r: "schedule sha256 sample_key sample_executing [open_task] [free_agent] (utc 0) 120 None = Inr res"
    using sample_schedule by blast
  with schedule_order_independent [OF _ _ r, of "rev [open_task]" "rev [free_agent]"] show ?thesis by simp
qed

section \<open>Failures\<close>

text \<open>
  A failed attempt is retried exactly when it is retryable and the policy has an attempt left.
  The report is accepted only for the authentic lease (expired or not); the task then waits a
  delay between zero and the policy's maximum, or is failed for good; the agent is free again and
  the lease is gone.
\<close>

theorem failure_follows_retry_policy:
  assumes "fail h key t a token code msg retryable b n m at = Inr res"
    "retry_policy_post_init (task_retry_policy t) = Inr ()" "1 \<le> task_attempt t"
  shows "(\<exists>l. lease_accepted h key True t a token at l)
     \<and> task_lease (completion_task res) = None
     \<and> agent_state (completion_agent res) = Agent_AVAILABLE
     \<and> agent_current_task_id (completion_agent res) = None
     \<and> (if retryable \<and> task_attempt t < max_attempts (task_retry_policy t)
        then task_state (completion_task res) = Task_RETRY_WAIT
          \<and> (\<exists>delay. 0 \<le> delay \<and> delay \<le> max_backoff_seconds (task_retry_policy t)
               \<and> task_next_eligible_at (completion_task res) = Some (utc (instant at + 1000000 * delay)))
        else task_state (completion_task res) = Task_FAILED
          \<and> task_next_eligible_at (completion_task res) = None)"
proof -
  obtain vl where vl: "validate_lease h key True t a token (utc (instant at)) = Inr vl"
      and fv: "fail_validated t a code msg retryable b n m (utc (instant at)) = Inr res"
    using assms(1) by (auto simp: fail_def bind_r_Inr_iff snapshot_time_Inr split: if_splits)
  obtain l where l: "lease_accepted h key True t a token at l"
    using validate_lease_accepted [OF vl] by (auto simp: lease_accepted_utc)
  obtain nx where f: "completion_task res = t\<lparr>task_state :=
         (if retryable \<and> task_attempt t < max_attempts (task_retry_policy t)
          then Task_RETRY_WAIT else Task_FAILED),
       task_next_eligible_at := nx, task_lease := None,
       task_failure_code := Some code, task_failure_message := Some msg\<rparr>"
    "completion_agent res = a\<lparr>agent_state := Agent_AVAILABLE, agent_current_task_id := None,
       agent_last_heartbeat_at := Some (utc (instant (utc (instant at))))\<rparr>"
    and nx: "retryable \<and> task_attempt t < max_attempts (task_retry_policy t) \<longrightarrow>
       (\<exists>delay. delay_seconds (task_retry_policy t) (task_attempt t) = Inr delay
         \<and> nx = Some (utc (instant (utc (instant at)) + 1000000 * delay)))"
      "\<not> (retryable \<and> task_attempt t < max_attempts (task_retry_policy t)) \<longrightarrow> nx = None"
    by (rule fail_validated_shape [OF fv])
  have "0 \<le> delay \<and> delay \<le> max_backoff_seconds (task_retry_policy t)"
    if "delay_seconds (task_retry_policy t) (task_attempt t) = Inr delay" for delay
    using that delay_bounds [OF assms(2,3)] by auto
  then show ?thesis using l nx by (auto simp: f)
qed

theorem failure_follows_retry_policy_witness:
  "\<exists>res. fail sha256 sample_key leased_task leased_agent (lease_token issued_lease) ''tool_error'' ''crashed''
       True (capped_budget\<lparr>agent_dispatches_reserved := 1\<rparr>) 7 0 (utc 5) = Inr res
     \<and> task_state (completion_task res) = Task_RETRY_WAIT
     \<and> (\<exists>delay. 0 \<le> delay \<and> delay \<le> 60
          \<and> task_next_eligible_at (completion_task res) = Some (utc (5 + 1000000 * delay)))"
proof -
  have r: "in_datetime_range 0" "in_datetime_range 5" "in_datetime_range 1000005"
    by (simp_all add: in_datetime_range_def datetime_max_def)
  have "lease_accepted sha256 sample_key True leased_task leased_agent (lease_token issued_lease) (utc 5) issued_lease"
    using issued_lease_accepted [of 5] by (simp add: lease_accepted_def)
  from lease_accepted_validates [OF this sha256_digest.digest_function_axioms issued_lease_valid] r
  obtain vl where vl: "validate_lease sha256 sample_key True leased_task leased_agent
      (lease_token issued_lease) (utc 5) = Inr vl" by (auto simp: leased_agent_def)
  have f: "task_state leased_task = Task_LEASED" "task_estimated_tokens leased_task = 0"
      "task_attempt leased_task = 1" "agent_state leased_agent = Agent_LEASED"
      "task_retry_policy leased_task = \<lparr>max_attempts = 3, initial_backoff_seconds = 1, multiplier = 2,
         max_backoff_seconds = 60\<rparr>"
    by (simp_all add: leased_task_def open_task_def plain_task_def leased_agent_def)
  obtain b' where b': "settle (capped_budget\<lparr>agent_dispatches_reserved := 1\<rparr>) 0 7 0 0 1 1 = Inr b'"
    by (simp add: settle_Inr budget_post_init_Inr capped_budget_def unlimited_budget_def negative_opt_def
        over_limit_def)
  have "\<exists>res. fail sha256 sample_key leased_task leased_agent (lease_token issued_lease) ''tool_error'' ''crashed''
       True (capped_budget\<lparr>agent_dispatches_reserved := 1\<rparr>) 7 0 (utc 5) = Inr res"
    using r
    by (simp add: fail_def fail_validated_def snapshot_time_def vl f b' active_task_state_def
        active_agent_state_def validate_settlement_inputs_def delay_seconds_def)
      (simp add: validated_def task_post_init_def agent_post_init_def leased_task_def open_task_def
        plain_task_def leased_agent_def free_agent_def sample_agent_def
        active_task_state_def active_agent_state_def strip_def char_isspace_def)
  then obtain res where res: "fail sha256 sample_key leased_task leased_agent (lease_token issued_lease)
      ''tool_error'' ''crashed'' True (capped_budget\<lparr>agent_dispatches_reserved := 1\<rparr>) 7 0 (utc 5) = Inr res"
    by blast
  have "retry_policy_post_init (task_retry_policy leased_task) = Inr ()" "1 \<le> task_attempt leased_task"
    by (simp_all add: f retry_policy_post_init_def)
  from failure_follows_retry_policy [OF res this] res show ?thesis by (simp add: f)
qed

end
