(* ===== verification/Geometry.thy ===== *)
theory Geometry
  imports Prelude Complex_Main
begin

text \<open>
  \<^verbatim>\<open>backend/verification/geometry.py\<close>: the exact geometry the design rules rely on. Board
  coordinates are integers (nanometres, \<^verbatim>\<open>PointNm\<close>); \<^verbatim>\<open>Fraction\<close> is the type of
  rational numbers. A \<^verbatim>\<open>BoardOutline\<close> is the list of its vertices.
\<close>

section \<open>Points and rational primitives\<close>

record point_nm =
  px :: int
  py :: int

record exact_point_t =
  qx :: rat
  qy :: rat

type_synonym board_outline = "point_nm list"

definition exact_point :: "point_nm \<Rightarrow> exact_point_t" where
  "exact_point p = \<lparr>qx = of_int (px p), qy = of_int (py p)\<rparr>"

definition exact_cross :: "exact_point_t \<Rightarrow> exact_point_t \<Rightarrow> exact_point_t \<Rightarrow> rat" where
  "exact_cross orig a b = (qx a - qx orig) * (qy b - qy orig) - (qy a - qy orig) * (qx b - qx orig)"

definition exact_on_segment :: "exact_point_t \<Rightarrow> exact_point_t \<Rightarrow> exact_point_t \<Rightarrow> bool" where
  "exact_on_segment p s e \<longleftrightarrow> exact_cross s e p = 0
     \<and> min (qx s) (qx e) \<le> qx p \<and> qx p \<le> max (qx s) (qx e)
     \<and> min (qy s) (qy e) \<le> qy p \<and> qy p \<le> max (qy s) (qy e)"

definition exact_segments_intersect ::
  "exact_point_t \<Rightarrow> exact_point_t \<Rightarrow> exact_point_t \<Rightarrow> exact_point_t \<Rightarrow> bool" where
  "exact_segments_intersect as ae bs be =
     (let first_a = exact_cross as ae bs; first_b = exact_cross as ae be;
          second_a = exact_cross bs be as; second_b = exact_cross bs be ae in
      if ((first_a > 0 \<and> first_b < 0) \<or> (first_a < 0 \<and> first_b > 0))
         \<and> ((second_a > 0 \<and> second_b < 0) \<or> (second_a < 0 \<and> second_b > 0))
      then True
      else (first_a = 0 \<and> exact_on_segment bs as ae) \<or> (first_b = 0 \<and> exact_on_segment be as ae)
        \<or> (second_a = 0 \<and> exact_on_segment as bs be) \<or> (second_b = 0 \<and> exact_on_segment ae bs be))"

definition exact_point_segment_distance_squared ::
  "exact_point_t \<Rightarrow> exact_point_t \<Rightarrow> exact_point_t \<Rightarrow> rat" where
  "exact_point_segment_distance_squared p s e =
     (let dx = qx e - qx s; dy = qy e - qy s; length_squared = dx * dx + dy * dy in
      if length_squared = 0 then
        (let vx = qx p - qx s; vy = qy p - qy s in vx * vx + vy * vy)
      else let projection = (qx p - qx s) * dx + (qy p - qy s) * dy in
      if projection \<le> 0 then
        (let vx = qx p - qx s; vy = qy p - qy s in vx * vx + vy * vy)
      else if projection \<ge> length_squared then
        (let vx = qx p - qx e; vy = qy p - qy e in vx * vx + vy * vy)
      else let cr = dx * (qy p - qy s) - dy * (qx p - qx s) in cr * cr / length_squared)"

definition exact_segment_distance_squared ::
  "exact_point_t \<Rightarrow> exact_point_t \<Rightarrow> exact_point_t \<Rightarrow> exact_point_t \<Rightarrow> rat" where
  "exact_segment_distance_squared as ae bs be =
     (if exact_segments_intersect as ae bs be then 0
      else Min {exact_point_segment_distance_squared as bs be,
                exact_point_segment_distance_squared ae bs be,
                exact_point_segment_distance_squared bs as ae,
                exact_point_segment_distance_squared be as ae})"

section \<open>Outlines\<close>

definition outline_edges :: "board_outline \<Rightarrow> (point_nm \<times> point_nm) list" where
  "outline_edges vs =
     (if length vs < 2 then []
      else map (\<lambda>i. (vs ! i, vs ! ((i + 1) mod length vs))) [0..<length vs])"

text \<open>
  The loops of the two point-in-polygon tests: \<open>on\<close> tests an edge for the point, \<open>flips\<close> tests
  whether the ray from the point crosses it.
\<close>

fun ray_loop :: "('e \<Rightarrow> bool) \<Rightarrow> ('e \<Rightarrow> bool) \<Rightarrow> bool \<Rightarrow> 'e list \<Rightarrow> bool" where
  "ray_loop on flips inside [] = inside"
| "ray_loop on flips inside (e # es) =
     (if on e then True else ray_loop on flips (if flips e then \<not> inside else inside) es)"

definition exact_flips :: "exact_point_t \<Rightarrow> exact_point_t \<Rightarrow> exact_point_t \<Rightarrow> bool" where
  "exact_flips p s e \<longleftrightarrow> (qy s > qy p) \<noteq> (qy e > qy p)
     \<and> qx p < (qx e - qx s) * (qy p - qy s) / (qy e - qy s) + qx s"

definition exact_point_in_outline :: "exact_point_t \<Rightarrow> board_outline \<Rightarrow> bool" where
  "exact_point_in_outline p vs =
     (if length vs < 3 then False
      else ray_loop (\<lambda>(s, e). exact_on_segment p (exact_point s) (exact_point e))
             (\<lambda>(s, e). exact_flips p (exact_point s) (exact_point e)) False (outline_edges vs))"

section \<open>The integer kernel\<close>

definition cross :: "point_nm \<Rightarrow> point_nm \<Rightarrow> point_nm \<Rightarrow> int" where
  "cross orig a b = (px a - px orig) * (py b - py orig) - (py a - py orig) * (px b - px orig)"

definition on_segment :: "point_nm \<Rightarrow> point_nm \<Rightarrow> point_nm \<Rightarrow> bool" where
  "on_segment p s e \<longleftrightarrow> cross s e p = 0
     \<and> min (px s) (px e) \<le> px p \<and> px p \<le> max (px s) (px e)
     \<and> min (py s) (py e) \<le> py p \<and> py p \<le> max (py s) (py e)"

definition segments_intersect :: "point_nm \<Rightarrow> point_nm \<Rightarrow> point_nm \<Rightarrow> point_nm \<Rightarrow> bool" where
  "segments_intersect a_start a_end b_start b_end =
     (let d1 = cross a_start a_end b_start; d2 = cross a_start a_end b_end;
          d3 = cross b_start b_end a_start; d4 = cross b_start b_end a_end in
      if ((d1 > 0 \<and> d2 < 0) \<or> (d1 < 0 \<and> d2 > 0)) \<and> ((d3 > 0 \<and> d4 < 0) \<or> (d3 < 0 \<and> d4 > 0))
      then True
      else (d1 = 0 \<and> on_segment b_start a_start a_end) \<or> (d2 = 0 \<and> on_segment b_end a_start a_end)
        \<or> (d3 = 0 \<and> on_segment a_start b_start b_end) \<or> (d4 = 0 \<and> on_segment a_end b_start b_end))"

text \<open>\<^verbatim>\<open>Fraction(n, d)\<close>, for a denominator that is not zero.\<close>

definition fraction :: "int \<Rightarrow> int \<Rightarrow> rat" where
  "fraction n d = of_int n / of_int d"

definition point_segment_distance_squared :: "point_nm \<Rightarrow> point_nm \<Rightarrow> point_nm \<Rightarrow> rat" where
  "point_segment_distance_squared p s e =
     (let dx = px e - px s; dy = py e - py s; length_squared = dx * dx + dy * dy in
      if length_squared = 0 then
        (let vx = px p - px s; vy = py p - py s in of_int (vx * vx + vy * vy))
      else let projection = (px p - px s) * dx + (py p - py s) * dy in
      if projection \<le> 0 then
        (let vx = px p - px s; vy = py p - py s in of_int (vx * vx + vy * vy))
      else if projection \<ge> length_squared then
        (let vx = px p - px e; vy = py p - py e in of_int (vx * vx + vy * vy))
      else let cr = dx * (py p - py s) - dy * (px p - px s) in fraction (cr * cr) length_squared)"

definition segment_distance_squared :: "point_nm \<Rightarrow> point_nm \<Rightarrow> point_nm \<Rightarrow> point_nm \<Rightarrow> rat" where
  "segment_distance_squared a_start a_end b_start b_end =
     (if segments_intersect a_start a_end b_start b_end then 0
      else Min {point_segment_distance_squared a_start b_start b_end,
                point_segment_distance_squared a_end b_start b_end,
                point_segment_distance_squared b_start a_start a_end,
                point_segment_distance_squared b_end a_start a_end})"

definition kernel_flips :: "point_nm \<Rightarrow> point_nm \<Rightarrow> point_nm \<Rightarrow> bool" where
  "kernel_flips p s e \<longleftrightarrow> (py s > py p) \<noteq> (py e > py p)
     \<and> of_int (px p) < fraction ((px e - px s) * (py p - py s)) (py e - py s) + of_int (px s)"

definition point_in_outline :: "point_nm \<Rightarrow> board_outline \<Rightarrow> bool" where
  "point_in_outline p vs =
     (if length vs < 3 then False
      else ray_loop (\<lambda>(s, e). on_segment p s e) (\<lambda>(s, e). kernel_flips p s e) False (outline_edges vs))"

definition signed_area_twice :: "board_outline \<Rightarrow> int" where
  "signed_area_twice vs = sum_list (map (\<lambda>(s, e). px s * py e - px e * py s) (outline_edges vs))"

text \<open>
  The operations of the \<^verbatim>\<open>GeometryKernel\<close> protocol that the functions below call are
  arguments, as in the source.
\<close>

definition outline_defects ::
  "(point_nm \<Rightarrow> point_nm \<Rightarrow> point_nm \<Rightarrow> point_nm \<Rightarrow> bool) \<Rightarrow> board_outline \<Rightarrow> (string \<times> int list) list" where
  "outline_defects intersect vs =
     (if length vs < 3 then [(''fewer_than_three_vertices'', [int (length vs)])]
      else
        let edges = outline_edges vs; n = length edges;
            defects =
              (if card (set vs) < 3 then [(''fewer_than_three_unique_vertices'', [int (card (set vs))])] else [])
              @ concat (map (\<lambda>i. if fst (edges ! i) = snd (edges ! i) then [(''zero_length_edge'', [int i])] else [])
                  [0..<n])
              @ (if signed_area_twice vs = 0 then [(''zero_area'', [])] else [])
              @ concat (map (\<lambda>i. concat (map (\<lambda>j.
                  if j = i + 1 \<or> (i = 0 \<and> j = n - 1) then []
                  else if intersect (fst (edges ! i)) (snd (edges ! i)) (fst (edges ! j)) (snd (edges ! j))
                  then [(''self_intersection'', [int i, int j])] else []) [i + 1..<n])) [0..<n])
        in sorted_list_of_set (set defects))"

definition min_or_zero :: "rat list \<Rightarrow> rat" where
  "min_or_zero ds = (if ds = [] then 0 else Min (set ds))"

definition minimum_point_outline_distance_squared ::
  "(point_nm \<Rightarrow> point_nm \<Rightarrow> point_nm \<Rightarrow> rat) \<Rightarrow> point_nm \<Rightarrow> board_outline \<Rightarrow> rat" where
  "minimum_point_outline_distance_squared distance p vs =
     min_or_zero (map (\<lambda>(s, e). distance p s e) (outline_edges vs))"

definition minimum_segment_outline_distance_squared ::
  "(point_nm \<Rightarrow> point_nm \<Rightarrow> point_nm \<Rightarrow> point_nm \<Rightarrow> rat) \<Rightarrow> point_nm \<Rightarrow> point_nm \<Rightarrow> board_outline \<Rightarrow> rat" where
  "minimum_segment_outline_distance_squared distance s e vs =
     min_or_zero (map (\<lambda>(es, ee). distance s e es ee) (outline_edges vs))"

definition minimum_outlines_distance_squared ::
  "(point_nm \<Rightarrow> point_nm \<Rightarrow> point_nm \<Rightarrow> point_nm \<Rightarrow> rat) \<Rightarrow> board_outline \<Rightarrow> board_outline \<Rightarrow> rat" where
  "minimum_outlines_distance_squared distance first second =
     min_or_zero (concat (map (\<lambda>(fs, fe). map (\<lambda>(ss, se). distance fs fe ss se) (outline_edges second))
       (outline_edges first)))"

definition outlines_overlap ::
  "(point_nm \<Rightarrow> point_nm \<Rightarrow> point_nm \<Rightarrow> point_nm \<Rightarrow> bool) \<Rightarrow> (point_nm \<Rightarrow> board_outline \<Rightarrow> bool) \<Rightarrow>
   board_outline \<Rightarrow> board_outline \<Rightarrow> bool" where
  "outlines_overlap intersect inside first second =
     (if \<exists>(fs, fe) \<in> set (outline_edges first). \<exists>(ss, se) \<in> set (outline_edges second). intersect fs fe ss se
      then True
      else first \<noteq> [] \<and> second \<noteq> [] \<and> (inside (hd first) second \<or> inside (hd second) first))"

definition rational_less_than_squared :: "rat \<Rightarrow> int \<Rightarrow> bool result" where
  "rational_less_than_squared distance_squared required_distance_nm =
     (if required_distance_nm < 0 then Inl (ValueError ''required distance'')
      else Inr (distance_squared < of_int (required_distance_nm * required_distance_nm)))"

definition points_distance_squared :: "point_nm \<Rightarrow> point_nm \<Rightarrow> int" where
  "points_distance_squared a b = (let dx = px a - px b; dy = py a - py b in dx * dx + dy * dy)"

definition all_distinct :: "string list \<Rightarrow> bool" where
  "all_distinct xs = (length xs = card (set xs))"

end
