(* ===== verification/Geometry_Props.thy ===== *)
theory Geometry_Props
  imports Geometry
begin

text \<open>
  What the predicates of \<^verbatim>\<open>backend/verification/geometry.py\<close> mean: the sign tests decide
  whether two segments share a point, the distances are minima over all the points of the
  segments, and the integer kernel computes what the rational functions compute.
\<close>

section \<open>Segments as sets of points\<close>

definition along :: "exact_point_t \<Rightarrow> exact_point_t \<Rightarrow> rat \<Rightarrow> exact_point_t" where
  "along s e t = \<lparr>qx = qx s + t * (qx e - qx s), qy = qy s + t * (qy e - qy s)\<rparr>"

definition segment :: "exact_point_t \<Rightarrow> exact_point_t \<Rightarrow> exact_point_t set" where
  "segment s e = along s e ` {0..1}"

definition dist2 :: "exact_point_t \<Rightarrow> exact_point_t \<Rightarrow> rat" where
  "dist2 p q = (qx p - qx q)\<^sup>2 + (qy p - qy q)\<^sup>2"

definition least_distance :: "rat \<Rightarrow> exact_point_t set \<Rightarrow> exact_point_t set \<Rightarrow> bool" where
  "least_distance d A B \<longleftrightarrow>
     (\<exists>p \<in> A. \<exists>q \<in> B. dist2 p q = d) \<and> (\<forall>p \<in> A. \<forall>q \<in> B. d \<le> dist2 p q)"

lemma along_sel [simp]:
  "qx (along s e t) = qx s + t * (qx e - qx s)" "qy (along s e t) = qy s + t * (qy e - qy s)"
  by (simp_all add: along_def)

lemma along_ends [simp]: "along s e 0 = s" "along s e 1 = e"
  by (simp_all add: along_def)

lemma along_same [simp]: "along s s t = s"
  by (simp add: along_def)

lemma ends_in_segment [simp]: "s \<in> segment s e" "e \<in> segment s e"
  unfolding segment_def by (force intro: image_eqI [of _ _ 0], force intro: image_eqI [of _ _ 1])

lemma along_in_segment: "0 \<le> t \<Longrightarrow> t \<le> 1 \<Longrightarrow> along s e t \<in> segment s e"
  by (simp add: segment_def)

lemma exact_point_eqI: "qx p = qx q \<Longrightarrow> qy p = qy q \<Longrightarrow> p = (q :: exact_point_t)"
  by simp

lemma dist2_commute: "dist2 p q = dist2 q p"
  by (simp add: dist2_def power2_commute)

lemma dist2_nonneg [simp]: "0 \<le> dist2 p q"
  by (simp add: dist2_def)

lemma dist2_zero_iff [simp]: "dist2 p q = 0 \<longleftrightarrow> p = q"
  by (auto simp: dist2_def sum_power2_eq_zero_iff intro: exact_point_eqI)

lemma least_distance_commute: "least_distance d A B \<longleftrightarrow> least_distance d B A"
  unfolding least_distance_def by (metis dist2_commute)

lemma least_distance_unique: "least_distance d A B \<Longrightarrow> least_distance d' A B \<Longrightarrow> d = d'"
  unfolding least_distance_def by (metis order_antisym)

section \<open>Membership in a segment\<close>

lemma ratio_between:
  fixes a b c :: rat
  assumes "min a b \<le> c" "c \<le> max a b" "a \<noteq> b"
  shows "0 \<le> (c - a) / (b - a)" "(c - a) / (b - a) \<le> 1"
  using assms by (cases "a < b"; auto simp: divide_simps min_def max_def split: if_splits)+

lemma convex_between:
  fixes a b t :: rat
  assumes "0 \<le> t" "t \<le> 1"
  shows "min a b \<le> a + t * (b - a)" "a + t * (b - a) \<le> max a b"
proof -
  have c: "a + t * (b - a) = (1 - t) * a + t * b" by (simp add: algebra_simps)
  show "a + t * (b - a) \<le> max a b"
    unfolding c using assms by (intro convex_bound_le) auto
  have "(1 - t) * (- a) + t * (- b) \<le> - min a b"
    using assms by (intro convex_bound_le) auto
  then show "min a b \<le> a + t * (b - a)" by (simp add: c)
qed

lemma exact_on_segment_along:
  assumes "0 \<le> t" "t \<le> 1"
  shows "exact_on_segment (along s e t) s e"
  using convex_between [OF assms] by (simp add: exact_on_segment_def exact_cross_def)

lemma exact_on_segment_iff: "exact_on_segment p s e \<longleftrightarrow> p \<in> segment s e"
proof
  assume on: "exact_on_segment p s e"
  then have cr: "(qx e - qx s) * (qy p - qy s) = (qy e - qy s) * (qx p - qx s)"
    and bx: "min (qx s) (qx e) \<le> qx p" "qx p \<le> max (qx s) (qx e)"
    and bY: "min (qy s) (qy e) \<le> qy p" "qy p \<le> max (qy s) (qy e)"
    by (simp_all add: exact_on_segment_def exact_cross_def)
  show "p \<in> segment s e"
  proof (cases "qx s = qx e")
    case False
    let ?t = "(qx p - qx s) / (qx e - qx s)"
    have "p = along s e ?t"
      using False cr by (intro exact_point_eqI) (auto simp: field_simps)
    then show ?thesis using ratio_between [OF bx False] along_in_segment by metis
  next
    case eq: True
    then have x: "qx p = qx s" using bx by simp
    show ?thesis
    proof (cases "qy s = qy e")
      case True
      then have "p = s" using x bY by (intro exact_point_eqI) auto
      then show ?thesis by simp
    next
      case False
      let ?t = "(qy p - qy s) / (qy e - qy s)"
      have "p = along s e ?t"
        using False x eq by (intro exact_point_eqI) (auto simp: field_simps)
      then show ?thesis using ratio_between [OF bY False] along_in_segment by metis
    qed
  qed
qed (auto simp: segment_def exact_on_segment_along)

section \<open>Intersection of segments\<close>

lemma exact_cross_along:
  "exact_cross a b (along c d u) = (1 - u) * exact_cross a b c + u * exact_cross a b d"
  by (simp add: exact_cross_def algebra_simps)

lemma exact_cross_in_segment: "p \<in> segment s e \<Longrightarrow> exact_cross s e p = 0"
  by (simp add: exact_on_segment_iff [symmetric] exact_on_segment_def)

definition opposite :: "rat \<Rightarrow> rat \<Rightarrow> bool" where
  "opposite x y \<longleftrightarrow> (x > 0 \<and> y < 0) \<or> (x < 0 \<and> y > 0)"

lemma exact_segments_intersect_cases:
  "exact_segments_intersect as ae bs be \<longleftrightarrow>
     opposite (exact_cross as ae bs) (exact_cross as ae be) \<and>
     opposite (exact_cross bs be as) (exact_cross bs be ae)
   \<or> bs \<in> segment as ae \<or> be \<in> segment as ae \<or> as \<in> segment bs be \<or> ae \<in> segment bs be"
  unfolding exact_segments_intersect_def exact_on_segment_iff Let_def opposite_def
  by (auto dest: exact_cross_in_segment)

lemma opposite_ratio: "opposite x y \<Longrightarrow> 0 \<le> x / (x - y) \<and> x / (x - y) \<le> 1"
  by (auto simp: opposite_def divide_simps)

lemma cross_difference:
  "exact_cross as ae bs - exact_cross as ae be = exact_cross bs be ae - exact_cross bs be as"
  by (simp add: exact_cross_def algebra_simps)

lemma cramer:
  fixes as ae bs be :: exact_point_t
  defines "f \<equiv> exact_cross as ae bs" and "g \<equiv> exact_cross bs be as"
    and "D \<equiv> exact_cross as ae bs - exact_cross as ae be"
  assumes "D \<noteq> 0"
  shows "along as ae (- (g / D)) = along bs be (f / D)"
proof (rule exact_point_eqI)
  have "D * qx as - g * (qx ae - qx as) = D * qx bs + f * (qx be - qx bs)"
    by (simp add: f_def g_def D_def exact_cross_def algebra_simps)
  then show "qx (along as ae (- (g / D))) = qx (along bs be (f / D))"
    using \<open>D \<noteq> 0\<close> by (simp add: field_simps)
  have "D * qy as - g * (qy ae - qy as) = D * qy bs + f * (qy be - qy bs)"
    by (simp add: f_def g_def D_def exact_cross_def algebra_simps)
  then show "qy (along as ae (- (g / D))) = qy (along bs be (f / D))"
    using \<open>D \<noteq> 0\<close> by (simp add: field_simps)
qed

lemma proper_crossing_meets:
  assumes f: "opposite (exact_cross as ae bs) (exact_cross as ae be)"
    and g: "opposite (exact_cross bs be as) (exact_cross bs be ae)"
  shows "segment as ae \<inter> segment bs be \<noteq> {}"
proof -
  let ?D = "exact_cross as ae bs - exact_cross as ae be"
  have D: "?D \<noteq> 0" using f by (auto simp: opposite_def)
  have t: "- (exact_cross bs be as / ?D) = exact_cross bs be as / (exact_cross bs be as - exact_cross bs be ae)"
    unfolding cross_difference minus_divide_right by simp
  show ?thesis
    using cramer [OF D] opposite_ratio [OF f] opposite_ratio [OF g] along_in_segment unfolding t
    by (metis disjoint_iff)
qed

lemma parameter_outside:
  fixes t t1 t2 u :: rat
  assumes "t = (1 - u) * t1 + u * t2" "0 \<le> u" "u \<le> 1" "0 \<le> t" "t \<le> 1"
    and "\<not> (0 \<le> t1 \<and> t1 \<le> 1)" "\<not> (0 \<le> t2 \<and> t2 \<le> 1)"
  shows "t1 < 0 \<and> 1 < t2 \<or> t2 < 0 \<and> 1 < t1"
proof -
  have "\<not> (t1 < 0 \<and> t2 < 0)"
  proof
    assume "t1 < 0 \<and> t2 < 0"
    then have "(1 - u) * t1 + u * t2 < 0" using assms(2,3)
      by (intro convex_bound_lt) auto
    then show False using assms by simp
  qed
  moreover have "\<not> (1 < t1 \<and> 1 < t2)"
  proof
    assume "1 < t1 \<and> 1 < t2"
    then have "(1 - u) * (- t1) + u * (- t2) < - 1" using assms(2,3)
      by (intro convex_bound_lt) auto
    then show False using assms by simp
  qed
  ultimately show ?thesis using assms by linarith
qed

lemma along_parameter:
  assumes "exact_cross s e p = 0" "s \<noteq> e"
  shows "\<exists>t. p = along s e t"
proof (cases "qx s = qx e")
  case False
  then have "p = along s e ((qx p - qx s) / (qx e - qx s))"
    using assms by (intro exact_point_eqI) (auto simp: exact_cross_def field_simps)
  then show ?thesis ..
next
  case True
  then have "qy s \<noteq> qy e" using assms by (auto intro: exact_point_eqI)
  moreover from this have "qx p = qx e" using assms True by (simp add: exact_cross_def)
  ultimately have "p = along s e ((qy p - qy s) / (qy e - qy s))"
    using True by (intro exact_point_eqI) (auto simp: field_simps)
  then show ?thesis ..
qed

lemma along_along: "along (along s e t) (along s e u) v = along s e ((1 - v) * t + v * u)"
  by (rule exact_point_eqI) (simp_all add: algebra_simps)

lemma along_inject: "s \<noteq> e \<Longrightarrow> along s e t = along s e u \<longleftrightarrow> t = u"
  by (cases s; cases e) (auto simp: along_def)

text \<open>When a segment contains the unit interval of a line's parameter, it contains both ends.\<close>

lemma parameter_inside:
  assumes "t1 < 0 \<and> 1 < t2 \<or> t2 < 0 \<and> 1 < (t1 :: rat)"
  shows "s \<in> segment (along s e t1) (along s e t2)"
proof -
  let ?v = "t1 / (t1 - t2)"
  have "(1 - ?v) * t1 + ?v * t2 = 0" "0 \<le> ?v" "?v \<le> 1"
    using assms by (auto simp: field_simps)
  then show ?thesis
    using along_in_segment [of ?v "along s e t1" "along s e t2"] by (simp add: along_along)
qed

lemma collinear_meets:
  assumes fa: "exact_cross as ae bs = 0" and fb: "exact_cross as ae be = 0"
    and "p \<in> segment as ae" "p \<in> segment bs be"
  shows "bs \<in> segment as ae \<or> be \<in> segment as ae \<or> as \<in> segment bs be"
proof (cases "as = ae")
  case True
  then have "p = as" using assms(3) by (auto simp: segment_def along_def)
  then show ?thesis using assms(4) by simp
next
  case False
  obtain t1 t2 where b: "bs = along as ae t1" "be = along as ae t2"
    using along_parameter [OF fa False] along_parameter [OF fb False] by blast
  obtain t where t: "p = along as ae t" "0 \<le> t" "t \<le> 1" using assms(3) by (auto simp: segment_def)
  obtain u where u: "p = along bs be u" "0 \<le> u" "u \<le> 1" using assms(4) by (auto simp: segment_def)
  have "t = (1 - u) * t1 + u * t2"
    using t(1) u(1) by (simp add: b along_along along_inject [OF False])
  from parameter_outside [OF this u(2,3) t(2,3)] show ?thesis
    using parameter_inside [of t1 t2 as ae] along_in_segment unfolding b by blast
qed

lemma weak_same_sign:
  fixes x y u :: rat
  assumes "(1 - u) * x + u * y = 0" "0 < u" "u < 1" "\<not> opposite x y"
  shows "x = 0 \<and> y = 0"
proof -
  have "x \<ge> 0 \<and> y \<ge> 0 \<or> x \<le> 0 \<and> y \<le> 0" using assms(4) by (auto simp: opposite_def)
  then have "(1 - u) * x = 0 \<and> u * y = 0"
  proof
    assume "x \<ge> 0 \<and> y \<ge> 0"
    then show ?thesis using assms(1-3) by (simp add: add_nonneg_eq_0_iff)
  next
    assume "x \<le> 0 \<and> y \<le> 0"
    then show ?thesis using assms(1-3) by (simp add: add_nonpos_eq_0_iff mult_nonneg_nonpos)
  qed
  then show ?thesis using assms by simp
qed

lemma meets_not_proper:
  assumes "\<not> opposite (exact_cross as ae bs) (exact_cross as ae be)"
    and p: "p \<in> segment as ae" "p \<in> segment bs be"
  shows "bs \<in> segment as ae \<or> be \<in> segment as ae \<or> as \<in> segment bs be"
proof -
  obtain u where u: "p = along bs be u" "0 \<le> u" "u \<le> 1" using p(2) by (auto simp: segment_def)
  consider "u = 0" | "u = 1" | "0 < u" "u < 1" using u by linarith
  then show ?thesis
  proof cases
    case 3
    have "(1 - u) * exact_cross as ae bs + u * exact_cross as ae be = 0"
      using exact_cross_in_segment [OF p(1)] by (simp add: u(1) exact_cross_along)
    from weak_same_sign [OF this 3 assms(1)] show ?thesis using collinear_meets [OF _ _ p] by blast
  qed (use p u in auto)
qed

lemma exact_segments_intersect_iff:
  "exact_segments_intersect as ae bs be \<longleftrightarrow> segment as ae \<inter> segment bs be \<noteq> {}"
proof
  assume "exact_segments_intersect as ae bs be"
  then show "segment as ae \<inter> segment bs be \<noteq> {}"
    unfolding exact_segments_intersect_cases using proper_crossing_meets ends_in_segment by blast
next
  assume "segment as ae \<inter> segment bs be \<noteq> {}"
  then show "exact_segments_intersect as ae bs be"
    unfolding exact_segments_intersect_cases
    using meets_not_proper [of as ae bs be] meets_not_proper [of bs be as ae] by blast
qed

section \<open>Distance of a point from a segment\<close>

definition length2 :: "exact_point_t \<Rightarrow> exact_point_t \<Rightarrow> rat" where
  "length2 s e = (qx e - qx s) * (qx e - qx s) + (qy e - qy s) * (qy e - qy s)"

definition projection :: "exact_point_t \<Rightarrow> exact_point_t \<Rightarrow> exact_point_t \<Rightarrow> rat" where
  "projection p s e = (qx p - qx s) * (qx e - qx s) + (qy p - qy s) * (qy e - qy s)"

lemma exact_point_segment_distance_squared_cases:
  "exact_point_segment_distance_squared p s e =
     (if length2 s e = 0 \<or> projection p s e \<le> 0 then dist2 p s
      else if length2 s e \<le> projection p s e then dist2 p e
      else (exact_cross s e p)\<^sup>2 / length2 s e)"
  by (simp add: exact_point_segment_distance_squared_def length2_def projection_def Let_def
      dist2_def exact_cross_def power2_eq_square)

lemma length2_pos: "length2 s e \<noteq> 0 \<Longrightarrow> 0 < length2 s e"
  unfolding length2_def by (simp add: power2_eq_square [symmetric] order_less_le)

lemma length2_zero_iff: "length2 s e = 0 \<longleftrightarrow> s = e"
  unfolding length2_def
  by (auto simp: power2_eq_square [symmetric] sum_power2_eq_zero_iff intro: exact_point_eqI)

lemma dist2_along:
  "dist2 p (along s e t) = dist2 p s - 2 * t * projection p s e + t\<^sup>2 * length2 s e"
  by (simp add: dist2_def projection_def length2_def power2_eq_square algebra_simps)

lemma dist2_end: "dist2 p e = dist2 p s - 2 * projection p s e + length2 s e"
  using dist2_along [of p s e 1] by simp

lemma dist2_along_scaled:
  "length2 s e * dist2 p (along s e t) =
     (exact_cross s e p)\<^sup>2 + (projection p s e - t * length2 s e)\<^sup>2"
  by (simp add: dist2_def projection_def length2_def exact_cross_def power2_eq_square algebra_simps)

lemma least_distance_pointI:
  assumes "0 \<le> u" "u \<le> 1" "d = dist2 p (along s e u)"
    and "\<And>t. 0 \<le> t \<Longrightarrow> t \<le> 1 \<Longrightarrow> d \<le> dist2 p (along s e t)"
  shows "least_distance d {p} (segment s e)"
  using assms along_in_segment unfolding least_distance_def by (auto simp: segment_def)

lemma beyond_end:
  fixes t P L :: rat
  assumes "t \<le> 1" "0 \<le> L" "L \<le> P"
  shows "L - 2 * P \<le> t\<^sup>2 * L - 2 * t * P"
proof -
  have "L * (1 + t) \<le> L * 2" using assms by (intro mult_left_mono) auto
  then have "0 \<le> (1 - t) * (2 * P - L * (1 + t))" using assms by (intro mult_nonneg_nonneg) auto
  then show ?thesis by (simp add: algebra_simps power2_eq_square)
qed

lemma point_segment_distance_least:
  "least_distance (exact_point_segment_distance_squared p s e) {p} (segment s e)"
proof -
  let ?L = "length2 s e" and ?P = "projection p s e" and ?d = "exact_point_segment_distance_squared p s e"
  consider "s = e" | "?L \<noteq> 0" "?P \<le> 0" | "?L \<noteq> 0" "0 < ?P" "?L \<le> ?P" | "?L \<noteq> 0" "0 < ?P" "?P < ?L"
    using length2_zero_iff by fastforce
  then show ?thesis
  proof cases
    case 1
    then show ?thesis
      by (intro least_distance_pointI [of 0])
         (simp_all add: exact_point_segment_distance_squared_cases length2_def)
  next
    case 2
    have "0 \<le> t\<^sup>2 * ?L - 2 * t * ?P" if "0 \<le> t" for t
    proof -
      have "0 \<le> t\<^sup>2 * ?L" using length2_pos [OF 2(1)] by simp
      moreover have "2 * t * ?P \<le> 0" using that 2(2) by (simp add: mult_nonneg_nonpos)
      ultimately show ?thesis by linarith
    qed
    then show ?thesis using 2
      by (intro least_distance_pointI [of 0])
         (simp_all add: exact_point_segment_distance_squared_cases dist2_along)
  next
    case 3
    show ?thesis using 3 beyond_end [OF _ less_imp_le [OF length2_pos [OF 3(1)]] 3(3)]
      by (intro least_distance_pointI [of 1])
         (simp_all add: exact_point_segment_distance_squared_cases dist2_along dist2_end [of p e s] algebra_simps)
  next
    case 4
    then have d: "?d = (exact_cross s e p)\<^sup>2 / ?L"
      by (simp add: exact_point_segment_distance_squared_cases)
    have pos: "0 < ?L" using length2_pos 4 by blast
    have "?L * dist2 p (along s e (?P / ?L)) = ?L * ?d"
      unfolding dist2_along_scaled d using pos by simp
    then have "?d = dist2 p (along s e (?P / ?L))" using pos by simp
    moreover have "?L * ?d \<le> ?L * dist2 p (along s e t)" for t
      unfolding dist2_along_scaled d using pos by simp
    ultimately show ?thesis using 4 pos by (intro least_distance_pointI [of "?P / ?L"]) simp_all
  qed
qed

section \<open>Distance of two segments\<close>

text \<open>
  The pairs of points of two segments are the parameters in the unit square. From any pair, the
  difference of the two points can be scaled down, or kept when the segments are parallel, along
  a straight line of parameters that leaves the square; so some pair with one point at an end of
  its segment is at most as far apart, or the segments meet.
\<close>

lemma leave_interval:
  fixes t t' lo hi :: rat
  assumes "lo \<le> t" "t \<le> hi"
  shows "\<exists>s. 0 \<le> s \<and> s \<le> 1 \<and> (\<forall>r. 0 \<le> r \<longrightarrow> r \<le> s \<longrightarrow> lo \<le> t + r * (t' - t) \<and> t + r * (t' - t) \<le> hi)
     \<and> (if lo \<le> t' \<and> t' \<le> hi then s = 1 else t + s * (t' - t) \<in> {lo, hi})"
proof -
  define s where "s = (if t' < lo then (t - lo) / (t - t') else if hi < t' then (hi - t) / (t' - t) else 1)"
  have s: "0 \<le> s" "s \<le> 1" "if lo \<le> t' \<and> t' \<le> hi then s = 1 else t + s * (t' - t) \<in> {lo, hi}"
    using assms by (auto simp: s_def field_simps)
  have e: "lo \<le> t + s * (t' - t)" "t + s * (t' - t) \<le> hi"
    using s(3) assms by (auto split: if_splits)
  have "lo \<le> t + r * (t' - t) \<and> t + r * (t' - t) \<le> hi" if "0 \<le> r" "r \<le> s" for r
  proof (cases "t \<le> t'")
    case True
    then have "0 \<le> r * (t' - t)" "r * (t' - t) \<le> s * (t' - t)"
      using that by (auto intro: mult_right_mono)
    then show ?thesis using assms e by linarith
  next
    case False
    then have "r * (t' - t) \<le> 0" "s * (t' - t) \<le> r * (t' - t)"
      using that by (auto intro: mult_nonneg_nonpos mult_right_mono_neg)
    then show ?thesis using assms e by linarith
  qed
  with s show ?thesis by blast
qed

lemma leave_rectangle:
  fixes t t' u u' a b c d :: rat
  assumes "a \<le> t" "t \<le> b" "c \<le> u" "u \<le> d" "\<not> (a \<le> t' \<and> t' \<le> b \<and> c \<le> u' \<and> u' \<le> d)"
  obtains s where "0 \<le> s" "s \<le> 1"
    "a \<le> t + s * (t' - t)" "t + s * (t' - t) \<le> b" "c \<le> u + s * (u' - u)" "u + s * (u' - u) \<le> d"
    "t + s * (t' - t) \<in> {a, b} \<or> u + s * (u' - u) \<in> {c, d}"
proof -
  obtain s1 where 1: "0 \<le> s1" "s1 \<le> 1"
    "\<And>r. 0 \<le> r \<Longrightarrow> r \<le> s1 \<Longrightarrow> a \<le> t + r * (t' - t) \<and> t + r * (t' - t) \<le> b"
    "if a \<le> t' \<and> t' \<le> b then s1 = 1 else t + s1 * (t' - t) \<in> {a, b}"
    using leave_interval [OF assms(1,2), of t'] by blast
  obtain s2 where 2: "0 \<le> s2" "s2 \<le> 1"
    "\<And>r. 0 \<le> r \<Longrightarrow> r \<le> s2 \<Longrightarrow> c \<le> u + r * (u' - u) \<and> u + r * (u' - u) \<le> d"
    "if c \<le> u' \<and> u' \<le> d then s2 = 1 else u + s2 * (u' - u) \<in> {c, d}"
    using leave_interval [OF assms(3,4), of u'] by blast
  show thesis
  proof (cases "s1 \<le> s2")
    case True
    then show thesis using that [of s1] 1 2 assms(5) by (auto split: if_splits)
  next
    case False
    then show thesis using that [of s2] 1 2 assms(5) by (auto split: if_splits)
  qed
qed

definition slide :: "exact_point_t \<Rightarrow> exact_point_t \<Rightarrow> exact_point_t \<Rightarrow> exact_point_t \<Rightarrow>
  rat \<Rightarrow> rat \<Rightarrow> rat" where
  "slide as ae bs be t u = dist2 (along as ae t) (along bs be u)"

lemma dist2_scaled:
  assumes "qx p - qx q = c * (qx p' - qx q')" "qy p - qy q = c * (qy p' - qy q')" "0 \<le> c" "c \<le> 1"
  shows "dist2 p q \<le> dist2 p' q'"
proof -
  have "dist2 p q = c\<^sup>2 * dist2 p' q'"
    unfolding dist2_def assms(1,2) by (simp only: power_mult_distrib distrib_left)
  then show ?thesis
    using assms(3,4) by (simp add: mult_left_le_one_le power_le_one)
qed

lemma slide_to_common_point:
  assumes "along as ae t' = along bs be u'" "0 \<le> s" "s \<le> 1"
  shows "slide as ae bs be (t + s * (t' - t)) (u + s * (u' - u)) \<le> slide as ae bs be t u"
proof -
  have x: "qx as + t' * (qx ae - qx as) = qx bs + u' * (qx be - qx bs)"
    and y: "qy as + t' * (qy ae - qy as) = qy bs + u' * (qy be - qy bs)"
    using arg_cong [OF assms(1), of qx] arg_cong [OF assms(1), of qy] by simp_all
  show ?thesis unfolding slide_def
  proof (rule dist2_scaled [of _ _ "1 - s"])
    show "qx (along as ae (t + s * (t' - t))) - qx (along bs be (u + s * (u' - u))) =
        (1 - s) * (qx (along as ae t) - qx (along bs be u))"
      using arg_cong [OF x, of "\<lambda>z. s * z"] by (simp add: algebra_simps)
    show "qy (along as ae (t + s * (t' - t))) - qy (along bs be (u + s * (u' - u))) =
        (1 - s) * (qy (along as ae t) - qy (along bs be u))"
      using arg_cong [OF y, of "\<lambda>z. s * z"] by (simp add: algebra_simps)
  qed (use assms in auto)
qed

lemma slide_parallel:
  assumes "a * (qx ae - qx as) = b * (qx be - qx bs)" "a * (qy ae - qy as) = b * (qy be - qy bs)"
  shows "slide as ae bs be (t + s * a) (u + s * b) = slide as ae bs be t u"
  unfolding slide_def dist2_def along_sel
  using arg_cong [OF assms(1), of "\<lambda>z. s * z"] arg_cong [OF assms(2), of "\<lambda>z. s * z"]
  by (simp add: algebra_simps)

lemma parallel_direction:
  assumes "exact_cross as ae bs = exact_cross as ae be"
  obtains a b :: rat where "a = 2 \<or> b = 2"
    "a * (qx ae - qx as) = b * (qx be - qx bs)" "a * (qy ae - qy as) = b * (qy be - qy bs)"
proof -
  have D: "(qx ae - qx as) * (qy be - qy bs) = (qy ae - qy as) * (qx be - qx bs)"
    using assms by (simp add: exact_cross_def algebra_simps)
  consider "as = ae" | "qx ae \<noteq> qx as" | "qx ae = qx as" "qy ae \<noteq> qy as"
    using exact_point_eqI by metis
  then show thesis
  proof cases
    case 1
    then show thesis using that [of 2 0] by simp
  next
    case 2
    then show thesis using that [of "2 * (qx be - qx bs) / (qx ae - qx as)" 2] D
      by (simp add: divide_simps) (simp add: algebra_simps)
  next
    case 3
    then show thesis using that [of "2 * (qy be - qy bs) / (qy ae - qy as)" 2] D by simp
  qed
qed

lemma slide_to_end:
  assumes "segment as ae \<inter> segment bs be = {}" "0 \<le> t" "t \<le> 1" "0 \<le> u" "u \<le> 1"
  obtains v w where "0 \<le> v" "v \<le> 1" "0 \<le> w" "w \<le> 1" "v \<in> {0, 1} \<or> w \<in> {0, 1}"
    "slide as ae bs be v w \<le> slide as ae bs be t u"
proof (cases "exact_cross as ae bs = exact_cross as ae be")
  case False
  then obtain t' u' where c: "along as ae t' = along bs be u'" using cramer by fastforce
  then have "\<not> (0 \<le> t' \<and> t' \<le> 1 \<and> 0 \<le> u' \<and> u' \<le> 1)"
    using assms(1) along_in_segment by (metis disjoint_iff)
  from leave_rectangle [OF assms(2-5) this] show thesis
    using that slide_to_common_point [OF c] by metis
next
  case True
  obtain a b where ab: "a = 2 \<or> b = 2"
    "a * (qx ae - qx as) = b * (qx be - qx bs)" "a * (qy ae - qy as) = b * (qy be - qy bs)"
    using parallel_direction [OF True] .
  have "\<not> (0 \<le> t + a \<and> t + a \<le> 1 \<and> 0 \<le> u + b \<and> u + b \<le> 1)" using ab(1) assms by auto
  from leave_rectangle [OF assms(2-5) this] obtain s where
    "0 \<le> t + s * a" "t + s * a \<le> 1" "0 \<le> u + s * b" "u + s * b \<le> 1"
    "t + s * a \<in> {0, 1} \<or> u + s * b \<in> {0, 1}" by auto
  then show thesis using that slide_parallel [OF ab(2,3)] order_refl by metis
qed

lemma point_segment_distance_le:
  assumes "0 \<le> u" "u \<le> 1"
  shows "exact_point_segment_distance_squared p s e \<le> dist2 p (along s e u)"
    "exact_point_segment_distance_squared p s e \<le> dist2 (along s e u) p"
  using point_segment_distance_least [of p s e] along_in_segment [OF assms, of s e]
  by (auto simp: least_distance_def dist2_commute)

lemma point_segment_distance_attained:
  obtains q where "q \<in> segment s e" "exact_point_segment_distance_squared p s e = dist2 p q"
  using point_segment_distance_least [of p s e] by (auto simp: least_distance_def)

lemma segment_distance_least:
  "least_distance (exact_segment_distance_squared as ae bs be) (segment as ae) (segment bs be)"
proof (cases "segment as ae \<inter> segment bs be = {}")
  case False
  then show ?thesis
    by (auto simp: exact_segment_distance_squared_def exact_segments_intersect_iff least_distance_def)
next
  case True
  let ?d = exact_point_segment_distance_squared
  let ?S = "{?d as bs be, ?d ae bs be, ?d bs as ae, ?d be as ae}"
  have d: "exact_segment_distance_squared as ae bs be = Min ?S"
    using True by (simp add: exact_segment_distance_squared_def exact_segments_intersect_iff)
  have "Min ?S \<in> ?S" by (rule Min_in) auto
  moreover have "\<exists>p \<in> segment as ae. \<exists>q \<in> segment bs be. dist2 p q = x" if "x \<in> ?S" for x
    using that point_segment_distance_attained dist2_commute ends_in_segment
    by (metis empty_iff insert_iff)
  moreover have "Min ?S \<le> dist2 p q" if "p \<in> segment as ae" "q \<in> segment bs be" for p q
  proof -
    obtain t u where tu: "p = along as ae t" "q = along bs be u" "0 \<le> t" "t \<le> 1" "0 \<le> u" "u \<le> 1"
      using \<open>p \<in> segment as ae\<close> \<open>q \<in> segment bs be\<close> by (auto simp: segment_def)
    obtain v w where vw: "0 \<le> v" "v \<le> 1" "0 \<le> w" "w \<le> 1" "v \<in> {0, 1} \<or> w \<in> {0, 1}"
      "slide as ae bs be v w \<le> dist2 p q"
      using slide_to_end [OF True tu(3-6)] by (metis slide_def tu(1,2))
    have "\<exists>x \<in> ?S. x \<le> slide as ae bs be v w"
      using vw(5) point_segment_distance_le [OF vw(1,2)] point_segment_distance_le [OF vw(3,4)]
      by (auto simp: slide_def)
    then obtain x where x: "x \<in> ?S" "x \<le> slide as ae bs be v w" ..
    have "Min ?S \<le> x" using x(1) by (intro Min_le) auto
    then show ?thesis using x(2) vw(6) by linarith
  qed
  ultimately show ?thesis unfolding least_distance_def d by blast
qed

section \<open>The integer kernel computes the rational functions\<close>

lemma exact_point_sel [simp]:
  "qx (exact_point p) = of_int (px p)" "qy (exact_point p) = of_int (py p)"
  by (simp_all add: exact_point_def)

lemma exact_cross_int: "exact_cross (exact_point a) (exact_point b) (exact_point c) = of_int (cross a b c)"
  by (simp add: exact_cross_def cross_def)

lemma on_segment_exact: "exact_on_segment (exact_point p) (exact_point s) (exact_point e) = on_segment p s e"
  unfolding exact_on_segment_def on_segment_def exact_cross_int
  by (simp add: min_def max_def)

lemma segments_intersect_exact:
  "exact_segments_intersect (exact_point a) (exact_point b) (exact_point c) (exact_point d) =
   segments_intersect a b c d"
  unfolding exact_segments_intersect_def segments_intersect_def exact_cross_int on_segment_exact Let_def
    of_int_0_less_iff of_int_less_0_iff of_int_eq_0_iff ..

lemma point_segment_distance_exact:
  "exact_point_segment_distance_squared (exact_point p) (exact_point s) (exact_point e) =
   point_segment_distance_squared p s e"
proof -
  have e: "of_int (px a) - of_int (px b) = (of_int (px a - px b) :: rat)"
    "of_int (py a) - of_int (py b) = (of_int (py a - py b) :: rat)" for a b by simp_all
  show ?thesis
    unfolding exact_point_segment_distance_squared_def point_segment_distance_squared_def Let_def
      fraction_def exact_point_sel e of_int_mult [symmetric] of_int_add [symmetric]
      of_int_diff [symmetric] of_int_eq_0_iff of_int_le_0_iff of_int_le_iff ..
qed

lemma segment_distance_exact:
  "exact_segment_distance_squared (exact_point a) (exact_point b) (exact_point c) (exact_point d) =
   segment_distance_squared a b c d"
  by (simp add: exact_segment_distance_squared_def segment_distance_squared_def
      segments_intersect_exact point_segment_distance_exact)

lemma flips_exact: "exact_flips (exact_point p) (exact_point s) (exact_point e) = kernel_flips p s e"
  by (simp add: exact_flips_def kernel_flips_def fraction_def)

lemma point_in_outline_exact: "exact_point_in_outline (exact_point p) vs = point_in_outline p vs"
  by (simp add: exact_point_in_outline_def point_in_outline_def on_segment_exact flips_exact)

end
