(* ===== verification/Geometry_Kernel.thy ===== *)
theory Geometry_Kernel
  imports Geometry_Props "HOL-Library.Multiset"
begin

text \<open>
  The contract of the \<^verbatim>\<open>GeometryKernel\<close> protocol of \<^verbatim>\<open>backend/verification/geometry.py\<close>
  as a locale, the functions on outlines as its clients, and the interpretation of the contract
  on \<^verbatim>\<open>ExactGeometryKernel\<close>.
\<close>

section \<open>The point-in-outline test\<close>

lemma outline_edges_zip: "2 \<le> length vs \<Longrightarrow> outline_edges vs = zip vs (rotate1 vs)"
  by (rule nth_equalityI) (auto simp: outline_edges_def nth_rotate1)

lemma outline_edges_short [simp]: "length vs < 2 \<Longrightarrow> outline_edges vs = []"
  by (simp add: outline_edges_def)

lemma length_outline_edges: "2 \<le> length vs \<Longrightarrow> length (outline_edges vs) = length vs"
  by (simp add: outline_edges_def)

lemma ray_loop_parity:
  "ray_loop on flips inside es \<longleftrightarrow> (\<exists>e \<in> set es. on e) \<or> inside \<noteq> odd (length (filter flips es))"
  by (induction es arbitrary: inside) auto

definition straddles :: "point_nm \<Rightarrow> point_nm \<Rightarrow> point_nm \<Rightarrow> bool" where
  "straddles p s e \<longleftrightarrow> (py s > py p) \<noteq> (py e > py p)"

definition crossing_x :: "point_nm \<Rightarrow> point_nm \<Rightarrow> point_nm \<Rightarrow> rat" where
  "crossing_x p s e = of_int (px s) + (of_int (py p) - of_int (py s)) / (of_int (py e) - of_int (py s))
     * (of_int (px e) - of_int (px s))"

lemma kernel_flips_crossing:
  "kernel_flips p s e \<longleftrightarrow> straddles p s e \<and> of_int (px p) < crossing_x p s e"
  by (simp add: kernel_flips_def straddles_def crossing_x_def fraction_def add.commute mult.commute)

lemma crossing_x_between:
  assumes "straddles p s e"
  shows "of_int (min (px s) (px e)) \<le> crossing_x p s e" "crossing_x p s e \<le> of_int (max (px s) (px e))"
proof -
  let ?t = "(of_int (py p) - of_int (py s)) / (of_int (py e) - of_int (py s)) :: rat"
  have "0 \<le> ?t" "?t \<le> 1"
    using assms by (auto simp: straddles_def divide_simps)
  then show "of_int (min (px s) (px e)) \<le> crossing_x p s e" "crossing_x p s e \<le> of_int (max (px s) (px e))"
    using convex_between [of ?t "of_int (px s)" "of_int (px e)"] unfolding crossing_x_def
    by (simp_all add: of_int_min of_int_max)
qed

lemma kernel_flips_swap: "kernel_flips p s e = kernel_flips p e s"
proof (cases "straddles p s e")
  case True
  then have "of_int (py e) - of_int (py s) \<noteq> (0 :: rat)" by (auto simp: straddles_def)
  then have "crossing_x p s e = crossing_x p e s" by (simp add: crossing_x_def divide_simps) (simp add: algebra_simps)
  then show ?thesis by (auto simp: kernel_flips_crossing straddles_def)
qed (auto simp: kernel_flips_crossing straddles_def)

lemma on_segment_swap: "on_segment p s e = on_segment p e s"
  by (auto simp: on_segment_def cross_def min.commute max.commute algebra_simps)

lemma point_in_outline_parity:
  "point_in_outline p vs \<longleftrightarrow> 3 \<le> length vs \<and>
     ((\<exists>(s, e) \<in> set (outline_edges vs). on_segment p s e)
      \<or> odd (length (filter (\<lambda>(s, e). kernel_flips p s e) (outline_edges vs))))"
  by (auto simp: point_in_outline_def ray_loop_parity)

text \<open>The test depends on the edges as unordered pairs, with their multiplicity.\<close>

definition edge_swap :: "point_nm \<times> point_nm \<Rightarrow> point_nm \<times> point_nm" where
  "edge_swap = (\<lambda>(s, e). (e, s))"

lemma same_edges_same_test:
  assumes "mset (outline_edges ws) = mset (outline_edges vs)
      \<or> mset (outline_edges ws) = image_mset edge_swap (mset (outline_edges vs))"
    and "length ws = length vs"
  shows "point_in_outline p ws = point_in_outline p vs"
proof -
  have count: "length (filter P es) = size (filter_mset P (mset es))" for P and es :: "(point_nm \<times> point_nm) list"
    by (metis mset_filter size_mset)
  have swap: "(\<lambda>(s, e). kernel_flips p s e) \<circ> edge_swap = (\<lambda>(s, e). kernel_flips p s e)"
    by (auto simp: edge_swap_def kernel_flips_swap fun_eq_iff)
  show ?thesis using assms(1)
  proof
    assume m: "mset (outline_edges ws) = mset (outline_edges vs)"
    then have "set (outline_edges ws) = set (outline_edges vs)" by (rule mset_eq_setD)
    then show ?thesis using assms(2) by (simp add: point_in_outline_parity count m)
  next
    assume m: "mset (outline_edges ws) = image_mset edge_swap (mset (outline_edges vs))"
    then have "set (outline_edges ws) = edge_swap ` set (outline_edges vs)"
      by (metis set_image_mset set_mset_mset)
    then have "(\<exists>(s, e) \<in> set (outline_edges ws). on_segment p s e)
        = (\<exists>(s, e) \<in> set (outline_edges vs). on_segment p s e)"
      by (auto simp: edge_swap_def on_segment_swap split: prod.splits)
    moreover have "size (filter_mset (\<lambda>(s, e). kernel_flips p s e) (mset (outline_edges ws)))
        = size (filter_mset (\<lambda>(s, e). kernel_flips p s e) (mset (outline_edges vs)))"
      unfolding m by (simp add: filter_mset_image_mset swap [unfolded comp_def] comp_def)
    ultimately show ?thesis using assms(2) by (simp add: point_in_outline_parity count)
  qed
qed

lemma mset_rotate1 [simp]: "mset (rotate1 xs) = mset xs"
  by (cases xs) simp_all

lemma zip_rotate1: "length xs = length ys \<Longrightarrow> zip (rotate1 xs) (rotate1 ys) = rotate1 (zip xs ys)"
  by (cases xs; cases ys) simp_all

lemma outline_edges_rotate1: "outline_edges (rotate1 vs) = rotate1 (outline_edges vs)"
  by (cases "2 \<le> length vs") (simp_all add: outline_edges_zip zip_rotate1)

lemma outline_edges_rev:
  "mset (outline_edges (rev vs)) = image_mset edge_swap (mset (outline_edges vs))"
proof (cases "2 \<le> length vs")
  case True
  obtain w us where vs: "vs = us @ [w]" using True by (cases vs rule: rev_cases) auto
  define ws where "ws = w # us"
  have ws: "rotate1 ws = vs" "length ws = length vs" "rotate1 (rev vs) = rev ws"
    by (simp_all add: ws_def vs)
  have "mset (outline_edges (rev vs)) = mset (zip (rev vs) (rev ws))"
    using True by (simp add: outline_edges_zip ws)
  also have "\<dots> = mset (zip (rotate1 ws) ws)"
    by (simp add: zip_rev ws)
  also have "\<dots> = image_mset edge_swap (mset (zip ws (rotate1 ws)))"
    by (simp add: edge_swap_def zip_commute [of "rotate1 ws"] mset_map [symmetric] del: mset_map)
  also have "mset (zip ws (rotate1 ws)) = mset (outline_edges ws)"
    using True ws by (simp add: outline_edges_zip)
  also have "\<dots> = mset (outline_edges vs)"
    using outline_edges_rotate1 [of ws] ws by simp
  finally show ?thesis .
qed simp

lemma point_in_outline_rotate: "point_in_outline p (rotate n vs) = point_in_outline p vs"
proof (induction n)
  case (Suc n)
  have "point_in_outline p (rotate1 (rotate n vs)) = point_in_outline p (rotate n vs)"
    by (rule same_edges_same_test) (simp_all add: outline_edges_rotate1)
  then show ?case using Suc by simp
qed simp

lemma point_in_outline_rev: "point_in_outline p (rev vs) = point_in_outline p vs"
  by (rule same_edges_same_test) (simp_all add: outline_edges_rev)

text \<open>A closed chain of vertices crosses a horizontal line an even number of times.\<close>

lemma chain_crossings:
  fixes b :: "point_nm \<Rightarrow> bool"
  shows "odd (length (filter (\<lambda>(s, e). b s \<noteq> b e) (zip (v # vs) (vs @ [w])))) \<longleftrightarrow> b v \<noteq> b w"
proof (induction vs arbitrary: v)
  case (Cons u vs)
  then show ?case using Cons.IH [of u] by (cases "b v = b u") simp_all
qed simp

lemma closed_crossings:
  fixes b :: "point_nm \<Rightarrow> bool"
  shows "even (length (filter (\<lambda>(s, e). b s \<noteq> b e) (zip vs (rotate1 vs))))"
proof (cases vs)
  case (Cons v us)
  then show ?thesis using chain_crossings [of b v us v] by simp
qed simp

lemma edge_ends: "(s, e) \<in> set (outline_edges vs) \<Longrightarrow> s \<in> set vs \<and> e \<in> set vs"
  by (cases "2 \<le> length vs") (auto simp: outline_edges_zip dest: set_zip_leftD set_zip_rightD)

definition in_box :: "point_nm \<Rightarrow> board_outline \<Rightarrow> bool" where
  "in_box p vs \<longleftrightarrow> (\<exists>v \<in> set vs. px v \<le> px p) \<and> (\<exists>v \<in> set vs. px p \<le> px v)
     \<and> (\<exists>v \<in> set vs. py v \<le> py p) \<and> (\<exists>v \<in> set vs. py p \<le> py v)"

lemma on_segment_in_box:
  assumes "on_segment p s e" "s \<in> set vs" "e \<in> set vs"
  shows "in_box p vs"
  using assms by (auto simp: on_segment_def in_box_def min_def max_def split: if_splits)

lemma crossing_not_left:
  assumes "straddles p s e" "px p < px s" "px p < px e"
  shows "of_int (px p) < crossing_x p s e"
proof -
  have "(of_int (px p) :: rat) < of_int (min (px s) (px e))"
    using assms by (subst of_int_less_iff) simp
  then show ?thesis using crossing_x_between(1) [OF assms(1)] by linarith
qed

lemma crossing_not_right:
  assumes "straddles p s e" "px s < px p" "px e < px p"
  shows "\<not> of_int (px p) < crossing_x p s e"
proof -
  have "(of_int (max (px s) (px e)) :: rat) < of_int (px p)"
    using assms by (subst of_int_less_iff) simp
  then show ?thesis using crossing_x_between(2) [OF assms(1)] by linarith
qed

lemma outside_box_even:
  assumes "\<not> in_box p vs" "3 \<le> length vs"
  shows "even (length (filter (\<lambda>(s, e). kernel_flips p s e) (outline_edges vs)))"
proof -
  let ?es = "outline_edges vs"
  consider "\<forall>v \<in> set vs. px p < px v" | "\<forall>v \<in> set vs. px v < px p"
    | "\<forall>v \<in> set vs. py p < py v" | "\<forall>v \<in> set vs. py v < py p"
    using assms(1) unfolding in_box_def by force
  then show ?thesis
  proof cases
    case 1
    then have "filter (\<lambda>(s, e). kernel_flips p s e) ?es = filter (\<lambda>(s, e). (py s > py p) \<noteq> (py e > py p)) ?es"
      by (intro filter_cong)
         (auto simp: kernel_flips_crossing straddles_def dest!: edge_ends intro!: crossing_not_left)
    then show ?thesis
      using closed_crossings [of "\<lambda>v. py v > py p" vs] assms(2) by (simp add: outline_edges_zip)
  next
    case 2
    then have "filter (\<lambda>(s, e). kernel_flips p s e) ?es = []"
      by (auto simp: filter_empty_conv kernel_flips_crossing dest: edge_ends crossing_not_right)
    then show ?thesis by simp
  next
    case 3
    then have "filter (\<lambda>(s, e). kernel_flips p s e) ?es = []"
      by (auto simp: filter_empty_conv kernel_flips_crossing straddles_def dest: edge_ends)
    then show ?thesis by simp
  next
    case 4
    then have "filter (\<lambda>(s, e). kernel_flips p s e) ?es = []"
      by (fastforce simp: filter_empty_conv kernel_flips_crossing straddles_def dest: edge_ends)
    then show ?thesis by simp
  qed
qed

lemma point_in_outline_in_box: "point_in_outline p vs \<Longrightarrow> in_box p vs"
  using outside_box_even on_segment_in_box edge_ends
  by (fastforce simp: point_in_outline_parity)

section \<open>The contract of the kernel and its clients\<close>

definition edge_points :: "point_nm \<times> point_nm \<Rightarrow> exact_point_t set" where
  "edge_points = (\<lambda>(s, e). segment (exact_point s) (exact_point e))"

definition boundary :: "board_outline \<Rightarrow> exact_point_t set" where
  "boundary vs = (\<Union>edge \<in> set (outline_edges vs). edge_points edge)"

lemma outline_edges_nonempty: "2 \<le> length vs \<Longrightarrow> outline_edges vs \<noteq> []"
  by (auto simp: outline_edges_def)

text \<open>The minimum of the distances of the parts of two sets is the distance of the sets.\<close>

lemma least_distance_parts:
  assumes "is \<noteq> []" and least: "\<And>i. i \<in> set is \<Longrightarrow> least_distance (d i) (A i) (B i)"
    and into: "\<And>i. i \<in> set is \<Longrightarrow> A i \<subseteq> A' \<and> B i \<subseteq> B'"
    and cover: "\<And>p q. p \<in> A' \<Longrightarrow> q \<in> B' \<Longrightarrow> \<exists>i \<in> set is. p \<in> A i \<and> q \<in> B i"
  shows "least_distance (min_or_zero (map d is)) A' B'"
proof -
  let ?m = "Min (d ` set is)"
  have m: "min_or_zero (map d is) = ?m" using assms(1) by (simp add: min_or_zero_def)
  have fin: "finite (d ` set is)" "d ` set is \<noteq> {}" using assms(1) by auto
  obtain i where i: "i \<in> set is" "?m = d i" using Min_in [OF fin] by auto
  have "\<exists>p \<in> A'. \<exists>q \<in> B'. dist2 p q = ?m"
    using least [OF i(1)] into [OF i(1)] unfolding i(2) least_distance_def by blast
  moreover have "?m \<le> dist2 p q" if pq: "p \<in> A'" "q \<in> B'" for p q
  proof -
    obtain j where j: "j \<in> set is" "p \<in> A j" "q \<in> B j" using cover [OF pq] by blast
    have "?m \<le> d j" using j(1) fin(1) by (intro Min_le) auto
    also have "\<dots> \<le> dist2 p q" using least [OF j(1)] j(2,3) by (simp add: least_distance_def)
    finally show ?thesis .
  qed
  ultimately show ?thesis unfolding m least_distance_def by blast
qed

lemma least_distance_less: "least_distance d A B \<Longrightarrow> d < r \<longleftrightarrow> (\<exists>p \<in> A. \<exists>q \<in> B. dist2 p q < r)"
  unfolding least_distance_def by (metis less_le_trans not_less)

lemma least_distance_zero: "least_distance d A B \<Longrightarrow> d = 0 \<longleftrightarrow> A \<inter> B \<noteq> {}"
  unfolding least_distance_def
  by (metis disjoint_iff dist2_nonneg dist2_zero_iff order_antisym)

locale geometry_kernel =
  fixes intersect :: "point_nm \<Rightarrow> point_nm \<Rightarrow> point_nm \<Rightarrow> point_nm \<Rightarrow> bool"
    and distance :: "point_nm \<Rightarrow> point_nm \<Rightarrow> point_nm \<Rightarrow> point_nm \<Rightarrow> rat"
    and point_distance :: "point_nm \<Rightarrow> point_nm \<Rightarrow> point_nm \<Rightarrow> rat"
    and inside :: "point_nm \<Rightarrow> board_outline \<Rightarrow> bool"
  assumes intersect_iff: "intersect a b c d \<longleftrightarrow> edge_points (a, b) \<inter> edge_points (c, d) \<noteq> {}"
    and distance_least: "least_distance (distance a b c d) (edge_points (a, b)) (edge_points (c, d))"
    and point_distance_least: "least_distance (point_distance p a b) {exact_point p} (edge_points (a, b))"
    and inside_boundary: "3 \<le> length vs \<Longrightarrow> exact_point p \<in> boundary vs \<Longrightarrow> inside p vs"
    and inside_in_box: "inside p vs \<Longrightarrow> in_box p vs"
begin

lemma minimum_outlines_least:
  assumes "2 \<le> length vs" "2 \<le> length ws"
  shows "least_distance (minimum_outlines_distance_squared distance vs ws) (boundary vs) (boundary ws)"
proof -
  let ?pairs = "concat (map (\<lambda>f. map (\<lambda>s. (f, s)) (outline_edges ws)) (outline_edges vs))"
  have "minimum_outlines_distance_squared distance vs ws =
      min_or_zero (map (\<lambda>(f, s). distance (fst f) (snd f) (fst s) (snd s)) ?pairs)"
    by (simp add: minimum_outlines_distance_squared_def map_concat comp_def case_prod_beta')
  moreover have "?pairs \<noteq> []"
    using outline_edges_nonempty [OF assms(1)] outline_edges_nonempty [OF assms(2)]
    by (cases "outline_edges vs"; cases "outline_edges ws") auto
  ultimately show ?thesis
    by (auto intro!: least_distance_parts [where A = "\<lambda>(f, s). edge_points f" and B = "\<lambda>(f, s). edge_points s"]
        simp: boundary_def distance_least simp del: concat_eq_Nil_conv)
qed

lemma minimum_segment_outline_least:
  assumes "2 \<le> length vs"
  shows "least_distance (minimum_segment_outline_distance_squared distance s e vs) (edge_points (s, e)) (boundary vs)"
  unfolding minimum_segment_outline_distance_squared_def using outline_edges_nonempty [OF assms]
  by (intro least_distance_parts [where A = "\<lambda>_. edge_points (s, e)" and B = edge_points])
     (auto simp: boundary_def distance_least)

lemma minimum_point_outline_least:
  assumes "2 \<le> length vs"
  shows "least_distance (minimum_point_outline_distance_squared point_distance p vs) {exact_point p} (boundary vs)"
  unfolding minimum_point_outline_distance_squared_def using outline_edges_nonempty [OF assms]
  by (intro least_distance_parts [where A = "\<lambda>_. {exact_point p}" and B = edge_points])
     (auto simp: boundary_def point_distance_least)

lemma overlap_iff:
  "outlines_overlap intersect inside vs ws \<longleftrightarrow>
     boundary vs \<inter> boundary ws \<noteq> {} \<or> vs \<noteq> [] \<and> ws \<noteq> [] \<and> (inside (hd vs) ws \<or> inside (hd ws) vs)"
  by (auto simp: outlines_overlap_def intersect_iff boundary_def split_beta)

lemma overlap_commute: "outlines_overlap intersect inside vs ws = outlines_overlap intersect inside ws vs"
  unfolding overlap_iff by blast

text \<open>Whenever the boundaries are no distance apart the outlines are reported to overlap.\<close>

lemma no_distance_overlap:
  assumes "2 \<le> length vs" "2 \<le> length ws" "minimum_outlines_distance_squared distance vs ws = 0"
  shows "outlines_overlap intersect inside vs ws"
  using least_distance_zero [OF minimum_outlines_least [OF assms(1,2)]] assms(3)
  by (simp add: overlap_iff)

end

lemma on_segment_boundary: "on_segment p s e \<longleftrightarrow> exact_point p \<in> edge_points (s, e)"
  by (simp add: edge_points_def exact_on_segment_iff [symmetric] on_segment_exact)

interpretation exact_kernel: geometry_kernel segments_intersect segment_distance_squared
  point_segment_distance_squared point_in_outline
proof unfold_locales
  fix a b c d p vs
  show "segments_intersect a b c d \<longleftrightarrow> edge_points (a, b) \<inter> edge_points (c, d) \<noteq> {}"
    by (simp add: edge_points_def exact_segments_intersect_iff [symmetric] segments_intersect_exact)
  show "least_distance (segment_distance_squared a b c d) (edge_points (a, b)) (edge_points (c, d))"
    using segment_distance_least by (simp add: edge_points_def segment_distance_exact [symmetric])
  show "least_distance (point_segment_distance_squared p a b) {exact_point p} (edge_points (a, b))"
    using point_segment_distance_least by (simp add: edge_points_def point_segment_distance_exact [symmetric])
  show "point_in_outline p vs" if "3 \<le> length vs" "exact_point p \<in> boundary vs"
    using that by (auto simp: point_in_outline_parity boundary_def on_segment_boundary [symmetric])
  show "in_box p vs" if "point_in_outline p vs"
    using that by (rule point_in_outline_in_box)
qed

section \<open>What the geometry functions decide\<close>

text \<open>
  the integer kernel of the design rules and the rational functions agree. On points with
  integer coordinates, \<^verbatim>\<open>ExactGeometryKernel\<close> returns the same intersections, the same
  distances and the same containment as the \<^verbatim>\<open>exact_*\<close> functions on the same points.
\<close>

theorem kernel_agrees_with_rational_functions:
  "segments_intersect a b c d
     = exact_segments_intersect (exact_point a) (exact_point b) (exact_point c) (exact_point d)
   \<and> segment_distance_squared a b c d
     = exact_segment_distance_squared (exact_point a) (exact_point b) (exact_point c) (exact_point d)
   \<and> point_segment_distance_squared a c d
     = exact_point_segment_distance_squared (exact_point a) (exact_point c) (exact_point d)
   \<and> point_in_outline a vs = exact_point_in_outline (exact_point a) vs"
  by (simp add: segments_intersect_exact segment_distance_exact point_segment_distance_exact
      point_in_outline_exact)

text \<open>
  the sign tests of \<^verbatim>\<open>exact_segments_intersect\<close> decide intersection, in every
  degenerate case too (points, touching ends, collinear overlap): the result is true exactly
  when the two closed segments have a point in common.
\<close>

theorem segments_intersect_iff_common_point:
  "exact_segments_intersect a b c d \<longleftrightarrow>
     (\<exists>t u. 0 \<le> t \<and> t \<le> 1 \<and> 0 \<le> u \<and> u \<le> 1 \<and> along a b t = along c d u)"
  unfolding exact_segments_intersect_iff by (auto simp: segment_def) force+

text \<open>
  C36: the value of \<^verbatim>\<open>exact_segment_distance_squared\<close> is the minimum squared distance of two
  segments: some pair of their points is exactly that far apart and no pair is closer, although
  the code compares only the four distances of end points.
\<close>

theorem segment_distance_is_the_minimum:
  "least_distance (exact_segment_distance_squared a b c d) (segment a b) (segment c d)
   \<and> least_distance (exact_point_segment_distance_squared a c d) {a} (segment c d)"
  by (simp add: segment_distance_least point_segment_distance_least)

text \<open>
  The clearance test on two outlines is exact. For outlines with at least two vertices
  and a non-negative limit, \<^verbatim>\<open>rational_less_than_squared\<close> applied to
  \<^verbatim>\<open>minimum_outlines_distance_squared\<close> reports a violation exactly when some point of one
  boundary is closer to some point of the other than the limit.
\<close>

theorem outline_clearance_exact:
  assumes "2 \<le> length vs" "2 \<le> length ws" "0 \<le> r"
  shows "rational_less_than_squared (minimum_outlines_distance_squared segment_distance_squared vs ws) r
    = Inr (\<exists>p \<in> boundary vs. \<exists>q \<in> boundary ws. dist2 p q < (of_int r)\<^sup>2)"
  using assms(3) least_distance_less [OF exact_kernel.minimum_outlines_least [OF assms(1,2)]]
  by (simp add: rational_less_than_squared_def power2_eq_square)

theorem outline_clearance_exact_witness:
  "(rational_less_than_squared (minimum_outlines_distance_squared segment_distance_squared
      [\<lparr>px = 0, py = 0\<rparr>, \<lparr>px = 4, py = 0\<rparr>] [\<lparr>px = 1, py = 2\<rparr>, \<lparr>px = 3, py = 5\<rparr>]) 3
    = Inr (\<exists>p \<in> boundary [\<lparr>px = 0, py = 0\<rparr>, \<lparr>px = 4, py = 0\<rparr>].
           \<exists>q \<in> boundary [\<lparr>px = 1, py = 2\<rparr>, \<lparr>px = 3, py = 5\<rparr>]. dist2 p q < (of_int 3)\<^sup>2))
   \<and> rational_less_than_squared (minimum_outlines_distance_squared segment_distance_squared
      [\<lparr>px = 0, py = 0\<rparr>, \<lparr>px = 4, py = 0\<rparr>] [\<lparr>px = 1, py = 2\<rparr>, \<lparr>px = 3, py = 5\<rparr>]) 3 = Inr True"
proof
  show "rational_less_than_squared (minimum_outlines_distance_squared segment_distance_squared
      [\<lparr>px = 0, py = 0\<rparr>, \<lparr>px = 4, py = 0\<rparr>] [\<lparr>px = 1, py = 2\<rparr>, \<lparr>px = 3, py = 5\<rparr>]) 3
    = Inr (\<exists>p \<in> boundary [\<lparr>px = 0, py = 0\<rparr>, \<lparr>px = 4, py = 0\<rparr>].
           \<exists>q \<in> boundary [\<lparr>px = 1, py = 2\<rparr>, \<lparr>px = 3, py = 5\<rparr>]. dist2 p q < (of_int 3)\<^sup>2)"
    by (rule outline_clearance_exact) simp_all
  show "rational_less_than_squared (minimum_outlines_distance_squared segment_distance_squared
      [\<lparr>px = 0, py = 0\<rparr>, \<lparr>px = 4, py = 0\<rparr>] [\<lparr>px = 1, py = 2\<rparr>, \<lparr>px = 3, py = 5\<rparr>]) 3 = Inr True"
    by code_simp
qed

text \<open>
  \<^verbatim>\<open>point_in_outline\<close> is a test of the closed polygon. The result does not depend on the
  vertex at which the outline starts nor on its orientation, and no point outside the bounding
  box of the vertices is reported to be inside.
\<close>

theorem point_in_outline_closed_polygon:
  "point_in_outline p (rotate n vs) = point_in_outline p vs
   \<and> point_in_outline p (rev vs) = point_in_outline p vs
   \<and> (in_box p vs \<or> point_in_outline p vs = False)"
  using point_in_outline_rotate point_in_outline_rev point_in_outline_in_box by blast

lemma edge_intersect: "segments_intersect (fst f) (snd f) (fst g) (snd g) \<longleftrightarrow> edge_points f \<inter> edge_points g \<noteq> {}"
  using exact_kernel.intersect_iff [of "fst f" "snd f" "fst g" "snd g"] by simp

lemma sorted_defects_Nil: "sorted_list_of_set (set (ds :: (string \<times> int list) list)) = [] \<longleftrightarrow> ds = []"
  by simp

lemma concat_singletons_Nil: "concat (map (\<lambda>x. if P x then [d x] else []) xs) = [] \<longleftrightarrow> (\<forall>x \<in> set xs. \<not> P x)"
  by (induction xs) auto

lemma zero_length_edges_Nil:
  "concat (map (\<lambda>i. if fst (es ! i) = snd (es ! i) then [d i] else []) [0..<length es]) = []
     \<longleftrightarrow> (\<nexists>v. (v, v) \<in> set es)"
proof -
  have "(\<nexists>v. (v, v) \<in> set es) \<longleftrightarrow> (\<forall>i < length es. fst (es ! i) \<noteq> snd (es ! i))"
    by (metis in_set_conv_nth prod.collapse prod.sel)
  then show ?thesis unfolding concat_singletons_Nil by auto
qed

lemma self_intersections_Nil:
  "concat (map (\<lambda>i. concat (map (\<lambda>j. if j = i + 1 \<or> (i = 0 \<and> j = n - 1) then []
       else if meet i j then [d i j] else []) [i + 1..<n])) [0..<n]) = []
     \<longleftrightarrow> (\<nexists>i j. i + 1 < j \<and> j < n \<and> (i, j) \<noteq> (0, n - 1) \<and> meet i j)"
proof -
  have inner: "(if a then [] else if b then [x] else []) = [] \<longleftrightarrow> a \<or> \<not> b" for a b and x :: 'a
    by simp
  have outer: "concat (map f is) = [] \<longleftrightarrow> (\<forall>i \<in> set is. f i = [])" for f :: "nat \<Rightarrow> 'a list" and "is"
    by (induction "is") auto
  have "(\<forall>i \<in> {0..<n}. \<forall>j \<in> {i + 1..<n}. (j = i + 1 \<or> (i = 0 \<and> j = n - 1)) \<or> \<not> meet i j)
      \<longleftrightarrow> (\<nexists>i j. i + 1 < j \<and> j < n \<and> (i, j) \<noteq> (0, n - 1) \<and> meet i j)" (is "?all \<longleftrightarrow> \<not> ?ex")
  proof
    assume all: ?all
    show "\<not> ?ex"
    proof
      assume ?ex
      then obtain i j where ij: "i + 1 < j" "j < n" "(i, j) \<noteq> (0, n - 1)" "meet i j" by blast
      then have "i \<in> {0..<n}" "j \<in> {i + 1..<n}" by auto
      then show False using all ij by fastforce
    qed
  next
    assume "\<not> ?ex"
    then have ex: "\<not> (i + 1 < j \<and> j < n \<and> (i, j) \<noteq> (0, n - 1) \<and> meet i j)" for i j by blast
    show ?all
    proof (intro ballI)
      fix i j assume "i \<in> {0..<n}" "j \<in> {i + 1..<n}"
      then show "(j = i + 1 \<or> (i = 0 \<and> j = n - 1)) \<or> \<not> meet i j" using ex [of i j] by auto
    qed
  qed
  then show ?thesis unfolding outer inner set_upt .
qed

text \<open>
  \<^verbatim>\<open>outline_defects\<close> accepts exactly the well-formed outlines. With the exact kernel it
  returns no defect if and only if there are at least three different vertices, no edge has length
  zero, the signed area is not zero, and no two edges that are not neighbours share a point.
\<close>

theorem no_outline_defects_iff:
  "outline_defects segments_intersect vs = [] \<longleftrightarrow>
     3 \<le> length vs \<and> 3 \<le> card (set vs) \<and> (\<nexists>v. (v, v) \<in> set (outline_edges vs))
     \<and> signed_area_twice vs \<noteq> 0
     \<and> (\<nexists>i j. i + 1 < j \<and> j < length vs \<and> (i, j) \<noteq> (0, length vs - 1)
          \<and> edge_points (outline_edges vs ! i) \<inter> edge_points (outline_edges vs ! j) \<noteq> {})"
proof (cases "3 \<le> length vs")
  case True
  then have n: "length (outline_edges vs) = length vs" by (simp add: length_outline_edges)
  have "outline_defects segments_intersect vs = [] \<longleftrightarrow> \<not> card (set vs) < 3
      \<and> (\<nexists>v. (v, v) \<in> set (outline_edges vs)) \<and> signed_area_twice vs \<noteq> 0
      \<and> (\<nexists>i j. i + 1 < j \<and> j < length vs \<and> (i, j) \<noteq> (0, length vs - 1)
          \<and> edge_points (outline_edges vs ! i) \<inter> edge_points (outline_edges vs ! j) \<noteq> {})"
    using True unfolding outline_defects_def Let_def edge_intersect if_not_P [OF True [folded not_less]]
      sorted_defects_Nil append_is_Nil_conv zero_length_edges_Nil self_intersections_Nil unfolding n
    by (simp only: if_False not_less [symmetric] simp_thms split: if_split) simp
  then show ?thesis using True by (simp add: not_less)
qed (simp add: outline_defects_def)

end
