(* ===== verification/Board_Model.thy ===== *)
theory Board_Model
  imports Geometry Sha256
begin

text \<open>
  \<^verbatim>\<open>backend/verification/model.py\<close> and \<^verbatim>\<open>canonical.py\<close>: the immutable board graph that
  the design rules read, its canonical ordering, the records of rules, policies and reports, and
  the domain-separated hash over canonical JSON. Each dataclass is a record whose fields carry a
  prefix for the class. A tuple is a list; \<^verbatim>\<open>None\<close> is \<^const>\<open>None\<close>.
\<close>

section \<open>Enumerations\<close>

datatype severity = Sev_INFO | Sev_WARNING | Sev_ERROR | Sev_FATAL

fun severity_value :: "severity \<Rightarrow> string" where
  "severity_value Sev_INFO = ''info''"
| "severity_value Sev_WARNING = ''warning''"
| "severity_value Sev_ERROR = ''error''"
| "severity_value Sev_FATAL = ''fatal''"

fun severity_rank :: "severity \<Rightarrow> nat" where
  "severity_rank Sev_INFO = 0"
| "severity_rank Sev_WARNING = 1"
| "severity_rank Sev_ERROR = 2"
| "severity_rank Sev_FATAL = 3"

datatype rule_domain = Dom_SYSTEM | Dom_ELECTRICAL | Dom_GEOMETRY | Dom_ALGORITHM

fun rule_domain_value :: "rule_domain \<Rightarrow> string" where
  "rule_domain_value Dom_SYSTEM = ''system''"
| "rule_domain_value Dom_ELECTRICAL = ''electrical''"
| "rule_domain_value Dom_GEOMETRY = ''geometry''"
| "rule_domain_value Dom_ALGORITHM = ''algorithm''"

datatype parameter_type = Par_INTEGER | Par_BOOLEAN | Par_STRING

fun parameter_type_value :: "parameter_type \<Rightarrow> string" where
  "parameter_type_value Par_INTEGER = ''integer''"
| "parameter_type_value Par_BOOLEAN = ''boolean''"
| "parameter_type_value Par_STRING = ''string''"

datatype rule_execution_outcome = Out_PASS | Out_FAIL | Out_NOT_RUN

fun outcome_value :: "rule_execution_outcome \<Rightarrow> string" where
  "outcome_value Out_PASS = ''pass''"
| "outcome_value Out_FAIL = ''fail''"
| "outcome_value Out_NOT_RUN = ''not_run''"

datatype pin_electrical_type =
  Pin_INPUT | Pin_OUTPUT | Pin_BIDIRECTIONAL | Pin_PASSIVE | Pin_POWER_IN | Pin_POWER_OUT
  | Pin_OPEN_COLLECTOR | Pin_NO_CONNECT | Pin_UNSPECIFIED

fun pin_electrical_type_value :: "pin_electrical_type \<Rightarrow> string" where
  "pin_electrical_type_value Pin_INPUT = ''input''"
| "pin_electrical_type_value Pin_OUTPUT = ''output''"
| "pin_electrical_type_value Pin_BIDIRECTIONAL = ''bidirectional''"
| "pin_electrical_type_value Pin_PASSIVE = ''passive''"
| "pin_electrical_type_value Pin_POWER_IN = ''power_in''"
| "pin_electrical_type_value Pin_POWER_OUT = ''power_out''"
| "pin_electrical_type_value Pin_OPEN_COLLECTOR = ''open_collector''"
| "pin_electrical_type_value Pin_NO_CONNECT = ''no_connect''"
| "pin_electrical_type_value Pin_UNSPECIFIED = ''unspecified''"

datatype pad_shape = Shape_CIRCLE | Shape_OVAL | Shape_RECT | Shape_ROUNDRECT

fun pad_shape_value :: "pad_shape \<Rightarrow> string" where
  "pad_shape_value Shape_CIRCLE = ''circle''"
| "pad_shape_value Shape_OVAL = ''oval''"
| "pad_shape_value Shape_RECT = ''rect''"
| "pad_shape_value Shape_ROUNDRECT = ''roundrect''"

datatype zone_fill_state = Fill_UNFILLED_INTENT | Fill_VERIFIED_FILLED

fun zone_fill_state_value :: "zone_fill_state \<Rightarrow> string" where
  "zone_fill_state_value Fill_UNFILLED_INTENT = ''unfilled-intent''"
| "zone_fill_state_value Fill_VERIFIED_FILLED = ''verified-filled''"

datatype scalar = Sc_str string | Sc_int int | Sc_bool bool

section \<open>The order of points\<close>

text \<open>\<^verbatim>\<open>PointNm\<close> and \<^verbatim>\<open>EntityRef\<close> are declared with \<^verbatim>\<open>order=True\<close>: field by field.\<close>

instantiation point_nm_ext :: (linorder) linorder
begin

definition less_eq_point_nm_ext :: "'a point_nm_scheme \<Rightarrow> 'a point_nm_scheme \<Rightarrow> bool" where
  "less_eq_point_nm_ext p q \<longleftrightarrow> (px p, py p, point_nm.more p) \<le> (px q, py q, point_nm.more q)"

definition less_point_nm_ext :: "'a point_nm_scheme \<Rightarrow> 'a point_nm_scheme \<Rightarrow> bool" where
  "less_point_nm_ext p q \<longleftrightarrow> (px p, py p, point_nm.more p) < (px q, py q, point_nm.more q)"

instance
proof
  fix p q r :: "'a point_nm_scheme"
  show "p < q \<longleftrightarrow> p \<le> q \<and> \<not> q \<le> p"
    unfolding less_eq_point_nm_ext_def less_point_nm_ext_def by auto
  show "p \<le> p" unfolding less_eq_point_nm_ext_def by simp
  show "p \<le> r" if "p \<le> q" "q \<le> r"
    using that unfolding less_eq_point_nm_ext_def by (rule order_trans)
  show "p = q" if "p \<le> q" "q \<le> p"
    using that unfolding less_eq_point_nm_ext_def by (auto dest: order_antisym intro: point_nm.equality)
  show "p \<le> q \<or> q \<le> p" unfolding less_eq_point_nm_ext_def by (rule linear)
qed

end

record entity_ref =
  ent_kind :: string
  ent_id :: string

instantiation entity_ref_ext :: (linorder) linorder
begin

definition less_eq_entity_ref_ext :: "'a entity_ref_scheme \<Rightarrow> 'a entity_ref_scheme \<Rightarrow> bool" where
  "less_eq_entity_ref_ext p q \<longleftrightarrow>
     (ent_kind p, ent_id p, entity_ref.more p) \<le> (ent_kind q, ent_id q, entity_ref.more q)"

definition less_entity_ref_ext :: "'a entity_ref_scheme \<Rightarrow> 'a entity_ref_scheme \<Rightarrow> bool" where
  "less_entity_ref_ext p q \<longleftrightarrow>
     (ent_kind p, ent_id p, entity_ref.more p) < (ent_kind q, ent_id q, entity_ref.more q)"

instance
proof
  fix p q r :: "'a entity_ref_scheme"
  show "p < q \<longleftrightarrow> p \<le> q \<and> \<not> q \<le> p"
    unfolding less_eq_entity_ref_ext_def less_entity_ref_ext_def by auto
  show "p \<le> p" unfolding less_eq_entity_ref_ext_def by simp
  show "p \<le> r" if "p \<le> q" "q \<le> r"
    using that unfolding less_eq_entity_ref_ext_def by (rule order_trans)
  show "p = q" if "p \<le> q" "q \<le> p"
    using that unfolding less_eq_entity_ref_ext_def
    by (auto dest: order_antisym intro: entity_ref.equality)
  show "p \<le> q \<or> q \<le> p" unfolding less_eq_entity_ref_ext_def by (rule linear)
qed

end

section \<open>The board graph\<close>

record pin =
  pin_number :: string
  pin_name :: string
  pin_electrical_type :: pin_electrical_type
  pin_required :: bool
  pin_pad_center :: "point_nm option"
  pin_pad_diameter_nm :: int
  pin_layers :: "string list"
  pin_pad_drill_nm :: int
  pin_pad_number :: string

definition pin_normalized :: "pin \<Rightarrow> pin" where
  "pin_normalized p = p\<lparr>pin_layers := sorted_set (pin_layers p)\<rparr>"

record component =
  comp_id :: string
  comp_reference :: string
  comp_value :: string
  comp_footprint :: string
  comp_manufacturer_part_number :: string
  comp_datasheet_sha256 :: string
  comp_pin_map_sha256 :: string
  comp_pins :: "pin list"

definition component_normalized :: "component \<Rightarrow> component" where
  "component_normalized c = c\<lparr>comp_pins := sort_key pin_number (map pin_normalized (comp_pins c))\<rparr>"

record net_connection =
  conn_component_id :: string
  conn_pin_number :: string

definition conn_key :: "net_connection \<Rightarrow> string \<times> string" where
  "conn_key c = (conn_component_id c, conn_pin_number c)"

record net =
  net_id :: string
  net_name :: string
  net_connections :: "net_connection list"
  net_external_source :: bool

definition net_normalized :: "net \<Rightarrow> net" where
  "net_normalized n = n\<lparr>net_connections := sort_key conn_key (net_connections n)\<rparr>"

record track =
  track_id :: string
  track_net_id :: string
  track_layer :: string
  track_start :: point_nm
  track_end :: point_nm
  track_width_nm :: int

definition track_normalized :: "track \<Rightarrow> track" where
  "track_normalized t =
     (if track_end t < track_start t then t\<lparr>track_start := track_end t, track_end := track_start t\<rparr> else t)"

record via =
  via_id :: string
  via_net_id :: string
  via_center :: point_nm
  via_diameter_nm :: int
  via_drill_nm :: int
  via_layers :: "string list"

definition via_normalized :: "via \<Rightarrow> via" where
  "via_normalized v = v\<lparr>via_layers := sorted_set (via_layers v)\<rparr>"

record physical_pad =
  ppad_id :: string
  ppad_component_id :: string
  ppad_pad_number :: string
  ppad_net_id :: "string option"
  ppad_center :: point_nm
  ppad_size_x_nm :: int
  ppad_size_y_nm :: int
  ppad_shape :: pad_shape
  ppad_rotation_udeg :: int
  ppad_layers :: "string list"
  ppad_drill_nm :: int
  ppad_drill_x_nm :: int
  ppad_drill_y_nm :: int
  ppad_drill_rotation_udeg :: int
  ppad_shared_land_group_id :: "string option"

definition physical_pad_normalized :: "physical_pad \<Rightarrow> physical_pad" where
  "physical_pad_normalized p = p\<lparr>ppad_layers := sorted_set (ppad_layers p)\<rparr>"

record hole =
  hole_id :: string
  hole_component_id :: string
  hole_center :: point_nm
  hole_diameter_nm :: int
  hole_plated :: bool
  hole_pad_id :: "string option"
  hole_drill_x_nm :: int
  hole_drill_y_nm :: int
  hole_drill_rotation_udeg :: int

definition rotations :: "'a list \<Rightarrow> 'a list list" where
  "rotations vs = map (\<lambda>i. drop i vs @ take i vs) [0..<length vs]"

definition outline_normalized :: "board_outline \<Rightarrow> board_outline" where
  "outline_normalized vs0 =
     (let vs = (if length vs0 > 1 \<and> hd vs0 = last vs0 then butlast vs0 else vs0) in
      if vs = [] then [] else
      let forward = Min (set (rotations vs)); reverse = Min (set (rotations (rev vs)))
      in min forward reverse)"

record zone_fill_evidence =
  fill_source_graph_hash :: string
  fill_source_revision :: string
  fill_engine_id :: string
  fill_engine_revision :: string
  fill_filled_geometry_hash :: string
  fill_evidence_hash :: string

record zone =
  zone_id :: string
  zone_net_id :: string
  zone_layer :: string
  zone_outline :: board_outline
  zone_clearance_nm :: int
  zone_fill_state :: zone_fill_state
  zone_fill_evidence :: "zone_fill_evidence option"

definition zone_normalized :: "zone \<Rightarrow> zone" where
  "zone_normalized z = z\<lparr>zone_outline := outline_normalized (zone_outline z)\<rparr>"

record board_graph =
  board_schema_version :: int
  board_design_id :: string
  board_revision :: string
  board_layers :: "string list"
  board_outline :: board_outline
  board_components :: "component list"
  board_nets :: "net list"
  board_tracks :: "track list"
  board_vias :: "via list"
  board_unsupported_features :: "string list"
  board_zones :: "zone list"
  board_holes :: "hole list"
  board_pads :: "physical_pad list"

definition board_normalized :: "board_graph \<Rightarrow> board_graph" where
  "board_normalized b = b\<lparr>
     board_layers := sorted_set (board_layers b),
     board_outline := outline_normalized (board_outline b),
     board_components := sort_key comp_id (map component_normalized (board_components b)),
     board_nets := sort_key net_id (map net_normalized (board_nets b)),
     board_tracks := sort_key track_id (map track_normalized (board_tracks b)),
     board_vias := sort_key via_id (map via_normalized (board_vias b)),
     board_unsupported_features := sorted_set (board_unsupported_features b),
     board_zones := sort_key zone_id (map zone_normalized (board_zones b)),
     board_holes := sort_key hole_id (board_holes b),
     board_pads := sort_key ppad_id (map physical_pad_normalized (board_pads b))\<rparr>"

section \<open>Canonical JSON and hashes\<close>

text \<open>
  \<^verbatim>\<open>canonical_data\<close> turns a dataclass into the dictionary of its fields; an enumeration of
  strings is its value.
\<close>

definition json_opt :: "('a \<Rightarrow> json) \<Rightarrow> 'a option \<Rightarrow> json" where
  "json_opt f v = (case v of None \<Rightarrow> JNull | Some x \<Rightarrow> f x)"

definition json_strings :: "string list \<Rightarrow> json" where
  "json_strings xs = JList (map JStr xs)"

definition stable_hash :: "(byte list \<Rightarrow> byte list) \<Rightarrow> string \<Rightarrow> json \<Rightarrow> string" where
  "stable_hash h domain j = hexdigest (h (utf8_bytes domain @ [0] @ utf8_bytes (canonical_json j)))"

definition point_json :: "point_nm \<Rightarrow> json" where
  "point_json p = JObj [(''x'', JInt (px p)), (''y'', JInt (py p))]"

definition outline_json :: "board_outline \<Rightarrow> json" where
  "outline_json vs = JObj [(''vertices'', JList (map point_json vs))]"

definition pin_json :: "pin \<Rightarrow> json" where
  "pin_json p = JObj [(''number'', JStr (pin_number p)), (''name'', JStr (pin_name p)),
     (''electrical_type'', JStr (pin_electrical_type_value (pin_electrical_type p))),
     (''required'', JBool (pin_required p)), (''pad_center'', json_opt point_json (pin_pad_center p)),
     (''pad_diameter_nm'', JInt (pin_pad_diameter_nm p)), (''layers'', json_strings (pin_layers p)),
     (''pad_drill_nm'', JInt (pin_pad_drill_nm p)), (''pad_number'', JStr (pin_pad_number p))]"

definition component_json :: "component \<Rightarrow> json" where
  "component_json c = JObj [(''component_id'', JStr (comp_id c)), (''reference'', JStr (comp_reference c)),
     (''value'', JStr (comp_value c)), (''footprint'', JStr (comp_footprint c)),
     (''manufacturer_part_number'', JStr (comp_manufacturer_part_number c)),
     (''datasheet_sha256'', JStr (comp_datasheet_sha256 c)),
     (''pin_map_sha256'', JStr (comp_pin_map_sha256 c)), (''pins'', JList (map pin_json (comp_pins c)))]"

definition connection_json :: "net_connection \<Rightarrow> json" where
  "connection_json c = JObj [(''component_id'', JStr (conn_component_id c)),
     (''pin_number'', JStr (conn_pin_number c))]"

definition net_json :: "net \<Rightarrow> json" where
  "net_json n = JObj [(''net_id'', JStr (net_id n)), (''name'', JStr (net_name n)),
     (''connections'', JList (map connection_json (net_connections n))),
     (''external_source'', JBool (net_external_source n))]"

definition track_json :: "track \<Rightarrow> json" where
  "track_json t = JObj [(''track_id'', JStr (track_id t)), (''net_id'', JStr (track_net_id t)),
     (''layer'', JStr (track_layer t)), (''start'', point_json (track_start t)),
     (''end'', point_json (track_end t)), (''width_nm'', JInt (track_width_nm t))]"

definition via_json :: "via \<Rightarrow> json" where
  "via_json v = JObj [(''via_id'', JStr (via_id v)), (''net_id'', JStr (via_net_id v)),
     (''center'', point_json (via_center v)), (''diameter_nm'', JInt (via_diameter_nm v)),
     (''drill_nm'', JInt (via_drill_nm v)), (''layers'', json_strings (via_layers v))]"

definition physical_pad_json :: "physical_pad \<Rightarrow> json" where
  "physical_pad_json p = JObj [(''pad_id'', JStr (ppad_id p)), (''component_id'', JStr (ppad_component_id p)),
     (''pad_number'', JStr (ppad_pad_number p)), (''net_id'', json_opt JStr (ppad_net_id p)),
     (''center'', point_json (ppad_center p)), (''size_x_nm'', JInt (ppad_size_x_nm p)),
     (''size_y_nm'', JInt (ppad_size_y_nm p)), (''shape'', JStr (pad_shape_value (ppad_shape p))),
     (''rotation_udeg'', JInt (ppad_rotation_udeg p)), (''layers'', json_strings (ppad_layers p)),
     (''drill_nm'', JInt (ppad_drill_nm p)), (''drill_x_nm'', JInt (ppad_drill_x_nm p)),
     (''drill_y_nm'', JInt (ppad_drill_y_nm p)), (''drill_rotation_udeg'', JInt (ppad_drill_rotation_udeg p)),
     (''shared_land_group_id'', json_opt JStr (ppad_shared_land_group_id p))]"

definition hole_json :: "hole \<Rightarrow> json" where
  "hole_json x = JObj [(''hole_id'', JStr (hole_id x)), (''component_id'', JStr (hole_component_id x)),
     (''center'', point_json (hole_center x)), (''diameter_nm'', JInt (hole_diameter_nm x)),
     (''plated'', JBool (hole_plated x)), (''pad_id'', json_opt JStr (hole_pad_id x)),
     (''drill_x_nm'', JInt (hole_drill_x_nm x)), (''drill_y_nm'', JInt (hole_drill_y_nm x)),
     (''drill_rotation_udeg'', JInt (hole_drill_rotation_udeg x))]"

definition fill_evidence_json :: "zone_fill_evidence \<Rightarrow> json" where
  "fill_evidence_json e = JObj [(''source_graph_hash'', JStr (fill_source_graph_hash e)),
     (''source_revision'', JStr (fill_source_revision e)), (''fill_engine_id'', JStr (fill_engine_id e)),
     (''fill_engine_revision'', JStr (fill_engine_revision e)),
     (''filled_geometry_hash'', JStr (fill_filled_geometry_hash e)),
     (''evidence_hash'', JStr (fill_evidence_hash e))]"

definition zone_json :: "zone \<Rightarrow> json" where
  "zone_json z = JObj [(''zone_id'', JStr (zone_id z)), (''net_id'', JStr (zone_net_id z)),
     (''layer'', JStr (zone_layer z)), (''outline'', outline_json (zone_outline z)),
     (''clearance_nm'', JInt (zone_clearance_nm z)),
     (''fill_state'', JStr (zone_fill_state_value (zone_fill_state z))),
     (''fill_evidence'', json_opt fill_evidence_json (zone_fill_evidence z))]"

definition board_json :: "board_graph \<Rightarrow> json" where
  "board_json b = JObj [(''schema_version'', JInt (board_schema_version b)),
     (''design_id'', JStr (board_design_id b)), (''revision'', JStr (board_revision b)),
     (''layers'', json_strings (board_layers b)), (''outline'', outline_json (board_outline b)),
     (''components'', JList (map component_json (board_components b))),
     (''nets'', JList (map net_json (board_nets b))), (''tracks'', JList (map track_json (board_tracks b))),
     (''vias'', JList (map via_json (board_vias b))),
     (''unsupported_features'', json_strings (board_unsupported_features b)),
     (''zones'', JList (map zone_json (board_zones b))), (''holes'', JList (map hole_json (board_holes b))),
     (''pads'', JList (map physical_pad_json (board_pads b)))]"

definition zone_filled_geometry_hash :: "(byte list \<Rightarrow> byte list) \<Rightarrow> zone \<Rightarrow> string" where
  "zone_filled_geometry_hash h z = stable_hash h ''pcb-zone-filled-geometry-v1''
     (JObj [(''zone_id'', JStr (zone_id z)), (''net_id'', JStr (zone_net_id z)),
        (''layer'', JStr (zone_layer z)), (''outline'', outline_json (outline_normalized (zone_outline z))),
        (''clearance_nm'', JInt (zone_clearance_nm z))])"

definition zone_fill_evidence_hash :: "(byte list \<Rightarrow> byte list) \<Rightarrow> zone_fill_evidence \<Rightarrow> string" where
  "zone_fill_evidence_hash h e = stable_hash h ''pcb-zone-fill-evidence-v1''
     (JObj [(''source_graph_hash'', JStr (fill_source_graph_hash e)),
        (''source_revision'', JStr (fill_source_revision e)), (''fill_engine_id'', JStr (fill_engine_id e)),
        (''fill_engine_revision'', JStr (fill_engine_revision e)),
        (''filled_geometry_hash'', JStr (fill_filled_geometry_hash e))])"

end
