(* ===== verification/Rule_Model.thy ===== *)
theory Rule_Model
  imports Board_Model
begin

text \<open>
  The records of rules, policies, findings and reports (\<^verbatim>\<open>backend/verification/model.py\<close>) and
  \<^verbatim>\<open>rule.py\<close>: finding drafts, the context an evaluator receives, the validation of rule
  definitions and the resolution of a rule against a policy override. An evaluator is its
  definition with its \<^verbatim>\<open>evaluate\<close> method; tests of the dynamic type of a field are carried
  by the types.
\<close>

section \<open>Records\<close>

record parameter_spec =
  spec_name :: string
  spec_type :: parameter_type
  spec_default :: scalar
  spec_minimum :: "int option"
  spec_maximum :: "int option"

record rule_definition =
  def_rule_id :: string
  def_version :: string
  def_domain :: rule_domain
  def_title :: string
  def_description :: string
  def_default_severity :: severity
  def_parameters :: "parameter_spec list"
  def_mandatory :: bool

record parameter_value =
  par_name :: string
  par_value :: scalar

record rule_override =
  ovr_rule_id :: string
  ovr_enabled :: bool
  ovr_severity :: "severity option"
  ovr_parameters :: "parameter_value list"

record gate_definition =
  gate_id :: string
  gate_title :: string
  gate_block_at_or_above :: severity
  gate_domains :: "rule_domain list"
  gate_rule_ids :: "string list"
  gate_exempt_rule_ids :: "string list"
  gate_required_external_evidence_ids :: "string list"

definition gate_normalized :: "gate_definition \<Rightarrow> gate_definition" where
  "gate_normalized g = g\<lparr>
     gate_domains := sort_key rule_domain_value (remdups (gate_domains g)),
     gate_rule_ids := sorted_set (gate_rule_ids g),
     gate_exempt_rule_ids := sorted_set (gate_exempt_rule_ids g),
     gate_required_external_evidence_ids := sorted_set (gate_required_external_evidence_ids g)\<rparr>"

record verification_policy =
  pol_overrides :: "rule_override list"
  pol_gates :: "gate_definition list"

text \<open>The value of an evidence item is a scalar or a tuple of scalars.\<close>

datatype evidence_value = Ev_one scalar | Ev_many "scalar list"

record evidence_item =
  ev_name :: string
  ev_value :: evidence_value

record finding =
  find_id :: string
  find_rule_id :: string
  find_rule_version :: string
  find_domain :: rule_domain
  find_severity :: severity
  find_message :: string
  find_entities :: "entity_ref list"
  find_evidence :: "evidence_item list"
  find_evidence_hash :: string

record rule_execution =
  exec_rule_id :: string
  exec_rule_version :: string
  exec_enabled :: bool
  exec_severity :: severity
  exec_parameters :: "parameter_value list"
  exec_finding_ids :: "string list"
  exec_outcome :: rule_execution_outcome
  exec_blocker_ids :: "string list"

record gate_decision =
  dec_gate_id :: string
  dec_passed :: bool
  dec_blocking_finding_ids :: "string list"
  dec_blocking_rule_ids :: "string list"
  dec_unavailable_evidence_ids :: "string list"
  dec_evidence_hash :: string

record verification_report =
  rep_schema_version :: int
  rep_engine_version :: string
  rep_run_id :: string
  rep_input_hash :: string
  rep_rule_set_hash :: string
  rep_findings :: "finding list"
  rep_executions :: "rule_execution list"
  rep_gates :: "gate_decision list"
  rep_report_hash :: string

section \<open>Comparison of dynamically typed values\<close>

text \<open>
  \<^verbatim>\<open>sorted\<close> on named values compares names first and values only under equal names. Strings
  compare with strings, numbers (booleans are the numbers 0 and 1) with numbers and tuples with
  tuples, up to the first difference; any other comparison raises \<^verbatim>\<open>TypeError\<close>. On values
  that do compare, the order is that of a key.
\<close>

fun scalar_key :: "scalar \<Rightarrow> string \<times> int" where
  "scalar_key (Sc_str s) = (s, 0)"
| "scalar_key (Sc_int i) = ([], i)"
| "scalar_key (Sc_bool b) = ([], if b then 1 else 0)"

fun is_str :: "scalar \<Rightarrow> bool" where
  "is_str (Sc_str _) = True"
| "is_str _ = False"

fun comparable :: "scalar list \<Rightarrow> scalar list \<Rightarrow> bool" where
  "comparable (a # as) (b # bs) =
     (is_str a = is_str b \<and> (scalar_key a = scalar_key b \<longrightarrow> comparable as bs))"
| "comparable _ _ = True"

fun value_scalars :: "evidence_value \<Rightarrow> scalar list" where
  "value_scalars (Ev_one s) = [s]"
| "value_scalars (Ev_many ss) = ss"

fun value_comparable :: "evidence_value \<Rightarrow> evidence_value \<Rightarrow> bool" where
  "value_comparable (Ev_one a) (Ev_one b) = comparable [a] [b]"
| "value_comparable (Ev_many as) (Ev_many bs) = comparable as bs"
| "value_comparable _ _ = False"

definition sorted_values :: "('a \<Rightarrow> string) \<Rightarrow> ('a \<Rightarrow> evidence_value) \<Rightarrow> 'a list \<Rightarrow> 'a list result" where
  "sorted_values nm vl xs =
     (if \<exists>i \<in> set [0..<length xs]. \<exists>j \<in> set [i + 1..<length xs].
         nm (xs ! i) = nm (xs ! j) \<and> \<not> value_comparable (vl (xs ! i)) (vl (xs ! j))
      then Inl TypeError
      else Inr (sort_key (\<lambda>x. (nm x, map scalar_key (value_scalars (vl x)))) xs))"

definition override_normalized :: "rule_override \<Rightarrow> rule_override result" where
  "override_normalized v =
     bind_r (sorted_values par_name (Ev_one \<circ> par_value) (ovr_parameters v))
       (\<lambda>ps. Inr (v\<lparr>ovr_parameters := ps\<rparr>))"

definition policy_normalized :: "verification_policy \<Rightarrow> verification_policy result" where
  "policy_normalized p =
     bind_r (map_r override_normalized (pol_overrides p)) (\<lambda>vs.
     Inr (p\<lparr>pol_overrides := sort_key ovr_rule_id vs,
           pol_gates := sort_key gate_id (map gate_normalized (pol_gates p))\<rparr>))"

section \<open>Drafts, contexts and evaluators\<close>

record finding_draft =
  draft_message :: string
  draft_entities :: "entity_ref list"
  draft_evidence :: "evidence_item list"

definition draft_normalized :: "finding_draft \<Rightarrow> finding_draft result" where
  "draft_normalized d =
     bind_r (sorted_values ev_name ev_value (draft_evidence d)) (\<lambda>es.
     Inr (d\<lparr>draft_entities := sorted_set (draft_entities d), draft_evidence := es\<rparr>))"

text \<open>The operations of the \<^verbatim>\<open>GeometryKernel\<close> protocol.\<close>

record geometry_ops =
  geo_kernel_id :: string
  geo_version :: string
  geo_segments_intersect :: "point_nm \<Rightarrow> point_nm \<Rightarrow> point_nm \<Rightarrow> point_nm \<Rightarrow> bool"
  geo_segment_distance_squared :: "point_nm \<Rightarrow> point_nm \<Rightarrow> point_nm \<Rightarrow> point_nm \<Rightarrow> rat"
  geo_point_segment_distance_squared :: "point_nm \<Rightarrow> point_nm \<Rightarrow> point_nm \<Rightarrow> rat"
  geo_point_in_outline :: "point_nm \<Rightarrow> board_outline \<Rightarrow> bool"

definition exact_geometry_kernel :: geometry_ops where
  "exact_geometry_kernel = \<lparr>geo_kernel_id = ''exact-integer-rational-2d'', geo_version = ''1.0.0'',
     geo_segments_intersect = segments_intersect,
     geo_segment_distance_squared = segment_distance_squared,
     geo_point_segment_distance_squared = point_segment_distance_squared,
     geo_point_in_outline = point_in_outline\<rparr>"

record rule_context =
  ctx_severity :: severity
  ctx_parameters :: "parameter_value list"
  ctx_geometry :: geometry_ops

definition ctx_parameter :: "rule_context \<Rightarrow> string \<Rightarrow> scalar result" where
  "ctx_parameter c name = (case List.find (\<lambda>p. par_name p = name) (ctx_parameters c) of
     Some p \<Rightarrow> Inr (par_value p) | None \<Rightarrow> Inl KeyError)"

definition ctx_integer :: "rule_context \<Rightarrow> string \<Rightarrow> int result" where
  "ctx_integer c name = bind_r (ctx_parameter c name)
     (\<lambda>v. case v of Sc_int i \<Rightarrow> Inr i | _ \<Rightarrow> Inl TypeError)"

definition ctx_boolean :: "rule_context \<Rightarrow> string \<Rightarrow> bool result" where
  "ctx_boolean c name = bind_r (ctx_parameter c name)
     (\<lambda>v. case v of Sc_bool b \<Rightarrow> Inr b | _ \<Rightarrow> Inl TypeError)"

definition ctx_string :: "rule_context \<Rightarrow> string \<Rightarrow> string result" where
  "ctx_string c name = bind_r (ctx_parameter c name)
     (\<lambda>v. case v of Sc_str s \<Rightarrow> Inr s | _ \<Rightarrow> Inl TypeError)"

record evaluator =
  eval_definition :: rule_definition
  eval_evaluate :: "board_graph \<Rightarrow> rule_context \<Rightarrow> finding_draft list result"

section \<open>Validation of rule definitions\<close>

text \<open>\<^verbatim>\<open>RULE_ID_PATTERN\<close> and \<^verbatim>\<open>SEMVER_PATTERN\<close> with \<^verbatim>\<open>fullmatch\<close>.\<close>

fun split_dots :: "string \<Rightarrow> string list" where
  "split_dots [] = [[]]"
| "split_dots (c # cs) =
     (if c = CHR ''.'' then [] # split_dots cs
      else case split_dots cs of [] \<Rightarrow> [[c]] | w # ws \<Rightarrow> (c # w) # ws)"

definition is_upper :: "char \<Rightarrow> bool" where
  "is_upper c \<longleftrightarrow> 65 \<le> (of_char c :: nat) \<and> of_char c < (91 :: nat)"

definition id_word :: "string \<Rightarrow> bool" where
  "id_word w \<longleftrightarrow> w \<noteq> [] \<and> is_upper (hd w) \<and> (\<forall>c \<in> set w. is_upper c \<or> is_digit c \<or> c = CHR ''_'')"

definition rule_id_pattern :: "string \<Rightarrow> bool" where
  "rule_id_pattern s \<longleftrightarrow> length (split_dots s) \<ge> 2 \<and> (\<forall>w \<in> set (split_dots s). id_word w)"

definition semver_number :: "string \<Rightarrow> bool" where
  "semver_number w \<longleftrightarrow> w \<noteq> [] \<and> (\<forall>c \<in> set w. is_digit c) \<and> (w = ''0'' \<or> hd w \<noteq> CHR ''0'')"

definition semver_pattern :: "string \<Rightarrow> bool" where
  "semver_pattern s \<longleftrightarrow> length (split_dots s) = 3 \<and> (\<forall>w \<in> set (split_dots s). semver_number w)"

fun parameter_type_ok :: "parameter_type \<Rightarrow> scalar \<Rightarrow> bool" where
  "parameter_type_ok Par_INTEGER (Sc_int _) = True"
| "parameter_type_ok Par_BOOLEAN (Sc_bool _) = True"
| "parameter_type_ok Par_STRING (Sc_str _) = True"
| "parameter_type_ok _ _ = False"

definition validate_parameter :: "parameter_spec \<Rightarrow> scalar \<Rightarrow> unit result" where
  "validate_parameter spec v = raise_first
     [(\<not> parameter_type_ok (spec_type spec) v, RuleConfigurationError ''parameter type''),
      ((case (v, spec_minimum spec) of (Sc_int i, Some m) \<Rightarrow> i < m | _ \<Rightarrow> False),
        RuleConfigurationError ''parameter is below''),
      ((case (v, spec_maximum spec) of (Sc_int i, Some m) \<Rightarrow> i > m | _ \<Rightarrow> False),
        RuleConfigurationError ''parameter is above'')]"

definition validate_parameter_spec :: "parameter_spec \<Rightarrow> unit result" where
  "validate_parameter_spec spec =
     bind_r (raise_first
       [(strip (spec_name spec) = [], RuleConfigurationError ''parameter name''),
        ((case (spec_minimum spec, spec_maximum spec) of (Some a, Some b) \<Rightarrow> a > b | _ \<Rightarrow> False),
          RuleConfigurationError ''minimum exceeds maximum'')])
       (\<lambda>_. validate_parameter spec (spec_default spec))"

definition validate_rule_definition :: "rule_definition \<Rightarrow> unit result" where
  "validate_rule_definition d =
     bind_r (raise_first
       [(\<not> rule_id_pattern (def_rule_id d), RuleConfigurationError ''invalid stable rule id''),
        (\<not> semver_pattern (def_version d), RuleConfigurationError ''semantic version''),
        (\<not> distinct (map spec_name (def_parameters d)), RuleConfigurationError ''duplicate parameter'')])
       (\<lambda>_. bind_r (map_r validate_parameter_spec (def_parameters d)) (\<lambda>_. Inr ()))"

section \<open>Resolution of a rule\<close>

record resolved_rule =
  res_evaluator :: evaluator
  res_enabled :: bool
  res_severity :: severity
  res_parameters :: "parameter_value list"

definition resolved_definition :: "resolved_rule \<Rightarrow> rule_definition" where
  "resolved_definition r = eval_definition (res_evaluator r)"

definition resolve_rule :: "evaluator \<Rightarrow> rule_override option \<Rightarrow> resolved_rule result" where
  "resolve_rule ev ov =
     (let d = eval_definition ev;
          enabled = (case ov of None \<Rightarrow> True | Some v \<Rightarrow> ovr_enabled v);
          sev = (case ov of None \<Rightarrow> def_default_severity d | Some v \<Rightarrow>
            (case ovr_severity v of None \<Rightarrow> def_default_severity d | Some s \<Rightarrow> s));
          given = (case ov of None \<Rightarrow> [] | Some v \<Rightarrow> ovr_parameters v);
          provided = dict_of par_name given;
          specs = dict_of spec_name (def_parameters d) in
      bind_r (validate_rule_definition d) (\<lambda>_.
      bind_r (raise_first
        [(def_mandatory d \<and> \<not> enabled, RuleConfigurationError ''mandatory rule cannot be disabled''),
         (def_mandatory d \<and> def_default_severity d = Sev_FATAL \<and> sev \<noteq> Sev_FATAL,
           RuleConfigurationError ''mandatory fatal rule cannot be severity-downgraded''),
         (length provided \<noteq> length given, RuleConfigurationError ''duplicate override parameter''),
         (\<exists>p \<in> set given. par_name p \<notin> set (map spec_name (def_parameters d)),
           RuleConfigurationError ''unknown parameters'')]) (\<lambda>_.
      bind_r (map_r (\<lambda>(name, spec).
          let v = (case map_of provided name of Some p \<Rightarrow> par_value p | None \<Rightarrow> spec_default spec) in
          bind_r (validate_parameter spec v) (\<lambda>_. Inr \<lparr>par_name = name, par_value = v\<rparr>))
        (sort_key fst specs)) (\<lambda>ps.
      Inr \<lparr>res_evaluator = ev, res_enabled = enabled, res_severity = sev, res_parameters = ps\<rparr>))))"

definition finding_order_key :: "finding \<Rightarrow> int \<times> string \<times> entity_ref list \<times> string" where
  "finding_order_key f = (- int (severity_rank (find_severity f)), find_rule_id f, find_entities f, find_id f)"

end
