(* ===== verification/Electrical_Rules.thy ===== *)
theory Electrical_Rules
  imports Rule_Model
begin

text \<open>
  \<^verbatim>\<open>backend/verification/electrical.py\<close>: the netlist rules. Each rule class is an evaluator,
  its definition record together with its \<^verbatim>\<open>evaluate\<close> method.
\<close>

section \<open>Building drafts\<close>

definition ent :: "string \<Rightarrow> string \<Rightarrow> entity_ref" where
  "ent k i = \<lparr>ent_kind = k, ent_id = i\<rparr>"

definition ev_str :: "string \<Rightarrow> string \<Rightarrow> evidence_item" where
  "ev_str n s = \<lparr>ev_name = n, ev_value = Ev_one (Sc_str s)\<rparr>"

definition ev_int :: "string \<Rightarrow> int \<Rightarrow> evidence_item" where
  "ev_int n i = \<lparr>ev_name = n, ev_value = Ev_one (Sc_int i)\<rparr>"

definition ev_bool :: "string \<Rightarrow> bool \<Rightarrow> evidence_item" where
  "ev_bool n b = \<lparr>ev_name = n, ev_value = Ev_one (Sc_bool b)\<rparr>"

definition ev_strs :: "string \<Rightarrow> string list \<Rightarrow> evidence_item" where
  "ev_strs n ss = \<lparr>ev_name = n, ev_value = Ev_many (map Sc_str ss)\<rparr>"

definition ev_ints :: "string \<Rightarrow> int list \<Rightarrow> evidence_item" where
  "ev_ints n is = \<lparr>ev_name = n, ev_value = Ev_many (map Sc_int is)\<rparr>"

definition draft :: "string \<Rightarrow> entity_ref list \<Rightarrow> evidence_item list \<Rightarrow> finding_draft" where
  "draft msg es evs = \<lparr>draft_message = msg, draft_entities = es, draft_evidence = evs\<rparr>"

definition colon :: "string \<Rightarrow> string \<Rightarrow> string" where
  "colon a b = a @ '':'' @ b"

text \<open>Names of the conditions that hold, in order.\<close>

definition issues_of :: "(bool \<times> string) list \<Rightarrow> string list" where
  "issues_of cs = map snd (filter fst cs)"

section \<open>The pin index\<close>

definition pin_entries :: "board_graph \<Rightarrow> ((string \<times> string) \<times> pin) list" where
  "pin_entries b = concat (map (\<lambda>c. map (\<lambda>p. ((comp_id c, pin_number p), p)) (comp_pins c)) (board_components b))"

definition component_pin_index :: "board_graph \<Rightarrow> string \<times> string \<Rightarrow> pin option" where
  "component_pin_index b = map_of (rev (pin_entries b))"

section \<open>Graph reference integrity\<close>

definition graph_reference_integrity_definition :: rule_definition where
  "graph_reference_integrity_definition = \<lparr>def_rule_id = ''SYS.GRAPH.REFERENCE_INTEGRITY'',
     def_version = ''1.0.0'', def_domain = Dom_SYSTEM, def_title = ''Graph reference integrity'',
     def_description = ''All graph IDs and net-to-pin references must be unique and resolvable.'',
     def_default_severity = Sev_FATAL, def_parameters = [], def_mandatory = True\<rparr>"

definition duplicate_findings :: "string \<times> string list \<Rightarrow> finding_draft list" where
  "duplicate_findings = (\<lambda>(kind, ids). map (\<lambda>i.
     draft (''Duplicate '' @ kind @ '' identifier: '' @ i) [ent kind i]
       [ev_str ''duplicate_id'' i, ev_str ''kind'' kind]) (duplicates ids))"

definition duplicate_pin_findings :: "component \<Rightarrow> finding_draft list" where
  "duplicate_pin_findings c = map (\<lambda>i.
     draft (''Duplicate pin '' @ i @ '' on '' @ comp_reference c)
       [ent ''component'' (comp_id c), ent ''pin'' i] [ev_str ''duplicate_pin'' i])
     (duplicates (map pin_number (comp_pins c)))"

fun connection_findings ::
  "board_graph \<Rightarrow> net \<Rightarrow> (string \<times> string) list \<Rightarrow> net_connection list \<Rightarrow> finding_draft list" where
  "connection_findings b n seen [] = []"
| "connection_findings b n seen (c # cs) =
     (let key = conn_key c; ref = colon (conn_component_id c) (conn_pin_number c) in
      (if conn_component_id c \<notin> set (map comp_id (board_components b)) then
         [draft (''Net '' @ net_name n @ '' references missing component '' @ conn_component_id c)
            [ent ''net'' (net_id n), ent ''component'' (conn_component_id c)] [ev_str ''connection'' ref]]
       else if component_pin_index b key = None then
         [draft (''Net '' @ net_name n @ '' references missing pin '' @ ref)
            [ent ''net'' (net_id n), ent ''pin'' ref] [ev_str ''connection'' ref]]
       else [])
      @ (if key \<in> set seen then
         [draft (''Net '' @ net_name n @ '' repeats connection '' @ ref)
            [ent ''net'' (net_id n), ent ''pin'' ref] [ev_str ''connection'' ref]]
       else [])
      @ connection_findings b n (key # seen) cs)"

definition all_connections :: "board_graph \<Rightarrow> ((string \<times> string) \<times> string) list" where
  "all_connections b = concat (map (\<lambda>n. map (\<lambda>c. (conn_key c, net_id n)) (net_connections n)) (board_nets b))"

definition multiple_net_findings :: "board_graph \<Rightarrow> finding_draft list" where
  "multiple_net_findings b = concat (map (\<lambda>key.
     let net_ids = sorted_set (map snd (filter (\<lambda>(k, _). k = key) (all_connections b)));
         ref = colon (fst key) (snd key) in
     if length net_ids > 1 then
       [draft (''Pin '' @ ref @ '' belongs to multiple nets'') [ent ''pin'' ref] [ev_strs ''net_ids'' net_ids]]
     else []) (sorted_set (map fst (all_connections b))))"

definition graph_reference_integrity :: "board_graph \<Rightarrow> rule_context \<Rightarrow> finding_draft list result" where
  "graph_reference_integrity b ctx = Inr (
     concat (map duplicate_findings
       [(''component'', map comp_id (board_components b)), (''reference'', map comp_reference (board_components b)),
        (''net'', map net_id (board_nets b)), (''track'', map track_id (board_tracks b)),
        (''via'', map via_id (board_vias b)), (''zone'', map zone_id (board_zones b))])
     @ concat (map duplicate_pin_findings (board_components b))
     @ concat (map (\<lambda>n. connection_findings b n [] (net_connections n)) (board_nets b))
     @ multiple_net_findings b)"

definition graph_reference_integrity_rule :: evaluator where
  "graph_reference_integrity_rule = \<lparr>eval_definition = graph_reference_integrity_definition,
     eval_evaluate = graph_reference_integrity\<rparr>"

section \<open>Unsupported features, footprints and provenance\<close>

definition unsupported_feature_rule :: evaluator where
  "unsupported_feature_rule = \<lparr>eval_definition = \<lparr>def_rule_id = ''SYS.COVERAGE.UNSUPPORTED_FEATURE'',
       def_version = ''1.0.0'', def_domain = Dom_SYSTEM, def_title = ''Unsupported board feature'',
       def_description = ''Unmodeled features prevent a complete authoritative verification claim.'',
       def_default_severity = Sev_FATAL, def_parameters = [], def_mandatory = True\<rparr>,
     eval_evaluate = (\<lambda>b ctx. Inr (map (\<lambda>f. draft (''Unsupported feature is present: '' @ f)
       [ent ''unsupported_feature'' f] [ev_str ''feature'' f]) (board_unsupported_features b)))\<rparr>"

definition footprint_required_rule :: evaluator where
  "footprint_required_rule = \<lparr>eval_definition = \<lparr>def_rule_id = ''ELEC.COMPONENT.FOOTPRINT_REQUIRED'',
       def_version = ''1.0.0'', def_domain = Dom_ELECTRICAL, def_title = ''Footprint assignment required'',
       def_description = ''Every component must resolve to an explicit footprint.'',
       def_default_severity = Sev_ERROR, def_parameters = [], def_mandatory = False\<rparr>,
     eval_evaluate = (\<lambda>b ctx. Inr (map (\<lambda>c. draft (comp_reference c @ '' has no footprint assignment'')
       [ent ''component'' (comp_id c)] [ev_str ''footprint'' (comp_footprint c)])
       (filter (\<lambda>c. strip (comp_footprint c) = []) (board_components b))))\<rparr>"

definition missing_provenance :: "component \<Rightarrow> string list" where
  "missing_provenance c = issues_of
     [(strip (comp_manufacturer_part_number c) = [], ''manufacturer_part_number''),
      (\<not> is_sha256_hex (comp_datasheet_sha256 c), ''datasheet_sha256''),
      (\<not> is_sha256_hex (comp_pin_map_sha256 c), ''pin_map_sha256'')]"

definition part_provenance_required_rule :: evaluator where
  "part_provenance_required_rule = \<lparr>eval_definition = \<lparr>def_rule_id = ''ELEC.COMPONENT.PART_PROVENANCE_REQUIRED'',
       def_version = ''1.0.0'', def_domain = Dom_ELECTRICAL, def_title = ''Exact part provenance required'',
       def_description = ''MPN, datasheet hash, and reviewed pin-map hash are hard evidence inputs.'',
       def_default_severity = Sev_ERROR, def_parameters = [], def_mandatory = False\<rparr>,
     eval_evaluate = (\<lambda>b ctx. Inr (map (\<lambda>c. draft (comp_reference c @ '' lacks verified exact-part evidence'')
       [ent ''component'' (comp_id c)] [ev_strs ''invalid_or_missing_fields'' (missing_provenance c)])
       (filter (\<lambda>c. missing_provenance c \<noteq> []) (board_components b))))\<rparr>"

section \<open>Pins and nets\<close>

definition connected_keys :: "board_graph \<Rightarrow> (string \<times> string) list" where
  "connected_keys b = map fst (all_connections b)"

definition pin_connection_findings :: "board_graph \<Rightarrow> component \<Rightarrow> pin \<Rightarrow> finding_draft list" where
  "pin_connection_findings b c p =
     (let connected = (comp_id c, pin_number p) \<in> set (connected_keys b);
          ents = [ent ''component'' (comp_id c), ent ''pin'' (colon (comp_id c) (pin_number p))];
          evs = [ev_str ''electrical_type'' (pin_electrical_type_value (pin_electrical_type p))];
          name = comp_reference c @ ''.'' @ pin_number p in
      (if pin_required p \<and> pin_electrical_type p \<noteq> Pin_NO_CONNECT \<and> \<not> connected
       then [draft (''Required pin '' @ name @ '' is unconnected'') ents evs] else [])
      @ (if pin_electrical_type p = Pin_NO_CONNECT \<and> connected
       then [draft (''No-connect pin '' @ name @ '' is assigned to a net'') ents evs] else []))"

definition unconnected_required_pin_rule :: evaluator where
  "unconnected_required_pin_rule = \<lparr>eval_definition = \<lparr>def_rule_id = ''ELEC.PIN.UNCONNECTED_REQUIRED'',
       def_version = ''1.0.0'', def_domain = Dom_ELECTRICAL, def_title = ''Required pin connected'',
       def_description = ''Required pins must be assigned to exactly one net unless marked no-connect.'',
       def_default_severity = Sev_ERROR, def_parameters = [], def_mandatory = False\<rparr>,
     eval_evaluate = (\<lambda>b ctx. Inr (concat (map (\<lambda>c.
       concat (map (pin_connection_findings b c) (comp_pins c))) (board_components b))))\<rparr>"

definition endpoint_count :: "net \<Rightarrow> nat" where
  "endpoint_count n = length (sorted_set (map conn_key (net_connections n)))"

definition single_connection_net_rule :: evaluator where
  "single_connection_net_rule = \<lparr>eval_definition = \<lparr>def_rule_id = ''ELEC.NET.SINGLE_CONNECTION'',
       def_version = ''1.0.0'', def_domain = Dom_ELECTRICAL, def_title = ''Net has at least two endpoints'',
       def_description = ''Internal nets with fewer than two unique endpoints are dangling.'',
       def_default_severity = Sev_ERROR, def_parameters = [], def_mandatory = False\<rparr>,
     eval_evaluate = (\<lambda>b ctx. Inr (map (\<lambda>n.
       draft (''Internal net '' @ net_name n @ '' has only '' @ show_nat (endpoint_count n) @ '' unique endpoint(s)'')
         [ent ''net'' (net_id n)] [ev_int ''endpoint_count'' (int (endpoint_count n))])
       (filter (\<lambda>n. \<not> net_external_source n \<and> endpoint_count n < 2) (board_nets b))))\<rparr>"

definition connected_pins :: "board_graph \<Rightarrow> net \<Rightarrow> (net_connection \<times> pin) list" where
  "connected_pins b n = concat (map (\<lambda>c. case component_pin_index b (conn_key c) of
     None \<Rightarrow> [] | Some p \<Rightarrow> [(c, p)]) (net_connections n))"

definition strong_drivers :: "board_graph \<Rightarrow> net \<Rightarrow> string list" where
  "strong_drivers b n = sort (map (\<lambda>(c, p). colon (conn_component_id c) (conn_pin_number c))
     (filter (\<lambda>(c, p). pin_electrical_type p \<in> {Pin_OUTPUT, Pin_POWER_OUT}) (connected_pins b n)))"

definition output_contention_rule :: evaluator where
  "output_contention_rule = \<lparr>eval_definition = \<lparr>def_rule_id = ''ELEC.NET.OUTPUT_CONTENTION'',
       def_version = ''1.0.0'', def_domain = Dom_ELECTRICAL, def_title = ''No strong-output contention'',
       def_description = ''A net may not contain multiple strong output or power-output drivers.'',
       def_default_severity = Sev_ERROR, def_parameters = [], def_mandatory = False\<rparr>,
     eval_evaluate = (\<lambda>b ctx. Inr (map (\<lambda>n. let ds = strong_drivers b n in
       draft (''Net '' @ net_name n @ '' has '' @ show_nat (length ds) @ '' strong drivers'')
         (ent ''net'' (net_id n) # map (ent ''pin'') ds)
         [ev_strs ''drivers'' ds, ev_int ''driver_count'' (int (length ds))])
       (filter (\<lambda>n. length (strong_drivers b n) > 1) (board_nets b))))\<rparr>"

definition count_types :: "pin_electrical_type list \<Rightarrow> board_graph \<Rightarrow> net \<Rightarrow> nat" where
  "count_types ts b n = length (filter (\<lambda>(c, p). pin_electrical_type p \<in> set ts) (connected_pins b n))"

definition driver_types :: "bool \<Rightarrow> bool \<Rightarrow> pin_electrical_type list" where
  "driver_types bidirectional open_collector =
     [Pin_OUTPUT, Pin_POWER_OUT] @ (if bidirectional then [Pin_BIDIRECTIONAL] else [])
     @ (if open_collector then [Pin_OPEN_COLLECTOR] else [])"

definition input_driven :: "board_graph \<Rightarrow> rule_context \<Rightarrow> finding_draft list result" where
  "input_driven b ctx =
     bind_r (ctx_boolean ctx ''bidirectional_is_driver'') (\<lambda>bi.
     bind_r (ctx_boolean ctx ''open_collector_is_driver'') (\<lambda>oc.
     Inr (concat (map (\<lambda>n.
       let sinks = count_types [Pin_INPUT, Pin_POWER_IN] b n; drivers = count_types (driver_types bi oc) b n in
       if \<not> net_external_source n \<and> sinks \<noteq> 0 \<and> drivers = 0 then
         [draft (''Net '' @ net_name n @ '' contains input pins but no recognized driver'')
            [ent ''net'' (net_id n)] [ev_int ''driver_count'' (int drivers), ev_int ''sink_count'' (int sinks)]]
       else []) (board_nets b)))))"

definition input_driven_rule :: evaluator where
  "input_driven_rule = \<lparr>eval_definition = \<lparr>def_rule_id = ''ELEC.NET.INPUT_DRIVEN'',
       def_version = ''1.0.0'', def_domain = Dom_ELECTRICAL, def_title = ''Input nets have a driver'',
       def_description = ''Internal nets containing required inputs must have a recognized source.'',
       def_default_severity = Sev_ERROR,
       def_parameters =
         [\<lparr>spec_name = ''bidirectional_is_driver'', spec_type = Par_BOOLEAN, spec_default = Sc_bool True,
            spec_minimum = None, spec_maximum = None\<rparr>,
          \<lparr>spec_name = ''open_collector_is_driver'', spec_type = Par_BOOLEAN, spec_default = Sc_bool True,
            spec_minimum = None, spec_maximum = None\<rparr>],
       def_mandatory = False\<rparr>,
     eval_evaluate = input_driven\<rparr>"

definition electrical_rules :: "evaluator list" where
  "electrical_rules = [graph_reference_integrity_rule, unsupported_feature_rule, footprint_required_rule,
     part_provenance_required_rule, unconnected_required_pin_rule, single_connection_net_rule,
     output_contention_rule, input_driven_rule]"

end
