(* ===== verification/Copper.thy ===== *)
theory Copper
  imports Electrical_Rules
begin

text \<open>
  The copper of a board as exact shapes (\<^verbatim>\<open>backend/verification/geometric.py\<close>): every pad,
  track, via and drilled hole is a core (a point, a segment or a box) widened by a disk whose
  diameter is \<open>prim_width_nm\<close>. \<^verbatim>\<open>assert\<close> and \<^verbatim>\<open>raise\<close> are error results.
\<close>

section \<open>Shapes\<close>

definition drill_dimensions :: "int \<Rightarrow> int \<Rightarrow> int \<Rightarrow> int \<times> int" where
  "drill_dimensions legacy_minor_nm drill_x_nm drill_y_nm =
     (if drill_x_nm = 0 \<and> drill_y_nm = 0 then (legacy_minor_nm, legacy_minor_nm) else (drill_x_nm, drill_y_nm))"

definition quadrant_dimensions :: "int \<Rightarrow> int \<Rightarrow> int \<Rightarrow> int \<times> int" where
  "quadrant_dimensions size_x_nm size_y_nm rotation_udeg =
     (if (rotation_udeg div 90000000) mod 2 \<noteq> 0 then (size_y_nm, size_x_nm) else (size_x_nm, size_y_nm))"

record core_box =
  box_minimum_x :: rat
  box_minimum_y :: rat
  box_maximum_x :: rat
  box_maximum_y :: rat

definition qpoint :: "rat \<Rightarrow> rat \<Rightarrow> exact_point_t" where
  "qpoint x y = \<lparr>qx = x, qy = y\<rparr>"

definition box_corners :: "core_box \<Rightarrow> exact_point_t list" where
  "box_corners b = [qpoint (box_minimum_x b) (box_minimum_y b), qpoint (box_maximum_x b) (box_minimum_y b),
     qpoint (box_maximum_x b) (box_maximum_y b), qpoint (box_minimum_x b) (box_maximum_y b)]"

definition box_edges :: "core_box \<Rightarrow> (exact_point_t \<times> exact_point_t) list" where
  "box_edges b = map (\<lambda>i. (box_corners b ! i, box_corners b ! ((i + 1) mod 4))) [0..<4]"

record copper_primitive =
  prim_id :: string
  prim_entity :: entity_ref
  prim_net_id :: string
  prim_layers :: "string list"
  prim_center :: "exact_point_t option"
  prim_start :: "exact_point_t option"
  prim_end :: "exact_point_t option"
  prim_box :: "core_box option"
  prim_width_nm :: int

type_synonym core =
  "exact_point_t option \<times> exact_point_t option \<times> exact_point_t option \<times> core_box option \<times> int"

text \<open>An oblong of width \<open>minor\<close>: its core is the segment between the centres of its ends.\<close>

definition pad_core :: "physical_pad \<Rightarrow> core option" where
  "pad_core q =
     (if ppad_size_x_nm q \<le> 0 \<or> ppad_size_y_nm q \<le> 0 \<or> ppad_rotation_udeg q mod 90000000 \<noteq> 0 then None else
      let (sx, sy) = (if (ppad_rotation_udeg q div 90000000) mod 2 \<noteq> 0
            then (ppad_size_y_nm q, ppad_size_x_nm q) else (ppad_size_x_nm q, ppad_size_y_nm q));
          center = exact_point (ppad_center q) in
      case ppad_shape q of
        Shape_CIRCLE \<Rightarrow> if sx \<noteq> sy then None else Some (Some center, None, None, None, sx)
      | Shape_OVAL \<Rightarrow>
          let minor = min sx sy; delta = fraction \<bar>sx - sy\<bar> 2 in
          if delta = 0 then Some (Some center, None, None, None, minor)
          else if sx > sy then
            Some (None, Some (qpoint (qx center - delta) (qy center)), Some (qpoint (qx center + delta) (qy center)), None, minor)
          else
            Some (None, Some (qpoint (qx center) (qy center - delta)), Some (qpoint (qx center) (qy center + delta)), None, minor)
      | _ \<Rightarrow>
          let half_x = fraction sx 2; half_y = fraction sy 2;
              radius = (if ppad_shape q = Shape_RECT then 0 else min sx sy div 4) in
          Some (None, None, None, Some \<lparr>box_minimum_x = qx center - half_x + of_int radius,
            box_minimum_y = qy center - half_y + of_int radius,
            box_maximum_x = qx center + half_x - of_int radius,
            box_maximum_y = qy center + half_y - of_int radius\<rparr>, 2 * radius))"

section \<open>The copper primitives of a board\<close>

definition pad_number_of :: "pin \<Rightarrow> string" where
  "pad_number_of p = (if pin_pad_number p = [] then pin_number p else pin_pad_number p)"

definition physical_pad_nets :: "board_graph \<Rightarrow> string \<times> string \<Rightarrow> string option" where
  "physical_pad_nets b = map_of (rev (concat (map (\<lambda>n. concat (map (\<lambda>c.
     case component_pin_index b (conn_key c) of
       None \<Rightarrow> [] | Some p \<Rightarrow> [((conn_component_id c, pad_number_of p), net_id n)])
     (net_connections n))) (board_nets b))))"

text \<open>\<^verbatim>\<open>pad.net_id or nets.get(key, "")\<close>\<close>

definition net_of_pad :: "board_graph \<Rightarrow> physical_pad \<Rightarrow> string" where
  "net_of_pad b q = (case ppad_net_id q of
     Some n \<Rightarrow> if n \<noteq> [] then n else
       (case physical_pad_nets b (ppad_component_id q, ppad_pad_number q) of None \<Rightarrow> [] | Some m \<Rightarrow> m)
   | None \<Rightarrow> (case physical_pad_nets b (ppad_component_id q, ppad_pad_number q) of None \<Rightarrow> [] | Some m \<Rightarrow> m))"

definition pad_primitive :: "board_graph \<Rightarrow> physical_pad \<Rightarrow> copper_primitive list" where
  "pad_primitive b q = (case pad_core q of
     None \<Rightarrow> []
   | Some (center, s, e, bx, w) \<Rightarrow> if ppad_layers q = [] then [] else
       [\<lparr>prim_id = ''pad:'' @ ppad_id q, prim_entity = ent ''pad'' (ppad_id q), prim_net_id = net_of_pad b q,
         prim_layers = ppad_layers q, prim_center = center, prim_start = s, prim_end = e, prim_box = bx,
         prim_width_nm = w\<rparr>])"

fun pad_primitives :: "board_graph \<Rightarrow> string list \<Rightarrow> physical_pad list \<Rightarrow> copper_primitive list" where
  "pad_primitives b represented [] = []"
| "pad_primitives b represented (q # qs) =
     (case ppad_shared_land_group_id q of
        None \<Rightarrow> pad_primitive b q @ pad_primitives b represented qs
      | Some g \<Rightarrow> if g \<in> set represented then pad_primitives b represented qs
          else pad_primitive b q @ pad_primitives b (g # represented) qs)"

definition point_primitive ::
  "string \<Rightarrow> entity_ref \<Rightarrow> string \<Rightarrow> string list \<Rightarrow> point_nm \<Rightarrow> int \<Rightarrow> copper_primitive" where
  "point_primitive i e n ls c w = \<lparr>prim_id = i, prim_entity = e, prim_net_id = n, prim_layers = ls,
     prim_center = Some (exact_point c), prim_start = None, prim_end = None, prim_box = None, prim_width_nm = w\<rparr>"

definition pin_primitive :: "board_graph \<Rightarrow> component \<Rightarrow> pin \<Rightarrow> copper_primitive list" where
  "pin_primitive b c p =
     (case (map_of (rev (all_connections b)) (comp_id c, pin_number p), pin_pad_center p) of
        (Some n, Some center) \<Rightarrow>
          if n \<noteq> [] \<and> pin_pad_diameter_nm p > 0 \<and> pin_layers p \<noteq> [] then
            let i = colon (comp_id c) (pin_number p) in
            [point_primitive (''pad:'' @ i) (ent ''pin'' i) n (pin_layers p) center (pin_pad_diameter_nm p)]
          else []
      | _ \<Rightarrow> [])"

definition track_primitive :: "track \<Rightarrow> copper_primitive" where
  "track_primitive t = \<lparr>prim_id = ''track:'' @ track_id t, prim_entity = ent ''track'' (track_id t),
     prim_net_id = track_net_id t, prim_layers = [track_layer t], prim_center = None,
     prim_start = Some (exact_point (track_start t)), prim_end = Some (exact_point (track_end t)),
     prim_box = None, prim_width_nm = track_width_nm t\<rparr>"

definition via_primitive :: "via \<Rightarrow> copper_primitive" where
  "via_primitive v = point_primitive (''via:'' @ via_id v) (ent ''via'' (via_id v)) (via_net_id v)
     (via_layers v) (via_center v) (via_diameter_nm v)"

definition copper_primitives :: "board_graph \<Rightarrow> copper_primitive list" where
  "copper_primitives b = sort_key prim_id (
     (if board_pads b \<noteq> [] then pad_primitives b [] (board_pads b)
      else concat (map (\<lambda>c. concat (map (pin_primitive b c) (comp_pins c))) (board_components b)))
     @ map track_primitive (filter (\<lambda>t. track_width_nm t > 0) (board_tracks b))
     @ map via_primitive (filter (\<lambda>v. via_diameter_nm v > 0) (board_vias b)))"

definition hole_primitive :: "hole \<Rightarrow> string list \<Rightarrow> copper_primitive result" where
  "hole_primitive x ls =
     (if hole_drill_rotation_udeg x mod 90000000 \<noteq> 0 then Inl (ValueError ''unsupported non-quadrant hole rotation'')
      else
      let (dx0, dy0) = drill_dimensions (hole_diameter_nm x) (hole_drill_x_nm x) (hole_drill_y_nm x);
          (dx, dy) = quadrant_dimensions dx0 dy0 (hole_drill_rotation_udeg x);
          center = exact_point (hole_center x); minor = min dx dy; delta = fraction \<bar>dx - dy\<bar> 2;
          (c, s, e) =
            (if delta = 0 then (Some center, None, None)
             else if dx > dy then (None, Some (qpoint (qx center - delta) (qy center)), Some (qpoint (qx center + delta) (qy center)))
             else (None, Some (qpoint (qx center) (qy center - delta)), Some (qpoint (qx center) (qy center + delta))))
      in Inr \<lparr>prim_id = ''hole:'' @ hole_id x, prim_entity = ent ''hole'' (hole_id x), prim_net_id = [],
           prim_layers = ls, prim_center = c, prim_start = s, prim_end = e, prim_box = None, prim_width_nm = minor\<rparr>)"

section \<open>Distances between cores\<close>

definition point_distance_squared :: "exact_point_t \<Rightarrow> exact_point_t \<Rightarrow> rat" where
  "point_distance_squared p q = (qx p - qx q)\<^sup>2 + (qy p - qy q)\<^sup>2"

definition point_in_box :: "exact_point_t \<Rightarrow> core_box \<Rightarrow> bool" where
  "point_in_box p b \<longleftrightarrow> box_minimum_x b \<le> qx p \<and> qx p \<le> box_maximum_x b
     \<and> box_minimum_y b \<le> qy p \<and> qy p \<le> box_maximum_y b"

definition point_box_distance_squared :: "exact_point_t \<Rightarrow> core_box \<Rightarrow> rat" where
  "point_box_distance_squared p b =
     (let dx = max (max (box_minimum_x b - qx p) 0) (qx p - box_maximum_x b);
          dy = max (max (box_minimum_y b - qy p) 0) (qy p - box_maximum_y b) in dx * dx + dy * dy)"

definition segment_box_distance_squared :: "exact_point_t \<Rightarrow> exact_point_t \<Rightarrow> core_box \<Rightarrow> rat" where
  "segment_box_distance_squared s e b =
     (if point_in_box s b \<or> point_in_box e b \<or> (\<exists>(es, ee) \<in> set (box_edges b). exact_segments_intersect s e es ee)
      then 0
      else Min (set ([point_box_distance_squared s b, point_box_distance_squared e b]
        @ map (\<lambda>c. exact_point_segment_distance_squared c s e) (box_corners b))))"

definition box_distance_squared :: "core_box \<Rightarrow> core_box \<Rightarrow> rat" where
  "box_distance_squared a b =
     (let dx = max (max (box_minimum_x a - box_maximum_x b) 0) (box_minimum_x b - box_maximum_x a);
          dy = max (max (box_minimum_y a - box_maximum_y b) 0) (box_minimum_y b - box_maximum_y a)
      in dx * dx + dy * dy)"

definition distance_squared :: "copper_primitive \<Rightarrow> copper_primitive \<Rightarrow> rat result" where
  "distance_squared f s =
     (case (prim_box f, prim_box s) of
        (Some a, Some b) \<Rightarrow> Inr (box_distance_squared a b)
      | (Some a, None) \<Rightarrow>
          (case (prim_start s, prim_end s) of
             (Some ss, Some se) \<Rightarrow> Inr (segment_box_distance_squared ss se a)
           | _ \<Rightarrow> (case prim_center s of None \<Rightarrow> Inl AssertionError | Some c \<Rightarrow> Inr (point_box_distance_squared c a)))
      | (None, Some b) \<Rightarrow>
          (case (prim_start f, prim_end f) of
             (Some fs, Some fe) \<Rightarrow> Inr (segment_box_distance_squared fs fe b)
           | _ \<Rightarrow> (case prim_center f of None \<Rightarrow> Inl AssertionError | Some c \<Rightarrow> Inr (point_box_distance_squared c b)))
      | (None, None) \<Rightarrow>
          (case ((prim_start f, prim_end f), (prim_start s, prim_end s)) of
             ((Some fs, Some fe), (Some ss, Some se)) \<Rightarrow> Inr (exact_segment_distance_squared fs fe ss se)
           | ((Some fs, Some fe), _) \<Rightarrow>
               (case prim_center s of None \<Rightarrow> Inl AssertionError
                | Some c \<Rightarrow> Inr (exact_point_segment_distance_squared c fs fe))
           | (_, (Some ss, Some se)) \<Rightarrow>
               (case prim_center f of None \<Rightarrow> Inl AssertionError
                | Some c \<Rightarrow> Inr (exact_point_segment_distance_squared c ss se))
           | _ \<Rightarrow> (case (prim_center f, prim_center s) of
               (Some a, Some b) \<Rightarrow> Inr (point_distance_squared a b) | _ \<Rightarrow> Inl AssertionError)))"

section \<open>Cores and outlines\<close>

definition exact_outline_edges :: "board_outline \<Rightarrow> (exact_point_t \<times> exact_point_t) list" where
  "exact_outline_edges vs =
     map (\<lambda>i. (exact_point (vs ! i), exact_point (vs ! ((i + 1) mod length vs)))) [0..<length vs]"

definition core_outline_distance_squared :: "copper_primitive \<Rightarrow> board_outline \<Rightarrow> rat result" where
  "core_outline_distance_squared p vs =
     (let edges = exact_outline_edges vs in
      if edges = [] then Inr 0 else
      case prim_box p of
        Some b \<Rightarrow> Inr (Min (set (map (\<lambda>(s, e). segment_box_distance_squared s e b) edges)))
      | None \<Rightarrow>
          (case (prim_start p, prim_end p) of
             (Some ps, Some pe) \<Rightarrow> Inr (Min (set (map (\<lambda>(s, e). exact_segment_distance_squared ps pe s e) edges)))
           | _ \<Rightarrow> (case prim_center p of None \<Rightarrow> Inl AssertionError
              | Some c \<Rightarrow> Inr (Min (set (map (\<lambda>(s, e). exact_point_segment_distance_squared c s e) edges))))))"

definition edges_meet :: "(exact_point_t \<times> exact_point_t) list \<Rightarrow> (exact_point_t \<times> exact_point_t) list \<Rightarrow> bool" where
  "edges_meet es fs \<longleftrightarrow> (\<exists>(a, b) \<in> set es. \<exists>(c, d) \<in> set fs. exact_segments_intersect a b c d)"

definition core_overlaps_outline :: "copper_primitive \<Rightarrow> board_outline \<Rightarrow> bool result" where
  "core_overlaps_outline p vs =
     (let edges = exact_outline_edges vs in
      case prim_box p of
        Some b \<Rightarrow> Inr ((\<exists>c \<in> set (box_corners b). exact_point_in_outline c vs)
          \<or> (\<exists>(s, e) \<in> set edges. point_in_box s b) \<or> edges_meet (box_edges b) edges)
      | None \<Rightarrow>
          (case (prim_start p, prim_end p) of
             (Some ps, Some pe) \<Rightarrow> Inr (exact_point_in_outline ps vs \<or> exact_point_in_outline pe vs
               \<or> edges_meet [(ps, pe)] edges)
           | _ \<Rightarrow> (case prim_center p of None \<Rightarrow> Inl AssertionError | Some c \<Rightarrow> Inr (exact_point_in_outline c vs))))"

definition core_inside_outline :: "copper_primitive \<Rightarrow> board_outline \<Rightarrow> bool result" where
  "core_inside_outline p vs =
     (let edges = exact_outline_edges vs in
      case prim_box p of
        Some b \<Rightarrow> Inr ((\<forall>c \<in> set (box_corners b). exact_point_in_outline c vs) \<and> \<not> edges_meet (box_edges b) edges)
      | None \<Rightarrow>
          (case (prim_start p, prim_end p) of
             (Some ps, Some pe) \<Rightarrow> Inr (exact_point_in_outline ps vs \<and> exact_point_in_outline pe vs
               \<and> \<not> edges_meet [(ps, pe)] edges)
           | _ \<Rightarrow> (case prim_center p of None \<Rightarrow> Inl AssertionError | Some c \<Rightarrow> Inr (exact_point_in_outline c vs))))"

definition primitive_zone_distance_squared :: "copper_primitive \<Rightarrow> zone \<Rightarrow> (rat \<times> bool) result" where
  "primitive_zone_distance_squared p z =
     bind_r (core_outline_distance_squared p (zone_outline z)) (\<lambda>d.
     bind_r (core_overlaps_outline p (zone_outline z)) (\<lambda>b. Inr (d, b)))"

definition valid_zones :: "board_graph \<Rightarrow> rule_context \<Rightarrow> zone list" where
  "valid_zones b ctx = filter (\<lambda>z. zone_fill_state z = Fill_VERIFIED_FILLED
     \<and> outline_defects (geo_segments_intersect (ctx_geometry ctx)) (zone_outline z) = []) (board_zones b)"

text \<open>\<^verbatim>\<open>for i, a in enumerate(xs): for b in xs[i + 1:]\<close>\<close>

fun pairs :: "'a list \<Rightarrow> ('a \<times> 'a) list" where
  "pairs [] = []"
| "pairs (x # xs) = map (Pair x) xs @ pairs xs"

definition concat_r :: "('a \<Rightarrow> 'b list result) \<Rightarrow> 'a list \<Rightarrow> 'b list result" where
  "concat_r f xs = bind_r (map_r f xs) (\<lambda>yss. Inr (concat yss))"

definition shared_layers :: "copper_primitive \<Rightarrow> copper_primitive \<Rightarrow> string list" where
  "shared_layers f s = sorted_set (filter (\<lambda>l. l \<in> set (prim_layers s)) (prim_layers f))"

definition numerator :: "rat \<Rightarrow> int" where
  "numerator r = fst (quotient_of r)"

definition denominator :: "rat \<Rightarrow> int" where
  "denominator r = snd (quotient_of r)"

end
