(* ===== verification/Geometric_Rules.thy ===== *)
theory Geometric_Rules
  imports Copper
begin

text \<open>
  The design rules of \<^verbatim>\<open>backend/verification/geometric.py\<close>: outlines, copper topology, widths
  and annular rings, zones, and the clearances between copper shapes and to the board edge.
\<close>

section \<open>Outlines\<close>

definition outline_validity_rule :: evaluator where
  "outline_validity_rule = \<lparr>eval_definition = \<lparr>def_rule_id = ''GEO.OUTLINE.VALID'', def_version = ''1.0.0'',
       def_domain = Dom_GEOMETRY, def_title = ''Closed simple board outline'',
       def_description = ''The board outline must be a non-zero-area simple polygon.'',
       def_default_severity = Sev_FATAL, def_parameters = [], def_mandatory = True\<rparr>,
     eval_evaluate = (\<lambda>b ctx. Inr (map (\<lambda>(kind, indices).
       draft (''Invalid board outline: '' @ kind) [ent ''outline'' (board_design_id b)]
         [ev_str ''defect'' kind, ev_ints ''edge_indices'' indices])
       (outline_defects (geo_segments_intersect (ctx_geometry ctx)) (board_outline b))))\<rparr>"

definition zone_outline_validity_rule :: evaluator where
  "zone_outline_validity_rule = \<lparr>eval_definition = \<lparr>def_rule_id = ''GEO.ZONE.OUTLINE_VALID'', def_version = ''1.0.0'',
       def_domain = Dom_GEOMETRY, def_title = ''Simple filled-zone outlines'',
       def_description = ''Every modeled filled copper zone must be a non-zero-area simple polygon.'',
       def_default_severity = Sev_FATAL, def_parameters = [], def_mandatory = True\<rparr>,
     eval_evaluate = (\<lambda>b ctx. Inr (concat (map (\<lambda>z. map (\<lambda>(kind, indices).
       draft (''Zone '' @ zone_id z @ '' has invalid outline: '' @ kind) [ent ''zone'' (zone_id z)]
         [ev_str ''defect'' kind, ev_ints ''edge_indices'' indices])
       (outline_defects (geo_segments_intersect (ctx_geometry ctx)) (zone_outline z))) (board_zones b))))\<rparr>"

definition zone_fill_verification_rule :: evaluator where
  "zone_fill_verification_rule = \<lparr>eval_definition = \<lparr>def_rule_id = ''GEO.ZONE.FILL_UNVERIFIED'', def_version = ''1.0.0'',
       def_domain = Dom_GEOMETRY, def_title = ''Zone fill must be independently verified'',
       def_description = ''An unfilled zone remains design intent and is not authoritative copper until a source-bound fill-engine result is recorded.'',
       def_default_severity = Sev_WARNING, def_parameters = [], def_mandatory = True\<rparr>,
     eval_evaluate = (\<lambda>b ctx. Inr (map (\<lambda>z.
       draft (''Zone '' @ zone_id z @ '' is unfilled intent; copper fill is not verified'') [ent ''zone'' (zone_id z)]
         [ev_str ''fill_state'' (zone_fill_state_value (zone_fill_state z)), ev_str ''layer'' (zone_layer z),
          ev_str ''net_id'' (zone_net_id z)])
       (filter (\<lambda>z. zone_fill_state z = Fill_UNFILLED_INTENT) (board_zones b))))\<rparr>"

section \<open>Copper topology\<close>

definition unknown_layer :: "board_graph \<Rightarrow> string list \<Rightarrow> bool" where
  "unknown_layer b ls \<longleftrightarrow> (\<exists>l \<in> set ls. l \<notin> set (board_layers b))"

definition known_net :: "board_graph \<Rightarrow> string \<Rightarrow> bool" where
  "known_net b n \<longleftrightarrow> n \<in> set (map net_id (board_nets b))"

definition pin_topology_findings :: "board_graph \<Rightarrow> component \<Rightarrow> pin \<Rightarrow> finding_draft list" where
  "pin_topology_findings b c p =
     (if pin_pad_center p = None \<and> pin_pad_diameter_nm p = 0 \<and> pin_pad_drill_nm p = 0 \<and> pin_layers p = [] then []
      else let issues = issues_of
          [(pin_pad_center p = None, ''missing_center''),
           (pin_pad_diameter_nm p \<le> 0, ''non_positive_copper_diameter''),
           (pin_layers p = [], ''no_copper_layers''), (unknown_layer b (pin_layers p), ''unknown_layer''),
           (pin_pad_drill_nm p < 0, ''negative_drill''),
           (pin_pad_drill_nm p > 0 \<and> pin_pad_drill_nm p \<ge> pin_pad_diameter_nm p, ''drill_not_smaller_than_copper'')] in
      if issues = [] then [] else
        [draft (''Pad '' @ comp_reference c @ ''.'' @ pin_number p @ '' has invalid copper/drill topology'')
           [ent ''pin'' (colon (comp_id c) (pin_number p))]
           [ev_strs ''issues'' issues, ev_int ''copper_diameter_nm'' (pin_pad_diameter_nm p),
            ev_int ''drill_nm'' (pin_pad_drill_nm p), ev_strs ''layers'' (pin_layers p)]])"

definition component_pad_numbers :: "board_graph \<Rightarrow> string \<Rightarrow> string list option" where
  "component_pad_numbers b = map_of (rev (map (\<lambda>c. (comp_id c, map pad_number_of (comp_pins c))) (board_components b)))"

definition duplicated :: "'a list \<Rightarrow> 'a \<Rightarrow> bool" where
  "duplicated xs x \<longleftrightarrow> count_list xs x > 1"

definition pad_issues :: "board_graph \<Rightarrow> physical_pad \<Rightarrow> string list" where
  "pad_issues b q =
     (let (dx, dy) = drill_dimensions (ppad_drill_nm q) (ppad_drill_x_nm q) (ppad_drill_y_nm q);
          (cx, cy) = quadrant_dimensions (ppad_size_x_nm q) (ppad_size_y_nm q) (ppad_rotation_udeg q);
          (bx, by1) = quadrant_dimensions dx dy (ppad_drill_rotation_udeg q);
          numbers = component_pad_numbers b (ppad_component_id q) in
      issues_of
       [(duplicated (map ppad_id (board_pads b)) (ppad_id q), ''duplicate_pad_id''),
        (ppad_id q = [], ''missing_pad_id''),
        (numbers = None, ''unknown_component''),
        ((case numbers of None \<Rightarrow> False | Some ns \<Rightarrow> ppad_pad_number q \<notin> set ns), ''unknown_logical_pad_number''),
        ((case ppad_net_id q of None \<Rightarrow> False | Some n \<Rightarrow> \<not> known_net b n), ''unknown_net''),
        ((case (ppad_net_id q, physical_pad_nets b (ppad_component_id q, ppad_pad_number q)) of
            (Some n, Some m) \<Rightarrow> n \<noteq> m | _ \<Rightarrow> False), ''logical_net_mismatch''),
        (ppad_size_x_nm q \<le> 0 \<or> ppad_size_y_nm q \<le> 0, ''non_positive_copper_size''),
        (ppad_shape q = Shape_CIRCLE \<and> ppad_size_x_nm q \<noteq> ppad_size_y_nm q, ''circle_requires_equal_dimensions''),
        (\<not> (0 \<le> ppad_rotation_udeg q \<and> ppad_rotation_udeg q < 360000000), ''rotation_out_of_range''),
        (ppad_layers q = [], ''no_copper_layers''), (unknown_layer b (ppad_layers q), ''unknown_layer''),
        (ppad_drill_nm q < 0 \<or> dx < 0 \<or> dy < 0, ''negative_drill''),
        ((dx = 0) \<noteq> (dy = 0), ''partial_drill_dimensions''),
        (dx > 0 \<and> (bx \<ge> cx \<or> by1 \<ge> cy), ''drill_not_smaller_than_copper'')])"

definition pad_topology_findings :: "board_graph \<Rightarrow> physical_pad \<Rightarrow> finding_draft list" where
  "pad_topology_findings b q =
     (let issues = pad_issues b q; name = (if ppad_id q = [] then ''<missing>'' else ppad_id q) in
      if issues = [] then [] else
        [draft (''Physical pad '' @ name @ '' has invalid copper/drill topology'') [ent ''pad'' name]
           [ev_strs ''issues'' issues, ev_str ''component_id'' (ppad_component_id q),
            ev_str ''pad_number'' (ppad_pad_number q), ev_str ''shape'' (pad_shape_value (ppad_shape q)),
            ev_int ''size_x_nm'' (ppad_size_x_nm q), ev_int ''size_y_nm'' (ppad_size_y_nm q),
            ev_int ''rotation_udeg'' (ppad_rotation_udeg q), ev_int ''drill_nm'' (ppad_drill_nm q),
            ev_int ''drill_x_nm'' (ppad_drill_x_nm q), ev_int ''drill_y_nm'' (ppad_drill_y_nm q),
            ev_int ''drill_rotation_udeg'' (ppad_drill_rotation_udeg q), ev_strs ''layers'' (ppad_layers q)]])"

definition shared_land_groups :: "board_graph \<Rightarrow> (string \<times> physical_pad list) list" where
  "shared_land_groups b =
     (let ids = concat (map (\<lambda>q. case ppad_shared_land_group_id q of None \<Rightarrow> [] | Some g \<Rightarrow> [g]) (board_pads b)) in
      map (\<lambda>g. (g, filter (\<lambda>q. ppad_shared_land_group_id q = Some g) (board_pads b))) (sorted_set ids))"

definition land_signature :: "board_graph \<Rightarrow> physical_pad \<Rightarrow>
  string \<times> string \<times> point_nm \<times> int \<times> int \<times> pad_shape \<times> int \<times> string list \<times> int \<times> int \<times> int \<times> int" where
  "land_signature b q = (ppad_component_id q, net_of_pad b q, ppad_center q, ppad_size_x_nm q, ppad_size_y_nm q,
     ppad_shape q, ppad_rotation_udeg q, ppad_layers q, ppad_drill_nm q, ppad_drill_x_nm q, ppad_drill_y_nm q,
     ppad_drill_rotation_udeg q)"

definition one_exact_land :: "board_graph \<Rightarrow> physical_pad list \<Rightarrow> bool" where
  "one_exact_land b qs \<longleftrightarrow> length qs \<ge> 2 \<and> length (remdups (map ppad_pad_number qs)) = length qs
     \<and> length (remdups (map (land_signature b) qs)) = 1"

definition shared_land_findings :: "board_graph \<Rightarrow> finding_draft list" where
  "shared_land_findings b = concat (map (\<lambda>(g, qs).
     if one_exact_land b qs then [] else
       [draft (''Shared land group '' @ g @ '' does not describe one exact copper land'')
          (map (\<lambda>q. ent ''pad'' (ppad_id q)) qs)
          [ev_str ''shared_land_group_id'' g, ev_strs ''pad_ids'' (sort (map ppad_id qs)),
           ev_int ''distinct_geometry_net_signatures'' (int (length (remdups (map (land_signature b) qs))))]])
     (shared_land_groups b))"

definition pad_index :: "board_graph \<Rightarrow> string \<Rightarrow> physical_pad option" where
  "pad_index b = map_of (rev (map (\<lambda>q. (ppad_id q, q))
     (filter (\<lambda>q. \<not> duplicated (map ppad_id (board_pads b)) (ppad_id q) \<and> ppad_id q \<noteq> []) (board_pads b))))"

definition hole_issues :: "board_graph \<Rightarrow> hole \<Rightarrow> string list" where
  "hole_issues b x =
     (let (dx, dy) = drill_dimensions (hole_diameter_nm x) (hole_drill_x_nm x) (hole_drill_y_nm x);
          associated = (case hole_pad_id x of None \<Rightarrow> pad_index b [] | Some i \<Rightarrow> pad_index b i) in
      issues_of
       [(duplicated (map hole_id (board_holes b)) (hole_id x), ''duplicate_hole_id''),
        (hole_component_id x \<notin> set (map comp_id (board_components b)), ''unknown_component''),
        (hole_diameter_nm x \<le> 0, ''non_positive_diameter''),
        (dx \<le> 0 \<or> dy \<le> 0, ''non_positive_drill_dimensions''),
        (hole_plated x \<noteq> (hole_pad_id x \<noteq> None), ''plating_pad_association_mismatch'')]
      @ (if \<not> hole_plated x then [] else
         case associated of None \<Rightarrow> [''unknown_pad'']
         | Some q \<Rightarrow> issues_of
            [(ppad_component_id q \<noteq> hole_component_id x, ''pad_component_mismatch''),
             (ppad_center q \<noteq> hole_center x, ''pad_center_mismatch''),
             (drill_dimensions (ppad_drill_nm q) (ppad_drill_x_nm q) (ppad_drill_y_nm q) \<noteq> (dx, dy)
              \<or> ppad_drill_rotation_udeg q mod 180000000 \<noteq> hole_drill_rotation_udeg x mod 180000000,
              ''pad_drill_mismatch'')]))"

definition hole_topology_findings :: "board_graph \<Rightarrow> hole \<Rightarrow> finding_draft list" where
  "hole_topology_findings b x =
     (let issues = hole_issues b x in
      if issues = [] then [] else
        [draft (''Footprint hole '' @ hole_id x @ '' has invalid drill topology'') [ent ''hole'' (hole_id x)]
           [ev_strs ''issues'' issues, ev_str ''component_id'' (hole_component_id x),
            ev_int ''diameter_nm'' (hole_diameter_nm x), ev_bool ''plated'' (hole_plated x),
            ev_str ''pad_id'' (case hole_pad_id x of None \<Rightarrow> [] | Some i \<Rightarrow> i),
            ev_int ''drill_x_nm'' (hole_drill_x_nm x), ev_int ''drill_y_nm'' (hole_drill_y_nm x),
            ev_int ''drill_rotation_udeg'' (hole_drill_rotation_udeg x)]])"

definition track_topology_findings :: "board_graph \<Rightarrow> track \<Rightarrow> finding_draft list" where
  "track_topology_findings b t =
     (let issues = issues_of
        [(\<not> known_net b (track_net_id t), ''unknown_net''), (track_layer t \<notin> set (board_layers b), ''unknown_layer''),
         (track_start t = track_end t, ''zero_length''), (track_width_nm t \<le> 0, ''non_positive_width'')] in
      if issues = [] then [] else
        [draft (''Track '' @ track_id t @ '' has invalid topology'') [ent ''track'' (track_id t)]
           [ev_strs ''issues'' issues, ev_str ''layer'' (track_layer t), ev_str ''net_id'' (track_net_id t)]])"

definition via_topology_findings :: "board_graph \<Rightarrow> via \<Rightarrow> finding_draft list" where
  "via_topology_findings b v =
     (let issues = issues_of
        [(\<not> known_net b (via_net_id v), ''unknown_net''), (length (via_layers v) < 2, ''fewer_than_two_layers''),
         (unknown_layer b (via_layers v), ''unknown_layer''), (via_diameter_nm v \<le> 0, ''non_positive_diameter''),
         (via_drill_nm v \<le> 0, ''non_positive_drill''),
         (via_drill_nm v \<ge> via_diameter_nm v, ''drill_not_smaller_than_diameter'')] in
      if issues = [] then [] else
        [draft (''Via '' @ via_id v @ '' has invalid topology'') [ent ''via'' (via_id v)]
           [ev_strs ''issues'' issues, ev_strs ''layers'' (via_layers v), ev_str ''net_id'' (via_net_id v)]])"

definition zone_topology_findings :: "board_graph \<Rightarrow> zone \<Rightarrow> finding_draft list" where
  "zone_topology_findings b z =
     (let issues = issues_of
        [(\<not> known_net b (zone_net_id z), ''unknown_net''), (zone_layer z \<notin> set (board_layers b), ''unknown_layer''),
         (zone_clearance_nm z < 0, ''negative_clearance'')] in
      if issues = [] then [] else
        [draft (''Zone '' @ zone_id z @ '' has invalid topology'') [ent ''zone'' (zone_id z)]
           [ev_strs ''issues'' issues, ev_str ''layer'' (zone_layer z), ev_str ''net_id'' (zone_net_id z),
            ev_int ''clearance_nm'' (zone_clearance_nm z)]])"

definition copper_topology :: "board_graph \<Rightarrow> rule_context \<Rightarrow> finding_draft list result" where
  "copper_topology b ctx = Inr (
     concat (map (\<lambda>c. concat (map (pin_topology_findings b c) (comp_pins c))) (board_components b))
     @ concat (map (pad_topology_findings b) (board_pads b)) @ shared_land_findings b
     @ concat (map (hole_topology_findings b) (board_holes b))
     @ concat (map (track_topology_findings b) (board_tracks b))
     @ concat (map (via_topology_findings b) (board_vias b))
     @ concat (map (zone_topology_findings b) (board_zones b)))"

definition copper_topology_rule :: evaluator where
  "copper_topology_rule = \<lparr>eval_definition = \<lparr>def_rule_id = ''ALG.ROUTING.TOPOLOGY'', def_version = ''1.0.0'',
       def_domain = Dom_ALGORITHM, def_title = ''Copper topology references are legal'',
       def_description = ''Pads, tracks, vias, and zones must use valid copper geometry and references.'',
       def_default_severity = Sev_FATAL, def_parameters = [], def_mandatory = True\<rparr>,
     eval_evaluate = copper_topology\<rparr>"

end
