(* ===== verification/Clearance_Rules.thy ===== *)
theory Clearance_Rules
  imports Geometric_Rules
begin

text \<open>
  The configurable rules of \<^verbatim>\<open>backend/verification/geometric.py\<close>: minimum track width,
  annular rings, the clearance between copper of different nets and the clearance to the board edge.
\<close>

definition integer_spec :: "string \<Rightarrow> int \<Rightarrow> int \<Rightarrow> parameter_spec" where
  "integer_spec n d lo = \<lparr>spec_name = n, spec_type = Par_INTEGER, spec_default = Sc_int d,
     spec_minimum = Some lo, spec_maximum = None\<rparr>"

section \<open>Widths and annular rings\<close>

definition minimum_track_width :: "board_graph \<Rightarrow> rule_context \<Rightarrow> finding_draft list result" where
  "minimum_track_width b ctx = bind_r (ctx_integer ctx ''minimum_width_nm'') (\<lambda>m.
     Inr (map (\<lambda>t. draft (''Track '' @ track_id t @ '' width is below '' @ show_int m @ '' nm'')
         [ent ''track'' (track_id t)]
         [ev_int ''actual_width_nm'' (track_width_nm t), ev_int ''minimum_width_nm'' m])
       (filter (\<lambda>t. track_width_nm t < m) (board_tracks b))))"

definition minimum_track_width_rule :: evaluator where
  "minimum_track_width_rule = \<lparr>eval_definition = \<lparr>def_rule_id = ''GEO.TRACK.MIN_WIDTH'', def_version = ''1.0.0'',
       def_domain = Dom_GEOMETRY, def_title = ''Minimum track width'',
       def_description = ''Every copper track must meet the configured fabrication width.'',
       def_default_severity = Sev_ERROR, def_parameters = [integer_spec ''minimum_width_nm'' 150000 1],
       def_mandatory = False\<rparr>,
     eval_evaluate = minimum_track_width\<rparr>"

definition minimum_via_annular_ring :: "board_graph \<Rightarrow> rule_context \<Rightarrow> finding_draft list result" where
  "minimum_via_annular_ring b ctx = bind_r (ctx_integer ctx ''minimum_annular_ring_nm'') (\<lambda>m.
     Inr (map (\<lambda>v. draft (''Via '' @ via_id v @ '' annular ring is below '' @ show_int m @ '' nm'')
         [ent ''via'' (via_id v)]
         [ev_int ''diameter_minus_drill_nm'' (via_diameter_nm v - via_drill_nm v),
          ev_int ''actual_annular_ring_numerator_nm'' (via_diameter_nm v - via_drill_nm v),
          ev_int ''actual_annular_ring_denominator'' 2,
          ev_int ''required_diameter_minus_drill_nm'' (2 * m)])
       (filter (\<lambda>v. via_diameter_nm v - via_drill_nm v < 2 * m) (board_vias b))))"

definition minimum_via_annular_ring_rule :: evaluator where
  "minimum_via_annular_ring_rule = \<lparr>eval_definition = \<lparr>def_rule_id = ''GEO.VIA.MIN_ANNULAR_RING'', def_version = ''1.1.0'',
       def_domain = Dom_GEOMETRY, def_title = ''Minimum via annular ring'',
       def_description = ''Via diameter minus drill must provide the configured radial annular ring.'',
       def_default_severity = Sev_ERROR, def_parameters = [integer_spec ''minimum_annular_ring_nm'' 100000 1],
       def_mandatory = False\<rparr>,
     eval_evaluate = minimum_via_annular_ring\<rparr>"

definition pad_ring_findings :: "int \<Rightarrow> physical_pad \<Rightarrow> finding_draft list" where
  "pad_ring_findings m q =
     (let (dx, dy) = drill_dimensions (ppad_drill_nm q) (ppad_drill_x_nm q) (ppad_drill_y_nm q);
          (cx, cy) = quadrant_dimensions (ppad_size_x_nm q) (ppad_size_y_nm q) (ppad_rotation_udeg q);
          (bx, by1) = quadrant_dimensions dx dy (ppad_drill_rotation_udeg q);
          limiting = min (cx - bx) (cy - by1) in
      if dx \<le> 0 \<or> dy \<le> 0 then []
      else if limiting \<le> 0 \<or> limiting \<ge> 2 * m then []
      else [draft (''Pad '' @ ppad_id q @ '' annular ring is below '' @ show_int m @ '' nm'') [ent ''pad'' (ppad_id q)]
        [ev_int ''actual_annular_ring_numerator_nm'' limiting, ev_int ''actual_annular_ring_denominator'' 2,
         ev_int ''required_annular_ring_nm'' m, ev_int ''copper_span_x_nm'' cx, ev_int ''copper_span_y_nm'' cy,
         ev_int ''drill_span_x_nm'' bx, ev_int ''drill_span_y_nm'' by1]])"

definition pin_ring_findings :: "int \<Rightarrow> component \<Rightarrow> pin \<Rightarrow> finding_draft list" where
  "pin_ring_findings m c p =
     (let span = pin_pad_diameter_nm p; drill = pin_pad_drill_nm p in
      if drill \<le> 0 \<or> span \<le> drill \<or> span - drill \<ge> 2 * m then []
      else [draft (''Pad '' @ comp_reference c @ ''.'' @ pin_number p @ '' annular ring is below '' @ show_int m @ '' nm'')
        [ent ''pin'' (colon (comp_id c) (pin_number p))]
        [ev_int ''actual_annular_ring_numerator_nm'' (span - drill), ev_int ''actual_annular_ring_denominator'' 2,
         ev_int ''required_annular_ring_nm'' m, ev_int ''limiting_pad_axis_nm'' span]])"

definition minimum_pad_annular_ring :: "board_graph \<Rightarrow> rule_context \<Rightarrow> finding_draft list result" where
  "minimum_pad_annular_ring b ctx = bind_r (ctx_integer ctx ''minimum_annular_ring_nm'') (\<lambda>m.
     Inr (if board_pads b \<noteq> [] then concat (map (pad_ring_findings m) (board_pads b))
       else concat (map (\<lambda>c. concat (map (pin_ring_findings m c) (comp_pins c))) (board_components b))))"

definition minimum_pad_annular_ring_rule :: evaluator where
  "minimum_pad_annular_ring_rule = \<lparr>eval_definition = \<lparr>def_rule_id = ''GEO.PAD.MIN_ANNULAR_RING'', def_version = ''2.0.0'',
       def_domain = Dom_GEOMETRY, def_title = ''Minimum drilled-pad annular ring'',
       def_description = ''Every centered circular pad drill must retain copper in both pad axes.'',
       def_default_severity = Sev_ERROR, def_parameters = [integer_spec ''minimum_annular_ring_nm'' 100000 1],
       def_mandatory = False\<rparr>,
     eval_evaluate = minimum_pad_annular_ring\<rparr>"

section \<open>Clearance between copper\<close>

definition ratio_evidence :: "string \<Rightarrow> rat \<Rightarrow> evidence_item list" where
  "ratio_evidence n d = [ev_int (n @ ''_numerator'') (numerator d), ev_int (n @ ''_denominator'') (denominator d)]"

definition too_close :: "rat \<Rightarrow> int \<Rightarrow> bool" where
  "too_close d required_doubled \<longleftrightarrow> 4 * d < of_int (required_doubled * required_doubled)"

definition copper_pair_findings :: "int \<Rightarrow> copper_primitive \<times> copper_primitive \<Rightarrow> finding_draft list result" where
  "copper_pair_findings clearance = (\<lambda>(f, s).
     if prim_net_id f = prim_net_id s \<or> shared_layers f s = [] then Inr []
     else bind_r (distance_squared f s) (\<lambda>d.
       let required = prim_width_nm f + prim_width_nm s + 2 * clearance in
       Inr (if too_close d required then
         [draft (''Copper clearance violation between '' @ prim_id f @ '' and '' @ prim_id s)
            [prim_entity f, prim_entity s]
            ([ev_str ''first_net_id'' (prim_net_id f), ev_str ''second_net_id'' (prim_net_id s),
              ev_strs ''shared_layers'' (shared_layers f s)]
             @ ratio_evidence ''center_distance_squared'' d
             @ [ev_int ''required_center_distance_doubled_nm'' required])]
         else [])))"

definition copper_hole_findings :: "int \<Rightarrow> board_graph \<Rightarrow> copper_primitive list \<Rightarrow> hole \<Rightarrow> finding_draft list result" where
  "copper_hole_findings clearance b prims x =
     (if hole_plated x \<or> hole_diameter_nm x \<le> 0 then Inr []
      else bind_r (hole_primitive x (board_layers b)) (\<lambda>hp.
      concat_r (\<lambda>p. bind_r (distance_squared hp p) (\<lambda>d.
        let required = prim_width_nm hp + prim_width_nm p + 2 * clearance in
        Inr (if too_close d required then
          [draft (''Copper clearance violation between '' @ prim_id p @ '' and NPTH '' @ hole_id x)
             [prim_entity p, prim_entity hp]
             ([ev_str ''hole_id'' (hole_id x), ev_int ''hole_diameter_nm'' (hole_diameter_nm x),
               ev_str ''copper_net_id'' (prim_net_id p)]
              @ ratio_evidence ''core_distance_squared'' d
              @ [ev_int ''required_core_distance_doubled_nm'' required])]
          else []))) prims))"

definition copper_zone_findings :: "int \<Rightarrow> zone \<Rightarrow> copper_primitive \<Rightarrow> finding_draft list result" where
  "copper_zone_findings clearance z p =
     (if prim_net_id p = zone_net_id z \<or> zone_layer z \<notin> set (prim_layers p) then Inr []
      else bind_r (primitive_zone_distance_squared p z) (\<lambda>(d, overlaps).
        let required = prim_width_nm p + 2 * max clearance (zone_clearance_nm z) in
        Inr (if overlaps \<or> too_close d required then
          [draft (''Copper clearance violation between '' @ prim_id p @ '' and zone:'' @ zone_id z)
             [prim_entity p, ent ''zone'' (zone_id z)]
             ([ev_str ''first_net_id'' (prim_net_id p), ev_str ''second_net_id'' (zone_net_id z),
               ev_strs ''shared_layers'' [zone_layer z]]
              @ ratio_evidence ''boundary_distance_squared'' d
              @ [ev_int ''required_center_distance_doubled_nm'' required, ev_bool ''copper_overlaps_zone'' overlaps])]
          else [])))"

definition zone_pair_findings :: "int \<Rightarrow> geometry_ops \<Rightarrow> zone \<times> zone \<Rightarrow> finding_draft list" where
  "zone_pair_findings clearance g = (\<lambda>(f, s).
     if zone_net_id f = zone_net_id s \<or> zone_layer f \<noteq> zone_layer s then []
     else let d = minimum_outlines_distance_squared (geo_segment_distance_squared g) (zone_outline f) (zone_outline s);
         overlaps = outlines_overlap (geo_segments_intersect g) (geo_point_in_outline g) (zone_outline f) (zone_outline s);
         required = max (max clearance (zone_clearance_nm f)) (zone_clearance_nm s) in
       if overlaps \<or> d < of_int (required * required) then
         [draft (''Copper clearance violation between zone:'' @ zone_id f @ '' and zone:'' @ zone_id s)
            [ent ''zone'' (zone_id f), ent ''zone'' (zone_id s)]
            ([ev_str ''first_net_id'' (zone_net_id f), ev_str ''second_net_id'' (zone_net_id s),
              ev_strs ''shared_layers'' [zone_layer f]]
             @ ratio_evidence ''boundary_distance_squared'' d
             @ [ev_int ''required_clearance_nm'' required, ev_bool ''zones_overlap'' overlaps])]
       else [])"

definition minimum_copper_clearance :: "board_graph \<Rightarrow> rule_context \<Rightarrow> finding_draft list result" where
  "minimum_copper_clearance b ctx =
     bind_r (ctx_integer ctx ''minimum_clearance_nm'') (\<lambda>clearance.
     let prims = copper_primitives b; zones = valid_zones b ctx in
     bind_r (concat_r (copper_pair_findings clearance) (pairs prims)) (\<lambda>f1.
     bind_r (concat_r (copper_hole_findings clearance b prims) (board_holes b)) (\<lambda>f2.
     bind_r (concat_r (\<lambda>z. concat_r (copper_zone_findings clearance z) prims) zones) (\<lambda>f3.
     Inr (f1 @ f2 @ f3 @ concat (map (zone_pair_findings clearance (ctx_geometry ctx)) (pairs zones)))))))"

definition minimum_copper_clearance_rule :: evaluator where
  "minimum_copper_clearance_rule = \<lparr>eval_definition = \<lparr>def_rule_id = ''GEO.COPPER.MIN_CLEARANCE'', def_version = ''2.0.0'',
       def_domain = Dom_GEOMETRY, def_title = ''Minimum inter-net copper clearance'',
       def_description = ''Pads, tracks, vias, and filled zones on different nets must meet clearance.'',
       def_default_severity = Sev_ERROR, def_parameters = [integer_spec ''minimum_clearance_nm'' 150000 0],
       def_mandatory = False\<rparr>,
     eval_evaluate = minimum_copper_clearance\<rparr>"

section \<open>Clearance to the board edge\<close>

definition edge_evidence :: "bool \<Rightarrow> rat \<Rightarrow> int \<Rightarrow> evidence_item list" where
  "edge_evidence inside d required = [ev_bool ''inside_outline'' inside]
     @ ratio_evidence ''boundary_distance_squared'' d
     @ [ev_int ''required_center_distance_doubled_nm'' required]"

definition edge_primitive_findings ::
  "board_graph \<Rightarrow> string \<Rightarrow> entity_ref \<Rightarrow> int \<Rightarrow> copper_primitive \<Rightarrow> finding_draft list result" where
  "edge_primitive_findings b msg e required p =
     bind_r (core_inside_outline p (board_outline b)) (\<lambda>inside.
     bind_r (core_outline_distance_squared p (board_outline b)) (\<lambda>d.
     Inr (if \<not> inside \<or> too_close d required
       then [draft msg [e, ent ''outline'' (board_design_id b)] (edge_evidence inside d required)] else [])))"

definition edge_hole_findings :: "int \<Rightarrow> board_graph \<Rightarrow> hole \<Rightarrow> finding_draft list result" where
  "edge_hole_findings clearance b x =
     (if hole_plated x \<or> hole_diameter_nm x \<le> 0 then Inr []
      else bind_r (hole_primitive x (board_layers b)) (\<lambda>p.
        edge_primitive_findings b (''NPTH '' @ hole_id x @ '' violates board-edge clearance'')
          (ent ''hole'' (hole_id x)) (hole_diameter_nm x + 2 * clearance) p))"

definition edge_zone_findings :: "int \<Rightarrow> board_graph \<Rightarrow> geometry_ops \<Rightarrow> zone \<Rightarrow> finding_draft list" where
  "edge_zone_findings clearance b g z =
     (let inside = (\<forall>v \<in> set (zone_outline z). geo_point_in_outline g v (board_outline b));
          d = minimum_outlines_distance_squared (geo_segment_distance_squared g) (zone_outline z) (board_outline b) in
      if \<not> inside \<or> d < of_int (clearance * clearance) then
        [draft (''zone:'' @ zone_id z @ '' violates board-edge clearance'')
           [ent ''zone'' (zone_id z), ent ''outline'' (board_design_id b)]
           ([ev_bool ''inside_outline'' inside] @ ratio_evidence ''boundary_distance_squared'' d
            @ [ev_int ''required_boundary_clearance_nm'' clearance])]
      else [])"

definition board_edge_clearance :: "board_graph \<Rightarrow> rule_context \<Rightarrow> finding_draft list result" where
  "board_edge_clearance b ctx =
     (let g = ctx_geometry ctx in
      if outline_defects (geo_segments_intersect g) (board_outline b) \<noteq> [] then Inr []
      else bind_r (ctx_integer ctx ''minimum_edge_clearance_nm'') (\<lambda>clearance.
      bind_r (concat_r (\<lambda>p. edge_primitive_findings b (prim_id p @ '' violates board-edge clearance'')
        (prim_entity p) (prim_width_nm p + 2 * clearance) p) (copper_primitives b)) (\<lambda>f1.
      bind_r (concat_r (edge_hole_findings clearance b) (board_holes b)) (\<lambda>f2.
      Inr (f1 @ f2 @ concat (map (edge_zone_findings clearance b g) (valid_zones b ctx)))))))"

definition board_edge_clearance_rule :: evaluator where
  "board_edge_clearance_rule = \<lparr>eval_definition = \<lparr>def_rule_id = ''GEO.COPPER.BOARD_EDGE_CLEARANCE'', def_version = ''2.0.0'',
       def_domain = Dom_GEOMETRY, def_title = ''Copper to board-edge clearance'',
       def_description = ''All modeled copper must be inside the outline and clear of its boundary.'',
       def_default_severity = Sev_ERROR, def_parameters = [integer_spec ''minimum_edge_clearance_nm'' 250000 0],
       def_mandatory = False\<rparr>,
     eval_evaluate = board_edge_clearance\<rparr>"

definition geometric_rules :: "evaluator list" where
  "geometric_rules = [outline_validity_rule, copper_topology_rule, minimum_track_width_rule,
     minimum_via_annular_ring_rule, minimum_pad_annular_ring_rule, zone_outline_validity_rule,
     zone_fill_verification_rule, minimum_copper_clearance_rule, board_edge_clearance_rule]"

end
