(* ===== verification/Routing.thy ===== *)
theory Routing
  imports Clearance_Rules
begin

text \<open>
  \<^verbatim>\<open>backend/verification/algorithms.py\<close>: the connectivity of routed copper with a disjoint-set
  forest, the completeness of the routing model, redundant copper and the attachment of vias.
\<close>

section \<open>The disjoint-set forest\<close>

text \<open>
  The state is the list \<^verbatim>\<open>_parent\<close>. \<^verbatim>\<open>find\<close> is a loop that halves the path it
  walks; the model gives it a bound on the number of iterations.
\<close>

fun dsu_find :: "nat \<Rightarrow> nat list \<Rightarrow> nat \<Rightarrow> (nat list \<times> nat) result" where
  "dsu_find 0 p i = Inl OutOfFuel"
| "dsu_find (Suc fuel) p i =
     (if i \<ge> length p then Inl IndexError
      else if p ! i = i then Inr (p, i)
      else if p ! i \<ge> length p then Inl IndexError
      else let p' = p[i := p ! (p ! i)] in dsu_find fuel p' (p' ! i))"

definition dsu_new :: "nat \<Rightarrow> nat list" where
  "dsu_new n = [0..<n]"

definition dsu_union :: "nat \<Rightarrow> nat list \<Rightarrow> nat \<Rightarrow> nat \<Rightarrow> nat list result" where
  "dsu_union fuel p a b =
     bind_r (dsu_find fuel p a) (\<lambda>(p1, ra).
     bind_r (dsu_find fuel p1 b) (\<lambda>(p2, rb).
     Inr (if ra \<noteq> rb then p2[max ra rb := min ra rb] else p2)))"

section \<open>Copper connectivity of a net\<close>

definition touches :: "copper_primitive \<Rightarrow> copper_primitive \<Rightarrow> bool result" where
  "touches f s =
     (if shared_layers f s = [] then Inr False
      else bind_r (distance_squared f s) (\<lambda>d.
        let w = prim_width_nm f + prim_width_nm s in Inr (4 * d \<le> of_int (w * w))))"

fun union_touching :: "nat \<Rightarrow> copper_primitive list \<Rightarrow> nat list \<Rightarrow> (nat \<times> nat) list \<Rightarrow> nat list result" where
  "union_touching fuel prims p [] = Inr p"
| "union_touching fuel prims p ((i, j) # ijs) =
     bind_r (touches (prims ! i) (prims ! j)) (\<lambda>t.
     bind_r (if t then dsu_union fuel p i j else Inr p) (\<lambda>p'.
     union_touching fuel prims p' ijs))"

fun find_roots :: "nat \<Rightarrow> nat list \<Rightarrow> nat list \<Rightarrow> nat list result" where
  "find_roots fuel p [] = Inr []"
| "find_roots fuel p (i # is) =
     bind_r (dsu_find fuel p i) (\<lambda>(p', r). bind_r (find_roots fuel p' is) (\<lambda>rs. Inr (r # rs)))"

fun join_bar :: "string list \<Rightarrow> string" where
  "join_bar [] = []"
| "join_bar [s] = s"
| "join_bar (s # t # ss) = s @ ''|'' @ join_bar (t # ss)"

definition is_pad_id :: "string \<Rightarrow> bool" where
  "is_pad_id s \<longleftrightarrow> take 4 s = ''pad:''"

definition group_name :: "copper_primitive list \<Rightarrow> nat list \<Rightarrow> nat \<Rightarrow> string" where
  "group_name prims roots r =
     join_bar (sort (map (prim_id \<circ> fst) (filter (\<lambda>(q, s). s = r) (zip prims roots))))"

definition pad_roots :: "copper_primitive list \<Rightarrow> nat list \<Rightarrow> nat list" where
  "pad_roots prims roots = remdups (map snd (filter (\<lambda>(q, s). is_pad_id (prim_id q)) (zip prims roots)))"

definition net_primitives :: "board_graph \<Rightarrow> net \<Rightarrow> copper_primitive list" where
  "net_primitives b n = filter (\<lambda>q. prim_net_id q = net_id n) (copper_primitives b)"

definition net_roots :: "copper_primitive list \<Rightarrow> nat list result" where
  "net_roots prims =
     (let n = length prims in
      bind_r (union_touching n prims (dsu_new n) (pairs [0..<n])) (\<lambda>p. find_roots n p [0..<n]))"

definition net_connectivity_findings :: "board_graph \<Rightarrow> net \<Rightarrow> finding_draft list result" where
  "net_connectivity_findings b n =
     (let prims = net_primitives b n in
      if prims = [] then
        Inr (if net_connections n \<noteq> [] then
          [draft (''Net '' @ net_name n @ '' has no modeled copper'') [ent ''net'' (net_id n)]
             [ev_int ''connection_count'' (int (length (net_connections n)))]] else [])
      else bind_r (net_roots prims) (\<lambda>roots.
        let keys = rev (remdups (rev roots)); pads = pad_roots prims roots;
            normalized_groups = sort (map (group_name prims roots) keys);
            orphan_groups = map snd (filter (\<lambda>(r, g). r \<notin> set pads)
              (sort_key snd (map (\<lambda>r. (r, group_name prims roots r)) keys))) in
        Inr (if length pads > 1 \<or> orphan_groups \<noteq> [] then
          [draft (''Net '' @ net_name n @ '' is not one connected copper component'') [ent ''net'' (net_id n)]
             [ev_strs ''connected_groups'' normalized_groups, ev_int ''pad_group_count'' (int (length pads)),
              ev_strs ''orphan_groups'' orphan_groups]]
          else [])))"

definition routing_connectivity :: "board_graph \<Rightarrow> rule_context \<Rightarrow> finding_draft list result" where
  "routing_connectivity b ctx = concat_r (net_connectivity_findings b) (board_nets b)"

definition routing_connectivity_rule :: evaluator where
  "routing_connectivity_rule = \<lparr>eval_definition = \<lparr>def_rule_id = ''ALG.ROUTING.CONNECTIVITY'', def_version = ''1.0.0'',
       def_domain = Dom_ALGORITHM, def_title = ''Routed copper connectivity'',
       def_description = ''Exact copper contact graph must connect all pads and contain no orphan islands.'',
       def_default_severity = Sev_ERROR, def_parameters = [], def_mandatory = False\<rparr>,
     eval_evaluate = routing_connectivity\<rparr>"

section \<open>Completeness of the routing model\<close>

definition completeness_findings :: "board_graph \<Rightarrow> net \<Rightarrow> net_connection \<Rightarrow> finding_draft list" where
  "completeness_findings b n c =
     (case map_of (rev (map (\<lambda>x. (comp_id x, x)) (board_components b))) (conn_component_id c) of
        None \<Rightarrow> []
      | Some cm \<Rightarrow>
        (case List.find (\<lambda>p. pin_number p = conn_pin_number c) (comp_pins cm) of
           None \<Rightarrow> []
         | Some p \<Rightarrow>
           let missing = issues_of [(pin_pad_center p = None, ''pad_center''),
                 (pin_pad_diameter_nm p \<le> 0, ''pad_diameter_nm''), (pin_layers p = [], ''layers'')] in
           if missing = [] then [] else
             [draft (''Connected pin '' @ comp_reference cm @ ''.'' @ pin_number p @ '' lacks routing geometry'')
                [ent ''net'' (net_id n), ent ''pin'' (colon (comp_id cm) (pin_number p))]
                [ev_strs ''missing_fields'' missing]]))"

definition routing_model_completeness_rule :: evaluator where
  "routing_model_completeness_rule = \<lparr>eval_definition = \<lparr>def_rule_id = ''ALG.ROUTING.MODEL_COMPLETENESS'', def_version = ''1.0.0'',
       def_domain = Dom_ALGORITHM, def_title = ''Routing model contains pad geometry'',
       def_description = ''Every connected pin must expose pad center, size, and copper layers.'',
       def_default_severity = Sev_FATAL, def_parameters = [], def_mandatory = True\<rparr>,
     eval_evaluate = (\<lambda>b ctx. Inr (concat (map (\<lambda>n.
       concat (map (completeness_findings b n) (net_connections n))) (board_nets b))))\<rparr>"

section \<open>Redundant copper\<close>

definition positive_collinear_overlap :: "track \<Rightarrow> track \<Rightarrow> (point_nm \<times> point_nm \<times> string) option" where
  "positive_collinear_overlap f s =
     (if track_layer f \<noteq> track_layer s \<or> track_net_id f \<noteq> track_net_id s then None
      else if track_start f = track_end f \<or> track_start s = track_end s then None
      else if cross (track_start f) (track_end f) (track_start s) \<noteq> 0 then None
      else if cross (track_start f) (track_end f) (track_end s) \<noteq> 0 then None
      else let os = max (track_start f) (track_start s); oe = min (track_end f) (track_end s) in
      if os \<ge> oe then None
      else Some (os, oe,
        if track_start f = track_start s \<and> track_end f = track_end s then ''identical''
        else if (track_start f \<le> track_start s \<and> track_end s \<le> track_end f)
          \<or> (track_start s \<le> track_start f \<and> track_end f \<le> track_end s) then ''contained''
        else ''partial''))"

definition redundant_track_findings :: "track \<times> track \<Rightarrow> finding_draft list" where
  "redundant_track_findings = (\<lambda>(f, s). case positive_collinear_overlap f s of None \<Rightarrow> []
     | Some (os, oe, kind) \<Rightarrow>
       [draft (''Tracks '' @ track_id f @ '' and '' @ track_id s @ '' share routed copper'')
          [ent ''track'' (track_id f), ent ''track'' (track_id s), ent ''net'' (track_net_id f)]
          [ev_strs ''entity_ids'' [track_id f, track_id s], ev_str ''layer'' (track_layer f),
           ev_str ''net_id'' (track_net_id f), ev_int ''overlap_end_x_nm'' (px oe), ev_int ''overlap_end_y_nm'' (py oe),
           ev_str ''overlap_kind'' kind, ev_int ''overlap_start_x_nm'' (px os), ev_int ''overlap_start_y_nm'' (py os)]])"

definition redundant_via_findings :: "via \<times> via \<Rightarrow> finding_draft list" where
  "redundant_via_findings = (\<lambda>(f, s).
     if via_net_id f \<noteq> via_net_id s \<or> via_center f \<noteq> via_center s \<or> via_layers f \<noteq> via_layers s then []
     else [draft (''Vias '' @ via_id f @ '' and '' @ via_id s @ '' duplicate routed copper'')
       [ent ''via'' (via_id f), ent ''via'' (via_id s), ent ''net'' (via_net_id f)]
       [ev_int ''center_x_nm'' (px (via_center f)), ev_int ''center_y_nm'' (py (via_center f)),
        ev_strs ''entity_ids'' [via_id f, via_id s], ev_strs ''layers'' (via_layers f),
        ev_str ''net_id'' (via_net_id f)]])"

definition redundant_route_copper_rule :: evaluator where
  "redundant_route_copper_rule = \<lparr>eval_definition = \<lparr>def_rule_id = ''ALG.ROUTING.REDUNDANT_COPPER'', def_version = ''1.0.0'',
       def_domain = Dom_ALGORITHM, def_title = ''No redundant routed copper'',
       def_description = ''Same-net tracks may meet at endpoints but may not share a positive-length collinear interval, and vias may not duplicate a center and layer span.'',
       def_default_severity = Sev_ERROR, def_parameters = [], def_mandatory = False\<rparr>,
     eval_evaluate = (\<lambda>b ctx. Inr (
       concat (map redundant_track_findings (pairs (sort_key track_id (board_tracks b))))
       @ concat (map redundant_via_findings (pairs (sort_key via_id (board_vias b))))))\<rparr>"

section \<open>Attachment of vias\<close>

text \<open>
  \<^verbatim>\<open>primitive_by_id\<close> keeps the last primitive with an ID, and \<^verbatim>\<open>primitive is via_primitive\<close>
  compares objects: the position in the list stands for the object.
\<close>

definition via_attachments ::
  "board_graph \<Rightarrow> rule_context \<Rightarrow> via \<Rightarrow> nat \<times> copper_primitive \<Rightarrow> (string \<times> string list) list result" where
  "via_attachments b ctx v = (\<lambda>(k, vp).
     bind_r (concat_r (\<lambda>(i, q).
         if i = k \<or> prim_net_id q \<noteq> via_net_id v then Inr []
         else bind_r (touches vp q) (\<lambda>t. Inr (if t
           then [(prim_id q, filter (\<lambda>l. l \<in> set (prim_layers q)) (via_layers v))] else [])))
       (enumerate 0 (copper_primitives b))) (\<lambda>a1.
     bind_r (concat_r (\<lambda>z.
         if zone_net_id z \<noteq> via_net_id v \<or> zone_layer z \<notin> set (via_layers v) then Inr []
         else bind_r (primitive_zone_distance_squared vp z) (\<lambda>(d, overlaps).
           Inr (if overlaps \<or> 4 * d \<le> of_int (via_diameter_nm v * via_diameter_nm v)
             then [(''zone:'' @ zone_id z, [zone_layer z])] else [])))
       (valid_zones b ctx)) (\<lambda>a2. Inr (a1 @ a2))))"

definition via_net_findings :: "board_graph \<Rightarrow> rule_context \<Rightarrow> via \<Rightarrow> finding_draft list result" where
  "via_net_findings b ctx v =
     (if via_net_id v \<notin> set (map net_id (board_nets b)) then Inr []
      else case List.find (\<lambda>(i, q). prim_id q = ''via:'' @ via_id v) (rev (enumerate 0 (copper_primitives b))) of
        None \<Rightarrow> Inr []
      | Some ivp \<Rightarrow> bind_r (via_attachments b ctx v ivp) (\<lambda>as.
          Inr (if as = [] then
            [draft (''Via '' @ via_id v @ '' is not attached to copper on net '' @ via_net_id v)
               [ent ''via'' (via_id v), ent ''net'' (via_net_id v)]
               [ev_strs ''declared_layers'' (via_layers v), ev_str ''net_id'' (via_net_id v),
                ev_strs ''attached_primitives'' [], ev_strs ''touched_layers'' (sorted_set (concat (map snd as)))]]
            else [])))"

definition via_net_connectivity_rule :: evaluator where
  "via_net_connectivity_rule = \<lparr>eval_definition = \<lparr>def_rule_id = ''ALG.VIA.NET_CONNECTIVITY'', def_version = ''1.0.0'',
       def_domain = Dom_ALGORITHM, def_title = ''Vias attach to declared-net copper'',
       def_description = ''Every via must make exact geometric contact with copper on its declared net.'',
       def_default_severity = Sev_ERROR, def_parameters = [], def_mandatory = False\<rparr>,
     eval_evaluate = (\<lambda>b ctx. concat_r (via_net_findings b ctx) (board_vias b))\<rparr>"

definition algorithm_rules :: "evaluator list" where
  "algorithm_rules = [routing_model_completeness_rule, routing_connectivity_rule, redundant_route_copper_rule,
     via_net_connectivity_rule]"

end
