(* ===== verification/Verification_Engine.thy ===== *)
theory Verification_Engine
  imports Routing
begin

text \<open>
  \<^verbatim>\<open>backend/verification/engine.py\<close>: the engine that validates a board and a policy, runs the
  registered rules on the normalized board and decides the policy gates. The identity of live code
  (\<^verbatim>\<open>_implementation_identity\<close>, \<^verbatim>\<open>_verification_code_bundle_hash\<close>: bytecode, source
  files, instance state) is obtained by reflection; it is a parameter that is read at every point
  where the code reads it, so that it may change during a run.
\<close>

section \<open>JSON of rules, policies and reports\<close>

fun scalar_json :: "scalar \<Rightarrow> json" where
  "scalar_json (Sc_str s) = JStr s"
| "scalar_json (Sc_int i) = JInt i"
| "scalar_json (Sc_bool b) = JBool b"

fun evidence_value_json :: "evidence_value \<Rightarrow> json" where
  "evidence_value_json (Ev_one s) = scalar_json s"
| "evidence_value_json (Ev_many ss) = JList (map scalar_json ss)"

definition entity_json :: "entity_ref \<Rightarrow> json" where
  "entity_json e = JObj [(''kind'', JStr (ent_kind e)), (''entity_id'', JStr (ent_id e))]"

definition evidence_json :: "evidence_item \<Rightarrow> json" where
  "evidence_json e = JObj [(''name'', JStr (ev_name e)), (''value'', evidence_value_json (ev_value e))]"

definition parameter_json :: "parameter_value \<Rightarrow> json" where
  "parameter_json p = JObj [(''name'', JStr (par_name p)), (''value'', scalar_json (par_value p))]"

definition spec_json :: "parameter_spec \<Rightarrow> json" where
  "spec_json s = JObj [(''name'', JStr (spec_name s)), (''parameter_type'', JStr (parameter_type_value (spec_type s))),
     (''default'', scalar_json (spec_default s)), (''minimum'', json_opt JInt (spec_minimum s)),
     (''maximum'', json_opt JInt (spec_maximum s))]"

definition definition_json :: "rule_definition \<Rightarrow> json" where
  "definition_json d = JObj [(''rule_id'', JStr (def_rule_id d)), (''version'', JStr (def_version d)),
     (''domain'', JStr (rule_domain_value (def_domain d))), (''title'', JStr (def_title d)),
     (''description'', JStr (def_description d)),
     (''default_severity'', JStr (severity_value (def_default_severity d))),
     (''parameters'', JList (map spec_json (def_parameters d))), (''mandatory'', JBool (def_mandatory d))]"

definition gate_json :: "gate_definition \<Rightarrow> json" where
  "gate_json g = JObj [(''gate_id'', JStr (gate_id g)), (''title'', JStr (gate_title g)),
     (''block_at_or_above'', JStr (severity_value (gate_block_at_or_above g))),
     (''domains'', json_strings (map rule_domain_value (gate_domains g))),
     (''rule_ids'', json_strings (gate_rule_ids g)), (''exempt_rule_ids'', json_strings (gate_exempt_rule_ids g)),
     (''required_external_evidence_ids'', json_strings (gate_required_external_evidence_ids g))]"

definition finding_json :: "finding \<Rightarrow> json" where
  "finding_json f = JObj [(''finding_id'', JStr (find_id f)), (''rule_id'', JStr (find_rule_id f)),
     (''rule_version'', JStr (find_rule_version f)), (''domain'', JStr (rule_domain_value (find_domain f))),
     (''severity'', JStr (severity_value (find_severity f))), (''message'', JStr (find_message f)),
     (''entities'', JList (map entity_json (find_entities f))),
     (''evidence'', JList (map evidence_json (find_evidence f))),
     (''evidence_hash'', JStr (find_evidence_hash f))]"

definition execution_json :: "rule_execution \<Rightarrow> json" where
  "execution_json x = JObj [(''rule_id'', JStr (exec_rule_id x)), (''rule_version'', JStr (exec_rule_version x)),
     (''enabled'', JBool (exec_enabled x)), (''severity'', JStr (severity_value (exec_severity x))),
     (''parameters'', JList (map parameter_json (exec_parameters x))),
     (''finding_ids'', json_strings (exec_finding_ids x)), (''outcome'', JStr (outcome_value (exec_outcome x))),
     (''blocker_ids'', json_strings (exec_blocker_ids x))]"

definition decision_json :: "gate_decision \<Rightarrow> json" where
  "decision_json d = JObj [(''gate_id'', JStr (dec_gate_id d)), (''passed'', JBool (dec_passed d)),
     (''blocking_finding_ids'', json_strings (dec_blocking_finding_ids d)),
     (''blocking_rule_ids'', json_strings (dec_blocking_rule_ids d)),
     (''unavailable_evidence_ids'', json_strings (dec_unavailable_evidence_ids d)),
     (''evidence_hash'', JStr (dec_evidence_hash d))]"

section \<open>Constants and the default policy\<close>

definition kicad_evidence_id :: string where
  "kicad_evidence_id = ''trusted-kicad-drc-v1''"

definition required_gate_ids :: "string list" where
  "required_gate_ids = [''preview'', ''commit'', ''manufacturing-release'']"

definition maximum_required_gate_thresholds :: "string \<Rightarrow> severity option" where
  "maximum_required_gate_thresholds = map_of [(''preview'', Sev_FATAL), (''commit'', Sev_ERROR),
     (''manufacturing-release'', Sev_WARNING)]"

definition minimum_rule_severities :: "string \<Rightarrow> severity option" where
  "minimum_rule_severities = map_of [(''GEO.ZONE.FILL_UNVERIFIED'', Sev_WARNING)]"

definition shape_dependent_rule_ids :: "string list" where
  "shape_dependent_rule_ids = [''ALG.ROUTING.CONNECTIVITY'', ''ALG.VIA.NET_CONNECTIVITY'', ''GEO.COPPER.MIN_CLEARANCE'',
     ''GEO.COPPER.BOARD_EDGE_CLEARANCE'', ''GEO.PAD.MIN_ANNULAR_RING'']"

definition geometry_blocker_prefixes :: "string list" where
  "geometry_blocker_prefixes = [''exact-pad-rotation-not-supported:'', ''exact-pad-circle-nonsquare-not-supported:'',
     ''exact-pad-roundrect-radius-not-represented:'', ''exact-hole-slot-not-supported:'',
     ''exact-drill-rotation-not-supported:'']"

definition plain_gate :: "string \<Rightarrow> string \<Rightarrow> severity \<Rightarrow> string list \<Rightarrow> gate_definition" where
  "plain_gate i t s ids = \<lparr>gate_id = i, gate_title = t, gate_block_at_or_above = s, gate_domains = [],
     gate_rule_ids = [], gate_exempt_rule_ids = [], gate_required_external_evidence_ids = ids\<rparr>"

definition strict_policy :: "verification_policy result" where
  "strict_policy = policy_normalized \<lparr>pol_overrides = [], pol_gates =
     [plain_gate ''preview'' ''Preview may not contain fatal verification failures'' Sev_FATAL [],
      plain_gate ''commit'' ''Project commit requires zero error-or-higher findings'' Sev_ERROR [],
      plain_gate ''manufacturing-release'' ''Manufacturing release requires zero warning-or-higher findings''
        Sev_WARNING [kicad_evidence_id]]\<rparr>"

definition default_evaluators :: "evaluator list" where
  "default_evaluators = sort_key (def_rule_id \<circ> eval_definition) (electrical_rules @ geometric_rules @ algorithm_rules)"

section \<open>Validation of the board\<close>

definition is_blank :: "string \<Rightarrow> bool" where
  "is_blank s \<longleftrightarrow> strip s = []"

definition fill_evidence_checks :: "(byte list \<Rightarrow> byte list) \<Rightarrow> zone \<Rightarrow> zone_fill_evidence \<Rightarrow> (bool \<times> err) list" where
  "fill_evidence_checks h z e =
     map (\<lambda>s. (is_blank s, VerificationInputError ''fill evidence must be non-empty''))
       [fill_source_graph_hash e, fill_source_revision e, fill_engine_id e, fill_engine_revision e,
        fill_filled_geometry_hash e, fill_evidence_hash e]
     @ map (\<lambda>s. (\<not> is_sha256_hex s, VerificationInputError ''fill evidence digest''))
       [fill_source_graph_hash e, fill_source_revision e, fill_filled_geometry_hash e, fill_evidence_hash e]
     @ [(fill_filled_geometry_hash e \<noteq> zone_filled_geometry_hash h z,
          VerificationInputError ''fill evidence does not bind its exact modeled geometry''),
        (fill_evidence_hash e \<noteq> zone_fill_evidence_hash h e,
          VerificationInputError ''fill evidence hash does not bind its provenance'')]"

definition zone_checks :: "(byte list \<Rightarrow> byte list) \<Rightarrow> zone \<Rightarrow> (bool \<times> err) list" where
  "zone_checks h z =
     (case (zone_fill_state z, zone_fill_evidence z) of
        (Fill_UNFILLED_INTENT, e) \<Rightarrow> [(e \<noteq> None, VerificationInputError ''unfilled intent cannot carry fill evidence'')]
      | (Fill_VERIFIED_FILLED, None) \<Rightarrow> [(True, VerificationInputError ''fill_evidence must be exact'')]
      | (Fill_VERIFIED_FILLED, Some e) \<Rightarrow> fill_evidence_checks h z e)"

definition nonempty_checks :: "string list \<Rightarrow> (bool \<times> err) list" where
  "nonempty_checks ss = map (\<lambda>s. (is_blank s, VerificationInputError ''must be non-empty'')) ss"

definition option_list :: "'a option \<Rightarrow> 'a list" where
  "option_list v = (case v of None \<Rightarrow> [] | Some x \<Rightarrow> [x])"

definition validate_board_graph :: "(byte list \<Rightarrow> byte list) \<Rightarrow> board_graph \<Rightarrow> unit result" where
  "validate_board_graph h b = raise_first (
     nonempty_checks [board_design_id b, board_revision b]
     @ concat (map (zone_checks h) (board_zones b))
     @ concat (map (\<lambda>x. nonempty_checks ([hole_id x, hole_component_id x] @ option_list (hole_pad_id x))) (board_holes b))
     @ concat (map (\<lambda>q. nonempty_checks ([ppad_id q, ppad_component_id q, ppad_pad_number q]
         @ option_list (ppad_net_id q) @ option_list (ppad_shared_land_group_id q))) (board_pads b)))"

section \<open>Geometry blockers\<close>

definition starts_with :: "string \<Rightarrow> string \<Rightarrow> bool" where
  "starts_with s t \<longleftrightarrow> take (length t) s = t"

definition pad_blockers :: "physical_pad \<Rightarrow> string list" where
  "pad_blockers q = issues_of
     [(ppad_rotation_udeg q mod 90000000 \<noteq> 0,
        ''exact-pad-rotation-not-supported:'' @ ppad_id q @ '':'' @ show_int (ppad_rotation_udeg q)),
      (ppad_shape q = Shape_CIRCLE \<and> ppad_size_x_nm q \<noteq> ppad_size_y_nm q,
        ''exact-pad-circle-nonsquare-not-supported:'' @ ppad_id q),
      (ppad_shape q = Shape_ROUNDRECT, ''exact-pad-roundrect-radius-not-represented:'' @ ppad_id q),
      (ppad_drill_x_nm q \<noteq> ppad_drill_y_nm q \<and> ppad_drill_rotation_udeg q mod 90000000 \<noteq> 0,
        ''exact-drill-rotation-not-supported:pad:'' @ ppad_id q @ '':'' @ show_int (ppad_drill_rotation_udeg q))]"

definition hole_blockers :: "hole \<Rightarrow> string list" where
  "hole_blockers x = issues_of
     [(hole_drill_x_nm x \<noteq> hole_drill_y_nm x \<and> hole_drill_rotation_udeg x mod 90000000 \<noteq> 0,
        ''exact-drill-rotation-not-supported:hole:'' @ hole_id x @ '':'' @ show_int (hole_drill_rotation_udeg x))]"

definition geometry_blockers :: "board_graph \<Rightarrow> string list" where
  "geometry_blockers b = sorted_set (
     filter (\<lambda>f. \<exists>t \<in> set geometry_blocker_prefixes. starts_with f t) (board_unsupported_features b)
     @ map (\<lambda>i. ''duplicate-physical-pad-id:'' @ i) (duplicates (map ppad_id (board_pads b)))
     @ map (\<lambda>i. ''duplicate-hole-id:'' @ i) (duplicates (map hole_id (board_holes b)))
     @ concat (map pad_blockers (board_pads b)) @ concat (map hole_blockers (board_holes b))
     @ map (\<lambda>(g, qs). ''shared-land-group-mismatch:'' @ g)
         (filter (\<lambda>(g, qs). \<not> one_exact_land b qs) (shared_land_groups b)))"

section \<open>Validation of the policy\<close>

definition validate_policy_shape :: "verification_policy \<Rightarrow> unit result" where
  "validate_policy_shape p = raise_first (concat (map (\<lambda>g.
     [(\<not> distinct (gate_domains g), RuleConfigurationError ''domains contains duplicates''),
      (\<not> distinct (gate_rule_ids g), RuleConfigurationError ''rule_ids contains duplicates''),
      (\<not> distinct (gate_exempt_rule_ids g), RuleConfigurationError ''exempt_rule_ids contains duplicates''),
      (\<not> distinct (gate_required_external_evidence_ids g),
        RuleConfigurationError ''required_external_evidence_ids contains duplicates''),
      (\<exists>i \<in> set (gate_required_external_evidence_ids g). is_blank i,
        RuleConfigurationError ''external evidence ids must be non-empty'')]) (pol_gates p)))"

definition gate_checks :: "rule_definition list \<Rightarrow> gate_definition \<Rightarrow> (bool \<times> err) list" where
  "gate_checks defs g =
     (let known = map def_rule_id defs;
          fatal = map def_rule_id (filter (\<lambda>d. def_mandatory d \<and> def_default_severity d = Sev_FATAL) defs) in
      [(is_blank (gate_id g), RuleConfigurationError ''gate id must be non-empty''),
       (\<exists>i \<in> set (gate_rule_ids g @ gate_exempt_rule_ids g). i \<notin> set known,
         RuleConfigurationError ''gate references unknown rules''),
       (\<exists>i \<in> set (gate_exempt_rule_ids g). i \<in> set fatal,
         RuleConfigurationError ''gate cannot exempt mandatory fatal rules''),
       (gate_id g \<in> set required_gate_ids
          \<and> (gate_domains g \<noteq> [] \<or> gate_rule_ids g \<noteq> [] \<or> gate_exempt_rule_ids g \<noteq> []),
         RuleConfigurationError ''required gate cannot scope or exempt verification rules''),
       ((case maximum_required_gate_thresholds (gate_id g) of None \<Rightarrow> False
         | Some t \<Rightarrow> severity_rank (gate_block_at_or_above g) > severity_rank t),
         RuleConfigurationError ''required gate threshold''),
       (gate_id g = ''manufacturing-release'' \<and> kicad_evidence_id \<notin> set (gate_required_external_evidence_ids g),
         RuleConfigurationError ''manufacturing-release requires trusted KiCad DRC evidence'')])"

definition override_checks :: "rule_override \<Rightarrow> (bool \<times> err) list" where
  "override_checks v =
     [((case (minimum_rule_severities (ovr_rule_id v), ovr_severity v) of
          (Some m, Some s) \<Rightarrow> severity_rank s < severity_rank m | _ \<Rightarrow> False),
        RuleConfigurationError ''rule severity cannot be weaker'')]"

definition validate_policy :: "rule_definition list \<Rightarrow> verification_policy \<Rightarrow> (string \<times> rule_override) list result" where
  "validate_policy defs p =
     (let override_ids = map ovr_rule_id (pol_overrides p); gate_ids = map gate_id (pol_gates p) in
      bind_r (raise_first (
        [(\<not> distinct override_ids, RuleConfigurationError ''policy contains duplicate rule overrides''),
         (\<exists>i \<in> set override_ids. i \<notin> set (map def_rule_id defs),
           RuleConfigurationError ''policy overrides unknown rules''),
         (\<not> distinct gate_ids, RuleConfigurationError ''policy contains duplicate gate ids''),
         (\<exists>i \<in> set required_gate_ids. i \<notin> set gate_ids, RuleConfigurationError ''policy is missing required gates'')]
        @ concat (map (gate_checks defs) (pol_gates p))
        @ concat (map override_checks (pol_overrides p))))
      (\<lambda>_. Inr (dict_of ovr_rule_id (pol_overrides p))))"

section \<open>Findings\<close>

definition materialize_finding :: "(byte list \<Rightarrow> byte list) \<Rightarrow> resolved_rule \<Rightarrow> finding_draft \<Rightarrow> finding result" where
  "materialize_finding h r d =
     (if is_blank (draft_message d) then Inl (VerificationExecutionError ''evaluator finding message must be non-empty'')
      else bind_r (draft_normalized d) (\<lambda>nd.
      let def = resolved_definition r;
          entities = JList (map entity_json (draft_entities nd));
          evidence_hash = stable_hash h ''pcb-finding-evidence-v1''
            (JObj [(''rule_id'', JStr (def_rule_id def)), (''rule_version'', JStr (def_version def)),
               (''entities'', entities), (''evidence'', JList (map evidence_json (draft_evidence nd)))]);
          identity = stable_hash h ''pcb-finding-identity-v1''
            (JObj [(''rule_id'', JStr (def_rule_id def)), (''rule_version'', JStr (def_version def)),
               (''entities'', entities), (''evidence_hash'', JStr evidence_hash)]) in
      Inr \<lparr>find_id = ''FND-'' @ take 24 identity, find_rule_id = def_rule_id def,
           find_rule_version = def_version def, find_domain = def_domain def, find_severity = res_severity r,
           find_message = draft_message nd, find_entities = draft_entities nd,
           find_evidence = draft_evidence nd, find_evidence_hash = evidence_hash\<rparr>))"

text \<open>The loop over the drafts of one rule: the dictionary of all findings and those of the rule.\<close>

type_synonym findings_dict = "(string \<times> finding) list"

fun collect_findings :: "(byte list \<Rightarrow> byte list) \<Rightarrow> resolved_rule \<Rightarrow> findings_dict \<Rightarrow> finding_draft list \<Rightarrow>
  (findings_dict \<times> finding list) result" where
  "collect_findings h r fs [] = Inr (fs, [])"
| "collect_findings h r fs (d # ds) =
     bind_r (materialize_finding h r d) (\<lambda>f.
     if (case map_of fs (find_id f) of None \<Rightarrow> False | Some g \<Rightarrow> g \<noteq> f)
     then Inl (VerificationExecutionError ''finding identity collision'')
     else bind_r (collect_findings h r (AList.update (find_id f) f fs) ds) (\<lambda>(fs', rest). Inr (fs', f # rest)))"

section \<open>The run\<close>

datatype subject = Kernel_subject | Rule_subject string

record live_code =
  live_identity :: "nat \<Rightarrow> subject \<Rightarrow> json result"
  live_bundle_hash :: string

definition identity_hash :: "(byte list \<Rightarrow> byte list) \<Rightarrow> json \<Rightarrow> string" where
  "identity_hash h j = stable_hash h ''pcb-live-implementation-identity-v1'' j"

text \<open>
  \<^verbatim>\<open>_assert_implementation_identity\<close> at probe \<open>t\<close>; the expected identity was read at probe 0.
\<close>

definition assert_identity :: "(byte list \<Rightarrow> byte list) \<Rightarrow> live_code \<Rightarrow> json \<Rightarrow> nat \<Rightarrow> subject \<Rightarrow> unit result" where
  "assert_identity h live expected t s =
     bind_r (live_identity live t s) (\<lambda>current.
     if identity_hash h current \<noteq> identity_hash h expected
     then Inl (VerificationExecutionError ''implementation identity drifted during run'') else Inr ())"

record engine =
  eng_evaluators :: "evaluator list"
  eng_geometry :: geometry_ops

definition engine_init :: "live_code \<Rightarrow> evaluator list option \<Rightarrow> geometry_ops option \<Rightarrow> engine result" where
  "engine_init live evs geo =
     (let sorted = sort_key (def_rule_id \<circ> eval_definition) (case evs of None \<Rightarrow> default_evaluators | Some es \<Rightarrow> es);
          g = (case geo of None \<Rightarrow> exact_geometry_kernel | Some g \<Rightarrow> g) in
      bind_r (raise_first
        [(is_blank (geo_kernel_id g), RuleConfigurationError ''geometry kernel_id''),
         (is_blank (geo_version g), RuleConfigurationError ''geometry version'')]) (\<lambda>_.
      bind_r (live_identity live 0 Kernel_subject) (\<lambda>_.
      bind_r (raise_first [(\<not> distinct (map (def_rule_id \<circ> eval_definition) sorted),
          RuleConfigurationError ''duplicate rule ids'')]) (\<lambda>_.
      bind_r (map_r (\<lambda>e. bind_r (validate_rule_definition (eval_definition e)) (\<lambda>_.
          live_identity live 0 (Rule_subject (def_rule_id (eval_definition e))))) sorted) (\<lambda>_.
      Inr \<lparr>eng_evaluators = sorted, eng_geometry = g\<rparr>)))))"

definition gate_selects :: "gate_definition \<Rightarrow> rule_definition \<Rightarrow> bool" where
  "gate_selects g d \<longleftrightarrow> def_rule_id d \<notin> set (gate_exempt_rule_ids g)
     \<and> (gate_domains g = [] \<or> def_domain d \<in> set (gate_domains g))
     \<and> (gate_rule_ids g = [] \<or> def_rule_id d \<in> set (gate_rule_ids g))"

definition run_outcome :: "resolved_rule \<Rightarrow> string list \<Rightarrow> finding list \<Rightarrow> rule_execution_outcome" where
  "run_outcome r blockers fs =
     (if \<not> res_enabled r \<or> blockers \<noteq> [] then Out_NOT_RUN else if fs \<noteq> [] then Out_FAIL else Out_PASS)"

definition rule_blockers :: "board_graph \<Rightarrow> resolved_rule \<Rightarrow> string list" where
  "rule_blockers b r =
     (if def_rule_id (resolved_definition r) \<in> set shape_dependent_rule_ids then geometry_blockers b else [])"

text \<open>One iteration of the loop over the rules; \<open>kj\<close> and \<open>ej\<close> are the expected identities.\<close>

definition run_rule :: "(byte list \<Rightarrow> byte list) \<Rightarrow> live_code \<Rightarrow> geometry_ops \<Rightarrow> board_graph \<Rightarrow> json \<Rightarrow>
  nat \<Rightarrow> resolved_rule \<times> json \<Rightarrow> findings_dict \<Rightarrow> (findings_dict \<times> rule_execution) result" where
  "run_rule h live geo b kj k = (\<lambda>(r, ej) fs.
     (let def = resolved_definition r; blockers = rule_blockers b r; rs = Rule_subject (def_rule_id def);
          execution = (\<lambda>own. \<lparr>exec_rule_id = def_rule_id def, exec_rule_version = def_version def,
            exec_enabled = res_enabled r, exec_severity = res_severity r, exec_parameters = res_parameters r,
            exec_finding_ids = sorted_set (map find_id own), exec_outcome = run_outcome r blockers own,
            exec_blocker_ids = blockers\<rparr>) in
      bind_r (assert_identity h live kj (2 * k + 1) Kernel_subject) (\<lambda>_.
      bind_r (assert_identity h live ej (2 * k + 1) rs) (\<lambda>_.
      if res_enabled r \<and> blockers = [] then
        bind_r (case eval_evaluate (res_evaluator r) b
              \<lparr>ctx_severity = res_severity r, ctx_parameters = res_parameters r, ctx_geometry = geo\<rparr> of
            Inl _ \<Rightarrow> Inl (VerificationExecutionError ''rule failed closed'') | Inr ds \<Rightarrow> Inr ds) (\<lambda>ds.
        bind_r (collect_findings h r fs ds) (\<lambda>(fs', own).
        bind_r (assert_identity h live kj (2 * k + 2) Kernel_subject) (\<lambda>_.
        bind_r (assert_identity h live ej (2 * k + 2) rs) (\<lambda>_.
        Inr (fs', execution own)))))
      else Inr (fs, execution [])))))"

fun run_rules :: "(byte list \<Rightarrow> byte list) \<Rightarrow> live_code \<Rightarrow> geometry_ops \<Rightarrow> board_graph \<Rightarrow> json \<Rightarrow>
  nat \<Rightarrow> (resolved_rule \<times> json) list \<Rightarrow> findings_dict \<Rightarrow> (findings_dict \<times> rule_execution list) result" where
  "run_rules h live geo b kj k [] fs = Inr (fs, [])"
| "run_rules h live geo b kj k (rj # rjs) fs =
     bind_r (run_rule h live geo b kj k rj fs) (\<lambda>(fs', x).
     bind_r (run_rules h live geo b kj (Suc k) rjs fs') (\<lambda>(fs'', xs). Inr (fs'', x # xs)))"

section \<open>Gates\<close>

definition selects_rule :: "rule_definition list \<Rightarrow> gate_definition \<Rightarrow> string \<Rightarrow> bool result" where
  "selects_rule defs g i =
     (case map_of (dict_of def_rule_id defs) i of None \<Rightarrow> Inl KeyError | Some d \<Rightarrow> Inr (gate_selects g d))"

definition decide_gate :: "(byte list \<Rightarrow> byte list) \<Rightarrow> finding list \<Rightarrow> rule_execution list \<Rightarrow> rule_definition list \<Rightarrow>
  string \<Rightarrow> string \<Rightarrow> gate_definition \<Rightarrow> gate_decision result" where
  "decide_gate h fs xs defs input_hash rule_set_hash g =
     bind_r (filter_r (\<lambda>f. and_r (severity_rank (find_severity f) \<ge> severity_rank (gate_block_at_or_above g))
       (selects_rule defs g (find_rule_id f))) fs) (\<lambda>blocking.
     bind_r (filter_r (\<lambda>x. and_r (exec_outcome x = Out_NOT_RUN) (selects_rule defs g (exec_rule_id x))) xs) (\<lambda>not_run.
     let blocking_ids = sort (map find_id blocking); blocking_rule_ids = sort (map exec_rule_id not_run);
         unavailable = gate_required_external_evidence_ids g;
         evidence_hash = stable_hash h ''pcb-policy-gate-v1''
           (JObj [(''gate'', gate_json g), (''input_hash'', JStr input_hash), (''rule_set_hash'', JStr rule_set_hash),
              (''blocking_findings'', JList (map (\<lambda>f. JList [JStr (find_id f), JStr (find_evidence_hash f)]) blocking)),
              (''blocking_not_run_rule_ids'', json_strings blocking_rule_ids),
              (''unavailable_external_evidence_ids'', json_strings unavailable)]) in
     Inr \<lparr>dec_gate_id = gate_id g,
       dec_passed = (blocking_ids = [] \<and> blocking_rule_ids = [] \<and> unavailable = []),
       dec_blocking_finding_ids = blocking_ids, dec_blocking_rule_ids = blocking_rule_ids,
       dec_unavailable_evidence_ids = unavailable, dec_evidence_hash = evidence_hash\<rparr>))"

definition evaluate_gates :: "(byte list \<Rightarrow> byte list) \<Rightarrow> gate_definition list \<Rightarrow> finding list \<Rightarrow> rule_execution list \<Rightarrow>
  rule_definition list \<Rightarrow> string \<Rightarrow> string \<Rightarrow> gate_decision list result" where
  "evaluate_gates h gs fs xs defs input_hash rule_set_hash =
     bind_r (map_r (decide_gate h fs xs defs input_hash rule_set_hash) gs) (\<lambda>ds. Inr (sort_key dec_gate_id ds))"

section \<open>The verification of a board\<close>

definition rule_set_json :: "live_code \<Rightarrow> geometry_ops \<Rightarrow> json \<Rightarrow> (resolved_rule \<times> json) list \<Rightarrow>
  gate_definition list \<Rightarrow> json" where
  "rule_set_json live geo kj rjs gs = JObj [(''engine_version'', JStr ''2.1.0''),
     (''verification_code_bundle_hash'', JStr (live_bundle_hash live)),
     (''geometry_kernel'', JObj [(''kernel_id'', JStr (geo_kernel_id geo)), (''version'', JStr (geo_version geo)),
        (''implementation'', kj)]),
     (''rules'', JList (map (\<lambda>(r, ej). JObj [(''definition'', definition_json (resolved_definition r)),
        (''implementation'', ej), (''enabled'', JBool (res_enabled r)),
        (''severity'', JStr (severity_value (res_severity r))),
        (''parameters'', JList (map parameter_json (res_parameters r)))]) rjs)),
     (''gates'', JList (map gate_json gs))]"

definition report_of :: "(byte list \<Rightarrow> byte list) \<Rightarrow> string \<Rightarrow> string \<Rightarrow> finding list \<Rightarrow> rule_execution list \<Rightarrow>
  gate_decision list \<Rightarrow> verification_report" where
  "report_of h input_hash rule_set_hash fs xs ds =
     (let run_id = ''RUN-'' @ take 24 (stable_hash h ''pcb-verification-run-v2''
            (JObj [(''input_hash'', JStr input_hash), (''rule_set_hash'', JStr rule_set_hash)]));
          report_hash = stable_hash h ''pcb-verification-report-v3''
            (JObj [(''schema_version'', JInt 3), (''engine_version'', JStr ''2.1.0''), (''run_id'', JStr run_id),
               (''input_hash'', JStr input_hash), (''rule_set_hash'', JStr rule_set_hash),
               (''findings'', JList (map finding_json fs)), (''executions'', JList (map execution_json xs)),
               (''gates'', JList (map decision_json ds))]) in
      \<lparr>rep_schema_version = 3, rep_engine_version = ''2.1.0'', rep_run_id = run_id, rep_input_hash = input_hash,
        rep_rule_set_hash = rule_set_hash, rep_findings = fs, rep_executions = xs, rep_gates = ds,
        rep_report_hash = report_hash\<rparr>)"

definition final_identities :: "(byte list \<Rightarrow> byte list) \<Rightarrow> live_code \<Rightarrow> json \<Rightarrow> (resolved_rule \<times> json) list \<Rightarrow> unit result" where
  "final_identities h live kj rjs =
     (let t = 2 * length rjs + 1 in
      bind_r (assert_identity h live kj t Kernel_subject) (\<lambda>_.
      bind_r (map_r (\<lambda>(r, ej). assert_identity h live ej t (Rule_subject (def_rule_id (resolved_definition r)))) rjs)
        (\<lambda>_. Inr ())))"

definition run_verification :: "(byte list \<Rightarrow> byte list) \<Rightarrow> live_code \<Rightarrow> engine \<Rightarrow> board_graph \<Rightarrow> verification_policy \<Rightarrow>
  resolved_rule list \<Rightarrow> verification_report result" where
  "run_verification h live eng nb np rules =
     (let geo = eng_geometry eng; defs = map eval_definition (eng_evaluators eng);
          input_hash = stable_hash h ''pcb-board-graph-v2'' (board_json nb) in
      bind_r (live_identity live 0 Kernel_subject) (\<lambda>kj.
      bind_r (map_r (\<lambda>r. bind_r (live_identity live 0 (Rule_subject (def_rule_id (resolved_definition r))))
        (\<lambda>ej. Inr (r, ej))) rules) (\<lambda>rjs.
      let rule_set_hash = stable_hash h ''pcb-rule-set-v2'' (rule_set_json live geo kj rjs (pol_gates np)) in
      bind_r (run_rules h live geo nb kj 0 rjs []) (\<lambda>(fs, xs).
      bind_r (final_identities h live kj rjs) (\<lambda>_.
      let ordered = sort_key finding_order_key (dict_values fs) in
      bind_r (evaluate_gates h (pol_gates np) ordered xs defs input_hash rule_set_hash) (\<lambda>ds.
      Inr (report_of h input_hash rule_set_hash ordered xs ds)))))))"

definition verify :: "(byte list \<Rightarrow> byte list) \<Rightarrow> live_code \<Rightarrow> engine \<Rightarrow> board_graph \<Rightarrow> verification_policy option \<Rightarrow>
  verification_report result" where
  "verify h live eng b policy =
     bind_r (validate_board_graph h b) (\<lambda>_.
     if board_schema_version b \<noteq> 3 then Inl (VerificationInputError ''unsupported board schema'')
     else
     bind_r (case policy of None \<Rightarrow> strict_policy | Some p \<Rightarrow> Inr p) (\<lambda>p.
     bind_r (validate_policy_shape p) (\<lambda>_.
     bind_r (policy_normalized p) (\<lambda>np.
     bind_r (validate_policy (map eval_definition (eng_evaluators eng)) np) (\<lambda>overrides.
     bind_r (map_r (\<lambda>e. resolve_rule e (map_of overrides (def_rule_id (eval_definition e)))) (eng_evaluators eng)) (\<lambda>rules.
     run_verification h live eng (board_normalized b) np rules))))))"

end
