(* ===== verification/Disjoint_Set.thy ===== *)
theory Disjoint_Set
  imports Routing
begin

text \<open>
  The disjoint-set forest of \<^verbatim>\<open>backend/verification/algorithms.py\<close> refines an equivalence
  relation. Parents never exceed their children, so \<^verbatim>\<open>find\<close> returns within as many iterations
  as the index it starts from; path halving keeps all representatives; the forest built from a list
  of edges represents the equivalence closure of the edges.
\<close>

section \<open>Representatives\<close>

definition dsu_ok :: "nat list \<Rightarrow> bool" where
  "dsu_ok p \<longleftrightarrow> (\<forall>i < length p. p ! i \<le> i)"

function rep :: "nat list \<Rightarrow> nat \<Rightarrow> nat" where
  "rep p i = (if i < length p \<and> p ! i < i then rep p (p ! i) else i)"
  by pat_completeness auto
termination by (relation "measure snd") auto

declare rep.simps [simp del]

lemma dsu_okD: "dsu_ok p \<Longrightarrow> i < length p \<Longrightarrow> p ! i \<le> i"
  by (simp add: dsu_ok_def)

lemma rep_step: "dsu_ok p \<Longrightarrow> i < length p \<Longrightarrow> rep p (p ! i) = rep p i"
  by (cases "p ! i < i") (subst (2) rep.simps, auto dest: dsu_okD)

lemma rep_self: "i < length p \<Longrightarrow> p ! i = i \<Longrightarrow> rep p i = i"
  by (subst rep.simps) simp

lemma rep_less: "i < length p \<Longrightarrow> rep p i < length p"
proof (induction p i rule: rep.induct)
  case (1 p i)
  then show ?case by (subst rep.simps) auto
qed

lemma rep_fixed: "dsu_ok p \<Longrightarrow> i < length p \<Longrightarrow> p ! rep p i = rep p i"
proof (induction p i rule: rep.induct)
  case (1 p i)
  show ?case
  proof (cases "p ! i < i")
    case True
    then show ?thesis using 1 by (subst (1 2) rep.simps) auto
  next
    case False
    then have "p ! i = i" using dsu_okD [OF 1(2,3)] by simp
    then show ?thesis using 1(3) by (simp add: rep_self)
  qed
qed

lemma rep_idem: "dsu_ok p \<Longrightarrow> i < length p \<Longrightarrow> rep p (rep p i) = rep p i"
  by (simp add: rep_self rep_less rep_fixed)

lemma rep_new: "rep (dsu_new n) i = i"
  by (subst rep.simps) (auto simp: dsu_new_def)

lemma dsu_ok_new: "dsu_ok (dsu_new n)" "length (dsu_new n) = n"
  by (simp_all add: dsu_ok_def dsu_new_def)

section \<open>Find\<close>

lemma dsu_ok_halve: "dsu_ok p \<Longrightarrow> i < length p \<Longrightarrow> dsu_ok (p[i := p ! (p ! i)])"
  by (auto simp: dsu_ok_def nth_list_update) (meson le_trans less_le_trans not_le order_less_imp_le)

lemma rep_halve:
  assumes ok: "dsu_ok p" and i: "i < length p"
  shows "rep (p[i := p ! (p ! i)]) j = rep p j"
proof (induction j rule: less_induct)
  case (less j)
  let ?p = "p[i := p ! (p ! i)]"
  show ?case
  proof (cases "j < length p \<and> ?p ! j < j")
    case True
    then have "rep ?p j = rep ?p (?p ! j)" by (subst rep.simps) simp
    also have "\<dots> = rep p (?p ! j)" using less True by blast
    also have "\<dots> = rep p j"
    proof (cases "j = i")
      case True
      then have "p ! i < length p" using dsu_okD [OF ok i] i by simp
      then show ?thesis using True i rep_step [OF ok] by simp
    next
      case False
      then show ?thesis using True rep_step [OF ok] by simp
    qed
    finally show ?thesis .
  next
    case False
    then have "rep ?p j = j" by (subst rep.simps) auto
    moreover have "rep p j = j"
    proof (cases "j < length p")
      case True
      then have "?p ! j = j" using False dsu_okD [OF dsu_ok_halve [OF ok i], of j] by simp
      then have "p ! j = j"
        using dsu_okD [OF ok i] dsu_okD [OF ok, of "p ! i"] i True
        by (cases "j = i") auto
      then show ?thesis using True by (simp add: rep_self)
    qed (subst rep.simps, simp)
    ultimately show ?thesis by simp
  qed
qed

text \<open>A forest that represents the same partition.\<close>

definition same_reps :: "nat list \<Rightarrow> nat list \<Rightarrow> bool" where
  "same_reps p q \<longleftrightarrow> dsu_ok q \<and> length q = length p \<and> (\<forall>j. rep q j = rep p j)"

lemma same_reps_trans: "same_reps p q \<Longrightarrow> same_reps q r \<Longrightarrow> same_reps p r"
  by (simp add: same_reps_def)

lemma dsu_find_returns:
  assumes "dsu_ok p" "i < length p" "i < fuel"
  shows "\<exists>q. dsu_find fuel p i = Inr (q, rep p i) \<and> same_reps p q"
  using assms
proof (induction fuel p i rule: dsu_find.induct)
  case (2 fuel p i)
  show ?case
  proof (cases "p ! i = i")
    case True
    then show ?thesis using 2 by (simp add: rep_self same_reps_def)
  next
    case False
    then have less: "p ! i < i" using dsu_okD [OF 2(2,3)] by simp
    let ?q = "p[i := p ! (p ! i)]"
    have ok: "dsu_ok ?q" "?q ! i < length ?q" "?q ! i < fuel"
      using dsu_ok_halve [OF 2(2,3)] less 2(2-4) dsu_okD [OF 2(2), of "p ! i"] by auto
    obtain r where r: "dsu_find fuel ?q (?q ! i) = Inr (r, rep ?q (?q ! i))" "same_reps ?q r"
      using 2(1) [OF _ False _ refl] less ok 2(3) by fastforce
    have "rep ?q (?q ! i) = rep p i"
      using rep_step [OF ok(1), of i] rep_halve [OF 2(2,3)] 2(3) by simp
    moreover have "same_reps p ?q"
      using ok(1) rep_halve [OF 2(2,3)] by (simp add: same_reps_def)
    ultimately show ?thesis
      using r False less 2(3) same_reps_trans by (auto simp: Let_def not_le)
  qed
qed simp

section \<open>Union\<close>

lemma rep_link:
  assumes ok: "dsu_ok p" and hi: "hi < length p" "p ! hi = hi" and lo: "lo < hi" "p ! lo = lo"
  shows "dsu_ok (p[hi := lo])"
    and "j < length p \<Longrightarrow> rep (p[hi := lo]) j = (if rep p j = hi then lo else rep p j)"
proof -
  show okq: "dsu_ok (p[hi := lo])"
    using ok lo hi by (auto simp: dsu_ok_def nth_list_update)
  have lo_root: "rep (p[hi := lo]) lo = lo"
    using lo hi by (intro rep_self) auto
  show "rep (p[hi := lo]) j = (if rep p j = hi then lo else rep p j)" if "j < length p"
    using that
  proof (induction j rule: less_induct)
    case (less j)
    show ?case
    proof (cases "j = hi")
      case True
      then show ?thesis using lo hi lo_root rep_self [OF hi]
        by (subst rep.simps) simp
    next
      case neq: False
      show ?thesis
      proof (cases "p ! j < j")
        case True
        then have "rep (p[hi := lo]) j = rep (p[hi := lo]) (p ! j)"
          using neq less.prems by (subst rep.simps) simp
        then show ?thesis
          using less.IH [OF True] True less.prems rep_step [OF ok, of j] by simp
      next
        case False
        then have "p ! j = j" using dsu_okD [OF ok less.prems] by simp
        then show ?thesis using neq less.prems by (simp add: rep_self)
      qed
    qed
  qed
qed

definition linked :: "nat list \<Rightarrow> nat \<Rightarrow> nat \<Rightarrow> nat \<Rightarrow> nat" where
  "linked p a b j = (if rep p j \<in> {rep p a, rep p b} then min (rep p a) (rep p b) else rep p j)"

lemma dsu_union_returns:
  assumes "dsu_ok p" "a < length p" "b < length p" "a < fuel" "b < fuel"
  shows "\<exists>q. dsu_union fuel p a b = Inr q \<and> dsu_ok q \<and> length q = length p
    \<and> (\<forall>j < length p. rep q j = linked p a b j)"
proof -
  obtain p1 where 1: "dsu_find fuel p a = Inr (p1, rep p a)" "same_reps p p1"
    using dsu_find_returns [OF assms(1,2,4)] by blast
  obtain p2 where 2: "dsu_find fuel p1 b = Inr (p2, rep p1 b)" "same_reps p1 p2"
    using dsu_find_returns [of p1 b fuel] 1(2) assms by (auto simp: same_reps_def)
  have s: "same_reps p p2" using 1 2 same_reps_trans by blast
  then have ok: "dsu_ok p2" "length p2 = length p" and r: "\<And>j. rep p2 j = rep p j"
    and b: "rep p1 b = rep p b"
    using 1(2) by (auto simp: same_reps_def)
  let ?hi = "max (rep p a) (rep p b)" and ?lo = "min (rep p a) (rep p b)"
  show ?thesis
  proof (cases "rep p a = rep p b")
    case True
    then show ?thesis using 1 2 b ok r by (simp add: dsu_union_def linked_def)
  next
    case False
    have fixed: "rep p x < length p2 \<and> p2 ! rep p x = rep p x" if "x < length p" for x
      using rep_fixed [OF ok(1), of x] rep_less [of x p2] that ok(2) r by simp
    have hi: "?hi < length p2" "p2 ! ?hi = ?hi" "?lo < ?hi" "p2 ! ?lo = ?lo"
      using fixed [OF assms(2)] fixed [OF assms(3)] False by (auto simp: max_def min_def)
    have "rep (p2[?hi := ?lo]) j = linked p a b j" if "j < length p" for j
      using rep_link(2) [OF ok(1) hi, of j] that ok(2) r False
      by (auto simp: linked_def max_def min_def)
    then show ?thesis
      using 1 2 b ok False rep_link(1) [OF ok(1) hi] by (simp add: dsu_union_def)
  qed
qed

end
