(* ===== verification/Copper_Shapes.thy ===== *)
theory Copper_Shapes
  imports Copper Geometry_Kernel
begin

text \<open>
  The distance between two copper primitives is the minimum distance of their cores, a point, a
  segment or a filled box each, and every primitive of a board has a core.
\<close>

section \<open>The core of a primitive\<close>

datatype shape = Point_shape exact_point_t | Segment_shape exact_point_t exact_point_t | Box_shape core_box

definition prim_shape :: "copper_primitive \<Rightarrow> shape option" where
  "prim_shape p = (case prim_box p of Some b \<Rightarrow> Some (Box_shape b)
     | None \<Rightarrow> (case (prim_start p, prim_end p) of
         (Some s, Some e) \<Rightarrow> Some (Segment_shape s e)
       | _ \<Rightarrow> map_option Point_shape (prim_center p)))"

fun shape_distance :: "shape \<Rightarrow> shape \<Rightarrow> rat" where
  "shape_distance (Box_shape a) (Box_shape b) = box_distance_squared a b"
| "shape_distance (Box_shape a) (Segment_shape s e) = segment_box_distance_squared s e a"
| "shape_distance (Box_shape a) (Point_shape c) = point_box_distance_squared c a"
| "shape_distance (Segment_shape s e) (Box_shape b) = segment_box_distance_squared s e b"
| "shape_distance (Point_shape c) (Box_shape b) = point_box_distance_squared c b"
| "shape_distance (Segment_shape s e) (Segment_shape s' e') = exact_segment_distance_squared s e s' e'"
| "shape_distance (Segment_shape s e) (Point_shape c) = exact_point_segment_distance_squared c s e"
| "shape_distance (Point_shape c) (Segment_shape s e) = exact_point_segment_distance_squared c s e"
| "shape_distance (Point_shape c) (Point_shape d) = point_distance_squared c d"

lemma distance_squared_shape:
  "distance_squared f s = (case (prim_shape f, prim_shape s) of
     (Some a, Some b) \<Rightarrow> Inr (shape_distance a b) | _ \<Rightarrow> Inl AssertionError)"
  unfolding distance_squared_def prim_shape_def
  by (cases "prim_box f"; cases "prim_box s"; cases "prim_start f"; cases "prim_end f";
      cases "prim_start s"; cases "prim_end s"; cases "prim_center f"; cases "prim_center s"; simp)

section \<open>Distances of boxes\<close>

definition rect :: "rat \<Rightarrow> rat \<Rightarrow> rat \<Rightarrow> rat \<Rightarrow> exact_point_t set" where
  "rect a b c d = {q. a \<le> qx q \<and> qx q \<le> b \<and> c \<le> qy q \<and> qy q \<le> d}"

definition box_points :: "core_box \<Rightarrow> exact_point_t set" where
  "box_points b = {q. point_in_box q b}"

definition valid_box :: "core_box \<Rightarrow> bool" where
  "valid_box b \<longleftrightarrow> box_minimum_x b \<le> box_maximum_x b \<and> box_minimum_y b \<le> box_maximum_y b"

definition gap :: "rat \<Rightarrow> rat \<Rightarrow> rat \<Rightarrow> rat \<Rightarrow> rat" where
  "gap a b c d = max (max (a - d) 0) (c - b)"

lemma box_points_rect:
  "box_points b = rect (box_minimum_x b) (box_maximum_x b) (box_minimum_y b) (box_maximum_y b)"
  by (auto simp: box_points_def rect_def point_in_box_def)

lemma gap_le:
  assumes "a \<le> x" "x \<le> b" "c \<le> y" "y \<le> d"
  shows "gap a b c d * gap a b c d \<le> (x - y)\<^sup>2"
proof -
  have "0 \<le> gap a b c d" "gap a b c d \<le> \<bar>x - y\<bar>" using assms by (auto simp: gap_def)
  then have "gap a b c d * gap a b c d \<le> \<bar>x - y\<bar> * \<bar>x - y\<bar>" by (intro mult_mono) auto
  then show ?thesis by (simp add: power2_eq_square)
qed

lemma gap_attained:
  assumes "a \<le> b" "c \<le> d"
  obtains x y where "a \<le> x" "x \<le> b" "c \<le> y" "y \<le> d" "(x - y)\<^sup>2 = gap a b c d * gap a b c d"
proof -
  consider "d < a" | "b < c" | "a \<le> d" "c \<le> b" by linarith
  then show thesis
  proof cases
    case 1
    then show thesis using that [of a d] assms by (simp add: gap_def power2_eq_square)
  next
    case 2
    then have g: "gap a b c d = c - b" using assms by (simp add: gap_def)
    have "(b - c)\<^sup>2 = gap a b c d * gap a b c d" unfolding g by (simp add: power2_eq_square algebra_simps)
    then show thesis using that [of b c] assms by simp
  next
    case 3
    then have "gap a b c d = 0" by (simp add: gap_def)
    then show thesis using that [of "max a c" "max a c"] assms 3 by simp
  qed
qed

lemma rect_distance_least:
  assumes "a \<le> b" "c \<le> d" "a' \<le> b'" "c' \<le> d'"
  shows "least_distance (gap a b a' b' * gap a b a' b' + gap c d c' d' * gap c d c' d') (rect a b c d) (rect a' b' c' d')"
proof -
  obtain x x' where x: "a \<le> x" "x \<le> b" "a' \<le> x'" "x' \<le> b'" "(x - x')\<^sup>2 = gap a b a' b' * gap a b a' b'"
    using gap_attained [OF assms(1,3)] .
  obtain y y' where y: "c \<le> y" "y \<le> d" "c' \<le> y'" "y' \<le> d'" "(y - y')\<^sup>2 = gap c d c' d' * gap c d c' d'"
    using gap_attained [OF assms(2,4)] .
  have "qpoint x y \<in> rect a b c d" "qpoint x' y' \<in> rect a' b' c' d'"
    "dist2 (qpoint x y) (qpoint x' y') = gap a b a' b' * gap a b a' b' + gap c d c' d' * gap c d c' d'"
    using x y by (simp_all add: rect_def dist2_def qpoint_def)
  moreover have "gap a b a' b' * gap a b a' b' + gap c d c' d' * gap c d c' d' \<le> dist2 p q"
    if "p \<in> rect a b c d" "q \<in> rect a' b' c' d'" for p q
    using that unfolding dist2_def by (intro add_mono gap_le) (auto simp: rect_def)
  ultimately show ?thesis unfolding least_distance_def by blast
qed

lemma box_distance_least:
  "valid_box a \<Longrightarrow> valid_box b \<Longrightarrow> least_distance (box_distance_squared a b) (box_points a) (box_points b)"
  unfolding box_points_rect box_distance_squared_def Let_def valid_box_def gap_def [symmetric]
  by (intro rect_distance_least) auto

lemma point_box_distance_least:
  assumes "valid_box b"
  shows "least_distance (point_box_distance_squared p b) {p} (box_points b)"
proof -
  have "{p} = rect (qx p) (qx p) (qy p) (qy p)" by (auto simp: rect_def intro: exact_point_eqI)
  moreover have "point_box_distance_squared p b =
      gap (qx p) (qx p) (box_minimum_x b) (box_maximum_x b) * gap (qx p) (qx p) (box_minimum_x b) (box_maximum_x b)
    + gap (qy p) (qy p) (box_minimum_y b) (box_maximum_y b) * gap (qy p) (qy p) (box_minimum_y b) (box_maximum_y b)"
    by (simp add: point_box_distance_squared_def gap_def Let_def max.commute max.left_commute)
  ultimately show ?thesis
    using assms rect_distance_least by (simp add: box_points_rect valid_box_def)
qed

section \<open>Distance of a segment and a box\<close>

lemma box_edges_list: "box_edges b =
  (case box_corners b of [p, q, r, s] \<Rightarrow> [(p, q), (q, r), (r, s), (s, p)] | _ \<Rightarrow> [])"
  by (simp add: box_edges_def box_corners_def upt_rec)

lemma box_corners_in: "valid_box b \<Longrightarrow> c \<in> set (box_corners b) \<Longrightarrow> c \<in> box_points b"
  by (auto simp: box_corners_def box_points_def point_in_box_def valid_box_def qpoint_def)

lemma box_edge_corners: "(es, ee) \<in> set (box_edges b) \<Longrightarrow> es \<in> set (box_corners b) \<and> ee \<in> set (box_corners b)"
  by (auto simp: box_edges_list box_corners_def)

lemma box_edge_subset:
  assumes "valid_box b" "(es, ee) \<in> set (box_edges b)"
  shows "segment es ee \<subseteq> box_points b"
proof
  fix q assume "q \<in> segment es ee"
  then have "exact_on_segment q es ee" by (simp add: exact_on_segment_iff)
  moreover have "es \<in> box_points b" "ee \<in> box_points b"
    using box_edge_corners [OF assms(2)] box_corners_in [OF assms(1)] by auto
  ultimately show "q \<in> box_points b"
    by (auto simp: exact_on_segment_def box_points_def point_in_box_def min_def max_def split: if_splits)
qed

lemma box_boundary:
  assumes "q \<in> box_points b"
    and "qx q \<in> {box_minimum_x b, box_maximum_x b} \<or> qy q \<in> {box_minimum_y b, box_maximum_y b}"
  shows "\<exists>(es, ee) \<in> set (box_edges b). q \<in> segment es ee"
  using assms
  by (auto simp: box_edges_list box_corners_def box_points_def point_in_box_def
      exact_on_segment_iff [symmetric] exact_on_segment_def exact_cross_def qpoint_def)

text \<open>A way out of the box passes its boundary.\<close>

lemma leave_box:
  assumes "p \<in> box_points b" "q \<notin> box_points b"
  obtains r es ee where "0 \<le> r" "r \<le> 1" "(es, ee) \<in> set (box_edges b)" "along p q r \<in> segment es ee"
proof -
  obtain r where r: "0 \<le> r" "r \<le> 1"
    "box_minimum_x b \<le> qx p + r * (qx q - qx p)" "qx p + r * (qx q - qx p) \<le> box_maximum_x b"
    "box_minimum_y b \<le> qy p + r * (qy q - qy p)" "qy p + r * (qy q - qy p) \<le> box_maximum_y b"
    "qx p + r * (qx q - qx p) \<in> {box_minimum_x b, box_maximum_x b}
     \<or> qy p + r * (qy q - qy p) \<in> {box_minimum_y b, box_maximum_y b}"
    using assms leave_rectangle [of "box_minimum_x b" "qx p" "box_maximum_x b" "box_minimum_y b" "qy p"
        "box_maximum_y b" "qx q" "qy q"] by (auto simp: box_points_def point_in_box_def)
  then have "\<exists>(es, ee) \<in> set (box_edges b). along p q r \<in> segment es ee"
    by (intro box_boundary) (simp_all add: box_points_def point_in_box_def)
  then show thesis using that r(1,2) by blast
qed

lemma along_towards_start: "along (along s e t) s r = along s e (t * (1 - r))"
  by (rule exact_point_eqI) (simp_all add: algebra_simps)

lemma segment_meets_box:
  assumes "valid_box b"
  shows "(point_in_box s b \<or> point_in_box e b \<or> (\<exists>(es, ee) \<in> set (box_edges b). exact_segments_intersect s e es ee))
    \<longleftrightarrow> segment s e \<inter> box_points b \<noteq> {}" (is "?test \<longleftrightarrow> _")
proof
  assume ?test
  then show "segment s e \<inter> box_points b \<noteq> {}"
    using box_edge_subset [OF assms] unfolding exact_segments_intersect_iff
    by (auto simp: box_points_def) (use ends_in_segment in blast)+
next
  assume "segment s e \<inter> box_points b \<noteq> {}"
  then obtain t where t: "along s e t \<in> box_points b" "0 \<le> t" "t \<le> 1" by (auto simp: segment_def)
  show ?test
  proof (cases "s \<in> box_points b")
    case False
    obtain r es ee where r: "0 \<le> r" "r \<le> 1" "(es, ee) \<in> set (box_edges b)" "along s e (t * (1 - r)) \<in> segment es ee"
      using leave_box [OF t(1) False] along_towards_start by metis
    have "0 \<le> t * (1 - r)" "t * (1 - r) \<le> 1"
      using t r by (auto intro: mult_le_one)
    then have "exact_segments_intersect s e es ee"
      unfolding exact_segments_intersect_iff using r(4) along_in_segment by blast
    then show ?thesis using r(3) by blast
  qed (simp add: box_points_def)
qed

lemma least_distance_le: "least_distance d A B \<Longrightarrow> p \<in> A \<Longrightarrow> q \<in> B \<Longrightarrow> d \<le> dist2 p q"
  by (simp add: least_distance_def)

lemma least_distance_mono:
  "least_distance d A B \<Longrightarrow> least_distance d' A' B' \<Longrightarrow> A \<subseteq> A' \<Longrightarrow> B \<subseteq> B' \<Longrightarrow> d' \<le> d"
  unfolding least_distance_def by (metis subsetD)

text \<open>The candidates of the code bound the distance to every edge of the box.\<close>

lemma candidate_below_edge:
  assumes "valid_box b" "(es, ee) \<in> set (box_edges b)" "segment s e \<inter> box_points b = {}"
  shows "\<exists>x \<in> set ([point_box_distance_squared s b, point_box_distance_squared e b]
    @ map (\<lambda>c. exact_point_segment_distance_squared c s e) (box_corners b)). x \<le> exact_segment_distance_squared s e es ee"
proof -
  let ?d = exact_point_segment_distance_squared
  let ?M = "{?d s es ee, ?d e es ee, ?d es s e, ?d ee s e}"
  have sub: "segment es ee \<subseteq> box_points b" by (rule box_edge_subset [OF assms(1,2)])
  then have "segment s e \<inter> segment es ee = {}" using assms(3) by blast
  then have m: "exact_segment_distance_squared s e es ee = Min ?M"
    by (simp add: exact_segment_distance_squared_def exact_segments_intersect_iff)
  have below: "point_box_distance_squared x b \<le> ?d x es ee" for x
    using least_distance_mono [OF point_segment_distance_least point_box_distance_least [OF assms(1)]] sub by blast
  have "Min ?M \<in> ?M" by (rule Min_in) auto
  then consider "Min ?M = ?d s es ee" | "Min ?M = ?d e es ee" | "Min ?M = ?d es s e" | "Min ?M = ?d ee s e"
    by blast
  then show ?thesis
  proof cases
    case 1
    then show ?thesis unfolding m using below [of s] by (intro bexI [of _ "point_box_distance_squared s b"]) simp_all
  next
    case 2
    then show ?thesis unfolding m using below [of e] by (intro bexI [of _ "point_box_distance_squared e b"]) simp_all
  next
    case 3
    then show ?thesis unfolding m using box_edge_corners [OF assms(2)] by (intro bexI [of _ "?d es s e"]) simp_all
  next
    case 4
    then show ?thesis unfolding m using box_edge_corners [OF assms(2)] by (intro bexI [of _ "?d ee s e"]) simp_all
  qed
qed

lemma segment_box_candidate_attained:
  assumes "valid_box b" "x \<in> set ([point_box_distance_squared s b, point_box_distance_squared e b]
    @ map (\<lambda>c. exact_point_segment_distance_squared c s e) (box_corners b))"
  shows "\<exists>p \<in> segment s e. \<exists>q \<in> box_points b. dist2 p q = x"
proof -
  consider q where "q \<in> {s, e}" "x = point_box_distance_squared q b"
    | c where "c \<in> set (box_corners b)" "x = exact_point_segment_distance_squared c s e"
    using assms(2) by auto
  then show ?thesis
  proof cases
    case 1
    then show ?thesis using point_box_distance_least [OF assms(1), of q] ends_in_segment
      unfolding least_distance_def by blast
  next
    case 2
    then show ?thesis using point_segment_distance_least [of c s e] box_corners_in [OF assms(1)]
      unfolding least_distance_def by (metis dist2_commute singletonD)
  qed
qed

lemma segment_box_distance_least:
  assumes "valid_box b"
  shows "least_distance (segment_box_distance_squared s e b) (segment s e) (box_points b)"
proof (cases "segment s e \<inter> box_points b = {}")
  case False
  then have "segment_box_distance_squared s e b = 0"
    by (simp add: segment_box_distance_squared_def segment_meets_box [OF assms])
  then show ?thesis using False by (auto simp: least_distance_def)
next
  case True
  let ?S = "set ([point_box_distance_squared s b, point_box_distance_squared e b]
    @ map (\<lambda>c. exact_point_segment_distance_squared c s e) (box_corners b))"
  have d: "segment_box_distance_squared s e b = Min ?S"
    using True by (simp add: segment_box_distance_squared_def segment_meets_box [OF assms])
  have fin: "finite ?S" "?S \<noteq> {}" by auto
  have "\<exists>p \<in> segment s e. \<exists>q \<in> box_points b. dist2 p q = Min ?S"
    by (rule segment_box_candidate_attained [OF assms Min_in [OF fin]])
  moreover have "Min ?S \<le> dist2 p q" if pq: "p \<in> segment s e" "q \<in> box_points b" for p q
  proof -
    have "p \<notin> box_points b" using pq True by blast
    then obtain r es ee where r: "0 \<le> r" "r \<le> 1" "(es, ee) \<in> set (box_edges b)" "along q p r \<in> segment es ee"
      using leave_box [OF pq(2)] by metis
    obtain x where x: "x \<in> ?S" "x \<le> exact_segment_distance_squared s e es ee"
      using candidate_below_edge [OF assms r(3) True] by blast
    have "exact_segment_distance_squared s e es ee \<le> dist2 p (along q p r)"
      by (rule least_distance_le [OF segment_distance_least pq(1) r(4)])
    also have "\<dots> \<le> dist2 p q"
      by (rule dist2_scaled [of _ _ "1 - r"]) (use r in \<open>auto simp: algebra_simps\<close>)
    finally show ?thesis using Min_le [OF fin(1) x(1)] x(2) by linarith
  qed
  ultimately show ?thesis unfolding d least_distance_def by blast
qed

section \<open>Distance of two primitives\<close>

fun shape_points :: "shape \<Rightarrow> exact_point_t set" where
  "shape_points (Point_shape c) = {c}"
| "shape_points (Segment_shape s e) = segment s e"
| "shape_points (Box_shape b) = box_points b"

fun valid_shape :: "shape \<Rightarrow> bool" where
  "valid_shape (Box_shape b) = valid_box b"
| "valid_shape _ = True"

lemma shape_distance_least:
  assumes "valid_shape f" "valid_shape s"
  shows "least_distance (shape_distance f s) (shape_points f) (shape_points s)"
proof -
  have point: "least_distance (point_distance_squared c d) {c} {d}" for c d
    by (simp add: least_distance_def point_distance_squared_def dist2_def)
  note sym = least_distance_commute [THEN iffD1]
  show ?thesis
    using assms point segment_distance_least point_segment_distance_least
      point_segment_distance_least [THEN sym] box_distance_least point_box_distance_least
      point_box_distance_least [THEN sym] segment_box_distance_least segment_box_distance_least [THEN sym]
    by (cases f; cases s) simp_all
qed

definition core_points :: "copper_primitive \<Rightarrow> exact_point_t set" where
  "core_points p = (case prim_shape p of None \<Rightarrow> {} | Some a \<Rightarrow> shape_points a)"

section \<open>Every primitive of a board has a core\<close>

definition good_core :: "core \<Rightarrow> bool" where
  "good_core = (\<lambda>(c, s, e, b, w). (case b of Some bx \<Rightarrow> valid_box bx
     | None \<Rightarrow> s \<noteq> None \<and> e \<noteq> None \<or> c \<noteq> None))"

definition good_primitive :: "copper_primitive \<Rightarrow> bool" where
  "good_primitive p \<longleftrightarrow> (\<exists>a. prim_shape p = Some a \<and> valid_shape a)"

lemma good_primitive_core:
  "good_core (prim_center p, prim_start p, prim_end p, prim_box p, w) \<Longrightarrow> good_primitive p"
  by (auto simp: good_core_def good_primitive_def prim_shape_def split: option.splits)

lemma corner_radius: "0 < sx \<Longrightarrow> 0 < sy \<Longrightarrow> 2 * (min sx sy div 4) \<le> sx \<and> 2 * (min sx sy div 4) \<le> (sy :: int)"
  by (auto simp: min_def)

lemma inset_valid:
  assumes "2 * r \<le> sx" "2 * r \<le> (sy :: int)"
  shows "valid_box \<lparr>box_minimum_x = x - fraction sx 2 + of_int r, box_minimum_y = y - fraction sy 2 + of_int r,
    box_maximum_x = x + fraction sx 2 - of_int r, box_maximum_y = y + fraction sy 2 - of_int r\<rparr>"
proof -
  have "of_int r \<le> fraction s 2" if "2 * r \<le> s" for s
  proof -
    have "(of_int (2 * r) :: rat) \<le> of_int s" using that by (rule of_int_le_iff [THEN iffD2])
    then show ?thesis by (simp add: fraction_def)
  qed
  from this [OF assms(1)] this [OF assms(2)] show ?thesis by (simp add: valid_box_def)
qed

lemma pad_core_good:
  assumes "pad_core x = Some k"
  shows "good_core k"
proof -
  obtain sx sy where q: "(if (ppad_rotation_udeg x div 90000000) mod 2 \<noteq> 0
      then (ppad_size_y_nm x, ppad_size_x_nm x) else (ppad_size_x_nm x, ppad_size_y_nm x)) = (sx, sy)"
    by (cases "(if (ppad_rotation_udeg x div 90000000) mod 2 \<noteq> 0
      then (ppad_size_y_nm x, ppad_size_x_nm x) else (ppad_size_x_nm x, ppad_size_y_nm x))")
  have pos: "0 < sx" "0 < sy" using assms q by (auto simp: pad_core_def split: if_splits)
  show ?thesis
  proof (cases "ppad_shape x")
    case Shape_RECT
    then show ?thesis using assms pos inset_valid [of 0 sx sy] unfolding pad_core_def q
      by (auto simp: good_core_def Let_def split: if_splits)
  next
    case Shape_ROUNDRECT
    then show ?thesis using assms pos inset_valid [of "min sx sy div 4" sx sy] corner_radius [OF pos] unfolding pad_core_def q
      by (auto simp: good_core_def Let_def split: if_splits)
  qed (use assms in \<open>auto simp: pad_core_def q good_core_def Let_def split: if_splits\<close>)
qed

lemma pad_primitive_good: "q \<in> set (pad_primitive b x) \<Longrightarrow> good_primitive q"
  by (auto simp: pad_primitive_def split: option.splits if_splits
      dest!: pad_core_good [OF sym] intro!: good_primitive_core)

lemma pad_primitives_good: "q \<in> set (pad_primitives b rs xs) \<Longrightarrow> good_primitive q"
  by (induction b rs xs rule: pad_primitives.induct)
     (auto split: option.splits if_splits dest: pad_primitive_good)

lemma point_primitive_good: "good_primitive (point_primitive i e n ls c w)"
  by (simp add: good_primitive_def prim_shape_def point_primitive_def)

lemma track_primitive_good: "good_primitive (track_primitive t)"
  by (simp add: good_primitive_def prim_shape_def track_primitive_def)

lemma pin_primitive_good: "q \<in> set (pin_primitive b c p) \<Longrightarrow> good_primitive q"
  by (auto simp: pin_primitive_def point_primitive_good Let_def split: option.splits if_splits)

lemma copper_primitives_good: "q \<in> set (copper_primitives b) \<Longrightarrow> good_primitive q"
  by (auto simp: copper_primitives_def track_primitive_good via_primitive_def point_primitive_good
      split: if_splits dest: pin_primitive_good pad_primitives_good)

lemma distance_squared_least:
  assumes "good_primitive f" "good_primitive s"
  shows "\<exists>d. distance_squared f s = Inr d \<and> least_distance d (core_points f) (core_points s)"
  using assms shape_distance_least by (auto simp: good_primitive_def distance_squared_shape core_points_def)

lemma distance_squared_total: "good_primitive f \<Longrightarrow> good_primitive s \<Longrightarrow> \<exists>d. distance_squared f s = Inr d"
  using distance_squared_least by blast

end
