(* ===== verification/Routing_Props.thy ===== *)
theory Routing_Props
  imports Disjoint_Set Copper_Shapes
begin

text \<open>
  The routing connectivity rule of \<^verbatim>\<open>backend/verification/algorithms.py\<close> decides whether the
  copper of a net is one connected piece that reaches a pad.
\<close>

section \<open>The contract of a partition\<close>

text \<open>
  What the client relies on: a fresh partition has singletons, and joining two elements merges
  their classes under one representative. The client joins the ends of a list of edges.
\<close>

locale partition =
  fixes n :: nat
    and new :: 's
    and join :: "'s \<Rightarrow> nat \<Rightarrow> nat \<Rightarrow> 's result"
    and rep_of :: "'s \<Rightarrow> nat \<Rightarrow> nat"
    and ok :: "'s \<Rightarrow> bool"
  assumes new_ok: "ok new" and rep_new: "rep_of new i = i"
    and join_ok: "ok s \<Longrightarrow> a < n \<Longrightarrow> b < n \<Longrightarrow> \<exists>t. join s a b = Inr t \<and> ok t
      \<and> (\<forall>j < n. rep_of t j = (if rep_of s j \<in> {rep_of s a, rep_of s b}
           then min (rep_of s a) (rep_of s b) else rep_of s j))"
begin

definition represents :: "'s \<Rightarrow> (nat \<times> nat) set \<Rightarrow> bool" where
  "represents s E \<longleftrightarrow> ok s \<and> E \<subseteq> {..<n} \<times> {..<n}
     \<and> (\<forall>i < n. \<forall>j < n. rep_of s i = rep_of s j \<longleftrightarrow> (i, j) \<in> (E \<union> E\<inverse>)\<^sup>*)"

lemma new_represents: "represents new {}"
  by (simp add: represents_def new_ok rep_new)

lemma join_represents:
  assumes s: "represents s E" and ab: "a < n" "b < n"
  shows "\<exists>t. join s a b = Inr t \<and> represents t (insert (a, b) E)"
proof -
  let ?R = "E \<union> E\<inverse>" and ?S = "insert (a, b) E \<union> (insert (a, b) E)\<inverse>"
  have ok: "ok s" and E: "E \<subseteq> {..<n} \<times> {..<n}"
    and eq: "\<And>i j. i < n \<Longrightarrow> j < n \<Longrightarrow> rep_of s i = rep_of s j \<longleftrightarrow> (i, j) \<in> ?R\<^sup>*"
    using s by (auto simp: represents_def)
  obtain t where t: "join s a b = Inr t" "ok t"
    and rep_t: "\<And>j. j < n \<Longrightarrow> rep_of t j = (if rep_of s j \<in> {rep_of s a, rep_of s b}
           then min (rep_of s a) (rep_of s b) else rep_of s j)"
    using join_ok [OF ok ab] by blast
  have mono: "(i, j) \<in> ?S\<^sup>*" if "i < n" "j < n" "rep_of s i = rep_of s j" for i j
    using eq [OF that(1,2)] that(3) rtrancl_mono [of ?R ?S] by blast
  have sym: "(i, j) \<in> ?S\<^sup>* \<Longrightarrow> (j, i) \<in> ?S\<^sup>*" for i j
    using sym_rtrancl [of ?S] by (auto simp: sym_def)
  have edge: "(a, b) \<in> ?S\<^sup>*" by blast
  have "rep_of t i = rep_of t j \<longleftrightarrow> (i, j) \<in> ?S\<^sup>*" if ij: "i < n" "j < n" for i j
  proof
    have near: "(i, a) \<in> ?S\<^sup>*" if i: "i < n" "rep_of s i \<in> {rep_of s a, rep_of s b}" for i
    proof (cases "rep_of s i = rep_of s a")
      case True
      then show ?thesis using mono i ab by blast
    next
      case False
      then have "(i, b) \<in> ?S\<^sup>*" using mono i ab by blast
      then show ?thesis using sym [OF edge] by (rule rtrancl_trans)
    qed
    assume "rep_of t i = rep_of t j"
    then have "rep_of s i = rep_of s j
        \<or> rep_of s i \<in> {rep_of s a, rep_of s b} \<and> rep_of s j \<in> {rep_of s a, rep_of s b}"
      unfolding rep_t [OF ij(1)] rep_t [OF ij(2)] by (auto simp: min_def split: if_splits)
    then show "(i, j) \<in> ?S\<^sup>*"
      using mono [OF ij] rtrancl_trans [OF near [OF ij(1)] sym [OF near [OF ij(2)]]] by blast
  next
    have edge_keeps: "rep_of t x = rep_of t y" if "(x, y) \<in> ?S" for x y
    proof -
      have xy: "x < n" "y < n" using that E ab by auto
      have "rep_of s x = rep_of s y \<or> {x, y} = {a, b}"
        using that eq [OF xy] by blast
      then show ?thesis unfolding rep_t [OF xy(1)] rep_t [OF xy(2)] by (auto simp: doubleton_eq_iff)
    qed
    assume "(i, j) \<in> ?S\<^sup>*"
    then show "rep_of t i = rep_of t j"
    proof (induction rule: rtrancl_induct)
      case (step y z)
      then show ?case using edge_keeps [OF step.hyps(2)] by simp
    qed simp
  qed
  then show ?thesis using t E ab by (auto simp: represents_def)
qed

end

interpretation dsu: partition n "dsu_new n" "dsu_union n" rep "\<lambda>p. dsu_ok p \<and> length p = n" for n
proof unfold_locales
  fix i s a b
  show "dsu_ok (dsu_new n) \<and> length (dsu_new n) = n" "rep (dsu_new n) i = i"
    by (simp_all add: dsu_ok_new rep_new)
  assume "dsu_ok s \<and> length s = n" "a < n" "b < n"
  then show "\<exists>t. dsu_union n s a b = Inr t \<and> (dsu_ok t \<and> length t = n)
      \<and> (\<forall>j < n. rep t j = (if rep s j \<in> {rep s a, rep s b} then min (rep s a) (rep s b) else rep s j))"
    using dsu_union_returns [of s a b n] by (auto simp: linked_def)
qed

section \<open>The copper graph of a net\<close>

lemma touches_total: "good_primitive f \<Longrightarrow> good_primitive s \<Longrightarrow> \<exists>t. touches f s = Inr t"
  using distance_squared_total [of f s] by (auto simp: touches_def Let_def)

lemma net_primitives_good: "q \<in> set (net_primitives b n) \<Longrightarrow> good_primitive q"
  by (auto simp: net_primitives_def dest: copper_primitives_good)

definition touching :: "copper_primitive list \<Rightarrow> (nat \<times> nat) set" where
  "touching prims = {(i, j). i < j \<and> j < length prims \<and> touches (prims ! i) (prims ! j) = Inr True}"

definition joined :: "copper_primitive list \<Rightarrow> nat \<Rightarrow> nat \<Rightarrow> bool" where
  "joined prims i j \<longleftrightarrow> (i, j) \<in> (touching prims \<union> (touching prims)\<inverse>)\<^sup>*"

lemma union_touching_represents:
  assumes "\<forall>q \<in> set prims. good_primitive q" "\<forall>(i, j) \<in> set ijs. i < length prims \<and> j < length prims"
    and "dsu.represents (length prims) p E"
  shows "\<exists>q. union_touching (length prims) prims p ijs = Inr q \<and> dsu.represents (length prims) q
    (E \<union> {(i, j) \<in> set ijs. touches (prims ! i) (prims ! j) = Inr True})"
  using assms(2,3)
proof (induction ijs arbitrary: p E)
  case (Cons ij ijs)
  obtain i j where ij: "ij = (i, j)" "i < length prims" "j < length prims" using Cons.prems(1) by auto
  obtain t where t: "touches (prims ! i) (prims ! j) = Inr t"
    using touches_total assms(1) ij by (metis nth_mem)
  show ?case
  proof (cases t)
    case True
    obtain p' where p': "dsu_union (length prims) p i j = Inr p'"
      "dsu.represents (length prims) p' (insert (i, j) E)"
      using dsu.join_represents [OF Cons.prems(2) ij(2,3)] by blast
    have "insert (i, j) E \<union> {(i, j) \<in> set ijs. touches (prims ! i) (prims ! j) = Inr True}
        = E \<union> {(i, j) \<in> set (ij # ijs). touches (prims ! i) (prims ! j) = Inr True}"
      using ij t True by auto
    then show ?thesis using Cons.IH [OF _ p'(2)] Cons.prems(1) p'(1) ij t True by simp
  next
    case False
    then have "{(i, j) \<in> set (ij # ijs). touches (prims ! i) (prims ! j) = Inr True}
        = {(i, j) \<in> set ijs. touches (prims ! i) (prims ! j) = Inr True}"
      using ij t by auto
    then show ?thesis using Cons.IH [OF _ Cons.prems(2)] Cons.prems(1) ij t False by simp
  qed
qed simp

lemma find_roots_returns:
  assumes "dsu_ok p" "\<forall>i \<in> set is. i < length p" "length p \<le> fuel"
  shows "find_roots fuel p is = Inr (map (rep p) is)"
  using assms
proof (induction "is" arbitrary: p)
  case (Cons i "is")
  obtain q where q: "dsu_find fuel p i = Inr (q, rep p i)" "same_reps p q"
    using dsu_find_returns [of p i fuel] Cons.prems by auto
  then have "find_roots fuel q is = Inr (map (rep q) is)"
    using Cons.IH [of q] Cons.prems by (simp add: same_reps_def)
  then show ?case using q by (simp add: same_reps_def)
qed simp

lemma set_pairs_upt: "set (pairs [m..<n]) = {(i, j). m \<le> i \<and> i < j \<and> j < n}"
proof (induction "n - m" arbitrary: m)
  case (Suc k)
  then have "[m..<n] = m # [Suc m..<n]" by (simp add: upt_rec)
  then show ?case using Suc by auto
qed simp

text \<open>Two primitives have the same root exactly when a chain of touching copper joins them.\<close>

lemma net_roots_returns:
  assumes "\<forall>q \<in> set prims. good_primitive q"
  shows "\<exists>roots. net_roots prims = Inr roots \<and> length roots = length prims
    \<and> (\<forall>i < length prims. \<forall>j < length prims. roots ! i = roots ! j \<longleftrightarrow> joined prims i j)"
proof -
  let ?n = "length prims"
  have "{(i, j) \<in> set (pairs [0..<?n]). touches (prims ! i) (prims ! j) = Inr True} = touching prims"
    by (auto simp: set_pairs_upt touching_def)
  then obtain q where q: "union_touching ?n prims (dsu_new ?n) (pairs [0..<?n]) = Inr q"
    "dsu.represents ?n q (touching prims)"
    using union_touching_represents [OF assms _ dsu.new_represents, of "pairs [0..<?n]"]
    by (auto simp: set_pairs_upt)
  then have "find_roots ?n q [0..<?n] = Inr (map (rep q) [0..<?n])"
    by (intro find_roots_returns) (auto simp: dsu.represents_def)
  then show ?thesis using q by (auto simp: net_roots_def dsu.represents_def joined_def)
qed

section \<open>The finding of a net\<close>

lemma set_pad_roots:
  "length roots = length prims \<Longrightarrow>
   set (pad_roots prims roots) = {roots ! i |i. i < length prims \<and> is_pad_id (prim_id (prims ! i))}"
  by (auto simp: pad_roots_def set_zip) force

lemma single_class:
  assumes len: "length roots = length prims" "prims \<noteq> []"
  shows "length (pad_roots prims roots) \<le> 1 \<and> set roots \<subseteq> set (pad_roots prims roots) \<longleftrightarrow>
    (\<exists>q \<in> set prims. is_pad_id (prim_id q)) \<and> (\<forall>i < length prims. \<forall>j < length prims. roots ! i = roots ! j)"
proof
  let ?pads = "pad_roots prims roots"
  assume l: "length ?pads \<le> 1 \<and> set roots \<subseteq> set ?pads"
  have "roots \<noteq> []" using len by auto
  then have "set ?pads \<noteq> {}" using l by auto
  then obtain r where r: "?pads = [r]" using l by (cases ?pads; cases "tl ?pads") auto
  have "r \<in> set ?pads" using r by simp
  then have "\<exists>q \<in> set prims. is_pad_id (prim_id q)"
    unfolding set_pad_roots [OF len(1)] by (auto intro: nth_mem)
  moreover have "roots ! i = r" if "i < length prims" for i
    using l r that len(1) by (metis list.set(1,2) nth_mem singletonD subsetD)
  ultimately show "(\<exists>q \<in> set prims. is_pad_id (prim_id q))
      \<and> (\<forall>i < length prims. \<forall>j < length prims. roots ! i = roots ! j)" by simp
next
  let ?pads = "pad_roots prims roots"
  assume r: "(\<exists>q \<in> set prims. is_pad_id (prim_id q))
      \<and> (\<forall>i < length prims. \<forall>j < length prims. roots ! i = roots ! j)"
  then obtain k where k: "k < length prims" "is_pad_id (prim_id (prims ! k))" by (metis in_set_conv_nth)
  have all: "roots ! i = roots ! k" if "i < length prims" for i using r k that by blast
  have "set ?pads \<subseteq> {roots ! k}"
    unfolding set_pad_roots [OF len(1)] by (blast dest: all)
  moreover have "set roots \<subseteq> {roots ! k}"
    unfolding set_conv_nth len(1) by (blast dest: all)
  moreover have "roots ! k \<in> set ?pads" "roots ! k \<in> set roots"
    unfolding set_pad_roots [OF len(1)] using k len(1) by auto
  ultimately have "set ?pads = {roots ! k}" "set roots = {roots ! k}" by blast+
  moreover have "distinct ?pads" by (simp add: pad_roots_def)
  ultimately have "length ?pads = 1" "set roots = set ?pads" using distinct_card [of ?pads] by simp_all
  then show "length ?pads \<le> 1 \<and> set roots \<subseteq> set ?pads" by simp
qed

lemma orphan_groups_Nil:
  "map snd (filter (\<lambda>(r, g). r \<notin> S) (sort_key snd (map (\<lambda>r. (r, f r)) (rev (remdups (rev roots)))))) = []
     \<longleftrightarrow> set roots \<subseteq> S"
  by (auto simp: filter_empty_conv)

lemma net_connectivity_none:
  assumes "net_primitives b n \<noteq> []"
  shows "\<exists>ds. net_connectivity_findings b n = Inr ds \<and> (ds = [] \<longleftrightarrow>
    (\<exists>q \<in> set (net_primitives b n). is_pad_id (prim_id q))
    \<and> (\<forall>i < length (net_primitives b n). \<forall>j < length (net_primitives b n). joined (net_primitives b n) i j))"
proof -
  let ?ps = "net_primitives b n"
  obtain roots where roots: "net_roots ?ps = Inr roots" "length roots = length ?ps"
    and eq: "\<forall>i < length ?ps. \<forall>j < length ?ps. roots ! i = roots ! j \<longleftrightarrow> joined ?ps i j"
    using net_roots_returns [of ?ps] net_primitives_good by blast
  have "length (pad_roots ?ps roots) \<le> 1 \<and> set roots \<subseteq> set (pad_roots ?ps roots) \<longleftrightarrow>
    (\<exists>q \<in> set ?ps. is_pad_id (prim_id q)) \<and> (\<forall>i < length ?ps. \<forall>j < length ?ps. joined ?ps i j)"
    using single_class [OF roots(2) assms] eq by simp
  then show ?thesis
    using assms roots(1) unfolding net_connectivity_findings_def Let_def
    by (simp only: if_False bind_r_simps orphan_groups_Nil) (auto simp: not_less)
qed

lemma dsu_find_more_fuel: "dsu_find fuel p i = Inr r \<Longrightarrow> dsu_find (fuel + k) p i = Inr r"
  by (induction fuel p i rule: dsu_find.induct) (auto simp: Let_def split: if_splits)

definition one_copper_piece :: "copper_primitive list \<Rightarrow> bool" where
  "one_copper_piece prims \<longleftrightarrow> (\<exists>q \<in> set prims. is_pad_id (prim_id q))
     \<and> (\<forall>i < length prims. \<forall>j < length prims. joined prims i j)"

section \<open>Properties\<close>

text \<open>
  C34: \<^verbatim>\<open>find\<close> returns. On a forest in which no parent exceeds its child (all that
  \<^verbatim>\<open>union\<close> can build), the loop ends after at most one more iteration than the index it starts
  from, with the representative of the index and a forest of the same classes; more fuel does not
  change the result.
\<close>

theorem dsu_find_terminates:
  assumes "dsu_ok p" "i < length p"
  shows "\<exists>q. (\<forall>k. dsu_find (Suc i + k) p i = Inr (q, rep p i)) \<and> same_reps p q"
  using dsu_find_returns [OF assms lessI] dsu_find_more_fuel by blast

theorem dsu_find_terminates_witness:
  "(\<exists>q. (\<forall>k. dsu_find (Suc 3 + k) [0, 0, 1, 2] 3 = Inr (q, rep [0, 0, 1, 2] 3)) \<and> same_reps [0, 0, 1, 2] q)
   \<and> dsu_find 4 [0, 0, 1, 2] 3 = Inr ([0, 0, 1, 1], 0)"
proof
  show "\<exists>q. (\<forall>k. dsu_find (Suc 3 + k) [0, 0, 1, 2] 3 = Inr (q, rep [0, 0, 1, 2] 3)) \<and> same_reps [0, 0, 1, 2] q"
    by (rule dsu_find_terminates) (auto simp: dsu_ok_def less_Suc_eq nth_Cons')
  show "dsu_find 4 [0, 0, 1, 2] 3 = Inr ([0, 0, 1, 1], 0)" by (simp add: eval_nat_numeral)
qed

text \<open>
  C33: the disjoint-set forest refines the connectivity of copper. For the primitives of a net the
  computation returns a root for each, and two primitives have the same root exactly when a chain of
  touching primitives joins them.
\<close>

theorem net_roots_refine_connectivity:
  "\<exists>roots. net_roots (net_primitives b n) = Inr roots \<and> length roots = length (net_primitives b n)
   \<and> {(i, j). i < length roots \<and> j < length roots \<and> roots ! i = roots ! j}
     = {(i, j). i < length roots \<and> j < length roots \<and> joined (net_primitives b n) i j}"
  using net_roots_returns [of "net_primitives b n"] net_primitives_good by fastforce

text \<open>
  C32: the routing connectivity rule is exact. It always returns, and it reports nothing for a net
  exactly when the net has no copper and no connection, or when all its copper is one piece, joined
  by chains of touching primitives, with a pad in it.
\<close>

theorem net_connectivity_exact:
  "\<exists>ds. net_connectivity_findings b n = Inr ds \<and>
     (ds = [] \<longleftrightarrow> (if net_primitives b n = [] then net_connections n = [] else one_copper_piece (net_primitives b n)))"
proof (cases "net_primitives b n = []")
  case True
  then show ?thesis by (simp add: net_connectivity_findings_def)
next
  case False
  then show ?thesis using net_connectivity_none [OF False] by (simp add: one_copper_piece_def)
qed

end
