(* ===== verification/Clearance_Props.thy ===== *)
theory Clearance_Props
  imports Clearance_Rules Copper_Shapes
begin

text \<open>
  What the clearance rules of \<^verbatim>\<open>backend/verification/geometric.py\<close> report about copper, in
  terms of the points of the cores.
\<close>

lemma too_close_least:
  assumes "least_distance d A B"
  shows "too_close d r \<longleftrightarrow> (\<exists>p \<in> A. \<exists>q \<in> B. 4 * dist2 p q < of_int (r * r))"
proof -
  have "too_close d r \<longleftrightarrow> d < of_int (r * r) / 4" by (simp add: too_close_def field_simps)
  also have "\<dots> \<longleftrightarrow> (\<exists>p \<in> A. \<exists>q \<in> B. dist2 p q < of_int (r * r) / 4)" by (rule least_distance_less [OF assms])
  finally show ?thesis by (simp add: field_simps)
qed

text \<open>The copper of two primitives, each its core widened by half its width, is closer than \<open>c\<close>.\<close>

definition closer_than :: "int \<Rightarrow> copper_primitive \<Rightarrow> copper_primitive \<Rightarrow> bool" where
  "closer_than c f s \<longleftrightarrow> (\<exists>p \<in> core_points f. \<exists>q \<in> core_points s.
     4 * dist2 p q < of_int ((prim_width_nm f + prim_width_nm s + 2 * c) * (prim_width_nm f + prim_width_nm s + 2 * c)))"

lemma copper_pair_findings_good:
  assumes "good_primitive f" "good_primitive s"
  shows "\<exists>ds. copper_pair_findings c (f, s) = Inr ds \<and>
    (ds = [] \<longleftrightarrow> prim_net_id f = prim_net_id s \<or> shared_layers f s = [] \<or> \<not> closer_than c f s)"
proof -
  obtain d where d: "distance_squared f s = Inr d" "least_distance d (core_points f) (core_points s)"
    using distance_squared_least [OF assms] by blast
  show ?thesis
    using d(1) too_close_least [OF d(2)] by (auto simp: copper_pair_findings_def closer_than_def Let_def)
qed

lemma concat_r_Inr: "concat_r f xs = Inr ys \<longleftrightarrow> (\<exists>yss. list_all2 (\<lambda>x zs. f x = Inr zs) xs yss \<and> ys = concat yss)"
  by (auto simp: concat_r_def bind_r_Inr_iff map_r_Inr)

lemma concat_r_Nil: "concat_r f xs = Inr [] \<longleftrightarrow> (\<forall>x \<in> set xs. f x = Inr [])"
proof
  assume "concat_r f xs = Inr []"
  then obtain yss where y: "list_all2 (\<lambda>x zs. f x = Inr zs) xs yss" "concat yss = []"
    unfolding concat_r_Inr by metis
  show "\<forall>x \<in> set xs. f x = Inr []"
  proof
    fix x assume "x \<in> set xs"
    then obtain i where i: "i < length xs" "x = xs ! i" by (metis in_set_conv_nth)
    then have "f x = Inr (yss ! i)" "yss ! i \<in> set yss"
      using y(1) by (auto simp: list_all2_conv_all_nth)
    then show "f x = Inr []" using y(2) by auto
  qed
next
  assume "\<forall>x \<in> set xs. f x = Inr []"
  then have "list_all2 (\<lambda>x zs. f x = Inr zs) xs (replicate (length xs) [])"
    by (simp add: list_all2_conv_all_nth)
  then show "concat_r f xs = Inr []" unfolding concat_r_Inr by fastforce
qed

text \<open>
  C35: the copper clearance rule is exact on pairs of shapes. For two copper primitives of a board
  on different nets with a layer in common, the comparison of squared distances always returns, and
  it reports a violation exactly when some point of one core and some point of the other are closer
  than half the two widths plus the clearance.
\<close>

theorem copper_clearance_exact:
  assumes "f \<in> set (copper_primitives b)" "s \<in> set (copper_primitives b)"
    and "prim_net_id f \<noteq> prim_net_id s" "shared_layers f s \<noteq> []"
  shows "\<exists>ds. copper_pair_findings c (f, s) = Inr ds \<and> (ds \<noteq> [] \<longleftrightarrow> closer_than c f s)"
  using copper_pair_findings_good [of f s c] copper_primitives_good assms by fastforce

definition sample_track :: "string \<Rightarrow> string \<Rightarrow> int \<Rightarrow> track" where
  "sample_track i n y = \<lparr>track_id = i, track_net_id = n, track_layer = ''F.Cu'',
     track_start = \<lparr>px = 0, py = y\<rparr>, track_end = \<lparr>px = 1000, py = y\<rparr>, track_width_nm = 100\<rparr>"

definition sample_tracks_board :: board_graph where
  "sample_tracks_board = \<lparr>board_schema_version = 3, board_design_id = ''d'', board_revision = ''r'',
     board_layers = [''F.Cu''], board_outline = [], board_components = [], board_nets = [],
     board_tracks = [sample_track ''a'' ''N1'' 0, sample_track ''b'' ''N2'' 150], board_vias = [],
     board_unsupported_features = [], board_zones = [], board_holes = [], board_pads = []\<rparr>"

lemma sample_tracks_copper: "copper_primitives sample_tracks_board =
  [track_primitive (sample_track ''a'' ''N1'' 0), track_primitive (sample_track ''b'' ''N2'' 150)]"
  by code_simp

theorem copper_clearance_exact_witness:
  "\<exists>ds. copper_pair_findings 60 (track_primitive (sample_track ''a'' ''N1'' 0), track_primitive (sample_track ''b'' ''N2'' 150))
     = Inr ds \<and> (ds \<noteq> [] \<longleftrightarrow> closer_than 60 (track_primitive (sample_track ''a'' ''N1'' 0))
         (track_primitive (sample_track ''b'' ''N2'' 150)))"
  by (rule copper_clearance_exact [of _ sample_tracks_board])
     (simp_all add: sample_tracks_copper, simp_all add: track_primitive_def sample_track_def shared_layers_def)

end
