(* ===== verification/Engine_Props.thy ===== *)
theory Engine_Props
  imports Verification_Engine Routing_Props Clearance_Props
begin

text \<open>
  What a report of \<^verbatim>\<open>backend/verification/engine.py\<close> certifies: every registered rule was run
  on the normalized board with the implementation that was hashed, every draft it returned is a
  finding of the report, and a required gate passes only when no rule was skipped and no finding
  reaches its threshold.
\<close>

section \<open>Results of the loops\<close>

lemma filter_r_total: "filter_r f xs = Inr ys \<Longrightarrow> x \<in> set xs \<Longrightarrow> \<exists>b. f x = Inr b"
  by (induction xs arbitrary: ys) (auto simp: bind_r_Inr_iff)

lemma filter_r_empty: "filter_r f xs = Inr [] \<Longrightarrow> x \<in> set xs \<Longrightarrow> f x = Inr False"
proof (induction xs)
  case (Cons y ys)
  then show ?case by (cases "f y") (auto simp: bind_r_Inr_iff split: if_splits)
qed simp

lemma map_r_Inr_set:
  assumes "map_r f xs = Inr ys"
  shows "x \<in> set xs \<Longrightarrow> \<exists>y \<in> set ys. f x = Inr y" "y \<in> set ys \<Longrightarrow> \<exists>x \<in> set xs. f x = Inr y"
proof -
  have l: "list_all2 (\<lambda>x y. f x = Inr y) xs ys" using assms by (simp add: map_r_Inr)
  show "x \<in> set xs \<Longrightarrow> \<exists>y \<in> set ys. f x = Inr y" using l by (auto simp: list_all2_conv_all_nth in_set_conv_nth)
  show "y \<in> set ys \<Longrightarrow> \<exists>x \<in> set xs. f x = Inr y"
    using l by (induction rule: list_all2_induct) auto
qed

definition keeps :: "findings_dict \<Rightarrow> findings_dict \<Rightarrow> bool" where
  "keeps fs gs \<longleftrightarrow> (\<forall>i f. map_of fs i = Some f \<longrightarrow> map_of gs i = Some f)"

lemma keeps_refl [simp]: "keeps fs fs"
  by (simp add: keeps_def)

lemma keeps_trans: "keeps fs gs \<Longrightarrow> keeps gs hs \<Longrightarrow> keeps fs hs"
  by (simp add: keeps_def)

lemma collect_findings_spec:
  assumes "collect_findings h r fs ds = Inr (gs, own)"
  shows "keeps fs gs \<and> list_all2 (\<lambda>d f. materialize_finding h r d = Inr f) ds own
    \<and> (\<forall>f \<in> set own. map_of gs (find_id f) = Some f)"
  using assms
proof (induction ds arbitrary: fs gs own)
  case (Cons d ds)
  obtain f where f: "materialize_finding h r d = Inr f" using Cons.prems by (auto simp: bind_r_Inr_iff)
  then have same: "map_of fs (find_id f) \<in> {None, Some f}" using Cons.prems by (auto split: option.splits if_splits)
  obtain rest where rest: "collect_findings h r (AList.update (find_id f) f fs) ds = Inr (gs, rest)" "own = f # rest"
    using Cons.prems f same by (auto simp: bind_r_Inr_iff split: if_splits option.splits)
  have "keeps fs (AList.update (find_id f) f fs)" using same by (auto simp: keeps_def update_conv')
  moreover have "map_of (AList.update (find_id f) f fs) (find_id f) = Some f" by (simp add: update_conv')
  ultimately show ?case using Cons.IH [OF rest(1)] rest(2) f by (auto simp: keeps_def)
qed simp

text \<open>What the report records about one rule.\<close>

definition ran :: "(byte list \<Rightarrow> byte list) \<Rightarrow> geometry_ops \<Rightarrow> board_graph \<Rightarrow> findings_dict \<Rightarrow> resolved_rule \<Rightarrow> bool" where
  "ran h geo b fs r \<longleftrightarrow> (\<exists>ds own. eval_evaluate (res_evaluator r) b
       \<lparr>ctx_severity = res_severity r, ctx_parameters = res_parameters r, ctx_geometry = geo\<rparr> = Inr ds
     \<and> list_all2 (\<lambda>d f. materialize_finding h r d = Inr f) ds own
     \<and> (\<forall>f \<in> set own. map_of fs (find_id f) = Some f))"

definition recorded :: "(byte list \<Rightarrow> byte list) \<Rightarrow> geometry_ops \<Rightarrow> board_graph \<Rightarrow> findings_dict \<Rightarrow>
  resolved_rule \<Rightarrow> rule_execution \<Rightarrow> bool" where
  "recorded h geo b fs r x \<longleftrightarrow> exec_rule_id x = def_rule_id (resolved_definition r)
     \<and> exec_enabled x = res_enabled r \<and> exec_severity x = res_severity r \<and> exec_parameters x = res_parameters r
     \<and> exec_blocker_ids x = rule_blockers b r
     \<and> (if res_enabled r \<and> rule_blockers b r = [] then exec_outcome x \<noteq> Out_NOT_RUN \<and> ran h geo b fs r
        else exec_outcome x = Out_NOT_RUN)"

lemma ran_keeps: "ran h geo b fs r \<Longrightarrow> keeps fs gs \<Longrightarrow> ran h geo b gs r"
  unfolding ran_def keeps_def by blast

lemma recorded_keeps: "recorded h geo b fs r x \<Longrightarrow> keeps fs gs \<Longrightarrow> recorded h geo b gs r x"
  by (auto simp: recorded_def dest: ran_keeps split: if_splits)

lemma run_rule_spec:
  assumes "run_rule h live geo b kj k (r, ej) fs = Inr (gs, x)"
  shows "keeps fs gs \<and> recorded h geo b gs r x"
proof (cases "res_enabled r \<and> rule_blockers b r = []")
  case True
  then obtain ds own where ds: "eval_evaluate (res_evaluator r) b
      \<lparr>ctx_severity = res_severity r, ctx_parameters = res_parameters r, ctx_geometry = geo\<rparr> = Inr ds"
    and own: "collect_findings h r fs ds = Inr (gs, own)"
    and x: "exec_rule_id x = def_rule_id (resolved_definition r)" "exec_enabled x = res_enabled r"
      "exec_severity x = res_severity r" "exec_parameters x = res_parameters r"
      "exec_blocker_ids x = rule_blockers b r" "exec_outcome x = run_outcome r (rule_blockers b r) own"
    using assms by (auto simp: run_rule_def Let_def bind_r_Inr_iff split: sum.splits)
  then show ?thesis
    using collect_findings_spec [OF own] True by (auto simp: recorded_def ran_def run_outcome_def)
next
  case False
  then show ?thesis using assms
    by (auto simp: run_rule_def Let_def bind_r_Inr_iff recorded_def run_outcome_def)
qed

lemma run_rules_spec:
  assumes "run_rules h live geo b kj k rjs fs = Inr (gs, xs)"
  shows "keeps fs gs \<and> list_all2 (\<lambda>(r, ej) x. recorded h geo b gs r x) rjs xs"
  using assms
proof (induction rjs arbitrary: k fs gs xs)
  case (Cons rj rjs)
  obtain r ej where rj: "rj = (r, ej)" by fastforce
  obtain fs' x ys where 1: "run_rule h live geo b kj k (r, ej) fs = Inr (fs', x)"
    and 2: "run_rules h live geo b kj (Suc k) rjs fs' = Inr (gs, ys)" and xs: "xs = x # ys"
    using Cons.prems rj by (auto simp: bind_r_Inr_iff)
  show ?case
    using run_rule_spec [OF 1] Cons.IH [OF 2] recorded_keeps keeps_trans unfolding rj xs by fastforce
qed simp

section \<open>Gates\<close>

definition unscoped :: "gate_definition \<Rightarrow> bool" where
  "unscoped g \<longleftrightarrow> gate_domains g = [] \<and> gate_rule_ids g = [] \<and> gate_exempt_rule_ids g = []"

lemma selects_unscoped: "unscoped g \<Longrightarrow> selects_rule defs g i = Inr b \<Longrightarrow> b"
  by (auto simp: unscoped_def selects_rule_def gate_selects_def split: option.splits)

lemma decide_gate_passed:
  assumes d: "decide_gate h fs xs defs ih rh g = Inr d" "dec_passed d" and g: "unscoped g"
  shows "gate_required_external_evidence_ids g = []"
    and "f \<in> set fs \<Longrightarrow> severity_rank (find_severity f) < severity_rank (gate_block_at_or_above g)"
    and "x \<in> set xs \<Longrightarrow> exec_outcome x \<noteq> Out_NOT_RUN"
proof -
  obtain bl nr where bl: "filter_r (\<lambda>f. and_r (severity_rank (find_severity f) \<ge> severity_rank (gate_block_at_or_above g))
       (selects_rule defs g (find_rule_id f))) fs = Inr bl"
    and nr: "filter_r (\<lambda>x. and_r (exec_outcome x = Out_NOT_RUN) (selects_rule defs g (exec_rule_id x))) xs = Inr nr"
    and p: "dec_passed d \<longleftrightarrow> sort (map find_id bl) = [] \<and> sort (map exec_rule_id nr) = []
       \<and> gate_required_external_evidence_ids g = []"
    using d(1) by (auto simp: decide_gate_def Let_def bind_r_Inr_iff)
  have none: "bl = []" "nr = []" using p d(2) by (auto dest: arg_cong [of _ _ length])
  show "gate_required_external_evidence_ids g = []" using p d(2) by simp
  show "severity_rank (find_severity f) < severity_rank (gate_block_at_or_above g)" if "f \<in> set fs"
    using filter_r_empty [OF bl [unfolded none] that] selects_unscoped [OF g]
    by (fastforce simp: and_r_def split: if_splits)
  show "exec_outcome x \<noteq> Out_NOT_RUN" if "x \<in> set xs"
    using filter_r_empty [OF nr [unfolded none] that] selects_unscoped [OF g]
    by (fastforce simp: and_r_def split: if_splits)
qed

lemma decide_gate_id: "decide_gate h fs xs defs ih rh g = Inr d \<Longrightarrow> dec_gate_id d = gate_id g"
  by (auto simp: decide_gate_def Let_def bind_r_Inr_iff)

section \<open>The parts of a successful run\<close>

lemma verify_parts:
  assumes "verify h live eng b policy = Inr rp"
  obtains p np overrides rules fs ih rh and rjs :: "(resolved_rule \<times> json) list" where
    "(case policy of None \<Rightarrow> strict_policy | Some q \<Rightarrow> Inr q) = Inr p" "policy_normalized p = Inr np"
    "validate_policy (map eval_definition (eng_evaluators eng)) np = Inr overrides"
    "map_r (\<lambda>e. resolve_rule e (map_of overrides (def_rule_id (eval_definition e)))) (eng_evaluators eng) = Inr rules"
    "map fst rjs = rules"
    "list_all2 (\<lambda>(r, ej) x. recorded h (eng_geometry eng) (board_normalized b) fs r x) rjs (rep_executions rp)"
    "rep_findings rp = sort_key finding_order_key (dict_values fs)"
    "evaluate_gates h (pol_gates np) (rep_findings rp) (rep_executions rp)
       (map eval_definition (eng_evaluators eng)) ih rh = Inr (rep_gates rp)"
proof -
  obtain p np overrides rules where np:
    "(case policy of None \<Rightarrow> strict_policy | Some q \<Rightarrow> Inr q) = Inr p" "policy_normalized p = Inr np"
    "validate_policy (map eval_definition (eng_evaluators eng)) np = Inr overrides"
    "map_r (\<lambda>e. resolve_rule e (map_of overrides (def_rule_id (eval_definition e)))) (eng_evaluators eng) = Inr rules"
    and run: "run_verification h live eng (board_normalized b) np rules = Inr rp"
    using assms by (auto simp: verify_def bind_r_Inr_iff split: if_splits)
  obtain kj rjs fs xs ih rh ds where
    rjs: "map_r (\<lambda>r. bind_r (live_identity live 0 (Rule_subject (def_rule_id (resolved_definition r))))
        (\<lambda>ej. Inr (r, ej))) rules = Inr rjs"
    and rr: "run_rules h live (eng_geometry eng) (board_normalized b) kj 0 rjs [] = Inr (fs, xs)"
    and g: "evaluate_gates h (pol_gates np) (sort_key finding_order_key (dict_values fs)) xs
       (map eval_definition (eng_evaluators eng)) ih rh = Inr ds"
    and rp: "rp = report_of h ih rh (sort_key finding_order_key (dict_values fs)) xs ds"
    using run by (auto simp: run_verification_def Let_def bind_r_Inr_iff)
  have "list_all2 (\<lambda>r p. fst p = r) rules rjs"
    using rjs unfolding map_r_Inr by (rule list_all2_mono) (auto simp: bind_r_Inr_iff)
  then have "map fst rjs = rules" by (auto simp: list_all2_conv_all_nth intro: nth_equalityI)
  moreover have "rep_executions rp = xs" "rep_gates rp = ds"
    "rep_findings rp = sort_key finding_order_key (dict_values fs)"
    by (simp_all add: rp report_of_def Let_def)
  ultimately show thesis using that [OF np, of rjs fs ih rh] run_rules_spec [OF rr] g by simp
qed

lemma gate_of_decision:
  assumes "evaluate_gates h gs fs xs defs ih rh = Inr ds" "d \<in> set ds"
  shows "\<exists>g \<in> set gs. decide_gate h fs xs defs ih rh g = Inr d"
  using assms by (auto simp: evaluate_gates_def bind_r_Inr_iff dest: map_r_Inr_set(2))

lemma validate_policy_gate:
  assumes "validate_policy defs np = Inr ov" "g \<in> set (pol_gates np)"
  shows "\<forall>(bad, e) \<in> set (gate_checks defs g). \<not> bad"
  using assms unfolding validate_policy_def Let_def bind_r_Inr_iff raise_first_Inr_iff set_append set_concat set_map
  by blast

lemma required_gate:
  assumes "validate_policy defs np = Inr ov" "g \<in> set (pol_gates np)" "gate_id g \<in> set required_gate_ids"
  shows "unscoped g"
    and "maximum_required_gate_thresholds (gate_id g) = Some t \<Longrightarrow> severity_rank (gate_block_at_or_above g) \<le> severity_rank t"
    and "gate_id g = ''manufacturing-release'' \<Longrightarrow> kicad_evidence_id \<in> set (gate_required_external_evidence_ids g)"
  using validate_policy_gate [OF assms(1,2)] assms(3)
  by (auto simp: gate_checks_def Let_def unscoped_def split: option.splits)

lemma resolve_rule_evaluator: "resolve_rule e ov = Inr r \<Longrightarrow> res_evaluator r = e"
  by (auto simp: resolve_rule_def Let_def bind_r_Inr_iff)

lemma materialized_severity: "materialize_finding h r d = Inr f \<Longrightarrow> find_severity f = res_severity r"
  by (auto simp: materialize_finding_def Let_def bind_r_Inr_iff split: if_splits)

text \<open>A rule that ran under a threshold that its findings did not reach returned nothing, or less.\<close>

lemma ran_below:
  assumes ran: "ran h geo b fs r"
    and below: "\<And>f. f \<in> set (dict_values fs) \<Longrightarrow> severity_rank (find_severity f) < m"
  obtains ds where "eval_evaluate (res_evaluator r) b
      \<lparr>ctx_severity = res_severity r, ctx_parameters = res_parameters r, ctx_geometry = geo\<rparr> = Inr ds"
    "ds = [] \<or> severity_rank (res_severity r) < m"
proof -
  obtain ds own where ds: "eval_evaluate (res_evaluator r) b
      \<lparr>ctx_severity = res_severity r, ctx_parameters = res_parameters r, ctx_geometry = geo\<rparr> = Inr ds"
    and own: "list_all2 (\<lambda>d f. materialize_finding h r d = Inr f) ds own"
      "\<forall>f \<in> set own. map_of fs (find_id f) = Some f"
    using ran unfolding ran_def by blast
  have "severity_rank (res_severity r) < m" if ne: "ds \<noteq> []"
  proof -
    obtain d ds' f own' where c: "ds = d # ds'" "own = f # own'" "materialize_finding h r d = Inr f"
      using ne own(1) by (cases ds) (auto simp: list_all2_Cons1)
    then have "f \<in> set (dict_values fs)"
      using own(2) map_of_SomeD [of fs "find_id f" f] by (force simp: dict_values_def)
    then show ?thesis using below materialized_severity [OF c(3)] by metis
  qed
  then show thesis using that ds by blast
qed

lemma commit_gate_lemma:
  assumes v: "verify h live eng b policy = Inr rp" and d: "d \<in> set (rep_gates rp)" "dec_gate_id d = ''commit''" "dec_passed d"
  obtains p np overrides where
    "(case policy of None \<Rightarrow> strict_policy | Some q \<Rightarrow> Inr q) = Inr p" "policy_normalized p = Inr np"
    "validate_policy (map eval_definition (eng_evaluators eng)) np = Inr overrides"
    "\<And>e. e \<in> set (eng_evaluators eng) \<Longrightarrow> \<exists>r x ds. resolve_rule e (map_of overrides (def_rule_id (eval_definition e))) = Inr r
       \<and> x \<in> set (rep_executions rp) \<and> exec_rule_id x = def_rule_id (eval_definition e) \<and> exec_enabled x
       \<and> exec_blocker_ids x = [] \<and> exec_severity x = res_severity r \<and> exec_parameters x = res_parameters r
       \<and> eval_evaluate e (board_normalized b) \<lparr>ctx_severity = res_severity r, ctx_parameters = res_parameters r,
            ctx_geometry = eng_geometry eng\<rparr> = Inr ds
       \<and> (ds = [] \<or> severity_rank (res_severity r) < severity_rank Sev_ERROR)"
proof (rule verify_parts [OF v])
  fix p np overrides rules fs ih rh and rjs :: "(resolved_rule \<times> json) list"
  assume pol: "(case policy of None \<Rightarrow> strict_policy | Some q \<Rightarrow> Inr q) = Inr p" "policy_normalized p = Inr np"
    "validate_policy (map eval_definition (eng_evaluators eng)) np = Inr overrides"
    and rules: "map_r (\<lambda>e. resolve_rule e (map_of overrides (def_rule_id (eval_definition e)))) (eng_evaluators eng) = Inr rules"
    and rjs: "map fst rjs = rules"
    and rec: "list_all2 (\<lambda>(r, ej) x. recorded h (eng_geometry eng) (board_normalized b) fs r x) rjs (rep_executions rp)"
    and fnd: "rep_findings rp = sort_key finding_order_key (dict_values fs)"
    and gates: "evaluate_gates h (pol_gates np) (rep_findings rp) (rep_executions rp)
       (map eval_definition (eng_evaluators eng)) ih rh = Inr (rep_gates rp)"
  obtain g where g: "g \<in> set (pol_gates np)" and dec: "decide_gate h (rep_findings rp) (rep_executions rp)
       (map eval_definition (eng_evaluators eng)) ih rh g = Inr d"
    using gate_of_decision [OF gates d(1)] by blast
  have id: "gate_id g = ''commit''" using decide_gate_id [OF dec] d(2) by simp
  then have req: "gate_id g \<in> set required_gate_ids" by (simp add: required_gate_ids_def)
  have thr: "severity_rank (gate_block_at_or_above g) \<le> severity_rank Sev_ERROR"
    using required_gate(2) [OF pol(3) g req] id by (simp add: maximum_required_gate_thresholds_def)
  note passed = decide_gate_passed [OF dec d(3) required_gate(1) [OF pol(3) g req]]
  have below: "severity_rank (find_severity f) < severity_rank Sev_ERROR" if "f \<in> set (dict_values fs)" for f
    using passed(2) [of f] that thr fnd by simp
  show thesis
  proof (rule that [OF pol])
    fix e assume "e \<in> set (eng_evaluators eng)"
    then obtain r where r: "r \<in> set rules" "resolve_rule e (map_of overrides (def_rule_id (eval_definition e))) = Inr r"
      using map_r_Inr_set(1) [OF rules] by blast
    have ev: "res_evaluator r = e" by (rule resolve_rule_evaluator [OF r(2)])
    obtain ej where "(r, ej) \<in> set rjs" using r(1) rjs by auto
    then obtain x where x: "x \<in> set (rep_executions rp)" "recorded h (eng_geometry eng) (board_normalized b) fs r x"
      using rec by (auto simp: list_all2_conv_all_nth in_set_conv_nth) (metis case_prod_conv)
    then have run: "res_enabled r" "rule_blockers (board_normalized b) r = []" "ran h (eng_geometry eng) (board_normalized b) fs r"
      using passed(3) [OF x(1)] by (auto simp: recorded_def split: if_splits)
    obtain ds where "eval_evaluate e (board_normalized b) \<lparr>ctx_severity = res_severity r, ctx_parameters = res_parameters r,
            ctx_geometry = eng_geometry eng\<rparr> = Inr ds" "ds = [] \<or> severity_rank (res_severity r) < severity_rank Sev_ERROR"
      using ran_below [OF run(3) below] ev by metis
    then show "\<exists>r x ds. resolve_rule e (map_of overrides (def_rule_id (eval_definition e))) = Inr r
       \<and> x \<in> set (rep_executions rp) \<and> exec_rule_id x = def_rule_id (eval_definition e) \<and> exec_enabled x
       \<and> exec_blocker_ids x = [] \<and> exec_severity x = res_severity r \<and> exec_parameters x = res_parameters r
       \<and> eval_evaluate e (board_normalized b) \<lparr>ctx_severity = res_severity r, ctx_parameters = res_parameters r,
            ctx_geometry = eng_geometry eng\<rparr> = Inr ds
       \<and> (ds = [] \<or> severity_rank (res_severity r) < severity_rank Sev_ERROR)"
      using r(2) x run ev by (auto simp: recorded_def resolved_definition_def)
  qed
qed

end
