(* ===== verification/Engine_Samples.thy ===== *)
theory Engine_Samples
  imports Engine_Props
begin

text \<open>
  Runs that complete: the default policy is accepted, and a board on which every rule returns
  nothing gets a report in which every gate that needs no external evidence passes.
\<close>

section \<open>The default policy\<close>

definition strict_gates :: "gate_definition list" where
  "strict_gates =
     [plain_gate ''commit'' ''Project commit requires zero error-or-higher findings'' Sev_ERROR [],
      plain_gate ''manufacturing-release'' ''Manufacturing release requires zero warning-or-higher findings''
        Sev_WARNING [kicad_evidence_id],
      plain_gate ''preview'' ''Preview may not contain fatal verification failures'' Sev_FATAL []]"

lemma strict_policy_value: "strict_policy = Inr \<lparr>pol_overrides = [], pol_gates = strict_gates\<rparr>"
  by code_simp

lemma strict_policy_normal:
  "policy_normalized \<lparr>pol_overrides = [], pol_gates = strict_gates\<rparr> = Inr \<lparr>pol_overrides = [], pol_gates = strict_gates\<rparr>"
  by code_simp

lemma strict_policy_shape: "validate_policy_shape \<lparr>pol_overrides = [], pol_gates = strict_gates\<rparr> = Inr ()"
  by code_simp

lemma strict_policy_valid: "validate_policy defs \<lparr>pol_overrides = [], pol_gates = strict_gates\<rparr> = Inr []"
proof -
  have "\<not> is_blank ''commit''" "\<not> is_blank ''manufacturing-release''" "\<not> is_blank ''preview''" by code_simp+
  then show ?thesis
    by (simp add: validate_policy_def strict_gates_def plain_gate_def gate_checks_def required_gate_ids_def
        maximum_required_gate_thresholds_def dict_of_def Let_def)
qed

section \<open>A run without findings\<close>

text \<open>The geometry kernel and every rule keep their own implementation identity during the run.\<close>

definition steady :: "live_code \<Rightarrow> bool" where
  "steady live \<longleftrightarrow> (\<forall>s. \<exists>j. \<forall>t. live_identity live t s = Inr j)"

lemma steady_assert: "(\<And>t s. live_identity live t s = Inr (i s)) \<Longrightarrow> assert_identity h live (i s) t s = Inr ()"
  by (simp add: assert_identity_def)

definition silent :: "engine \<Rightarrow> board_graph \<Rightarrow> resolved_rule \<Rightarrow> bool" where
  "silent eng b r \<longleftrightarrow> res_enabled r \<and> rule_blockers b r = [] \<and> eval_evaluate (res_evaluator r) b
     \<lparr>ctx_severity = res_severity r, ctx_parameters = res_parameters r, ctx_geometry = eng_geometry eng\<rparr> = Inr []"

lemma run_rules_silent:
  assumes "\<And>t s. live_identity live t s = Inr (i s)"
    "\<forall>(r, ej) \<in> set rjs. silent eng b r \<and> ej = i (Rule_subject (def_rule_id (resolved_definition r)))"
  shows "\<exists>xs. run_rules h live (eng_geometry eng) b (i Kernel_subject) k rjs [] = Inr ([], xs)
    \<and> (\<forall>x \<in> set xs. exec_outcome x = Out_PASS)"
  using assms(2)
proof (induction rjs arbitrary: k)
  case (Cons rj rjs)
  obtain r where rj: "rj = (r, i (Rule_subject (def_rule_id (resolved_definition r))))" "silent eng b r"
    using Cons.prems by auto
  have "\<exists>x. run_rule h live (eng_geometry eng) b (i Kernel_subject) k rj [] = Inr ([], x) \<and> exec_outcome x = Out_PASS"
    using rj(2) steady_assert [of live i, OF assms(1)] by (simp add: rj(1) run_rule_def silent_def run_outcome_def Let_def)
  then show ?case using Cons.IH [of "Suc k"] Cons.prems by auto
qed simp

lemma map_r_total: "(\<And>x. x \<in> set xs \<Longrightarrow> f x = Inr (g x)) \<Longrightarrow> map_r f xs = Inr (map g xs)"
  by (induction xs) simp_all

lemma decide_gate_silent:
  assumes "\<forall>x \<in> set xs. exec_outcome x = Out_PASS"
  shows "\<exists>d. decide_gate h [] xs defs ih rh g = Inr d \<and> dec_gate_id d = gate_id g
    \<and> dec_passed d = (gate_required_external_evidence_ids g = [])"
proof -
  have "filter_r (\<lambda>x. and_r (exec_outcome x = Out_NOT_RUN) (selects_rule defs g (exec_rule_id x))) xs = Inr []"
    using assms by (induction xs) (simp_all add: and_r_def)
  then show ?thesis by (simp add: decide_gate_def Let_def)
qed

lemma evaluate_gates_silent:
  assumes "\<forall>x \<in> set xs. exec_outcome x = Out_PASS" "g \<in> set gs" "gate_required_external_evidence_ids g = []"
  shows "\<exists>ds. evaluate_gates h gs [] xs defs ih rh = Inr ds \<and> (\<exists>d \<in> set ds. dec_gate_id d = gate_id g \<and> dec_passed d)"
proof -
  define f where "f = (\<lambda>g. SOME d. decide_gate h [] xs defs ih rh g = Inr d \<and> dec_gate_id d = gate_id g
    \<and> dec_passed d = (gate_required_external_evidence_ids g = []))"
  have f: "decide_gate h [] xs defs ih rh g = Inr (f g) \<and> dec_gate_id (f g) = gate_id g
    \<and> dec_passed (f g) = (gate_required_external_evidence_ids g = [])" for g
    unfolding f_def by (rule someI_ex) (rule decide_gate_silent [OF assms(1)])
  then have "map_r (decide_gate h [] xs defs ih rh) gs = Inr (map f gs)" by (intro map_r_total) blast
  then show ?thesis using f assms(2,3) by (auto simp: evaluate_gates_def)
qed

lemma silent_run_passes:
  assumes valid: "validate_board_graph h b = Inr ()" "board_schema_version b = 3" and live: "steady live"
    and rules: "\<forall>e \<in> set (eng_evaluators eng). \<exists>r. resolve_rule e None = Inr r \<and> silent eng (board_normalized b) r"
    and g: "g \<in> set strict_gates" "gate_required_external_evidence_ids g = []"
  shows "\<exists>rp. verify h live eng b None = Inr rp \<and> rep_findings rp = []
    \<and> (\<exists>d \<in> set (rep_gates rp). dec_gate_id d = gate_id g \<and> dec_passed d)"
proof -
  obtain i where i: "\<And>t s. live_identity live t s = Inr (i s)" using live unfolding steady_def by metis
  let ?j = "\<lambda>r. i (Rule_subject (def_rule_id (resolved_definition r)))"
  obtain f where f: "\<And>e. e \<in> set (eng_evaluators eng) \<Longrightarrow> resolve_rule e None = Inr (f e) \<and> silent eng (board_normalized b) (f e)"
    using rules by metis
  let ?rules = "map f (eng_evaluators eng)"
  have r: "map_r (\<lambda>e. resolve_rule e None) (eng_evaluators eng) = Inr ?rules"
    using f by (intro map_r_total) blast
  have ids: "map_r (\<lambda>r. bind_r (live_identity live 0 (Rule_subject (def_rule_id (resolved_definition r))))
        (\<lambda>ej. Inr (r, ej))) ?rules = Inr (map (\<lambda>r. (r, ?j r)) ?rules)"
    using i by (intro map_r_total) simp
  obtain xs where xs: "run_rules h live (eng_geometry eng) (board_normalized b) (i Kernel_subject) 0 (map (\<lambda>r. (r, ?j r)) ?rules) [] = Inr ([], xs)"
    "\<forall>x \<in> set xs. exec_outcome x = Out_PASS"
    using run_rules_silent [of live i, OF i, of "map (\<lambda>r. (r, ?j r)) ?rules" eng "board_normalized b" h 0] f by auto
  have "map_r (\<lambda>(r, ej). assert_identity h live ej t (Rule_subject (def_rule_id (resolved_definition r))))
      (map (\<lambda>r. (r, ?j r)) ?rules) = Inr (map (\<lambda>_. ()) (map (\<lambda>r. (r, ?j r)) ?rules))" for t
    using steady_assert [of live i, OF i] by (intro map_r_total) auto
  then have fin: "final_identities h live (i Kernel_subject) (map (\<lambda>r. (r, ?j r)) ?rules) = Inr ()"
    using steady_assert [of live i, OF i] by (simp add: final_identities_def Let_def)
  obtain ds where ds: "evaluate_gates h strict_gates [] xs (map eval_definition (eng_evaluators eng))
      (stable_hash h ''pcb-board-graph-v2'' (board_json (board_normalized b)))
      (stable_hash h ''pcb-rule-set-v2'' (rule_set_json live (eng_geometry eng) (i Kernel_subject) (map (\<lambda>r. (r, ?j r)) ?rules) strict_gates)) = Inr ds"
    "\<exists>d \<in> set ds. dec_gate_id d = gate_id g \<and> dec_passed d"
    using evaluate_gates_silent [OF xs(2) g] by blast
  have "verify h live eng b None = run_verification h live eng (board_normalized b)
      \<lparr>pol_overrides = [], pol_gates = strict_gates\<rparr> ?rules"
    using valid r by (simp add: verify_def strict_policy_value strict_policy_shape strict_policy_normal strict_policy_valid)
  also have "\<dots> = Inr (report_of h (stable_hash h ''pcb-board-graph-v2'' (board_json (board_normalized b)))
      (stable_hash h ''pcb-rule-set-v2'' (rule_set_json live (eng_geometry eng) (i Kernel_subject) (map (\<lambda>r. (r, ?j r)) ?rules) strict_gates)) [] xs ds)"
    using ids xs(1) fin ds(1) i [of 0 Kernel_subject]
    by (simp add: run_verification_def Let_def dict_values_def del: map_map)
  finally show ?thesis using ds(2) by (simp add: report_of_def Let_def)
qed

end
