(* ===== verification/Engine_Guarantees.thy ===== *)
theory Engine_Guarantees
  imports Engine_Samples
begin

text \<open>
  The guarantees of a verification report (\<^verbatim>\<open>backend/verification/engine.py\<close>) and the inputs
  on which no report is produced.
\<close>

section \<open>Samples\<close>

definition default_engine :: engine where
  "default_engine = \<lparr>eng_evaluators = default_evaluators, eng_geometry = exact_geometry_kernel\<rparr>"

definition sample_live :: live_code where
  "sample_live = \<lparr>live_identity = (\<lambda>t s. Inr (JObj [(''class'',
       JStr (case s of Kernel_subject \<Rightarrow> ''ExactGeometryKernel'' | Rule_subject i \<Rightarrow> i))])),
     live_bundle_hash = ''bundle''\<rparr>"

definition bare_board :: board_graph where
  "bare_board = \<lparr>board_schema_version = 3, board_design_id = ''d'', board_revision = ''r'',
     board_layers = [''F.Cu''],
     board_outline = [\<lparr>px = 0, py = 0\<rparr>, \<lparr>px = 0, py = 1000000\<rparr>, \<lparr>px = 1000000, py = 0\<rparr>],
     board_components = [], board_nets = [], board_tracks = [], board_vias = [],
     board_unsupported_features = [], board_zones = [], board_holes = [], board_pads = []\<rparr>"

definition silent_on :: "board_graph \<Rightarrow> evaluator \<Rightarrow> bool" where
  "silent_on b e = (case resolve_rule e None of Inl _ \<Rightarrow> False
     | Inr r \<Rightarrow> res_enabled r \<and> rule_blockers b r = [] \<and> eval_evaluate (res_evaluator r) b
         \<lparr>ctx_severity = res_severity r, ctx_parameters = res_parameters r, ctx_geometry = exact_geometry_kernel\<rparr> = Inr [])"

lemma bare_electrical: "list_all (silent_on bare_board) electrical_rules"
  by code_simp

lemma bare_geometric: "list_all (silent_on bare_board) geometric_rules"
  by code_simp

lemma bare_algorithm: "list_all (silent_on bare_board) algorithm_rules"
  by code_simp

lemma bare_normal: "board_normalized bare_board = bare_board"
  by code_simp

lemma bare_valid: "validate_board_graph h bare_board = Inr ()"
proof -
  have "\<not> is_blank ''d''" "\<not> is_blank ''r''" by code_simp+
  then show ?thesis by (simp add: validate_board_graph_def bare_board_def nonempty_checks_def)
qed

lemma set_default_evaluators: "set default_evaluators = set electrical_rules \<union> set geometric_rules \<union> set algorithm_rules"
  by (auto simp: default_evaluators_def)

lemma bare_silent:
  assumes "e \<in> set (eng_evaluators default_engine)"
  shows "\<exists>r. resolve_rule e None = Inr r \<and> silent default_engine (board_normalized bare_board) r"
proof -
  have "silent_on bare_board e"
    using assms bare_electrical bare_geometric bare_algorithm
    by (auto simp: default_engine_def set_default_evaluators list_all_iff)
  then show ?thesis
    by (auto simp: silent_on_def silent_def bare_normal default_engine_def split: sum.splits)
qed

lemma sample_steady: "steady sample_live"
  by (simp add: steady_def sample_live_def)

lemma bare_schema: "board_schema_version bare_board = 3"
  by (simp add: bare_board_def)

lemma bare_all_silent: "\<forall>e \<in> set (eng_evaluators default_engine).
    \<exists>r. resolve_rule e None = Inr r \<and> silent default_engine (board_normalized bare_board) r"
  using bare_silent by (intro ballI)

lemma bare_commit_passes:
  "\<exists>rp d. verify h sample_live default_engine bare_board None = Inr rp
    \<and> d \<in> set (rep_gates rp) \<and> dec_gate_id d = ''commit'' \<and> dec_passed d"
proof -
  let ?g = "strict_gates ! 0"
  have g: "?g \<in> set strict_gates" "gate_required_external_evidence_ids ?g = []" "gate_id ?g = ''commit''"
    by (simp_all add: strict_gates_def plain_gate_def)
  from silent_run_passes [OF bare_valid bare_schema sample_steady bare_all_silent g(1,2)]
  show ?thesis unfolding g(3) by blast
qed

section \<open>What a passed gate certifies\<close>

text \<open>
  C20: the commit gate is sound for every policy that the engine accepts. When a report says that
  the commit gate passed, every registered rule was enabled, was not blocked, and was evaluated on
  the normalized board with the recorded parameters without an error; and it returned no draft at all
  unless its severity is below error.
\<close>

theorem commit_gate_certifies_run:
  assumes "verify h live eng b policy = Inr rp"
    and "d \<in> set (rep_gates rp)" "dec_gate_id d = ''commit''" "dec_passed d" "e \<in> set (eng_evaluators eng)"
  shows "\<exists>x ds. x \<in> set (rep_executions rp) \<and> exec_rule_id x = def_rule_id (eval_definition e)
    \<and> exec_enabled x \<and> exec_blocker_ids x = []
    \<and> eval_evaluate e (board_normalized b) \<lparr>ctx_severity = exec_severity x, ctx_parameters = exec_parameters x,
         ctx_geometry = eng_geometry eng\<rparr> = Inr ds
    \<and> (ds = [] \<or> severity_rank (exec_severity x) < severity_rank Sev_ERROR)"
  using commit_gate_lemma [OF assms(1-4)] assms(5) by metis

theorem commit_gate_certifies_run_witness:
  "\<exists>rp x ds. verify sha256 sample_live default_engine bare_board None = Inr rp
    \<and> x \<in> set (rep_executions rp) \<and> exec_rule_id x = def_rule_id (eval_definition outline_validity_rule)
    \<and> exec_enabled x \<and> exec_blocker_ids x = []
    \<and> eval_evaluate outline_validity_rule (board_normalized bare_board)
        \<lparr>ctx_severity = exec_severity x, ctx_parameters = exec_parameters x,
         ctx_geometry = eng_geometry default_engine\<rparr> = Inr ds
    \<and> (ds = [] \<or> severity_rank (exec_severity x) < severity_rank Sev_ERROR)"
proof -
  obtain rp d where v: "verify sha256 sample_live default_engine bare_board None = Inr rp"
    and d: "d \<in> set (rep_gates rp)" "dec_gate_id d = ''commit''" "dec_passed d"
    using bare_commit_passes [of sha256] by blast
  have "outline_validity_rule \<in> set (eng_evaluators default_engine)"
    by (simp add: default_engine_def set_default_evaluators geometric_rules_def)
  from commit_gate_certifies_run [OF v d this] v show ?thesis by blast
qed

text \<open>
  C26: the manufacturing-release gate never passes. The engine accepts no external evidence, the
  gate must require the KiCad evidence under every accepted policy, and required evidence is always
  reported as unavailable.
\<close>

theorem manufacturing_release_never_passes:
  assumes "verify h live eng b policy = Inr rp" "d \<in> set (rep_gates rp)" "dec_gate_id d = ''manufacturing-release''"
  shows "\<not> dec_passed d \<and> kicad_evidence_id \<in> set (dec_unavailable_evidence_ids d)"
proof (rule verify_parts [OF assms(1)])
  fix p np overrides rules fs ih rh and rjs :: "(resolved_rule \<times> json) list"
  assume pol: "validate_policy (map eval_definition (eng_evaluators eng)) np = Inr overrides"
    and gates: "evaluate_gates h (pol_gates np) (rep_findings rp) (rep_executions rp)
       (map eval_definition (eng_evaluators eng)) ih rh = Inr (rep_gates rp)"
  obtain g where g: "g \<in> set (pol_gates np)" and dec: "decide_gate h (rep_findings rp) (rep_executions rp)
       (map eval_definition (eng_evaluators eng)) ih rh g = Inr d"
    using gate_of_decision [OF gates assms(2)] by blast
  have id: "gate_id g = ''manufacturing-release''" using decide_gate_id [OF dec] assms(3) by simp
  then have "kicad_evidence_id \<in> set (gate_required_external_evidence_ids g)"
    using required_gate(3) [OF pol g] by (simp add: required_gate_ids_def)
  then show ?thesis using dec by (auto simp: decide_gate_def Let_def bind_r_Inr_iff)
qed

lemma bare_release_decided:
  "\<exists>rp d. verify h sample_live default_engine bare_board None = Inr rp
    \<and> d \<in> set (rep_gates rp) \<and> dec_gate_id d = ''manufacturing-release''"
proof -
  obtain rp where v: "verify h sample_live default_engine bare_board None = Inr rp" using bare_commit_passes by blast
  then have "\<exists>d \<in> set (rep_gates rp). dec_gate_id d = ''manufacturing-release''"
  proof (rule verify_parts)
    fix p np overrides rules fs ih rh and rjs :: "(resolved_rule \<times> json) list"
    assume p: "(case None of None \<Rightarrow> strict_policy | Some q \<Rightarrow> Inr q) = Inr p" "policy_normalized p = Inr np"
      and gates: "evaluate_gates h (pol_gates np) (rep_findings rp) (rep_executions rp)
       (map eval_definition (eng_evaluators default_engine)) ih rh = Inr (rep_gates rp)"
    have np: "pol_gates np = strict_gates" using p by (auto simp: strict_policy_value strict_policy_normal)
    obtain ds where ds: "map_r (decide_gate h (rep_findings rp) (rep_executions rp)
       (map eval_definition (eng_evaluators default_engine)) ih rh) strict_gates = Inr ds" "set (rep_gates rp) = set ds"
      using gates by (auto simp: evaluate_gates_def bind_r_Inr_iff np dest: arg_cong [of _ _ set])
    have "strict_gates ! 1 \<in> set strict_gates" "gate_id (strict_gates ! 1) = ''manufacturing-release''"
      by (simp_all add: strict_gates_def plain_gate_def)
    then show ?thesis using map_r_Inr_set(1) [OF ds(1)] decide_gate_id ds(2) by metis
  qed
  then show ?thesis using v by blast
qed

theorem manufacturing_release_never_passes_witness:
  "\<exists>rp d. verify sha256 sample_live default_engine bare_board None = Inr rp \<and> d \<in> set (rep_gates rp)
    \<and> \<not> dec_passed d \<and> kicad_evidence_id \<in> set (dec_unavailable_evidence_ids d)"
proof -
  obtain rp d where v: "verify sha256 sample_live default_engine bare_board None = Inr rp"
    and d: "d \<in> set (rep_gates rp)" "dec_gate_id d = ''manufacturing-release''"
    using bare_release_decided [of sha256] by blast
  from manufacturing_release_never_passes [OF v d] v d(1) show ?thesis by blast
qed

text \<open>
  C30: a board that no rule objects to gets its report and passes. Take a board of schema version 3 that
  passes the input validation, the default policy, and code whose implementation identities, of the
  geometry kernel and of each rule, can be read and stay the same during the run. If every registered
  rule resolves under the default policy, is enabled and not blocked on the normalized board and
  returns no draft, then the engine returns a report with no findings in which the preview and the
  commit gate pass.
\<close>

theorem clean_board_passes:
  assumes "validate_board_graph h b = Inr ()" "board_schema_version b = 3" "steady live"
    and "\<forall>e \<in> set (eng_evaluators eng). \<exists>r. resolve_rule e None = Inr r \<and> silent eng (board_normalized b) r"
    and "i \<in> {''preview'', ''commit''}"
  shows "\<exists>rp. verify h live eng b None = Inr rp \<and> rep_findings rp = []
    \<and> (\<exists>d \<in> set (rep_gates rp). dec_gate_id d = i \<and> dec_passed d)"
proof -
  have "\<exists>g \<in> set strict_gates. gate_id g = i \<and> gate_required_external_evidence_ids g = []"
    using assms(5) by (auto simp: strict_gates_def plain_gate_def)
  then obtain g where g: "g \<in> set strict_gates" "gate_required_external_evidence_ids g = []" "gate_id g = i"
    by blast
  show ?thesis using silent_run_passes [OF assms(1-4) g(1,2)] unfolding g(3) .
qed

theorem clean_board_passes_witness:
  "\<exists>rp. verify sha256 sample_live default_engine bare_board None = Inr rp \<and> rep_findings rp = []
    \<and> (\<exists>d \<in> set (rep_gates rp). dec_gate_id d = ''preview'' \<and> dec_passed d)"
  by (rule clean_board_passes [OF bare_valid bare_schema sample_steady bare_all_silent]) simp

end
