(* ===== verification/Board_Certification.thy ===== *)
theory Board_Certification
  imports Engine_Guarantees
begin

text \<open>
  What the commit gate of the default engine (\<^verbatim>\<open>VerificationEngine()\<close> with its default rules,
  kernel and policy) certifies about a board, stated without the engine: geometry, clearances,
  connectivity and references.
\<close>

section \<open>The default engine\<close>

lemma engine_init_default:
  assumes "engine_init live None None = Inr eng"
  shows "set (eng_evaluators eng) = set electrical_rules \<union> set geometric_rules \<union> set algorithm_rules"
    and "eng_geometry eng = exact_geometry_kernel"
  using assms by (auto simp: engine_init_def Let_def bind_r_Inr_iff set_default_evaluators)

definition valid_definition :: "evaluator \<Rightarrow> bool" where
  "valid_definition e = (validate_rule_definition (eval_definition e) = Inr ())"

lemma default_definitions_valid: "list_all valid_definition (electrical_rules @ geometric_rules @ algorithm_rules)"
  by code_simp

lemma default_ids_distinct:
  "distinct (map (def_rule_id \<circ> eval_definition) (electrical_rules @ geometric_rules @ algorithm_rules))"
  by code_simp

lemma default_engine_built: "engine_init sample_live None None = Inr default_engine"
proof -
  let ?id = "def_rule_id \<circ> eval_definition"
  have "mset default_evaluators = mset (electrical_rules @ geometric_rules @ algorithm_rules)"
    by (simp add: default_evaluators_def)
  then have "mset (map ?id default_evaluators) = mset (map ?id (electrical_rules @ geometric_rules @ algorithm_rules))"
    by simp
  then have d: "distinct (map ?id default_evaluators)"
    using default_ids_distinct by (metis mset_eq_imp_distinct_iff)
  have s: "sort_key ?id default_evaluators = default_evaluators"
    unfolding default_evaluators_def by (rule sort_key_id_if_sorted) (rule sorted_sort_key)
  have v: "validate_rule_definition (eval_definition e) = Inr ()" if "e \<in> set default_evaluators" for e
    using default_definitions_valid that
    unfolding list_all_iff default_evaluators_def set_sort valid_definition_def by blast
  have m: "map_r (\<lambda>e. bind_r (validate_rule_definition (eval_definition e)) (\<lambda>_.
      live_identity sample_live 0 (Rule_subject (def_rule_id (eval_definition e))))) default_evaluators
    = Inr (map (\<lambda>e. JObj [(''class'', JStr (def_rule_id (eval_definition e)))]) default_evaluators)"
    by (rule map_r_total) (simp add: v sample_live_def)
  have nb: "\<not> is_blank (geo_kernel_id exact_geometry_kernel)" "\<not> is_blank (geo_version exact_geometry_kernel)"
    by code_simp+
  have "\<exists>j. live_identity sample_live 0 Kernel_subject = Inr j" by (simp add: sample_live_def)
  then show ?thesis using d m nb unfolding engine_init_def Let_def option.case s default_engine_def by auto
qed

section \<open>Rules that returned nothing\<close>

definition default_context :: "evaluator \<Rightarrow> rule_context" where
  "default_context e = \<lparr>ctx_severity = def_default_severity (eval_definition e),
     ctx_parameters = map (\<lambda>(i, s). \<lparr>par_name = i, par_value = spec_default s\<rparr>)
       (sort_key fst (dict_of spec_name (def_parameters (eval_definition e)))),
     ctx_geometry = exact_geometry_kernel\<rparr>"

lemma resolve_default:
  assumes "resolve_rule e None = Inr r"
  shows "res_severity r = def_default_severity (eval_definition e)"
    and "res_parameters r = map (\<lambda>(i, s). \<lparr>par_name = i, par_value = spec_default s\<rparr>)
       (sort_key fst (dict_of spec_name (def_parameters (eval_definition e))))"
proof -
  obtain ps where r: "r = \<lparr>res_evaluator = e, res_enabled = True, res_severity = def_default_severity (eval_definition e),
      res_parameters = ps\<rparr>"
    and ps: "map_r (\<lambda>(i, s). bind_r (validate_parameter s (spec_default s)) (\<lambda>_. Inr \<lparr>par_name = i, par_value = spec_default s\<rparr>))
      (sort_key fst (dict_of spec_name (def_parameters (eval_definition e)))) = Inr ps"
    using assms by (auto simp: resolve_rule_def Let_def bind_r_Inr_iff dict_of_def cong: option.case_cong)
  show "res_severity r = def_default_severity (eval_definition e)" by (simp add: r)
  have "list_all2 (\<lambda>x y. y = (case x of (i, s) \<Rightarrow> \<lparr>par_name = i, par_value = spec_default s\<rparr>))
      (sort_key fst (dict_of spec_name (def_parameters (eval_definition e)))) ps"
    using ps unfolding map_r_Inr by (rule list_all2_mono) (auto simp: bind_r_Inr_iff)
  then show "res_parameters r = map (\<lambda>(i, s). \<lparr>par_name = i, par_value = spec_default s\<rparr>)
       (sort_key fst (dict_of spec_name (def_parameters (eval_definition e))))"
    unfolding r by (auto simp: list_all2_conv_all_nth intro!: nth_equalityI)
qed

lemma commit_rule_silent:
  assumes eng: "engine_init live None None = Inr eng" and v: "verify h live eng b None = Inr rp"
    and d: "d \<in> set (rep_gates rp)" "dec_gate_id d = ''commit''" "dec_passed d"
    and e: "e \<in> set electrical_rules \<union> set geometric_rules \<union> set algorithm_rules"
      "severity_rank Sev_ERROR \<le> severity_rank (def_default_severity (eval_definition e))"
  shows "eval_evaluate e (board_normalized b) (default_context e) = Inr []"
proof (rule commit_gate_lemma [OF v d])
  fix p np overrides
  assume p: "(case None of None \<Rightarrow> strict_policy | Some q \<Rightarrow> Inr q) = Inr p" "policy_normalized p = Inr np"
      "validate_policy (map eval_definition (eng_evaluators eng)) np = Inr overrides"
    and all: "\<And>e. e \<in> set (eng_evaluators eng) \<Longrightarrow> \<exists>r x ds. resolve_rule e (map_of overrides (def_rule_id (eval_definition e))) = Inr r
       \<and> x \<in> set (rep_executions rp) \<and> exec_rule_id x = def_rule_id (eval_definition e) \<and> exec_enabled x
       \<and> exec_blocker_ids x = [] \<and> exec_severity x = res_severity r \<and> exec_parameters x = res_parameters r
       \<and> eval_evaluate e (board_normalized b) \<lparr>ctx_severity = res_severity r, ctx_parameters = res_parameters r,
            ctx_geometry = eng_geometry eng\<rparr> = Inr ds
       \<and> (ds = [] \<or> severity_rank (res_severity r) < severity_rank Sev_ERROR)"
  have "overrides = []" using p by (auto simp: strict_policy_value strict_policy_normal strict_policy_valid)
  then obtain r ds where r: "resolve_rule e None = Inr r" and ev: "eval_evaluate e (board_normalized b)
      \<lparr>ctx_severity = res_severity r, ctx_parameters = res_parameters r, ctx_geometry = eng_geometry eng\<rparr> = Inr ds"
    and ds: "ds = [] \<or> severity_rank (res_severity r) < severity_rank Sev_ERROR"
    using all [of e] e(1) engine_init_default(1) [OF eng] by auto
  have "ds = []" using ds e(2) resolve_default(1) [OF r] by auto
  then show ?thesis
    using ev unfolding resolve_default [OF r] engine_init_default(2) [OF eng] default_context_def by simp
qed

section \<open>Sound boards\<close>

lemma default_integer:
  "def_parameters (eval_definition e) = [integer_spec i v m] \<Longrightarrow> ctx_integer (default_context e) i = Inr v"
  by (simp add: default_context_def ctx_integer_def ctx_parameter_def dict_of_def integer_spec_def)

lemma set_pairs_subset: "set (pairs xs) \<subseteq> set xs \<times> set xs"
  by (induction xs) auto

lemma clearance_silent:
  assumes "eval_evaluate minimum_copper_clearance_rule b (default_context minimum_copper_clearance_rule) = Inr []"
    and "(f, s) \<in> set (pairs (copper_primitives b))" "prim_net_id f \<noteq> prim_net_id s" "shared_layers f s \<noteq> []"
  shows "\<not> closer_than 150000 f s"
proof -
  have c: "ctx_integer (default_context minimum_copper_clearance_rule) ''minimum_clearance_nm'' = Inr 150000"
    by (rule default_integer [of _ _ _ 0]) (simp add: minimum_copper_clearance_rule_def)
  have "concat_r (copper_pair_findings 150000) (pairs (copper_primitives b)) = Inr []"
    using assms(1) c by (auto simp: minimum_copper_clearance_rule_def minimum_copper_clearance_def Let_def bind_r_Inr_iff)
  then have none: "copper_pair_findings 150000 (f, s) = Inr []" using assms(2) by (simp add: concat_r_Nil)
  have "f \<in> set (copper_primitives b)" "s \<in> set (copper_primitives b)"
    using assms(2) set_pairs_subset by blast+
  then show ?thesis
    using copper_pair_findings_good [of f s 150000] copper_primitives_good none assms(3,4) by auto
qed

lemma track_width_silent:
  assumes "eval_evaluate minimum_track_width_rule b (default_context minimum_track_width_rule) = Inr []" "t \<in> set (board_tracks b)"
  shows "150000 \<le> track_width_nm t"
proof -
  have "ctx_integer (default_context minimum_track_width_rule) ''minimum_width_nm'' = Inr 150000"
    by (rule default_integer [of _ _ _ 1]) (simp add: minimum_track_width_rule_def)
  then show ?thesis using assms by (auto simp: minimum_track_width_rule_def minimum_track_width_def filter_empty_conv)
qed

lemma outline_silent:
  "eval_evaluate outline_validity_rule b (default_context outline_validity_rule) = Inr [] \<Longrightarrow>
   outline_defects segments_intersect (board_outline b) = []"
  by (simp add: outline_validity_rule_def default_context_def exact_geometry_kernel_def)

lemma connectivity_silent:
  assumes "eval_evaluate routing_connectivity_rule b c = Inr []" "n \<in> set (board_nets b)"
  shows "if net_primitives b n = [] then net_connections n = [] else one_copper_piece (net_primitives b n)"
proof -
  have "net_connectivity_findings b n = Inr []"
    using assms by (simp add: routing_connectivity_rule_def routing_connectivity_def concat_r_Nil)
  then show ?thesis using net_connectivity_none [of b n]
    by (auto simp: one_copper_piece_def net_connectivity_findings_def split: if_splits)
qed

lemma connection_findings_Nil:
  "connection_findings b n seen cs = [] \<Longrightarrow>
   (\<forall>c \<in> set cs. component_pin_index b (conn_key c) \<noteq> None \<and> conn_key c \<notin> set seen) \<and> distinct (map conn_key cs)"
proof (induction cs arbitrary: seen)
  case (Cons c cs)
  then have "component_pin_index b (conn_key c) \<noteq> None" "conn_key c \<notin> set seen"
    "connection_findings b n (conn_key c # seen) cs = []"
    by (auto simp: Let_def split: if_splits)
  then show ?case using Cons.IH [of "conn_key c # seen"] by auto
qed simp

lemma reference_silent:
  assumes "eval_evaluate graph_reference_integrity_rule b c = Inr []"
  shows "distinct (map comp_id (board_components b))" "distinct (map comp_reference (board_components b))"
    and "distinct (map net_id (board_nets b))" "distinct (map track_id (board_tracks b))"
    and "n \<in> set (board_nets b) \<Longrightarrow> k \<in> set (net_connections n) \<Longrightarrow> \<exists>p. component_pin_index b (conn_key k) = Some p"
    and "n \<in> set (board_nets b) \<Longrightarrow> n' \<in> set (board_nets b) \<Longrightarrow> k \<in> set (net_connections n) \<Longrightarrow> k' \<in> set (net_connections n')
      \<Longrightarrow> conn_key k = conn_key k' \<Longrightarrow> net_id n = net_id n'"
proof -
  have e: "concat (map duplicate_findings
       [(''component'', map comp_id (board_components b)), (''reference'', map comp_reference (board_components b)),
        (''net'', map net_id (board_nets b)), (''track'', map track_id (board_tracks b)),
        (''via'', map via_id (board_vias b)), (''zone'', map zone_id (board_zones b))]) = []"
    "\<forall>n \<in> set (board_nets b). connection_findings b n [] (net_connections n) = []" "multiple_net_findings b = []"
    using assms by (simp_all add: graph_reference_integrity_rule_def graph_reference_integrity_def)
  then show "distinct (map comp_id (board_components b))" "distinct (map comp_reference (board_components b))"
    "distinct (map net_id (board_nets b))" "distinct (map track_id (board_tracks b))"
    by (simp_all add: duplicate_findings_def duplicates_Nil_iff)
  show "\<exists>p. component_pin_index b (conn_key k) = Some p" if "n \<in> set (board_nets b)" "k \<in> set (net_connections n)"
    using connection_findings_Nil e(2) that by blast
  show "net_id n = net_id n'" if n: "n \<in> set (board_nets b)" "n' \<in> set (board_nets b)"
    "k \<in> set (net_connections n)" "k' \<in> set (net_connections n')" and key: "conn_key k = conn_key k'"
  proof -
    let ?ids = "sorted_set (map snd (filter (\<lambda>(q, _). q = conn_key k) (all_connections b)))"
    have mem: "(conn_key q, net_id m) \<in> set (all_connections b)" if "m \<in> set (board_nets b)" "q \<in> set (net_connections m)" for q m
      using that unfolding all_connections_def by auto
    have all: "(conn_key k, net_id n) \<in> set (all_connections b)" "(conn_key k, net_id n') \<in> set (all_connections b)"
      using mem [OF n(1,3)] mem [OF n(2,4)] key by simp_all
    then have "conn_key k \<in> set (sorted_set (map fst (all_connections b)))" by force
    then have "\<not> length ?ids > 1"
      using e(3) by (auto simp: multiple_net_findings_def Let_def split: if_splits)
    then have "card (set ?ids) \<le> 1" using distinct_card [OF sorted_set_sorted(2)] by (metis not_less)
    moreover have "net_id n \<in> set ?ids" "net_id n' \<in> set ?ids" using all by force+
    ultimately show ?thesis by (metis One_nat_def card_le_Suc0_iff_eq finite_set)
  qed
qed

definition sound_board :: "board_graph \<Rightarrow> bool" where
  "sound_board b \<longleftrightarrow>
     outline_defects segments_intersect (board_outline b) = []
     \<and> distinct (map comp_id (board_components b)) \<and> distinct (map comp_reference (board_components b))
     \<and> distinct (map net_id (board_nets b)) \<and> distinct (map track_id (board_tracks b))
     \<and> (\<forall>n \<in> set (board_nets b). \<forall>k \<in> set (net_connections n). \<exists>p. component_pin_index b (conn_key k) = Some p)
     \<and> (\<forall>n \<in> set (board_nets b). \<forall>n' \<in> set (board_nets b). \<forall>k \<in> set (net_connections n). \<forall>k' \<in> set (net_connections n').
          conn_key k = conn_key k' \<longrightarrow> n = n')
     \<and> (\<forall>t \<in> set (board_tracks b). 150000 \<le> track_width_nm t)
     \<and> (\<forall>(f, s) \<in> set (pairs (copper_primitives b)).
          prim_net_id f \<noteq> prim_net_id s \<and> shared_layers f s \<noteq> [] \<longrightarrow> \<not> closer_than 150000 f s)
     \<and> (\<forall>n \<in> set (board_nets b). if net_primitives b n = [] then net_connections n = []
          else one_copper_piece (net_primitives b n))"

text \<open>
  C19: the commit gate of the default engine certifies the board. If the engine built with the
  default rules and kernel reports under the default policy that the commit gate passed, then the
  normalized board has a simple outline of positive area, unique identifiers, no unresolved
  connection, no pin on two nets, no track narrower than 150000 nm, no two copper shapes of
  different nets closer than 150000 nm on a shared layer, and every net that has copper is one
  connected piece with a pad in it.
\<close>

theorem default_commit_certifies_board:
  assumes "engine_init live None None = Inr eng" "verify h live eng b None = Inr rp"
    and "d \<in> set (rep_gates rp)" "dec_gate_id d = ''commit''" "dec_passed d"
  shows "sound_board (board_normalized b)"
proof -
  let ?b = "board_normalized b"
  note silent = commit_rule_silent [OF assms]
  have ref: "eval_evaluate graph_reference_integrity_rule ?b (default_context graph_reference_integrity_rule) = Inr []"
    by (rule silent) (simp_all add: electrical_rules_def graph_reference_integrity_rule_def graph_reference_integrity_definition_def severity_rank.simps)
  note ref = reference_silent [OF ref]
  have o: "outline_defects segments_intersect (board_outline ?b) = []"
    by (rule outline_silent, rule silent) (simp_all add: geometric_rules_def outline_validity_rule_def severity_rank.simps)
  have w: "eval_evaluate minimum_track_width_rule ?b (default_context minimum_track_width_rule) = Inr []"
    by (rule silent) (simp_all add: geometric_rules_def minimum_track_width_rule_def severity_rank.simps)
  have c: "eval_evaluate minimum_copper_clearance_rule ?b (default_context minimum_copper_clearance_rule) = Inr []"
    by (rule silent) (simp_all add: geometric_rules_def minimum_copper_clearance_rule_def severity_rank.simps)
  have r: "eval_evaluate routing_connectivity_rule ?b (default_context routing_connectivity_rule) = Inr []"
    by (rule silent) (simp_all add: algorithm_rules_def routing_connectivity_rule_def severity_rank.simps)
  have one: "n = n'" if "n \<in> set (board_nets ?b)" "n' \<in> set (board_nets ?b)" "k \<in> set (net_connections n)"
    "k' \<in> set (net_connections n')" "conn_key k = conn_key k'" for n n' k k'
    using ref(6) [OF that] ref(3) that(1,2) by (metis distinct_map inj_onD)
  show ?thesis
    unfolding sound_board_def
    using o ref(1-5) one track_width_silent [OF w] clearance_silent [OF c] connectivity_silent [OF r] by (intro conjI ballI) auto
qed

theorem default_commit_certifies_board_witness:
  "\<exists>rp. verify sha256 sample_live default_engine bare_board None = Inr rp \<and> sound_board (board_normalized bare_board)"
proof -
  obtain rp d where v: "verify sha256 sample_live default_engine bare_board None = Inr rp"
    and d: "d \<in> set (rep_gates rp)" "dec_gate_id d = ''commit''" "dec_passed d"
    using bare_commit_passes [of sha256] by blast
  from default_commit_certifies_board [OF default_engine_built v d] v show ?thesis by blast
qed

end
