(* ===== verification/Rotations.thy ===== *)
theory Rotations
  imports Board_Model "HOL-Library.Multiset"
begin

text \<open>
  Two facts both models of a board rest on: sorting by a key that tells the elements apart depends on the
  elements alone, and the rotations of a ring, forwards and backwards, are the same set wherever the ring
  starts.
\<close>

section \<open>Sorting\<close>

lemma distinct_filter_eq_single: "distinct zs \<Longrightarrow> a \<in> set zs \<Longrightarrow> filter (\<lambda>x. x = a) zs = [a]"
  by (induction zs) (auto simp: filter_empty_conv)

lemma sort_key_perm_unique:
  assumes "mset xs = mset ys" "distinct (map k xs)"
  shows "sort_key k xs = sort_key k ys"
proof (rule properties_for_sort_key)
  show "mset (sort_key k ys) = mset xs" using assms(1) by simp
  show "sorted (map k (sort_key k ys))" by simp
  have d: "distinct xs" "inj_on k (set xs)" using assms(2) by (auto simp: distinct_map)
  have sy: "set (sort_key k ys) = set xs" "distinct (sort_key k ys)"
    using assms(1) d(1) by (metis mset_eq_setD set_sort, metis distinct_sort mset_eq_imp_distinct_iff)
  fix a assume "a \<in> set (sort_key k ys)"
  then have a: "a \<in> set xs" using sy(1) by simp
  have one: "filter (\<lambda>x. k a = k x) zs = [a]" if z: "set zs = set xs" "distinct zs" for zs
  proof -
    have "filter (\<lambda>x. k a = k x) zs = filter (\<lambda>x. x = a) zs"
      using d(2) a z(1) by (intro filter_cong) (auto dest: inj_onD)
    also have "\<dots> = [a]" using z a by (metis distinct_filter_eq_single)
    finally show ?thesis .
  qed
  show "filter (\<lambda>x. k a = k x) (sort_key k ys) = filter (\<lambda>x. k a = k x) xs"
    using one [OF sy] one [OF refl d(1)] by simp
qed

lemma sort_key_map_perm:
  assumes "mset xs = mset ys" "distinct (map k xs)" "\<And>x. k (f x) = k x"
  shows "sort_key k (map f xs) = sort_key k (map f ys)"
  by (rule sort_key_perm_unique) (use assms in \<open>simp_all add: comp_def\<close>)

section \<open>Rotations\<close>

lemma set_rotations: "set (rotations vs) = {rotate i vs |i. vs \<noteq> []}"
proof -
  have "drop i vs @ take i vs = rotate i vs" if "i < length vs" for i using that by (simp add: rotate_drop_take)
  then have "set (rotations vs) = {rotate i vs |i. i < length vs}" by (fastforce simp: rotations_def)
  also have "\<dots> = {rotate i vs |i. vs \<noteq> []}"
  proof (intro equalityI subsetI)
    fix ws assume "ws \<in> {rotate i vs |i. vs \<noteq> []}"
    then obtain i where "ws = rotate (i mod length vs) vs" "i mod length vs < length vs"
      using rotate_conv_mod by fastforce
    then show "ws \<in> {rotate i vs |i. i < length vs}" by blast
  qed auto
  finally show ?thesis .
qed

lemma rotate_back: "\<exists>j. rotate j (rotate k vs) = vs"
proof (cases "vs = []")
  case False
  then have "k mod length vs \<le> length vs" by (simp add: less_imp_le)
  then have "rotate (length vs - k mod length vs) (rotate (k mod length vs) vs) = vs" by (simp add: rotate_rotate)
  then show ?thesis by (metis rotate_conv_mod)
qed simp

lemma set_rotations_rotate: "set (rotations (rotate k vs)) = set (rotations vs)"
proof -
  obtain j where "rotate j (rotate k vs) = vs" using rotate_back by blast
  then have "\<exists>i'. rotate i vs = rotate i' (rotate k vs)" for i by (metis rotate_rotate)
  then show ?thesis by (auto simp: set_rotations rotate_rotate)
qed

lemma rev_rotate: "\<exists>j. rev (rotate k vs) = rotate j (rev vs)"
proof -
  have "rev (rotate k vs) = rotate (length vs - k mod length vs) (rev vs)"
    using rotate_rev [of k "rev vs"] by simp
  then show ?thesis by blast
qed

end
