(* ===== verification/Report_Order.thy ===== *)
theory Report_Order
  imports Board_Certification Rotations
begin

text \<open>
  Reports do not depend on presentation: the order in which a board lists its entities, the starting
  vertex and direction of its outline, and repeated layers change nothing in the report, its hashes
  included.
\<close>

section \<open>Outlines\<close>

definition turned :: "board_outline \<Rightarrow> board_outline \<Rightarrow> bool" where
  "turned vs ws \<longleftrightarrow> (\<exists>k. ws = rotate k vs \<or> ws = rotate k (rev vs))"

lemma outline_normalized_open:
  assumes "distinct vs"
  shows "outline_normalized vs = (if vs = [] then [] else min (Min (set (rotations vs))) (Min (set (rotations (rev vs)))))"
proof -
  have "\<not> (length vs > 1 \<and> hd vs = last vs)" using assms by (cases vs) auto
  then show ?thesis unfolding outline_normalized_def Let_def by (simp only: if_False)
qed

lemma outline_normalized_turned:
  assumes "distinct vs" "turned vs ws"
  shows "outline_normalized ws = outline_normalized vs"
proof -
  obtain k where k: "ws = rotate k vs \<or> ws = rotate k (rev vs)" using assms(2) by (auto simp: turned_def)
  have r: "set (rotations (rev (rotate k us))) = set (rotations (rev us))" for us :: board_outline
    using rev_rotate [of k us] set_rotations_rotate by metis
  have "{set (rotations ws), set (rotations (rev ws))} = {set (rotations vs), set (rotations (rev vs))}"
    using k r [of vs] r [of "rev vs"] by (auto simp: set_rotations_rotate)
  moreover have "distinct ws" "ws = [] \<longleftrightarrow> vs = []" using k assms(1) by auto
  ultimately show ?thesis
    by (auto simp: outline_normalized_open assms(1) doubleton_eq_iff min.commute)
qed

section \<open>Boards\<close>

definition distinct_ids :: "board_graph \<Rightarrow> bool" where
  "distinct_ids b \<longleftrightarrow> distinct (map comp_id (board_components b)) \<and> distinct (map net_id (board_nets b))
     \<and> distinct (map track_id (board_tracks b)) \<and> distinct (map via_id (board_vias b))
     \<and> distinct (map zone_id (board_zones b)) \<and> distinct (map hole_id (board_holes b))
     \<and> distinct (map ppad_id (board_pads b))"

definition reordered :: "board_graph \<Rightarrow> board_graph \<Rightarrow> bool" where
  "reordered b c \<longleftrightarrow> board_schema_version c = board_schema_version b \<and> board_design_id c = board_design_id b
     \<and> board_revision c = board_revision b \<and> set (board_layers c) = set (board_layers b)
     \<and> set (board_unsupported_features c) = set (board_unsupported_features b)
     \<and> turned (board_outline b) (board_outline c)
     \<and> mset (board_components b) = mset (board_components c) \<and> mset (board_nets b) = mset (board_nets c)
     \<and> mset (board_tracks b) = mset (board_tracks c) \<and> mset (board_vias b) = mset (board_vias c)
     \<and> mset (board_zones b) = mset (board_zones c) \<and> mset (board_holes b) = mset (board_holes c)
     \<and> mset (board_pads b) = mset (board_pads c)"

lemma normalized_ids [simp]:
  "comp_id (component_normalized c) = comp_id c" "net_id (net_normalized n) = net_id n"
  "track_id (track_normalized t) = track_id t" "via_id (via_normalized v) = via_id v"
  "zone_id (zone_normalized z) = zone_id z" "ppad_id (physical_pad_normalized q) = ppad_id q"
  by (simp_all add: component_normalized_def net_normalized_def track_normalized_def via_normalized_def
      zone_normalized_def physical_pad_normalized_def)

lemma board_normalized_reordered:
  assumes "reordered b c" "distinct_ids b" "distinct (board_outline b)"
  shows "board_normalized c = board_normalized b"
proof -
  note r = assms(1) [unfolded reordered_def] and d = assms(2) [unfolded distinct_ids_def]
  have s: "sorted_set (board_layers c) = sorted_set (board_layers b)"
    "sorted_set (board_unsupported_features c) = sorted_set (board_unsupported_features b)"
    using r by (auto intro: sorted_set_cong)
  have o: "outline_normalized (board_outline c) = outline_normalized (board_outline b)"
    using outline_normalized_turned [OF assms(3)] r by blast
  have lists: "sort_key comp_id (map component_normalized (board_components b)) = sort_key comp_id (map component_normalized (board_components c))"
    "sort_key net_id (map net_normalized (board_nets b)) = sort_key net_id (map net_normalized (board_nets c))"
    "sort_key track_id (map track_normalized (board_tracks b)) = sort_key track_id (map track_normalized (board_tracks c))"
    "sort_key via_id (map via_normalized (board_vias b)) = sort_key via_id (map via_normalized (board_vias c))"
    "sort_key zone_id (map zone_normalized (board_zones b)) = sort_key zone_id (map zone_normalized (board_zones c))"
    "sort_key ppad_id (map physical_pad_normalized (board_pads b)) = sort_key ppad_id (map physical_pad_normalized (board_pads c))"
    "sort_key hole_id (board_holes b) = sort_key hole_id (board_holes c)"
    using r d by (intro sort_key_map_perm sort_key_perm_unique; simp)+
  show ?thesis
    using s o lists r by (intro board_graph.equality) (simp_all add: board_normalized_def)
qed

lemma validate_reordered:
  assumes "reordered b c" "validate_board_graph h b = Inr ()"
  shows "validate_board_graph h c = Inr ()"
proof -
  have "set (board_zones c) = set (board_zones b)" "set (board_holes c) = set (board_holes b)"
    "set (board_pads c) = set (board_pads b)" "board_design_id c = board_design_id b" "board_revision c = board_revision b"
    using assms(1) by (auto simp: reordered_def dest: mset_eq_setD)
  then show ?thesis using assms(2)
    unfolding validate_board_graph_def raise_first_Inr_iff set_append set_concat set_map by simp
qed

text \<open>
  C31: reports are independent of presentation. Take a board that passes the input validation, whose entities of
  each kind have distinct identities and whose outline repeats no vertex. A board with the same entities in a
  different order, the outline traced from another vertex or in the other direction, and layers and
  unsupported features listed in another order or repeated, gets the same result of
  \<^verbatim>\<open>verify\<close>: the same findings, decisions, run identifier and hashes, or the same error.
\<close>

theorem report_independent_of_order:
  assumes "reordered b c" "distinct_ids b" "distinct (board_outline b)" "validate_board_graph h b = Inr ()"
  shows "verify h live eng c policy = verify h live eng b policy"
proof -
  have "board_schema_version c = board_schema_version b" using assms(1) by (simp add: reordered_def)
  then show ?thesis
    unfolding verify_def validate_reordered [OF assms(1,4)] assms(4) board_normalized_reordered [OF assms(1-3)] by simp
qed

theorem report_independent_of_order_witness:
  "verify sha256 sample_live default_engine (bare_board\<lparr>board_outline := rev (board_outline bare_board)\<rparr>) None
    = verify sha256 sample_live default_engine bare_board None"
proof (rule report_independent_of_order)
  show "reordered bare_board (bare_board\<lparr>board_outline := rev (board_outline bare_board)\<rparr>)"
    unfolding reordered_def turned_def by (auto intro!: exI [of _ 0])
  show "distinct_ids bare_board" "distinct (board_outline bare_board)"
    by (simp_all add: distinct_ids_def bare_board_def)
qed (rule bare_valid)

end
