(* ===== verification/Engine_Failures.thy ===== *)
theory Engine_Failures
  imports Report_Order
begin

text \<open>
  Runs that are refused: mandatory rules cannot be switched off, code that changes during a run is
  detected, and two families of boards for which the engine raises instead of reporting.
\<close>

section \<open>A rule of a successful run\<close>

lemma run_rules_identities:
  assumes "run_rules h live geo b kj k rjs fs = Inr (gs, xs)" "i < length rjs"
  shows "assert_identity h live (snd (rjs ! i)) (2 * (k + i) + 1)
    (Rule_subject (def_rule_id (resolved_definition (fst (rjs ! i))))) = Inr ()"
  using assms
proof (induction rjs arbitrary: k fs xs i)
  case (Cons rj rjs)
  obtain r ej where rj: "rj = (r, ej)" by fastforce
  obtain fs' x ys where run: "run_rule h live geo b kj k (r, ej) fs = Inr (fs', x)"
    and rest: "run_rules h live geo b kj (Suc k) rjs fs' = Inr (gs, ys)"
    using Cons.prems rj by (auto simp: bind_r_Inr_iff)
  show ?case
  proof (cases i)
    case 0
    then show ?thesis using run rj by (auto simp: run_rule_def Let_def bind_r_Inr_iff)
  next
    case (Suc j)
    then show ?thesis using Cons.IH [OF rest, of j] Cons.prems by simp
  qed
qed simp

lemma verify_identities:
  assumes "verify h live eng b policy = Inr rp"
  obtains kj rjs fs xs where
    "live_identity live 0 Kernel_subject = Inr kj"
    "map (res_evaluator \<circ> fst) rjs = eng_evaluators eng"
    "\<And>r ej. (r, ej) \<in> set rjs \<Longrightarrow> live_identity live 0 (Rule_subject (def_rule_id (resolved_definition r))) = Inr ej"
    "run_rules h live (eng_geometry eng) (board_normalized b) kj 0 rjs [] = Inr (fs, xs)"
    "final_identities h live kj rjs = Inr ()"
proof -
  obtain np overrides rules where
    rules: "map_r (\<lambda>e. resolve_rule e (map_of overrides (def_rule_id (eval_definition e)))) (eng_evaluators eng) = Inr rules"
    and run: "run_verification h live eng (board_normalized b) np rules = Inr rp"
    using assms by (auto simp: verify_def bind_r_Inr_iff split: if_splits)
  obtain kj rjs fs xs where k: "live_identity live 0 Kernel_subject = Inr kj"
    and rjs: "map_r (\<lambda>r. bind_r (live_identity live 0 (Rule_subject (def_rule_id (resolved_definition r))))
        (\<lambda>ej. Inr (r, ej))) rules = Inr rjs"
    and rr: "run_rules h live (eng_geometry eng) (board_normalized b) kj 0 rjs [] = Inr (fs, xs)"
    and fin: "final_identities h live kj rjs = Inr ()"
    using run by (auto simp: run_verification_def Let_def bind_r_Inr_iff)
  have 1: "list_all2 (\<lambda>r p. fst p = r \<and> live_identity live 0 (Rule_subject (def_rule_id (resolved_definition r))) = Inr (snd p)) rules rjs"
    using rjs unfolding map_r_Inr by (rule list_all2_mono) (auto simp: bind_r_Inr_iff)
  have 2: "list_all2 (\<lambda>e r. res_evaluator r = e) (eng_evaluators eng) rules"
    using rules unfolding map_r_Inr by (rule list_all2_mono) (rule resolve_rule_evaluator)
  have "map (res_evaluator \<circ> fst) rjs = eng_evaluators eng"
    using 1 2 by (auto simp: list_all2_conv_all_nth intro!: nth_equalityI)
  moreover have "live_identity live 0 (Rule_subject (def_rule_id (resolved_definition r))) = Inr ej" if "(r, ej) \<in> set rjs" for r ej
    using 1 that by (auto simp: list_all2_conv_all_nth in_set_conv_nth)
  ultimately show thesis using that k rr fin by blast
qed

text \<open>
  a report certifies one implementation. When a report is returned, the identity of the
  geometry kernel and of every registered rule that was read again after the last rule has run has
  the hash of the identity read before the first one.
\<close>

theorem report_identity_stable:
  assumes "verify h live eng b policy = Inr rp" and "e \<in> set (eng_evaluators eng)"
    and "s = Kernel_subject \<or> s = Rule_subject (def_rule_id (eval_definition e))"
  shows "\<exists>i j. live_identity live 0 s = Inr i \<and> live_identity live (2 * length (eng_evaluators eng) + 1) s = Inr j
    \<and> identity_hash h j = identity_hash h i"
proof (rule verify_identities [OF assms(1)])
  fix kj rjs fs xs
  assume k: "live_identity live 0 Kernel_subject = Inr kj" and evs: "map (res_evaluator \<circ> fst) rjs = eng_evaluators eng"
    and start: "\<And>r ej. (r, ej) \<in> set rjs \<Longrightarrow> live_identity live 0 (Rule_subject (def_rule_id (resolved_definition r))) = Inr ej"
    and fin: "final_identities h live kj rjs = Inr ()"
  have len: "length rjs = length (eng_evaluators eng)" using evs by (metis length_map)
  let ?t = "2 * length (eng_evaluators eng) + 1"
  have stable: "\<exists>j. live_identity live ?t s = Inr j \<and> identity_hash h j = identity_hash h i"
    if "assert_identity h live i ?t s = Inr ()" for i s
    using that by (auto simp: assert_identity_def bind_r_Inr_iff split: if_splits)
  obtain us where "assert_identity h live kj ?t Kernel_subject = Inr ()"
    and us: "map_r (\<lambda>(r, ej). assert_identity h live ej ?t (Rule_subject (def_rule_id (resolved_definition r)))) rjs = Inr us"
    using fin by (auto simp: final_identities_def Let_def bind_r_Inr_iff len)
  moreover obtain r ej where "(r, ej) \<in> set rjs" "res_evaluator r = e"
    using assms(2) unfolding evs [symmetric] by auto
  ultimately show ?thesis
    using assms(3) k start stable map_r_Inr_set(1) [OF us, of "(r, ej)"] by (auto simp: resolved_definition_def)
qed

theorem report_identity_stable_witness:
  "\<exists>i j. live_identity sample_live 0 Kernel_subject = Inr i
    \<and> live_identity sample_live (2 * length (eng_evaluators default_engine) + 1) Kernel_subject = Inr j
    \<and> identity_hash sha256 j = identity_hash sha256 i"
proof -
  obtain rp where v: "verify sha256 sample_live default_engine bare_board None = Inr rp"
    using bare_commit_passes [of sha256] by blast
  have "outline_validity_rule \<in> set (eng_evaluators default_engine)"
    by (simp add: default_engine_def set_default_evaluators geometric_rules_def)
  from report_identity_stable [OF v this disjI1 [OF refl]] show ?thesis .
qed

section \<open>Mandatory rules\<close>

lemma resolve_rule_mandatory:
  assumes "resolve_rule e ov = Inr r" "def_mandatory (eval_definition e)"
  shows "res_enabled r" "def_default_severity (eval_definition e) = Sev_FATAL \<Longrightarrow> res_severity r = Sev_FATAL"
  using assms by (auto simp: resolve_rule_def Let_def bind_r_Inr_iff simp del: raise_first.simps simp: raise_first_Inr_iff)

text \<open>
  no policy weakens a mandatory rule. Under every policy that yields a report, each mandatory
  rule is recorded as enabled, and one that is fatal by default is recorded as fatal.
\<close>

theorem mandatory_rules_enforced:
  assumes "verify h live eng b policy = Inr rp" "e \<in> set (eng_evaluators eng)" "def_mandatory (eval_definition e)"
  shows "\<exists>x \<in> set (rep_executions rp). exec_rule_id x = def_rule_id (eval_definition e) \<and> exec_enabled x
    \<and> (def_default_severity (eval_definition e) = Sev_FATAL \<longrightarrow> exec_severity x = Sev_FATAL)"
proof (rule verify_parts [OF assms(1)])
  fix p np overrides rules fs ih rh and rjs :: "(resolved_rule \<times> json) list"
  assume rules: "map_r (\<lambda>e. resolve_rule e (map_of overrides (def_rule_id (eval_definition e)))) (eng_evaluators eng) = Inr rules"
    and rjs: "map fst rjs = rules"
    and rec: "list_all2 (\<lambda>(r, ej) x. recorded h (eng_geometry eng) (board_normalized b) fs r x) rjs (rep_executions rp)"
  obtain r where r: "r \<in> set rules" "resolve_rule e (map_of overrides (def_rule_id (eval_definition e))) = Inr r"
    using map_r_Inr_set(1) [OF rules assms(2)] by blast
  then obtain ej where "(r, ej) \<in> set rjs" using rjs by auto
  then obtain x where "x \<in> set (rep_executions rp)" "recorded h (eng_geometry eng) (board_normalized b) fs r x"
    using rec by (auto simp: list_all2_conv_all_nth in_set_conv_nth) (metis case_prod_conv)
  then show ?thesis
    using resolve_rule_mandatory [OF r(2) assms(3)] resolve_rule_evaluator [OF r(2)]
    by (intro bexI [of _ x]) (auto simp: recorded_def resolved_definition_def)
qed

theorem mandatory_rules_enforced_witness:
  "\<exists>rp. verify sha256 sample_live default_engine bare_board None = Inr rp
    \<and> (\<exists>x \<in> set (rep_executions rp). exec_rule_id x = ''GEO.OUTLINE.VALID'' \<and> exec_enabled x \<and> exec_severity x = Sev_FATAL)"
proof -
  obtain rp where v: "verify sha256 sample_live default_engine bare_board None = Inr rp"
    using bare_commit_passes [of sha256] by blast
  have e: "outline_validity_rule \<in> set (eng_evaluators default_engine)"
    by (simp add: default_engine_def set_default_evaluators geometric_rules_def)
  have m: "def_mandatory (eval_definition outline_validity_rule)"
    "def_rule_id (eval_definition outline_validity_rule) = ''GEO.OUTLINE.VALID''"
    "def_default_severity (eval_definition outline_validity_rule) = Sev_FATAL"
    by (simp_all add: outline_validity_rule_def)
  show ?thesis using mandatory_rules_enforced [OF v e m(1)] v unfolding m(2,3) by blast
qed

section \<open>Boards without a report\<close>

lemma default_rule_ran:
  assumes eng: "engine_init live None None = Inr eng" and v: "verify h live eng b None = Inr rp"
    and e: "e \<in> set electrical_rules \<union> set geometric_rules \<union> set algorithm_rules"
    and free: "def_rule_id (eval_definition e) \<in> set shape_dependent_rule_ids \<Longrightarrow> geometry_blockers (board_normalized b) = []"
  obtains r fs ds own where "eval_evaluate e (board_normalized b) (default_context e) = Inr ds"
    "list_all2 (\<lambda>d f. materialize_finding h r d = Inr f) ds own" "\<forall>f \<in> set own. map_of fs (find_id f) = Some f"
proof (rule verify_parts [OF v])
  fix p np overrides rules ih rh fs and rjs :: "(resolved_rule \<times> json) list"
  assume p: "(case None of None \<Rightarrow> strict_policy | Some q \<Rightarrow> Inr q) = Inr p" "policy_normalized p = Inr np"
      "validate_policy (map eval_definition (eng_evaluators eng)) np = Inr overrides"
    and rules: "map_r (\<lambda>e. resolve_rule e (map_of overrides (def_rule_id (eval_definition e)))) (eng_evaluators eng) = Inr rules"
    and rjs: "map fst rjs = rules"
    and rec: "list_all2 (\<lambda>(r, ej) x. recorded h (eng_geometry eng) (board_normalized b) fs r x) rjs (rep_executions rp)"
  have "overrides = []" using p by (auto simp: strict_policy_value strict_policy_normal strict_policy_valid)
  then obtain r where r: "r \<in> set rules" "resolve_rule e None = Inr r"
    using map_r_Inr_set(1) [OF rules, of e] e engine_init_default(1) [OF eng] by auto
  then obtain ej where "(r, ej) \<in> set rjs" using rjs by auto
  then obtain x where x: "recorded h (eng_geometry eng) (board_normalized b) fs r x"
    using rec by (auto simp: list_all2_conv_all_nth in_set_conv_nth)
  have ev: "res_evaluator r = e" by (rule resolve_rule_evaluator [OF r(2)])
  have "res_enabled r" using r(2) by (auto simp: resolve_rule_def Let_def bind_r_Inr_iff)
  moreover have "rule_blockers (board_normalized b) r = []"
    using free by (simp add: rule_blockers_def resolved_definition_def ev)
  ultimately have "ran h (eng_geometry eng) (board_normalized b) fs r" using x by (simp add: recorded_def)
  then obtain ds own where "eval_evaluate e (board_normalized b) \<lparr>ctx_severity = res_severity r,
      ctx_parameters = res_parameters r, ctx_geometry = eng_geometry eng\<rparr> = Inr ds"
    "list_all2 (\<lambda>d f. materialize_finding h r d = Inr f) ds own" "\<forall>f \<in> set own. map_of fs (find_id f) = Some f"
    unfolding ran_def ev by blast
  then show thesis
    using that unfolding resolve_default [OF r(2)] engine_init_default(2) [OF eng] default_context_def by blast
qed

text \<open>
  a turned round hole stops verification. The blockers of the engine ask for a slot (unequal
  drill axes) before they report a drill rotation that is no multiple of 90 degrees, while the
  clearance rule raises on the rotation of any unplated hole. So a board that has an unplated hole
  with such a rotation, and no blocker, gets no report from the default engine.
\<close>

theorem turned_hole_has_no_report:
  assumes "engine_init live None None = Inr eng"
    and "x \<in> set (board_holes b)" "\<not> hole_plated x" "0 < hole_diameter_nm x" "hole_drill_rotation_udeg x mod 90000000 \<noteq> 0"
    and "geometry_blockers (board_normalized b) = []"
  shows "\<nexists>rp. verify h live eng b None = Inr rp"
proof (intro notI, elim exE)
  let ?b = "board_normalized b"
  fix rp assume v: "verify h live eng b None = Inr rp"
  have "minimum_copper_clearance_rule \<in> set electrical_rules \<union> set geometric_rules \<union> set algorithm_rules"
    by (simp add: geometric_rules_def)
  then have "\<exists>ds. eval_evaluate minimum_copper_clearance_rule ?b (default_context minimum_copper_clearance_rule) = Inr ds"
    by (rule default_rule_ran [OF assms(1) v _ assms(6)]) blast
  then obtain ds where ds: "minimum_copper_clearance ?b (default_context minimum_copper_clearance_rule) = Inr ds"
    by (auto simp: minimum_copper_clearance_rule_def)
  obtain c ys where "concat_r (copper_hole_findings c ?b (copper_primitives ?b)) (board_holes ?b) = Inr ys"
    using ds by (auto simp: minimum_copper_clearance_def Let_def bind_r_Inr_iff)
  moreover have "x \<in> set (board_holes ?b)" using assms(2) by (simp add: board_normalized_def)
  ultimately obtain zs where "copper_hole_findings c ?b (copper_primitives ?b) x = Inr zs"
    unfolding concat_r_def bind_r_Inr_iff by (metis map_r_Inr_set(1))
  then show False using assms(3-5) by (simp add: copper_hole_findings_def hole_primitive_def)
qed

definition turned_hole :: hole where
  "turned_hole = \<lparr>hole_id = ''H1'', hole_component_id = ''U1'', hole_center = \<lparr>px = 300000, py = 300000\<rparr>,
     hole_diameter_nm = 100000, hole_plated = False, hole_pad_id = None, hole_drill_x_nm = 0, hole_drill_y_nm = 0,
     hole_drill_rotation_udeg = 45000000\<rparr>"

theorem turned_hole_has_no_report_witness:
  "\<nexists>rp. verify sha256 sample_live default_engine (bare_board\<lparr>board_holes := [turned_hole]\<rparr>) None = Inr rp"
proof (rule turned_hole_has_no_report [OF default_engine_built, of turned_hole])
  show "geometry_blockers (board_normalized (bare_board\<lparr>board_holes := [turned_hole]\<rparr>)) = []"
    by (simp add: geometry_blockers_def board_normalized_def bare_board_def turned_hole_def hole_blockers_def issues_of_def
        duplicates_def shared_land_groups_def)
qed (simp_all add: turned_hole_def)

section \<open>Colliding findings\<close>

lemma connection_findings_append:
  "connection_findings b n seen (xs @ ys) =
     connection_findings b n seen xs @ connection_findings b n (rev (map conn_key xs) @ seen) ys"
  by (induction xs arbitrary: seen) (simp_all add: Let_def)

lemma same_identity:
  assumes "materialize_finding h r d = Inr f" "materialize_finding h r d' = Inr f'"
    and "draft_entities d = draft_entities d'" "draft_evidence d = draft_evidence d'"
  shows "find_id f = find_id f'" "find_message f = draft_message d" "find_message f' = draft_message d'"
  using assms by (auto simp: materialize_finding_def draft_normalized_def Let_def bind_r_Inr_iff split: if_splits)

lemma colliding_drafts:
  assumes "list_all2 (\<lambda>d f. materialize_finding h r d = Inr f) ds own" "\<forall>f \<in> set own. map_of fs (find_id f) = Some f"
    and "d \<in> set ds" "d' \<in> set ds" "draft_entities d = draft_entities d'" "draft_evidence d = draft_evidence d'"
  shows "draft_message d = draft_message d'"
proof -
  have mat: "\<exists>f \<in> set own. materialize_finding h r d = Inr f" if "d \<in> set ds" for d
    using assms(1) that by (auto simp: list_all2_conv_all_nth in_set_conv_nth)
  obtain f f' where f: "f \<in> set own" "materialize_finding h r d = Inr f" "f' \<in> set own" "materialize_finding h r d' = Inr f'"
    using mat [OF assms(3)] mat [OF assms(4)] by blast
  note same = same_identity [OF f(2,4) assms(5,6)]
  have "Some f = Some f'" using assms(2) f(1,3) same(1) by metis
  then show ?thesis using same(2,3) by simp
qed

text \<open>
  a repeated connection to a missing pin stops verification. The reference rule reports the
  missing pin and the repetition with the same entities and evidence and different messages; the
  identity of a finding does not cover its message, so the second draft collides with the first and
  the engine raises: the board gets no report instead of two findings.
\<close>

theorem repeated_missing_pin_has_no_report:
  assumes "engine_init live None None = Inr eng"
    and "n \<in> set (board_nets (board_normalized b))" "net_connections n = xs @ c # ys @ c' # zs" "conn_key c' = conn_key c"
    and "conn_component_id c \<in> set (map comp_id (board_components (board_normalized b)))"
    and "component_pin_index (board_normalized b) (conn_key c) = None"
  shows "\<nexists>rp. verify h live eng b None = Inr rp"
proof (intro notI, elim exE)
  let ?b = "board_normalized b" and ?ref = "colon (conn_component_id c) (conn_pin_number c)"
  let ?d = "\<lambda>m. draft m [ent ''net'' (net_id n), ent ''pin'' ?ref] [ev_str ''connection'' ?ref]"
  let ?missing = "?d (''Net '' @ net_name n @ '' references missing pin '' @ ?ref)"
  let ?repeats = "?d (''Net '' @ net_name n @ '' repeats connection '' @ ?ref)"
  fix rp assume v: "verify h live eng b None = Inr rp"
  have c': "conn_component_id c' = conn_component_id c" "conn_pin_number c' = conn_pin_number c"
    using assms(4) by (auto simp: conn_key_def)
  have mem: "?missing \<in> set (connection_findings ?b n [] (net_connections n))"
    "?repeats \<in> set (connection_findings ?b n [] (net_connections n))"
    using assms(4-6) c' unfolding assms(3) by (simp_all add: connection_findings_append Let_def)
  have "graph_reference_integrity_rule \<in> set electrical_rules \<union> set geometric_rules \<union> set algorithm_rules"
    by (simp add: electrical_rules_def)
  then show False
  proof (rule default_rule_ran [OF assms(1) v])
    show "geometry_blockers ?b = []" if "def_rule_id (eval_definition graph_reference_integrity_rule) \<in> set shape_dependent_rule_ids"
      using that by (simp add: graph_reference_integrity_rule_def graph_reference_integrity_definition_def shape_dependent_rule_ids_def)
    fix r fs ds own
    assume ds: "eval_evaluate graph_reference_integrity_rule ?b (default_context graph_reference_integrity_rule) = Inr ds"
      and own: "list_all2 (\<lambda>d f. materialize_finding h r d = Inr f) ds own" "\<forall>f \<in> set own. map_of fs (find_id f) = Some f"
    have "set (connection_findings ?b n [] (net_connections n)) \<subseteq> set ds"
      using ds assms(2) by (auto simp: graph_reference_integrity_rule_def graph_reference_integrity_def)
    then show False using colliding_drafts [OF own, of ?missing ?repeats] mem by (auto simp: draft_def)
  qed
qed

definition double_net :: net where
  "double_net = \<lparr>net_id = ''N1'', net_name = ''N1'', net_connections =
     [\<lparr>conn_component_id = ''U1'', conn_pin_number = ''9''\<rparr>, \<lparr>conn_component_id = ''U1'', conn_pin_number = ''9''\<rparr>],
     net_external_source = False\<rparr>"

definition pinless_component :: component where
  "pinless_component = \<lparr>comp_id = ''U1'', comp_reference = ''U1'', comp_value = [], comp_footprint = ''F'',
     comp_manufacturer_part_number = [], comp_datasheet_sha256 = [], comp_pin_map_sha256 = [], comp_pins = []\<rparr>"

theorem repeated_missing_pin_has_no_report_witness:
  "\<nexists>rp. verify sha256 sample_live default_engine
     (bare_board\<lparr>board_components := [pinless_component], board_nets := [double_net]\<rparr>) None = Inr rp"
proof (rule repeated_missing_pin_has_no_report [OF default_engine_built, of double_net _ "[]" _ "[]" _ "[]"])
  show "double_net \<in> set (board_nets (board_normalized (bare_board\<lparr>board_components := [pinless_component], board_nets := [double_net]\<rparr>)))"
    by (simp add: board_normalized_def net_normalized_def double_net_def conn_key_def)
  show "net_connections double_net = [] @ \<lparr>conn_component_id = ''U1'', conn_pin_number = ''9''\<rparr>
      # [] @ \<lparr>conn_component_id = ''U1'', conn_pin_number = ''9''\<rparr> # []"
    by (simp add: double_net_def)
qed (simp_all add: board_normalized_def component_normalized_def pinless_component_def component_pin_index_def pin_entries_def conn_key_def)

end
