(* ===== verification/Design_Graph.thy ===== *)
theory Design_Graph
  imports Board_Model Py_Time
begin

text \<open>
  \<^verbatim>\<open>backend/design_kernel/model.py\<close>: the entities of the canonical design graph, the
  validation that runs on every construction and on every \<^verbatim>\<open>dataclasses.replace\<close>, the
  normalized form, the invariants of a graph and its hash. Records have a prefix \<open>d\<close> where the
  verification model has a class of the same name. A fill state and its evidence are the types of
  \<open>Board_Model\<close>, whose source has the same fields.
\<close>

section \<open>Scalars\<close>

definition violations :: "(bool \<times> string) list \<Rightarrow> unit result" where
  "violations cs = raise_first (map (\<lambda>(bad, s). (bad, InvariantViolation s)) cs)"

lemma violations_Inr_iff [simp]: "violations cs = Inr u \<longleftrightarrow> (\<forall>(bad, s) \<in> set cs. \<not> bad)"
  by (auto simp: violations_def raise_first_Inr_iff)

text \<open>
  On code points below 256 the categories \<^verbatim>\<open>C*\<close> are the control characters and the soft
  hyphen, and every string is in normal form NFC.
\<close>

definition is_control :: "char \<Rightarrow> bool" where
  "is_control c = (let n = (of_char c :: nat) in n < 32 \<or> (127 \<le> n \<and> n \<le> 159) \<or> n = 173)"

definition text_ok :: "string \<Rightarrow> bool" where
  "text_ok s \<longleftrightarrow> strip s \<noteq> [] \<and> \<not> (\<exists>c \<in> set s. is_control c)"

definition id_ok :: "string \<Rightarrow> bool" where
  "id_ok s \<longleftrightarrow> s \<noteq> [] \<and> s = strip s \<and> \<not> (\<exists>c \<in> set s. char_isspace c) \<and> \<not> (\<exists>c \<in> set s. is_control c)"

definition opt_ok :: "('a \<Rightarrow> bool) \<Rightarrow> 'a option \<Rightarrow> bool" where
  "opt_ok P v = (case v of None \<Rightarrow> True | Some x \<Rightarrow> P x)"

definition int64_ok :: "int \<Rightarrow> bool" where
  "int64_ok i \<longleftrightarrow> - (2 ^ 63) \<le> i \<and> i \<le> 2 ^ 63 - 1"

definition design_hash :: "(byte list \<Rightarrow> byte list) \<Rightarrow> string \<Rightarrow> json \<Rightarrow> string" where
  "design_hash h domain j = hexdigest (h (utf8_bytes domain @ [0] @ utf8_bytes (canonical_json j)))"

definition design_point :: "int \<Rightarrow> int \<Rightarrow> point_nm result" where
  "design_point x y = bind_r (violations [(\<not> int64_ok x, ''x coordinate''), (\<not> int64_ok y, ''y coordinate'')])
     (\<lambda>_. Inr \<lparr>px = x, py = y\<rparr>)"

section \<open>Polygons\<close>

definition open_ring :: "point_nm list \<Rightarrow> point_nm list" where
  "open_ring vs = (if length vs > 1 \<and> hd vs = last vs then butlast vs else vs)"

definition normalized_ring :: "point_nm list \<Rightarrow> point_nm list" where
  "normalized_ring vs =
     (let r = open_ring vs in if r = [] then [] else Min (set (rotations r @ rotations (rev r))))"

definition design_cross :: "point_nm \<Rightarrow> point_nm \<Rightarrow> point_nm \<Rightarrow> int" where
  "design_cross a b c = (px b - px a) * (py c - py a) - (py b - py a) * (px c - px a)"

definition point_on_segment :: "point_nm \<Rightarrow> point_nm \<Rightarrow> point_nm \<Rightarrow> bool" where
  "point_on_segment p s e \<longleftrightarrow> design_cross s e p = 0
     \<and> min (px s) (px e) \<le> px p \<and> px p \<le> max (px s) (px e)
     \<and> min (py s) (py e) \<le> py p \<and> py p \<le> max (py s) (py e)"

definition design_segments_intersect :: "point_nm \<Rightarrow> point_nm \<Rightarrow> point_nm \<Rightarrow> point_nm \<Rightarrow> bool" where
  "design_segments_intersect a b c d =
     (let ab_c = design_cross a b c; ab_d = design_cross a b d; cd_a = design_cross c d a; cd_b = design_cross c d b in
      if ab_c = 0 \<and> point_on_segment c a b then True
      else if ab_d = 0 \<and> point_on_segment d a b then True
      else if cd_a = 0 \<and> point_on_segment a c d then True
      else if cd_b = 0 \<and> point_on_segment b c d then True
      else (ab_c < 0 \<and> 0 < ab_d \<or> ab_d < 0 \<and> 0 < ab_c) \<and> (cd_a < 0 \<and> 0 < cd_b \<or> cd_b < 0 \<and> 0 < cd_a))"

definition collinear_overlap_has_length :: "point_nm \<Rightarrow> point_nm \<Rightarrow> point_nm \<Rightarrow> point_nm \<Rightarrow> bool" where
  "collinear_overlap_has_length a b c d =
     (if design_cross a b c \<noteq> 0 \<or> design_cross a b d \<noteq> 0 then False
      else if px a \<noteq> px b
      then max (min (px a) (px b)) (min (px c) (px d)) < min (max (px a) (px b)) (max (px c) (px d))
      else max (min (py a) (py b)) (min (py c) (py d)) < min (max (py a) (py b)) (max (py c) (py d)))"

definition ring_edges :: "point_nm list \<Rightarrow> (point_nm \<times> point_nm) list" where
  "ring_edges r = zip r (tl r @ take 1 r)"

definition edges_cross :: "(point_nm \<times> point_nm) list \<Rightarrow> nat \<Rightarrow> nat \<Rightarrow> bool" where
  "edges_cross es i j = (let (a, b) = es ! i; (c, d) = es ! j in design_segments_intersect a b c d)"

definition validate_simple_polygon :: "point_nm list \<Rightarrow> unit result" where
  "validate_simple_polygon vs =
     (let r = open_ring vs; es = ring_edges r; n = length es in violations
      [(length r < 3, ''at least three vertices''), (\<not> distinct r, ''vertices must be unique''),
       (sum_list (map (\<lambda>(s, e). px s * py e - px e * py s) es) = 0, ''non-zero area''),
       (\<exists>(a, b) \<in> set es. a = b, ''zero-length edges''),
       (\<exists>i \<in> set [0..<n]. \<exists>j \<in> set [i + 1..<n]. \<not> (j = i + 1 \<or> (i = 0 \<and> j = n - 1)) \<and> edges_cross es i j,
         ''simple non-self-intersecting polygon'')])"

section \<open>Entities\<close>

record pin_ref =
  ref_component_id :: string
  ref_pin_number :: string

definition pin_ref_key :: "pin_ref \<Rightarrow> string \<times> string" where
  "pin_ref_key r = (ref_component_id r, ref_pin_number r)"

definition pin_ref_post_init :: "pin_ref \<Rightarrow> unit result" where
  "pin_ref_post_init r = violations
     [(\<not> id_ok (ref_component_id r), ''pin component ID''), (\<not> id_ok (ref_pin_number r), ''pin number'')]"

record pin_definition =
  pd_number :: string
  pd_name :: string
  pd_electrical_type :: string
  pd_pad_number :: string
  pd_required :: bool

definition pin_definition_post_init :: "pin_definition \<Rightarrow> unit result" where
  "pin_definition_post_init p = violations
     [(\<not> id_ok (pd_number p), ''pin number''), (\<not> id_ok (pd_pad_number p), ''pad number''),
      (\<not> text_ok (pd_name p), ''pin name''), (\<not> id_ok (pd_electrical_type p), ''pin electrical type'')]"

record dcomponent =
  dcomp_id :: string
  dcomp_reference :: string
  dcomp_value :: string
  dcomp_manufacturer_part_number :: string
  dcomp_package :: string
  dcomp_symbol_id :: string
  dcomp_footprint_id :: string
  dcomp_datasheet_sha256 :: string
  dcomp_pin_map_sha256 :: string
  dcomp_pins :: "pin_definition list"

definition dcomponent_post_init :: "dcomponent \<Rightarrow> unit result" where
  "dcomponent_post_init c = violations
     [(\<not> id_ok (dcomp_id c), ''component ID''), (\<not> id_ok (dcomp_reference c), ''reference''),
      (\<not> text_ok (dcomp_value c), ''component value''),
      (\<not> text_ok (dcomp_manufacturer_part_number c), ''exact manufacturer part number''),
      (\<not> text_ok (dcomp_package c), ''component package''), (\<not> text_ok (dcomp_symbol_id c), ''component symbol ID''),
      (\<not> text_ok (dcomp_footprint_id c), ''component footprint ID''),
      (\<not> is_sha256_hex (dcomp_datasheet_sha256 c), ''datasheet_sha256''),
      (\<not> is_sha256_hex (dcomp_pin_map_sha256 c), ''pin_map_sha256''),
      (dcomp_pins c = [], ''components require at least one pin''),
      (\<not> distinct (map pd_number (dcomp_pins c)) \<or> \<not> distinct (map pd_pad_number (dcomp_pins c)),
        ''component pin and pad numbers must be unique'')]"

definition dcomponent_normalized :: "dcomponent \<Rightarrow> dcomponent result" where
  "dcomponent_normalized c = validated dcomponent_post_init (c\<lparr>dcomp_pins := sort_key pd_number (dcomp_pins c)\<rparr>)"

record dnet =
  dnet_id :: string
  dnet_name :: string
  dnet_members :: "pin_ref list"

definition dnet_post_init :: "dnet \<Rightarrow> unit result" where
  "dnet_post_init n = violations
     [(\<not> id_ok (dnet_id n), ''net ID''), (\<not> text_ok (dnet_name n), ''net name''),
      (\<not> distinct (dnet_members n), ''net members must be unique'')]"

definition dnet_normalized :: "dnet \<Rightarrow> dnet result" where
  "dnet_normalized n = validated dnet_post_init (n\<lparr>dnet_members := sort_key pin_ref_key (dnet_members n)\<rparr>)"

record placement =
  pl_component_id :: string
  pl_position :: point_nm
  pl_rotation_udeg :: int
  pl_side :: string
  pl_locked :: bool

definition placement_post_init :: "placement \<Rightarrow> unit result" where
  "placement_post_init p = violations
     [(\<not> id_ok (pl_component_id p), ''placement component ID''),
      (pl_side p \<notin> {''front'', ''back''}, ''placement side must be front or back''),
      (\<not> int64_ok (pl_rotation_udeg p), ''rotation in integer microdegrees''),
      (\<not> (0 \<le> pl_rotation_udeg p \<and> pl_rotation_udeg p < 360000000), ''rotation must be normalized'')]"

record dpad =
  dpad_id :: string
  dpad_component_id :: string
  dpad_pad_number :: string
  dpad_center :: point_nm
  dpad_size_x_nm :: int
  dpad_size_y_nm :: int
  dpad_shape :: string
  dpad_rotation_udeg :: int
  dpad_layers :: "string list"
  dpad_drill_nm :: int
  dpad_net_id :: "string option"
  dpad_locked :: bool
  dpad_drill_x_nm :: int
  dpad_drill_y_nm :: int
  dpad_drill_rotation_udeg :: int
  dpad_shared_land_group_id :: "string option"

text \<open>Construction fills in the drill dimensions that were left out.\<close>

definition dpad_drill :: "dpad \<Rightarrow> int \<times> int" where
  "dpad_drill p = (if dpad_drill_x_nm p = 0 \<and> dpad_drill_y_nm p = 0 \<and> dpad_drill_nm p > 0
     then (dpad_drill_nm p, dpad_drill_nm p) else (dpad_drill_x_nm p, dpad_drill_y_nm p))"

definition dpad_checks :: "dpad \<Rightarrow> unit result" where
  "dpad_checks p = (let (dx, dy) = dpad_drill p in violations
     [(\<not> id_ok (dpad_id p), ''pad ID''), (\<not> id_ok (dpad_component_id p), ''pad component ID''),
      (\<not> id_ok (dpad_pad_number p), ''pad number''),
      (\<not> int64_ok (dpad_size_x_nm p), ''pad X size''), (\<not> int64_ok (dpad_size_y_nm p), ''pad Y size''),
      (dpad_size_x_nm p \<le> 0 \<or> dpad_size_y_nm p \<le> 0, ''pad dimensions must be positive''),
      (dpad_shape p \<notin> {''circle'', ''oval'', ''rect'', ''roundrect''}, ''pad shape''),
      (\<not> int64_ok (dpad_rotation_udeg p), ''pad rotation''),
      (\<not> (0 \<le> dpad_rotation_udeg p \<and> dpad_rotation_udeg p < 360000000), ''pad rotation must be normalized''),
      (dpad_layers p = [], ''pad layers must be non-empty''),
      (\<exists>l \<in> set (dpad_layers p). \<not> text_ok l, ''pad copper layer''),
      (\<not> distinct (dpad_layers p), ''pad copper layers must be unique''),
      (\<not> int64_ok (dpad_drill_nm p), ''pad drill diameter''), (\<not> int64_ok (dpad_drill_x_nm p), ''pad drill X size''),
      (\<not> int64_ok (dpad_drill_y_nm p), ''pad drill Y size''),
      (\<not> int64_ok (dpad_drill_rotation_udeg p), ''pad drill rotation''),
      (dpad_drill_nm p < 0 \<or> dpad_drill_x_nm p < 0 \<or> dpad_drill_y_nm p < 0, ''pad drill dimensions cannot be negative''),
      ((dx = 0) \<noteq> (dy = 0), ''pad drill X/Y dimensions must both be zero or positive''),
      (dx > 0 \<and> dpad_drill_nm p \<noteq> 0 \<and> dpad_drill_nm p \<noteq> min dx dy, ''legacy pad drill diameter''),
      (dx > 0 \<and> (dx \<ge> dpad_size_x_nm p \<or> dy \<ge> dpad_size_y_nm p), ''positive copper annulus''),
      (dx \<le> 0 \<and> dpad_drill_nm p \<noteq> 0, ''legacy pad drill requires exact geometry''),
      (\<not> (0 \<le> dpad_drill_rotation_udeg p \<and> dpad_drill_rotation_udeg p < 360000000), ''pad drill rotation must be normalized''),
      (dx = dy \<and> dpad_drill_rotation_udeg p \<notin> {0, 180000000}, ''circular pad drill cannot carry a rotation''),
      (dx > 0 \<and> length (dpad_layers p) < 2, ''drilled pad must span at least two copper layers''),
      (\<not> opt_ok id_ok (dpad_net_id p), ''pad net ID''),
      (\<not> opt_ok id_ok (dpad_shared_land_group_id p), ''shared land group ID'')])"

definition dpad_init :: "dpad \<Rightarrow> dpad result" where
  "dpad_init p = bind_r (dpad_checks p) (\<lambda>_. let (dx, dy) = dpad_drill p in
     Inr (p\<lparr>dpad_drill_x_nm := dx, dpad_drill_y_nm := dy,
       dpad_drill_nm := (if dx > 0 \<and> dpad_drill_nm p = 0 then min dx dy else dpad_drill_nm p)\<rparr>))"

definition drill_rotation_canonical :: "int \<Rightarrow> int \<Rightarrow> int \<Rightarrow> int" where
  "drill_rotation_canonical dx dy r = (if dx = dy then 0 else r mod 180000000)"

definition dpad_canonical :: "dpad \<Rightarrow> dpad" where
  "dpad_canonical p = p\<lparr>dpad_layers := sort (dpad_layers p), dpad_drill_rotation_udeg :=
     drill_rotation_canonical (dpad_drill_x_nm p) (dpad_drill_y_nm p) (dpad_drill_rotation_udeg p)\<rparr>"

definition dpad_normalized :: "dpad \<Rightarrow> dpad result" where
  "dpad_normalized p = dpad_init (dpad_canonical p)"

record dhole =
  dhole_id :: string
  dhole_component_id :: string
  dhole_center :: point_nm
  dhole_diameter_nm :: int
  dhole_plated :: bool
  dhole_pad_id :: "string option"
  dhole_locked :: bool
  dhole_drill_x_nm :: int
  dhole_drill_y_nm :: int
  dhole_drill_rotation_udeg :: int

definition dhole_drill :: "dhole \<Rightarrow> int \<times> int" where
  "dhole_drill x = (if dhole_drill_x_nm x = 0 \<and> dhole_drill_y_nm x = 0
     then (dhole_diameter_nm x, dhole_diameter_nm x) else (dhole_drill_x_nm x, dhole_drill_y_nm x))"

definition dhole_checks :: "dhole \<Rightarrow> unit result" where
  "dhole_checks x = (let (dx, dy) = dhole_drill x in violations
     [(\<not> id_ok (dhole_id x), ''hole ID''), (\<not> id_ok (dhole_component_id x), ''hole component ID''),
      (\<not> int64_ok (dhole_diameter_nm x), ''hole diameter''), (\<not> int64_ok (dhole_drill_x_nm x), ''hole drill X size''),
      (\<not> int64_ok (dhole_drill_y_nm x), ''hole drill Y size''),
      (\<not> int64_ok (dhole_drill_rotation_udeg x), ''hole drill rotation''),
      (dhole_diameter_nm x \<le> 0, ''hole minor dimension must be positive''),
      (dx \<le> 0 \<or> dy \<le> 0, ''hole drill X/Y dimensions must both be positive''),
      (dhole_diameter_nm x \<noteq> min dx dy, ''legacy hole diameter''),
      (\<not> (0 \<le> dhole_drill_rotation_udeg x \<and> dhole_drill_rotation_udeg x < 360000000), ''hole drill rotation must be normalized''),
      (dx = dy \<and> dhole_drill_rotation_udeg x \<notin> {0, 180000000}, ''circular hole cannot carry a rotation''),
      (\<not> opt_ok id_ok (dhole_pad_id x), ''hole pad ID''),
      (dhole_plated x \<noteq> (dhole_pad_id x \<noteq> None), ''a plated hole must identify its pad'')])"

definition dhole_init :: "dhole \<Rightarrow> dhole result" where
  "dhole_init x = bind_r (dhole_checks x) (\<lambda>_. let (dx, dy) = dhole_drill x in
     Inr (x\<lparr>dhole_drill_x_nm := dx, dhole_drill_y_nm := dy\<rparr>))"

definition dhole_canonical :: "dhole \<Rightarrow> dhole" where
  "dhole_canonical x = x\<lparr>dhole_drill_rotation_udeg :=
     drill_rotation_canonical (dhole_drill_x_nm x) (dhole_drill_y_nm x) (dhole_drill_rotation_udeg x)\<rparr>"

definition dhole_normalized :: "dhole \<Rightarrow> dhole result" where
  "dhole_normalized x = dhole_init (dhole_canonical x)"

record dvia =
  dvia_id :: string
  dvia_net_id :: string
  dvia_center :: point_nm
  dvia_diameter_nm :: int
  dvia_drill_nm :: int
  dvia_layers :: "string list"
  dvia_locked :: bool

definition dvia_post_init :: "dvia \<Rightarrow> unit result" where
  "dvia_post_init v = violations
     [(\<not> id_ok (dvia_id v), ''via ID''), (\<not> id_ok (dvia_net_id v), ''via net ID''),
      (\<not> int64_ok (dvia_diameter_nm v), ''via diameter''), (\<not> int64_ok (dvia_drill_nm v), ''via drill diameter''),
      (dvia_drill_nm v \<le> 0 \<or> dvia_diameter_nm v \<le> dvia_drill_nm v, ''via drill''),
      (length (dvia_layers v) < 2, ''via layer span''),
      (\<exists>l \<in> set (dvia_layers v). \<not> text_ok l, ''via copper layer''),
      (\<not> distinct (dvia_layers v), ''via copper layers must be unique'')]"

definition dvia_normalized :: "dvia \<Rightarrow> dvia result" where
  "dvia_normalized v = validated dvia_post_init (v\<lparr>dvia_layers := sort (dvia_layers v)\<rparr>)"

section \<open>Zones\<close>

definition fill_evidence_post_init :: "(byte list \<Rightarrow> byte list) \<Rightarrow> zone_fill_evidence \<Rightarrow> unit result" where
  "fill_evidence_post_init h e = violations
     [(\<not> is_sha256_hex (fill_source_graph_hash e), ''zone fill source graph hash''),
      (\<not> is_sha256_hex (fill_source_revision e), ''zone fill source revision''),
      (\<not> id_ok (fill_engine_id e), ''zone fill engine ID''),
      (\<not> id_ok (fill_engine_revision e), ''zone fill engine revision''),
      (\<not> is_sha256_hex (fill_filled_geometry_hash e), ''zone filled geometry hash''),
      (\<not> is_sha256_hex (fill_evidence_hash e), ''zone fill evidence hash''),
      (fill_evidence_hash e \<noteq> zone_fill_evidence_hash h e, ''zone fill evidence hash does not bind its provenance'')]"

record dzone =
  dzone_id :: string
  dzone_net_id :: string
  dzone_layer :: string
  dzone_outline :: "point_nm list"
  dzone_clearance_nm :: int
  dzone_min_thickness_nm :: int
  dzone_priority :: int
  dzone_locked :: bool
  dzone_fill_state :: zone_fill_state
  dzone_fill_evidence :: "zone_fill_evidence option"

definition dzone_filled_geometry_hash :: "(byte list \<Rightarrow> byte list) \<Rightarrow> dzone \<Rightarrow> string" where
  "dzone_filled_geometry_hash h z = design_hash h ''pcb-zone-filled-geometry-v1''
     (JObj [(''zone_id'', JStr (dzone_id z)), (''net_id'', JStr (dzone_net_id z)), (''layer'', JStr (dzone_layer z)),
        (''outline'', JObj [(''vertices'', JList (map point_json (normalized_ring (dzone_outline z))))]),
        (''clearance_nm'', JInt (dzone_clearance_nm z))])"

definition dzone_post_init :: "(byte list \<Rightarrow> byte list) \<Rightarrow> dzone \<Rightarrow> unit result" where
  "dzone_post_init h z =
     bind_r (violations [(\<not> id_ok (dzone_id z), ''zone ID''), (\<not> id_ok (dzone_net_id z), ''zone net ID''),
       (\<not> text_ok (dzone_layer z), ''zone copper layer'')]) (\<lambda>_.
     bind_r (validate_simple_polygon (dzone_outline z)) (\<lambda>_. violations
       [(\<not> int64_ok (dzone_clearance_nm z), ''zone clearance''), (dzone_clearance_nm z < 0, ''zone clearance cannot be negative''),
        (\<not> int64_ok (dzone_min_thickness_nm z), ''zone minimum thickness''),
        (dzone_min_thickness_nm z \<le> 0, ''zone minimum thickness must be positive''),
        (\<not> int64_ok (dzone_priority z), ''zone priority''), (dzone_priority z < 0, ''zone priority cannot be negative''),
        (dzone_fill_state z = Fill_UNFILLED_INTENT \<and> dzone_fill_evidence z \<noteq> None,
          ''unfilled zone intent cannot carry fill evidence''),
        (dzone_fill_state z = Fill_VERIFIED_FILLED \<and> dzone_fill_evidence z = None,
          ''verified filled zone requires fill evidence''),
        (dzone_fill_state z = Fill_VERIFIED_FILLED \<and> (case dzone_fill_evidence z of None \<Rightarrow> False
            | Some e \<Rightarrow> fill_filled_geometry_hash e \<noteq> dzone_filled_geometry_hash h z),
          ''zone fill evidence does not bind the exact modeled filled geometry'')]))"

definition dzone_normalized :: "(byte list \<Rightarrow> byte list) \<Rightarrow> dzone \<Rightarrow> dzone result" where
  "dzone_normalized h z = validated (dzone_post_init h) (z\<lparr>dzone_outline := normalized_ring (dzone_outline z)\<rparr>)"

section \<open>Schematics and tracks\<close>

definition path_segments :: "point_nm list \<Rightarrow> (point_nm \<times> point_nm) list" where
  "path_segments vs = zip vs (tl vs)"

record dwire =
  wire_id :: string
  wire_net_id :: string
  wire_vertices :: "point_nm list"
  wire_sheet_id :: string
  wire_locked :: bool

definition wire_post_init :: "dwire \<Rightarrow> unit result" where
  "wire_post_init w = (let ss = path_segments (wire_vertices w) in violations
     [(\<not> id_ok (wire_id w), ''schematic wire ID''), (\<not> id_ok (wire_net_id w), ''schematic wire net ID''),
      (\<not> id_ok (wire_sheet_id w), ''schematic wire sheet ID''),
      (length (wire_vertices w) < 2, ''schematic wire requires at least two vertices''),
      (\<exists>(s, e) \<in> set ss. s = e, ''zero-length segment''),
      (\<not> distinct (wire_vertices w), ''schematic wire cannot revisit a vertex''),
      (\<exists>i \<in> set [0..<length ss]. \<exists>j \<in> set [i + 2..<length ss]. edges_cross ss i j, ''schematic wire cannot self-intersect'')])"

definition wire_normalized :: "dwire \<Rightarrow> dwire result" where
  "wire_normalized w = validated wire_post_init (w\<lparr>wire_vertices := min (wire_vertices w) (rev (wire_vertices w))\<rparr>)"

record junction =
  junction_id :: string
  junction_net_id :: string
  junction_position :: point_nm
  junction_sheet_id :: string
  junction_locked :: bool

definition junction_post_init :: "junction \<Rightarrow> unit result" where
  "junction_post_init j = violations
     [(\<not> id_ok (junction_id j), ''schematic junction ID''), (\<not> id_ok (junction_net_id j), ''schematic junction net ID''),
      (\<not> id_ok (junction_sheet_id j), ''schematic junction sheet ID'')]"

record dtrack =
  dtrack_id :: string
  dtrack_net_id :: string
  dtrack_layer :: string
  dtrack_start :: point_nm
  dtrack_end :: point_nm
  dtrack_width_nm :: int
  dtrack_locked :: bool

definition dtrack_post_init :: "dtrack \<Rightarrow> unit result" where
  "dtrack_post_init t = violations
     [(\<not> id_ok (dtrack_id t), ''track ID''), (\<not> id_ok (dtrack_net_id t), ''track net ID''),
      (\<not> text_ok (dtrack_layer t), ''track layer''), (\<not> int64_ok (dtrack_width_nm t), ''track width''),
      (dtrack_width_nm t \<le> 0 \<or> dtrack_start t = dtrack_end t, ''track requires positive width and non-zero length'')]"

definition dtrack_normalized :: "dtrack \<Rightarrow> dtrack result" where
  "dtrack_normalized t = validated dtrack_post_init (t\<lparr>dtrack_start := min (dtrack_start t) (dtrack_end t),
     dtrack_end := max (dtrack_start t) (dtrack_end t)\<rparr>)"

end
