(* ===== verification/Design_Validation.thy ===== *)
theory Design_Validation
  imports Design_Graph
begin

text \<open>
  \<^verbatim>\<open>DesignGraph\<close>, its normalized form, \<^verbatim>\<open>validate_graph\<close>, the canonical JSON of
  the graph and \<^verbatim>\<open>graph_hash\<close> (\<^verbatim>\<open>backend/design_kernel/model.py\<close>).
\<close>

section \<open>The graph\<close>

record design_graph =
  dg_schema_version :: int
  dg_project_id :: string
  dg_layers :: "string list"
  dg_board_outline :: "point_nm list"
  dg_components :: "dcomponent list"
  dg_nets :: "dnet list"
  dg_placements :: "placement list"
  dg_tracks :: "dtrack list"
  dg_pads :: "dpad list"
  dg_holes :: "dhole list"
  dg_vias :: "dvia list"
  dg_zones :: "dzone list"
  dg_wires :: "dwire list"
  dg_junctions :: "junction list"

definition design_graph_post_init :: "design_graph \<Rightarrow> unit result" where
  "design_graph_post_init g = violations
     [(\<not> int64_ok (dg_schema_version g), ''design graph schema version''), (\<not> id_ok (dg_project_id g), ''project ID''),
      (\<exists>l \<in> set (dg_layers g). \<not> text_ok l, ''copper layer name'')]"

definition graph_normalized :: "(byte list \<Rightarrow> byte list) \<Rightarrow> design_graph \<Rightarrow> design_graph result" where
  "graph_normalized h g =
     bind_r (map_r dcomponent_normalized (dg_components g)) (\<lambda>cs.
     bind_r (map_r dnet_normalized (dg_nets g)) (\<lambda>ns.
     bind_r (map_r dtrack_normalized (dg_tracks g)) (\<lambda>ts.
     bind_r (map_r dpad_normalized (dg_pads g)) (\<lambda>ps.
     bind_r (map_r dhole_normalized (dg_holes g)) (\<lambda>xs.
     bind_r (map_r dvia_normalized (dg_vias g)) (\<lambda>vs.
     bind_r (map_r (dzone_normalized h) (dg_zones g)) (\<lambda>zs.
     bind_r (map_r wire_normalized (dg_wires g)) (\<lambda>ws.
     validated design_graph_post_init (g\<lparr>
       dg_layers := sort (dg_layers g), dg_board_outline := normalized_ring (dg_board_outline g),
       dg_components := sort_key dcomp_id cs, dg_nets := sort_key dnet_id ns,
       dg_placements := sort_key pl_component_id (dg_placements g), dg_tracks := sort_key dtrack_id ts,
       dg_pads := sort_key dpad_id ps, dg_holes := sort_key dhole_id xs, dg_vias := sort_key dvia_id vs,
       dg_zones := sort_key dzone_id zs, dg_wires := sort_key wire_id ws,
       dg_junctions := sort_key junction_id (dg_junctions g)\<rparr>)))))))))"

section \<open>Invariants of a graph\<close>

definition component_of :: "design_graph \<Rightarrow> string \<Rightarrow> dcomponent option" where
  "component_of g = map_of (rev (map (\<lambda>c. (dcomp_id c, c)) (dg_components g)))"

definition pad_of :: "design_graph \<Rightarrow> string \<Rightarrow> dpad option" where
  "pad_of g = map_of (rev (map (\<lambda>p. (dpad_id p, p)) (dg_pads g)))"

definition all_members :: "design_graph \<Rightarrow> pin_ref list" where
  "all_members g = concat (map dnet_members (dg_nets g))"

definition pin_to_net :: "design_graph \<Rightarrow> pin_ref \<Rightarrow> string option" where
  "pin_to_net g = map_of (rev (concat (map (\<lambda>n. map (\<lambda>r. (r, dnet_id n)) (dnet_members n)) (dg_nets g))))"

definition member_known :: "design_graph \<Rightarrow> pin_ref \<Rightarrow> bool" where
  "member_known g r = (case component_of g (ref_component_id r) of None \<Rightarrow> False
     | Some c \<Rightarrow> ref_pin_number r \<in> set (map pd_number (dcomp_pins c)))"

definition placed :: "design_graph \<Rightarrow> string \<Rightarrow> bool" where
  "placed g i \<longleftrightarrow> i \<in> set (map pl_component_id (dg_placements g))"

definition known_dnet :: "design_graph \<Rightarrow> string \<Rightarrow> bool" where
  "known_dnet g n \<longleftrightarrow> n \<in> set (map dnet_id (dg_nets g))"

definition known_layer :: "design_graph \<Rightarrow> string \<Rightarrow> bool" where
  "known_layer g l \<longleftrightarrow> l \<in> set (dg_layers g)"

definition pad_bad :: "design_graph \<Rightarrow> dpad \<Rightarrow> bool" where
  "pad_bad g p = (case component_of g (dpad_component_id p) of None \<Rightarrow> True
     | Some c \<Rightarrow> \<not> placed g (dpad_component_id p) \<or>
       (case filter (\<lambda>q. pd_pad_number q = dpad_pad_number p) (dcomp_pins c) of
          [q] \<Rightarrow> (\<exists>l \<in> set (dpad_layers p). \<not> known_layer g l)
            \<or> (case dpad_net_id p of None \<Rightarrow> False | Some n \<Rightarrow> \<not> known_dnet g n)
            \<or> (case pin_to_net g \<lparr>ref_component_id = dpad_component_id p, ref_pin_number = pd_number q\<rparr> of
                 None \<Rightarrow> False | Some n \<Rightarrow> dpad_net_id p \<noteq> Some n)
        | _ \<Rightarrow> True))"

definition logical_nets_differ :: "design_graph \<Rightarrow> bool" where
  "logical_nets_differ g \<longleftrightarrow> (\<exists>p \<in> set (dg_pads g). \<exists>q \<in> set (dg_pads g).
     dpad_component_id p = dpad_component_id q \<and> dpad_pad_number p = dpad_pad_number q \<and> dpad_net_id p \<noteq> dpad_net_id q)"

definition shared_land_geometry :: "dpad \<Rightarrow>
  string \<times> point_nm \<times> int \<times> int \<times> string \<times> int \<times> string list \<times> int \<times> int \<times> int \<times> string option" where
  "shared_land_geometry p = (let q = dpad_canonical p in
     (dpad_component_id q, dpad_center q, dpad_size_x_nm q, dpad_size_y_nm q, dpad_shape q, dpad_rotation_udeg q,
      dpad_layers q, dpad_drill_x_nm q, dpad_drill_y_nm q, dpad_drill_rotation_udeg q, dpad_net_id q))"

definition land_group :: "design_graph \<Rightarrow> string \<Rightarrow> dpad list" where
  "land_group g i = filter (\<lambda>p. dpad_shared_land_group_id p = Some i) (dg_pads g)"

definition land_group_ids :: "design_graph \<Rightarrow> string list" where
  "land_group_ids g = concat (map (\<lambda>p. case dpad_shared_land_group_id p of None \<Rightarrow> [] | Some i \<Rightarrow> [i]) (dg_pads g))"

definition land_group_bad :: "design_graph \<Rightarrow> string \<Rightarrow> bool" where
  "land_group_bad g i = (let ps = land_group g i in
     length ps < 2 \<or> (\<exists>p \<in> set ps. dpad_component_id p \<noteq> dpad_component_id (hd ps))
     \<or> \<not> distinct (map dpad_pad_number ps)
     \<or> (\<exists>p \<in> set ps. shared_land_geometry p \<noteq> shared_land_geometry (hd ps))
     \<or> (\<exists>p \<in> set (dg_pads g). dpad_id p \<notin> set (map dpad_id ps) \<and> shared_land_geometry p = shared_land_geometry (hd ps)))"

definition hole_bad :: "design_graph \<Rightarrow> dhole \<Rightarrow> bool" where
  "hole_bad g x \<longleftrightarrow> component_of g (dhole_component_id x) = None \<or> \<not> placed g (dhole_component_id x)
     \<or> (case dhole_pad_id x of None \<Rightarrow> False | Some i \<Rightarrow>
        (case pad_of g i of None \<Rightarrow> True | Some p \<Rightarrow>
           dpad_component_id p \<noteq> dhole_component_id x
           \<or> dpad_drill_x_nm p \<noteq> dhole_drill_x_nm x \<or> dpad_drill_y_nm p \<noteq> dhole_drill_y_nm x
           \<or> dpad_drill_rotation_udeg (dpad_canonical p) \<noteq> dhole_drill_rotation_udeg (dhole_canonical x)
           \<or> dpad_center p \<noteq> dhole_center x))"

definition bound_pad_ids :: "design_graph \<Rightarrow> string list" where
  "bound_pad_ids g = concat (map (\<lambda>x. case dhole_pad_id x of None \<Rightarrow> [] | Some i \<Rightarrow> [i]) (dg_holes g))"

definition segments_conflict :: "bool \<Rightarrow> point_nm \<times> point_nm \<Rightarrow> point_nm \<times> point_nm \<Rightarrow> bool" where
  "segments_conflict same_net = (\<lambda>(a, b) (c, d).
     design_segments_intersect a b c d \<and>
     (collinear_overlap_has_length a b c d \<or>
      \<not> same_net \<and> (point_on_segment a c d \<or> point_on_segment b c d \<or> point_on_segment c a b \<or> point_on_segment d a b)))"

definition wires_conflict :: "dwire \<Rightarrow> dwire \<Rightarrow> bool" where
  "wires_conflict f s \<longleftrightarrow> wire_sheet_id f = wire_sheet_id s \<and>
     (\<exists>x \<in> set (path_segments (wire_vertices f)). \<exists>y \<in> set (path_segments (wire_vertices s)).
        segments_conflict (wire_net_id f = wire_net_id s) x y)"

definition any_wires_conflict :: "dwire list \<Rightarrow> bool" where
  "any_wires_conflict ws \<longleftrightarrow> (\<exists>i \<in> set [0..<length ws]. \<exists>j \<in> set [i + 1..<length ws]. wires_conflict (ws ! i) (ws ! j))"

definition supporting_wires :: "design_graph \<Rightarrow> junction \<Rightarrow> string list" where
  "supporting_wires g j = remdups (map wire_id (filter (\<lambda>w. wire_sheet_id w = junction_sheet_id j
     \<and> wire_net_id w = junction_net_id j
     \<and> (\<exists>(s, e) \<in> set (path_segments (wire_vertices w)). point_on_segment (junction_position j) s e)) (dg_wires g)))"

definition unique_checks :: "design_graph \<Rightarrow> (bool \<times> string) list" where
  "unique_checks g = map (\<lambda>(label, ids). (\<not> distinct ids, label))
     [(''component IDs'', map dcomp_id (dg_components g)), (''component references'', map dcomp_reference (dg_components g)),
      (''net IDs'', map dnet_id (dg_nets g)), (''net names'', map dnet_name (dg_nets g)),
      (''placement component IDs'', map pl_component_id (dg_placements g)), (''track IDs'', map dtrack_id (dg_tracks g)),
      (''pad IDs'', map dpad_id (dg_pads g)), (''hole IDs'', map dhole_id (dg_holes g)), (''via IDs'', map dvia_id (dg_vias g)),
      (''zone IDs'', map dzone_id (dg_zones g)), (''schematic wire IDs'', map wire_id (dg_wires g)),
      (''schematic junction IDs'', map junction_id (dg_junctions g))]"

definition reference_checks :: "design_graph \<Rightarrow> (bool \<times> string) list" where
  "reference_checks g =
     [(\<exists>r \<in> set (all_members g). \<not> member_known g r, ''net references unknown component or pin''),
      (\<not> distinct (all_members g), ''pin belongs to multiple nets''),
      (\<exists>p \<in> set (dg_placements g). component_of g (pl_component_id p) = None, ''placement references an unknown component''),
      (\<exists>t \<in> set (dg_tracks g). \<not> known_dnet g (dtrack_net_id t) \<or> \<not> known_layer g (dtrack_layer t),
        ''track references an unknown net or layer''),
      (\<exists>p \<in> set (dg_pads g). pad_bad g p, ''pad requires a known, placed component, pin, layer and net''),
      (logical_nets_differ g, ''physical pads must have identical net semantics''),
      (\<exists>i \<in> set (land_group_ids g). land_group_bad g i, ''shared land group''),
      (\<exists>x \<in> set (dg_holes g). hole_bad g x, ''footprint hole''),
      (\<not> distinct (bound_pad_ids g), ''a physical pad can bind only one plated footprint hole''),
      (\<exists>v \<in> set (dg_vias g). \<not> known_dnet g (dvia_net_id v) \<or> (\<exists>l \<in> set (dvia_layers v). \<not> known_layer g l),
        ''via references an unknown net or copper layer'')]"

definition schematic_checks :: "design_graph \<Rightarrow> (bool \<times> string) list" where
  "schematic_checks g =
     [(\<exists>w \<in> set (dg_wires g). \<not> known_dnet g (wire_net_id w), ''schematic wire references an unknown net''),
      (any_wires_conflict (dg_wires g), ''schematic wire segments cannot overlap or touch''),
      (\<exists>j \<in> set (dg_junctions g). \<not> known_dnet g (junction_net_id j), ''schematic junction references an unknown net''),
      (\<not> distinct (map (\<lambda>j. (junction_sheet_id j, junction_position j)) (dg_junctions g)),
        ''a schematic sheet position can contain only one junction''),
      (\<exists>j \<in> set (dg_junctions g). length (supporting_wires g j) < 2, ''schematic junction must join at least two wires'')]"

definition validate_zone :: "design_graph \<Rightarrow> dzone \<Rightarrow> unit result" where
  "validate_zone g z = bind_r (violations
     [(\<not> known_dnet g (dzone_net_id z) \<or> \<not> known_layer g (dzone_layer z), ''zone references an unknown net or copper layer'')])
     (\<lambda>_. validate_simple_polygon (dzone_outline z))"

definition validate_graph :: "design_graph \<Rightarrow> unit result" where
  "validate_graph g =
     bind_r (violations
       [(dg_schema_version g \<noteq> 1, ''unsupported design graph schema''), (\<not> id_ok (dg_project_id g), ''project ID''),
        (dg_layers g = [] \<or> (\<exists>l \<in> set (dg_layers g). strip l = []), ''at least one non-empty copper layer''),
        (\<not> distinct (dg_layers g), ''layer names must be unique'')]) (\<lambda>_.
     bind_r (if dg_board_outline g \<noteq> [] then validate_simple_polygon (dg_board_outline g) else Inr ()) (\<lambda>_.
     bind_r (violations (unique_checks g @ reference_checks g)) (\<lambda>_.
     bind_r (map_r (validate_zone g) (dg_zones g)) (\<lambda>_.
     violations (schematic_checks g)))))"

section \<open>Canonical JSON and the hash of a graph\<close>

definition pin_definition_json :: "pin_definition \<Rightarrow> json" where
  "pin_definition_json p = JObj [(''number'', JStr (pd_number p)), (''name'', JStr (pd_name p)),
     (''electrical_type'', JStr (pd_electrical_type p)), (''pad_number'', JStr (pd_pad_number p)),
     (''required'', JBool (pd_required p))]"

definition dcomponent_json :: "dcomponent \<Rightarrow> json" where
  "dcomponent_json c = JObj [(''component_id'', JStr (dcomp_id c)), (''reference'', JStr (dcomp_reference c)),
     (''value'', JStr (dcomp_value c)), (''manufacturer_part_number'', JStr (dcomp_manufacturer_part_number c)),
     (''package'', JStr (dcomp_package c)), (''symbol_id'', JStr (dcomp_symbol_id c)),
     (''footprint_id'', JStr (dcomp_footprint_id c)), (''datasheet_sha256'', JStr (dcomp_datasheet_sha256 c)),
     (''pin_map_sha256'', JStr (dcomp_pin_map_sha256 c)), (''pins'', JList (map pin_definition_json (dcomp_pins c)))]"

definition pin_ref_json :: "pin_ref \<Rightarrow> json" where
  "pin_ref_json r = JObj [(''component_id'', JStr (ref_component_id r)), (''pin_number'', JStr (ref_pin_number r))]"

definition dnet_json :: "dnet \<Rightarrow> json" where
  "dnet_json n = JObj [(''net_id'', JStr (dnet_id n)), (''name'', JStr (dnet_name n)),
     (''members'', JList (map pin_ref_json (dnet_members n)))]"

definition placement_json :: "placement \<Rightarrow> json" where
  "placement_json p = JObj [(''component_id'', JStr (pl_component_id p)), (''position'', point_json (pl_position p)),
     (''rotation_udeg'', JInt (pl_rotation_udeg p)), (''side'', JStr (pl_side p)), (''locked'', JBool (pl_locked p))]"

definition dtrack_json :: "dtrack \<Rightarrow> json" where
  "dtrack_json t = JObj [(''track_id'', JStr (dtrack_id t)), (''net_id'', JStr (dtrack_net_id t)),
     (''layer'', JStr (dtrack_layer t)), (''start'', point_json (dtrack_start t)), (''end'', point_json (dtrack_end t)),
     (''width_nm'', JInt (dtrack_width_nm t)), (''locked'', JBool (dtrack_locked t))]"

definition dpad_json :: "dpad \<Rightarrow> json" where
  "dpad_json p = JObj [(''pad_id'', JStr (dpad_id p)), (''component_id'', JStr (dpad_component_id p)),
     (''pad_number'', JStr (dpad_pad_number p)), (''center'', point_json (dpad_center p)),
     (''size_x_nm'', JInt (dpad_size_x_nm p)), (''size_y_nm'', JInt (dpad_size_y_nm p)), (''shape'', JStr (dpad_shape p)),
     (''rotation_udeg'', JInt (dpad_rotation_udeg p)), (''layers'', json_strings (dpad_layers p)),
     (''pad_drill_nm'', JInt (dpad_drill_nm p)), (''net_id'', json_opt JStr (dpad_net_id p)),
     (''locked'', JBool (dpad_locked p)), (''drill_x_nm'', JInt (dpad_drill_x_nm p)),
     (''drill_y_nm'', JInt (dpad_drill_y_nm p)), (''drill_rotation_udeg'', JInt (dpad_drill_rotation_udeg p)),
     (''shared_land_group_id'', json_opt JStr (dpad_shared_land_group_id p))]"

definition dhole_json :: "dhole \<Rightarrow> json" where
  "dhole_json x = JObj [(''hole_id'', JStr (dhole_id x)), (''component_id'', JStr (dhole_component_id x)),
     (''center'', point_json (dhole_center x)), (''diameter_nm'', JInt (dhole_diameter_nm x)),
     (''plated'', JBool (dhole_plated x)), (''pad_id'', json_opt JStr (dhole_pad_id x)), (''locked'', JBool (dhole_locked x)),
     (''drill_x_nm'', JInt (dhole_drill_x_nm x)), (''drill_y_nm'', JInt (dhole_drill_y_nm x)),
     (''drill_rotation_udeg'', JInt (dhole_drill_rotation_udeg x))]"

definition dvia_json :: "dvia \<Rightarrow> json" where
  "dvia_json v = JObj [(''via_id'', JStr (dvia_id v)), (''net_id'', JStr (dvia_net_id v)),
     (''center'', point_json (dvia_center v)), (''diameter_nm'', JInt (dvia_diameter_nm v)),
     (''drill_nm'', JInt (dvia_drill_nm v)), (''layers'', json_strings (dvia_layers v)), (''locked'', JBool (dvia_locked v))]"

definition dzone_json :: "dzone \<Rightarrow> json" where
  "dzone_json z = JObj [(''zone_id'', JStr (dzone_id z)), (''net_id'', JStr (dzone_net_id z)),
     (''layer'', JStr (dzone_layer z)), (''outline'', JList (map point_json (dzone_outline z))),
     (''clearance_nm'', JInt (dzone_clearance_nm z)), (''min_thickness_nm'', JInt (dzone_min_thickness_nm z)),
     (''priority'', JInt (dzone_priority z)), (''locked'', JBool (dzone_locked z)),
     (''fill_state'', JStr (zone_fill_state_value (dzone_fill_state z))),
     (''fill_evidence'', json_opt fill_evidence_json (dzone_fill_evidence z))]"

definition wire_json :: "dwire \<Rightarrow> json" where
  "wire_json w = JObj [(''wire_id'', JStr (wire_id w)), (''net_id'', JStr (wire_net_id w)),
     (''vertices'', JList (map point_json (wire_vertices w))), (''sheet_id'', JStr (wire_sheet_id w)),
     (''locked'', JBool (wire_locked w))]"

definition junction_json :: "junction \<Rightarrow> json" where
  "junction_json j = JObj [(''junction_id'', JStr (junction_id j)), (''net_id'', JStr (junction_net_id j)),
     (''position'', point_json (junction_position j)), (''sheet_id'', JStr (junction_sheet_id j)),
     (''locked'', JBool (junction_locked j))]"

definition design_graph_json :: "design_graph \<Rightarrow> json" where
  "design_graph_json g = JObj [(''schema_version'', JInt (dg_schema_version g)), (''project_id'', JStr (dg_project_id g)),
     (''layers'', json_strings (dg_layers g)), (''board_outline'', JList (map point_json (dg_board_outline g))),
     (''components'', JList (map dcomponent_json (dg_components g))), (''nets'', JList (map dnet_json (dg_nets g))),
     (''placements'', JList (map placement_json (dg_placements g))), (''tracks'', JList (map dtrack_json (dg_tracks g))),
     (''pads'', JList (map dpad_json (dg_pads g))), (''holes'', JList (map dhole_json (dg_holes g))),
     (''vias'', JList (map dvia_json (dg_vias g))), (''zones'', JList (map dzone_json (dg_zones g))),
     (''schematic_wires'', JList (map wire_json (dg_wires g))),
     (''schematic_junctions'', JList (map junction_json (dg_junctions g)))]"

definition graph_hash :: "(byte list \<Rightarrow> byte list) \<Rightarrow> design_graph \<Rightarrow> string result" where
  "graph_hash h g =
     bind_r (graph_normalized h g) (\<lambda>n.
     bind_r (validate_graph n) (\<lambda>_.
     Inr (design_hash h ''flux-clone-design-graph-v1'' (design_graph_json n))))"

section \<open>Binding a verified fill\<close>

definition bind_verified_zone_fill ::
  "(byte list \<Rightarrow> byte list) \<Rightarrow> dzone \<Rightarrow> design_graph \<Rightarrow> string \<Rightarrow> string \<Rightarrow> string \<Rightarrow> dzone result" where
  "bind_verified_zone_fill h z g source_revision engine_id engine_revision =
     bind_r (violations
       [(dzone_fill_state z \<noteq> Fill_UNFILLED_INTENT, ''only an exact unfilled zone intent can receive fill evidence''),
        (dzone_fill_evidence z \<noteq> None, ''zone intent already carries unexpected fill evidence'')]) (\<lambda>_.
     bind_r (graph_normalized h g) (\<lambda>n.
     bind_r (validate_graph n) (\<lambda>_.
     bind_r (violations [(n \<noteq> g, ''zone fill source graph must be normalized''),
       (filter (\<lambda>y. dzone_id y = dzone_id z) (dg_zones g) \<noteq> [z], ''zone fill evidence subject must match its source graph'')]) (\<lambda>_.
     bind_r (graph_hash h g) (\<lambda>gh.
     let e0 = \<lparr>fill_source_graph_hash = gh, fill_source_revision = source_revision, fill_engine_id = engine_id,
           fill_engine_revision = engine_revision, fill_filled_geometry_hash = dzone_filled_geometry_hash h z,
           fill_evidence_hash = []\<rparr>;
         e = e0\<lparr>fill_evidence_hash := zone_fill_evidence_hash h e0\<rparr> in
     bind_r (fill_evidence_post_init h e) (\<lambda>_.
     validated (dzone_post_init h) (z\<lparr>dzone_fill_state := Fill_VERIFIED_FILLED, dzone_fill_evidence := Some e\<rparr>)))))))"

end
