(* ===== verification/Design_Commands.thy ===== *)
theory Design_Commands
  imports Design_Validation
begin

text \<open>
  \<^verbatim>\<open>DesignCommand\<close> (\<^verbatim>\<open>backend/design_kernel/model.py\<close>) and \<^verbatim>\<open>_apply\<close> of
  \<^verbatim>\<open>engine.py\<close>: the payload of a command is read with exact schemas and applied to a graph.
  A payload is the JSON object whose canonical text the command carries; numbers are integers.
\<close>

section \<open>Commands\<close>

datatype command_kind =
    COMPONENT_ADD | COMPONENT_REMOVE | NET_CREATE | NET_CONNECT | FOOTPRINT_PLACE | FOOTPRINT_PAD_ADD
  | FOOTPRINT_PAD_GROUP_ADD | FOOTPRINT_HOLE_ADD | TRACK_ADD | VIA_ADD | ZONE_ADD | SCHEMATIC_WIRE_ADD
  | SCHEMATIC_JUNCTION_ADD | BOARD_SET_OUTLINE

fun command_kind_value :: "command_kind \<Rightarrow> string" where
  "command_kind_value COMPONENT_ADD = ''component.add''"
| "command_kind_value COMPONENT_REMOVE = ''component.remove''"
| "command_kind_value NET_CREATE = ''net.create''"
| "command_kind_value NET_CONNECT = ''net.connect''"
| "command_kind_value FOOTPRINT_PLACE = ''footprint.place''"
| "command_kind_value FOOTPRINT_PAD_ADD = ''footprint.pad.add''"
| "command_kind_value FOOTPRINT_PAD_GROUP_ADD = ''footprint.pad_group.add''"
| "command_kind_value FOOTPRINT_HOLE_ADD = ''footprint.hole.add''"
| "command_kind_value TRACK_ADD = ''track.add''"
| "command_kind_value VIA_ADD = ''via.add''"
| "command_kind_value ZONE_ADD = ''zone.add''"
| "command_kind_value SCHEMATIC_WIRE_ADD = ''schematic.wire.add''"
| "command_kind_value SCHEMATIC_JUNCTION_ADD = ''schematic.junction.add''"
| "command_kind_value BOARD_SET_OUTLINE = ''board.set_outline''"

type_synonym payload = "(string \<times> json) list"

record design_command =
  cmd_id :: string
  cmd_base_revision :: string
  cmd_transaction_id :: string
  cmd_actor :: string
  cmd_kind :: command_kind
  cmd_payload :: payload
  cmd_idempotency_key :: string

text \<open>The parser of a payload refuses objects with repeated keys.\<close>

fun unique_keys :: "json \<Rightarrow> bool" where
  "unique_keys (JList vs) = list_all unique_keys vs"
| "unique_keys (JObj kvs) = (distinct (map fst kvs) \<and> list_all (\<lambda>(k, v). unique_keys v) kvs)"
| "unique_keys _ = True"

definition command_post_init :: "design_command \<Rightarrow> unit result" where
  "command_post_init c = violations
     [(\<not> id_ok (cmd_id c), ''command ID''), (\<not> id_ok (cmd_transaction_id c), ''transaction ID''),
      (\<not> id_ok (cmd_actor c), ''actor''), (\<not> id_ok (cmd_idempotency_key c), ''idempotency key''),
      (\<not> is_sha256_hex (cmd_base_revision c), ''base revision''),
      (\<not> unique_keys (JObj (cmd_payload c)), ''duplicate JSON object key'')]"

definition command_json :: "design_command \<Rightarrow> json" where
  "command_json c = JObj [(''command_id'', JStr (cmd_id c)), (''base_revision'', JStr (cmd_base_revision c)),
     (''transaction_id'', JStr (cmd_transaction_id c)), (''actor'', JStr (cmd_actor c)),
     (''kind'', JStr (command_kind_value (cmd_kind c))),
     (''payload_json'', JStr (canonical_json (JObj (cmd_payload c)))),
     (''idempotency_key'', JStr (cmd_idempotency_key c))]"

definition command_hash :: "(byte list \<Rightarrow> byte list) \<Rightarrow> design_command \<Rightarrow> string" where
  "command_hash h c = design_hash h ''flux-clone-design-command-v1'' (command_json c)"

section \<open>Reading a payload\<close>

definition payload_keys :: "payload \<Rightarrow> string list \<Rightarrow> string list \<Rightarrow> unit result" where
  "payload_keys p required optional = violations
     [((\<exists>k \<in> set required. k \<notin> set (map fst p)) \<or> (\<exists>k \<in> set (map fst p). k \<notin> set required \<and> k \<notin> set optional),
       ''payload fields do not match command schema'')]"

definition has_key :: "payload \<Rightarrow> string \<Rightarrow> bool" where
  "has_key p k \<longleftrightarrow> k \<in> set (map fst p)"

definition p_string :: "payload \<Rightarrow> string \<Rightarrow> string result" where
  "p_string p k = (case map_of p k of
     Some (JStr s) \<Rightarrow> if strip s = [] then Inl (InvariantViolation k) else Inr s
   | _ \<Rightarrow> Inl (InvariantViolation k))"

definition p_integer :: "payload \<Rightarrow> string \<Rightarrow> int result" where
  "p_integer p k = (case map_of p k of Some (JInt i) \<Rightarrow> Inr i | _ \<Rightarrow> Inl (InvariantViolation k))"

definition p_integer_or :: "payload \<Rightarrow> string \<Rightarrow> int \<Rightarrow> int result" where
  "p_integer_or p k d = (if has_key p k then p_integer p k else Inr d)"

definition p_string_or :: "payload \<Rightarrow> string \<Rightarrow> string \<Rightarrow> string result" where
  "p_string_or p k d = (if has_key p k then p_string p k else Inr d)"

definition p_boolean :: "payload \<Rightarrow> string \<Rightarrow> bool \<Rightarrow> bool result" where
  "p_boolean p k d = (case map_of p k of Some (JBool b) \<Rightarrow> Inr b | None \<Rightarrow> Inr d | _ \<Rightarrow> Inl (InvariantViolation k))"

definition p_optional_string :: "payload \<Rightarrow> string \<Rightarrow> string option result" where
  "p_optional_string p k = (case map_of p k of
     None \<Rightarrow> Inr None | Some JNull \<Rightarrow> Inr None
   | Some (JStr s) \<Rightarrow> if strip s = [] then Inl (InvariantViolation k) else Inr (Some s)
   | _ \<Rightarrow> Inl (InvariantViolation k))"

definition p_string_tuple :: "payload \<Rightarrow> string \<Rightarrow> string list result" where
  "p_string_tuple p k = (case map_of p k of
     Some (JList vs) \<Rightarrow> map_r (\<lambda>v. case v of
         JStr s \<Rightarrow> if strip s = [] then Inl (InvariantViolation k) else Inr s | _ \<Rightarrow> Inl (InvariantViolation k)) vs
   | _ \<Rightarrow> Inl (InvariantViolation k))"

fun json_point :: "json \<Rightarrow> point_nm result" where
  "json_point (JList [JInt x, JInt y]) = design_point x y"
| "json_point _ = Inl (InvariantViolation ''each vertex must be [x_nm, y_nm]'')"

definition p_points :: "payload \<Rightarrow> string \<Rightarrow> point_nm list result" where
  "p_points p k = (case map_of p k of Some (JList vs) \<Rightarrow> map_r json_point vs | _ \<Rightarrow> Inl (InvariantViolation k))"

definition p_point :: "payload \<Rightarrow> string \<Rightarrow> string \<Rightarrow> point_nm result" where
  "p_point p kx ky = bind_r (p_integer p kx) (\<lambda>x. bind_r (p_integer p ky) (\<lambda>y. design_point x y))"

section \<open>Entities from payloads\<close>

definition pin_from :: "json \<Rightarrow> pin_definition result" where
  "pin_from j = (case j of JObj p \<Rightarrow>
     bind_r (p_string p ''number'') (\<lambda>num. bind_r (p_string p ''name'') (\<lambda>name.
     bind_r (p_string p ''electrical_type'') (\<lambda>et. bind_r (p_string p ''pad_number'') (\<lambda>pn.
     bind_r (p_boolean p ''required'' True) (\<lambda>rq.
     validated pin_definition_post_init
       \<lparr>pd_number = num, pd_name = name, pd_electrical_type = et, pd_pad_number = pn, pd_required = rq\<rparr>)))))
   | _ \<Rightarrow> Inl (InvariantViolation ''each pin must be an object''))"

definition pin_keys :: "json \<Rightarrow> unit result" where
  "pin_keys j = (case j of
     JObj p \<Rightarrow> payload_keys p [''number'', ''name'', ''electrical_type'', ''pad_number''] [''required''] | _ \<Rightarrow> Inr ())"

definition pad_required_fields :: "string list" where
  "pad_required_fields = [''pad_id'', ''component_id'', ''pad_number'', ''center_x_nm'', ''center_y_nm'', ''size_x_nm'',
     ''size_y_nm'', ''shape'', ''rotation_udeg'', ''layers'', ''pad_drill_nm'']"

definition pad_optional_fields :: "string list" where
  "pad_optional_fields = [''net_id'', ''locked'', ''drill_x_nm'', ''drill_y_nm'', ''drill_rotation_udeg'', ''shared_land_group_id'']"

definition footprint_pad :: "payload \<Rightarrow> dpad result" where
  "footprint_pad p =
     bind_r (payload_keys p pad_required_fields pad_optional_fields) (\<lambda>_.
     bind_r (p_string p ''pad_id'') (\<lambda>i. bind_r (p_string p ''component_id'') (\<lambda>c.
     bind_r (p_string p ''pad_number'') (\<lambda>pn. bind_r (p_point p ''center_x_nm'' ''center_y_nm'') (\<lambda>center.
     bind_r (p_integer p ''size_x_nm'') (\<lambda>sx. bind_r (p_integer p ''size_y_nm'') (\<lambda>sy.
     bind_r (p_string p ''shape'') (\<lambda>sh. bind_r (p_integer p ''rotation_udeg'') (\<lambda>rot.
     bind_r (p_string_tuple p ''layers'') (\<lambda>ls. bind_r (p_integer p ''pad_drill_nm'') (\<lambda>drill.
     bind_r (p_optional_string p ''net_id'') (\<lambda>net. bind_r (p_boolean p ''locked'' False) (\<lambda>locked.
     bind_r (p_integer_or p ''drill_x_nm'' 0) (\<lambda>dx. bind_r (p_integer_or p ''drill_y_nm'' 0) (\<lambda>dy.
     bind_r (p_integer_or p ''drill_rotation_udeg'' 0) (\<lambda>dr. bind_r (p_optional_string p ''shared_land_group_id'') (\<lambda>group.
     dpad_init \<lparr>dpad_id = i, dpad_component_id = c, dpad_pad_number = pn, dpad_center = center, dpad_size_x_nm = sx,
       dpad_size_y_nm = sy, dpad_shape = sh, dpad_rotation_udeg = rot, dpad_layers = ls, dpad_drill_nm = drill,
       dpad_net_id = net, dpad_locked = locked, dpad_drill_x_nm = dx, dpad_drill_y_nm = dy,
       dpad_drill_rotation_udeg = dr, dpad_shared_land_group_id = group\<rparr>)))))))))))))))))"

definition component_from :: "payload \<Rightarrow> dcomponent result" where
  "component_from p =
     bind_r (payload_keys p [''component_id'', ''reference'', ''value'', ''manufacturer_part_number'', ''package'',
       ''symbol_id'', ''footprint_id'', ''datasheet_sha256'', ''pin_map_sha256'', ''pins''] []) (\<lambda>_.
     bind_r (case map_of p ''pins'' of Some (JList js) \<Rightarrow> Inr js | _ \<Rightarrow> Inl (InvariantViolation ''component pins must be an array'')) (\<lambda>js.
     bind_r (map_r pin_from js) (\<lambda>pins. bind_r (map_r pin_keys js) (\<lambda>_.
     bind_r (p_string p ''component_id'') (\<lambda>i. bind_r (p_string p ''reference'') (\<lambda>rf.
     bind_r (p_string p ''value'') (\<lambda>vl. bind_r (p_string p ''manufacturer_part_number'') (\<lambda>mpn.
     bind_r (p_string p ''package'') (\<lambda>pk. bind_r (p_string p ''symbol_id'') (\<lambda>sym.
     bind_r (p_string p ''footprint_id'') (\<lambda>fp. bind_r (p_string p ''datasheet_sha256'') (\<lambda>ds.
     bind_r (p_string p ''pin_map_sha256'') (\<lambda>pm.
     validated dcomponent_post_init \<lparr>dcomp_id = i, dcomp_reference = rf, dcomp_value = vl,
       dcomp_manufacturer_part_number = mpn, dcomp_package = pk, dcomp_symbol_id = sym, dcomp_footprint_id = fp,
       dcomp_datasheet_sha256 = ds, dcomp_pin_map_sha256 = pm, dcomp_pins = pins\<rparr>)))))))))))))"

definition placement_from :: "payload \<Rightarrow> string \<Rightarrow> placement result" where
  "placement_from p component_id =
     bind_r (p_point p ''x_nm'' ''y_nm'') (\<lambda>pos. bind_r (p_integer p ''rotation_udeg'') (\<lambda>rot.
     bind_r (p_string p ''side'') (\<lambda>side. bind_r (p_boolean p ''locked'' False) (\<lambda>locked.
     validated placement_post_init \<lparr>pl_component_id = component_id, pl_position = pos, pl_rotation_udeg = rot,
       pl_side = side, pl_locked = locked\<rparr>))))"

definition hole_from :: "payload \<Rightarrow> dhole result" where
  "hole_from p =
     bind_r (payload_keys p [''hole_id'', ''component_id'', ''center_x_nm'', ''center_y_nm'', ''diameter_nm'', ''plated'']
       [''pad_id'', ''locked'', ''drill_x_nm'', ''drill_y_nm'', ''drill_rotation_udeg'']) (\<lambda>_.
     bind_r (p_string p ''hole_id'') (\<lambda>i. bind_r (p_string p ''component_id'') (\<lambda>c.
     bind_r (p_point p ''center_x_nm'' ''center_y_nm'') (\<lambda>center. bind_r (p_integer p ''diameter_nm'') (\<lambda>dia.
     bind_r (p_boolean p ''plated'' False) (\<lambda>plated. bind_r (p_optional_string p ''pad_id'') (\<lambda>pad.
     bind_r (p_boolean p ''locked'' False) (\<lambda>locked. bind_r (p_integer_or p ''drill_x_nm'' 0) (\<lambda>dx.
     bind_r (p_integer_or p ''drill_y_nm'' 0) (\<lambda>dy. bind_r (p_integer_or p ''drill_rotation_udeg'' 0) (\<lambda>dr.
     dhole_init \<lparr>dhole_id = i, dhole_component_id = c, dhole_center = center, dhole_diameter_nm = dia,
       dhole_plated = plated, dhole_pad_id = pad, dhole_locked = locked, dhole_drill_x_nm = dx, dhole_drill_y_nm = dy,
       dhole_drill_rotation_udeg = dr\<rparr>)))))))))))"

definition track_from :: "payload \<Rightarrow> dtrack result" where
  "track_from p =
     bind_r (payload_keys p [''track_id'', ''net_id'', ''layer'', ''start_x_nm'', ''start_y_nm'', ''end_x_nm'', ''end_y_nm'',
       ''width_nm''] [''locked'']) (\<lambda>_.
     bind_r (p_string p ''track_id'') (\<lambda>i. bind_r (p_string p ''net_id'') (\<lambda>n. bind_r (p_string p ''layer'') (\<lambda>l.
     bind_r (p_point p ''start_x_nm'' ''start_y_nm'') (\<lambda>s. bind_r (p_point p ''end_x_nm'' ''end_y_nm'') (\<lambda>e.
     bind_r (p_integer p ''width_nm'') (\<lambda>w. bind_r (p_boolean p ''locked'' False) (\<lambda>locked.
     validated dtrack_post_init \<lparr>dtrack_id = i, dtrack_net_id = n, dtrack_layer = l, dtrack_start = s, dtrack_end = e,
       dtrack_width_nm = w, dtrack_locked = locked\<rparr>))))))))"

definition via_from :: "payload \<Rightarrow> dvia result" where
  "via_from p =
     bind_r (payload_keys p [''via_id'', ''net_id'', ''center_x_nm'', ''center_y_nm'', ''diameter_nm'', ''drill_nm'', ''layers'']
       [''locked'']) (\<lambda>_.
     bind_r (p_string p ''via_id'') (\<lambda>i. bind_r (p_string p ''net_id'') (\<lambda>n.
     bind_r (p_point p ''center_x_nm'' ''center_y_nm'') (\<lambda>center. bind_r (p_integer p ''diameter_nm'') (\<lambda>dia.
     bind_r (p_integer p ''drill_nm'') (\<lambda>drill. bind_r (p_string_tuple p ''layers'') (\<lambda>ls.
     bind_r (p_boolean p ''locked'' False) (\<lambda>locked.
     validated dvia_post_init \<lparr>dvia_id = i, dvia_net_id = n, dvia_center = center, dvia_diameter_nm = dia,
       dvia_drill_nm = drill, dvia_layers = ls, dvia_locked = locked\<rparr>))))))))"

definition zone_from :: "(byte list \<Rightarrow> byte list) \<Rightarrow> payload \<Rightarrow> dzone result" where
  "zone_from h p =
     bind_r (payload_keys p [''zone_id'', ''net_id'', ''layer'', ''outline'', ''clearance_nm'']
       [''min_thickness_nm'', ''priority'', ''locked'']) (\<lambda>_.
     bind_r (p_string p ''zone_id'') (\<lambda>i. bind_r (p_string p ''net_id'') (\<lambda>n. bind_r (p_string p ''layer'') (\<lambda>l.
     bind_r (p_points p ''outline'') (\<lambda>vs. bind_r (p_integer p ''clearance_nm'') (\<lambda>cl.
     bind_r (p_integer_or p ''min_thickness_nm'' 100000) (\<lambda>th. bind_r (p_integer_or p ''priority'' 0) (\<lambda>pr.
     bind_r (p_boolean p ''locked'' False) (\<lambda>locked.
     validated (dzone_post_init h) \<lparr>dzone_id = i, dzone_net_id = n, dzone_layer = l, dzone_outline = vs,
       dzone_clearance_nm = cl, dzone_min_thickness_nm = th, dzone_priority = pr, dzone_locked = locked,
       dzone_fill_state = Fill_UNFILLED_INTENT, dzone_fill_evidence = None\<rparr>)))))))))"

definition wire_from :: "payload \<Rightarrow> dwire result" where
  "wire_from p =
     bind_r (payload_keys p [''wire_id'', ''net_id'', ''vertices''] [''sheet_id'', ''locked'']) (\<lambda>_.
     bind_r (p_string p ''wire_id'') (\<lambda>i. bind_r (p_string p ''net_id'') (\<lambda>n. bind_r (p_points p ''vertices'') (\<lambda>vs.
     bind_r (p_string_or p ''sheet_id'' ''root'') (\<lambda>sheet. bind_r (p_boolean p ''locked'' False) (\<lambda>locked.
     validated wire_post_init \<lparr>wire_id = i, wire_net_id = n, wire_vertices = vs, wire_sheet_id = sheet,
       wire_locked = locked\<rparr>))))))"

definition junction_from :: "payload \<Rightarrow> junction result" where
  "junction_from p =
     bind_r (payload_keys p [''junction_id'', ''net_id'', ''x_nm'', ''y_nm''] [''sheet_id'', ''locked'']) (\<lambda>_.
     bind_r (p_string p ''junction_id'') (\<lambda>i. bind_r (p_string p ''net_id'') (\<lambda>n.
     bind_r (p_point p ''x_nm'' ''y_nm'') (\<lambda>pos.
     bind_r (p_string_or p ''sheet_id'' ''root'') (\<lambda>sheet. bind_r (p_boolean p ''locked'' False) (\<lambda>locked.
     validated junction_post_init \<lparr>junction_id = i, junction_net_id = n, junction_position = pos,
       junction_sheet_id = sheet, junction_locked = locked\<rparr>))))))"

section \<open>Applying a command\<close>

text \<open>\<^verbatim>\<open>replace(graph, ...)\<close> validates the new graph object.\<close>

definition graph_replace :: "design_graph \<Rightarrow> design_graph result" where
  "graph_replace g = validated design_graph_post_init g"

definition apply_component_add :: "design_graph \<Rightarrow> payload \<Rightarrow> design_graph result" where
  "apply_component_add g p =
     bind_r (component_from p) (\<lambda>c.
     bind_r (violations
       [(dcomp_id c \<in> set (map dcomp_id (dg_components g)), ''component already exists''),
        (dcomp_reference c \<in> set (map dcomp_reference (dg_components g)), ''component reference already exists'')]) (\<lambda>_.
     graph_replace (g\<lparr>dg_components := dg_components g @ [c]\<rparr>)))"

definition placement_of :: "design_graph \<Rightarrow> string \<Rightarrow> placement option" where
  "placement_of g i = List.find (\<lambda>q. pl_component_id q = i) (dg_placements g)"

definition placement_locked :: "design_graph \<Rightarrow> string \<Rightarrow> bool" where
  "placement_locked g i = (case placement_of g i of None \<Rightarrow> False | Some q \<Rightarrow> pl_locked q)"

definition apply_component_remove :: "design_graph \<Rightarrow> payload \<Rightarrow> design_graph result" where
  "apply_component_remove g p =
     bind_r (payload_keys p [''component_id''] []) (\<lambda>_.
     bind_r (p_string p ''component_id'') (\<lambda>i.
     bind_r (raise_first
       [(i \<notin> set (map dcomp_id (dg_components g)), InvariantViolation ''unknown component''),
        (\<exists>r \<in> set (all_members g). ref_component_id r = i, InvariantViolation ''disconnect a component before removal''),
        (placement_locked g i, LockedObject ''locked placement''),
        ((\<exists>q \<in> set (dg_pads g). dpad_component_id q = i \<and> dpad_locked q)
          \<or> (\<exists>x \<in> set (dg_holes g). dhole_component_id x = i \<and> dhole_locked x), LockedObject ''locked footprint geometry'')]) (\<lambda>_.
     graph_replace (g\<lparr>
       dg_components := filter (\<lambda>c. dcomp_id c \<noteq> i) (dg_components g),
       dg_placements := filter (\<lambda>q. pl_component_id q \<noteq> i) (dg_placements g),
       dg_pads := filter (\<lambda>q. dpad_component_id q \<noteq> i) (dg_pads g),
       dg_holes := filter (\<lambda>x. dhole_component_id x \<noteq> i) (dg_holes g)\<rparr>))))"

definition apply_net_create :: "design_graph \<Rightarrow> payload \<Rightarrow> design_graph result" where
  "apply_net_create g p =
     bind_r (payload_keys p [''net_id'', ''name''] []) (\<lambda>_.
     bind_r (p_string p ''net_id'') (\<lambda>i. bind_r (p_string p ''name'') (\<lambda>name.
     bind_r (violations [(i \<in> set (map dnet_id (dg_nets g)), ''net already exists''),
       (name \<in> set (map dnet_name (dg_nets g)), ''net name already exists'')]) (\<lambda>_.
     bind_r (validated dnet_post_init \<lparr>dnet_id = i, dnet_name = name, dnet_members = []\<rparr>) (\<lambda>n.
     graph_replace (g\<lparr>dg_nets := dg_nets g @ [n]\<rparr>))))))"

definition connected_net :: "design_graph \<Rightarrow> pin_ref \<Rightarrow> dnet option" where
  "connected_net g r = List.find (\<lambda>n. r \<in> set (dnet_members n)) (dg_nets g)"

definition apply_net_connect :: "design_graph \<Rightarrow> payload \<Rightarrow> design_graph result" where
  "apply_net_connect g p =
     bind_r (payload_keys p [''net_id'', ''component_id'', ''pin_number''] []) (\<lambda>_.
     bind_r (p_string p ''net_id'') (\<lambda>i. bind_r (p_string p ''component_id'') (\<lambda>c. bind_r (p_string p ''pin_number'') (\<lambda>pn.
     bind_r (validated pin_ref_post_init \<lparr>ref_component_id = c, ref_pin_number = pn\<rparr>) (\<lambda>r.
     bind_r (case connected_net g r of None \<Rightarrow> Inr ()
       | Some n \<Rightarrow> Inl (if dnet_id n = i then CommandConflict ''pin is already connected''
           else InvariantViolation ''pin already belongs to another net'')) (\<lambda>_.
     bind_r (map_r (\<lambda>n. if dnet_id n = i then validated dnet_post_init (n\<lparr>dnet_members := dnet_members n @ [r]\<rparr>) else Inr n)
       (dg_nets g)) (\<lambda>ns.
     bind_r (violations [(i \<notin> set (map dnet_id (dg_nets g)), ''unknown net'')]) (\<lambda>_.
     graph_replace (g\<lparr>dg_nets := ns\<rparr>)))))))))"

definition apply_footprint_place :: "design_graph \<Rightarrow> payload \<Rightarrow> design_graph result" where
  "apply_footprint_place g p =
     bind_r (payload_keys p [''component_id'', ''x_nm'', ''y_nm'', ''rotation_udeg'', ''side''] [''locked'']) (\<lambda>_.
     bind_r (p_string p ''component_id'') (\<lambda>i.
     bind_r (raise_first
       [(i \<notin> set (map dcomp_id (dg_components g)), InvariantViolation ''unknown component''),
        (placement_locked g i, LockedObject ''placement is locked'')]) (\<lambda>_.
     bind_r (placement_from p i) (\<lambda>q.
     graph_replace (g\<lparr>dg_placements := filter (\<lambda>q. pl_component_id q \<noteq> i) (dg_placements g) @ [q]\<rparr>)))))"

definition apply_pad_add :: "design_graph \<Rightarrow> payload \<Rightarrow> design_graph result" where
  "apply_pad_add g p =
     bind_r (footprint_pad p) (\<lambda>q.
     bind_r (violations [(dpad_shared_land_group_id q \<noteq> None, ''a shared land must be added atomically''),
       (dpad_id q \<in> set (map dpad_id (dg_pads g)), ''pad already exists'')]) (\<lambda>_.
     graph_replace (g\<lparr>dg_pads := dg_pads g @ [q]\<rparr>)))"

fun as_object :: "json \<Rightarrow> payload result" where
  "as_object (JObj p) = Inr p"
| "as_object _ = Inl (InvariantViolation ''exact pad objects'')"

definition apply_pad_group_add :: "design_graph \<Rightarrow> payload \<Rightarrow> design_graph result" where
  "apply_pad_group_add g p =
     bind_r (payload_keys p [''shared_land_group_id'', ''pads''] []) (\<lambda>_.
     bind_r (p_string p ''shared_land_group_id'') (\<lambda>i.
     bind_r (case map_of p ''pads'' of Some (JList js) \<Rightarrow> if length js < 2 then Inl (InvariantViolation ''at least two pads'')
         else map_r as_object js | _ \<Rightarrow> Inl (InvariantViolation ''shared land pads must be an array'')) (\<lambda>ps.
     bind_r (map_r footprint_pad ps) (\<lambda>qs.
     bind_r (violations
       [(\<exists>q \<in> set qs. dpad_shared_land_group_id q \<noteq> Some i, ''every shared land pad must bind the exact command group ID''),
        (\<not> distinct (map dpad_id qs) \<or> (\<exists>q \<in> set (dg_pads g). dpad_id q \<in> set (map dpad_id qs)),
          ''shared land physical pad IDs must be new and unique'')]) (\<lambda>_.
     graph_replace (g\<lparr>dg_pads := dg_pads g @ qs\<rparr>))))))"

definition apply_hole_add :: "design_graph \<Rightarrow> payload \<Rightarrow> design_graph result" where
  "apply_hole_add g p = bind_r (hole_from p) (\<lambda>x.
     bind_r (violations [(dhole_id x \<in> set (map dhole_id (dg_holes g)), ''hole already exists'')]) (\<lambda>_.
     graph_replace (g\<lparr>dg_holes := dg_holes g @ [x]\<rparr>)))"

definition apply_track_add :: "design_graph \<Rightarrow> payload \<Rightarrow> design_graph result" where
  "apply_track_add g p = bind_r (track_from p) (\<lambda>t.
     bind_r (violations [(dtrack_id t \<in> set (map dtrack_id (dg_tracks g)), ''track already exists'')]) (\<lambda>_.
     graph_replace (g\<lparr>dg_tracks := dg_tracks g @ [t]\<rparr>)))"

definition apply_via_add :: "design_graph \<Rightarrow> payload \<Rightarrow> design_graph result" where
  "apply_via_add g p = bind_r (via_from p) (\<lambda>v.
     bind_r (violations [(dvia_id v \<in> set (map dvia_id (dg_vias g)), ''via already exists'')]) (\<lambda>_.
     graph_replace (g\<lparr>dg_vias := dg_vias g @ [v]\<rparr>)))"

definition apply_zone_add :: "(byte list \<Rightarrow> byte list) \<Rightarrow> design_graph \<Rightarrow> payload \<Rightarrow> design_graph result" where
  "apply_zone_add h g p = bind_r (zone_from h p) (\<lambda>z.
     bind_r (violations [(dzone_id z \<in> set (map dzone_id (dg_zones g)), ''zone already exists'')]) (\<lambda>_.
     graph_replace (g\<lparr>dg_zones := dg_zones g @ [z]\<rparr>)))"

definition apply_wire_add :: "design_graph \<Rightarrow> payload \<Rightarrow> design_graph result" where
  "apply_wire_add g p = bind_r (wire_from p) (\<lambda>w.
     bind_r (violations [(wire_id w \<in> set (map wire_id (dg_wires g)), ''schematic wire already exists'')]) (\<lambda>_.
     graph_replace (g\<lparr>dg_wires := dg_wires g @ [w]\<rparr>)))"

definition apply_junction_add :: "design_graph \<Rightarrow> payload \<Rightarrow> design_graph result" where
  "apply_junction_add g p = bind_r (junction_from p) (\<lambda>j.
     bind_r (violations [(junction_id j \<in> set (map junction_id (dg_junctions g)), ''schematic junction already exists'')]) (\<lambda>_.
     graph_replace (g\<lparr>dg_junctions := dg_junctions g @ [j]\<rparr>)))"

definition apply_set_outline :: "design_graph \<Rightarrow> payload \<Rightarrow> design_graph result" where
  "apply_set_outline g p = bind_r (payload_keys p [''vertices''] []) (\<lambda>_.
     bind_r (p_points p ''vertices'') (\<lambda>vs. graph_replace (g\<lparr>dg_board_outline := vs\<rparr>)))"

definition apply_command :: "(byte list \<Rightarrow> byte list) \<Rightarrow> design_graph \<Rightarrow> design_command \<Rightarrow> design_graph result" where
  "apply_command h g c = (let p = cmd_payload c in
     case cmd_kind c of
       COMPONENT_ADD \<Rightarrow> apply_component_add g p
     | COMPONENT_REMOVE \<Rightarrow> apply_component_remove g p
     | NET_CREATE \<Rightarrow> apply_net_create g p
     | NET_CONNECT \<Rightarrow> apply_net_connect g p
     | FOOTPRINT_PLACE \<Rightarrow> apply_footprint_place g p
     | FOOTPRINT_PAD_ADD \<Rightarrow> apply_pad_add g p
     | FOOTPRINT_PAD_GROUP_ADD \<Rightarrow> apply_pad_group_add g p
     | FOOTPRINT_HOLE_ADD \<Rightarrow> apply_hole_add g p
     | TRACK_ADD \<Rightarrow> apply_track_add g p
     | VIA_ADD \<Rightarrow> apply_via_add g p
     | ZONE_ADD \<Rightarrow> apply_zone_add h g p
     | SCHEMATIC_WIRE_ADD \<Rightarrow> apply_wire_add g p
     | SCHEMATIC_JUNCTION_ADD \<Rightarrow> apply_junction_add g p
     | BOARD_SET_OUTLINE \<Rightarrow> apply_set_outline g p)"

end
