(* ===== verification/Commit_Authority.thy ===== *)
theory Commit_Authority
  imports Design_Graph
begin

text \<open>
  \<^verbatim>\<open>backend/design_kernel/commit_authority.py\<close>: the registry of release approvals, the issuer
  of sealed single-use commit capabilities and the verifier that consumes them. The state of the
  authority is passed explicitly and returned with every result, because an operation that raises may
  have changed it (the clock is observed first). A timestamp in canonical UTC is its instant in
  microseconds; a reading of the clock is an argument. The token that ties verified claims to the
  verifier is not modelled: a kernel uses one verifier. The nonce of \<^verbatim>\<open>secrets.token_hex\<close> is an argument.
\<close>

section \<open>Approvals\<close>

record release_approval =
  ra_approval_id :: string
  ra_run_id :: string
  ra_kind :: string
  ra_subject_digest :: string
  ra_approval_digest :: string
  ra_principal :: string
  ra_decided_at :: int
  ra_expires_at :: "int option"
  ra_verification_report_hash :: string
  ra_verified_preview_digest :: string
  ra_commit_gate_passed :: bool

definition release_approval_post_init :: "release_approval \<Rightarrow> unit result" where
  "release_approval_post_init a = violations
     [(\<not> id_ok (ra_approval_id a), ''release approval ID''), (\<not> id_ok (ra_run_id a), ''release approval run ID''),
      (\<not> id_ok (ra_kind a) \<or> ra_kind a \<noteq> ''release'', ''commit authority accepts release approvals only''),
      (\<not> is_sha256_hex (ra_subject_digest a), ''release approval subject digest''),
      (\<not> is_sha256_hex (ra_approval_digest a), ''release approval digest''),
      (\<not> id_ok (ra_principal a), ''release approval principal''),
      ((case ra_expires_at a of None \<Rightarrow> False | Some t \<Rightarrow> t \<le> ra_decided_at a), ''release approval expiry must follow its decision''),
      (\<not> is_sha256_hex (ra_verification_report_hash a), ''release approval verification report hash''),
      (\<not> is_sha256_hex (ra_verified_preview_digest a), ''release approval verified preview digest''),
      (\<not> ra_commit_gate_passed a, ''release approval requires a passing commit gate'')]"

definition snapshot_release_approval :: "release_approval \<Rightarrow> release_approval result" where
  "snapshot_release_approval a = (case release_approval_post_init a of
     Inl _ \<Rightarrow> Inl (InvalidCommitAuthorization ''release approval values are not canonical'') | Inr _ \<Rightarrow> Inr a)"

section \<open>Capabilities\<close>

definition commit_command_hashes_digest :: "(byte list \<Rightarrow> byte list) \<Rightarrow> string list \<Rightarrow> string result" where
  "commit_command_hashes_digest h cs =
     bind_r (violations [(cs = [], ''commit authorization requires ordered command hashes''),
       (\<exists>c \<in> set cs. \<not> is_sha256_hex c, ''commit authorization command hash'')])
     (\<lambda>_. Inr (design_hash h ''flux-clone-kernel-commit-command-hashes-v1'' (json_strings cs)))"

record commit_authorization =
  ca_scope :: string
  ca_version :: int
  ca_key_id :: string
  ca_authorization_id :: string
  ca_project_id :: string
  ca_base_revision :: string
  ca_head_revision :: string
  ca_transaction_id :: string
  ca_command_hashes :: "string list"
  ca_command_hashes_digest :: string
  ca_preview_digest :: string
  ca_prospective_graph_sha256 :: string
  ca_verification_report_hash :: string
  ca_verified_preview_digest :: string
  ca_commit_gate_passed :: bool
  ca_release_subject_digest :: string
  ca_human_approval_id :: string
  ca_human_approval_run_id :: string
  ca_human_approval_kind :: string
  ca_human_approval_digest :: string
  ca_human_approval_principal :: string
  ca_human_approval_decided_at :: int
  ca_human_approval_expires_at :: "int option"
  ca_issued_at :: int
  ca_expires_at :: int
  ca_nonce :: string
  ca_authorization_digest :: string
  ca_seal :: string

definition authorization_payload :: "commit_authorization \<Rightarrow> json" where
  "authorization_payload a = JObj [(''scope'', JStr (ca_scope a)), (''version'', JInt (ca_version a)),
     (''key_id'', JStr (ca_key_id a)), (''project_id'', JStr (ca_project_id a)),
     (''base_revision'', JStr (ca_base_revision a)), (''head_revision'', JStr (ca_head_revision a)),
     (''transaction_id'', JStr (ca_transaction_id a)), (''command_hashes'', json_strings (ca_command_hashes a)),
     (''command_hashes_digest'', JStr (ca_command_hashes_digest a)), (''preview_digest'', JStr (ca_preview_digest a)),
     (''prospective_graph_sha256'', JStr (ca_prospective_graph_sha256 a)),
     (''verification_report_hash'', JStr (ca_verification_report_hash a)),
     (''verified_preview_digest'', JStr (ca_verified_preview_digest a)),
     (''commit_gate_passed'', JBool (ca_commit_gate_passed a)),
     (''release_subject_digest'', JStr (ca_release_subject_digest a)),
     (''human_approval_id'', JStr (ca_human_approval_id a)), (''human_approval_run_id'', JStr (ca_human_approval_run_id a)),
     (''human_approval_kind'', JStr (ca_human_approval_kind a)), (''human_approval_digest'', JStr (ca_human_approval_digest a)),
     (''human_approval_principal'', JStr (ca_human_approval_principal a)),
     (''human_approval_decided_at'', JStr (canonical_time (ca_human_approval_decided_at a))),
     (''human_approval_expires_at'', json_opt (JStr \<circ> canonical_time) (ca_human_approval_expires_at a)),
     (''issued_at'', JStr (canonical_time (ca_issued_at a))), (''expires_at'', JStr (canonical_time (ca_expires_at a))),
     (''nonce'', JStr (ca_nonce a))]"

definition authorization_digest :: "(byte list \<Rightarrow> byte list) \<Rightarrow> commit_authorization \<Rightarrow> string" where
  "authorization_digest h a = design_hash h ''flux-clone-kernel-commit-authorization-v2'' (authorization_payload a)"

definition authorization_id_of :: "string \<Rightarrow> string" where
  "authorization_id_of d = ''commit-authorization-'' @ take 32 d"

definition authorization_seal :: "(byte list \<Rightarrow> byte list) \<Rightarrow> byte list \<Rightarrow> string \<Rightarrow> string \<Rightarrow> json \<Rightarrow> string" where
  "authorization_seal h secret i d claims = hexdigest (hmac h secret
     (utf8_bytes ''flux-clone-kernel-commit-authorization-seal-v2'' @ [0] @ utf8_bytes (canonical_json
       (JObj [(''authorization_id'', JStr i), (''authorization_digest'', JStr d), (''claims'', claims)]))))"

definition validate_authorization_values :: "(byte list \<Rightarrow> byte list) \<Rightarrow> commit_authorization \<Rightarrow> unit result" where
  "validate_authorization_values h a =
     bind_r (violations (
       [(\<not> id_ok (ca_scope a), ''commit authorization scope''), (ca_version a < 1, ''commit authorization version'')]
       @ map (\<lambda>s. (\<not> id_ok s, ''commit authorization ID field'')) [ca_key_id a, ca_authorization_id a, ca_project_id a,
           ca_transaction_id a, ca_human_approval_id a, ca_human_approval_run_id a, ca_human_approval_kind a,
           ca_human_approval_principal a]
       @ map (\<lambda>s. (\<not> is_sha256_hex s, ''commit authorization digest field'')) [ca_base_revision a, ca_head_revision a,
           ca_command_hashes_digest a, ca_preview_digest a, ca_prospective_graph_sha256 a, ca_verification_report_hash a,
           ca_verified_preview_digest a, ca_release_subject_digest a, ca_human_approval_digest a, ca_nonce a,
           ca_authorization_digest a, ca_seal a]
       @ [(\<not> ca_commit_gate_passed a, ''commit authorization requires a passing gate''),
          ((case ca_human_approval_expires_at a of None \<Rightarrow> False | Some t \<Rightarrow> t \<le> ca_human_approval_decided_at a),
            ''commit authorization approval expiry is invalid''),
          (ca_issued_at a \<ge> ca_expires_at a, ''commit authorization must expire after it is issued'')])) (\<lambda>_.
     bind_r (commit_command_hashes_digest h (ca_command_hashes a)) (\<lambda>d.
     violations [(d \<noteq> ca_command_hashes_digest a, ''commit authorization ordered command digest is inconsistent'')]))"

definition commit_authorization_post_init :: "(byte list \<Rightarrow> byte list) \<Rightarrow> commit_authorization \<Rightarrow> unit result" where
  "commit_authorization_post_init h a =
     bind_r (validate_authorization_values h a) (\<lambda>_. violations
       [(authorization_digest h a \<noteq> ca_authorization_digest a, ''commit authorization digest is inconsistent''),
        (ca_authorization_id a \<noteq> authorization_id_of (authorization_digest h a), ''commit authorization ID does not derive from its digest'')])"

definition snapshot_authorization :: "(byte list \<Rightarrow> byte list) \<Rightarrow> commit_authorization \<Rightarrow> commit_authorization result" where
  "snapshot_authorization h a = (case validate_authorization_values h a of
     Inl _ \<Rightarrow> Inl (InvalidCommitAuthorization ''commit authorization values are not canonical'') | Inr _ \<Rightarrow> Inr a)"

section \<open>The state of the authority\<close>

record authority =
  au_key_id :: string
  au_secret :: "byte list"
  au_required_release_principal :: string
  au_approvals :: "string \<Rightarrow> release_approval option"
  au_approval_ids_seen :: "string list"
  au_issued :: "string \<Rightarrow> release_approval option"
  au_consumed :: "string \<Rightarrow> string option"
  au_last_observed_at :: "int option"
  au_clock_poisoned :: bool

definition authority_init :: "string \<Rightarrow> byte list \<Rightarrow> string \<Rightarrow> authority result" where
  "authority_init key_id secret owner =
     bind_r (raise_first
       [(\<not> id_ok key_id, InvariantViolation ''commit authority key ID''),
        (\<not> id_ok owner, InvariantViolation ''required release principal''),
        (length secret < 32, ValueError ''commit authority secret'')]) (\<lambda>_.
     Inr \<lparr>au_key_id = key_id, au_secret = secret, au_required_release_principal = owner,
       au_approvals = (\<lambda>_. None), au_approval_ids_seen = [], au_issued = (\<lambda>_. None), au_consumed = (\<lambda>_. None),
       au_last_observed_at = None, au_clock_poisoned = False\<rparr>)"

definition observe_now :: "authority \<Rightarrow> datetime \<Rightarrow> int result \<times> authority" where
  "observe_now au clock =
     (if au_clock_poisoned au then (Inl (CommitAuthorityClockRollback ''previously moved backwards''), au)
      else if \<not> is_aware clock then (Inl (InvalidCommitAuthorization ''commit authority clock is invalid''), au)
      else if \<not> in_datetime_range (instant clock) then (Inl OverflowError, au)
      else case au_last_observed_at au of
        Some previous \<Rightarrow> if instant clock < previous
          then (Inl (CommitAuthorityClockRollback ''moved backwards''), au\<lparr>au_clock_poisoned := True\<rparr>)
          else (Inr (instant clock), au\<lparr>au_last_observed_at := Some (instant clock)\<rparr>)
      | None \<Rightarrow> (Inr (instant clock), au\<lparr>au_last_observed_at := Some (instant clock)\<rparr>))"

text \<open>Continue with the observed time, or keep the error and the state.\<close>

definition with_now :: "authority \<Rightarrow> datetime \<Rightarrow> (authority \<Rightarrow> int \<Rightarrow> 'a result \<times> authority) \<Rightarrow> 'a result \<times> authority" where
  "with_now au clock f = (case observe_now au clock of (Inl e, au') \<Rightarrow> (Inl e, au') | (Inr now, au') \<Rightarrow> f au' now)"

section \<open>Verification\<close>

record verified_claims =
  vc_claims :: commit_authorization
  vc_release_approval :: release_approval
  vc_verified_at :: int
  vc_previously_consumed :: "string option"

definition match_registered_approval :: "commit_authorization \<Rightarrow> release_approval \<Rightarrow> release_approval \<Rightarrow> int \<Rightarrow> unit result" where
  "match_registered_approval c a issued now = raise_first
     [(\<not> (ca_human_approval_id c = ra_approval_id a \<and> ra_approval_id a = ra_approval_id issued
          \<and> ca_human_approval_run_id c = ra_run_id a
          \<and> ca_human_approval_kind c = ra_kind a \<and> ra_kind a = ''release''
          \<and> ca_human_approval_digest c = ra_approval_digest a
          \<and> ra_approval_digest issued = ra_approval_digest a
          \<and> ca_human_approval_principal c = ra_principal a
          \<and> ca_human_approval_decided_at c = ra_decided_at a
          \<and> ca_human_approval_expires_at c = ra_expires_at a
          \<and> ca_verification_report_hash c = ra_verification_report_hash a
          \<and> ca_verified_preview_digest c = ra_verified_preview_digest a
          \<and> ca_release_subject_digest c = ra_subject_digest a
          \<and> ca_commit_gate_passed c \<and> ra_commit_gate_passed a),
        InvalidCommitAuthorization ''no longer matches its server-owned release approval''),
      ((case ra_expires_at a of None \<Rightarrow> False | Some t \<Rightarrow> now \<ge> t), ExpiredCommitAuthorization ''registered release approval has expired''),
      ((case ra_expires_at a of None \<Rightarrow> False | Some t \<Rightarrow> ca_expires_at c > t),
        InvalidCommitAuthorization ''commit authorization outlives its registered release approval'')]"

text \<open>\<^verbatim>\<open>hmac.compare_digest\<close> on strings raises \<^verbatim>\<open>TypeError\<close> outside ASCII.\<close>

definition same_digest :: "string \<Rightarrow> string \<Rightarrow> bool result" where
  "same_digest s t = (if \<exists>c \<in> set (s @ t). (of_char c :: nat) \<ge> 128 then Inl TypeError else Inr (s = t))"

definition verify_locked :: "(byte list \<Rightarrow> byte list) \<Rightarrow> authority \<Rightarrow> commit_authorization \<Rightarrow> int \<Rightarrow> verified_claims result" where
  "verify_locked h au c now =
     (let d = authorization_digest h c in
      bind_r (raise_first
        [(ca_scope c \<noteq> ''canonical-design-commit'' \<or> ca_version c \<noteq> 2 \<or> ca_key_id c \<noteq> au_key_id au,
           InvalidCommitAuthorization ''scope, version, or key ID is not trusted''),
         (d \<noteq> ca_authorization_digest c, InvalidCommitAuthorization ''digest is invalid''),
         (same_digest (authorization_id_of d) (ca_authorization_id c) = Inl TypeError, TypeError),
         (authorization_id_of d \<noteq> ca_authorization_id c, InvalidCommitAuthorization ''ID is invalid''),
         (authorization_seal h (au_secret au) (ca_authorization_id c) (ca_authorization_digest c) (authorization_payload c) \<noteq> ca_seal c,
           InvalidCommitAuthorization ''seal is invalid''),
         (now < ca_issued_at c, ExpiredCommitAuthorization ''issue time is in the future''),
         (now \<ge> ca_expires_at c, ExpiredCommitAuthorization ''has expired'')]) (\<lambda>_.
      case au_issued au (ca_authorization_digest c) of
        None \<Rightarrow> Inl (InvalidCommitAuthorization ''not present in this issuer incarnation'')
      | Some issued \<Rightarrow>
        (case au_approvals au (ra_approval_id issued) of
           None \<Rightarrow> Inl (InvalidCommitAuthorization ''release approval was revoked or is unknown'')
         | Some a \<Rightarrow>
           bind_r (raise_first [(a \<noteq> issued, InvalidCommitAuthorization ''no longer has its issued registry incarnation'')]) (\<lambda>_.
           bind_r (match_registered_approval c a issued now) (\<lambda>_.
           Inr \<lparr>vc_claims = c, vc_release_approval = a, vc_verified_at = now,
             vc_previously_consumed = au_consumed au (ca_nonce c)\<rparr>)))))"

definition verify_capability ::
  "(byte list \<Rightarrow> byte list) \<Rightarrow> authority \<Rightarrow> datetime \<Rightarrow> commit_authorization \<Rightarrow> verified_claims result \<times> authority" where
  "verify_capability h au clock a = (case snapshot_authorization h a of
     Inl e \<Rightarrow> (Inl e, au)
   | Inr c \<Rightarrow> with_now au clock (\<lambda>au' now. (verify_locked h au' c now, au')))"

record consumed_authorization =
  con_claims :: commit_authorization
  con_release_approval :: release_approval
  con_consumed_at :: int

definition consume_capability ::
  "(byte list \<Rightarrow> byte list) \<Rightarrow> authority \<Rightarrow> datetime \<Rightarrow> verified_claims \<Rightarrow> consumed_authorization result \<times> authority" where
  "consume_capability h au clock v = with_now au clock (\<lambda>au' now.
     case verify_locked h au' (vc_claims v) now of
       Inl e \<Rightarrow> (Inl e, au')
     | Inr w \<Rightarrow> if vc_previously_consumed w \<noteq> None
         then (Inl (ReplayedCommitAuthorization ''nonce has already been consumed''), au')
         else (Inr \<lparr>con_claims = vc_claims w, con_release_approval = vc_release_approval w, con_consumed_at = vc_verified_at w\<rparr>,
           au'\<lparr>au_consumed := (au_consumed au')(ca_nonce (vc_claims w) \<mapsto> ca_authorization_digest (vc_claims w))\<rparr>))"

section \<open>The registry and the issuer\<close>

definition register_release_approval :: "authority \<Rightarrow> datetime \<Rightarrow> release_approval \<Rightarrow> release_approval result \<times> authority" where
  "register_release_approval au clock approval = (case snapshot_release_approval approval of
     Inl e \<Rightarrow> (Inl e, au)
   | Inr a \<Rightarrow> with_now au clock (\<lambda>au' now.
       case raise_first
         [(ra_approval_id a \<in> set (au_approval_ids_seen au'), InvalidCommitAuthorization ''permanently bound or revoked''),
          (ra_principal a \<noteq> au_required_release_principal au', InvalidCommitAuthorization ''principal is not authorized to commit''),
          (ra_decided_at a > now, InvalidCommitAuthorization ''decision is in the future''),
          ((case ra_expires_at a of None \<Rightarrow> False | Some t \<Rightarrow> now \<ge> t), ExpiredCommitAuthorization ''release approval has expired'')] of
         Inl e \<Rightarrow> (Inl e, au')
       | Inr _ \<Rightarrow> (Inr a, au'\<lparr>au_approval_ids_seen := ra_approval_id a # au_approval_ids_seen au',
           au_approvals := (au_approvals au')(ra_approval_id a \<mapsto> a)\<rparr>)))"

definition revoke_release_approval :: "authority \<Rightarrow> datetime \<Rightarrow> string \<Rightarrow> unit result \<times> authority" where
  "revoke_release_approval au clock i =
     (if \<not> id_ok i then (Inl (InvariantViolation ''release approval ID''), au)
      else with_now au clock (\<lambda>au' now. (Inr (),
        au'\<lparr>au_approval_ids_seen := i # au_approval_ids_seen au', au_approvals := (au_approvals au')(i := None)\<rparr>)))"

definition release_subject :: "(byte list \<Rightarrow> byte list) \<Rightarrow> string \<Rightarrow> string \<Rightarrow> json \<Rightarrow> string" where
  "release_subject h base preview report = design_hash h ''flux-clone-release-v1''
     (JObj [(''base_revision'', JStr base), (''preview_digest'', JStr preview), (''report_hash'', report)])"

record issue_request =
  iq_project_id :: string
  iq_base_revision :: string
  iq_head_revision :: string
  iq_transaction_id :: string
  iq_command_hashes :: "string list"
  iq_preview_digest :: string
  iq_prospective_graph_sha256 :: string
  iq_approval_id :: string
  iq_lifetime :: int
  iq_nonce :: "string option"

definition unsealed_authorization :: "authority \<Rightarrow> issue_request \<Rightarrow> release_approval \<Rightarrow> string \<Rightarrow> string \<Rightarrow> int \<Rightarrow> int \<Rightarrow> commit_authorization" where
  "unsealed_authorization au q a commands_digest nonce now expiry = \<lparr>ca_scope = ''canonical-design-commit'', ca_version = 2,
     ca_key_id = au_key_id au, ca_authorization_id = [], ca_project_id = iq_project_id q,
     ca_base_revision = iq_base_revision q, ca_head_revision = iq_head_revision q,
     ca_transaction_id = iq_transaction_id q, ca_command_hashes = iq_command_hashes q,
     ca_command_hashes_digest = commands_digest, ca_preview_digest = iq_preview_digest q,
     ca_prospective_graph_sha256 = iq_prospective_graph_sha256 q,
     ca_verification_report_hash = ra_verification_report_hash a,
     ca_verified_preview_digest = ra_verified_preview_digest a, ca_commit_gate_passed = ra_commit_gate_passed a,
     ca_release_subject_digest = ra_subject_digest a, ca_human_approval_id = ra_approval_id a,
     ca_human_approval_run_id = ra_run_id a, ca_human_approval_kind = ra_kind a,
     ca_human_approval_digest = ra_approval_digest a, ca_human_approval_principal = ra_principal a,
     ca_human_approval_decided_at = ra_decided_at a, ca_human_approval_expires_at = ra_expires_at a,
     ca_issued_at = now, ca_expires_at = expiry, ca_nonce = nonce, ca_authorization_digest = [], ca_seal = []\<rparr>"

definition sealed_authorization :: "(byte list \<Rightarrow> byte list) \<Rightarrow> byte list \<Rightarrow> commit_authorization \<Rightarrow> commit_authorization" where
  "sealed_authorization h secret u = (let d = authorization_digest h u; i = authorization_id_of d in
     u\<lparr>ca_authorization_id := i, ca_authorization_digest := d,
       ca_seal := authorization_seal h secret i d (authorization_payload u)\<rparr>)"

definition issue_checked :: "(byte list \<Rightarrow> byte list) \<Rightarrow> authority \<Rightarrow> issue_request \<Rightarrow> string \<Rightarrow> int \<Rightarrow>
  (commit_authorization \<times> release_approval) result" where
  "issue_checked h au q fresh now =
     bind_r (violations [(\<not> id_ok (iq_approval_id q), ''release approval ID'')]) (\<lambda>_.
     case au_approvals au (iq_approval_id q) of
       None \<Rightarrow> Inl (InvalidCommitAuthorization ''release approval is not registered'')
     | Some a \<Rightarrow>
       bind_r (raise_first
         [(ra_subject_digest a \<noteq> release_subject h (iq_base_revision q) (iq_preview_digest q) (JStr (ra_verification_report_hash a)),
            InvalidCommitAuthorization ''does not bind the exact commit subject'')]) (\<lambda>_.
       bind_r (same_digest (ra_verified_preview_digest a) (iq_preview_digest q)) (\<lambda>same.
       bind_r (raise_first
         [(\<not> same, InvalidCommitAuthorization ''does not bind the exact verified preview''),
          ((case ra_expires_at a of None \<Rightarrow> False | Some t \<Rightarrow> now \<ge> t), ExpiredCommitAuthorization ''release approval has expired''),
          (\<not> in_datetime_range (now + iq_lifetime q), OverflowError)]) (\<lambda>_.
       let expiry = (case ra_expires_at a of None \<Rightarrow> now + iq_lifetime q | Some t \<Rightarrow> min (now + iq_lifetime q) t);
           nonce = (case iq_nonce q of Some n \<Rightarrow> n | None \<Rightarrow> fresh) in
       bind_r (commit_command_hashes_digest h (iq_command_hashes q)) (\<lambda>cd.
       bind_r (violations [(\<not> is_sha256_hex nonce, ''commit authorization nonce'')]) (\<lambda>_.
       bind_r (validated (commit_authorization_post_init h)
         (sealed_authorization h (au_secret au) (unsealed_authorization au q a cd nonce now expiry))) (\<lambda>c.
       bind_r (raise_first [(case au_issued au (ca_authorization_digest c) of None \<Rightarrow> False | Some r \<Rightarrow> r \<noteq> a,
           InvalidCommitAuthorization ''authorization digest collides with different approval evidence'')]) (\<lambda>_.
       Inr (c, a)))))))))"

definition issue_capability ::
  "(byte list \<Rightarrow> byte list) \<Rightarrow> authority \<Rightarrow> datetime \<Rightarrow> issue_request \<Rightarrow> string \<Rightarrow> commit_authorization result \<times> authority" where
  "issue_capability h au clock q fresh =
     (if iq_lifetime q \<le> 0 \<or> iq_lifetime q > 30000000 then (Inl (ValueError ''commit authorization lifetime''), au)
      else with_now au clock (\<lambda>au' now.
        case issue_checked h au' q fresh now of
          Inl e \<Rightarrow> (Inl e, au')
        | Inr (c, a) \<Rightarrow> (Inr c, au'\<lparr>au_issued := (au_issued au')(ca_authorization_digest c \<mapsto> a)\<rparr>)))"

end
