(* ===== verification/Design_Kernel.thy ===== *)
theory Design_Kernel
  imports Design_Commands Commit_Authority
begin

text \<open>
  Transactions and revisions of \<^verbatim>\<open>backend/design_kernel/model.py\<close> and the kernel of
  \<^verbatim>\<open>engine.py\<close>: staging commands, previews, verification evidence, commits under a
  capability, and rollback. Every operation takes the kernel and returns it updated; the lock makes each
  one atomic. A kernel either has no verifier or the verifier of the authority that is passed to
  \<^verbatim>\<open>commit\<close>, which reads the clock twice.
\<close>

section \<open>Transactions and revisions\<close>

datatype transaction_state = Tx_OPEN | Tx_VERIFIED | Tx_COMMITTED | Tx_ROLLED_BACK

record design_transaction =
  tx_id :: string
  tx_base_revision :: string
  tx_staged_graph :: design_graph
  tx_commands :: "design_command list"
  tx_state :: transaction_state
  tx_verification_report_hash :: "string option"
  tx_commit_gate_passed :: bool
  tx_preview_digest :: string
  tx_verification_preview_digest :: "string option"
  tx_committed_revision_hash :: "string option"

definition transaction_post_init :: "design_transaction \<Rightarrow> unit result" where
  "transaction_post_init t = violations
     [(\<not> id_ok (tx_id t), ''transaction ID''), (\<not> is_sha256_hex (tx_base_revision t), ''transaction base revision''),
      (tx_preview_digest t \<noteq> [] \<and> \<not> is_sha256_hex (tx_preview_digest t), ''transaction preview digest''),
      (\<not> opt_ok is_sha256_hex (tx_verification_report_hash t), ''verification report hash''),
      (\<not> opt_ok is_sha256_hex (tx_verification_preview_digest t), ''verified preview digest''),
      (\<not> opt_ok is_sha256_hex (tx_committed_revision_hash t), ''committed revision hash''),
      (\<not> distinct (map cmd_id (tx_commands t)), ''transaction command IDs must be unique''),
      (\<not> distinct (map cmd_idempotency_key (tx_commands t)), ''transaction idempotency keys must be unique''),
      (\<exists>c \<in> set (tx_commands t). cmd_transaction_id c \<noteq> tx_id t \<or> cmd_base_revision c \<noteq> tx_base_revision t,
        ''transaction commands must bind to the transaction and base''),
      (tx_state t = Tx_VERIFIED \<and> (\<not> tx_commit_gate_passed t \<or> tx_verification_report_hash t = None
          \<or> tx_verification_preview_digest t \<noteq> Some (tx_preview_digest t)),
        ''verified transaction must bind a passed report to its preview''),
      (tx_state t = Tx_COMMITTED \<and> tx_committed_revision_hash t = None, ''committed transaction must identify its revision''),
      (tx_state t = Tx_OPEN \<and> tx_commit_gate_passed t, ''open transaction cannot have a passed commit gate''),
      (tx_state t \<noteq> Tx_COMMITTED \<and> tx_committed_revision_hash t \<noteq> None,
        ''only a committed transaction may identify a committed revision'')]"

record design_revision =
  rev_revision_hash :: string
  rev_parent_revision :: "string option"
  rev_sequence :: int
  rev_graph :: design_graph
  rev_graph_hash :: string
  rev_command_hashes :: "string list"
  rev_verification_report_hash :: "string option"
  rev_approval_preview_digest :: "string option"

definition revision_post_init :: "(byte list \<Rightarrow> byte list) \<Rightarrow> design_revision \<Rightarrow> unit result" where
  "revision_post_init h r =
     bind_r (violations
       [(\<not> is_sha256_hex (rev_revision_hash r), ''revision hash''),
        (\<not> opt_ok is_sha256_hex (rev_parent_revision r), ''parent revision hash''),
        (rev_sequence r < 0, ''revision sequence must be a non-negative integer''),
        (\<not> is_sha256_hex (rev_graph_hash r), ''revision graph hash'')]) (\<lambda>_.
     bind_r (graph_hash h (rev_graph r)) (\<lambda>gh. violations
       [(rev_graph_hash r \<noteq> gh, ''revision graph hash does not match its graph''),
        (\<exists>c \<in> set (rev_command_hashes r). \<not> is_sha256_hex c, ''revision command hash''),
        (\<not> opt_ok is_sha256_hex (rev_verification_report_hash r), ''revision verification report hash''),
        (\<not> opt_ok is_sha256_hex (rev_approval_preview_digest r), ''revision approval preview digest''),
        (rev_sequence r = 0 \<and> (rev_parent_revision r \<noteq> None \<or> rev_command_hashes r \<noteq> []
            \<or> rev_verification_report_hash r \<noteq> None \<or> rev_approval_preview_digest r \<noteq> None),
          ''genesis revision cannot contain commit evidence''),
        (rev_sequence r \<noteq> 0 \<and> (rev_parent_revision r = None \<or> rev_command_hashes r = []
            \<or> rev_verification_report_hash r = None \<or> rev_approval_preview_digest r = None),
          ''non-genesis revision requires parent, commands, verification, and approval'')]))"

section \<open>The kernel\<close>

record kernel =
  k_revisions :: "string \<Rightarrow> design_revision option"
  k_head :: string
  k_transactions :: "string \<Rightarrow> design_transaction option"
  k_idempotency :: "string \<times> string \<Rightarrow> string option"
  k_command_ids :: "string \<Rightarrow> string option"
  k_commit_verifier :: bool
  k_committed_authorizations :: "string \<Rightarrow> string option"
  k_committed_evidence :: "string \<Rightarrow> consumed_authorization option"

definition kernel_at :: "design_revision \<Rightarrow> bool \<Rightarrow> kernel" where
  "kernel_at r verifier = \<lparr>k_revisions = [rev_revision_hash r \<mapsto> r], k_head = rev_revision_hash r,
     k_transactions = (\<lambda>_. None), k_idempotency = (\<lambda>_. None), k_command_ids = (\<lambda>_. None),
     k_commit_verifier = verifier, k_committed_authorizations = (\<lambda>_. None), k_committed_evidence = (\<lambda>_. None)\<rparr>"

definition genesis_hash :: "(byte list \<Rightarrow> byte list) \<Rightarrow> string \<Rightarrow> string" where
  "genesis_hash h gh = design_hash h ''flux-clone-design-revision-v1''
     (JObj [(''parent'', JNull), (''sequence'', JInt 0), (''graph_hash'', JStr gh)])"

definition kernel_init :: "(byte list \<Rightarrow> byte list) \<Rightarrow> design_graph \<Rightarrow> bool \<Rightarrow> kernel result" where
  "kernel_init h g verifier =
     bind_r (graph_normalized h g) (\<lambda>n.
     bind_r (validate_graph n) (\<lambda>_.
     bind_r (graph_hash h n) (\<lambda>gh.
     bind_r (validated (revision_post_init h) \<lparr>rev_revision_hash = genesis_hash h gh, rev_parent_revision = None,
       rev_sequence = 0, rev_graph = n, rev_graph_hash = gh, rev_command_hashes = [],
       rev_verification_report_hash = None, rev_approval_preview_digest = None\<rparr>) (\<lambda>r.
     Inr (kernel_at r verifier)))))"

definition kernel_from_revision :: "(byte list \<Rightarrow> byte list) \<Rightarrow> design_revision \<Rightarrow> bool \<Rightarrow> kernel result" where
  "kernel_from_revision h r verifier =
     bind_r (graph_normalized h (rev_graph r)) (\<lambda>n.
     bind_r (validate_graph n) (\<lambda>_.
     bind_r (if n \<noteq> rev_graph r then Inl (InvariantViolation ''normalized exact graph'') else graph_hash h n) (\<lambda>gh.
     bind_r (violations [(gh \<noteq> rev_graph_hash r, ''normalized exact graph'')]) (\<lambda>_.
     Inr (kernel_at r verifier)))))"

definition get_revision :: "kernel \<Rightarrow> string \<Rightarrow> design_revision result" where
  "get_revision k r = (case k_revisions k r of None \<Rightarrow> Inl (StaleRevision ''unknown revision'') | Some x \<Rightarrow> Inr x)"

definition head_revision :: "kernel \<Rightarrow> design_revision result" where
  "head_revision k = (case k_revisions k (k_head k) of None \<Rightarrow> Inl KeyError | Some x \<Rightarrow> Inr x)"

definition get_transaction :: "kernel \<Rightarrow> string \<Rightarrow> design_transaction result" where
  "get_transaction k i = (case k_transactions k i of None \<Rightarrow> Inl (KernelError ''unknown transaction'') | Some t \<Rightarrow> Inr t)"

definition get_commit_authorization_evidence :: "kernel \<Rightarrow> string \<Rightarrow> consumed_authorization result" where
  "get_commit_authorization_evidence k i = (case k_committed_evidence k i of
     None \<Rightarrow> Inl (KernelError ''no consumed commit authorization'') | Some e \<Rightarrow> Inr e)"

definition preview_json :: "(byte list \<Rightarrow> byte list) \<Rightarrow> design_transaction \<Rightarrow> string \<Rightarrow> json" where
  "preview_json h t gh = JObj [(''base_revision'', JStr (tx_base_revision t)), (''transaction_id'', JStr (tx_id t)),
     (''staged_graph_hash'', JStr gh), (''command_hashes'', json_strings (map (command_hash h) (tx_commands t)))]"

definition refresh_preview :: "(byte list \<Rightarrow> byte list) \<Rightarrow> design_transaction \<Rightarrow> design_transaction result" where
  "refresh_preview h t = bind_r (graph_hash h (tx_staged_graph t)) (\<lambda>gh.
     validated transaction_post_init (t\<lparr>tx_preview_digest := design_hash h ''flux-clone-preview-v2'' (preview_json h t gh)\<rparr>))"

definition begin_transaction :: "(byte list \<Rightarrow> byte list) \<Rightarrow> kernel \<Rightarrow> string \<Rightarrow> string \<Rightarrow> (design_transaction \<times> kernel) result" where
  "begin_transaction h k i base =
     bind_r (violations
       [(i = [] \<or> i \<noteq> strip i \<or> (\<exists>c \<in> set i. char_isspace c), ''transaction ID''),
        (\<not> is_sha256_hex base, ''transaction base revision'')]) (\<lambda>_.
     case k_transactions k i of
       Some t \<Rightarrow> if tx_base_revision t \<noteq> base then Inl (CommandConflict ''transaction ID was reused against another revision'')
         else Inr (t, k)
     | None \<Rightarrow> if base \<noteq> k_head k then Inl (StaleRevision ''transaction base is not current head'')
       else bind_r (head_revision k) (\<lambda>hd_rev.
         bind_r (validated transaction_post_init \<lparr>tx_id = i, tx_base_revision = base, tx_staged_graph = rev_graph hd_rev,
           tx_commands = [], tx_state = Tx_OPEN, tx_verification_report_hash = None, tx_commit_gate_passed = False,
           tx_preview_digest = [], tx_verification_preview_digest = None, tx_committed_revision_hash = None\<rparr>) (\<lambda>t0.
         bind_r (refresh_preview h t0) (\<lambda>t.
         Inr (t, k\<lparr>k_transactions := (k_transactions k)(i \<mapsto> t)\<rparr>)))))"

section \<open>Staging\<close>

text \<open>The part of \<^verbatim>\<open>stage\<close> and of the loop of \<^verbatim>\<open>stage_batch\<close> that computes the next transaction.\<close>

definition stage_graph :: "(byte list \<Rightarrow> byte list) \<Rightarrow> design_graph \<Rightarrow> design_command \<Rightarrow> design_graph result" where
  "stage_graph h g c =
     bind_r (apply_command h g c) (\<lambda>a.
     bind_r (graph_normalized h a) (\<lambda>n.
     bind_r (validate_graph n) (\<lambda>_.
     if n = g then Inl (CommandConflict ''command has no semantic effect'') else Inr n)))"

definition stage_command :: "(byte list \<Rightarrow> byte list) \<Rightarrow> design_transaction \<Rightarrow> design_command \<Rightarrow> design_transaction result" where
  "stage_command h t c =
     bind_r (raise_first [(tx_state t \<noteq> Tx_OPEN, TransactionNotCommittable ''commands may only be staged into an open transaction'')]) (\<lambda>_.
     bind_r (stage_graph h (tx_staged_graph t) c) (\<lambda>g.
     bind_r (validated transaction_post_init (t\<lparr>tx_staged_graph := g, tx_commands := tx_commands t @ [c],
       tx_verification_report_hash := None, tx_verification_preview_digest := None, tx_commit_gate_passed := False\<rparr>))
     (refresh_preview h)))"

definition stage :: "(byte list \<Rightarrow> byte list) \<Rightarrow> kernel \<Rightarrow> design_command \<Rightarrow> (design_transaction \<times> kernel) result" where
  "stage h k c =
     bind_r (get_transaction k (cmd_transaction_id c)) (\<lambda>t.
     if cmd_base_revision c \<noteq> tx_base_revision t then Inl (StaleRevision ''command base revision'') else
     let key = (cmd_transaction_id c, cmd_idempotency_key c) in
     case k_idempotency k key of
       Some eh \<Rightarrow> if eh \<noteq> command_hash h c then Inl (CommandConflict ''idempotency key was reused for a different command'')
         else Inr (t, k)
     | None \<Rightarrow> if k_command_ids k (cmd_id c) \<noteq> None then Inl (CommandConflict ''command ID was already used'')
       else bind_r (stage_command h t c) (\<lambda>t'.
         Inr (t', k\<lparr>k_transactions := (k_transactions k)(cmd_transaction_id c \<mapsto> t'),
           k_idempotency := (k_idempotency k)(key \<mapsto> command_hash h c),
           k_command_ids := (k_command_ids k)(cmd_id c \<mapsto> command_hash h c)\<rparr>)))"

fun batch_loop :: "(byte list \<Rightarrow> byte list) \<Rightarrow> kernel \<Rightarrow> design_transaction \<Rightarrow> design_command list \<Rightarrow> design_command list \<Rightarrow>
  (design_transaction \<times> design_command list) result" where
  "batch_loop h k t accepted [] = Inr (t, accepted)"
| "batch_loop h k t accepted (c # cs) =
     (case k_idempotency k (cmd_transaction_id c, cmd_idempotency_key c) of
        Some eh \<Rightarrow> if eh \<noteq> command_hash h c then Inl (CommandConflict ''stage batch idempotency key was reused'')
          else batch_loop h k t accepted cs
      | None \<Rightarrow> if k_command_ids k (cmd_id c) \<noteq> None then Inl (CommandConflict ''stage batch command ID was already used'')
        else bind_r (stage_command h t c) (\<lambda>t'. batch_loop h k t' (accepted @ [c]) cs))"

definition publish :: "(byte list \<Rightarrow> byte list) \<Rightarrow> string \<Rightarrow> kernel \<Rightarrow> design_command list \<Rightarrow> kernel" where
  "publish h i k cs = k\<lparr>
     k_idempotency := foldl (\<lambda>m c. m((i, cmd_idempotency_key c) \<mapsto> command_hash h c)) (k_idempotency k) cs,
     k_command_ids := foldl (\<lambda>m c. m(cmd_id c \<mapsto> command_hash h c)) (k_command_ids k) cs\<rparr>"

definition stage_batch :: "(byte list \<Rightarrow> byte list) \<Rightarrow> kernel \<Rightarrow> design_command list \<Rightarrow> (design_transaction \<times> kernel) result" where
  "stage_batch h k batch =
     bind_r (violations [(batch = [], ''stage batch must be non-empty'')]) (\<lambda>_.
     let i = cmd_transaction_id (hd batch); base = cmd_base_revision (hd batch) in
     bind_r (violations
       [(\<exists>c \<in> set batch. cmd_transaction_id c \<noteq> i \<or> cmd_base_revision c \<noteq> base, ''stage batch commands must bind one transaction''),
        (\<not> distinct (map cmd_id batch), ''stage batch command IDs must be unique''),
        (\<not> distinct (map cmd_idempotency_key batch), ''stage batch idempotency keys must be unique'')]) (\<lambda>_.
     bind_r (get_transaction k i) (\<lambda>t.
     if base \<noteq> tx_base_revision t then Inl (StaleRevision ''stage batch base revision'') else
     bind_r (batch_loop h k t [] batch) (\<lambda>(t', accepted).
     Inr (t', if accepted = [] then k else (publish h i k accepted)\<lparr>k_transactions := (k_transactions k)(i \<mapsto> t')\<rparr>)))))"

section \<open>Verification evidence and rollback\<close>

definition record_verification :: "kernel \<Rightarrow> string \<Rightarrow> string \<Rightarrow> bool \<Rightarrow> string option \<Rightarrow> (design_transaction \<times> kernel) result" where
  "record_verification k i report passed verified_preview =
     bind_r (get_transaction k i) (\<lambda>t.
     let subject = (case verified_preview of None \<Rightarrow> tx_preview_digest t | Some s \<Rightarrow> if s = [] then tx_preview_digest t else s) in
     bind_r (raise_first
       [(\<not> is_sha256_hex report, InvariantViolation ''verification report hash''),
        (\<not> is_sha256_hex subject, InvariantViolation ''verified preview digest''),
        (subject \<noteq> tx_preview_digest t, ApprovalMismatch ''verification does not bind the exact staged preview'')]) (\<lambda>_.
     if tx_state t = Tx_VERIFIED then
       (if tx_verification_report_hash t = Some report \<and> tx_commit_gate_passed t = passed
          \<and> tx_verification_preview_digest t = Some subject then Inr (t, k)
        else Inl (CommandConflict ''verified transaction cannot be assigned conflicting evidence''))
     else if tx_state t \<noteq> Tx_OPEN then Inl (TransactionNotCommittable ''only an open transaction can be verified'')
     else bind_r (validated transaction_post_init (t\<lparr>tx_state := (if passed then Tx_VERIFIED else Tx_OPEN),
         tx_verification_report_hash := Some report, tx_commit_gate_passed := passed,
         tx_verification_preview_digest := Some subject\<rparr>)) (\<lambda>t'.
       Inr (t', k\<lparr>k_transactions := (k_transactions k)(i \<mapsto> t')\<rparr>))))"

definition rollback :: "kernel \<Rightarrow> string \<Rightarrow> (design_transaction \<times> kernel) result" where
  "rollback k i =
     bind_r (get_transaction k i) (\<lambda>t.
     if tx_state t = Tx_COMMITTED then Inl (TransactionNotCommittable ''committed history cannot be rolled back in place'')
     else if tx_state t = Tx_ROLLED_BACK then Inr (t, k)
     else bind_r (validated transaction_post_init (t\<lparr>tx_state := Tx_ROLLED_BACK, tx_verification_report_hash := None,
         tx_verification_preview_digest := None, tx_commit_gate_passed := False\<rparr>)) (\<lambda>t'.
       Inr (t', k\<lparr>k_transactions := (k_transactions k)(i \<mapsto> t')\<rparr>)))"

section \<open>Commit\<close>

definition authorization_bindings ::
  "(byte list \<Rightarrow> byte list) \<Rightarrow> design_transaction \<Rightarrow> verified_claims \<Rightarrow> string \<Rightarrow> string \<Rightarrow> (bool \<times> string) list" where
  "authorization_bindings h t v command_digest gh =
     (let c = vc_claims v; a = vc_release_approval v in
      [(ca_project_id c = dg_project_id (tx_staged_graph t), ''project''),
       (ca_base_revision c = tx_base_revision t, ''base revision''),
       (ca_head_revision c = tx_base_revision t, ''current head''),
       (ca_transaction_id c = tx_id t, ''transaction''),
       (ca_command_hashes c = map (command_hash h) (tx_commands t), ''ordered commands''),
       (ca_command_hashes_digest c = command_digest, ''ordered command digest''),
       (ca_preview_digest c = tx_preview_digest t, ''preview''),
       (ca_prospective_graph_sha256 c = gh, ''prospective graph''),
       (Some (ca_verification_report_hash c) = tx_verification_report_hash t, ''verification report''),
       (Some (ca_verified_preview_digest c) = tx_verification_preview_digest t
          \<and> ca_verified_preview_digest c = tx_preview_digest t, ''verified preview''),
       (ca_release_subject_digest c = release_subject h (tx_base_revision t) (tx_preview_digest t)
          (json_opt JStr (tx_verification_report_hash t)), ''release subject''),
       (ca_commit_gate_passed c \<and> tx_commit_gate_passed t \<and> ra_commit_gate_passed a, ''commit gate''),
       (ca_human_approval_id c = ra_approval_id a, ''human approval ID''),
       (ca_human_approval_run_id c = ra_run_id a, ''human approval run''),
       (ca_human_approval_kind c = ra_kind a \<and> ra_kind a = ''release'', ''human approval kind''),
       (ca_human_approval_digest c = ra_approval_digest a, ''human approval digest''),
       (ca_human_approval_principal c = ra_principal a, ''human approval principal''),
       (ca_human_approval_decided_at c = ra_decided_at a, ''human approval decision time''),
       (ca_human_approval_expires_at c = ra_expires_at a, ''human approval expiry'')])"

definition match_commit_authorization ::
  "(byte list \<Rightarrow> byte list) \<Rightarrow> design_transaction \<Rightarrow> verified_claims \<Rightarrow> unit result" where
  "match_commit_authorization h t v =
     bind_r (commit_command_hashes_digest h (map (command_hash h) (tx_commands t))) (\<lambda>cd.
     bind_r (graph_hash h (tx_staged_graph t)) (\<lambda>gh.
     raise_first (map (\<lambda>(ok, label). (\<not> ok, ApprovalMismatch label)) (authorization_bindings h t v cd gh))))"

definition revision_json :: "design_revision \<Rightarrow> string \<Rightarrow> string list \<Rightarrow> string option \<Rightarrow> string \<Rightarrow> json" where
  "revision_json parent gh commands report preview =
     JObj [(''parent'', JStr (rev_revision_hash parent)), (''sequence'', JInt (rev_sequence parent + 1)),
       (''graph_hash'', JStr gh), (''commands'', json_strings commands),
       (''verification_report_hash'', json_opt JStr report), (''approval_preview_digest'', JStr preview)]"

definition next_revision ::
  "(byte list \<Rightarrow> byte list) \<Rightarrow> design_revision \<Rightarrow> design_transaction \<Rightarrow> verified_claims \<Rightarrow> design_revision result" where
  "next_revision h parent t v =
     bind_r (if tx_commands t = [] then Inr True
             else bind_r (graph_hash h (tx_staged_graph t)) (\<lambda>sh. Inr (sh = rev_graph_hash parent))) (\<lambda>unchanged.
     if unchanged then Inl (TransactionNotCommittable ''a commit must contain a semantic graph change'') else
     let commands = map (command_hash h) (tx_commands t); preview = ca_preview_digest (vc_claims v) in
     bind_r (graph_normalized h (tx_staged_graph t)) (\<lambda>g.
     bind_r (graph_hash h g) (\<lambda>gh.
     validated (revision_post_init h)
       \<lparr>rev_revision_hash = design_hash h ''flux-clone-design-revision-v1''
          (revision_json parent gh commands (tx_verification_report_hash t) preview),
        rev_parent_revision = Some (rev_revision_hash parent), rev_sequence = rev_sequence parent + 1,
        rev_graph = g, rev_graph_hash = gh, rev_command_hashes = commands,
        rev_verification_report_hash = tx_verification_report_hash t, rev_approval_preview_digest = Some preview\<rparr>)))"

definition commit_new :: "(byte list \<Rightarrow> byte list) \<Rightarrow> kernel \<Rightarrow> design_transaction \<Rightarrow> verified_claims \<Rightarrow> design_revision result" where
  "commit_new h k t v =
     bind_r (raise_first
       [(vc_previously_consumed v \<noteq> None, ReplayedCommitAuthorization ''nonce has already been consumed''),
        (tx_base_revision t \<noteq> k_head k, StaleRevision ''head changed after the transaction was staged''),
        (tx_state t \<noteq> Tx_VERIFIED \<or> \<not> tx_commit_gate_passed t,
          TransactionNotCommittable ''commit requires a passed deterministic verification gate'')]) (\<lambda>_.
     bind_r (match_commit_authorization h t v) (\<lambda>_.
     bind_r (head_revision k) (\<lambda>parent.
     next_revision h parent t v)))"

definition commit_again :: "(byte list \<Rightarrow> byte list) \<Rightarrow> kernel \<Rightarrow> string \<Rightarrow> design_transaction \<Rightarrow> verified_claims \<Rightarrow> design_revision result" where
  "commit_again h k i t v =
     bind_r (match_commit_authorization h t v) (\<lambda>_.
     let d = ca_authorization_digest (vc_claims v) in
     if k_committed_authorizations k i \<noteq> Some d \<or> vc_previously_consumed v \<noteq> Some d
     then Inl (ReplayedCommitAuthorization ''only the exact capability may retry its already committed transaction'')
     else case tx_committed_revision_hash t of None \<Rightarrow> Inl AssertionError | Some r \<Rightarrow> get_revision k r)"

definition commit_published :: "kernel \<Rightarrow> string \<Rightarrow> design_revision \<Rightarrow> consumed_authorization \<Rightarrow> design_transaction \<Rightarrow> kernel" where
  "commit_published k i r consumed t' = k\<lparr>
     k_revisions := (k_revisions k)(rev_revision_hash r \<mapsto> r), k_head := rev_revision_hash r,
     k_committed_authorizations := (k_committed_authorizations k)(i \<mapsto> ca_authorization_digest (con_claims consumed)),
     k_committed_evidence := (k_committed_evidence k)(i \<mapsto> consumed),
     k_transactions := (k_transactions k)(i \<mapsto> t')\<rparr>"

definition committed_transaction :: "design_transaction \<Rightarrow> design_revision \<Rightarrow> design_transaction" where
  "committed_transaction t r = t\<lparr>tx_state := Tx_COMMITTED, tx_committed_revision_hash := Some (rev_revision_hash r)\<rparr>"

text \<open>
  The capability is consumed, then the revision and the head are published and the transaction is
  marked; constructing the marked transaction comes last.
\<close>

definition commit :: "(byte list \<Rightarrow> byte list) \<Rightarrow> kernel \<Rightarrow> authority \<Rightarrow> datetime \<Rightarrow> datetime \<Rightarrow> string \<Rightarrow> commit_authorization \<Rightarrow>
  design_revision result \<times> kernel \<times> authority" where
  "commit h k au clock1 clock2 i a =
     (case get_transaction k i of Inl e \<Rightarrow> (Inl e, k, au)
      | Inr t \<Rightarrow>
        if \<not> k_commit_verifier k then (Inl (ApprovalMismatch ''kernel has no trusted commit verifier''), k, au) else
        (case verify_capability h au clock1 a of (Inl e, au1) \<Rightarrow> (Inl e, k, au1)
         | (Inr v, au1) \<Rightarrow>
           if tx_state t = Tx_COMMITTED then (commit_again h k i t v, k, au1) else
           (case commit_new h k t v of Inl e \<Rightarrow> (Inl e, k, au1)
            | Inr r \<Rightarrow>
              (case consume_capability h au1 clock2 v of (Inl e, au2) \<Rightarrow> (Inl e, k, au2)
               | (Inr consumed, au2) \<Rightarrow>
                 (case transaction_post_init (committed_transaction t r) of
                    Inl e \<Rightarrow> (Inl e, commit_published k i r consumed t, au2)
                  | Inr _ \<Rightarrow> (Inr r, commit_published k i r consumed (committed_transaction t r), au2))))))"

section \<open>Semantic differences\<close>

definition diff_items :: "string \<Rightarrow> ('a \<Rightarrow> string) \<Rightarrow> 'a list \<Rightarrow> 'a list \<Rightarrow> string list \<times> string list \<times> string list" where
  "diff_items label key xs ys =
     (let before = map_of (rev (map (\<lambda>x. (key x, x)) xs)); after = map_of (rev (map (\<lambda>y. (key y, y)) ys));
          name = (\<lambda>i. label @ '':'' @ i); bs = sorted_set (map key xs); as = sorted_set (map key ys) in
      (map name (filter (\<lambda>i. i \<notin> set bs) as), map name (filter (\<lambda>i. i \<notin> set as) bs),
       map name (filter (\<lambda>i. i \<in> set as \<and> before i \<noteq> after i) bs)))"

record semantic_diff =
  sd_base_revision :: string
  sd_staged_graph_hash :: string
  sd_added :: "string list"
  sd_removed :: "string list"
  sd_modified :: "string list"
  sd_command_ids :: "string list"
  sd_preview_digest :: string

definition semantic_diff_post_init :: "semantic_diff \<Rightarrow> unit result" where
  "semantic_diff_post_init d = violations
     [(\<not> is_sha256_hex (sd_base_revision d), ''semantic diff base revision''),
      (\<not> is_sha256_hex (sd_staged_graph_hash d), ''semantic diff staged graph hash''),
      (\<not> is_sha256_hex (sd_preview_digest d), ''semantic diff preview digest'')]"

definition entity_diffs :: "design_graph \<Rightarrow> design_graph \<Rightarrow> (string list \<times> string list \<times> string list) list" where
  "entity_diffs b s =
     [diff_items ''component'' dcomp_id (dg_components b) (dg_components s), diff_items ''net'' dnet_id (dg_nets b) (dg_nets s),
      diff_items ''placement'' pl_component_id (dg_placements b) (dg_placements s),
      diff_items ''track'' dtrack_id (dg_tracks b) (dg_tracks s), diff_items ''pad'' dpad_id (dg_pads b) (dg_pads s),
      diff_items ''hole'' dhole_id (dg_holes b) (dg_holes s), diff_items ''via'' dvia_id (dg_vias b) (dg_vias s),
      diff_items ''zone'' dzone_id (dg_zones b) (dg_zones s), diff_items ''schematic-wire'' wire_id (dg_wires b) (dg_wires s),
      diff_items ''schematic-junction'' junction_id (dg_junctions b) (dg_junctions s)]"

definition diff_added :: "design_graph \<Rightarrow> design_graph \<Rightarrow> string list" where
  "diff_added b s = concat (map fst (entity_diffs b s))
     @ map (\<lambda>l. ''layer:'' @ l) (filter (\<lambda>l. l \<notin> set (dg_layers b)) (sorted_set (dg_layers s)))
     @ (if dg_board_outline b = [] \<and> dg_board_outline s \<noteq> [] then [''board:outline''] else [])"

definition diff_removed :: "design_graph \<Rightarrow> design_graph \<Rightarrow> string list" where
  "diff_removed b s = concat (map (fst \<circ> snd) (entity_diffs b s))
     @ map (\<lambda>l. ''layer:'' @ l) (filter (\<lambda>l. l \<notin> set (dg_layers s)) (sorted_set (dg_layers b)))
     @ (if dg_board_outline b \<noteq> [] \<and> dg_board_outline s = [] then [''board:outline''] else [])"

definition diff_modified :: "design_graph \<Rightarrow> design_graph \<Rightarrow> string list" where
  "diff_modified b s = concat (map (snd \<circ> snd) (entity_diffs b s))
     @ (if (dg_board_outline b = [] \<longleftrightarrow> dg_board_outline s = []) \<and> dg_board_outline b \<noteq> dg_board_outline s
        then [''board:outline''] else [])"

definition graph_diff :: "(byte list \<Rightarrow> byte list) \<Rightarrow> design_graph \<Rightarrow> design_transaction \<Rightarrow> semantic_diff result" where
  "graph_diff h base t =
     (let s = tx_staged_graph t in
      bind_r (graph_hash h s) (\<lambda>gh.
      validated semantic_diff_post_init \<lparr>sd_base_revision = tx_base_revision t, sd_staged_graph_hash = gh,
        sd_added = sort (diff_added base s), sd_removed = sort (diff_removed base s),
        sd_modified = sort (diff_modified base s), sd_command_ids = map cmd_id (tx_commands t),
        sd_preview_digest = tx_preview_digest t\<rparr>))"

definition preview :: "(byte list \<Rightarrow> byte list) \<Rightarrow> kernel \<Rightarrow> string \<Rightarrow> semantic_diff result" where
  "preview h k i = bind_r (get_transaction k i) (\<lambda>t.
     bind_r (get_revision k (tx_base_revision t)) (\<lambda>r. graph_diff h (rev_graph r) t))"

end
