(* ===== verification/Kernel_Props.thy ===== *)
theory Kernel_Props
  imports Design_Kernel
begin

text \<open>
  What a successful call of the kernel and of the commit authority tells: the inversion of every guard
  of \<^verbatim>\<open>commit\<close>, single use of a capability, revocation and clock rollback, and the staging
  of single commands and of batches.
\<close>

lemma raise_first_Cons_Inr: "raise_first ((bad, e) # cs) = Inr u \<longleftrightarrow> \<not> bad \<and> raise_first cs = Inr u"
  by simp

section \<open>The clock\<close>

lemma observe_now_Inr:
  assumes "observe_now au clock = (Inr now, au')"
  shows "now = instant clock" "au' = au\<lparr>au_last_observed_at := Some now\<rparr>" "\<not> au_clock_poisoned au"
    "in_datetime_range now" "\<forall>p. au_last_observed_at au = Some p \<longrightarrow> p \<le> now"
  using assms by (auto simp: observe_now_def split: if_splits option.splits)

lemma observe_now_frame:
  assumes "observe_now au clock = (res, au')"
  shows "au_approvals au' = au_approvals au" "au_approval_ids_seen au' = au_approval_ids_seen au"
    "au_issued au' = au_issued au" "au_consumed au' = au_consumed au" "au_secret au' = au_secret au"
    "au_key_id au' = au_key_id au" "au_required_release_principal au' = au_required_release_principal au"
  using assms by (auto simp: observe_now_def split: if_splits option.splits)

lemma with_now_Inr:
  assumes "with_now au clock f = (Inr x, au')"
  obtains au1 where "observe_now au clock = (Inr (instant clock), au1)" "f au1 (instant clock) = (Inr x, au')"
  using assms by (auto simp: with_now_def split: prod.splits sum.splits dest: observe_now_Inr(1))

section \<open>Verification and consumption of a capability\<close>

lemma verify_locked_Inr:
  assumes "verify_locked h au c now = Inr v"
  shows "vc_claims v = c" "vc_verified_at v = now" "vc_previously_consumed v = au_consumed au (ca_nonce c)"
    "au_issued au (ca_authorization_digest c) = Some (vc_release_approval v)"
    "au_approvals au (ra_approval_id (vc_release_approval v)) = Some (vc_release_approval v)"
    "ca_authorization_digest c = authorization_digest h c"
    "ca_seal c = authorization_seal h (au_secret au) (ca_authorization_id c) (ca_authorization_digest c) (authorization_payload c)"
    "ca_key_id c = au_key_id au" "ca_issued_at c \<le> now" "now < ca_expires_at c"
    "match_registered_approval c (vc_release_approval v) (vc_release_approval v) now = Inr ()"
  using assms
  by (auto simp: verify_locked_def Let_def bind_r_Inr_iff raise_first_Cons_Inr simp del: raise_first.simps(2) split: option.splits)

lemma verify_capability_Inr:
  assumes "verify_capability h au clock a = (Inr v, au')"
  shows "verify_locked h au' a (instant clock) = Inr v" "observe_now au clock = (Inr (instant clock), au')"
  using assms
  by (auto simp: verify_capability_def snapshot_authorization_def split: sum.splits elim!: with_now_Inr)

lemma consume_capability_Inr:
  assumes "consume_capability h au clock v = (Inr consumed, au')"
  obtains au1 w where "observe_now au clock = (Inr (instant clock), au1)"
    "verify_locked h au1 (vc_claims v) (instant clock) = Inr w" "au_consumed au1 (ca_nonce (vc_claims v)) = None"
    "consumed = \<lparr>con_claims = vc_claims v, con_release_approval = vc_release_approval w, con_consumed_at = instant clock\<rparr>"
    "au' = au1\<lparr>au_consumed := (au_consumed au1)(ca_nonce (vc_claims v) \<mapsto> ca_authorization_digest (vc_claims v))\<rparr>"
proof -
  from assms obtain au1 where now: "observe_now au clock = (Inr (instant clock), au1)"
    and r: "(case verify_locked h au1 (vc_claims v) (instant clock) of
       Inl e \<Rightarrow> (Inl e, au1)
     | Inr w \<Rightarrow> if vc_previously_consumed w \<noteq> None
         then (Inl (ReplayedCommitAuthorization ''nonce has already been consumed''), au1)
         else (Inr \<lparr>con_claims = vc_claims w, con_release_approval = vc_release_approval w, con_consumed_at = vc_verified_at w\<rparr>,
           au1\<lparr>au_consumed := (au_consumed au1)(ca_nonce (vc_claims w) \<mapsto> ca_authorization_digest (vc_claims w))\<rparr>))
       = (Inr consumed, au')"
    unfolding consume_capability_def by (rule with_now_Inr)
  from r obtain w where w: "verify_locked h au1 (vc_claims v) (instant clock) = Inr w"
    by (auto split: sum.splits)
  show thesis
    using r by (intro that [OF now w]) (auto simp: w verify_locked_Inr [OF w] split: if_splits)
qed

section \<open>Commit\<close>

lemma raise_first_labels:
  "raise_first (map (\<lambda>(ok, label). (\<not> ok, f label)) bs) = Inr u \<longleftrightarrow> (\<forall>(ok, label) \<in> set bs. ok)"
  by (auto simp: raise_first_Inr_iff)

lemma match_commit_authorization_iff:
  "match_commit_authorization h t v = Inr () \<longleftrightarrow>
     (\<exists>cd gh. commit_command_hashes_digest h (map (command_hash h) (tx_commands t)) = Inr cd
        \<and> graph_hash h (tx_staged_graph t) = Inr gh
        \<and> (\<forall>(ok, label) \<in> set (authorization_bindings h t v cd gh). ok))"
  by (auto simp: match_commit_authorization_def bind_r_Inr_iff raise_first_labels)

lemma match_commit_authorization_Inr:
  assumes "match_commit_authorization h t v = Inr ()"
  shows "ca_project_id (vc_claims v) = dg_project_id (tx_staged_graph t)"
    "ca_base_revision (vc_claims v) = tx_base_revision t" "ca_head_revision (vc_claims v) = tx_base_revision t"
    "ca_transaction_id (vc_claims v) = tx_id t"
    "ca_command_hashes (vc_claims v) = map (command_hash h) (tx_commands t)"
    "ca_preview_digest (vc_claims v) = tx_preview_digest t"
    "graph_hash h (tx_staged_graph t) = Inr (ca_prospective_graph_sha256 (vc_claims v))"
    "tx_verification_report_hash t = Some (ca_verification_report_hash (vc_claims v))"
    "tx_verification_preview_digest t = Some (tx_preview_digest t)"
    "ca_verified_preview_digest (vc_claims v) = tx_preview_digest t"
    "ca_commit_gate_passed (vc_claims v)" "tx_commit_gate_passed t" "ra_commit_gate_passed (vc_release_approval v)"
    "ra_kind (vc_release_approval v) = ''release''"
    "ca_human_approval_id (vc_claims v) = ra_approval_id (vc_release_approval v)"
  using assms
  by (auto simp: match_commit_authorization_iff authorization_bindings_def Let_def)

lemma next_revision_Inr:
  assumes "next_revision h parent t v = Inr r"
  shows "tx_commands t \<noteq> []" "graph_normalized h (tx_staged_graph t) = Inr (rev_graph r)"
    "graph_hash h (rev_graph r) = Inr (rev_graph_hash r)" "rev_parent_revision r = Some (rev_revision_hash parent)"
    "rev_sequence r = rev_sequence parent + 1" "rev_command_hashes r = map (command_hash h) (tx_commands t)"
    "rev_verification_report_hash r = tx_verification_report_hash t"
    "rev_approval_preview_digest r = Some (ca_preview_digest (vc_claims v))"
    "rev_revision_hash r = design_hash h ''flux-clone-design-revision-v1'' (revision_json parent (rev_graph_hash r)
       (rev_command_hashes r) (rev_verification_report_hash r) (ca_preview_digest (vc_claims v)))"
    "revision_post_init h r = Inr ()" "graph_hash h (tx_staged_graph t) \<noteq> Inr (rev_graph_hash parent)"
  using assms by (auto simp: next_revision_def bind_r_Inr_iff Let_def split: if_splits)

lemma commit_new_Inr:
  assumes "commit_new h k t v = Inr r"
  obtains parent where "k_revisions k (k_head k) = Some parent" "next_revision h parent t v = Inr r"
    "match_commit_authorization h t v = Inr ()" "tx_base_revision t = k_head k" "tx_state t = Tx_VERIFIED"
    "tx_commit_gate_passed t" "vc_previously_consumed v = None"
  using assms by (auto simp: commit_new_def head_revision_def bind_r_Inr_iff raise_first_Cons_Inr
    simp del: raise_first.simps(2) split: option.splits)

text \<open>The successful outcome of \<^verbatim>\<open>commit\<close> on a transaction that was not committed before.\<close>

lemma commit_Inr:
  assumes "commit h k au clock1 clock2 i a = (Inr r, k', au')" "k_transactions k i = Some t" "tx_state t \<noteq> Tx_COMMITTED"
  obtains v au1 consumed where "k_commit_verifier k" "verify_capability h au clock1 a = (Inr v, au1)"
    "commit_new h k t v = Inr r" "consume_capability h au1 clock2 v = (Inr consumed, au')"
    "transaction_post_init (committed_transaction t r) = Inr ()"
    "k' = commit_published k i r consumed (committed_transaction t r)"
  using assms by (auto simp: commit_def get_transaction_def split: if_splits prod.splits sum.splits)

text \<open>
  C3: A commit that succeeds on an open history. If \<^verbatim>\<open>commit\<close> returns a revision for a
  transaction that was not yet committed, then the transaction was verified with a passed gate against the
  current head; the capability carries the seal of the authority's own secret, was issued by it for an
  approval that is still registered, is inside its validity window at both readings of the clock, and binds
  the exact commands, preview, graph and report of the transaction; its nonce was unused before and is used
  now; and the new head is the child of the old one with the staged graph. Nothing else changes: every
  other revision, transaction and evidence record and the rest of the kernel stay, the evidence recorded
  for the transaction is this capability with its approval and the time of use, and of the authority only
  the one nonce and its last reading of the clock differ.
\<close>

theorem commit_is_authorized:
  assumes "commit h k au clock1 clock2 i a = (Inr r, k', au')" "k_transactions k i = Some t" "tx_state t \<noteq> Tx_COMMITTED"
  shows "tx_state t = Tx_VERIFIED \<and> tx_commit_gate_passed t \<and> tx_base_revision t = k_head k
    \<and> ca_seal a = authorization_seal h (au_secret au) (ca_authorization_id a) (authorization_digest h a) (authorization_payload a)
    \<and> (\<exists>approval. au_issued au (authorization_digest h a) = Some approval
        \<and> au_approvals au (ca_human_approval_id a) = Some approval \<and> ra_commit_gate_passed approval
        \<and> k_committed_evidence k' i = Some \<lparr>con_claims = a, con_release_approval = approval,
            con_consumed_at = instant clock2\<rparr>)
    \<and> ca_issued_at a \<le> instant clock1 \<and> instant clock1 \<le> instant clock2 \<and> instant clock2 < ca_expires_at a
    \<and> ca_transaction_id a = tx_id t \<and> ca_command_hashes a = map (command_hash h) (tx_commands t)
    \<and> ca_preview_digest a = tx_preview_digest t \<and> tx_verification_preview_digest t = Some (tx_preview_digest t)
    \<and> tx_verification_report_hash t = Some (ca_verification_report_hash a)
    \<and> graph_hash h (tx_staged_graph t) = Inr (ca_prospective_graph_sha256 a)
    \<and> au_consumed au (ca_nonce a) = None
    \<and> (\<exists>parent. k_revisions k (k_head k) = Some parent \<and> rev_parent_revision r = Some (rev_revision_hash parent)
        \<and> rev_sequence r = rev_sequence parent + 1)
    \<and> graph_normalized h (tx_staged_graph t) = Inr (rev_graph r)
    \<and> k_head k' = rev_revision_hash r \<and> k_revisions k' (k_head k') = Some r
    \<and> k_transactions k' i = Some (committed_transaction t r)
    \<and> k_committed_authorizations k' i = Some (authorization_digest h a)
    \<and> (\<forall>x. x \<noteq> rev_revision_hash r \<longrightarrow> k_revisions k' x = k_revisions k x)
    \<and> (\<forall>x. x \<noteq> i \<longrightarrow> k_transactions k' x = k_transactions k x \<and> k_committed_evidence k' x = k_committed_evidence k x
        \<and> k_committed_authorizations k' x = k_committed_authorizations k x)
    \<and> k_idempotency k' = k_idempotency k \<and> k_command_ids k' = k_command_ids k
    \<and> k_commit_verifier k' = k_commit_verifier k
    \<and> au' = au\<lparr>au_consumed := (au_consumed au)(ca_nonce a \<mapsto> authorization_digest h a),
        au_last_observed_at := Some (instant clock2)\<rparr>"
proof -
  from assms obtain v au1 consumed where v: "verify_capability h au clock1 a = (Inr v, au1)"
    and new: "commit_new h k t v = Inr r" and use: "consume_capability h au1 clock2 v = (Inr consumed, au')"
    and k': "k' = commit_published k i r consumed (committed_transaction t r)"
    by (rule commit_Inr)
  note locked = verify_locked_Inr [OF verify_capability_Inr(1) [OF v]]
  note first_clock = observe_now_Inr [OF verify_capability_Inr(2) [OF v]]
  note first_frame = observe_now_frame [OF verify_capability_Inr(2) [OF v]]
  from use obtain au2 w where second: "observe_now au1 clock2 = (Inr (instant clock2), au2)"
    and w: "verify_locked h au2 (vc_claims v) (instant clock2) = Inr w"
    and unused: "au_consumed au2 (ca_nonce (vc_claims v)) = None"
    and evidence: "consumed = \<lparr>con_claims = vc_claims v, con_release_approval = vc_release_approval w,
        con_consumed_at = instant clock2\<rparr>"
    and au': "au' = au2\<lparr>au_consumed := (au_consumed au2)(ca_nonce (vc_claims v) \<mapsto> ca_authorization_digest (vc_claims v))\<rparr>"
    by (rule consume_capability_Inr)
  have window: "ca_issued_at a \<le> instant clock1" "instant clock1 \<le> instant clock2" "instant clock2 < ca_expires_at a"
    using locked first_clock observe_now_Inr(5) [OF second] verify_locked_Inr(10) [OF w] by simp_all
  from new obtain parent where head: "k_revisions k (k_head k) = Some parent" and r: "next_revision h parent t v = Inr r"
    and bound: "match_commit_authorization h t v = Inr ()" and base: "tx_base_revision t = k_head k"
    and state: "tx_state t = Tx_VERIFIED" "tx_commit_gate_passed t"
    by (rule commit_new_Inr)
  note bindings = match_commit_authorization_Inr [OF bound, unfolded locked(1)]
  have approval: "au_issued au (authorization_digest h a) = Some (vc_release_approval v)"
    "au_approvals au (ca_human_approval_id a) = Some (vc_release_approval v)"
    using locked first_frame bindings by simp_all
  have same: "au2 = au\<lparr>au_last_observed_at := Some (instant clock2)\<rparr>"
    using observe_now_Inr(2) [OF second] first_clock(2) by simp
  have nonce: "au_consumed au (ca_nonce a) = None"
      "au' = au\<lparr>au_consumed := (au_consumed au)(ca_nonce a \<mapsto> authorization_digest h a),
        au_last_observed_at := Some (instant clock2)\<rparr>"
    using unused au' locked by (simp_all add: same)
  have "vc_release_approval w = vc_release_approval v"
    using verify_locked_Inr(4) [OF w] locked(1,4) first_frame by (simp add: same)
  then have kept: "k_committed_evidence k' i = Some \<lparr>con_claims = a, con_release_approval = vc_release_approval v,
        con_consumed_at = instant clock2\<rparr>"
      "k_committed_authorizations k' i = Some (authorization_digest h a)"
      "\<forall>x. x \<noteq> rev_revision_hash r \<longrightarrow> k_revisions k' x = k_revisions k x"
      "\<forall>x. x \<noteq> i \<longrightarrow> k_transactions k' x = k_transactions k x \<and> k_committed_evidence k' x = k_committed_evidence k x
        \<and> k_committed_authorizations k' x = k_committed_authorizations k x"
      "k_idempotency k' = k_idempotency k" "k_command_ids k' = k_command_ids k"
      "k_commit_verifier k' = k_commit_verifier k"
    using locked(1,6) by (simp_all add: k' commit_published_def evidence)
  have published: "k_head k' = rev_revision_hash r" "k_revisions k' (k_head k') = Some r"
    "k_transactions k' i = Some (committed_transaction t r)"
    by (simp_all add: k' commit_published_def)
  have seal: "ca_seal a = authorization_seal h (au_secret au) (ca_authorization_id a) (authorization_digest h a) (authorization_payload a)"
    using locked first_frame by simp
  show ?thesis
    using state base seal approval bindings window nonce head next_revision_Inr [OF r] published kept by simp
qed

end
