(* ===== verification/Authority_Props.thy ===== *)
theory Authority_Props
  imports Kernel_Props
begin

text \<open>
  The commit authority over its whole life: what no operation forgets (the secret, the required principal,
  issued and consumed capabilities), that every approval in the registry is the required principal's, and
  that an observed clock rollback ends the authority.
\<close>

section \<open>What the authority never forgets\<close>

definition authority_extends :: "authority \<Rightarrow> authority \<Rightarrow> bool" where
  "authority_extends au au' \<longleftrightarrow> au_secret au' = au_secret au \<and> au_key_id au' = au_key_id au
     \<and> au_required_release_principal au' = au_required_release_principal au
     \<and> set (au_approval_ids_seen au) \<subseteq> set (au_approval_ids_seen au')
     \<and> au_issued au \<subseteq>\<^sub>m au_issued au' \<and> au_consumed au \<subseteq>\<^sub>m au_consumed au'"

lemma authority_extends_refl [simp]: "authority_extends au au"
  by (simp add: authority_extends_def)

lemma authority_extends_trans:
  "authority_extends au au1 \<Longrightarrow> authority_extends au1 au2 \<Longrightarrow> authority_extends au au2"
  by (auto simp: authority_extends_def intro: map_le_trans)

lemma observe_now_extends: "observe_now au clock = (res, au') \<Longrightarrow> authority_extends au au'"
  by (auto simp: authority_extends_def dest: observe_now_frame)

lemma with_now_cases:
  assumes "with_now au clock f = (res, au')"
  obtains (error) e where "res = Inl e" "observe_now au clock = (Inl e, au')"
    | (run) now au1 where "observe_now au clock = (Inr now, au1)" "f au1 now = (res, au')"
  using assms by (auto simp: with_now_def split: prod.splits sum.splits)

lemma with_now_extends:
  assumes "with_now au clock f = (res, au')" "\<And>au1 now. f au1 now = (res, au') \<Longrightarrow> authority_extends au1 au'"
  shows "authority_extends au au'"
  using assms(1)
proof (cases rule: with_now_cases)
  case (run now au1)
  then show ?thesis using assms(2) observe_now_extends authority_extends_trans by blast
qed (rule observe_now_extends)

lemma verify_capability_extends: "verify_capability h au clock a = (res, au') \<Longrightarrow> authority_extends au au'"
  by (auto simp: verify_capability_def split: sum.splits elim!: with_now_extends)

lemma consume_capability_extends: "consume_capability h au clock v = (res, au') \<Longrightarrow> authority_extends au au'"
  unfolding consume_capability_def
  by (erule with_now_extends)
    (auto simp: authority_extends_def verify_locked_Inr map_le_def split: sum.splits if_splits)

text \<open>Registration, the only way into the registry.\<close>

definition approval_added :: "authority \<Rightarrow> release_approval \<Rightarrow> authority" where
  "approval_added au a = au\<lparr>au_approval_ids_seen := ra_approval_id a # au_approval_ids_seen au,
     au_approvals := (au_approvals au)(ra_approval_id a \<mapsto> a)\<rparr>"

lemma register_cases:
  assumes "register_release_approval au clock a = (res, au')"
  obtains (refused) e where "res = Inl e" "au' = au \<or> (\<exists>x. observe_now au clock = (x, au'))"
    | (added) now au1 where "res = Inr a" "observe_now au clock = (Inr now, au1)" "au' = approval_added au1 a"
      "ra_approval_id a \<notin> set (au_approval_ids_seen au)" "ra_principal a = au_required_release_principal au"
      "release_approval_post_init a = Inr ()" "ra_decided_at a \<le> now"
proof (cases "snapshot_release_approval a")
  case (Inl e)
  then show thesis using assms by (intro refused [of e]) (simp_all add: register_release_approval_def)
next
  case (Inr b)
  then have b: "b = a" "release_approval_post_init a = Inr ()" by (auto simp: snapshot_release_approval_def split: sum.splits)
  from assms [unfolded register_release_approval_def Inr sum.case b(1)] show thesis
  proof (cases rule: with_now_cases)
    case (error e)
    then show thesis by (intro refused) auto
  next
    case (run now au1)
    note frame = observe_now_frame [OF run(1)]
    show thesis
    proof (cases res)
      case (Inl e)
      with run show thesis by (intro refused) (auto split: sum.splits)
    next
      case (Inr x)
      with run(2) show thesis
        by (intro added [OF _ run(1)])
          (auto simp: approval_added_def raise_first_Cons_Inr frame b simp del: raise_first.simps(2) split: sum.splits)
    qed
  qed
qed

lemma register_extends:
  assumes "register_release_approval au clock a = (res, au')"
  shows "authority_extends au au'"
  using assms
proof (cases rule: register_cases)
  case (added now au1)
  then show ?thesis using observe_now_frame [OF added(2)] by (auto simp: authority_extends_def approval_added_def)
qed (auto intro: observe_now_extends)

lemma revoke_cases:
  assumes "revoke_release_approval au clock i = (res, au')"
  obtains (refused) e where "res = Inl e" "au' = au \<or> (\<exists>x. observe_now au clock = (x, au'))"
    | (revoked) now au1 where "res = Inr ()" "observe_now au clock = (Inr now, au1)"
      "au' = au1\<lparr>au_approval_ids_seen := i # au_approval_ids_seen au1, au_approvals := (au_approvals au1)(i := None)\<rparr>"
proof (cases "id_ok i")
  case False
  then show thesis using assms by (intro refused) (auto simp: revoke_release_approval_def)
next
  case True
  with assms have "with_now au clock (\<lambda>au' now. (Inr (),
      au'\<lparr>au_approval_ids_seen := i # au_approval_ids_seen au', au_approvals := (au_approvals au')(i := None)\<rparr>)) = (res, au')"
    by (simp add: revoke_release_approval_def)
  then show thesis by (cases rule: with_now_cases) (auto intro: refused revoked)
qed

lemma revoke_extends:
  assumes "revoke_release_approval au clock i = (res, au')"
  shows "authority_extends au au'"
  using assms
proof (cases rule: revoke_cases)
  case (revoked now au1)
  then show ?thesis using observe_now_frame [OF revoked(2)] by (auto simp: authority_extends_def)
qed (auto intro: observe_now_extends)

lemma issue_checked_Inr:
  assumes "issue_checked h au q fresh now = Inr (c, a)"
  shows "au_approvals au (iq_approval_id q) = Some a \<and> commit_authorization_post_init h c = Inr ()
    \<and> (\<forall>r. au_issued au (ca_authorization_digest c) = Some r \<longrightarrow> r = a)
    \<and> (\<exists>cd nonce expiry. c = sealed_authorization h (au_secret au) (unsealed_authorization au q a cd nonce now expiry))"
  using assms unfolding issue_checked_def Let_def bind_r_Inr_iff
  by (auto simp: bind_r_Inr_iff raise_first_Cons_Inr simp del: raise_first.simps(2) split: option.splits)

lemma issue_cases:
  assumes "issue_capability h au clock q fresh = (res, au')"
  obtains (refused) e where "res = Inl e" "au' = au \<or> (\<exists>x. observe_now au clock = (x, au'))"
    | (issued) now au1 c a where "res = Inr c" "observe_now au clock = (Inr now, au1)"
      "issue_checked h au1 q fresh now = Inr (c, a)"
      "au' = au1\<lparr>au_issued := (au_issued au1)(ca_authorization_digest c \<mapsto> a)\<rparr>"
proof (cases "iq_lifetime q \<le> 0 \<or> iq_lifetime q > 30000000")
  case True
  then show thesis using assms by (intro refused) (auto simp: issue_capability_def)
next
  case False
  with assms have "with_now au clock (\<lambda>au' now. case issue_checked h au' q fresh now of Inl e \<Rightarrow> (Inl e, au')
        | Inr (c, a) \<Rightarrow> (Inr c, au'\<lparr>au_issued := (au_issued au')(ca_authorization_digest c \<mapsto> a)\<rparr>)) = (res, au')"
    by (simp add: issue_capability_def)
  then show thesis by (cases rule: with_now_cases) (auto intro: refused issued split: sum.splits prod.splits)
qed

lemma issue_extends:
  assumes "issue_capability h au clock q fresh = (res, au')"
  shows "authority_extends au au'"
  using assms
proof (cases rule: issue_cases)
  case (issued now au1 c a)
  then show ?thesis
    using observe_now_frame [OF issued(2)] issue_checked_Inr [OF issued(3)] by (auto simp: authority_extends_def map_le_def)
qed (auto intro: observe_now_extends)

section \<open>The registry\<close>

definition authority_good :: "authority \<Rightarrow> bool" where
  "authority_good au \<longleftrightarrow> id_ok (au_key_id au)
     \<and> (\<forall>i a. au_approvals au i = Some a \<longrightarrow> ra_approval_id a = i \<and> i \<in> set (au_approval_ids_seen au)
        \<and> release_approval_post_init a = Inr () \<and> ra_principal a = au_required_release_principal au)
     \<and> (\<forall>d a. au_issued au d = Some a \<longrightarrow> ra_principal a = au_required_release_principal au
        \<and> ra_approval_id a \<in> set (au_approval_ids_seen au))"

lemma authority_good_init: "authority_init key_id secret owner = Inr au \<Longrightarrow> authority_good au"
  by (auto simp: authority_init_def authority_good_def bind_r_Inr_iff raise_first_Cons_Inr simp del: raise_first.simps(2))

lemma observe_now_good: "observe_now au clock = (res, au') \<Longrightarrow> authority_good au \<Longrightarrow> authority_good au'"
  by (simp add: authority_good_def observe_now_frame)

lemma verify_capability_good:
  "verify_capability h au clock a = (res, au') \<Longrightarrow> authority_good au \<Longrightarrow> authority_good au'"
  by (auto simp: verify_capability_def split: sum.splits elim!: with_now_cases intro: observe_now_good)

lemma consume_capability_good:
  assumes "consume_capability h au clock v = (res, au')" "authority_good au"
  shows "authority_good au'"
  using assms(1) unfolding consume_capability_def
proof (cases rule: with_now_cases)
  case (run now au1)
  have "authority_good au1" using run(1) assms(2) by (rule observe_now_good)
  moreover have "au_key_id au' = au_key_id au1" "au_approvals au' = au_approvals au1" "au_issued au' = au_issued au1"
    "au_approval_ids_seen au' = au_approval_ids_seen au1" "au_required_release_principal au' = au_required_release_principal au1"
    using run(2) by (auto split: sum.splits if_splits)
  ultimately show ?thesis by (simp add: authority_good_def)
qed (use assms(2) observe_now_good in blast)

lemma register_good:
  assumes "register_release_approval au clock a = (res, au')" "authority_good au"
  shows "authority_good au'"
  using assms(1)
proof (cases rule: register_cases)
  case (added now au1)
  then show ?thesis using assms(2) observe_now_frame [OF added(2)] by (auto simp: authority_good_def approval_added_def)
qed (use assms(2) observe_now_good in blast)

lemma revoke_good:
  assumes "revoke_release_approval au clock i = (res, au')" "authority_good au"
  shows "authority_good au'"
  using assms(1)
proof (cases rule: revoke_cases)
  case (revoked now au1)
  then show ?thesis using assms(2) observe_now_frame [OF revoked(2)] by (auto simp: authority_good_def)
qed (use assms(2) observe_now_good in blast)

lemma issue_good:
  assumes "issue_capability h au clock q fresh = (res, au')" "authority_good au"
  shows "authority_good au'"
  using assms(1)
proof (cases rule: issue_cases)
  case (issued now au1 c a)
  then show ?thesis
    using assms(2) observe_now_frame [OF issued(2)] issue_checked_Inr [OF issued(3)]
    by (auto simp: authority_good_def)
qed (use assms(2) observe_now_good in blast)

section \<open>Runs of the authority\<close>

inductive authority_step :: "(byte list \<Rightarrow> byte list) \<Rightarrow> authority \<Rightarrow> authority \<Rightarrow> bool" for h where
  step_register: "register_release_approval au clock approval = (res1, au') \<Longrightarrow> authority_step h au au'"
| step_revoke: "revoke_release_approval au clock i = (res2, au') \<Longrightarrow> authority_step h au au'"
| step_issue: "issue_capability h au clock q fresh = (res3, au') \<Longrightarrow> authority_step h au au'"
| step_verify: "verify_capability h au clock a = (res4, au') \<Longrightarrow> authority_step h au au'"
| step_consume: "consume_capability h au clock v = (res5, au') \<Longrightarrow> authority_step h au au'"

lemma authority_step_extends: "authority_step h au au' \<Longrightarrow> authority_extends au au'"
  by (induction rule: authority_step.induct)
    (blast intro: register_extends revoke_extends issue_extends verify_capability_extends consume_capability_extends)+

lemma authority_step_good: "authority_step h au au' \<Longrightarrow> authority_good au \<Longrightarrow> authority_good au'"
  by (induction rule: authority_step.induct)
    (blast intro: register_good revoke_good issue_good verify_capability_good consume_capability_good)+

lemma authority_run_extends: "(authority_step h)\<^sup>*\<^sup>* au au' \<Longrightarrow> authority_extends au au'"
  by (induction rule: rtranclp_induct) (auto intro: authority_extends_trans authority_step_extends)

subsection \<open>Revocation\<close>

definition withdrawn :: "string \<Rightarrow> authority \<Rightarrow> bool" where
  "withdrawn i au \<longleftrightarrow> i \<in> set (au_approval_ids_seen au) \<and> au_approvals au i = None"

lemma observe_now_withdrawn: "observe_now au clock = (res, au') \<Longrightarrow> withdrawn i au \<Longrightarrow> withdrawn i au'"
  by (simp add: withdrawn_def observe_now_frame)

lemma authority_step_withdrawn:
  assumes "authority_step h au au'" "withdrawn i au"
  shows "withdrawn i au'"
  using assms
proof (induction rule: authority_step.induct)
  case (step_register au clock approval res au')
  from step_register(1) show ?case
  proof (cases rule: register_cases)
    case (added now au1)
    then show ?thesis
      using step_register(2) observe_now_frame [OF added(2)] by (auto simp: withdrawn_def approval_added_def)
  qed (use step_register(2) observe_now_withdrawn in blast)
next
  case (step_revoke au clock j res au')
  from step_revoke(1) show ?case
  proof (cases rule: revoke_cases)
    case (revoked now au1)
    then show ?thesis using step_revoke(2) observe_now_frame [OF revoked(2)] by (auto simp: withdrawn_def)
  qed (use step_revoke(2) observe_now_withdrawn in blast)
next
  case (step_issue au clock q fresh res au')
  from step_issue(1) show ?case
  proof (cases rule: issue_cases)
    case (issued now au1 c a)
    then show ?thesis using step_issue(2) observe_now_frame [OF issued(2)] by (auto simp: withdrawn_def)
  qed (use step_issue(2) observe_now_withdrawn in blast)
next
  case (step_verify au clock a res au')
  then show ?case
    by (auto simp: verify_capability_def split: sum.splits elim!: with_now_cases intro: observe_now_withdrawn)
next
  case (step_consume au clock v res au')
  from step_consume(1) show ?case unfolding consume_capability_def
  proof (cases rule: with_now_cases)
    case (run now au1)
    then have "withdrawn i au1" using step_consume(2) observe_now_withdrawn by blast
    then show ?thesis using run(2) by (auto simp: withdrawn_def split: sum.splits if_splits)
  qed (use step_consume(2) observe_now_withdrawn in blast)
qed

lemma authority_run_withdrawn:
  "(authority_step h)\<^sup>*\<^sup>* au au' \<Longrightarrow> withdrawn i au \<Longrightarrow> withdrawn i au'"
  by (induction rule: rtranclp_induct) (auto intro: authority_step_withdrawn)

lemma withdrawn_not_verified:
  assumes "withdrawn i au" "verify_capability h au clock a = (Inr v, au')"
  shows "ca_human_approval_id a \<noteq> i"
proof -
  note v = verify_capability_Inr [OF assms(2)]
  have "withdrawn i au'" using v(2) assms(1) by (rule observe_now_withdrawn)
  moreover have "ca_human_approval_id a = ra_approval_id (vc_release_approval v)"
    using verify_locked_Inr(11) [OF v(1)]
    by (simp add: match_registered_approval_def raise_first_Cons_Inr del: raise_first.simps(2))
  ultimately show ?thesis using verify_locked_Inr(5) [OF v(1)] by (auto simp: withdrawn_def)
qed

lemma withdrawn_not_registered:
  "withdrawn i au \<Longrightarrow> register_release_approval au clock approval = (Inr x, au') \<Longrightarrow> ra_approval_id approval \<noteq> i"
  by (erule register_cases) (auto simp: withdrawn_def)

text \<open>
  C29: Revoking a release approval is final. Once \<^verbatim>\<open>revoke\<close> has returned for an approval ID, then
  after any later calls of the authority no capability bound to that approval is verified any more, and no
  approval with that ID can be registered again, whether or not it was registered before.
\<close>

theorem revocation_is_final:
  assumes "revoke_release_approval au clock i = (Inr (), au1)" "(authority_step h)\<^sup>*\<^sup>* au1 au2"
  shows "(\<forall>now a v au3. verify_capability h au2 now a = (Inr v, au3) \<longrightarrow> ca_human_approval_id a \<noteq> i)
    \<and> (\<forall>now approval x au3. register_release_approval au2 now approval = (Inr x, au3) \<longrightarrow> ra_approval_id approval \<noteq> i)"
proof -
  have "withdrawn i au1" using assms(1) by (cases rule: revoke_cases) (auto simp: withdrawn_def)
  with assms(2) have "withdrawn i au2" by (rule authority_run_withdrawn)
  then show ?thesis using withdrawn_not_verified withdrawn_not_registered by blast
qed

subsection \<open>The clock\<close>

lemma observe_now_poisoned: "au_clock_poisoned au \<Longrightarrow>
    observe_now au clock = (Inl (CommitAuthorityClockRollback ''previously moved backwards''), au)"
  by (simp add: observe_now_def)

lemma with_now_poisoned [simp]: "au_clock_poisoned au \<Longrightarrow>
    with_now au clock f = (Inl (CommitAuthorityClockRollback ''previously moved backwards''), au)"
  by (simp add: with_now_def observe_now_poisoned)

lemma poisoned_refuses:
  assumes "au_clock_poisoned au"
  shows "snd (register_release_approval au clock approval) = au" "snd (revoke_release_approval au clock i) = au"
    "snd (issue_capability h au clock q fresh) = au" "snd (verify_capability h au clock a) = au"
    "snd (consume_capability h au clock v) = au"
    "\<exists>e. fst (register_release_approval au clock approval) = Inl e" "\<exists>e. fst (revoke_release_approval au clock i) = Inl e"
    "\<exists>e. fst (issue_capability h au clock q fresh) = Inl e" "\<exists>e. fst (verify_capability h au clock a) = Inl e"
    "\<exists>e. fst (consume_capability h au clock v) = Inl e"
  using assms by (simp_all add: register_release_approval_def revoke_release_approval_def issue_capability_def
      verify_capability_def consume_capability_def split: sum.splits)

lemma authority_step_poisoned: "authority_step h au au' \<Longrightarrow> au_clock_poisoned au \<Longrightarrow> au' = au"
  by (induction rule: authority_step.induct) (metis poisoned_refuses(1-5) snd_conv)+

text \<open>
  A clock that is seen to move backwards ends the authority. Once an observation has raised the rollback
  error, the authority never changes again, whatever is called, and every later registration, revocation,
  issue, verification and consumption raises, so no further commit is authorized.
\<close>

theorem clock_rollback_is_final:
  assumes "au_last_observed_at au = Some earlier" "instant clock < earlier" "is_aware clock" "in_datetime_range (instant clock)"
    "observe_now au clock = (res, au1)" "(authority_step h)\<^sup>*\<^sup>* au1 au2"
  shows "(\<exists>m. res = Inl (CommitAuthorityClockRollback m)) \<and> au2 = au1
    \<and> (\<forall>now approval. \<exists>e. register_release_approval au2 now approval = (Inl e, au1))
    \<and> (\<forall>now i. \<exists>e. revoke_release_approval au2 now i = (Inl e, au1))
    \<and> (\<forall>now q fresh. \<exists>e. issue_capability h au2 now q fresh = (Inl e, au1))
    \<and> (\<forall>now a. \<exists>e. verify_capability h au2 now a = (Inl e, au1))
    \<and> (\<forall>now v. \<exists>e. consume_capability h au2 now v = (Inl e, au1))"
proof -
  have au1: "au_clock_poisoned au1" "\<exists>m. res = Inl (CommitAuthorityClockRollback m)"
    using assms(1-5) by (auto simp: observe_now_def split: if_splits)
  have "au2 = au1" using assms(6) au1(1) by (induction rule: rtranclp_induct) (auto dest: authority_step_poisoned)
  then show ?thesis using au1(2) poisoned_refuses [OF au1(1)] by (metis prod.collapse)
qed

end
