(* ===== verification/Graph_Normal.thy ===== *)
theory Graph_Normal
  imports Design_Validation Rotations
begin

text \<open>
  The normalized form of a design graph. Normalizing a valid normalized graph changes nothing, so the
  kernel's stored graphs are fixed points of \<^verbatim>\<open>normalized\<close> and hashing them hashes the graph
  itself.
\<close>

section \<open>Rings\<close>

definition ring_presentations :: "'a list \<Rightarrow> 'a list set" where
  "ring_presentations r = set (rotations r @ rotations (rev r))"

lemma ring_presentations_closed:
  assumes "s \<in> ring_presentations r"
  shows "ring_presentations s = ring_presentations r"
proof -
  obtain k where k: "s = rotate k r \<or> s = rotate k (rev r)" using assms by (auto simp: ring_presentations_def set_rotations)
  have turn: "set (rotations (rev (rotate k us))) = set (rotations (rev us))" for us :: "'a list"
    using rev_rotate [of k us] set_rotations_rotate by metis
  show ?thesis
    using k turn [of r] turn [of "rev r"] by (auto simp: ring_presentations_def set_rotations_rotate)
qed

lemma ring_presentations_refl: "r \<noteq> [] \<Longrightarrow> r \<in> ring_presentations r"
  by (auto simp: ring_presentations_def set_rotations) (metis rotate0 id_apply)

lemma finite_ring_presentations [simp]: "finite (ring_presentations r)"
  by (simp add: ring_presentations_def)

lemma normalized_ring_alt:
  "normalized_ring vs = (if open_ring vs = [] then [] else Min (ring_presentations (open_ring vs)))"
  by (simp add: normalized_ring_def ring_presentations_def Let_def)

lemma normalized_ring_mem:
  "open_ring vs \<noteq> [] \<Longrightarrow> normalized_ring vs \<in> ring_presentations (open_ring vs)"
  using ring_presentations_refl by (auto simp: normalized_ring_alt intro!: Min_in)

lemma normalized_ring_least:
  "s \<in> ring_presentations (open_ring vs) \<Longrightarrow> normalized_ring vs \<le> s"
  by (auto simp: normalized_ring_alt ring_presentations_def rotations_def)

lemma rotate_in_presentations: "r \<noteq> [] \<Longrightarrow> rotate k r \<in> ring_presentations r"
  by (auto simp: ring_presentations_def set_rotations)

text \<open>The least presentation of a ring does not repeat its first vertex at the end, unless it is degenerate.\<close>

lemma open_normalized_ring:
  assumes "length (open_ring (normalized_ring vs)) \<ge> 3" "distinct (open_ring (normalized_ring vs))"
  shows "open_ring (normalized_ring vs) = normalized_ring vs"
proof (rule ccontr)
  define n where "n = normalized_ring vs"
  assume "open_ring (normalized_ring vs) \<noteq> normalized_ring vs"
  then have closed: "length n > 1" "hd n = last n" and o: "open_ring n = butlast n"
    by (auto simp: open_ring_def n_def split: if_splits)
  obtain x y zs where n: "n = x # y # zs @ [x]"
    using closed assms(1) o unfolding n_def [symmetric]
    by (cases n; cases "tl n" rule: rev_cases; cases "butlast (tl n)") auto
  have ne: "open_ring vs \<noteq> []" using n by (auto simp: n_def normalized_ring_alt)
  have mem: "ring_presentations n = ring_presentations (open_ring vs)"
    unfolding n_def by (rule ring_presentations_closed) (rule normalized_ring_mem [OF ne])
  have "n \<noteq> []" using n by simp
  then have "rotate k n \<in> ring_presentations (open_ring vs)" for k using rotate_in_presentations mem by metis
  then have "n \<le> rotate k n" for k unfolding n_def by (rule normalized_ring_least)
  from this [of 1] this [of "length (x # y # zs)"] have "x \<le> y" "y \<le> x"
    using rotate_append [of "x # y # zs" "[x]"] by (auto simp: n)
  then show False using assms(2) o by (simp add: n_def [symmetric] n butlast_append)
qed

lemma validate_simple_polygon_ring:
  "validate_simple_polygon vs = Inr () \<Longrightarrow> length (open_ring vs) \<ge> 3 \<and> distinct (open_ring vs)"
  by (simp add: validate_simple_polygon_def Let_def not_less)

lemma normalized_ring_idem:
  assumes "validate_simple_polygon (normalized_ring vs) = Inr ()"
  shows "normalized_ring (normalized_ring vs) = normalized_ring vs"
proof -
  have o: "open_ring (normalized_ring vs) = normalized_ring vs"
    using validate_simple_polygon_ring [OF assms] by (intro open_normalized_ring) simp_all
  have ne: "open_ring vs \<noteq> []"
    using validate_simple_polygon_ring [OF assms] by (auto simp: normalized_ring_alt open_ring_def)
  have "ring_presentations (normalized_ring vs) = ring_presentations (open_ring vs)"
    by (rule ring_presentations_closed) (rule normalized_ring_mem [OF ne])
  moreover have "normalized_ring vs \<noteq> []"
    using validate_simple_polygon_ring [OF assms] o by auto
  ultimately show ?thesis using ne by (simp add: normalized_ring_alt [of "normalized_ring vs"] o) (simp add: normalized_ring_alt)
qed

section \<open>Entities\<close>

lemma sort_key_idem [simp]: "sort_key k (sort_key k xs) = sort_key k xs"
  by (rule sort_key_id_if_sorted) simp

lemma map_r_fixed: "(\<And>x. x \<in> set xs \<Longrightarrow> f x = Inr x) \<Longrightarrow> map_r f xs = Inr xs"
  by (induction xs) simp_all

lemma map_r_normal:
  assumes "map_r f xs = Inr ys" "\<And>x y. f x = Inr y \<Longrightarrow> f y = Inr y"
  shows "map_r f (sort_key k ys) = Inr (sort_key k ys)"
proof (rule map_r_fixed)
  fix y assume "y \<in> set (sort_key k ys)"
  then have "y \<in> set ys" by simp
  then obtain x where "f x = Inr y"
    using assms(1) unfolding map_r_Inr by (auto simp: in_set_conv_nth list_all2_conv_all_nth)
  then show "f y = Inr y" by (rule assms(2))
qed

lemma dcomponent_normalized_idem: "dcomponent_normalized c = Inr d \<Longrightarrow> dcomponent_normalized d = Inr d"
  by (auto simp: dcomponent_normalized_def)

lemma dnet_normalized_idem: "dnet_normalized n = Inr m \<Longrightarrow> dnet_normalized m = Inr m"
  by (auto simp: dnet_normalized_def)

lemma dvia_normalized_idem: "dvia_normalized v = Inr w \<Longrightarrow> dvia_normalized w = Inr w"
  by (auto simp: dvia_normalized_def)

lemma dtrack_normalized_idem: "dtrack_normalized t = Inr u \<Longrightarrow> dtrack_normalized u = Inr u"
  by (auto simp: dtrack_normalized_def min_def max_def)

lemma wire_normalized_idem: "wire_normalized w = Inr v \<Longrightarrow> wire_normalized v = Inr v"
  by (auto simp: wire_normalized_def min_def)

lemma dzone_normalized_idem: "dzone_normalized h z = Inr y \<Longrightarrow> dzone_normalized h y = Inr y"
  by (auto simp: dzone_normalized_def dzone_post_init_def bind_r_Inr_iff normalized_ring_idem)

lemma drill_rotation_canonical_idem [simp]:
  "drill_rotation_canonical dx dy (drill_rotation_canonical dx dy r) = drill_rotation_canonical dx dy r"
  by (simp add: drill_rotation_canonical_def)

lemma dhole_canonical_fixed_iff: "dhole_canonical x = x \<longleftrightarrow>
    drill_rotation_canonical (dhole_drill_x_nm x) (dhole_drill_y_nm x) (dhole_drill_rotation_udeg x) = dhole_drill_rotation_udeg x"
  by (cases x) (simp add: dhole_canonical_def)

lemma dhole_init_idem:
  assumes "dhole_init x = Inr y"
  shows "dhole_init y = Inr y" "dhole_canonical x = x \<Longrightarrow> dhole_canonical y = y"
proof -
  obtain dx dy where d: "dhole_drill x = (dx, dy)" by fastforce
  have ok: "dhole_checks x = Inr ()" and y: "y = x\<lparr>dhole_drill_x_nm := dx, dhole_drill_y_nm := dy\<rparr>"
    using assms by (auto simp: dhole_init_def bind_r_Inr_iff d)
  have fields: "dx > 0 \<and> dy > 0 \<and> int64_ok (dhole_diameter_nm x) \<and> int64_ok (dhole_drill_x_nm x) \<and> int64_ok (dhole_drill_y_nm x)"
    using ok by (simp add: dhole_checks_def d not_le) metis
  then have pos: "dx > 0" "dy > 0" and dims: "int64_ok dx" "int64_ok dy"
    using d by (auto simp: dhole_drill_def split: if_splits)
  have dy': "dhole_drill y = (dx, dy)" using pos by (simp add: y dhole_drill_def)
  have "dhole_checks y = Inr ()" using ok dims unfolding dhole_checks_def dy' d by (simp add: y min_def)
  then show "dhole_init y = Inr y" by (simp add: dhole_init_def dy') (simp add: y)
  show "dhole_canonical y = y" if "dhole_canonical x = x"
    using that d by (auto simp: y dhole_canonical_fixed_iff drill_rotation_canonical_def dhole_drill_def split: if_splits)
qed

lemma dhole_canonical_idem: "dhole_canonical (dhole_canonical x) = dhole_canonical x"
  by (simp add: dhole_canonical_def)

lemma dhole_normalized_idem: "dhole_normalized x = Inr y \<Longrightarrow> dhole_normalized y = Inr y"
  unfolding dhole_normalized_def using dhole_init_idem dhole_canonical_idem by metis

lemma sort_eq_self_iff: "sort xs = xs \<longleftrightarrow> sorted xs"
  by (metis sorted_sort sorted_sort_id)

lemma dpad_canonical_fixed_iff: "dpad_canonical p = p \<longleftrightarrow> sorted (dpad_layers p) \<and>
    drill_rotation_canonical (dpad_drill_x_nm p) (dpad_drill_y_nm p) (dpad_drill_rotation_udeg p) = dpad_drill_rotation_udeg p"
  by (cases p) (simp add: dpad_canonical_def sort_eq_self_iff)

lemma dpad_init_idem:
  assumes "dpad_init p = Inr q"
  shows "dpad_init q = Inr q" "dpad_canonical p = p \<Longrightarrow> dpad_canonical q = q"
proof -
  obtain dx dy where d: "dpad_drill p = (dx, dy)" by fastforce
  have ok: "dpad_checks p = Inr ()" and q: "q = p\<lparr>dpad_drill_x_nm := dx, dpad_drill_y_nm := dy,
      dpad_drill_nm := (if dx > 0 \<and> dpad_drill_nm p = 0 then min dx dy else dpad_drill_nm p)\<rparr>"
    using assms by (auto simp: dpad_init_def bind_r_Inr_iff d)
  have fields: "int64_ok (dpad_drill_nm p) \<and> int64_ok (dpad_drill_x_nm p) \<and> int64_ok (dpad_drill_y_nm p) \<and> dpad_drill_nm p \<ge> 0
      \<and> dpad_drill_x_nm p \<ge> 0 \<and> dpad_drill_y_nm p \<ge> 0 \<and> (dx = 0 \<longleftrightarrow> dy = 0) \<and> (dx \<le> 0 \<longrightarrow> dpad_drill_nm p = 0)"
    using ok by (simp add: dpad_checks_def d not_less)
  then have dims: "int64_ok dx" "int64_ok dy" "dx \<ge> 0" "dy \<ge> 0" "dx = 0 \<longleftrightarrow> dy = 0" "dx = 0 \<longrightarrow> dpad_drill_nm p = 0"
    using d by (auto simp: dpad_drill_def split: if_splits)
  have dq: "dpad_drill q = (dx, dy)" using dims by (auto simp: q dpad_drill_def)
  have "dpad_checks q = Inr ()" using ok dims unfolding dpad_checks_def dq d by (simp add: q min_def int64_ok_def [of 0])
  then show "dpad_init q = Inr q" using dims by (simp add: dpad_init_def dq) (auto simp: q min_def)
  show "dpad_canonical q = q" if "dpad_canonical p = p"
    using that d by (auto simp: q dpad_canonical_fixed_iff drill_rotation_canonical_def dpad_drill_def split: if_splits)
qed

lemma dpad_canonical_idem: "dpad_canonical (dpad_canonical p) = dpad_canonical p"
  by (simp add: dpad_canonical_def)

lemma dpad_normalized_idem: "dpad_normalized p = Inr q \<Longrightarrow> dpad_normalized q = Inr q"
  unfolding dpad_normalized_def using dpad_init_idem dpad_canonical_idem by metis

section \<open>Graphs\<close>

lemma validate_graph_outline:
  "validate_graph g = Inr () \<Longrightarrow> dg_board_outline g \<noteq> [] \<Longrightarrow> validate_simple_polygon (dg_board_outline g) = Inr ()"
  by (simp add: validate_graph_def bind_r_Inr_iff)

lemma normalized_ring_Nil [simp]: "normalized_ring [] = []"
  by (simp add: normalized_ring_alt open_ring_def)

lemma graph_normalized_Inr:
  assumes "graph_normalized h g = Inr n"
  obtains cs ns ts ps xs vs zs ws where
    "map_r dcomponent_normalized (dg_components g) = Inr cs" "map_r dnet_normalized (dg_nets g) = Inr ns"
    "map_r dtrack_normalized (dg_tracks g) = Inr ts" "map_r dpad_normalized (dg_pads g) = Inr ps"
    "map_r dhole_normalized (dg_holes g) = Inr xs" "map_r dvia_normalized (dg_vias g) = Inr vs"
    "map_r (dzone_normalized h) (dg_zones g) = Inr zs" "map_r wire_normalized (dg_wires g) = Inr ws"
    "design_graph_post_init n = Inr ()"
    "n = g\<lparr>dg_layers := sort (dg_layers g), dg_board_outline := normalized_ring (dg_board_outline g),
       dg_components := sort_key dcomp_id cs, dg_nets := sort_key dnet_id ns,
       dg_placements := sort_key pl_component_id (dg_placements g), dg_tracks := sort_key dtrack_id ts,
       dg_pads := sort_key dpad_id ps, dg_holes := sort_key dhole_id xs, dg_vias := sort_key dvia_id vs,
       dg_zones := sort_key dzone_id zs, dg_wires := sort_key wire_id ws,
       dg_junctions := sort_key junction_id (dg_junctions g)\<rparr>"
  using assms unfolding graph_normalized_def bind_r_Inr_iff validated_Inr_iff by blast

lemma graph_normalized_idem:
  assumes "graph_normalized h g = Inr n" "validate_graph n = Inr ()"
  shows "graph_normalized h n = Inr n"
  using assms(1)
proof (rule graph_normalized_Inr)
  fix cs ns ts ps xs vs zs ws
  assume n: "n = g\<lparr>dg_layers := sort (dg_layers g), dg_board_outline := normalized_ring (dg_board_outline g),
       dg_components := sort_key dcomp_id cs, dg_nets := sort_key dnet_id ns,
       dg_placements := sort_key pl_component_id (dg_placements g), dg_tracks := sort_key dtrack_id ts,
       dg_pads := sort_key dpad_id ps, dg_holes := sort_key dhole_id xs, dg_vias := sort_key dvia_id vs,
       dg_zones := sort_key dzone_id zs, dg_wires := sort_key wire_id ws,
       dg_junctions := sort_key junction_id (dg_junctions g)\<rparr>" and ok: "design_graph_post_init n = Inr ()"
    and entities: "map_r dcomponent_normalized (dg_components g) = Inr cs" "map_r dnet_normalized (dg_nets g) = Inr ns"
    "map_r dtrack_normalized (dg_tracks g) = Inr ts" "map_r dpad_normalized (dg_pads g) = Inr ps"
    "map_r dhole_normalized (dg_holes g) = Inr xs" "map_r dvia_normalized (dg_vias g) = Inr vs"
    "map_r (dzone_normalized h) (dg_zones g) = Inr zs" "map_r wire_normalized (dg_wires g) = Inr ws"
  have "normalized_ring (normalized_ring (dg_board_outline g)) = normalized_ring (dg_board_outline g)"
    using validate_graph_outline [OF assms(2)] normalized_ring_idem [of "dg_board_outline g"]
    by (cases "normalized_ring (dg_board_outline g) = []") (simp_all add: n)
  with ok show ?thesis
    unfolding graph_normalized_def n
    by (simp add: design_graph_post_init_def map_r_normal [OF entities(1) dcomponent_normalized_idem]
        map_r_normal [OF entities(2) dnet_normalized_idem] map_r_normal [OF entities(3) dtrack_normalized_idem]
        map_r_normal [OF entities(4) dpad_normalized_idem] map_r_normal [OF entities(5) dhole_normalized_idem]
        map_r_normal [OF entities(6) dvia_normalized_idem] map_r_normal [OF entities(7) dzone_normalized_idem]
        map_r_normal [OF entities(8) wire_normalized_idem])
qed

definition good_graph :: "(byte list \<Rightarrow> byte list) \<Rightarrow> design_graph \<Rightarrow> bool" where
  "good_graph h g \<longleftrightarrow> graph_normalized h g = Inr g \<and> validate_graph g = Inr ()"

lemma good_graph_normalized: "graph_normalized h g = Inr n \<Longrightarrow> validate_graph n = Inr () \<Longrightarrow> good_graph h n"
  by (simp add: good_graph_def graph_normalized_idem)

lemma graph_hash_good: "good_graph h g \<Longrightarrow>
    graph_hash h g = Inr (design_hash h ''flux-clone-design-graph-v1'' (design_graph_json g))"
  by (simp add: good_graph_def graph_hash_def)

end
