(* ===== verification/Kernel_History.thy ===== *)
theory Kernel_History
  imports Authority_Props Graph_Normal
begin

text \<open>
  The kernel over its whole life. A history is any sequence of calls of the kernel and of its commit
  authority; the invariant says that every stored graph is valid and normalized, that the staged graph of
  a transaction is the replay of its commands on its base revision, and that every revision after the
  first one was committed under a capability that the authority issued for an approval of the required
  principal.
\<close>

section \<open>Transactions that replay\<close>

fun replay :: "(byte list \<Rightarrow> byte list) \<Rightarrow> design_graph \<Rightarrow> design_command list \<Rightarrow> design_graph result" where
  "replay h g [] = Inr g"
| "replay h g (c # cs) = bind_r (stage_graph h g c) (\<lambda>n. replay h n cs)"

lemma replay_snoc: "replay h g (cs @ [c]) = bind_r (replay h g cs) (\<lambda>n. stage_graph h n c)"
  by (induction cs arbitrary: g) (auto simp: bind_r_def split: sum.splits)

lemma stage_graph_good: "stage_graph h g c = Inr n \<Longrightarrow> good_graph h n"
  by (auto simp: stage_graph_def bind_r_Inr_iff good_graph_normalized split: if_splits)

definition exact_preview :: "(byte list \<Rightarrow> byte list) \<Rightarrow> design_transaction \<Rightarrow> bool" where
  "exact_preview h t \<longleftrightarrow> (\<exists>gh. graph_hash h (tx_staged_graph t) = Inr gh
     \<and> tx_preview_digest t = design_hash h ''flux-clone-preview-v2'' (preview_json h t gh))"

definition transaction_good :: "(byte list \<Rightarrow> byte list) \<Rightarrow> (string \<Rightarrow> design_revision option) \<Rightarrow> string \<Rightarrow> design_transaction \<Rightarrow> bool" where
  "transaction_good h revisions i t \<longleftrightarrow> tx_id t = i \<and> transaction_post_init t = Inr ()
     \<and> good_graph h (tx_staged_graph t) \<and> exact_preview h t
     \<and> (\<exists>b. revisions (tx_base_revision t) = Some b \<and> replay h (rev_graph b) (tx_commands t) = Inr (tx_staged_graph t))"

lemma transaction_good_mono: "transaction_good h m i t \<Longrightarrow> m \<subseteq>\<^sub>m m' \<Longrightarrow> transaction_good h m' i t"
  unfolding transaction_good_def by (metis domI map_le_def)

lemma refresh_preview_Inr:
  assumes "refresh_preview h t = Inr t'"
  shows "transaction_post_init t' = Inr () \<and> exact_preview h t'
    \<and> (\<exists>d. t' = t\<lparr>tx_preview_digest := d\<rparr>)"
  using assms by (auto simp: refresh_preview_def bind_r_Inr_iff exact_preview_def preview_json_def)

lemma stage_command_good:
  assumes "stage_command h t c = Inr t'" "transaction_good h m i t"
  shows "transaction_good h m i t' \<and> tx_state t = Tx_OPEN \<and> tx_state t' = Tx_OPEN"
proof -
  obtain g t1 where open_t: "tx_state t = Tx_OPEN" and g: "stage_graph h (tx_staged_graph t) c = Inr g"
    and t1: "t1 = t\<lparr>tx_staged_graph := g, tx_commands := tx_commands t @ [c],
       tx_verification_report_hash := None, tx_verification_preview_digest := None, tx_commit_gate_passed := False\<rparr>"
    and t': "refresh_preview h t1 = Inr t'"
    using assms(1) by (auto simp: stage_command_def bind_r_Inr_iff split: if_splits)
  from refresh_preview_Inr [OF t'] obtain d where t2: "t' = t1\<lparr>tx_preview_digest := d\<rparr>"
    and ok: "transaction_post_init t' = Inr ()" "exact_preview h t'" by blast
  have fields: "tx_id t' = tx_id t" "tx_base_revision t' = tx_base_revision t" "tx_commands t' = tx_commands t @ [c]"
    "tx_staged_graph t' = g" "tx_state t' = Tx_OPEN" using open_t by (simp_all add: t2 t1)
  show ?thesis
    using assms(2) ok open_t g stage_graph_good [OF g] by (auto simp: transaction_good_def fields replay_snoc)
qed

section \<open>What a committed transaction leaves\<close>

definition evidence_good :: "(byte list \<Rightarrow> byte list) \<Rightarrow> authority \<Rightarrow> design_transaction \<Rightarrow> consumed_authorization \<Rightarrow> bool" where
  "evidence_good h au t e \<longleftrightarrow> (let c = con_claims e; a = con_release_approval e in
     ca_seal c = authorization_seal h (au_secret au) (ca_authorization_id c) (authorization_digest h c) (authorization_payload c)
     \<and> au_issued au (authorization_digest h c) = Some a \<and> au_consumed au (ca_nonce c) = Some (authorization_digest h c)
     \<and> ra_principal a = au_required_release_principal au \<and> ra_kind a = ''release''
     \<and> ca_human_approval_id c = ra_approval_id a
     \<and> ca_transaction_id c = tx_id t \<and> ca_base_revision c = tx_base_revision t
     \<and> ca_command_hashes c = map (command_hash h) (tx_commands t) \<and> ca_preview_digest c = tx_preview_digest t
     \<and> tx_verification_report_hash t = Some (ca_verification_report_hash c)
     \<and> ca_issued_at c \<le> con_consumed_at e \<and> con_consumed_at e < ca_expires_at c)"

definition commit_recorded :: "(byte list \<Rightarrow> byte list) \<Rightarrow> (string \<Rightarrow> design_revision option) \<Rightarrow>
    (string \<Rightarrow> consumed_authorization option) \<Rightarrow> authority \<Rightarrow> string \<Rightarrow> design_transaction \<Rightarrow> bool" where
  "commit_recorded h revisions evidence au i t \<longleftrightarrow> (\<exists>r b e.
     tx_committed_revision_hash t = Some (rev_revision_hash r) \<and> revisions (rev_revision_hash r) = Some r
     \<and> revisions (tx_base_revision t) = Some b \<and> rev_parent_revision r = Some (tx_base_revision t)
     \<and> rev_sequence r = rev_sequence b + 1 \<and> rev_graph r = tx_staged_graph t
     \<and> rev_command_hashes r = map (command_hash h) (tx_commands t)
     \<and> rev_verification_report_hash r = tx_verification_report_hash t
     \<and> evidence i = Some e \<and> evidence_good h au t e)"

lemma evidence_good_mono:
  assumes "evidence_good h au t e" "authority_extends au au'"
  shows "evidence_good h au' t e"
proof -
  have get: "au_issued au d = Some x \<Longrightarrow> au_issued au' d = Some x" "au_consumed au n = Some y \<Longrightarrow> au_consumed au' n = Some y" for d x n y
    using assms(2) by (metis authority_extends_def domI map_le_def)+
  show ?thesis using assms by (simp add: evidence_good_def authority_extends_def get Let_def)
qed

lemma commit_recorded_mono:
  assumes "commit_recorded h m ev au i t" "m \<subseteq>\<^sub>m m'" "ev' i = ev i" "authority_extends au au'"
  shows "commit_recorded h m' ev' au' i t"
proof -
  have get: "m k = Some x \<Longrightarrow> m' k = Some x" for k x using assms(2) by (metis domI map_le_def)
  from assms(1) show ?thesis
    unfolding commit_recorded_def assms(3) using get evidence_good_mono [OF _ assms(4)] by fast
qed

section \<open>The invariant\<close>

definition revisions_good :: "(byte list \<Rightarrow> byte list) \<Rightarrow> (string \<Rightarrow> design_revision option) \<Rightarrow> string \<Rightarrow> bool" where
  "revisions_good h m current \<longleftrightarrow>
     (\<forall>x r. m x = Some r \<longrightarrow> rev_revision_hash r = x \<and> 0 \<le> rev_sequence r \<and> good_graph h (rev_graph r)
        \<and> graph_hash h (rev_graph r) = Inr (rev_graph_hash r))
     \<and> (\<exists>newest. m current = Some newest \<and> (\<forall>x r. m x = Some r \<longrightarrow> rev_sequence r \<le> rev_sequence newest))
     \<and> (\<forall>x r y q. m x = Some r \<and> m y = Some q \<and> rev_sequence r = rev_sequence q \<longrightarrow> r = q)"

definition committed_as :: "kernel \<Rightarrow> string \<Rightarrow> design_transaction \<Rightarrow> bool" where
  "committed_as k i t \<longleftrightarrow> k_transactions k i = Some t \<and> tx_state t = Tx_COMMITTED"

definition kernel_good :: "(byte list \<Rightarrow> byte list) \<Rightarrow> design_revision \<Rightarrow> kernel \<Rightarrow> authority \<Rightarrow> bool" where
  "kernel_good h r0 k au \<longleftrightarrow> revisions_good h (k_revisions k) (k_head k) \<and> authority_good au
     \<and> (\<forall>i t. k_transactions k i = Some t \<longrightarrow> transaction_good h (k_revisions k) i t)
     \<and> (\<forall>i t. committed_as k i t \<longrightarrow> commit_recorded h (k_revisions k) (k_committed_evidence k) au i t)
     \<and> (\<forall>x r. k_revisions k x = Some r \<longrightarrow> r = r0 \<or> (\<exists>i t. committed_as k i t \<and> tx_committed_revision_hash t = Some x))
     \<and> (\<forall>i t j u e f. committed_as k i t \<and> committed_as k j u \<and> i \<noteq> j \<and> k_committed_evidence k i = Some e
          \<and> k_committed_evidence k j = Some f \<longrightarrow> ca_nonce (con_claims e) \<noteq> ca_nonce (con_claims f))"

lemma kernel_good_authority:
  assumes "kernel_good h r0 k au" "authority_extends au au'" "authority_good au'"
  shows "kernel_good h r0 k au'"
proof -
  have "commit_recorded h (k_revisions k) (k_committed_evidence k) au' i t" if "committed_as k i t" for i t
    by (rule commit_recorded_mono [OF _ map_le_refl _ assms(2)]) (use assms(1) that in \<open>auto simp: kernel_good_def\<close>)
  then show ?thesis using assms(1,3) by (simp add: kernel_good_def)
qed

text \<open>An update of a transaction that neither was nor becomes committed.\<close>

lemma kernel_good_transaction:
  assumes good: "kernel_good h r0 k au" and t: "transaction_good h (k_revisions k) i t" "tx_state t \<noteq> Tx_COMMITTED"
    and old: "\<And>u. k_transactions k i = Some u \<Longrightarrow> tx_state u \<noteq> Tx_COMMITTED"
    and k': "k_transactions k' = (k_transactions k)(i \<mapsto> t)" "k_revisions k' = k_revisions k" "k_head k' = k_head k"
      "k_committed_evidence k' = k_committed_evidence k"
  shows "kernel_good h r0 k' au"
proof -
  have c: "committed_as k' j u \<longleftrightarrow> committed_as k j u" for j u
    using old t(2) by (cases "j = i") (auto simp: committed_as_def k')
  have "transaction_good h (k_revisions k) j u" if "k_transactions k' j = Some u" for j u
    using that good t(1) by (cases "j = i") (auto simp: kernel_good_def k')
  then show ?thesis using good unfolding kernel_good_def c k'(2-4) by blast
qed

section \<open>Steps that stage and verify\<close>

lemma begin_transaction_good:
  assumes "begin_transaction h k i base = Inr (t, k')" "kernel_good h r0 k au"
  shows "kernel_good h r0 k' au"
proof (cases "k_transactions k i")
  case None
  obtain b t0 where base: "base = k_head k" and b: "k_revisions k base = Some b"
    and t0: "t0 = \<lparr>tx_id = i, tx_base_revision = base, tx_staged_graph = rev_graph b,
           tx_commands = [], tx_state = Tx_OPEN, tx_verification_report_hash = None, tx_commit_gate_passed = False,
           tx_preview_digest = [], tx_verification_preview_digest = None, tx_committed_revision_hash = None\<rparr>"
    and t: "refresh_preview h t0 = Inr t" and k': "k' = k\<lparr>k_transactions := (k_transactions k)(i \<mapsto> t)\<rparr>"
    using assms(1) None
    by (auto simp: begin_transaction_def head_revision_def bind_r_Inr_iff split: if_splits option.splits)
  have fields: "tx_id t = i" "tx_base_revision t = base" "tx_staged_graph t = rev_graph b" "tx_commands t = []" "tx_state t = Tx_OPEN"
    "transaction_post_init t = Inr ()" "exact_preview h t"
    using refresh_preview_Inr [OF t] by (auto simp: t0)
  have "transaction_good h (k_revisions k) i t"
    using fields b assms(2) by (auto simp: transaction_good_def kernel_good_def revisions_good_def)
  then show ?thesis by (rule kernel_good_transaction [OF assms(2)]) (simp_all add: fields None k')
next
  case (Some u)
  then have "k' = k" using assms(1) by (auto simp: begin_transaction_def bind_r_Inr_iff split: if_splits)
  then show ?thesis using assms(2) by simp
qed

lemma stage_Inr:
  assumes "stage h k c = Inr (t', k')"
  obtains (again) "k_transactions k (cmd_transaction_id c) = Some t'" "k' = k"
      "k_idempotency k (cmd_transaction_id c, cmd_idempotency_key c) = Some (command_hash h c)"
    | (added) t where "k_transactions k (cmd_transaction_id c) = Some t" "stage_command h t c = Inr t'"
      "k_idempotency k (cmd_transaction_id c, cmd_idempotency_key c) = None" "k_command_ids k (cmd_id c) = None"
      "k' = k\<lparr>k_transactions := (k_transactions k)(cmd_transaction_id c \<mapsto> t'),
           k_idempotency := (k_idempotency k)((cmd_transaction_id c, cmd_idempotency_key c) \<mapsto> command_hash h c),
           k_command_ids := (k_command_ids k)(cmd_id c \<mapsto> command_hash h c)\<rparr>"
  using assms
  by (auto simp: stage_def get_transaction_def bind_r_Inr_iff Let_def split: option.splits if_splits)

lemma stage_good:
  assumes "stage h k c = Inr (t', k')" "kernel_good h r0 k au"
  shows "kernel_good h r0 k' au"
  using assms(1)
proof (cases rule: stage_Inr)
  case (added t)
  have "transaction_good h (k_revisions k) (cmd_transaction_id c) t" using added(1) assms(2) by (simp add: kernel_good_def)
  note t' = stage_command_good [OF added(2) this]
  show ?thesis by (rule kernel_good_transaction [OF assms(2), where t = t' and i = "cmd_transaction_id c"])
      (use t' added in auto)
qed (use assms(2) in simp)

lemma batch_loop_good:
  "batch_loop h k t accepted cs = Inr (t', accepted') \<Longrightarrow> transaction_good h m i t \<Longrightarrow>
     transaction_good h m i t' \<and> (t' = t \<and> accepted' = accepted \<or> tx_state t = Tx_OPEN \<and> tx_state t' = Tx_OPEN)"
proof (induction cs arbitrary: t accepted)
  case (Cons c cs)
  show ?case
  proof (cases "k_idempotency k (cmd_transaction_id c, cmd_idempotency_key c)")
    case None
    with Cons.prems(1) obtain t1 where t1: "stage_command h t c = Inr t1" and l: "batch_loop h k t1 (accepted @ [c]) cs = Inr (t', accepted')"
      by (auto simp: bind_r_Inr_iff split: if_splits)
    note g = stage_command_good [OF t1 Cons.prems(2)]
    then show ?thesis using Cons.IH [OF l] by auto
  next
    case (Some eh)
    with Cons show ?thesis by (auto split: if_splits)
  qed
qed auto

lemma stage_batch_Inr:
  assumes "stage_batch h k batch = Inr (t', k')"
  obtains t accepted where "k_transactions k (cmd_transaction_id (hd batch)) = Some t"
    "batch_loop h k t [] batch = Inr (t', accepted)"
    "k' = (if accepted = [] then k else (publish h (cmd_transaction_id (hd batch)) k accepted)
       \<lparr>k_transactions := (k_transactions k)(cmd_transaction_id (hd batch) \<mapsto> t')\<rparr>)"
proof -
  obtain t where t: "get_transaction k (cmd_transaction_id (hd batch)) = Inr t"
    and r: "bind_r (batch_loop h k t [] batch) (\<lambda>(t', accepted).
     Inr (t', if accepted = [] then k else (publish h (cmd_transaction_id (hd batch)) k accepted)
       \<lparr>k_transactions := (k_transactions k)(cmd_transaction_id (hd batch) \<mapsto> t')\<rparr>)) = Inr (t', k')"
    using assms unfolding stage_batch_def bind_r_Inr_iff Let_def by (metis (no_types, lifting) Inl_Inr_False bind_r_Inr_iff)
  from r obtain accepted where "batch_loop h k t [] batch = Inr (t', accepted)"
    "k' = (if accepted = [] then k else (publish h (cmd_transaction_id (hd batch)) k accepted)
       \<lparr>k_transactions := (k_transactions k)(cmd_transaction_id (hd batch) \<mapsto> t')\<rparr>)"
    by (auto simp: bind_r_Inr_iff)
  moreover have "k_transactions k (cmd_transaction_id (hd batch)) = Some t"
    using t by (simp add: get_transaction_def split: option.splits)
  ultimately show thesis using that by blast
qed

lemma stage_batch_good:
  assumes "stage_batch h k batch = Inr (t', k')" "kernel_good h r0 k au"
  shows "kernel_good h r0 k' au"
  using assms(1)
proof (rule stage_batch_Inr)
  fix t accepted
  assume t: "k_transactions k (cmd_transaction_id (hd batch)) = Some t" and l: "batch_loop h k t [] batch = Inr (t', accepted)"
    and k': "k' = (if accepted = [] then k else (publish h (cmd_transaction_id (hd batch)) k accepted)
       \<lparr>k_transactions := (k_transactions k)(cmd_transaction_id (hd batch) \<mapsto> t')\<rparr>)"
  have "transaction_good h (k_revisions k) (cmd_transaction_id (hd batch)) t" using t assms(2) by (simp add: kernel_good_def)
  note t' = batch_loop_good [OF l this]
  show ?thesis
  proof (cases "accepted = []")
    case False
    with t' have st: "tx_state t = Tx_OPEN" "tx_state t' = Tx_OPEN" by auto
    show ?thesis
      by (rule kernel_good_transaction [OF assms(2), where t = t' and i = "cmd_transaction_id (hd batch)"])
        (use t' st t False in \<open>simp_all add: k' publish_def\<close>)
  qed (use assms(2) k' in simp)
qed

text \<open>Verification evidence and rollback change neither the graph nor the preview.\<close>

lemma transaction_good_evidence:
  assumes "transaction_good h m i t" "transaction_post_init t' = Inr ()" "tx_id t' = tx_id t"
    "tx_staged_graph t' = tx_staged_graph t" "tx_commands t' = tx_commands t" "tx_base_revision t' = tx_base_revision t"
    "tx_preview_digest t' = tx_preview_digest t"
  shows "transaction_good h m i t'"
  using assms unfolding transaction_good_def exact_preview_def preview_json_def by auto

definition verified_as :: "design_transaction \<Rightarrow> string \<Rightarrow> bool \<Rightarrow> design_transaction" where
  "verified_as t report passed = t\<lparr>tx_state := (if passed then Tx_VERIFIED else Tx_OPEN), tx_verification_report_hash := Some report,
     tx_commit_gate_passed := passed, tx_verification_preview_digest := Some (tx_preview_digest t)\<rparr>"

lemma record_verification_Inr:
  assumes "record_verification k i report passed subject = Inr (t', k')" "k' \<noteq> k"
  shows "\<exists>t. k_transactions k i = Some t \<and> tx_state t = Tx_OPEN \<and> transaction_post_init t' = Inr ()
    \<and> t' = verified_as t report passed \<and> k' = k\<lparr>k_transactions := (k_transactions k)(i \<mapsto> t')\<rparr>"
proof (cases "k_transactions k i")
  case (Some t)
  define s where "s = (case subject of None \<Rightarrow> tx_preview_digest t | Some s \<Rightarrow> if s = [] then tx_preview_digest t else s)"
  have "s = tx_preview_digest t" "tx_state t = Tx_OPEN" and t': "validated transaction_post_init
      (t\<lparr>tx_state := (if passed then Tx_VERIFIED else Tx_OPEN), tx_verification_report_hash := Some report,
         tx_commit_gate_passed := passed, tx_verification_preview_digest := Some s\<rparr>) = Inr t'"
    and "k' = k\<lparr>k_transactions := (k_transactions k)(i \<mapsto> t')\<rparr>"
    using assms unfolding record_verification_def get_transaction_def Some option.case bind_r_simps Let_def s_def [symmetric]
    by (simp_all only: bind_r_Inr_iff raise_first_Cons_Inr split: if_split_asm) (auto simp del: validated_Inr_iff)
  then show ?thesis using Some by (auto simp: verified_as_def)
qed (use assms in \<open>simp add: record_verification_def get_transaction_def\<close>)

lemma kernel_good_evidence:
  assumes "kernel_good h r0 k au" "k_transactions k i = Some t" "tx_state t \<noteq> Tx_COMMITTED" "tx_state t' \<noteq> Tx_COMMITTED"
    "transaction_post_init t' = Inr ()" "tx_id t' = tx_id t" "tx_staged_graph t' = tx_staged_graph t"
    "tx_commands t' = tx_commands t" "tx_base_revision t' = tx_base_revision t" "tx_preview_digest t' = tx_preview_digest t"
  shows "kernel_good h r0 (k\<lparr>k_transactions := (k_transactions k)(i \<mapsto> t')\<rparr>) au"
proof -
  have "transaction_good h (k_revisions k) i t" using assms(1,2) by (simp add: kernel_good_def)
  then have "transaction_good h (k_revisions k) i t'" by (rule transaction_good_evidence) (use assms in simp_all)
  then show ?thesis by (rule kernel_good_transaction [OF assms(1)]) (use assms in simp_all)
qed

lemma record_verification_good:
  assumes "record_verification k i report passed subject = Inr (t', k')" "kernel_good h r0 k au"
  shows "kernel_good h r0 k' au"
proof (cases "k' = k")
  case False
  then obtain t where t: "k_transactions k i = Some t" "tx_state t = Tx_OPEN" "transaction_post_init t' = Inr ()"
    "t' = verified_as t report passed" "k' = k\<lparr>k_transactions := (k_transactions k)(i \<mapsto> t')\<rparr>"
    using record_verification_Inr [OF assms(1)] by blast
  show ?thesis unfolding t(5)
    by (rule kernel_good_evidence [OF assms(2) t(1)]) (use t(2,3) in \<open>simp_all add: t(4) verified_as_def\<close>)
qed (use assms(2) in simp)

definition rolled_back :: "design_transaction \<Rightarrow> design_transaction" where
  "rolled_back t = t\<lparr>tx_state := Tx_ROLLED_BACK, tx_verification_report_hash := None, tx_verification_preview_digest := None,
     tx_commit_gate_passed := False\<rparr>"

lemma rollback_Inr:
  assumes "rollback k i = Inr (t', k')" "k' \<noteq> k"
  shows "\<exists>t. k_transactions k i = Some t \<and> tx_state t \<noteq> Tx_COMMITTED \<and> transaction_post_init t' = Inr ()
    \<and> t' = rolled_back t \<and> k' = k\<lparr>k_transactions := (k_transactions k)(i \<mapsto> t')\<rparr>"
proof (cases "k_transactions k i")
  case (Some t)
  have "tx_state t \<noteq> Tx_COMMITTED" "validated transaction_post_init (rolled_back t) = Inr t'"
    "k' = k\<lparr>k_transactions := (k_transactions k)(i \<mapsto> t')\<rparr>"
    using assms unfolding rollback_def get_transaction_def Some option.case bind_r_simps rolled_back_def
    by (simp_all only: bind_r_Inr_iff split: if_split_asm) (auto simp del: validated_Inr_iff)
  then show ?thesis using Some by auto
qed (use assms in \<open>simp add: rollback_def get_transaction_def\<close>)

lemma rollback_good:
  assumes "rollback k i = Inr (t', k')" "kernel_good h r0 k au"
  shows "kernel_good h r0 k' au"
proof (cases "k' = k")
  case False
  then obtain t where t: "k_transactions k i = Some t" "tx_state t \<noteq> Tx_COMMITTED" "transaction_post_init t' = Inr ()"
    "t' = rolled_back t" "k' = k\<lparr>k_transactions := (k_transactions k)(i \<mapsto> t')\<rparr>"
    using rollback_Inr [OF assms(1)] by blast
  show ?thesis unfolding t(5)
    by (rule kernel_good_evidence [OF assms(2) t(1)]) (use t(2,3) in \<open>simp_all add: t(4) rolled_back_def\<close>)
qed (use assms(2) in simp)

section \<open>Commit\<close>

text \<open>Marking a verified transaction as committed never fails, so the published state is never left half marked.\<close>

lemma committed_transaction_ok:
  assumes "transaction_post_init t = Inr ()" "is_sha256_hex (rev_revision_hash r)" "tx_state t = Tx_VERIFIED"
  shows "transaction_post_init (committed_transaction t r) = Inr ()"
  using assms by (clarsimp simp: transaction_post_init_def committed_transaction_def opt_ok_def)

lemma next_revision_hash: "next_revision h parent t v = Inr r \<Longrightarrow> is_sha256_hex (rev_revision_hash r)"
  using next_revision_Inr(10) by (fastforce simp: revision_post_init_def bind_r_Inr_iff)

lemma revisions_good_newest:
  assumes "revisions_good h m c" "m c = Some parent" "m x = Some q"
  shows "rev_sequence q \<le> rev_sequence parent" "rev_revision_hash q = x"
  using assms by (auto simp: revisions_good_def)

lemma revisions_good_add:
  assumes m: "revisions_good h m c" "m c = Some parent"
    and r: "good_graph h (rev_graph r)" "graph_hash h (rev_graph r) = Inr (rev_graph_hash r)" "rev_sequence r = rev_sequence parent + 1"
  shows "revisions_good h (m(rev_revision_hash r \<mapsto> r)) (rev_revision_hash r)"
proof -
  have less: "rev_sequence q < rev_sequence r" if "m x = Some q" for x q
    using revisions_good_newest(1) [OF m that] r(3) by simp
  then have "rev_sequence q \<le> rev_sequence r" if "(m(rev_revision_hash r \<mapsto> r)) x = Some q" for x q
    using that by (cases "x = rev_revision_hash r") (auto intro: less_imp_le)
  moreover have "q = q'" if "(m(rev_revision_hash r \<mapsto> r)) x = Some q" "(m(rev_revision_hash r \<mapsto> r)) y = Some q'"
    "rev_sequence q = rev_sequence q'" for x q y q'
    using that less m(1) by (cases "x = rev_revision_hash r"; cases "y = rev_revision_hash r") (fastforce simp: revisions_good_def)+
  moreover have "rev_revision_hash q = x \<and> 0 \<le> rev_sequence q \<and> good_graph h (rev_graph q)
      \<and> graph_hash h (rev_graph q) = Inr (rev_graph_hash q)" if "(m(rev_revision_hash r \<mapsto> r)) x = Some q" for x q
  proof -
    have "0 \<le> rev_sequence r" using m r(3) by (simp add: revisions_good_def)
    then show ?thesis using that r(1,2) m(1) by (cases "x = rev_revision_hash r") (simp_all add: revisions_good_def)
  qed
  ultimately show ?thesis unfolding revisions_good_def by (simp only: fun_upd_same) blast
qed

lemma commit_published_good:
  assumes good: "kernel_good h r0 k au" and t: "k_transactions k i = Some t" "tx_state t = Tx_VERIFIED"
    and parent: "k_revisions k (k_head k) = Some parent" "tx_base_revision t = k_head k" and r: "next_revision h parent t v = Inr r"
    and fresh: "k_revisions k (rev_revision_hash r) = None"
    and au: "authority_extends au au'" "authority_good au'"
    and e: "evidence_good h au' (committed_transaction t r) consumed" "au_consumed au (ca_nonce (con_claims consumed)) = None"
  shows "kernel_good h r0 (commit_published k i r consumed (committed_transaction t r)) au'"
proof -
  define k' where "k' = commit_published k i r consumed (committed_transaction t r)"
  have tg: "transaction_good h (k_revisions k) i t" using t good by (simp add: kernel_good_def)
  then have i: "tx_id t = i" and staged: "good_graph h (tx_staged_graph t)" by (simp_all add: transaction_good_def)
  note rev = next_revision_Inr [OF r]
  have g: "rev_graph r = tx_staged_graph t" using rev(2) staged by (simp add: good_graph_def)
  have k'_fields: "k_revisions k' = (k_revisions k)(rev_revision_hash r \<mapsto> r)" "k_head k' = rev_revision_hash r"
    "k_transactions k' = (k_transactions k)(i \<mapsto> committed_transaction t r)"
    "k_committed_evidence k' = (k_committed_evidence k)(i \<mapsto> consumed)"
    by (simp_all add: k'_def commit_published_def)
  have sub: "k_revisions k \<subseteq>\<^sub>m k_revisions k'" using fresh by (auto simp: map_le_def k'_fields)
  have m: "revisions_good h (k_revisions k) (k_head k)" using good by (simp add: kernel_good_def)
  have old_rev: "rev_revision_hash parent = k_head k" by (rule revisions_good_newest(2) [OF m parent(1) parent(1)])
  have revs: "revisions_good h (k_revisions k') (k_head k')"
    unfolding k'_fields by (rule revisions_good_add [OF m parent(1)]) (use staged rev(3,5) in \<open>simp_all add: g\<close>)
  have new: "transaction_good h (k_revisions k') i (committed_transaction t r)"
    using transaction_good_evidence [OF transaction_good_mono [OF tg sub]]
      committed_transaction_ok [OF _ next_revision_hash [OF r] t(2)] tg
    by (simp add: committed_transaction_def transaction_good_def)
  have txs: "transaction_good h (k_revisions k') j u" if "k_transactions k' j = Some u" for j u
    using that new good transaction_good_mono [OF _ sub] by (cases "j = i") (auto simp: k'_fields kernel_good_def)
  have com: "committed_as k' j u \<longleftrightarrow> (if j = i then u = committed_transaction t r else committed_as k j u)" for j u
    by (auto simp: committed_as_def k'_fields committed_transaction_def)
  have recorded_new: "commit_recorded h (k_revisions k') (k_committed_evidence k') au' i (committed_transaction t r)"
    unfolding commit_recorded_def
    by (rule exI [of _ r], rule exI [of _ parent], rule exI [of _ consumed])
      (use rev parent old_rev fresh e in \<open>auto simp: k'_fields committed_transaction_def g\<close>)
  have recorded: "commit_recorded h (k_revisions k') (k_committed_evidence k') au' j u" if "committed_as k' j u" for j u
  proof (cases "j = i")
    case False
    with that have "commit_recorded h (k_revisions k) (k_committed_evidence k) au j u" using good by (simp add: com kernel_good_def)
    then show ?thesis by (rule commit_recorded_mono [OF _ sub _ au(1)]) (simp add: k'_fields False)
  qed (use that recorded_new in \<open>simp add: com\<close>)
  have not_i: "\<not> committed_as k i u" for u using t by (auto simp: committed_as_def)
  have prov: "q = r0 \<or> (\<exists>j u. committed_as k' j u \<and> tx_committed_revision_hash u = Some x)" if "k_revisions k' x = Some q" for x q
  proof (cases "x = rev_revision_hash r")
    case True
    then show ?thesis by (intro disjI2 exI [of _ i] exI [of _ "committed_transaction t r"]) (simp add: com, simp add: committed_transaction_def)
  next
    case False
    with that good have "q = r0 \<or> (\<exists>j u. committed_as k j u \<and> tx_committed_revision_hash u = Some x)"
      by (simp add: k'_fields kernel_good_def)
    then show ?thesis using not_i com by metis
  qed
  have used: "au_consumed au (ca_nonce (con_claims f)) \<noteq> None" if "committed_as k j u" "k_committed_evidence k j = Some f" for j u f
  proof -
    have "commit_recorded h (k_revisions k) (k_committed_evidence k) au j u" using that(1) good by (simp add: kernel_good_def)
    then show ?thesis using that(2) by (auto simp: commit_recorded_def evidence_good_def Let_def)
  qed
  have nonces: "ca_nonce (con_claims f) \<noteq> ca_nonce (con_claims f')"
    if "committed_as k' j u" "committed_as k' l w" "j \<noteq> l" "k_committed_evidence k' j = Some f" "k_committed_evidence k' l = Some f'"
    for j u l w f f'
  proof (cases "j = i \<or> l = i")
    case True
    then show ?thesis using that used [of l w f'] used [of j u f] e(2) by (auto simp: com k'_fields split: if_splits)
  next
    case False
    then show ?thesis using that good by (simp add: com k'_fields kernel_good_def)
  qed
  show ?thesis
    unfolding kernel_good_def k'_def [symmetric] using revs au(2) txs recorded prov nonces by blast
qed

lemma commit_evidence:
  assumes v: "verify_capability h au clock1 a = (Inr v, au1)" and u: "consume_capability h au1 clock2 v = (Inr consumed, au')"
    and t: "match_commit_authorization h t v = Inr ()" and good: "authority_good au'"
  shows "evidence_good h au' t consumed \<and> au_consumed au (ca_nonce (con_claims consumed)) = None"
  using u
proof (rule consume_capability_Inr)
  fix au2 w
  assume second: "observe_now au1 clock2 = (Inr (instant clock2), au2)"
    and w: "verify_locked h au2 (vc_claims v) (instant clock2) = Inr w" and unused: "au_consumed au2 (ca_nonce (vc_claims v)) = None"
    and consumed: "consumed = \<lparr>con_claims = vc_claims v, con_release_approval = vc_release_approval w, con_consumed_at = instant clock2\<rparr>"
    and au': "au' = au2\<lparr>au_consumed := (au_consumed au2)(ca_nonce (vc_claims v) \<mapsto> ca_authorization_digest (vc_claims v))\<rparr>"
  note locked = verify_locked_Inr [OF w]
  note first = verify_locked_Inr [OF verify_capability_Inr(1) [OF v]]
  note frame1 = observe_now_frame [OF verify_capability_Inr(2) [OF v]]
  note frame2 = observe_now_frame [OF second]
  note bindings = match_commit_authorization_Inr [OF t]
  have same: "vc_release_approval w = vc_release_approval v" using locked(4) first(4) by (simp add: frame2 first(1))
  have issued: "au_issued au' (authorization_digest h (vc_claims v)) = Some (vc_release_approval v)"
    using locked(4,6) same by (simp add: au')
  then have "ra_principal (vc_release_approval v) = au_required_release_principal au'"
    using good unfolding authority_good_def by blast
  with issued show ?thesis
    using locked same bindings unused
    by (simp add: evidence_good_def consumed Let_def au' frame1 frame2)
qed

lemma commit_unchanged:
  assumes "commit h k au clock1 clock2 i a = (Inl e, k', au')" "kernel_good h r0 k au"
  shows "k' = k"
proof (rule ccontr)
  assume "k' \<noteq> k"
  then obtain t v au1 r consumed where t: "k_transactions k i = Some t" and new: "commit_new h k t v = Inr r"
    and bad: "transaction_post_init (committed_transaction t r) \<noteq> Inr ()"
    using assms(1) by (auto simp: commit_def get_transaction_def split: if_splits prod.splits sum.splits option.splits)
  from new obtain parent where "next_revision h parent t v = Inr r" "tx_state t = Tx_VERIFIED" by (rule commit_new_Inr)
  then show False
    using bad t assms(2) committed_transaction_ok [of t r] next_revision_hash by (auto simp: kernel_good_def transaction_good_def)
qed

lemma commit_frame:
  "commit h k au clock1 clock2 i a = (res, k', au') \<Longrightarrow> authority_extends au au' \<and> (authority_good au \<longrightarrow> authority_good au')"
  by (auto simp: commit_def split: if_splits prod.splits sum.splits
      dest: verify_capability_extends consume_capability_extends verify_capability_good consume_capability_good
      intro: authority_extends_trans)

lemma commit_good:
  assumes c: "commit h k au clock1 clock2 i a = (res, k', au')" and good: "kernel_good h r0 k au"
    and fresh: "k' = k \<or> k_revisions k (k_head k') = None"
  shows "kernel_good h r0 k' au'"
proof (cases "k' = k")
  case True
  have "authority_good au" using good by (simp add: kernel_good_def)
  then show ?thesis using kernel_good_authority [OF good] commit_frame [OF c] True by simp
next
  case False
  with commit_unchanged [OF _ good] c obtain r where r: "res = Inr r" by (cases res) auto
  obtain t where t: "k_transactions k i = Some t"
    using c r by (auto simp: commit_def get_transaction_def split: option.splits)
  have "tx_state t \<noteq> Tx_COMMITTED"
    using c False t by (auto simp: commit_def get_transaction_def split: if_splits prod.splits sum.splits)
  with c r t obtain v au1 consumed where v: "verify_capability h au clock1 a = (Inr v, au1)" and new: "commit_new h k t v = Inr r"
    and use: "consume_capability h au1 clock2 v = (Inr consumed, au')"
    and k': "k' = commit_published k i r consumed (committed_transaction t r)"
    by (metis commit_Inr)
  from new obtain parent where head: "k_revisions k (k_head k) = Some parent" and rev: "next_revision h parent t v = Inr r"
    and match: "match_commit_authorization h t v = Inr ()" and base: "tx_base_revision t = k_head k" and state: "tx_state t = Tx_VERIFIED"
    by (rule commit_new_Inr)
  have au: "authority_extends au au'" "authority_good au'"
    using commit_frame [OF c] good by (simp_all add: kernel_good_def)
  have e: "evidence_good h au' (committed_transaction t r) consumed" "au_consumed au (ca_nonce (con_claims consumed)) = None"
    using commit_evidence [OF v use match au(2)] by (simp_all add: evidence_good_def committed_transaction_def Let_def)
  have fr: "k_revisions k (rev_revision_hash r) = None" using fresh False by (simp add: k' commit_published_def)
  show ?thesis unfolding k' by (rule commit_published_good [OF good t state head base rev fr au e])
qed

section \<open>Histories\<close>

text \<open>
  One call of the kernel or of the authority. A call of the kernel that raises leaves it as it was, so only
  the calls that return are steps; \<^verbatim>\<open>commit\<close> and the calls of the authority are steps whatever they
  return. A commit has to give its revision a hash that is not in use: two revisions with one hash are a
  collision of the hash function on two different payloads.
\<close>

inductive kernel_step :: "(byte list \<Rightarrow> byte list) \<Rightarrow> kernel \<times> authority \<Rightarrow> kernel \<times> authority \<Rightarrow> bool" for h where
  step_begin: "begin_transaction h k i base = Inr (t, k') \<Longrightarrow> kernel_step h (k, au) (k', au)"
| step_stage: "stage h k c = Inr (t, k') \<Longrightarrow> kernel_step h (k, au) (k', au)"
| step_stage_batch: "stage_batch h k batch = Inr (t, k') \<Longrightarrow> kernel_step h (k, au) (k', au)"
| step_record: "record_verification k i report passed subject = Inr (t, k') \<Longrightarrow> kernel_step h (k, au) (k', au)"
| step_rollback: "rollback k i = Inr (t, k') \<Longrightarrow> kernel_step h (k, au) (k', au)"
| step_commit: "commit h k au clock1 clock2 i a = (res, k', au') \<Longrightarrow> k' = k \<or> k_revisions k (k_head k') = None \<Longrightarrow>
    kernel_step h (k, au) (k', au')"
| step_authority: "authority_step h au au' \<Longrightarrow> kernel_step h (k, au) (k, au')"

lemma kernel_step_good: "kernel_step h s s' \<Longrightarrow> kernel_good h r0 (fst s) (snd s) \<Longrightarrow> kernel_good h r0 (fst s') (snd s')"
proof (induction rule: kernel_step.induct)
  case (step_authority au au' k)
  then have "authority_good au" by (simp add: kernel_good_def)
  then show ?case
    using step_authority kernel_good_authority authority_step_extends authority_step_good by (metis fst_conv snd_conv)
qed (simp_all add: begin_transaction_good stage_good stage_batch_good record_verification_good rollback_good commit_good)

inductive served :: "(byte list \<Rightarrow> byte list) \<Rightarrow> design_revision \<Rightarrow> kernel \<Rightarrow> authority \<Rightarrow> bool" for h where
  served_genesis: "kernel_init h g verifier = Inr k \<Longrightarrow> k_revisions k (k_head k) = Some r0 \<Longrightarrow>
    authority_init key_id secret owner = Inr au \<Longrightarrow> served h r0 k au"
| served_fork: "revision_post_init h r0 = Inr () \<Longrightarrow> kernel_from_revision h r0 verifier = Inr k \<Longrightarrow> authority_init key_id secret owner = Inr au \<Longrightarrow> served h r0 k au"
| served_step: "served h r0 k au \<Longrightarrow> kernel_step h (k, au) (k', au') \<Longrightarrow> served h r0 k' au'"

lemma kernel_at_good:
  assumes "good_graph h (rev_graph r)" "graph_hash h (rev_graph r) = Inr (rev_graph_hash r)" "0 \<le> rev_sequence r" "authority_good au"
  shows "kernel_good h r (kernel_at r verifier) au"
  using assms by (auto simp: kernel_good_def revisions_good_def kernel_at_def committed_as_def)

lemma kernel_init_Inr:
  assumes "kernel_init h g verifier = Inr k" "k_revisions k (k_head k) = Some r0"
  shows "graph_normalized h g = Inr (rev_graph r0)" "validate_graph (rev_graph r0) = Inr ()"
    "graph_hash h (rev_graph r0) = Inr (rev_graph_hash r0)" "rev_sequence r0 = 0" "k = kernel_at r0 verifier"
    "rev_revision_hash r0 = genesis_hash h (rev_graph_hash r0)"
proof -
  obtain n gh where n: "graph_normalized h g = Inr n" "validate_graph n = Inr ()" "graph_hash h n = Inr gh"
    and k: "k = kernel_at \<lparr>rev_revision_hash = genesis_hash h gh, rev_parent_revision = None,
       rev_sequence = 0, rev_graph = n, rev_graph_hash = gh, rev_command_hashes = [],
       rev_verification_report_hash = None, rev_approval_preview_digest = None\<rparr> verifier"
    using assms(1) by (auto simp: kernel_init_def bind_r_Inr_iff)
  have r0: "r0 = \<lparr>rev_revision_hash = genesis_hash h gh, rev_parent_revision = None,
       rev_sequence = 0, rev_graph = n, rev_graph_hash = gh, rev_command_hashes = [],
       rev_verification_report_hash = None, rev_approval_preview_digest = None\<rparr>"
    using assms(2) by (simp add: k kernel_at_def)
  show "graph_normalized h g = Inr (rev_graph r0)" "validate_graph (rev_graph r0) = Inr ()"
    "graph_hash h (rev_graph r0) = Inr (rev_graph_hash r0)" "rev_sequence r0 = 0" "k = kernel_at r0 verifier"
    "rev_revision_hash r0 = genesis_hash h (rev_graph_hash r0)"
    using n k by (simp_all add: r0)
qed

lemma kernel_init_good:
  assumes "kernel_init h g verifier = Inr k" "k_revisions k (k_head k) = Some r0" "authority_good au"
  shows "kernel_good h r0 k au"
  using kernel_init_Inr [OF assms(1,2)] assms(3) kernel_at_good good_graph_normalized by simp

lemma kernel_from_revision_good:
  assumes "kernel_from_revision h r0 verifier = Inr k" "revision_post_init h r0 = Inr ()" "authority_good au"
  shows "kernel_good h r0 k au"
proof -
  have "graph_normalized h (rev_graph r0) = Inr (rev_graph r0)" "validate_graph (rev_graph r0) = Inr ()"
    "graph_hash h (rev_graph r0) = Inr (rev_graph_hash r0)" "k = kernel_at r0 verifier"
    using assms(1) by (auto simp: kernel_from_revision_def bind_r_Inr_iff split: if_splits)
  moreover have "0 \<le> rev_sequence r0" using assms(2) by (auto simp: revision_post_init_def bind_r_Inr_iff not_less)
  ultimately show ?thesis using kernel_at_good [of h r0 au verifier] assms(3) by (simp add: good_graph_def)
qed

lemma served_good: "served h r0 k au \<Longrightarrow> kernel_good h r0 k au"
proof (induction rule: served.induct)
  case (served_step r0 k au k' au')
  then show ?case using kernel_step_good [of h "(k, au)" "(k', au')"] by simp
qed (auto intro: kernel_init_good kernel_from_revision_good authority_good_init)

section \<open>What a history guarantees\<close>

lemma served_origin:
  assumes "served h r0 k au" "k_revisions k x = Some r" "r \<noteq> r0"
  shows "\<exists>i t b e. k_transactions k i = Some t \<and> tx_state t = Tx_COMMITTED \<and> tx_committed_revision_hash t = Some x
      \<and> rev_parent_revision r = Some (rev_revision_hash b) \<and> k_revisions k (rev_revision_hash b) = Some b
      \<and> rev_sequence r = rev_sequence b + 1 \<and> replay h (rev_graph b) (tx_commands t) = Inr (rev_graph r)
      \<and> k_committed_evidence k i = Some e \<and> evidence_good h au t e
      \<and> rev_verification_report_hash r = Some (ca_verification_report_hash (con_claims e))"
proof -
  note good = served_good [OF assms(1)]
  have rev: "rev_revision_hash q = y" if "k_revisions k y = Some q" for y q
    using good that by (auto simp: kernel_good_def revisions_good_def)
  obtain i t where c: "committed_as k i t" and x: "tx_committed_revision_hash t = Some x"
    using good assms(2,3) unfolding kernel_good_def by blast
  then have t: "k_transactions k i = Some t" "tx_state t = Tx_COMMITTED" by (simp_all add: committed_as_def)
  have "commit_recorded h (k_revisions k) (k_committed_evidence k) au i t" and tg: "transaction_good h (k_revisions k) i t"
    using good c t unfolding kernel_good_def by blast+
  then obtain r' b e where r': "tx_committed_revision_hash t = Some (rev_revision_hash r')"
    "k_revisions k (rev_revision_hash r') = Some r'" and b: "k_revisions k (tx_base_revision t) = Some b"
    and chain: "rev_parent_revision r' = Some (tx_base_revision t)" "rev_sequence r' = rev_sequence b + 1"
      "rev_graph r' = tx_staged_graph t" "rev_verification_report_hash r' = tx_verification_report_hash t"
    and e: "k_committed_evidence k i = Some e" "evidence_good h au t e"
    unfolding commit_recorded_def by blast
  have "r' = r" using r' x assms(2) by simp
  moreover have "replay h (rev_graph b) (tx_commands t) = Inr (tx_staged_graph t)"
    using tg b by (auto simp: transaction_good_def)
  moreover have "tx_verification_report_hash t = Some (ca_verification_report_hash (con_claims e))"
    using e(2) by (simp add: evidence_good_def Let_def)
  ultimately show ?thesis
    using t x b chain e rev [OF b] by (intro exI [of _ i] exI [of _ t] exI [of _ b] exI [of _ e]) simp
qed

text \<open>
  C7: The audit trail of a design. In every history of a kernel and its commit authority, every revision in
  the store is valid and normalized, and every revision other than the first one was committed by a
  transaction whose commands, replayed one by one on the graph of the parent revision, give exactly its
  graph; the kernel keeps the consumed capability as evidence, which carries the seal of the authority, was
  issued for a release approval of the required principal, names the transaction and its command hashes, and
  binds the report of the verification the revision records.
\<close>

theorem revisions_are_authorized:
  assumes "served h r0 k au" "k_revisions k x = Some r"
  shows "validate_graph (rev_graph r) = Inr () \<and> graph_normalized h (rev_graph r) = Inr (rev_graph r)
    \<and> (r = r0 \<or> (\<exists>i t b e. k_transactions k i = Some t \<and> tx_state t = Tx_COMMITTED \<and> tx_committed_revision_hash t = Some x
         \<and> rev_parent_revision r = Some (rev_revision_hash b) \<and> k_revisions k (rev_revision_hash b) = Some b
         \<and> rev_sequence r = rev_sequence b + 1 \<and> replay h (rev_graph b) (tx_commands t) = Inr (rev_graph r)
         \<and> k_committed_evidence k i = Some e \<and> evidence_good h au t e
         \<and> rev_verification_report_hash r = Some (ca_verification_report_hash (con_claims e))))"
proof -
  have "good_graph h (rev_graph r)"
    using served_good [OF assms(1)] assms(2) unfolding kernel_good_def revisions_good_def by blast
  then show ?thesis using served_origin [OF assms] by (auto simp: good_graph_def)
qed

text \<open>
  C8: The history is linear and capabilities are single use. In every history the revisions have different
  sequence numbers and the head has the greatest; a committed transaction was committed under a capability
  of its own, as no two committed transactions share a nonce; and the staged graph of every transaction,
  committed or not, is the replay of its commands on its base.
\<close>

theorem history_is_linear:
  assumes "served h r0 k au"
  shows "(\<exists>newest. k_revisions k (k_head k) = Some newest
      \<and> (\<forall>x r. k_revisions k x = Some r \<longrightarrow> rev_sequence r \<le> rev_sequence newest))
    \<and> (\<forall>x r y q. k_revisions k x = Some r \<and> k_revisions k y = Some q \<and> rev_sequence r = rev_sequence q \<longrightarrow> x = y)
    \<and> (\<forall>i j t u e f. k_transactions k i = Some t \<and> tx_state t = Tx_COMMITTED \<and> k_committed_evidence k i = Some e
         \<and> k_transactions k j = Some u \<and> tx_state u = Tx_COMMITTED \<and> k_committed_evidence k j = Some f
         \<and> ca_nonce (con_claims e) = ca_nonce (con_claims f) \<longrightarrow> i = j)
    \<and> (\<forall>i t. k_transactions k i = Some t \<longrightarrow>
         (\<exists>b. k_revisions k (tx_base_revision t) = Some b \<and> replay h (rev_graph b) (tx_commands t) = Inr (tx_staged_graph t)))"
proof -
  note good = served_good [OF assms]
  have m: "revisions_good h (k_revisions k) (k_head k)" using good by (simp add: kernel_good_def)
  have "x = y" if "k_revisions k x = Some r" "k_revisions k y = Some q" "rev_sequence r = rev_sequence q" for x r y q
  proof -
    have "r = q" using m that unfolding revisions_good_def by blast
    then show ?thesis using m that unfolding revisions_good_def by metis
  qed
  moreover have "\<exists>newest. k_revisions k (k_head k) = Some newest
      \<and> (\<forall>x r. k_revisions k x = Some r \<longrightarrow> rev_sequence r \<le> rev_sequence newest)"
    using m unfolding revisions_good_def by blast
  moreover have "i = j" if "committed_as k i t" "committed_as k j u" "k_committed_evidence k i = Some e"
    "k_committed_evidence k j = Some f" "ca_nonce (con_claims e) = ca_nonce (con_claims f)" for i j t u e f
    using good that unfolding kernel_good_def by metis
  moreover have "\<exists>b. k_revisions k (tx_base_revision t) = Some b \<and> replay h (rev_graph b) (tx_commands t) = Inr (tx_staged_graph t)"
    if "k_transactions k i = Some t" for i t
    using good that unfolding kernel_good_def transaction_good_def by blast
  ultimately show ?thesis unfolding committed_as_def by blast
qed

text \<open>
  C27: A failed commit changes nothing in the kernel. In every history, when \<^verbatim>\<open>commit\<close> raises, the
  revisions, the head, the transactions and the evidence are what they were: the error that the last
  construction in \<^verbatim>\<open>commit\<close> could raise after the revision is published never occurs.
\<close>

theorem failed_commit_changes_nothing:
  assumes "served h r0 k au" "commit h k au clock1 clock2 i a = (Inl e, k', au')"
  shows "k' = k"
  by (rule commit_unchanged [OF assms(2) served_good [OF assms(1)]])

end
