(* ===== verification/Kernel_Liveness.thy ===== *)
theory Kernel_Liveness
  imports Kernel_History Sha256
begin

text \<open>
  An approved transaction can be committed: the authority issues a capability for it, and the commit with
  that capability returns, as long as both readings of the clock fall into its window. Every digest is the
  32 bytes of a digest function, so the format checks on digests never fail.
\<close>

section \<open>Digests and identifiers\<close>

lemma hex_digit_plain: "c \<in> set hex_digits \<Longrightarrow> \<not> char_isspace c \<and> \<not> is_control c"
  by (auto simp: hex_digits_def char_isspace_def is_control_def)

lemma hex_digit_ascii: "c \<in> set hex_digits \<Longrightarrow> (of_char c :: nat) < 128"
  by (auto simp: hex_digits_def)

lemma same_digest_hex: "is_sha256_hex s \<Longrightarrow> same_digest s s = Inr True"
  using hex_digit_ascii by (fastforce simp: same_digest_def is_sha256_hex_def not_le)

lemma dropWhile_no_space: "\<forall>c \<in> set s. \<not> P c \<Longrightarrow> dropWhile P s = s"
  by (cases s) simp_all

lemma strip_no_space: "\<forall>c \<in> set s. \<not> char_isspace c \<Longrightarrow> strip s = s"
  by (simp add: strip_def dropWhile_no_space)

lemma id_ok_plain: "s \<noteq> [] \<Longrightarrow> \<forall>c \<in> set s. \<not> char_isspace c \<and> \<not> is_control c \<Longrightarrow> id_ok s"
  by (simp add: id_ok_def strip_no_space)

lemma id_ok_authorization_id: "is_sha256_hex d \<Longrightarrow> id_ok (authorization_id_of d)"
proof (rule id_ok_plain)
  assume "is_sha256_hex d"
  then have "\<forall>c \<in> set (take 32 d). c \<in> set hex_digits" by (auto simp: is_sha256_hex_def dest: in_set_takeD)
  then show "\<forall>c \<in> set (authorization_id_of d). \<not> char_isspace c \<and> \<not> is_control c"
    using hex_digit_plain by (auto simp: authorization_id_of_def char_isspace_def is_control_def)
qed (simp add: authorization_id_of_def)

lemma same_digest_authorization_id:
  "same_digest (authorization_id_of (design_hash h domain j)) (authorization_id_of (design_hash h domain j)) = Inr True"
proof -
  have "\<forall>c \<in> set (hexdigest bs). (of_char c :: nat) < 128" for bs
    using hex_byte_range hex_digit_ascii by (auto simp: hexdigest_def)
  then show ?thesis
    by (auto simp: same_digest_def authorization_id_of_def design_hash_def not_le dest!: in_set_takeD)
qed

context digest_function
begin

lemma design_hash_hex [simp]: "is_sha256_hex (design_hash h d j)"
  by (simp add: design_hash_def is_sha256_hexdigest digest_length)

lemma digest_hex [simp]: "is_sha256_hex (command_hash h c)" "is_sha256_hex (authorization_digest h a)"
    "is_sha256_hex (release_subject h b p j)" "is_sha256_hex (authorization_seal h key i d j)"
  by (simp_all add: command_hash_def authorization_digest_def release_subject_def authorization_seal_def hmac_hex)

lemma graph_hash_hex: "graph_hash h g = Inr gh \<Longrightarrow> is_sha256_hex gh"
  by (auto simp: graph_hash_def bind_r_Inr_iff)

end

section \<open>Capabilities for a transaction\<close>

definition commit_request :: "design_transaction \<Rightarrow> string list \<Rightarrow> string \<Rightarrow> string \<Rightarrow> int \<Rightarrow> string \<Rightarrow> issue_request" where
  "commit_request t commands gh approval_id lifetime nonce = \<lparr>iq_project_id = dg_project_id (tx_staged_graph t),
     iq_base_revision = tx_base_revision t, iq_head_revision = tx_base_revision t, iq_transaction_id = tx_id t,
     iq_command_hashes = commands, iq_preview_digest = tx_preview_digest t,
     iq_prospective_graph_sha256 = gh, iq_approval_id = approval_id, iq_lifetime = lifetime, iq_nonce = Some nonce\<rparr>"

definition approved_for :: "(byte list \<Rightarrow> byte list) \<Rightarrow> design_transaction \<Rightarrow> release_approval \<Rightarrow> bool" where
  "approved_for h t a \<longleftrightarrow> tx_verification_report_hash t = Some (ra_verification_report_hash a)
     \<and> ra_verified_preview_digest a = tx_preview_digest t
     \<and> ra_subject_digest a = release_subject h (tx_base_revision t) (tx_preview_digest t) (JStr (ra_verification_report_hash a))"

definition capability_expiry :: "release_approval \<Rightarrow> int \<Rightarrow> int" where
  "capability_expiry a latest = (case ra_expires_at a of None \<Rightarrow> latest | Some x \<Rightarrow> min latest x)"

definition capability_for :: "(byte list \<Rightarrow> byte list) \<Rightarrow> authority \<Rightarrow> design_transaction \<Rightarrow> string \<Rightarrow> release_approval \<Rightarrow>
    string \<Rightarrow> int \<Rightarrow> int \<Rightarrow> commit_authorization" where
  "capability_for h au t gh a nonce now lifetime = sealed_authorization h (au_secret au)
     (unsealed_authorization au (commit_request t (map (command_hash h) (tx_commands t)) gh (ra_approval_id a) lifetime nonce) a
       (design_hash h ''flux-clone-kernel-commit-command-hashes-v1'' (json_strings (map (command_hash h) (tx_commands t))))
       nonce now (capability_expiry a (now + lifetime)))"

lemma payload_sealed [simp]: "authorization_payload (sealed_authorization h key u) = authorization_payload u"
  by (simp add: sealed_authorization_def authorization_payload_def Let_def)

lemma digest_sealed: "authorization_digest h (sealed_authorization h key u) = authorization_digest h u"
  by (simp add: authorization_digest_def)

lemma sealed_fields:
  "ca_authorization_digest (sealed_authorization h key u) = authorization_digest h u"
  "ca_authorization_id (sealed_authorization h key u) = authorization_id_of (authorization_digest h u)"
  "ca_seal (sealed_authorization h key u) = authorization_seal h key (authorization_id_of (authorization_digest h u))
     (authorization_digest h u) (authorization_payload u)"
  by (simp_all add: sealed_authorization_def Let_def)

lemma capability_fields:
  assumes "c = capability_for h au t gh a nonce now lifetime"
  shows "ca_scope c = ''canonical-design-commit''" "ca_version c = 2"
    "ca_key_id c = au_key_id au"
    "ca_project_id c = dg_project_id (tx_staged_graph t)"
    "ca_base_revision c = tx_base_revision t" "ca_head_revision c = tx_base_revision t"
    "ca_transaction_id c = tx_id t"
    "ca_command_hashes c = map (command_hash h) (tx_commands t)"
    "ca_command_hashes_digest c = design_hash h ''flux-clone-kernel-commit-command-hashes-v1'' (json_strings (map (command_hash h) (tx_commands t)))"
    "ca_preview_digest c = tx_preview_digest t" "ca_prospective_graph_sha256 c = gh"
    "ca_verification_report_hash c = ra_verification_report_hash a"
    "ca_verified_preview_digest c = ra_verified_preview_digest a"
    "ca_commit_gate_passed c = ra_commit_gate_passed a"
    "ca_release_subject_digest c = ra_subject_digest a"
    "ca_human_approval_id c = ra_approval_id a" "ca_human_approval_run_id c = ra_run_id a"
    "ca_human_approval_kind c = ra_kind a"
    "ca_human_approval_digest c = ra_approval_digest a"
    "ca_human_approval_principal c = ra_principal a"
    "ca_human_approval_decided_at c = ra_decided_at a"
    "ca_human_approval_expires_at c = ra_expires_at a"
    "ca_issued_at c = now" "ca_expires_at c = capability_expiry a (now + lifetime)"
    "ca_nonce c = nonce"
    "ca_authorization_digest c = authorization_digest h c"
    "ca_authorization_id c = authorization_id_of (authorization_digest h c)"
    "ca_seal c = authorization_seal h (au_secret au)
       (authorization_id_of (authorization_digest h c))
       (authorization_digest h c) (authorization_payload c)"
  unfolding assms by (simp_all add: capability_for_def sealed_fields digest_sealed)
    (simp_all add: sealed_authorization_def unsealed_authorization_def commit_request_def Let_def)

context digest_function
begin

lemma capability_valid:
  assumes a: "release_approval_post_init a = Inr ()" "approved_for h t a"
    and t: "transaction_post_init t = Inr ()" "tx_commands t \<noteq> []" "id_ok (dg_project_id (tx_staged_graph t))"
    and gh: "is_sha256_hex gh" and key: "id_ok (au_key_id au)" and nonce: "is_sha256_hex nonce"
    and window: "now < capability_expiry a (now + lifetime)"
  shows "validate_authorization_values h (capability_for h au t gh a nonce now lifetime) = Inr ()"
proof -
  have scope: "id_ok ''canonical-design-commit''" "id_ok ''release''"
    by (rule id_ok_plain; auto simp: char_isspace_def is_control_def)+
  have a_ok: "id_ok (ra_approval_id a)" "id_ok (ra_run_id a)" "ra_kind a = ''release''" "id_ok (ra_principal a)" "is_sha256_hex (ra_subject_digest a)"
    "is_sha256_hex (ra_approval_digest a)" "is_sha256_hex (ra_verification_report_hash a)" "is_sha256_hex (ra_verified_preview_digest a)"
    "ra_commit_gate_passed a" "\<not> (case ra_expires_at a of None \<Rightarrow> False | Some x \<Rightarrow> x \<le> ra_decided_at a)"
    using a(1) unfolding release_approval_post_init_def violations_Inr_iff by simp_all
  have t_ok: "id_ok (tx_id t)" "is_sha256_hex (tx_base_revision t)" using t(1) by (simp_all add: transaction_post_init_def)
  have p: "is_sha256_hex (tx_preview_digest t)" using a_ok(8) a(2) by (simp add: approved_for_def)
  have cd: "commit_command_hashes_digest h (map (command_hash h) (tx_commands t))
      = Inr (design_hash h ''flux-clone-kernel-commit-command-hashes-v1'' (json_strings (map (command_hash h) (tx_commands t))))"
    using t(2) by (simp add: commit_command_hashes_digest_def bind_r_Inr_iff)
  show ?thesis
    unfolding validate_authorization_values_def bind_r_Inr_iff capability_fields [OF refl] cd
    using scope a_ok t_ok p t(3) gh key nonce window id_ok_authorization_id
    by (simp add: not_le)
qed

lemma observe_now_utc:
  assumes "\<not> au_clock_poisoned au" "in_datetime_range now" "\<forall>p. au_last_observed_at au = Some p \<longrightarrow> p \<le> now"
  shows "observe_now au (utc now) = (Inr now, au\<lparr>au_last_observed_at := Some now\<rparr>)"
  using assms by (auto simp: observe_now_def split: option.splits)

lemma capability_verified:
  assumes c: "c = capability_for h au t gh a nonce t0 lifetime"
    and issued: "au_issued au' (authorization_digest h c) = Some a" "au_approvals au' (ra_approval_id a) = Some a"
    and au': "au_secret au' = au_secret au" "au_key_id au' = au_key_id au"
    and a: "ra_kind a = ''release''" "ra_commit_gate_passed a"
    and now: "t0 \<le> now" "now < capability_expiry a (t0 + lifetime)"
  shows "verify_locked h au' c now = Inr \<lparr>vc_claims = c, vc_release_approval = a, vc_verified_at = now,
      vc_previously_consumed = au_consumed au' nonce\<rparr>"
proof -
  note fields = capability_fields [OF c]
  have live: "\<not> (case ra_expires_at a of None \<Rightarrow> False | Some x \<Rightarrow> x \<le> now)"
    "\<not> (case ra_expires_at a of None \<Rightarrow> False | Some x \<Rightarrow> x < capability_expiry a (t0 + lifetime))"
    using now(2) by (auto simp: capability_expiry_def split: option.splits)
  have "match_registered_approval c a a now = Inr ()"
    unfolding match_registered_approval_def raise_first_Inr_iff fields using a live by simp
  moreover have "same_digest (authorization_id_of (authorization_digest h c))
      (authorization_id_of (authorization_digest h c)) = Inr True"
    unfolding authorization_digest_def by (rule same_digest_authorization_id)
  ultimately show ?thesis
    using now issued au' a unfolding verify_locked_def Let_def fields by simp
qed

lemma capability_issued:
  assumes good: "authority_good au" and a: "au_approvals au (ra_approval_id a) = Some a" "approved_for h t a"
    and c: "c = capability_for h au t gh a nonce t0 lifetime" and ok: "validate_authorization_values h c = Inr ()"
    and t: "tx_commands t \<noteq> []" and gh: "is_sha256_hex gh" and nonce: "is_sha256_hex nonce"
    and unissued: "au_issued au (authorization_digest h c) = None"
    and lifetime: "0 < lifetime" "lifetime \<le> 30000000"
    and clock: "\<not> au_clock_poisoned au" "in_datetime_range t0" "\<forall>p. au_last_observed_at au = Some p \<longrightarrow> p \<le> t0"
      "in_datetime_range (t0 + lifetime)" "t0 < capability_expiry a (t0 + lifetime)"
  shows "issue_capability h au (utc t0)
      (commit_request t (map (command_hash h) (tx_commands t)) gh (ra_approval_id a) lifetime nonce) fresh
    = (Inr c, au\<lparr>au_last_observed_at := Some t0, au_issued := (au_issued au)(authorization_digest h c \<mapsto> a)\<rparr>)"
proof -
  define q where "q = commit_request t (map (command_hash h) (tx_commands t)) gh (ra_approval_id a) lifetime nonce"
  define au1 where "au1 = au\<lparr>au_last_observed_at := Some t0\<rparr>"
  have q: "iq_approval_id q = ra_approval_id a" "iq_base_revision q = tx_base_revision t" "iq_preview_digest q = tx_preview_digest t"
    "iq_lifetime q = lifetime" "iq_nonce q = Some nonce" "iq_command_hashes q = map (command_hash h) (tx_commands t)"
    by (simp_all add: q_def commit_request_def)
  have "release_approval_post_init a = Inr ()" using good a(1) by (simp add: authority_good_def)
  then have a_ok: "id_ok (ra_approval_id a)" "is_sha256_hex (tx_preview_digest t)"
    using a(2) by (simp_all add: release_approval_post_init_def approved_for_def)
  have ascii: "same_digest (ra_verified_preview_digest a) (tx_preview_digest t) = Inr True"
    using same_digest_hex [OF a_ok(2)] a(2) by (simp add: approved_for_def)
  have subject: "ra_subject_digest a = release_subject h (tx_base_revision t) (tx_preview_digest t) (JStr (ra_verification_report_hash a))"
    using a(2) by (simp add: approved_for_def)
  have live: "\<not> (case ra_expires_at a of None \<Rightarrow> False | Some x \<Rightarrow> x \<le> t0)"
    using clock(5) by (auto simp: capability_expiry_def split: option.splits)
  have cd: "commit_command_hashes_digest h (map (command_hash h) (tx_commands t))
      = Inr (design_hash h ''flux-clone-kernel-commit-command-hashes-v1'' (json_strings (map (command_hash h) (tx_commands t))))"
    using t by (simp add: commit_command_hashes_digest_def bind_r_Inr_iff)
  have c1: "sealed_authorization h (au_secret au1) (unsealed_authorization au1 q a
      (design_hash h ''flux-clone-kernel-commit-command-hashes-v1'' (json_strings (map (command_hash h) (tx_commands t))))
      nonce t0 (capability_expiry a (t0 + lifetime))) = c"
    by (simp add: c capability_for_def q_def au1_def unsealed_authorization_def)
  have "commit_authorization_post_init h c = Inr ()"
    using ok capability_fields [OF c] by (simp add: commit_authorization_post_init_def)
  then have post: "validated (commit_authorization_post_init h) c = Inr c" by simp
  have au1: "au_approvals au1 (ra_approval_id a) = Some a" "au_issued au1 (ca_authorization_digest c) = None"
    using a(1) unissued capability_fields(26) [OF c] by (simp_all add: au1_def)
  have "issue_checked h au1 q fresh t0 = Inr (c, a)"
    unfolding issue_checked_def Let_def q au1 option.case capability_expiry_def [symmetric]
    using a_ok(1) subject live clock(4) nonce by (simp add: ascii cd c1 post au1 violations_def)
  then show ?thesis
    using lifetime observe_now_utc [OF clock(1-3)] capability_fields(26) [OF c]
    by (simp add: issue_capability_def with_now_def q_def [symmetric] au1_def [symmetric] q) (simp add: au1_def)
qed

lemma capability_matches:
  assumes c: "c = capability_for h au t gh a nonce t0 lifetime" and gh: "graph_hash h (tx_staged_graph t) = Inr gh"
    and t: "transaction_post_init t = Inr ()" "tx_state t = Tx_VERIFIED" "tx_commands t \<noteq> []"
    and a: "approved_for h t a" "ra_kind a = ''release''" "ra_commit_gate_passed a"
    and v: "vc_claims v = c" "vc_release_approval v = a"
  shows "match_commit_authorization h t v = Inr ()"
proof -
  have cd: "commit_command_hashes_digest h (map (command_hash h) (tx_commands t)) = Inr (ca_command_hashes_digest c)"
    using t by (simp add: commit_command_hashes_digest_def bind_r_Inr_iff capability_fields [OF c])
  have t_ok: "tx_commit_gate_passed t" "tx_verification_preview_digest t = Some (tx_preview_digest t)"
    using t(1,2) by (simp_all add: transaction_post_init_def)
  have report: "tx_verification_report_hash t = Some (ra_verification_report_hash a)"
    "ra_verified_preview_digest a = tx_preview_digest t"
    "ra_subject_digest a = release_subject h (tx_base_revision t) (tx_preview_digest t) (JStr (ra_verification_report_hash a))"
    using a(1) by (simp_all add: approved_for_def)
  have "\<forall>(ok, label) \<in> set (authorization_bindings h t v (ca_command_hashes_digest c) gh). ok"
    using t_ok a(2,3) unfolding authorization_bindings_def Let_def v capability_fields [OF c] report by (simp add: json_opt_def)
  then show ?thesis using cd gh by (auto simp: match_commit_authorization_iff)
qed

lemma next_revision_exists:
  assumes g: "good_graph h (tx_staged_graph t)" "graph_hash h (tx_staged_graph t) = Inr gh" "gh \<noteq> rev_graph_hash parent"
    and t: "tx_commands t \<noteq> []" "transaction_post_init t = Inr ()" "tx_state t = Tx_VERIFIED" "rev_revision_hash parent = tx_base_revision t"
    and parent: "rev_sequence parent \<ge> 0" and v: "ca_preview_digest (vc_claims v) = tx_preview_digest t" "is_sha256_hex (tx_preview_digest t)"
  shows "\<exists>r. next_revision h parent t v = Inr r \<and> rev_graph r = tx_staged_graph t"
proof -
  define r where "r = \<lparr>rev_revision_hash = design_hash h ''flux-clone-design-revision-v1''
          (revision_json parent gh (map (command_hash h) (tx_commands t)) (tx_verification_report_hash t) (tx_preview_digest t)),
        rev_parent_revision = Some (rev_revision_hash parent), rev_sequence = rev_sequence parent + 1,
        rev_graph = tx_staged_graph t, rev_graph_hash = gh, rev_command_hashes = map (command_hash h) (tx_commands t),
        rev_verification_report_hash = tx_verification_report_hash t, rev_approval_preview_digest = Some (tx_preview_digest t)\<rparr>"
  have "is_sha256_hex (tx_base_revision t)" "\<exists>x. tx_verification_report_hash t = Some x \<and> is_sha256_hex x"
    using t(2,3) by (auto simp: transaction_post_init_def opt_ok_def)
  then have "revision_post_init h r = Inr ()"
    using g(2) t parent v graph_hash_hex [OF g(2)]
    by (auto simp: r_def revision_post_init_def bind_r_Inr_iff opt_ok_def)
  then have "next_revision h parent t v = Inr r"
    using g t(1) unfolding next_revision_def good_graph_def Let_def v(1) by (simp add: r_def)
  then show ?thesis by (auto simp: r_def)
qed

lemma capability_commits:
  assumes good: "kernel_good h r0 k au" "k_commit_verifier k"
    and t: "k_transactions k i = Some t" "tx_state t = Tx_VERIFIED" "tx_base_revision t = k_head k"
    and parent: "k_revisions k (k_head k) = Some parent"
    and gh: "graph_hash h (tx_staged_graph t) = Inr gh" "gh \<noteq> rev_graph_hash parent"
    and a: "au_approvals au (ra_approval_id a) = Some a" "approved_for h t a"
    and c: "c = capability_for h au t gh a nonce t0 lifetime" and ok: "validate_authorization_values h c = Inr ()"
    and au1: "au1 = au\<lparr>au_last_observed_at := Some t0, au_issued := (au_issued au)(authorization_digest h c \<mapsto> a)\<rparr>"
    and nonce: "au_consumed au nonce = None"
    and clock: "\<not> au_clock_poisoned au" "0 \<le> t0" "t0 \<le> t1" "t1 \<le> t2" "t2 < capability_expiry a (t0 + lifetime)" "in_datetime_range t2"
  shows "\<exists>r k' au2. commit h k au1 (utc t1) (utc t2) i c = (Inr r, k', au2) \<and> rev_graph r = tx_staged_graph t"
proof -
  have tg: "transaction_good h (k_revisions k) i t" using good t by (simp add: kernel_good_def)
  then have t_ok: "transaction_post_init t = Inr ()" "good_graph h (tx_staged_graph t)" by (simp_all add: transaction_good_def)
  have m: "revisions_good h (k_revisions k) (k_head k)" using good by (simp add: kernel_good_def)
  have parent_hash: "rev_revision_hash parent = tx_base_revision t" "graph_hash h (rev_graph parent) = Inr (rev_graph_hash parent)"
    "0 \<le> rev_sequence parent"
    using m parent t(3) by (auto simp: revisions_good_def)
  have cmds: "tx_commands t \<noteq> []"
    using tg parent t(3) gh parent_hash(2) by (auto simp: transaction_good_def)
  have "release_approval_post_init a = Inr ()" using good a(1) by (simp add: kernel_good_def authority_good_def)
  then have a_ok: "ra_kind a = ''release''" "ra_commit_gate_passed a" "is_sha256_hex (tx_preview_digest t)"
    using a(2) by (simp_all add: release_approval_post_init_def approved_for_def)
  have ranges: "in_datetime_range t1" using clock by (auto simp: in_datetime_range_def)
  define v where "v = \<lparr>vc_claims = c, vc_release_approval = a, vc_verified_at = t1, vc_previously_consumed = None\<rparr>"
  define au2 where "au2 = au1\<lparr>au_last_observed_at := Some t1\<rparr>"
  define au3 where "au3 = au1\<lparr>au_last_observed_at := Some t2\<rparr>"
  have verified: "verify_locked h au' c now = Inr \<lparr>vc_claims = c, vc_release_approval = a, vc_verified_at = now, vc_previously_consumed = None\<rparr>"
    if "au' \<in> {au2, au3}" "now \<in> {t1, t2}" for au' now
    using that nonce a(1) clock
    by (subst capability_verified [OF c _ _ _ _ a_ok(1,2)]) (auto simp: au2_def au3_def au1)
  have o1: "observe_now au1 (utc t1) = (Inr t1, au2)"
    unfolding au2_def by (rule observe_now_utc) (use clock ranges in \<open>simp_all add: au1\<close>)
  have o2: "observe_now au2 (utc t2) = (Inr t2, au3)"
    using observe_now_utc [of au2 t2] clock by (simp add: au2_def au3_def au1)
  have step1: "verify_capability h au1 (utc t1) c = (Inr v, au2)"
    using ok o1 verified [of au2 t1] by (simp add: verify_capability_def snapshot_authorization_def with_now_def v_def)
  have v_fields: "vc_claims v = c" "vc_release_approval v = a" "vc_previously_consumed v = None" by (simp_all add: v_def)
  have match: "match_commit_authorization h t v = Inr ()"
    by (rule capability_matches [OF c gh(1) t_ok(1) t(2) cmds a(2) a_ok(1,2) v_fields(1,2)])
  obtain r where r: "next_revision h parent t v = Inr r" "rev_graph r = tx_staged_graph t"
    using next_revision_exists [where v = v, OF t_ok(2) gh cmds t_ok(1) t(2) parent_hash(1,3) _ a_ok(3)]
      capability_fields(10) [OF c] by (auto simp: v_fields)
  have t_gate: "tx_commit_gate_passed t" using match_commit_authorization_Inr(12) [OF match] .
  have new: "commit_new h k t v = Inr r"
    using t parent match r(1) t_gate by (simp add: commit_new_def head_revision_def v_fields)
  obtain consumed au4 where use: "consume_capability h au2 (utc t2) v = (Inr consumed, au4)"
    using o2 verified [of au3 t2] by (simp add: consume_capability_def with_now_def v_fields)
  have "transaction_post_init (committed_transaction t r) = Inr ()"
    by (rule committed_transaction_ok [OF t_ok(1) next_revision_hash [OF r(1)] t(2)])
  then have "commit h k au1 (utc t1) (utc t2) i c = (Inr r, commit_published k i r consumed (committed_transaction t r), au4)"
    using good(2) t step1 new use by (simp add: commit_def get_transaction_def)
  then show ?thesis using r(2) by blast
qed

end

section \<open>Approved transactions commit\<close>

text \<open>
  C11: A verified and approved transaction can be committed. Take any history of a kernel that has a verifier,
  and a transaction that is verified against the current head and changes the graph. Let the registry hold
  an approval of exactly this base, preview and report, let the nonce be a digest that was not consumed,
  with the capability it leads to not issued before, let the authority's clock never have moved back, and
  let the lifetime be at most thirty seconds. Then the authority issues the capability, and every commit
  with it, at two readings of the clock in order and before the capability and the approval expire,
  returns the revision with the staged graph.
\<close>

theorem approved_transaction_commits:
  assumes h: "digest_function h" and "served h r0 k au" "k_commit_verifier k"
    and t: "k_transactions k i = Some t" "tx_state t = Tx_VERIFIED" "tx_base_revision t = k_head k"
    and change: "k_revisions k (k_head k) = Some parent" "graph_hash h (tx_staged_graph t) = Inr gh" "gh \<noteq> rev_graph_hash parent"
    and a: "au_approvals au approval_id = Some a" "approved_for h t a"
    and nonce: "is_sha256_hex nonce" "au_consumed au nonce = None"
      "au_issued au (authorization_digest h (capability_for h au t gh a nonce t0 lifetime)) = None"
    and window: "0 < lifetime" "lifetime \<le> 30000000" "t0 \<le> t1" "t1 \<le> t2" "t2 < t0 + lifetime"
      "\<forall>x. ra_expires_at a = Some x \<longrightarrow> t2 < x"
    and clock: "\<not> au_clock_poisoned au" "0 \<le> t0" "\<forall>p. au_last_observed_at au = Some p \<longrightarrow> p \<le> t0" "in_datetime_range (t0 + lifetime)"
  shows "\<exists>c au1 r k' au2.
    issue_capability h au (utc t0) (commit_request t (map (command_hash h) (tx_commands t)) gh approval_id lifetime nonce) fresh = (Inr c, au1)
    \<and> commit h k au1 (utc t1) (utc t2) i c = (Inr r, k', au2) \<and> rev_graph r = tx_staged_graph t"
proof -
  note good = served_good [OF assms(2)]
  define c where "c = capability_for h au t gh a nonce t0 lifetime"
  have au_good: "authority_good au" using good by (simp add: kernel_good_def)
  then have aid: "ra_approval_id a = approval_id" and a_ok: "release_approval_post_init a = Inr ()" "id_ok (au_key_id au)"
    using a(1) by (auto simp: authority_good_def)
  have tg: "transaction_good h (k_revisions k) i t" using good t by (simp add: kernel_good_def)
  have base_hash: "graph_hash h (rev_graph parent) = Inr (rev_graph_hash parent)"
    using good change(1) unfolding kernel_good_def revisions_good_def by blast
  have cmds: "tx_commands t \<noteq> []"
    using tg change t(3) base_hash by (auto simp: transaction_good_def)
  have "validate_graph (tx_staged_graph t) = Inr ()" using tg by (simp add: transaction_good_def good_graph_def)
  then have project: "id_ok (dg_project_id (tx_staged_graph t))" by (simp add: validate_graph_def bind_r_Inr_iff)
  have expiry: "t2 < capability_expiry a (t0 + lifetime)" using window(5,6) by (auto simp: capability_expiry_def split: option.splits)
  have range: "in_datetime_range t0" "in_datetime_range t2" using clock(2,4) window by (auto simp: in_datetime_range_def)
  have gh: "is_sha256_hex gh" by (rule digest_function.graph_hash_hex [OF h change(2)])
  have ok: "validate_authorization_values h c = Inr ()"
    unfolding c_def using tg expiry window
    by (intro digest_function.capability_valid [OF h a_ok(1) a(2) _ cmds project gh a_ok(2) nonce(1)]) (simp_all add: transaction_good_def)
  have "issue_capability h au (utc t0) (commit_request t (map (command_hash h) (tx_commands t)) gh (ra_approval_id a) lifetime nonce) fresh
    = (Inr c, au\<lparr>au_last_observed_at := Some t0, au_issued := (au_issued au)(authorization_digest h c \<mapsto> a)\<rparr>)"
    by (rule digest_function.capability_issued [OF h au_good _ a(2) c_def ok cmds gh nonce(1)])
      (use a(1) aid nonce(3) c_def window clock range expiry in \<open>auto\<close>)
  moreover have "\<exists>r k' au2. commit h k (au\<lparr>au_last_observed_at := Some t0, au_issued := (au_issued au)(authorization_digest h c \<mapsto> a)\<rparr>)
      (utc t1) (utc t2) i c = (Inr r, k', au2) \<and> rev_graph r = tx_staged_graph t"
    by (rule digest_function.capability_commits [OF h good assms(3) t change _ a(2) c_def ok refl nonce(2) clock(1,2) window(3,4) expiry range(2)])
      (use a(1) aid in simp)
  ultimately show ?thesis unfolding aid by blast
qed

end
