(* ===== verification/Kernel_Samples.thy ===== *)
theory Kernel_Samples
  imports Kernel_Liveness
begin

text \<open>
  A small history that reaches a commit: an empty design with one copper layer, one transaction that
  creates a net, its verification, a registered approval, a capability and the commit. The hash of the
  sample tells the graph and the first revision apart from every other input.
\<close>

section \<open>The hash\<close>

definition preimage :: "string \<Rightarrow> json \<Rightarrow> byte list" where
  "preimage d j = utf8_bytes d @ [0] @ utf8_bytes (canonical_json j)"

lemma design_hash_preimage: "design_hash h d j = hexdigest (h (preimage d j))"
  by (simp add: design_hash_def preimage_def)

lemma preimage_inject: "preimage d i = preimage d j \<Longrightarrow> json_norm i = json_norm j"
  unfolding preimage_def by (rule canonical_json_norm_inject) simp

lemma json_norm_member:
  assumes "json_norm (JObj a) = json_norm (JObj b)" "(k, v) \<in> set a"
  shows "\<exists>w. (k, w) \<in> set b \<and> json_norm w = json_norm v"
proof -
  have "sort_key fst (map (\<lambda>(k, v). (k, json_norm v)) a) = sort_key fst (map (\<lambda>(k, v). (k, json_norm v)) b)"
    using assms(1) by simp
  from arg_cong [where f = set, OF this]
  have "set (map (\<lambda>(k, v). (k, json_norm v)) a) = set (map (\<lambda>(k, v). (k, json_norm v)) b)" by (simp only: set_sort)
  moreover have "(k, json_norm v) \<in> set (map (\<lambda>(k, v). (k, json_norm v)) a)" using assms(2) by force
  ultimately show ?thesis by force
qed

definition sample_graph :: design_graph where
  "sample_graph = \<lparr>dg_schema_version = 1, dg_project_id = ''p'', dg_layers = [''F''], dg_board_outline = [], dg_components = [],
     dg_nets = [], dg_placements = [], dg_tracks = [], dg_pads = [], dg_holes = [], dg_vias = [], dg_zones = [],
     dg_wires = [], dg_junctions = []\<rparr>"

definition genesis_json :: "string \<Rightarrow> json" where
  "genesis_json gh = JObj [(''parent'', JNull), (''sequence'', JInt 0), (''graph_hash'', JStr gh)]"

definition sample_hash :: "byte list \<Rightarrow> byte list" where
  "sample_hash bs = replicate 32
     (if bs = preimage ''flux-clone-design-graph-v1'' (design_graph_json sample_graph) then 1
      else if bs = preimage ''flux-clone-design-revision-v1'' (genesis_json (hexdigest (replicate 32 1))) then 2 else 0)"

interpretation sample_digest: digest_function sample_hash
  by unfold_locales (simp add: sample_hash_def)

section \<open>The design\<close>

lemmas plain_char_defs = id_ok_def text_ok_def strip_def char_isspace_def is_control_def

lemma sample_graph_good: "good_graph sample_hash sample_graph"
proof -
  have "graph_normalized sample_hash sample_graph = Inr sample_graph"
    by (simp add: graph_normalized_def sample_graph_def design_graph_post_init_def plain_char_defs int64_ok_def)
  moreover have "validate_graph sample_graph = Inr ()"
    by (simp add: validate_graph_def bind_r_Inr_iff sample_graph_def unique_checks_def reference_checks_def schematic_checks_def plain_char_defs
      all_members_def logical_nets_differ_def land_group_ids_def bound_pad_ids_def any_wires_conflict_def)
  ultimately show ?thesis by (simp add: good_graph_def)
qed

definition sample_graph_hash :: string where
  "sample_graph_hash = hexdigest (replicate 32 1)"

definition sample_revision :: design_revision where
  "sample_revision = \<lparr>rev_revision_hash = genesis_hash sample_hash sample_graph_hash, rev_parent_revision = None,
       rev_sequence = 0, rev_graph = sample_graph, rev_graph_hash = sample_graph_hash, rev_command_hashes = [],
       rev_verification_report_hash = None, rev_approval_preview_digest = None\<rparr>"

lemma sample_graph_hash: "graph_hash sample_hash sample_graph = Inr sample_graph_hash"
  by (simp add: graph_hash_good [OF sample_graph_good] design_hash_preimage sample_hash_def sample_graph_hash_def)

lemma sample_base_hex: "is_sha256_hex (genesis_hash sample_hash gh)"
  by (simp add: genesis_hash_def)

lemma sample_kernel: "kernel_init sample_hash sample_graph True = Inr (kernel_at sample_revision True)"
proof -
  have "revision_post_init sample_hash sample_revision = Inr ()"
    using sample_graph_hash sample_digest.graph_hash_hex [OF sample_graph_hash] sample_base_hex
    by (simp add: revision_post_init_def bind_r_Inr_iff sample_revision_def opt_ok_def)
  then show ?thesis
    using sample_graph_good sample_graph_hash
    by (simp add: kernel_init_def good_graph_def sample_revision_def)
qed

section \<open>The transaction\<close>

definition sample_base :: string where
  "sample_base = rev_revision_hash sample_revision"

definition sample_command :: design_command where
  "sample_command = \<lparr>cmd_id = ''c'', cmd_base_revision = sample_base, cmd_transaction_id = ''t'', cmd_actor = ''a'',
     cmd_kind = NET_CREATE, cmd_payload = [(''net_id'', JStr ''n''), (''name'', JStr ''GND'')], cmd_idempotency_key = ''i''\<rparr>"

definition sample_net_graph :: design_graph where
  "sample_net_graph = sample_graph\<lparr>dg_nets := [\<lparr>dnet_id = ''n'', dnet_name = ''GND'', dnet_members = []\<rparr>]\<rparr>"

lemma sample_net_graph_valid: "graph_normalized sample_hash sample_net_graph = Inr sample_net_graph" "validate_graph sample_net_graph = Inr ()"
proof -
  show "graph_normalized sample_hash sample_net_graph = Inr sample_net_graph"
    by (simp add: graph_normalized_def sample_net_graph_def sample_graph_def design_graph_post_init_def plain_char_defs int64_ok_def
        dnet_normalized_def dnet_post_init_def violations_def)
  show "validate_graph sample_net_graph = Inr ()"
    by (simp add: validate_graph_def bind_r_Inr_iff sample_net_graph_def sample_graph_def unique_checks_def reference_checks_def
      schematic_checks_def plain_char_defs all_members_def logical_nets_differ_def land_group_ids_def bound_pad_ids_def any_wires_conflict_def)
qed

lemma sample_stage_graph: "stage_graph sample_hash sample_graph sample_command = Inr sample_net_graph"
proof -
  have "apply_command sample_hash sample_graph sample_command = Inr sample_net_graph"
    by (simp add: apply_command_def sample_command_def apply_net_create_def payload_keys_def p_string_def violations_def validated_def
        dnet_post_init_def graph_replace_def design_graph_post_init_def plain_char_defs int64_ok_def sample_graph_def sample_net_graph_def)
  moreover have "sample_net_graph \<noteq> sample_graph" by (simp add: sample_net_graph_def sample_graph_def)
  ultimately show ?thesis using sample_net_graph_valid by (simp add: stage_graph_def)
qed

lemma sample_net_graph_hash: "\<exists>gh. graph_hash sample_hash sample_net_graph = Inr gh \<and> gh \<noteq> sample_graph_hash"
proof -
  have "preimage ''flux-clone-design-graph-v1'' (design_graph_json sample_net_graph)
      \<noteq> preimage ''flux-clone-design-graph-v1'' (design_graph_json sample_graph)"
  proof
    assume "preimage ''flux-clone-design-graph-v1'' (design_graph_json sample_net_graph)
      = preimage ''flux-clone-design-graph-v1'' (design_graph_json sample_graph)"
    then have "json_norm (design_graph_json sample_graph) = json_norm (design_graph_json sample_net_graph)"
      by (metis preimage_inject)
    from json_norm_member [OF this [unfolded design_graph_json_def], of "''nets''" "JList []"]
    show False by (simp add: sample_graph_def sample_net_graph_def)
  qed
  then have "sample_hash (preimage ''flux-clone-design-graph-v1'' (design_graph_json sample_net_graph)) \<noteq> replicate 32 1"
    by (simp add: sample_hash_def)
  then show ?thesis
    using graph_hash_good [of sample_hash sample_net_graph] sample_net_graph_valid
    by (simp add: good_graph_def design_hash_preimage sample_graph_hash_def hexdigest_inject)
qed

definition sample_staged :: "design_graph \<Rightarrow> design_command list \<Rightarrow> string \<Rightarrow> design_transaction" where
  "sample_staged g cs digest = \<lparr>tx_id = ''t'', tx_base_revision = sample_base, tx_staged_graph = g, tx_commands = cs,
     tx_state = Tx_OPEN, tx_verification_report_hash = None, tx_commit_gate_passed = False,
     tx_preview_digest = digest, tx_verification_preview_digest = None, tx_committed_revision_hash = None\<rparr>"

lemma sample_base_sha: "is_sha256_hex sample_base"
  by (simp add: sample_base_def sample_revision_def sample_base_hex)

lemma sample_staged_ok:
  assumes "cs = [] \<or> cs = [sample_command]" "digest = [] \<or> is_sha256_hex digest"
  shows "transaction_post_init (sample_staged g cs digest) = Inr ()"
  using assms sample_base_sha
  by (auto simp: transaction_post_init_def sample_staged_def opt_ok_def sample_command_def plain_char_defs)

definition sample_preview :: "design_graph \<Rightarrow> design_command list \<Rightarrow> string \<Rightarrow> string" where
  "sample_preview g cs gh = design_hash sample_hash ''flux-clone-preview-v2'' (preview_json sample_hash (sample_staged g cs []) gh)"

lemma sample_refresh:
  assumes "cs = [] \<or> cs = [sample_command]" "graph_hash sample_hash g = Inr gh"
  shows "refresh_preview sample_hash (sample_staged g cs d) = Inr (sample_staged g cs (sample_preview g cs gh))"
proof -
  have "(sample_staged g cs d)\<lparr>tx_preview_digest := design_hash sample_hash ''flux-clone-preview-v2''
      (preview_json sample_hash (sample_staged g cs d) gh)\<rparr> = sample_staged g cs (sample_preview g cs gh)"
    by (simp add: sample_staged_def sample_preview_def preview_json_def)
  moreover have "transaction_post_init (sample_staged g cs (sample_preview g cs gh)) = Inr ()"
    using assms(1) by (rule sample_staged_ok) (simp add: sample_preview_def)
  ultimately show ?thesis using assms(2) by (simp add: refresh_preview_def sample_staged_def)
qed

definition sample_begun :: design_transaction where
  "sample_begun = sample_staged sample_graph [] (sample_preview sample_graph [] sample_graph_hash)"

lemma sample_begin: "begin_transaction sample_hash (kernel_at sample_revision True) ''t'' sample_base
    = Inr (sample_begun, (kernel_at sample_revision True)\<lparr>k_transactions := [''t'' \<mapsto> sample_begun]\<rparr>)"
proof -
  have "refresh_preview sample_hash (sample_staged sample_graph [] []) = Inr sample_begun"
    unfolding sample_begun_def using sample_refresh [OF disjI1 [OF refl] sample_graph_hash, of "[]"] .
  moreover have "transaction_post_init (sample_staged sample_graph [] []) = Inr ()" by (rule sample_staged_ok) simp_all
  moreover have "rev_graph sample_revision = sample_graph" by (simp add: sample_revision_def)
  ultimately show ?thesis
    using sample_base_sha
    by (simp add: begin_transaction_def kernel_at_def head_revision_def sample_base_def [symmetric] plain_char_defs violations_def
        sample_staged_def)
qed

definition sample_ready :: "string \<Rightarrow> design_transaction" where
  "sample_ready gh = sample_staged sample_net_graph [sample_command] (sample_preview sample_net_graph [sample_command] gh)"

definition sample_staged_kernel :: "string \<Rightarrow> kernel" where
  "sample_staged_kernel gh = (kernel_at sample_revision True)\<lparr>k_transactions := [''t'' \<mapsto> sample_ready gh],
     k_idempotency := [(''t'', ''i'') \<mapsto> command_hash sample_hash sample_command],
     k_command_ids := [''c'' \<mapsto> command_hash sample_hash sample_command]\<rparr>"

lemma sample_stage:
  assumes "graph_hash sample_hash sample_net_graph = Inr gh"
  shows "stage sample_hash ((kernel_at sample_revision True)\<lparr>k_transactions := [''t'' \<mapsto> sample_begun]\<rparr>) sample_command
    = Inr (sample_ready gh, sample_staged_kernel gh)"
proof -
  have cmd: "cmd_transaction_id sample_command = ''t''" "cmd_base_revision sample_command = sample_base"
    "cmd_idempotency_key sample_command = ''i''" "cmd_id sample_command = ''c''" by (simp_all add: sample_command_def)
  have upd: "sample_begun\<lparr>tx_staged_graph := sample_net_graph, tx_commands := tx_commands sample_begun @ [sample_command],
       tx_verification_report_hash := None, tx_verification_preview_digest := None, tx_commit_gate_passed := False\<rparr>
     = sample_staged sample_net_graph [sample_command] (tx_preview_digest sample_begun)"
    by (simp add: sample_begun_def sample_staged_def)
  have "transaction_post_init (sample_staged sample_net_graph [sample_command] (tx_preview_digest sample_begun)) = Inr ()"
    by (rule sample_staged_ok) (simp_all add: sample_begun_def sample_staged_def sample_preview_def)
  moreover have "refresh_preview sample_hash (sample_staged sample_net_graph [sample_command] d) = Inr (sample_ready gh)" for d
    unfolding sample_ready_def by (rule sample_refresh) (simp_all add: assms)
  moreover have "tx_state sample_begun = Tx_OPEN" "tx_staged_graph sample_begun = sample_graph" "tx_base_revision sample_begun = sample_base"
    by (simp_all add: sample_begun_def sample_staged_def)
  ultimately have "stage_command sample_hash sample_begun sample_command = Inr (sample_ready gh)"
    using upd by (simp add: stage_command_def sample_stage_graph)
  then show ?thesis
    by (simp add: stage_def cmd get_transaction_def \<open>tx_base_revision sample_begun = sample_base\<close> kernel_at_def sample_staged_kernel_def)
qed

section \<open>Verification and approval\<close>

definition sample_report :: string where
  "sample_report = hexdigest (replicate 32 3)"

definition sample_verified :: "string \<Rightarrow> design_transaction" where
  "sample_verified gh = verified_as (sample_ready gh) sample_report True"

lemma sample_report_hex: "is_sha256_hex sample_report"
  unfolding sample_report_def by (rule is_sha256_hexdigest) simp

lemma sample_record:
  "record_verification (sample_staged_kernel gh) ''t'' sample_report True None
    = Inr (sample_verified gh, (sample_staged_kernel gh)\<lparr>k_transactions := [''t'' \<mapsto> sample_verified gh]\<rparr>)"
proof -
  have p: "is_sha256_hex (tx_preview_digest (sample_ready gh))" by (simp add: sample_ready_def sample_staged_def sample_preview_def)
  have o: "tx_state (sample_ready gh) = Tx_OPEN" by (simp add: sample_ready_def sample_staged_def)
  have "transaction_post_init (sample_ready gh) = Inr ()"
    unfolding sample_ready_def by (rule sample_staged_ok) (simp_all add: sample_preview_def)
  then have "transaction_post_init (sample_verified gh) = Inr ()"
    using p sample_report_hex o
    by (simp add: transaction_post_init_def sample_verified_def verified_as_def opt_ok_def)
  then show ?thesis
    using p sample_report_hex o
    by (simp add: record_verification_def get_transaction_def sample_staged_kernel_def sample_verified_def verified_as_def Let_def)
qed

definition sample_approval :: "string \<Rightarrow> release_approval" where
  "sample_approval gh = \<lparr>ra_approval_id = ''approval'', ra_run_id = ''run'', ra_kind = ''release'',
     ra_subject_digest = release_subject sample_hash sample_base (tx_preview_digest (sample_ready gh)) (JStr sample_report),
     ra_approval_digest = sample_report, ra_principal = ''owner'', ra_decided_at = 0, ra_expires_at = None,
     ra_verification_report_hash = sample_report, ra_verified_preview_digest = tx_preview_digest (sample_ready gh),
     ra_commit_gate_passed = True\<rparr>"

definition sample_authority :: authority where
  "sample_authority = \<lparr>au_key_id = ''key'', au_secret = replicate 32 7, au_required_release_principal = ''owner'',
     au_approvals = Map.empty, au_approval_ids_seen = [], au_issued = Map.empty, au_consumed = Map.empty,
     au_last_observed_at = None, au_clock_poisoned = False\<rparr>"

lemma sample_authority_init: "authority_init ''key'' (replicate 32 7) ''owner'' = Inr sample_authority"
  by (simp add: authority_init_def sample_authority_def plain_char_defs)

definition sample_registered :: "string \<Rightarrow> authority" where
  "sample_registered gh = approval_added (sample_authority\<lparr>au_last_observed_at := Some 0\<rparr>) (sample_approval gh)"

lemma sample_register: "register_release_approval sample_authority (utc 0) (sample_approval gh) = (Inr (sample_approval gh), sample_registered gh)"
proof -
  have "is_sha256_hex (tx_preview_digest (sample_ready gh))" by (simp add: sample_ready_def sample_staged_def sample_preview_def)
  then have "release_approval_post_init (sample_approval gh) = Inr ()"
    using sample_report_hex by (simp add: release_approval_post_init_def sample_approval_def plain_char_defs)
  then have "snapshot_release_approval (sample_approval gh) = Inr (sample_approval gh)" by (simp add: snapshot_release_approval_def)
  moreover have "observe_now sample_authority (utc 0) = (Inr 0, sample_authority\<lparr>au_last_observed_at := Some 0\<rparr>)"
    by (simp add: observe_now_def sample_authority_def in_datetime_range_def datetime_max_def)
  ultimately show ?thesis
    by (simp add: register_release_approval_def with_now_def sample_registered_def approval_added_def)
      (simp add: sample_approval_def sample_authority_def)
qed

section \<open>The commit\<close>

definition sample_kernel_verified :: "string \<Rightarrow> kernel" where
  "sample_kernel_verified gh = (sample_staged_kernel gh)\<lparr>k_transactions := [''t'' \<mapsto> sample_verified gh]\<rparr>"

lemma sample_revision_fresh:
  "design_hash sample_hash ''flux-clone-design-revision-v1'' (revision_json q gh cs report p) \<noteq> sample_base"
proof -
  let ?n = "preimage ''flux-clone-design-revision-v1'' (revision_json q gh cs report p)"
  let ?g = "preimage ''flux-clone-design-revision-v1'' (genesis_json (hexdigest (replicate 32 1)))"
  have ne: "?n \<noteq> ?g"
  proof
    assume "?n = ?g"
    then have "json_norm (revision_json q gh cs report p) = json_norm (genesis_json (hexdigest (replicate 32 1)))" by (rule preimage_inject)
    from json_norm_member [OF this [unfolded revision_json_def genesis_json_def], of "''commands''"] show False by simp
  qed
  have "sample_hash ?n \<noteq> sample_hash ?g" using ne by (auto simp: sample_hash_def)
  moreover have "sample_base = hexdigest (sample_hash ?g)"
    by (simp add: sample_base_def sample_revision_def genesis_hash_def design_hash_preimage sample_graph_hash_def genesis_json_def)
  ultimately show ?thesis by (metis design_hash_preimage hexdigest_inject)
qed

lemma sample_served:
  assumes "graph_hash sample_hash sample_net_graph = Inr gh"
  shows "served sample_hash sample_revision (sample_kernel_verified gh) (sample_registered gh)"
proof -
  have "served sample_hash sample_revision (kernel_at sample_revision True) sample_authority"
    by (rule served_genesis [OF sample_kernel _ sample_authority_init]) (simp add: kernel_at_def)
  from served_step [OF this step_begin [OF sample_begin]]
  have "served sample_hash sample_revision ((kernel_at sample_revision True)\<lparr>k_transactions := [''t'' \<mapsto> sample_begun]\<rparr>) sample_authority" .
  from served_step [OF this step_stage [OF sample_stage [OF assms]]]
  have "served sample_hash sample_revision (sample_staged_kernel gh) sample_authority" .
  from served_step [OF this step_record [OF sample_record]]
  have "served sample_hash sample_revision (sample_kernel_verified gh) sample_authority" by (simp add: sample_kernel_verified_def)
  from served_step [OF this step_authority [OF step_register [OF sample_register]]]
  show ?thesis .
qed

lemma sample_transaction:
  "k_commit_verifier (sample_kernel_verified gh)" "k_transactions (sample_kernel_verified gh) ''t'' = Some (sample_verified gh)"
  "tx_state (sample_verified gh) = Tx_VERIFIED" "tx_base_revision (sample_verified gh) = k_head (sample_kernel_verified gh)"
  "k_revisions (sample_kernel_verified gh) = [sample_base \<mapsto> sample_revision]" "k_head (sample_kernel_verified gh) = sample_base"
  "tx_staged_graph (sample_verified gh) = sample_net_graph" "rev_graph_hash sample_revision = sample_graph_hash"
  "tx_commands (sample_verified gh) = [sample_command]"
  by (simp_all add: sample_kernel_verified_def sample_staged_kernel_def kernel_at_def sample_base_def sample_revision_def
      sample_verified_def verified_as_def sample_ready_def sample_staged_def)

lemma sample_approved: "au_approvals (sample_registered gh) ''approval'' = Some (sample_approval gh)"
    "approved_for sample_hash (sample_verified gh) (sample_approval gh)"
  by (simp_all add: sample_registered_def approval_added_def sample_approval_def approved_for_def sample_verified_def verified_as_def
      sample_ready_def sample_staged_def)

definition sample_capability :: "string \<Rightarrow> commit_authorization" where
  "sample_capability gh = capability_for sample_hash (sample_registered gh) (sample_verified gh) gh (sample_approval gh) sample_report 1 1000"

definition sample_issued :: "string \<Rightarrow> authority" where
  "sample_issued gh = (sample_registered gh)\<lparr>au_last_observed_at := Some 1,
     au_issued := (au_issued (sample_registered gh))(authorization_digest sample_hash (sample_capability gh) \<mapsto> sample_approval gh)\<rparr>"

lemma sample_commits:
  assumes gh: "graph_hash sample_hash sample_net_graph = Inr gh" "gh \<noteq> sample_graph_hash"
  shows "issue_capability sample_hash (sample_registered gh) (utc 1)
      (commit_request (sample_verified gh) (map (command_hash sample_hash) (tx_commands (sample_verified gh))) gh
         (ra_approval_id (sample_approval gh)) 1000 sample_report) []
      = (Inr (sample_capability gh), sample_issued gh)"
    "\<exists>r k' au. commit sample_hash (sample_kernel_verified gh) (sample_issued gh) (utc 2) (utc 3) ''t'' (sample_capability gh) = (Inr r, k', au)
       \<and> rev_graph r = sample_net_graph"
proof -
  note good = served_good [OF sample_served [OF gh(1)]]
  have au_good: "authority_good (sample_registered gh)" using good by (simp add: kernel_good_def)
  have aid: "ra_approval_id (sample_approval gh) = ''approval''" "ra_expires_at (sample_approval gh) = None" by (simp_all add: sample_approval_def)
  have a: "au_approvals (sample_registered gh) (ra_approval_id (sample_approval gh)) = Some (sample_approval gh)"
    using sample_approved by (simp add: aid)
  have a_ok: "release_approval_post_init (sample_approval gh) = Inr ()" using au_good a by (simp add: authority_good_def)
  have t_ok: "transaction_post_init (sample_verified gh) = Inr ()"
    using good sample_transaction(2) unfolding kernel_good_def transaction_good_def by blast
  have expiry: "capability_expiry (sample_approval gh) 1001 = 1001" by (simp add: capability_expiry_def aid)
  have clean: "au_issued (sample_registered gh) = Map.empty" "au_consumed (sample_registered gh) = Map.empty"
    "au_last_observed_at (sample_registered gh) = Some 0" "\<not> au_clock_poisoned (sample_registered gh)" "au_key_id (sample_registered gh) = ''key''"
    by (simp_all add: sample_registered_def approval_added_def sample_authority_def)
  have ok: "validate_authorization_values sample_hash (sample_capability gh) = Inr ()"
    unfolding sample_capability_def
    by (rule sample_digest.capability_valid [OF a_ok sample_approved(2) t_ok _ _ sample_digest.graph_hash_hex [OF gh(1)] _ sample_report_hex])
      (simp_all add: sample_transaction expiry clean, simp_all add: sample_net_graph_def sample_graph_def plain_char_defs)
  show "issue_capability sample_hash (sample_registered gh) (utc 1)
      (commit_request (sample_verified gh) (map (command_hash sample_hash) (tx_commands (sample_verified gh))) gh
         (ra_approval_id (sample_approval gh)) 1000 sample_report) []
      = (Inr (sample_capability gh), sample_issued gh)"
    unfolding sample_issued_def
    by (rule sample_digest.capability_issued [OF au_good a sample_approved(2) sample_capability_def ok _
          sample_digest.graph_hash_hex [OF gh(1)] sample_report_hex])
      (simp_all add: sample_transaction clean expiry in_datetime_range_def datetime_max_def)
  have parent: "k_revisions (sample_kernel_verified gh) (k_head (sample_kernel_verified gh)) = Some sample_revision"
    by (simp add: sample_transaction)
  have gh': "graph_hash sample_hash (tx_staged_graph (sample_verified gh)) = Inr gh" "gh \<noteq> rev_graph_hash sample_revision"
    using gh by (simp_all add: sample_transaction)
  from sample_digest.capability_commits [OF good sample_transaction(1-4) parent gh' a sample_approved(2) sample_capability_def ok
      sample_issued_def, of 2 3]
  show "\<exists>r k' au. commit sample_hash (sample_kernel_verified gh) (sample_issued gh) (utc 2) (utc 3) ''t'' (sample_capability gh) = (Inr r, k', au)
       \<and> rev_graph r = sample_net_graph"
    by (simp add: clean expiry sample_transaction(7) in_datetime_range_def datetime_max_def)
qed

text \<open>The whole history, with the state before and after the commit.\<close>

lemma sample_history:
  obtains gh r k' au where "graph_hash sample_hash sample_net_graph = Inr gh" "gh \<noteq> sample_graph_hash"
    "served sample_hash sample_revision (sample_kernel_verified gh) (sample_issued gh)"
    "commit sample_hash (sample_kernel_verified gh) (sample_issued gh) (utc 2) (utc 3) ''t'' (sample_capability gh) = (Inr r, k', au)"
    "served sample_hash sample_revision k' au" "k_revisions k' (rev_revision_hash r) = Some r" "r \<noteq> sample_revision"
proof -
  obtain gh where gh: "graph_hash sample_hash sample_net_graph = Inr gh" "gh \<noteq> sample_graph_hash"
    using sample_net_graph_hash by blast
  note issue = sample_commits(1) [OF gh]
  have before: "served sample_hash sample_revision (sample_kernel_verified gh) (sample_issued gh)"
    by (rule served_step [OF sample_served [OF gh(1)] step_authority [OF step_issue [OF issue]]])
  obtain r k' au where c: "commit sample_hash (sample_kernel_verified gh) (sample_issued gh) (utc 2) (utc 3) ''t'' (sample_capability gh) = (Inr r, k', au)"
    and g: "rev_graph r = sample_net_graph" using sample_commits(2) [OF gh] by blast
  obtain v consumed where new: "commit_new sample_hash (sample_kernel_verified gh) (sample_verified gh) v = Inr r"
    and k': "k' = commit_published (sample_kernel_verified gh) ''t'' r consumed (committed_transaction (sample_verified gh) r)"
    using commit_Inr [OF c sample_transaction(2)] sample_transaction(3) by (metis transaction_state.distinct(7))
  from new obtain parent where "next_revision sample_hash parent (sample_verified gh) v = Inr r" by (rule commit_new_Inr)
  then have fresh: "rev_revision_hash r \<noteq> sample_base" using next_revision_Inr(9) sample_revision_fresh by metis
  have after: "served sample_hash sample_revision k' au"
    by (rule served_step [OF before step_commit [OF c]]) (use fresh in \<open>simp add: k' commit_published_def sample_transaction\<close>)
  have "k_revisions k' (rev_revision_hash r) = Some r" by (simp add: k' commit_published_def)
  moreover have "r \<noteq> sample_revision" using fresh by (auto simp: sample_base_def)
  ultimately show thesis using that gh before c after by blast
qed

section \<open>The properties on the sample\<close>

theorem commit_is_authorized_witness:
  "\<exists>gh r k' au. commit sample_hash (sample_kernel_verified gh) (sample_issued gh) (utc 2) (utc 3) ''t'' (sample_capability gh) = (Inr r, k', au)
    \<and> au_consumed (sample_issued gh) (ca_nonce (sample_capability gh)) = None
    \<and> au_consumed au (ca_nonce (sample_capability gh)) = Some (authorization_digest sample_hash (sample_capability gh))
    \<and> k_transactions k' ''t'' = Some (committed_transaction (sample_verified gh) r)"
proof (rule sample_history)
  fix gh r k' au
  assume c: "commit sample_hash (sample_kernel_verified gh) (sample_issued gh) (utc 2) (utc 3) ''t'' (sample_capability gh) = (Inr r, k', au)"
  have "tx_state (sample_verified gh) \<noteq> Tx_COMMITTED" by (simp add: sample_transaction)
  with commit_is_authorized [OF c sample_transaction(2)]
  have "au_consumed (sample_issued gh) (ca_nonce (sample_capability gh)) = None
    \<and> au_consumed au (ca_nonce (sample_capability gh)) = Some (authorization_digest sample_hash (sample_capability gh))
    \<and> k_transactions k' ''t'' = Some (committed_transaction (sample_verified gh) r)" by simp
  with c show ?thesis by blast
qed

theorem revisions_are_authorized_witness:
  "\<exists>k au x r i t (b :: design_revision) e. served sample_hash sample_revision k au \<and> k_revisions k x = Some r \<and> r \<noteq> sample_revision
    \<and> k_transactions k i = Some t \<and> replay sample_hash (rev_graph b) (tx_commands t) = Inr (rev_graph r)
    \<and> k_committed_evidence k i = Some e \<and> evidence_good sample_hash au t e"
proof (rule sample_history)
  fix r k' au
  assume s: "served sample_hash sample_revision k' au" "k_revisions k' (rev_revision_hash r) = Some r" and new: "r \<noteq> sample_revision"
  show ?thesis using s new revisions_are_authorized [OF s] by blast
qed

theorem history_is_linear_witness:
  "\<exists>k au r. served sample_hash sample_revision k au \<and> k_revisions k (rev_revision_hash r) = Some r \<and> r \<noteq> sample_revision
    \<and> (\<exists>newest. k_revisions k (k_head k) = Some newest \<and> rev_sequence r \<le> rev_sequence newest)"
proof (rule sample_history)
  fix r k' au
  assume s: "served sample_hash sample_revision k' au" "k_revisions k' (rev_revision_hash r) = Some r" and new: "r \<noteq> sample_revision"
  show ?thesis using s new history_is_linear [OF s(1)] by blast
qed

theorem failed_commit_changes_nothing_witness:
  "\<exists>gh au. served sample_hash sample_revision (sample_kernel_verified gh) au
    \<and> (\<exists>e au'. commit sample_hash (sample_kernel_verified gh) au (utc 2) (utc 3) ''unknown'' (sample_capability gh)
        = (Inl e, sample_kernel_verified gh, au'))"
proof (rule sample_history)
  fix gh assume s: "served sample_hash sample_revision (sample_kernel_verified gh) (sample_issued gh)"
  have "\<exists>e k' au'. commit sample_hash (sample_kernel_verified gh) (sample_issued gh) (utc 2) (utc 3) ''unknown'' (sample_capability gh)
      = (Inl e, k', au')"
    by (simp add: commit_def get_transaction_def sample_kernel_verified_def)
  then show ?thesis using s failed_commit_changes_nothing [OF s] by metis
qed

theorem approved_transaction_commits_witness:
  "\<exists>gh c au1 r k' au2. issue_capability sample_hash (sample_registered gh) (utc 1)
      (commit_request (sample_verified gh) (map (command_hash sample_hash) (tx_commands (sample_verified gh))) gh ''approval'' 1000 sample_report) []
      = (Inr c, au1)
    \<and> commit sample_hash (sample_kernel_verified gh) au1 (utc 2) (utc 3) ''t'' c = (Inr r, k', au2) \<and> rev_graph r = sample_net_graph"
proof (rule sample_history)
  fix gh assume gh: "graph_hash sample_hash sample_net_graph = Inr gh" "gh \<noteq> sample_graph_hash"
  have parent: "k_revisions (sample_kernel_verified gh) (k_head (sample_kernel_verified gh)) = Some sample_revision"
    by (simp add: sample_transaction)
  have gh': "graph_hash sample_hash (tx_staged_graph (sample_verified gh)) = Inr gh" "gh \<noteq> rev_graph_hash sample_revision"
    using gh by (simp_all add: sample_transaction)
  have clean: "au_issued (sample_registered gh) = Map.empty" "au_consumed (sample_registered gh) = Map.empty"
    "au_last_observed_at (sample_registered gh) = Some 0" "\<not> au_clock_poisoned (sample_registered gh)" "ra_expires_at (sample_approval gh) = None"
    by (simp_all add: sample_registered_def approval_added_def sample_authority_def sample_approval_def)
  show ?thesis
    using approved_transaction_commits [OF sample_digest.digest_function_axioms sample_served [OF gh(1)] sample_transaction(1-4) parent gh'
        sample_approved sample_report_hex, of 1 1000 2 3 "[]"]
    by (simp add: clean in_datetime_range_def datetime_max_def sample_transaction(7)) blast
qed

theorem revocation_is_final_witness:
  "\<exists>gh au1. revoke_release_approval (sample_registered gh) (utc 5) ''approval'' = (Inr (), au1)
    \<and> (\<forall>now a v au3. verify_capability sample_hash au1 now a = (Inr v, au3) \<longrightarrow> ca_human_approval_id a \<noteq> ''approval'')"
proof -
  have "fst (revoke_release_approval (sample_registered []) (utc 5) ''approval'') = Inr ()"
    by (simp add: revoke_release_approval_def with_now_def observe_now_def sample_registered_def approval_added_def sample_authority_def
        in_datetime_range_def datetime_max_def plain_char_defs)
  then obtain au1 where r: "revoke_release_approval (sample_registered []) (utc 5) ''approval'' = (Inr (), au1)" by (metis prod.collapse)
  show ?thesis using r revocation_is_final [OF r rtranclp.rtrancl_refl] by blast
qed

theorem clock_rollback_is_final_witness:
  "\<exists>gh m au1. observe_now (sample_issued gh) (utc 0) = (Inl (CommitAuthorityClockRollback m), au1)
    \<and> (\<forall>now a. \<exists>e. verify_capability sample_hash au1 now a = (Inl e, au1))"
proof -
  obtain res au1 where o: "observe_now (sample_issued []) (utc 0) = (res, au1)" by fastforce
  have "au_last_observed_at (sample_issued []) = Some 1" by (simp add: sample_issued_def)
  from clock_rollback_is_final [where h = sample_hash, OF this _ _ _ o rtranclp.rtrancl_refl]
  show ?thesis using o by (simp add: in_datetime_range_def datetime_max_def) blast
qed

end
