(* ===== verification/Kernel_Staging.thy ===== *)
theory Kernel_Staging
  imports Kernel_Samples
begin

text \<open>
  Staging: a batch is the atomic form of staging its commands one by one, and no command moves or removes
  what is locked.
\<close>

section \<open>Batches\<close>

fun stage_all :: "(byte list \<Rightarrow> byte list) \<Rightarrow> kernel \<Rightarrow> design_transaction \<Rightarrow> design_command list \<Rightarrow> (design_transaction \<times> kernel) result" where
  "stage_all h k t [] = Inr (t, k)"
| "stage_all h k t (c # cs) = bind_r (stage h k c) (\<lambda>(t1, k1). stage_all h k1 t1 cs)"

definition bound_to :: "string \<Rightarrow> string \<Rightarrow> design_command \<Rightarrow> bool" where
  "bound_to i base c \<longleftrightarrow> cmd_transaction_id c = i \<and> cmd_base_revision c = base"

definition one_subject :: "design_command list \<Rightarrow> bool" where
  "one_subject batch \<longleftrightarrow> batch \<noteq> []
     \<and> (\<forall>c \<in> set batch. bound_to (cmd_transaction_id (hd batch)) (cmd_base_revision (hd batch)) c)
     \<and> distinct (map cmd_id batch) \<and> distinct (map cmd_idempotency_key batch)"

definition published :: "(byte list \<Rightarrow> byte list) \<Rightarrow> string \<Rightarrow> kernel \<Rightarrow> design_transaction \<Rightarrow> design_command list \<Rightarrow> kernel" where
  "published h i k t cs = (if cs = [] then k else (publish h i k cs)\<lparr>k_transactions := (k_transactions k)(i \<mapsto> t)\<rparr>)"

lemma foldl_upd_other: "x \<notin> f ` set cs \<Longrightarrow> foldl (\<lambda>m c. m(f c \<mapsto> g c)) m cs x = m x"
  by (induction cs arbitrary: m) auto

lemma published_fields:
  fixes c :: design_command
  assumes "cs = [] \<Longrightarrow> k_transactions k i = Some t"
  shows "k_transactions (published h i k t cs) i = Some t"
    "cmd_idempotency_key c \<notin> cmd_idempotency_key ` set cs \<Longrightarrow>
       k_idempotency (published h i k t cs) (i, cmd_idempotency_key c) = k_idempotency k (i, cmd_idempotency_key c)"
    "cmd_id c \<notin> cmd_id ` set cs \<Longrightarrow> k_command_ids (published h i k t cs) (cmd_id c) = k_command_ids k (cmd_id c)"
proof -
  show "k_transactions (published h i k t cs) i = Some t" using assms by (simp add: published_def publish_def)
  show "k_idempotency (published h i k t cs) (i, cmd_idempotency_key c) = k_idempotency k (i, cmd_idempotency_key c)"
    if "cmd_idempotency_key c \<notin> cmd_idempotency_key ` set cs"
    using that foldl_upd_other [where f = "\<lambda>c. (i, cmd_idempotency_key c)" and x = "(i, cmd_idempotency_key c)" and cs = cs]
    by (auto simp: published_def publish_def)
  show "k_command_ids (published h i k t cs) (cmd_id c) = k_command_ids k (cmd_id c)" if "cmd_id c \<notin> cmd_id ` set cs"
    by (simp add: published_def publish_def foldl_upd_other [OF that])
qed

lemma published_snoc:
  "published h i k t' (cs @ [c]) = (published h i k t cs)\<lparr>k_transactions := (k_transactions (published h i k t cs))(i \<mapsto> t'),
     k_idempotency := (k_idempotency (published h i k t cs))((i, cmd_idempotency_key c) \<mapsto> command_hash h c),
     k_command_ids := (k_command_ids (published h i k t cs))(cmd_id c \<mapsto> command_hash h c)\<rparr>"
  by (simp add: published_def publish_def)

lemma stage_command_base: "stage_command h t c = Inr t' \<Longrightarrow> tx_base_revision t' = tx_base_revision t"
  by (auto simp: stage_command_def bind_r_Inr_iff dest!: refresh_preview_Inr split: if_splits)

lemma batch_loop_stage_all:
  assumes "\<forall>c \<in> set cs. cmd_transaction_id c = i \<and> cmd_base_revision c = tx_base_revision t"
    "distinct (map cmd_idempotency_key (acc @ cs))" "distinct (map cmd_id (acc @ cs))" "acc = [] \<Longrightarrow> k_transactions k i = Some t"
  shows "case batch_loop h k t acc cs of Inl e \<Rightarrow> (\<exists>e'. stage_all h (published h i k t acc) t cs = Inl e')
    | Inr (t', acc') \<Rightarrow> stage_all h (published h i k t acc) t cs = Inr (t', published h i k t' acc')"
  using assms
proof (induction cs arbitrary: t acc)
  case (Cons c cs)
  let ?k = "published h i k t acc"
  have c: "cmd_transaction_id c = i" "cmd_base_revision c = tx_base_revision t" using Cons.prems(1) by simp_all
  have tx: "k_transactions ?k i = Some t" and idem: "k_idempotency ?k (i, cmd_idempotency_key c) = k_idempotency k (i, cmd_idempotency_key c)"
    and ids: "k_command_ids ?k (cmd_id c) = k_command_ids k (cmd_id c)"
    using published_fields [where cs = acc and k = k and i = i and t = t and h = h] Cons.prems(2-4) by auto
  show ?case
  proof (cases "k_idempotency k (i, cmd_idempotency_key c)")
    case None
    show ?thesis
    proof (cases "k_command_ids k (cmd_id c) \<noteq> None \<or> (\<exists>e. stage_command h t c = Inl e)")
      case True
      then show ?thesis using None c tx idem ids by (auto simp: stage_def get_transaction_def)
    next
      case False
      then obtain t1 where t1: "stage_command h t c = Inr t1" and new: "k_command_ids k (cmd_id c) = None" by (cases "stage_command h t c") auto
      have step: "stage h ?k c = Inr (t1, published h i k t1 (acc @ [c]))"
        using None new c tx idem ids t1 by (simp add: stage_def get_transaction_def published_snoc [of h i k t1 acc c t])
      have eqs: "batch_loop h k t acc (c # cs) = batch_loop h k t1 (acc @ [c]) cs"
        "stage_all h ?k t (c # cs) = stage_all h (published h i k t1 (acc @ [c])) t1 cs"
        using None new c t1 step by simp_all
      show ?thesis unfolding eqs
        by (rule Cons.IH) (use Cons.prems stage_command_base [OF t1] in auto)
    qed
  next
    case (Some eh)
    show ?thesis
    proof (cases "eh = command_hash h c")
      case True
      have eqs: "batch_loop h k t acc (c # cs) = batch_loop h k t acc cs" "stage_all h ?k t (c # cs) = stage_all h ?k t cs"
        using Some True c tx idem by (simp_all add: stage_def get_transaction_def)
      show ?thesis unfolding eqs by (rule Cons.IH) (use Cons.prems in auto)
    next
      case False
      then show ?thesis using Some c tx idem by (simp add: stage_def get_transaction_def)
    qed
  qed
qed simp

definition batch_checks :: "design_command list \<Rightarrow> (bool \<times> string) list" where
  "batch_checks batch = [(\<exists>c \<in> set batch. cmd_transaction_id c \<noteq> cmd_transaction_id (hd batch) \<or> cmd_base_revision c \<noteq> cmd_base_revision (hd batch),
       ''stage batch commands must bind one transaction''),
     (\<not> distinct (map cmd_id batch), ''stage batch command IDs must be unique''),
     (\<not> distinct (map cmd_idempotency_key batch), ''stage batch idempotency keys must be unique'')]"

lemma batch_checks_iff: "batch \<noteq> [] \<Longrightarrow> violations (batch_checks batch) = Inr () \<longleftrightarrow> one_subject batch"
proof -
  assume "batch \<noteq> []"
  moreover have "(\<exists>c \<in> set batch. cmd_transaction_id c \<noteq> i \<or> cmd_base_revision c \<noteq> b) \<longleftrightarrow> \<not> (\<forall>c \<in> set batch. bound_to i b c)" for i b
    by (auto simp: bound_to_def)
  ultimately show ?thesis unfolding batch_checks_def one_subject_def by simp
qed

lemma stage_batch_refused:
  assumes "\<not> one_subject batch"
  shows "\<exists>e. stage_batch h k batch = Inl e"
proof (cases "batch = []")
  case False
  then have "violations (batch_checks batch) \<noteq> Inr ()" using assms batch_checks_iff by blast
  then obtain e where "violations (batch_checks batch) = Inl e" by (cases "violations (batch_checks batch)") auto
  then show ?thesis
    using False unfolding stage_batch_def Let_def batch_checks_def [symmetric] by (simp add: violations_def [of "[(False, _)]"])
qed (simp add: stage_batch_def violations_def)

lemma stage_batch_admission:
  assumes "one_subject batch"
  shows "stage_batch h k batch = bind_r (get_transaction k (cmd_transaction_id (hd batch))) (\<lambda>t.
     if cmd_base_revision (hd batch) \<noteq> tx_base_revision t then Inl (StaleRevision ''stage batch base revision'') else
     bind_r (batch_loop h k t [] batch) (\<lambda>(t', acc). Inr (t', published h (cmd_transaction_id (hd batch)) k t' acc)))"
proof -
  have "batch \<noteq> []" using assms by (simp add: one_subject_def)
  then have "violations [(batch = [], ''stage batch must be non-empty'')] = Inr ()" "violations (batch_checks batch) = Inr ()"
    using assms batch_checks_iff by (simp, blast)
  then show ?thesis unfolding stage_batch_def Let_def published_def batch_checks_def [symmetric] by (simp only: bind_r_simps)
qed

lemma stage_batch_admitted:
  assumes "one_subject batch" "k_transactions k (cmd_transaction_id (hd batch)) = Some t"
  shows "stage_batch h k batch = (if cmd_base_revision (hd batch) \<noteq> tx_base_revision t then Inl (StaleRevision ''stage batch base revision'')
     else bind_r (batch_loop h k t [] batch) (\<lambda>(t', acc). Inr (t', published h (cmd_transaction_id (hd batch)) k t' acc)))"
  unfolding stage_batch_admission [OF assms(1)] get_transaction_def assms(2) by simp

lemma stage_batch_unknown:
  assumes "one_subject batch" "k_transactions k (cmd_transaction_id (hd batch)) = None"
  shows "\<exists>e. stage_batch h k batch = Inl e"
  unfolding stage_batch_admission [OF assms(1)] get_transaction_def assms(2) by simp

text \<open>
  C12: Staging a batch is staging its commands one by one, made atomic. \<^verbatim>\<open>stage_batch\<close> returns exactly
  when the batch is nonempty, binds one transaction and base with unique identifiers and keys, and
  \<^verbatim>\<open>stage\<close> would accept its commands in turn; the transaction and the kernel it leaves are the same, with every
  command already staged under its key skipped. When any command is refused, nothing is staged.
\<close>

theorem stage_batch_is_sequential:
  "stage_batch h k batch = Inr (t', k') \<longleftrightarrow> one_subject batch
    \<and> (\<exists>t. k_transactions k (cmd_transaction_id (hd batch)) = Some t \<and> stage_all h k t batch = Inr (t', k'))"
proof (cases "one_subject batch")
  case False
  then show ?thesis using stage_batch_refused [of batch h k] by auto
next
  case True
  define i b where "i = cmd_transaction_id (hd batch)" and "b = cmd_base_revision (hd batch)"
  have batch: "batch \<noteq> []" "\<forall>c \<in> set batch. cmd_transaction_id c = i \<and> cmd_base_revision c = b"
    "distinct (map cmd_id batch)" "distinct (map cmd_idempotency_key batch)"
    using True unfolding one_subject_def bound_to_def i_def b_def by blast+
  have "stage_batch h k batch = Inr (t', k') \<longleftrightarrow> (\<exists>t. k_transactions k i = Some t \<and> stage_all h k t batch = Inr (t', k'))"
  proof (cases "k_transactions k i")
    case None
    then have "\<exists>e. stage_batch h k batch = Inl e" using stage_batch_unknown [OF True] by (simp add: i_def)
    then show ?thesis using None by auto
  next
    case (Some t)
    have admitted: "stage_batch h k batch = (if b \<noteq> tx_base_revision t then Inl (StaleRevision ''stage batch base revision'')
        else bind_r (batch_loop h k t [] batch) (\<lambda>(t', acc). Inr (t', published h i k t' acc)))"
      unfolding i_def b_def by (rule stage_batch_admitted [OF True]) (use Some in \<open>simp add: i_def\<close>)
    show ?thesis
    proof (cases "b = tx_base_revision t")
      case True
      have "published h i k t [] = k" by (simp add: published_def)
      moreover have "case batch_loop h k t [] batch of Inl e \<Rightarrow> (\<exists>e'. stage_all h (published h i k t []) t batch = Inl e')
        | Inr (t', acc') \<Rightarrow> stage_all h (published h i k t []) t batch = Inr (t', published h i k t' acc')"
        by (rule batch_loop_stage_all) (use batch True Some in auto)
      ultimately show ?thesis unfolding admitted using True Some by (auto split: sum.splits)
    next
      case False
      have "\<exists>e. stage_all h k t batch = Inl e"
        using False Some batch(1,2) by (cases batch) (auto simp: stage_def get_transaction_def)
      then show ?thesis using admitted False Some by auto
    qed
  qed
  then show ?thesis using True by (simp add: i_def)
qed

section \<open>Locked objects\<close>

text \<open>The objects no command may move or remove: what is locked, and every track, via, zone, wire and junction.\<close>

datatype fixed_object = Fixed_placement placement | Fixed_pad dpad | Fixed_hole dhole | Fixed_track dtrack | Fixed_via dvia
  | Fixed_zone dzone | Fixed_wire dwire | Fixed_junction junction

definition fixed_objects :: "design_graph \<Rightarrow> fixed_object set" where
  "fixed_objects g = Fixed_placement ` {p \<in> set (dg_placements g). pl_locked p} \<union> Fixed_pad ` {p \<in> set (dg_pads g). dpad_locked p}
     \<union> Fixed_hole ` {x \<in> set (dg_holes g). dhole_locked x} \<union> Fixed_track ` set (dg_tracks g) \<union> Fixed_via ` set (dg_vias g)
     \<union> Fixed_zone ` set (dg_zones g) \<union> Fixed_wire ` set (dg_wires g) \<union> Fixed_junction ` set (dg_junctions g)"

lemma fixed_objects_subsetI:
  assumes "\<And>p. p \<in> set (dg_placements g) \<Longrightarrow> pl_locked p \<Longrightarrow> p \<in> set (dg_placements n)"
    "\<And>p. p \<in> set (dg_pads g) \<Longrightarrow> dpad_locked p \<Longrightarrow> p \<in> set (dg_pads n)"
    "\<And>x. x \<in> set (dg_holes g) \<Longrightarrow> dhole_locked x \<Longrightarrow> x \<in> set (dg_holes n)"
    "\<And>x. x \<in> set (dg_tracks g) \<Longrightarrow> x \<in> set (dg_tracks n)" "\<And>x. x \<in> set (dg_vias g) \<Longrightarrow> x \<in> set (dg_vias n)"
    "\<And>x. x \<in> set (dg_zones g) \<Longrightarrow> x \<in> set (dg_zones n)" "\<And>x. x \<in> set (dg_wires g) \<Longrightarrow> x \<in> set (dg_wires n)"
    "\<And>x. x \<in> set (dg_junctions g) \<Longrightarrow> x \<in> set (dg_junctions n)"
  shows "fixed_objects g \<subseteq> fixed_objects n"
proof
  fix x assume "x \<in> fixed_objects g"
  then show "x \<in> fixed_objects n" using assms by (cases x) (auto simp: fixed_objects_def)
qed

lemma fixed_objectsD:
  assumes "fixed_objects g \<subseteq> fixed_objects n"
  shows "p \<in> set (dg_placements g) \<Longrightarrow> pl_locked p \<Longrightarrow> p \<in> set (dg_placements n)"
    "q \<in> set (dg_pads g) \<Longrightarrow> dpad_locked q \<Longrightarrow> q \<in> set (dg_pads n)"
    "x \<in> set (dg_holes g) \<Longrightarrow> dhole_locked x \<Longrightarrow> x \<in> set (dg_holes n)"
    "t \<in> set (dg_tracks g) \<Longrightarrow> t \<in> set (dg_tracks n)" "v \<in> set (dg_vias g) \<Longrightarrow> v \<in> set (dg_vias n)"
    "z \<in> set (dg_zones g) \<Longrightarrow> z \<in> set (dg_zones n)" "w \<in> set (dg_wires g) \<Longrightarrow> w \<in> set (dg_wires n)"
    "j \<in> set (dg_junctions g) \<Longrightarrow> j \<in> set (dg_junctions n)"
  using subsetD [OF assms, of "Fixed_placement p"] subsetD [OF assms, of "Fixed_pad q"] subsetD [OF assms, of "Fixed_hole x"]
    subsetD [OF assms, of "Fixed_track t"] subsetD [OF assms, of "Fixed_via v"] subsetD [OF assms, of "Fixed_zone z"]
    subsetD [OF assms, of "Fixed_wire w"] subsetD [OF assms, of "Fixed_junction j"]
  by (simp_all add: fixed_objects_def image_iff)

lemma find_distinct: "distinct (map f xs) \<Longrightarrow> x \<in> set xs \<Longrightarrow> List.find (\<lambda>y. f y = f x) xs = Some x"
proof (induction xs)
  case (Cons a xs)
  show ?case
  proof (cases "a = x")
    case False
    then have x: "x \<in> set xs" using Cons.prems(2) by simp
    then have "f a \<noteq> f x" using Cons.prems(1) by force
    then show ?thesis using Cons.IH x Cons.prems(1) by simp
  qed simp
qed simp

lemma placement_of_distinct:
  "distinct (map pl_component_id (dg_placements g)) \<Longrightarrow> p \<in> set (dg_placements g) \<Longrightarrow> placement_of g (pl_component_id p) = Some p"
  unfolding placement_of_def by (rule find_distinct)

lemma unlocked_removed:
  assumes "distinct (map pl_component_id (dg_placements g))" "\<not> placement_locked g i" "p \<in> set (dg_placements g)" "pl_locked p"
  shows "pl_component_id p \<noteq> i"
  using assms placement_of_distinct [OF assms(1,3)] by (auto simp: placement_locked_def)

lemma apply_component_remove_keeps:
  assumes "apply_component_remove g p = Inr g'" "distinct (map pl_component_id (dg_placements g))"
  shows "fixed_objects g \<subseteq> fixed_objects g'"
proof -
  obtain i where "\<not> placement_locked g i" and fp: "\<not> (\<exists>q \<in> set (dg_pads g). dpad_component_id q = i \<and> dpad_locked q)"
      "\<not> (\<exists>x \<in> set (dg_holes g). dhole_component_id x = i \<and> dhole_locked x)"
    and g': "g' = g\<lparr>dg_components := filter (\<lambda>c. dcomp_id c \<noteq> i) (dg_components g),
       dg_placements := filter (\<lambda>q. pl_component_id q \<noteq> i) (dg_placements g),
       dg_pads := filter (\<lambda>q. dpad_component_id q \<noteq> i) (dg_pads g),
       dg_holes := filter (\<lambda>x. dhole_component_id x \<noteq> i) (dg_holes g)\<rparr>"
    using assms(1) unfolding apply_component_remove_def bind_r_Inr_iff graph_replace_def validated_Inr_iff raise_first_Inr_iff by auto
  then show ?thesis using unlocked_removed [OF assms(2)] by (intro fixed_objects_subsetI) auto
qed

lemma apply_footprint_place_keeps:
  assumes "apply_footprint_place g p = Inr g'" "distinct (map pl_component_id (dg_placements g))"
  shows "fixed_objects g \<subseteq> fixed_objects g'"
proof -
  obtain i q where "\<not> placement_locked g i" "g' = g\<lparr>dg_placements := filter (\<lambda>q. pl_component_id q \<noteq> i) (dg_placements g) @ [q]\<rparr>"
    using assms(1) unfolding apply_footprint_place_def bind_r_Inr_iff graph_replace_def validated_Inr_iff raise_first_Inr_iff by auto
  then show ?thesis using unlocked_removed [OF assms(2)] by (intro fixed_objects_subsetI) auto
qed

lemmas apply_result_defs = bind_r_Inr_iff graph_replace_def validated_Inr_iff

lemma apply_adds:
  "apply_component_add g p = Inr g' \<Longrightarrow> \<exists>xs. g' = g\<lparr>dg_components := xs\<rparr>"
  "apply_net_create g p = Inr g' \<Longrightarrow> \<exists>xs. g' = g\<lparr>dg_nets := xs\<rparr>"
  "apply_net_connect g p = Inr g' \<Longrightarrow> \<exists>xs. g' = g\<lparr>dg_nets := xs\<rparr>"
  "apply_pad_add g p = Inr g' \<Longrightarrow> \<exists>xs. g' = g\<lparr>dg_pads := dg_pads g @ xs\<rparr>"
  "apply_pad_group_add g p = Inr g' \<Longrightarrow> \<exists>xs. g' = g\<lparr>dg_pads := dg_pads g @ xs\<rparr>"
  "apply_hole_add g p = Inr g' \<Longrightarrow> \<exists>xs. g' = g\<lparr>dg_holes := dg_holes g @ xs\<rparr>"
  "apply_track_add g p = Inr g' \<Longrightarrow> \<exists>xs. g' = g\<lparr>dg_tracks := dg_tracks g @ xs\<rparr>"
  "apply_via_add g p = Inr g' \<Longrightarrow> \<exists>xs. g' = g\<lparr>dg_vias := dg_vias g @ xs\<rparr>"
  "apply_zone_add h g p = Inr g' \<Longrightarrow> \<exists>xs. g' = g\<lparr>dg_zones := dg_zones g @ xs\<rparr>"
  "apply_wire_add g p = Inr g' \<Longrightarrow> \<exists>xs. g' = g\<lparr>dg_wires := dg_wires g @ xs\<rparr>"
  "apply_junction_add g p = Inr g' \<Longrightarrow> \<exists>xs. g' = g\<lparr>dg_junctions := dg_junctions g @ xs\<rparr>"
  "apply_set_outline g p = Inr g' \<Longrightarrow> \<exists>xs. g' = g\<lparr>dg_board_outline := xs\<rparr>"
  unfolding apply_component_add_def apply_net_create_def apply_net_connect_def apply_pad_add_def apply_pad_group_add_def
    apply_hole_add_def apply_track_add_def apply_via_add_def apply_zone_add_def apply_wire_add_def apply_junction_add_def
    apply_set_outline_def apply_result_defs by blast+

lemma apply_command_keeps:
  assumes "apply_command h g c = Inr g'" "distinct (map pl_component_id (dg_placements g))"
  shows "fixed_objects g \<subseteq> fixed_objects g'"
proof (cases "cmd_kind c")
  case COMPONENT_REMOVE
  then show ?thesis using assms apply_component_remove_keeps by (simp add: apply_command_def)
next
  case FOOTPRINT_PLACE
  then show ?thesis using assms apply_footprint_place_keeps by (simp add: apply_command_def)
qed (use assms(1) in \<open>auto simp: apply_command_def fixed_objects_def dest!: apply_adds\<close>)

text \<open>Normalizing a graph keeps the entities that are already in normal form.\<close>

lemma map_r_keeps:
  assumes "map_r f xs = Inr ys" "x \<in> set xs" "f x = Inr x"
  shows "x \<in> set ys"
  using assms unfolding map_r_Inr by (auto simp: in_set_conv_nth list_all2_conv_all_nth)

lemma map_r_normal_fixed:
  assumes "map_r f xs = Inr ys" "y \<in> set ys" "\<And>x y. f x = Inr y \<Longrightarrow> f y = Inr y"
  shows "f y = Inr y"
  using assms(1,2) assms(3) unfolding map_r_Inr by (auto simp: in_set_conv_nth list_all2_conv_all_nth)

lemma graph_normalized_parts:
  assumes "graph_normalized h g = Inr n"
  shows "\<exists>xs. map_r dpad_normalized (dg_pads g) = Inr xs \<and> dg_pads n = sort_key dpad_id xs"
    "\<exists>xs. map_r dhole_normalized (dg_holes g) = Inr xs \<and> dg_holes n = sort_key dhole_id xs"
    "\<exists>xs. map_r dtrack_normalized (dg_tracks g) = Inr xs \<and> dg_tracks n = sort_key dtrack_id xs"
    "\<exists>xs. map_r dvia_normalized (dg_vias g) = Inr xs \<and> dg_vias n = sort_key dvia_id xs"
    "\<exists>xs. map_r (dzone_normalized h) (dg_zones g) = Inr xs \<and> dg_zones n = sort_key dzone_id xs"
    "\<exists>xs. map_r wire_normalized (dg_wires g) = Inr xs \<and> dg_wires n = sort_key wire_id xs"
    "set (dg_placements n) = set (dg_placements g)" "set (dg_junctions n) = set (dg_junctions g)"
  using assms by (auto elim!: graph_normalized_Inr)

lemma normal_part:
  assumes "\<exists>xs. map_r f as = Inr xs \<and> bs = sort_key k xs" "\<And>x y. f x = Inr y \<Longrightarrow> f y = Inr y"
  shows "b \<in> set bs \<Longrightarrow> f b = Inr b" "a \<in> set as \<Longrightarrow> f a = Inr a \<Longrightarrow> a \<in> set bs"
proof -
  obtain xs where xs: "map_r f as = Inr xs" "bs = sort_key k xs" using assms(1) by blast
  show "f b = Inr b" if "b \<in> set bs" by (rule map_r_normal_fixed [OF xs(1) _ assms(2)]) (use that xs(2) in simp_all)
  show "a \<in> set bs" if "a \<in> set as" "f a = Inr a" using map_r_keeps [OF xs(1) that] xs(2) by simp
qed

lemma good_graph_entities:
  assumes "graph_normalized h g = Inr g"
  shows "p \<in> set (dg_pads g) \<Longrightarrow> dpad_normalized p = Inr p" "x \<in> set (dg_holes g) \<Longrightarrow> dhole_normalized x = Inr x"
    "t \<in> set (dg_tracks g) \<Longrightarrow> dtrack_normalized t = Inr t" "v \<in> set (dg_vias g) \<Longrightarrow> dvia_normalized v = Inr v"
    "z \<in> set (dg_zones g) \<Longrightarrow> dzone_normalized h z = Inr z" "w \<in> set (dg_wires g) \<Longrightarrow> wire_normalized w = Inr w"
  using normal_part(1) [OF graph_normalized_parts(1) [OF assms] dpad_normalized_idem]
    normal_part(1) [OF graph_normalized_parts(2) [OF assms] dhole_normalized_idem]
    normal_part(1) [OF graph_normalized_parts(3) [OF assms] dtrack_normalized_idem]
    normal_part(1) [OF graph_normalized_parts(4) [OF assms] dvia_normalized_idem]
    normal_part(1) [OF graph_normalized_parts(5) [OF assms] dzone_normalized_idem]
    normal_part(1) [OF graph_normalized_parts(6) [OF assms] wire_normalized_idem] by simp_all

lemma graph_normalized_keeps:
  assumes "graph_normalized h g = Inr g" "fixed_objects g \<subseteq> fixed_objects a" "graph_normalized h a = Inr n"
  shows "fixed_objects g \<subseteq> fixed_objects n"
proof -
  note entities = good_graph_entities [OF assms(1)]
  note kept = normal_part(2) [OF graph_normalized_parts(1) [OF assms(3)] dpad_normalized_idem]
    normal_part(2) [OF graph_normalized_parts(2) [OF assms(3)] dhole_normalized_idem]
    normal_part(2) [OF graph_normalized_parts(3) [OF assms(3)] dtrack_normalized_idem]
    normal_part(2) [OF graph_normalized_parts(4) [OF assms(3)] dvia_normalized_idem]
    normal_part(2) [OF graph_normalized_parts(5) [OF assms(3)] dzone_normalized_idem]
    normal_part(2) [OF graph_normalized_parts(6) [OF assms(3)] wire_normalized_idem]
  show ?thesis
    by (rule fixed_objects_subsetI) (simp_all add: kept entities fixed_objectsD [OF assms(2)] graph_normalized_parts(7,8) [OF assms(3)])
qed

lemma stage_graph_keeps:
  assumes "good_graph h g" "stage_graph h g c = Inr n"
  shows "fixed_objects g \<subseteq> fixed_objects n"
proof -
  obtain a where a: "apply_command h g c = Inr a" "graph_normalized h a = Inr n"
    using assms(2) by (auto simp: stage_graph_def bind_r_Inr_iff split: if_splits)
  have "distinct (map pl_component_id (dg_placements g))"
    using assms(1) by (simp add: good_graph_def validate_graph_def bind_r_Inr_iff unique_checks_def)
  then show ?thesis
    using graph_normalized_keeps [OF _ apply_command_keeps [OF a(1)] a(2)] assms(1) by (simp add: good_graph_def)
qed

lemma replay_keeps: "good_graph h g \<Longrightarrow> replay h g cs = Inr n \<Longrightarrow> fixed_objects g \<subseteq> fixed_objects n"
proof (induction cs arbitrary: g)
  case (Cons c cs)
  then obtain m where "stage_graph h g c = Inr m" "replay h m cs = Inr n" by (auto simp: bind_r_Inr_iff)
  then show ?case using Cons stage_graph_keeps stage_graph_good subset_trans by metis
qed simp

subsection \<open>Along the history\<close>

lemma first_revision_least:
  assumes "served h r0 k au"
  shows "k_revisions k x = Some r \<Longrightarrow> rev_sequence r0 \<le> rev_sequence r"
proof (induction "nat (rev_sequence r)" arbitrary: x r rule: less_induct)
  case less
  show ?case
  proof (cases "r = r0")
    case False
    obtain i t b e where b: "k_revisions k (rev_revision_hash b) = Some b" "rev_sequence r = rev_sequence b + 1"
      using served_origin [OF assms less.prems False] by blast
    have "0 \<le> rev_sequence b" using served_good [OF assms] b(1) unfolding kernel_good_def revisions_good_def by blast
    then show ?thesis using less.hyps [of b] b by fastforce
  qed simp
qed

lemma fixed_objects_grow:
  assumes "served h r0 k au" "k_revisions k x = Some r"
  shows "k_revisions k y = Some q \<Longrightarrow> rev_sequence r \<le> rev_sequence q \<Longrightarrow> fixed_objects (rev_graph r) \<subseteq> fixed_objects (rev_graph q)"
proof (induction "nat (rev_sequence q - rev_sequence r)" arbitrary: y q)
  case 0
  then have "rev_sequence r = rev_sequence q" by simp
  then have "r = q" using served_good [OF assms(1)] assms(2) 0 unfolding kernel_good_def revisions_good_def by blast
  then show ?case by simp
next
  case (Suc n)
  have "q \<noteq> r0" using first_revision_least [OF assms] Suc.hyps(2) by auto
  then obtain t :: design_transaction and b where b: "k_revisions k (rev_revision_hash b) = Some b" "rev_sequence q = rev_sequence b + 1"
    "replay h (rev_graph b) (tx_commands t) = Inr (rev_graph q)"
    using served_origin [OF assms(1) Suc.prems(1)] by blast
  have "good_graph h (rev_graph b)" using served_good [OF assms(1)] b(1) unfolding kernel_good_def revisions_good_def by blast
  moreover have "fixed_objects (rev_graph r) \<subseteq> fixed_objects (rev_graph b)" using Suc b(2) by (intro Suc.hyps(1) [OF _ b(1)]) auto
  ultimately show ?case using replay_keeps b(3) by blast
qed

text \<open>
  C13: Locked objects survive. In every history, what is locked in a revision (placements, pads and holes), and
  every track, via, zone, wire and junction of it, is in every later revision, unchanged: no sequence of staged
  commands moves, alters or removes it.
\<close>

theorem locked_objects_survive:
  assumes "served h r0 k au" "k_revisions k x = Some r" "k_revisions k y = Some q" "rev_sequence r \<le> rev_sequence q"
  shows "fixed_objects (rev_graph r) \<subseteq> fixed_objects (rev_graph q)"
  by (rule fixed_objects_grow [OF assms])

theorem locked_objects_survive_witness:
  "\<exists>k au b r. served sample_hash sample_revision k au \<and> k_revisions k (rev_revision_hash b) = Some b
    \<and> k_revisions k (rev_revision_hash r) = Some r \<and> rev_sequence b < rev_sequence r
    \<and> fixed_objects (rev_graph b) \<subseteq> fixed_objects (rev_graph r)"
proof (rule sample_history)
  fix r k' au
  assume s: "served sample_hash sample_revision k' au" "k_revisions k' (rev_revision_hash r) = Some r" "r \<noteq> sample_revision"
  obtain b :: design_revision where b: "k_revisions k' (rev_revision_hash b) = Some b" "rev_sequence r = rev_sequence b + 1"
    using served_origin [OF s] by blast
  then have "fixed_objects (rev_graph b) \<subseteq> fixed_objects (rev_graph r)"
    by (intro locked_objects_survive [OF s(1) b(1) s(2)]) simp
  then show ?thesis using s(1,2) b by (intro exI [of _ k'] exI [of _ au] exI [of _ b] exI [of _ r]) simp
qed

end
