(* ===== verification/Design_Adapter.thy ===== *)
theory Design_Adapter
  imports Design_Kernel Electrical_Rules
begin

text \<open>
  \<^verbatim>\<open>backend/design_kernel/adapter.py\<close>: the board that the verification engine sees for a design
  graph. Geometry is copied; what the board model cannot represent is named in its list of unsupported
  features, in the order in which the adapter meets it.
\<close>

section \<open>Lookups\<close>

definition pin_types :: "(string \<times> pin_electrical_type) list" where
  "pin_types = map (\<lambda>t. (pin_electrical_type_value t, t))
     [Pin_INPUT, Pin_OUTPUT, Pin_BIDIRECTIONAL, Pin_PASSIVE, Pin_POWER_IN, Pin_POWER_OUT,
      Pin_OPEN_COLLECTOR, Pin_NO_CONNECT, Pin_UNSPECIFIED]"

definition pad_shape_of :: "string \<Rightarrow> pad_shape result" where
  "pad_shape_of s = (case map_of (map (\<lambda>t. (pad_shape_value t, t)) [Shape_CIRCLE, Shape_OVAL, Shape_RECT, Shape_ROUNDRECT]) s of
     None \<Rightarrow> Inl (ValueError ''not a valid PadShape'') | Some t \<Rightarrow> Inr t)"

text \<open>A later entry of a dictionary comprehension replaces an earlier one with the same key.\<close>

definition last_placement :: "design_graph \<Rightarrow> string \<Rightarrow> placement option" where
  "last_placement g = map_of (rev (map (\<lambda>q. (pl_component_id q, q)) (dg_placements g)))"

definition last_pad :: "design_graph \<Rightarrow> string \<times> string \<Rightarrow> dpad option" where
  "last_pad g = map_of (rev (map (\<lambda>q. ((dpad_component_id q, dpad_pad_number q), q)) (dg_pads g)))"

definition pin_memberships :: "design_graph \<Rightarrow> (string \<times> string) list" where
  "pin_memberships g = map pin_ref_key (all_members g)"

section \<open>Features the board cannot represent\<close>

definition pad_features :: "design_graph \<Rightarrow> dcomponent \<Rightarrow> pin_definition \<Rightarrow> dpad \<Rightarrow> string list" where
  "pad_features g c p q = issues_of
     [(dpad_shape q = ''circle'' \<and> dpad_size_x_nm q \<noteq> dpad_size_y_nm q,
        ''exact-pad-circle-nonsquare-not-supported:'' @ dpad_id q),
      (dpad_shape q = ''roundrect'', ''exact-pad-roundrect-radius-not-represented:'' @ dpad_id q),
      (dpad_shape q \<noteq> ''circle'' \<and> dpad_rotation_udeg q mod 90000000 \<noteq> 0,
        ''exact-pad-rotation-not-supported:'' @ colon (dpad_id q) (show_int (dpad_rotation_udeg q))),
      (dpad_drill_x_nm q \<noteq> dpad_drill_y_nm q \<and> dpad_drill_rotation_udeg q mod 90000000 \<noteq> 0,
        ''exact-drill-rotation-not-supported:pad:'' @ colon (dpad_id q) (show_int (dpad_drill_rotation_udeg q))),
      (dpad_locked q, ''locked-pad-metadata-unrepresented:'' @ dpad_id q),
      (dpad_net_id q \<noteq> None \<and> (dcomp_id c, pd_number p) \<notin> set (pin_memberships g),
        ''pad-only-net-binding-unrepresented:'' @ dpad_id q)]"

definition pin_features :: "design_graph \<Rightarrow> dcomponent \<Rightarrow> pin_definition \<Rightarrow> string list" where
  "pin_features g c p =
     (case map_of pin_types (pd_electrical_type p) of
        None \<Rightarrow> [''pin-electrical-type-unsupported:'' @ colon (dcomp_id c) (colon (pd_number p) (pd_electrical_type p))]
      | Some _ \<Rightarrow> [])
     @ (case last_pad g (dcomp_id c, pd_pad_number p) of
        None \<Rightarrow> [''pin-pad-geometry-missing:'' @ colon (dcomp_id c) (pd_number p)]
      | Some q \<Rightarrow> pad_features g c p q)"

definition component_features :: "design_graph \<Rightarrow> dcomponent \<Rightarrow> string list" where
  "component_features g c =
     (case last_placement g (dcomp_id c) of
        None \<Rightarrow> [''footprint-placement-missing:'' @ dcomp_id c]
      | Some q \<Rightarrow> if pl_locked q then [''locked-placement-metadata-unrepresented:'' @ dcomp_id c] else [])
     @ concat (map (pin_features g c) (dcomp_pins c))"

definition track_features :: "dtrack \<Rightarrow> string list" where
  "track_features t = issues_of [(dtrack_locked t, ''locked-track-metadata-unrepresented:'' @ dtrack_id t)]"

definition via_features :: "dvia \<Rightarrow> string list" where
  "via_features v = issues_of [(dvia_locked v, ''locked-via-metadata-unrepresented:'' @ dvia_id v)]"

definition zone_features :: "dzone \<Rightarrow> string list" where
  "zone_features z = issues_of
     [(dzone_min_thickness_nm z \<noteq> 100000, ''zone-minimum-thickness-unrepresented:'' @ dzone_id z),
      (dzone_priority z \<noteq> 0, ''zone-priority-unrepresented:'' @ dzone_id z),
      (dzone_locked z, ''locked-zone-metadata-unrepresented:'' @ dzone_id z)]"

definition hole_features :: "dhole \<Rightarrow> string list" where
  "hole_features x = issues_of [(dhole_locked x, ''locked-hole-metadata-unrepresented:'' @ dhole_id x)]"

definition unsupported_features :: "design_graph \<Rightarrow> string list" where
  "unsupported_features g =
     (if dg_board_outline g = [] then [''board-outline-missing''] else [])
     @ concat (map (component_features g) (dg_components g)) @ concat (map track_features (dg_tracks g))
     @ concat (map via_features (dg_vias g)) @ concat (map zone_features (dg_zones g))
     @ concat (map hole_features (dg_holes g))
     @ map (\<lambda>w. ''schematic-wire-unrepresented:'' @ wire_id w) (dg_wires g)
     @ map (\<lambda>j. ''schematic-junction-unrepresented:'' @ junction_id j) (dg_junctions g)"

section \<open>Entities of the board\<close>

definition adapted_pin :: "design_graph \<Rightarrow> dcomponent \<Rightarrow> pin_definition \<Rightarrow> pin" where
  "adapted_pin g c p = (let q = last_pad g (dcomp_id c, pd_pad_number p) in
     \<lparr>pin_number = pd_number p, pin_name = pd_name p,
      pin_electrical_type = (case map_of pin_types (pd_electrical_type p) of None \<Rightarrow> Pin_UNSPECIFIED | Some t \<Rightarrow> t),
      pin_required = pd_required p, pin_pad_center = map_option dpad_center q,
      pin_pad_diameter_nm = (case q of None \<Rightarrow> 0 | Some d \<Rightarrow> min (dpad_size_x_nm d) (dpad_size_y_nm d)),
      pin_layers = (case q of None \<Rightarrow> [] | Some d \<Rightarrow> dpad_layers d),
      pin_pad_drill_nm = (case q of None \<Rightarrow> 0 | Some d \<Rightarrow> dpad_drill_nm d),
      pin_pad_number = pd_pad_number p\<rparr>)"

definition adapted_component :: "design_graph \<Rightarrow> dcomponent \<Rightarrow> component" where
  "adapted_component g c = \<lparr>comp_id = dcomp_id c, comp_reference = dcomp_reference c, comp_value = dcomp_value c,
     comp_footprint = dcomp_footprint_id c, comp_manufacturer_part_number = dcomp_manufacturer_part_number c,
     comp_datasheet_sha256 = dcomp_datasheet_sha256 c, comp_pin_map_sha256 = dcomp_pin_map_sha256 c,
     comp_pins = map (adapted_pin g c) (dcomp_pins c)\<rparr>"

definition adapted_track :: "dtrack \<Rightarrow> track" where
  "adapted_track t = \<lparr>track_id = dtrack_id t, track_net_id = dtrack_net_id t, track_layer = dtrack_layer t,
     track_start = dtrack_start t, track_end = dtrack_end t, track_width_nm = dtrack_width_nm t\<rparr>"

definition adapted_via :: "dvia \<Rightarrow> via" where
  "adapted_via v = \<lparr>via_id = dvia_id v, via_net_id = dvia_net_id v, via_center = dvia_center v,
     via_diameter_nm = dvia_diameter_nm v, via_drill_nm = dvia_drill_nm v, via_layers = dvia_layers v\<rparr>"

definition adapted_zone :: "dzone \<Rightarrow> zone" where
  "adapted_zone z = \<lparr>zone_id = dzone_id z, zone_net_id = dzone_net_id z, zone_layer = dzone_layer z,
     zone_outline = dzone_outline z, zone_clearance_nm = dzone_clearance_nm z,
     zone_fill_state = dzone_fill_state z, zone_fill_evidence = dzone_fill_evidence z\<rparr>"

definition adapted_hole :: "dhole \<Rightarrow> hole" where
  "adapted_hole x = \<lparr>hole_id = dhole_id x, hole_component_id = dhole_component_id x, hole_center = dhole_center x,
     hole_diameter_nm = dhole_diameter_nm x, hole_plated = dhole_plated x, hole_pad_id = dhole_pad_id x,
     hole_drill_x_nm = dhole_drill_x_nm x, hole_drill_y_nm = dhole_drill_y_nm x,
     hole_drill_rotation_udeg = dhole_drill_rotation_udeg x\<rparr>"

definition adapted_pad :: "dpad \<Rightarrow> physical_pad result" where
  "adapted_pad q = bind_r (pad_shape_of (dpad_shape q)) (\<lambda>s. Inr
     \<lparr>ppad_id = dpad_id q, ppad_component_id = dpad_component_id q, ppad_pad_number = dpad_pad_number q,
      ppad_net_id = dpad_net_id q, ppad_center = dpad_center q, ppad_size_x_nm = dpad_size_x_nm q,
      ppad_size_y_nm = dpad_size_y_nm q, ppad_shape = s, ppad_rotation_udeg = dpad_rotation_udeg q,
      ppad_layers = dpad_layers q, ppad_drill_nm = dpad_drill_nm q, ppad_drill_x_nm = dpad_drill_x_nm q,
      ppad_drill_y_nm = dpad_drill_y_nm q, ppad_drill_rotation_udeg = dpad_drill_rotation_udeg q,
      ppad_shared_land_group_id = dpad_shared_land_group_id q\<rparr>)"

definition adapted_net :: "dnet \<Rightarrow> net" where
  "adapted_net n = \<lparr>net_id = dnet_id n, net_name = dnet_name n,
     net_connections = map (\<lambda>r. \<lparr>conn_component_id = ref_component_id r, conn_pin_number = ref_pin_number r\<rparr>) (dnet_members n),
     net_external_source = False\<rparr>"

section \<open>The board\<close>

definition adapted_board :: "design_graph \<Rightarrow> string \<Rightarrow> physical_pad list \<Rightarrow> board_graph" where
  "adapted_board n revision qs = \<lparr>board_schema_version = 3, board_design_id = dg_project_id n, board_revision = revision,
     board_layers = dg_layers n, board_outline = dg_board_outline n,
     board_components = map (adapted_component n) (dg_components n), board_nets = map adapted_net (dg_nets n),
     board_tracks = map adapted_track (dg_tracks n), board_vias = map adapted_via (dg_vias n),
     board_unsupported_features = unsupported_features n, board_zones = map adapted_zone (dg_zones n),
     board_holes = map adapted_hole (dg_holes n), board_pads = qs\<rparr>"

definition to_verification_board :: "(byte list \<Rightarrow> byte list) \<Rightarrow> design_graph \<Rightarrow> string \<Rightarrow> board_graph result" where
  "to_verification_board h g revision =
     bind_r (violations [(\<not> is_sha256_hex revision, ''verification subject revision must be a lowercase SHA-256 digest'')]) (\<lambda>_.
     bind_r (graph_normalized h g) (\<lambda>n.
     bind_r (validate_graph n) (\<lambda>_.
     bind_r (map_r adapted_pad (dg_pads n)) (\<lambda>qs. Inr (board_normalized (adapted_board n revision qs))))))"

definition revision_to_verification_board :: "(byte list \<Rightarrow> byte list) \<Rightarrow> design_revision \<Rightarrow> board_graph result" where
  "revision_to_verification_board h r = to_verification_board h (rev_graph r) (rev_revision_hash r)"

end
