(* ===== verification/Polygon_Agreement.thy ===== *)
theory Polygon_Agreement
  imports Graph_Normal Geometry_Kernel
begin

text \<open>
  The design kernel and the verification engine each have a test for simple polygons, written independently:
  \<^verbatim>\<open>_validate_simple_polygon\<close> in \<^verbatim>\<open>design_kernel/model.py\<close> and
  \<^verbatim>\<open>outline_defects\<close> in \<^verbatim>\<open>verification/geometry.py\<close>. They accept the same rings, and the two
  normal forms of a ring are equal.
\<close>

section \<open>Segments\<close>

lemma design_cross_eq [simp]: "design_cross = cross"
  by (simp add: fun_eq_iff design_cross_def cross_def)

lemma point_on_segment_eq [simp]: "point_on_segment = on_segment"
  by (simp add: fun_eq_iff point_on_segment_def on_segment_def)

lemma design_segments_intersect_eq [simp]: "design_segments_intersect = segments_intersect"
  by (auto simp: fun_eq_iff design_segments_intersect_def segments_intersect_def Let_def)

lemma segments_intersect_shared_start: "segments_intersect a b a d"
  by (simp add: segments_intersect_def Let_def on_segment_def cross_def)

lemma ring_edges_eq:
  assumes "2 \<le> length r"
  shows "ring_edges r = outline_edges r"
proof (rule nth_equalityI)
  show n: "length (ring_edges r) = length (outline_edges r)"
    using assms by (simp add: ring_edges_def outline_edges_def)
  fix i assume "i < length (ring_edges r)"
  then have i: "i < length r" using assms by (simp add: ring_edges_def)
  have "(tl r @ take 1 r) ! i = r ! ((i + 1) mod length r)"
    using i assms by (cases "i + 1 = length r") (auto simp: nth_append nth_tl nth_take)
  then show "ring_edges r ! i = outline_edges r ! i"
    using i assms by (simp add: ring_edges_def outline_edges_def nth_append)
qed

lemma outline_edge_nth: "2 \<le> length r \<Longrightarrow> i < length r \<Longrightarrow> outline_edges r ! i = (r ! i, r ! ((i + 1) mod length r))"
  by (simp add: outline_edges_def)

lemma length_edges: "2 \<le> length r \<Longrightarrow> length (outline_edges r) = length r"
  by (simp add: outline_edges_def)

section \<open>Simple polygons\<close>

definition crossing_edges :: "point_nm list \<Rightarrow> nat \<Rightarrow> nat \<Rightarrow> bool" where
  "crossing_edges r i j \<longleftrightarrow> segments_intersect (fst (outline_edges r ! i)) (snd (outline_edges r ! i))
     (fst (outline_edges r ! j)) (snd (outline_edges r ! j))"

definition simple_ring :: "point_nm list \<Rightarrow> bool" where
  "simple_ring r \<longleftrightarrow> 3 \<le> length r \<and> signed_area_twice r \<noteq> 0 \<and> (\<nexists>v. (v, v) \<in> set (outline_edges r))
     \<and> (\<nexists>i j. i + 1 < j \<and> j < length r \<and> (i, j) \<noteq> (0, length r - 1) \<and> crossing_edges r i j)"

lemma simple_ring_distinct:
  assumes "simple_ring r"
  shows "distinct r"
proof (rule ccontr)
  assume "\<not> distinct r"
  then obtain i j where ij: "i < j" "j < length r" "r ! i = r ! j"
    by (metis distinct_conv_nth linorder_neqE_nat)
  have n: "2 \<le> length r" using assms by (simp add: simple_ring_def)
  note edge = outline_edge_nth [OF n]
  have ne: "r ! k \<noteq> r ! ((k + 1) mod length r)" if "k < length r" for k
  proof -
    have "(r ! k, r ! ((k + 1) mod length r)) \<in> set (outline_edges r)"
      using edge [OF that] that n by (metis length_edges nth_mem)
    then show ?thesis using assms unfolding simple_ring_def by metis
  qed
  have "i + 1 < j" using ne [of i] ij by (cases "j = i + 1") auto
  moreover have "(i, j) \<noteq> (0, length r - 1)"
  proof
    assume "(i, j) = (0, length r - 1)"
    then have "i = 0" "j + 1 = length r" using ij(2) by auto
    then have "i = 0" "(j + 1) mod length r = 0" by simp_all
    then show False using ne [OF ij(2)] ij(3) by simp
  qed
  moreover have "crossing_edges r i j"
    unfolding crossing_edges_def using edge ij by (simp add: segments_intersect_shared_start)
  ultimately show False using assms ij(2) unfolding simple_ring_def by blast
qed

lemma non_neighbours:
  "(\<exists>i \<in> set [0..<n]. \<exists>j \<in> set [i + 1..<n]. \<not> (j = i + 1 \<or> (i = 0 \<and> j = n - 1)) \<and> P i j)
    \<longleftrightarrow> (\<exists>i j. i + 1 < j \<and> j < n \<and> (i, j) \<noteq> (0, n - 1) \<and> P i j)"
proof
  assume "\<exists>i \<in> set [0..<n]. \<exists>j \<in> set [i + 1..<n]. \<not> (j = i + 1 \<or> (i = 0 \<and> j = n - 1)) \<and> P i j"
  then obtain i j where ij: "j < n" "i + 1 \<le> j" "j \<noteq> i + 1" "(i, j) \<noteq> (0, n - 1)" "P i j" by auto
  then show "\<exists>i j. i + 1 < j \<and> j < n \<and> (i, j) \<noteq> (0, n - 1) \<and> P i j" by (intro exI [of _ i] exI [of _ j]) auto
next
  assume "\<exists>i j. i + 1 < j \<and> j < n \<and> (i, j) \<noteq> (0, n - 1) \<and> P i j"
  then obtain i j where "j < n" "i + 1 < j" "(i, j) \<noteq> (0, n - 1)" "P i j" by blast
  then show "\<exists>i \<in> set [0..<n]. \<exists>j \<in> set [i + 1..<n]. \<not> (j = i + 1 \<or> (i = 0 \<and> j = n - 1)) \<and> P i j"
    by (intro bexI [of _ i] bexI [of _ j]) auto
qed

lemma validate_simple_polygon_iff: "validate_simple_polygon vs = Inr () \<longleftrightarrow> simple_ring (open_ring vs)"
proof (cases "3 \<le> length (open_ring vs)")
  case True
  define r where "r = open_ring vs"
  have n: "2 \<le> length r" "3 \<le> length r" using True by (simp_all add: r_def)
  have meet: "edges_cross (outline_edges r) i j = crossing_edges r i j" for i j
    by (simp add: edges_cross_def crossing_edges_def case_prod_beta)
  have "validate_simple_polygon vs = Inr () \<longleftrightarrow> distinct r \<and> simple_ring r"
    unfolding validate_simple_polygon_def Let_def r_def [symmetric] ring_edges_eq [OF n(1)] length_edges [OF n(1)]
      non_neighbours violations_Inr_iff simple_ring_def signed_area_twice_def meet
    using n(2) by auto
  then show ?thesis using simple_ring_distinct r_def by blast
next
  case False
  then show ?thesis by (simp add: validate_simple_polygon_def Let_def simple_ring_def not_less)
qed

lemma outline_defects_iff: "outline_defects segments_intersect r = [] \<longleftrightarrow> simple_ring r"
proof (cases "3 \<le> length r")
  case True
  then have n: "length (outline_edges r) = length r" by (simp add: length_edges)
  have card: "card (set r) \<ge> 3" if "simple_ring r" using distinct_card [OF simple_ring_distinct [OF that]] True by simp
  have single: "((if P then [d] else []) = []) = (\<not> P)" for P and d :: "string \<times> int list" by simp
  have "outline_defects segments_intersect r = [] \<longleftrightarrow> \<not> card (set r) < 3 \<and> simple_ring r"
    unfolding outline_defects_def Let_def if_not_P [OF True [folded not_less]] crossing_edges_def [symmetric]
      sorted_defects_Nil append_is_Nil_conv zero_length_edges_Nil self_intersections_Nil single
    unfolding n simple_ring_def using True by blast
  then show ?thesis using card by auto
qed (simp add: outline_defects_def simple_ring_def)

lemma normalized_ring_eq: "normalized_ring vs = outline_normalized vs"
proof (cases "open_ring vs = []")
  case False
  have ne: "rotations r \<noteq> []" if "r \<noteq> []" for r :: "point_nm list" using that by (simp add: rotations_def)
  have "Min (set (rotations r @ rotations (rev r))) = min (Min (set (rotations r))) (Min (set (rotations (rev r))))"
    if "r \<noteq> []" for r :: "point_nm list"
    using ne [of r] ne [of "rev r"] that by (simp add: Min_Un)
  then show ?thesis using False unfolding normalized_ring_def outline_normalized_def open_ring_def [symmetric] Let_def by simp
next
  case True
  then show ?thesis unfolding normalized_ring_def outline_normalized_def open_ring_def [symmetric] Let_def by simp
qed

text \<open>
  C28: The two validators of polygons agree. The kernel accepts a ring of vertices, with or without the first
  vertex repeated at its end, exactly when \<^verbatim>\<open>outline_defects\<close> of the verification engine with the
  exact geometry kernel finds no defect in the opened ring; and both components give a ring the same normal form.
\<close>

theorem polygon_validators_agree:
  "(validate_simple_polygon vs = Inr () \<longleftrightarrow> outline_defects segments_intersect (open_ring vs) = [])
    \<and> normalized_ring vs = outline_normalized vs"
  by (simp add: validate_simple_polygon_iff outline_defects_iff normalized_ring_eq)

end
