(* ===== verification/Adapter_Props.thy ===== *)
theory Adapter_Props
  imports Design_Adapter Polygon_Agreement Board_Certification
begin

text \<open>
  The kernel and the engine together. The board of a valid design mirrors it field by field, is already
  normalized, and the engine accepts it as input.
\<close>

section \<open>Fixed points of the normalization\<close>

lemma fixed_by_map_r:
  assumes "map_r f xs = Inr ys" "bs = sort_key k ys" "\<And>x y. f x = Inr y \<Longrightarrow> f y = Inr y"
  shows "sort_key k bs = bs" "\<And>b. b \<in> set bs \<Longrightarrow> f b = Inr b"
proof -
  show "sort_key k bs = bs" by (simp add: assms(2))
  have "map_r f bs = Inr bs" unfolding assms(2) by (rule map_r_normal [OF assms(1,3)])
  then show "f b = Inr b" if "b \<in> set bs" for b
    using that unfolding map_r_Inr by (auto simp: list_all2_same)
qed

lemma fixed_graph:
  assumes "graph_normalized h n = Inr n"
  shows "sort (dg_layers n) = dg_layers n" "normalized_ring (dg_board_outline n) = dg_board_outline n"
    "design_graph_post_init n = Inr ()"
    "sort_key dcomp_id (dg_components n) = dg_components n" "\<And>c. c \<in> set (dg_components n) \<Longrightarrow> dcomponent_normalized c = Inr c"
    "sort_key dnet_id (dg_nets n) = dg_nets n" "\<And>m. m \<in> set (dg_nets n) \<Longrightarrow> dnet_normalized m = Inr m"
    "sort_key dtrack_id (dg_tracks n) = dg_tracks n" "\<And>t. t \<in> set (dg_tracks n) \<Longrightarrow> dtrack_normalized t = Inr t"
    "sort_key dpad_id (dg_pads n) = dg_pads n" "\<And>p. p \<in> set (dg_pads n) \<Longrightarrow> dpad_normalized p = Inr p"
    "sort_key dhole_id (dg_holes n) = dg_holes n" "\<And>x. x \<in> set (dg_holes n) \<Longrightarrow> dhole_normalized x = Inr x"
    "sort_key dvia_id (dg_vias n) = dg_vias n" "\<And>v. v \<in> set (dg_vias n) \<Longrightarrow> dvia_normalized v = Inr v"
    "sort_key dzone_id (dg_zones n) = dg_zones n" "\<And>z. z \<in> set (dg_zones n) \<Longrightarrow> dzone_normalized h z = Inr z"
proof -
  obtain cs ns ts ps xs vs zs ws where maps:
    "map_r dcomponent_normalized (dg_components n) = Inr cs" "map_r dnet_normalized (dg_nets n) = Inr ns"
    "map_r dtrack_normalized (dg_tracks n) = Inr ts" "map_r dpad_normalized (dg_pads n) = Inr ps"
    "map_r dhole_normalized (dg_holes n) = Inr xs" "map_r dvia_normalized (dg_vias n) = Inr vs"
    "map_r (dzone_normalized h) (dg_zones n) = Inr zs" "map_r wire_normalized (dg_wires n) = Inr ws"
    and ok: "design_graph_post_init n = Inr ()"
    and n: "n = n\<lparr>dg_layers := sort (dg_layers n), dg_board_outline := normalized_ring (dg_board_outline n),
       dg_components := sort_key dcomp_id cs, dg_nets := sort_key dnet_id ns,
       dg_placements := sort_key pl_component_id (dg_placements n), dg_tracks := sort_key dtrack_id ts,
       dg_pads := sort_key dpad_id ps, dg_holes := sort_key dhole_id xs, dg_vias := sort_key dvia_id vs,
       dg_zones := sort_key dzone_id zs, dg_wires := sort_key wire_id ws,
       dg_junctions := sort_key junction_id (dg_junctions n)\<rparr>"
    by (rule graph_normalized_Inr [OF assms])
  have parts: "dg_components n = sort_key dcomp_id cs" "dg_nets n = sort_key dnet_id ns" "dg_tracks n = sort_key dtrack_id ts"
    "dg_pads n = sort_key dpad_id ps" "dg_holes n = sort_key dhole_id xs" "dg_vias n = sort_key dvia_id vs"
    "dg_zones n = sort_key dzone_id zs"
    and scalars: "dg_layers n = sort (dg_layers n)" "dg_board_outline n = normalized_ring (dg_board_outline n)"
    by (subst n, simp)+
  show "sort (dg_layers n) = dg_layers n" "normalized_ring (dg_board_outline n) = dg_board_outline n"
    "design_graph_post_init n = Inr ()" using scalars ok by simp_all
  show "sort_key dcomp_id (dg_components n) = dg_components n" "\<And>c. c \<in> set (dg_components n) \<Longrightarrow> dcomponent_normalized c = Inr c"
    by (rule fixed_by_map_r [OF maps(1) parts(1) dcomponent_normalized_idem], assumption+)+
  show "sort_key dnet_id (dg_nets n) = dg_nets n" "\<And>m. m \<in> set (dg_nets n) \<Longrightarrow> dnet_normalized m = Inr m"
    by (rule fixed_by_map_r [OF maps(2) parts(2) dnet_normalized_idem], assumption+)+
  show "sort_key dtrack_id (dg_tracks n) = dg_tracks n" "\<And>t. t \<in> set (dg_tracks n) \<Longrightarrow> dtrack_normalized t = Inr t"
    by (rule fixed_by_map_r [OF maps(3) parts(3) dtrack_normalized_idem], assumption+)+
  show "sort_key dpad_id (dg_pads n) = dg_pads n" "\<And>p. p \<in> set (dg_pads n) \<Longrightarrow> dpad_normalized p = Inr p"
    by (rule fixed_by_map_r [OF maps(4) parts(4) dpad_normalized_idem], assumption+)+
  show "sort_key dhole_id (dg_holes n) = dg_holes n" "\<And>x. x \<in> set (dg_holes n) \<Longrightarrow> dhole_normalized x = Inr x"
    by (rule fixed_by_map_r [OF maps(5) parts(5) dhole_normalized_idem], assumption+)+
  show "sort_key dvia_id (dg_vias n) = dg_vias n" "\<And>v. v \<in> set (dg_vias n) \<Longrightarrow> dvia_normalized v = Inr v"
    by (rule fixed_by_map_r [OF maps(6) parts(6) dvia_normalized_idem], assumption+)+
  show "sort_key dzone_id (dg_zones n) = dg_zones n" "\<And>z. z \<in> set (dg_zones n) \<Longrightarrow> dzone_normalized h z = Inr z"
    by (rule fixed_by_map_r [OF maps(7) parts(7) dzone_normalized_idem], assumption+)+
qed

section \<open>The board is a copy of the design\<close>

lemma sort_key_map_copy:
  assumes "sort_key k xs = xs" "\<And>x. x \<in> set xs \<Longrightarrow> l (f x) = k x" "\<And>x. x \<in> set xs \<Longrightarrow> nf (f x) = f x"
  shows "sort_key l (map nf (map f xs)) = map f xs"
proof -
  have "map nf (map f xs) = map f xs" using assms(3) by simp
  moreover have "map l (map f xs) = map k xs" using assms(2) by simp
  then have "sorted (map l (map f xs))" using assms(1) sorted_sort_key [of k xs] by metis
  ultimately show ?thesis by (metis sort_key_id_if_sorted)
qed

lemma sorted_set_sorted_id: "sort xs = xs \<Longrightarrow> distinct xs \<Longrightarrow> sorted_set xs = xs"
  by (metis set_sorted_set sorted_distinct_set_unique sorted_set_sorted sorted_sort)


lemma last_pad_in: "last_pad n k = Some q \<Longrightarrow> q \<in> set (dg_pads n)"
  unfolding last_pad_def by (drule map_of_SomeD) auto

lemma dpad_fixed:
  assumes "dpad_normalized p = Inr p"
  shows "sort (dpad_layers p) = dpad_layers p" "distinct (dpad_layers p)"
    "id_ok (dpad_id p)" "id_ok (dpad_component_id p)" "id_ok (dpad_pad_number p)"
    "opt_ok id_ok (dpad_net_id p)" "opt_ok id_ok (dpad_shared_land_group_id p)"
    "dpad_shape p \<in> {''circle'', ''oval'', ''rect'', ''roundrect''}"
proof -
  have checks: "dpad_checks (dpad_canonical p) = Inr ()" and p: "dpad_layers p = dpad_layers (dpad_canonical p)"
    using assms by (auto simp: dpad_normalized_def dpad_init_def bind_r_Inr_iff case_prod_beta)
      (metis dpad.select_convs(9) dpad.update_convs(10,13,14) dpad.surjective)
  show "sort (dpad_layers p) = dpad_layers p" using p by (simp add: dpad_canonical_def)
  show "distinct (dpad_layers p)" "id_ok (dpad_id p)" "id_ok (dpad_component_id p)" "id_ok (dpad_pad_number p)"
    "opt_ok id_ok (dpad_net_id p)" "opt_ok id_ok (dpad_shared_land_group_id p)"
    "dpad_shape p \<in> {''circle'', ''oval'', ''rect'', ''roundrect''}"
    using checks by (simp_all add: dpad_checks_def case_prod_beta dpad_canonical_def)
qed

lemma component_copy:
  assumes "graph_normalized h n = Inr n" "c \<in> set (dg_components n)"
  shows "component_normalized (adapted_component n c) = adapted_component n c"
proof -
  have pins: "sort_key pd_number (dcomp_pins c) = dcomp_pins c"
    using fixed_graph(5) [OF assms] by (auto simp: dcomponent_normalized_def)
      (metis dcomponent.select_convs(10) dcomponent.surjective dcomponent.update_convs(10))
  have "pin_normalized (adapted_pin n c p) = adapted_pin n c p" for p
  proof (cases "last_pad n (dcomp_id c, pd_pad_number p)")
    case (Some q)
    then have "sorted_set (dpad_layers q) = dpad_layers q"
      using dpad_fixed(1,2) [OF fixed_graph(11) [OF assms(1) last_pad_in]] by (simp add: sorted_set_sorted_id)
    then show ?thesis using Some by (simp add: adapted_pin_def pin_normalized_def)
  qed (simp add: adapted_pin_def pin_normalized_def sorted_set_sorted_id)
  then have "sort_key pin_number (map pin_normalized (map (adapted_pin n c) (dcomp_pins c))) = map (adapted_pin n c) (dcomp_pins c)"
    by (rule sort_key_map_copy [OF pins, rotated]) (simp add: adapted_pin_def Let_def)
  then show ?thesis by (simp add: component_normalized_def adapted_component_def)
qed

lemma net_copy:
  assumes "dnet_normalized m = Inr m"
  shows "net_normalized (adapted_net m) = adapted_net m"
proof -
  have members: "sort_key pin_ref_key (dnet_members m) = dnet_members m"
    using assms by (auto simp: dnet_normalized_def) (metis dnet.select_convs(3) dnet.surjective dnet.update_convs(3))
  have "sort_key conn_key (map id (map (\<lambda>r. \<lparr>conn_component_id = ref_component_id r, conn_pin_number = ref_pin_number r\<rparr>)
      (dnet_members m))) = map (\<lambda>r. \<lparr>conn_component_id = ref_component_id r, conn_pin_number = ref_pin_number r\<rparr>) (dnet_members m)"
    by (rule sort_key_map_copy [OF members]) (simp_all add: conn_key_def pin_ref_key_def)
  then show ?thesis by (simp add: net_normalized_def adapted_net_def)
qed

lemma track_copy:
  assumes "dtrack_normalized t = Inr t"
  shows "track_normalized (adapted_track t) = adapted_track t"
proof -
  have "t\<lparr>dtrack_start := min (dtrack_start t) (dtrack_end t), dtrack_end := max (dtrack_start t) (dtrack_end t)\<rparr> = t"
    using assms by (simp add: dtrack_normalized_def)
  then have "min (dtrack_start t) (dtrack_end t) = dtrack_start t"
    by (metis dtrack.ext_inject dtrack.surjective dtrack.update_convs(4,5))
  then show ?thesis by (auto simp: track_normalized_def adapted_track_def min_def split: if_splits)
qed

lemma via_copy:
  assumes "dvia_normalized v = Inr v"
  shows "via_normalized (adapted_via v) = adapted_via v"
proof -
  have "dvia_post_init (v\<lparr>dvia_layers := sort (dvia_layers v)\<rparr>) = Inr () \<and> v = v\<lparr>dvia_layers := sort (dvia_layers v)\<rparr>"
    using assms unfolding dvia_normalized_def validated_Inr_iff .
  then have ok: "dvia_post_init (v\<lparr>dvia_layers := sort (dvia_layers v)\<rparr>) = Inr ()" and v: "v\<lparr>dvia_layers := sort (dvia_layers v)\<rparr> = v"
    by (rule conjunct1, metis)
  have "sort (dvia_layers v) = dvia_layers v" using v by (metis dvia.ext_inject dvia.surjective dvia.update_convs(6))
  moreover have "distinct (dvia_layers v)" using ok by (simp add: dvia_post_init_def)
  ultimately show ?thesis by (simp add: via_normalized_def adapted_via_def sorted_set_sorted_id)
qed

lemma zone_copy:
  assumes "dzone_normalized h z = Inr z"
  shows "zone_normalized (adapted_zone z) = adapted_zone z" "validate_simple_polygon (dzone_outline z) = Inr ()"
    "outline_normalized (dzone_outline z) = dzone_outline z"
proof -
  have o: "normalized_ring (dzone_outline z) = dzone_outline z"
    using assms by (auto simp: dzone_normalized_def) (metis dzone.select_convs(4) dzone.surjective dzone.update_convs(4))
  show "validate_simple_polygon (dzone_outline z) = Inr ()"
    using assms by (auto simp: dzone_normalized_def dzone_post_init_def bind_r_Inr_iff o)
  show "outline_normalized (dzone_outline z) = dzone_outline z" using o by (simp add: normalized_ring_eq)
  then show "zone_normalized (adapted_zone z) = adapted_zone z" by (simp add: zone_normalized_def adapted_zone_def)
qed

lemma adapted_ids [simp]:
  "comp_id (adapted_component n c) = dcomp_id c" "comp_reference (adapted_component n c) = dcomp_reference c"
  "net_id (adapted_net m) = dnet_id m" "track_id (adapted_track t) = dtrack_id t" "via_id (adapted_via v) = dvia_id v"
  "zone_id (adapted_zone z) = dzone_id z" "hole_id (adapted_hole x) = dhole_id x"
  by (simp_all add: adapted_component_def adapted_net_def adapted_track_def adapted_via_def adapted_zone_def adapted_hole_def)

lemma adapted_pad_total:
  assumes "dpad_normalized q = Inr q"
  shows "\<exists>r. adapted_pad q = Inr r \<and> ppad_id r = dpad_id q \<and> ppad_layers r = dpad_layers q"
  using dpad_fixed(8) [OF assms] by (auto simp: adapted_pad_def pad_shape_of_def)

lemma map_r_succeeds: "(\<And>x. x \<in> set xs \<Longrightarrow> \<exists>y. f x = Inr y) \<Longrightarrow> \<exists>ys. map_r f xs = Inr ys"
proof (induction xs)
  case (Cons x xs)
  then obtain y ys where "f x = Inr y" "map_r f xs = Inr ys" by (metis list.set_intros)
  then show ?case by simp
qed simp

lemma map_r_projr: "map_r f xs = Inr ys \<Longrightarrow> ys = map (\<lambda>x. projr (f x)) xs"
  by (induction xs arbitrary: ys) (auto simp: bind_r_Inr_iff)

lemma pads_copy:
  assumes "map_r adapted_pad ps = Inr qs" "\<And>q. q \<in> set ps \<Longrightarrow> dpad_normalized q = Inr q" "sort_key dpad_id ps = ps"
  shows "sort_key ppad_id (map physical_pad_normalized qs) = qs"
proof -
  have one: "ppad_id (projr (adapted_pad q)) = dpad_id q \<and> physical_pad_normalized (projr (adapted_pad q)) = projr (adapted_pad q)"
    if "q \<in> set ps" for q
  proof -
    note fixed = assms(2) [OF that]
    obtain r where r: "adapted_pad q = Inr r" "ppad_id r = dpad_id q" "ppad_layers r = dpad_layers q"
      using adapted_pad_total [OF fixed] by blast
    have "sorted_set (ppad_layers r) = ppad_layers r"
      using dpad_fixed(1,2) [OF fixed] r(3) by (simp add: sorted_set_sorted_id)
    then show ?thesis using r by (simp add: physical_pad_normalized_def)
  qed
  show ?thesis
    unfolding map_r_projr [OF assms(1)] by (rule sort_key_map_copy [OF assms(3)]) (simp_all add: one)
qed

lemma board_is_a_copy:
  assumes "good_graph h n" "map_r adapted_pad (dg_pads n) = Inr qs"
  shows "board_normalized (adapted_board n revision qs)
    = (adapted_board n revision qs)\<lparr>board_unsupported_features := sorted_set (unsupported_features n)\<rparr>"
proof -
  have n: "graph_normalized h n = Inr n" and v: "validate_graph n = Inr ()" using assms(1) by (simp_all add: good_graph_def)
  note fixed = fixed_graph [OF n]
  have "distinct (dg_layers n)" using v by (simp add: validate_graph_def bind_r_Inr_iff)
  then have layers: "sorted_set (dg_layers n) = dg_layers n" using fixed(1) by (simp add: sorted_set_sorted_id)
  have lists: "sort_key comp_id (map component_normalized (map (adapted_component n) (dg_components n))) = map (adapted_component n) (dg_components n)"
    "sort_key net_id (map net_normalized (map adapted_net (dg_nets n))) = map adapted_net (dg_nets n)"
    "sort_key track_id (map track_normalized (map adapted_track (dg_tracks n))) = map adapted_track (dg_tracks n)"
    "sort_key via_id (map via_normalized (map adapted_via (dg_vias n))) = map adapted_via (dg_vias n)"
    "sort_key zone_id (map zone_normalized (map adapted_zone (dg_zones n))) = map adapted_zone (dg_zones n)"
    "sort_key hole_id (map id (map adapted_hole (dg_holes n))) = map adapted_hole (dg_holes n)"
    by (rule sort_key_map_copy [OF fixed(4)] sort_key_map_copy [OF fixed(6)] sort_key_map_copy [OF fixed(8)]
        sort_key_map_copy [OF fixed(14)] sort_key_map_copy [OF fixed(16)] sort_key_map_copy [OF fixed(12)];
      simp add: component_copy [OF n] net_copy [OF fixed(7)] track_copy [OF fixed(9)] via_copy [OF fixed(15)] zone_copy(1) [OF fixed(17)])+
  have "outline_normalized (dg_board_outline n) = dg_board_outline n" using fixed(2) by (simp add: normalized_ring_eq)
  then show ?thesis
    using layers lists [unfolded list.map_id] pads_copy [OF assms(2) fixed(11,10)]
    unfolding board_normalized_def adapted_board_def by simp
qed

definition exact_copy :: "design_graph \<Rightarrow> string \<Rightarrow> physical_pad list \<Rightarrow> board_graph" where
  "exact_copy n revision qs = (adapted_board n revision qs)\<lparr>board_unsupported_features := sorted_set (unsupported_features n)\<rparr>"

lemma to_verification_board_Inr:
  assumes "to_verification_board h g revision = Inr b"
  obtains n qs where "graph_normalized h g = Inr n" "good_graph h n" "is_sha256_hex revision"
    "map_r adapted_pad (dg_pads n) = Inr qs" "b = exact_copy n revision qs"
proof -
  obtain n qs where n: "graph_normalized h g = Inr n" "validate_graph n = Inr ()" "map_r adapted_pad (dg_pads n) = Inr qs"
    "b = board_normalized (adapted_board n revision qs)" "is_sha256_hex revision"
    using assms by (auto simp: to_verification_board_def bind_r_Inr_iff)
  have good: "good_graph h n" by (rule good_graph_normalized [OF n(1,2)])
  show thesis using that [OF n(1) good n(5,3)] board_is_a_copy [OF good n(3)] n(4) by (simp add: exact_copy_def)
qed

section \<open>The engine accepts the board\<close>

lemma id_not_blank: "id_ok s \<Longrightarrow> \<not> is_blank s"
  by (auto simp: id_ok_def is_blank_def)

lemma hex_not_blank:
  assumes "is_sha256_hex s"
  shows "\<not> is_blank s"
proof -
  obtain c where c: "c \<in> set s" using assms by (cases s) (auto simp: is_sha256_hex_def)
  have "c \<in> set ''0123456789abcdef''" using assms c by (simp add: is_sha256_hex_def hex_digits_def)
  then have "\<not> char_isspace c" by (auto simp: char_isspace_def)
  then show ?thesis using c by (auto simp: is_blank_def strip_eq_Nil_iff)
qed

lemma filled_geometry_hash_copy: "zone_filled_geometry_hash h (adapted_zone z) = dzone_filled_geometry_hash h z"
  by (simp add: zone_filled_geometry_hash_def dzone_filled_geometry_hash_def stable_hash_def design_hash_def
      adapted_zone_def outline_json_def normalized_ring_eq)

lemma zone_checks_copy:
  assumes "dzone_normalized h z = Inr z" "\<And>e. dzone_fill_evidence z = Some e \<Longrightarrow> fill_evidence_post_init h e = Inr ()"
  shows "raise_first (zone_checks h (adapted_zone z)) = Inr ()"
proof -
  have c: "dzone_post_init h (z\<lparr>dzone_outline := normalized_ring (dzone_outline z)\<rparr>) = Inr ()
      \<and> z = z\<lparr>dzone_outline := normalized_ring (dzone_outline z)\<rparr>"
    using assms(1) unfolding dzone_normalized_def validated_Inr_iff .
  have ok: "dzone_post_init h z = Inr ()" using c [THEN conjunct1] unfolding c [THEN conjunct2, symmetric] .
  have state: "zone_fill_state (adapted_zone z) = dzone_fill_state z" "zone_fill_evidence (adapted_zone z) = dzone_fill_evidence z"
    by (simp_all add: adapted_zone_def)
  show ?thesis
  proof (cases "dzone_fill_state z")
    case Fill_UNFILLED_INTENT
    then show ?thesis using ok by (simp add: zone_checks_def state dzone_post_init_def bind_r_Inr_iff)
  next
    case Fill_VERIFIED_FILLED
    then obtain e where e: "dzone_fill_evidence z = Some e" "fill_filled_geometry_hash e = dzone_filled_geometry_hash h z"
      using ok by (auto simp: dzone_post_init_def bind_r_Inr_iff)
    have "fill_evidence_post_init h e = Inr ()" by (rule assms(2) [OF e(1)])
    then have "is_sha256_hex (fill_source_graph_hash e)" "is_sha256_hex (fill_source_revision e)" "id_ok (fill_engine_id e)"
      "id_ok (fill_engine_revision e)" "is_sha256_hex (fill_filled_geometry_hash e)" "is_sha256_hex (fill_evidence_hash e)"
      "fill_evidence_hash e = zone_fill_evidence_hash h e"
      by (auto simp: fill_evidence_post_init_def)
    then show ?thesis
      using Fill_VERIFIED_FILLED e
      by (simp add: zone_checks_def state fill_evidence_checks_def raise_first_Inr_iff filled_geometry_hash_copy id_not_blank hex_not_blank)
  qed
qed

lemma dhole_fixed:
  assumes "dhole_normalized x = Inr x"
  shows "id_ok (dhole_id x)" "id_ok (dhole_component_id x)" "opt_ok id_ok (dhole_pad_id x)"
proof -
  have "dhole_checks (dhole_canonical x) = Inr ()"
    using assms by (auto simp: dhole_normalized_def dhole_init_def bind_r_Inr_iff)
  then show "id_ok (dhole_id x)" "id_ok (dhole_component_id x)" "opt_ok id_ok (dhole_pad_id x)"
    by (simp_all add: dhole_checks_def case_prod_beta dhole_canonical_def)
qed

lemma pad_ids_copy:
  assumes "dpad_normalized q = Inr q" "adapted_pad q = Inr r" "s \<in> set ([ppad_id r, ppad_component_id r, ppad_pad_number r]
    @ option_list (ppad_net_id r) @ option_list (ppad_shared_land_group_id r))"
  shows "\<not> is_blank s"
  using assms(2,3) dpad_fixed [OF assms(1)]
  by (auto simp: adapted_pad_def bind_r_Inr_iff option_list_def opt_ok_def id_not_blank split: option.splits)

lemma hole_ids_copy:
  assumes "dhole_normalized x = Inr x" "s \<in> set ([hole_id (adapted_hole x), hole_component_id (adapted_hole x)]
    @ option_list (hole_pad_id (adapted_hole x)))"
  shows "\<not> is_blank s"
  using assms(2) dhole_fixed [OF assms(1)]
  by (auto simp: adapted_hole_def option_list_def opt_ok_def id_not_blank split: option.splits)

lemma nonempty_checks_ok: "(\<And>s. s \<in> set ss \<Longrightarrow> \<not> is_blank s) \<Longrightarrow> raise_first (nonempty_checks ss) = Inr ()"
  by (auto simp: nonempty_checks_def raise_first_Inr_iff)

lemma raise_first_concat: "raise_first (concat css) = Inr () \<longleftrightarrow> (\<forall>cs \<in> set css. raise_first cs = Inr ())"
  by (auto simp: raise_first_Inr_iff)

lemma exact_copy_fields:
  "board_design_id (exact_copy n revision qs) = dg_project_id n" "board_revision (exact_copy n revision qs) = revision"
  "board_outline (exact_copy n revision qs) = dg_board_outline n"
  "board_components (exact_copy n revision qs) = map (adapted_component n) (dg_components n)"
  "board_nets (exact_copy n revision qs) = map adapted_net (dg_nets n)"
  "board_tracks (exact_copy n revision qs) = map adapted_track (dg_tracks n)"
  "board_vias (exact_copy n revision qs) = map adapted_via (dg_vias n)"
  "board_zones (exact_copy n revision qs) = map adapted_zone (dg_zones n)"
  "board_holes (exact_copy n revision qs) = map adapted_hole (dg_holes n)" "board_pads (exact_copy n revision qs) = qs"
  "board_unsupported_features (exact_copy n revision qs) = sorted_set (unsupported_features n)"
  by (simp_all add: exact_copy_def adapted_board_def)

lemma exact_copy_valid:
  assumes "good_graph h n" "is_sha256_hex revision" "map_r adapted_pad (dg_pads n) = Inr qs"
    and "\<And>z e. z \<in> set (dg_zones n) \<Longrightarrow> dzone_fill_evidence z = Some e \<Longrightarrow> fill_evidence_post_init h e = Inr ()"
  shows "validate_board_graph h (exact_copy n revision qs) = Inr ()"
proof -
  note fixed = fixed_graph [OF assms(1) [unfolded good_graph_def, THEN conjunct1]]
  have scalars: "raise_first (nonempty_checks [dg_project_id n, revision]) = Inr ()"
    by (rule nonempty_checks_ok) (use fixed(3) assms(2) in \<open>auto simp: design_graph_post_init_def id_not_blank hex_not_blank\<close>)
  have zones: "raise_first (concat (map (zone_checks h) (map adapted_zone (dg_zones n)))) = Inr ()"
    unfolding raise_first_concat set_map ball_simps
    by (intro ballI zone_checks_copy [OF fixed(17)]) (use assms(4) in blast)+
  have holes: "raise_first (concat (map (\<lambda>x. nonempty_checks ([hole_id x, hole_component_id x] @ option_list (hole_pad_id x)))
      (map adapted_hole (dg_holes n)))) = Inr ()"
    unfolding raise_first_concat set_map ball_simps
    by (intro ballI nonempty_checks_ok) (rule hole_ids_copy [OF fixed(13)])
  have qs: "\<exists>q \<in> set (dg_pads n). adapted_pad q = Inr r" if "r \<in> set qs" for r
    using map_r_Inr_set(2) [OF assms(3) that] .
  have pads: "raise_first (concat (map (\<lambda>q. nonempty_checks ([ppad_id q, ppad_component_id q, ppad_pad_number q]
         @ option_list (ppad_net_id q) @ option_list (ppad_shared_land_group_id q))) qs)) = Inr ()"
    unfolding raise_first_concat set_map ball_simps
  proof (intro ballI nonempty_checks_ok)
    fix r s assume "r \<in> set qs" and s: "s \<in> set ([ppad_id r, ppad_component_id r, ppad_pad_number r]
         @ option_list (ppad_net_id r) @ option_list (ppad_shared_land_group_id r))"
    then obtain q where "q \<in> set (dg_pads n)" "adapted_pad q = Inr r" using qs by blast
    then show "\<not> is_blank s" using pad_ids_copy [OF fixed(11)] s by blast
  qed
  show ?thesis
    unfolding validate_board_graph_def exact_copy_fields raise_first_append scalars zones holes pads sum.case ..
qed

lemma normalized_zone_evidence:
  assumes "graph_normalized h g = Inr n" "z \<in> set (dg_zones n)"
  shows "\<exists>y \<in> set (dg_zones g). dzone_fill_evidence y = dzone_fill_evidence z"
proof -
  have "\<exists>zs. map_r (dzone_normalized h) (dg_zones g) = Inr zs \<and> dg_zones n = sort_key dzone_id zs"
    using assms(1) by (auto elim!: graph_normalized_Inr)
  then obtain zs where zs: "map_r (dzone_normalized h) (dg_zones g) = Inr zs" "dg_zones n = sort_key dzone_id zs" by blast
  then have "z \<in> set zs" using assms(2) by simp
  then obtain y where "y \<in> set (dg_zones g)" "dzone_normalized h y = Inr z"
    using map_r_Inr_set(2) [OF zs(1)] by blast
  then show ?thesis by (auto simp: dzone_normalized_def)
qed

section \<open>What the board records of a design\<close>

text \<open>
  An entity of the design and the entity of the board that stands for it, field by field. The pin of a
  component carries the land of one of the design's pads with its pad number, where there is one.
\<close>

definition pin_mirrored :: "design_graph \<Rightarrow> dcomponent \<Rightarrow> pin_definition \<Rightarrow> pin \<Rightarrow> bool" where
  "pin_mirrored n c p q \<longleftrightarrow> pin_number q = pd_number p \<and> pin_name q = pd_name p \<and> pin_required q = pd_required p
     \<and> pin_pad_number q = pd_pad_number p
     \<and> (map_of pin_types (pd_electrical_type p) = Some (pin_electrical_type q)
        \<or> map_of pin_types (pd_electrical_type p) = None \<and> pin_electrical_type q = Pin_UNSPECIFIED)
     \<and> (let own = filter (\<lambda>d. dpad_component_id d = dcomp_id c \<and> dpad_pad_number d = pd_pad_number p) (dg_pads n) in
        if own = [] then pin_pad_center q = None \<and> pin_pad_diameter_nm q = 0 \<and> pin_layers q = [] \<and> pin_pad_drill_nm q = 0
        else \<exists>d \<in> set own. pin_pad_center q = Some (dpad_center d) \<and> pin_layers q = dpad_layers d
           \<and> pin_pad_diameter_nm q = min (dpad_size_x_nm d) (dpad_size_y_nm d) \<and> pin_pad_drill_nm q = dpad_drill_nm d)"

definition component_mirrored :: "design_graph \<Rightarrow> dcomponent \<Rightarrow> component \<Rightarrow> bool" where
  "component_mirrored n d c \<longleftrightarrow> comp_id c = dcomp_id d \<and> comp_reference c = dcomp_reference d \<and> comp_value c = dcomp_value d
     \<and> comp_footprint c = dcomp_footprint_id d \<and> comp_manufacturer_part_number c = dcomp_manufacturer_part_number d
     \<and> comp_datasheet_sha256 c = dcomp_datasheet_sha256 d \<and> comp_pin_map_sha256 c = dcomp_pin_map_sha256 d
     \<and> list_all2 (pin_mirrored n d) (dcomp_pins d) (comp_pins c)"

definition net_mirrored :: "dnet \<Rightarrow> net \<Rightarrow> bool" where
  "net_mirrored d m \<longleftrightarrow> net_id m = dnet_id d \<and> net_name m = dnet_name d \<and> \<not> net_external_source m
     \<and> list_all2 (\<lambda>r c. conn_component_id c = ref_component_id r \<and> conn_pin_number c = ref_pin_number r)
          (dnet_members d) (net_connections m)"

definition track_mirrored :: "dtrack \<Rightarrow> track \<Rightarrow> bool" where
  "track_mirrored d t \<longleftrightarrow> track_id t = dtrack_id d \<and> track_net_id t = dtrack_net_id d \<and> track_layer t = dtrack_layer d
     \<and> track_start t = dtrack_start d \<and> track_end t = dtrack_end d \<and> track_width_nm t = dtrack_width_nm d"

definition via_mirrored :: "dvia \<Rightarrow> via \<Rightarrow> bool" where
  "via_mirrored d v \<longleftrightarrow> via_id v = dvia_id d \<and> via_net_id v = dvia_net_id d \<and> via_center v = dvia_center d
     \<and> via_diameter_nm v = dvia_diameter_nm d \<and> via_drill_nm v = dvia_drill_nm d \<and> via_layers v = dvia_layers d"

definition zone_mirrored :: "dzone \<Rightarrow> zone \<Rightarrow> bool" where
  "zone_mirrored d z \<longleftrightarrow> zone_id z = dzone_id d \<and> zone_net_id z = dzone_net_id d \<and> zone_layer z = dzone_layer d
     \<and> zone_outline z = dzone_outline d \<and> zone_clearance_nm z = dzone_clearance_nm d
     \<and> zone_fill_state z = dzone_fill_state d \<and> zone_fill_evidence z = dzone_fill_evidence d"

definition hole_mirrored :: "dhole \<Rightarrow> hole \<Rightarrow> bool" where
  "hole_mirrored d x \<longleftrightarrow> hole_id x = dhole_id d \<and> hole_component_id x = dhole_component_id d \<and> hole_center x = dhole_center d
     \<and> hole_diameter_nm x = dhole_diameter_nm d \<and> hole_plated x = dhole_plated d \<and> hole_pad_id x = dhole_pad_id d
     \<and> hole_drill_x_nm x = dhole_drill_x_nm d \<and> hole_drill_y_nm x = dhole_drill_y_nm d
     \<and> hole_drill_rotation_udeg x = dhole_drill_rotation_udeg d"

definition pad_mirrored :: "dpad \<Rightarrow> physical_pad \<Rightarrow> bool" where
  "pad_mirrored d q \<longleftrightarrow> ppad_id q = dpad_id d \<and> ppad_component_id q = dpad_component_id d
     \<and> ppad_pad_number q = dpad_pad_number d \<and> ppad_net_id q = dpad_net_id d \<and> ppad_center q = dpad_center d
     \<and> ppad_size_x_nm q = dpad_size_x_nm d \<and> ppad_size_y_nm q = dpad_size_y_nm d
     \<and> pad_shape_of (dpad_shape d) = Inr (ppad_shape q) \<and> ppad_rotation_udeg q = dpad_rotation_udeg d
     \<and> ppad_layers q = dpad_layers d \<and> ppad_drill_nm q = dpad_drill_nm d \<and> ppad_drill_x_nm q = dpad_drill_x_nm d
     \<and> ppad_drill_y_nm q = dpad_drill_y_nm d \<and> ppad_drill_rotation_udeg q = dpad_drill_rotation_udeg d
     \<and> ppad_shared_land_group_id q = dpad_shared_land_group_id d"

definition board_mirrors :: "design_graph \<Rightarrow> string \<Rightarrow> board_graph \<Rightarrow> bool" where
  "board_mirrors n revision b \<longleftrightarrow> board_schema_version b = 3 \<and> board_design_id b = dg_project_id n
     \<and> board_revision b = revision \<and> board_layers b = dg_layers n \<and> board_outline b = dg_board_outline n
     \<and> list_all2 (component_mirrored n) (dg_components n) (board_components b)
     \<and> list_all2 net_mirrored (dg_nets n) (board_nets b) \<and> list_all2 track_mirrored (dg_tracks n) (board_tracks b)
     \<and> list_all2 via_mirrored (dg_vias n) (board_vias b) \<and> list_all2 zone_mirrored (dg_zones n) (board_zones b)
     \<and> list_all2 hole_mirrored (dg_holes n) (board_holes b) \<and> list_all2 pad_mirrored (dg_pads n) (board_pads b)
     \<and> set (board_unsupported_features b) = set (unsupported_features n)"

lemma adapted_pin_mirrored: "pin_mirrored n c p (adapted_pin n c p)"
proof -
  let ?own = "filter (\<lambda>d. dpad_component_id d = dcomp_id c \<and> dpad_pad_number d = pd_pad_number p) (dg_pads n)"
  let ?k = "(dcomp_id c, pd_pad_number p)"
  have type: "map_of pin_types (pd_electrical_type p) = Some (pin_electrical_type (adapted_pin n c p))
      \<or> map_of pin_types (pd_electrical_type p) = None \<and> pin_electrical_type (adapted_pin n c p) = Pin_UNSPECIFIED"
    by (cases "map_of pin_types (pd_electrical_type p)") (simp_all add: adapted_pin_def Let_def)
  have none: "last_pad n ?k = None \<longleftrightarrow> ?own = []"
    by (auto simp: last_pad_def map_of_eq_None_iff filter_empty_conv image_iff)
  have some: "d \<in> set ?own" if "last_pad n ?k = Some d" for d
    using map_of_SomeD [OF that [unfolded last_pad_def]] by auto
  show ?thesis
  proof (cases "last_pad n ?k")
    case None
    then show ?thesis using none type by (simp add: pin_mirrored_def adapted_pin_def Let_def)
  next
    case (Some d)
    then have "?own \<noteq> []" using none by simp
    then show ?thesis using some [OF Some] Some type unfolding pin_mirrored_def Let_def if_not_P [OF \<open>?own \<noteq> []\<close>]
      by (intro conjI bexI [of _ d]) (simp_all add: adapted_pin_def Let_def)
  qed
qed

lemma exact_copy_mirrors:
  assumes "map_r adapted_pad (dg_pads n) = Inr qs"
  shows "board_mirrors n revision (exact_copy n revision qs)"
proof -
  have comps: "component_mirrored n c (adapted_component n c)" for c
    by (simp add: component_mirrored_def adapted_component_def list.rel_map list_all2_same adapted_pin_mirrored)
  have nets: "net_mirrored m (adapted_net m)" for m
    by (simp add: net_mirrored_def adapted_net_def list.rel_map list_all2_same)
  have copper: "track_mirrored t (adapted_track t)" "via_mirrored v (adapted_via v)" "zone_mirrored z (adapted_zone z)"
      "hole_mirrored x (adapted_hole x)" for t v z x
    by (simp_all add: track_mirrored_def adapted_track_def via_mirrored_def adapted_via_def zone_mirrored_def adapted_zone_def
        hole_mirrored_def adapted_hole_def)
  have "adapted_pad d = Inr q \<Longrightarrow> pad_mirrored d q" for d q
    by (auto simp: adapted_pad_def bind_r_Inr_iff pad_mirrored_def)
  then have pads: "list_all2 pad_mirrored (dg_pads n) qs"
    using assms unfolding map_r_Inr by (auto elim: list_all2_mono)
  show ?thesis
    unfolding board_mirrors_def exact_copy_fields
    by (intro conjI) (simp_all add: exact_copy_def adapted_board_def list.rel_map list_all2_same comps nets copper pads)
qed

text \<open>
  C18: The verification engine accepts the board of every valid design. If a design graph has a valid normal form, its
  zones carry well-formed fill evidence and the revision is a digest, \<^verbatim>\<open>to_verification_board\<close> succeeds;
  the board holds one entity for each component, net, track, via, zone, hole and pad of the normal form, in the same
  order and with each field equal to the design's; its pins carry the land of a pad of the design; it lists exactly the
  unsupported features; it is already normalized; and it passes the input validation of the engine, the hashes of the
  fill evidence included.
\<close>

theorem adapted_board_accepted:
  assumes "graph_normalized h g = Inr n" "validate_graph n = Inr ()" "is_sha256_hex revision"
    and "\<forall>z \<in> set (dg_zones g). \<forall>e. dzone_fill_evidence z = Some e \<longrightarrow> fill_evidence_post_init h e = Inr ()"
  shows "\<exists>b. to_verification_board h g revision = Inr b \<and> board_mirrors n revision b
    \<and> board_normalized b = b \<and> validate_board_graph h b = Inr ()"
proof -
  have good: "good_graph h n" by (rule good_graph_normalized [OF assms(1,2)])
  note fixed = fixed_graph [OF good [unfolded good_graph_def, THEN conjunct1]]
  have "\<exists>r. adapted_pad q = Inr r" if "q \<in> set (dg_pads n)" for q using adapted_pad_total [OF fixed(11) [OF that]] by blast
  then have "\<exists>qs. map_r adapted_pad (dg_pads n) = Inr qs" by (rule map_r_succeeds)
  then obtain qs where qs: "map_r adapted_pad (dg_pads n) = Inr qs" by blast
  let ?a = "adapted_board n revision qs" and ?b = "exact_copy n revision qs"
  note copy = board_is_a_copy [OF good qs, of revision]
  have "to_verification_board h g revision = Inr ?b"
    using assms(1-3) qs copy by (simp add: to_verification_board_def exact_copy_def violations_def)
  moreover have "board_normalized (x\<lparr>board_unsupported_features := f\<rparr>) = (board_normalized x)\<lparr>board_unsupported_features := sorted_set f\<rparr>" for x f
    by (simp add: board_normalized_def)
  then have "board_normalized ?b = ?b" using copy by (simp add: exact_copy_def)
  moreover have "validate_board_graph h ?b = Inr ()"
    by (rule exact_copy_valid [OF good assms(3) qs]) (use assms(4) normalized_zone_evidence [OF assms(1)] in metis)
  ultimately show ?thesis using exact_copy_mirrors [OF qs] by blast
qed

end
