(* ===== verification/Adapter_Guarantees.thy ===== *)
theory Adapter_Guarantees
  imports Adapter_Props
begin

text \<open>
  What the design kernel and the verification engine guarantee together: the structural rules of the engine find
  nothing on the board of a design that the kernel accepts, except for a missing outline, and a passed commit gate
  means that every part of the design that the adapter examines is represented on the board.
\<close>

section \<open>References\<close>

lemma validate_graph_Inr:
  assumes "validate_graph g = Inr ()"
  shows "distinct (map dcomp_id (dg_components g))" "distinct (map dcomp_reference (dg_components g))"
    "distinct (map dnet_id (dg_nets g))" "distinct (map dtrack_id (dg_tracks g))" "distinct (map dvia_id (dg_vias g))"
    "distinct (map dzone_id (dg_zones g))" "distinct (all_members g)" "\<And>r. r \<in> set (all_members g) \<Longrightarrow> member_known g r"
proof -
  have u: "violations (unique_checks g @ reference_checks g) = Inr ()"
    using assms by (auto simp: validate_graph_def bind_r_Inr_iff)
  then have "\<forall>(bad, s) \<in> set (unique_checks g). \<not> bad" "\<forall>(bad, s) \<in> set (reference_checks g). \<not> bad" by auto
  then show "distinct (map dcomp_id (dg_components g))" "distinct (map dcomp_reference (dg_components g))"
    "distinct (map dnet_id (dg_nets g))" "distinct (map dtrack_id (dg_tracks g))" "distinct (map dvia_id (dg_vias g))"
    "distinct (map dzone_id (dg_zones g))" "distinct (all_members g)" "\<And>r. r \<in> set (all_members g) \<Longrightarrow> member_known g r"
    by (simp_all add: unique_checks_def reference_checks_def)
qed

lemma connection_findings_none:
  assumes "\<And>c. c \<in> set cs \<Longrightarrow> conn_component_id c \<in> set (map comp_id (board_components b))
      \<and> component_pin_index b (conn_key c) \<noteq> None"
    and "distinct (map conn_key cs)" "set (map conn_key cs) \<inter> set seen = {}"
  shows "connection_findings b n seen cs = []"
  using assms
proof (induction cs arbitrary: seen)
  case (Cons c cs)
  have "connection_findings b n (conn_key c # seen) cs = []" by (rule Cons.IH) (use Cons.prems in auto)
  then show ?case using Cons.prems(1) [of c] Cons.prems(3) by (simp add: Let_def)
qed simp

lemma multiple_net_none:
  assumes "distinct (map fst (all_connections b))"
  shows "multiple_net_findings b = []"
proof -
  have one: "\<not> 1 < length (sorted_set (map snd (filter (\<lambda>(k, _). k = key) (all_connections b))))" for key
  proof -
    let ?f = "filter (\<lambda>(k, _). k = key) (all_connections b)"
    have d: "distinct (map fst ?f)" using assms by (rule distinct_map_filter)
    have "card (set (map fst ?f)) \<le> card {key}" by (rule card_mono) auto
    then have "length ?f \<le> 1" using distinct_card [OF d] by simp
    moreover have "length (sorted_set (map snd ?f)) \<le> length ?f"
      using distinct_card [OF sorted_set_sorted(2), of "map snd ?f"] card_length [of "map snd ?f"] by simp
    ultimately show ?thesis by linarith
  qed
  show ?thesis
    unfolding multiple_net_findings_def Let_def if_not_P [OF one] by simp
qed

lemma pin_ref_key_inject: "pin_ref_key r = pin_ref_key s \<longleftrightarrow> r = s"
  by (cases r; cases s) (simp add: pin_ref_key_def)

lemma all_connections_copy:
  "map fst (all_connections (exact_copy n revision qs)) = map pin_ref_key (all_members n)"
proof -
  have "pin_ref_key = (\<lambda>r. (ref_component_id r, ref_pin_number r))" by (simp add: fun_eq_iff pin_ref_key_def)
  then show ?thesis
    by (simp add: all_connections_def all_members_def exact_copy_fields map_concat comp_def adapted_net_def conn_key_def)
qed

lemma member_resolves:
  assumes "member_known n r"
  shows "ref_component_id r \<in> set (map dcomp_id (dg_components n))"
    "component_pin_index (exact_copy n revision qs) (pin_ref_key r) \<noteq> None"
proof -
  obtain c where c: "component_of n (ref_component_id r) = Some c" "ref_pin_number r \<in> set (map pd_number (dcomp_pins c))"
    using assms by (auto simp: member_known_def split: option.splits)
  have in_n: "c \<in> set (dg_components n)" "dcomp_id c = ref_component_id r"
    using c(1) unfolding component_of_def by (auto dest!: map_of_SomeD)
  then show "ref_component_id r \<in> set (map dcomp_id (dg_components n))" by force
  obtain p where p: "p \<in> set (dcomp_pins c)" "pd_number p = ref_pin_number r" using c(2) by auto
  have "(pin_ref_key r, adapted_pin n c p) \<in> set (pin_entries (exact_copy n revision qs))"
    using in_n p by (force simp: pin_entries_def exact_copy_fields adapted_component_def pin_ref_key_def adapted_pin_def Let_def)
  then have "pin_ref_key r \<in> fst ` set (rev (pin_entries (exact_copy n revision qs)))" by (metis fst_conv image_eqI set_rev)
  then show "component_pin_index (exact_copy n revision qs) (pin_ref_key r) \<noteq> None"
    unfolding component_pin_index_def map_of_eq_None_iff by blast
qed

lemma references_resolve:
  assumes "good_graph h n"
  shows "graph_reference_integrity (exact_copy n revision qs) ctx = Inr []"
proof -
  let ?b = "exact_copy n revision qs"
  have n: "graph_normalized h n = Inr n" and v: "validate_graph n = Inr ()" using assms by (simp_all add: good_graph_def)
  note valid = validate_graph_Inr [OF v]
  have duplicates: "concat (map duplicate_findings
       [(''component'', map comp_id (board_components ?b)), (''reference'', map comp_reference (board_components ?b)),
        (''net'', map net_id (board_nets ?b)), (''track'', map track_id (board_tracks ?b)),
        (''via'', map via_id (board_vias ?b)), (''zone'', map zone_id (board_zones ?b))]) = []"
    using valid(1-6) by (simp add: duplicate_findings_def duplicates_Nil_iff exact_copy_fields comp_def)
  have pins: "duplicate_pin_findings (adapted_component n c) = []" if "c \<in> set (dg_components n)" for c
  proof -
    have "distinct (map pd_number (sort_key pd_number (dcomp_pins c)))"
      using fixed_graph(5) [OF n that] by (auto simp: dcomponent_normalized_def dcomponent_post_init_def)
    then have "distinct (map pd_number (dcomp_pins c))" by (metis distinct_map distinct_sort set_sort)
    moreover have "map pin_number (comp_pins (adapted_component n c)) = map pd_number (dcomp_pins c)"
      by (simp add: adapted_component_def comp_def adapted_pin_def Let_def)
    ultimately show ?thesis by (simp add: duplicate_pin_findings_def duplicates_Nil_iff)
  qed
  have members: "distinct (map pin_ref_key (all_members n))"
    using valid(7) by (simp add: distinct_map inj_on_def pin_ref_key_inject)
  have nets: "connection_findings ?b (adapted_net m) [] (net_connections (adapted_net m)) = []" if "m \<in> set (dg_nets n)" for m
  proof (rule connection_findings_none)
    have keys: "map conn_key (net_connections (adapted_net m)) = map pin_ref_key (dnet_members m)"
      by (simp add: adapted_net_def conn_key_def pin_ref_key_def comp_def)
    have "distinct (dnet_members m)" using valid(7) that by (auto simp: all_members_def distinct_concat_iff)
    then show "distinct (map conn_key (net_connections (adapted_net m)))"
      unfolding keys by (simp add: distinct_map inj_on_def pin_ref_key_inject)
    fix c assume "c \<in> set (net_connections (adapted_net m))"
    then obtain r where r: "r \<in> set (dnet_members m)" "c = \<lparr>conn_component_id = ref_component_id r, conn_pin_number = ref_pin_number r\<rparr>"
      by (auto simp: adapted_net_def)
    have known: "member_known n r" by (rule valid(8)) (use r(1) that in \<open>auto simp: all_members_def\<close>)
    have "conn_key c = pin_ref_key r" using r(2) by (simp add: conn_key_def pin_ref_key_def)
    then show "conn_component_id c \<in> set (map comp_id (board_components ?b)) \<and> component_pin_index ?b (conn_key c) \<noteq> None"
      using member_resolves [OF known] r(2)
      by (simp add: exact_copy_fields image_image del: not_None_eq)
  qed simp
  have "multiple_net_findings ?b = []" by (rule multiple_net_none) (simp add: all_connections_copy members)
  then show ?thesis
    using duplicates pins nets unfolding graph_reference_integrity_def by (simp add: exact_copy_fields)
qed

section \<open>The structural rules\<close>

lemma normal_ring_without_defects:
  assumes "normalized_ring vs = vs" "validate_simple_polygon vs = Inr ()"
  shows "outline_defects segments_intersect vs = []"
proof -
  have "open_ring (normalized_ring vs) = normalized_ring vs"
    by (rule open_normalized_ring) (use validate_simple_polygon_ring [OF assms(2)] in \<open>simp_all add: assms(1)\<close>)
  then show ?thesis using assms by (simp add: validate_simple_polygon_iff outline_defects_iff)
qed

lemma default_context_geometry [simp]: "geo_segments_intersect (ctx_geometry (default_context e)) = segments_intersect"
  by (simp add: default_context_def exact_geometry_kernel_def)

lemma normalized_ring_empty_iff: "normalized_ring vs = [] \<longleftrightarrow> vs = []"
proof (cases vs)
  case (Cons x xs)
  then have ne: "open_ring vs \<noteq> []" by (auto simp: open_ring_def)
  then obtain i where "normalized_ring vs = rotate i (open_ring vs) \<or> normalized_ring vs = rotate i (rev (open_ring vs))"
    using normalized_ring_mem [OF ne] by (auto simp: ring_presentations_def set_rotations)
  then have "normalized_ring vs \<noteq> []" using ne by (metis rev_is_Nil_conv rotate_is_Nil_conv)
  then show ?thesis using Cons by simp
qed simp

lemma normalized_outline:
  assumes "graph_normalized h g = Inr n"
  shows "dg_board_outline n = normalized_ring (dg_board_outline g)"
  by (rule graph_normalized_Inr [OF assms]) simp

text \<open>
  C17: The kernel establishes what the structural rules of the engine check. On the board of a design that
  \<^verbatim>\<open>to_verification_board\<close> accepts, the rule of reference integrity, the rule on zone outlines and the rules that
  require footprints and part provenance evaluate without an error and find nothing. The rule on the board outline
  never fails and finds nothing exactly when the design has an outline at all.
\<close>

theorem kernel_designs_pass_structural_rules:
  assumes "to_verification_board h g revision = Inr b"
  shows "eval_evaluate graph_reference_integrity_rule b (default_context graph_reference_integrity_rule) = Inr []
    \<and> eval_evaluate zone_outline_validity_rule b (default_context zone_outline_validity_rule) = Inr []
    \<and> eval_evaluate footprint_required_rule b (default_context footprint_required_rule) = Inr []
    \<and> eval_evaluate part_provenance_required_rule b (default_context part_provenance_required_rule) = Inr []
    \<and> (\<exists>fs. eval_evaluate outline_validity_rule b (default_context outline_validity_rule) = Inr fs
        \<and> (fs = [] \<longleftrightarrow> dg_board_outline g \<noteq> []))"
  using assms
proof (rule to_verification_board_Inr)
  fix n qs assume g: "graph_normalized h g = Inr n" and good: "good_graph h n" and b: "b = exact_copy n revision qs"
  have n: "graph_normalized h n = Inr n" and v: "validate_graph n = Inr ()" using good by (simp_all add: good_graph_def)
  note fixed = fixed_graph [OF n]
  have ref: "eval_evaluate graph_reference_integrity_rule b (default_context graph_reference_integrity_rule) = Inr []"
    using references_resolve [OF good] by (simp add: b graph_reference_integrity_rule_def)
  have "outline_defects segments_intersect (zone_outline (adapted_zone z)) = []" if "z \<in> set (dg_zones n)" for z
    using normal_ring_without_defects zone_copy(2,3) [OF fixed(17) [OF that]] by (simp add: normalized_ring_eq adapted_zone_def)
  then have zones: "eval_evaluate zone_outline_validity_rule b (default_context zone_outline_validity_rule) = Inr []"
    by (simp add: zone_outline_validity_rule_def b exact_copy_fields)
  have comps: "strip (dcomp_footprint_id c) \<noteq> []" "missing_provenance (adapted_component n c) = []" if "c \<in> set (dg_components n)" for c
    using fixed(5) [OF that]
    by (auto simp: dcomponent_normalized_def dcomponent_post_init_def text_ok_def missing_provenance_def issues_of_def adapted_component_def)
  have foot: "eval_evaluate footprint_required_rule b (default_context footprint_required_rule) = Inr []"
    using comps(1) by (auto simp: footprint_required_rule_def b exact_copy_fields filter_empty_conv adapted_component_def)
  have prov: "eval_evaluate part_provenance_required_rule b (default_context part_provenance_required_rule) = Inr []"
    using comps(2) by (auto simp: part_provenance_required_rule_def b exact_copy_fields Let_def)
  have empty: "dg_board_outline n = [] \<longleftrightarrow> dg_board_outline g = []"
    by (simp add: normalized_outline [OF g] normalized_ring_empty_iff)
  have "outline_defects segments_intersect (dg_board_outline n) = [] \<longleftrightarrow> dg_board_outline n \<noteq> []"
  proof
    show "dg_board_outline n \<noteq> []" if "outline_defects segments_intersect (dg_board_outline n) = []"
      using that by (auto simp: outline_defects_def)
  qed (use normal_ring_without_defects fixed(2) validate_graph_outline [OF v] in blast)
  then have "\<exists>fs. eval_evaluate outline_validity_rule b (default_context outline_validity_rule) = Inr fs
      \<and> (fs = [] \<longleftrightarrow> dg_board_outline n \<noteq> [])"
    by (simp add: outline_validity_rule_def b exact_copy_fields)
  then show ?thesis using ref zones foot prov unfolding empty by blast
qed

section \<open>Boards on which nothing is reported as unsupported\<close>

definition pad_represented :: "design_graph \<Rightarrow> dcomponent \<Rightarrow> pin_definition \<Rightarrow> dpad \<Rightarrow> bool" where
  "pad_represented n c p q \<longleftrightarrow> \<not> dpad_locked q \<and> dpad_shape q \<noteq> ''roundrect''
     \<and> (if dpad_shape q = ''circle'' then dpad_size_x_nm q = dpad_size_y_nm q else dpad_rotation_udeg q mod 90000000 = 0)
     \<and> (dpad_drill_x_nm q = dpad_drill_y_nm q \<or> dpad_drill_rotation_udeg q mod 90000000 = 0)
     \<and> (dpad_net_id q = None \<or> (dcomp_id c, pd_number p) \<in> set (pin_memberships n))"

definition pin_represented :: "design_graph \<Rightarrow> dcomponent \<Rightarrow> pin_definition \<Rightarrow> bool" where
  "pin_represented n c p \<longleftrightarrow> pd_electrical_type p \<in> set (map fst pin_types)
     \<and> (\<exists>q. last_pad n (dcomp_id c, pd_pad_number p) = Some q \<and> pad_represented n c p q)"

definition examined_parts_represented :: "design_graph \<Rightarrow> bool" where
  "examined_parts_represented n \<longleftrightarrow> dg_board_outline n \<noteq> [] \<and> dg_wires n = [] \<and> dg_junctions n = []
     \<and> (\<forall>c \<in> set (dg_components n). (\<exists>q. last_placement n (dcomp_id c) = Some q \<and> \<not> pl_locked q)
          \<and> (\<forall>p \<in> set (dcomp_pins c). pin_represented n c p))
     \<and> (\<forall>t \<in> set (dg_tracks n). \<not> dtrack_locked t) \<and> (\<forall>v \<in> set (dg_vias n). \<not> dvia_locked v)
     \<and> (\<forall>z \<in> set (dg_zones n). \<not> dzone_locked z \<and> dzone_priority z = 0 \<and> dzone_min_thickness_nm z = 100000)
     \<and> (\<forall>x \<in> set (dg_holes n). \<not> dhole_locked x)"

lemma issues_of_Nil: "issues_of cs = [] \<longleftrightarrow> (\<forall>(bad, s) \<in> set cs. \<not> bad)"
  by (auto simp: issues_of_def filter_empty_conv)

lemma issues_of_mem: "s \<in> set (issues_of cs) \<longleftrightarrow> (True, s) \<in> set cs"
  by (force simp: issues_of_def)

lemma pin_features_Nil: "pin_features n c p = [] \<longleftrightarrow> pin_represented n c p"
proof -
  have known: "pd_electrical_type p \<in> set (map fst pin_types) \<longleftrightarrow> map_of pin_types (pd_electrical_type p) \<noteq> None"
    by (simp add: map_of_eq_None_iff)
  have pad: "pad_features n c p q = [] \<longleftrightarrow> pad_represented n c p q" for q
    by (auto simp: pad_features_def issues_of_Nil pad_represented_def)
  show ?thesis
    unfolding pin_features_def pin_represented_def known append_is_Nil_conv by (auto simp: pad split: option.splits)
qed

lemma component_features_Nil:
  "component_features n c = [] \<longleftrightarrow> (\<exists>q. last_placement n (dcomp_id c) = Some q \<and> \<not> pl_locked q)
     \<and> (\<forall>p \<in> set (dcomp_pins c). pin_represented n c p)"
  unfolding component_features_def append_is_Nil_conv concat_eq_Nil_conv
  by (auto simp: pin_features_Nil split: option.splits)

lemma unsupported_features_Nil: "unsupported_features n = [] \<longleftrightarrow> examined_parts_represented n"
proof -
  have parts: "concat (map (component_features n) (dg_components n)) = [] \<longleftrightarrow> (\<forall>c \<in> set (dg_components n).
       (\<exists>q. last_placement n (dcomp_id c) = Some q \<and> \<not> pl_locked q) \<and> (\<forall>p \<in> set (dcomp_pins c). pin_represented n c p))"
    "concat (map track_features (dg_tracks n)) = [] \<longleftrightarrow> (\<forall>t \<in> set (dg_tracks n). \<not> dtrack_locked t)"
    "concat (map via_features (dg_vias n)) = [] \<longleftrightarrow> (\<forall>v \<in> set (dg_vias n). \<not> dvia_locked v)"
    "concat (map zone_features (dg_zones n)) = [] \<longleftrightarrow>
       (\<forall>z \<in> set (dg_zones n). \<not> dzone_locked z \<and> dzone_priority z = 0 \<and> dzone_min_thickness_nm z = 100000)"
    "concat (map hole_features (dg_holes n)) = [] \<longleftrightarrow> (\<forall>x \<in> set (dg_holes n). \<not> dhole_locked x)"
    by (auto simp: component_features_Nil track_features_def via_features_def zone_features_def hole_features_def issues_of_Nil)
  show ?thesis
    unfolding unsupported_features_def examined_parts_represented_def append_is_Nil_conv parts by auto
qed

text \<open>
  A pad that shares its number with no other pad of its component. Only the last one listed with a number is
  examined, so a lock or an unsupported shape of another pad with the same number goes unnoticed.
\<close>

definition sole_pad :: "design_graph \<Rightarrow> dpad \<Rightarrow> bool" where
  "sole_pad n q \<longleftrightarrow> q \<in> set (dg_pads n) \<and> (\<forall>r \<in> set (dg_pads n).
     dpad_component_id r = dpad_component_id q \<longrightarrow> dpad_pad_number r = dpad_pad_number q \<longrightarrow> r = q)"

lemma sole_pad_last: "sole_pad n q \<Longrightarrow> last_pad n (dpad_component_id q, dpad_pad_number q) = Some q"
proof -
  assume q: "sole_pad n q"
  let ?k = "(dpad_component_id q, dpad_pad_number q)"
  have "last_pad n ?k \<noteq> None" using q by (auto simp: sole_pad_def last_pad_def map_of_eq_None_iff image_iff)
  then obtain r where r: "last_pad n ?k = Some r" by blast
  have "r \<in> set (dg_pads n)" "dpad_component_id r = dpad_component_id q" "dpad_pad_number r = dpad_pad_number q"
    using map_of_SomeD [OF r [unfolded last_pad_def]] by auto
  then show ?thesis using q r by (auto simp: sole_pad_def)
qed

lemma sole_pad_represented:
  assumes "examined_parts_represented n" "validate_graph n = Inr ()" "sole_pad n q"
  shows "\<exists>c \<in> set (dg_components n). \<exists>p \<in> set (dcomp_pins c). dcomp_id c = dpad_component_id q
     \<and> pd_pad_number p = dpad_pad_number q \<and> pad_represented n c p q"
proof -
  have "\<not> pad_bad n q"
    using assms(2,3) by (auto simp: validate_graph_def bind_r_Inr_iff sole_pad_def reference_checks_def)
  then obtain c where c: "component_of n (dpad_component_id q) = Some c"
      "\<exists>p. filter (\<lambda>p. pd_pad_number p = dpad_pad_number q) (dcomp_pins c) = [p]"
    by (auto simp: pad_bad_def split: option.splits list.splits)
  then obtain p where "filter (\<lambda>p. pd_pad_number p = dpad_pad_number q) (dcomp_pins c) = [p]" by blast
  then have p: "p \<in> set (dcomp_pins c)" "pd_pad_number p = dpad_pad_number q" by (auto dest: filter_eq_ConsD)
  have cc: "c \<in> set (dg_components n)" "dcomp_id c = dpad_component_id q"
    using map_of_SomeD [OF c(1) [unfolded component_of_def]] by auto
  have "pin_represented n c p" using assms(1) cc(1) p(1) by (auto simp: examined_parts_represented_def)
  then have "pad_represented n c p q" using sole_pad_last [OF assms(3)] by (simp add: pin_represented_def cc(2) p(2))
  then show ?thesis using cc p by blast
qed

text \<open>
  C14: What a passed commit gate says about the coverage of the design. If the default engine reports that the commit
  gate passed on the board of a design, then the design has an outline and no schematic drawing; every component has
  a placement that is not locked; every pin has a known electrical type, and the last pad listed with its number is
  one that the board model represents exactly and is not locked; no track, via, zone or hole is locked, and zones have
  no priority or thickness that the model would lose. Consequently every pad that shares its number with no other pad
  of its component is represented exactly and not locked. Pads that share a number with a later one are not examined.
\<close>

theorem commit_gate_covers_design:
  assumes "to_verification_board h g revision = Inr b" "engine_init live None None = Inr eng" "verify k live eng b None = Inr rp"
    and "d \<in> set (rep_gates rp)" "dec_gate_id d = ''commit''" "dec_passed d"
  shows "\<exists>n. graph_normalized h g = Inr n \<and> examined_parts_represented n
    \<and> (\<forall>q. sole_pad n q \<longrightarrow> (\<exists>c \<in> set (dg_components n). \<exists>p \<in> set (dcomp_pins c). dcomp_id c = dpad_component_id q
         \<and> pd_pad_number p = dpad_pad_number q \<and> pad_represented n c p q))"
  using assms(1)
proof (rule to_verification_board_Inr)
  fix n qs assume g: "graph_normalized h g = Inr n" and good: "good_graph h n" and b: "b = exact_copy n revision qs"
  have "eval_evaluate unsupported_feature_rule (board_normalized b) (default_context unsupported_feature_rule) = Inr []"
    by (rule commit_rule_silent [OF assms(2-6)]) (simp_all add: electrical_rules_def unsupported_feature_rule_def severity_rank.simps)
  then have "board_unsupported_features (board_normalized b) = []" by (simp add: unsupported_feature_rule_def)
  then have "unsupported_features n = []" by (simp add: board_normalized_def b exact_copy_fields)
  then have "examined_parts_represented n" by (simp add: unsupported_features_Nil)
  then show ?thesis using g good sole_pad_represented by (auto simp: good_graph_def)
qed

section \<open>The properties on a sample\<close>

definition bare_design :: design_graph where
  "bare_design = \<lparr>dg_schema_version = 1, dg_project_id = ''d'', dg_layers = [''F.Cu''],
     dg_board_outline = board_outline bare_board, dg_components = [],
     dg_nets = [], dg_placements = [], dg_tracks = [], dg_pads = [], dg_holes = [], dg_vias = [], dg_zones = [],
     dg_wires = [], dg_junctions = []\<rparr>"

definition bare_revision :: string where
  "bare_revision = replicate 64 CHR ''0''"

definition bare_design_board :: board_graph where
  "bare_design_board = bare_board\<lparr>board_revision := bare_revision\<rparr>"

lemma bare_design_normal: "graph_normalized h bare_design = Inr bare_design"
proof -
  have "normalized_ring (board_outline bare_board) = board_outline bare_board" by code_simp
  moreover have "id_ok ''d''" "text_ok ''F.Cu''" by code_simp+
  ultimately show ?thesis by (simp add: graph_normalized_def bare_design_def design_graph_post_init_def int64_ok_def)
qed

lemma bare_design_valid: "validate_graph bare_design = Inr ()"
  by code_simp

lemma bare_revision_hex: "is_sha256_hex bare_revision"
  by code_simp

lemma bare_design_adapted: "to_verification_board h bare_design bare_revision = Inr bare_design_board"
proof -
  have "board_normalized (adapted_board bare_design bare_revision []) = bare_design_board" by code_simp
  moreover have "dg_pads bare_design = []" by (simp add: bare_design_def)
  ultimately show ?thesis
    using bare_revision_hex bare_design_normal bare_design_valid by (simp add: to_verification_board_def violations_def)
qed

text \<open>A design with one entity of every kind that the board records.\<close>

definition populated_design :: design_graph where
  "populated_design = bare_design\<lparr>dg_layers := [''B.Cu'', ''F.Cu''],
     dg_components := [\<lparr>dcomp_id = ''c'', dcomp_reference = ''R1'', dcomp_value = ''10k'',
       dcomp_manufacturer_part_number = ''M'', dcomp_package = ''P'', dcomp_symbol_id = ''S'', dcomp_footprint_id = ''F'',
       dcomp_datasheet_sha256 = bare_revision, dcomp_pin_map_sha256 = bare_revision,
       dcomp_pins = [\<lparr>pd_number = ''1'', pd_name = ''A'', pd_electrical_type = ''passive'', pd_pad_number = ''1'',
         pd_required = True\<rparr>]\<rparr>],
     dg_nets := [\<lparr>dnet_id = ''n'', dnet_name = ''N'', dnet_members = [\<lparr>ref_component_id = ''c'', ref_pin_number = ''1''\<rparr>]\<rparr>],
     dg_placements := [\<lparr>pl_component_id = ''c'', pl_position = \<lparr>px = 5, py = 5\<rparr>, pl_rotation_udeg = 0,
       pl_side = ''front'', pl_locked = False\<rparr>],
     dg_tracks := [\<lparr>dtrack_id = ''t'', dtrack_net_id = ''n'', dtrack_layer = ''F.Cu'', dtrack_start = \<lparr>px = 0, py = 0\<rparr>,
       dtrack_end = \<lparr>px = 900, py = 0\<rparr>, dtrack_width_nm = 100, dtrack_locked = False\<rparr>],
     dg_pads := [\<lparr>dpad_id = ''q'', dpad_component_id = ''c'', dpad_pad_number = ''1'', dpad_center = \<lparr>px = 5, py = 5\<rparr>,
       dpad_size_x_nm = 900, dpad_size_y_nm = 800, dpad_shape = ''rect'', dpad_rotation_udeg = 0,
       dpad_layers = [''B.Cu'', ''F.Cu''], dpad_drill_nm = 300, dpad_net_id = Some ''n'', dpad_locked = False,
       dpad_drill_x_nm = 300, dpad_drill_y_nm = 300, dpad_drill_rotation_udeg = 0, dpad_shared_land_group_id = None\<rparr>],
     dg_holes := [\<lparr>dhole_id = ''x'', dhole_component_id = ''c'', dhole_center = \<lparr>px = 5, py = 5\<rparr>, dhole_diameter_nm = 300,
       dhole_plated = True, dhole_pad_id = Some ''q'', dhole_locked = False, dhole_drill_x_nm = 300, dhole_drill_y_nm = 300,
       dhole_drill_rotation_udeg = 0\<rparr>],
     dg_vias := [\<lparr>dvia_id = ''v'', dvia_net_id = ''n'', dvia_center = \<lparr>px = 7, py = 9\<rparr>, dvia_diameter_nm = 600,
       dvia_drill_nm = 300, dvia_layers = [''B.Cu'', ''F.Cu''], dvia_locked = False\<rparr>],
     dg_zones := [\<lparr>dzone_id = ''z'', dzone_net_id = ''n'', dzone_layer = ''F.Cu'', dzone_outline = board_outline bare_board,
       dzone_clearance_nm = 10, dzone_min_thickness_nm = 100000, dzone_priority = 0, dzone_locked = False,
       dzone_fill_state = Fill_UNFILLED_INTENT, dzone_fill_evidence = None\<rparr>]\<rparr>"

lemma populated_design_normal: "graph_normalized sha256 populated_design = Inr populated_design"
  by code_simp

lemma populated_design_valid: "validate_graph populated_design = Inr ()"
  by code_simp

theorem adapted_board_accepted_witness:
  "\<exists>b v. to_verification_board sha256 populated_design bare_revision = Inr b \<and> board_mirrors populated_design bare_revision b
    \<and> validate_board_graph sha256 b = Inr () \<and> board_vias b = [v] \<and> via_diameter_nm v = 600 \<and> via_drill_nm v = 300"
proof -
  have "\<forall>z \<in> set (dg_zones populated_design). \<forall>e. dzone_fill_evidence z = Some e \<longrightarrow> fill_evidence_post_init sha256 e = Inr ()"
    by (simp add: populated_design_def)
  from adapted_board_accepted [OF populated_design_normal populated_design_valid bare_revision_hex this]
  obtain b where b: "to_verification_board sha256 populated_design bare_revision = Inr b"
      "board_mirrors populated_design bare_revision b" "validate_board_graph sha256 b = Inr ()" by blast
  have "list_all2 via_mirrored (dg_vias populated_design) (board_vias b)" using b(2) by (simp add: board_mirrors_def)
  then obtain v where "board_vias b = [v]" "via_diameter_nm v = 600" "via_drill_nm v = 300"
    by (auto simp: populated_design_def list_all2_Cons1 via_mirrored_def)
  then show ?thesis using b by blast
qed

theorem kernel_designs_pass_structural_rules_witness:
  "dg_board_outline bare_design \<noteq> []
    \<and> eval_evaluate outline_validity_rule bare_design_board (default_context outline_validity_rule) = Inr []"
  using kernel_designs_pass_structural_rules [OF bare_design_adapted [of sha256]] by (simp add: bare_design_def bare_board_def)

lemma bare_design_silent:
  "list_all (silent_on bare_design_board) electrical_rules" "list_all (silent_on bare_design_board) geometric_rules"
  "list_all (silent_on bare_design_board) algorithm_rules" "board_normalized bare_design_board = bare_design_board"
  by code_simp+

lemma bare_design_commit_passes:
  "\<exists>rp d. verify h sample_live default_engine bare_design_board None = Inr rp
    \<and> d \<in> set (rep_gates rp) \<and> dec_gate_id d = ''commit'' \<and> dec_passed d"
proof -
  let ?g = "strict_gates ! 0"
  have g: "?g \<in> set strict_gates" "gate_required_external_evidence_ids ?g = []" "gate_id ?g = ''commit''"
    by (simp_all add: strict_gates_def plain_gate_def)
  have nb: "\<not> is_blank ''d''" "\<not> is_blank bare_revision" by code_simp+
  then have valid: "validate_board_graph h bare_design_board = Inr ()"
    by (simp add: validate_board_graph_def bare_board_def bare_design_board_def nonempty_checks_def)
  have "\<exists>r. resolve_rule e None = Inr r \<and> silent default_engine (board_normalized bare_design_board) r"
    if "e \<in> set (eng_evaluators default_engine)" for e
  proof -
    have "silent_on bare_design_board e"
      using that bare_design_silent(1-3) by (auto simp: default_engine_def set_default_evaluators list_all_iff)
    then show ?thesis by (auto simp: silent_on_def silent_def bare_design_silent(4) default_engine_def split: sum.splits)
  qed
  then have "\<forall>e \<in> set (eng_evaluators default_engine).
    \<exists>r. resolve_rule e None = Inr r \<and> silent default_engine (board_normalized bare_design_board) r" by blast
  from silent_run_passes [OF valid _ sample_steady this g(1,2)]
  show ?thesis unfolding g(3) by (simp add: bare_design_board_def bare_board_def) blast
qed

theorem commit_gate_covers_design_witness:
  "\<exists>rp d. verify sha256 sample_live default_engine bare_design_board None = Inr rp \<and> d \<in> set (rep_gates rp)
    \<and> dec_gate_id d = ''commit'' \<and> dec_passed d \<and> examined_parts_represented bare_design"
proof -
  obtain rp d where v: "verify sha256 sample_live default_engine bare_design_board None = Inr rp"
    and d: "d \<in> set (rep_gates rp)" "dec_gate_id d = ''commit''" "dec_passed d"
    using bare_design_commit_passes by blast
  from commit_gate_covers_design [OF bare_design_adapted default_engine_built v d]
  show ?thesis using v d bare_design_normal by force
qed

section \<open>Rotated pads\<close>

text \<open>
  The kernel compares the drill with the copper of a pad before rotation. A pad that the kernel accepts may be
  rotated by 90 degrees while its drill is not; when the drill is at least as long as the shorter side of the
  copper, the engine reports that the drill is not smaller than the copper, although the
  constructor of \<^verbatim>\<open>FootprintPad\<close> promises a positive copper annulus.
\<close>

theorem rotated_pad_without_annulus:
  assumes "dpad_normalized q = Inr q" "adapted_pad q = Inr r" "dpad_rotation_udeg q = 90000000" "dpad_drill_rotation_udeg q = 0"
    and "0 < dpad_drill_x_nm q" "dpad_size_y_nm q \<le> dpad_drill_x_nm q"
  shows "''drill_not_smaller_than_copper'' \<in> set (pad_issues b r)"
proof -
  have r: "ppad_rotation_udeg r = 90000000" "ppad_drill_rotation_udeg r = 0" "ppad_drill_x_nm r = dpad_drill_x_nm q"
    "ppad_size_y_nm r = dpad_size_y_nm q"
    using assms(2-4) by (auto simp: adapted_pad_def bind_r_Inr_iff)
  then show ?thesis
    using assms(5,6) by (simp add: pad_issues_def drill_dimensions_def quadrant_dimensions_def issues_of_mem Let_def)
qed

definition turned_pad :: dpad where
  "turned_pad = \<lparr>dpad_id = ''q'', dpad_component_id = ''c'', dpad_pad_number = ''1'', dpad_center = \<lparr>px = 0, py = 0\<rparr>,
     dpad_size_x_nm = 2000000, dpad_size_y_nm = 1000000, dpad_shape = ''rect'', dpad_rotation_udeg = 90000000,
     dpad_layers = [''B.Cu'', ''F.Cu''], dpad_drill_nm = 500000, dpad_net_id = None, dpad_locked = False,
     dpad_drill_x_nm = 1500000, dpad_drill_y_nm = 500000, dpad_drill_rotation_udeg = 0, dpad_shared_land_group_id = None\<rparr>"

theorem rotated_pad_without_annulus_witness:
  "\<exists>r. dpad_normalized turned_pad = Inr turned_pad \<and> adapted_pad turned_pad = Inr r
    \<and> ''drill_not_smaller_than_copper'' \<in> set (pad_issues bare_board r)"
proof -
  have fixed: "dpad_normalized turned_pad = Inr turned_pad" by code_simp
  obtain r where r: "adapted_pad turned_pad = Inr r" using adapted_pad_total [OF fixed] by blast
  have "''drill_not_smaller_than_copper'' \<in> set (pad_issues bare_board r)"
    by (rule rotated_pad_without_annulus [OF fixed r]) (simp_all add: turned_pad_def)
  then show ?thesis using fixed r by blast
qed

end
