(* ===== verification/Gateway_Models.thy ===== *)
theory Gateway_Models
  imports Orch_Digests Py_Time
begin

text \<open>
  The contracts of \<^verbatim>\<open>backend/mcp_gateway\<close>: the canonical encoding (\<^verbatim>\<open>codec.py\<close>), the
  enumerations and records of \<^verbatim>\<open>models.py\<close> with the checks of their constructors and their
  canonical data. A field \<open>f\<close> of a class is the record field with the prefix of the class. The values of
  \<^verbatim>\<open>JsonValue\<close> are the values of \<open>json\<close>: floats and other objects, which \<^verbatim>\<open>canonical_data\<close>
  refuses, have no counterpart. Timestamps are instants in UTC, in microseconds since year 1: the gateway converts every
  clock reading before it stores it.
\<close>

section \<open>Canonical encoding\<close>

text \<open>
  \<^verbatim>\<open>canonical_data\<close> sorts the keys of every mapping; enumeration members encode as their
  values and records as the mapping of their fields.
\<close>

definition canonical_data :: "json \<Rightarrow> json" where
  "canonical_data j = json_norm j"

definition stable_digest :: "(byte list \<Rightarrow> byte list) \<Rightarrow> json \<Rightarrow> string" where
  "stable_digest h j = sha256_text h (canonical_json (canonical_data j))"

definition revision_digest :: "(byte list \<Rightarrow> byte list) \<Rightarrow> json \<Rightarrow> string" where
  "revision_digest h j = ''rev_'' @ stable_digest h j"

definition jstrings :: "string list \<Rightarrow> json" where
  "jstrings xs = JList (map JStr xs)"

definition jint_option :: "int option \<Rightarrow> json" where
  "jint_option v = (case v of None \<Rightarrow> JNull | Some i \<Rightarrow> JInt i)"

definition iso_z :: "nat \<Rightarrow> string" where
  "iso_z t = (let us = t mod 1000000 in
     iso_seconds (t div 1000000) @ (if us = 0 then [] else ''.'' @ pad 6 us) @ ''Z'')"

definition jtime :: "nat \<Rightarrow> json" where
  "jtime t = JStr (iso_z t)"

definition jtime_option :: "nat option \<Rightarrow> json" where
  "jtime_option v = (case v of None \<Rightarrow> JNull | Some t \<Rightarrow> jtime t)"

section \<open>Field checks\<close>

definition gw_required_text :: "string \<Rightarrow> string \<Rightarrow> bool \<times> err" where
  "gw_required_text v label = (v = [] \<or> v \<noteq> strip v, InvalidRequest label)"

definition ascii_alnum :: "char \<Rightarrow> bool" where
  "ascii_alnum c = (let n = (of_char c :: nat) in
     (48 \<le> n \<and> n \<le> 57) \<or> (65 \<le> n \<and> n \<le> 90) \<or> (97 \<le> n \<and> n \<le> 122))"

definition is_identifier :: "string \<Rightarrow> bool" where
  "is_identifier s = (case s of [] \<Rightarrow> False
     | c # r \<Rightarrow> ascii_alnum c \<and> length r \<le> 127
         \<and> list_all (\<lambda>d. ascii_alnum d \<or> d \<in> set ''_.:-'') r)"

definition gw_identifier :: "string \<Rightarrow> string \<Rightarrow> bool \<times> err" where
  "gw_identifier v label = (\<not> is_identifier v, InvalidRequest label)"

definition is_revision :: "string \<Rightarrow> bool" where
  "is_revision s \<longleftrightarrow> take 4 s = ''rev_'' \<and> is_sha256_hex (drop 4 s)"

definition gw_revision :: "string \<Rightarrow> string \<Rightarrow> bool \<times> err" where
  "gw_revision v label = (\<not> is_revision v, InvalidRequest label)"

section \<open>Enumerations\<close>

datatype capability_tier = Tier_READ | Tier_STAGE | Tier_RELEASE

fun tier_value :: "capability_tier \<Rightarrow> int" where
  "tier_value Tier_READ = 10" | "tier_value Tier_STAGE = 20" | "tier_value Tier_RELEASE = 30"

datatype profile_name = Profile_OBSERVER | Profile_DESIGNER | Profile_RELEASE_MANAGER

fun maximum_tier :: "profile_name \<Rightarrow> capability_tier" where
  "maximum_tier Profile_OBSERVER = Tier_READ"
| "maximum_tier Profile_DESIGNER = Tier_STAGE"
| "maximum_tier Profile_RELEASE_MANAGER = Tier_RELEASE"

datatype actor_kind = Actor_USER | Actor_AGENT | Actor_SERVICE

datatype tool_name =
    Tool_INSPECT_PROJECT | Tool_CREATE_AGENT_RUN | Tool_ANSWER_QUESTION | Tool_DECIDE_APPROVAL
  | Tool_PREVIEW_PATCH | Tool_STAGE_DESIGN_PATCH | Tool_RUN_VERIFICATION | Tool_COMMIT_TRANSACTION
  | Tool_ROLLBACK_TRANSACTION | Tool_EXPORT_PROJECT

fun tool_value :: "tool_name \<Rightarrow> string" where
  "tool_value Tool_INSPECT_PROJECT = ''inspect_project''"
| "tool_value Tool_CREATE_AGENT_RUN = ''create_agent_run''"
| "tool_value Tool_ANSWER_QUESTION = ''answer_question''"
| "tool_value Tool_DECIDE_APPROVAL = ''decide_approval''"
| "tool_value Tool_PREVIEW_PATCH = ''preview_patch''"
| "tool_value Tool_STAGE_DESIGN_PATCH = ''stage_design_patch''"
| "tool_value Tool_RUN_VERIFICATION = ''run_verification''"
| "tool_value Tool_COMMIT_TRANSACTION = ''commit_transaction''"
| "tool_value Tool_ROLLBACK_TRANSACTION = ''rollback_transaction''"
| "tool_value Tool_EXPORT_PROJECT = ''export_project''"

datatype patch_action =
    Patch_ADD_COMPONENT | Patch_REMOVE_COMPONENT | Patch_CONNECT_NET | Patch_DISCONNECT_NET
  | Patch_SET_PROPERTY | Patch_SET_CONSTRAINT | Patch_PLACE_COMPONENT | Patch_ROUTE_NET

fun patch_action_value :: "patch_action \<Rightarrow> string" where
  "patch_action_value Patch_ADD_COMPONENT = ''add_component''"
| "patch_action_value Patch_REMOVE_COMPONENT = ''remove_component''"
| "patch_action_value Patch_CONNECT_NET = ''connect_net''"
| "patch_action_value Patch_DISCONNECT_NET = ''disconnect_net''"
| "patch_action_value Patch_SET_PROPERTY = ''set_property''"
| "patch_action_value Patch_SET_CONSTRAINT = ''set_constraint''"
| "patch_action_value Patch_PLACE_COMPONENT = ''place_component''"
| "patch_action_value Patch_ROUTE_NET = ''route_net''"

datatype gw_run_state =
    State_CLARIFYING | State_PLANNING | State_AWAITING_STAGE_APPROVAL | State_STAGED
  | State_VERIFYING | State_AWAITING_RELEASE_APPROVAL | State_COMPLETE | State_ROLLED_BACK

fun gw_run_state_value :: "gw_run_state \<Rightarrow> string" where
  "gw_run_state_value State_CLARIFYING = ''clarifying''"
| "gw_run_state_value State_PLANNING = ''planning''"
| "gw_run_state_value State_AWAITING_STAGE_APPROVAL = ''awaiting_stage_approval''"
| "gw_run_state_value State_STAGED = ''staged''"
| "gw_run_state_value State_VERIFYING = ''verifying''"
| "gw_run_state_value State_AWAITING_RELEASE_APPROVAL = ''awaiting_release_approval''"
| "gw_run_state_value State_COMPLETE = ''complete''"
| "gw_run_state_value State_ROLLED_BACK = ''rolled_back''"

datatype gw_approval_kind = Approve_STAGE | Approve_RELEASE

fun gw_approval_kind_value :: "gw_approval_kind \<Rightarrow> string" where
  "gw_approval_kind_value Approve_STAGE = ''stage''"
| "gw_approval_kind_value Approve_RELEASE = ''release''"

datatype gw_decision = Decision_PENDING | Decision_APPROVED | Decision_REJECTED

fun gw_decision_value :: "gw_decision \<Rightarrow> string" where
  "gw_decision_value Decision_PENDING = ''pending''"
| "gw_decision_value Decision_APPROVED = ''approved''"
| "gw_decision_value Decision_REJECTED = ''rejected''"

datatype export_format = Format_KICAD_ARCHIVE | Format_GERBER_BUNDLE | Format_IPC2581

fun export_format_value :: "export_format \<Rightarrow> string" where
  "export_format_value Format_KICAD_ARCHIVE = ''kicad_archive''"
| "export_format_value Format_GERBER_BUNDLE = ''gerber_bundle''"
| "export_format_value Format_IPC2581 = ''ipc2581''"

section \<open>Callers and patches\<close>

record gw_principal =
  pr_actor_id :: string
  pr_actor_kind :: actor_kind
  pr_profile :: profile_name

definition principal_check :: "gw_principal \<Rightarrow> unit result" where
  "principal_check p = raise_first [gw_identifier (pr_actor_id p) ''principal.actor_id'']"

record invocation =
  inv_principal :: gw_principal
  inv_idempotency_key :: string

definition invocation_check :: "invocation \<Rightarrow> unit result" where
  "invocation_check i = raise_first [gw_identifier (inv_idempotency_key i) ''idempotency_key'']"

record question_spec =
  qs_prompt :: string
  qs_rationale :: string
  qs_blocking :: bool
  qs_options :: "string list"

definition question_spec_check :: "question_spec \<Rightarrow> unit result" where
  "question_spec_check q = raise_first
     [gw_required_text (qs_prompt q) ''question.prompt'',
      gw_required_text (qs_rationale q) ''question.rationale'',
      (list_ex (\<lambda>x. strip x = [] \<or> x \<noteq> strip x) (qs_options q),
        InvalidRequest ''question options must be non-empty and trimmed''),
      (\<not> distinct (qs_options q), InvalidRequest ''question options must be unique'')]"

definition question_spec_json :: "question_spec \<Rightarrow> json" where
  "question_spec_json q = JObj
     [(''prompt'', JStr (qs_prompt q)), (''rationale'', JStr (qs_rationale q)),
      (''blocking'', JBool (qs_blocking q)), (''options'', jstrings (qs_options q))]"

record patch_parameter =
  pp_name :: string
  pp_value :: json

definition patch_parameter_check :: "patch_parameter \<Rightarrow> unit result" where
  "patch_parameter_check p = raise_first [gw_identifier (pp_name p) ''parameter.name'']"

record patch_operation =
  po_operation_id :: string
  po_action :: patch_action
  po_target_id :: string
  po_parameters :: "patch_parameter list"

definition patch_operation_check :: "patch_operation \<Rightarrow> unit result" where
  "patch_operation_check p = (let names = map pp_name (po_parameters p) in raise_first
     [gw_identifier (po_operation_id p) ''operation.operation_id'',
      gw_identifier (po_target_id p) ''operation.target_id'',
      (\<not> distinct names, InvalidRequest ''operation parameter names must be unique''),
      (names \<noteq> sort names, InvalidRequest ''operation parameters must be sorted by name'')])"

definition parameter_map :: "patch_operation \<Rightarrow> (string \<times> json) list" where
  "parameter_map p = fold (\<lambda>x d. AList.update (pp_name x) (pp_value x) d) (po_parameters p) []"

definition patch_parameter_json :: "patch_parameter \<Rightarrow> json" where
  "patch_parameter_json p = JObj [(''name'', JStr (pp_name p)), (''value'', pp_value p)]"

definition patch_operation_json :: "patch_operation \<Rightarrow> json" where
  "patch_operation_json p = JObj
     [(''operation_id'', JStr (po_operation_id p)),
      (''action'', JStr (patch_action_value (po_action p))),
      (''target_id'', JStr (po_target_id p)),
      (''parameters'', JList (map patch_parameter_json (po_parameters p)))]"

record design_patch =
  dp_patch_id :: string
  dp_base_revision :: string
  dp_rationale :: string
  dp_operations :: "patch_operation list"
  dp_evidence_ids :: "string list"

definition design_patch_check :: "design_patch \<Rightarrow> unit result" where
  "design_patch_check p = (let ids = map po_operation_id (dp_operations p) in raise_first
     [gw_identifier (dp_patch_id p) ''patch.patch_id'',
      gw_revision (dp_base_revision p) ''patch.base_revision'',
      gw_required_text (dp_rationale p) ''patch.rationale'',
      (dp_operations p = [], InvalidRequest ''a design patch must contain at least one operation''),
      (\<not> distinct ids, InvalidRequest ''patch operation IDs must be unique''),
      (ids \<noteq> sort ids, InvalidRequest ''patch operations must be sorted by operation_id''),
      (sorted_set (dp_evidence_ids p) \<noteq> dp_evidence_ids p,
        InvalidRequest ''patch evidence IDs must be sorted and unique'')])"

definition design_patch_json :: "design_patch \<Rightarrow> json" where
  "design_patch_json p = JObj
     [(''patch_id'', JStr (dp_patch_id p)), (''base_revision'', JStr (dp_base_revision p)),
      (''rationale'', JStr (dp_rationale p)),
      (''operations'', JList (map patch_operation_json (dp_operations p))),
      (''evidence_ids'', jstrings (dp_evidence_ids p))]"

definition patch_digest :: "(byte list \<Rightarrow> byte list) \<Rightarrow> design_patch \<Rightarrow> string" where
  "patch_digest h p = stable_digest h (design_patch_json p)"

section \<open>Tool requests\<close>

text \<open>
  The ten request classes are one datatype. The fields that every request on a run carries are
  a record of their own: project, expected project revision, run and expected run revision.
\<close>

record run_fields =
  rf_project_id :: string
  rf_expected_project_revision :: string
  rf_run_id :: string
  rf_expected_run_revision :: int

definition run_fields_json :: "run_fields \<Rightarrow> (string \<times> json) list" where
  "run_fields_json f =
     [(''project_id'', JStr (rf_project_id f)),
      (''expected_project_revision'', JStr (rf_expected_project_revision f)),
      (''run_id'', JStr (rf_run_id f)),
      (''expected_run_revision'', JInt (rf_expected_run_revision f))]"

record create_agent_run_request =
  cr_project_id :: string
  cr_expected_project_revision :: string
  cr_objective :: string
  cr_initial_questions :: "question_spec list"
  cr_max_parallel_agents :: "int option"
  cr_token_budget :: "int option"

record answer_question_request =
  aq_run :: run_fields
  aq_question_id :: string
  aq_answer :: string

record decide_approval_request =
  da_run :: run_fields
  da_approval_id :: string
  da_approve :: bool
  da_reason :: string

record preview_patch_request =
  pv_run :: run_fields
  pv_patch :: design_patch

record stage_design_patch_request =
  sp_run :: run_fields
  sp_patch :: design_patch
  sp_preview_digest :: string
  sp_approval_receipt_id :: string

record run_verification_request =
  rv_run :: run_fields
  rv_expected_staged_revision :: string

record commit_transaction_request =
  ct_run :: run_fields
  ct_expected_staged_revision :: string
  ct_verification_report_digest :: string
  ct_approval_receipt_id :: string

record rollback_transaction_request =
  rb_run :: run_fields
  rb_expected_staged_revision :: string
  rb_reason :: string

datatype gw_request =
    InspectProject string "string option"
  | CreateAgentRun create_agent_run_request
  | AnswerQuestion answer_question_request
  | DecideApproval decide_approval_request
  | PreviewPatch preview_patch_request
  | StageDesignPatch stage_design_patch_request
  | RunVerification run_verification_request
  | CommitTransaction commit_transaction_request
  | RollbackTransaction rollback_transaction_request
  | ExportProject string string export_format

fun request_tool :: "gw_request \<Rightarrow> tool_name" where
  "request_tool (InspectProject _ _) = Tool_INSPECT_PROJECT"
| "request_tool (CreateAgentRun _) = Tool_CREATE_AGENT_RUN"
| "request_tool (AnswerQuestion _) = Tool_ANSWER_QUESTION"
| "request_tool (DecideApproval _) = Tool_DECIDE_APPROVAL"
| "request_tool (PreviewPatch _) = Tool_PREVIEW_PATCH"
| "request_tool (StageDesignPatch _) = Tool_STAGE_DESIGN_PATCH"
| "request_tool (RunVerification _) = Tool_RUN_VERIFICATION"
| "request_tool (CommitTransaction _) = Tool_COMMIT_TRANSACTION"
| "request_tool (RollbackTransaction _) = Tool_ROLLBACK_TRANSACTION"
| "request_tool (ExportProject _ _ _) = Tool_EXPORT_PROJECT"

fun request_project_id :: "gw_request \<Rightarrow> string" where
  "request_project_id (InspectProject p _) = p"
| "request_project_id (CreateAgentRun r) = cr_project_id r"
| "request_project_id (AnswerQuestion r) = rf_project_id (aq_run r)"
| "request_project_id (DecideApproval r) = rf_project_id (da_run r)"
| "request_project_id (PreviewPatch r) = rf_project_id (pv_run r)"
| "request_project_id (StageDesignPatch r) = rf_project_id (sp_run r)"
| "request_project_id (RunVerification r) = rf_project_id (rv_run r)"
| "request_project_id (CommitTransaction r) = rf_project_id (ct_run r)"
| "request_project_id (RollbackTransaction r) = rf_project_id (rb_run r)"
| "request_project_id (ExportProject p _ _) = p"

definition project_fields_checks :: "string \<Rightarrow> string \<Rightarrow> (bool \<times> err) list" where
  "project_fields_checks p r =
     [gw_identifier p ''project_id'', gw_revision r ''expected_project_revision'']"

definition run_revision_check :: "run_fields \<Rightarrow> bool \<times> err" where
  "run_revision_check f = (rf_expected_run_revision f < 0,
     InvalidRequest ''expected_run_revision cannot be negative'')"

definition run_project_checks :: "run_fields \<Rightarrow> (bool \<times> err) list" where
  "run_project_checks f = project_fields_checks (rf_project_id f) (rf_expected_project_revision f)"

definition patch_base_check :: "run_fields \<Rightarrow> design_patch \<Rightarrow> bool \<times> err" where
  "patch_base_check f p = (dp_base_revision p \<noteq> rf_expected_project_revision f,
     InvalidRequest ''patch base and expected project revisions must match'')"

text \<open>The \<^verbatim>\<open>__post_init__\<close> of each request class, in source order.\<close>

fun request_checks :: "gw_request \<Rightarrow> (bool \<times> err) list" where
  "request_checks (InspectProject p r) =
     gw_identifier p ''project_id''
     # (case r of None \<Rightarrow> [] | Some v \<Rightarrow> [gw_revision v ''expected_project_revision''])"
| "request_checks (CreateAgentRun r) =
     project_fields_checks (cr_project_id r) (cr_expected_project_revision r)
     @ [gw_required_text (cr_objective r) ''objective'',
        (case cr_max_parallel_agents r of None \<Rightarrow> False | Some n \<Rightarrow> n < 1,
          InvalidRequest ''max_parallel_agents must be positive or null/unlimited''),
        (case cr_token_budget r of None \<Rightarrow> False | Some n \<Rightarrow> n < 1,
          InvalidRequest ''token_budget must be positive or null/unlimited'')]"
| "request_checks (AnswerQuestion r) =
     run_project_checks (aq_run r)
     @ [gw_identifier (rf_run_id (aq_run r)) ''run_id'', gw_identifier (aq_question_id r) ''question_id'',
        gw_required_text (aq_answer r) ''answer'', run_revision_check (aq_run r)]"
| "request_checks (DecideApproval r) =
     run_project_checks (da_run r)
     @ [gw_identifier (rf_run_id (da_run r)) ''run_id'', gw_identifier (da_approval_id r) ''approval_id'',
        gw_required_text (da_reason r) ''reason'', run_revision_check (da_run r)]"
| "request_checks (PreviewPatch r) =
     run_project_checks (pv_run r)
     @ [gw_identifier (rf_run_id (pv_run r)) ''run_id'', run_revision_check (pv_run r),
        patch_base_check (pv_run r) (pv_patch r)]"
| "request_checks (StageDesignPatch r) =
     run_project_checks (sp_run r)
     @ [gw_identifier (rf_run_id (sp_run r)) ''run_id'',
        gw_identifier (sp_approval_receipt_id r) ''approval_receipt_id'',
        gw_required_text (sp_preview_digest r) ''preview_digest'', run_revision_check (sp_run r),
        patch_base_check (sp_run r) (sp_patch r)]"
| "request_checks (RunVerification r) =
     run_project_checks (rv_run r)
     @ [gw_revision (rv_expected_staged_revision r) ''expected_staged_revision'',
        gw_identifier (rf_run_id (rv_run r)) ''run_id'', run_revision_check (rv_run r)]"
| "request_checks (CommitTransaction r) =
     run_project_checks (ct_run r)
     @ [gw_revision (ct_expected_staged_revision r) ''expected_staged_revision'',
        gw_identifier (rf_run_id (ct_run r)) ''run_id'',
        gw_identifier (ct_approval_receipt_id r) ''approval_receipt_id'',
        (\<not> is_sha256_hex (ct_verification_report_digest r),
          InvalidRequest ''verification_report_digest must be a sha256 digest''),
        run_revision_check (ct_run r)]"
| "request_checks (RollbackTransaction r) =
     run_project_checks (rb_run r)
     @ [gw_revision (rb_expected_staged_revision r) ''expected_staged_revision'',
        gw_identifier (rf_run_id (rb_run r)) ''run_id'', gw_required_text (rb_reason r) ''reason'',
        run_revision_check (rb_run r)]"
| "request_checks (ExportProject p r _) = project_fields_checks p r"

definition request_check :: "gw_request \<Rightarrow> unit result" where
  "request_check r = raise_first (request_checks r)"

fun request_json :: "gw_request \<Rightarrow> json" where
  "request_json (InspectProject p r) = JObj
     [(''project_id'', JStr p), (''expected_project_revision'', jopt r)]"
| "request_json (CreateAgentRun r) = JObj
     [(''project_id'', JStr (cr_project_id r)),
      (''expected_project_revision'', JStr (cr_expected_project_revision r)),
      (''objective'', JStr (cr_objective r)),
      (''initial_questions'', JList (map question_spec_json (cr_initial_questions r))),
      (''max_parallel_agents'', jint_option (cr_max_parallel_agents r)),
      (''token_budget'', jint_option (cr_token_budget r))]"
| "request_json (AnswerQuestion r) = JObj (run_fields_json (aq_run r)
     @ [(''question_id'', JStr (aq_question_id r)), (''answer'', JStr (aq_answer r))])"
| "request_json (DecideApproval r) = JObj (run_fields_json (da_run r)
     @ [(''approval_id'', JStr (da_approval_id r)), (''approve'', JBool (da_approve r)),
        (''reason'', JStr (da_reason r))])"
| "request_json (PreviewPatch r) = JObj (run_fields_json (pv_run r)
     @ [(''patch'', design_patch_json (pv_patch r))])"
| "request_json (StageDesignPatch r) = JObj (run_fields_json (sp_run r)
     @ [(''patch'', design_patch_json (sp_patch r)), (''preview_digest'', JStr (sp_preview_digest r)),
        (''approval_receipt_id'', JStr (sp_approval_receipt_id r))])"
| "request_json (RunVerification r) = JObj (run_fields_json (rv_run r)
     @ [(''expected_staged_revision'', JStr (rv_expected_staged_revision r))])"
| "request_json (CommitTransaction r) = JObj (run_fields_json (ct_run r)
     @ [(''expected_staged_revision'', JStr (ct_expected_staged_revision r)),
        (''verification_report_digest'', JStr (ct_verification_report_digest r)),
        (''approval_receipt_id'', JStr (ct_approval_receipt_id r))])"
| "request_json (RollbackTransaction r) = JObj (run_fields_json (rb_run r)
     @ [(''expected_staged_revision'', JStr (rb_expected_staged_revision r)),
        (''reason'', JStr (rb_reason r))])"
| "request_json (ExportProject p r f) = JObj
     [(''project_id'', JStr p), (''expected_project_revision'', JStr r),
      (''format'', JStr (export_format_value f))]"

end
