(* ===== verification/Gateway_Records.thy ===== *)
theory Gateway_Records
  imports Gateway_Models
begin

text \<open>
  The records that the gateway keeps and returns (\<^verbatim>\<open>mcp_gateway/models.py\<close>, from
  \<^verbatim>\<open>ProjectSnapshot\<close> on) with their canonical data, and the public tool manifest
  (\<^verbatim>\<open>manifest.py\<close>) with its schemas.
\<close>

section \<open>Records\<close>

record project_snapshot =
  ps_project_id :: string
  ps_project_revision :: string
  ps_component_count :: int
  ps_net_count :: int
  ps_operation_count :: int
  ps_active_staged_revision :: "string option"

record agent_run =
  ar_run_id :: string
  ar_project_id :: string
  ar_objective :: string
  ar_project_revision :: string
  ar_run_revision :: int
  ar_state :: gw_run_state
  ar_strict_user_coordination :: bool
  ar_max_parallel_agents :: "int option"
  ar_token_budget :: "int option"
  ar_question_ids :: "string list"
  ar_approval_ids :: "string list"
  ar_staged_revision :: "string option"
  ar_verification_report_digest :: "string option"

record question_record =
  qr_question_id :: string
  qr_run_id :: string
  qr_prompt :: string
  qr_rationale :: string
  qr_blocking :: bool
  qr_options :: "string list"
  qr_answer :: "string option"
  qr_answered_by :: "string option"
  qr_answered_at :: "nat option"

record approval_request_record =
  ap_approval_id :: string
  ap_run_id :: string
  ap_kind :: gw_approval_kind
  ap_subject_digest :: string
  ap_summary :: string
  ap_decision :: gw_decision
  ap_requested_at :: nat

record approval_receipt =
  rc_receipt_id :: string
  rc_approval_id :: string
  rc_run_id :: string
  rc_kind :: gw_approval_kind
  rc_subject_digest :: string
  rc_decision :: gw_decision
  rc_decided_by :: string
  rc_decided_at :: nat
  rc_reason :: string
  rc_receipt_digest :: string

record patch_preview =
  pw_project_id :: string
  pw_base_revision :: string
  pw_prospective_revision :: string
  pw_patch_digest :: string
  pw_preview_digest :: string
  pw_operation_summaries :: "string list"
  pw_added :: "string list"
  pw_removed :: "string list"
  pw_modified :: "string list"

record stage_record =
  sr_transaction_id :: string
  sr_project_id :: string
  sr_base_revision :: string
  sr_staged_revision :: string
  sr_patch_digest :: string
  sr_preview_digest :: string

record gw_finding =
  vf_finding_id :: string
  vf_rule_id :: string
  vf_severity :: string
  vf_message :: string
  vf_operation_ids :: "string list"

record gw_report =
  vr_report_id :: string
  vr_project_id :: string
  vr_base_revision :: string
  vr_staged_revision :: string
  vr_engine_version :: string
  vr_passed :: bool
  vr_findings :: "gw_finding list"
  vr_report_digest :: string
  vr_input_hash :: "string option"
  vr_rule_set_hash :: "string option"
  vr_compiler_manifest_digest :: "string option"
  vr_compiler_bundle_digest :: "string option"
  vr_manufacturing_release_eligible :: bool

record export_artifact =
  ea_artifact_id :: string
  ea_project_id :: string
  ea_project_revision :: string
  ea_format :: export_format
  ea_media_type :: string
  ea_content_digest :: string
  ea_size_bytes :: int
  ea_managed_path :: "string option"

record evidence_record =
  er_evidence_id :: string
  er_tool_name :: tool_name
  er_actor_id :: string
  er_project_id :: string
  er_project_revision :: string
  er_input_digest :: string
  er_output_digest :: string
  er_captured_at :: nat
  er_manifest_digest :: string

record tool_result =
  tr_tool_name :: tool_name
  tr_payload_json :: string
  tr_evidence :: evidence_record
  tr_manifest_digest :: string

section \<open>Canonical data of the records\<close>

definition project_snapshot_json :: "project_snapshot \<Rightarrow> json" where
  "project_snapshot_json s = JObj
     [(''project_id'', JStr (ps_project_id s)), (''project_revision'', JStr (ps_project_revision s)),
      (''component_count'', JInt (ps_component_count s)), (''net_count'', JInt (ps_net_count s)),
      (''operation_count'', JInt (ps_operation_count s)),
      (''active_staged_revision'', jopt (ps_active_staged_revision s))]"

definition agent_run_json :: "agent_run \<Rightarrow> json" where
  "agent_run_json r = JObj
     [(''run_id'', JStr (ar_run_id r)), (''project_id'', JStr (ar_project_id r)),
      (''objective'', JStr (ar_objective r)), (''project_revision'', JStr (ar_project_revision r)),
      (''run_revision'', JInt (ar_run_revision r)), (''state'', JStr (gw_run_state_value (ar_state r))),
      (''strict_user_coordination'', JBool (ar_strict_user_coordination r)),
      (''max_parallel_agents'', jint_option (ar_max_parallel_agents r)),
      (''token_budget'', jint_option (ar_token_budget r)),
      (''question_ids'', jstrings (ar_question_ids r)), (''approval_ids'', jstrings (ar_approval_ids r)),
      (''staged_revision'', jopt (ar_staged_revision r)),
      (''verification_report_digest'', jopt (ar_verification_report_digest r))]"

definition question_record_json :: "question_record \<Rightarrow> json" where
  "question_record_json q = JObj
     [(''question_id'', JStr (qr_question_id q)), (''run_id'', JStr (qr_run_id q)),
      (''prompt'', JStr (qr_prompt q)), (''rationale'', JStr (qr_rationale q)),
      (''blocking'', JBool (qr_blocking q)), (''options'', jstrings (qr_options q)),
      (''answer'', jopt (qr_answer q)), (''answered_by'', jopt (qr_answered_by q)),
      (''answered_at'', jtime_option (qr_answered_at q))]"

definition approval_request_json :: "approval_request_record \<Rightarrow> json" where
  "approval_request_json a = JObj
     [(''approval_id'', JStr (ap_approval_id a)), (''run_id'', JStr (ap_run_id a)),
      (''kind'', JStr (gw_approval_kind_value (ap_kind a))),
      (''subject_digest'', JStr (ap_subject_digest a)), (''summary'', JStr (ap_summary a)),
      (''decision'', JStr (gw_decision_value (ap_decision a))),
      (''requested_at'', jtime (ap_requested_at a))]"

text \<open>The fields that the digest of a receipt covers, and the receipt itself.\<close>

definition receipt_material :: "approval_receipt \<Rightarrow> (string \<times> json) list" where
  "receipt_material r =
     [(''receipt_id'', JStr (rc_receipt_id r)), (''approval_id'', JStr (rc_approval_id r)),
      (''run_id'', JStr (rc_run_id r)), (''kind'', JStr (gw_approval_kind_value (rc_kind r))),
      (''subject_digest'', JStr (rc_subject_digest r)),
      (''decision'', JStr (gw_decision_value (rc_decision r))),
      (''decided_by'', JStr (rc_decided_by r)), (''decided_at'', jtime (rc_decided_at r)),
      (''reason'', JStr (rc_reason r))]"

definition approval_receipt_json :: "approval_receipt \<Rightarrow> json" where
  "approval_receipt_json r =
     JObj (receipt_material r @ [(''receipt_digest'', JStr (rc_receipt_digest r))])"

definition patch_preview_json :: "patch_preview \<Rightarrow> json" where
  "patch_preview_json p = JObj
     [(''project_id'', JStr (pw_project_id p)), (''base_revision'', JStr (pw_base_revision p)),
      (''prospective_revision'', JStr (pw_prospective_revision p)),
      (''patch_digest'', JStr (pw_patch_digest p)), (''preview_digest'', JStr (pw_preview_digest p)),
      (''operation_summaries'', jstrings (pw_operation_summaries p)), (''added'', jstrings (pw_added p)),
      (''removed'', jstrings (pw_removed p)), (''modified'', jstrings (pw_modified p))]"

definition stage_record_json :: "stage_record \<Rightarrow> json" where
  "stage_record_json s = JObj
     [(''transaction_id'', JStr (sr_transaction_id s)), (''project_id'', JStr (sr_project_id s)),
      (''base_revision'', JStr (sr_base_revision s)), (''staged_revision'', JStr (sr_staged_revision s)),
      (''patch_digest'', JStr (sr_patch_digest s)), (''preview_digest'', JStr (sr_preview_digest s))]"

definition gw_finding_json :: "gw_finding \<Rightarrow> json" where
  "gw_finding_json f = JObj
     [(''finding_id'', JStr (vf_finding_id f)), (''rule_id'', JStr (vf_rule_id f)),
      (''severity'', JStr (vf_severity f)), (''message'', JStr (vf_message f)),
      (''operation_ids'', jstrings (vf_operation_ids f))]"

definition gw_report_json :: "gw_report \<Rightarrow> json" where
  "gw_report_json r = JObj
     [(''report_id'', JStr (vr_report_id r)), (''project_id'', JStr (vr_project_id r)),
      (''base_revision'', JStr (vr_base_revision r)), (''staged_revision'', JStr (vr_staged_revision r)),
      (''engine_version'', JStr (vr_engine_version r)), (''passed'', JBool (vr_passed r)),
      (''findings'', JList (map gw_finding_json (vr_findings r))),
      (''report_digest'', JStr (vr_report_digest r)), (''input_hash'', jopt (vr_input_hash r)),
      (''rule_set_hash'', jopt (vr_rule_set_hash r)),
      (''compiler_manifest_digest'', jopt (vr_compiler_manifest_digest r)),
      (''compiler_bundle_digest'', jopt (vr_compiler_bundle_digest r)),
      (''manufacturing_release_eligible'', JBool (vr_manufacturing_release_eligible r))]"

definition export_artifact_json :: "export_artifact \<Rightarrow> json" where
  "export_artifact_json a = JObj
     [(''artifact_id'', JStr (ea_artifact_id a)), (''project_id'', JStr (ea_project_id a)),
      (''project_revision'', JStr (ea_project_revision a)),
      (''format'', JStr (export_format_value (ea_format a))),
      (''media_type'', JStr (ea_media_type a)), (''content_digest'', JStr (ea_content_digest a)),
      (''size_bytes'', JInt (ea_size_bytes a)), (''managed_path'', jopt (ea_managed_path a))]"

definition evidence_record_json :: "evidence_record \<Rightarrow> json" where
  "evidence_record_json e = JObj
     [(''evidence_id'', JStr (er_evidence_id e)), (''tool_name'', JStr (tool_value (er_tool_name e))),
      (''actor_id'', JStr (er_actor_id e)), (''project_id'', JStr (er_project_id e)),
      (''project_revision'', JStr (er_project_revision e)), (''input_digest'', JStr (er_input_digest e)),
      (''output_digest'', JStr (er_output_digest e)), (''captured_at'', jtime (er_captured_at e)),
      (''manifest_digest'', JStr (er_manifest_digest e))]"

definition tool_result_json :: "tool_result \<Rightarrow> json" where
  "tool_result_json t = JObj
     [(''tool_name'', JStr (tool_value (tr_tool_name t))), (''payload_json'', JStr (tr_payload_json t)),
      (''evidence'', evidence_record_json (tr_evidence t)),
      (''manifest_digest'', JStr (tr_manifest_digest t))]"

section \<open>The tool manifest\<close>

definition schema_object :: "(string \<times> json) list \<Rightarrow> string list \<Rightarrow> json" where
  "schema_object properties req = JObj
     [(''type'', JStr ''object''), (''additionalProperties'', JBool False),
      (''properties'', JObj properties), (''required'', jstrings req)]"

definition revision_pattern :: string where
  "revision_pattern = ''^rev_[0-9a-f]{64}$''"

definition id_pattern :: string where
  "id_pattern = ''^[A-Za-z0-9][A-Za-z0-9_.:-]{0,127}$''"

definition sha256_pattern :: string where
  "sha256_pattern = ''^[0-9a-f]{64}$''"

definition pattern_schema :: "string \<Rightarrow> json" where
  "pattern_schema p = JObj [(''type'', JStr ''string''), (''pattern'', JStr p)]"

definition id_schema :: json where "id_schema = pattern_schema id_pattern"

definition rev_schema :: json where "rev_schema = pattern_schema revision_pattern"

definition text_schema :: json where
  "text_schema = JObj [(''type'', JStr ''string''), (''minLength'', JInt 1)]"

definition array_schema :: "json \<Rightarrow> json" where
  "array_schema items = JObj [(''type'', JStr ''array''), (''items'', items)]"

definition run_schema_fields :: "(string \<times> json) list" where
  "run_schema_fields =
     [(''project_id'', id_schema), (''expected_project_revision'', rev_schema),
      (''run_id'', id_schema),
      (''expected_run_revision'', JObj [(''type'', JStr ''integer''), (''minimum'', JInt 0)])]"

definition stage_schema_fields :: "(string \<times> json) list" where
  "stage_schema_fields = run_schema_fields @ [(''expected_staged_revision'', rev_schema)]"

definition parameter_schema :: json where
  "parameter_schema = schema_object
     [(''name'', id_schema),
      (''value'', JObj [(''description'', JStr ''Canonical JSON value; floating point is rejected'')])]
     [''name'', ''value'']"

definition operation_schema :: json where
  "operation_schema = schema_object
     [(''operation_id'', id_schema),
      (''action'', JObj [(''enum'', jstrings
         [''add_component'', ''remove_component'', ''connect_net'', ''disconnect_net'',
          ''set_property'', ''set_constraint'', ''place_component'', ''route_net''])]),
      (''target_id'', id_schema), (''parameters'', array_schema parameter_schema)]
     [''operation_id'', ''action'', ''target_id'', ''parameters'']"

definition patch_schema :: json where
  "patch_schema = schema_object
     [(''patch_id'', id_schema), (''base_revision'', rev_schema), (''rationale'', text_schema),
      (''operations'', JObj [(''type'', JStr ''array''), (''minItems'', JInt 1), (''items'', operation_schema)]),
      (''evidence_ids'', array_schema id_schema)]
     [''patch_id'', ''base_revision'', ''rationale'', ''operations'', ''evidence_ids'']"

definition response_schema :: "string \<Rightarrow> json" where
  "response_schema payload_description = schema_object
     [(''tool_name'', JObj [(''type'', JStr ''string'')]),
      (''payload_json'', JObj [(''type'', JStr ''string''), (''description'', JStr payload_description)]),
      (''evidence'', JObj [(''type'', JStr ''object'')]),
      (''manifest_digest'', pattern_schema sha256_pattern)]
     [''tool_name'', ''payload_json'', ''evidence'', ''manifest_digest'']"

record tool_manifest_record =
  tm_name :: tool_name
  tm_version :: string
  tm_required_tier :: capability_tier
  tm_mutates_canonical_design :: bool
  tm_description :: string
  tm_input_schema_json :: string
  tm_output_schema_json :: string

definition make_manifest :: "tool_name \<Rightarrow> capability_tier \<Rightarrow> bool \<Rightarrow> string \<Rightarrow> json \<Rightarrow> tool_manifest_record" where
  "make_manifest name tier mutates description input_schema =
     \<lparr>tm_name = name, tm_version = ''1.0.0'', tm_required_tier = tier,
      tm_mutates_canonical_design = mutates, tm_description = description,
      tm_input_schema_json = canonical_json input_schema,
      tm_output_schema_json = canonical_json (response_schema (''Canonical result for '' @ tool_value name))\<rparr>"

definition with_fields :: "(string \<times> json) list \<Rightarrow> (string \<times> json) list \<Rightarrow> json" where
  "with_fields shared own = schema_object (shared @ own) (map fst (shared @ own))"

definition tool_manifests :: "tool_manifest_record list" where
  "tool_manifests =
    [make_manifest Tool_ANSWER_QUESTION Tier_STAGE False
       ''Record one exact user answer on an open coordination question.''
       (with_fields run_schema_fields
          [(''question_id'', id_schema), (''answer'', JObj [(''type'', JStr ''string'')])]),
     make_manifest Tool_COMMIT_TRANSACTION Tier_RELEASE True
       ''Release a verified staged revision with a matching human approval receipt.''
       (with_fields stage_schema_fields
          [(''verification_report_digest'', pattern_schema sha256_pattern),
           (''approval_receipt_id'', id_schema)]),
     make_manifest Tool_CREATE_AGENT_RUN Tier_STAGE False
       ''Create a strict-coordination multi-agent design run; null budgets are unlimited.''
       (with_fields []
          [(''project_id'', id_schema), (''expected_project_revision'', rev_schema),
           (''objective'', text_schema),
           (''initial_questions'', array_schema (JObj [(''type'', JStr ''object'')])),
           (''max_parallel_agents'', JObj [(''type'', jstrings [''integer'', ''null'']), (''minimum'', JInt 1)]),
           (''token_budget'', JObj [(''type'', jstrings [''integer'', ''null'']), (''minimum'', JInt 1)])]),
     make_manifest Tool_DECIDE_APPROVAL Tier_RELEASE False
       ''Record a human decision bound to an immutable stage or release digest.''
       (with_fields run_schema_fields
          [(''approval_id'', id_schema), (''approve'', JObj [(''type'', JStr ''boolean'')]),
           (''reason'', text_schema)]),
     make_manifest Tool_EXPORT_PROJECT Tier_RELEASE False
       ''Create an immutable managed artifact from one exact committed revision.''
       (with_fields []
          [(''project_id'', id_schema), (''expected_project_revision'', rev_schema),
           (''format'', JObj [(''enum'', jstrings [''kicad_archive'', ''gerber_bundle'', ''ipc2581''])])]),
     make_manifest Tool_INSPECT_PROJECT Tier_READ False
       ''Inspect normalized project counts and revisions without changing state.''
       (with_fields []
          [(''project_id'', id_schema),
           (''expected_project_revision'', JObj
              [(''anyOf'', JList [rev_schema, JObj [(''type'', JStr ''null'')]])])]),
     make_manifest Tool_PREVIEW_PATCH Tier_STAGE False
       ''Preview a typed semantic design patch and request digest-bound stage approval.''
       (with_fields run_schema_fields [(''patch'', patch_schema)]),
     make_manifest Tool_ROLLBACK_TRANSACTION Tier_STAGE False
       ''Discard one exact staged revision while preserving the committed project.''
       (with_fields stage_schema_fields [(''reason'', text_schema)]),
     make_manifest Tool_RUN_VERIFICATION Tier_STAGE False
       ''Run deterministic rule gates against one exact staged revision.''
       (with_fields stage_schema_fields []),
     make_manifest Tool_STAGE_DESIGN_PATCH Tier_STAGE False
       ''Stage an approved typed design patch in an isolated KiCad transaction.''
       (with_fields run_schema_fields
          [(''patch'', patch_schema), (''preview_digest'', pattern_schema sha256_pattern),
           (''approval_receipt_id'', id_schema)])]"

definition tool_manifest_json :: "tool_manifest_record \<Rightarrow> json" where
  "tool_manifest_json t = JObj
     [(''name'', JStr (tool_value (tm_name t))), (''version'', JStr (tm_version t)),
      (''required_tier'', JInt (tier_value (tm_required_tier t))),
      (''mutates_canonical_design'', JBool (tm_mutates_canonical_design t)),
      (''description'', JStr (tm_description t)), (''input_schema_json'', JStr (tm_input_schema_json t)),
      (''output_schema_json'', JStr (tm_output_schema_json t))]"

definition manifest_digest :: "(byte list \<Rightarrow> byte list) \<Rightarrow> tool_manifest_record \<Rightarrow> string" where
  "manifest_digest h t = stable_digest h (tool_manifest_json t)"

text \<open>\<^verbatim>\<open>MANIFEST_BY_NAME\<close> has an entry for every tool.\<close>

definition manifest_of :: "tool_name \<Rightarrow> tool_manifest_record" where
  "manifest_of t = the (find (\<lambda>r. tm_name r = t) tool_manifests)"

definition tool_manifest_digest :: "(byte list \<Rightarrow> byte list) \<Rightarrow> string" where
  "tool_manifest_digest h = stable_digest h (JList (map tool_manifest_json tool_manifests))"

fun required_tier :: "tool_name \<Rightarrow> capability_tier" where
  "required_tier Tool_INSPECT_PROJECT = Tier_READ"
| "required_tier Tool_COMMIT_TRANSACTION = Tier_RELEASE"
| "required_tier Tool_DECIDE_APPROVAL = Tier_RELEASE"
| "required_tier Tool_EXPORT_PROJECT = Tier_RELEASE"
| "required_tier _ = Tier_STAGE"

lemma make_manifest_sel [simp]:
  "tm_name (make_manifest n t m d s) = n" "tm_required_tier (make_manifest n t m d s) = t"
  by (simp_all add: make_manifest_def)

lemma manifest_of_name [simp]: "tm_name (manifest_of t) = t"
  by (cases t) (simp_all add: manifest_of_def tool_manifests_def)

lemma manifest_of_tier [simp]: "tm_required_tier (manifest_of t) = required_tier t"
  by (cases t) (simp_all add: manifest_of_def tool_manifests_def)

lemma manifests_sorted:
  "sorted (map (tool_value \<circ> tm_name) tool_manifests)" "distinct (map tm_name tool_manifests)"
  by (simp_all add: tool_manifests_def)

lemma tool_value_inject [simp]: "tool_value a = tool_value b \<longleftrightarrow> a = b"
  by (cases a; cases b) simp_all

end
