(* ===== verification/Gateway_Adapter.thy ===== *)
theory Gateway_Adapter
  imports Gateway_Records
begin

text \<open>
  \<^verbatim>\<open>mcp_gateway/adapter.py\<close>: the \<^verbatim>\<open>KiCadAdapter\<close> protocol as a record of operations on a
  state that the gateway does not see, and the in-memory adapter, whose projects are JSON designs with at most
  one staged transaction. An operation returns the state it leaves behind next to its result, since what an
  adapter did before it raised stays done. \<^verbatim>\<open>reference_host.py\<close> has a second adapter, which serves
  one finished project and refuses every change.
\<close>

section \<open>Operations with a state and exceptions\<close>

type_synonym ('a, 'x) action = "'a \<Rightarrow> 'a \<times> 'x result"

definition bind_a :: "('a, 'x) action \<Rightarrow> ('x \<Rightarrow> ('a, 'y) action) \<Rightarrow> ('a, 'y) action" where
  "bind_a m f = (\<lambda>a. case m a of (a', Inl e) \<Rightarrow> (a', Inl e) | (a', Inr x) \<Rightarrow> f x a')"

definition lift_a :: "'x result \<Rightarrow> ('a, 'x) action" where
  "lift_a r = (\<lambda>a. (a, r))"

lemma bind_a_Inr: "bind_a m f a = (a', Inr y) \<longleftrightarrow> (\<exists>b x. m a = (b, Inr x) \<and> f x b = (a', Inr y))"
  by (auto simp: bind_a_def split: prod.splits sum.splits)

lemma bind_a_Inl: "bind_a m f a = (a', Inl e)
    \<longleftrightarrow> m a = (a', Inl e) \<or> (\<exists>b x. m a = (b, Inr x) \<and> f x b = (a', Inl e))"
  by (auto simp: bind_a_def split: prod.splits sum.splits)

lemma lift_a_eq [simp]: "lift_a r a = (a', s) \<longleftrightarrow> a' = a \<and> r = s"
  by (auto simp: lift_a_def)

lemma bind_a_lift [simp]:
  "bind_a (lift_a (Inr x)) f = f x" "bind_a (lift_a (Inl e)) f = lift_a (Inl e)"
  by (auto simp: bind_a_def lift_a_def fun_eq_iff)

lemma bind_a_lift_Inr: "bind_a (lift_a r) f a = (a', Inr y) \<longleftrightarrow> (\<exists>x. r = Inr x \<and> f x a = (a', Inr y))"
  by (auto simp: bind_a_Inr)

section \<open>The adapter protocol\<close>

record 'a kicad_adapter =
  op_inspect_project :: "string \<Rightarrow> string option \<Rightarrow> ('a, project_snapshot) action"
  op_preview_patch :: "string \<Rightarrow> string \<Rightarrow> design_patch \<Rightarrow> ('a, patch_preview) action"
  op_stage_patch :: "string \<Rightarrow> string \<Rightarrow> design_patch \<Rightarrow> string \<Rightarrow> ('a, stage_record) action"
  op_run_verification :: "string \<Rightarrow> string \<Rightarrow> string \<Rightarrow> ('a, gw_report) action"
  op_commit :: "string \<Rightarrow> string \<Rightarrow> string \<Rightarrow> ('a, string) action"
  op_rollback :: "string \<Rightarrow> string \<Rightarrow> string \<Rightarrow> ('a, string) action"
  op_export_project :: "string \<Rightarrow> string \<Rightarrow> export_format \<Rightarrow> ('a, export_artifact) action"
  op_commit_with_evidence ::
    "(string \<Rightarrow> string \<Rightarrow> string \<Rightarrow> agent_run \<Rightarrow> gw_report \<Rightarrow> approval_receipt \<Rightarrow> ('a, string) action) option"

section \<open>Python values in parameters\<close>

fun json_truthy :: "json \<Rightarrow> bool" where
  "json_truthy JNull = False"
| "json_truthy (JBool b) = b"
| "json_truthy (JInt i) = (i \<noteq> 0)"
| "json_truthy (JStr s) = (s \<noteq> [])"
| "json_truthy (JList vs) = (vs \<noteq> [])"
| "json_truthy (JObj kvs) = (kvs \<noteq> [])"

text \<open>\<^verbatim>\<open>isinstance(value, int)\<close> holds for a \<^verbatim>\<open>bool\<close> too, which then counts as 0 or 1.\<close>

fun json_int :: "json \<Rightarrow> int option" where
  "json_int (JInt i) = Some i"
| "json_int (JBool b) = Some (if b then 1 else 0)"
| "json_int _ = None"

fun json_hashable :: "json \<Rightarrow> bool" where
  "json_hashable (JObj _) = False"
| "json_hashable (JList vs) = list_all json_hashable vs"
| "json_hashable _ = True"

definition param :: "(string \<times> json) list \<Rightarrow> string \<Rightarrow> json" where
  "param ps k = (case map_of ps k of None \<Rightarrow> JNull | Some v \<Rightarrow> v)"

section \<open>The rules of the in-memory adapter\<close>

definition min_clearance_nm :: int where "min_clearance_nm = 100000"

definition core_finding :: "(byte list \<Rightarrow> byte list) \<Rightarrow> string \<Rightarrow> patch_operation \<Rightarrow> string \<Rightarrow> gw_finding" where
  "core_finding h rule_id operation message =
     \<lparr>vf_finding_id = ''finding_'' @ take 32 (stable_digest h (JObj
        [(''rule_id'', JStr rule_id), (''operation_id'', JStr (po_operation_id operation)),
         (''message'', JStr message)])),
      vf_rule_id = rule_id, vf_severity = ''error'', vf_message = message,
      vf_operation_ids = [po_operation_id operation]\<rparr>"

definition grounded :: "(string \<times> json) list \<Rightarrow> bool" where
  "grounded ps \<longleftrightarrow>
     list_all (\<lambda>n. json_truthy (param ps n))
       [''manufacturer_part_number'', ''symbol'', ''footprint'', ''datasheet_sha256'', ''pin_map_sha256'']
     \<and> list_all (\<lambda>n. case param ps n of JStr s \<Rightarrow> is_sha256_hex s | _ \<Rightarrow> False)
         [''datasheet_sha256'', ''pin_map_sha256'']"

definition two_pins :: "(string \<times> json) list \<Rightarrow> bool" where
  "two_pins ps = (case param ps ''pins'' of JList vs \<Rightarrow> 2 \<le> length vs | _ \<Rightarrow> False)"

definition placement_valid :: "(string \<times> json) list \<Rightarrow> bool result" where
  "placement_valid ps =
     (if json_int (param ps ''x_nm'') = None \<or> json_int (param ps ''y_nm'') = None then Inr False
      else if \<not> json_hashable (param ps ''side'') then Inl TypeError
      else Inr (param ps ''side'' \<in> {JStr ''F'', JStr ''B''}
        \<and> (case json_int (param ps ''rotation_mdeg'') of None \<Rightarrow> False | Some r \<Rightarrow> r mod 90000 = 0)))"

definition path_valid :: "json \<Rightarrow> bool" where
  "path_valid j = (case j of
      JList pts \<Rightarrow> 2 \<le> length pts \<and> list_all (\<lambda>p. case p of
          JList cs \<Rightarrow> length cs = 2 \<and> list_all (\<lambda>c. json_int c \<noteq> None) cs | _ \<Rightarrow> False) pts
    | _ \<Rightarrow> False)"

definition route_valid :: "(string \<times> json) list \<Rightarrow> bool" where
  "route_valid ps \<longleftrightarrow> path_valid (param ps ''path_nm'')
     \<and> (case json_int (param ps ''width_nm'') of None \<Rightarrow> False | Some w \<Rightarrow> 0 < w)
     \<and> (case json_int (param ps ''clearance_nm'') of None \<Rightarrow> False | Some c \<Rightarrow> min_clearance_nm \<le> c)"

definition constraint_valid :: "(string \<times> json) list \<Rightarrow> bool" where
  "constraint_valid ps \<longleftrightarrow> param ps ''min_clearance_nm'' = JNull
     \<or> (case json_int (param ps ''min_clearance_nm'') of None \<Rightarrow> False | Some c \<Rightarrow> min_clearance_nm \<le> c)"

definition operation_findings :: "(byte list \<Rightarrow> byte list) \<Rightarrow> patch_operation \<Rightarrow> gw_finding list result" where
  "operation_findings h p = (let ps = parameter_map p in
     case po_action p of
       Patch_ADD_COMPONENT \<Rightarrow> Inr (if grounded ps then [] else
         [core_finding h ''component_grounding'' p
            ''component lacks exact MPN/symbol/footprint/datasheet/pin-map evidence''])
     | Patch_CONNECT_NET \<Rightarrow> Inr (if two_pins ps then [] else
         [core_finding h ''net_minimum_connections'' p
            ''a connected net requires at least two explicit pins''])
     | Patch_PLACE_COMPONENT \<Rightarrow> bind_r (placement_valid ps) (\<lambda>ok. Inr (if ok then [] else
         [core_finding h ''placement_integer_grid'' p
            ''placement requires integer nanometres, F/B side, and 90-degree rotation'']))
     | Patch_ROUTE_NET \<Rightarrow> Inr (if route_valid ps then [] else
         [core_finding h ''route_geometry_and_clearance'' p
            ''route requires an integer path, positive width, and clearance >= 100000 nm''])
     | Patch_SET_CONSTRAINT \<Rightarrow> Inr (if constraint_valid ps then [] else
         [core_finding h ''minimum_clearance'' p ''minimum clearance cannot be below 100000 nm''])
     | _ \<Rightarrow> Inr [])"

definition core_findings :: "(byte list \<Rightarrow> byte list) \<Rightarrow> design_patch \<Rightarrow> gw_finding list result" where
  "core_findings h p = bind_r (map_r (operation_findings h) (dp_operations p)) (\<lambda>fss. Inr (concat fss))"

section \<open>Applying a patch\<close>

fun json_setdefault :: "string \<Rightarrow> json \<Rightarrow> json \<Rightarrow> json" where
  "json_setdefault k d (JObj kvs) = JObj (if map_of kvs k = None then kvs @ [(k, d)] else kvs)"
| "json_setdefault k d j = j"

fun json_get :: "json \<Rightarrow> string \<Rightarrow> json option" where
  "json_get (JObj kvs) k = map_of kvs k"
| "json_get _ k = None"

fun json_put :: "string \<Rightarrow> json \<Rightarrow> json \<Rightarrow> json result" where
  "json_put k v (JObj kvs) = Inr (JObj (AList.update k v kvs))"
| "json_put k v _ = Inl TypeError"

text \<open>\<^verbatim>\<open>pop(key, None)\<close> on a list is a call with one argument too many, on a scalar an attribute error.\<close>

fun json_pop :: "string \<Rightarrow> json \<Rightarrow> json result" where
  "json_pop k (JObj kvs) = Inr (JObj (AList.delete k kvs))"
| "json_pop k (JList _) = Inl TypeError"
| "json_pop k _ = Inl AttributeError"

fun json_append :: "json \<Rightarrow> json \<Rightarrow> json result" where
  "json_append v (JList vs) = Inr (JList (vs @ [v]))"
| "json_append v _ = Inl AttributeError"

text \<open>The three parts of the design that the loop changes: components, nets, applied operations.\<close>

definition apply_operation :: "patch_operation \<Rightarrow> json \<times> json \<times> json \<Rightarrow> (json \<times> json \<times> json) result" where
  "apply_operation p s = (case s of (components, nets, applied) \<Rightarrow>
     let params = canonical_data (JObj (parameter_map p)) in
     bind_r (case po_action p of
         Patch_ADD_COMPONENT \<Rightarrow> bind_r (json_put (po_target_id p) params components) (\<lambda>c. Inr (c, nets))
       | Patch_REMOVE_COMPONENT \<Rightarrow> bind_r (json_pop (po_target_id p) components) (\<lambda>c. Inr (c, nets))
       | Patch_CONNECT_NET \<Rightarrow> bind_r (json_put (po_target_id p) params nets) (\<lambda>n. Inr (components, n))
       | Patch_DISCONNECT_NET \<Rightarrow> bind_r (json_pop (po_target_id p) nets) (\<lambda>n. Inr (components, n))
       | _ \<Rightarrow> Inr (components, nets))
     (\<lambda>(c, n). bind_r (json_append (canonical_data (patch_operation_json p)) applied) (\<lambda>a. Inr (c, n, a))))"

fun apply_operations :: "patch_operation list \<Rightarrow> json \<times> json \<times> json \<Rightarrow> (json \<times> json \<times> json) result" where
  "apply_operations [] s = Inr s"
| "apply_operations (p # ps) s = bind_r (apply_operation p s) (apply_operations ps)"

definition design_defaults :: "json \<Rightarrow> json" where
  "design_defaults d = json_setdefault ''applied_operations'' (JList [])
     (json_setdefault ''nets'' (JObj []) (json_setdefault ''components'' (JObj []) d))"

definition design_part :: "json \<Rightarrow> string \<Rightarrow> json" where
  "design_part d k = (case json_get d k of None \<Rightarrow> JNull | Some v \<Rightarrow> v)"

definition apply_patch :: "json \<Rightarrow> design_patch \<Rightarrow> json result" where
  "apply_patch design p = (let updated = design_defaults (json_norm design) in
     bind_r (apply_operations (dp_operations p)
         (design_part updated ''components'', design_part updated ''nets'',
          design_part updated ''applied_operations'')) (\<lambda>(c, n, a).
     bind_r (json_put ''components'' c updated) (\<lambda>d1.
     bind_r (json_put ''nets'' n d1) (\<lambda>d2.
     bind_r (json_put ''applied_operations'' a d2) (\<lambda>d3.
     Inr (canonical_data d3))))))"

section \<open>The in-memory adapter\<close>

record project_state =
  pj_project_id :: string
  pj_committed_design :: json
  pj_project_revision :: string
  pj_staged_design :: "json option"
  pj_staged_patch :: "design_patch option"
  pj_stage :: "stage_record option"

record memory_adapter =
  ma_projects :: "(string \<times> project_state) list"
  ma_exports :: "(string \<times> byte list) list"

type_synonym verification_hook = "string \<Rightarrow> string \<Rightarrow> string \<Rightarrow> design_patch \<Rightarrow> gw_finding list result"

definition engine_version :: string where "engine_version = ''mock-kicad-rules/1.0.0''"

definition find_state :: "memory_adapter \<Rightarrow> string \<Rightarrow> project_state result" where
  "find_state a pid = (case map_of (ma_projects a) pid of
     None \<Rightarrow> Inl (NotFound ''project not found'') | Some s \<Rightarrow> Inr s)"

definition put_state :: "string \<Rightarrow> project_state \<Rightarrow> memory_adapter \<Rightarrow> memory_adapter" where
  "put_state pid s a = a\<lparr>ma_projects := AList.update pid s (ma_projects a)\<rparr>"

definition expect_project_revision :: "project_state \<Rightarrow> string \<Rightarrow> unit result" where
  "expect_project_revision s expected =
     raise_first [(pj_project_revision s \<noteq> expected, RevisionConflict ''project revision mismatch'')]"

definition expect_stage :: "project_state \<Rightarrow> string \<Rightarrow> string \<Rightarrow> stage_record result" where
  "expect_stage s expected staged =
     bind_r (expect_project_revision s expected) (\<lambda>_. case pj_stage s of
       None \<Rightarrow> Inl (TransactionConflict ''project has no active staged transaction'')
     | Some t \<Rightarrow> if sr_staged_revision t \<noteq> staged
         then Inl (RevisionConflict ''staged revision mismatch: the transaction changed or is stale'') else Inr t)"

definition clear_stage :: "project_state \<Rightarrow> project_state" where
  "clear_stage s = s\<lparr>pj_staged_design := None, pj_staged_patch := None, pj_stage := None\<rparr>"

text \<open>A design that is falsy (absent or empty) is replaced by the default before it is normalized.\<close>

definition seed_project ::
  "(byte list \<Rightarrow> byte list) \<Rightarrow> string \<Rightarrow> json option \<Rightarrow> (memory_adapter, string) action" where
  "seed_project h pid design a =
     (if map_of (ma_projects a) pid \<noteq> None then (a, Inl (TransactionConflict ''project already exists'')) else
      let source = (case design of Some d \<Rightarrow> if json_truthy d then d else
            JObj [(''components'', JObj []), (''nets'', JObj []), (''applied_operations'', JList [])]
          | None \<Rightarrow> JObj [(''components'', JObj []), (''nets'', JObj []), (''applied_operations'', JList [])]);
        normalized = canonical_data source in
      case normalized of
        JObj kvs \<Rightarrow>
          let d = design_defaults normalized; r = revision_digest h d in
          (put_state pid \<lparr>pj_project_id = pid, pj_committed_design = d, pj_project_revision = r,
             pj_staged_design = None, pj_staged_patch = None, pj_stage = None\<rparr> a, Inr r)
      | _ \<Rightarrow> (a, Inl (TransactionConflict ''seed design must be an object'')))"

fun dict_len :: "json option \<Rightarrow> int" where
  "dict_len (Some (JObj kvs)) = int (length kvs)"
| "dict_len _ = 0"

fun list_len :: "json option \<Rightarrow> int" where
  "list_len (Some (JList vs)) = int (length vs)"
| "list_len _ = 0"

definition mem_inspect_project :: "string \<Rightarrow> string option \<Rightarrow> (memory_adapter, project_snapshot) action" where
  "mem_inspect_project pid expected a = (a,
     bind_r (find_state a pid) (\<lambda>s.
     bind_r (case expected of None \<Rightarrow> Inr () | Some r \<Rightarrow> expect_project_revision s r) (\<lambda>_.
     Inr \<lparr>ps_project_id = pid, ps_project_revision = pj_project_revision s,
       ps_component_count = dict_len (json_get (pj_committed_design s) ''components''),
       ps_net_count = dict_len (json_get (pj_committed_design s) ''nets''),
       ps_operation_count = list_len (json_get (pj_committed_design s) ''applied_operations''),
       ps_active_staged_revision = map_option sr_staged_revision (pj_stage s)\<rparr>)))"

definition operation_summary :: "patch_operation \<Rightarrow> string" where
  "operation_summary p = patch_action_value (po_action p) @ '':'' @ po_target_id p"

definition make_preview ::
  "(byte list \<Rightarrow> byte list) \<Rightarrow> memory_adapter \<Rightarrow> string \<Rightarrow> string \<Rightarrow> design_patch \<Rightarrow> patch_preview result" where
  "make_preview h a pid expected p =
     bind_r (find_state a pid) (\<lambda>s.
     bind_r (expect_project_revision s expected) (\<lambda>_.
     bind_r (raise_first [(dp_base_revision p \<noteq> pj_project_revision s,
        RevisionConflict ''patch base revision is not the committed revision'')]) (\<lambda>_.
     bind_r (apply_patch (pj_committed_design s) p) (\<lambda>staged.
     let prospective = revision_digest h staged; summaries = map operation_summary (dp_operations p);
       material = JObj
        [(''project_id'', JStr pid), (''base_revision'', JStr (pj_project_revision s)),
         (''prospective_revision'', JStr prospective), (''patch_digest'', JStr (patch_digest h p)),
         (''operation_summaries'', jstrings summaries)] in
     Inr \<lparr>pw_project_id = pid, pw_base_revision = pj_project_revision s,
       pw_prospective_revision = prospective, pw_patch_digest = patch_digest h p,
       pw_preview_digest = stable_digest h material, pw_operation_summaries = summaries,
       pw_added = [], pw_removed = [], pw_modified = []\<rparr>))))"

definition mem_preview_patch ::
  "(byte list \<Rightarrow> byte list) \<Rightarrow> string \<Rightarrow> string \<Rightarrow> design_patch \<Rightarrow> (memory_adapter, patch_preview) action" where
  "mem_preview_patch h pid expected p a = (a, make_preview h a pid expected p)"

definition mem_stage_patch ::
  "(byte list \<Rightarrow> byte list) \<Rightarrow> string \<Rightarrow> string \<Rightarrow> design_patch \<Rightarrow> string \<Rightarrow> (memory_adapter, stage_record) action" where
  "mem_stage_patch h pid expected p digest a =
     (case bind_r (find_state a pid) (\<lambda>s.
           bind_r (expect_project_revision s expected) (\<lambda>_.
           bind_r (raise_first [(pj_stage s \<noteq> None,
              TransactionConflict ''project already has an active staged transaction'')]) (\<lambda>_.
           bind_r (make_preview h a pid expected p) (\<lambda>preview.
           bind_r (raise_first [(pw_preview_digest preview \<noteq> digest,
              RevisionConflict ''preview digest does not match the exact patch'')]) (\<lambda>_.
           bind_r (apply_patch (pj_committed_design s) p) (\<lambda>staged.
           Inr (s, staged,
             \<lparr>sr_transaction_id = ''txn_'' @ take 32 (stable_digest h (JObj
                [(''project'', JStr pid), (''stage'', JStr (pw_prospective_revision preview))])),
              sr_project_id = pid, sr_base_revision = pj_project_revision s,
              sr_staged_revision = pw_prospective_revision preview, sr_patch_digest = patch_digest h p,
              sr_preview_digest = pw_preview_digest preview\<rparr>))))))) of
        Inl e \<Rightarrow> (a, Inl e)
      | Inr (s, staged, stage) \<Rightarrow>
          (put_state pid (s\<lparr>pj_staged_design := Some staged, pj_staged_patch := Some p, pj_stage := Some stage\<rparr>) a,
           Inr stage))"

definition blocking_finding :: "gw_finding \<Rightarrow> bool" where
  "blocking_finding f \<longleftrightarrow> vf_severity f \<in> {''error'', ''fatal''}"

definition mem_run_verification ::
  "(byte list \<Rightarrow> byte list) \<Rightarrow> verification_hook option \<Rightarrow> string \<Rightarrow> string \<Rightarrow> string
     \<Rightarrow> (memory_adapter, gw_report) action" where
  "mem_run_verification h hook pid expected staged a = (a,
     bind_r (find_state a pid) (\<lambda>s.
     bind_r (expect_stage s expected staged) (\<lambda>stage.
     bind_r (case pj_staged_patch s of None \<Rightarrow> Inl AssertionError | Some p \<Rightarrow> Inr p) (\<lambda>p.
     bind_r (core_findings h p) (\<lambda>core.
     bind_r (case hook of None \<Rightarrow> Inr []
        | Some f \<Rightarrow> f pid (sr_base_revision stage) (sr_staged_revision stage) p) (\<lambda>more.
     let findings = sort_key vf_finding_id (core @ more);
       passed = (\<not> list_ex blocking_finding findings);
       report_id = ''verification_'' @ take 32 (stable_digest h (JObj
         [(''stage'', JStr (sr_staged_revision stage)), (''engine'', JStr engine_version)]));
       material = JObj
         [(''report_id'', JStr report_id), (''project_id'', JStr pid),
          (''base_revision'', JStr (sr_base_revision stage)),
          (''staged_revision'', JStr (sr_staged_revision stage)),
          (''engine_version'', JStr engine_version), (''passed'', JBool passed),
          (''findings'', JList (map gw_finding_json findings))] in
     Inr \<lparr>vr_report_id = report_id, vr_project_id = pid, vr_base_revision = sr_base_revision stage,
       vr_staged_revision = sr_staged_revision stage, vr_engine_version = engine_version,
       vr_passed = passed, vr_findings = findings, vr_report_digest = stable_digest h material,
       vr_input_hash = None, vr_rule_set_hash = None, vr_compiler_manifest_digest = None,
       vr_compiler_bundle_digest = None, vr_manufacturing_release_eligible = False\<rparr>))))))"

definition mem_commit :: "string \<Rightarrow> string \<Rightarrow> string \<Rightarrow> (memory_adapter, string) action" where
  "mem_commit pid expected staged a =
     (case bind_r (find_state a pid) (\<lambda>s.
           bind_r (expect_stage s expected staged) (\<lambda>stage.
           case pj_staged_design s of None \<Rightarrow> Inl AssertionError | Some d \<Rightarrow> Inr (s, stage, d))) of
        Inl e \<Rightarrow> (a, Inl e)
      | Inr (s, stage, d) \<Rightarrow>
          (put_state pid (clear_stage (s\<lparr>pj_committed_design := d, pj_project_revision := sr_staged_revision stage\<rparr>)) a,
           Inr (sr_staged_revision stage)))"

definition mem_rollback :: "string \<Rightarrow> string \<Rightarrow> string \<Rightarrow> (memory_adapter, string) action" where
  "mem_rollback pid expected staged a =
     (case bind_r (find_state a pid) (\<lambda>s. bind_r (expect_stage s expected staged) (\<lambda>_. Inr s)) of
        Inl e \<Rightarrow> (a, Inl e)
      | Inr s \<Rightarrow> (put_state pid (clear_stage s) a, Inr (pj_project_revision s)))"

fun export_media_type :: "export_format \<Rightarrow> string" where
  "export_media_type Format_KICAD_ARCHIVE = ''application/vnd.kicad.project+zip''"
| "export_media_type Format_GERBER_BUNDLE = ''application/vnd.gerber+zip''"
| "export_media_type Format_IPC2581 = ''application/vnd.ipc2581+xml''"

definition export_content :: "string \<Rightarrow> string \<Rightarrow> export_format \<Rightarrow> json \<Rightarrow> json" where
  "export_content pid revision f design = JObj
     [(''format'', JStr (export_format_value f)), (''project_id'', JStr pid),
      (''project_revision'', JStr revision), (''design'', design)]"

definition mem_export_project ::
  "(byte list \<Rightarrow> byte list) \<Rightarrow> string \<Rightarrow> string \<Rightarrow> export_format \<Rightarrow> (memory_adapter, export_artifact) action" where
  "mem_export_project h pid expected f a =
     (case bind_r (find_state a pid) (\<lambda>s. bind_r (expect_project_revision s expected) (\<lambda>_. Inr s)) of
        Inl e \<Rightarrow> (a, Inl e)
      | Inr s \<Rightarrow>
          let j = export_content pid (pj_project_revision s) f (pj_committed_design s);
            content = utf8_bytes (canonical_json j); digest = stable_digest h (json_norm j);
            artifact_id = ''artifact_'' @ take 32 digest in
          (a\<lparr>ma_exports := AList.update artifact_id content (ma_exports a)\<rparr>,
           Inr \<lparr>ea_artifact_id = artifact_id, ea_project_id = pid,
             ea_project_revision = pj_project_revision s, ea_format = f,
             ea_media_type = export_media_type f, ea_content_digest = digest,
             ea_size_bytes = int (length content), ea_managed_path = None\<rparr>))"

definition artifact_bytes :: "memory_adapter \<Rightarrow> string \<Rightarrow> byte list result" where
  "artifact_bytes a i = (case map_of (ma_exports a) i of
     None \<Rightarrow> Inl (NotFound ''artifact not found'') | Some c \<Rightarrow> Inr c)"

definition in_memory_adapter ::
  "(byte list \<Rightarrow> byte list) \<Rightarrow> verification_hook option \<Rightarrow> memory_adapter kicad_adapter" where
  "in_memory_adapter h hook =
     \<lparr>op_inspect_project = mem_inspect_project, op_preview_patch = mem_preview_patch h,
      op_stage_patch = mem_stage_patch h, op_run_verification = mem_run_verification h hook,
      op_commit = mem_commit, op_rollback = mem_rollback, op_export_project = mem_export_project h,
      op_commit_with_evidence = None\<rparr>"

section \<open>The read-only reference adapter\<close>

definition ref_inspect_project :: "string \<Rightarrow> string option \<Rightarrow> (project_snapshot, project_snapshot) action" where
  "ref_inspect_project pid expected s = (s,
     bind_r (raise_first
       [(pid \<noteq> ps_project_id s, NotFound ''project not found''),
        (case expected of None \<Rightarrow> False | Some r \<Rightarrow> r \<noteq> ps_project_revision s,
          RevisionConflict ''reference project revision does not match'')]) (\<lambda>_. Inr s))"

definition read_only :: "('a, 'x) action" where
  "read_only = lift_a (Inl (CapabilityDenied ''the finalized reference project is read-only''))"

definition reference_adapter :: "project_snapshot kicad_adapter" where
  "reference_adapter =
     \<lparr>op_inspect_project = ref_inspect_project, op_preview_patch = (\<lambda>_ _ _. read_only),
      op_stage_patch = (\<lambda>_ _ _ _. read_only), op_run_verification = (\<lambda>_ _ _. read_only),
      op_commit = (\<lambda>_ _ _. read_only), op_rollback = (\<lambda>_ _ _. read_only),
      op_export_project = (\<lambda>_ _ _. read_only), op_commit_with_evidence = None\<rparr>"

end
