(* ===== verification/Json_Parse.thy ===== *)
theory Json_Parse
  imports Json "HOL-Library.Multiset"
begin

text \<open>
  \<^verbatim>\<open>json.loads\<close> on the texts that the sources read back. The reader follows the decoder of the
  standard library: white space between tokens, strict strings, objects as pairs in text order. A number with a
  fraction or an exponent has no counterpart among the values and is refused, as the readers of the
  sources do through \<^verbatim>\<open>parse_float\<close>; so is an escape of a code point above 255. The
  reader has fuel; twice the length of the text is enough. The result: reading canonical JSON gives back
  the value with its keys in order.
\<close>

section \<open>Tokens\<close>

definition json_space :: "char \<Rightarrow> bool" where
  "json_space c \<longleftrightarrow> c \<in> {CHR '' '', CHR 0x09, CHR 0x0A, CHR 0x0D}"

definition skip_space :: "string \<Rightarrow> string" where
  "skip_space s = dropWhile json_space s"

definition is_hex :: "char \<Rightarrow> bool" where
  "is_hex c = (let n = (of_char c :: nat) in
     (48 \<le> n \<and> n \<le> 57) \<or> (65 \<le> n \<and> n \<le> 70) \<or> (97 \<le> n \<and> n \<le> 102))"

definition hex_val :: "char \<Rightarrow> nat" where
  "hex_val c = (let n = of_char c in if n < 58 then n - 48 else if n < 71 then n - 55 else n - 87)"

definition simple_escape :: "char \<Rightarrow> char option" where
  "simple_escape e = map_of
     [(CHR 0x22, CHR 0x22), (CHR 0x5C, CHR 0x5C), (CHR ''/'', CHR ''/''), (CHR ''b'', CHR 0x08),
      (CHR ''f'', CHR 0x0C), (CHR ''n'', CHR 0x0A), (CHR ''r'', CHR 0x0D), (CHR ''t'', CHR 0x09)] e"

text \<open>One character of a string literal, after the opening quote and before the closing one.\<close>

definition scan_char :: "string \<Rightarrow> (char \<times> string) option" where
  "scan_char s = (case s of
     [] \<Rightarrow> None
   | c # r \<Rightarrow>
      if c = CHR 0x5C then (case r of
          [] \<Rightarrow> None
        | e # r' \<Rightarrow> if e = CHR ''u'' then (case r' of
              a # b # d # f # r'' \<Rightarrow>
                if is_hex a \<and> is_hex b \<and> is_hex d \<and> is_hex f \<and> hex_val a = 0 \<and> hex_val b = 0
                then Some (char_of (16 * hex_val d + hex_val f), r'') else None
            | _ \<Rightarrow> None)
          else (case simple_escape e of None \<Rightarrow> None | Some x \<Rightarrow> Some (x, r')))
      else if (of_char c :: nat) < 32 then None else Some (c, r))"

lemma scan_char_shorter: "scan_char s = Some (c, r) \<Longrightarrow> length r < length s"
  by (auto simp: scan_char_def split: list.splits if_splits option.splits)

function scan_string :: "string \<Rightarrow> (string \<times> string) option" where
  "scan_string s = (if s \<noteq> [] \<and> hd s = CHR 0x22 then Some ([], tl s)
     else case scan_char s of None \<Rightarrow> None
       | Some (c, r) \<Rightarrow> map_option (\<lambda>(t, r'). (c # t, r')) (scan_string r))"
  by pat_completeness auto
termination by (relation "measure length") (auto dest: scan_char_shorter)

declare scan_string.simps [simp del]

definition scan_nat :: "string \<Rightarrow> (nat \<times> string) option" where
  "scan_nat s = (case takeWhile is_digit s of
     [] \<Rightarrow> None
   | d # ds \<Rightarrow> if d = CHR ''0'' then Some (0, tl s) else Some (horner (d # ds), dropWhile is_digit s))"

definition scan_int :: "string \<Rightarrow> (int \<times> string) option" where
  "scan_int s = (if s \<noteq> [] \<and> hd s = CHR ''-''
     then map_option (\<lambda>(n, r). (- int n, r)) (scan_nat (tl s))
     else map_option (\<lambda>(n, r). (int n, r)) (scan_nat s))"

section \<open>Values\<close>

definition strip_prefix :: "string \<Rightarrow> string \<Rightarrow> string option" where
  "strip_prefix p s = (if take (length p) s = p then Some (drop (length p) s) else None)"

fun parse_value :: "nat \<Rightarrow> string \<Rightarrow> (json \<times> string) option"
and parse_items :: "nat \<Rightarrow> string \<Rightarrow> (json list \<times> string) option"
and parse_members :: "nat \<Rightarrow> string \<Rightarrow> ((string \<times> json) list \<times> string) option" where
  "parse_value 0 s = None"
| "parse_value (Suc n) s = (case s of
     [] \<Rightarrow> None
   | c # r \<Rightarrow>
      if c = CHR 0x22 then map_option (\<lambda>(t, r'). (JStr t, r')) (scan_string r)
      else if c = CHR ''{'' then
        (let r1 = skip_space r in
         if r1 \<noteq> [] \<and> hd r1 = CHR ''}'' then Some (JObj [], tl r1)
         else map_option (\<lambda>(kvs, r'). (JObj kvs, r')) (parse_members n r1))
      else if c = CHR ''['' then
        (let r1 = skip_space r in
         if r1 \<noteq> [] \<and> hd r1 = CHR '']'' then Some (JList [], tl r1)
         else map_option (\<lambda>(vs, r'). (JList vs, r')) (parse_items n r1))
      else if c = CHR ''n'' then map_option (\<lambda>r'. (JNull, r')) (strip_prefix ''null'' s)
      else if c = CHR ''t'' then map_option (\<lambda>r'. (JBool True, r')) (strip_prefix ''true'' s)
      else if c = CHR ''f'' then map_option (\<lambda>r'. (JBool False, r')) (strip_prefix ''false'' s)
      else map_option (\<lambda>(i, r'). (JInt i, r')) (scan_int s))"
| "parse_items 0 s = None"
| "parse_items (Suc n) s = (case parse_value n s of None \<Rightarrow> None | Some (v, r) \<Rightarrow>
     (case skip_space r of
        [] \<Rightarrow> None
      | c # r1 \<Rightarrow> if c = CHR '']'' then Some ([v], r1)
          else if c = CHR '','' then map_option (\<lambda>(vs, r'). (v # vs, r')) (parse_items n (skip_space r1))
          else None))"
| "parse_members 0 s = None"
| "parse_members (Suc n) s = (case s of [] \<Rightarrow> None | c # r \<Rightarrow>
     if c \<noteq> CHR 0x22 then None else
     (case scan_string r of None \<Rightarrow> None | Some (k, r0) \<Rightarrow>
     (case skip_space r0 of [] \<Rightarrow> None | c1 # r1 \<Rightarrow> if c1 \<noteq> CHR '':'' then None else
     (case parse_value n (skip_space r1) of None \<Rightarrow> None | Some (v, r2) \<Rightarrow>
     (case skip_space r2 of
        [] \<Rightarrow> None
      | c2 # r3 \<Rightarrow> if c2 = CHR ''}'' then Some ([(k, v)], r3)
          else if c2 = CHR '','' then map_option (\<lambda>(kvs, r'). ((k, v) # kvs, r')) (parse_members n (skip_space r3))
          else None)))))"

definition parse_pairs :: "string \<Rightarrow> json option" where
  "parse_pairs s = (case parse_value (2 * length s + 2) (skip_space s) of None \<Rightarrow> None
     | Some (v, r) \<Rightarrow> if skip_space r = [] then Some v else None)"

text \<open>The objects of the parsed value as dictionaries: a repeated key keeps its first place and its last value.\<close>

fun json_dicts :: "json \<Rightarrow> json" where
  "json_dicts (JList vs) = JList (map json_dicts vs)"
| "json_dicts (JObj kvs) =
     JObj (fold (\<lambda>(k, v) d. AList.update k v d) (map (\<lambda>(k, v). (k, json_dicts v)) kvs) [])"
| "json_dicts j = j"

fun distinct_keys :: "json \<Rightarrow> bool" where
  "distinct_keys (JList vs) = list_all distinct_keys vs"
| "distinct_keys (JObj kvs) = (distinct (map fst kvs) \<and> list_all (\<lambda>(k, v). distinct_keys v) kvs)"
| "distinct_keys _ = True"

definition json_loads :: "string \<Rightarrow> json option" where
  "json_loads s = map_option json_dicts (parse_pairs s)"

text \<open>With the hook that raises on a repeated key.\<close>

definition json_loads_unique :: "string \<Rightarrow> json option" where
  "json_loads_unique s = (case parse_pairs s of None \<Rightarrow> None
     | Some j \<Rightarrow> if distinct_keys j then Some (json_dicts j) else None)"

section \<open>Reading back what was written\<close>

lemma skip_space_id: "s = [] \<or> \<not> json_space (hd s) \<Longrightarrow> skip_space s = s"
  by (cases s) (auto simp: skip_space_def)

lemma closes_no_space: "closes r \<Longrightarrow> skip_space r = r"
  by (rule skip_space_id) (auto simp: closes_def json_space_def)

lemma hex_digit_props: "n < 16 \<Longrightarrow> is_hex (hex_digit n) \<and> hex_val (hex_digit n) = n"
  by (auto simp: hex_digit_def is_hex_def hex_val_def Let_def)

lemma scan_escape: "scan_char (json_escape c @ r) = Some (c, r)"
proof -
  have z: "is_hex (CHR ''0'')" "hex_val (CHR ''0'') = 0" by (simp_all add: is_hex_def hex_val_def Let_def)
  have "(of_char c :: nat) < 32 \<Longrightarrow> of_char c div 16 < (16 :: nat)" by linarith
  then show ?thesis
    by (simp add: json_escape_def scan_char_def simple_escape_def z hex_digit_props)
qed

lemma scan_string_json: "scan_string (concat (map json_escape s) @ CHR 0x22 # r) = Some (s, r)"
proof (induction s)
  case Nil
  show ?case by (subst scan_string.simps) simp
next
  case (Cons c s)
  let ?t = "json_escape c @ concat (map json_escape s) @ CHR 0x22 # r"
  have "hd ?t \<noteq> CHR 0x22" using json_escape_no_quote(1) by blast
  then show ?case using Cons scan_escape [of c "concat (map json_escape s) @ CHR 0x22 # r"]
    by (subst scan_string.simps) simp
qed

lemma show_nat_zero: "hd (show_nat n) = CHR ''0'' \<Longrightarrow> n = 0"
proof (induction n rule: show_nat.induct)
  case (1 n)
  show ?case
  proof (cases "n < 10")
    case True
    then have "digit n = CHR ''0''" using 1(2) by (subst (asm) show_nat.simps) simp
    then have "of_char (digit n) = (48 :: nat)" by simp
    then show ?thesis using of_char_digit [OF True] by linarith
  next
    case False
    then have "hd (show_nat (n div 10)) = CHR ''0''"
      using 1(2) show_nat_nonempty by (subst (asm) show_nat.simps) simp
    with 1(1) False have "n div 10 = 0" by simp
    with False show ?thesis by simp
  qed
qed

lemma show_nat_0: "show_nat 0 = ''0''"
proof -
  have "digit 0 = CHR ''0''" unfolding digit_def by (rule injD [OF inj_of_char [where 'a = nat]]) simp
  then show ?thesis by (subst show_nat.simps) simp
qed

lemma scan_nat_show: "undigit r \<Longrightarrow> scan_nat (show_nat n @ r) = Some (n, r)"
proof -
  assume r: "undigit r"
  have tw: "takeWhile is_digit (show_nat n @ r) = show_nat n" "dropWhile is_digit (show_nat n @ r) = r"
    using show_nat_digits [of n] r
    by (cases r; auto simp: takeWhile_append2 dropWhile_append2 undigit_def)+
  obtain d ds where d: "show_nat n = d # ds" using show_nat_nonempty by (cases "show_nat n") auto
  show ?thesis
  proof (cases "d = CHR ''0''")
    case True
    then have "n = 0" using show_nat_zero d by simp
    then have "d # ds = ''0''" using d show_nat_0 by simp
    with \<open>n = 0\<close> tw d show ?thesis by (simp add: scan_nat_def)
  next
    case False
    then show ?thesis using tw d horner_show_nat [of n] by (simp add: scan_nat_def)
  qed
qed

lemma scan_int_show: "undigit r \<Longrightarrow> scan_int (show_int i @ r) = Some (i, r)"
  using hd_show_nat_not_minus [of "nat i" r] show_nat_nonempty [of "nat i"]
  by (auto simp: show_int_def scan_int_def scan_nat_show)

text \<open>How much fuel a value needs.\<close>

fun json_need :: "json \<Rightarrow> nat" where
  "json_need (JList vs) = Suc (sum_list (map (\<lambda>v. Suc (json_need v)) vs))"
| "json_need (JObj kvs) = Suc (sum_list (map (\<lambda>(k, v). Suc (json_need v)) kvs))"
| "json_need j = 1"

lemma need_le_sum_list: "(\<And>v. v \<in> set vs \<Longrightarrow> f v \<le> g v) \<Longrightarrow> sum_list (map f vs) \<le> (sum_list (map g vs) :: nat)"
  by (rule sum_list_mono) auto

lemma length_comma_tail: "length (comma_tail f vs) = sum_list (map (\<lambda>v. Suc (length (f v))) vs)"
  by (induction vs) simp_all

lemma length_join_comma: "Suc (length (join_comma (map f vs))) \<ge> sum_list (map (\<lambda>v. Suc (length (f v))) vs)"
  by (cases vs) (simp_all only: join_comma_Cons length_append length_comma_tail, simp_all)

lemma json_need_le: "json_need j \<le> 2 * length (plain_json j)"
proof (induction j)
  case (JInt i)
  then show ?case using show_nat_nonempty [of "nat i"] show_nat_nonempty [of "nat (- i)"]
    by (cases "show_nat (nat i)"; cases "show_nat (nat (- i))") (auto simp: show_int_def)
next
  case (JStr s)
  then show ?case by (simp add: json_string_def)
next
  case (JList vs)
  have "sum_list (map (\<lambda>v. Suc (json_need v)) vs) \<le> sum_list (map (\<lambda>v. 2 * Suc (length (plain_json v))) vs)"
    by (rule need_le_sum_list) (use JList in fastforce)
  also have "\<dots> = 2 * sum_list (map (\<lambda>v. Suc (length (plain_json v))) vs)"
    by (simp only: sum_list_const_mult)
  also have "\<dots> \<le> 2 * Suc (length (join_comma (map plain_json vs)))"
    using length_join_comma [of plain_json vs] by simp
  finally show ?case by simp
next
  case (JObj kvs)
  let ?f = "\<lambda>(k, v). json_string k @ '':'' @ plain_json v"
  have "sum_list (map (\<lambda>(k, v). Suc (json_need v)) kvs) \<le> sum_list (map (\<lambda>kv. 2 * Suc (length (?f kv))) kvs)"
  proof (rule need_le_sum_list)
    fix kv assume "kv \<in> set kvs"
    then have "json_need (snd kv) \<le> 2 * length (plain_json (snd kv))" using JObj by (cases kv) (auto simp: snds.simps)
    then show "(case kv of (k, v) \<Rightarrow> Suc (json_need v)) \<le> 2 * Suc (length (?f kv))" by (cases kv) simp
  qed
  also have "\<dots> = 2 * sum_list (map (\<lambda>kv. Suc (length (?f kv))) kvs)" by (simp only: sum_list_const_mult)
  also have "\<dots> \<le> 2 * Suc (length (join_comma (map ?f kvs)))" using length_join_comma [of ?f kvs] by simp
  finally show ?case by simp
qed (auto split: if_splits)

lemma hd_not_space: "skip_space (plain_json j @ x) = plain_json j @ x"
proof (rule skip_space_id, cases j)
  case (JInt i)
  then show "plain_json j @ x = [] \<or> \<not> json_space (hd (plain_json j @ x))"
    using hd_show_nat_digit [of "nat i" x] show_nat_nonempty [of "nat i"]
    by (auto simp: show_int_def is_digit_def json_space_def)
qed (auto simp: json_string_def json_space_def)

definition reads_back :: "json \<Rightarrow> bool" where
  "reads_back j \<longleftrightarrow> (\<forall>n r. json_need j \<le> n \<longrightarrow> closes r \<longrightarrow> parse_value n (plain_json j @ r) = Some (j, r))"

lemma parse_items_plain:
  assumes "\<forall>v \<in> set (v # vs). reads_back v" "sum_list (map (\<lambda>v. Suc (json_need v)) (v # vs)) \<le> n"
  shows "parse_items n (plain_json v @ comma_tail plain_json vs @ CHR '']'' # r) = Some (v # vs, r)"
  using assms
proof (induction vs arbitrary: v n)
  case Nil
  then obtain m where n: "n = Suc m" by (cases n) auto
  have "parse_value m (plain_json v @ CHR '']'' # r) = Some (v, CHR '']'' # r)"
    using Nil n unfolding reads_back_def by simp
  then show ?case using n by (simp add: closes_no_space)
next
  case (Cons w ws)
  then obtain m where n: "n = Suc m" by (cases n) auto
  let ?t = "comma_tail plain_json (w # ws) @ CHR '']'' # r"
  have "closes ?t" by simp
  moreover have "json_need v \<le> m" using Cons.prems(2) n by simp
  ultimately have v: "parse_value m (plain_json v @ ?t) = Some (v, ?t)"
    using Cons.prems(1) unfolding reads_back_def by (metis list.set_intros(1))
  have "parse_items m (plain_json w @ comma_tail plain_json ws @ CHR '']'' # r) = Some (w # ws, r)"
    by (rule Cons.IH) (use Cons.prems n in auto)
  then show ?case unfolding n parse_items.simps v
    by (simp add: closes_no_space hd_not_space)
qed

lemma colon_not_space: "skip_space (CHR '':'' # z) = CHR '':'' # z"
  by (simp add: skip_space_def json_space_def)

lemma parse_member_step:
  assumes "parse_value m (plain_json v @ t) = Some (v, t)" "closes t"
  shows "parse_members (Suc m) (json_string k @ '':'' @ plain_json v @ t) = (case t of
        [] \<Rightarrow> None
      | c # r \<Rightarrow> if c = CHR ''}'' then Some ([(k, v)], r)
          else if c = CHR '','' then map_option (\<lambda>(kvs, r'). ((k, v) # kvs, r')) (parse_members m (skip_space r))
          else None)"
proof -
  have f: "json_string k @ '':'' @ plain_json v @ t
      = CHR 0x22 # concat (map json_escape k) @ CHR 0x22 # CHR '':'' # plain_json v @ t"
    by (simp add: json_string_def)
  show ?thesis
    unfolding f parse_members.simps list.case scan_string_json option.case prod.case colon_not_space
      hd_not_space assms(1) closes_no_space [OF assms(2)] by (simp cong: list.case_cong)
qed

lemma parse_members_plain:
  fixes f :: "string \<times> json \<Rightarrow> string"
  defines "f \<equiv> \<lambda>(k, v). json_string k @ '':'' @ plain_json v"
  assumes "\<forall>(k, v) \<in> set (kv # kvs). reads_back v" "sum_list (map (\<lambda>(k, v). Suc (json_need v)) (kv # kvs)) \<le> n"
  shows "parse_members n (f kv @ comma_tail f kvs @ CHR ''}'' # r) = Some (kv # kvs, r)"
  using assms(2,3)
proof (induction kvs arbitrary: kv n)
  case Nil
  then obtain m where n: "n = Suc m" by (cases n) auto
  obtain k v where kv: "kv = (k, v)" by (cases kv)
  have v: "parse_value m (plain_json v @ CHR ''}'' # r) = Some (v, CHR ''}'' # r)"
    using Nil n kv unfolding reads_back_def by simp
  show ?case using parse_member_step [OF v, of k] by (simp add: f_def kv n del: parse_members.simps)
next
  case (Cons kw kws)
  then obtain m where n: "n = Suc m" by (cases n) auto
  obtain k v where kv: "kv = (k, v)" by (cases kv)
  let ?u = "f kw @ comma_tail f kws @ CHR ''}'' # r"
  have "closes (CHR '','' # ?u)" by simp
  moreover have "json_need v \<le> m" using Cons.prems(2) n kv by simp
  moreover have "reads_back v" using Cons.prems(1) kv by simp
  ultimately have v: "parse_value m (plain_json v @ CHR '','' # ?u) = Some (v, CHR '','' # ?u)"
    unfolding reads_back_def by blast
  have IH: "parse_members m ?u = Some (kw # kws, r)"
    by (rule Cons.IH) (use Cons.prems n in auto)
  have u: "skip_space ?u = ?u" by (rule skip_space_id) (cases kw, simp add: f_def json_string_def json_space_def)
  have "f kv @ comma_tail f (kw # kws) @ CHR ''}'' # r = json_string k @ '':'' @ plain_json v @ CHR '','' # ?u"
    by (simp add: f_def kv)
  then show ?case using parse_member_step [OF v, of k] IH u
    by (simp add: n kv del: parse_members.simps)
qed

lemma reads_back_all: "reads_back j"
proof (induction j)
  case JNull
  show ?case unfolding reads_back_def
    by (intro allI impI, case_tac n) (auto simp: strip_prefix_def)
next
  case (JBool b)
  show ?case unfolding reads_back_def
    by (intro allI impI, case_tac n) (auto simp: strip_prefix_def)
next
  case (JInt i)
  show ?case unfolding reads_back_def
  proof (intro allI impI)
    fix n r assume n: "json_need (JInt i) \<le> n" and r: "closes r"
    obtain m where m: "n = Suc m" using n by (cases n) auto
    have k: "kind_of_char (hd (plain_json (JInt i) @ r)) = 3" using kind_of_hd [of "JInt i" r] by simp
    obtain c s where c: "plain_json (JInt i) @ r = c # s" using hd_plain_json [of "JInt i" r] by (cases "plain_json (JInt i) @ r") auto
    have "scan_int (c # s) = Some (i, r)" using scan_int_show [OF closes_undigit [OF r], of i] c by simp
    then show "parse_value n (plain_json (JInt i) @ r) = Some (JInt i, r)"
      using k unfolding c m by (simp add: kind_of_char_def split: if_splits)
  qed
next
  case (JStr s)
  show ?case unfolding reads_back_def
  proof (intro allI impI)
    fix n r assume "json_need (JStr s) \<le> n"
    then obtain m where m: "n = Suc m" by (cases n) auto
    then show "parse_value n (plain_json (JStr s) @ r) = Some (JStr s, r)"
      by (simp add: json_string_def scan_string_json)
  qed
next
  case (JList vs)
  show ?case unfolding reads_back_def
  proof (intro allI impI)
    fix n r assume n: "json_need (JList vs) \<le> n"
    then obtain m where m: "n = Suc m" by (cases n) auto
    show "parse_value n (plain_json (JList vs) @ r) = Some (JList vs, r)"
    proof (cases vs)
      case Nil
      then show ?thesis by (simp add: m skip_space_def json_space_def)
    next
      case (Cons w ws)
      let ?t = "plain_json w @ comma_tail plain_json ws @ CHR '']'' # r"
      have "parse_items m ?t = Some (w # ws, r)"
        by (rule parse_items_plain) (use JList Cons n m in auto)
      moreover have "plain_json (JList vs) @ r = CHR ''['' # ?t"
        by (simp only: plain_json.simps Cons join_comma_Cons) simp
      moreover have "?t \<noteq> []" "hd ?t \<noteq> CHR '']''" using hd_plain_json by blast+
      ultimately show ?thesis by (simp add: m hd_not_space Cons)
    qed
  qed
next
  case (JObj kvs)
  let ?f = "\<lambda>(k, v). json_string k @ '':'' @ plain_json v"
  have rb: "\<forall>(k, v) \<in> set kvs. reads_back v" using JObj by (auto intro: snds.intros)
  show ?case unfolding reads_back_def
  proof (intro allI impI)
    fix n r assume n: "json_need (JObj kvs) \<le> n"
    then obtain m where m: "n = Suc m" by (cases n) auto
    show "parse_value n (plain_json (JObj kvs) @ r) = Some (JObj kvs, r)"
    proof (cases kvs)
      case Nil
      then show ?thesis by (simp add: m skip_space_def json_space_def)
    next
      case (Cons kw kws)
      let ?t = "?f kw @ comma_tail ?f kws @ CHR ''}'' # r"
      have "parse_members m ?t = Some (kw # kws, r)"
        by (rule parse_members_plain) (use rb Cons n m in auto)
      moreover have "plain_json (JObj kvs) @ r = CHR ''{'' # ?t"
        by (simp only: plain_json.simps Cons join_comma_Cons) simp
      moreover obtain y where "?t = CHR 0x22 # y" by (cases kw) (simp add: json_string_def)
      ultimately show ?thesis by (simp add: m Cons skip_space_def json_space_def)
    qed
  qed
qed

lemma parse_pairs_plain: "parse_pairs (plain_json j) = Some j"
proof -
  have "skip_space (plain_json j) = plain_json j" using hd_not_space [of j "[]"] by simp
  moreover have "parse_value (2 * length (plain_json j) + 2) (plain_json j @ []) = Some (j, [])"
    using reads_back_all [of j] json_need_le [of j] unfolding reads_back_def
    by (metis closes_simps(4) trans_le_add1)
  ultimately show ?thesis by (simp add: parse_pairs_def skip_space_def del: parse_value.simps)
qed

lemma fold_update_pairs:
  assumes "distinct (map fst kvs)" "set (map fst kvs) \<inter> fst ` set d = {}"
  shows "fold (\<lambda>(k, v) d. AList.update k v d) kvs d = d @ kvs"
  using assms
proof (induction kvs arbitrary: d)
  case (Cons kv kvs)
  obtain k v where kv: "kv = (k, v)" by (cases kv)
  have "AList.update k v d = d @ [(k, v)]" using Cons.prems kv by (induction d) auto
  then show ?case using Cons kv by auto
qed simp

lemma json_dicts_unique: "distinct_keys j \<Longrightarrow> json_dicts j = j"
proof (induction j)
  case (JList vs)
  then have "map json_dicts vs = vs" by (intro map_idI) (auto simp: list_all_iff)
  then show ?case by simp
next
  case (JObj kvs)
  then have "map (\<lambda>(k, v). (k, json_dicts v)) kvs = kvs"
    by (intro map_idI) (force simp: list_all_iff snds.simps)
  then show ?case using JObj.prems fold_update_pairs [of kvs "[]"] by simp
qed simp_all

lemma sort_key_fst_mset: "mset (map fst (sort_key fst kvs)) = mset (map fst kvs)"
  by simp

lemma unique_keys_norm [simp]: "distinct_keys (json_norm j) = distinct_keys j"
proof (induction j)
  case (JList vs)
  then show ?case by (auto simp: list_all_iff)
next
  case (JObj kvs)
  let ?n = "map (\<lambda>(k, v). (k, json_norm v)) kvs"
  have "mset (map fst (sort_key fst ?n)) = mset (map fst kvs)"
    by (simp add: image_mset.compositionality comp_def case_prod_unfold)
  then have "distinct (map fst (sort_key fst ?n)) = distinct (map fst kvs)"
    by (rule mset_eq_imp_distinct_iff)
  moreover have "(\<forall>(k, v) \<in> set ?n. distinct_keys v) = (\<forall>(k, v) \<in> set kvs. distinct_keys v)"
    using JObj by (auto simp: snds.simps)
  ultimately show ?case by (simp add: list_all_iff)
qed simp_all

lemma parse_pairs_canonical: "parse_pairs (canonical_json j) = Some (json_norm j)"
  by (simp add: canonical_json_plain parse_pairs_plain)

lemma json_loads_canonical: "distinct_keys j \<Longrightarrow> json_loads (canonical_json j) = Some (json_norm j)"
  by (simp add: json_loads_def parse_pairs_canonical json_dicts_unique)

lemma json_loads_unique_canonical:
  "distinct_keys j \<Longrightarrow> json_loads_unique (canonical_json j) = Some (json_norm j)"
  by (simp add: json_loads_unique_def parse_pairs_canonical json_dicts_unique)

lemma sort_key_fst_sorted_id: "sorted (map fst kvs) \<Longrightarrow> sort_key fst kvs = kvs"
  by (rule sort_key_id_if_sorted)

lemma json_norm_idem [simp]: "json_norm (json_norm j) = json_norm j"
proof (induction j)
  case (JList vs)
  then show ?case by simp
next
  case (JObj kvs)
  let ?n = "sort_key fst (map (\<lambda>(k, v). (k, json_norm v)) kvs)"
  have "map (\<lambda>(k, v). (k, json_norm v)) ?n = ?n"
  proof (rule map_idI)
    fix x assume "x \<in> set ?n"
    then show "(case x of (k, v) \<Rightarrow> (k, json_norm v)) = x" using JObj by (auto simp: snds.simps)
  qed
  moreover have "sort_key fst ?n = ?n" by (rule sort_key_id_if_sorted) simp
  ultimately show ?case by simp
qed simp_all

lemma canonical_json_norm [simp]: "canonical_json (json_norm j) = canonical_json j"
  by (simp only: canonical_json_plain json_norm_idem)

end
