(* ===== verification/Gateway.thy ===== *)
theory Gateway
  imports Gateway_Adapter Json_Parse
begin

text \<open>
  \<^verbatim>\<open>mcp_gateway/gateway.py\<close>: the capability gateway. Its state is the coordination state of the
  process; the adapter and the durable store are parameters with states of their own. Each tool is an action on
  the adapter's state that computes the next gateway state; \<open>invoke_locked\<close> wraps it in the refresh from the
  store, the capability check, the replay of a repeated call, the evidence and the restoration after a
  failure. The two clock readings that a call may make are arguments.
\<close>

section \<open>State\<close>

type_synonym idem_key = "string \<times> tool_name \<times> string"

record gateway_state =
  gs_runs :: "(string \<times> agent_run) list"
  gs_questions :: "(string \<times> question_record) list"
  gs_approvals :: "(string \<times> approval_request_record) list"
  gs_receipts :: "(string \<times> approval_receipt) list"
  gs_previews :: "(string \<times> patch_preview) list"
  gs_reports :: "(string \<times> gw_report) list"
  gs_idempotency :: "(idem_key \<times> string \<times> tool_result) list"
  gs_evidence :: "evidence_record list"

definition empty_gateway :: gateway_state where
  "empty_gateway = \<lparr>gs_runs = [], gs_questions = [], gs_approvals = [], gs_receipts = [],
     gs_previews = [], gs_reports = [], gs_idempotency = [], gs_evidence = []\<rparr>"

record gateway_config =
  gc_max_parallel_agents_limit :: "int option"
  gc_token_budget_limit :: "int option"

definition config_check :: "gateway_config \<Rightarrow> unit result" where
  "config_check c = raise_first
     [(case gc_max_parallel_agents_limit c of None \<Rightarrow> False | Some n \<Rightarrow> n < 1,
        ValueError ''max_parallel_agents_limit must be a positive integer or None''),
      (case gc_token_budget_limit c of None \<Rightarrow> False | Some n \<Rightarrow> n < 1,
        ValueError ''token_budget_limit must be a positive integer or None'')]"

definition gw_now :: "datetime \<Rightarrow> nat result" where
  "gw_now t = (if \<not> is_aware t then Inl (InvalidRequest ''gateway clock must return a timezone-aware timestamp'')
     else if in_datetime_range (instant t) then Inr (nat (instant t)) else Inl OverflowError)"

definition put_run :: "agent_run \<Rightarrow> gateway_state \<Rightarrow> gateway_state" where
  "put_run r g = g\<lparr>gs_runs := AList.update (ar_run_id r) r (gs_runs g)\<rparr>"

definition put_question :: "question_record \<Rightarrow> gateway_state \<Rightarrow> gateway_state" where
  "put_question q g = g\<lparr>gs_questions := AList.update (qr_question_id q) q (gs_questions g)\<rparr>"

definition put_approval :: "approval_request_record \<Rightarrow> gateway_state \<Rightarrow> gateway_state" where
  "put_approval a g = g\<lparr>gs_approvals := AList.update (ap_approval_id a) a (gs_approvals g)\<rparr>"

definition put_receipt :: "approval_receipt \<Rightarrow> gateway_state \<Rightarrow> gateway_state" where
  "put_receipt r g = g\<lparr>gs_receipts := AList.update (rc_receipt_id r) r (gs_receipts g)\<rparr>"

definition put_preview :: "patch_preview \<Rightarrow> gateway_state \<Rightarrow> gateway_state" where
  "put_preview p g = g\<lparr>gs_previews := AList.update (pw_preview_digest p) p (gs_previews g)\<rparr>"

definition put_report :: "gw_report \<Rightarrow> gateway_state \<Rightarrow> gateway_state" where
  "put_report r g = g\<lparr>gs_reports := AList.update (vr_report_digest r) r (gs_reports g)\<rparr>"

lemmas put_defs = put_run_def put_question_def put_approval_def put_receipt_def put_preview_def put_report_def

section \<open>Helpers of the tools\<close>

definition find_run :: "gateway_state \<Rightarrow> string \<Rightarrow> agent_run result" where
  "find_run g rid = (case map_of (gs_runs g) rid of
     None \<Rightarrow> Inl (NotFound ''run not found'') | Some r \<Rightarrow> Inr r)"

definition get_receipt :: "gateway_state \<Rightarrow> string \<Rightarrow> approval_receipt result" where
  "get_receipt g i = (case map_of (gs_receipts g) i of
     None \<Rightarrow> Inl (NotFound ''approval receipt not found'') | Some r \<Rightarrow> Inr r)"

definition require_run_preconditions ::
  "'a kicad_adapter \<Rightarrow> gateway_state \<Rightarrow> run_fields \<Rightarrow> ('a, agent_run) action" where
  "require_run_preconditions ad g f =
     bind_a (op_inspect_project ad (rf_project_id f) (Some (rf_expected_project_revision f))) (\<lambda>_.
     lift_a (bind_r (find_run g (rf_run_id f)) (\<lambda>run.
       bind_r (raise_first
         [(ar_project_id run \<noteq> rf_project_id f, InvalidRequest ''run belongs to a different project''),
          (ar_project_revision run \<noteq> rf_expected_project_revision f,
            RevisionConflict ''run is pinned to another project revision''),
          (ar_run_revision run \<noteq> rf_expected_run_revision f, RevisionConflict ''run revision mismatch'')])
       (\<lambda>_. Inr run))))"

definition gw_open_blocking_questions :: "gateway_state \<Rightarrow> agent_run \<Rightarrow> question_record list result" where
  "gw_open_blocking_questions g run =
     bind_r (map_r (\<lambda>i. case map_of (gs_questions g) i of None \<Rightarrow> Inl KeyError | Some q \<Rightarrow> Inr q)
       (ar_question_ids run)) (\<lambda>qs.
     Inr (filter (\<lambda>q. qr_blocking q \<and> qr_answer q = None) qs))"

definition require_approved_receipt ::
  "gateway_state \<Rightarrow> string \<Rightarrow> agent_run \<Rightarrow> gw_approval_kind \<Rightarrow> string \<Rightarrow> approval_receipt result" where
  "require_approved_receipt g receipt_id run kind subject =
     (case map_of (gs_receipts g) receipt_id of
        None \<Rightarrow> Inl (ApprovalRequired ''approval receipt not found'')
      | Some r \<Rightarrow>
          if rc_run_id r \<noteq> ar_run_id run \<or> rc_kind r \<noteq> kind \<or> rc_subject_digest r \<noteq> subject
            \<or> rc_decision r \<noteq> Decision_APPROVED
          then Inl (ApprovalRequired ''approval receipt does not authorize this exact digest and action'')
          else Inr r)"

definition require_human :: "invocation \<Rightarrow> unit result" where
  "require_human iv = raise_first
     [(pr_actor_kind (inv_principal iv) \<noteq> Actor_USER, CapabilityDenied ''only an authenticated user may decide'')]"

definition gw_release_subject ::
  "(byte list \<Rightarrow> byte list) \<Rightarrow> string \<Rightarrow> string \<Rightarrow> string \<Rightarrow> string \<Rightarrow> string" where
  "gw_release_subject h rid project_revision staged_revision report_digest = stable_digest h (JObj
     [(''kind'', JStr (gw_approval_kind_value Approve_RELEASE)), (''run_id'', JStr rid),
      (''project_revision'', JStr project_revision), (''staged_revision'', JStr staged_revision),
      (''verification_report_digest'', JStr report_digest)])"

definition gateway_id ::
  "(byte list \<Rightarrow> byte list) \<Rightarrow> string \<Rightarrow> tool_name \<Rightarrow> invocation \<Rightarrow> string \<Rightarrow> string" where
  "gateway_id h pre tool iv discriminator = pre @ ''_'' @ take 32 (stable_digest h (JObj
     [(''tool'', JStr (tool_value tool)), (''actor'', JStr (pr_actor_id (inv_principal iv))),
      (''idempotency_key'', JStr (inv_idempotency_key iv)), (''discriminator'', JStr discriminator)]))"

section \<open>The tools\<close>

text \<open>What a tool returns: the next gateway state, the payload, the project revision for the evidence.\<close>

type_synonym outcome = "gateway_state \<times> json \<times> string"

definition inspect_project ::
  "'a kicad_adapter \<Rightarrow> string \<Rightarrow> string option \<Rightarrow> gateway_state \<Rightarrow> ('a, outcome) action" where
  "inspect_project ad pid expected g =
     bind_a (op_inspect_project ad pid expected) (\<lambda>s.
     lift_a (Inr (g, JObj [(''snapshot'', project_snapshot_json s)], ps_project_revision s)))"

definition new_question ::
  "(byte list \<Rightarrow> byte list) \<Rightarrow> string \<Rightarrow> nat \<Rightarrow> question_spec \<Rightarrow> question_record" where
  "new_question h rid index spec =
     \<lparr>qr_question_id = ''question_'' @ take 32 (stable_digest h (JObj
        [(''run'', JStr rid), (''index'', JInt (int index)), (''spec'', question_spec_json spec)])),
      qr_run_id = rid, qr_prompt = qs_prompt spec, qr_rationale = qs_rationale spec,
      qr_blocking = qs_blocking spec, qr_options = qs_options spec,
      qr_answer = None, qr_answered_by = None, qr_answered_at = None\<rparr>"

definition host_limit :: "int option \<Rightarrow> int option \<Rightarrow> string \<Rightarrow> int option result" where
  "host_limit limit v label = (case limit of
     None \<Rightarrow> Inr v
   | Some m \<Rightarrow> (case v of None \<Rightarrow> Inr (Some m)
       | Some n \<Rightarrow> if m < n then Inl (InvalidRequest label) else Inr (Some n)))"

definition create_agent_run ::
  "(byte list \<Rightarrow> byte list) \<Rightarrow> gateway_config \<Rightarrow> 'a kicad_adapter \<Rightarrow> invocation \<Rightarrow> create_agent_run_request
     \<Rightarrow> gateway_state \<Rightarrow> ('a, outcome) action" where
  "create_agent_run h cfg ad iv req g =
     bind_a (op_inspect_project ad (cr_project_id req) (Some (cr_expected_project_revision req))) (\<lambda>_. lift_a (
     let rid = gateway_id h ''run'' Tool_CREATE_AGENT_RUN iv (cr_project_id req) in
     bind_r (raise_first [(map_of (gs_runs g) rid \<noteq> None, InvalidRequest ''run already exists'')]) (\<lambda>_.
     let qs = map (\<lambda>(i, spec). new_question h rid i spec) (enumerate 0 (cr_initial_questions req));
       g1 = fold put_question qs g in
     bind_r (host_limit (gc_max_parallel_agents_limit cfg) (cr_max_parallel_agents req)
       ''max_parallel_agents exceeds the trusted host limit'') (\<lambda>agents.
     bind_r (host_limit (gc_token_budget_limit cfg) (cr_token_budget req)
       ''token_budget exceeds the trusted host limit'') (\<lambda>tokens.
     let run = \<lparr>ar_run_id = rid, ar_project_id = cr_project_id req, ar_objective = cr_objective req,
         ar_project_revision = cr_expected_project_revision req, ar_run_revision = 0,
         ar_state = (if list_ex qr_blocking qs then State_CLARIFYING else State_PLANNING),
         ar_strict_user_coordination = True, ar_max_parallel_agents = agents, ar_token_budget = tokens,
         ar_question_ids = map qr_question_id qs, ar_approval_ids = [], ar_staged_revision = None,
         ar_verification_report_digest = None\<rparr> in
     Inr (put_run run g1,
          JObj [(''run'', agent_run_json run), (''questions'', JList (map question_record_json qs))],
          ar_project_revision run))))))"

definition gw_answer_question ::
  "'a kicad_adapter \<Rightarrow> invocation \<Rightarrow> answer_question_request \<Rightarrow> datetime \<Rightarrow> gateway_state \<Rightarrow> ('a, outcome) action" where
  "gw_answer_question ad iv req t g =
     bind_a (lift_a (require_human iv)) (\<lambda>_.
     bind_a (require_run_preconditions ad g (aq_run req)) (\<lambda>run. lift_a (
     bind_r (case map_of (gs_questions g) (aq_question_id req) of
        None \<Rightarrow> Inl (NotFound ''question not found'') | Some q \<Rightarrow> Inr q) (\<lambda>q.
     bind_r (raise_first
       [(qr_run_id q \<noteq> ar_run_id run, InvalidRequest ''question belongs to a different run''),
        (qr_answer q \<noteq> None, CoordinationRequired ''question has already been answered''),
        (qr_options q \<noteq> [] \<and> aq_answer req \<notin> set (qr_options q),
          InvalidRequest ''answer must exactly match a declared option'')]) (\<lambda>_.
     bind_r (gw_now t) (\<lambda>now.
     let answered = q\<lparr>qr_answer := Some (aq_answer req),
           qr_answered_by := Some (pr_actor_id (inv_principal iv)), qr_answered_at := Some now\<rparr>;
       g1 = put_question answered g in
     bind_r (gw_open_blocking_questions g1 run) (\<lambda>remaining.
     let updated = run\<lparr>ar_run_revision := ar_run_revision run + 1,
           ar_state := (if remaining \<noteq> [] then State_CLARIFYING else State_PLANNING)\<rparr> in
     Inr (put_run updated g1,
          JObj [(''question'', question_record_json answered), (''run'', agent_run_json updated),
            (''open_blocking_question_ids'', jstrings (map qr_question_id remaining))],
          ar_project_revision run))))))))"

definition make_receipt ::
  "(byte list \<Rightarrow> byte list) \<Rightarrow> invocation \<Rightarrow> approval_request_record \<Rightarrow> string \<Rightarrow> gw_decision \<Rightarrow> nat \<Rightarrow> string
     \<Rightarrow> approval_receipt" where
  "make_receipt h iv a rid decision at reason =
     (let r = \<lparr>rc_receipt_id = ''receipt_'' @ take 32 (stable_digest h (JObj
          [(''approval'', JStr (ap_approval_id a)), (''decision'', JStr (gw_decision_value decision)),
           (''actor'', JStr (pr_actor_id (inv_principal iv))), (''key'', JStr (inv_idempotency_key iv))])),
        rc_approval_id = ap_approval_id a, rc_run_id = rid, rc_kind = ap_kind a,
        rc_subject_digest = ap_subject_digest a, rc_decision = decision,
        rc_decided_by = pr_actor_id (inv_principal iv), rc_decided_at = at, rc_reason = reason,
        rc_receipt_digest = []\<rparr> in
      r\<lparr>rc_receipt_digest := stable_digest h (JObj (receipt_material r))\<rparr>)"

definition gw_decide_approval ::
  "(byte list \<Rightarrow> byte list) \<Rightarrow> 'a kicad_adapter \<Rightarrow> invocation \<Rightarrow> decide_approval_request \<Rightarrow> datetime
     \<Rightarrow> gateway_state \<Rightarrow> ('a, outcome) action" where
  "gw_decide_approval h ad iv req t g =
     bind_a (lift_a (require_human iv)) (\<lambda>_.
     bind_a (require_run_preconditions ad g (da_run req)) (\<lambda>run. lift_a (
     bind_r (case map_of (gs_approvals g) (da_approval_id req) of
        None \<Rightarrow> Inl (NotFound ''approval not found'') | Some a \<Rightarrow> Inr a) (\<lambda>a.
     bind_r (raise_first
       [(ap_run_id a \<noteq> ar_run_id run, InvalidRequest ''approval belongs to a different run''),
        (ap_decision a \<noteq> Decision_PENDING, CoordinationRequired ''approval has already been decided'')]) (\<lambda>_.
     bind_r (gw_now t) (\<lambda>now.
     let decision = (if da_approve req then Decision_APPROVED else Decision_REJECTED);
       receipt = make_receipt h iv a (ar_run_id run) decision now (da_reason req);
       g1 = put_receipt receipt (put_approval (a\<lparr>ap_decision := decision\<rparr>) g);
       next_state = (if decision = Decision_REJECTED
         then (if ap_kind a = Approve_STAGE then State_PLANNING else State_STAGED) else ar_state run);
       updated = run\<lparr>ar_run_revision := ar_run_revision run + 1, ar_state := next_state\<rparr> in
     Inr (put_run updated g1,
          JObj [(''receipt'', approval_receipt_json receipt), (''run'', agent_run_json updated)],
          ar_project_revision run)))))))"

definition stage_approval_id :: "(byte list \<Rightarrow> byte list) \<Rightarrow> string \<Rightarrow> string \<Rightarrow> string" where
  "stage_approval_id h rid preview = ''approval_'' @ take 32 (stable_digest h (JObj
     [(''run'', JStr rid), (''kind'', JStr ''stage''), (''preview'', JStr preview)]))"

definition preview_patch ::
  "(byte list \<Rightarrow> byte list) \<Rightarrow> 'a kicad_adapter \<Rightarrow> preview_patch_request \<Rightarrow> datetime
     \<Rightarrow> gateway_state \<Rightarrow> ('a, outcome) action" where
  "preview_patch h ad req t g =
     bind_a (require_run_preconditions ad g (pv_run req)) (\<lambda>run.
     bind_a (lift_a (bind_r (gw_open_blocking_questions g run) (\<lambda>qs. raise_first
       [(qs \<noteq> [], CoordinationRequired ''all blocking questions must be answered before preview''),
        (ar_state run \<noteq> State_PLANNING, CoordinationRequired ''patch preview is not allowed in this state'')]))) (\<lambda>_.
     bind_a (op_preview_patch ad (rf_project_id (pv_run req)) (rf_expected_project_revision (pv_run req))
       (pv_patch req)) (\<lambda>preview. lift_a (
     let approval_id = stage_approval_id h (ar_run_id run) (pw_preview_digest preview) in
     bind_r (raise_first [(case map_of (gs_approvals g) approval_id of
           None \<Rightarrow> False | Some a \<Rightarrow> ap_decision a = Decision_REJECTED,
         CoordinationRequired ''this exact preview was rejected; revise the patch before requesting approval again'')]) (\<lambda>_.
     bind_r (gw_now t) (\<lambda>now.
     let approval = \<lparr>ap_approval_id = approval_id, ap_run_id = ar_run_id run, ap_kind = Approve_STAGE,
           ap_subject_digest = pw_preview_digest preview,
           ap_summary = ''Stage '' @ show_nat (length (dp_operations (pv_patch req))) @ '' typed design operations'',
           ap_decision = Decision_PENDING, ap_requested_at = now\<rparr>;
       updated = run\<lparr>ar_run_revision := ar_run_revision run + 1, ar_state := State_AWAITING_STAGE_APPROVAL,
           ar_approval_ids := ar_approval_ids run @ [approval_id]\<rparr> in
     Inr (put_run updated (put_approval approval (put_preview preview g)),
          JObj [(''preview'', patch_preview_json preview), (''approval'', approval_request_json approval),
            (''run'', agent_run_json updated)],
          ar_project_revision run)))))))"

definition stage_design_patch ::
  "(byte list \<Rightarrow> byte list) \<Rightarrow> 'a kicad_adapter \<Rightarrow> stage_design_patch_request
     \<Rightarrow> gateway_state \<Rightarrow> ('a, outcome) action" where
  "stage_design_patch h ad req g =
     bind_a (require_run_preconditions ad g (sp_run req)) (\<lambda>run.
     bind_a (lift_a (raise_first
       [(ar_state run \<noteq> State_AWAITING_STAGE_APPROVAL, CoordinationRequired ''run is not awaiting an approved stage''),
        (case map_of (gs_previews g) (sp_preview_digest req) of
           None \<Rightarrow> True | Some p \<Rightarrow> pw_patch_digest p \<noteq> patch_digest h (sp_patch req),
         RevisionConflict ''preview does not match this exact patch'')])) (\<lambda>_.
     bind_a (lift_a (require_approved_receipt g (sp_approval_receipt_id req) run Approve_STAGE
       (sp_preview_digest req))) (\<lambda>_.
     bind_a (op_stage_patch ad (rf_project_id (sp_run req)) (rf_expected_project_revision (sp_run req))
       (sp_patch req) (sp_preview_digest req)) (\<lambda>stage. lift_a (
     let updated = run\<lparr>ar_run_revision := ar_run_revision run + 1, ar_state := State_STAGED,
           ar_staged_revision := Some (sr_staged_revision stage)\<rparr> in
     Inr (put_run updated g,
          JObj [(''stage'', stage_record_json stage), (''run'', agent_run_json updated)],
          ar_project_revision run))))))"

definition release_approval_id :: "(byte list \<Rightarrow> byte list) \<Rightarrow> string \<Rightarrow> string \<Rightarrow> string" where
  "release_approval_id h rid subject = ''approval_'' @ take 32 (stable_digest h (JObj
     [(''run'', JStr rid), (''kind'', JStr ''release''), (''subject'', JStr subject)]))"

definition gw_release_approval ::
  "(byte list \<Rightarrow> byte list) \<Rightarrow> agent_run \<Rightarrow> run_verification_request \<Rightarrow> gw_report \<Rightarrow> datetime \<Rightarrow> gateway_state
     \<Rightarrow> approval_request_record result" where
  "gw_release_approval h run req report t g =
     (let subject = gw_release_subject h (ar_run_id run) (rf_expected_project_revision (rv_run req))
           (rv_expected_staged_revision req) (vr_report_digest report);
        approval_id = release_approval_id h (ar_run_id run) subject in
      bind_r (raise_first [(case map_of (gs_approvals g) approval_id of
           None \<Rightarrow> False | Some a \<Rightarrow> ap_decision a = Decision_REJECTED,
         CoordinationRequired ''release was rejected for this exact verified stage; revise or roll back the stage'')]) (\<lambda>_.
      bind_r (gw_now t) (\<lambda>now.
      Inr \<lparr>ap_approval_id = approval_id, ap_run_id = ar_run_id run, ap_kind = Approve_RELEASE,
        ap_subject_digest = subject,
        ap_summary = ''Commit the exact staged revision after deterministic verification'',
        ap_decision = Decision_PENDING, ap_requested_at = now\<rparr>)))"

definition gw_run_verification ::
  "(byte list \<Rightarrow> byte list) \<Rightarrow> 'a kicad_adapter \<Rightarrow> run_verification_request \<Rightarrow> datetime
     \<Rightarrow> gateway_state \<Rightarrow> ('a, outcome) action" where
  "gw_run_verification h ad req t g =
     bind_a (require_run_preconditions ad g (rv_run req)) (\<lambda>run.
     bind_a (lift_a (raise_first
       [(ar_state run \<noteq> State_STAGED, CoordinationRequired ''run must have an exact staged revision''),
        (ar_staged_revision run \<noteq> Some (rv_expected_staged_revision req),
          RevisionConflict ''run staged revision does not match precondition'')])) (\<lambda>_.
     bind_a (op_run_verification ad (rf_project_id (rv_run req)) (rf_expected_project_revision (rv_run req))
       (rv_expected_staged_revision req)) (\<lambda>report. lift_a (
     bind_r (if vr_passed report then bind_r (gw_release_approval h run req report t g) (\<lambda>a. Inr (Some a))
       else Inr None) (\<lambda>approval.
     let g1 = (case approval of None \<Rightarrow> g | Some a \<Rightarrow> put_approval a g);
       updated = run\<lparr>ar_run_revision := ar_run_revision run + 1,
           ar_state := (case approval of None \<Rightarrow> State_STAGED | Some _ \<Rightarrow> State_AWAITING_RELEASE_APPROVAL),
           ar_verification_report_digest := Some (vr_report_digest report),
           ar_approval_ids := ar_approval_ids run @ (case approval of None \<Rightarrow> [] | Some a \<Rightarrow> [ap_approval_id a])\<rparr> in
     Inr (put_run updated (put_report report g1),
          JObj [(''report'', gw_report_json report),
            (''approval'', case approval of None \<Rightarrow> JNull | Some a \<Rightarrow> approval_request_json a),
            (''run'', agent_run_json updated)],
          ar_project_revision run))))))"

definition commit_on_adapter ::
  "'a kicad_adapter \<Rightarrow> commit_transaction_request \<Rightarrow> agent_run \<Rightarrow> gw_report \<Rightarrow> approval_receipt \<Rightarrow> ('a, string) action" where
  "commit_on_adapter ad req run report receipt =
     (let pid = rf_project_id (ct_run req); base = rf_expected_project_revision (ct_run req);
        staged = ct_expected_staged_revision req in
      case op_commit_with_evidence ad of
        Some f \<Rightarrow> f pid base staged run report receipt
      | None \<Rightarrow> op_commit ad pid base staged)"

definition commit_transaction ::
  "(byte list \<Rightarrow> byte list) \<Rightarrow> 'a kicad_adapter \<Rightarrow> commit_transaction_request
     \<Rightarrow> gateway_state \<Rightarrow> ('a, outcome) action" where
  "commit_transaction h ad req g =
     bind_a (require_run_preconditions ad g (ct_run req)) (\<lambda>run.
     bind_a (lift_a (raise_first
       [(ar_state run \<noteq> State_AWAITING_RELEASE_APPROVAL, CoordinationRequired ''run is not awaiting release approval''),
        (ar_staged_revision run \<noteq> Some (ct_expected_staged_revision req),
          RevisionConflict ''run staged revision does not match precondition'')])) (\<lambda>_.
     bind_a (lift_a (case map_of (gs_reports g) (ct_verification_report_digest req) of
         None \<Rightarrow> Inl (VerificationFailed ''a passing deterministic report is required'')
       | Some report \<Rightarrow> bind_r (raise_first
          [(\<not> vr_passed report, VerificationFailed ''a passing deterministic report is required''),
           (vr_base_revision report \<noteq> rf_expected_project_revision (ct_run req)
              \<or> vr_staged_revision report \<noteq> ct_expected_staged_revision req,
            VerificationFailed ''verification report is for another revision'')]) (\<lambda>_. Inr report))) (\<lambda>report.
     bind_a (lift_a (require_approved_receipt g (ct_approval_receipt_id req) run Approve_RELEASE
       (gw_release_subject h (ar_run_id run) (rf_expected_project_revision (ct_run req))
          (ct_expected_staged_revision req) (ct_verification_report_digest req)))) (\<lambda>receipt.
     bind_a (commit_on_adapter ad req run report receipt) (\<lambda>new_revision. lift_a (
     let updated = run\<lparr>ar_project_revision := new_revision, ar_run_revision := ar_run_revision run + 1,
           ar_state := State_COMPLETE\<rparr> in
     Inr (put_run updated g,
          JObj [(''committed_revision'', JStr new_revision),
            (''approval_receipt_digest'', JStr (rc_receipt_digest receipt)),
            (''verification_report_digest'', JStr (vr_report_digest report)),
            (''run'', agent_run_json updated)],
          new_revision)))))))"

definition rollback_transaction ::
  "'a kicad_adapter \<Rightarrow> rollback_transaction_request \<Rightarrow> gateway_state \<Rightarrow> ('a, outcome) action" where
  "rollback_transaction ad req g =
     bind_a (require_run_preconditions ad g (rb_run req)) (\<lambda>run.
     bind_a (lift_a (raise_first
       [(ar_staged_revision run \<noteq> Some (rb_expected_staged_revision req),
          RevisionConflict ''run staged revision does not match precondition''),
        (ar_state run \<notin> {State_STAGED, State_AWAITING_RELEASE_APPROVAL},
          CoordinationRequired ''run has no rollback-eligible stage'')])) (\<lambda>_.
     bind_a (op_rollback ad (rf_project_id (rb_run req)) (rf_expected_project_revision (rb_run req))
       (rb_expected_staged_revision req)) (\<lambda>current. lift_a (
     let updated = run\<lparr>ar_run_revision := ar_run_revision run + 1, ar_state := State_ROLLED_BACK\<rparr> in
     Inr (put_run updated g,
          JObj [(''rolled_back_staged_revision'', JStr (rb_expected_staged_revision req)),
            (''current_project_revision'', JStr current), (''reason'', JStr (rb_reason req)),
            (''run'', agent_run_json updated)],
          current)))))"

definition export_project ::
  "'a kicad_adapter \<Rightarrow> string \<Rightarrow> string \<Rightarrow> export_format \<Rightarrow> gateway_state \<Rightarrow> ('a, outcome) action" where
  "export_project ad pid expected f g =
     bind_a (op_export_project ad pid expected f) (\<lambda>artifact.
     lift_a (Inr (g, JObj [(''artifact'', export_artifact_json artifact)], ea_project_revision artifact)))"

fun perform ::
  "(byte list \<Rightarrow> byte list) \<Rightarrow> gateway_config \<Rightarrow> 'a kicad_adapter \<Rightarrow> invocation \<Rightarrow> datetime \<Rightarrow> gateway_state
     \<Rightarrow> gw_request \<Rightarrow> ('a, outcome) action" where
  "perform h cfg ad iv t g (InspectProject p r) = inspect_project ad p r g"
| "perform h cfg ad iv t g (CreateAgentRun r) = create_agent_run h cfg ad iv r g"
| "perform h cfg ad iv t g (AnswerQuestion r) = gw_answer_question ad iv r t g"
| "perform h cfg ad iv t g (DecideApproval r) = gw_decide_approval h ad iv r t g"
| "perform h cfg ad iv t g (PreviewPatch r) = preview_patch h ad r t g"
| "perform h cfg ad iv t g (StageDesignPatch r) = stage_design_patch h ad r g"
| "perform h cfg ad iv t g (RunVerification r) = gw_run_verification h ad r t g"
| "perform h cfg ad iv t g (CommitTransaction r) = commit_transaction h ad r g"
| "perform h cfg ad iv t g (RollbackTransaction r) = rollback_transaction ad r g"
| "perform h cfg ad iv t g (ExportProject p r f) = export_project ad p r f g"

section \<open>Snapshots\<close>

record idempotency_record =
  ir_actor_id :: string
  ir_tool_name :: tool_name
  ir_idempotency_key :: string
  ir_input_digest :: string
  ir_result :: tool_result

record gateway_snapshot =
  sn_runs :: "agent_run list"
  sn_questions :: "question_record list"
  sn_approvals :: "approval_request_record list"
  sn_receipts :: "approval_receipt list"
  sn_previews :: "patch_preview list"
  sn_reports :: "gw_report list"
  sn_idempotency :: "idempotency_record list"
  sn_evidence :: "evidence_record list"

definition idempotency_key_of :: "idempotency_record \<Rightarrow> idem_key" where
  "idempotency_key_of i = (ir_actor_id i, ir_tool_name i, ir_idempotency_key i)"

definition snapshot_check :: "gateway_snapshot \<Rightarrow> unit result" where
  "snapshot_check s = raise_first
     [(\<not> distinct (map ar_run_id (sn_runs s)), StateIntegrityError ''duplicate run identity''),
      (\<not> distinct (map qr_question_id (sn_questions s)), StateIntegrityError ''duplicate question identity''),
      (\<not> distinct (map ap_approval_id (sn_approvals s)), StateIntegrityError ''duplicate approval identity''),
      (\<not> distinct (map rc_receipt_id (sn_receipts s)), StateIntegrityError ''duplicate receipt identity''),
      (\<not> distinct (map pw_preview_digest (sn_previews s)), StateIntegrityError ''duplicate preview identity''),
      (\<not> distinct (map vr_report_digest (sn_reports s)), StateIntegrityError ''duplicate report identity''),
      (\<not> distinct (map er_evidence_id (sn_evidence s)), StateIntegrityError ''duplicate evidence identity''),
      (\<not> distinct (map idempotency_key_of (sn_idempotency s)),
        StateIntegrityError ''duplicate idempotency identity'')]"

definition take_snapshot :: "gateway_state \<Rightarrow> gateway_snapshot" where
  "take_snapshot g =
     \<lparr>sn_runs = dict_values (gs_runs g), sn_questions = dict_values (gs_questions g),
      sn_approvals = dict_values (gs_approvals g), sn_receipts = dict_values (gs_receipts g),
      sn_previews = dict_values (gs_previews g), sn_reports = dict_values (gs_reports g),
      sn_idempotency = map (\<lambda>((actor, tool, key), digest, res).
         \<lparr>ir_actor_id = actor, ir_tool_name = tool, ir_idempotency_key = key,
          ir_input_digest = digest, ir_result = res\<rparr>) (gs_idempotency g),
      sn_evidence = gs_evidence g\<rparr>"

definition snapshot_state :: "gateway_snapshot \<Rightarrow> gateway_state" where
  "snapshot_state s =
     \<lparr>gs_runs = dict_of ar_run_id (sn_runs s), gs_questions = dict_of qr_question_id (sn_questions s),
      gs_approvals = dict_of ap_approval_id (sn_approvals s), gs_receipts = dict_of rc_receipt_id (sn_receipts s),
      gs_previews = dict_of pw_preview_digest (sn_previews s), gs_reports = dict_of vr_report_digest (sn_reports s),
      gs_idempotency = fold (\<lambda>i d. AList.update (idempotency_key_of i) (ir_input_digest i, ir_result i) d)
        (sn_idempotency s) [],
      gs_evidence = sn_evidence s\<rparr>"

definition manifest_mismatch :: "(byte list \<Rightarrow> byte list) \<Rightarrow> idempotency_record \<Rightarrow> bool" where
  "manifest_mismatch h i = (let expected = manifest_digest h (manifest_of (ir_tool_name i)) in
     tr_tool_name (ir_result i) \<noteq> ir_tool_name i \<or> tr_manifest_digest (ir_result i) \<noteq> expected
     \<or> er_manifest_digest (tr_evidence (ir_result i)) \<noteq> expected)"

definition missing_references :: "gateway_state \<Rightarrow> bool" where
  "missing_references g \<longleftrightarrow>
     list_ex (\<lambda>r. list_ex (\<lambda>q. map_of (gs_questions g) q = None) (ar_question_ids r)) (dict_values (gs_runs g))
     \<or> list_ex (\<lambda>r. list_ex (\<lambda>a. map_of (gs_approvals g) a = None) (ar_approval_ids r)) (dict_values (gs_runs g))"

text \<open>The references are tested after the state has been replaced.\<close>

definition install_snapshot ::
  "(byte list \<Rightarrow> byte list) \<Rightarrow> gateway_snapshot \<Rightarrow> (gateway_state, unit) action" where
  "install_snapshot h s g =
     (if list_ex (manifest_mismatch h) (sn_idempotency s)
      then (g, Inl (InvalidRequest ''durable idempotency evidence does not match this tool manifest''))
      else let g' = snapshot_state s in
        (g', if missing_references g'
          then Inl (InvalidRequest ''durable run references missing coordination records'') else Inr ()))"

section \<open>The durable store and the process\<close>

record 's gateway_store =
  st_load :: "('s, nat \<times> gateway_snapshot) action"
  st_save :: "gateway_snapshot \<Rightarrow> nat \<Rightarrow> ('s, nat \<times> gateway_snapshot) action"

record gateway_process =
  gp_state :: gateway_state
  gp_generation :: nat

definition refresh_persisted ::
  "(byte list \<Rightarrow> byte list) \<Rightarrow> 's gateway_store option \<Rightarrow> ('s \<times> gateway_process, unit) action" where
  "refresh_persisted h store w = (case w of (s, p) \<Rightarrow> (case store of
     None \<Rightarrow> ((s, p), Inr ())
   | Some st \<Rightarrow> (case st_load st s of
        (s', Inl e) \<Rightarrow> ((s', p), Inl e)
      | (s', Inr (generation, snapshot)) \<Rightarrow>
          if generation < gp_generation p
          then ((s', p), Inl (InvalidRequest ''durable gateway state moved backwards''))
          else if gp_generation p < generation then
            (case install_snapshot h snapshot (gp_state p) of
               (g', Inl e) \<Rightarrow> ((s', p\<lparr>gp_state := g'\<rparr>), Inl e)
             | (g', Inr _) \<Rightarrow> ((s', \<lparr>gp_state = g', gp_generation = generation\<rparr>), Inr ()))
          else ((s', p), Inr ()))))"

text \<open>\<^verbatim>\<open>__init__\<close> with a store installs what the store holds.\<close>

definition start_gateway ::
  "(byte list \<Rightarrow> byte list) \<Rightarrow> 's gateway_store option \<Rightarrow> ('s, gateway_process) action" where
  "start_gateway h store s = (case store of
     None \<Rightarrow> (s, Inr \<lparr>gp_state = empty_gateway, gp_generation = 0\<rparr>)
   | Some st \<Rightarrow> (case st_load st s of
        (s', Inl e) \<Rightarrow> (s', Inl e)
      | (s', Inr (generation, snapshot)) \<Rightarrow> (case install_snapshot h snapshot empty_gateway of
           (_, Inl e) \<Rightarrow> (s', Inl e)
         | (g', Inr _) \<Rightarrow> (s', Inr \<lparr>gp_state = g', gp_generation = generation\<rparr>))))"

section \<open>Invocation\<close>

definition tool_result_check :: "tool_result \<Rightarrow> unit result" where
  "tool_result_check t = (case json_loads (tr_payload_json t) of
     None \<Rightarrow> Inl (ValueError ''payload is not JSON'')
   | Some j \<Rightarrow> raise_first [(canonical_json j \<noteq> tr_payload_json t,
       InvalidRequest ''tool payload must be canonical JSON'')])"

definition make_evidence ::
  "(byte list \<Rightarrow> byte list) \<Rightarrow> invocation \<Rightarrow> gw_request \<Rightarrow> nat \<Rightarrow> json \<Rightarrow> string \<Rightarrow> evidence_record" where
  "make_evidence h iv req at payload revision =
     (let input_digest = stable_digest h (request_json req); output_digest = stable_digest h payload in
      \<lparr>er_evidence_id = ''evidence_'' @ take 32 (stable_digest h (JObj
          [(''actor'', JStr (pr_actor_id (inv_principal iv))), (''tool'', JStr (tool_value (request_tool req))),
           (''key'', JStr (inv_idempotency_key iv)), (''input'', JStr input_digest),
           (''output'', JStr output_digest)])),
       er_tool_name = request_tool req, er_actor_id = pr_actor_id (inv_principal iv),
       er_project_id = request_project_id req, er_project_revision = revision,
       er_input_digest = input_digest, er_output_digest = output_digest, er_captured_at = at,
       er_manifest_digest = manifest_digest h (manifest_of (request_tool req))\<rparr>)"

definition gw_make_result ::
  "(byte list \<Rightarrow> byte list) \<Rightarrow> invocation \<Rightarrow> gw_request \<Rightarrow> nat \<Rightarrow> json \<Rightarrow> string \<Rightarrow> tool_result result" where
  "gw_make_result h iv req at payload revision = validated tool_result_check
     \<lparr>tr_tool_name = request_tool req, tr_payload_json = canonical_json payload,
      tr_evidence = make_evidence h iv req at payload revision,
      tr_manifest_digest = manifest_digest h (manifest_of (request_tool req))\<rparr>"

definition call_key :: "invocation \<Rightarrow> gw_request \<Rightarrow> idem_key" where
  "call_key iv req = (pr_actor_id (inv_principal iv), request_tool req, inv_idempotency_key iv)"

definition record_result ::
  "(byte list \<Rightarrow> byte list) \<Rightarrow> invocation \<Rightarrow> gw_request \<Rightarrow> tool_result \<Rightarrow> gateway_state \<Rightarrow> gateway_state" where
  "record_result h iv req res g =
     g\<lparr>gs_idempotency := AList.update (call_key iv req) (stable_digest h (request_json req), res) (gs_idempotency g),
       gs_evidence := gs_evidence g @ [tr_evidence res]\<rparr>"

definition save_state ::
  "'s gateway_store option \<Rightarrow> gateway_state \<Rightarrow> nat \<Rightarrow> ('s, nat) action" where
  "save_state store g generation = (case store of
     None \<Rightarrow> lift_a (Inr generation)
   | Some st \<Rightarrow> bind_a (lift_a (validated snapshot_check (take_snapshot g))) (\<lambda>snap.
       bind_a (st_save st snap generation) (\<lambda>(generation', _). lift_a (Inr generation'))))"

text \<open>The body of the \<^verbatim>\<open>try\<close>: the action, the result, the two appends, the save.\<close>

definition attempt ::
  "(byte list \<Rightarrow> byte list) \<Rightarrow> gateway_config \<Rightarrow> 'a kicad_adapter \<Rightarrow> 's gateway_store option \<Rightarrow> invocation
     \<Rightarrow> gw_request \<Rightarrow> nat \<Rightarrow> datetime \<Rightarrow> gateway_process \<Rightarrow> ('a \<times> 's, gateway_process \<times> tool_result) action" where
  "attempt h cfg ad store iv req at t p w = (case w of (a, s) \<Rightarrow>
     (case perform h cfg ad iv t (gp_state p) req a of
        (a', Inl e) \<Rightarrow> ((a', s), Inl e)
      | (a', Inr (g', payload, revision)) \<Rightarrow>
          (case gw_make_result h iv req at payload revision of
             Inl e \<Rightarrow> ((a', s), Inl e)
           | Inr res \<Rightarrow>
               let g'' = record_result h iv req res g' in
               (case save_state store g'' (gp_generation p) s of
                  (s', Inl e) \<Rightarrow> ((a', s'), Inl e)
                | (s', Inr generation) \<Rightarrow>
                    ((a', s'), Inr (\<lparr>gp_state = g'', gp_generation = generation\<rparr>, res))))))"

record ('a, 's) gateway_world =
  ww_adapter :: 'a
  ww_store :: 's
  ww_process :: gateway_process

text \<open>
  What remains after a failed attempt: the adapter and the store as the attempt left them, the process
  from the snapshot taken before it. Installing a snapshot replaces every field, so what the tool had written
  before it raised is lost; the tools therefore return no state when they raise. (An installation that finds a
  result of another manifest raises before it replaces anything; results that the process recorded itself have the right manifest.)
\<close>

definition restore ::
  "(byte list \<Rightarrow> byte list) \<Rightarrow> gateway_snapshot \<Rightarrow> gateway_process \<Rightarrow> err \<Rightarrow> (gateway_process, tool_result) action" where
  "restore h snap before e p = (case install_snapshot h snap (gp_state p) of
     (g', Inl e') \<Rightarrow> (p\<lparr>gp_state := g'\<rparr>, Inl e')
   | (g', Inr _) \<Rightarrow> (\<lparr>gp_state = g', gp_generation = gp_generation before\<rparr>, Inl e))"

definition invoke_locked ::
  "(byte list \<Rightarrow> byte list) \<Rightarrow> gateway_config \<Rightarrow> 'a kicad_adapter \<Rightarrow> 's gateway_store option \<Rightarrow> datetime \<Rightarrow> datetime
     \<Rightarrow> invocation \<Rightarrow> gw_request \<Rightarrow> (('a, 's) gateway_world, tool_result) action" where
  "invoke_locked h cfg ad store t0 t1 iv req w =
     (case refresh_persisted h store (ww_store w, ww_process w) of
        ((s, p), Inl e) \<Rightarrow> (w\<lparr>ww_store := s, ww_process := p\<rparr>, Inl e)
      | ((s, p), Inr _) \<Rightarrow>
         let w1 = w\<lparr>ww_store := s, ww_process := p\<rparr>; tool = request_tool req in
         if tier_value (maximum_tier (pr_profile (inv_principal iv))) < tier_value (tm_required_tier (manifest_of tool))
         then (w1, Inl (CapabilityDenied ''profile cannot invoke this tool''))
         else (case map_of (gs_idempotency (gp_state p)) (call_key iv req) of
            Some (previous_digest, res) \<Rightarrow>
              (w1, if previous_digest \<noteq> stable_digest h (request_json req)
                 then Inl (IdempotencyConflict ''idempotency key was already used with different canonical input'')
                 else Inr res)
          | None \<Rightarrow>
             (case gw_now t0 of Inl e \<Rightarrow> (w1, Inl e) | Inr at \<Rightarrow>
             (case validated snapshot_check (take_snapshot (gp_state p)) of Inl e \<Rightarrow> (w1, Inl e) | Inr snap \<Rightarrow>
             (case attempt h cfg ad store iv req at t1 p (ww_adapter w, s) of
                ((a', s'), Inr (p', res)) \<Rightarrow> (\<lparr>ww_adapter = a', ww_store = s', ww_process = p'\<rparr>, Inr res)
              | ((a', s'), Inl e) \<Rightarrow>
                  (case restore h snap p e p of
                     (p', r) \<Rightarrow> (\<lparr>ww_adapter = a', ww_store = s', ww_process = p'\<rparr>, r)))))))"

end
