(* ===== verification/Gateway_Effects.thy ===== *)
theory Gateway_Effects
  imports Gateway
begin

text \<open>
  What each tool of the gateway does when it succeeds, as one fact per tool, and the well-formedness of
  the coordination state: dictionaries keyed by the identity of their records, recorded results that
  carry the manifest of their tool, and runs whose questions and approvals exist. Every tool keeps it; in
  such a state taking and installing a snapshot gives the state back.
\<close>

section \<open>Success of each tool\<close>

lemmas ok_simps = bind_a_Inr bind_a_lift_Inr bind_r_Inr_iff raise_first_Inr_iff

lemma require_run_preconditions_Inr:
  assumes "require_run_preconditions ad g f a = (a', Inr run)"
  shows "map_of (gs_runs g) (rf_run_id f) = Some run \<and> ar_project_id run = rf_project_id f
    \<and> ar_project_revision run = rf_expected_project_revision f \<and> ar_run_revision run = rf_expected_run_revision f
    \<and> (\<exists>s. op_inspect_project ad (rf_project_id f) (Some (rf_expected_project_revision f)) a = (a', Inr s))"
  using assms
  by (auto simp: require_run_preconditions_def find_run_def ok_simps simp del: raise_first.simps split: option.splits)

lemma require_human_Inr [simp]: "require_human iv = Inr u \<longleftrightarrow> pr_actor_kind (inv_principal iv) = Actor_USER"
  by (auto simp: require_human_def raise_first_Inr_iff)

lemma require_approved_receipt_Inr:
  "require_approved_receipt g i run k d = Inr r \<longleftrightarrow>
     map_of (gs_receipts g) i = Some r \<and> rc_run_id r = ar_run_id run \<and> rc_kind r = k
     \<and> rc_subject_digest r = d \<and> rc_decision r = Decision_APPROVED"
  by (auto simp: require_approved_receipt_def simp del: raise_first.simps split: option.splits)

lemma create_agent_run_Inr:
  assumes "create_agent_run h cfg ad iv req g a = (a', Inr (g', pl, rv))"
  obtains qs run where
    "map_of (gs_runs g) (ar_run_id run) = None"
    "ar_run_id run = gateway_id h ''run'' Tool_CREATE_AGENT_RUN iv (cr_project_id req)"
    "g' = put_run run (fold put_question qs g)"
    "ar_question_ids run = map qr_question_id qs" "ar_approval_ids run = []" "ar_run_revision run = 0"
    "ar_staged_revision run = None" "ar_project_id run = cr_project_id req"
    "host_limit (gc_max_parallel_agents_limit cfg) (cr_max_parallel_agents req)
       ''max_parallel_agents exceeds the trusted host limit'' = Inr (ar_max_parallel_agents run)"
    "host_limit (gc_token_budget_limit cfg) (cr_token_budget req)
       ''token_budget exceeds the trusted host limit'' = Inr (ar_token_budget run)"
    "ar_state run = (if list_ex qr_blocking qs then State_CLARIFYING else State_PLANNING)"
    "\<forall>q \<in> set qs. qr_answer q = None \<and> qr_run_id q = ar_run_id run"
    "pl = JObj [(''run'', agent_run_json run), (''questions'', JList (map question_record_json qs))]"
    "\<exists>s. op_inspect_project ad (cr_project_id req) (Some (cr_expected_project_revision req)) a = (a', Inr s)"
proof -
  let ?rid = "gateway_id h ''run'' Tool_CREATE_AGENT_RUN iv (cr_project_id req)"
  let ?qs = "map (\<lambda>(i, spec). new_question h ?rid i spec) (enumerate 0 (cr_initial_questions req))"
  have q: "\<forall>q \<in> set ?qs. qr_answer q = None \<and> qr_run_id q = ?rid" by (auto simp: new_question_def)
  from assms obtain s agents tokens where s: "op_inspect_project ad (cr_project_id req)
       (Some (cr_expected_project_revision req)) a = (a', Inr s)" "map_of (gs_runs g) ?rid = None"
    "host_limit (gc_max_parallel_agents_limit cfg) (cr_max_parallel_agents req)
       ''max_parallel_agents exceeds the trusted host limit'' = Inr agents"
    "host_limit (gc_token_budget_limit cfg) (cr_token_budget req)
       ''token_budget exceeds the trusted host limit'' = Inr tokens"
    by (auto simp: create_agent_run_def Let_def ok_simps simp del: raise_first.simps)
  define run where "run = \<lparr>ar_run_id = ?rid, ar_project_id = cr_project_id req, ar_objective = cr_objective req,
         ar_project_revision = cr_expected_project_revision req, ar_run_revision = 0,
         ar_state = (if list_ex qr_blocking ?qs then State_CLARIFYING else State_PLANNING),
         ar_strict_user_coordination = True, ar_max_parallel_agents = agents, ar_token_budget = tokens,
         ar_question_ids = map qr_question_id ?qs, ar_approval_ids = [], ar_staged_revision = None,
         ar_verification_report_digest = None\<rparr>"
  have g': "g' = put_run run (fold put_question ?qs g)"
    "pl = JObj [(''run'', agent_run_json run), (''questions'', JList (map question_record_json ?qs))]"
    using assms s by (auto simp: create_agent_run_def Let_def ok_simps run_def simp del: raise_first.simps)
  show ?thesis
    by (rule that [of run ?qs]) (use s q g' in \<open>auto simp: run_def\<close>)
qed

lemma gw_answer_question_Inr:
  assumes "gw_answer_question ad iv req t g a = (a', Inr (g', pl, rv))"
  obtains run q now rem where
    "pr_actor_kind (inv_principal iv) = Actor_USER"
    "require_run_preconditions ad g (aq_run req) a = (a', Inr run)"
    "map_of (gs_questions g) (aq_question_id req) = Some q" "qr_run_id q = ar_run_id run" "qr_answer q = None"
    "qr_options q = [] \<or> aq_answer req \<in> set (qr_options q)" "gw_now t = Inr now"
    "g' = put_run (run\<lparr>ar_run_revision := ar_run_revision run + 1,
           ar_state := (if rem \<noteq> [] then State_CLARIFYING else State_PLANNING)\<rparr>)
         (put_question (q\<lparr>qr_answer := Some (aq_answer req),
           qr_answered_by := Some (pr_actor_id (inv_principal iv)), qr_answered_at := Some now\<rparr>) g)"
    "gw_open_blocking_questions (put_question (q\<lparr>qr_answer := Some (aq_answer req),
           qr_answered_by := Some (pr_actor_id (inv_principal iv)), qr_answered_at := Some now\<rparr>) g) run = Inr rem"
proof -
  from assms show ?thesis unfolding gw_answer_question_def Let_def
    by (clarsimp simp: ok_simps simp del: raise_first.simps split: option.splits)
      (rule that; (assumption | simp | blast))
qed

lemma gw_decide_approval_Inr:
  assumes "gw_decide_approval h ad iv req t g a = (a', Inr (g', pl, rv))"
  obtains run ap now d where
    "pr_actor_kind (inv_principal iv) = Actor_USER"
    "require_run_preconditions ad g (da_run req) a = (a', Inr run)"
    "map_of (gs_approvals g) (da_approval_id req) = Some ap" "ap_run_id ap = ar_run_id run"
    "ap_decision ap = Decision_PENDING" "gw_now t = Inr now"
    "d = (if da_approve req then Decision_APPROVED else Decision_REJECTED)"
    "g' = put_run (run\<lparr>ar_run_revision := ar_run_revision run + 1,
           ar_state := (if d = Decision_REJECTED
             then (if ap_kind ap = Approve_STAGE then State_PLANNING else State_STAGED) else ar_state run)\<rparr>)
         (put_receipt (make_receipt h iv ap (ar_run_id run) d now (da_reason req))
           (put_approval (ap\<lparr>ap_decision := d\<rparr>) g))"
    "\<exists>run'. pl = JObj [(''receipt'', approval_receipt_json (make_receipt h iv ap (ar_run_id run) d now (da_reason req))),
        (''run'', agent_run_json run')]"
  using assms
  by (fastforce simp: gw_decide_approval_def Let_def ok_simps simp del: raise_first.simps split: option.splits)

lemma preview_patch_Inr:
  assumes "preview_patch h ad req t g a = (a', Inr (g', pl, rv))"
  obtains run a1 pw now ap where
    "require_run_preconditions ad g (pv_run req) a = (a1, Inr run)"
    "gw_open_blocking_questions g run = Inr []" "ar_state run = State_PLANNING"
    "op_preview_patch ad (rf_project_id (pv_run req)) (rf_expected_project_revision (pv_run req)) (pv_patch req) a1
       = (a', Inr pw)"
    "gw_now t = Inr now" "ap_approval_id ap = stage_approval_id h (ar_run_id run) (pw_preview_digest pw)"
    "ap_run_id ap = ar_run_id run" "ap_kind ap = Approve_STAGE" "ap_subject_digest ap = pw_preview_digest pw"
    "ap_decision ap = Decision_PENDING"
    "\<forall>old. map_of (gs_approvals g) (ap_approval_id ap) = Some old \<longrightarrow> ap_decision old \<noteq> Decision_REJECTED"
    "g' = put_run (run\<lparr>ar_run_revision := ar_run_revision run + 1, ar_state := State_AWAITING_STAGE_APPROVAL,
           ar_approval_ids := ar_approval_ids run @ [ap_approval_id ap]\<rparr>) (put_approval ap (put_preview pw g))"
    "\<exists>run'. pl = JObj [(''preview'', patch_preview_json pw), (''approval'', approval_request_json ap),
        (''run'', agent_run_json run')]"
proof -
  from assms obtain run a1 pw now where r:
    "require_run_preconditions ad g (pv_run req) a = (a1, Inr run)"
    "gw_open_blocking_questions g run = Inr []" "ar_state run = State_PLANNING"
    "op_preview_patch ad (rf_project_id (pv_run req)) (rf_expected_project_revision (pv_run req)) (pv_patch req) a1
       = (a', Inr pw)"
    "gw_now t = Inr now"
    "\<forall>old. map_of (gs_approvals g) (stage_approval_id h (ar_run_id run) (pw_preview_digest pw)) = Some old
       \<longrightarrow> ap_decision old \<noteq> Decision_REJECTED"
    by (auto simp: preview_patch_def Let_def ok_simps simp del: raise_first.simps split: option.splits)
  define ap where "ap = \<lparr>ap_approval_id = stage_approval_id h (ar_run_id run) (pw_preview_digest pw),
     ap_run_id = ar_run_id run, ap_kind = Approve_STAGE, ap_subject_digest = pw_preview_digest pw,
     ap_summary = ''Stage '' @ show_nat (length (dp_operations (pv_patch req))) @ '' typed design operations'',
     ap_decision = Decision_PENDING, ap_requested_at = now\<rparr>"
  from assms r have "g' = put_run (run\<lparr>ar_run_revision := ar_run_revision run + 1,
           ar_state := State_AWAITING_STAGE_APPROVAL,
           ar_approval_ids := ar_approval_ids run @ [ap_approval_id ap]\<rparr>) (put_approval ap (put_preview pw g))"
    "\<exists>run'. pl = JObj [(''preview'', patch_preview_json pw), (''approval'', approval_request_json ap),
        (''run'', agent_run_json run')]"
    by (auto simp: preview_patch_def Let_def ok_simps ap_def simp del: raise_first.simps split: option.splits)
  with r show ?thesis by (intro that [of a1 run pw now ap]) (auto simp: ap_def)
qed

lemma stage_design_patch_Inr:
  assumes "stage_design_patch h ad req g a = (a', Inr (g', pl, rv))"
  obtains run a1 pw rc st where
    "require_run_preconditions ad g (sp_run req) a = (a1, Inr run)"
    "ar_state run = State_AWAITING_STAGE_APPROVAL"
    "map_of (gs_previews g) (sp_preview_digest req) = Some pw" "pw_patch_digest pw = patch_digest h (sp_patch req)"
    "map_of (gs_receipts g) (sp_approval_receipt_id req) = Some rc" "rc_run_id rc = ar_run_id run"
    "rc_kind rc = Approve_STAGE" "rc_subject_digest rc = sp_preview_digest req" "rc_decision rc = Decision_APPROVED"
    "op_stage_patch ad (rf_project_id (sp_run req)) (rf_expected_project_revision (sp_run req))
       (sp_patch req) (sp_preview_digest req) a1 = (a', Inr st)"
    "g' = put_run (run\<lparr>ar_run_revision := ar_run_revision run + 1, ar_state := State_STAGED,
           ar_staged_revision := Some (sr_staged_revision st)\<rparr>) g"
    "\<exists>run'. pl = JObj [(''stage'', stage_record_json st), (''run'', agent_run_json run')]"
  using assms
  by (fastforce simp: stage_design_patch_def Let_def ok_simps require_approved_receipt_Inr simp del: raise_first.simps split: option.splits)

lemma gw_release_approval_Inr:
  assumes "gw_release_approval h run req rep t g = Inr ap"
  shows "ap_run_id ap = ar_run_id run \<and> ap_kind ap = Approve_RELEASE \<and> ap_decision ap = Decision_PENDING
    \<and> ap_subject_digest ap = gw_release_subject h (ar_run_id run) (rf_expected_project_revision (rv_run req))
         (rv_expected_staged_revision req) (vr_report_digest rep)
    \<and> ap_approval_id ap = release_approval_id h (ar_run_id run) (ap_subject_digest ap)
    \<and> (\<forall>old. map_of (gs_approvals g) (ap_approval_id ap) = Some old \<longrightarrow> ap_decision old \<noteq> Decision_REJECTED)"
  using assms by (auto simp: gw_release_approval_def Let_def ok_simps simp del: raise_first.simps split: option.splits)

lemma gw_run_verification_Inr:
  assumes "gw_run_verification h ad req t g a = (a', Inr (g', pl, rv))"
  obtains run a1 rep ap where
    "require_run_preconditions ad g (rv_run req) a = (a1, Inr run)"
    "ar_state run = State_STAGED" "ar_staged_revision run = Some (rv_expected_staged_revision req)"
    "op_run_verification ad (rf_project_id (rv_run req)) (rf_expected_project_revision (rv_run req))
       (rv_expected_staged_revision req) a1 = (a', Inr rep)"
    "ap \<noteq> None \<longleftrightarrow> vr_passed rep"
    "\<forall>x. ap = Some x \<longrightarrow> gw_release_approval h run req rep t g = Inr x"
    "g' = put_run (run\<lparr>ar_run_revision := ar_run_revision run + 1,
           ar_state := (case ap of None \<Rightarrow> State_STAGED | Some _ \<Rightarrow> State_AWAITING_RELEASE_APPROVAL),
           ar_verification_report_digest := Some (vr_report_digest rep),
           ar_approval_ids := ar_approval_ids run @ (case ap of None \<Rightarrow> [] | Some x \<Rightarrow> [ap_approval_id x])\<rparr>)
         (put_report rep (case ap of None \<Rightarrow> g | Some x \<Rightarrow> put_approval x g))"
    "\<exists>rest. pl = JObj ((''report'', gw_report_json rep) # rest)"
proof -
  from assms obtain run a1 rep ap where r:
    "require_run_preconditions ad g (rv_run req) a = (a1, Inr run)"
    "ar_state run = State_STAGED" "ar_staged_revision run = Some (rv_expected_staged_revision req)"
    "op_run_verification ad (rf_project_id (rv_run req)) (rf_expected_project_revision (rv_run req))
       (rv_expected_staged_revision req) a1 = (a', Inr rep)"
    "(if vr_passed rep then bind_r (gw_release_approval h run req rep t g) (\<lambda>a. Inr (Some a)) else Inr None) = Inr ap"
    by (fastforce simp: gw_run_verification_def Let_def ok_simps simp del: raise_first.simps)
  have g': "g' = put_run (run\<lparr>ar_run_revision := ar_run_revision run + 1,
           ar_state := (case ap of None \<Rightarrow> State_STAGED | Some _ \<Rightarrow> State_AWAITING_RELEASE_APPROVAL),
           ar_verification_report_digest := Some (vr_report_digest rep),
           ar_approval_ids := ar_approval_ids run @ (case ap of None \<Rightarrow> [] | Some x \<Rightarrow> [ap_approval_id x])\<rparr>)
         (put_report rep (case ap of None \<Rightarrow> g | Some x \<Rightarrow> put_approval x g))"
    "\<exists>rest. pl = JObj ((''report'', gw_report_json rep) # rest)"
    using assms unfolding gw_run_verification_def Let_def bind_a_def r prod.case sum.case r(5) bind_r_simps
    by (auto simp: r lift_a_def)
  from r(5) have "ap \<noteq> None \<longleftrightarrow> vr_passed rep" "\<forall>x. ap = Some x \<longrightarrow> gw_release_approval h run req rep t g = Inr x"
    by (auto simp: bind_r_Inr_iff split: if_splits)
  with r g' show ?thesis by (intro that [of a1 run rep ap]) auto
qed

lemma commit_transaction_Inr:
  assumes "commit_transaction h ad req g a = (a', Inr (g', pl, rv))"
  obtains run a1 rep rc where
    "require_run_preconditions ad g (ct_run req) a = (a1, Inr run)"
    "ar_state run = State_AWAITING_RELEASE_APPROVAL"
    "ar_staged_revision run = Some (ct_expected_staged_revision req)"
    "map_of (gs_reports g) (ct_verification_report_digest req) = Some rep" "vr_passed rep"
    "vr_base_revision rep = rf_expected_project_revision (ct_run req)"
    "vr_staged_revision rep = ct_expected_staged_revision req"
    "map_of (gs_receipts g) (ct_approval_receipt_id req) = Some rc" "rc_run_id rc = ar_run_id run"
    "rc_kind rc = Approve_RELEASE" "rc_decision rc = Decision_APPROVED"
    "rc_subject_digest rc = gw_release_subject h (ar_run_id run) (rf_expected_project_revision (ct_run req))
       (ct_expected_staged_revision req) (ct_verification_report_digest req)"
    "commit_on_adapter ad req run rep rc a1 = (a', Inr rv)"
    "g' = put_run (run\<lparr>ar_project_revision := rv, ar_run_revision := ar_run_revision run + 1,
           ar_state := State_COMPLETE\<rparr>) g"
    "\<exists>rest. pl = JObj ((''committed_revision'', JStr rv) # rest)"
  using assms
  by (fastforce simp: commit_transaction_def Let_def ok_simps require_approved_receipt_Inr simp del: raise_first.simps split: option.splits)

lemma rollback_transaction_Inr:
  assumes "rollback_transaction ad req g a = (a', Inr (g', pl, rv))"
  obtains run a1 where
    "require_run_preconditions ad g (rb_run req) a = (a1, Inr run)"
    "ar_staged_revision run = Some (rb_expected_staged_revision req)"
    "ar_state run \<in> {State_STAGED, State_AWAITING_RELEASE_APPROVAL}"
    "op_rollback ad (rf_project_id (rb_run req)) (rf_expected_project_revision (rb_run req))
       (rb_expected_staged_revision req) a1 = (a', Inr rv)"
    "g' = put_run (run\<lparr>ar_run_revision := ar_run_revision run + 1, ar_state := State_ROLLED_BACK\<rparr>) g"
  using assms by (fastforce simp: rollback_transaction_def Let_def ok_simps simp del: raise_first.simps)

lemma inspect_project_Inr:
  "inspect_project ad p r g a = (a', Inr (g', pl, rv)) \<Longrightarrow> g' = g
     \<and> (\<exists>s. op_inspect_project ad p r a = (a', Inr s) \<and> pl = JObj [(''snapshot'', project_snapshot_json s)])"
  by (auto simp: inspect_project_def ok_simps)

lemma export_project_Inr:
  "export_project ad p r f g a = (a', Inr (g', pl, rv)) \<Longrightarrow> g' = g
     \<and> (\<exists>x. op_export_project ad p r f a = (a', Inr x) \<and> pl = JObj [(''artifact'', export_artifact_json x)])"
  by (auto simp: export_project_def ok_simps)

end
