(* ===== verification/Gateway_Invariant.thy ===== *)
theory Gateway_Invariant
  imports Gateway_Effects
begin

text \<open>
  The well-formedness of the coordination state: dictionaries keyed by the identity of their records, recorded
  results that carry the manifest of their tool, runs whose questions and approvals exist. Every tool keeps it,
  and in such a state a snapshot that is taken and installed gives the state back. It follows what a call
  leaves behind when it fails, when it is refused and when it repeats an earlier one.
\<close>

section \<open>Well-formed states\<close>

definition indexed :: "('v \<Rightarrow> 'k) \<Rightarrow> ('k \<times> 'v) list \<Rightarrow> bool" where
  "indexed key d \<longleftrightarrow> distinct (map fst d) \<and> (\<forall>(k, v) \<in> set d. k = key v)"

lemma set_update_subset: "set (AList.update k v d) \<subseteq> insert (k, v) (set d)"
  by (induction d) auto

lemma indexed_update: "indexed key d \<Longrightarrow> k = key v \<Longrightarrow> indexed key (AList.update k v d)"
  using set_update_subset [of k v d] by (auto simp: indexed_def distinct_update)

lemma indexed_Nil [simp]: "indexed key []"
  by (simp add: indexed_def)

lemma indexed_entries: "indexed key d \<Longrightarrow> map (\<lambda>x. (key x, x)) (map snd d) = d"
  by (auto simp: indexed_def intro!: map_idI)

lemma indexed_distinct: "indexed key d \<Longrightarrow> distinct (map key (map snd d))"
proof -
  assume k: "indexed key d"
  have eq: "map key (map snd d) = map fst d" using k by (auto simp: indexed_def)
  show ?thesis unfolding eq using k by (simp add: indexed_def)
qed

lemma dict_of_values: "indexed key d \<Longrightarrow> dict_of key (dict_values d) = d"
  by (simp add: dict_values_def dict_of_distinct [OF indexed_distinct] indexed_entries del: map_map)

lemma indexed_map_of: "indexed key d \<Longrightarrow> map_of d k = Some v \<Longrightarrow> key v = k"
  by (auto simp: indexed_def dest: map_of_SomeD)

lemma indexed_dict_of: "indexed key (dict_of key xs)"
proof -
  have "indexed key (fold (\<lambda>x d. AList.update (key x) x d) xs d)" if "indexed key d" for d
    using that by (induction xs arbitrary: d) (auto intro: indexed_update)
  then show ?thesis by (simp add: dict_of_def)
qed

definition results_recorded :: "(byte list \<Rightarrow> byte list) \<Rightarrow> (idem_key \<times> string \<times> tool_result) list \<Rightarrow> bool" where
  "results_recorded h d \<longleftrightarrow> distinct (map fst d) \<and> (\<forall>((actor, tool, key), digest, res) \<in> set d.
     tr_tool_name res = tool \<and> tr_manifest_digest res = manifest_digest h (manifest_of tool)
     \<and> er_manifest_digest (tr_evidence res) = manifest_digest h (manifest_of tool))"

definition gateway_wf :: "(byte list \<Rightarrow> byte list) \<Rightarrow> gateway_state \<Rightarrow> bool" where
  "gateway_wf h g \<longleftrightarrow> indexed ar_run_id (gs_runs g) \<and> indexed qr_question_id (gs_questions g)
     \<and> indexed ap_approval_id (gs_approvals g) \<and> indexed rc_receipt_id (gs_receipts g)
     \<and> indexed pw_preview_digest (gs_previews g) \<and> indexed vr_report_digest (gs_reports g)
     \<and> results_recorded h (gs_idempotency g) \<and> \<not> missing_references g"

lemma empty_gateway_wf [simp]: "gateway_wf h empty_gateway"
  by (simp add: gateway_wf_def empty_gateway_def results_recorded_def missing_references_def dict_values_def)

lemma missing_references_iff:
  "\<not> missing_references g \<longleftrightarrow> (\<forall>r \<in> snd ` set (gs_runs g).
     set (ar_question_ids r) \<subseteq> fst ` set (gs_questions g) \<and> set (ar_approval_ids r) \<subseteq> fst ` set (gs_approvals g))"
  by (auto simp: missing_references_def dict_values_def list_ex_iff map_of_eq_None_iff subset_iff)

lemma wf_put_question: "gateway_wf h g \<Longrightarrow> gateway_wf h (put_question q g)"
  by (auto simp: gateway_wf_def put_question_def missing_references_iff indexed_update dom_update)

lemma wf_put_approval: "gateway_wf h g \<Longrightarrow> gateway_wf h (put_approval q g)"
  by (auto simp: gateway_wf_def put_approval_def missing_references_iff indexed_update dom_update)

lemma wf_put_receipt: "gateway_wf h g \<Longrightarrow> gateway_wf h (put_receipt q g)"
  by (auto simp: gateway_wf_def put_receipt_def missing_references_iff indexed_update)

lemma wf_put_preview: "gateway_wf h g \<Longrightarrow> gateway_wf h (put_preview q g)"
  by (auto simp: gateway_wf_def put_preview_def missing_references_iff indexed_update)

lemma wf_put_report: "gateway_wf h g \<Longrightarrow> gateway_wf h (put_report q g)"
  by (auto simp: gateway_wf_def put_report_def missing_references_iff indexed_update)

lemma wf_put_run:
  assumes "gateway_wf h g" "set (ar_question_ids r) \<subseteq> fst ` set (gs_questions g)"
    "set (ar_approval_ids r) \<subseteq> fst ` set (gs_approvals g)"
  shows "gateway_wf h (put_run r g)"
proof -
  let ?g = "put_run r g"
  have "snd ` set (gs_runs ?g) \<subseteq> insert r (snd ` set (gs_runs g))"
    using set_update_subset [of "ar_run_id r" r "gs_runs g"] by (auto simp: put_run_def)
  moreover have "\<not> missing_references g" using assms(1) by (simp add: gateway_wf_def)
  moreover have frame: "gs_questions ?g = gs_questions g" "gs_approvals ?g = gs_approvals g" by (simp_all add: put_run_def)
  ultimately have "\<not> missing_references ?g"
    using assms(2,3) unfolding missing_references_iff frame by blast
  then show ?thesis using assms(1) by (simp add: gateway_wf_def put_run_def indexed_update)
qed

lemma wf_run_references:
  assumes "gateway_wf h g" "map_of (gs_runs g) i = Some r"
  shows "set (ar_question_ids r) \<subseteq> fst ` set (gs_questions g)" "set (ar_approval_ids r) \<subseteq> fst ` set (gs_approvals g)"
proof -
  have "r \<in> snd ` set (gs_runs g)" using map_of_SomeD [OF assms(2)] by force
  moreover have "\<not> missing_references g" using assms(1) by (simp add: gateway_wf_def)
  ultimately show "set (ar_question_ids r) \<subseteq> fst ` set (gs_questions g)" "set (ar_approval_ids r) \<subseteq> fst ` set (gs_approvals g)"
    unfolding missing_references_iff by blast+
qed

lemma fst_set_update: "fst ` set (AList.update k v d) = insert k (fst ` set d)"
  by (simp add: dom_update)

lemma put_keys [simp]:
  "fst ` set (gs_questions (put_question q g)) = insert (qr_question_id q) (fst ` set (gs_questions g))"
  "fst ` set (gs_approvals (put_approval a g)) = insert (ap_approval_id a) (fst ` set (gs_approvals g))"
  by (simp_all add: put_defs fst_set_update)

lemma put_frame [simp]:
  "gs_runs (put_question q g) = gs_runs g" "gs_approvals (put_question q g) = gs_approvals g"
  "gs_receipts (put_question q g) = gs_receipts g" "gs_reports (put_question q g) = gs_reports g"
  "gs_previews (put_question q g) = gs_previews g" "gs_idempotency (put_question q g) = gs_idempotency g"
  "gs_evidence (put_question q g) = gs_evidence g"
  "gs_runs (put_approval a g) = gs_runs g" "gs_questions (put_approval a g) = gs_questions g"
  "gs_receipts (put_approval a g) = gs_receipts g" "gs_reports (put_approval a g) = gs_reports g"
  "gs_previews (put_approval a g) = gs_previews g" "gs_idempotency (put_approval a g) = gs_idempotency g"
  "gs_evidence (put_approval a g) = gs_evidence g"
  "gs_runs (put_receipt r g) = gs_runs g" "gs_questions (put_receipt r g) = gs_questions g"
  "gs_approvals (put_receipt r g) = gs_approvals g" "gs_reports (put_receipt r g) = gs_reports g"
  "gs_previews (put_receipt r g) = gs_previews g" "gs_idempotency (put_receipt r g) = gs_idempotency g"
  "gs_evidence (put_receipt r g) = gs_evidence g"
  "gs_runs (put_preview p g) = gs_runs g" "gs_questions (put_preview p g) = gs_questions g"
  "gs_approvals (put_preview p g) = gs_approvals g" "gs_reports (put_preview p g) = gs_reports g"
  "gs_receipts (put_preview p g) = gs_receipts g" "gs_idempotency (put_preview p g) = gs_idempotency g"
  "gs_evidence (put_preview p g) = gs_evidence g"
  "gs_runs (put_report x g) = gs_runs g" "gs_questions (put_report x g) = gs_questions g"
  "gs_approvals (put_report x g) = gs_approvals g" "gs_previews (put_report x g) = gs_previews g"
  "gs_receipts (put_report x g) = gs_receipts g" "gs_idempotency (put_report x g) = gs_idempotency g"
  "gs_evidence (put_report x g) = gs_evidence g"
  "gs_questions (put_run y g) = gs_questions g" "gs_approvals (put_run y g) = gs_approvals g"
  "gs_previews (put_run y g) = gs_previews g" "gs_receipts (put_run y g) = gs_receipts g"
  "gs_reports (put_run y g) = gs_reports g" "gs_idempotency (put_run y g) = gs_idempotency g"
  "gs_evidence (put_run y g) = gs_evidence g"
  by (simp_all add: put_defs)

lemma put_lookup:
  "map_of (gs_runs (put_run r g)) = (map_of (gs_runs g))(ar_run_id r \<mapsto> r)"
  "map_of (gs_questions (put_question q g)) = (map_of (gs_questions g))(qr_question_id q \<mapsto> q)"
  "map_of (gs_approvals (put_approval a g)) = (map_of (gs_approvals g))(ap_approval_id a \<mapsto> a)"
  "map_of (gs_receipts (put_receipt x g)) = (map_of (gs_receipts g))(rc_receipt_id x \<mapsto> x)"
  "map_of (gs_previews (put_preview p g)) = (map_of (gs_previews g))(pw_preview_digest p \<mapsto> p)"
  "map_of (gs_reports (put_report y g)) = (map_of (gs_reports g))(vr_report_digest y \<mapsto> y)"
  by (simp_all add: put_defs update_conv')

lemma fold_put_question_frame [simp]:
  "gs_runs (fold put_question qs g) = gs_runs g" "gs_approvals (fold put_question qs g) = gs_approvals g"
  "gs_receipts (fold put_question qs g) = gs_receipts g" "gs_reports (fold put_question qs g) = gs_reports g"
  "gs_previews (fold put_question qs g) = gs_previews g" "gs_idempotency (fold put_question qs g) = gs_idempotency g"
  "gs_evidence (fold put_question qs g) = gs_evidence g"
  by (induction qs arbitrary: g) simp_all

lemma fold_put_question_keys:
  "fst ` set (gs_questions (fold put_question qs g)) = qr_question_id ` set qs \<union> fst ` set (gs_questions g)"
  by (induction qs arbitrary: g) auto

lemma fold_put_question_wf: "gateway_wf h g \<Longrightarrow> gateway_wf h (fold put_question qs g)"
  by (induction qs arbitrary: g) (simp_all add: wf_put_question)

section \<open>Every tool keeps the state well-formed\<close>

lemmas wf_intros = wf_put_run wf_put_question wf_put_approval wf_put_receipt wf_put_preview wf_put_report

lemma perform_wf:
  assumes "gateway_wf h g" "perform h cfg ad iv t g req a = (a', Inr (g', pl, rv))"
  shows "gateway_wf h g'"
proof (cases req)
  case (InspectProject p r)
  with assms show ?thesis by (auto dest: inspect_project_Inr)
next
  case (CreateAgentRun r)
  with assms(2) have "create_agent_run h cfg ad iv r g a = (a', Inr (g', pl, rv))" by simp
  then obtain qs run where "g' = put_run run (fold put_question qs g)"
    "ar_question_ids run = map qr_question_id qs" "ar_approval_ids run = []"
    by (rule create_agent_run_Inr)
  with assms(1) show ?thesis by (auto intro!: wf_put_run fold_put_question_wf simp: fold_put_question_keys)
next
  case (AnswerQuestion r)
  with assms(2) have "gw_answer_question ad iv r t g a = (a', Inr (g', pl, rv))" by simp
  then obtain run q st where *: "require_run_preconditions ad g (aq_run r) a = (a', Inr run)"
    "g' = put_run (run\<lparr>ar_run_revision := ar_run_revision run + 1, ar_state := st\<rparr>) (put_question q g)"
    by (rule gw_answer_question_Inr) blast
  note run = wf_run_references [OF assms(1) require_run_preconditions_Inr [OF *(1), THEN conjunct1]]
  show ?thesis unfolding *(2) using run assms(1) by (auto intro!: wf_intros)
next
  case (DecideApproval r)
  with assms(2) have "gw_decide_approval h ad iv r t g a = (a', Inr (g', pl, rv))" by simp
  then obtain run ap d rc st where *: "require_run_preconditions ad g (da_run r) a = (a', Inr run)"
    "g' = put_run (run\<lparr>ar_run_revision := ar_run_revision run + 1, ar_state := st\<rparr>) (put_receipt rc (put_approval (ap\<lparr>ap_decision := d\<rparr>) g))"
    by (rule gw_decide_approval_Inr) blast
  note run = wf_run_references [OF assms(1) require_run_preconditions_Inr [OF *(1), THEN conjunct1]]
  show ?thesis unfolding *(2) using run assms(1) by (auto intro!: wf_intros)
next
  case (PreviewPatch r)
  with assms(2) have "preview_patch h ad r t g a = (a', Inr (g', pl, rv))" by simp
  then obtain run a1 pw ap where *: "require_run_preconditions ad g (pv_run r) a = (a1, Inr run)"
    "g' = put_run (run\<lparr>ar_run_revision := ar_run_revision run + 1, ar_state := State_AWAITING_STAGE_APPROVAL,
           ar_approval_ids := ar_approval_ids run @ [ap_approval_id ap]\<rparr>) (put_approval ap (put_preview pw g))"
    by (rule preview_patch_Inr) blast
  note run = wf_run_references [OF assms(1) require_run_preconditions_Inr [OF *(1), THEN conjunct1]]
  show ?thesis unfolding *(2) using run assms(1) by (auto intro!: wf_intros)
next
  case (StageDesignPatch r)
  with assms(2) have "stage_design_patch h ad r g a = (a', Inr (g', pl, rv))" by simp
  then obtain run a1 and st :: stage_record where *: "require_run_preconditions ad g (sp_run r) a = (a1, Inr run)"
    "g' = put_run (run\<lparr>ar_run_revision := ar_run_revision run + 1, ar_state := State_STAGED,
           ar_staged_revision := Some (sr_staged_revision st)\<rparr>) g"
    by (rule stage_design_patch_Inr) blast
  note run = wf_run_references [OF assms(1) require_run_preconditions_Inr [OF *(1), THEN conjunct1]]
  show ?thesis unfolding *(2) using run assms(1) by (auto intro!: wf_intros)
next
  case (RunVerification r)
  with assms(2) have "gw_run_verification h ad r t g a = (a', Inr (g', pl, rv))" by simp
  then obtain run a1 rep ap where *: "require_run_preconditions ad g (rv_run r) a = (a1, Inr run)"
    "g' = put_run (run\<lparr>ar_run_revision := ar_run_revision run + 1,
           ar_state := (case ap of None \<Rightarrow> State_STAGED | Some _ \<Rightarrow> State_AWAITING_RELEASE_APPROVAL),
           ar_verification_report_digest := Some (vr_report_digest rep),
           ar_approval_ids := ar_approval_ids run @ (case ap of None \<Rightarrow> [] | Some x \<Rightarrow> [ap_approval_id x])\<rparr>)
         (put_report rep (case ap of None \<Rightarrow> g | Some x \<Rightarrow> put_approval x g))"
    by (rule gw_run_verification_Inr) blast
  note run = wf_run_references [OF assms(1) require_run_preconditions_Inr [OF *(1), THEN conjunct1]]
  show ?thesis unfolding *(2) using run assms(1) by (cases ap) (auto intro!: wf_intros)
next
  case (CommitTransaction r)
  with assms(2) have "commit_transaction h ad r g a = (a', Inr (g', pl, rv))" by simp
  then obtain run a1 where *: "require_run_preconditions ad g (ct_run r) a = (a1, Inr run)"
    "g' = put_run (run\<lparr>ar_project_revision := rv, ar_run_revision := ar_run_revision run + 1,
           ar_state := State_COMPLETE\<rparr>) g"
    by (rule commit_transaction_Inr) blast
  note run = wf_run_references [OF assms(1) require_run_preconditions_Inr [OF *(1), THEN conjunct1]]
  show ?thesis unfolding *(2) using run assms(1) by (auto intro!: wf_intros)
next
  case (RollbackTransaction r)
  with assms(2) have "rollback_transaction ad r g a = (a', Inr (g', pl, rv))" by simp
  then obtain run a1 where *: "require_run_preconditions ad g (rb_run r) a = (a1, Inr run)"
    "g' = put_run (run\<lparr>ar_run_revision := ar_run_revision run + 1, ar_state := State_ROLLED_BACK\<rparr>) g"
    by (rule rollback_transaction_Inr) blast
  note run = wf_run_references [OF assms(1) require_run_preconditions_Inr [OF *(1), THEN conjunct1]]
  show ?thesis unfolding *(2) using run assms(1) by (auto intro!: wf_intros)
next
  case (ExportProject p r f)
  with assms show ?thesis by (auto dest: export_project_Inr)
qed

lemma perform_frame:
  assumes "perform h cfg ad iv t g req a = (a', Inr (g', pl, rv))"
  shows "gs_idempotency g' = gs_idempotency g \<and> gs_evidence g' = gs_evidence g"
proof (cases req)
  case (CreateAgentRun r)
  with assms show ?thesis by (auto elim!: create_agent_run_Inr)
next
  case (AnswerQuestion r)
  with assms show ?thesis by (auto elim!: gw_answer_question_Inr)
next
  case (DecideApproval r)
  with assms show ?thesis by (auto elim!: gw_decide_approval_Inr)
next
  case (PreviewPatch r)
  with assms show ?thesis by (auto elim!: preview_patch_Inr)
next
  case (StageDesignPatch r)
  with assms show ?thesis by (auto elim!: stage_design_patch_Inr)
next
  case (RunVerification r)
  with assms show ?thesis by (auto elim!: gw_run_verification_Inr split: option.splits)
next
  case (CommitTransaction r)
  with assms show ?thesis by (auto elim!: commit_transaction_Inr)
next
  case (RollbackTransaction r)
  with assms show ?thesis by (auto elim!: rollback_transaction_Inr)
qed (use assms in \<open>auto dest: inspect_project_Inr export_project_Inr\<close>)

lemma gw_make_result_Inr:
  "gw_make_result h iv req at pl rv = Inr res \<Longrightarrow>
     res = \<lparr>tr_tool_name = request_tool req, tr_payload_json = canonical_json pl,
       tr_evidence = make_evidence h iv req at pl rv, tr_manifest_digest = manifest_digest h (manifest_of (request_tool req))\<rparr>"
  by (simp add: gw_make_result_def)

lemma make_evidence_sel [simp]:
  "er_manifest_digest (make_evidence h iv req at pl rv) = manifest_digest h (manifest_of (request_tool req))"
  "er_actor_id (make_evidence h iv req at pl rv) = pr_actor_id (inv_principal iv)"
  "er_tool_name (make_evidence h iv req at pl rv) = request_tool req"
  "er_project_id (make_evidence h iv req at pl rv) = request_project_id req"
  "er_project_revision (make_evidence h iv req at pl rv) = rv"
  "er_input_digest (make_evidence h iv req at pl rv) = stable_digest h (request_json req)"
  "er_output_digest (make_evidence h iv req at pl rv) = stable_digest h pl"
  by (simp_all add: make_evidence_def Let_def)

lemma results_recorded_update:
  assumes "results_recorded h d" "gw_make_result h iv req at pl rv = Inr res"
  shows "results_recorded h (AList.update (call_key iv req) (dg, res) d)"
  using assms set_update_subset [of "call_key iv req" "(dg, res)" d]
  by (fastforce simp: results_recorded_def distinct_update call_key_def dest!: gw_make_result_Inr)

lemma record_result_wf:
  assumes "gateway_wf h g" "gw_make_result h iv req at pl rv = Inr res"
  shows "gateway_wf h (record_result h iv req res g)"
  using assms results_recorded_update [OF _ assms(2)]
  by (auto simp: gateway_wf_def record_result_def missing_references_iff)

section \<open>Snapshots\<close>

lemma fold_update_idempotency:
  assumes "distinct (map idempotency_key_of xs)" "set (map idempotency_key_of xs) \<inter> fst ` set d = {}"
  shows "fold (\<lambda>i d. AList.update (idempotency_key_of i) (ir_input_digest i, ir_result i) d) xs d
    = d @ map (\<lambda>i. (idempotency_key_of i, ir_input_digest i, ir_result i)) xs"
  using assms
proof (induction xs arbitrary: d)
  case (Cons x xs)
  have "AList.update (idempotency_key_of x) (ir_input_digest x, ir_result x) d
      = d @ [(idempotency_key_of x, ir_input_digest x, ir_result x)]"
    using Cons.prems by (induction d) auto
  then show ?case using Cons by auto
qed simp

lemma snapshot_state_take:
  assumes "gateway_wf h g"
  shows "snapshot_state (take_snapshot g) = g"
proof -
  let ?i = "sn_idempotency (take_snapshot g)"
  have "map idempotency_key_of ?i = map fst (gs_idempotency g)"
    by (auto simp: take_snapshot_def idempotency_key_of_def)
  then have "distinct (map idempotency_key_of ?i)"
    using assms by (simp add: gateway_wf_def results_recorded_def)
  from fold_update_idempotency [OF this, of "[]"]
  have "fold (\<lambda>i d. AList.update (idempotency_key_of i) (ir_input_digest i, ir_result i) d) ?i [] = gs_idempotency g"
    by (auto simp: take_snapshot_def idempotency_key_of_def intro!: map_idI)
  then show ?thesis using assms
    by (auto simp: snapshot_state_def take_snapshot_def dict_of_values gateway_wf_def)
qed

lemma install_take:
  assumes "gateway_wf h g"
  shows "install_snapshot h (take_snapshot g) g0 = (g, Inr ())"
proof -
  have "\<not> list_ex (manifest_mismatch h) (sn_idempotency (take_snapshot g))"
    using assms by (auto simp: list_ex_iff take_snapshot_def gateway_wf_def results_recorded_def manifest_mismatch_def Let_def)
  moreover have "\<not> missing_references g" using assms by (simp add: gateway_wf_def)
  ultimately show ?thesis by (simp add: install_snapshot_def Let_def snapshot_state_take [OF assms])
qed

lemma install_snapshot_wf:
  assumes "install_snapshot h s g0 = (g, Inr u)"
  shows "gateway_wf h g \<and> g = snapshot_state s"
proof -
  let ?step = "\<lambda>i d. AList.update (idempotency_key_of i) (ir_input_digest i, ir_result i) d"
  from assms have g: "g = snapshot_state s" and m: "\<forall>i \<in> set (sn_idempotency s). \<not> manifest_mismatch h i"
    and r: "\<not> missing_references g"
    by (auto simp: install_snapshot_def Let_def list_ex_iff split: if_splits)
  have "results_recorded h (fold ?step xs d)" if "\<forall>i \<in> set xs. \<not> manifest_mismatch h i" "results_recorded h d" for xs d
    using that
  proof (induction xs arbitrary: d)
    case (Cons x xs)
    have "results_recorded h (?step x d)"
      using Cons.prems set_update_subset [of "idempotency_key_of x" "(ir_input_digest x, ir_result x)" d]
      by (fastforce simp: results_recorded_def distinct_update idempotency_key_of_def manifest_mismatch_def Let_def)
    then show ?case using Cons by simp
  qed simp
  from this [OF m, of "[]"] have "results_recorded h (gs_idempotency g)" by (simp add: g snapshot_state_def results_recorded_def)
  with g r show ?thesis by (simp add: gateway_wf_def snapshot_state_def indexed_dict_of)
qed

section \<open>One call\<close>

text \<open>A call on a gateway without a store.\<close>

abbreviation invoke ::
  "(byte list \<Rightarrow> byte list) \<Rightarrow> gateway_config \<Rightarrow> 'a kicad_adapter \<Rightarrow> datetime \<Rightarrow> datetime
     \<Rightarrow> invocation \<Rightarrow> gw_request \<Rightarrow> (('a, 's) gateway_world, tool_result) action" where
  "invoke h cfg ad \<equiv> invoke_locked h cfg ad (None :: 's gateway_store option)"

lemma refresh_wf:
  assumes "refresh_persisted h store (s, p) = ((s', p'), r)" "gateway_wf h (gp_state p)"
  shows "(\<exists>e. r = Inl e) \<or> gateway_wf h (gp_state p')"
  using assms
  by (auto simp: refresh_persisted_def split: option.splits prod.splits sum.splits if_splits dest: install_snapshot_wf)

lemma attempt_Inr:
  assumes "attempt h cfg ad store iv req at t p (a, s) = ((a', s'), Inr (p', res))"
  obtains g' pl rv n where
    "perform h cfg ad iv t (gp_state p) req a = (a', Inr (g', pl, rv))"
    "gw_make_result h iv req at pl rv = Inr res"
    "save_state store (record_result h iv req res g') (gp_generation p) s = (s', Inr n)"
    "p' = \<lparr>gp_state = record_result h iv req res g', gp_generation = n\<rparr>"
  using assms
  by (auto simp: attempt_def Let_def split: prod.splits sum.splits)

lemma attempt_wf:
  assumes "gateway_wf h (gp_state p)" "attempt h cfg ad store iv req at t p (a, s) = ((a', s'), Inr (p', res))"
  shows "gateway_wf h (gp_state p')"
  using assms(2)
  by (rule attempt_Inr) (simp add: record_result_wf perform_wf [OF assms(1)])

text \<open>
  After the refresh a call has four outcomes: it is refused, it is answered from the record of an
  earlier call, it is carried out, or it fails and the coordination state is what it was.
\<close>

lemma invoke_locked_cases:
  assumes "invoke_locked h cfg ad store t0 t1 iv req w = (w', r)"
    and "refresh_persisted h store (ww_store w, ww_process w) = ((s, p), Inr u)"
    and wf: "gateway_wf h (gp_state p)"
  obtains
    (refused) e where "r = Inl e" "w' = w\<lparr>ww_store := s, ww_process := p\<rparr>"
  | (replayed) res where "r = Inr res" "w' = w\<lparr>ww_store := s, ww_process := p\<rparr>"
      "map_of (gs_idempotency (gp_state p)) (call_key iv req) = Some (stable_digest h (request_json req), res)"
  | (fresh) at res where "r = Inr res" "map_of (gs_idempotency (gp_state p)) (call_key iv req) = None"
      "tier_value (required_tier (request_tool req)) \<le> tier_value (maximum_tier (pr_profile (inv_principal iv)))"
      "attempt h cfg ad store iv req at t1 p (ww_adapter w, s)
         = ((ww_adapter w', ww_store w'), Inr (ww_process w', res))"
  | (failed) at e where "r = Inl e" "map_of (gs_idempotency (gp_state p)) (call_key iv req) = None"
      "tier_value (required_tier (request_tool req)) \<le> tier_value (maximum_tier (pr_profile (inv_principal iv)))"
      "attempt h cfg ad store iv req at t1 p (ww_adapter w, s) = ((ww_adapter w', ww_store w'), Inl e)"
      "ww_process w' = p"
proof -
  let ?w = "w\<lparr>ww_store := s, ww_process := p\<rparr>"
  let ?tier = "tier_value (maximum_tier (pr_profile (inv_principal iv))) < tier_value (required_tier (request_tool req))"
  note inv = assms(1) [unfolded invoke_locked_def assms(2) prod.case sum.case Let_def manifest_of_tier]
  show ?thesis
  proof (cases ?tier)
    case True
    with inv show ?thesis by (auto intro: refused)
  next
    case tier: False
    show ?thesis
    proof (cases "map_of (gs_idempotency (gp_state p)) (call_key iv req)")
      case (Some x)
      with inv tier show ?thesis by (cases x) (auto split: if_splits intro: refused replayed)
    next
      case none: None
      show ?thesis
      proof (cases "gw_now t0")
        case (Inl e)
        with inv tier none show ?thesis by (auto intro: refused)
      next
        case at: (Inr at)
        show ?thesis
        proof (cases "validated snapshot_check (take_snapshot (gp_state p))")
          case (Inl e)
          with inv tier none at show ?thesis by (auto intro: refused)
        next
          case (Inr snap)
          then have snap: "snap = take_snapshot (gp_state p)" by simp
          obtain a' s' x where att: "attempt h cfg ad store iv req at t1 p (ww_adapter w, s) = ((a', s'), x)"
            by (metis surj_pair)
          show ?thesis
          proof (cases x)
            case x: (Inl e)
            have "restore h snap p e p = (p, Inl e)" by (simp add: restore_def snap install_take [OF wf])
            with inv tier none at Inr att x show ?thesis by (intro failed) auto
          next
            case x: (Inr y)
            with inv tier none at Inr att show ?thesis by (cases y) (intro fresh, auto)
          qed
        qed
      qed
    qed
  qed
qed

end
