(* ===== verification/Gateway_History.thy ===== *)
theory Gateway_History
  imports Gateway_Invariant
begin

text \<open>
  Histories of the gateway: any number of gateway processes over one adapter and one durable store call tools
  and restart in any order. The log holds the calls that were carried out. The invariant traces every receipt, report and
  staged revision in any process or stored snapshot to the call that produced it, so a commit can
  be traced to human decisions and to a passing report. The store enters through a contract, the locale
  \<open>gateway_storage\<close>: what it returns is something that was saved.
\<close>

section \<open>Records of a snapshot, without their order\<close>

definition same_records :: "gateway_snapshot \<Rightarrow> gateway_snapshot \<Rightarrow> bool" where
  "same_records a b \<longleftrightarrow> set (sn_runs a) = set (sn_runs b) \<and> set (sn_questions a) = set (sn_questions b)
     \<and> set (sn_approvals a) = set (sn_approvals b) \<and> set (sn_receipts a) = set (sn_receipts b)
     \<and> set (sn_previews a) = set (sn_previews b) \<and> set (sn_reports a) = set (sn_reports b)
     \<and> set (sn_idempotency a) = set (sn_idempotency b) \<and> set (sn_evidence a) = set (sn_evidence b)"

definition empty_snapshot :: gateway_snapshot where
  "empty_snapshot = \<lparr>sn_runs = [], sn_questions = [], sn_approvals = [], sn_receipts = [],
     sn_previews = [], sn_reports = [], sn_idempotency = [], sn_evidence = []\<rparr>"

definition gw_snapshot_ok :: "(byte list \<Rightarrow> byte list) \<Rightarrow> gateway_snapshot \<Rightarrow> bool" where
  "gw_snapshot_ok h s \<longleftrightarrow> (\<forall>i \<in> set (sn_idempotency s). \<not> manifest_mismatch h i)
     \<and> (\<forall>r \<in> set (sn_runs s). set (ar_question_ids r) \<subseteq> qr_question_id ` set (sn_questions s)
          \<and> set (ar_approval_ids r) \<subseteq> ap_approval_id ` set (sn_approvals s))"

lemma snd_set_dict_of: "snd ` set (dict_of key xs) \<subseteq> set xs"
proof -
  have "snd ` set (fold (\<lambda>x d. AList.update (key x) x d) xs d) \<subseteq> set xs \<union> snd ` set d" for d
  proof (induction xs arbitrary: d)
    case (Cons x xs)
    have "snd ` set (AList.update (key x) x d) \<subseteq> insert x (snd ` set d)"
      using set_update_subset [of "key x" x d] by auto
    then show ?case using Cons [of "AList.update (key x) x d"] by simp blast
  qed simp
  from this [of "[]"] show ?thesis by (simp add: dict_of_def)
qed

lemma install_snapshot_ok:
  assumes "gw_snapshot_ok h s"
  shows "install_snapshot h s g = (snapshot_state s, Inr ())"
proof -
  have r: "snd ` set (gs_runs (snapshot_state s)) \<subseteq> set (sn_runs s)"
    using snd_set_dict_of by (simp add: snapshot_state_def)
  have k: "fst ` set (gs_questions (snapshot_state s)) = qr_question_id ` set (sn_questions s)"
    "fst ` set (gs_approvals (snapshot_state s)) = ap_approval_id ` set (sn_approvals s)"
    by (simp_all add: snapshot_state_def fst_set_dict_of)
  have "\<not> missing_references (snapshot_state s)"
    using assms r unfolding missing_references_iff k gw_snapshot_ok_def by blast
  with assms show ?thesis by (auto simp: install_snapshot_def gw_snapshot_ok_def list_ex_iff Let_def)
qed

lemma take_snapshot_ok: "gateway_wf h g \<Longrightarrow> gw_snapshot_ok h (take_snapshot g)"
proof -
  assume wf: "gateway_wf h g"
  have f: "fst ` set d = key ` snd ` set d" if "indexed key d" for key :: "'x \<Rightarrow> 'y" and d
    using that by (force simp: indexed_def)
  have k: "qr_question_id ` set (sn_questions (take_snapshot g)) = fst ` set (gs_questions g)"
    "ap_approval_id ` set (sn_approvals (take_snapshot g)) = fst ` set (gs_approvals g)"
    "set (sn_runs (take_snapshot g)) = snd ` set (gs_runs g)"
    using wf f [of qr_question_id "gs_questions g"] f [of ap_approval_id "gs_approvals g"]
    by (simp_all add: take_snapshot_def dict_values_def gateway_wf_def)
  have "\<not> missing_references g" using wf by (simp add: gateway_wf_def)
  moreover have "\<forall>i \<in> set (sn_idempotency (take_snapshot g)). \<not> manifest_mismatch h i"
    using wf by (auto simp: take_snapshot_def gateway_wf_def results_recorded_def manifest_mismatch_def Let_def)
  ultimately show ?thesis unfolding gw_snapshot_ok_def missing_references_iff k by blast
qed

section \<open>What the log says about the records\<close>

type_synonym gateway_call = "invocation \<times> gw_request \<times> tool_result"

definition payload_starts :: "tool_result \<Rightarrow> string \<Rightarrow> json \<Rightarrow> bool" where
  "payload_starts res k j \<longleftrightarrow> (\<exists>rest. tr_payload_json res = canonical_json (JObj ((k, j) # rest)))"

text \<open>A user with the release profile decided exactly this receipt.\<close>

definition decided_by_user :: "gateway_call set \<Rightarrow> approval_receipt \<Rightarrow> bool" where
  "decided_by_user C rc \<longleftrightarrow> (\<exists>iv d res. (iv, DecideApproval d, res) \<in> C
     \<and> pr_actor_kind (inv_principal iv) = Actor_USER \<and> pr_profile (inv_principal iv) = Profile_RELEASE_MANAGER
     \<and> rc_decided_by rc = pr_actor_id (inv_principal iv) \<and> rc_run_id rc = rf_run_id (da_run d)
     \<and> rc_approval_id rc = da_approval_id d
     \<and> rc_decision rc = (if da_approve d then Decision_APPROVED else Decision_REJECTED)
     \<and> payload_starts res ''receipt'' (approval_receipt_json rc))"

text \<open>The adapter returned this report when a call asked for the verification of two named revisions.\<close>

definition produced_by_verification ::
  "'a kicad_adapter \<Rightarrow> gateway_call set \<Rightarrow> gw_report \<Rightarrow> bool" where
  "produced_by_verification ad C rep \<longleftrightarrow> (\<exists>iv v res a a'. (iv, RunVerification v, res) \<in> C
     \<and> op_run_verification ad (rf_project_id (rv_run v)) (rf_expected_project_revision (rv_run v))
         (rv_expected_staged_revision v) a = (a', Inr rep)
     \<and> payload_starts res ''report'' (gw_report_json rep))"

text \<open>A call staged the patch of an approved preview for this run, and the adapter returned the revision.\<close>

definition stages ::
  "'a kicad_adapter \<Rightarrow> string \<Rightarrow> string \<Rightarrow> stage_design_patch_request \<Rightarrow> approval_receipt \<Rightarrow> bool" where
  "stages ad rid s sp rc \<longleftrightarrow> rf_run_id (sp_run sp) = rid
     \<and> (\<exists>st a a'. op_stage_patch ad (rf_project_id (sp_run sp)) (rf_expected_project_revision (sp_run sp))
          (sp_patch sp) (sp_preview_digest sp) a = (a', Inr st) \<and> sr_staged_revision st = s)
     \<and> rc_receipt_id rc = sp_approval_receipt_id sp \<and> rc_kind rc = Approve_STAGE \<and> rc_run_id rc = rid
     \<and> rc_subject_digest rc = sp_preview_digest sp \<and> rc_decision rc = Decision_APPROVED"

definition staged_with_approval ::
  "'a kicad_adapter \<Rightarrow> gateway_call set \<Rightarrow> string \<Rightarrow> string \<Rightarrow> bool" where
  "staged_with_approval ad C rid s \<longleftrightarrow> (\<exists>iv sp res rc. (iv, StageDesignPatch sp, res) \<in> C
     \<and> stages ad rid s sp rc \<and> decided_by_user C rc)"

definition justified ::
  "'a kicad_adapter \<Rightarrow> gateway_call set \<Rightarrow> gateway_snapshot \<Rightarrow> bool" where
  "justified ad C s \<longleftrightarrow> (\<forall>rc \<in> set (sn_receipts s). decided_by_user C rc)
     \<and> (\<forall>rep \<in> set (sn_reports s). produced_by_verification ad C rep)
     \<and> (\<forall>r \<in> set (sn_runs s). \<forall>v. ar_staged_revision r = Some v \<longrightarrow> staged_with_approval ad C (ar_run_id r) v)"

lemma decided_mono: "decided_by_user C rc \<Longrightarrow> C \<subseteq> D \<Longrightarrow> decided_by_user D rc"
  unfolding decided_by_user_def by blast

lemma produced_mono: "produced_by_verification ad C rep \<Longrightarrow> C \<subseteq> D \<Longrightarrow> produced_by_verification ad D rep"
  unfolding produced_by_verification_def by blast

lemma staged_mono: "staged_with_approval ad C r s \<Longrightarrow> C \<subseteq> D \<Longrightarrow> staged_with_approval ad D r s"
  unfolding staged_with_approval_def using decided_mono by blast

lemmas trace_mono = decided_mono produced_mono staged_mono

lemma justified_mono: "justified ad C s \<Longrightarrow> C \<subseteq> D \<Longrightarrow> justified ad D s"
  by (auto simp: justified_def intro: decided_mono produced_mono) (blast intro: staged_mono)

lemma justified_subset:
  assumes "justified ad C s" "set (sn_receipts s') \<subseteq> set (sn_receipts s)" "set (sn_reports s') \<subseteq> set (sn_reports s)"
    "set (sn_runs s') \<subseteq> set (sn_runs s)"
  shows "justified ad C s'"
  using assms unfolding justified_def by blast

lemma justified_same: "justified ad C s \<Longrightarrow> same_records s' s \<Longrightarrow> justified ad C s'"
  by (erule justified_subset) (auto simp: same_records_def)

lemma justified_installed: "justified ad C s \<Longrightarrow> justified ad C (take_snapshot (snapshot_state s))"
  by (erule justified_subset)
    (simp_all add: take_snapshot_def snapshot_state_def dict_values_def snd_set_dict_of)

lemma snapshot_ok_same: "gw_snapshot_ok h s \<Longrightarrow> same_records s' s \<Longrightarrow> gw_snapshot_ok h s'"
  by (simp add: gw_snapshot_ok_def same_records_def)

text \<open>The sets of records of a state, and how the operations on the state change them.\<close>

lemma take_sets:
  "set (sn_receipts (take_snapshot g)) = snd ` set (gs_receipts g)"
  "set (sn_reports (take_snapshot g)) = snd ` set (gs_reports g)"
  "set (sn_runs (take_snapshot g)) = snd ` set (gs_runs g)"
  by (auto simp: take_snapshot_def dict_values_def)

lemma snd_update: "snd ` set (AList.update k v d) \<subseteq> insert v (snd ` set d)"
  using set_update_subset [of k v d] by auto

lemma put_values:
  "snd ` set (gs_runs (put_run r g)) \<subseteq> insert r (snd ` set (gs_runs g))"
  "snd ` set (gs_receipts (put_receipt x g)) \<subseteq> insert x (snd ` set (gs_receipts g))"
  "snd ` set (gs_reports (put_report y g)) \<subseteq> insert y (snd ` set (gs_reports g))"
  by (simp_all add: put_defs snd_update)

lemma record_result_frame [simp]:
  "gs_runs (record_result h iv req res g) = gs_runs g" "gs_receipts (record_result h iv req res g) = gs_receipts g"
  "gs_reports (record_result h iv req res g) = gs_reports g" "gs_questions (record_result h iv req res g) = gs_questions g"
  "gs_approvals (record_result h iv req res g) = gs_approvals g" "gs_previews (record_result h iv req res g) = gs_previews g"
  by (simp_all add: record_result_def)

text \<open>What a step may add to a justified state.\<close>

lemma justified_step:
  assumes "justified ad C (take_snapshot g)"
    "snd ` set (gs_receipts g') \<subseteq> RC \<union> snd ` set (gs_receipts g)" "\<forall>rc \<in> RC. decided_by_user D rc"
    "snd ` set (gs_reports g') \<subseteq> RP \<union> snd ` set (gs_reports g)" "\<forall>rep \<in> RP. produced_by_verification ad D rep"
    "snd ` set (gs_runs g') \<subseteq> insert run (snd ` set (gs_runs g))"
    "\<forall>v. ar_staged_revision run = Some v \<longrightarrow> staged_with_approval ad D (ar_run_id run) v" "C \<subseteq> D"
  shows "justified ad D (take_snapshot g')"
proof -
  have "justified ad D (take_snapshot g)" by (rule justified_mono [OF assms(1,8)])
  then have J: "\<And>rc. rc \<in> snd ` set (gs_receipts g) \<Longrightarrow> decided_by_user D rc"
    "\<And>rep. rep \<in> snd ` set (gs_reports g) \<Longrightarrow> produced_by_verification ad D rep"
    "\<And>r v. r \<in> snd ` set (gs_runs g) \<Longrightarrow> ar_staged_revision r = Some v \<Longrightarrow> staged_with_approval ad D (ar_run_id r) v"
    unfolding justified_def take_sets by blast+
  show ?thesis unfolding justified_def take_sets
  proof (intro conjI ballI allI impI)
    show "decided_by_user D rc" if "rc \<in> snd ` set (gs_receipts g')" for rc using that assms(2,3) J(1) by blast
    show "produced_by_verification ad D rep" if "rep \<in> snd ` set (gs_reports g')" for rep using that assms(4,5) J(2) by blast
    show "staged_with_approval ad D (ar_run_id r) v"
      if "r \<in> snd ` set (gs_runs g')" "ar_staged_revision r = Some v" for r v using that assms(6,7) J(3) by blast
  qed
qed

lemma kept_run_staged:
  assumes "justified ad C (take_snapshot g)" "map_of (gs_runs g) i = Some run" "C \<subseteq> D"
  shows "\<forall>v. ar_staged_revision run = Some v \<longrightarrow> staged_with_approval ad D (ar_run_id run) v"
proof -
  have "run \<in> snd ` set (gs_runs g)" using map_of_SomeD [OF assms(2)] by force
  with justified_mono [OF assms(1,3)] show ?thesis unfolding justified_def take_sets by blast
qed

section \<open>A carried out call keeps the records justified\<close>

lemma release_profile:
  "tier_value (required_tier Tool_DECIDE_APPROVAL) \<le> tier_value (maximum_tier p) \<Longrightarrow> p = Profile_RELEASE_MANAGER"
  by (cases p) simp_all

lemma payload_result: "gw_make_result h iv req at (JObj ((k, j) # rest)) rv = Inr res \<Longrightarrow> payload_starts res k j"
  by (auto simp: payload_starts_def dest!: gw_make_result_Inr)

lemma receipt_fields [simp]:
  "rc_approval_id (make_receipt h iv ap rid d now rs) = ap_approval_id ap"
  "rc_run_id (make_receipt h iv ap rid d now rs) = rid" "rc_kind (make_receipt h iv ap rid d now rs) = ap_kind ap"
  "rc_subject_digest (make_receipt h iv ap rid d now rs) = ap_subject_digest ap"
  "rc_decision (make_receipt h iv ap rid d now rs) = d"
  "rc_decided_by (make_receipt h iv ap rid d now rs) = pr_actor_id (inv_principal iv)"
  by (simp_all add: make_receipt_def Let_def)

lemma decide_step:
  assumes "gateway_wf h g" "justified ad C (take_snapshot g)"
    "gw_decide_approval h ad iv d t g a = (a', Inr (g', pl, rv))" "gw_make_result h iv (DecideApproval d) at pl rv = Inr res"
    "tier_value (required_tier Tool_DECIDE_APPROVAL) \<le> tier_value (maximum_tier (pr_profile (inv_principal iv)))"
    "(iv, DecideApproval d, res) \<in> D" "C \<subseteq> D"
  shows "justified ad D (take_snapshot g')"
  using assms(3)
proof (rule gw_decide_approval_Inr)
  fix run :: agent_run and ap :: approval_request_record and now dec
  let ?rc = "make_receipt h iv ap (ar_run_id run) dec now (da_reason d)"
  assume user: "pr_actor_kind (inv_principal iv) = Actor_USER"
    and pre: "require_run_preconditions ad g (da_run d) a = (a', Inr run)"
    and ap: "map_of (gs_approvals g) (da_approval_id d) = Some ap"
    and dec: "dec = (if da_approve d then Decision_APPROVED else Decision_REJECTED)"
    and g': "g' = put_run (run\<lparr>ar_run_revision := ar_run_revision run + 1,
           ar_state := (if dec = Decision_REJECTED
             then (if ap_kind ap = Approve_STAGE then State_PLANNING else State_STAGED) else ar_state run)\<rparr>)
         (put_receipt ?rc (put_approval (ap\<lparr>ap_decision := dec\<rparr>) g))"
    and pl: "\<exists>run'. pl = JObj [(''receipt'', approval_receipt_json ?rc), (''run'', agent_run_json run')]"
  have run: "map_of (gs_runs g) (rf_run_id (da_run d)) = Some run" using require_run_preconditions_Inr [OF pre] by simp
  have ids: "ap_approval_id ap = da_approval_id d" "ar_run_id run = rf_run_id (da_run d)"
    using assms(1) ap run by (auto simp: gateway_wf_def dest: indexed_map_of)
  have "payload_starts res ''receipt'' (approval_receipt_json ?rc)"
    using pl assms(4) payload_result by blast
  then have rc: "decided_by_user D ?rc"
    unfolding decided_by_user_def using assms(5,6) user dec ids release_profile
    by (intro exI [of _ iv] exI [of _ d] exI [of _ res]) simp
  show ?thesis
  proof (rule justified_step [OF assms(2), where RC = "{?rc}" and RP = "{}" and run = "run\<lparr>ar_run_revision := ar_run_revision run + 1,
           ar_state := (if dec = Decision_REJECTED
             then (if ap_kind ap = Approve_STAGE then State_PLANNING else State_STAGED) else ar_state run)\<rparr>"])
    show "snd ` set (gs_receipts g') \<subseteq> {?rc} \<union> snd ` set (gs_receipts g)"
      using put_values(2) [of ?rc "put_approval (ap\<lparr>ap_decision := dec\<rparr>) g"] by (simp add: g')
    show "snd ` set (gs_runs g') \<subseteq> insert (run\<lparr>ar_run_revision := ar_run_revision run + 1,
           ar_state := (if dec = Decision_REJECTED
             then (if ap_kind ap = Approve_STAGE then State_PLANNING else State_STAGED) else ar_state run)\<rparr>) (snd ` set (gs_runs g))"
      unfolding g' by (rule order_trans [OF put_values(1)]) simp
  qed (use rc assms(7) kept_run_staged [OF assms(2) run assms(7)] in \<open>auto simp: g'\<close>)
qed

text \<open>A step that replaces a run and keeps its staged revision, receipts and reports.\<close>

lemma run_step:
  assumes "justified ad C (take_snapshot g)" "map_of (gs_runs g) i = Some run" "C \<subseteq> D" "g' = put_run run' g1"
    "gs_runs g1 = gs_runs g" "gs_receipts g1 = gs_receipts g" "gs_reports g1 = gs_reports g"
    "ar_run_id run' = ar_run_id run" "ar_staged_revision run' = ar_staged_revision run"
  shows "justified ad D (take_snapshot g')"
proof (rule justified_step [OF assms(1), where RC = "{}" and RP = "{}" and run = run'])
  show "snd ` set (gs_runs g') \<subseteq> insert run' (snd ` set (gs_runs g))"
    using put_values(1) [of run' g1] by (simp add: assms)
qed (use assms kept_run_staged [OF assms(1,2,3)] in auto)

lemma stage_step:
  assumes "gateway_wf h g" "justified ad C (take_snapshot g)"
    "stage_design_patch h ad sp g a = (a', Inr (g', pl, rv))" "(iv, StageDesignPatch sp, res) \<in> D" "C \<subseteq> D"
  shows "justified ad D (take_snapshot g')"
  using assms(3)
proof (rule stage_design_patch_Inr)
  fix run :: agent_run and a1 and pw :: patch_preview and rc :: approval_receipt and st :: stage_record
  let ?run = "run\<lparr>ar_run_revision := ar_run_revision run + 1, ar_state := State_STAGED,
           ar_staged_revision := Some (sr_staged_revision st)\<rparr>"
  assume pre: "require_run_preconditions ad g (sp_run sp) a = (a1, Inr run)"
    and rc: "map_of (gs_receipts g) (sp_approval_receipt_id sp) = Some rc" "rc_run_id rc = ar_run_id run"
      "rc_kind rc = Approve_STAGE" "rc_subject_digest rc = sp_preview_digest sp" "rc_decision rc = Decision_APPROVED"
    and st: "op_stage_patch ad (rf_project_id (sp_run sp)) (rf_expected_project_revision (sp_run sp))
       (sp_patch sp) (sp_preview_digest sp) a1 = (a', Inr st)"
    and g': "g' = put_run ?run g"
  have run: "map_of (gs_runs g) (rf_run_id (sp_run sp)) = Some run" using require_run_preconditions_Inr [OF pre] by simp
  have ids: "ar_run_id run = rf_run_id (sp_run sp)" "rc_receipt_id rc = sp_approval_receipt_id sp"
    using assms(1) rc(1) run by (auto simp: gateway_wf_def dest: indexed_map_of)
  have "rc \<in> snd ` set (gs_receipts g)" using map_of_SomeD [OF rc(1)] by force
  then have "decided_by_user D rc"
    using justified_mono [OF assms(2,5)] unfolding justified_def take_sets by blast
  moreover have "stages ad (ar_run_id run) (sr_staged_revision st) sp rc"
    unfolding stages_def using ids rc st by auto
  ultimately have "staged_with_approval ad D (ar_run_id run) (sr_staged_revision st)"
    unfolding staged_with_approval_def using assms(4) by blast
  then show ?thesis
    by (intro justified_step [OF assms(2), where RC = "{}" and RP = "{}" and run = ?run])
      (use put_values(1) [of ?run g] assms(5) in \<open>auto simp: g'\<close>)
qed

lemma verification_step:
  assumes "gateway_wf h g" "justified ad C (take_snapshot g)"
    "gw_run_verification h ad v t g a = (a', Inr (g', pl, rv))" "gw_make_result h iv (RunVerification v) at pl rv = Inr res"
    "(iv, RunVerification v, res) \<in> D" "C \<subseteq> D"
  shows "justified ad D (take_snapshot g')"
  using assms(3)
proof (rule gw_run_verification_Inr)
  fix run :: agent_run and a1 and rep :: gw_report and ap :: "approval_request_record option"
  let ?run = "run\<lparr>ar_run_revision := ar_run_revision run + 1,
           ar_state := (case ap of None \<Rightarrow> State_STAGED | Some _ \<Rightarrow> State_AWAITING_RELEASE_APPROVAL),
           ar_verification_report_digest := Some (vr_report_digest rep),
           ar_approval_ids := ar_approval_ids run @ (case ap of None \<Rightarrow> [] | Some x \<Rightarrow> [ap_approval_id x])\<rparr>"
  let ?g = "case ap of None \<Rightarrow> g | Some x \<Rightarrow> put_approval x g"
  assume pre: "require_run_preconditions ad g (rv_run v) a = (a1, Inr run)"
    and rep: "op_run_verification ad (rf_project_id (rv_run v)) (rf_expected_project_revision (rv_run v))
       (rv_expected_staged_revision v) a1 = (a', Inr rep)"
    and g': "g' = put_run ?run (put_report rep ?g)"
    and pl: "\<exists>rest. pl = JObj ((''report'', gw_report_json rep) # rest)"
  have run: "map_of (gs_runs g) (rf_run_id (rv_run v)) = Some run" using require_run_preconditions_Inr [OF pre] by simp
  have "payload_starts res ''report'' (gw_report_json rep)" using pl assms(4) payload_result by blast
  then have p: "produced_by_verification ad D rep"
    unfolding produced_by_verification_def using assms(5) rep by blast
  have same: "gs_receipts ?g = gs_receipts g" "gs_reports ?g = gs_reports g" "gs_runs ?g = gs_runs g"
    by (cases ap; simp)+
  show ?thesis
  proof (rule justified_step [OF assms(2), where RC = "{}" and RP = "{rep}" and run = ?run])
    show "snd ` set (gs_reports g') \<subseteq> {rep} \<union> snd ` set (gs_reports g)"
      using put_values(3) [of rep ?g] by (simp add: g' same)
    show "snd ` set (gs_runs g') \<subseteq> insert ?run (snd ` set (gs_runs g))"
      unfolding g' by (rule order_trans [OF put_values(1)]) (simp add: same)
  qed (use p assms(6) kept_run_staged [OF assms(2) run assms(6)] in \<open>auto simp: g' same\<close>)
qed

lemma perform_justified:
  assumes wf: "gateway_wf h g" and J: "justified ad C (take_snapshot g)"
    and p: "perform h cfg ad iv t g req a = (a', Inr (g', pl, rv))" and m: "gw_make_result h iv req at pl rv = Inr res"
    and tier: "tier_value (required_tier (request_tool req)) \<le> tier_value (maximum_tier (pr_profile (inv_principal iv)))"
    and D: "(iv, req, res) \<in> D" "C \<subseteq> D"
  shows "justified ad D (take_snapshot g')"
proof (cases req)
  case (InspectProject q r)
  with p have "g' = g" by (auto dest: inspect_project_Inr)
  then show ?thesis using J D(2) justified_mono by blast
next
  case (CreateAgentRun r)
  with p have "create_agent_run h cfg ad iv r g a = (a', Inr (g', pl, rv))" by simp
  then obtain qs run where g': "g' = put_run run (fold put_question qs g)" "ar_staged_revision run = None"
    by (rule create_agent_run_Inr)
  have "snd ` set (gs_runs g') \<subseteq> insert run (snd ` set (gs_runs g))"
    unfolding g' by (rule order_trans [OF put_values(1)]) simp
  with g' D(2) show ?thesis
    by (intro justified_step [OF J, where RC = "{}" and RP = "{}" and run = run]) auto
next
  case (AnswerQuestion r)
  with p have "gw_answer_question ad iv r t g a = (a', Inr (g', pl, rv))" by simp
  then obtain run q st where *: "require_run_preconditions ad g (aq_run r) a = (a', Inr run)"
    "g' = put_run (run\<lparr>ar_run_revision := ar_run_revision run + 1, ar_state := st\<rparr>) (put_question q g)"
    by (rule gw_answer_question_Inr) blast
  show ?thesis
    by (rule run_step [OF J require_run_preconditions_Inr [OF *(1), THEN conjunct1] D(2) *(2)]) simp_all
next
  case (DecideApproval r)
  with p m tier D show ?thesis by (intro decide_step [OF wf J, of iv r t a a' g' pl rv at res]) simp_all
next
  case (PreviewPatch r)
  with p have "preview_patch h ad r t g a = (a', Inr (g', pl, rv))" by simp
  then obtain run a1 pw ap where *: "require_run_preconditions ad g (pv_run r) a = (a1, Inr run)"
    "g' = put_run (run\<lparr>ar_run_revision := ar_run_revision run + 1, ar_state := State_AWAITING_STAGE_APPROVAL,
           ar_approval_ids := ar_approval_ids run @ [ap_approval_id ap]\<rparr>) (put_approval ap (put_preview pw g))"
    by (rule preview_patch_Inr) blast
  show ?thesis
    by (rule run_step [OF J require_run_preconditions_Inr [OF *(1), THEN conjunct1] D(2) *(2)]) simp_all
next
  case (StageDesignPatch r)
  with p D show ?thesis by (intro stage_step [OF wf J, of r a a' g' pl rv iv res]) simp_all
next
  case (RunVerification r)
  with p m D show ?thesis by (intro verification_step [OF wf J, of r t a a' g' pl rv iv at res]) simp_all
next
  case (CommitTransaction r)
  with p have "commit_transaction h ad r g a = (a', Inr (g', pl, rv))" by simp
  then obtain run a1 where *: "require_run_preconditions ad g (ct_run r) a = (a1, Inr run)"
    "g' = put_run (run\<lparr>ar_project_revision := rv, ar_run_revision := ar_run_revision run + 1,
           ar_state := State_COMPLETE\<rparr>) g"
    by (rule commit_transaction_Inr) blast
  show ?thesis
    by (rule run_step [OF J require_run_preconditions_Inr [OF *(1), THEN conjunct1] D(2) *(2)]) simp_all
next
  case (RollbackTransaction r)
  with p have "rollback_transaction ad r g a = (a', Inr (g', pl, rv))" by simp
  then obtain run a1 where *: "require_run_preconditions ad g (rb_run r) a = (a1, Inr run)"
    "g' = put_run (run\<lparr>ar_run_revision := ar_run_revision run + 1, ar_state := State_ROLLED_BACK\<rparr>) g"
    by (rule rollback_transaction_Inr) blast
  show ?thesis
    by (rule run_step [OF J require_run_preconditions_Inr [OF *(1), THEN conjunct1] D(2) *(2)]) simp_all
next
  case (ExportProject q r f)
  with p have "g' = g" by (auto dest: export_project_Inr)
  then show ?thesis using J D(2) justified_mono by blast
qed

section \<open>Histories\<close>

record ('a, 's) gateway_system =
  gy_adapter :: 'a
  gy_store :: 's
  gy_process :: "nat \<Rightarrow> gateway_process"

definition system_world :: "('a, 's) gateway_system \<Rightarrow> nat \<Rightarrow> ('a, 's) gateway_world" where
  "system_world y i = \<lparr>ww_adapter = gy_adapter y, ww_store = gy_store y, ww_process = gy_process y i\<rparr>"

text \<open>A call enters the log when it was carried out, not when it was answered from the record of an earlier one.\<close>

definition logged ::
  "(byte list \<Rightarrow> byte list) \<Rightarrow> 's gateway_store option \<Rightarrow> ('a, 's) gateway_world \<Rightarrow> invocation \<Rightarrow> gw_request
     \<Rightarrow> tool_result result \<Rightarrow> gateway_call list" where
  "logged h store w iv req r = (case r of Inl _ \<Rightarrow> []
     | Inr res \<Rightarrow> (case refresh_persisted h store (ww_store w, ww_process w) of
         ((s, p), Inr _) \<Rightarrow>
           if map_of (gs_idempotency (gp_state p)) (call_key iv req) = None then [(iv, req, res)] else []
       | _ \<Rightarrow> []))"

text \<open>
  The steps: a process carries out a call, a process restarts from the store, or the environment changes the
  design behind the adapter. The log is in reverse order.
\<close>

inductive gateway_history ::
  "(byte list \<Rightarrow> byte list) \<Rightarrow> gateway_config \<Rightarrow> 'a kicad_adapter \<Rightarrow> 's gateway_store option \<Rightarrow> 's
     \<Rightarrow> gateway_call list \<Rightarrow> ('a, 's) gateway_system \<Rightarrow> bool"
  for h cfg ad store s0 where
  history_start: "gateway_history h cfg ad store s0 []
     \<lparr>gy_adapter = a, gy_store = s0, gy_process = (\<lambda>_. \<lparr>gp_state = empty_gateway, gp_generation = 0\<rparr>)\<rparr>"
| history_call: "gateway_history h cfg ad store s0 tr y
     \<Longrightarrow> invoke_locked h cfg ad store t0 t1 iv req (system_world y i) = (w, r)
     \<Longrightarrow> gateway_history h cfg ad store s0 (logged h store (system_world y i) iv req r @ tr)
           \<lparr>gy_adapter = ww_adapter w, gy_store = ww_store w, gy_process = (gy_process y)(i := ww_process w)\<rparr>"
| history_restart: "gateway_history h cfg ad store s0 tr y \<Longrightarrow> start_gateway h store (gy_store y) = (s, Inr p)
     \<Longrightarrow> gateway_history h cfg ad store s0 tr (y\<lparr>gy_store := s, gy_process := (gy_process y)(i := p)\<rparr>)"
| history_environment: "gateway_history h cfg ad store s0 tr y
     \<Longrightarrow> gateway_history h cfg ad store s0 tr (y\<lparr>gy_adapter := a\<rparr>)"

text \<open>What a commit rests on: its report, its receipt, and how the staged revision came about.\<close>

definition commit_reviewed ::
  "(byte list \<Rightarrow> byte list) \<Rightarrow> 'a kicad_adapter \<Rightarrow> gateway_call set \<Rightarrow> commit_transaction_request \<Rightarrow> bool" where
  "commit_reviewed h ad C r \<longleftrightarrow>
     (\<exists>rep. vr_passed rep \<and> vr_base_revision rep = rf_expected_project_revision (ct_run r)
        \<and> vr_staged_revision rep = ct_expected_staged_revision r
        \<and> vr_report_digest rep = ct_verification_report_digest r \<and> produced_by_verification ad C rep)
     \<and> (\<exists>rc. rc_receipt_id rc = ct_approval_receipt_id r \<and> rc_kind rc = Approve_RELEASE
        \<and> rc_decision rc = Decision_APPROVED \<and> rc_run_id rc = rf_run_id (ct_run r)
        \<and> rc_subject_digest rc = gw_release_subject h (rf_run_id (ct_run r)) (rf_expected_project_revision (ct_run r))
            (ct_expected_staged_revision r) (ct_verification_report_digest r)
        \<and> decided_by_user C rc)
     \<and> staged_with_approval ad C (rf_run_id (ct_run r)) (ct_expected_staged_revision r)"

lemma commit_is_reviewed:
  assumes "gateway_wf h g" "justified ad C (take_snapshot g)" "commit_transaction h ad r g a = (a', Inr (g', pl, rv))"
  shows "commit_reviewed h ad C r"
  using assms(3)
proof (rule commit_transaction_Inr)
  fix run :: agent_run and a1 and rep :: gw_report and rc :: approval_receipt
  assume pre: "require_run_preconditions ad g (ct_run r) a = (a1, Inr run)"
    and st: "ar_staged_revision run = Some (ct_expected_staged_revision r)"
    and rep: "map_of (gs_reports g) (ct_verification_report_digest r) = Some rep" "vr_passed rep"
      "vr_base_revision rep = rf_expected_project_revision (ct_run r)"
      "vr_staged_revision rep = ct_expected_staged_revision r"
    and rc: "map_of (gs_receipts g) (ct_approval_receipt_id r) = Some rc" "rc_run_id rc = ar_run_id run"
      "rc_kind rc = Approve_RELEASE" "rc_decision rc = Decision_APPROVED"
      "rc_subject_digest rc = gw_release_subject h (ar_run_id run) (rf_expected_project_revision (ct_run r))
       (ct_expected_staged_revision r) (ct_verification_report_digest r)"
  have run: "map_of (gs_runs g) (rf_run_id (ct_run r)) = Some run" using require_run_preconditions_Inr [OF pre] by simp
  have ids: "ar_run_id run = rf_run_id (ct_run r)" "rc_receipt_id rc = ct_approval_receipt_id r"
    "vr_report_digest rep = ct_verification_report_digest r"
    using assms(1) rc(1) rep(1) run by (auto simp: gateway_wf_def dest: indexed_map_of)
  have "rc \<in> snd ` set (gs_receipts g)" "rep \<in> snd ` set (gs_reports g)"
    using map_of_SomeD [OF rc(1)] map_of_SomeD [OF rep(1)] by force+
  then have "decided_by_user C rc" "produced_by_verification ad C rep"
    using assms(2) unfolding justified_def take_sets by blast+
  moreover have "staged_with_approval ad C (rf_run_id (ct_run r)) (ct_expected_staged_revision r)"
    using kept_run_staged [OF assms(2) run order_refl] st ids by simp
  ultimately show ?thesis unfolding commit_reviewed_def using ids rc rep by metis
qed

section \<open>The contract of the store and the invariant\<close>

locale gateway_storage =
  fixes store :: "'s gateway_store option" and held :: "'s \<Rightarrow> gateway_snapshot set"
  assumes load_held: "store = Some st \<Longrightarrow> st_load st s = (s', r) \<Longrightarrow> held s' \<subseteq> held s"
    and load_result: "store = Some st \<Longrightarrow> st_load st s = (s', Inr (n, snap)) \<Longrightarrow> snap \<in> held s \<or> snap = empty_snapshot"
    and save_held: "store = Some st \<Longrightarrow> st_save st snap n s = (s', Inr y) \<Longrightarrow> x \<in> held s' \<Longrightarrow> x \<in> held s \<or> same_records x snap"
    and save_failed: "store = Some st \<Longrightarrow> st_save st snap n s = (s', Inl e) \<Longrightarrow> held s' \<subseteq> held s"
begin

definition sound :: "(byte list \<Rightarrow> byte list) \<Rightarrow> 'a kicad_adapter \<Rightarrow> gateway_call set \<Rightarrow> 's \<Rightarrow> bool" where
  "sound h ad C s \<longleftrightarrow> (\<forall>snap \<in> held s. gw_snapshot_ok h snap \<and> justified ad C snap)"

definition process_ok :: "(byte list \<Rightarrow> byte list) \<Rightarrow> 'a kicad_adapter \<Rightarrow> gateway_call set \<Rightarrow> gateway_process \<Rightarrow> bool" where
  "process_ok h ad C p \<longleftrightarrow> gateway_wf h (gp_state p) \<and> justified ad C (take_snapshot (gp_state p))"

lemma sound_mono: "sound h ad C s \<Longrightarrow> C \<subseteq> D \<Longrightarrow> sound h ad D s"
  unfolding sound_def using justified_mono by blast

lemma process_ok_mono: "process_ok h ad C p \<Longrightarrow> C \<subseteq> D \<Longrightarrow> process_ok h ad D p"
  unfolding process_ok_def using justified_mono by blast

lemma empty_snapshot_ok: "gw_snapshot_ok h empty_snapshot" "justified ad C empty_snapshot"
  by (simp_all add: gw_snapshot_ok_def justified_def empty_snapshot_def)

lemma installed_ok:
  assumes "store = Some st" "st_load st s = (s', Inr (n, snap))" "sound h ad C s"
  shows "install_snapshot h snap g = (snapshot_state snap, Inr ())"
    "process_ok h ad C \<lparr>gp_state = snapshot_state snap, gp_generation = m\<rparr>"
proof -
  have ok: "gw_snapshot_ok h snap" "justified ad C snap"
    using load_result [OF assms(1,2)] assms(3) empty_snapshot_ok unfolding sound_def by blast+
  show inst: "install_snapshot h snap g = (snapshot_state snap, Inr ())" for g by (rule install_snapshot_ok [OF ok(1)])
  show "process_ok h ad C \<lparr>gp_state = snapshot_state snap, gp_generation = m\<rparr>"
    using install_snapshot_wf [OF inst] justified_installed [OF ok(2)] by (simp add: process_ok_def)
qed

lemma refresh_ok:
  assumes "refresh_persisted h store (s, p) = ((s', p'), r)" "sound h ad C s" "process_ok h ad C p"
  shows "sound h ad C s' \<and> process_ok h ad C p'"
proof (cases store)
  case None
  with assms show ?thesis by (simp add: refresh_persisted_def)
next
  case (Some st)
  obtain s1 x where l: "st_load st s = (s1, x)" by (cases "st_load st s")
  have s1: "sound h ad C s1" using load_held [OF Some l] assms(2) unfolding sound_def by blast
  show ?thesis
  proof (cases x)
    case (Inl e)
    with assms Some l s1 show ?thesis by (simp add: refresh_persisted_def)
  next
    case (Inr y)
    obtain n snap where y: "y = (n, snap)" by (cases y)
    note i = installed_ok [OF Some l [unfolded Inr y] assms(2)]
    from assms(1) Some l Inr y i(1) s1 i(2) assms(3) show ?thesis
      by (auto simp: refresh_persisted_def split: if_splits)
  qed
qed

lemma start_ok:
  assumes "start_gateway h store s = (s', Inr p)" "sound h ad C s"
  shows "sound h ad C s' \<and> process_ok h ad C p"
proof (cases store)
  case None
  with assms have "s' = s" "p = \<lparr>gp_state = empty_gateway, gp_generation = 0\<rparr>" by (auto simp: start_gateway_def)
  with assms(2) show ?thesis
    by (simp add: process_ok_def justified_def take_snapshot_def empty_gateway_def dict_values_def
        empty_gateway_wf [unfolded empty_gateway_def])
next
  case (Some st)
  obtain s1 x where l: "st_load st s = (s1, x)" by (cases "st_load st s")
  have s1: "sound h ad C s1" using load_held [OF Some l] assms(2) unfolding sound_def by blast
  from assms(1) Some l obtain n snap where x: "x = Inr (n, snap)" by (auto simp: start_gateway_def split: sum.splits)
  note i = installed_ok [OF Some l [unfolded x] assms(2)]
  from assms(1) Some l x i(1) have "s' = s1" "p = \<lparr>gp_state = snapshot_state snap, gp_generation = n\<rparr>"
    by (simp_all add: start_gateway_def)
  with s1 i(2) show ?thesis by simp
qed

lemma save_failed_ok:
  assumes "save_state store g n s = (s', Inl e)" "sound h ad C s"
  shows "sound h ad C s'"
proof (cases store)
  case None
  with assms show ?thesis by (simp add: save_state_def)
next
  case (Some st)
  from assms(1) Some have "s' = s \<or> (\<exists>e. st_save st (take_snapshot g) n s = (s', Inl e))"
    by (auto simp: save_state_def bind_a_Inl split: prod.splits)
  then show ?thesis using assms(2) save_failed [OF Some] unfolding sound_def by blast
qed

lemma save_ok:
  assumes "save_state store g n s = (s', Inr m)" "sound h ad C s" "gateway_wf h g" "justified ad C (take_snapshot g)"
  shows "sound h ad C s'"
proof (cases store)
  case None
  with assms show ?thesis by (simp add: save_state_def)
next
  case (Some st)
  from assms(1) Some obtain z where sv: "st_save st (take_snapshot g) n s = (s', Inr z)"
    by (auto simp: save_state_def bind_a_Inr split: prod.splits)
  have "gw_snapshot_ok h y \<and> justified ad C y" if "y \<in> held s'" for y
    using save_held [OF Some sv that] assms(2) snapshot_ok_same [OF take_snapshot_ok [OF assms(3)]]
      justified_same [OF assms(4)] unfolding sound_def by blast
  then show ?thesis unfolding sound_def by blast
qed

lemma attempt_failed_ok:
  assumes "attempt h cfg ad store iv req at t p (a, s) = ((a', s'), Inl e)" "sound h ad C s"
  shows "sound h ad C s'"
proof -
  from assms(1) have "s' = s \<or> (\<exists>g e. save_state store g (gp_generation p) s = (s', Inl e))"
    by (auto simp: attempt_def Let_def split: prod.splits sum.splits)
  then show ?thesis using assms(2) save_failed_ok by blast
qed

lemma attempt_ok:
  assumes "attempt h cfg ad store iv req at t p (a, s) = ((a', s'), Inr (p', res))" "sound h ad C s" "process_ok h ad C p"
    "tier_value (required_tier (request_tool req)) \<le> tier_value (maximum_tier (pr_profile (inv_principal iv)))"
    "(iv, req, res) \<in> D" "C \<subseteq> D"
  shows "sound h ad D s' \<and> process_ok h ad D p'"
  using assms(1)
proof (rule attempt_Inr)
  fix g' pl rv n
  let ?g = "record_result h iv req res g'"
  assume p: "perform h cfg ad iv t (gp_state p) req a = (a', Inr (g', pl, rv))"
    and m: "gw_make_result h iv req at pl rv = Inr res"
    and sv: "save_state store ?g (gp_generation p) s = (s', Inr n)"
    and p': "p' = \<lparr>gp_state = ?g, gp_generation = n\<rparr>"
  have ok: "gateway_wf h (gp_state p)" "justified ad C (take_snapshot (gp_state p))"
    using assms(3) by (simp_all add: process_ok_def)
  have wf: "gateway_wf h ?g" by (rule record_result_wf [OF perform_wf [OF ok(1) p] m])
  have "justified ad D (take_snapshot g')" by (rule perform_justified [OF ok p m assms(4-6)])
  then have J: "justified ad D (take_snapshot ?g)" by (simp add: justified_def take_sets)
  show ?thesis using save_ok [OF sv sound_mono [OF assms(2,6)] wf J] wf J by (simp add: p' process_ok_def)
qed

text \<open>One call: the log grows by the call if it was carried out, and everything stays traceable to it.\<close>

lemma invoke_ok:
  assumes "invoke_locked h cfg ad store t0 t1 iv req w = (w', r)" "sound h ad C (ww_store w)"
    "process_ok h ad C (ww_process w)" and D: "D = C \<union> set (logged h store w iv req r)"
  shows "sound h ad D (ww_store w') \<and> process_ok h ad D (ww_process w')
    \<and> (\<forall>res. logged h store w iv req r = [(iv, req, res)] \<longrightarrow>
        (\<forall>ct. req = CommitTransaction ct \<longrightarrow> commit_reviewed h ad C ct
           \<and> pr_profile (inv_principal iv) = Profile_RELEASE_MANAGER))"
proof -
  obtain s p x where rf: "refresh_persisted h store (ww_store w, ww_process w) = ((s, p), x)" by (metis surj_pair)
  have ok: "sound h ad C s" "process_ok h ad C p" using refresh_ok [OF rf assms(2,3)] by simp_all
  have CD: "C \<subseteq> D" using D by simp
  show ?thesis
  proof (cases x)
    case (Inl e)
    with assms(1) rf have "w' = w\<lparr>ww_store := s, ww_process := p\<rparr>" "r = Inl e" by (auto simp: invoke_locked_def)
    with ok D show ?thesis by (simp add: logged_def)
  next
    case (Inr u)
    have wf: "gateway_wf h (gp_state p)" using ok(2) by (simp add: process_ok_def)
    show ?thesis
    proof (cases rule: invoke_locked_cases [OF assms(1) rf [unfolded Inr] wf, case_names refused replayed fresh failed])
      case (refused e)
      with ok D show ?thesis by (simp add: logged_def)
    next
      case (replayed res)
      with ok D rf Inr show ?thesis by (simp add: logged_def)
    next
      case (fresh at res)
      have log: "logged h store w iv req r = [(iv, req, res)]" using fresh(1,2) rf Inr by (simp add: logged_def)
      have "sound h ad D (ww_store w') \<and> process_ok h ad D (ww_process w')"
        by (rule attempt_ok [OF fresh(4) ok fresh(3) _ CD]) (simp add: D log)
      moreover have "commit_reviewed h ad C ct \<and> pr_profile (inv_principal iv) = Profile_RELEASE_MANAGER"
        if "req = CommitTransaction ct" for ct
        using fresh(4)
      proof (rule attempt_Inr)
        fix g' pl rv n assume "perform h cfg ad iv t1 (gp_state p) req (ww_adapter w) = (ww_adapter w', Inr (g', pl, rv))"
        then have "commit_transaction h ad ct (gp_state p) (ww_adapter w) = (ww_adapter w', Inr (g', pl, rv))"
          using that by simp
        then show ?thesis using commit_is_reviewed [OF wf] ok(2) fresh(3) that release_profile
          by (auto simp: process_ok_def)
      qed
      ultimately show ?thesis by blast
    next
      case (failed at e)
      then have log: "logged h store w iv req r = []" by (simp add: logged_def)
      with D have "D = C" by simp
      with failed attempt_failed_ok [OF failed(4) ok(1)] ok(2) log show ?thesis by simp
    qed
  qed
qed

lemma history_ok:
  assumes "gateway_history h cfg ad store s0 tr y" "held s0 = {}"
  shows "sound h ad (set tr) (gy_store y) \<and> (\<forall>i. process_ok h ad (set tr) (gy_process y i))
    \<and> (\<forall>post pre iv ct res. tr = post @ (iv, CommitTransaction ct, res) # pre \<longrightarrow>
        commit_reviewed h ad (set pre) ct \<and> pr_profile (inv_principal iv) = Profile_RELEASE_MANAGER)"
  using assms(1)
proof (induction rule: gateway_history.induct)
  case (history_start a)
  have "process_ok h ad {} \<lparr>gp_state = empty_gateway, gp_generation = 0\<rparr>"
    using start_ok [of h s0 s0] empty_gateway_wf [of h]
    by (simp add: process_ok_def justified_def take_sets) (simp add: empty_gateway_def)
  then show ?case using assms(2) by (simp add: sound_def)
next
  case (history_call tr y t0 t1 iv req i w r)
  let ?log = "logged h store (system_world y i) iv req r"
  have sub: "set tr \<subseteq> set (?log @ tr)" by auto
  have *: "sound h ad (set (?log @ tr)) (ww_store w) \<and> process_ok h ad (set (?log @ tr)) (ww_process w)
    \<and> (\<forall>res. ?log = [(iv, req, res)] \<longrightarrow> (\<forall>ct. req = CommitTransaction ct \<longrightarrow> commit_reviewed h ad (set tr) ct
           \<and> pr_profile (inv_principal iv) = Profile_RELEASE_MANAGER))"
    by (rule invoke_ok [OF history_call.hyps(2)]) (use history_call.IH in \<open>auto simp: system_world_def\<close>)
  have P: "\<forall>j. process_ok h ad (set (?log @ tr)) (((gy_process y)(i := ww_process w)) j)"
    using * history_call.IH process_ok_mono [OF _ sub] by auto
  have "?log = [] \<or> (\<exists>res. ?log = [(iv, req, res)])"
    by (auto simp: logged_def split: sum.splits prod.splits)
  then have C: "commit_reviewed h ad (set pre) ct \<and> pr_profile (inv_principal iv') = Profile_RELEASE_MANAGER"
    if "?log @ tr = post @ (iv', CommitTransaction ct, res) # pre" for post pre iv' ct res
    using that history_call.IH *
    by (elim disjE exE) (auto simp: Cons_eq_append_conv append_eq_Cons_conv, blast+)
  show ?case using * P C by simp
next
  case (history_restart tr y s p i)
  with start_ok [OF history_restart.hyps(2), of ad "set tr"] show ?case by simp
next
  case (history_environment tr y a)
  then show ?case by simp
qed

end

text \<open>A gateway without a store.\<close>

interpretation volatile: gateway_storage "None :: 's gateway_store option" "\<lambda>_. {}"
  by unfold_locales simp_all

end
