(* ===== verification/Gateway_Store.thy ===== *)
theory Gateway_Store
  imports Gateway_History
begin

text \<open>
  \<^verbatim>\<open>mcp_gateway/persistence.py\<close>: the snapshot of the gateway as canonical JSON, its reader, and
  the journal, a table of events chained by HMAC. The table is a list of rows in the order of their generation; its two
  triggers make it append-only, so \<^verbatim>\<open>save\<close> is the only operation that changes it. An
  SQLite call that fails (\<^verbatim>\<open>StateUnavailable\<close>) is not part of the model.
\<close>

section \<open>Reading typed fields\<close>

type_synonym fields = "(string \<times> json) list"

definition expect_object :: "json \<Rightarrow> string \<Rightarrow> fields result" where
  "expect_object j label = (case j of JObj kvs \<Rightarrow> Inr kvs | _ \<Rightarrow> Inl (StateIntegrityError label))"

definition expect_keys :: "fields \<Rightarrow> string list \<Rightarrow> string \<Rightarrow> unit result" where
  "expect_keys item keys label = raise_first [(fst ` set item \<noteq> set keys, StateIntegrityError label)]"

definition expect_list :: "json \<Rightarrow> string \<Rightarrow> json list result" where
  "expect_list j label = (case j of JList vs \<Rightarrow> Inr vs | _ \<Rightarrow> Inl (StateIntegrityError label))"

text \<open>\<^verbatim>\<open>item[key]\<close>, where the keys have been checked.\<close>

definition item_at :: "fields \<Rightarrow> string \<Rightarrow> json" where
  "item_at item k = (case map_of item k of None \<Rightarrow> JNull | Some v \<Rightarrow> v)"

definition read_text :: "json \<Rightarrow> string \<Rightarrow> string result" where
  "read_text j label = (case j of JStr s \<Rightarrow> Inr s | _ \<Rightarrow> Inl (StateIntegrityError label))"

definition read_optional_text :: "json \<Rightarrow> string \<Rightarrow> string option result" where
  "read_optional_text j label = (case j of JNull \<Rightarrow> Inr None | JStr s \<Rightarrow> Inr (Some s)
     | _ \<Rightarrow> Inl (StateIntegrityError label))"

definition read_integer :: "json \<Rightarrow> string \<Rightarrow> int result" where
  "read_integer j label = (case j of JInt i \<Rightarrow> Inr i | _ \<Rightarrow> Inl (StateIntegrityError label))"

definition read_optional_integer :: "json \<Rightarrow> string \<Rightarrow> int option result" where
  "read_optional_integer j label = (case j of JNull \<Rightarrow> Inr None | JInt i \<Rightarrow> Inr (Some i)
     | _ \<Rightarrow> Inl (StateIntegrityError label))"

definition read_boolean :: "json \<Rightarrow> string \<Rightarrow> bool result" where
  "read_boolean j label = (case j of JBool b \<Rightarrow> Inr b | _ \<Rightarrow> Inl (StateIntegrityError label))"

definition read_strings :: "json \<Rightarrow> string \<Rightarrow> string list result" where
  "read_strings j label = bind_r (expect_list j label) (map_r (\<lambda>v. read_text v label))"

text \<open>
  \<^verbatim>\<open>datetime.fromisoformat\<close> on the forms that survive the comparison with the canonical text,
  which rejects every other form it accepts.
\<close>

definition number_field :: "string \<Rightarrow> nat \<times> string" where
  "number_field s = (horner (takeWhile is_digit s), drop 1 (dropWhile is_digit s))"

definition parse_iso :: "string \<Rightarrow> nat" where
  "parse_iso s = (let (y, r1) = number_field s; (m, r2) = number_field r1; (d, r3) = number_field r2;
     (hh, r4) = number_field r3; (mi, r5) = number_field r4; se = horner (takeWhile is_digit r5);
     rest = dropWhile is_digit r5;
     us = (if rest \<noteq> [] \<and> hd rest = CHR ''.'' then horner (takeWhile is_digit (tl rest)) else 0);
     days = nat (days_before_year y + int (days_before_month y m) + int d - 1) in
     (days * 86400 + hh * 3600 + mi * 60 + se) * 1000000 + us)"

definition read_timestamp :: "json \<Rightarrow> string \<Rightarrow> nat result" where
  "read_timestamp j label = bind_r (read_text j label) (\<lambda>s.
     let t = parse_iso s in
     bind_r (raise_first
       [(s = [] \<or> last s \<noteq> CHR ''Z'', StateIntegrityError label),
        (\<not> in_datetime_range (int t) \<or> iso_z t \<noteq> s, StateIntegrityError label)]) (\<lambda>_. Inr t))"

definition read_optional_timestamp :: "json \<Rightarrow> string \<Rightarrow> nat option result" where
  "read_optional_timestamp j label = (if j = JNull then Inr None
     else bind_r (read_timestamp j label) (\<lambda>t. Inr (Some t)))"

definition read_enum :: "('e \<Rightarrow> string) \<Rightarrow> 'e list \<Rightarrow> json \<Rightarrow> string \<Rightarrow> 'e result" where
  "read_enum val members j label = bind_r (read_text j label) (\<lambda>s.
     case find (\<lambda>e. val e = s) members of None \<Rightarrow> Inl (StateIntegrityError label) | Some e \<Rightarrow> Inr e)"

definition run_states :: "gw_run_state list" where
  "run_states = [State_CLARIFYING, State_PLANNING, State_AWAITING_STAGE_APPROVAL, State_STAGED,
     State_VERIFYING, State_AWAITING_RELEASE_APPROVAL, State_COMPLETE, State_ROLLED_BACK]"

definition all_tools :: "tool_name list" where
  "all_tools = [Tool_INSPECT_PROJECT, Tool_CREATE_AGENT_RUN, Tool_ANSWER_QUESTION, Tool_DECIDE_APPROVAL,
     Tool_PREVIEW_PATCH, Tool_STAGE_DESIGN_PATCH, Tool_RUN_VERIFICATION, Tool_COMMIT_TRANSACTION,
     Tool_ROLLBACK_TRANSACTION, Tool_EXPORT_PROJECT]"

section \<open>Reading the records\<close>

definition read_run :: "json \<Rightarrow> agent_run result" where
  "read_run j =
     bind_r (expect_object j ''run'') (\<lambda>item.
     bind_r (expect_keys item [''run_id'', ''project_id'', ''objective'', ''project_revision'', ''run_revision'',
       ''state'', ''strict_user_coordination'', ''max_parallel_agents'', ''token_budget'', ''question_ids'',
       ''approval_ids'', ''staged_revision'', ''verification_report_digest''] ''run'') (\<lambda>_.
     bind_r (read_text (item_at item ''run_id'') ''run.run_id'') (\<lambda>f1.
     bind_r (read_text (item_at item ''project_id'') ''run.project_id'') (\<lambda>f2.
     bind_r (read_text (item_at item ''objective'') ''run.objective'') (\<lambda>f3.
     bind_r (read_text (item_at item ''project_revision'') ''run.project_revision'') (\<lambda>f4.
     bind_r (read_integer (item_at item ''run_revision'') ''run.run_revision'') (\<lambda>f5.
     bind_r (read_enum gw_run_state_value run_states (item_at item ''state'') ''run.state'') (\<lambda>f6.
     bind_r (read_boolean (item_at item ''strict_user_coordination'') ''run.strict_user_coordination'') (\<lambda>f7.
     bind_r (read_optional_integer (item_at item ''max_parallel_agents'') ''run.max_parallel_agents'') (\<lambda>f8.
     bind_r (read_optional_integer (item_at item ''token_budget'') ''run.token_budget'') (\<lambda>f9.
     bind_r (read_strings (item_at item ''question_ids'') ''run.question_ids'') (\<lambda>f10.
     bind_r (read_strings (item_at item ''approval_ids'') ''run.approval_ids'') (\<lambda>f11.
     bind_r (read_optional_text (item_at item ''staged_revision'') ''run.staged_revision'') (\<lambda>f12.
     bind_r (read_optional_text (item_at item ''verification_report_digest'') ''run.verification_report_digest'') (\<lambda>f13.
     Inr \<lparr>ar_run_id = f1, ar_project_id = f2, ar_objective = f3, ar_project_revision = f4, ar_run_revision = f5,
       ar_state = f6, ar_strict_user_coordination = f7, ar_max_parallel_agents = f8, ar_token_budget = f9,
       ar_question_ids = f10, ar_approval_ids = f11, ar_staged_revision = f12,
       ar_verification_report_digest = f13\<rparr>)))))))))))))))"

definition read_question :: "json \<Rightarrow> question_record result" where
  "read_question j =
     bind_r (expect_object j ''question'') (\<lambda>item.
     bind_r (expect_keys item [''question_id'', ''run_id'', ''prompt'', ''rationale'', ''blocking'', ''options'',
       ''answer'', ''answered_by'', ''answered_at''] ''question'') (\<lambda>_.
     bind_r (read_text (item_at item ''question_id'') ''question.question_id'') (\<lambda>f1.
     bind_r (read_text (item_at item ''run_id'') ''question.run_id'') (\<lambda>f2.
     bind_r (read_text (item_at item ''prompt'') ''question.prompt'') (\<lambda>f3.
     bind_r (read_text (item_at item ''rationale'') ''question.rationale'') (\<lambda>f4.
     bind_r (read_boolean (item_at item ''blocking'') ''question.blocking'') (\<lambda>f5.
     bind_r (read_strings (item_at item ''options'') ''question.options'') (\<lambda>f6.
     bind_r (read_optional_text (item_at item ''answer'') ''question.answer'') (\<lambda>f7.
     bind_r (read_optional_text (item_at item ''answered_by'') ''question.answered_by'') (\<lambda>f8.
     bind_r (read_optional_timestamp (item_at item ''answered_at'') ''question.answered_at'') (\<lambda>f9.
     Inr \<lparr>qr_question_id = f1, qr_run_id = f2, qr_prompt = f3, qr_rationale = f4, qr_blocking = f5,
       qr_options = f6, qr_answer = f7, qr_answered_by = f8, qr_answered_at = f9\<rparr>)))))))))))"

definition read_approval :: "json \<Rightarrow> approval_request_record result" where
  "read_approval j =
     bind_r (expect_object j ''approval'') (\<lambda>item.
     bind_r (expect_keys item [''approval_id'', ''run_id'', ''kind'', ''subject_digest'', ''summary'',
       ''decision'', ''requested_at''] ''approval'') (\<lambda>_.
     bind_r (read_text (item_at item ''approval_id'') ''approval.approval_id'') (\<lambda>f1.
     bind_r (read_text (item_at item ''run_id'') ''approval.run_id'') (\<lambda>f2.
     bind_r (read_enum gw_approval_kind_value [Approve_STAGE, Approve_RELEASE] (item_at item ''kind'') ''approval.kind'') (\<lambda>f3.
     bind_r (read_text (item_at item ''subject_digest'') ''approval.subject_digest'') (\<lambda>f4.
     bind_r (read_text (item_at item ''summary'') ''approval.summary'') (\<lambda>f5.
     bind_r (read_enum gw_decision_value [Decision_PENDING, Decision_APPROVED, Decision_REJECTED]
       (item_at item ''decision'') ''approval.decision'') (\<lambda>f6.
     bind_r (read_timestamp (item_at item ''requested_at'') ''approval.requested_at'') (\<lambda>f7.
     Inr \<lparr>ap_approval_id = f1, ap_run_id = f2, ap_kind = f3, ap_subject_digest = f4, ap_summary = f5,
       ap_decision = f6, ap_requested_at = f7\<rparr>)))))))))"

definition read_receipt :: "json \<Rightarrow> approval_receipt result" where
  "read_receipt j =
     bind_r (expect_object j ''receipt'') (\<lambda>item.
     bind_r (expect_keys item [''receipt_id'', ''approval_id'', ''run_id'', ''kind'', ''subject_digest'',
       ''decision'', ''decided_by'', ''decided_at'', ''reason'', ''receipt_digest''] ''receipt'') (\<lambda>_.
     bind_r (read_text (item_at item ''receipt_id'') ''receipt.receipt_id'') (\<lambda>f1.
     bind_r (read_text (item_at item ''approval_id'') ''receipt.approval_id'') (\<lambda>f2.
     bind_r (read_text (item_at item ''run_id'') ''receipt.run_id'') (\<lambda>f3.
     bind_r (read_enum gw_approval_kind_value [Approve_STAGE, Approve_RELEASE] (item_at item ''kind'') ''receipt.kind'') (\<lambda>f4.
     bind_r (read_text (item_at item ''subject_digest'') ''receipt.subject_digest'') (\<lambda>f5.
     bind_r (read_enum gw_decision_value [Decision_PENDING, Decision_APPROVED, Decision_REJECTED]
       (item_at item ''decision'') ''receipt.decision'') (\<lambda>f6.
     bind_r (read_text (item_at item ''decided_by'') ''receipt.decided_by'') (\<lambda>f7.
     bind_r (read_timestamp (item_at item ''decided_at'') ''receipt.decided_at'') (\<lambda>f8.
     bind_r (read_text (item_at item ''reason'') ''receipt.reason'') (\<lambda>f9.
     bind_r (read_text (item_at item ''receipt_digest'') ''receipt.receipt_digest'') (\<lambda>f10.
     Inr \<lparr>rc_receipt_id = f1, rc_approval_id = f2, rc_run_id = f3, rc_kind = f4, rc_subject_digest = f5,
       rc_decision = f6, rc_decided_by = f7, rc_decided_at = f8, rc_reason = f9, rc_receipt_digest = f10\<rparr>))))))))))))"

definition read_preview :: "json \<Rightarrow> patch_preview result" where
  "read_preview j =
     bind_r (expect_object j ''preview'') (\<lambda>item.
     bind_r (expect_keys item [''project_id'', ''base_revision'', ''prospective_revision'', ''patch_digest'',
       ''preview_digest'', ''operation_summaries'', ''added'', ''removed'', ''modified''] ''preview'') (\<lambda>_.
     bind_r (read_text (item_at item ''project_id'') ''preview.project_id'') (\<lambda>f1.
     bind_r (read_text (item_at item ''base_revision'') ''preview.base_revision'') (\<lambda>f2.
     bind_r (read_text (item_at item ''prospective_revision'') ''preview.prospective_revision'') (\<lambda>f3.
     bind_r (read_text (item_at item ''patch_digest'') ''preview.patch_digest'') (\<lambda>f4.
     bind_r (read_text (item_at item ''preview_digest'') ''preview.preview_digest'') (\<lambda>f5.
     bind_r (read_strings (item_at item ''operation_summaries'') ''preview.operation_summaries'') (\<lambda>f6.
     bind_r (read_strings (item_at item ''added'') ''preview.added'') (\<lambda>f7.
     bind_r (read_strings (item_at item ''removed'') ''preview.removed'') (\<lambda>f8.
     bind_r (read_strings (item_at item ''modified'') ''preview.modified'') (\<lambda>f9.
     Inr \<lparr>pw_project_id = f1, pw_base_revision = f2, pw_prospective_revision = f3, pw_patch_digest = f4,
       pw_preview_digest = f5, pw_operation_summaries = f6, pw_added = f7, pw_removed = f8,
       pw_modified = f9\<rparr>)))))))))))"

definition read_finding :: "json \<Rightarrow> gw_finding result" where
  "read_finding j =
     bind_r (expect_object j ''finding'') (\<lambda>item.
     bind_r (expect_keys item [''finding_id'', ''rule_id'', ''severity'', ''message'', ''operation_ids''] ''finding'') (\<lambda>_.
     bind_r (read_text (item_at item ''finding_id'') ''finding.finding_id'') (\<lambda>f1.
     bind_r (read_text (item_at item ''rule_id'') ''finding.rule_id'') (\<lambda>f2.
     bind_r (read_text (item_at item ''severity'') ''finding.severity'') (\<lambda>f3.
     bind_r (read_text (item_at item ''message'') ''finding.message'') (\<lambda>f4.
     bind_r (read_strings (item_at item ''operation_ids'') ''finding.operation_ids'') (\<lambda>f5.
     Inr \<lparr>vf_finding_id = f1, vf_rule_id = f2, vf_severity = f3, vf_message = f4, vf_operation_ids = f5\<rparr>)))))))"

definition read_report :: "json \<Rightarrow> gw_report result" where
  "read_report j =
     bind_r (expect_object j ''report'') (\<lambda>item.
     bind_r (expect_keys item [''report_id'', ''project_id'', ''base_revision'', ''staged_revision'',
       ''engine_version'', ''passed'', ''findings'', ''report_digest'', ''input_hash'', ''rule_set_hash'',
       ''compiler_manifest_digest'', ''compiler_bundle_digest'', ''manufacturing_release_eligible''] ''report'') (\<lambda>_.
     bind_r (read_text (item_at item ''report_id'') ''report.report_id'') (\<lambda>f1.
     bind_r (read_text (item_at item ''project_id'') ''report.project_id'') (\<lambda>f2.
     bind_r (read_text (item_at item ''base_revision'') ''report.base_revision'') (\<lambda>f3.
     bind_r (read_text (item_at item ''staged_revision'') ''report.staged_revision'') (\<lambda>f4.
     bind_r (read_text (item_at item ''engine_version'') ''report.engine_version'') (\<lambda>f5.
     bind_r (read_boolean (item_at item ''passed'') ''report.passed'') (\<lambda>f6.
     bind_r (bind_r (expect_list (item_at item ''findings'') ''findings'') (map_r read_finding)) (\<lambda>f7.
     bind_r (read_text (item_at item ''report_digest'') ''report.report_digest'') (\<lambda>f8.
     bind_r (read_optional_text (item_at item ''input_hash'') ''report.input_hash'') (\<lambda>f9.
     bind_r (read_optional_text (item_at item ''rule_set_hash'') ''report.rule_set_hash'') (\<lambda>f10.
     bind_r (read_optional_text (item_at item ''compiler_manifest_digest'') ''report.compiler_manifest_digest'') (\<lambda>f11.
     bind_r (read_optional_text (item_at item ''compiler_bundle_digest'') ''report.compiler_bundle_digest'') (\<lambda>f12.
     bind_r (read_boolean (item_at item ''manufacturing_release_eligible'') ''report.manufacturing_release_eligible'') (\<lambda>f13.
     Inr \<lparr>vr_report_id = f1, vr_project_id = f2, vr_base_revision = f3, vr_staged_revision = f4,
       vr_engine_version = f5, vr_passed = f6, vr_findings = f7, vr_report_digest = f8, vr_input_hash = f9,
       vr_rule_set_hash = f10, vr_compiler_manifest_digest = f11, vr_compiler_bundle_digest = f12,
       vr_manufacturing_release_eligible = f13\<rparr>)))))))))))))))"

definition read_evidence :: "json \<Rightarrow> evidence_record result" where
  "read_evidence j =
     bind_r (expect_object j ''evidence'') (\<lambda>item.
     bind_r (expect_keys item [''evidence_id'', ''tool_name'', ''actor_id'', ''project_id'', ''project_revision'',
       ''input_digest'', ''output_digest'', ''captured_at'', ''manifest_digest''] ''evidence'') (\<lambda>_.
     bind_r (read_text (item_at item ''evidence_id'') ''evidence.evidence_id'') (\<lambda>f1.
     bind_r (read_enum tool_value all_tools (item_at item ''tool_name'') ''evidence.tool_name'') (\<lambda>f2.
     bind_r (read_text (item_at item ''actor_id'') ''evidence.actor_id'') (\<lambda>f3.
     bind_r (read_text (item_at item ''project_id'') ''evidence.project_id'') (\<lambda>f4.
     bind_r (read_text (item_at item ''project_revision'') ''evidence.project_revision'') (\<lambda>f5.
     bind_r (read_text (item_at item ''input_digest'') ''evidence.input_digest'') (\<lambda>f6.
     bind_r (read_text (item_at item ''output_digest'') ''evidence.output_digest'') (\<lambda>f7.
     bind_r (read_timestamp (item_at item ''captured_at'') ''evidence.captured_at'') (\<lambda>f8.
     bind_r (read_text (item_at item ''manifest_digest'') ''evidence.manifest_digest'') (\<lambda>f9.
     Inr \<lparr>er_evidence_id = f1, er_tool_name = f2, er_actor_id = f3, er_project_id = f4,
       er_project_revision = f5, er_input_digest = f6, er_output_digest = f7, er_captured_at = f8,
       er_manifest_digest = f9\<rparr>)))))))))))"

definition read_tool_result :: "json \<Rightarrow> tool_result result" where
  "read_tool_result j =
     bind_r (expect_object j ''tool result'') (\<lambda>item.
     bind_r (expect_keys item [''tool_name'', ''payload_json'', ''evidence'', ''manifest_digest''] ''tool result'') (\<lambda>_.
     bind_r (read_enum tool_value all_tools (item_at item ''tool_name'') ''tool result.tool_name'') (\<lambda>f1.
     bind_r (read_text (item_at item ''payload_json'') ''tool result.payload_json'') (\<lambda>f2.
     bind_r (read_evidence (item_at item ''evidence'')) (\<lambda>f3.
     bind_r (read_text (item_at item ''manifest_digest'') ''tool result.manifest_digest'') (\<lambda>f4.
     validated tool_result_check
       \<lparr>tr_tool_name = f1, tr_payload_json = f2, tr_evidence = f3, tr_manifest_digest = f4\<rparr>))))))"

definition read_idempotency :: "json \<Rightarrow> idempotency_record result" where
  "read_idempotency j =
     bind_r (expect_object j ''idempotency record'') (\<lambda>item.
     bind_r (expect_keys item [''actor_id'', ''tool_name'', ''idempotency_key'', ''input_digest'', ''result'']
       ''idempotency record'') (\<lambda>_.
     bind_r (read_text (item_at item ''actor_id'') ''idempotency.actor_id'') (\<lambda>f1.
     bind_r (read_enum tool_value all_tools (item_at item ''tool_name'') ''idempotency.tool_name'') (\<lambda>f2.
     bind_r (read_text (item_at item ''idempotency_key'') ''idempotency.idempotency_key'') (\<lambda>f3.
     bind_r (read_text (item_at item ''input_digest'') ''idempotency.input_digest'') (\<lambda>f4.
     bind_r (read_tool_result (item_at item ''result'')) (\<lambda>f5.
     bind_r (raise_first [(tr_tool_name f5 \<noteq> f2,
        StateIntegrityError ''idempotency result belongs to a different tool'')]) (\<lambda>_.
     Inr \<lparr>ir_actor_id = f1, ir_tool_name = f2, ir_idempotency_key = f3, ir_input_digest = f4,
       ir_result = f5\<rparr>))))))))"

section \<open>The snapshot as JSON\<close>

definition idempotency_json :: "idempotency_record \<Rightarrow> json" where
  "idempotency_json i = JObj
     [(''actor_id'', JStr (ir_actor_id i)), (''tool_name'', JStr (tool_value (ir_tool_name i))),
      (''idempotency_key'', JStr (ir_idempotency_key i)), (''input_digest'', JStr (ir_input_digest i)),
      (''result'', tool_result_json (ir_result i))]"

definition sort_idempotency :: "idempotency_record list \<Rightarrow> idempotency_record list" where
  "sort_idempotency = sort_key (\<lambda>i. (ir_actor_id i, tool_value (ir_tool_name i), ir_idempotency_key i))"

definition snapshot_payload :: "gateway_snapshot \<Rightarrow> json" where
  "snapshot_payload s = JObj
     [(''schema_version'', JInt 1),
      (''runs'', JList (map agent_run_json (sort_key ar_run_id (sn_runs s)))),
      (''questions'', JList (map question_record_json (sort_key qr_question_id (sn_questions s)))),
      (''approvals'', JList (map approval_request_json (sort_key ap_approval_id (sn_approvals s)))),
      (''receipts'', JList (map approval_receipt_json (sort_key rc_receipt_id (sn_receipts s)))),
      (''previews'', JList (map patch_preview_json (sort_key pw_preview_digest (sn_previews s)))),
      (''reports'', JList (map gw_report_json (sort_key vr_report_digest (sn_reports s)))),
      (''idempotency'', JList (map idempotency_json (sort_idempotency (sn_idempotency s)))),
      (''evidence'', JList (map evidence_record_json (sort_key er_evidence_id (sn_evidence s))))]"

definition read_all :: "(json \<Rightarrow> 'r result) \<Rightarrow> fields \<Rightarrow> string \<Rightarrow> 'r list result" where
  "read_all f item k = bind_r (expect_list (item_at item k) k) (map_r f)"

definition snapshot_from_payload :: "json \<Rightarrow> gateway_snapshot result" where
  "snapshot_from_payload j =
     bind_r (expect_object j ''gateway snapshot'') (\<lambda>item.
     bind_r (expect_keys item [''schema_version'', ''runs'', ''questions'', ''approvals'', ''receipts'',
       ''previews'', ''reports'', ''idempotency'', ''evidence''] ''gateway snapshot'') (\<lambda>_.
     bind_r (read_integer (item_at item ''schema_version'') ''gateway schema version'') (\<lambda>version.
     bind_r (raise_first [(version \<noteq> 1, StateIntegrityError ''gateway state schema version is unsupported'')]) (\<lambda>_.
     bind_r (read_all read_run item ''runs'') (\<lambda>f1.
     bind_r (read_all read_question item ''questions'') (\<lambda>f2.
     bind_r (read_all read_approval item ''approvals'') (\<lambda>f3.
     bind_r (read_all read_receipt item ''receipts'') (\<lambda>f4.
     bind_r (read_all read_preview item ''previews'') (\<lambda>f5.
     bind_r (read_all read_report item ''reports'') (\<lambda>f6.
     bind_r (read_all read_idempotency item ''idempotency'') (\<lambda>f7.
     bind_r (read_all read_evidence item ''evidence'') (\<lambda>f8.
     bind_r (validated snapshot_check \<lparr>sn_runs = f1, sn_questions = f2, sn_approvals = f3, sn_receipts = f4,
       sn_previews = f5, sn_reports = f6, sn_idempotency = f7, sn_evidence = f8\<rparr>) (\<lambda>s.
     bind_r (raise_first [(json_norm (snapshot_payload s) \<noteq> json_norm (JObj item),
        StateIntegrityError ''gateway snapshot is not normalized canonical state'')]) (\<lambda>_.
     Inr s))))))))))))))"

section \<open>The journal\<close>

record journal_event =
  je_generation :: nat
  je_state_id :: string
  je_body :: string
  je_body_sha256 :: string
  je_previous_mac :: string
  je_event_mac :: string

definition genesis_mac :: string where
  "genesis_mac = replicate 64 (CHR ''0'')"

definition mac_hex :: "(byte list \<Rightarrow> byte list) \<Rightarrow> byte list \<Rightarrow> json \<Rightarrow> string" where
  "mac_hex h key j = hexdigest (hmac h key (utf8_bytes (canonical_json j)))"

definition binding_mac :: "(byte list \<Rightarrow> byte list) \<Rightarrow> byte list \<Rightarrow> string \<Rightarrow> string \<Rightarrow> string" where
  "binding_mac h key key_id state_id = mac_hex h key (JObj
     [(''domain'', JStr ''evleda-gateway-state-key-binding-v1''), (''key_id'', JStr key_id),
      (''schema_version'', JInt 1), (''state_id'', JStr state_id)])"

definition event_material :: "string \<Rightarrow> nat \<Rightarrow> string \<Rightarrow> string \<Rightarrow> json" where
  "event_material state_id generation body_sha256 previous_mac = JObj
     [(''body_sha256'', JStr body_sha256), (''domain'', JStr ''evleda-gateway-state-event-v1''),
      (''generation'', JInt (int generation)), (''previous_mac'', JStr previous_mac),
      (''state_id'', JStr state_id)]"

definition event_mac :: "(byte list \<Rightarrow> byte list) \<Rightarrow> byte list \<Rightarrow> string \<Rightarrow> nat \<Rightarrow> string \<Rightarrow> string \<Rightarrow> string" where
  "event_mac h key state_id generation body_sha256 previous_mac =
     mac_hex h key (event_material state_id generation body_sha256 previous_mac)"

text \<open>Opening a journal: a new one is bound to the state and the key, an existing one must be bound to them.\<close>

record journal_binding =
  jb_schema_version :: int
  jb_state_id :: string
  jb_key_id :: string
  jb_binding_mac :: string

definition open_journal ::
  "(byte list \<Rightarrow> byte list) \<Rightarrow> byte list \<Rightarrow> string \<Rightarrow> string \<Rightarrow> (journal_binding option, unit) action" where
  "open_journal h key key_id state_id b =
     (case raise_first
        [(state_id = [], ValueError ''gateway journal state_id must be non-empty''),
         (length key \<noteq> 32, ValueError ''gateway journal HMAC key must contain exactly 32 bytes''),
         (key_id = [], ValueError ''gateway journal key_id must be non-empty'')] of
        Inl e \<Rightarrow> (b, Inl e)
      | Inr _ \<Rightarrow> (case b of
          None \<Rightarrow> (Some \<lparr>jb_schema_version = 1, jb_state_id = state_id, jb_key_id = key_id,
             jb_binding_mac = binding_mac h key key_id state_id\<rparr>, Inr ())
        | Some r \<Rightarrow> (b, raise_first
            [(jb_schema_version r \<noteq> 1 \<or> jb_state_id r \<noteq> state_id \<or> jb_key_id r \<noteq> key_id
                \<or> jb_binding_mac r \<noteq> binding_mac h key key_id state_id,
              StateIntegrityError ''gateway state journal is not bound to this project and HMAC key'')])))"

definition decode_body :: "string \<Rightarrow> gateway_snapshot result" where
  "decode_body body = (case json_loads_unique body of
     None \<Rightarrow> Inl (StateIntegrityError ''gateway event body is not valid JSON'')
   | Some j \<Rightarrow> bind_r (snapshot_from_payload j) (\<lambda>s.
       bind_r (raise_first [(canonical_json (snapshot_payload s) \<noteq> body,
         StateIntegrityError ''gateway event body is not canonical JSON'')]) (\<lambda>_. Inr s)))"

fun load_events ::
  "(byte list \<Rightarrow> byte list) \<Rightarrow> byte list \<Rightarrow> string \<Rightarrow> nat \<Rightarrow> string \<Rightarrow> gateway_snapshot \<Rightarrow> journal_event list
     \<Rightarrow> (nat \<times> gateway_snapshot) result" where
  "load_events h key sid n prev snap [] = Inr (n, snap)"
| "load_events h key sid n prev snap (r # rs) =
     (let body_digest = sha256_text h (je_body r); expected = event_mac h key sid (n + 1) body_digest prev in
      bind_r (raise_first [(je_generation r \<noteq> n + 1 \<or> je_state_id r \<noteq> sid \<or> je_body_sha256 r \<noteq> body_digest
           \<or> je_previous_mac r \<noteq> prev \<or> je_event_mac r \<noteq> expected,
         StateIntegrityError ''gateway state event chain failed verification'')]) (\<lambda>_.
      bind_r (decode_body (je_body r)) (\<lambda>s. load_events h key sid (n + 1) expected s rs)))"

definition journal_load ::
  "(byte list \<Rightarrow> byte list) \<Rightarrow> byte list \<Rightarrow> string \<Rightarrow> (journal_event list, nat \<times> gateway_snapshot) action" where
  "journal_load h key sid rows = (rows, load_events h key sid 0 genesis_mac empty_snapshot rows)"

definition last_mac :: "journal_event list \<Rightarrow> string" where
  "last_mac rows = (if rows = [] then genesis_mac else je_event_mac (last rows))"

definition journal_save ::
  "(byte list \<Rightarrow> byte list) \<Rightarrow> byte list \<Rightarrow> string \<Rightarrow> gateway_snapshot \<Rightarrow> nat
     \<Rightarrow> (journal_event list, nat \<times> gateway_snapshot) action" where
  "journal_save h key sid snap expected rows =
     (let body = canonical_json (snapshot_payload snap); body_digest = sha256_text h body in
      case load_events h key sid 0 genesis_mac empty_snapshot rows of
        Inl e \<Rightarrow> (rows, Inl e)
      | Inr (generation, _) \<Rightarrow>
          if generation \<noteq> expected
          then (rows, Inl (StateConflict ''durable gateway state advanced; reload exact coordination state''))
          else
            (rows @ [\<lparr>je_generation = expected + 1, je_state_id = sid, je_body = body, je_body_sha256 = body_digest,
               je_previous_mac = last_mac rows,
               je_event_mac = event_mac h key sid (expected + 1) body_digest (last_mac rows)\<rparr>],
             Inr (expected + 1, snap)))"

definition journal_store ::
  "(byte list \<Rightarrow> byte list) \<Rightarrow> byte list \<Rightarrow> string \<Rightarrow> journal_event list gateway_store" where
  "journal_store h key sid = \<lparr>st_load = journal_load h key sid, st_save = journal_save h key sid\<rparr>"

end
