(* ===== verification/Gateway_Store_Props.thy ===== *)
theory Gateway_Store_Props
  imports Gateway_Store
begin

text \<open>
  The journal keeps what the gateway saves. Reading the canonical text of a snapshot gives the snapshot
  back with its records in the order of their identities; saving and loading is that round trip plus the
  chain of authentication codes, which pins the whole history to its last code. The journal satisfies the contract
  \<open>gateway_storage\<close>, so the results about histories hold for processes that share one.
\<close>

section \<open>Fields of a canonical object\<close>

definition norm_fields :: "fields \<Rightarrow> fields" where
  "norm_fields xs = sort_key fst (map (\<lambda>(k, v). (k, json_norm v)) xs)"

lemma expect_object_norm [simp]: "expect_object (json_norm (JObj xs)) l = Inr (norm_fields xs)"
  by (simp add: expect_object_def norm_fields_def)

lemma keys_norm_fields [simp]: "fst ` set (norm_fields xs) = fst ` set xs"
  by (force simp: norm_fields_def)

lemma item_at_norm:
  assumes "distinct (map fst xs)"
  shows "item_at (norm_fields xs) k = json_norm (item_at xs k)"
proof -
  have "distinct (map fst (map (\<lambda>(k, v). (k, json_norm v)) xs))"
    using assms by (simp add: comp_def split_beta)
  then have "map_of (norm_fields xs) k = map_option json_norm (map_of xs k)"
    unfolding norm_fields_def by (simp add: map_of_sort_key_fst map_of_map)
  then show ?thesis by (cases "map_of xs k") (simp_all add: item_at_def)
qed

lemma item_at_Cons [simp]: "item_at ((k, v) # xs) k' = (if k = k' then v else item_at xs k')"
  by (simp add: item_at_def)

lemma expect_keys_same: "fst ` set item = set keys \<Longrightarrow> expect_keys item keys l = Inr ()"
  by (simp add: expect_keys_def)

lemma read_simps [simp]:
  "read_text (JStr s) l = Inr s" "read_integer (JInt i) l = Inr i" "read_boolean (JBool b) l = Inr b"
  "expect_list (JList vs) l = Inr vs"
  by (simp_all add: read_text_def read_integer_def read_boolean_def expect_list_def)

lemma read_optional [simp]: "read_optional_text (jopt v) l = Inr v" "read_optional_integer (jint_option i) l = Inr i"
  by (simp_all add: read_optional_text_def read_optional_integer_def jopt_def jint_option_def split: option.splits)

lemma norm_leaves [simp]:
  "json_norm (jint_option i) = jint_option i" "json_norm (jstrings xs) = jstrings xs" "json_norm (jtime t) = jtime t"
  "json_norm (jtime_option u) = jtime_option u"
  by (simp_all add: jint_option_def jstrings_def jtime_def jtime_option_def split: option.splits)

lemma map_r_map: "(\<And>x. x \<in> set xs \<Longrightarrow> f (g x) = Inr x) \<Longrightarrow> map_r f (map g xs) = Inr xs"
  by (induction xs) auto

lemma map_r_map_iff:
  "(\<And>x y. x \<in> set xs \<Longrightarrow> f (g x) = Inr y \<Longrightarrow> y = x) \<Longrightarrow> map_r f (map g xs) = Inr ys \<Longrightarrow> ys = xs"
proof (induction xs arbitrary: ys)
  case (Cons x xs)
  from Cons.prems(2) obtain y zs where "f (g x) = Inr y" "map_r f (map g xs) = Inr zs" "ys = y # zs"
    by (auto simp: bind_r_Inr_iff)
  with Cons.prems(1) Cons.IH [of zs] show ?case by auto
qed simp

lemma read_strings [simp]: "read_strings (jstrings xs) l = Inr xs"
  by (simp add: read_strings_def jstrings_def map_r_map)

lemma read_enum_value:
  assumes "e \<in> set members" "\<And>x. x \<in> set members \<Longrightarrow> val x = val e \<Longrightarrow> x = e"
  shows "read_enum val members (JStr (val e)) l = Inr e"
proof -
  have "find (\<lambda>x. val x = val e) members = Some e"
    using assms by (induction members) auto
  then show ?thesis by (simp add: read_enum_def)
qed

lemma read_run_state [simp]: "read_enum gw_run_state_value run_states (JStr (gw_run_state_value e)) l = Inr e"
  by (rule read_enum_value) (cases e; auto simp: run_states_def)+

lemma read_kind [simp]:
  "read_enum gw_approval_kind_value [Approve_STAGE, Approve_RELEASE] (JStr (gw_approval_kind_value e)) l = Inr e"
  by (rule read_enum_value) (cases e; auto)+

lemma read_decision [simp]:
  "read_enum gw_decision_value [Decision_PENDING, Decision_APPROVED, Decision_REJECTED] (JStr (gw_decision_value e)) l = Inr e"
  by (rule read_enum_value) (cases e; auto)+

lemma read_tool [simp]: "read_enum tool_value all_tools (JStr (tool_value e)) l = Inr e"
  by (rule read_enum_value) (cases e; auto simp: all_tools_def)+

section \<open>Timestamps\<close>

lemma number_field_pad: "\<not> is_digit c \<Longrightarrow> number_field (pad k n @ c # r) = (n, r)"
proof -
  assume c: "\<not> is_digit c"
  have "takeWhile is_digit (pad k n @ c # r) = pad k n" "dropWhile is_digit (pad k n @ c # r) = c # r"
    using pad_digits [of k n] c by (simp_all add: takeWhile_append2 dropWhile_append2)
  then show ?thesis by (simp add: number_field_def)
qed

lemma digits_pad:
  assumes "undigit r"
  shows "takeWhile is_digit (pad k n @ r) = pad k n" "dropWhile is_digit (pad k n @ r) = r"
  using pad_digits [of k n] assms by (cases r; simp add: takeWhile_append2 dropWhile_append2 undigit_def)+

lemma parse_iso_iso_z: "parse_iso (iso_z t) = t"
proof -
  let ?s = "t div 1000000" and ?us = "t mod 1000000"
  let ?frac = "(if ?us = 0 then [] else ''.'' @ pad 6 ?us) @ ''Z''"
  obtain y m d where ymd: "ord2ymd (?s div 86400 + 1) = (y, m, d)" by (cases "ord2ymd (?s div 86400 + 1)")
  let ?r = "?s mod 86400"
  have iso: "iso_z t = pad 4 y @ CHR ''-'' # pad 2 m @ CHR ''-'' # pad 2 d @ CHR ''T'' # pad 2 (?r div 3600) @ CHR '':'' #
      pad 2 (?r div 60 mod 60) @ CHR '':'' # pad 2 (?r mod 60) @ ?frac"
    using ymd by (simp add: iso_z_def iso_seconds_def Let_def)
  have nd: "\<not> is_digit (CHR ''-'')" "\<not> is_digit (CHR ''T'')" "\<not> is_digit (CHR '':'')"
    by (simp_all add: is_digit_def)
  have fr: "undigit ?frac" by simp
  have us: "(if ?frac \<noteq> [] \<and> hd ?frac = CHR ''.'' then horner (takeWhile is_digit (tl ?frac)) else 0) = ?us"
    using digits_pad(1) [of "''Z''" 6 ?us] by simp
  have "int (?s div 86400 + 1) = days_before_year y + int (days_before_month y m) + int d"
    using ymd by (intro ord2ymd_sum) auto
  then have days: "nat (days_before_year y + int (days_before_month y m) + int d - 1) = ?s div 86400" by linarith
  have "parse_iso (iso_z t) = (?s div 86400 * 86400 + ?r div 3600 * 3600 + ?r div 60 mod 60 * 60 + ?r mod 60) * 1000000 + ?us"
    unfolding parse_iso_def iso number_field_pad [OF nd(1)] prod.case Let_def number_field_pad [OF nd(2)]
      number_field_pad [OF nd(3)] digits_pad [OF fr] us days horner_pad by simp
  also have "?s div 86400 * 86400 + ?r div 3600 * 3600 + ?r div 60 mod 60 * 60 + ?r mod 60 = ?s"
    using seconds_split [of ?r] div_mult_mod_eq [of ?s 86400] by linarith
  finally show ?thesis by simp
qed

lemma last_iso_z: "iso_z t \<noteq> [] \<and> last (iso_z t) = CHR ''Z''"
  by (simp add: iso_z_def Let_def)

lemma read_timestamp_time:
  "read_timestamp (jtime t) l = (if in_datetime_range (int t) then Inr t else Inl (StateIntegrityError l))"
  by (simp add: read_timestamp_def jtime_def parse_iso_iso_z Let_def last_iso_z)

lemma read_optional_timestamp_time:
  "read_optional_timestamp (jtime_option t) l =
     (if \<forall>x. t = Some x \<longrightarrow> in_datetime_range (int x) then Inr t else Inl (StateIntegrityError l))"
  by (cases t) (simp_all add: read_optional_timestamp_def jtime_option_def read_timestamp_time, simp add: jtime_def)

section \<open>Records\<close>

lemma read_run_json: "read_run (json_norm (agent_run_json r)) = Inr r"
  unfolding read_run_def agent_run_json_def expect_object_norm bind_r_simps
  by (subst item_at_norm, simp)+ (simp add: expect_keys_same)

lemma read_preview_json: "read_preview (json_norm (patch_preview_json r)) = Inr r"
  unfolding read_preview_def patch_preview_json_def expect_object_norm bind_r_simps
  by (subst item_at_norm, simp)+ (simp add: expect_keys_same)

lemma read_finding_json: "read_finding (json_norm (gw_finding_json r)) = Inr r"
  unfolding read_finding_def gw_finding_json_def expect_object_norm bind_r_simps
  by (subst item_at_norm, simp)+ (simp add: expect_keys_same)

lemma read_report_json: "read_report (json_norm (gw_report_json r)) = Inr r"
proof -
  have f: "map_r read_finding (map (json_norm \<circ> gw_finding_json) xs) = Inr xs" for xs
    by (rule map_r_map) (simp add: read_finding_json)
  show ?thesis
    unfolding read_report_def gw_report_json_def expect_object_norm bind_r_simps
    by (subst item_at_norm, simp)+ (simp add: expect_keys_same f)
qed

text \<open>The readers of records with timestamps return the record or refuse a time outside the calendar.\<close>

lemma read_question_json:
  "read_question (json_norm (question_record_json r)) =
     (if \<forall>t. qr_answered_at r = Some t \<longrightarrow> in_datetime_range (int t) then Inr r
      else Inl (StateIntegrityError ''question.answered_at''))"
  unfolding read_question_def question_record_json_def expect_object_norm bind_r_simps
  by (subst item_at_norm, simp)+ (simp add: expect_keys_same read_optional_timestamp_time)

lemma read_approval_json:
  "read_approval (json_norm (approval_request_json r)) =
     (if in_datetime_range (int (ap_requested_at r)) then Inr r else Inl (StateIntegrityError ''approval.requested_at''))"
  unfolding read_approval_def approval_request_json_def expect_object_norm bind_r_simps
  by (subst item_at_norm, simp)+ (simp add: expect_keys_same read_timestamp_time)

lemma read_receipt_json:
  "read_receipt (json_norm (approval_receipt_json r)) =
     (if in_datetime_range (int (rc_decided_at r)) then Inr r else Inl (StateIntegrityError ''receipt.decided_at''))"
  unfolding read_receipt_def approval_receipt_json_def receipt_material_def append_Cons append_Nil
    expect_object_norm bind_r_simps
  by (subst item_at_norm, simp)+ (simp add: expect_keys_same read_timestamp_time)

lemma read_evidence_json:
  "read_evidence (json_norm (evidence_record_json r)) =
     (if in_datetime_range (int (er_captured_at r)) then Inr r else Inl (StateIntegrityError ''evidence.captured_at''))"
  unfolding read_evidence_def evidence_record_json_def expect_object_norm bind_r_simps
  by (subst item_at_norm, simp)+ (simp add: expect_keys_same read_timestamp_time)

lemma read_tool_result_json:
  "read_tool_result (json_norm (tool_result_json r)) =
     (if in_datetime_range (int (er_captured_at (tr_evidence r))) then validated tool_result_check r
      else Inl (StateIntegrityError ''evidence.captured_at''))"
  unfolding read_tool_result_def tool_result_json_def expect_object_norm bind_r_simps
  by (subst item_at_norm, simp)+ (cases r, simp add: expect_keys_same read_evidence_json)

lemma read_idempotency_json:
  "read_idempotency (json_norm (idempotency_json r)) = Inr r' \<longleftrightarrow>
     r' = r \<and> in_datetime_range (int (er_captured_at (tr_evidence (ir_result r))))
     \<and> tool_result_check (ir_result r) = Inr () \<and> tr_tool_name (ir_result r) = ir_tool_name r"
  unfolding read_idempotency_def idempotency_json_def expect_object_norm bind_r_simps
  by (subst item_at_norm, simp)+ (auto simp: expect_keys_same read_tool_result_json bind_r_Inr_iff)

section \<open>Snapshots\<close>

definition sorted_snapshot :: "gateway_snapshot \<Rightarrow> gateway_snapshot" where
  "sorted_snapshot s =
     \<lparr>sn_runs = sort_key ar_run_id (sn_runs s), sn_questions = sort_key qr_question_id (sn_questions s),
      sn_approvals = sort_key ap_approval_id (sn_approvals s), sn_receipts = sort_key rc_receipt_id (sn_receipts s),
      sn_previews = sort_key pw_preview_digest (sn_previews s), sn_reports = sort_key vr_report_digest (sn_reports s),
      sn_idempotency = sort_idempotency (sn_idempotency s), sn_evidence = sort_key er_evidence_id (sn_evidence s)\<rparr>"

lemma same_records_sorted: "same_records (sorted_snapshot s) s"
  by (simp add: same_records_def sorted_snapshot_def sort_idempotency_def)

lemma snapshot_payload_sorted: "snapshot_payload (sorted_snapshot s) = snapshot_payload s"
  by (simp add: snapshot_payload_def sorted_snapshot_def sort_idempotency_def sort_key_id_if_sorted)

text \<open>The timestamps are calendar times and the recorded results are results of their tools.\<close>

definition storable :: "gateway_snapshot \<Rightarrow> bool" where
  "storable s \<longleftrightarrow> (\<forall>q \<in> set (sn_questions s). \<forall>t. qr_answered_at q = Some t \<longrightarrow> in_datetime_range (int t))
     \<and> (\<forall>a \<in> set (sn_approvals s). in_datetime_range (int (ap_requested_at a)))
     \<and> (\<forall>r \<in> set (sn_receipts s). in_datetime_range (int (rc_decided_at r)))
     \<and> (\<forall>e \<in> set (sn_evidence s). in_datetime_range (int (er_captured_at e)))
     \<and> (\<forall>i \<in> set (sn_idempotency s). in_datetime_range (int (er_captured_at (tr_evidence (ir_result i))))
          \<and> tool_result_check (ir_result i) = Inr () \<and> tr_tool_name (ir_result i) = ir_tool_name i)"

lemma read_all_norm:
  assumes "distinct (map fst xs)" "map_of xs k = Some (JList (map g vs))"
  shows "read_all f (norm_fields xs) k = map_r f (map (json_norm \<circ> g) vs)"
proof -
  have "item_at xs k = JList (map g vs)" using assms(2) by (simp add: item_at_def)
  then show ?thesis by (simp add: read_all_def item_at_norm [OF assms(1)])
qed

text \<open>The fields of the payload, and what the readers of its lists return.\<close>

definition payload_fields :: "gateway_snapshot \<Rightarrow> fields" where
  "payload_fields s = (case snapshot_payload s of JObj kvs \<Rightarrow> kvs | _ \<Rightarrow> [])"

lemma payload_fields: "snapshot_payload s = JObj (payload_fields s)"
  by (simp add: payload_fields_def snapshot_payload_def)

lemma payload_distinct: "distinct (map fst (payload_fields s))"
  by (simp add: payload_fields_def snapshot_payload_def)

lemma payload_keys: "fst ` set (payload_fields s) = set [''schema_version'', ''runs'', ''questions'', ''approvals'',
    ''receipts'', ''previews'', ''reports'', ''idempotency'', ''evidence'']"
  by (simp add: payload_fields_def snapshot_payload_def)

lemma payload_version: "item_at (norm_fields (payload_fields s)) ''schema_version'' = JInt 1"
  by (subst item_at_norm [OF payload_distinct]) (simp add: payload_fields_def snapshot_payload_def)

lemma payload_lists:
  "map_of (payload_fields s) ''runs'' = Some (JList (map agent_run_json (sn_runs (sorted_snapshot s))))"
  "map_of (payload_fields s) ''questions'' = Some (JList (map question_record_json (sn_questions (sorted_snapshot s))))"
  "map_of (payload_fields s) ''approvals'' = Some (JList (map approval_request_json (sn_approvals (sorted_snapshot s))))"
  "map_of (payload_fields s) ''receipts'' = Some (JList (map approval_receipt_json (sn_receipts (sorted_snapshot s))))"
  "map_of (payload_fields s) ''previews'' = Some (JList (map patch_preview_json (sn_previews (sorted_snapshot s))))"
  "map_of (payload_fields s) ''reports'' = Some (JList (map gw_report_json (sn_reports (sorted_snapshot s))))"
  "map_of (payload_fields s) ''idempotency'' = Some (JList (map idempotency_json (sn_idempotency (sorted_snapshot s))))"
  "map_of (payload_fields s) ''evidence'' = Some (JList (map evidence_record_json (sn_evidence (sorted_snapshot s))))"
  by (simp_all add: payload_fields_def snapshot_payload_def sorted_snapshot_def)

lemmas payload_reads = payload_lists [THEN read_all_norm [OF payload_distinct]]

lemma sorted_snapshot_sets:
  "set (sn_runs (sorted_snapshot s)) = set (sn_runs s)" "set (sn_questions (sorted_snapshot s)) = set (sn_questions s)"
  "set (sn_approvals (sorted_snapshot s)) = set (sn_approvals s)" "set (sn_receipts (sorted_snapshot s)) = set (sn_receipts s)"
  "set (sn_idempotency (sorted_snapshot s)) = set (sn_idempotency s)" "set (sn_evidence (sorted_snapshot s)) = set (sn_evidence s)"
  by (simp_all add: sorted_snapshot_def sort_idempotency_def)

lemma read_lists:
  assumes "storable s"
  shows "map_r read_run (map (json_norm \<circ> agent_run_json) (sn_runs (sorted_snapshot s))) = Inr (sn_runs (sorted_snapshot s))"
    "map_r read_question (map (json_norm \<circ> question_record_json) (sn_questions (sorted_snapshot s))) = Inr (sn_questions (sorted_snapshot s))"
    "map_r read_approval (map (json_norm \<circ> approval_request_json) (sn_approvals (sorted_snapshot s))) = Inr (sn_approvals (sorted_snapshot s))"
    "map_r read_receipt (map (json_norm \<circ> approval_receipt_json) (sn_receipts (sorted_snapshot s))) = Inr (sn_receipts (sorted_snapshot s))"
    "map_r read_preview (map (json_norm \<circ> patch_preview_json) (sn_previews (sorted_snapshot s))) = Inr (sn_previews (sorted_snapshot s))"
    "map_r read_report (map (json_norm \<circ> gw_report_json) (sn_reports (sorted_snapshot s))) = Inr (sn_reports (sorted_snapshot s))"
    "map_r read_idempotency (map (json_norm \<circ> idempotency_json) (sn_idempotency (sorted_snapshot s))) = Inr (sn_idempotency (sorted_snapshot s))"
    "map_r read_evidence (map (json_norm \<circ> evidence_record_json) (sn_evidence (sorted_snapshot s))) = Inr (sn_evidence (sorted_snapshot s))"
  by (rule map_r_map; use assms in \<open>simp add: storable_def sorted_snapshot_sets comp_def read_run_json read_question_json
      read_approval_json read_receipt_json read_preview_json read_report_json read_evidence_json read_idempotency_json\<close>)+

lemma read_lists_only:
  "map_r read_run (map (json_norm \<circ> agent_run_json) xs1) = Inr ys1 \<Longrightarrow> ys1 = xs1"
  "map_r read_question (map (json_norm \<circ> question_record_json) xs2) = Inr ys2 \<Longrightarrow> ys2 = xs2"
  "map_r read_approval (map (json_norm \<circ> approval_request_json) xs3) = Inr ys3 \<Longrightarrow> ys3 = xs3"
  "map_r read_receipt (map (json_norm \<circ> approval_receipt_json) xs4) = Inr ys4 \<Longrightarrow> ys4 = xs4"
  "map_r read_preview (map (json_norm \<circ> patch_preview_json) xs5) = Inr ys5 \<Longrightarrow> ys5 = xs5"
  "map_r read_report (map (json_norm \<circ> gw_report_json) xs6) = Inr ys6 \<Longrightarrow> ys6 = xs6"
  "map_r read_idempotency (map (json_norm \<circ> idempotency_json) xs7) = Inr ys7 \<Longrightarrow> ys7 = xs7"
  "map_r read_evidence (map (json_norm \<circ> evidence_record_json) xs8) = Inr ys8 \<Longrightarrow> ys8 = xs8"
  by (erule map_r_map_iff [rotated]; auto simp: comp_def read_run_json read_question_json read_approval_json
      read_receipt_json read_preview_json read_report_json read_evidence_json read_idempotency_json split: if_splits)+

lemma distinct_map_sort_key: "distinct (map f (sort_key k xs)) = distinct (map f xs)"
proof -
  have "mset (map f (sort_key k xs)) = mset (map f xs)" by simp
  then show ?thesis by (rule mset_eq_imp_distinct_iff)
qed

lemma snapshot_check_sorted: "snapshot_check (sorted_snapshot s) = snapshot_check s"
  by (simp add: snapshot_check_def sorted_snapshot_def sort_idempotency_def distinct_map_sort_key)

lemma payload_fields_sorted: "payload_fields (sorted_snapshot s) = payload_fields s"
  by (simp add: payload_fields_def snapshot_payload_sorted)

lemma snapshot_from_payload_norm:
  assumes "storable s" "snapshot_check s = Inr ()"
  shows "snapshot_from_payload (json_norm (snapshot_payload s)) = Inr (sorted_snapshot s)"
proof -
  let ?s = "sorted_snapshot s"
  have n: "json_norm (JObj (norm_fields (payload_fields s))) = json_norm (JObj (payload_fields s))"
    using json_norm_idem [of "JObj (payload_fields s)"] by (simp add: norm_fields_def)
  have eta: "\<lparr>sn_runs = sn_runs ?s, sn_questions = sn_questions ?s, sn_approvals = sn_approvals ?s,
      sn_receipts = sn_receipts ?s, sn_previews = sn_previews ?s, sn_reports = sn_reports ?s,
      sn_idempotency = sn_idempotency ?s, sn_evidence = sn_evidence ?s\<rparr> = ?s" by simp
  have v: "validated snapshot_check ?s = Inr ?s" using assms(2) snapshot_check_sorted [of s] by simp
  show ?thesis
    unfolding snapshot_from_payload_def payload_fields expect_object_norm bind_r_simps
      expect_keys_same [OF keys_norm_fields [THEN trans, OF payload_keys]] payload_version read_simps payload_reads
      read_lists [OF assms(1)] eta v n payload_fields_sorted by simp
qed

lemma snapshot_from_payload_only:
  assumes "snapshot_from_payload (json_norm (snapshot_payload s)) = Inr x"
  shows "x = sorted_snapshot s"
proof -
  from assms obtain f1 f2 f3 f4 f5 f6 f7 f8 where
    "map_r read_run (map (json_norm \<circ> agent_run_json) (sn_runs (sorted_snapshot s))) = Inr f1"
    "map_r read_question (map (json_norm \<circ> question_record_json) (sn_questions (sorted_snapshot s))) = Inr f2"
    "map_r read_approval (map (json_norm \<circ> approval_request_json) (sn_approvals (sorted_snapshot s))) = Inr f3"
    "map_r read_receipt (map (json_norm \<circ> approval_receipt_json) (sn_receipts (sorted_snapshot s))) = Inr f4"
    "map_r read_preview (map (json_norm \<circ> patch_preview_json) (sn_previews (sorted_snapshot s))) = Inr f5"
    "map_r read_report (map (json_norm \<circ> gw_report_json) (sn_reports (sorted_snapshot s))) = Inr f6"
    "map_r read_idempotency (map (json_norm \<circ> idempotency_json) (sn_idempotency (sorted_snapshot s))) = Inr f7"
    "map_r read_evidence (map (json_norm \<circ> evidence_record_json) (sn_evidence (sorted_snapshot s))) = Inr f8"
    "x = \<lparr>sn_runs = f1, sn_questions = f2, sn_approvals = f3, sn_receipts = f4,
       sn_previews = f5, sn_reports = f6, sn_idempotency = f7, sn_evidence = f8\<rparr>"
    unfolding snapshot_from_payload_def payload_fields expect_object_norm bind_r_simps
      expect_keys_same [OF keys_norm_fields [THEN trans, OF payload_keys]] payload_version read_simps payload_reads
    by (auto simp: bind_r_Inr_iff simp del: raise_first.simps)
  then show ?thesis using read_lists_only by simp
qed

lemma unique_keys_leaves [simp]:
  "distinct_keys (jopt v)" "distinct_keys (jint_option i)" "distinct_keys (jstrings xs)" "distinct_keys (jtime t)"
  "distinct_keys (jtime_option u)"
  by (simp_all add: jopt_def jint_option_def jstrings_def jtime_def jtime_option_def list_all_iff split: option.splits)

lemma unique_keys_records [simp]:
  "distinct_keys (agent_run_json r1)" "distinct_keys (question_record_json r2)" "distinct_keys (approval_request_json r3)"
  "distinct_keys (approval_receipt_json r4)" "distinct_keys (patch_preview_json r5)" "distinct_keys (gw_finding_json r6)"
  "distinct_keys (evidence_record_json r7)" "distinct_keys (stage_record_json r8)" "distinct_keys (export_artifact_json r9)"
  "distinct_keys (project_snapshot_json r10)"
  by (simp_all add: agent_run_json_def question_record_json_def approval_request_json_def approval_receipt_json_def
      receipt_material_def patch_preview_json_def gw_finding_json_def evidence_record_json_def stage_record_json_def
      export_artifact_json_def project_snapshot_json_def)

lemma unique_keys_nested [simp]: "distinct_keys (gw_report_json r)" "distinct_keys (tool_result_json t)"
  by (simp_all add: gw_report_json_def tool_result_json_def list_all_iff)

lemma unique_keys_payload: "distinct_keys (snapshot_payload s)"
  by (simp add: snapshot_payload_def list_all_iff idempotency_json_def)

lemma decode_body_written:
  assumes "storable s" "snapshot_check s = Inr ()"
  shows "decode_body (canonical_json (snapshot_payload s)) = Inr (sorted_snapshot s)"
  by (simp add: decode_body_def json_loads_unique_canonical [OF unique_keys_payload]
      snapshot_from_payload_norm [OF assms] snapshot_payload_sorted)

lemma decode_body_only:
  assumes "decode_body (canonical_json (snapshot_payload s)) = Inr x"
  shows "x = sorted_snapshot s"
proof -
  from assms have "snapshot_from_payload (json_norm (snapshot_payload s)) = Inr x"
    by (auto simp: decode_body_def json_loads_unique_canonical [OF unique_keys_payload] bind_r_Inr_iff
        simp del: raise_first.simps)
  then show ?thesis by (rule snapshot_from_payload_only)
qed

end
