(* ===== verification/Gateway_Journal.thy ===== *)
theory Gateway_Journal
  imports Gateway_Store_Props
begin

text \<open>
  The journal as a store of the gateway: saving appends one event that the next load returns, a save on a stale
  generation is refused and changes nothing, and the last authentication code determines the whole
  history. The interpretation makes the results about gateway histories available for processes that share
  a journal.
\<close>

section \<open>Loading a chain\<close>

lemma load_events_Cons:
  "load_events h key sid n prev snap (r # rs) = Inr out \<longleftrightarrow>
     je_generation r = n + 1 \<and> je_state_id r = sid \<and> je_body_sha256 r = sha256_text h (je_body r)
     \<and> je_previous_mac r = prev \<and> je_event_mac r = event_mac h key sid (n + 1) (je_body_sha256 r) prev
     \<and> (\<exists>s. decode_body (je_body r) = Inr s
          \<and> load_events h key sid (n + 1) (je_event_mac r) s rs = Inr out)"
  by (auto simp: Let_def bind_r_Inr_iff)

declare load_events.simps(2) [simp del]

lemma load_events_append:
  assumes "load_events h key sid n prev snap rs = Inr (m, s)"
  shows "load_events h key sid n prev snap (rs @ qs)
    = load_events h key sid m (if rs = [] then prev else je_event_mac (last rs)) s qs"
  using assms
proof (induction rs arbitrary: n prev snap)
  case (Cons r rs)
  from Cons.prems obtain s1 where r: "je_generation r = n + 1" "je_state_id r = sid"
    "je_body_sha256 r = sha256_text h (je_body r)" "je_previous_mac r = prev"
    "je_event_mac r = event_mac h key sid (n + 1) (je_body_sha256 r) prev" "decode_body (je_body r) = Inr s1"
    "load_events h key sid (n + 1) (je_event_mac r) s1 rs = Inr (m, s)"
    unfolding load_events_Cons by blast
  have "load_events h key sid n prev snap (r # rs @ qs) = load_events h key sid (n + 1) (je_event_mac r) s1 (rs @ qs)"
    using r by (simp add: load_events.simps(2) Let_def)
  with Cons.IH [OF r(7)] show ?case by (cases rs) simp_all
qed simp

lemma load_events_length: "load_events h key sid n prev snap rs = Inr (m, s) \<Longrightarrow> m = n + length rs"
proof (induction rs arbitrary: n prev snap)
  case (Cons r rs)
  then show ?case unfolding load_events_Cons by fastforce
qed simp

lemma load_events_held:
  "load_events h key sid n prev snap rs = Inr (m, s) \<Longrightarrow> s = snap \<or> (\<exists>r \<in> set rs. decode_body (je_body r) = Inr s)"
proof (induction rs arbitrary: n prev snap)
  case (Cons r rs)
  then show ?case unfolding load_events_Cons by (metis list.set_intros)
qed simp

section \<open>The journal is a gateway store\<close>

definition held_snapshots :: "journal_event list \<Rightarrow> gateway_snapshot set" where
  "held_snapshots rows = {s. \<exists>r \<in> set rows. decode_body (je_body r) = Inr s}"

lemma journal_save_cases:
  assumes "journal_save h key sid snap n rows = (rows', r)"
  obtains (refused) e where "rows' = rows" "r = Inl e"
  | (saved) s0 ev where "load_events h key sid 0 genesis_mac empty_snapshot rows = Inr (n, s0)"
      "rows' = rows @ [ev]" "r = Inr (n + 1, snap)"
      "ev = \<lparr>je_generation = n + 1, je_state_id = sid, je_body = canonical_json (snapshot_payload snap),
         je_body_sha256 = sha256_text h (canonical_json (snapshot_payload snap)), je_previous_mac = last_mac rows,
         je_event_mac = event_mac h key sid (n + 1) (sha256_text h (canonical_json (snapshot_payload snap))) (last_mac rows)\<rparr>"
proof (cases "load_events h key sid 0 genesis_mac empty_snapshot rows")
  case (Inl e)
  with assms have "rows' = rows" "r = Inl e" by (auto simp: journal_save_def Let_def)
  then show ?thesis by (rule refused)
next
  case (Inr y)
  obtain m s0 where y: "y = (m, s0)" by (cases y)
  show ?thesis
  proof (cases "m = n")
    case True
    with assms Inr y show ?thesis by (intro saved) (auto simp: journal_save_def Let_def)
  next
    case False
    with assms Inr y refused show ?thesis by (auto simp: journal_save_def Let_def)
  qed
qed

interpretation journal: gateway_storage "Some (journal_store h key sid)" held_snapshots for h key sid
proof
  fix st s s' r
  assume "Some (journal_store h key sid) = Some st" and l: "st_load st s = (s', r)"
  then have st: "st = journal_store h key sid" by simp
  from l show "held_snapshots s' \<subseteq> held_snapshots s" by (simp add: st journal_store_def journal_load_def)
next
  fix st s s' n snap
  assume "Some (journal_store h key sid) = Some st" and l: "st_load st s = (s', Inr (n, snap))"
  then have st: "st = journal_store h key sid" by simp
  from l have "load_events h key sid 0 genesis_mac empty_snapshot s = Inr (n, snap)"
    by (auto simp: st journal_store_def journal_load_def)
  from load_events_held [OF this] show "snap \<in> held_snapshots s \<or> snap = empty_snapshot"
    by (auto simp: held_snapshots_def)
next
  fix st snap n s s' y x
  assume "Some (journal_store h key sid) = Some st" and l: "st_save st snap n s = (s', Inr y)"
    and x: "x \<in> held_snapshots s'"
  then have st: "st = journal_store h key sid" by simp
  from l have "journal_save h key sid snap n s = (s', Inr y)" by (simp add: st journal_store_def)
  then show "x \<in> held_snapshots s \<or> same_records x snap"
  proof (cases rule: journal_save_cases)
    case (saved s0 ev)
    then show ?thesis using x decode_body_only [of snap x] same_records_sorted [of snap]
      by (auto simp: held_snapshots_def)
  qed simp
next
  fix st snap n s s' e
  assume "Some (journal_store h key sid) = Some st" and l: "st_save st snap n s = (s', Inl e)"
  then have st: "st = journal_store h key sid" by simp
  from l have "journal_save h key sid snap n s = (s', Inl e)" by (simp add: st journal_store_def)
  then show "held_snapshots s' \<subseteq> held_snapshots s" by (cases rule: journal_save_cases) simp_all
qed

section \<open>Properties\<close>

lemma journal_save_load:
  assumes "load_events h key sid 0 genesis_mac empty_snapshot rows = Inr (n, s0)" "storable s" "snapshot_check s = Inr ()"
  shows "\<exists>ev. journal_save h key sid s n rows = (rows @ [ev], Inr (n + 1, s))
      \<and> load_events h key sid 0 genesis_mac empty_snapshot (rows @ [ev]) = Inr (n + 1, sorted_snapshot s)"
proof -
  let ?b = "canonical_json (snapshot_payload s)"
  define ev where "ev = \<lparr>je_generation = n + 1, je_state_id = sid, je_body = ?b, je_body_sha256 = sha256_text h ?b,
      je_previous_mac = last_mac rows, je_event_mac = event_mac h key sid (n + 1) (sha256_text h ?b) (last_mac rows)\<rparr>"
  have "journal_save h key sid s n rows = (rows @ [ev], Inr (n + 1, s))"
    by (simp add: journal_save_def assms(1) ev_def Let_def)
  moreover have "load_events h key sid 0 genesis_mac empty_snapshot (rows @ [ev]) = Inr (n + 1, sorted_snapshot s)"
    unfolding load_events_append [OF assms(1)] load_events_Cons
    using decode_body_written [OF assms(2,3)] by (simp add: ev_def last_mac_def)
  ultimately show ?thesis by blast
qed

text \<open>
  C15: The journal gives back what was saved. On a journal whose chain is intact at generation n, saving a
  snapshot for generation n appends one event and returns n + 1, and the next load, also by
  another process, returns generation n + 1 with the same records in the order of their identities; saving
  for any other generation raises a conflict and leaves the journal as it is. The snapshot has calendar
  timestamps, results of their own tools and unique identities.
\<close>

theorem journal_keeps_saved_state:
  assumes "journal_load h key sid rows = (rows, Inr (n, s0))" "storable s" "snapshot_check s = Inr ()"
  shows "(\<exists>ev. journal_save h key sid s n rows = (rows @ [ev], Inr (n + 1, s))
      \<and> journal_load h key sid (rows @ [ev]) = (rows @ [ev], Inr (n + 1, sorted_snapshot s)))
    \<and> (\<forall>m. m \<noteq> n \<longrightarrow> (\<exists>e. journal_save h key sid s m rows = (rows, Inl (StateConflict e))))"
proof -
  have l: "load_events h key sid 0 genesis_mac empty_snapshot rows = Inr (n, s0)"
    using assms(1) by (simp add: journal_load_def)
  have "\<exists>ev. journal_save h key sid s n rows = (rows @ [ev], Inr (n + 1, s))
      \<and> journal_load h key sid (rows @ [ev]) = (rows @ [ev], Inr (n + 1, sorted_snapshot s))"
    using journal_save_load [OF l assms(2,3)] by (auto simp: journal_load_def)
  moreover have "\<exists>e. journal_save h key sid s m rows = (rows, Inl (StateConflict e))" if "m \<noteq> n" for m
    using that by (simp add: journal_save_def l Let_def)
  ultimately show ?thesis by blast
qed

text \<open>A snapshot with one planning run.\<close>

definition sample_snapshot :: gateway_snapshot where
  "sample_snapshot = empty_snapshot\<lparr>sn_runs := [\<lparr>ar_run_id = ''run_1'', ar_project_id = ''board'', ar_objective = ''ground'',
     ar_project_revision = ''rev_base'', ar_run_revision = 0, ar_state = State_PLANNING, ar_strict_user_coordination = True,
     ar_max_parallel_agents = None, ar_token_budget = None, ar_question_ids = [], ar_approval_ids = [],
     ar_staged_revision = None, ar_verification_report_digest = None\<rparr>]\<rparr>"

lemma sample_snapshot_ok: "storable sample_snapshot" "snapshot_check sample_snapshot = Inr ()"
  by (simp_all add: sample_snapshot_def empty_snapshot_def storable_def snapshot_check_def)

theorem journal_keeps_saved_state_witness:
  "(\<exists>ev. journal_save (\<lambda>x. x) [1] ''state'' sample_snapshot 0 [] = ([ev], Inr (1, sample_snapshot))
      \<and> journal_load (\<lambda>x. x) [1] ''state'' [ev] = ([ev], Inr (1, sorted_snapshot sample_snapshot)))
    \<and> (\<exists>e. journal_save (\<lambda>x. x) [1] ''state'' sample_snapshot 5 [] = ([], Inl (StateConflict e)))"
proof -
  have "journal_load (\<lambda>x. x) [1] ''state'' [] = ([], Inr (0, empty_snapshot))" by (simp add: journal_load_def)
  from journal_keeps_saved_state [OF this sample_snapshot_ok] show ?thesis by simp
qed

text \<open>The bytes that the code of an event authenticates, and what two events with one code have in common.\<close>

definition event_bytes :: "journal_event \<Rightarrow> byte list" where
  "event_bytes r = utf8_bytes (canonical_json
     (event_material (je_state_id r) (je_generation r) (je_body_sha256 r) (je_previous_mac r)))"

definition events_collide :: "(byte list \<Rightarrow> byte list) \<Rightarrow> byte list \<Rightarrow> journal_event \<Rightarrow> journal_event \<Rightarrow> bool" where
  "events_collide h key r q \<longleftrightarrow> hmac_collision h key (event_bytes r) (event_bytes q)
     \<or> collision h (utf8_bytes (je_body r)) (utf8_bytes (je_body q))"

lemma event_material_inject:
  assumes "canonical_json (event_material sid n b p) = canonical_json (event_material sid' n' b' p')"
  shows "sid = sid' \<and> n = n' \<and> b = b' \<and> p = p'"
proof -
  let ?m = "\<lambda>sid n b p. [(''body_sha256'', JStr b), (''domain'', JStr ''evleda-gateway-state-event-v1''),
      (''generation'', JInt (int n)), (''previous_mac'', JStr p), (''state_id'', JStr sid)]"
  have "json_norm (JObj (?m sid n b p)) = json_norm (JObj (?m sid' n' b' p'))"
    using canonical_json_norm_inject [OF assms] by (simp add: event_material_def)
  then have eq: "json_field k (JObj (?m sid n b p)) = json_field k (JObj (?m sid' n' b' p'))" for k
    by (rule json_field_cong) simp_all
  from eq [of "''state_id''"] eq [of "''generation''"] eq [of "''body_sha256''"] eq [of "''previous_mac''"]
  show ?thesis by (simp add: json_field_def)
qed

definition authentic :: "(byte list \<Rightarrow> byte list) \<Rightarrow> byte list \<Rightarrow> string \<Rightarrow> journal_event \<Rightarrow> bool" where
  "authentic h key sid r \<longleftrightarrow> je_state_id r = sid \<and> je_body_sha256 r = sha256_text h (je_body r)
     \<and> je_event_mac r = event_mac h key sid (je_generation r) (je_body_sha256 r) (je_previous_mac r)"

lemma authentic_same:
  assumes "authentic h key sid r" "authentic h key sid q" "je_event_mac r = je_event_mac q" "\<not> events_collide h key r q"
  shows "r = q"
proof -
  have "hmac h key (event_bytes r) = hmac h key (event_bytes q)"
    using assms(1-3) by (simp add: authentic_def event_mac_def mac_hex_def hexdigest_inject event_bytes_def)
  then have "event_bytes r = event_bytes q" using hmac_eq_cases assms(4) by (metis events_collide_def)
  then have "je_state_id r = je_state_id q \<and> je_generation r = je_generation q
      \<and> je_body_sha256 r = je_body_sha256 q \<and> je_previous_mac r = je_previous_mac q"
    unfolding event_bytes_def by (intro event_material_inject) simp
  moreover from this have "je_body r = je_body q"
    using assms(1,2,4) by (auto simp: authentic_def events_collide_def sha256_text_eq_iff)
  ultimately show ?thesis using assms(3) by (cases r; cases q) simp
qed

lemma load_snoc:
  assumes "load_events h key sid 0 genesis_mac empty_snapshot (rs @ [r]) = Inr out"
  shows "authentic h key sid r \<and> je_generation r = Suc (length rs) \<and> je_previous_mac r = last_mac rs
    \<and> (\<exists>out'. load_events h key sid 0 genesis_mac empty_snapshot rs = Inr out')"
proof -
  have "\<exists>x. load_events h key sid n p s rs = Inr x" if "load_events h key sid n p s (rs @ [r]) = Inr out" for n p s
    using that by (induction rs arbitrary: n p s) (auto simp: load_events_Cons)
  with assms obtain m s where l: "load_events h key sid 0 genesis_mac empty_snapshot rs = Inr (m, s)" by fastforce
  from assms have "load_events h key sid m (last_mac rs) s [r] = Inr out"
    using load_events_append [OF l, of "[r]"] by (simp add: last_mac_def)
  then show ?thesis using load_events_length [OF l] l unfolding load_events_Cons by (auto simp: authentic_def)
qed

text \<open>
  C16: The history in the journal is tamper-evident. Two journals that both load under one key and one state
  identity, and whose last events carry the same authentication code, are the same list of events; otherwise
  two of their events, at the same place counted from the end, collide under the hash of their
  bodies or under the HMAC of their headers.
\<close>

theorem journal_pinned_by_last_code:
  assumes "journal_load h key sid (rows @ [r]) = (x, Inr a)" "journal_load h key sid (rows' @ [q]) = (x', Inr b)"
    and "je_event_mac r = je_event_mac q"
  shows "rows @ [r] = rows' @ [q] \<or> (\<exists>i < min (length (rows @ [r])) (length (rows' @ [q])).
     events_collide h key (rev (rows @ [r]) ! i) (rev (rows' @ [q]) ! i))"
  using assms
proof (induction rows arbitrary: r rows' q a b x x' rule: rev_induct)
  case Nil
  then have l: "load_events h key sid 0 genesis_mac empty_snapshot ([] @ [r]) = Inr a"
    "load_events h key sid 0 genesis_mac empty_snapshot (rows' @ [q]) = Inr b" by (auto simp: journal_load_def)
  note r = load_snoc [OF l(1)] and q = load_snoc [OF l(2)]
  show ?case
  proof (cases "events_collide h key r q")
    case False
    then have "r = q" using authentic_same Nil.prems(3) r q by blast
    then have "rows' = []" using r q by simp
    with \<open>r = q\<close> show ?thesis by simp
  qed (intro disjI2 exI [of _ 0], simp)
next
  case (snoc p rows)
  have l: "load_events h key sid 0 genesis_mac empty_snapshot ((rows @ [p]) @ [r]) = Inr a"
    "load_events h key sid 0 genesis_mac empty_snapshot (rows' @ [q]) = Inr b"
    using snoc.prems by (auto simp: journal_load_def)
  note r = load_snoc [OF l(1)] and q = load_snoc [OF l(2)]
  show ?case
  proof (cases "events_collide h key r q")
    case False
    then have rq: "r = q" using authentic_same snoc.prems(3) r q by blast
    then have "length rows' = Suc (length rows)" using r q by simp
    then obtain ys y where rows': "rows' = ys @ [y]" by (metis length_Suc_conv_rev)
    have "last_mac (rows @ [p]) = last_mac (ys @ [y])" using r q rq rows' by simp
    then have "je_event_mac p = je_event_mac y" by (simp add: last_mac_def)
    moreover obtain c c' where "load_events h key sid 0 genesis_mac empty_snapshot (rows @ [p]) = Inr c"
      "load_events h key sid 0 genesis_mac empty_snapshot (ys @ [y]) = Inr c'" using r q rows' by blast
    then have "journal_load h key sid (rows @ [p]) = (rows @ [p], Inr c)" "journal_load h key sid (ys @ [y]) = (ys @ [y], Inr c')"
      by (simp_all add: journal_load_def)
    ultimately have "rows @ [p] = ys @ [y] \<or> (\<exists>i < min (length (rows @ [p])) (length (ys @ [y])).
        events_collide h key (rev (rows @ [p]) ! i) (rev (ys @ [y]) ! i))"
      by (intro snoc.IH)
    then show ?thesis
    proof
      assume "\<exists>i < min (length (rows @ [p])) (length (ys @ [y])). events_collide h key (rev (rows @ [p]) ! i) (rev (ys @ [y]) ! i)"
      then obtain i where "i < min (length (rows @ [p])) (length (ys @ [y]))"
        "events_collide h key (rev (rows @ [p]) ! i) (rev (ys @ [y]) ! i)" by blast
      then show ?thesis by (intro disjI2 exI [of _ "Suc i"]) (simp add: rows')
    qed (simp add: rows' rq)
  qed (intro disjI2 exI [of _ 0], simp)
qed

theorem journal_pinned_by_last_code_witness:
  "\<exists>ev a. journal_load (\<lambda>x. x) [1] ''state'' ([] @ [ev]) = ([ev], Inr a) \<and> ([] @ [ev] = [] @ [ev]
     \<or> (\<exists>i < min (length ([] @ [ev])) (length ([] @ [ev])). events_collide (\<lambda>x. x) [1] (rev ([] @ [ev]) ! i) (rev ([] @ [ev]) ! i)))"
proof -
  have "load_events (\<lambda>x. x) [1] ''state'' 0 genesis_mac empty_snapshot [] = Inr (0, empty_snapshot)" by simp
  from journal_save_load [OF this sample_snapshot_ok] obtain ev where
    l: "journal_load (\<lambda>x. x) [1] ''state'' ([] @ [ev]) = ([ev], Inr (0 + 1, sorted_snapshot sample_snapshot))"
    by (auto simp: journal_load_def)
  from journal_pinned_by_last_code [OF l l refl] l show ?thesis by blast
qed

end
