(* ===== verification/Gateway_Adapters.thy ===== *)
theory Gateway_Adapters
  imports Gateway_Journal
begin

text \<open>
  What the gateway relies on in an adapter, as two locales. \<open>atomic_adapter\<close>: inspecting, previewing and
  verifying change nothing, and an operation that raises has changed nothing. \<open>revision_adapter\<close>: every project has a
  head revision, which only a commit moves, from the expected revision to the staged one. The in-memory
  adapter and the read-only reference adapter satisfy both.
\<close>

section \<open>Payloads are canonical\<close>

lemma perform_payload_unique:
  assumes "perform h cfg ad iv t g req a = (a', Inr (g', pl, rv))"
  shows "distinct_keys pl"
proof (cases req)
  case (InspectProject p r)
  with assms show ?thesis by (auto dest!: inspect_project_Inr)
next
  case (CreateAgentRun r)
  with assms show ?thesis by (auto elim!: create_agent_run_Inr simp: list_all_iff)
next
  case (AnswerQuestion r)
  with assms show ?thesis
    by (auto simp: gw_answer_question_def Let_def ok_simps simp del: raise_first.simps split: option.splits)
next
  case (DecideApproval r)
  with assms show ?thesis by (auto elim!: gw_decide_approval_Inr)
next
  case (PreviewPatch r)
  with assms show ?thesis by (auto elim!: preview_patch_Inr)
next
  case (StageDesignPatch r)
  with assms show ?thesis by (auto elim!: stage_design_patch_Inr)
next
  case (RunVerification r)
  with assms show ?thesis
    by (auto simp: gw_run_verification_def Let_def ok_simps simp del: raise_first.simps split: option.splits)
next
  case (CommitTransaction r)
  with assms show ?thesis
    by (auto simp: commit_transaction_def Let_def ok_simps simp del: raise_first.simps split: option.splits)
next
  case (RollbackTransaction r)
  with assms show ?thesis
    by (auto simp: rollback_transaction_def Let_def ok_simps simp del: raise_first.simps)
next
  case (ExportProject p r f)
  with assms show ?thesis by (auto dest!: export_project_Inr)
qed

lemma make_result_ok:
  "distinct_keys pl \<Longrightarrow> gw_make_result h iv req at pl rv = Inr
     \<lparr>tr_tool_name = request_tool req, tr_payload_json = canonical_json pl,
      tr_evidence = make_evidence h iv req at pl rv, tr_manifest_digest = manifest_digest h (manifest_of (request_tool req))\<rparr>"
  by (simp add: gw_make_result_def tool_result_check_def json_loads_canonical)

section \<open>Atomic adapters\<close>

locale atomic_adapter =
  fixes ad :: "'a kicad_adapter"
  assumes inspect_reads: "op_inspect_project ad p r a = (a', x1) \<Longrightarrow> a' = a"
    and preview_reads: "op_preview_patch ad p v q a = (a', x2) \<Longrightarrow> a' = a"
    and verification_reads: "op_run_verification ad p v s a = (a', x3) \<Longrightarrow> a' = a"
    and stage_atomic: "op_stage_patch ad p v q d a = (a', Inl e) \<Longrightarrow> a' = a"
    and commit_atomic: "op_commit ad p v s a = (a', Inl e) \<Longrightarrow> a' = a"
    and commit_evidence_atomic:
      "op_commit_with_evidence ad = Some f \<Longrightarrow> f p v s run rep rc a = (a', Inl e) \<Longrightarrow> a' = a"
    and rollback_atomic: "op_rollback ad p v s a = (a', Inl e) \<Longrightarrow> a' = a"
    and export_atomic: "op_export_project ad p v fm a = (a', Inl e) \<Longrightarrow> a' = a"
begin

lemma preconditions_read: "require_run_preconditions ad g f a = (a', x) \<Longrightarrow> a' = a"
  by (cases x) (auto simp: require_run_preconditions_def bind_a_Inr bind_a_Inl dest: inspect_reads)

lemma commit_on_adapter_atomic: "commit_on_adapter ad req run rep rc a = (a', Inl e) \<Longrightarrow> a' = a"
  by (auto simp: commit_on_adapter_def Let_def split: option.splits dest: commit_atomic commit_evidence_atomic)

lemma perform_failed:
  assumes "perform h cfg ad iv t g req a = (a', Inl e)"
  shows "a' = a"
proof (cases req)
  case (InspectProject p r)
  with assms show ?thesis by (auto simp: inspect_project_def bind_a_Inl dest: inspect_reads)
next
  case (CreateAgentRun r)
  with assms show ?thesis by (auto simp: create_agent_run_def bind_a_Inl dest: inspect_reads)
next
  case (AnswerQuestion r)
  with assms show ?thesis by (auto simp: gw_answer_question_def bind_a_Inl dest: preconditions_read)
next
  case (DecideApproval r)
  with assms show ?thesis by (auto simp: gw_decide_approval_def bind_a_Inl dest: preconditions_read)
next
  case (PreviewPatch r)
  with assms show ?thesis
    by (auto simp: preview_patch_def bind_a_Inl dest!: preconditions_read dest: preview_reads)
next
  case (StageDesignPatch r)
  with assms show ?thesis
    by (auto simp: stage_design_patch_def bind_a_Inl Let_def dest!: preconditions_read dest: stage_atomic)
next
  case (RunVerification r)
  with assms show ?thesis
    by (auto simp: gw_run_verification_def bind_a_Inl dest!: preconditions_read dest: verification_reads)
next
  case (CommitTransaction r)
  with assms show ?thesis
    by (auto simp: commit_transaction_def bind_a_Inl Let_def dest!: preconditions_read dest: commit_on_adapter_atomic)
next
  case (RollbackTransaction r)
  with assms show ?thesis
    by (auto simp: rollback_transaction_def bind_a_Inl Let_def dest!: preconditions_read dest: rollback_atomic)
next
  case (ExportProject p r f)
  with assms show ?thesis by (auto simp: export_project_def bind_a_Inl dest: export_atomic)
qed

text \<open>Without a store, a call that raises has no effect at all.\<close>

lemma failed_call_changes_nothing:
  assumes "gateway_wf h (gp_state (ww_process w))" "invoke h cfg ad t0 t1 iv req w = (w', Inl e)"
  shows "w' = w"
proof -
  have rf: "refresh_persisted h None (ww_store w, ww_process w)
      = ((ww_store w, ww_process w), Inr ())" by (simp add: refresh_persisted_def)
  show ?thesis
  proof (cases rule: invoke_locked_cases [OF assms(2) rf assms(1), case_names refused replayed fresh failed])
    case (failed at e')
    obtain a1 x where p: "perform h cfg ad iv t1 (gp_state (ww_process w)) req (ww_adapter w) = (a1, x)"
      by (cases "perform h cfg ad iv t1 (gp_state (ww_process w)) req (ww_adapter w)")
    have "ww_adapter w' = ww_adapter w \<and> ww_store w' = ww_store w"
    proof (cases x)
      case (Inl e1)
      with failed(4) p perform_failed [OF p [unfolded Inl]] show ?thesis by (auto simp: attempt_def)
    next
      case (Inr y)
      then obtain g' pl rv where "x = Inr (g', pl, rv)" by (cases y) auto
      with failed(4) p make_result_ok [OF perform_payload_unique [OF p [unfolded this]]] show ?thesis
        by (auto simp: attempt_def save_state_def lift_a_def Let_def)
    qed
    then show ?thesis using failed(5) by (cases w; cases w') simp
  qed simp_all
qed

end

section \<open>Adapters with head revisions\<close>

locale revision_adapter = atomic_adapter ad for ad :: "'a kicad_adapter" +
  fixes head :: "'a \<Rightarrow> string \<Rightarrow> string option"
  assumes inspect_head: "op_inspect_project ad p (Some v) a = (a', Inr x1) \<Longrightarrow> head a p = Some v"
    and stage_head: "op_stage_patch ad p v q d a = (a', Inr x2) \<Longrightarrow> head a' = head a"
    and rollback_head: "op_rollback ad p v s a = (a', Inr x3) \<Longrightarrow> head a' = head a"
    and export_head: "op_export_project ad p v fm a = (a', Inr x4) \<Longrightarrow> head a' = head a"
    and commit_head: "op_commit ad p v s a = (a', Inr n) \<Longrightarrow> head a p = Some v \<and> n = s \<and> head a' = (head a)(p \<mapsto> s)"
    and no_evidence: "op_commit_with_evidence ad = None"
begin

lemma perform_head:
  assumes "perform h cfg ad iv t g req a = (a', Inr (g', pl, rv))" "head a' \<noteq> head a"
  obtains ct where "req = CommitTransaction ct"
    "head a (rf_project_id (ct_run ct)) = Some (rf_expected_project_revision (ct_run ct))"
    "head a' = (head a)(rf_project_id (ct_run ct) \<mapsto> ct_expected_staged_revision ct)"
proof (cases req)
  case (InspectProject p r)
  with assms show ?thesis by (auto simp: inspect_project_def bind_a_Inr dest: inspect_reads)
next
  case (CreateAgentRun r)
  with assms show ?thesis by (auto simp: create_agent_run_def bind_a_Inr dest: inspect_reads)
next
  case (AnswerQuestion r)
  with assms show ?thesis by (auto simp: gw_answer_question_def bind_a_Inr dest: preconditions_read)
next
  case (DecideApproval r)
  with assms show ?thesis by (auto simp: gw_decide_approval_def bind_a_Inr dest: preconditions_read)
next
  case (PreviewPatch r)
  with assms show ?thesis
    by (auto simp: preview_patch_def bind_a_Inr dest!: preconditions_read dest: preview_reads)
next
  case (StageDesignPatch r)
  with assms show ?thesis
    by (auto simp: stage_design_patch_def bind_a_Inr dest!: preconditions_read dest: stage_head)
next
  case (RunVerification r)
  with assms show ?thesis
    by (auto simp: gw_run_verification_def bind_a_Inr dest!: preconditions_read dest: verification_reads)
next
  case (CommitTransaction ct)
  with assms(1) have "commit_transaction h ad ct g a = (a', Inr (g', pl, rv))" by simp
  then obtain run a1 rep rc where "require_run_preconditions ad g (ct_run ct) a = (a1, Inr run)"
    "commit_on_adapter ad ct run rep rc a1 = (a', Inr rv)" by (rule commit_transaction_Inr) blast
  then have "op_commit ad (rf_project_id (ct_run ct)) (rf_expected_project_revision (ct_run ct))
      (ct_expected_staged_revision ct) a = (a', Inr rv)"
    by (auto simp: commit_on_adapter_def no_evidence Let_def dest!: preconditions_read)
  from commit_head [OF this] CommitTransaction show ?thesis by (intro that) auto
next
  case (RollbackTransaction r)
  with assms show ?thesis
    by (auto simp: rollback_transaction_def bind_a_Inr Let_def dest!: preconditions_read dest: rollback_head)
next
  case (ExportProject p r f)
  with assms show ?thesis by (auto simp: export_project_def bind_a_Inr dest: export_head)
qed

text \<open>With or without a store: the tool that moved a head is a commit, whatever became of the call afterwards.\<close>

lemma head_moves_by_commit:
  assumes "refresh_persisted h store (ww_store w, ww_process w) = ((s, p), x)" "gateway_wf h (gp_state p)"
    "invoke_locked h cfg ad store t0 t1 iv req w = (w', r)" "head (ww_adapter w') \<noteq> head (ww_adapter w)"
  obtains ct g' pl rv where "req = CommitTransaction ct" "pr_profile (inv_principal iv) = Profile_RELEASE_MANAGER"
    "head (ww_adapter w) (rf_project_id (ct_run ct)) = Some (rf_expected_project_revision (ct_run ct))"
    "head (ww_adapter w') = (head (ww_adapter w))(rf_project_id (ct_run ct) \<mapsto> ct_expected_staged_revision ct)"
    "commit_transaction h ad ct (gp_state p) (ww_adapter w) = (ww_adapter w', Inr (g', pl, rv))"
proof -
  obtain u where x: "x = Inr u"
    using assms(1,3,4) by (cases x) (auto simp: invoke_locked_def)
  obtain a1 y where p: "perform h cfg ad iv t1 (gp_state p) req (ww_adapter w) = (a1, y)" by fastforce
  have "ww_adapter w' = a1 \<and> tier_value (required_tier (request_tool req)) \<le> tier_value (maximum_tier (pr_profile (inv_principal iv)))"
  proof (cases rule: invoke_locked_cases [OF assms(3) assms(1) [unfolded x] assms(2), case_names refused replayed fresh failed])
    case (fresh at res)
    from fresh(4) show ?thesis by (rule attempt_Inr) (use p fresh(3) in simp)
  next
    case (failed at e)
    from failed(4) show ?thesis using p failed(3) by (auto simp: attempt_def Let_def split: sum.splits prod.splits)
  qed (use assms(4) in simp_all)
  then have a1: "ww_adapter w' = a1"
    and tier: "tier_value (required_tier (request_tool req)) \<le> tier_value (maximum_tier (pr_profile (inv_principal iv)))" by simp_all
  have "\<exists>g' pl rv. y = Inr (g', pl, rv)"
    using perform_failed [of h cfg iv t1 "gp_state p" req "ww_adapter w" a1] p assms(4) a1 by (cases y) auto
  then obtain g' pl rv where y: "y = Inr (g', pl, rv)" by blast
  obtain ct where ct: "req = CommitTransaction ct"
    "head (ww_adapter w) (rf_project_id (ct_run ct)) = Some (rf_expected_project_revision (ct_run ct))"
    "head a1 = (head (ww_adapter w))(rf_project_id (ct_run ct) \<mapsto> ct_expected_staged_revision ct)"
    using perform_head [OF p [unfolded y]] assms(4) unfolding a1 by blast
  have "pr_profile (inv_principal iv) = Profile_RELEASE_MANAGER" using tier ct(1) release_profile by auto
  with ct a1 p y show ?thesis by (intro that [of ct g' pl rv]) simp_all
qed

end

section \<open>The in-memory adapter\<close>

definition project_head :: "memory_adapter \<Rightarrow> string \<Rightarrow> string option" where
  "project_head a p = map_option pj_project_revision (map_of (ma_projects a) p)"

lemmas mem_defs = in_memory_adapter_def mem_inspect_project_def mem_preview_patch_def mem_stage_patch_def
  mem_run_verification_def mem_commit_def mem_rollback_def mem_export_project_def

lemma find_state_Inr [simp]: "find_state a p = Inr s \<longleftrightarrow> map_of (ma_projects a) p = Some s"
  by (simp add: find_state_def split: option.splits)

lemma expect_project_revision_Inr [simp]: "expect_project_revision s v = Inr u \<longleftrightarrow> pj_project_revision s = v"
  by (simp add: expect_project_revision_def)

lemma expect_stage_Inr:
  "expect_stage s v w = Inr t \<longleftrightarrow> pj_project_revision s = v \<and> pj_stage s = Some t \<and> sr_staged_revision t = w"
  by (auto simp: expect_stage_def bind_r_Inr_iff split: option.splits)

lemma put_state_lookup: "map_of (ma_projects (put_state p s a)) = (map_of (ma_projects a))(p \<mapsto> s)"
  by (simp add: put_state_def update_conv')

lemma project_head_put:
  "project_head (put_state p s a) = (project_head a)(p \<mapsto> pj_project_revision s)"
  by (auto simp: project_head_def put_state_lookup fun_eq_iff)

lemma clear_stage_revision [simp]: "pj_project_revision (clear_stage s) = pj_project_revision s"
  by (simp add: clear_stage_def)

lemma head_upd_same: "project_head a p = Some v \<Longrightarrow> (project_head a)(p \<mapsto> v) = project_head a"
  by (auto simp: fun_eq_iff)

interpretation memory: revision_adapter "in_memory_adapter h hook" project_head for h hook
proof unfold_locales
  fix p v q d a a' x2
  assume "op_stage_patch (in_memory_adapter h hook) p v q d a = (a', Inr x2)"
  then show "project_head a' = project_head a"
    by (auto simp: mem_defs bind_r_Inr_iff project_head_put project_head_def [of a p] intro!: head_upd_same
        simp del: raise_first.simps split: sum.splits)
next
  fix p v s a a' n
  assume "op_commit (in_memory_adapter h hook) p v s a = (a', Inr n)"
  then show "project_head a p = Some v \<and> n = s \<and> project_head a' = (project_head a)(p \<mapsto> s)"
    by (auto simp: mem_defs bind_r_Inr_iff expect_stage_Inr project_head_put project_head_def [of a p]
        split: sum.splits option.splits)
next
  fix p v s a a' x3
  assume "op_rollback (in_memory_adapter h hook) p v s a = (a', Inr x3)"
  then show "project_head a' = project_head a"
    by (auto simp: mem_defs bind_r_Inr_iff project_head_put project_head_def [of a p] intro!: head_upd_same
        split: sum.splits)
qed (auto simp: mem_defs bind_r_Inr_iff project_head_def Let_def split: sum.splits)

section \<open>The reference adapter\<close>

interpretation reference: revision_adapter reference_adapter
  "\<lambda>s. [ps_project_id s \<mapsto> ps_project_revision s]"
  by unfold_locales
    (auto simp: reference_adapter_def ref_inspect_project_def read_only_def bind_r_Inr_iff raise_first_Inr_iff
      simp del: raise_first.simps)

end
