(* ===== verification/Gateway_Progress.thy ===== *)
theory Gateway_Progress
  imports Gateway_Adapters
begin

text \<open>
  The way of a patch through the gateway and the in-memory adapter: create a run, preview, approve, stage,
  verify, approve, commit. Each step succeeds from the state that the previous one leaves, so the seven calls
  publish the patched design.
\<close>

section \<open>A call whose tool succeeds\<close>

lemma snapshot_check_take:
  assumes "gateway_wf h g"
  shows "snapshot_check (take_snapshot g) =
    (if distinct (map er_evidence_id (gs_evidence g)) then Inr ()
     else Inl (StateIntegrityError ''duplicate evidence identity''))"
proof -
  have k: "distinct (map key (dict_values d))" if "indexed key d" for key :: "'x \<Rightarrow> 'y" and d
    using indexed_distinct [OF that] by (simp add: dict_values_def)
  have "map idempotency_key_of (sn_idempotency (take_snapshot g)) = map fst (gs_idempotency g)"
    by (auto simp: take_snapshot_def idempotency_key_of_def)
  then have i: "distinct (map idempotency_key_of (sn_idempotency (take_snapshot g)))"
    using assms by (simp add: gateway_wf_def results_recorded_def)
  have d: "distinct (map ar_run_id (dict_values (gs_runs g)))" "distinct (map qr_question_id (dict_values (gs_questions g)))"
    "distinct (map ap_approval_id (dict_values (gs_approvals g)))" "distinct (map rc_receipt_id (dict_values (gs_receipts g)))"
    "distinct (map pw_preview_digest (dict_values (gs_previews g)))" "distinct (map vr_report_digest (dict_values (gs_reports g)))"
    using assms by (auto simp: gateway_wf_def intro: k)
  show ?thesis using d i by (simp add: snapshot_check_def) (simp add: take_snapshot_def)
qed

lemma invoke_succeeds:
  assumes wf: "gateway_wf h (gp_state (ww_process w))"
    and tier: "tier_value (required_tier (request_tool req)) \<le> tier_value (maximum_tier (pr_profile (inv_principal iv)))"
    and new: "map_of (gs_idempotency (gp_state (ww_process w))) (call_key iv req) = None"
    and at: "gw_now t0 = Inr at"
    and p: "perform h cfg ad iv t1 (gp_state (ww_process w)) req (ww_adapter w) = (a', Inr (g', pl, rv))"
    and inv: "invoke h cfg ad t0 t1 iv req w = (w', r)"
    and nd: "distinct (map er_evidence_id (gs_evidence (gp_state (ww_process w))))"
  obtains res where "r = Inr res" "ww_adapter w' = a'" "gp_state (ww_process w') = record_result h iv req res g'"
    "gw_make_result h iv req at pl rv = Inr res" "gateway_wf h (gp_state (ww_process w'))"
proof -
  define res where "res = \<lparr>tr_tool_name = request_tool req, tr_payload_json = canonical_json pl,
      tr_evidence = make_evidence h iv req at pl rv, tr_manifest_digest = manifest_digest h (manifest_of (request_tool req))\<rparr>"
  have m: "gw_make_result h iv req at pl rv = Inr res"
    using make_result_ok [OF perform_payload_unique [OF p]] by (simp add: res_def)
  let ?c = "validated snapshot_check (take_snapshot (gp_state (ww_process w)))"
  have c: "?c = Inr (take_snapshot (gp_state (ww_process w)))"
    using snapshot_check_take [OF wf] nd by (simp add: validated_def)
  have i: "invoke h cfg ad t0 t1 iv req w = (case ?c of Inl e \<Rightarrow> (w, Inl e)
     | Inr snap \<Rightarrow> (\<lparr>ww_adapter = a', ww_store = ww_store w,
         ww_process = \<lparr>gp_state = record_result h iv req res g', gp_generation = gp_generation (ww_process w)\<rparr>\<rparr>, Inr res))"
    using tier new at p m
    by (auto simp: invoke_locked_def refresh_persisted_def Let_def attempt_def save_state_def lift_a_def split: sum.splits)
  have "gateway_wf h (record_result h iv req res g')" by (rule record_result_wf [OF perform_wf [OF wf p] m])
  with c i inv m show ?thesis by (intro that [of res]) auto
qed

lemma recorded_keys:
  "fst ` set (gs_idempotency (record_result h iv req res g)) = insert (call_key iv req) (fst ` set (gs_idempotency g))"
  by (simp add: record_result_def fst_set_update)

section \<open>The tools on a project of the in-memory adapter\<close>

lemma mem_inspect_ok:
  assumes "map_of (ma_projects a) p = Some s"
  shows "\<exists>x. op_inspect_project (in_memory_adapter h hook) p (Some (pj_project_revision s)) a = (a, Inr x)"
  using assms by (simp add: mem_defs find_state_def expect_project_revision_def)

lemma preconditions_ok:
  assumes "map_of (ma_projects a) (rf_project_id f) = Some s" "rf_expected_project_revision f = pj_project_revision s"
    "map_of (gs_runs g) (rf_run_id f) = Some run" "ar_project_id run = rf_project_id f"
    "ar_project_revision run = pj_project_revision s" "ar_run_revision run = rf_expected_run_revision f"
  shows "require_run_preconditions (in_memory_adapter h hook) g f a = (a, Inr run)"
  using assms mem_inspect_ok [OF assms(1), of h hook]
  by (auto simp: require_run_preconditions_def bind_a_def lift_a_def find_run_def)

lemma decide_ok:
  assumes "pr_actor_kind (inv_principal iv) = Actor_USER"
    "require_run_preconditions ad g (da_run d) a = (a, Inr run)"
    "map_of (gs_approvals g) (da_approval_id d) = Some ap" "ap_run_id ap = ar_run_id run"
    "ap_decision ap = Decision_PENDING" "gw_now t = Inr now" "da_approve d"
  shows "\<exists>pl rv. gw_decide_approval h ad iv d t g a = (a, Inr (put_run (run\<lparr>ar_run_revision := ar_run_revision run + 1\<rparr>)
     (put_receipt (make_receipt h iv ap (ar_run_id run) Decision_APPROVED now (da_reason d))
        (put_approval (ap\<lparr>ap_decision := Decision_APPROVED\<rparr>) g)), pl, rv))"
  using assms by (auto simp: gw_decide_approval_def require_human_def bind_a_def lift_a_def Let_def)

definition receipt_name :: "(byte list \<Rightarrow> byte list) \<Rightarrow> invocation \<Rightarrow> string \<Rightarrow> string" where
  "receipt_name h iv apid = ''receipt_'' @ take 32 (stable_digest h (JObj
     [(''approval'', JStr apid), (''decision'', JStr (gw_decision_value Decision_APPROVED)),
      (''actor'', JStr (pr_actor_id (inv_principal iv))), (''key'', JStr (inv_idempotency_key iv))]))"

lemma receipt_name [simp]:
  "rc_receipt_id (make_receipt h iv ap rid Decision_APPROVED now rs) = receipt_name h iv (ap_approval_id ap)"
  by (simp add: make_receipt_def receipt_name_def Let_def)

lemma make_preview_ok:
  assumes "map_of (ma_projects a) p = Some s" "dp_base_revision q = pj_project_revision s"
    "apply_patch (pj_committed_design s) q = Inr d"
  obtains pw where "make_preview h a p (pj_project_revision s) q = Inr pw"
    "pw_patch_digest pw = patch_digest h q" "pw_prospective_revision pw = revision_digest h d"
  using assms by (auto simp: make_preview_def find_state_def expect_project_revision_def Let_def)

lemma preview_ok:
  assumes "require_run_preconditions ad g (pv_run q) a = (a, Inr run)" "gw_open_blocking_questions g run = Inr []"
    "ar_state run = State_PLANNING"
    "op_preview_patch ad (rf_project_id (pv_run q)) (rf_expected_project_revision (pv_run q)) (pv_patch q) a = (a, Inr pw)"
    "map_of (gs_approvals g) (stage_approval_id h (ar_run_id run) (pw_preview_digest pw)) = None" "gw_now t = Inr now"
  obtains ap pl rv where "preview_patch h ad q t g a = (a, Inr (put_run (run\<lparr>ar_run_revision := ar_run_revision run + 1,
       ar_state := State_AWAITING_STAGE_APPROVAL, ar_approval_ids := ar_approval_ids run @ [ap_approval_id ap]\<rparr>)
       (put_approval ap (put_preview pw g)), pl, rv))"
    "ap_approval_id ap = stage_approval_id h (ar_run_id run) (pw_preview_digest pw)" "ap_run_id ap = ar_run_id run"
    "ap_decision ap = Decision_PENDING" "ap_kind ap = Approve_STAGE" "ap_subject_digest ap = pw_preview_digest pw"
proof -
  define ap where "ap = \<lparr>ap_approval_id = stage_approval_id h (ar_run_id run) (pw_preview_digest pw),
     ap_run_id = ar_run_id run, ap_kind = Approve_STAGE, ap_subject_digest = pw_preview_digest pw,
     ap_summary = ''Stage '' @ show_nat (length (dp_operations (pv_patch q))) @ '' typed design operations'',
     ap_decision = Decision_PENDING, ap_requested_at = now\<rparr>"
  have "\<exists>pl rv. preview_patch h ad q t g a = (a, Inr (put_run (run\<lparr>ar_run_revision := ar_run_revision run + 1,
       ar_state := State_AWAITING_STAGE_APPROVAL, ar_approval_ids := ar_approval_ids run @ [ap_approval_id ap]\<rparr>)
       (put_approval ap (put_preview pw g)), pl, rv))"
    using assms by (auto simp: preview_patch_def bind_a_def lift_a_def Let_def ap_def)
  then show ?thesis using that [of ap] by (auto simp: ap_def)
qed

lemma stage_ok:
  assumes "require_run_preconditions ad g (sp_run q) a = (a, Inr run)" "ar_state run = State_AWAITING_STAGE_APPROVAL"
    "map_of (gs_previews g) (sp_preview_digest q) = Some pw" "pw_patch_digest pw = patch_digest h (sp_patch q)"
    "map_of (gs_receipts g) (sp_approval_receipt_id q) = Some rc" "rc_run_id rc = ar_run_id run"
    "rc_kind rc = Approve_STAGE" "rc_subject_digest rc = sp_preview_digest q" "rc_decision rc = Decision_APPROVED"
    "op_stage_patch ad (rf_project_id (sp_run q)) (rf_expected_project_revision (sp_run q)) (sp_patch q)
       (sp_preview_digest q) a = (a', Inr st)"
  shows "\<exists>pl rv. stage_design_patch h ad q g a = (a', Inr (put_run (run\<lparr>ar_run_revision := ar_run_revision run + 1,
     ar_state := State_STAGED, ar_staged_revision := Some (sr_staged_revision st)\<rparr>) g, pl, rv))"
  using assms by (auto simp: stage_design_patch_def require_approved_receipt_def bind_a_def lift_a_def Let_def)

lemma verification_ok:
  assumes "require_run_preconditions ad g (rv_run q) a = (a, Inr run)" "ar_state run = State_STAGED"
    "ar_staged_revision run = Some (rv_expected_staged_revision q)"
    "op_run_verification ad (rf_project_id (rv_run q)) (rf_expected_project_revision (rv_run q))
       (rv_expected_staged_revision q) a = (a, Inr rep)" "vr_passed rep" "gw_now t = Inr now"
    "\<forall>x. map_of (gs_approvals g) (release_approval_id h (ar_run_id run) (gw_release_subject h (ar_run_id run)
       (rf_expected_project_revision (rv_run q)) (rv_expected_staged_revision q) (vr_report_digest rep))) = Some x
       \<longrightarrow> ap_decision x \<noteq> Decision_REJECTED"
  obtains ap pl rv where "gw_run_verification h ad q t g a = (a, Inr (put_run (run\<lparr>ar_run_revision := ar_run_revision run + 1,
       ar_state := State_AWAITING_RELEASE_APPROVAL, ar_verification_report_digest := Some (vr_report_digest rep),
       ar_approval_ids := ar_approval_ids run @ [ap_approval_id ap]\<rparr>) (put_report rep (put_approval ap g)), pl, rv))"
    "gw_release_approval h run q rep t g = Inr ap"
proof -
  have "\<exists>ap. gw_release_approval h run q rep t g = Inr ap"
    using assms(6,7) by (simp add: gw_release_approval_def Let_def split: option.splits)
  then obtain ap where ap: "gw_release_approval h run q rep t g = Inr ap" by blast
  have "\<exists>pl rv. gw_run_verification h ad q t g a = (a, Inr (put_run (run\<lparr>ar_run_revision := ar_run_revision run + 1,
       ar_state := State_AWAITING_RELEASE_APPROVAL, ar_verification_report_digest := Some (vr_report_digest rep),
       ar_approval_ids := ar_approval_ids run @ [ap_approval_id ap]\<rparr>) (put_report rep (put_approval ap g)), pl, rv))"
    using assms(1-5) ap by (auto simp: gw_run_verification_def bind_a_def lift_a_def Let_def)
  then show ?thesis using that ap by blast
qed

lemma commit_ok:
  assumes "require_run_preconditions ad g (ct_run q) a = (a, Inr run)" "ar_state run = State_AWAITING_RELEASE_APPROVAL"
    "ar_staged_revision run = Some (ct_expected_staged_revision q)"
    "map_of (gs_reports g) (ct_verification_report_digest q) = Some rep" "vr_passed rep"
    "vr_base_revision rep = rf_expected_project_revision (ct_run q)" "vr_staged_revision rep = ct_expected_staged_revision q"
    "map_of (gs_receipts g) (ct_approval_receipt_id q) = Some rc" "rc_run_id rc = ar_run_id run"
    "rc_kind rc = Approve_RELEASE" "rc_decision rc = Decision_APPROVED"
    "rc_subject_digest rc = gw_release_subject h (ar_run_id run) (rf_expected_project_revision (ct_run q))
       (ct_expected_staged_revision q) (ct_verification_report_digest q)"
    "commit_on_adapter ad q run rep rc a = (a', Inr n)"
  shows "\<exists>pl. commit_transaction h ad q g a = (a', Inr (put_run (run\<lparr>ar_project_revision := n,
     ar_run_revision := ar_run_revision run + 1, ar_state := State_COMPLETE\<rparr>) g, pl, n))"
  using assms by (auto simp: commit_transaction_def require_approved_receipt_def bind_a_def lift_a_def Let_def)

lemma create_ok:
  assumes "op_inspect_project ad (cr_project_id q) (Some (cr_expected_project_revision q)) a = (a, Inr x)"
    "map_of (gs_runs g) (gateway_id h ''run'' Tool_CREATE_AGENT_RUN iv (cr_project_id q)) = None"
    "cr_initial_questions q = []" "cr_max_parallel_agents q = None" "cr_token_budget q = None"
  obtains run pl rv where "create_agent_run h cfg ad iv q g a = (a, Inr (put_run run g, pl, rv))"
    "ar_run_id run = gateway_id h ''run'' Tool_CREATE_AGENT_RUN iv (cr_project_id q)" "ar_project_id run = cr_project_id q"
    "ar_project_revision run = cr_expected_project_revision q" "ar_run_revision run = 0" "ar_state run = State_PLANNING"
    "ar_question_ids run = []" "ar_approval_ids run = []" "ar_staged_revision run = None"
proof -
  have "\<exists>k. host_limit l None s = Inr k" for l s by (simp add: host_limit_def split: option.splits)
  then obtain k1 k2 where k: "host_limit (gc_max_parallel_agents_limit cfg) None ''max_parallel_agents exceeds the trusted host limit'' = Inr k1"
    "host_limit (gc_token_budget_limit cfg) None ''token_budget exceeds the trusted host limit'' = Inr k2" by blast
  define run where "run = \<lparr>ar_run_id = gateway_id h ''run'' Tool_CREATE_AGENT_RUN iv (cr_project_id q),
     ar_project_id = cr_project_id q, ar_objective = cr_objective q, ar_project_revision = cr_expected_project_revision q,
     ar_run_revision = 0, ar_state = State_PLANNING, ar_strict_user_coordination = True, ar_max_parallel_agents = k1,
     ar_token_budget = k2, ar_question_ids = [], ar_approval_ids = [], ar_staged_revision = None,
     ar_verification_report_digest = None\<rparr>"
  have "\<exists>pl rv. create_agent_run h cfg ad iv q g a = (a, Inr (put_run run g, pl, rv))"
    using assms k by (auto simp: create_agent_run_def bind_a_def lift_a_def Let_def run_def)
  then show ?thesis using that [of run] by (auto simp: run_def)
qed

end
