(* ===== verification/Gateway_Flow.thy ===== *)
theory Gateway_Flow
  imports Gateway_Progress
begin

text \<open>
  Sequences of calls on one gateway, and the sequence that publishes a patch: create a run, preview, approve,
  stage; verify, approve, commit. The first four calls lead to a staged run, the other three from there to the
  committed design.
\<close>

section \<open>Sequences of calls\<close>

type_synonym timed_call = "datetime \<times> datetime \<times> invocation \<times> gw_request"

fun run_calls ::
  "(byte list \<Rightarrow> byte list) \<Rightarrow> gateway_config \<Rightarrow> 'a kicad_adapter \<Rightarrow> timed_call list \<Rightarrow> ('a, 's) gateway_world
     \<Rightarrow> ('a, 's) gateway_world \<times> tool_result result list" where
  "run_calls h cfg ad [] w = (w, [])"
| "run_calls h cfg ad ((t0, t1, iv, req) # cs) w = (case invoke h cfg ad t0 t1 iv req w of
     (w1, r) \<Rightarrow> (case run_calls h cfg ad cs w1 of (w2, rs) \<Rightarrow> (w2, r # rs)))"

lemma run_calls_Cons:
  assumes "run_calls h cfg ad ((t0, t1, iv, req) # cs) w = (w', rs)"
  obtains w1 r rs' where "invoke h cfg ad t0 t1 iv req w = (w1, r)" "run_calls h cfg ad cs w1 = (w', rs')" "rs = r # rs'"
  using assms by (auto split: prod.splits)

text \<open>Every call leaves a well-formed state and appends at most one evidence record, named by its key.\<close>

lemma invoke_evidence:
  assumes "gateway_wf h (gp_state (ww_process w))" "invoke h cfg ad t0 t1 iv req w = (w', r)"
  shows "gateway_wf h (gp_state (ww_process w'))
    \<and> (gs_evidence (gp_state (ww_process w')) = gs_evidence (gp_state (ww_process w))
      \<or> (\<exists>at pl rv. gs_evidence (gp_state (ww_process w')) = gs_evidence (gp_state (ww_process w)) @ [make_evidence h iv req at pl rv]))"
proof -
  have rf: "refresh_persisted h None (ww_store w, ww_process w)
      = ((ww_store w, ww_process w), Inr ())" by (simp add: refresh_persisted_def)
  show ?thesis
  proof (cases rule: invoke_locked_cases [OF assms(2) rf assms(1), case_names refused replayed fresh failed])
    case (fresh at res)
    have wf: "gateway_wf h (gp_state (ww_process w'))" by (rule attempt_wf [OF assms(1) fresh(4)])
    from fresh(4) show ?thesis
    proof (rule attempt_Inr)
      fix g' pl rv n
      assume p: "perform h cfg ad iv t1 (gp_state (ww_process w)) req (ww_adapter w) = (ww_adapter w', Inr (g', pl, rv))"
        and m: "gw_make_result h iv req at pl rv = Inr res"
        and w': "ww_process w' = \<lparr>gp_state = record_result h iv req res g', gp_generation = n\<rparr>"
      have "gs_evidence (gp_state (ww_process w')) = gs_evidence (gp_state (ww_process w)) @ [make_evidence h iv req at pl rv]"
        using perform_frame [OF p] gw_make_result_Inr [OF m] by (simp add: w' record_result_def)
      with wf show ?thesis by blast
    qed
  qed (use assms(1) in simp_all)
qed

lemma run_calls_evidence:
  assumes "run_calls h cfg ad cs w = (w', rs)" "gateway_wf h (gp_state (ww_process w))"
  shows "\<exists>es. gs_evidence (gp_state (ww_process w')) = gs_evidence (gp_state (ww_process w)) @ es"
  using assms
proof (induction cs arbitrary: w rs)
  case (Cons c cs)
  obtain t0 t1 iv req where c: "c = (t0, t1, iv, req)" by (cases c)
  from Cons.prems(1) [unfolded c] show ?case
  proof (rule run_calls_Cons)
    fix w1 r rs' assume i: "invoke h cfg ad t0 t1 iv req w = (w1, r)" and rc: "run_calls h cfg ad cs w1 = (w', rs')"
    note e = invoke_evidence [OF Cons.prems(2) i]
    from Cons.IH [OF rc] e show ?thesis by auto
  qed
qed simp

section \<open>The calls that publish a patch\<close>

record publication =
  pb_project :: string
  pb_revision :: string
  pb_objective :: string
  pb_patch :: design_patch
  pb_reason :: string
  pb_by :: "nat \<Rightarrow> invocation"
  pb_clock :: "nat \<Rightarrow> datetime \<times> datetime"

definition pub_run :: "(byte list \<Rightarrow> byte list) \<Rightarrow> publication \<Rightarrow> string" where
  "pub_run h P = gateway_id h ''run'' Tool_CREATE_AGENT_RUN (pb_by P 0) (pb_project P)"

definition pub_fields :: "(byte list \<Rightarrow> byte list) \<Rightarrow> publication \<Rightarrow> int \<Rightarrow> run_fields" where
  "pub_fields h P n = \<lparr>rf_project_id = pb_project P, rf_expected_project_revision = pb_revision P,
     rf_run_id = pub_run h P, rf_expected_run_revision = n\<rparr>"

definition pub_call :: "publication \<Rightarrow> nat \<Rightarrow> gw_request \<Rightarrow> timed_call" where
  "pub_call P i req = (fst (pb_clock P i), snd (pb_clock P i), pb_by P i, req)"

definition pub_stage_approval :: "(byte list \<Rightarrow> byte list) \<Rightarrow> publication \<Rightarrow> patch_preview \<Rightarrow> string" where
  "pub_stage_approval h P pw = stage_approval_id h (pub_run h P) (pw_preview_digest pw)"

definition pub_subject :: "(byte list \<Rightarrow> byte list) \<Rightarrow> publication \<Rightarrow> patch_preview \<Rightarrow> gw_report \<Rightarrow> string" where
  "pub_subject h P pw rep =
     gw_release_subject h (pub_run h P) (pb_revision P) (pw_prospective_revision pw) (vr_report_digest rep)"

definition pub_release_approval :: "(byte list \<Rightarrow> byte list) \<Rightarrow> publication \<Rightarrow> patch_preview \<Rightarrow> gw_report \<Rightarrow> string" where
  "pub_release_approval h P pw rep = release_approval_id h (pub_run h P) (pub_subject h P pw rep)"

definition staging_calls :: "(byte list \<Rightarrow> byte list) \<Rightarrow> publication \<Rightarrow> patch_preview \<Rightarrow> timed_call list" where
  "staging_calls h P pw =
     [pub_call P 0 (CreateAgentRun \<lparr>cr_project_id = pb_project P, cr_expected_project_revision = pb_revision P,
        cr_objective = pb_objective P, cr_initial_questions = [], cr_max_parallel_agents = None, cr_token_budget = None\<rparr>),
      pub_call P 1 (PreviewPatch \<lparr>pv_run = pub_fields h P 0, pv_patch = pb_patch P\<rparr>),
      pub_call P 2 (DecideApproval \<lparr>da_run = pub_fields h P 1, da_approval_id = pub_stage_approval h P pw,
        da_approve = True, da_reason = pb_reason P\<rparr>),
      pub_call P 3 (StageDesignPatch \<lparr>sp_run = pub_fields h P 2, sp_patch = pb_patch P,
        sp_preview_digest = pw_preview_digest pw,
        sp_approval_receipt_id = receipt_name h (pb_by P 2) (pub_stage_approval h P pw)\<rparr>)]"

definition release_calls :: "(byte list \<Rightarrow> byte list) \<Rightarrow> publication \<Rightarrow> patch_preview \<Rightarrow> gw_report \<Rightarrow> timed_call list" where
  "release_calls h P pw rep =
     [pub_call P 4 (RunVerification \<lparr>rv_run = pub_fields h P 3, rv_expected_staged_revision = pw_prospective_revision pw\<rparr>),
      pub_call P 5 (DecideApproval \<lparr>da_run = pub_fields h P 4, da_approval_id = pub_release_approval h P pw rep,
        da_approve = True, da_reason = pb_reason P\<rparr>),
      pub_call P 6 (CommitTransaction \<lparr>ct_run = pub_fields h P 5, ct_expected_staged_revision = pw_prospective_revision pw,
        ct_verification_report_digest = vr_report_digest rep,
        ct_approval_receipt_id = receipt_name h (pb_by P 5) (pub_release_approval h P pw rep)\<rparr>)]"

text \<open>
  Who calls: release managers, of whom the two that decide are users and use two idempotency keys; the clocks are
  aware and in range.
\<close>

definition callers_ok :: "publication \<Rightarrow> bool" where
  "callers_ok P \<longleftrightarrow> (\<forall>i < 7. pr_profile (inv_principal (pb_by P i)) = Profile_RELEASE_MANAGER
       \<and> (\<exists>x. gw_now (fst (pb_clock P i)) = Inr x) \<and> (\<exists>x. gw_now (snd (pb_clock P i)) = Inr x))
     \<and> pr_actor_kind (inv_principal (pb_by P 2)) = Actor_USER \<and> pr_actor_kind (inv_principal (pb_by P 5)) = Actor_USER
     \<and> inv_idempotency_key (pb_by P 2) \<noteq> inv_idempotency_key (pb_by P 5)"

lemma callers_okD:
  assumes "callers_ok P" "i < 7"
  shows "tier_value (required_tier x) \<le> tier_value (maximum_tier (pr_profile (inv_principal (pb_by P i))))"
    and "\<exists>x. gw_now (fst (pb_clock P i)) = Inr x" "\<exists>x. gw_now (snd (pb_clock P i)) = Inr x"
proof -
  have p: "pr_profile (inv_principal (pb_by P i)) = Profile_RELEASE_MANAGER" using assms by (simp add: callers_ok_def)
  show "tier_value (required_tier x) \<le> tier_value (maximum_tier (pr_profile (inv_principal (pb_by P i))))"
    by (cases x) (simp_all add: p)
  show "\<exists>x. gw_now (fst (pb_clock P i)) = Inr x" "\<exists>x. gw_now (snd (pb_clock P i)) = Inr x"
    using assms by (simp_all add: callers_ok_def)
qed

section \<open>Where the calls lead\<close>

definition run_at :: "(byte list \<Rightarrow> byte list) \<Rightarrow> publication \<Rightarrow> int \<Rightarrow> gw_run_state \<Rightarrow> string option \<Rightarrow> gateway_state \<Rightarrow> bool" where
  "run_at h P n s staged g \<longleftrightarrow> (\<exists>run. map_of (gs_runs g) (pub_run h P) = Some run \<and> ar_run_id run = pub_run h P
     \<and> ar_project_id run = pb_project P \<and> ar_project_revision run = pb_revision P \<and> ar_run_revision run = n
     \<and> ar_state run = s \<and> ar_question_ids run = [] \<and> ar_staged_revision run = staged)"

lemma run_atE:
  assumes "run_at h P n s staged g" "map_of (ma_projects a) (pb_project P) = Some pj" "pj_project_revision pj = pb_revision P"
  obtains run where "map_of (gs_runs g) (pub_run h P) = Some run" "ar_run_id run = pub_run h P"
    "require_run_preconditions (in_memory_adapter h hook) g (pub_fields h P n) a = (a, Inr run)"
    "ar_project_id run = pb_project P" "ar_project_revision run = pb_revision P" "ar_run_revision run = n"
    "ar_state run = s" "ar_question_ids run = []" "ar_staged_revision run = staged"
  using assms preconditions_ok [of a "pub_fields h P n" pj g _ h hook]
  by (auto simp: run_at_def pub_fields_def)

text \<open>The keys of the calls so far.\<close>

definition used_keys :: "gateway_state \<Rightarrow> idem_key set" where
  "used_keys g = fst ` set (gs_idempotency g)"

definition distinct_evidence :: "gateway_state \<Rightarrow> bool" where
  "distinct_evidence g \<longleftrightarrow> distinct (map er_evidence_id (gs_evidence g))"

lemma pub_step:
  assumes "run_calls h cfg ad (pub_call P i req # cs) w = (w', rs)" "distinct_evidence (gp_state (ww_process w'))"
    and "callers_ok P" "i < 7" "gateway_wf h (gp_state (ww_process w))"
    and "call_key (pb_by P i) req \<notin> used_keys (gp_state (ww_process w))"
    and p: "perform h cfg ad (pb_by P i) (snd (pb_clock P i)) (gp_state (ww_process w)) req (ww_adapter w)
        = (a', Inr (g', pl, rv))"
  obtains w1 res rs' where "rs = Inr res # rs'" "run_calls h cfg ad cs w1 = (w', rs')"
    "ww_adapter w1 = a'" "gp_state (ww_process w1) = record_result h (pb_by P i) req res g'"
    "gateway_wf h (gp_state (ww_process w1))"
    "used_keys (gp_state (ww_process w1)) = insert (call_key (pb_by P i) req) (used_keys (gp_state (ww_process w)))"
proof -
  obtain at where at: "gw_now (fst (pb_clock P i)) = Inr at" using callers_okD(2) [OF assms(3,4)] by blast
  have new: "map_of (gs_idempotency (gp_state (ww_process w))) (call_key (pb_by P i) req) = None"
    using assms(6) by (simp add: used_keys_def map_of_eq_None_iff)
  from assms(1) obtain w1 r rs' where r: "invoke h cfg ad (fst (pb_clock P i)) (snd (pb_clock P i)) (pb_by P i) req w = (w1, r)"
    "run_calls h cfg ad cs w1 = (w', rs')" "rs = r # rs'" unfolding pub_call_def by (rule run_calls_Cons)
  have nd: "distinct (map er_evidence_id (gs_evidence (gp_state (ww_process w))))"
    using assms(2) run_calls_evidence [OF assms(1,5)] by (auto simp: distinct_evidence_def)
  obtain res where "r = Inr res" "ww_adapter w1 = a'" "gp_state (ww_process w1) = record_result h (pb_by P i) req res g'"
    "gateway_wf h (gp_state (ww_process w1))"
    by (rule invoke_succeeds [OF assms(5) callers_okD(1) [OF assms(3,4)] new at p r(1) nd])
  with r(2,3) show ?thesis
    by (intro that [of res rs' w1]) (simp_all add: used_keys_def recorded_keys perform_frame [OF p])
qed

lemma stage_patch_memory:
  assumes "mem_stage_patch h p v q d a = (a1, Inr st)" "make_preview h a p v q = Inr pw"
  obtains s staged where "map_of (ma_projects a) p = Some s" "pj_project_revision s = v" "d = pw_preview_digest pw"
    "apply_patch (pj_committed_design s) q = Inr staged" "sr_staged_revision st = pw_prospective_revision pw"
    "sr_base_revision st = v"
    "a1 = put_state p (s\<lparr>pj_staged_design := Some staged, pj_staged_patch := Some q, pj_stage := Some st\<rparr>) a"
  using assms
  by (auto simp: mem_stage_patch_def bind_r_Inr_iff raise_first_Inr_iff simp del: raise_first.simps split: sum.splits)

lemma make_preview_patch_digest: "make_preview h a p v q = Inr pw \<Longrightarrow> pw_patch_digest pw = patch_digest h q"
  by (auto simp: make_preview_def bind_r_Inr_iff Let_def)

definition no_rejection :: "gateway_state \<Rightarrow> bool" where
  "no_rejection g \<longleftrightarrow> (\<forall>k x. map_of (gs_approvals g) k = Some x \<longrightarrow> ap_decision x \<noteq> Decision_REJECTED)"

text \<open>The first two calls: the run awaits the decision on the preview.\<close>

definition proposed :: "(byte list \<Rightarrow> byte list) \<Rightarrow> publication \<Rightarrow> patch_preview \<Rightarrow> gateway_state \<Rightarrow> bool" where
  "proposed h P pw g \<longleftrightarrow> run_at h P 1 State_AWAITING_STAGE_APPROVAL None g \<and> no_rejection g
     \<and> map_of (gs_previews g) (pw_preview_digest pw) = Some pw
     \<and> (\<exists>ap. map_of (gs_approvals g) (pub_stage_approval h P pw) = Some ap \<and> ap_run_id ap = pub_run h P
          \<and> ap_approval_id ap = pub_stage_approval h P pw
          \<and> ap_decision ap = Decision_PENDING \<and> ap_kind ap = Approve_STAGE \<and> ap_subject_digest ap = pw_preview_digest pw)"

lemma proposal_ok:
  assumes "run_calls h cfg (in_memory_adapter h hook) (take 2 (staging_calls h P pw) @ cs) w = (w', rs)"
    "distinct_evidence (gp_state (ww_process w'))" "callers_ok P" "gp_state (ww_process w) = empty_gateway"
    and pj: "map_of (ma_projects (ww_adapter w)) (pb_project P) = Some s" "pj_project_revision s = pb_revision P"
    and pw: "make_preview h (ww_adapter w) (pb_project P) (pb_revision P) (pb_patch P) = Inr pw"
  obtains w1 r0 r1 rs' where "rs = Inr r0 # Inr r1 # rs'" "run_calls h cfg (in_memory_adapter h hook) cs w1 = (w', rs')"
    "ww_adapter w1 = ww_adapter w" "gateway_wf h (gp_state (ww_process w1))"
    "proposed h P pw (gp_state (ww_process w1))"
    "used_keys (gp_state (ww_process w1)) \<subseteq> {(a, t, k). t \<in> {Tool_CREATE_AGENT_RUN, Tool_PREVIEW_PATCH}}"
proof -
  let ?ad = "in_memory_adapter h hook" and ?a = "ww_adapter w"
  let ?q0 = "\<lparr>cr_project_id = pb_project P, cr_expected_project_revision = pb_revision P,
        cr_objective = pb_objective P, cr_initial_questions = [], cr_max_parallel_agents = None, cr_token_budget = None\<rparr>"
  let ?q1 = "\<lparr>pv_run = pub_fields h P 0, pv_patch = pb_patch P\<rparr>"
  from mem_inspect_ok [OF pj(1), of h hook] pj(2)
  obtain x where x: "op_inspect_project ?ad (pb_project P) (Some (pb_revision P)) ?a = (?a, Inr x)" by auto
  obtain run pl rv where c: "create_agent_run h cfg ?ad (pb_by P 0) ?q0 (gp_state (ww_process w)) ?a
      = (?a, Inr (put_run run (gp_state (ww_process w)), pl, rv))"
    and run: "ar_run_id run = pub_run h P" "ar_project_id run = pb_project P" "ar_project_revision run = pb_revision P"
      "ar_run_revision run = 0" "ar_state run = State_PLANNING" "ar_question_ids run = []" "ar_staged_revision run = None"
    by (rule create_ok [of ?ad ?q0 ?a x "gp_state (ww_process w)" h "pb_by P 0"])
      (use x assms(4) in \<open>auto simp: empty_gateway_def pub_run_def\<close>)
  obtain w1 r0 rs1 where s1: "rs = Inr r0 # rs1" "run_calls h cfg ?ad (pub_call P 1 (PreviewPatch ?q1) # cs) w1 = (w', rs1)"
    "ww_adapter w1 = ?a" "gateway_wf h (gp_state (ww_process w1))"
    "gp_state (ww_process w1) = record_result h (pb_by P 0) (CreateAgentRun ?q0) r0 (put_run run (gp_state (ww_process w)))"
    "used_keys (gp_state (ww_process w1)) = {call_key (pb_by P 0) (CreateAgentRun ?q0)}"
    by (rule pub_step [of h cfg ?ad P 0 "CreateAgentRun ?q0" "pub_call P 1 (PreviewPatch ?q1) # cs" w w' rs ?a])
      (use assms(1-4) c in \<open>auto simp: staging_calls_def used_keys_def empty_gateway_def empty_gateway_wf [unfolded empty_gateway_def]\<close>)
  have at1: "run_at h P 0 State_PLANNING None (gp_state (ww_process w1))"
    using run by (simp add: s1(5) run_at_def put_lookup)
  obtain run1 where pre: "require_run_preconditions ?ad (gp_state (ww_process w1)) (pub_fields h P 0) ?a = (?a, Inr run1)"
    and r1: "ar_run_id run1 = pub_run h P" "ar_project_id run1 = pb_project P" "ar_project_revision run1 = pb_revision P"
      "ar_run_revision run1 = 0" "ar_state run1 = State_PLANNING" "ar_question_ids run1 = []" "ar_staged_revision run1 = None"
    by (rule run_atE [OF at1 pj, of hook])
  obtain now where now: "gw_now (snd (pb_clock P 1)) = Inr now" using callers_okD(3) [OF assms(3), of 1] by auto
  have noap: "map_of (gs_approvals (gp_state (ww_process w1))) k = None" for k
    using assms(4) by (simp add: s1(5) empty_gateway_def)
  obtain ap pl1 rv1 where p: "preview_patch h ?ad ?q1 (snd (pb_clock P 1)) (gp_state (ww_process w1)) ?a
      = (?a, Inr (put_run (run1\<lparr>ar_run_revision := ar_run_revision run1 + 1, ar_state := State_AWAITING_STAGE_APPROVAL,
          ar_approval_ids := ar_approval_ids run1 @ [ap_approval_id ap]\<rparr>)
        (put_approval ap (put_preview pw (gp_state (ww_process w1)))), pl1, rv1))"
    and ap: "ap_approval_id ap = pub_stage_approval h P pw" "ap_run_id ap = pub_run h P"
      "ap_decision ap = Decision_PENDING" "ap_kind ap = Approve_STAGE" "ap_subject_digest ap = pw_preview_digest pw"
    by (rule preview_ok [of ?ad "gp_state (ww_process w1)" ?q1 ?a run1 pw h "snd (pb_clock P 1)" now])
      (use pre r1 pw now noap in \<open>auto simp: gw_open_blocking_questions_def in_memory_adapter_def mem_preview_patch_def
          pub_fields_def pub_stage_approval_def\<close>)
  obtain w2 r1' rs2 where s2: "rs1 = Inr r1' # rs2" "run_calls h cfg ?ad cs w2 = (w', rs2)"
    "ww_adapter w2 = ?a" "gateway_wf h (gp_state (ww_process w2))"
    "gp_state (ww_process w2) = record_result h (pb_by P 1) (PreviewPatch ?q1) r1'
       (put_run (run1\<lparr>ar_run_revision := ar_run_revision run1 + 1, ar_state := State_AWAITING_STAGE_APPROVAL,
          ar_approval_ids := ar_approval_ids run1 @ [ap_approval_id ap]\<rparr>)
        (put_approval ap (put_preview pw (gp_state (ww_process w1)))))"
    "used_keys (gp_state (ww_process w2)) = {call_key (pb_by P 1) (PreviewPatch ?q1), call_key (pb_by P 0) (CreateAgentRun ?q0)}"
    by (rule pub_step [OF s1(2) assms(2,3)]) (use s1 p in \<open>auto simp: call_key_def\<close>)
  have pr: "proposed h P pw (gp_state (ww_process w2))"
    using r1 ap noap by (auto simp: s2(5) proposed_def run_at_def put_lookup no_rejection_def split: if_splits)
  have "used_keys (gp_state (ww_process w2)) \<subseteq> {(a, t, k). t \<in> {Tool_CREATE_AGENT_RUN, Tool_PREVIEW_PATCH}}"
    unfolding s2(6) by (auto simp: call_key_def)
  then show ?thesis by (intro that [OF _ s2(2-4) pr]) (simp_all add: s1(1) s2(1))
qed

text \<open>The decision and the staging: the adapter holds the stage, the run names it.\<close>

definition pub_key :: "publication \<Rightarrow> nat \<Rightarrow> tool_name \<Rightarrow> idem_key" where
  "pub_key P i tool = (pr_actor_id (inv_principal (pb_by P i)), tool, inv_idempotency_key (pb_by P i))"

lemma staging_ok:
  assumes "run_calls h cfg (in_memory_adapter h hook) (drop 2 (staging_calls h P pw) @ cs) w = (w', rs)"
    "distinct_evidence (gp_state (ww_process w'))" "callers_ok P" "gateway_wf h (gp_state (ww_process w))"
    "proposed h P pw (gp_state (ww_process w))"
    "used_keys (gp_state (ww_process w)) \<subseteq> {(a, t, k). t \<in> {Tool_CREATE_AGENT_RUN, Tool_PREVIEW_PATCH}}"
    and pw: "make_preview h (ww_adapter w) (pb_project P) (pb_revision P) (pb_patch P) = Inr pw"
    and st: "mem_stage_patch h (pb_project P) (pb_revision P) (pb_patch P) (pw_preview_digest pw) (ww_adapter w) = (a1, Inr st)"
  obtains w1 r2 r3 rs' where "rs = Inr r2 # Inr r3 # rs'" "run_calls h cfg (in_memory_adapter h hook) cs w1 = (w', rs')"
    "ww_adapter w1 = a1" "gateway_wf h (gp_state (ww_process w1))"
    "run_at h P 3 State_STAGED (Some (pw_prospective_revision pw)) (gp_state (ww_process w1))"
    "no_rejection (gp_state (ww_process w1))"
    "used_keys (gp_state (ww_process w1)) \<subseteq> {(a, t, k). t \<in> {Tool_CREATE_AGENT_RUN, Tool_PREVIEW_PATCH, Tool_STAGE_DESIGN_PATCH}}
       \<union> {pub_key P 2 Tool_DECIDE_APPROVAL}"
proof -
  let ?ad = "in_memory_adapter h hook" and ?a = "ww_adapter w" and ?g = "gp_state (ww_process w)"
  let ?q2 = "\<lparr>da_run = pub_fields h P 1, da_approval_id = pub_stage_approval h P pw, da_approve = True, da_reason = pb_reason P\<rparr>"
  let ?q3 = "\<lparr>sp_run = pub_fields h P 2, sp_patch = pb_patch P, sp_preview_digest = pw_preview_digest pw,
        sp_approval_receipt_id = receipt_name h (pb_by P 2) (pub_stage_approval h P pw)\<rparr>"
  obtain s d where pj: "map_of (ma_projects ?a) (pb_project P) = Some s" "pj_project_revision s = pb_revision P"
    and rv: "sr_staged_revision st = pw_prospective_revision pw" by (rule stage_patch_memory [OF st pw])
  from assms(5) obtain ap where at: "run_at h P 1 State_AWAITING_STAGE_APPROVAL None ?g" and nr: "no_rejection ?g"
    and pv: "map_of (gs_previews ?g) (pw_preview_digest pw) = Some pw"
    and ap: "map_of (gs_approvals ?g) (pub_stage_approval h P pw) = Some ap" "ap_run_id ap = pub_run h P"
      "ap_approval_id ap = pub_stage_approval h P pw" "ap_decision ap = Decision_PENDING" "ap_kind ap = Approve_STAGE"
      "ap_subject_digest ap = pw_preview_digest pw"
    by (auto simp: proposed_def)
  obtain run where pre: "require_run_preconditions ?ad ?g (pub_fields h P 1) ?a = (?a, Inr run)"
    and run: "ar_run_id run = pub_run h P" "ar_project_id run = pb_project P" "ar_project_revision run = pb_revision P"
      "ar_run_revision run = 1" "ar_state run = State_AWAITING_STAGE_APPROVAL" "ar_question_ids run = []" "ar_staged_revision run = None"
    by (rule run_atE [OF at pj, of hook])
  obtain now where now: "gw_now (snd (pb_clock P 2)) = Inr now" using callers_okD(3) [OF assms(3), of 2] by auto
  define rc where "rc = make_receipt h (pb_by P 2) ap (ar_run_id run) Decision_APPROVED now (pb_reason P)"
  define g2 where "g2 = put_run (run\<lparr>ar_run_revision := ar_run_revision run + 1\<rparr>)
     (put_receipt rc (put_approval (ap\<lparr>ap_decision := Decision_APPROVED\<rparr>) ?g))"
  have "\<exists>pl rv. gw_decide_approval h ?ad (pb_by P 2) ?q2 (snd (pb_clock P 2)) ?g ?a = (?a, Inr (g2, pl, rv))"
    using decide_ok [of "pb_by P 2" ?ad ?g ?q2 ?a run ap "snd (pb_clock P 2)" now h] assms(3) pre ap now run(1)
    by (simp add: callers_ok_def g2_def rc_def)
  then obtain pl rv2 where d: "perform h cfg ?ad (pb_by P 2) (snd (pb_clock P 2)) ?g (DecideApproval ?q2) ?a = (?a, Inr (g2, pl, rv2))"
    by auto
  have c: "run_calls h cfg ?ad (pub_call P 2 (DecideApproval ?q2) # pub_call P 3 (StageDesignPatch ?q3) # cs) w = (w', rs)"
    using assms(1) by (simp add: staging_calls_def)
  have i: "(2::nat) < 7" "(3::nat) < 7" by simp_all
  have new: "call_key (pb_by P 2) (DecideApproval ?q2) \<notin> used_keys ?g"
    using assms(6) by (auto simp: call_key_def)
  obtain w2 r2 rs2 where s2: "rs = Inr r2 # rs2" "run_calls h cfg ?ad (pub_call P 3 (StageDesignPatch ?q3) # cs) w2 = (w', rs2)"
    "ww_adapter w2 = ?a" "gp_state (ww_process w2) = record_result h (pb_by P 2) (DecideApproval ?q2) r2 g2"
    "gateway_wf h (gp_state (ww_process w2))"
    "used_keys (gp_state (ww_process w2)) = insert (call_key (pb_by P 2) (DecideApproval ?q2)) (used_keys ?g)"
    by (rule pub_step [OF c assms(2,3) i(1) assms(4) new d])
  have at2: "run_at h P 2 State_AWAITING_STAGE_APPROVAL None (gp_state (ww_process w2))"
    using run by (simp add: s2(4) g2_def run_at_def put_lookup)
  obtain run2 where pre2: "require_run_preconditions ?ad (gp_state (ww_process w2)) (pub_fields h P 2) ?a = (?a, Inr run2)"
    and run2: "ar_run_id run2 = pub_run h P" "ar_project_id run2 = pb_project P" "ar_project_revision run2 = pb_revision P"
      "ar_run_revision run2 = 2" "ar_state run2 = State_AWAITING_STAGE_APPROVAL" "ar_question_ids run2 = []" "ar_staged_revision run2 = None"
    by (rule run_atE [OF at2 pj, of hook])
  define g3 where "g3 = put_run (run2\<lparr>ar_run_revision := ar_run_revision run2 + 1, ar_state := State_STAGED,
      ar_staged_revision := Some (sr_staged_revision st)\<rparr>) (gp_state (ww_process w2))"
  have "\<exists>pl rv. stage_design_patch h ?ad ?q3 (gp_state (ww_process w2)) ?a = (a1, Inr (g3, pl, rv))"
    using stage_ok [of ?ad "gp_state (ww_process w2)" ?q3 ?a run2 pw h rc a1 st] pre2 run2 pv st ap run make_preview_patch_digest [OF pw]
    by (simp add: s2(4) g2_def g3_def rc_def put_lookup pub_fields_def in_memory_adapter_def)
  then obtain pl rv3 where p: "perform h cfg ?ad (pb_by P 3) (snd (pb_clock P 3)) (gp_state (ww_process w2)) (StageDesignPatch ?q3) (ww_adapter w2)
      = (a1, Inr (g3, pl, rv3))" using s2(3) by auto
  have new3: "call_key (pb_by P 3) (StageDesignPatch ?q3) \<notin> used_keys (gp_state (ww_process w2))"
    using assms(6) by (auto simp: call_key_def s2(6))
  obtain w3 r3 rs3 where s3: "rs2 = Inr r3 # rs3" "run_calls h cfg ?ad cs w3 = (w', rs3)"
    "ww_adapter w3 = a1" "gp_state (ww_process w3) = record_result h (pb_by P 3) (StageDesignPatch ?q3) r3 g3"
    "gateway_wf h (gp_state (ww_process w3))"
    "used_keys (gp_state (ww_process w3)) = insert (call_key (pb_by P 3) (StageDesignPatch ?q3)) (used_keys (gp_state (ww_process w2)))"
    by (rule pub_step [OF s2(2) assms(2,3) i(2) s2(5) new3 p])
  have "run_at h P 3 State_STAGED (Some (pw_prospective_revision pw)) (gp_state (ww_process w3))"
    using run2 rv by (simp add: s3(4) g3_def run_at_def put_lookup)
  moreover have "no_rejection (gp_state (ww_process w3))"
    using nr by (auto simp: s3(4) g3_def s2(4) g2_def no_rejection_def put_lookup split: if_splits)
  moreover have "used_keys (gp_state (ww_process w3)) \<subseteq> {(a, t, k). t \<in> {Tool_CREATE_AGENT_RUN, Tool_PREVIEW_PATCH, Tool_STAGE_DESIGN_PATCH}}
       \<union> {pub_key P 2 Tool_DECIDE_APPROVAL}"
    using assms(6) unfolding s3(6) s2(6) by (force simp: call_key_def pub_key_def)
  ultimately show ?thesis by (intro that [OF _ s3(2-3,5)]) (simp_all add: s2(1) s3(1))
qed

text \<open>Verification, the release decision and the commit.\<close>

lemma report_fields:
  assumes "mem_run_verification h hook p v x a = (b, Inr rep)"
  shows "b = a \<and> vr_base_revision rep = (case pj_stage (the (map_of (ma_projects a) p)) of Some st \<Rightarrow> sr_base_revision st)
    \<and> vr_staged_revision rep = x"
  using assms by (auto simp: mem_run_verification_def bind_r_Inr_iff expect_stage_Inr Let_def)

lemma mem_commit_ok:
  assumes "map_of (ma_projects a) p = Some s" "pj_project_revision s = v" "pj_stage s = Some st" "sr_staged_revision st = x"
    "pj_staged_design s = Some d"
  obtains a' s' where "mem_commit p v x a = (a', Inr x)" "map_of (ma_projects a') p = Some s'"
    "pj_committed_design s' = d" "pj_project_revision s' = x" "pj_stage s' = None"
proof (rule that)
  show "mem_commit p v x a = (put_state p (clear_stage (s\<lparr>pj_committed_design := d, pj_project_revision := x\<rparr>)) a, Inr x)"
    using assms by (simp add: mem_commit_def find_state_def expect_stage_def expect_project_revision_def)
qed (simp add: put_state_lookup, simp_all add: clear_stage_def project_state.defs)

definition awaiting_release ::
  "(byte list \<Rightarrow> byte list) \<Rightarrow> publication \<Rightarrow> patch_preview \<Rightarrow> gw_report \<Rightarrow> gateway_state \<Rightarrow> bool" where
  "awaiting_release h P pw rep g \<longleftrightarrow>
     run_at h P 4 State_AWAITING_RELEASE_APPROVAL (Some (pw_prospective_revision pw)) g
     \<and> map_of (gs_reports g) (vr_report_digest rep) = Some rep
     \<and> (\<exists>ap. map_of (gs_approvals g) (pub_release_approval h P pw rep) = Some ap \<and> ap_run_id ap = pub_run h P
          \<and> ap_approval_id ap = pub_release_approval h P pw rep \<and> ap_decision ap = Decision_PENDING
          \<and> ap_kind ap = Approve_RELEASE \<and> ap_subject_digest ap = pub_subject h P pw rep)"

lemma verify_call_ok:
  assumes "run_calls h cfg (in_memory_adapter h hook) (take 1 (release_calls h P pw rep) @ cs) w = (w', rs)"
    "distinct_evidence (gp_state (ww_process w'))" "callers_ok P" "gateway_wf h (gp_state (ww_process w))"
    and at: "run_at h P 3 State_STAGED (Some (pw_prospective_revision pw)) (gp_state (ww_process w))"
    and nr: "no_rejection (gp_state (ww_process w))"
    and keys: "used_keys (gp_state (ww_process w)) \<subseteq> {(a, t, k). t \<noteq> Tool_RUN_VERIFICATION}"
    and pj: "map_of (ma_projects (ww_adapter w)) (pb_project P) = Some s" "pj_project_revision s = pb_revision P"
    and rep: "mem_run_verification h hook (pb_project P) (pb_revision P) (pw_prospective_revision pw) (ww_adapter w)
       = (ww_adapter w, Inr rep)" "vr_passed rep"
  obtains w1 r4 rs' where "rs = Inr r4 # rs'" "run_calls h cfg (in_memory_adapter h hook) cs w1 = (w', rs')"
    "ww_adapter w1 = ww_adapter w" "gateway_wf h (gp_state (ww_process w1))"
    "awaiting_release h P pw rep (gp_state (ww_process w1))"
    "used_keys (gp_state (ww_process w1)) = insert (pub_key P 4 Tool_RUN_VERIFICATION) (used_keys (gp_state (ww_process w)))"
proof -
  let ?ad = "in_memory_adapter h hook" and ?a = "ww_adapter w" and ?g = "gp_state (ww_process w)"
  let ?q = "\<lparr>rv_run = pub_fields h P 3, rv_expected_staged_revision = pw_prospective_revision pw\<rparr>"
  obtain run where pre: "require_run_preconditions ?ad ?g (pub_fields h P 3) ?a = (?a, Inr run)"
    and run: "ar_run_id run = pub_run h P" "ar_project_id run = pb_project P" "ar_project_revision run = pb_revision P"
      "ar_run_revision run = 3" "ar_state run = State_STAGED" "ar_question_ids run = []"
      "ar_staged_revision run = Some (pw_prospective_revision pw)"
    by (rule run_atE [OF at pj, of hook])
  obtain now where now: "gw_now (snd (pb_clock P 4)) = Inr now" using callers_okD(3) [OF assms(3), of 4] by auto
  obtain ap pl rv where v: "gw_run_verification h ?ad ?q (snd (pb_clock P 4)) ?g ?a = (?a, Inr (put_run (run\<lparr>ar_run_revision := ar_run_revision run + 1,
       ar_state := State_AWAITING_RELEASE_APPROVAL, ar_verification_report_digest := Some (vr_report_digest rep),
       ar_approval_ids := ar_approval_ids run @ [ap_approval_id ap]\<rparr>) (put_report rep (put_approval ap ?g)), pl, rv))"
    and ra: "gw_release_approval h run ?q rep (snd (pb_clock P 4)) ?g = Inr ap"
    by (rule verification_ok [of ?ad ?g ?q ?a run rep "snd (pb_clock P 4)" now h])
      (use pre run rep now nr in \<open>auto simp: in_memory_adapter_def pub_fields_def no_rejection_def\<close>)
  have ap: "ap_approval_id ap = pub_release_approval h P pw rep" "ap_run_id ap = pub_run h P"
    "ap_decision ap = Decision_PENDING" "ap_kind ap = Approve_RELEASE" "ap_subject_digest ap = pub_subject h P pw rep"
    using ra run(1) by (auto simp: gw_release_approval_def Let_def bind_r_Inr_iff pub_fields_def pub_release_approval_def pub_subject_def
        simp del: raise_first.simps)
  have c: "run_calls h cfg ?ad (pub_call P 4 (RunVerification ?q) # cs) w = (w', rs)"
    using assms(1) by (simp add: release_calls_def)
  have i: "(4::nat) < 7" by simp
  have new: "call_key (pb_by P 4) (RunVerification ?q) \<notin> used_keys ?g" using keys by (auto simp: call_key_def)
  have p: "perform h cfg ?ad (pb_by P 4) (snd (pb_clock P 4)) ?g (RunVerification ?q) ?a =
      (?a, Inr (put_run (run\<lparr>ar_run_revision := ar_run_revision run + 1,
       ar_state := State_AWAITING_RELEASE_APPROVAL, ar_verification_report_digest := Some (vr_report_digest rep),
       ar_approval_ids := ar_approval_ids run @ [ap_approval_id ap]\<rparr>) (put_report rep (put_approval ap ?g)), pl, rv))"
    using v by simp
  obtain w1 res rs' where s1: "rs = Inr res # rs'" "run_calls h cfg ?ad cs w1 = (w', rs')"
    "ww_adapter w1 = ?a" "gp_state (ww_process w1) = record_result h (pb_by P 4) (RunVerification ?q) res
       (put_run (run\<lparr>ar_run_revision := ar_run_revision run + 1,
       ar_state := State_AWAITING_RELEASE_APPROVAL, ar_verification_report_digest := Some (vr_report_digest rep),
       ar_approval_ids := ar_approval_ids run @ [ap_approval_id ap]\<rparr>) (put_report rep (put_approval ap ?g)))"
    "gateway_wf h (gp_state (ww_process w1))"
    "used_keys (gp_state (ww_process w1)) = insert (call_key (pb_by P 4) (RunVerification ?q)) (used_keys ?g)"
    by (rule pub_step [OF c assms(2,3) i assms(4) new p])
  have "awaiting_release h P pw rep (gp_state (ww_process w1))"
    using run ap by (auto simp: s1(4) awaiting_release_def run_at_def put_lookup)
  then show ?thesis
    by (intro that [OF s1(1-3,5)]) (simp_all add: s1(6) call_key_def pub_key_def)
qed

lemma release_ok:
  assumes "run_calls h cfg (in_memory_adapter h hook) (drop 1 (release_calls h P pw rep)) w = (w', rs)"
    "distinct_evidence (gp_state (ww_process w'))" "callers_ok P" "gateway_wf h (gp_state (ww_process w))"
    and aw: "awaiting_release h P pw rep (gp_state (ww_process w))"
    and keys: "used_keys (gp_state (ww_process w)) \<subseteq> {(a, t, k). t \<noteq> Tool_COMMIT_TRANSACTION \<and> t \<noteq> Tool_DECIDE_APPROVAL}
      \<union> {pub_key P 2 Tool_DECIDE_APPROVAL}"
    and pj: "map_of (ma_projects (ww_adapter w)) (pb_project P) = Some s" "pj_project_revision s = pb_revision P"
      "pj_stage s = Some st" "sr_staged_revision st = pw_prospective_revision pw" "pj_staged_design s = Some d"
    and rep: "vr_passed rep" "vr_base_revision rep = pb_revision P" "vr_staged_revision rep = pw_prospective_revision pw"
  obtains r5 r6 s' where "rs = [Inr r5, Inr r6]" "map_of (ma_projects (ww_adapter w')) (pb_project P) = Some s'"
    "pj_committed_design s' = d" "pj_project_revision s' = pw_prospective_revision pw" "pj_stage s' = None"
proof -
  let ?ad = "in_memory_adapter h hook" and ?a = "ww_adapter w" and ?g = "gp_state (ww_process w)"
  let ?q5 = "\<lparr>da_run = pub_fields h P 4, da_approval_id = pub_release_approval h P pw rep, da_approve = True, da_reason = pb_reason P\<rparr>"
  let ?q6 = "\<lparr>ct_run = pub_fields h P 5, ct_expected_staged_revision = pw_prospective_revision pw,
        ct_verification_report_digest = vr_report_digest rep,
        ct_approval_receipt_id = receipt_name h (pb_by P 5) (pub_release_approval h P pw rep)\<rparr>"
  from aw obtain ap where at: "run_at h P 4 State_AWAITING_RELEASE_APPROVAL (Some (pw_prospective_revision pw)) ?g"
    and rp: "map_of (gs_reports ?g) (vr_report_digest rep) = Some rep"
    and ap: "map_of (gs_approvals ?g) (pub_release_approval h P pw rep) = Some ap" "ap_run_id ap = pub_run h P"
      "ap_approval_id ap = pub_release_approval h P pw rep" "ap_decision ap = Decision_PENDING"
      "ap_kind ap = Approve_RELEASE" "ap_subject_digest ap = pub_subject h P pw rep"
    by (auto simp: awaiting_release_def)
  obtain run where pre: "require_run_preconditions ?ad ?g (pub_fields h P 4) ?a = (?a, Inr run)"
    and run: "ar_run_id run = pub_run h P" "ar_project_id run = pb_project P" "ar_project_revision run = pb_revision P"
      "ar_run_revision run = 4" "ar_state run = State_AWAITING_RELEASE_APPROVAL" "ar_question_ids run = []"
      "ar_staged_revision run = Some (pw_prospective_revision pw)"
    by (rule run_atE [OF at pj(1,2), of hook])
  obtain now where now: "gw_now (snd (pb_clock P 5)) = Inr now" using callers_okD(3) [OF assms(3), of 5] by auto
  define rc where "rc = make_receipt h (pb_by P 5) ap (ar_run_id run) Decision_APPROVED now (pb_reason P)"
  define g5 where "g5 = put_run (run\<lparr>ar_run_revision := ar_run_revision run + 1\<rparr>)
     (put_receipt rc (put_approval (ap\<lparr>ap_decision := Decision_APPROVED\<rparr>) ?g))"
  have "\<exists>pl rv. gw_decide_approval h ?ad (pb_by P 5) ?q5 (snd (pb_clock P 5)) ?g ?a = (?a, Inr (g5, pl, rv))"
    using decide_ok [of "pb_by P 5" ?ad ?g ?q5 ?a run ap "snd (pb_clock P 5)" now h] assms(3) pre ap now run(1)
    by (simp add: callers_ok_def g5_def rc_def)
  then obtain pl rv5 where p5: "perform h cfg ?ad (pb_by P 5) (snd (pb_clock P 5)) ?g (DecideApproval ?q5) ?a = (?a, Inr (g5, pl, rv5))"
    by auto
  have c: "run_calls h cfg ?ad [pub_call P 5 (DecideApproval ?q5), pub_call P 6 (CommitTransaction ?q6)] w = (w', rs)"
    using assms(1) by (simp add: release_calls_def)
  have i: "(5::nat) < 7" "(6::nat) < 7" by simp_all
  have new5: "call_key (pb_by P 5) (DecideApproval ?q5) \<notin> used_keys ?g"
    using keys assms(3) by (auto simp: call_key_def pub_key_def callers_ok_def)
  obtain w5 r5 rs5 where s5: "rs = Inr r5 # rs5" "run_calls h cfg ?ad [pub_call P 6 (CommitTransaction ?q6)] w5 = (w', rs5)"
    "ww_adapter w5 = ?a" "gp_state (ww_process w5) = record_result h (pb_by P 5) (DecideApproval ?q5) r5 g5"
    "gateway_wf h (gp_state (ww_process w5))"
    "used_keys (gp_state (ww_process w5)) = insert (call_key (pb_by P 5) (DecideApproval ?q5)) (used_keys ?g)"
    by (rule pub_step [OF c assms(2,3) i(1) assms(4) new5 p5])
  have at5: "run_at h P 5 State_AWAITING_RELEASE_APPROVAL (Some (pw_prospective_revision pw)) (gp_state (ww_process w5))"
    using run by (simp add: s5(4) g5_def run_at_def put_lookup)
  obtain run5 where pre5: "require_run_preconditions ?ad (gp_state (ww_process w5)) (pub_fields h P 5) ?a = (?a, Inr run5)"
    and run5: "ar_run_id run5 = pub_run h P" "ar_state run5 = State_AWAITING_RELEASE_APPROVAL"
      "ar_staged_revision run5 = Some (pw_prospective_revision pw)"
    by (rule run_atE [OF at5 pj(1,2), of hook])
  obtain a6 s' where a6: "mem_commit (pb_project P) (pb_revision P) (pw_prospective_revision pw) ?a = (a6, Inr (pw_prospective_revision pw))"
    "map_of (ma_projects a6) (pb_project P) = Some s'" "pj_committed_design s' = d"
    "pj_project_revision s' = pw_prospective_revision pw" "pj_stage s' = None"
    by (rule mem_commit_ok [OF pj])
  have "\<exists>g6 pl rv. commit_transaction h ?ad ?q6 (gp_state (ww_process w5)) ?a = (a6, Inr (g6, pl, rv))"
    using commit_ok [of ?ad "gp_state (ww_process w5)" ?q6 ?a run5 rep rc h a6 "pw_prospective_revision pw"] pre5 run5 rp rep ap run(1) a6(1)
    by (simp add: s5(4) g5_def rc_def put_lookup pub_fields_def pub_subject_def commit_on_adapter_def in_memory_adapter_def) blast
  then obtain g6 pl rv6 where p6: "perform h cfg ?ad (pb_by P 6) (snd (pb_clock P 6)) (gp_state (ww_process w5)) (CommitTransaction ?q6) (ww_adapter w5)
      = (a6, Inr (g6, pl, rv6))" using s5(3) by auto
  have new6: "call_key (pb_by P 6) (CommitTransaction ?q6) \<notin> used_keys (gp_state (ww_process w5))"
    using keys by (auto simp: call_key_def pub_key_def s5(6))
  obtain w6 r6 rs6 where "rs5 = Inr r6 # rs6" "run_calls h cfg ?ad [] w6 = (w', rs6)" "ww_adapter w6 = a6"
    by (rule pub_step [OF s5(2) assms(2,3) i(2) s5(5) new6 p6])
  with s5(1) a6(2-5) show ?thesis by (intro that) auto
qed

section \<open>The whole sequence\<close>

definition fresh_world :: "'a \<Rightarrow> 's \<Rightarrow> ('a, 's) gateway_world" where
  "fresh_world a s0 = \<lparr>ww_adapter = a, ww_store = s0, ww_process = \<lparr>gp_state = empty_gateway, gp_generation = 0\<rparr>\<rparr>"

lemma publication_succeeds:
  assumes "callers_ok P" and pw: "make_preview h a (pb_project P) (pb_revision P) (pb_patch P) = Inr pw"
    and st: "mem_stage_patch h (pb_project P) (pb_revision P) (pb_patch P) (pw_preview_digest pw) a = (a1, Inr st)"
    and rep: "mem_run_verification h hook (pb_project P) (pb_revision P) (pw_prospective_revision pw) a1 = (a1, Inr rep)" "vr_passed rep"
    and c: "run_calls h cfg (in_memory_adapter h hook) (staging_calls h P pw @ release_calls h P pw rep) (fresh_world a s0) = (w', rs)"
    and nd: "distinct_evidence (gp_state (ww_process w'))"
  obtains s d s' where "\<forall>r \<in> set rs. \<exists>x. r = Inr x" "map_of (ma_projects a) (pb_project P) = Some s"
    "apply_patch (pj_committed_design s) (pb_patch P) = Inr d" "map_of (ma_projects (ww_adapter w')) (pb_project P) = Some s'"
    "pj_committed_design s' = d" "pj_project_revision s' = revision_digest h d" "pj_stage s' = None"
proof -
  let ?ad = "in_memory_adapter h hook"
  obtain s d where pj: "map_of (ma_projects a) (pb_project P) = Some s" "pj_project_revision s = pb_revision P"
    and d: "apply_patch (pj_committed_design s) (pb_patch P) = Inr d" and sr: "sr_staged_revision st = pw_prospective_revision pw"
    and sb: "sr_base_revision st = pb_revision P"
    and a1: "a1 = put_state (pb_project P) (s\<lparr>pj_staged_design := Some d, pj_staged_patch := Some (pb_patch P), pj_stage := Some st\<rparr>) a"
    by (rule stage_patch_memory [OF st pw])
  have c0: "run_calls h cfg ?ad (take 2 (staging_calls h P pw) @ drop 2 (staging_calls h P pw) @ release_calls h P pw rep) (fresh_world a s0) = (w', rs)"
    using c by (simp add: staging_calls_def)
  obtain w1 r0 r1 rs1 where s1: "rs = Inr r0 # Inr r1 # rs1"
    "run_calls h cfg ?ad (drop 2 (staging_calls h P pw) @ release_calls h P pw rep) w1 = (w', rs1)"
    "ww_adapter w1 = a" "gateway_wf h (gp_state (ww_process w1))" "proposed h P pw (gp_state (ww_process w1))"
    "used_keys (gp_state (ww_process w1)) \<subseteq> {(a, t, k). t \<in> {Tool_CREATE_AGENT_RUN, Tool_PREVIEW_PATCH}}"
    by (rule proposal_ok [OF c0 nd assms(1)]) (use pj pw in \<open>auto simp: fresh_world_def\<close>)
  obtain w2 r2 r3 rs2 where s2: "rs1 = Inr r2 # Inr r3 # rs2"
    "run_calls h cfg ?ad (release_calls h P pw rep) w2 = (w', rs2)"
    "ww_adapter w2 = a1" "gateway_wf h (gp_state (ww_process w2))"
    "run_at h P 3 State_STAGED (Some (pw_prospective_revision pw)) (gp_state (ww_process w2))"
    "no_rejection (gp_state (ww_process w2))"
    "used_keys (gp_state (ww_process w2)) \<subseteq> {(a, t, k). t \<in> {Tool_CREATE_AGENT_RUN, Tool_PREVIEW_PATCH, Tool_STAGE_DESIGN_PATCH}}
       \<union> {pub_key P 2 Tool_DECIDE_APPROVAL}"
    by (rule staging_ok [OF s1(2) nd assms(1) s1(4-6)]) (use pw st s1(3) in auto)
  have c2: "run_calls h cfg ?ad (take 1 (release_calls h P pw rep) @ drop 1 (release_calls h P pw rep)) w2 = (w', rs2)"
    using s2(2) by simp
  let ?s1 = "s\<lparr>pj_staged_design := Some d, pj_staged_patch := Some (pb_patch P), pj_stage := Some st\<rparr>"
  have pj1: "map_of (ma_projects a1) (pb_project P) = Some ?s1" by (simp add: a1 put_state_lookup)
  have k2: "used_keys (gp_state (ww_process w2)) \<subseteq> {(a, t, k). t \<noteq> Tool_RUN_VERIFICATION}"
    using s2(7) by (auto simp: pub_key_def)
  obtain w3 r4 rs3 where s3: "rs2 = Inr r4 # rs3" "run_calls h cfg ?ad (drop 1 (release_calls h P pw rep)) w3 = (w', rs3)"
    "ww_adapter w3 = a1" "gateway_wf h (gp_state (ww_process w3))"
    "awaiting_release h P pw rep (gp_state (ww_process w3))"
    "used_keys (gp_state (ww_process w3)) = insert (pub_key P 4 Tool_RUN_VERIFICATION) (used_keys (gp_state (ww_process w2)))"
    by (rule verify_call_ok [OF c2 nd assms(1) s2(4-6) k2, of ?s1]) (use pj1 pj(2) rep s2(3) in auto)
  have k3: "used_keys (gp_state (ww_process w3)) \<subseteq> {(a, t, k). t \<noteq> Tool_COMMIT_TRANSACTION \<and> t \<noteq> Tool_DECIDE_APPROVAL}
      \<union> {pub_key P 2 Tool_DECIDE_APPROVAL}"
    unfolding s3(6) using s2(7) by (auto simp: pub_key_def)
  obtain r5 r6 s' where "rs3 = [Inr r5, Inr r6]" "map_of (ma_projects (ww_adapter w')) (pb_project P) = Some s'"
    "pj_committed_design s' = d" "pj_project_revision s' = pw_prospective_revision pw" "pj_stage s' = None"
    by (rule release_ok [OF s3(2) nd assms(1) s3(4,5) k3, of ?s1 st d])
      (use pj1 pj(2) sr sb s3(3) rep(2) report_fields [OF rep(1)] in auto)
  moreover have "pw_prospective_revision pw = revision_digest h d"
    using pw pj d by (auto simp: make_preview_def bind_r_Inr_iff Let_def)
  ultimately show ?thesis using pj(1) d s1(1) s2(1) s3(1) by (intro that) auto
qed

end
