(* ===== verification/Gateway_Samples.thy ===== *)
theory Gateway_Samples
  imports Gateway_Flow
begin

text \<open>
  A concrete publication for the witnesses: one project, one patch that connects a net, seven calls under
  seven keys. The hash is one that can be followed by hand: it reads the field \<open>key\<close> of the
  document that it is given.
\<close>

section \<open>A hash that reads a field\<close>

definition key_hash :: "byte list \<Rightarrow> byte list" where
  "key_hash bs = (case utf8_decode bs of None \<Rightarrow> []
     | Some cs \<Rightarrow> (case json_loads (map char_of cs) of None \<Rightarrow> []
         | Some j \<Rightarrow> (case json_get j ''key'' of Some (JStr k) \<Rightarrow> map of_char k | _ \<Rightarrow> [])))"

lemma key_hash_text: "key_hash (utf8_bytes s) = (case json_loads s of None \<Rightarrow> []
     | Some j \<Rightarrow> (case json_get j ''key'' of Some (JStr k) \<Rightarrow> map of_char k | _ \<Rightarrow> []))"
proof -
  obtain bs where bs: "utf8_encode (code_points s) = Some bs" using utf8_encode_code_points by blast
  have "map char_of (code_points s) = s" by (simp add: code_points_def comp_def)
  then show ?thesis by (simp add: key_hash_def utf8_bytes_def bs utf8_roundtrip [OF bs])
qed

lemma json_get_norm: "distinct (map fst kvs) \<Longrightarrow> json_get (json_norm (JObj kvs)) k = map_option json_norm (map_of kvs k)"
  by (simp add: map_of_sort_key_fst comp_def split_beta map_of_map flip: split_def)

lemma key_digest:
  assumes "distinct_keys (JObj kvs)"
  shows "stable_digest key_hash (JObj kvs)
    = hexdigest (case map_of kvs ''key'' of Some (JStr k) \<Rightarrow> map of_char k | _ \<Rightarrow> [])"
proof -
  have "json_loads (canonical_json (canonical_data (JObj kvs))) = Some (json_norm (JObj kvs))"
    using json_loads_canonical [of "json_norm (JObj kvs)"] assms by (simp only: canonical_data_def unique_keys_norm json_norm_idem)
  then have "stable_digest key_hash (JObj kvs) = hexdigest (case json_get (json_norm (JObj kvs)) ''key'' of
      Some (JStr k) \<Rightarrow> map of_char k | _ \<Rightarrow> [])"
    by (simp add: stable_digest_def sha256_text_def key_hash_text del: json_norm.simps)
  moreover have "json_get (json_norm (JObj kvs)) ''key'' = map_option json_norm (map_of kvs ''key'')"
    using assms by (intro json_get_norm) simp
  ultimately show ?thesis by (auto split: option.splits json.splits)
qed

definition key_name :: "string \<Rightarrow> string" where
  "key_name k = ''evidence_'' @ take 32 (hexdigest (map of_char k))"

lemma evidence_name: "er_evidence_id (make_evidence key_hash iv req at pl rv) = key_name (inv_idempotency_key iv)"
  by (simp add: make_evidence_def Let_def key_digest key_name_def)

definition call_names :: "timed_call list \<Rightarrow> string list" where
  "call_names cs = map (\<lambda>(t0, t1, iv, req). key_name (inv_idempotency_key iv)) cs"

lemma run_calls_names:
  assumes "run_calls key_hash cfg ad cs w = (w', rs)" "gateway_wf key_hash (gp_state (ww_process w))"
    "distinct (call_names cs)"
  shows "\<exists>ns. set ns \<subseteq> set (call_names cs) \<and> distinct ns
    \<and> map er_evidence_id (gs_evidence (gp_state (ww_process w')))
       = map er_evidence_id (gs_evidence (gp_state (ww_process w))) @ ns"
  using assms
proof (induction cs arbitrary: w rs)
  case (Cons c cs)
  obtain t0 t1 iv req where c: "c = (t0, t1, iv, req)" by (cases c)
  let ?n = "key_name (inv_idempotency_key iv)"
  from Cons.prems(1) [unfolded c] show ?case
  proof (rule run_calls_Cons)
    fix w1 r rs' assume i: "invoke key_hash cfg ad t0 t1 iv req w = (w1, r)"
      and rc: "run_calls key_hash cfg ad cs w1 = (w', rs')"
    have d: "distinct (call_names cs)" "?n \<notin> set (call_names cs)" using Cons.prems(3) by (simp_all add: call_names_def c)
    note e = invoke_evidence [OF Cons.prems(2) i]
    from Cons.IH [OF rc conjunct1 [OF e] d(1)] obtain ns where ns: "set ns \<subseteq> set (call_names cs)" "distinct ns"
      "map er_evidence_id (gs_evidence (gp_state (ww_process w')))
         = map er_evidence_id (gs_evidence (gp_state (ww_process w1))) @ ns" by blast
    from conjunct2 [OF e] have "\<exists>m. (m = [] \<or> m = [?n]) \<and> map er_evidence_id (gs_evidence (gp_state (ww_process w1)))
        = map er_evidence_id (gs_evidence (gp_state (ww_process w))) @ m"
      by (elim disjE exE) (simp_all add: evidence_name)
    then obtain m where m: "m = [] \<or> m = [?n]" "map er_evidence_id (gs_evidence (gp_state (ww_process w1)))
        = map er_evidence_id (gs_evidence (gp_state (ww_process w))) @ m" by blast
    have "set (m @ ns) \<subseteq> set (call_names (c # cs))" "distinct (m @ ns)"
      using m(1) ns(1,2) d(2) by (auto simp: call_names_def c)
    then show ?thesis using m(2) ns(3) by (intro exI [of _ "m @ ns"]) simp
  qed
qed simp

lemma run_calls_distinct:
  assumes "run_calls key_hash cfg ad cs (fresh_world a s0) = (w', rs)" "distinct (call_names cs)"
  shows "distinct_evidence (gp_state (ww_process w'))"
proof -
  have "gs_evidence empty_gateway = []" by (simp add: empty_gateway_def)
  with run_calls_names [OF assms(1) _ assms(2)] show ?thesis by (auto simp: fresh_world_def distinct_evidence_def)
qed

section \<open>The publication\<close>

definition sample_operation :: patch_operation where
  "sample_operation = \<lparr>po_operation_id = ''op_1'', po_action = Patch_CONNECT_NET, po_target_id = ''GND'',
     po_parameters = [\<lparr>pp_name = ''pins'', pp_value = JList [JStr ''U1_1'', JStr ''U2_1'']\<rparr>]\<rparr>"

definition sample_patch :: design_patch where
  "sample_patch = \<lparr>dp_patch_id = ''patch_1'', dp_base_revision = ''rev_base'', dp_rationale = ''ground'',
     dp_operations = [sample_operation], dp_evidence_ids = []\<rparr>"

definition sample_project :: project_state where
  "sample_project = \<lparr>pj_project_id = ''board'', pj_committed_design = JObj [], pj_project_revision = ''rev_base'',
     pj_staged_design = None, pj_staged_patch = None, pj_stage = None\<rparr>"

definition sample_memory :: memory_adapter where
  "sample_memory = \<lparr>ma_projects = [(''board'', sample_project)], ma_exports = []\<rparr>"

definition sample_caller :: "nat \<Rightarrow> invocation" where
  "sample_caller i = \<lparr>inv_principal = \<lparr>pr_actor_id = ''alice'', pr_actor_kind = Actor_USER, pr_profile = Profile_RELEASE_MANAGER\<rparr>,
     inv_idempotency_key = [char_of (97 + i)]\<rparr>"

definition sample_publication :: publication where
  "sample_publication = \<lparr>pb_project = ''board'', pb_revision = ''rev_base'', pb_objective = ''ground the board'',
     pb_patch = sample_patch, pb_reason = ''reviewed'', pb_by = sample_caller, pb_clock = (\<lambda>_. (utc 0, utc 0))\<rparr>"

definition sample_config :: gateway_config where
  "sample_config = \<lparr>gc_max_parallel_agents_limit = None, gc_token_budget_limit = None\<rparr>"

definition patched_design :: json where
  "patched_design = JObj
     [(''applied_operations'', JList [json_norm (patch_operation_json sample_operation)]), (''components'', JObj []),
      (''nets'', JObj [(''GND'', JObj [(''pins'', JList [JStr ''U1_1'', JStr ''U2_1''])])])]"

lemma sample_applied: "apply_patch (JObj []) sample_patch = Inr patched_design"
  by code_simp

lemma sample_callers: "callers_ok sample_publication"
proof -
  have "char_of (99 :: nat) \<noteq> (char_of (102 :: nat) :: char)" by code_simp
  then show ?thesis
    by (simp add: callers_ok_def sample_publication_def sample_caller_def gw_now_def in_datetime_range_def datetime_max_def)
qed

lemma sample_names: "distinct (call_names (staging_calls h sample_publication pw @ release_calls h sample_publication pw rep))"
proof -
  have "call_names (staging_calls h sample_publication pw @ release_calls h sample_publication pw rep)
      = map (\<lambda>i. key_name [char_of (97 + i)]) [0 ..< 7]"
    by (simp add: call_names_def staging_calls_def release_calls_def pub_call_def sample_publication_def sample_caller_def
        upt_rec [of _ 7] upt_rec [of 0] upt_rec [of 1])
  moreover have "distinct (map (\<lambda>i. key_name [char_of (97 + i)]) [0 ..< 7 :: nat])" by code_simp
  ultimately show ?thesis by simp
qed

lemma sample_ready:
  obtains pw a1 st rep where
    "make_preview key_hash sample_memory ''board'' ''rev_base'' sample_patch = Inr pw"
    "pw_prospective_revision pw = revision_digest key_hash patched_design"
    "mem_stage_patch key_hash ''board'' ''rev_base'' sample_patch (pw_preview_digest pw) sample_memory = (a1, Inr st)"
    "mem_run_verification key_hash None ''board'' ''rev_base'' (pw_prospective_revision pw) a1 = (a1, Inr rep)" "vr_passed rep"
proof -
  have s: "map_of (ma_projects sample_memory) ''board'' = Some sample_project" "pj_project_revision sample_project = ''rev_base''"
    "pj_committed_design sample_project = JObj []" "pj_stage sample_project = None" "dp_base_revision sample_patch = ''rev_base''"
    by (simp_all add: sample_memory_def sample_project_def sample_patch_def)
  from make_preview_ok [OF s(1), of sample_patch patched_design key_hash] s sample_applied obtain pw where
    pw: "make_preview key_hash sample_memory ''board'' ''rev_base'' sample_patch = Inr pw"
    "pw_prospective_revision pw = revision_digest key_hash patched_design" by auto
  define st where "st = \<lparr>sr_transaction_id = ''txn_'' @ take 32 (stable_digest key_hash (JObj
        [(''project'', JStr ''board''), (''stage'', JStr (pw_prospective_revision pw))])),
      sr_project_id = ''board'', sr_base_revision = ''rev_base'', sr_staged_revision = pw_prospective_revision pw,
      sr_patch_digest = patch_digest key_hash sample_patch, sr_preview_digest = pw_preview_digest pw\<rparr>"
  define a1 where "a1 = put_state ''board'' (sample_project\<lparr>pj_staged_design := Some patched_design,
      pj_staged_patch := Some sample_patch, pj_stage := Some st\<rparr>) sample_memory"
  have t: "mem_stage_patch key_hash ''board'' ''rev_base'' sample_patch (pw_preview_digest pw) sample_memory = (a1, Inr st)"
    using s pw sample_applied
    by (simp add: mem_stage_patch_def find_state_def expect_project_revision_def st_def a1_def)
  have f: "core_findings key_hash sample_patch = Inr []" by code_simp
  have "\<exists>rep. mem_run_verification key_hash None ''board'' ''rev_base'' (pw_prospective_revision pw) a1 = (a1, Inr rep) \<and> vr_passed rep"
    using f s(2)
    by (simp add: mem_run_verification_def find_state_def a1_def put_state_lookup expect_stage_def expect_project_revision_def st_def Let_def
        project_state.defs)
  with that pw t show ?thesis by blast
qed

end
