(* ===== verification/Gateway_Props.thy ===== *)
theory Gateway_Props
  imports Gateway_Samples
begin

text \<open>
  What the gateway guarantees over whole histories: commits rest on recorded human decisions and passing
  reports, the published design moves only by such a commit, a call that raises changes nothing, a
  repeated call returns its recorded result, and a reviewed patch can be published. Also one way in which a staged
  change is stranded.
\<close>

section \<open>Calls and histories\<close>

lemma start_world:
  "\<exists>y. gateway_history h cfg ad store s0 [] y \<and> system_world y 0 = fresh_world a s0"
  using history_start [of h cfg ad store s0 a] by (auto simp: system_world_def fresh_world_def)

lemma step_world:
  assumes "gateway_history h cfg ad None s0 tr y" "invoke h cfg ad t0 t1 iv req (system_world y 0) = (w, r)"
  shows "\<exists>y'. gateway_history h cfg ad None s0 (logged h None (system_world y 0) iv req r @ tr) y' \<and> system_world y' 0 = w"
proof -
  have "system_world \<lparr>gy_adapter = ww_adapter w, gy_store = ww_store w, gy_process = (gy_process y)(0 := ww_process w)\<rparr> 0 = w"
    by (simp add: system_world_def)
  with history_call [OF assms] show ?thesis by blast
qed

lemma history_process_wf:
  "gateway_history h cfg ad None s0 tr y \<Longrightarrow> gateway_wf h (gp_state (gy_process y i))"
  using volatile.history_ok [of h cfg ad s0 tr y] by (simp add: volatile.process_ok_def)

lemma history_justified:
  "gateway_history h cfg ad None s0 tr y \<Longrightarrow> justified ad (set tr) (take_snapshot (gp_state (gy_process y i)))"
  using volatile.history_ok [of h cfg ad s0 tr y] by (simp add: volatile.process_ok_def)

text \<open>A sequence of calls that moves a head has a call that does, in a state with a history.\<close>

lemma run_calls_moves_head:
  assumes "run_calls h cfg ad cs (system_world y 0) = (w', rs)" "gateway_history h cfg ad None s0 tr y"
    "head (ww_adapter w') \<noteq> head (gy_adapter y)"
  shows "\<exists>tr1 y1 t0 t1 iv req w1 r. gateway_history h cfg ad None s0 tr1 y1
    \<and> invoke h cfg ad t0 t1 iv req (system_world y1 0) = (w1, r) \<and> head (ww_adapter w1) \<noteq> head (gy_adapter y1)"
  using assms
proof (induction cs arbitrary: y tr rs)
  case (Cons c cs)
  obtain t0 t1 iv req where c: "c = (t0, t1, iv, req)" by (cases c)
  from Cons.prems(1) [unfolded c] show ?case
  proof (rule run_calls_Cons)
    fix w1 r rs' assume i: "invoke h cfg ad t0 t1 iv req (system_world y 0) = (w1, r)"
      and rc: "run_calls h cfg ad cs w1 = (w', rs')"
    show ?thesis
    proof (cases "head (ww_adapter w1) = head (gy_adapter y)")
      case False
      with Cons.prems(2) i show ?thesis by blast
    next
      case True
      obtain y1 where y1: "gateway_history h cfg ad None s0 (logged h None (system_world y 0) iv req r @ tr) y1"
        "system_world y1 0 = w1" using step_world [OF Cons.prems(2) i] by blast
      have "gy_adapter y1 = ww_adapter w1" using y1(2) by (auto simp: system_world_def)
      with True Cons.prems(3) have "head (ww_adapter w') \<noteq> head (gy_adapter y1)" by simp
      with Cons.IH [OF _ y1(1)] y1(2) rc show ?thesis by simp
    qed
  qed
qed (auto simp: system_world_def)

lemma changing_call_is_logged:
  assumes "gateway_wf h (gp_state (ww_process w))" "invoke h cfg ad t0 t1 iv req w = (w', Inr res)"
    "ww_adapter w' \<noteq> ww_adapter w"
  shows "logged h None w iv req (Inr res) = [(iv, req, res)]"
proof -
  have rf: "refresh_persisted h None (ww_store w, ww_process w) = ((ww_store w, ww_process w), Inr ())"
    by (simp add: refresh_persisted_def)
  show ?thesis
    by (cases rule: invoke_locked_cases [OF assms(2) rf assms(1)]) (use assms(3) rf in \<open>auto simp: logged_def\<close>)
qed

text \<open>The sample publication moves the head of its project.\<close>

lemma sample_flow:
  obtains cs w' rs where "run_calls key_hash sample_config (in_memory_adapter key_hash None) cs (fresh_world sample_memory s0) = (w', rs)"
    "project_head (ww_adapter w') \<noteq> project_head sample_memory" "\<forall>r \<in> set rs. \<exists>x. r = Inr x" "length rs = 7"
proof -
  obtain pw a1 st rep where r: "make_preview key_hash sample_memory ''board'' ''rev_base'' sample_patch = Inr pw"
    "mem_stage_patch key_hash ''board'' ''rev_base'' sample_patch (pw_preview_digest pw) sample_memory = (a1, Inr st)"
    "mem_run_verification key_hash None ''board'' ''rev_base'' (pw_prospective_revision pw) a1 = (a1, Inr rep)" "vr_passed rep"
    by (rule sample_ready)
  let ?cs = "staging_calls key_hash sample_publication pw @ release_calls key_hash sample_publication pw rep"
  obtain w' rs where c: "run_calls key_hash sample_config (in_memory_adapter key_hash None) ?cs (fresh_world sample_memory s0) = (w', rs)"
    by (metis surj_pair)
  have pb: "pb_project sample_publication = ''board''" "pb_revision sample_publication = ''rev_base''"
    "pb_patch sample_publication = sample_patch" by (simp_all add: sample_publication_def)
  obtain s d s' where ok: "\<forall>r \<in> set rs. \<exists>x. r = Inr x" "map_of (ma_projects (ww_adapter w')) ''board'' = Some s'"
    "pj_project_revision s' = revision_digest key_hash d" "apply_patch (pj_committed_design s) sample_patch = Inr d"
    "map_of (ma_projects sample_memory) ''board'' = Some s"
    using publication_succeeds [OF sample_callers, unfolded pb, OF r c run_calls_distinct [OF c sample_names]] by metis
  have "length rs' = length cs" if "run_calls h cfg ad cs w = (w2, rs')" for h cfg ad cs w w2 rs'
    using that by (induction cs arbitrary: w w2 rs') (auto split: prod.splits)
  from this [OF c] have "length rs = 7" by (simp add: staging_calls_def release_calls_def)
  moreover have "distinct_keys patched_design \<and> json_get patched_design ''key'' = None" by code_simp
  then have "stable_digest key_hash patched_design = []"
    by (simp add: patched_design_def key_digest hexdigest_def)
  then have "project_head (ww_adapter w') ''board'' \<noteq> project_head sample_memory ''board''"
    using ok sample_applied by (auto simp: project_head_def sample_memory_def sample_project_def revision_digest_def)
  ultimately show ?thesis using that c ok(1) by metis
qed

section \<open>Commits are reviewed\<close>

lemma volatile_or_journal:
  fixes store :: "journal_event list gateway_store option"
  assumes "store = None \<or> store = Some (journal_store h key sid)" "gateway_history h cfg ad store [] tr y"
    "tr = post @ (iv, CommitTransaction ct, res) # pre"
  shows "commit_reviewed h ad (set pre) ct \<and> pr_profile (inv_principal iv) = Profile_RELEASE_MANAGER"
  using assms(1)
proof
  assume "store = None"
  with assms volatile.history_ok [of h cfg ad "[]" tr y] show ?thesis by blast
next
  assume "store = Some (journal_store h key sid)"
  moreover have "held_snapshots [] = {}" by (simp add: held_snapshots_def)
  ultimately show ?thesis using assms(2,3) journal.history_ok [of h cfg ad h key sid "[]" tr y] by blast
qed

text \<open>What a process works on after the refresh at the start of a call.\<close>

lemma refreshed_process:
  fixes store :: "journal_event list gateway_store option"
  assumes "store = None \<or> store = Some (journal_store h key sid)" "gateway_history h cfg ad store [] tr y"
    "refresh_persisted h store (gy_store y, gy_process y i) = ((s, p), x)"
  shows "gateway_wf h (gp_state p) \<and> justified ad (set tr) (take_snapshot (gp_state p))"
  using assms(1)
proof
  assume "store = None"
  with assms volatile.history_ok [of h cfg ad "[]" tr y] volatile.refresh_ok [of h "gy_store y" "gy_process y i" s p x ad "set tr"]
  show ?thesis by (simp add: volatile.process_ok_def)
next
  assume st: "store = Some (journal_store h key sid)"
  moreover have "held_snapshots [] = {}" by (simp add: held_snapshots_def)
  ultimately show ?thesis
    using assms(2,3) journal.history_ok [of h cfg ad h key sid "[]" tr y]
      journal.refresh_ok [of h h key sid "gy_store y" "gy_process y i" s p x ad "set tr"]
    by (simp add: journal.process_ok_def)
qed

text \<open>
  C4: Every commit is reviewed. In any history of gateway processes that share an adapter and either keep their state
  in memory or share one journal, with calls, restarts and changes of the design behind the adapter in
  any order: when a commit was carried out, the earlier calls of the log contain (a) a verification in which
  the adapter returned a passing report for exactly the base and staged revision of the commit, (b) the
  approval of exactly this release by a user with the release profile, and (c) the staging of this
  revision for this run, itself approved by such a user; and the committing principal has the release
  profile. No assumption on the adapter or the hash is made.
\<close>

theorem gateway_commits_are_reviewed:
  fixes store :: "journal_event list gateway_store option"
  assumes "store = None \<or> store = Some (journal_store h key sid)" "gateway_history h cfg ad store [] tr y"
    "tr = post @ (iv, CommitTransaction ct, res) # pre"
  shows "commit_reviewed h ad (set pre) ct \<and> pr_profile (inv_principal iv) = Profile_RELEASE_MANAGER"
  by (rule volatile_or_journal [OF assms])

text \<open>
  C5: The published design moves only by a reviewed commit. In any history of gateway processes over the in-memory
  adapter that keep their state in memory or share one journal, a call that changes the head revision of any project is
  a commit, moves exactly the named project from the expected to the staged revision, is made with the
  release profile, and is backed by a passing report, an approved release and an approved staging in the log. Without a
  journal it also succeeds; with one it may still raise, when the journal cannot be written.
\<close>

theorem head_moves_by_reviewed_commit:
  fixes store :: "journal_event list gateway_store option"
  assumes "store = None \<or> store = Some (journal_store h key sid)"
    "gateway_history h cfg (in_memory_adapter h hook) store [] tr y"
    "invoke_locked h cfg (in_memory_adapter h hook) store t0 t1 iv req (system_world y i) = (w, r)"
    "project_head (ww_adapter w) \<noteq> project_head (gy_adapter y)"
  shows "\<exists>ct. req = CommitTransaction ct \<and> (store = None \<longrightarrow> (\<exists>res. r = Inr res))
    \<and> project_head (gy_adapter y) (rf_project_id (ct_run ct)) = Some (rf_expected_project_revision (ct_run ct))
    \<and> project_head (ww_adapter w) = (project_head (gy_adapter y))(rf_project_id (ct_run ct) \<mapsto> ct_expected_staged_revision ct)
    \<and> pr_profile (inv_principal iv) = Profile_RELEASE_MANAGER
    \<and> commit_reviewed h (in_memory_adapter h hook) (set tr) ct"
proof -
  let ?w = "system_world y i"
  obtain s p x where rf: "refresh_persisted h store (gy_store y, gy_process y i) = ((s, p), x)" by (metis surj_pair)
  have w: "ww_adapter ?w = gy_adapter y" "ww_store ?w = gy_store y" "ww_process ?w = gy_process y i"
    by (simp_all add: system_world_def)
  note ok = refreshed_process [OF assms(1,2) rf]
  obtain ct g' pl rv where m: "req = CommitTransaction ct" "pr_profile (inv_principal iv) = Profile_RELEASE_MANAGER"
    "project_head (gy_adapter y) (rf_project_id (ct_run ct)) = Some (rf_expected_project_revision (ct_run ct))"
    "project_head (ww_adapter w) = (project_head (gy_adapter y))(rf_project_id (ct_run ct) \<mapsto> ct_expected_staged_revision ct)"
    "commit_transaction h (in_memory_adapter h hook) ct (gp_state p) (gy_adapter y) = (ww_adapter w, Inr (g', pl, rv))"
    using memory.head_moves_by_commit [where w = ?w, unfolded w, OF rf _ assms(3,4)] ok by blast
  have "commit_reviewed h (in_memory_adapter h hook) (set tr) ct" using commit_is_reviewed [OF _ _ m(5)] ok by blast
  moreover have "\<exists>res. r = Inr res" if "store = None"
  proof (cases r)
    case (Inl e)
    have "gateway_wf h (gp_state (ww_process ?w))" using history_process_wf assms(2) that by (simp add: w)
    from memory.failed_call_changes_nothing [OF this assms(3) [unfolded that Inl]] assms(4) w(1) show ?thesis by simp
  qed simp
  ultimately show ?thesis using m by blast
qed

lemma sample_commit:
  "\<exists>tr y t0 t1 iv req w r. gateway_history key_hash sample_config (in_memory_adapter key_hash None) None s0 tr y
    \<and> invoke key_hash sample_config (in_memory_adapter key_hash None) t0 t1 iv req (system_world y 0) = (w, r)
    \<and> project_head (ww_adapter w) \<noteq> project_head (gy_adapter y)"
proof -
  let ?ad = "in_memory_adapter key_hash None"
  obtain y where y: "gateway_history key_hash sample_config ?ad None s0 [] y" "system_world y 0 = fresh_world sample_memory s0"
    using start_world [of key_hash sample_config ?ad None s0 sample_memory] by blast
  obtain cs w' rs where c: "run_calls key_hash sample_config ?ad cs (fresh_world sample_memory s0) = (w', rs)"
    "project_head (ww_adapter w') \<noteq> project_head sample_memory" by (rule sample_flow)
  have "gy_adapter y = sample_memory" using y(2) by (simp add: system_world_def fresh_world_def)
  with c y run_calls_moves_head [of key_hash sample_config ?ad cs y w' rs s0 "[]" project_head] show ?thesis by simp
qed

theorem head_moves_by_reviewed_commit_witness:
  "\<exists>tr y t0 t1 iv req w r ct. gateway_history key_hash sample_config (in_memory_adapter key_hash None)
      (None :: journal_event list gateway_store option) [] tr y
    \<and> invoke key_hash sample_config (in_memory_adapter key_hash None) t0 t1 iv req (system_world y 0) = (w, r)
    \<and> project_head (ww_adapter w) \<noteq> project_head (gy_adapter y) \<and> req = CommitTransaction ct
    \<and> commit_reviewed key_hash (in_memory_adapter key_hash None) (set tr) ct"
proof -
  let ?ad = "in_memory_adapter key_hash None"
  obtain tr y t0 t1 iv req w r where h: "gateway_history key_hash sample_config ?ad (None :: journal_event list gateway_store option) [] tr y"
    and i: "invoke key_hash sample_config ?ad t0 t1 iv req (system_world y 0) = (w, r)"
    and d: "project_head (ww_adapter w) \<noteq> project_head (gy_adapter y)" using sample_commit [of "[]"] by blast
  from head_moves_by_reviewed_commit [OF disjI1 [OF refl] h i d] h i d show ?thesis by blast
qed

theorem gateway_commits_are_reviewed_witness:
  "\<exists>tr y iv ct res pre. gateway_history key_hash sample_config (in_memory_adapter key_hash None)
      (None :: journal_event list gateway_store option) [] tr y \<and> tr = [] @ (iv, CommitTransaction ct, res) # pre
    \<and> commit_reviewed key_hash (in_memory_adapter key_hash None) (set pre) ct
    \<and> pr_profile (inv_principal iv) = Profile_RELEASE_MANAGER"
proof -
  let ?ad = "in_memory_adapter key_hash None"
  obtain tr y t0 t1 iv req w r where h: "gateway_history key_hash sample_config ?ad (None :: journal_event list gateway_store option) [] tr y"
    and i: "invoke key_hash sample_config ?ad t0 t1 iv req (system_world y 0) = (w, r)"
    and d: "project_head (ww_adapter w) \<noteq> project_head (gy_adapter y)" using sample_commit [of "[]"] by blast
  have w: "ww_adapter (system_world y 0) = gy_adapter y" by (simp add: system_world_def)
  have wf: "gateway_wf key_hash (gp_state (ww_process (system_world y 0)))"
    using history_process_wf [OF h] by (simp add: system_world_def)
  have rf: "refresh_persisted key_hash None (ww_store (system_world y 0), ww_process (system_world y 0))
      = ((ww_store (system_world y 0), ww_process (system_world y 0)), Inr ())" by (simp add: refresh_persisted_def)
  have "\<exists>res. r = Inr res"
  proof (cases r)
    case (Inl e)
    from memory.failed_call_changes_nothing [OF wf i [unfolded Inl]] d w show ?thesis by simp
  qed simp
  then obtain ct res where m: "req = CommitTransaction ct" "r = Inr res"
    using memory.head_moves_by_commit [OF rf wf i] d unfolding w by blast
  have "ww_adapter w \<noteq> ww_adapter (system_world y 0)" using d w by auto
  then have "logged key_hash None (system_world y 0) iv req r = [(iv, CommitTransaction ct, res)]"
    using changing_call_is_logged [OF wf, of sample_config ?ad t0 t1 iv req w res] i m by simp
  then obtain y' where y': "gateway_history key_hash sample_config ?ad (None :: journal_event list gateway_store option) []
      ([] @ (iv, CommitTransaction ct, res) # tr) y'" using step_world [OF h i] by auto
  from y' gateway_commits_are_reviewed [OF disjI1 [OF refl] y' refl] show ?thesis by blast
qed

section \<open>A reviewed patch can be published\<close>

text \<open>
  C6: The workflow reaches its end. On a fresh gateway over the in-memory adapter, for any patch on any project
  such that the adapter by itself accepts the preview, the staging and the verification of the patch: the seven calls
  create, preview, approve, stage, verify, approve, commit, by release managers of whom the two that decide
  are users, all succeed, and afterwards the project holds the patched design under the digest of that
  design, with no active stage. The identities of the evidence records, which are truncated hashes, have to differ.
\<close>

theorem gateway_flow_publishes_patch:
  assumes "callers_ok P" "make_preview h a (pb_project P) (pb_revision P) (pb_patch P) = Inr pw"
    and "mem_stage_patch h (pb_project P) (pb_revision P) (pb_patch P) (pw_preview_digest pw) a = (a1, Inr st)"
    and "mem_run_verification h hook (pb_project P) (pb_revision P) (pw_prospective_revision pw) a1 = (a1, Inr rep)" "vr_passed rep"
    and "run_calls h cfg (in_memory_adapter h hook) (staging_calls h P pw @ release_calls h P pw rep) (fresh_world a s0) = (w', rs)"
    and "distinct_evidence (gp_state (ww_process w'))"
  shows "(\<forall>r \<in> set rs. \<exists>res. r = Inr res) \<and> (\<exists>s d s'. map_of (ma_projects a) (pb_project P) = Some s
    \<and> apply_patch (pj_committed_design s) (pb_patch P) = Inr d \<and> map_of (ma_projects (ww_adapter w')) (pb_project P) = Some s'
    \<and> pj_committed_design s' = d \<and> pj_project_revision s' = revision_digest h d \<and> pj_stage s' = None)"
  by (rule publication_succeeds [OF assms]) blast

theorem gateway_flow_publishes_patch_witness:
  "\<exists>pw rep w' rs. run_calls key_hash sample_config (in_memory_adapter key_hash None)
      (staging_calls key_hash sample_publication pw @ release_calls key_hash sample_publication pw rep)
      (fresh_world sample_memory ()) = (w', rs) \<and> (\<forall>r \<in> set rs. \<exists>res. r = Inr res)
    \<and> (\<exists>s'. map_of (ma_projects (ww_adapter w')) ''board'' = Some s' \<and> pj_committed_design s' = patched_design)"
proof -
  obtain pw a1 st rep where r: "make_preview key_hash sample_memory ''board'' ''rev_base'' sample_patch = Inr pw"
    "mem_stage_patch key_hash ''board'' ''rev_base'' sample_patch (pw_preview_digest pw) sample_memory = (a1, Inr st)"
    "mem_run_verification key_hash None ''board'' ''rev_base'' (pw_prospective_revision pw) a1 = (a1, Inr rep)" "vr_passed rep"
    by (rule sample_ready)
  let ?cs = "staging_calls key_hash sample_publication pw @ release_calls key_hash sample_publication pw rep"
  obtain w' rs where c: "run_calls key_hash sample_config (in_memory_adapter key_hash None) ?cs (fresh_world sample_memory ()) = (w', rs)"
    by (metis surj_pair)
  have pb: "pb_project sample_publication = ''board''" "pb_revision sample_publication = ''rev_base''"
    "pb_patch sample_publication = sample_patch" by (simp_all add: sample_publication_def)
  have "pj_committed_design s = JObj []" if "map_of (ma_projects sample_memory) ''board'' = Some s" for s
    using that by (auto simp: sample_memory_def sample_project_def)
  with gateway_flow_publishes_patch [OF sample_callers, unfolded pb, OF r c run_calls_distinct [OF c sample_names]]
  show ?thesis using c sample_applied by (metis Inr_inject)
qed

section \<open>Failed and repeated calls\<close>



lemma invoke_keeps_recorded:
  assumes "gateway_wf h (gp_state (ww_process w))" "invoke h cfg ad t0 t1 iv req w = (w', r)"
    "map_of (gs_idempotency (gp_state (ww_process w))) k = Some v"
  shows "map_of (gs_idempotency (gp_state (ww_process w'))) k = Some v"
proof -
  have rf: "refresh_persisted h None (ww_store w, ww_process w) = ((ww_store w, ww_process w), Inr ())"
    by (simp add: refresh_persisted_def)
  show ?thesis
  proof (cases rule: invoke_locked_cases [OF assms(2) rf assms(1), case_names refused replayed fresh failed])
    case (fresh at res)
    from fresh(4) show ?thesis
    proof (rule attempt_Inr)
      fix g' pl rv n
      assume p: "perform h cfg ad iv t1 (gp_state (ww_process w)) req (ww_adapter w) = (ww_adapter w', Inr (g', pl, rv))"
        and w': "ww_process w' = \<lparr>gp_state = record_result h iv req res g', gp_generation = n\<rparr>"
      show ?thesis using perform_frame [OF p] fresh(2) assms(3) by (auto simp: w' record_result_def update_conv')
    qed
  qed (use assms(3) in simp_all)
qed

lemma run_calls_keep_recorded:
  assumes "run_calls h cfg ad cs w = (w', rs)" "gateway_wf h (gp_state (ww_process w))"
    "map_of (gs_idempotency (gp_state (ww_process w))) k = Some v"
  shows "map_of (gs_idempotency (gp_state (ww_process w'))) k = Some v"
  using assms
proof (induction cs arbitrary: w rs)
  case (Cons c cs)
  obtain t0 t1 iv req where c: "c = (t0, t1, iv, req)" by (cases c)
  from Cons.prems(1) [unfolded c] show ?case
  proof (rule run_calls_Cons)
    fix w1 r rs' assume i: "invoke h cfg ad t0 t1 iv req w = (w1, r)" and rc: "run_calls h cfg ad cs w1 = (w', rs')"
    show ?thesis
      by (rule Cons.IH [OF rc conjunct1 [OF invoke_evidence [OF Cons.prems(2) i]]
            invoke_keeps_recorded [OF Cons.prems(2) i Cons.prems(3)]])
  qed
qed simp

lemma successful_call_is_recorded:
  assumes "gateway_wf h (gp_state (ww_process w))" "invoke h cfg ad t0 t1 iv req w = (w', Inr res)"
  shows "map_of (gs_idempotency (gp_state (ww_process w'))) (call_key iv req) = Some (stable_digest h (request_json req), res)
    \<and> tier_value (required_tier (request_tool req)) \<le> tier_value (maximum_tier (pr_profile (inv_principal iv)))"
proof -
  have rf: "refresh_persisted h None (ww_store w, ww_process w) = ((ww_store w, ww_process w), Inr ())"
    by (simp add: refresh_persisted_def)
  have tier: "tier_value (required_tier (request_tool req)) \<le> tier_value (maximum_tier (pr_profile (inv_principal iv)))"
    using assms(2) by (auto simp: invoke_locked_def rf split: if_splits)
  show ?thesis
  proof (cases rule: invoke_locked_cases [OF assms(2) rf assms(1), case_names refused replayed fresh failed])
    case (fresh at res')
    from fresh(4) have "gs_idempotency (gp_state (ww_process w'))
        = AList.update (call_key iv req) (stable_digest h (request_json req), res') (gs_idempotency (gp_state (ww_process w)))"
      by (rule attempt_Inr) (auto simp: record_result_def dest: perform_frame)
    with fresh(1) tier show ?thesis by (simp add: update_conv')
  qed (use tier in simp_all)
qed

text \<open>
  C24: Calls are idempotent under their key, for good. After a successful call in any history of gateway processes
  without a store, and after any further calls to that process: the same call returns the recorded result again, at any
  clock and without any effect on the adapter or the process, whatever the design has become; a call of the same
  principal to the same tool under the same key with a request of another digest is refused with a conflict,
  also without any effect.
\<close>

theorem repeated_call_returns_recorded_result:
  assumes "gateway_history h cfg ad None s0 tr y"
    "invoke h cfg ad t0 t1 iv req (system_world y i) = (w, Inr res)" "run_calls h cfg ad cs w = (w', rs)"
  shows "invoke h cfg ad t2 t3 iv req w' = (w', Inr res)
    \<and> (call_key iv other = call_key iv req \<and> stable_digest h (request_json other) \<noteq> stable_digest h (request_json req)
      \<longrightarrow> (\<exists>m. invoke h cfg ad t2 t3 iv other w' = (w', Inl (IdempotencyConflict m))))"
proof -
  have wf: "gateway_wf h (gp_state (ww_process (system_world y i)))"
    using history_process_wf [OF assms(1)] by (simp add: system_world_def)
  have rec: "map_of (gs_idempotency (gp_state (ww_process w'))) (call_key iv req) = Some (stable_digest h (request_json req), res)"
    and tier: "tier_value (required_tier (request_tool req)) \<le> tier_value (maximum_tier (pr_profile (inv_principal iv)))"
    using run_calls_keep_recorded [OF assms(3) conjunct1 [OF invoke_evidence [OF wf assms(2)]]]
      successful_call_is_recorded [OF wf assms(2)] by blast+
  have same: "invoke h cfg ad t2 t3 iv req w' = (w', Inr res)"
    using rec tier by (simp add: invoke_locked_def refresh_persisted_def)
  have "\<exists>m. invoke h cfg ad t2 t3 iv other w' = (w', Inl (IdempotencyConflict m))"
    if o: "call_key iv other = call_key iv req" "stable_digest h (request_json other) \<noteq> stable_digest h (request_json req)"
  proof -
    from o(1) have "request_tool other = request_tool req" by (simp add: call_key_def)
    with o rec tier show ?thesis by (simp add: invoke_locked_def refresh_persisted_def)
  qed
  with same show ?thesis by blast
qed

theorem repeated_call_returns_recorded_result_witness:
  "\<exists>y w res. gateway_history (\<lambda>x. x) sample_config (in_memory_adapter (\<lambda>x. x) None) None () [] y
     \<and> invoke (\<lambda>x. x) sample_config (in_memory_adapter (\<lambda>x. x) None) (utc 0) (utc 0) (sample_caller 0)
          (InspectProject ''board'' None) (system_world y 0) = (w, Inr res)
     \<and> invoke (\<lambda>x. x) sample_config (in_memory_adapter (\<lambda>x. x) None) (utc 5) (utc 5) (sample_caller 0)
          (InspectProject ''board'' None) w = (w, Inr res)
     \<and> (\<exists>m. invoke (\<lambda>x. x) sample_config (in_memory_adapter (\<lambda>x. x) None) (utc 5) (utc 5) (sample_caller 0)
          (InspectProject ''other'' None) w = (w, Inl (IdempotencyConflict m)))"
proof -
  let ?h = "\<lambda>x :: byte list. x"
  let ?ad = "in_memory_adapter ?h None" and ?r = "InspectProject ''board'' None" and ?o = "InspectProject ''other'' None"
  obtain y where y: "gateway_history ?h sample_config ?ad None () [] y" "system_world y 0 = fresh_world sample_memory ()"
    using start_world [of ?h sample_config ?ad None "()" sample_memory] by blast
  obtain w r where i: "invoke ?h sample_config ?ad (utc 0) (utc 0) (sample_caller 0) ?r (system_world y 0) = (w, r)"
    by (metis surj_pair)
  have "\<exists>pl rv. perform ?h sample_config ?ad (sample_caller 0) (utc 0) empty_gateway ?r sample_memory
      = (sample_memory, Inr (empty_gateway, pl, rv))"
    by (simp add: inspect_project_def bind_a_def lift_a_def in_memory_adapter_def mem_inspect_project_def find_state_def sample_memory_def)
  then obtain pl rv where p: "perform ?h sample_config ?ad (sample_caller 0) (utc 0) (gp_state (ww_process (system_world y 0))) ?r
      (ww_adapter (system_world y 0)) = (sample_memory, Inr (empty_gateway, pl, rv))"
    by (auto simp: y(2) fresh_world_def)
  obtain res where "r = Inr res"
    by (rule invoke_succeeds [OF _ _ _ _ p i])
      (auto simp: y(2) fresh_world_def sample_caller_def gw_now_def in_datetime_range_def datetime_max_def empty_gateway_wf
        [unfolded empty_gateway_def] empty_gateway_def)
  with i have i: "invoke ?h sample_config ?ad (utc 0) (utc 0) (sample_caller 0) ?r (system_world y 0) = (w, Inr res)" by simp
  have "canonical_json (json_norm (request_json ?o)) \<noteq> canonical_json (json_norm (request_json ?r))" by code_simp
  then have d: "stable_digest ?h (request_json ?o) \<noteq> stable_digest ?h (request_json ?r)"
    unfolding stable_digest_def sha256_text_def hexdigest_inject canonical_data_def utf8_bytes_inject .
  have k: "call_key (sample_caller 0) ?o = call_key (sample_caller 0) ?r" by (simp add: call_key_def)
  from repeated_call_returns_recorded_result [OF y(1) i, of "[]" w "[]"] y(1) i d k show ?thesis by (metis run_calls.simps(1))
qed

section \<open>A late answer strands a staged change\<close>

text \<open>
  C40: Answering an open question of a run puts the run back to clarifying or planning whatever its state was. When the
  project has an active stage at that moment, the run can afterwards neither verify, commit nor roll back that stage, and
  no run can stage anything on the project while the stage is there: each of these calls raises and leaves
  the project as it is. (The rollback test asks for a state that the answer has just overwritten.)
\<close>

theorem late_answer_strands_stage:
  assumes "gateway_wf h g" "gw_answer_question (in_memory_adapter h hook) iv q t g a = (a1, Inr (g', pl, rv))"
    and "map_of (ma_projects a) (rf_project_id (aq_run q)) = Some s" "pj_stage s \<noteq> None"
  shows "(\<forall>b. rf_run_id (rb_run b) = rf_run_id (aq_run q)
      \<longrightarrow> (\<exists>e. rollback_transaction (in_memory_adapter h hook) b g' a1 = (a1, Inl e)))
    \<and> (\<forall>v t'. rf_run_id (rv_run v) = rf_run_id (aq_run q)
      \<longrightarrow> (\<exists>e. gw_run_verification h (in_memory_adapter h hook) v t' g' a1 = (a1, Inl e)))
    \<and> (\<forall>c. rf_run_id (ct_run c) = rf_run_id (aq_run q)
      \<longrightarrow> (\<exists>e. commit_transaction h (in_memory_adapter h hook) c g' a1 = (a1, Inl e)))
    \<and> (\<forall>r p d. \<exists>e. op_stage_patch (in_memory_adapter h hook) (rf_project_id (aq_run q)) r p d a1 = (a1, Inl e))"
proof -
  let ?ad = "in_memory_adapter h hook"
  from assms(2) obtain run q0 now and rem :: "question_record list" where
    pre: "require_run_preconditions ?ad g (aq_run q) a = (a1, Inr run)"
    and g': "g' = put_run (run\<lparr>ar_run_revision := ar_run_revision run + 1,
           ar_state := (if rem \<noteq> [] then State_CLARIFYING else State_PLANNING)\<rparr>)
         (put_question (q0\<lparr>qr_answer := Some (aq_answer q),
           qr_answered_by := Some (pr_actor_id (inv_principal iv)), qr_answered_at := Some now\<rparr>) g)"
    by (rule gw_answer_question_Inr)
  have a1: "a1 = a" using pre memory.preconditions_read by blast
  have "map_of (gs_runs g) (rf_run_id (aq_run q)) = Some run" using require_run_preconditions_Inr [OF pre] by simp
  then have rid: "ar_run_id run = rf_run_id (aq_run q)" using assms(1) by (auto simp: gateway_wf_def dest: indexed_map_of)
  have st: "ar_state r' \<noteq> State_STAGED \<and> ar_state r' \<noteq> State_AWAITING_RELEASE_APPROVAL"
    if "require_run_preconditions ?ad g' f a = (a2, Inr r')" "rf_run_id f = rf_run_id (aq_run q)" for f a2 r'
    using require_run_preconditions_Inr [OF that(1)] that(2) rid by (auto simp: g' put_lookup split: if_splits)
  have fails: "\<exists>e. f a1 = (a1, Inl e)"
    if "\<And>a2 x. f a = (a2, Inr x) \<Longrightarrow> False" "\<And>a2 e. f a = (a2, Inl e) \<Longrightarrow> a2 = a" for f :: "(memory_adapter, 'x) action"
    using that a1 by (cases "f a"; cases "snd (f a)") auto
  have pf: "a2 = a" if "perform h cfg ?ad iv t' g' req0 a = (a2, Inl e)" for req0 a2 e cfg t'
    using memory.perform_failed that by blast
  have "\<exists>e. rollback_transaction ?ad b g' a1 = (a1, Inl e)" if "rf_run_id (rb_run b) = rf_run_id (aq_run q)" for b
    by (rule fails) (use that pf [of _ _ "RollbackTransaction b", simplified] in \<open>auto elim!: rollback_transaction_Inr dest!: st\<close>)
  moreover have "\<exists>e. gw_run_verification h ?ad v t' g' a1 = (a1, Inl e)" if "rf_run_id (rv_run v) = rf_run_id (aq_run q)" for v t'
    by (rule fails) (use that pf [of _ t' "RunVerification v", simplified] in \<open>auto elim!: gw_run_verification_Inr dest!: st\<close>)
  moreover have "\<exists>e. commit_transaction h ?ad c g' a1 = (a1, Inl e)" if "rf_run_id (ct_run c) = rf_run_id (aq_run q)" for c
    by (rule fails) (use that pf [of _ _ "CommitTransaction c", simplified] in \<open>auto elim!: commit_transaction_Inr dest!: st\<close>)
  moreover have "\<exists>e. op_stage_patch ?ad (rf_project_id (aq_run q)) r p d a1 = (a1, Inl e)" for r p d
    using assms(3,4) by (auto simp: a1 in_memory_adapter_def mem_stage_patch_def find_state_def expect_project_revision_def)
  ultimately show ?thesis by blast
qed

definition staged_run :: agent_run where
  "staged_run = \<lparr>ar_run_id = ''run_1'', ar_project_id = ''board'', ar_objective = ''ground'', ar_project_revision = ''rev_base'',
     ar_run_revision = 3, ar_state = State_STAGED, ar_strict_user_coordination = True, ar_max_parallel_agents = None,
     ar_token_budget = None, ar_question_ids = [''question_1''], ar_approval_ids = [], ar_staged_revision = Some ''rev_next'',
     ar_verification_report_digest = None\<rparr>"

definition late_question :: question_record where
  "late_question = \<lparr>qr_question_id = ''question_1'', qr_run_id = ''run_1'', qr_prompt = ''colour?'', qr_rationale = ''silkscreen'',
     qr_blocking = False, qr_options = [], qr_answer = None, qr_answered_by = None, qr_answered_at = None\<rparr>"

definition staged_gateway :: gateway_state where
  "staged_gateway = put_run staged_run (put_question late_question empty_gateway)"

definition staged_memory :: memory_adapter where
  "staged_memory = put_state ''board'' (sample_project\<lparr>pj_stage := Some \<lparr>sr_transaction_id = ''txn_1'', sr_project_id = ''board'',
     sr_base_revision = ''rev_base'', sr_staged_revision = ''rev_next'', sr_patch_digest = [], sr_preview_digest = []\<rparr>\<rparr>) sample_memory"

definition sample_fields :: "int \<Rightarrow> run_fields" where
  "sample_fields n = \<lparr>rf_project_id = ''board'', rf_expected_project_revision = ''rev_base'', rf_run_id = ''run_1'',
     rf_expected_run_revision = n\<rparr>"

definition late_answer :: answer_question_request where
  "late_answer = \<lparr>aq_run = sample_fields 3, aq_question_id = ''question_1'', aq_answer = ''green''\<rparr>"

theorem late_answer_strands_stage_witness:
  "\<exists>a1 g' pl rv e. gw_answer_question (in_memory_adapter key_hash None) (sample_caller 0) late_answer (utc 0) staged_gateway staged_memory
      = (a1, Inr (g', pl, rv))
    \<and> rollback_transaction (in_memory_adapter key_hash None)
        \<lparr>rb_run = sample_fields 4, rb_expected_staged_revision = ''rev_next'', rb_reason = ''undo''\<rparr> g' a1 = (a1, Inl e)"
proof -
  let ?ad = "in_memory_adapter key_hash None"
  have wf: "gateway_wf key_hash staged_gateway"
    unfolding staged_gateway_def
    by (intro wf_put_run wf_put_question) (simp_all add: staged_run_def late_question_def)
  have pre: "require_run_preconditions ?ad staged_gateway (sample_fields 3) staged_memory = (staged_memory, Inr staged_run)"
    by (rule preconditions_ok [of _ _ "the (map_of (ma_projects staged_memory) ''board'')"])
      (simp_all add: staged_memory_def staged_gateway_def sample_fields_def put_lookup put_state_lookup staged_run_def sample_project_def)
  have "\<exists>g' pl rv. gw_answer_question ?ad (sample_caller 0) late_answer (utc 0) staged_gateway staged_memory = (staged_memory, Inr (g', pl, rv))"
    using pre by (simp add: gw_answer_question_def require_human_def sample_caller_def bind_a_def lift_a_def late_answer_def staged_gateway_def
        put_lookup late_question_def staged_run_def gw_now_def in_datetime_range_def datetime_max_def gw_open_blocking_questions_def Let_def)
  then obtain g' pl rv where ans: "gw_answer_question ?ad (sample_caller 0) late_answer (utc 0) staged_gateway staged_memory
      = (staged_memory, Inr (g', pl, rv))" by blast
  have s: "map_of (ma_projects staged_memory) (rf_project_id (aq_run late_answer)) = Some (the (map_of (ma_projects staged_memory) ''board''))"
    "pj_stage (the (map_of (ma_projects staged_memory) ''board'')) \<noteq> None"
    by (simp_all add: staged_memory_def late_answer_def sample_fields_def put_state_lookup)
  let ?b = "\<lparr>rb_run = sample_fields 4, rb_expected_staged_revision = ''rev_next'', rb_reason = ''undo''\<rparr>"
  have "rf_run_id (rb_run ?b) = rf_run_id (aq_run late_answer)" by (simp add: late_answer_def sample_fields_def)
  with late_answer_strands_stage [OF wf ans s] ans show ?thesis by blast
qed

end
