(* ===== verification/Spec2Isabelle.thy ===== *)
theory Spec2Isabelle
  imports Sexpr Coordination_History Scheduler_Replay Geometry_Kernel Engine_Failures Report_Order Kernel_Staging Adapter_Guarantees Gateway_Props
begin

text \<open>
  Verification of the \<^verbatim>\<open>evleda\<close> backend (\<^verbatim>\<open>src/backend\<close>), a system in which
  agents design printed circuit boards under review.

  \<^bold>\<open>The program.\<close> The orchestrator (\<^verbatim>\<open>orchestrator/\<close>) drives a run through phases and product
  stages, asks questions and records approvals, and leases tasks to agents. Agents change a design
  by commands that the design kernel (\<^verbatim>\<open>design_kernel/\<close>) stages in transactions and commits as
  revisions under a capability of the commit authority. A design reaches the
  verification engine (\<^verbatim>\<open>verification/\<close>), which normalizes a board, runs a fixed set of
  electrical, geometric and routing rules on it and decides policy gates; the outcome is hashed
  evidence for the approvals. KiCad files are read and written by an S-expression codec
  (\<^verbatim>\<open>kicad_io/sexpr.py\<close>). Models reach a project only through the gateway
  (\<^verbatim>\<open>mcp_gateway/\<close>), which offers ten tools under three capability tiers and asks users for
  decisions before a patch is staged and before it is committed.

  \<^bold>\<open>Shared theories.\<close> \<open>Prelude\<close>: errors as values of \<open>err\<close>, the result type and its bind, loops that
  may raise, sorted sets; the locale \<open>bounded_codec\<close>. \<open>Utf8\<close>, \<open>Json\<close>, \<open>Sha256\<close>, \<open>Py_Time\<close>: the parts of the standard library the
  code uses (UTF-8, canonical JSON, SHA-256 and HMAC, timestamps). Strings are lists of code points where the
  codec works on text, and strings of characters in the records.

  \<^bold>\<open>S-expressions.\<close> \<open>Sexpr\<close>: the parser with its limits and the canonical and pretty writers; round
  trip, bounds, and two inputs on which the round trip or the limit fails. The parser loop is
  structural on the text.

  \<^bold>\<open>Orchestrator.\<close> \<open>Orch_Models\<close> has every record of \<^verbatim>\<open>models.py\<close> with its
  \<^verbatim>\<open>__post_init__\<close>, budgets, retry policies and digests; \<open>Orch_Models_Props\<close> and \<open>Orch_Digests\<close>
  show that the task graph check is exact, that budgets stay valid, and what equal digests imply (the
  hash is a parameter: a property that needs collision freedom says so by naming the colliding inputs).
  \<open>Orch_State_Machine\<close> is \<^verbatim>\<open>state_machine.py\<close>; \<open>Coordination\<close> and \<open>Coordination_History\<close> make its
  operations steps of a history and prove invariants by rule induction: what completion
  requires, how checkpoints are left, that revisions identify states. \<open>Orch_Scheduler\<close> is
  \<^verbatim>\<open>scheduler.py\<close>; \<open>Scheduler_Assignments\<close>, \<open>Scheduler_Dispatch\<close>, \<open>Scheduler_Leases\<close>,
  \<open>Scheduler_Guarantees\<close> and \<open>Scheduler_Replay\<close> show that dispatches are justified, that snapshots stay valid,
  what a lease token proves, and that results do not depend on input order. \<^verbatim>\<open>uuid4\<close> and the
  secret of the scheduler are parameters.

  \<^bold>\<open>Design rule geometry.\<close> \<open>Geometry\<close> is \<^verbatim>\<open>verification/geometry.py\<close> over integers and
  rationals; \<open>Geometry_Props\<close> relates it to points of segments, \<open>Geometry_Kernel\<close> states the
  \<^verbatim>\<open>GeometryKernel\<close> protocol as a locale, interprets it on the exact kernel and
  proves that intersection tests, distances and outline defects are exact.

  \<^bold>\<open>Verification engine.\<close> \<open>Board_Model\<close> (\<^verbatim>\<open>model.py\<close>, \<^verbatim>\<open>canonical.py\<close>),
  \<open>Rule_Model\<close> (\<^verbatim>\<open>rule.py\<close>), \<open>Electrical_Rules\<close> (\<^verbatim>\<open>electrical.py\<close>), \<open>Copper\<close>,
  \<open>Geometric_Rules\<close> and \<open>Clearance_Rules\<close> (\<^verbatim>\<open>geometric.py\<close>), \<open>Routing\<close>
  (\<^verbatim>\<open>algorithms.py\<close>) and \<open>Verification_Engine\<close> (\<^verbatim>\<open>engine.py\<close>) model the rules and the
  engine, messages and evidence included. \<open>Copper_Shapes\<close> and \<open>Clearance_Props\<close> show that the distances between copper shapes are minima
  over the points of their cores and that the clearance rule is exact. \<open>Disjoint_Set\<close> and
  \<open>Routing_Props\<close> state a partition as a locale, interpret it on the disjoint-set forest and show
  that it computes connectivity; the \<^verbatim>\<open>find\<close> loop has fuel, and as parents never exceed their
  children, the number of primitives is enough. \<open>Engine_Props\<close>, \<open>Engine_Samples\<close>,
  \<open>Engine_Guarantees\<close>, \<open>Board_Certification\<close>, \<open>Report_Order\<close> and \<open>Engine_Failures\<close> show what a report and a
  passed gate certify, that a clean board passes, that presentation does not matter, that the run is
  bound to one implementation, and on which boards the engine raises.

  \<^bold>\<open>Design kernel.\<close> \<open>Design_Graph\<close>, \<open>Design_Validation\<close> and \<open>Design_Commands\<close> are
  \<^verbatim>\<open>design_kernel/model.py\<close> and the commands of \<^verbatim>\<open>engine.py\<close>: entities with their constructors'
  checks and normal forms, the validation of a graph, and one definition for every command kind.
  \<open>Commit_Authority\<close> is \<^verbatim>\<open>commit_authority.py\<close>, with clock readings, secret and random nonce as
  arguments; \<open>Design_Kernel\<close> has transactions, revisions and every operation of
  \<^verbatim>\<open>DesignKernel\<close>. \<open>Graph_Normal\<close> (over \<open>Rotations\<close>) shows that stored graphs are fixed points of the
  normalization; \<open>Kernel_Props\<close> what a successful commit proves; \<open>Authority_Props\<close> that revocation and a clock
  seen moving backwards are final; \<open>Kernel_History\<close> makes the operations of kernel and
  authority steps of a history, and proves by rule induction that every revision replays from its parent and
  was authorized, that the history is linear and that a failed commit changes nothing; \<open>Kernel_Liveness\<close> that an
  approved transaction can be committed; \<open>Kernel_Staging\<close> that a batch is a sequence of single steps
  and that locked objects survive every command. A history assumes that the hash of a new
  revision is not in use, i.e. that no collision of the hash occurs. \<open>Kernel_Samples\<close> carries a design through
  a whole history, with a hash function that separates the payloads that occur.

  \<^bold>\<open>From design to board.\<close> \<open>Design_Adapter\<close> is \<^verbatim>\<open>design_kernel/adapter.py\<close>. \<open>Polygon_Agreement\<close> shows that the
  polygon tests and the ring normal forms of kernel and engine agree; \<open>Adapter_Props\<close> that the board of a
  valid design mirrors it field by field and is accepted by the engine; \<open>Adapter_Guarantees\<close> that the structural rules of
  the engine find nothing on such a board (but a missing outline), what of the design a passed commit gate covers, and where
  the two components disagree on rotated pads. The adapter examines one pad for each pin number.

  \<^bold>\<open>Gateway.\<close> \<open>Json_Parse\<close> is the part of \<^verbatim>\<open>json.loads\<close> that the gateway uses, with fuel twice the length of the text plus two,
  which is enough to read back every canonical text. \<open>Gateway_Models\<close> and \<open>Gateway_Records\<close> are \<^verbatim>\<open>codec.py\<close>,
  \<^verbatim>\<open>models.py\<close> and \<^verbatim>\<open>manifest.py\<close>; \<open>Gateway_Adapter\<close> is \<^verbatim>\<open>adapter.py\<close>: the adapter protocol as
  a record of operations, the in-memory adapter with its rules, and the read-only adapter of
  \<^verbatim>\<open>mcp_server/reference_host.py\<close>. \<open>Gateway\<close> is \<^verbatim>\<open>gateway.py\<close>: one definition per tool, and \<open>invoke_locked\<close> with the
  refresh from the store, the capability test, the replay of repeated calls, the evidence and the restoration after
  a failure. \<open>Gateway_Store\<close> is \<^verbatim>\<open>persistence.py\<close>: the typed readers and the journal with its chain of authentication codes.
  \<open>Gateway_Effects\<close> and \<open>Gateway_Invariant\<close> give the effect of every tool and the well-formedness that all keep;
  \<open>Gateway_History\<close> makes calls, restarts and changes of the environment steps of a history over the locale
  \<open>gateway_storage\<close> and traces receipts, reports and staged revisions to the calls that made them;
  \<open>Gateway_Store_Props\<close> and \<open>Gateway_Journal\<close> show that the journal returns what was saved and is pinned by its last code, and
  interpret the locale on it. \<open>Gateway_Adapters\<close> states what the gateway relies on in an adapter as the locales
  \<open>atomic_adapter\<close> and \<open>revision_adapter\<close> and interprets them on both adapters. \<open>Gateway_Progress\<close> and
  \<open>Gateway_Flow\<close> show that each tool succeeds from the state its predecessor leaves; \<open>Gateway_Props\<close> has the
  properties, with a concrete publication from \<open>Gateway_Samples\<close>. A call of a process is one step of a history: calls of one process are
  serialized by its lock, and an interleaving of two processes inside a call shows only as a refused save.

  \<^bold>\<open>Parameters.\<close> The hash function, \<^verbatim>\<open>uuid4\<close>, secrets, clock readings, the adapter and the verification hook of the gateway, and the reflective identity of live code,
  which the engine reads before, between and after rules, so that it may change during a run.

  \<^bold>\<open>Not modelled.\<close> Tests of dynamic types (carried by the types of the model); the text of most
  exceptions (the kind is kept); reflection on bytecode; the event log, SQLite stores,
  file repositories, external processes and servers; failures of SQLite, integers beyond Python's limit on digits and
  Python's limit on the depth of recursion (in the search for cycles among tasks). The remaining packages
  are left out because most of their code is input and output: the compiler and the worker run
  KiCad, the import packages, the project store and the campaign service read and write files and SQLite tables, the
  agent runtime calls model providers, and the reference design and its evidence are fixed data.
\<close>

end
